(* ===== verification/Prelude.thy ===== *)
theory Prelude
  imports Main "HOL-Library.Word" "HOL-Library.Sublist" "HOL-Library.Char_ord"
    "HOL-Library.List_Lexorder"
begin

text \<open>
  The vocabulary shared by every component of the keycast development: the names of the
  program's scalar types, Rust string operations on byte strings, the SQL statement forms the
  repositories use, results as sums, and the generic lemmas about them.

  Strings are UTF-8 byte strings (\<open>char list\<close>), as in Rust: lengths and slices count bytes.
  A table is the list of its rows in the order the server returns them; no statement of the
  program relies on an order it does not ask for, and every lemma holds for every order.
\<close>

section \<open>Names for the program's scalar types\<close>

type_synonym timestamp = int \<comment> \<open>\<open>DateTime<Utc>\<close>, in microseconds since the epoch\<close>
type_synonym u8 = "8 word"
type_synonym u16 = "16 word"
type_synonym u64 = "64 word"
type_synonym pubkey = string \<comment> \<open>a public key, as its lower-case hex text\<close>
type_synonym bytes = "u8 list"

named_theorems sql_simps \<open>how rows look after an SQL statement\<close>
named_theorems str_simps \<open>characterisations of the Rust string operations\<close>
named_theorems result_splits \<open>case splits for results\<close>

abbreviation days :: "int \<Rightarrow> timestamp" where
  "days n \<equiv> n * 86400000000"

abbreviation hours :: "int \<Rightarrow> timestamp" where
  "hours n \<equiv> n * 3600000000"

section \<open>Results\<close>

text \<open>\<open>Result<T, E>\<close> is \<open>E + T\<close>; \<open>and_then\<close> is the \<open>?\<close> operator followed by the rest.\<close>

definition and_then :: "'e + 'a \<Rightarrow> ('a \<Rightarrow> 'e + 'b) \<Rightarrow> 'e + 'b" where
  "and_then r f = (case r of Inl e \<Rightarrow> Inl e | Inr x \<Rightarrow> f x)"

definition map_err :: "('e \<Rightarrow> 'f) \<Rightarrow> 'e + 'a \<Rightarrow> 'f + 'a" where
  "map_err g r = (case r of Inl e \<Rightarrow> Inl (g e) | Inr x \<Rightarrow> Inr x)"

definition ok_or :: "'e \<Rightarrow> 'a option \<Rightarrow> 'e + 'a" where
  "ok_or e x = (case x of None \<Rightarrow> Inl e | Some y \<Rightarrow> Inr y)"

definition ok :: "'e + 'a \<Rightarrow> 'a option" where
  "ok r = (case r of Inl e \<Rightarrow> None | Inr x \<Rightarrow> Some x)"

lemma and_then_simps [simp]:
  "and_then (Inl e) f = Inl e"
  "and_then (Inr x) f = f x"
  by (simp_all add: and_then_def)

lemma and_then_Inr_iff: "and_then r f = Inr y \<longleftrightarrow> (\<exists>x. r = Inr x \<and> f x = Inr y)"
  by (cases r) auto

lemma map_err_simps [simp]:
  "map_err g (Inl e) = Inl (g e)"
  "map_err g (Inr x) = Inr x"
  by (simp_all add: map_err_def)

lemma map_err_Inr_iff [simp]: "map_err g r = Inr x \<longleftrightarrow> r = Inr x"
  by (cases r) auto

lemma ok_or_simps [simp]:
  "ok_or e None = Inl e"
  "ok_or e (Some x) = Inr x"
  by (simp_all add: ok_or_def)

lemma ok_or_Inr_iff [simp]: "ok_or e x = Inr y \<longleftrightarrow> x = Some y"
  by (cases x) auto

lemma ok_simps [simp]:
  "ok (Inl e) = None"
  "ok (Inr x) = Some x"
  by (simp_all add: ok_def)

lemma ok_Some_iff [simp]: "ok r = Some x \<longleftrightarrow> r = Inr x"
  by (cases r) auto

text \<open>Collecting an iterator of results stops at the first error.\<close>

fun collect_results :: "('e + 'a) list \<Rightarrow> 'e + 'a list" where
  "collect_results [] = Inr []"
| "collect_results (r # rs) =
     (case r of Inl e \<Rightarrow> Inl e
      | Inr x \<Rightarrow> (case collect_results rs of Inl e \<Rightarrow> Inl e | Inr xs \<Rightarrow> Inr (x # xs)))"

lemma collect_results_map_Inr [simp]: "collect_results (map Inr xs) = Inr xs"
  by (induction xs) auto

lemma collect_results_Inr: "collect_results rs = Inr xs \<longleftrightarrow> rs = map Inr xs"
  by (induction rs arbitrary: xs) (auto split: sum.splits)

lemma collect_results_map_err:
  "collect_results (map (\<lambda>p. map_err (f p) (g p)) ps) = Inr cs \<longleftrightarrow> map g ps = map Inr cs"
proof (induction ps arbitrary: cs)
  case (Cons p ps)
  show ?case
  proof (cases "g p")
    case (Inl e)
    then show ?thesis by auto
  next
    case (Inr c)
    then show ?thesis using Cons [of "tl cs"] by (cases cs) (auto split: sum.splits)
  qed
qed auto

text \<open>\<open>filter_map(|r| r.ok())\<close>: keep the successes, drop the failures.\<close>

definition filter_ok :: "('e + 'a) list \<Rightarrow> 'a list" where
  "filter_ok rs = List.map_filter ok rs"

lemma filter_ok_simps [simp]:
  "filter_ok [] = []"
  "filter_ok (Inl e # rs) = filter_ok rs"
  "filter_ok (Inr x # rs) = x # filter_ok rs"
  by (simp_all add: filter_ok_def)

lemma filter_ok_all_ok [simp]: "filter_ok (map Inr xs) = xs"
  by (induction xs) auto

lemma set_filter_ok: "set (filter_ok rs) = {x. Inr x \<in> set rs}"
proof (induction rs)
  case (Cons r rs)
  then show ?case by (cases r) auto
qed simp

text \<open>The errors of \<open>core/src/repositories/error.rs\<close>.\<close>

datatype repository_error =
    NotFound string
  | Duplicate
  | Integrity string
  | Database string

text \<open>PostgreSQL's message for a foreign key violation on insert.\<close>

definition fk_violation :: "string \<Rightarrow> string \<Rightarrow> repository_error" where
  "fk_violation table constraint =
     Integrity (''insert or update on table '' @ [CHR 0x22] @ table @ [CHR 0x22]
       @ '' violates foreign key constraint '' @ [CHR 0x22] @ constraint @ [CHR 0x22])"

text \<open>And for a row that another table still refers to.\<close>

definition fk_still_referenced :: "string \<Rightarrow> string \<Rightarrow> string \<Rightarrow> repository_error" where
  "fk_still_referenced tab constraint referencing =
     Integrity (''update or delete on table '' @ [CHR 0x22] @ tab @ [CHR 0x22]
       @ '' violates foreign key constraint '' @ [CHR 0x22] @ constraint @ [CHR 0x22]
       @ '' on table '' @ [CHR 0x22] @ referencing @ [CHR 0x22])"

text \<open>What \<open>sqlx\<close> reports when a column read as a plain value is NULL.\<close>

definition unexpected_null :: repository_error where
  "unexpected_null =
     Database ''error occurred while decoding column 0: unexpected null; try decoding as an `Option`''"

text \<open>The same for another column, by its position or its quoted name.\<close>

definition null_column :: "string \<Rightarrow> repository_error" where
  "null_column column =
     Database (''error occurred while decoding column '' @ column
       @ '': unexpected null; try decoding as an `Option`'')"

section \<open>Rust string operations\<close>

definition starts_with :: "string \<Rightarrow> string \<Rightarrow> bool" where
  "starts_with s p = prefix p s"

definition ends_with :: "string \<Rightarrow> string \<Rightarrow> bool" where
  "ends_with s p = suffix p s"

fun str_contains :: "string \<Rightarrow> string \<Rightarrow> bool" where
  "str_contains [] pat = (pat = [])"
| "str_contains (c # cs) pat = (prefix pat (c # cs) \<or> str_contains cs pat)"

definition strip_prefix :: "string \<Rightarrow> string \<Rightarrow> string option" where
  "strip_prefix p s = (if prefix p s then Some (drop (length p) s) else None)"

text \<open>\<open>split_once(c)\<close>; \<open>splitn(2, c)\<close> yields the two parts of it, or the whole text alone.\<close>

fun split_once :: "char \<Rightarrow> string \<Rightarrow> (string \<times> string) option" where
  "split_once d [] = None"
| "split_once d (c # cs) =
     (if c = d then Some ([], cs)
      else map_option (\<lambda>(a, b). (c # a, b)) (split_once d cs))"

definition splitn2 :: "char \<Rightarrow> string \<Rightarrow> string list" where
  "splitn2 d s = (case split_once d s of None \<Rightarrow> [s] | Some (a, b) \<Rightarrow> [a, b])"

text \<open>The slice \<open>&s[a..b]\<close>: \<open>None\<close> is the panic of an invalid range.\<close>

definition str_slice :: "string \<Rightarrow> nat \<Rightarrow> nat \<Rightarrow> string option" where
  "str_slice s a b = (if a \<le> b \<and> b \<le> length s then Some (take (b - a) (drop a s)) else None)"

definition ascii_whitespace :: "char \<Rightarrow> bool" where
  "ascii_whitespace c \<longleftrightarrow> c \<in> set [CHR '' '', CHR 0x09, CHR 0x0A, CHR 0x0B, CHR 0x0C, CHR 0x0D]"

fun split_on :: "char \<Rightarrow> string \<Rightarrow> string list" where
  "split_on c [] = [[]]"
| "split_on c (x # xs) =
     (if x = c then [] # split_on c xs
      else (case split_on c xs of [] \<Rightarrow> [[x]] | w # ws \<Rightarrow> (x # w) # ws))"

definition str_trim :: "string \<Rightarrow> string" where
  "str_trim s = rev (dropWhile ascii_whitespace (rev (dropWhile ascii_whitespace s)))"

text \<open>\<open>trim_end_matches('/')\<close>.\<close>

definition trim_end_slashes :: "string \<Rightarrow> string" where
  "trim_end_slashes s = rev (dropWhile (\<lambda>c. c = CHR ''/'') (rev s))"

text \<open>Decimal text, as \<open>to_string\<close> prints it.\<close>

fun show_nat :: "nat \<Rightarrow> string" where
  "show_nat n =
     (if n < 10 then [char_of (48 + n)] else show_nat (n div 10) @ [char_of (48 + n mod 10)])"

declare show_nat.simps [simp del]

definition show_int :: "int \<Rightarrow> string" where
  "show_int i = (if i < 0 then CHR ''-'' # show_nat (nat (- i)) else show_nat (nat i))"

lemma starts_with_append [str_simps]: "starts_with s p \<longleftrightarrow> (\<exists>t. s = p @ t)"
  by (simp add: starts_with_def prefix_def)

lemma ends_with_append [str_simps]: "ends_with s p \<longleftrightarrow> (\<exists>t. s = t @ p)"
  by (simp add: ends_with_def suffix_def)

lemma str_contains_iff: "str_contains s pat \<longleftrightarrow> (\<exists>a b. s = a @ pat @ b)"
proof (induction s)
  case Nil
  then show ?case by auto
next
  case (Cons c cs)
  show ?case
  proof
    assume "str_contains (c # cs) pat"
    then consider "prefix pat (c # cs)" | "str_contains cs pat" by auto
    then show "\<exists>a b. c # cs = a @ pat @ b"
    proof cases
      case 1
      then show ?thesis by (metis append_Nil prefix_def)
    next
      case 2
      then show ?thesis using Cons.IH by (metis append_Cons)
    qed
  next
    assume "\<exists>a b. c # cs = a @ pat @ b"
    then obtain a b where ab: "c # cs = a @ pat @ b" by blast
    show "str_contains (c # cs) pat"
    proof (cases a)
      case Nil
      then have "prefix pat (c # cs)" using ab by (simp add: prefix_def)
      then show ?thesis by simp
    next
      case (Cons x xs)
      then have "cs = xs @ pat @ b" using ab by simp
      then show ?thesis using \<open>str_contains cs pat = (\<exists>a b. cs = a @ pat @ b)\<close> by auto
    qed
  qed
qed

lemma strip_prefix_Some [simp]: "strip_prefix p s = Some t \<longleftrightarrow> s = p @ t"
  by (auto simp: strip_prefix_def prefix_def)

lemma strip_prefix_None: "strip_prefix p s = None \<longleftrightarrow> (\<forall>t. s \<noteq> p @ t)"
  by (auto simp: strip_prefix_def prefix_def)

lemma split_on_not_Nil: "split_on c s \<noteq> []"
  by (induction s) (auto split: list.splits)

lemma split_once_None: "split_once d s = None \<longleftrightarrow> d \<notin> set s"
  by (induction s) auto

lemma split_once_Some: "split_once d s = Some (a, b) \<longleftrightarrow> s = a @ d # b \<and> d \<notin> set a"
proof (induction s arbitrary: a)
  case (Cons c cs)
  then show ?case by (cases a) auto
qed simp

lemma splitn2_wild: "d \<in> set s \<Longrightarrow> \<exists>a b. splitn2 d s = [a, b] \<and> s = a @ d # b \<and> d \<notin> set a"
  using split_once_None [of d s]
  by (cases "split_once d s") (auto simp: splitn2_def split_once_Some)

section \<open>SQL statement forms\<close>

text \<open>
  \<open>SELECT ... WHERE P\<close> with \<open>fetch_optional\<close> is the first matching row, with \<open>fetch_all\<close> all of
  them; \<open>UPDATE ... SET f WHERE P\<close> rewrites the matching rows and its \<open>RETURNING\<close> clause yields
  them; \<open>DELETE ... WHERE P\<close> keeps the others. A comparison with \<open>NULL\<close> is not true, so a
  nullable column equals a bound value only as \<open>Some\<close> of it.
\<close>

definition is_set :: "'a option \<Rightarrow> bool" where
  "is_set x = (case x of None \<Rightarrow> False | Some _ \<Rightarrow> True)" \<comment> \<open>\<open>IS NOT NULL\<close>\<close>

lemma is_set_simps [simp]: "is_set None = False" "is_set (Some x) = True"
  by (simp_all add: is_set_def)

lemma is_set_iff: "is_set x \<longleftrightarrow> x \<noteq> None"
  by (cases x) simp_all

definition fetch_optional :: "('r \<Rightarrow> bool) \<Rightarrow> 'r list \<Rightarrow> 'r option" where
  "fetch_optional P t = List.find P t"

text \<open>\<open>fetch_one\<close> fails with \<open>RowNotFound\<close> where there is no row.\<close>

definition fetch_one :: "('r \<Rightarrow> bool) \<Rightarrow> 'r list \<Rightarrow> repository_error + 'r" where
  "fetch_one P t = ok_or (NotFound ''record not found'') (fetch_optional P t)"

definition fetch_all :: "('r \<Rightarrow> bool) \<Rightarrow> 'r list \<Rightarrow> 'r list" where
  "fetch_all P t = filter P t"

definition exists_row :: "('r \<Rightarrow> bool) \<Rightarrow> 'r list \<Rightarrow> bool" where
  "exists_row P t = list_ex P t"

definition update_where :: "('r \<Rightarrow> bool) \<Rightarrow> ('r \<Rightarrow> 'r) \<Rightarrow> 'r list \<Rightarrow> 'r list" where
  "update_where P f t = map (\<lambda>r. if P r then f r else r) t"

definition returning :: "('r \<Rightarrow> bool) \<Rightarrow> ('r \<Rightarrow> 'r) \<Rightarrow> 'r list \<Rightarrow> 'r list" where
  "returning P f t = map f (filter P t)"

definition rows_affected :: "('r \<Rightarrow> bool) \<Rightarrow> 'r list \<Rightarrow> nat" where
  "rows_affected P t = length (filter P t)"

definition delete_where :: "('r \<Rightarrow> bool) \<Rightarrow> 'r list \<Rightarrow> 'r list" where
  "delete_where P t = filter (\<lambda>r. \<not> P r) t"

lemma fetch_optional_Some: "fetch_optional P t = Some r \<Longrightarrow> r \<in> set t \<and> P r"
  unfolding fetch_optional_def by (metis find_Some_iff nth_mem)

lemma fetch_optional_None [sql_simps]: "fetch_optional P t = None \<longleftrightarrow> (\<forall>r\<in>set t. \<not> P r)"
  by (auto simp: fetch_optional_def find_None_iff)

lemma fetch_optional_ex: "r \<in> set t \<Longrightarrow> P r \<Longrightarrow> \<exists>q. fetch_optional P t = Some q"
  using fetch_optional_None [of P t] by (cases "fetch_optional P t") auto

lemma fetch_optional_append:
  "fetch_optional P (xs @ ys)
     = (case fetch_optional P xs of None \<Rightarrow> fetch_optional P ys | Some r \<Rightarrow> Some r)"
  by (induction xs) (auto simp: fetch_optional_def)

lemma fetch_optional_Cons:
  "fetch_optional P (r # t) = (if P r then Some r else fetch_optional P t)"
  by (simp add: fetch_optional_def)

lemma fetch_optional_last: "\<forall>r\<in>set rs. \<not> P r \<Longrightarrow> P x \<Longrightarrow> fetch_optional P (rs @ [x]) = Some x"
  by (induction rs) (auto simp: fetch_optional_Cons)

lemma update_where_last: "\<forall>r\<in>set rs. \<not> P r \<Longrightarrow> P x \<Longrightarrow> update_where P f (rs @ [x]) = rs @ [f x]"
  by (auto simp: update_where_def intro: map_idI)

lemma fetch_optional_Nil [simp]: "fetch_optional P [] = None"
  by (simp add: fetch_optional_def)

lemma fetch_one_Inr: "fetch_one P t = Inr r \<Longrightarrow> r \<in> set t \<and> P r"
  by (auto simp: fetch_one_def dest: fetch_optional_Some)

lemma exists_row_iff [sql_simps]: "exists_row P t \<longleftrightarrow> (\<exists>r\<in>set t. P r)"
  by (simp add: exists_row_def list_ex_iff)

lemma set_fetch_all [sql_simps]: "set (fetch_all P t) = {r \<in> set t. P r}"
  by (simp add: fetch_all_def)

lemma set_update_where [sql_simps]:
  "set (update_where P f t) = f ` {r \<in> set t. P r} \<union> {r \<in> set t. \<not> P r}"
  by (auto simp: update_where_def)

lemma update_where_hit: "r \<in> set t \<Longrightarrow> P r \<Longrightarrow> f r \<in> set (update_where P f t)"
  by (force simp: update_where_def)

lemma update_where_miss: "r \<in> set t \<Longrightarrow> \<not> P r \<Longrightarrow> r \<in> set (update_where P f t)"
  by (force simp: update_where_def)

lemma fetch_optional_update_where:
  "(\<And>r. P (f r) = P r) \<Longrightarrow>
     fetch_optional P (update_where Q f t) = map_option (\<lambda>r. if Q r then f r else r) (fetch_optional P t)"
  by (induction t) (auto simp: update_where_def fetch_optional_Cons)

lemma ball_update_where:
  "(\<forall>r\<in>set (update_where P f t). Q r) \<longleftrightarrow> (\<forall>r\<in>set t. if P r then Q (f r) else Q r)"
  by (auto simp: update_where_def)

lemma set_delete_where [sql_simps]: "set (delete_where P t) = {r \<in> set t. \<not> P r}"
  by (simp add: delete_where_def)

lemma distinct_map_delete_where:
  "distinct (map g t) \<Longrightarrow> distinct (map g (delete_where P t))"
  by (simp add: delete_where_def distinct_map_filter)

lemma length_update_where [simp]: "length (update_where P f t) = length t"
  by (simp add: update_where_def)

lemma update_where_none: "\<forall>r\<in>set t. \<not> P r \<Longrightarrow> update_where P f t = t"
  by (induction t) (auto simp: update_where_def)

lemma map_update_where:
  "(\<And>r. g (f r) = g r) \<Longrightarrow> map g (update_where P f t) = map g t"
  by (induction t) (auto simp: update_where_def)

text \<open>A lookup by a unique key.\<close>

lemma fetch_optional_unique:
  assumes "distinct (map key t)"
  shows "fetch_optional (\<lambda>r. key r = k) t = Some r \<longleftrightarrow> r \<in> set t \<and> key r = k"
proof
  assume "fetch_optional (\<lambda>r. key r = k) t = Some r"
  then show "r \<in> set t \<and> key r = k" by (rule fetch_optional_Some)
next
  assume r: "r \<in> set t \<and> key r = k"
  then obtain q where q: "fetch_optional (\<lambda>r. key r = k) t = Some q"
    using fetch_optional_ex [of r t "\<lambda>r. key r = k"] by auto
  then have "q \<in> set t \<and> key q = k" by (rule fetch_optional_Some)
  with r assms have "q = r" by (auto simp: distinct_map dest: inj_onD)
  with q show "fetch_optional (\<lambda>r. key r = k) t = Some r" by simp
qed

lemma rows_affected_pos [sql_simps]: "0 < rows_affected P t \<longleftrightarrow> (\<exists>r\<in>set t. P r)"
  by (auto simp: rows_affected_def filter_empty_conv)

end
