(* ===== verification/RedirectUri.thy ===== *)
theory RedirectUri
  imports Prelude
begin

text \<open>
  Registered OAuth clients and their redirect URI patterns,
  \<open>core/src/repositories/registered_client.rs\<close>. A string slice out of range panics in Rust, so
  the matcher returns an option and \<open>None\<close> is the panic.
\<close>

section \<open>Matching a pattern\<close>

definition matches_redirect_pattern :: "string \<Rightarrow> string \<Rightarrow> bool option" where
  "matches_redirect_pattern pattern uri =
     (if pattern = uri then Some True
      else if CHR ''*'' \<notin> set pattern then Some False
      else (case splitn2 (CHR ''*'') pattern of
              [prefix_part, suffix_part] \<Rightarrow>
                (if \<not> starts_with uri prefix_part \<or> \<not> ends_with uri suffix_part then Some False
                 else if length uri < length suffix_part then None
                 else (case str_slice uri (length prefix_part) (length uri - length suffix_part) of
                         None \<Rightarrow> None
                       | Some segment \<Rightarrow> Some (CHR ''/'' \<notin> set segment)))
            | _ \<Rightarrow> Some False))"

section \<open>The repository\<close>

record registered_client =
  rc_tenant_id :: int
  rc_client_id :: string
  rc_allowed_redirect_uris :: "string list"

definition get_allowed_redirect_uris ::
    "registered_client list \<Rightarrow> string \<Rightarrow> int \<Rightarrow> string list option" where
  "get_allowed_redirect_uris clients client_id tenant_id =
     map_option rc_allowed_redirect_uris
       (fetch_optional (\<lambda>c. rc_client_id c = client_id \<and> rc_tenant_id c = tenant_id) clients)"

text \<open>The loop over the patterns returns at the first match; a panic in the matcher ends it.\<close>

fun match_any :: "string list \<Rightarrow> string \<Rightarrow> bool option" where
  "match_any [] uri = Some False"
| "match_any (p # ps) uri =
     (case matches_redirect_pattern p uri of
        None \<Rightarrow> None
      | Some True \<Rightarrow> Some True
      | Some False \<Rightarrow> match_any ps uri)"

definition validate_redirect_uri ::
    "registered_client list \<Rightarrow> string \<Rightarrow> string \<Rightarrow> int \<Rightarrow> (repository_error + unit) option" where
  "validate_redirect_uri clients client_id redirect_uri tenant_id =
     (case get_allowed_redirect_uris clients client_id tenant_id of
        None \<Rightarrow> Some (Inr ())
      | Some patterns \<Rightarrow>
          (if patterns = [] then
             Some (Inl (NotFound (''Client '' @ [CHR 0x27] @ client_id @ [CHR 0x27]
                                  @ '' has no allowed redirect URIs'')))
           else (case match_any patterns redirect_uri of
                   None \<Rightarrow> None
                 | Some True \<Rightarrow> Some (Inr ())
                 | Some False \<Rightarrow>
                     Some (Inl (NotFound (''redirect_uri '' @ [CHR 0x27] @ redirect_uri @ [CHR 0x27]
                       @ '' is not allowed for client '' @ [CHR 0x27] @ client_id @ [CHR 0x27]))))))"

section \<open>Lemmas\<close>

lemma split_once_wild:
  "CHR ''*'' \<notin> set pre \<Longrightarrow> split_once (CHR ''*'') (pre @ CHR ''*'' # suf) = Some (pre, suf)"
  by (simp add: split_once_Some)

text \<open>On a wildcard pattern the matcher accepts exactly prefix, slash-free segment, suffix.\<close>

lemma matches_wild:
  assumes "CHR ''*'' \<notin> set pre" and "pre @ CHR ''*'' # suf \<noteq> uri"
  shows "matches_redirect_pattern (pre @ CHR ''*'' # suf) uri = Some True
         \<longleftrightarrow> (\<exists>seg. uri = pre @ seg @ suf \<and> CHR ''/'' \<notin> set seg)"
proof -
  let ?m = "matches_redirect_pattern (pre @ CHR ''*'' # suf) uri"
  have m: "?m = (if \<not> starts_with uri pre \<or> \<not> ends_with uri suf then Some False
                 else if length uri < length suf then None
                 else (case str_slice uri (length pre) (length uri - length suf) of
                         None \<Rightarrow> None | Some segment \<Rightarrow> Some (CHR ''/'' \<notin> set segment)))"
    using assms by (simp add: matches_redirect_pattern_def splitn2_def split_once_wild)
  show ?thesis
  proof
    assume l: "?m = Some True"
    then obtain seg where s: "starts_with uri pre" "ends_with uri suf"
      "str_slice uri (length pre) (length uri - length suf) = Some seg" "CHR ''/'' \<notin> set seg"
      unfolding m by (auto split: if_splits option.splits)
    obtain t where t: "uri = pre @ t" using s(1) by (auto simp: str_simps)
    from s(3) have len: "length pre \<le> length uri - length suf" and
      seg: "seg = take (length uri - length suf - length pre) (drop (length pre) uri)"
      by (auto simp: str_slice_def split: if_splits)
    obtain u where u: "uri = u @ suf" using s(2) by (auto simp: str_simps)
    have "length pre \<le> length u" using len u by simp
    then have "u = pre @ seg" using t u seg by (auto simp: append_eq_append_conv2)
    then show "\<exists>seg. uri = pre @ seg @ suf \<and> CHR ''/'' \<notin> set seg" using u s(4) by auto
  next
    assume "\<exists>seg. uri = pre @ seg @ suf \<and> CHR ''/'' \<notin> set seg"
    then obtain seg where seg: "uri = pre @ seg @ suf" "CHR ''/'' \<notin> set seg" by blast
    then have "starts_with uri pre" "ends_with uri suf"
      by (auto simp: starts_with_append ends_with_append)
    moreover have "str_slice uri (length pre) (length uri - length suf) = Some seg"
      using seg(1) by (simp add: str_slice_def)
    ultimately show "?m = Some True" unfolding m using seg by simp
  qed
qed

lemma match_any_True:
  "match_any ps uri = Some True \<Longrightarrow> \<exists>p\<in>set ps. matches_redirect_pattern p uri = Some True"
  by (induction ps) (auto split: option.splits bool.splits)

text \<open>The matcher panics exactly when the fixed parts of the pattern overlap in the URI.\<close>

lemma matches_panics:
  assumes "CHR ''*'' \<notin> set pre" and "pre @ CHR ''*'' # suf \<noteq> uri"
  shows "matches_redirect_pattern (pre @ CHR ''*'' # suf) uri = None
         \<longleftrightarrow> starts_with uri pre \<and> ends_with uri suf \<and> length uri < length pre + length suf"
proof -
  have "ends_with uri suf \<Longrightarrow> length suf \<le> length uri"
    by (auto simp: ends_with_append)
  then show ?thesis
    using assms
    by (auto simp: matches_redirect_pattern_def splitn2_def split_once_wild str_slice_def
             split: if_splits)
qed

section \<open>Properties\<close>

text \<open>
  A redirect URI accepted for a registered client equals one of the client's patterns, or
  is a pattern's text with its first star replaced by a segment without a slash.
\<close>

theorem validate_redirect_uri_sound:
  assumes "get_allowed_redirect_uris clients client_id tenant_id = Some patterns"
    and "validate_redirect_uri clients client_id uri tenant_id = Some (Inr ())"
  shows "uri \<in> set patterns
         \<or> (\<exists>pre suf seg. pre @ CHR ''*'' # suf \<in> set patterns \<and> CHR ''*'' \<notin> set pre
              \<and> uri = pre @ seg @ suf \<and> CHR ''/'' \<notin> set seg)"
proof -
  from assms have "match_any patterns uri = Some True"
    by (auto simp: validate_redirect_uri_def split: if_splits option.splits bool.splits)
  then obtain p where p: "p \<in> set patterns" "matches_redirect_pattern p uri = Some True"
    using match_any_True by blast
  show ?thesis
  proof (cases "p = uri")
    case True
    then show ?thesis using p by blast
  next
    case False
    then have "CHR ''*'' \<in> set p"
      using p(2) by (auto simp: matches_redirect_pattern_def split: if_splits)
    then obtain pre suf where ps: "p = pre @ CHR ''*'' # suf" "CHR ''*'' \<notin> set pre"
      by (meson split_list_first)
    then show ?thesis
      using p matches_wild [of pre suf uri] False by blast
  qed
qed

theorem validate_redirect_uri_sound_witness:
  "let cs = [\<lparr>rc_tenant_id = 1, rc_client_id = ''app'',
              rc_allowed_redirect_uris = [''https://*.pages.dev/cb'']\<rparr>];
       uri = ''https://pr1.pages.dev/cb''
   in get_allowed_redirect_uris cs ''app'' 1 = Some [''https://*.pages.dev/cb'']
      \<and> validate_redirect_uri cs ''app'' uri 1 = Some (Inr ())
      \<and> (uri \<in> set [''https://*.pages.dev/cb'']
         \<or> (\<exists>pre suf seg. pre @ CHR ''*'' # suf \<in> set [''https://*.pages.dev/cb'']
              \<and> CHR ''*'' \<notin> set pre \<and> uri = pre @ seg @ suf \<and> CHR ''/'' \<notin> set seg))"
proof -
  let ?cs = "[\<lparr>rc_tenant_id = 1, rc_client_id = ''app'',
              rc_allowed_redirect_uris = [''https://*.pages.dev/cb'']\<rparr>]"
  have a: "get_allowed_redirect_uris ?cs ''app'' 1 = Some [''https://*.pages.dev/cb'']"
    by (simp add: get_allowed_redirect_uris_def fetch_optional_def)
  have b: "validate_redirect_uri ?cs ''app'' ''https://pr1.pages.dev/cb'' 1 = Some (Inr ())"
    by (simp add: validate_redirect_uri_def a) code_simp
  show ?thesis
    unfolding Let_def using a b validate_redirect_uri_sound [OF a b] by blast
qed

text \<open>
  A wildcard pattern makes the check panic on a URI in which the text before and the text
  after the star overlap: the slice of the matched segment has its start after its end.
\<close>

theorem redirect_match_panics_on_overlap:
  "matches_redirect_pattern ''https://*/callback'' ''https://callback'' = None
   \<and> (\<forall>pre suf uri. CHR ''*'' \<notin> set pre \<and> pre @ CHR ''*'' # suf \<noteq> uri \<longrightarrow>
        (matches_redirect_pattern (pre @ CHR ''*'' # suf) uri = None
         \<longleftrightarrow> starts_with uri pre \<and> ends_with uri suf \<and> length uri < length pre + length suf))"
proof -
  have "matches_redirect_pattern ''https://*/callback'' ''https://callback'' = None"
    by code_simp
  then show ?thesis using matches_panics by blast
qed

text \<open>The panic theorem at a concrete pattern and URI.\<close>

theorem redirect_match_panics_on_overlap_witness:
  "starts_with ''https://callback'' ''https://'' \<and> ends_with ''https://callback'' ''/callback''
   \<and> matches_redirect_pattern (''https://'' @ CHR ''*'' # ''/callback'') ''https://callback'' = None"
proof -
  have s: "starts_with ''https://callback'' ''https://''" and
    e: "ends_with ''https://callback'' ''/callback''"
    by code_simp+
  have "matches_redirect_pattern (''https://'' @ CHR ''*'' # ''/callback'') ''https://callback'' = None"
    using redirect_match_panics_on_overlap s e by (metis append_Cons append_Nil)
  then show ?thesis using s e by blast
qed

text \<open>
  The segment a star matches may hold a user-info or a fragment delimiter, so a pattern
  written for any port of localhost, or for the subdomains of one domain, accepts URIs whose host
  is another one.
\<close>

theorem redirect_wildcard_admits_other_host:
  "matches_redirect_pattern ''http://localhost:*/callback'' ''http://localhost:x@evil.com/callback''
     = Some True
   \<and> matches_redirect_pattern ''https://*.pages.dev/callback'' ''https://evil.com#.pages.dev/callback''
     = Some True"
  by code_simp

end
