(* ===== verification/Permissions.thy ===== *)
theory Permissions
  imports Prelude
begin

text \<open>
  The permission system of \<open>core/src/custom_permissions\<close>, \<open>core/src/traits.rs\<close> and
  \<open>core/src/types/permission.rs\<close>: the six implementations of the \<open>CustomPermission\<close> trait,
  loading one from its database row, and its display text. A trait object is a value of the
  datatype \<open>custom_permission\<close>; each trait method is one function by cases on it.

  Deserialisation by serde, parsing of events and hex keys by nostr-sdk, and the public keys of
  a tag list are parameters (\<open>perm_ext\<close>). At the end, the contract of evaluating a stack of
  permissions is the locale \<open>restriction_stack\<close>; the two transports interpret it.
\<close>

section \<open>Data\<close>

text \<open>\<open>nostr_sdk::UnsignedEvent\<close>: what a client asks to have signed.\<close>

record unsigned_event =
  ue_pubkey :: pubkey
  ue_created_at :: u64
  ue_kind :: u16
  ue_tags :: "string list list"
  ue_content :: string

datatype permission_error =
    PermissionDatabase string
  | UnknownPermission string
  | InvalidConfig string

text \<open>A row of the \<open>permissions\<close> table; \<open>'j\<close> is \<open>serde_json::Value\<close>.\<close>

record 'j permission =
  perm_id :: int
  perm_identifier :: string
  perm_config :: 'j
  perm_created_at :: timestamp
  perm_updated_at :: timestamp

record permission_display =
  pd_icon :: string
  pd_title :: string
  pd_description :: string

datatype custom_permission =
    AllowedKinds "u16 list option"
  | CommerceEnvelope pubkey
  | ContentFilter "string list option"
  | DecryptOnly
  | EncryptToSelf
  | FullAccess

record 'j perm_ext =
  de_allowed_kinds :: "'j \<Rightarrow> string + u16 list option"
  de_commerce_envelope :: "'j \<Rightarrow> string + string"
  de_content_filter :: "'j \<Rightarrow> string + string list option"
  de_decrypt_only :: "'j \<Rightarrow> string + unit"
  pk_from_hex :: "string \<Rightarrow> string + pubkey"
  parse_event_json :: "string \<Rightarrow> string + unsigned_event"
  tag_public_keys :: "string list list \<Rightarrow> pubkey list"

definition DM_KINDS :: "u16 list" where
  "DM_KINDS = [4, 44, 1059]"

definition COMMERCE_ENVELOPE_KIND :: u16 where
  "COMMERCE_ENVELOPE_KIND = 1327"

definition SEAL_KIND :: u16 where
  "SEAL_KIND = 13"

definition NIP42_AUTH_KIND :: u16 where
  "NIP42_AUTH_KIND = 22242"

definition AVAILABLE_PERMISSIONS :: "string list" where
  "AVAILABLE_PERMISSIONS =
     [''allowed_kinds'', ''commerce_envelope'', ''content_filter'', ''decrypt_only'',
      ''encrypt_to_self'', ''full_access'']"

section \<open>Loading a permission\<close>

definition allowed_kinds_from_permission ::
    "'j perm_ext \<Rightarrow> 'j permission \<Rightarrow> permission_error + custom_permission" where
  "allowed_kinds_from_permission X p =
     and_then (map_err InvalidConfig (de_allowed_kinds X (perm_config p)))
       (\<lambda>kinds. Inr (AllowedKinds kinds))"

definition commerce_envelope_from_permission ::
    "'j perm_ext \<Rightarrow> 'j permission \<Rightarrow> permission_error + custom_permission" where
  "commerce_envelope_from_permission X p =
     and_then (map_err InvalidConfig (de_commerce_envelope X (perm_config p)))
       (\<lambda>merchant_hex.
         and_then
           (map_err (\<lambda>e. InvalidConfig (''Invalid merchant_pubkey: '' @ e))
             (pk_from_hex X merchant_hex))
           (\<lambda>merchant. Inr (CommerceEnvelope merchant)))"

definition content_filter_from_permission ::
    "'j perm_ext \<Rightarrow> 'j permission \<Rightarrow> permission_error + custom_permission" where
  "content_filter_from_permission X p =
     and_then (map_err InvalidConfig (de_content_filter X (perm_config p)))
       (\<lambda>words. Inr (ContentFilter words))"

definition decrypt_only_from_permission ::
    "'j perm_ext \<Rightarrow> 'j permission \<Rightarrow> permission_error + custom_permission" where
  "decrypt_only_from_permission X p =
     and_then (map_err InvalidConfig (de_decrypt_only X (perm_config p)))
       (\<lambda>_. Inr DecryptOnly)"

definition to_custom_permission ::
    "'j perm_ext \<Rightarrow> 'j permission \<Rightarrow> permission_error + custom_permission" where
  "to_custom_permission X p =
     (if starts_with (perm_identifier p) ''allowed_kinds'' then allowed_kinds_from_permission X p
      else if perm_identifier p = ''commerce_envelope'' then commerce_envelope_from_permission X p
      else if perm_identifier p = ''content_filter'' then content_filter_from_permission X p
      else if perm_identifier p = ''decrypt_only'' then decrypt_only_from_permission X p
      else if perm_identifier p = ''encrypt_to_self'' then Inr EncryptToSelf
      else if perm_identifier p = ''full_access'' then Inr FullAccess
      else Inl (UnknownPermission (perm_identifier p)))"

section \<open>The implementations' methods\<close>

definition allowed_kinds_can_sign :: "u16 list option \<Rightarrow> unsigned_event \<Rightarrow> bool" where
  "allowed_kinds_can_sign allowed_kinds event =
     (case allowed_kinds of None \<Rightarrow> True | Some kinds \<Rightarrow> ue_kind event \<in> set kinds)"

definition content_filter_can_sign :: "string list option \<Rightarrow> unsigned_event \<Rightarrow> bool" where
  "content_filter_can_sign blocked_words event =
     (case blocked_words of
        None \<Rightarrow> True
      | Some ws \<Rightarrow> \<not> list_ex (\<lambda>w. str_contains (ue_content event) w) ws)"

definition content_filter_can_encrypt :: "string list option \<Rightarrow> string \<Rightarrow> bool" where
  "content_filter_can_encrypt blocked_words plaintext =
     (case blocked_words of
        None \<Rightarrow> True
      | Some ws \<Rightarrow> \<not> list_ex (\<lambda>w. str_contains plaintext w) ws)"

definition is_envelope_for_merchant :: "'j perm_ext \<Rightarrow> pubkey \<Rightarrow> string \<Rightarrow> bool" where
  "is_envelope_for_merchant X merchant plaintext =
     (case parse_event_json X plaintext of
        Inr e \<Rightarrow> ue_kind e = COMMERCE_ENVELOPE_KIND
                 \<and> list_ex (\<lambda>k. k = merchant) (tag_public_keys X (ue_tags e))
      | Inl _ \<Rightarrow> False)"

definition commerce_envelope_can_sign :: "unsigned_event \<Rightarrow> bool" where
  "commerce_envelope_can_sign event \<longleftrightarrow> ue_kind event = SEAL_KIND"

definition commerce_envelope_can_encrypt ::
    "'j perm_ext \<Rightarrow> pubkey \<Rightarrow> string \<Rightarrow> pubkey \<Rightarrow> pubkey \<Rightarrow> bool" where
  "commerce_envelope_can_encrypt X merchant plaintext sender recipient \<longleftrightarrow>
     (recipient = merchant \<or> recipient = sender) \<and> is_envelope_for_merchant X merchant plaintext"

definition decrypt_only_can_sign :: "unsigned_event \<Rightarrow> bool" where
  "decrypt_only_can_sign event \<longleftrightarrow> ue_kind event = NIP42_AUTH_KIND"

definition decrypt_only_can_encrypt :: bool where
  "decrypt_only_can_encrypt = False"

definition encrypt_to_self_can_encrypt :: "pubkey \<Rightarrow> pubkey \<Rightarrow> bool" where
  "encrypt_to_self_can_encrypt sender recipient \<longleftrightarrow> sender = recipient"

definition encrypt_to_self_can_decrypt :: "pubkey \<Rightarrow> pubkey \<Rightarrow> bool" where
  "encrypt_to_self_can_decrypt sender recipient \<longleftrightarrow> sender = recipient"

section \<open>The trait's methods\<close>

text \<open>Dynamic dispatch: a method of the trait by cases on the object's type.\<close>

fun identifier_of :: "custom_permission \<Rightarrow> string" where
  "identifier_of (AllowedKinds _) = ''allowed_kinds''"
| "identifier_of (CommerceEnvelope _) = ''commerce_envelope''"
| "identifier_of (ContentFilter _) = ''content_filter''"
| "identifier_of DecryptOnly = ''decrypt_only''"
| "identifier_of EncryptToSelf = ''encrypt_to_self''"
| "identifier_of FullAccess = ''full_access''"

fun can_sign :: "custom_permission \<Rightarrow> unsigned_event \<Rightarrow> bool" where
  "can_sign (AllowedKinds kinds) e = allowed_kinds_can_sign kinds e"
| "can_sign (CommerceEnvelope m) e = commerce_envelope_can_sign e"
| "can_sign (ContentFilter ws) e = content_filter_can_sign ws e"
| "can_sign DecryptOnly e = decrypt_only_can_sign e"
| "can_sign EncryptToSelf e = True"
| "can_sign FullAccess e = True"

fun can_encrypt ::
    "'j perm_ext \<Rightarrow> custom_permission \<Rightarrow> string \<Rightarrow> pubkey \<Rightarrow> pubkey \<Rightarrow> bool" where
  "can_encrypt X (AllowedKinds _) plaintext sender recipient = True"
| "can_encrypt X (CommerceEnvelope m) plaintext sender recipient =
     commerce_envelope_can_encrypt X m plaintext sender recipient"
| "can_encrypt X (ContentFilter ws) plaintext sender recipient = content_filter_can_encrypt ws plaintext"
| "can_encrypt X DecryptOnly plaintext sender recipient = decrypt_only_can_encrypt"
| "can_encrypt X EncryptToSelf plaintext sender recipient = encrypt_to_self_can_encrypt sender recipient"
| "can_encrypt X FullAccess plaintext sender recipient = True"

fun can_decrypt :: "custom_permission \<Rightarrow> string \<Rightarrow> pubkey \<Rightarrow> pubkey \<Rightarrow> bool" where
  "can_decrypt (AllowedKinds _) ciphertext sender recipient = True"
| "can_decrypt (CommerceEnvelope _) ciphertext sender recipient = True"
| "can_decrypt (ContentFilter _) ciphertext sender recipient = True"
| "can_decrypt DecryptOnly ciphertext sender recipient = True"
| "can_decrypt EncryptToSelf ciphertext sender recipient = encrypt_to_self_can_decrypt sender recipient"
| "can_decrypt FullAccess ciphertext sender recipient = True"

lemmas can_method_defs =
  allowed_kinds_can_sign_def content_filter_can_sign_def content_filter_can_encrypt_def
  commerce_envelope_can_sign_def commerce_envelope_can_encrypt_def decrypt_only_can_sign_def
  decrypt_only_can_encrypt_def encrypt_to_self_can_encrypt_def encrypt_to_self_can_decrypt_def

section \<open>Display\<close>

definition kind_to_friendly_name :: "u16 \<Rightarrow> string" where
  "kind_to_friendly_name kind =
     (if kind = 0 then ''Update your profile''
      else if kind = 1 then ''Post notes''
      else if kind = 3 then ''Manage your contact list''
      else if kind = 4 then ''Send and read private messages''
      else if kind = 7 then ''React to posts''
      else if kind = 22 then ''Upload videos''
      else if kind = 44 then ''Send and read private messages''
      else if kind = 1059 then ''Send and read private messages''
      else if kind = 9735 then ''Send zaps''
      else if kind = 10002 then ''Set your relay list''
      else if kind = 30023 then ''Write long-form articles''
      else ''Other actions'')"

text \<open>
  The loop of \<open>AllowedKinds::display\<close>: \<open>seen\<close> is the hash set of the code. \<open>push_new\<close> is its
  \<open>if seen.insert(desc) { abilities.push(desc) }\<close>.
\<close>

definition push_new :: "string \<Rightarrow> string list \<times> string set \<Rightarrow> string list \<times> string set" where
  "push_new desc st =
     (case st of (abilities, seen) \<Rightarrow>
        if desc \<in> seen then (abilities, seen) else (abilities @ [desc], insert desc seen))"

definition display_step :: "u16 \<Rightarrow> string list \<times> string set \<Rightarrow> string list \<times> string set" where
  "display_step kind st =
     (if kind \<in> set DM_KINDS then st else push_new (kind_to_friendly_name kind) st)"

definition allowed_abilities :: "u16 list \<Rightarrow> string list" where
  "allowed_abilities kinds =
     (let st0 = (if list_ex (\<lambda>k. k \<in> set DM_KINDS) kinds
                 then push_new ''Send and read private messages'' ([], {}) else ([], {}));
          abilities = fst (fold display_step kinds st0)
      in if abilities = [] then [''Limited actions''] else abilities)"

fun str_join :: "string \<Rightarrow> string list \<Rightarrow> string" where
  "str_join sep [] = []"
| "str_join sep [x] = x"
| "str_join sep (x # y # xs) = x @ sep @ str_join sep (y # xs)"

definition pencil_icon :: string where
  "pencil_icon = [CHR 0xE2, CHR 0x9C, CHR 0x8F, CHR 0xEF, CHR 0xB8, CHR 0x8F]"

definition check_icon :: string where
  "check_icon = [CHR 0xE2, CHR 0x9C, CHR 0x85]"

definition allowed_kinds_display :: "u16 list option \<Rightarrow> permission_display" where
  "allowed_kinds_display allowed_kinds =
     (case allowed_kinds of
        None \<Rightarrow> \<lparr>pd_icon = pencil_icon, pd_title = ''Full access'',
                 pd_description = ''Can perform all actions on your behalf''\<rparr>
      | Some kinds \<Rightarrow> \<lparr>pd_icon = pencil_icon, pd_title = ''What this app can do'',
                       pd_description = str_join '', '' (allowed_abilities kinds)\<rparr>)"

definition content_filter_display :: "string list option \<Rightarrow> permission_display" where
  "content_filter_display blocked_words =
     (case blocked_words of
        None \<Rightarrow> \<lparr>pd_icon = check_icon, pd_title = ''No content restrictions'',
                 pd_description = ''No blocked words or phrases''\<rparr>
      | Some ws \<Rightarrow>
          (if ws = [] then
             \<lparr>pd_icon = check_icon, pd_title = ''No content restrictions'',
              pd_description = ''No blocked words or phrases''\<rparr>
           else
             \<lparr>pd_icon = [CHR 0xF0, CHR 0x9F, CHR 0x9B, CHR 0xA1, CHR 0xEF, CHR 0xB8, CHR 0x8F],
              pd_title = ''Content restrictions'',
              pd_description = ''Cannot post content containing: '' @ str_join '', '' ws\<rparr>))"

definition commerce_envelope_display :: permission_display where
  "commerce_envelope_display =
     \<lparr>pd_icon = [CHR 0xF0, CHR 0x9F, CHR 0x9B, CHR 0x92], pd_title = ''Place orders'',
      pd_description = ''Can place orders with this merchant and read the replies''\<rparr>"

definition decrypt_only_display :: permission_display where
  "decrypt_only_display =
     \<lparr>pd_icon = [CHR 0xF0, CHR 0x9F, CHR 0x91, CHR 0x81, CHR 0xEF, CHR 0xB8, CHR 0x8F],
      pd_title = ''Read only'',
      pd_description = ''Can only read encrypted messages, cannot post or send messages''\<rparr>"

definition encrypt_to_self_display :: permission_display where
  "encrypt_to_self_display =
     \<lparr>pd_icon = [CHR 0xF0, CHR 0x9F, CHR 0x94, CHR 0x92],
      pd_title = ''Private message restriction'',
      pd_description = ''Can only send messages to yourself (for backups or notes)''\<rparr>"

definition full_access_display :: permission_display where
  "full_access_display =
     \<lparr>pd_icon = [CHR 0xF0, CHR 0x9F, CHR 0x94, CHR 0x93], pd_title = ''Full access'',
      pd_description = ''Sign, encrypt, and decrypt anything without restrictions''\<rparr>"

fun display :: "custom_permission \<Rightarrow> permission_display" where
  "display (AllowedKinds kinds) = allowed_kinds_display kinds"
| "display (CommerceEnvelope _) = commerce_envelope_display"
| "display (ContentFilter ws) = content_filter_display ws"
| "display DecryptOnly = decrypt_only_display"
| "display EncryptToSelf = encrypt_to_self_display"
| "display FullAccess = full_access_display"

section \<open>Lemmas: loading\<close>

lemmas from_permission_defs =
  allowed_kinds_from_permission_def commerce_envelope_from_permission_def
  content_filter_from_permission_def decrypt_only_from_permission_def

text \<open>A loaded permission carries the identifier its row names, up to the \<open>allowed_kinds\<close> suffix.\<close>

lemma to_custom_permission_identifier:
  "to_custom_permission X p = Inr c \<Longrightarrow>
     starts_with (perm_identifier p) (identifier_of c)
     \<and> (identifier_of c \<noteq> ''allowed_kinds'' \<longrightarrow> perm_identifier p = identifier_of c)"
  unfolding to_custom_permission_def from_permission_defs
  by (auto simp: and_then_Inr_iff starts_with_def split: if_splits)

lemma identifier_available [simp]: "identifier_of c \<in> set AVAILABLE_PERMISSIONS"
  by (cases c) (simp_all add: AVAILABLE_PERMISSIONS_def)

section \<open>Lemmas: the consent text\<close>

text \<open>\<open>push_new\<close> keeps the list duplicate-free and equal, as a set, to \<open>seen\<close>.\<close>

definition tracked :: "string list \<times> string set \<Rightarrow> bool" where
  "tracked st \<longleftrightarrow> distinct (fst st) \<and> set (fst st) = snd st"

lemma tracked_push_new: "tracked st \<Longrightarrow> tracked (push_new d st)"
  by (cases st) (auto simp: tracked_def push_new_def)

lemma push_new_set: "snd (push_new d st) = insert d (snd st)"
  by (cases st) (auto simp: push_new_def)

lemma fold_display_step:
  "tracked st \<Longrightarrow> tracked (fold display_step kinds st)
     \<and> snd (fold display_step kinds st)
       = snd st \<union> kind_to_friendly_name ` {k \<in> set kinds. k \<notin> set DM_KINDS}"
proof (induction kinds arbitrary: st)
  case Nil
  then show ?case by simp
next
  case (Cons k ks)
  have "tracked (display_step k st)"
    using Cons.prems by (simp add: display_step_def tracked_push_new)
  from Cons.IH [OF this] show ?case
    by (auto simp: display_step_def push_new_set)
qed

lemma kind_to_friendly_name_dm:
  "k \<in> set DM_KINDS \<Longrightarrow> kind_to_friendly_name k = ''Send and read private messages''"
  by (auto simp: DM_KINDS_def kind_to_friendly_name_def)

lemma allowed_abilities_set:
  "distinct (allowed_abilities kinds)
   \<and> set (allowed_abilities kinds)
     = (if kinds = [] then {''Limited actions''} else kind_to_friendly_name ` set kinds)"
proof -
  let ?dm = "''Send and read private messages''"
  define st0 :: "string list \<times> string set" where
    "st0 = (if list_ex (\<lambda>k. k \<in> set DM_KINDS) kinds then push_new ?dm ([], {}) else ([], {}))"
  have t0: "tracked st0" by (simp add: st0_def push_new_def tracked_def)
  let ?r = "fold display_step kinds st0"
  have r: "tracked ?r"
    "snd ?r = snd st0 \<union> kind_to_friendly_name ` {k \<in> set kinds. k \<notin> set DM_KINDS}"
    using fold_display_step [OF t0] by auto
  have s0: "snd st0 = kind_to_friendly_name ` {k \<in> set kinds. k \<in> set DM_KINDS}"
    by (auto simp: st0_def push_new_set list_ex_iff kind_to_friendly_name_dm image_iff)
  have "set (fst ?r) = kind_to_friendly_name ` set kinds"
    using r s0 unfolding tracked_def by auto
  moreover have "allowed_abilities kinds = (if fst ?r = [] then [''Limited actions''] else fst ?r)"
    by (simp add: allowed_abilities_def st0_def Let_def)
  ultimately show ?thesis
    using r(1) unfolding tracked_def by (cases kinds) auto
qed

section \<open>Evaluating a stack of permissions\<close>

text \<open>
  The contract of \<open>core/src/traits.rs\<close>: an operation goes ahead exactly when every configured
  permission allows it. A transport provides \<open>check\<close>; the laws a policy author relies on follow.
\<close>

locale restriction_stack =
  fixes allows :: "'p \<Rightarrow> 'op \<Rightarrow> bool"
    and check :: "'p list \<Rightarrow> 'op \<Rightarrow> 'e + unit"
  assumes check_ok: "check ps op = Inr () \<longleftrightarrow> (\<forall>p\<in>set ps. allows p op)"
begin

lemma empty_allows: "check [] op = Inr ()"
  by (simp add: check_ok)

lemma denied_by_one: "p \<in> set ps \<Longrightarrow> \<not> allows p op \<Longrightarrow> check ps op \<noteq> Inr ()"
  by (auto simp: check_ok)

lemma stacking_restricts: "check (ps @ qs) op = Inr () \<longleftrightarrow> check ps op = Inr () \<and> check qs op = Inr ()"
  by (auto simp: check_ok)

lemma dropping_permits: "set qs \<subseteq> set ps \<Longrightarrow> check ps op = Inr () \<Longrightarrow> check qs op = Inr ()"
  by (auto simp: check_ok)

lemma order_irrelevant: "set ps = set qs \<Longrightarrow> check ps op = Inr () \<longleftrightarrow> check qs op = Inr ()"
  by (simp add: check_ok)

end

end
