(* ===== verification/Store.thy ===== *)
theory Store
  imports Prelude Permissions
begin

text \<open>
  The rows of the PostgreSQL tables the modelled code reads and writes, and the database as a
  record of tables. Columns follow the structs of \<open>core/src/types\<close>; a nullable column is an
  option. Sequences give the next serial id of a table. The queries that only read policies,
  permissions and keys are here; the repositories with their own life cycle have theories of
  their own.
\<close>

section \<open>Rows\<close>

record oauth_authorization =
  oa_id :: int
  oa_user_pubkey :: pubkey
  oa_redirect_origin :: string
  oa_client_id :: "string option"
  oa_bunker_public_key :: pubkey
  oa_secret_hash :: string
  oa_relays :: string
  oa_policy_id :: "int option"
  oa_tenant_id :: int
  oa_client_pubkey :: "pubkey option"
  oa_connected_client_pubkey :: "pubkey option"
  oa_connected_at :: "timestamp option"
  oa_created_at :: timestamp
  oa_updated_at :: timestamp
  oa_revoked_at :: "timestamp option"
  oa_expires_at :: "timestamp option"
  oa_handle_expires_at :: timestamp
  oa_authorization_handle :: "string option"
  oa_last_activity :: "timestamp option"
  oa_activity_count :: int

record authorization =
  au_id :: int
  au_tenant_id :: int
  au_stored_key_id :: int
  au_secret_hash :: string
  au_bunker_public_key :: pubkey
  au_relays :: string
  au_policy_id :: int
  au_max_uses :: "int option"
  au_expires_at :: "timestamp option"
  au_connected_client_pubkey :: "pubkey option"
  au_connected_at :: "timestamp option"
  au_label :: "string option"
  au_created_at :: timestamp
  au_updated_at :: timestamp
  au_revoked_at :: "timestamp option"
  au_revoked_reason :: "string option"

record stored_key =
  sk_id :: int
  sk_tenant_id :: int
  sk_team_id :: int
  sk_name :: string
  sk_pubkey :: pubkey
  sk_secret_key :: bytes
  sk_created_at :: timestamp
  sk_updated_at :: timestamp

record personal_key =
  pk_user_pubkey :: pubkey
  pk_encrypted_secret_key :: bytes
  pk_tenant_id :: int

record user =
  us_pubkey :: pubkey
  us_tenant_id :: int
  us_email :: "string option"
  us_email_verified :: "bool option"
  us_password_hash :: "string option"
  us_email_verification_token :: "string option"
  us_email_verification_expires_at :: "timestamp option"
  us_email_verification_sent_at :: "timestamp option"
  us_password_reset_token :: "string option"
  us_password_reset_expires_at :: "timestamp option"
  us_username :: "string option"
  us_display_name :: "string option"
  us_vine_id :: "string option"
  us_redirect_uri :: "string option"
  us_created_at :: timestamp
  us_updated_at :: timestamp
  us_atproto_enabled :: bool
  us_atproto_state :: "string option"
  us_atproto_did :: "string option"
  us_atproto_error :: "string option"
  us_atproto_updated_at :: "timestamp option"

text \<open>A row with the column defaults of the schema.\<close>

definition blank_user :: "pubkey \<Rightarrow> int \<Rightarrow> timestamp \<Rightarrow> user" where
  "blank_user pubkey tenant_id now =
     \<lparr>us_pubkey = pubkey, us_tenant_id = tenant_id, us_email = None,
      us_email_verified = Some False, us_password_hash = None,
      us_email_verification_token = None, us_email_verification_expires_at = None,
      us_email_verification_sent_at = None, us_password_reset_token = None,
      us_password_reset_expires_at = None, us_username = None, us_display_name = None,
      us_vine_id = None, us_redirect_uri = None, us_created_at = now, us_updated_at = now,
      us_atproto_enabled = False, us_atproto_state = None, us_atproto_did = None, us_atproto_error = None,
      us_atproto_updated_at = None\<rparr>"

record policy =
  po_id :: int
  po_name :: string
  po_team_id :: "int option"
  po_slug :: "string option"
  po_display_name :: "string option"
  po_description :: "string option"

record policy_permission =
  pp_policy_id :: int
  pp_permission_id :: int

record team =
  te_id :: int
  te_tenant_id :: int
  te_name :: string
  te_created_at :: timestamp
  te_updated_at :: timestamp

text \<open>\<open>role\<close> is the text column of the table; its check constraint admits the two roles only.\<close>

record team_user =
  tu_team_id :: int
  tu_user_pubkey :: pubkey
  tu_role :: string
  tu_created_at :: timestamp
  tu_updated_at :: timestamp

record refresh_token =
  rt_id :: int
  rt_token_hash :: string
  rt_authorization_id :: int
  rt_tenant_id :: int
  rt_created_at :: timestamp
  rt_expires_at :: timestamp
  rt_consumed_at :: "timestamp option"

record oauth_code =
  oc_tenant_id :: int
  oc_code :: string
  oc_user_pubkey :: pubkey
  oc_client_id :: string
  oc_redirect_uri :: string
  oc_scope :: string
  oc_code_challenge :: "string option"
  oc_code_challenge_method :: "string option"
  oc_expires_at :: timestamp
  oc_created_at :: timestamp
  oc_pending_email :: "string option"
  oc_pending_password_hash :: "string option"
  oc_pending_email_verification_token :: "string option"
  oc_pending_encrypted_secret :: "bytes option"
  oc_previous_auth_id :: "int option"
  oc_state :: "string option"
  oc_device_code :: "string option"
  oc_is_headless :: bool

text \<open>\<open>atproto_oauth_sessions\<close>.\<close>

record atproto_session =
  as_id :: int
  as_tenant_id :: int
  as_client_id :: string
  as_redirect_uri :: string
  as_scope :: string
  as_state :: "string option"
  as_code_challenge :: "string option"
  as_code_challenge_method :: "string option"
  as_request_uri :: string
  as_par_expires_at :: timestamp
  as_user_pubkey :: "pubkey option"
  as_atproto_did :: "string option"
  as_approved_at :: "timestamp option"
  as_authorization_code :: "string option"
  as_authorization_code_expires_at :: "timestamp option"
  as_access_token_jti :: "string option"
  as_access_token_expires_at :: "timestamp option"
  as_refresh_token_hash :: "string option"
  as_refresh_token_expires_at :: "timestamp option"
  as_refresh_token_revoked_at :: "timestamp option"
  as_revoked_at :: "timestamp option"
  as_dpop_jkt :: "string option"
  as_dpop_nonce :: "string option"
  as_client_auth_method :: string
  as_client_auth_alg :: "string option"
  as_client_auth_kid :: "string option"
  as_client_auth_jkt :: "string option"
  as_created_at :: timestamp
  as_updated_at :: timestamp

text \<open>The database; of the \<open>tenants\<close> table only the ids matter here.\<close>

record 'j db =
  db_tenants :: "int list"
  db_users :: "user list"
  db_personal_keys :: "personal_key list"
  db_stored_keys :: "stored_key list"
  db_oauth :: "oauth_authorization list"
  db_oauth_seq :: int
  db_authorizations :: "authorization list"
  db_authorizations_seq :: int
  db_permissions :: "'j permission list"
  db_policies :: "policy list"
  db_policy_permissions :: "policy_permission list"
  db_refresh_tokens :: "refresh_token list"
  db_refresh_seq :: int
  db_oauth_codes :: "oauth_code list"
  db_teams :: "team list"
  db_teams_seq :: int
  db_team_users :: "team_user list"
  db_stored_keys_seq :: int
  db_policies_seq :: int
  db_permissions_seq :: int
  db_atproto_sessions :: "atproto_session list"
  db_atproto_sessions_seq :: int

definition empty_db :: "'j db" where
  "empty_db =
     \<lparr>db_tenants = [1], db_users = [], db_personal_keys = [], db_stored_keys = [], db_oauth = [],
      db_oauth_seq = 1, db_authorizations = [], db_authorizations_seq = 1, db_permissions = [],
      db_policies = [], db_policy_permissions = [], db_refresh_tokens = [], db_refresh_seq = 1,
      db_oauth_codes = [], db_teams = [], db_teams_seq = 1, db_team_users = [],
      db_stored_keys_seq = 1, db_policies_seq = 1, db_permissions_seq = 1,
      db_atproto_sessions = [], db_atproto_sessions_seq = 1\<rparr>"

section \<open>Policies and permissions\<close>

text \<open>
  \<open>FROM permissions p JOIN policy_permissions pp ON pp.permission_id = p.id
  WHERE pp.policy_id = $1\<close>: one row per matching pair.
\<close>

definition get_permissions :: "'j db \<Rightarrow> int \<Rightarrow> 'j permission list" where
  "get_permissions d policy_id =
     concat (map (\<lambda>pp. fetch_all (\<lambda>p. perm_id p = pp_permission_id pp) (db_permissions d))
       (fetch_all (\<lambda>pp. pp_policy_id pp = policy_id) (db_policy_permissions d)))"

definition policy_find :: "'j db \<Rightarrow> int \<Rightarrow> repository_error + policy" where
  "policy_find d policy_id = fetch_one (\<lambda>p. po_id p = policy_id) (db_policies d)"

definition policy_find_by_slug :: "'j db \<Rightarrow> string \<Rightarrow> repository_error + policy" where
  "policy_find_by_slug d slug = fetch_one (\<lambda>p. po_slug p = Some slug) (db_policies d)"

text \<open>\<open>OAuthAuthorization::permissions\<close>: no policy means no permissions.\<close>

definition oauth_permissions :: "'j db \<Rightarrow> oauth_authorization \<Rightarrow> 'j permission list" where
  "oauth_permissions d a =
     (case oa_policy_id a of None \<Rightarrow> [] | Some policy_id \<Rightarrow> get_permissions d policy_id)"

text \<open>
  \<open>Authorization::permissions\<close> joins the policy too: the rows of a policy that does not exist
  are not returned.
\<close>

definition authorization_permissions :: "'j db \<Rightarrow> authorization \<Rightarrow> 'j permission list" where
  "authorization_permissions d a =
     concat (map (\<lambda>pol. get_permissions d (po_id pol))
       (fetch_all (\<lambda>pol. po_id pol = au_policy_id a) (db_policies d)))"

section \<open>Keys and users\<close>

text \<open>\<open>PersonalKeysRepository\<close>: with a join on the users table, or on the key's own tenant.\<close>

definition find_encrypted_key_for_tenant :: "'j db \<Rightarrow> pubkey \<Rightarrow> int \<Rightarrow> bytes option" where
  "find_encrypted_key_for_tenant d user_pubkey tenant_id =
     map_option pk_encrypted_secret_key
       (fetch_optional
         (\<lambda>k. pk_user_pubkey k = user_pubkey
               \<and> exists_row (\<lambda>u. us_pubkey u = pk_user_pubkey k \<and> us_tenant_id u = tenant_id)
                   (db_users d))
         (db_personal_keys d))"

definition find_encrypted_key_by_tenant :: "'j db \<Rightarrow> int \<Rightarrow> pubkey \<Rightarrow> bytes option" where
  "find_encrypted_key_by_tenant d tenant_id user_pubkey =
     map_option pk_encrypted_secret_key
       (fetch_optional (\<lambda>k. pk_tenant_id k = tenant_id \<and> pk_user_pubkey k = user_pubkey)
         (db_personal_keys d))"

definition personal_keys_create :: "pubkey \<Rightarrow> bytes \<Rightarrow> int \<Rightarrow> 'j db \<Rightarrow> repository_error + 'j db" where
  "personal_keys_create user_pubkey encrypted tenant_id d =
     (if tenant_id \<notin> set (db_tenants d)
      then Inl (fk_violation ''personal_keys'' ''personal_keys_tenant_id_fkey'')
      else if \<not> exists_row (\<lambda>u. us_pubkey u = user_pubkey) (db_users d)
      then Inl (fk_violation ''personal_keys'' ''personal_keys_user_pubkey_fkey'')
      else Inr (d\<lparr>db_personal_keys := db_personal_keys d @
             [\<lparr>pk_user_pubkey = user_pubkey, pk_encrypted_secret_key = encrypted,
               pk_tenant_id = tenant_id\<rparr>]\<rparr>))"

definition personal_keys_delete_by_user :: "pubkey \<Rightarrow> 'j db \<Rightarrow> 'j db" where
  "personal_keys_delete_by_user user_pubkey d =
     d\<lparr>db_personal_keys :=
        delete_where (\<lambda>k. pk_user_pubkey k = user_pubkey) (db_personal_keys d)\<rparr>"

text \<open>The foreign key of \<open>atproto_oauth_sessions\<close> cascades when its user is deleted.\<close>

definition atproto_sessions_delete_by_user :: "pubkey \<Rightarrow> 'j db \<Rightarrow> 'j db" where
  "atproto_sessions_delete_by_user user_pubkey d =
     d\<lparr>db_atproto_sessions :=
        delete_where (\<lambda>r. as_user_pubkey r = Some user_pubkey) (db_atproto_sessions d)\<rparr>"

section \<open>Lemmas\<close>

lemma get_permissions_rows:
  "p \<in> set (get_permissions d policy_id) \<longleftrightarrow>
     p \<in> set (db_permissions d)
     \<and> (\<exists>pp\<in>set (db_policy_permissions d). pp_policy_id pp = policy_id \<and> pp_permission_id pp = perm_id p)"
  by (auto simp: get_permissions_def sql_simps)

text \<open>The tenant join makes a key invisible to every tenant its user is not in.\<close>

lemma find_encrypted_key_for_tenant_user:
  "find_encrypted_key_for_tenant d user_pubkey tenant_id = Some k \<Longrightarrow>
     \<exists>u\<in>set (db_users d). us_pubkey u = user_pubkey \<and> us_tenant_id u = tenant_id"
  by (auto simp: find_encrypted_key_for_tenant_def sql_simps dest!: fetch_optional_Some)

lemma personal_keys_create_found:
  assumes "personal_keys_create user_pubkey encrypted tenant_id d = Inr d'"
    and "find_encrypted_key_by_tenant d tenant_id user_pubkey = None"
  shows "find_encrypted_key_by_tenant d' tenant_id user_pubkey = Some encrypted"
  using assms
  by (auto simp: personal_keys_create_def find_encrypted_key_by_tenant_def
        fetch_optional_append fetch_optional_Cons split: if_splits option.splits)

end
