(* ===== verification/OAuthAuthorizations.thy ===== *)
theory OAuthAuthorizations
  imports Store
begin

text \<open>
  \<open>OAuthAuthorizationRepository\<close> (\<open>core/src/repositories/oauth_authorization.rs\<close>): the grants a
  user gives to apps. Each statement is a function on the table (and, where the statement joins
  them, the users); \<open>now\<close> is \<open>NOW()\<close>. The section on histories runs any sequence of the
  repository's writes and shows that a revoked grant never becomes active again.
\<close>

section \<open>Conditions\<close>

definition oauth_active :: "timestamp \<Rightarrow> oauth_authorization \<Rightarrow> bool" where
  "oauth_active now a \<longleftrightarrow>
     oa_revoked_at a = None \<and> (case oa_expires_at a of None \<Rightarrow> True | Some e \<Rightarrow> now < e)"

definition user_in_tenant :: "user list \<Rightarrow> pubkey \<Rightarrow> int \<Rightarrow> bool" where
  "user_in_tenant users pubkey tenant_id =
     exists_row (\<lambda>u. us_pubkey u = pubkey \<and> us_tenant_id u = tenant_id) users"

section \<open>Reads\<close>

definition oauth_find :: "int \<Rightarrow> int \<Rightarrow> oauth_authorization list \<Rightarrow> repository_error + oauth_authorization" where
  "oauth_find tenant_id auth_id t = fetch_one (\<lambda>a. oa_tenant_id a = tenant_id \<and> oa_id a = auth_id) t"

definition oauth_all_ids :: "timestamp \<Rightarrow> oauth_authorization list \<Rightarrow> int list" where
  "oauth_all_ids now t =
     map oa_id (fetch_all (\<lambda>a. oauth_active now a \<and> now < oa_handle_expires_at a) t)"

definition oauth_all_ids_for_all_tenants ::
    "timestamp \<Rightarrow> oauth_authorization list \<Rightarrow> (int \<times> int) list" where
  "oauth_all_ids_for_all_tenants now t =
     map (\<lambda>a. (oa_tenant_id a, oa_id a))
       (fetch_all (\<lambda>a. oauth_active now a \<and> now < oa_handle_expires_at a) t)"

definition find_id_by_handle ::
    "timestamp \<Rightarrow> string \<Rightarrow> pubkey \<Rightarrow> oauth_authorization list \<Rightarrow> int option" where
  "find_id_by_handle now handle user_pubkey t =
     map_option oa_id
       (fetch_optional
         (\<lambda>a. oa_authorization_handle a = Some handle \<and> oa_user_pubkey a = user_pubkey
               \<and> oauth_active now a \<and> now < oa_handle_expires_at a) t)"

definition verify_session_ownership ::
    "user list \<Rightarrow> pubkey \<Rightarrow> int \<Rightarrow> oauth_authorization list \<Rightarrow> pubkey option" where
  "verify_session_ownership users bunker tenant_id t =
     map_option oa_user_pubkey
       (fetch_optional
         (\<lambda>a. oa_bunker_public_key a = bunker \<and> user_in_tenant users (oa_user_pubkey a) tenant_id) t)"

definition exists_active_for_bunker ::
    "user list \<Rightarrow> pubkey \<Rightarrow> pubkey \<Rightarrow> int \<Rightarrow> oauth_authorization list \<Rightarrow> bool" where
  "exists_active_for_bunker users bunker user_pubkey tenant_id t =
     exists_row
       (\<lambda>a. oa_bunker_public_key a = bunker \<and> oa_user_pubkey a = user_pubkey
             \<and> oa_revoked_at a = None \<and> user_in_tenant users (oa_user_pubkey a) tenant_id) t"

definition find_bunker_pubkey_by_redirect_origin ::
    "pubkey \<Rightarrow> string \<Rightarrow> int \<Rightarrow> oauth_authorization list \<Rightarrow> pubkey option" where
  "find_bunker_pubkey_by_redirect_origin user_pubkey origin tenant_id t =
     map_option oa_bunker_public_key
       (fetch_optional
         (\<lambda>a. oa_user_pubkey a = user_pubkey \<and> oa_redirect_origin a = origin
               \<and> oa_tenant_id a = tenant_id) t)"

definition find_policy_id_by_origin ::
    "timestamp \<Rightarrow> pubkey \<Rightarrow> string \<Rightarrow> int \<Rightarrow> oauth_authorization list \<Rightarrow> int option option" where
  "find_policy_id_by_origin now user_pubkey origin tenant_id t =
     map_option oa_policy_id
       (fetch_optional
         (\<lambda>a. oa_user_pubkey a = user_pubkey \<and> oa_redirect_origin a = origin
               \<and> oa_tenant_id a = tenant_id \<and> oauth_active now a) t)"

definition has_active_for_origin ::
    "pubkey \<Rightarrow> string \<Rightarrow> int \<Rightarrow> oauth_authorization list \<Rightarrow> bool" where
  "has_active_for_origin user_pubkey origin tenant_id t =
     exists_row
       (\<lambda>a. oa_user_pubkey a = user_pubkey \<and> oa_redirect_origin a = origin
             \<and> oa_tenant_id a = tenant_id \<and> oa_revoked_at a = None) t"

text \<open>\<open>ORDER BY created_at DESC\<close> as a stable sort on the negated timestamp.\<close>

definition newest_first :: "oauth_authorization list \<Rightarrow> oauth_authorization list" where
  "newest_first t = sort_key (\<lambda>a. - oa_created_at a) t"

definition find_latest_bunker_pubkey ::
    "user list \<Rightarrow> pubkey \<Rightarrow> int \<Rightarrow> oauth_authorization list \<Rightarrow> pubkey option" where
  "find_latest_bunker_pubkey users user_pubkey tenant_id t =
     (case newest_first
        (fetch_all (\<lambda>a. oa_user_pubkey a = user_pubkey \<and> user_in_tenant users (oa_user_pubkey a) tenant_id
                        \<and> oa_revoked_at a = None) t)
      of [] \<Rightarrow> None | a # _ \<Rightarrow> Some (oa_bunker_public_key a))"

text \<open>The session list of the settings page; \<open>COALESCE\<close> takes the first non-null name.\<close>

record session_row =
  se_name :: string
  se_redirect_origin :: string
  se_bunker_public_key :: pubkey
  se_client_pubkey :: "pubkey option"
  se_created_at :: timestamp
  se_last_activity :: "timestamp option"
  se_activity_count :: int

definition list_active_sessions ::
    "user list \<Rightarrow> pubkey \<Rightarrow> int \<Rightarrow> oauth_authorization list \<Rightarrow> session_row list" where
  "list_active_sessions users user_pubkey tenant_id t =
     map (\<lambda>a. \<lparr>se_name = (case oa_client_id a of Some c \<Rightarrow> c | None \<Rightarrow> oa_redirect_origin a),
               se_redirect_origin = oa_redirect_origin a,
               se_bunker_public_key = oa_bunker_public_key a,
               se_client_pubkey = oa_client_pubkey a,
               se_created_at = oa_created_at a,
               se_last_activity = oa_last_activity a,
               se_activity_count = oa_activity_count a\<rparr>)
       (newest_first
         (fetch_all (\<lambda>a. oa_user_pubkey a = user_pubkey
                        \<and> user_in_tenant users (oa_user_pubkey a) tenant_id
                        \<and> oa_revoked_at a = None) t))"

type_synonym bunker_details =
  "int \<times> pubkey \<times> string option \<times> timestamp option \<times> timestamp option \<times> int option"

definition find_by_bunker_pubkey :: "pubkey \<Rightarrow> oauth_authorization list \<Rightarrow> bunker_details option" where
  "find_by_bunker_pubkey bunker t =
     map_option
       (\<lambda>a. (oa_id a, oa_user_pubkey a, oa_authorization_handle a, oa_expires_at a,
              oa_revoked_at a, oa_policy_id a))
       (fetch_optional (\<lambda>a. oa_bunker_public_key a = bunker) t)"

text \<open>
  \<open>list_customer_apps\<close>: the live grants grouped by origin and merchant name, each group with its
  first grant, oldest group first. \<open>(tenant, origin, name)\<close> are the rows of
  \<open>customer_app_origins\<close>, with \<open>UNIQUE (tenant_id, origin)\<close>: the left join gives each grant at most
  one name, so a group is an origin.
\<close>

definition merchant_name_for :: "(int \<times> string \<times> string) list \<Rightarrow> int \<Rightarrow> string \<Rightarrow> string option" where
  "merchant_name_for cao tenant_id origin =
     map_option (\<lambda>r. snd (snd r))
       (fetch_optional (\<lambda>r. fst r = tenant_id \<and> fst (snd r) = origin) cao)"

definition list_customer_apps ::
    "timestamp \<Rightarrow> (int \<times> string \<times> string) list \<Rightarrow> pubkey \<Rightarrow> int
      \<Rightarrow> oauth_authorization list \<Rightarrow> (string \<times> string option \<times> timestamp) list" where
  "list_customer_apps now cao user_pubkey tenant_id t =
     (let live = fetch_all (\<lambda>a. oa_user_pubkey a = user_pubkey \<and> oa_tenant_id a = tenant_id
                               \<and> oauth_active now a) t
      in sort_key (\<lambda>r. snd (snd r))
           (map (\<lambda>origin.
               (origin, merchant_name_for cao tenant_id origin,
                Min (oa_created_at ` set (filter (\<lambda>a. oa_redirect_origin a = origin) live))))
             (remdups (map oa_redirect_origin live))))"

section \<open>Writes\<close>

record create_oauth_params =
  cp_tenant_id :: int
  cp_user_pubkey :: pubkey
  cp_redirect_origin :: string
  cp_client_id :: string
  cp_bunker_public_key :: pubkey
  cp_secret_hash :: string
  cp_relays :: string
  cp_policy_id :: "int option"
  cp_client_pubkey :: "pubkey option"
  cp_authorization_handle :: "string option"
  cp_handle_expires_at :: timestamp

text \<open>
  \<open>create\<close>: the handle of a live grant is unique (\<open>idx_oauth_auth_handle\<close>), the tenant and the
  user must exist (foreign keys); columns the statement does not name take the defaults of the
  schema, and an id drawn for a failed insert is not given back. A trigger sets \<open>updated_at\<close> on
  every update of the table.
\<close>

definition new_oauth_row :: "timestamp \<Rightarrow> int \<Rightarrow> create_oauth_params \<Rightarrow> oauth_authorization" where
  "new_oauth_row now auth_id p =
     \<lparr>oa_id = auth_id, oa_user_pubkey = cp_user_pubkey p, oa_redirect_origin = cp_redirect_origin p,
      oa_client_id = Some (cp_client_id p), oa_bunker_public_key = cp_bunker_public_key p,
      oa_secret_hash = cp_secret_hash p, oa_relays = cp_relays p, oa_policy_id = cp_policy_id p,
      oa_tenant_id = cp_tenant_id p, oa_client_pubkey = cp_client_pubkey p,
      oa_connected_client_pubkey = None, oa_connected_at = None, oa_created_at = now,
      oa_updated_at = now, oa_revoked_at = None, oa_expires_at = None,
      oa_handle_expires_at = cp_handle_expires_at p,
      oa_authorization_handle = cp_authorization_handle p, oa_last_activity = None,
      oa_activity_count = 0\<rparr>"

definition oauth_create ::
    "timestamp \<Rightarrow> create_oauth_params \<Rightarrow> 'j db \<Rightarrow> (repository_error + int) \<times> 'j db" where
  "oauth_create now p d =
     (let auth_id = db_oauth_seq d; d1 = d\<lparr>db_oauth_seq := auth_id + 1\<rparr>
      in if cp_authorization_handle p \<noteq> None
            \<and> exists_row (\<lambda>a. oa_authorization_handle a = cp_authorization_handle p
                               \<and> oa_revoked_at a = None) (db_oauth d)
         then (Inl Duplicate, d1)
         else if cp_tenant_id p \<notin> set (db_tenants d)
         then (Inl (fk_violation ''oauth_authorizations'' ''oauth_authorizations_tenant_id_fkey''), d1)
         else if \<not> exists_row (\<lambda>u. us_pubkey u = cp_user_pubkey p) (db_users d)
         then (Inl (fk_violation ''oauth_authorizations'' ''oauth_authorizations_user_pubkey_fkey''), d1)
         else (Inr auth_id, d1\<lparr>db_oauth := db_oauth d @ [new_oauth_row now auth_id p]\<rparr>))"

definition oauth_revoke :: "timestamp \<Rightarrow> int \<Rightarrow> oauth_authorization list \<Rightarrow> oauth_authorization list" where
  "oauth_revoke now auth_id t =
     update_where (\<lambda>a. oa_id a = auth_id) (\<lambda>a. a\<lparr>oa_revoked_at := Some now, oa_updated_at := now\<rparr>) t"

definition revoke_by_bunker_pubkey ::
    "timestamp \<Rightarrow> user list \<Rightarrow> pubkey \<Rightarrow> pubkey \<Rightarrow> int
      \<Rightarrow> oauth_authorization list \<Rightarrow> oauth_authorization list" where
  "revoke_by_bunker_pubkey now users bunker user_pubkey tenant_id t =
     update_where
       (\<lambda>a. oa_bunker_public_key a = bunker \<and> oa_user_pubkey a = user_pubkey
             \<and> oa_revoked_at a = None \<and> user_in_tenant users (oa_user_pubkey a) tenant_id)
       (\<lambda>a. a\<lparr>oa_revoked_at := Some now, oa_updated_at := now\<rparr>) t"

definition revoke_by_origin ::
    "timestamp \<Rightarrow> pubkey \<Rightarrow> string \<Rightarrow> int
      \<Rightarrow> oauth_authorization list \<Rightarrow> (int \<times> pubkey) list \<times> oauth_authorization list" where
  "revoke_by_origin now user_pubkey origin tenant_id t =
     (let P = (\<lambda>a. oa_user_pubkey a = user_pubkey \<and> oa_redirect_origin a = origin
                    \<and> oa_tenant_id a = tenant_id \<and> oa_revoked_at a = None);
          f = (\<lambda>a. a\<lparr>oa_revoked_at := Some now, oa_updated_at := now\<rparr>)
      in (map (\<lambda>a. (oa_id a, oa_bunker_public_key a)) (returning P f t), update_where P f t))"

definition disconnect_client ::
    "timestamp \<Rightarrow> user list \<Rightarrow> pubkey \<Rightarrow> pubkey \<Rightarrow> int
      \<Rightarrow> oauth_authorization list \<Rightarrow> nat \<times> oauth_authorization list" where
  "disconnect_client now users bunker user_pubkey tenant_id t =
     (let P = (\<lambda>a. oa_bunker_public_key a = bunker \<and> oa_user_pubkey a = user_pubkey
                    \<and> oa_revoked_at a = None \<and> user_in_tenant users (oa_user_pubkey a) tenant_id)
      in (rows_affected P t,
          update_where P (\<lambda>a. a\<lparr>oa_connected_client_pubkey := None, oa_connected_at := None,
                                  oa_updated_at := now\<rparr>) t))"

text \<open>The writes of the signer and of the RPC handler on the same table.\<close>

definition store_connected_client ::
    "timestamp \<Rightarrow> pubkey \<Rightarrow> int \<Rightarrow> oauth_authorization list \<Rightarrow> oauth_authorization list" where
  "store_connected_client now client auth_id t =
     update_where (\<lambda>a. oa_id a = auth_id)
       (\<lambda>a. a\<lparr>oa_connected_client_pubkey := Some client, oa_connected_at := Some now,
                oa_updated_at := now\<rparr>) t"

definition record_activity ::
    "timestamp \<Rightarrow> (oauth_authorization \<Rightarrow> bool) \<Rightarrow> oauth_authorization list \<Rightarrow> oauth_authorization list" where
  "record_activity now P t =
     update_where P
       (\<lambda>a. a\<lparr>oa_last_activity := Some now, oa_activity_count := oa_activity_count a + 1,
                oa_updated_at := now\<rparr>) t"

section \<open>Histories\<close>

datatype oauth_op =
    OpCreate create_oauth_params
  | OpRevoke int
  | OpRevokeByBunker pubkey pubkey int
  | OpRevokeByOrigin pubkey string int
  | OpDisconnect pubkey pubkey int
  | OpConnect pubkey int
  | OpActivity int

fun oauth_apply :: "timestamp \<times> oauth_op \<Rightarrow> 'j db \<Rightarrow> 'j db" where
  "oauth_apply (now, OpCreate p) d = snd (oauth_create now p d)"
| "oauth_apply (now, OpRevoke i) d = d\<lparr>db_oauth := oauth_revoke now i (db_oauth d)\<rparr>"
| "oauth_apply (now, OpRevokeByBunker b u n) d =
     d\<lparr>db_oauth := revoke_by_bunker_pubkey now (db_users d) b u n (db_oauth d)\<rparr>"
| "oauth_apply (now, OpRevokeByOrigin u orig n) d =
     d\<lparr>db_oauth := snd (revoke_by_origin now u orig n (db_oauth d))\<rparr>"
| "oauth_apply (now, OpDisconnect b u n) d =
     d\<lparr>db_oauth := snd (disconnect_client now (db_users d) b u n (db_oauth d))\<rparr>"
| "oauth_apply (now, OpConnect c i) d = d\<lparr>db_oauth := store_connected_client now c i (db_oauth d)\<rparr>"
| "oauth_apply (now, OpActivity i) d =
     d\<lparr>db_oauth := record_activity now (\<lambda>a. oa_id a = i) (db_oauth d)\<rparr>"

definition oauth_history :: "(timestamp \<times> oauth_op) list \<Rightarrow> 'j db \<Rightarrow> 'j db" where
  "oauth_history ops d = fold oauth_apply ops d"

text \<open>Serial ids are unique and below the sequence.\<close>

definition oauth_ids_fresh :: "'j db \<Rightarrow> bool" where
  "oauth_ids_fresh d \<longleftrightarrow>
     distinct (map oa_id (db_oauth d)) \<and> (\<forall>a\<in>set (db_oauth d). oa_id a < db_oauth_seq d)"

definition oauth_dead :: "int \<Rightarrow> 'j db \<Rightarrow> bool" where
  "oauth_dead i d \<longleftrightarrow>
     i < db_oauth_seq d \<and> (\<forall>a\<in>set (db_oauth d). oa_id a = i \<longrightarrow> oa_revoked_at a \<noteq> None)"

lemmas oauth_write_defs =
  oauth_revoke_def revoke_by_bunker_pubkey_def revoke_by_origin_def disconnect_client_def
  store_connected_client_def record_activity_def

lemma oauth_create_row:
  "oauth_create now p d = (Inr i, d') \<Longrightarrow>
     i = db_oauth_seq d \<and> db_oauth d' = db_oauth d @ [new_oauth_row now i p]
     \<and> db_oauth_seq d' = i + 1"
  by (auto simp: oauth_create_def Let_def split: if_splits)

lemma oauth_create_other_tables:
  "db_users (snd (oauth_create now p d)) = db_users d"
  "db_refresh_tokens (snd (oauth_create now p d)) = db_refresh_tokens d"
  "db_refresh_seq (snd (oauth_create now p d)) = db_refresh_seq d"
  "db_personal_keys (snd (oauth_create now p d)) = db_personal_keys d"
  by (auto simp: oauth_create_def Let_def)

lemma new_oauth_row_simps [simp]:
  "oa_id (new_oauth_row now i p) = i"
  "oa_revoked_at (new_oauth_row now i p) = None"
  "oa_expires_at (new_oauth_row now i p) = None"
  "oa_user_pubkey (new_oauth_row now i p) = cp_user_pubkey p"
  "oa_bunker_public_key (new_oauth_row now i p) = cp_bunker_public_key p"
  "oa_tenant_id (new_oauth_row now i p) = cp_tenant_id p"
  "oa_policy_id (new_oauth_row now i p) = cp_policy_id p"
  "oa_authorization_handle (new_oauth_row now i p) = cp_authorization_handle p"
  "oa_handle_expires_at (new_oauth_row now i p) = cp_handle_expires_at p"
  "oa_connected_client_pubkey (new_oauth_row now i p) = None"
  by (simp_all add: new_oauth_row_def)

lemma oauth_ids_fresh_apply: "oauth_ids_fresh d \<Longrightarrow> oauth_ids_fresh (oauth_apply op d)"
proof (induction op d rule: oauth_apply.induct)
  case (1 now p d)
  then show ?case by (auto simp: oauth_ids_fresh_def oauth_create_def Let_def)
qed (auto simp: oauth_ids_fresh_def oauth_write_defs map_update_where sql_simps Let_def)

lemma oauth_dead_apply: "oauth_dead i d \<Longrightarrow> oauth_dead i (oauth_apply op d)"
proof (induction op d rule: oauth_apply.induct)
  case (1 now p d)
  then show ?case by (auto simp: oauth_dead_def oauth_create_def Let_def)
qed (auto simp: oauth_dead_def oauth_write_defs sql_simps Let_def)

lemma oauth_dead_history: "oauth_dead i d \<Longrightarrow> oauth_dead i (oauth_history ops d)"
  by (induction ops arbitrary: d) (simp_all add: oauth_history_def oauth_dead_apply)

lemma oauth_ids_fresh_history: "oauth_ids_fresh d \<Longrightarrow> oauth_ids_fresh (oauth_history ops d)"
  by (induction ops arbitrary: d) (simp_all add: oauth_history_def oauth_ids_fresh_apply)

lemma oauth_revoke_dead:
  "i < db_oauth_seq d \<Longrightarrow> oauth_dead i (d\<lparr>db_oauth := oauth_revoke now i (db_oauth d)\<rparr>)"
  by (simp add: oauth_dead_def oauth_revoke_def ball_update_where)

lemma oauth_dead_inactive:
  "oauth_dead i d \<Longrightarrow>
     (\<forall>a\<in>set (db_oauth d). oa_id a = i \<longrightarrow> \<not> oauth_active now a)
     \<and> i \<notin> set (oauth_all_ids now (db_oauth d))"
  by (auto simp: oauth_dead_def oauth_active_def oauth_all_ids_def sql_simps)

section \<open>Properties\<close>

text \<open>
  Revocation is permanent: after an OAuth authorization is revoked, no sequence of repository
  writes, at any times, ever makes it active again, and it is in no later list of active ids.
\<close>

theorem oauth_revocation_is_final:
  assumes "i < db_oauth_seq d"
  shows "let d' = oauth_history ((t, OpRevoke i) # ops) d
         in (\<forall>a\<in>set (db_oauth d'). oa_id a = i \<longrightarrow> \<not> oauth_active now a)
            \<and> i \<notin> set (oauth_all_ids now (db_oauth d'))"
proof -
  have "oauth_dead i (oauth_history ((t, OpRevoke i) # ops) d)"
    using oauth_dead_history [OF oauth_revoke_dead [OF assms], of ops t]
    by (simp only: oauth_history_def fold_simps oauth_apply.simps)
  then show ?thesis unfolding Let_def by (rule oauth_dead_inactive)
qed

definition sample_params :: create_oauth_params where
  "sample_params =
     \<lparr>cp_tenant_id = 1, cp_user_pubkey = ''alice'', cp_redirect_origin = ''https://app.example'',
      cp_client_id = ''app'', cp_bunker_public_key = ''bunker1'', cp_secret_hash = ''h'',
      cp_relays = ''[]'', cp_policy_id = Some 1, cp_client_pubkey = None,
      cp_authorization_handle = Some ''handle'', cp_handle_expires_at = 1000\<rparr>"

definition sample_db :: "unit db" where
  "sample_db =
     empty_db\<lparr>db_users := [(blank_user ''alice'' 1 5)\<lparr>us_email := Some ''a@example.com''\<rparr>],
       db_personal_keys := [\<lparr>pk_user_pubkey = ''alice'', pk_encrypted_secret_key = [1],
                              pk_tenant_id = 1\<rparr>],
       db_oauth := [new_oauth_row 10 1 sample_params], db_oauth_seq := 2\<rparr>"

theorem oauth_revocation_is_final_witness:
  "oauth_active 20 (new_oauth_row 10 1 sample_params)
   \<and> (let d' = oauth_history [(30, OpRevoke 1), (40, OpConnect ''c'' 1)] sample_db
      in db_oauth d' \<noteq> []
         \<and> (\<forall>a\<in>set (db_oauth d'). oa_id a = 1 \<longrightarrow> \<not> oauth_active 50 a)
         \<and> 1 \<notin> set (oauth_all_ids 50 (db_oauth d')))"
proof -
  have "1 < db_oauth_seq sample_db" by (simp add: sample_db_def)
  note oauth_revocation_is_final [OF this, of 30 "[(40, OpConnect ''c'' 1)]" 50]
  moreover have "db_oauth (oauth_history [(30, OpRevoke 1), (40, OpConnect ''c'' 1)] sample_db) \<noteq> []"
    by (simp add: oauth_history_def sample_db_def oauth_write_defs update_where_def)
  moreover have "oauth_active 20 (new_oauth_row 10 1 sample_params)"
    by (simp add: oauth_active_def)
  ultimately show ?thesis by (simp add: Let_def)
qed

text \<open>
  A handle finds a grant only for the user it was given to, and only while the grant is
  active and below its absolute handle expiry.
\<close>

theorem handle_lookup_is_scoped:
  assumes "find_id_by_handle now handle user_pubkey t = Some i"
  shows "\<exists>a\<in>set t. oa_id a = i \<and> oa_user_pubkey a = user_pubkey
           \<and> oa_authorization_handle a = Some handle \<and> oa_revoked_at a = None
           \<and> now < oa_handle_expires_at a
           \<and> (\<forall>e. oa_expires_at a = Some e \<longrightarrow> now < e)"
proof -
  from assms obtain a where "a \<in> set t" "oa_id a = i" "oa_user_pubkey a = user_pubkey"
    "oa_authorization_handle a = Some handle" "oauth_active now a" "now < oa_handle_expires_at a"
    by (auto simp: find_id_by_handle_def dest!: fetch_optional_Some)
  then show ?thesis by (intro bexI [of _ a]) (auto simp: oauth_active_def split: option.splits)
qed

theorem handle_lookup_is_scoped_witness:
  "find_id_by_handle 50 ''handle'' ''alice'' (db_oauth sample_db) = Some 1
   \<and> (\<exists>a\<in>set (db_oauth sample_db). oa_id a = 1 \<and> oa_user_pubkey a = ''alice''
           \<and> oa_authorization_handle a = Some ''handle'' \<and> oa_revoked_at a = None
           \<and> 50 < oa_handle_expires_at a \<and> (\<forall>e. oa_expires_at a = Some e \<longrightarrow> 50 < e))"
proof -
  have h: "find_id_by_handle 50 ''handle'' ''alice'' (db_oauth sample_db) = Some 1"
    by (simp add: find_id_by_handle_def sample_db_def fetch_optional_Cons oauth_active_def
          sample_params_def)
  show ?thesis using h handle_lookup_is_scoped [OF h] by blast
qed

end
