(* ===== verification/TeamAuthorizations.thy ===== *)
theory TeamAuthorizations
  imports Store
begin

text \<open>
  \<open>AuthorizationRepository\<close> (\<open>core/src/repositories/authorization.rs\<close>) and the queries of
  \<open>Authorization\<close> (\<open>core/src/types/authorization.rs\<close>): the bunker connections of a team's stored
  keys. A row is soft-deleted by \<open>revoke\<close> and hard-deleted by \<open>delete\<close>.
\<close>

section \<open>Reads\<close>

definition auth_find :: "int \<Rightarrow> int \<Rightarrow> authorization list \<Rightarrow> repository_error + authorization" where
  "auth_find tenant_id auth_id t = fetch_one (\<lambda>a. au_tenant_id a = tenant_id \<and> au_id a = auth_id) t"

definition find_by_stored_key_inner :: "int \<Rightarrow> int \<Rightarrow> bool \<Rightarrow> authorization list \<Rightarrow> authorization list" where
  "find_by_stored_key_inner tenant_id stored_key_id include_revoked t =
     fetch_all (\<lambda>a. au_tenant_id a = tenant_id \<and> au_stored_key_id a = stored_key_id
                    \<and> (include_revoked \<or> \<not> is_set (au_revoked_at a))) t"

definition find_by_stored_key :: "int \<Rightarrow> int \<Rightarrow> authorization list \<Rightarrow> authorization list" where
  "find_by_stored_key tenant_id stored_key_id t =
     find_by_stored_key_inner tenant_id stored_key_id False t"

definition find_by_stored_key_with_revoked ::
    "int \<Rightarrow> int \<Rightarrow> bool \<Rightarrow> authorization list \<Rightarrow> authorization list" where
  "find_by_stored_key_with_revoked tenant_id stored_key_id include_revoked t =
     find_by_stored_key_inner tenant_id stored_key_id include_revoked t"

definition auth_all_ids :: "int \<Rightarrow> authorization list \<Rightarrow> int list" where
  "auth_all_ids tenant_id t =
     map au_id (fetch_all (\<lambda>a. au_tenant_id a = tenant_id \<and> \<not> is_set (au_revoked_at a)) t)"

definition auth_all_ids_for_all_tenants :: "authorization list \<Rightarrow> (int \<times> int) list" where
  "auth_all_ids_for_all_tenants t =
     map (\<lambda>a. (au_tenant_id a, au_id a)) (fetch_all (\<lambda>a. \<not> is_set (au_revoked_at a)) t)"

text \<open>\<open>label LIKE 'support:' || pubkey || '%'\<close>; a hex key holds no pattern character.\<close>

definition find_active_support_for_caller ::
    "stored_key list \<Rightarrow> int \<Rightarrow> int \<Rightarrow> pubkey \<Rightarrow> authorization list \<Rightarrow> (int \<times> pubkey) list" where
  "find_active_support_for_caller keys tenant_id team_id caller t =
     map (\<lambda>a. (au_id a, au_bunker_public_key a))
       (fetch_all
         (\<lambda>a. au_tenant_id a = tenant_id
               \<and> exists_row (\<lambda>k. sk_id k = au_stored_key_id a \<and> sk_team_id k = team_id) keys
               \<and> \<not> is_set (au_revoked_at a)
               \<and> (case au_label a of None \<Rightarrow> False | Some l \<Rightarrow> starts_with l (''support:'' @ caller))) t)"

definition auth_stored_key :: "'j db \<Rightarrow> int \<Rightarrow> authorization \<Rightarrow> repository_error + stored_key" where
  "auth_stored_key d tenant_id a =
     fetch_one (\<lambda>k. sk_tenant_id k = tenant_id \<and> sk_id k = au_stored_key_id a) (db_stored_keys d)"

section \<open>Writes\<close>

definition auth_revocable :: "int \<Rightarrow> int \<Rightarrow> authorization \<Rightarrow> bool" where
  "auth_revocable tenant_id auth_id a \<longleftrightarrow>
     au_tenant_id a = tenant_id \<and> au_id a = auth_id \<and> \<not> is_set (au_revoked_at a)"

definition auth_revoke ::
    "timestamp \<Rightarrow> int \<Rightarrow> int \<Rightarrow> string option \<Rightarrow> authorization list
      \<Rightarrow> pubkey option \<times> authorization list" where
  "auth_revoke now tenant_id auth_id reason t =
     (let P = auth_revocable tenant_id auth_id
      in (map_option au_bunker_public_key (fetch_optional P t),
          update_where P
            (\<lambda>a. a\<lparr>au_revoked_at := Some now, au_revoked_reason := reason, au_updated_at := now\<rparr>) t))"

definition auth_create ::
    "timestamp \<Rightarrow> int \<Rightarrow> int \<Rightarrow> int \<Rightarrow> string \<Rightarrow> pubkey \<Rightarrow> string \<Rightarrow> int option \<Rightarrow> timestamp option
      \<Rightarrow> string option \<Rightarrow> 'j db \<Rightarrow> (repository_error + authorization) \<times> 'j db" where
  "auth_create now tenant_id stored_key_id policy_id secret_hash bunker relays max_uses expires_at label d =
     (let row = \<lparr>au_id = db_authorizations_seq d, au_tenant_id = tenant_id,
                 au_stored_key_id = stored_key_id, au_secret_hash = secret_hash,
                 au_bunker_public_key = bunker, au_relays = relays, au_policy_id = policy_id,
                 au_max_uses = max_uses, au_expires_at = expires_at,
                 au_connected_client_pubkey = None, au_connected_at = None, au_label = label,
                 au_created_at = now, au_updated_at = now, au_revoked_at = None,
                 au_revoked_reason = None\<rparr>;
          d1 = d\<lparr>db_authorizations_seq := db_authorizations_seq d + 1\<rparr>
      in if \<not> exists_row (\<lambda>p. po_id p = policy_id) (db_policies d)
         then (Inl (fk_violation ''authorizations'' ''authorizations_policy_id_fkey''), d1)
         else if \<not> exists_row (\<lambda>k. sk_id k = stored_key_id) (db_stored_keys d)
         then (Inl (fk_violation ''authorizations'' ''authorizations_stored_key_id_fkey''), d1)
         else if tenant_id \<notin> set (db_tenants d)
         then (Inl (fk_violation ''authorizations'' ''authorizations_tenant_id_fkey''), d1)
         else (Inr row, d1\<lparr>db_authorizations := db_authorizations d @ [row]\<rparr>))"

definition auth_delete :: "int \<Rightarrow> int \<Rightarrow> authorization list \<Rightarrow> bool \<times> authorization list" where
  "auth_delete tenant_id auth_id t =
     (let P = (\<lambda>a. au_tenant_id a = tenant_id \<and> au_id a = auth_id)
      in (0 < rows_affected P t, delete_where P t))"

definition delete_for_stored_key :: "int \<Rightarrow> int \<Rightarrow> int \<Rightarrow> authorization list \<Rightarrow> bool \<times> authorization list" where
  "delete_for_stored_key tenant_id auth_id stored_key_id t =
     (let P = (\<lambda>a. au_tenant_id a = tenant_id \<and> au_id a = auth_id \<and> au_stored_key_id a = stored_key_id)
      in (0 < rows_affected P t, delete_where P t))"

text \<open>The signer's write on the same table.\<close>

definition store_connected_team_client ::
    "timestamp \<Rightarrow> pubkey \<Rightarrow> int \<Rightarrow> authorization list \<Rightarrow> authorization list" where
  "store_connected_team_client now client auth_id t =
     update_where (\<lambda>a. au_id a = auth_id)
       (\<lambda>a. a\<lparr>au_connected_client_pubkey := Some client, au_connected_at := Some now,
                au_updated_at := now\<rparr>) t"

section \<open>Lemmas\<close>

text \<open>
  Revoking answers with the bunker key of the row once; afterwards the row is in none of the
  active lists, and revoking again answers \<open>None\<close> and keeps the first reason.
\<close>

lemma auth_revoke_not_revocable:
  "\<forall>a\<in>set (snd (auth_revoke now n i reason t)). \<not> auth_revocable n i a"
  unfolding auth_revoke_def Let_def snd_conv ball_update_where by (simp add: auth_revocable_def)

lemma auth_revoke_idempotent:
  "auth_revoke now' n i reason' (snd (auth_revoke now n i reason t))
     = (None, snd (auth_revoke now n i reason t))"
proof -
  let ?t = "snd (auth_revoke now n i reason t)"
  have none: "\<forall>a\<in>set ?t. \<not> auth_revocable n i a" by (rule auth_revoke_not_revocable)
  then have "fetch_optional (auth_revocable n i) ?t = None" by (simp add: fetch_optional_None)
  then show ?thesis using none by (simp add: auth_revoke_def [of now'] Let_def update_where_none)
qed

lemma auth_revoke_not_listed:
  "i \<notin> set (auth_all_ids n (snd (auth_revoke now n i reason t)))"
  using auth_revoke_not_revocable [of now n i reason t]
  by (auto simp: auth_all_ids_def sql_simps auth_revocable_def simp del: set_update_where)

end
