(* ===== verification/Crypto.thy ===== *)
theory Crypto
  imports Permissions
begin

text \<open>
  Keys and the wire formats. Everything from third-party crates (nostr-sdk, hkdf, bcrypt,
  serde_json, hex, the key manager's backend) is a field of the record \<open>ext\<close>, so every definition
  that uses it takes that record as an argument; a Nostr key pair is its secret key. The code of
  the repository on top of it is here: \<open>core/src/bunker_key.rs\<close>, \<open>core/src/signing_session.rs\<close> and
  \<open>core/src/secret_pool.rs::verify_secret\<close>. A blocking task that is joined is a plain call.
\<close>

type_synonym seckey = bytes

text \<open>\<open>nostr_sdk::Event\<close>.\<close>

record event =
  ev_id :: string
  ev_pubkey :: pubkey
  ev_created_at :: u64
  ev_kind :: u16
  ev_tags :: "string list list"
  ev_content :: string
  ev_sig :: string

text \<open>The JSON-RPC responses the signer builds with \<open>json!\<close>: an id and a result, or an error.\<close>

datatype 'j rpc_response = RpcResult 'j string | RpcError 'j string

record 'j ext =
  x_perm :: "'j perm_ext"
  km_encrypt :: "bytes \<Rightarrow> string + bytes"
  km_decrypt :: "bytes \<Rightarrow> string + bytes"
  sk_from_slice :: "bytes \<Rightarrow> string + seckey"
  public_key :: "seckey \<Rightarrow> pubkey"
  hkdf_expand :: "bytes \<Rightarrow> string \<Rightarrow> bytes"
  bcrypt_verify :: "string \<Rightarrow> string \<Rightarrow> string + bool"
  nip44_encrypt :: "seckey \<Rightarrow> pubkey \<Rightarrow> string \<Rightarrow> string + string"
  nip44_decrypt :: "seckey \<Rightarrow> pubkey \<Rightarrow> string \<Rightarrow> string + string"
  nip04_encrypt :: "seckey \<Rightarrow> pubkey \<Rightarrow> string \<Rightarrow> string + string"
  nip04_decrypt :: "seckey \<Rightarrow> pubkey \<Rightarrow> string \<Rightarrow> string + string"
  sign_built :: "seckey \<Rightarrow> u16 \<Rightarrow> string \<Rightarrow> string list list \<Rightarrow> u64 option \<Rightarrow> string + event"
  sign_unsigned :: "seckey \<Rightarrow> unsigned_event \<Rightarrow> string + event"
  event_to_json :: "event \<Rightarrow> string + string"
  json_parse :: "string \<Rightarrow> string + 'j"
  json_key :: "'j \<Rightarrow> string \<Rightarrow> 'j"
  json_at :: "'j \<Rightarrow> nat \<Rightarrow> 'j"
  json_str :: "'j \<Rightarrow> string option"
  json_u64 :: "'j \<Rightarrow> u64 option"
  json_array :: "'j \<Rightarrow> 'j list option"
  render_response :: "'j rpc_response \<Rightarrow> string"
  tag_parse :: "string list \<Rightarrow> string + string list"
  tag_is_p :: "string list \<Rightarrow> bool"
  tag_content :: "string list \<Rightarrow> string option"
  tag_public_key :: "pubkey \<Rightarrow> string list"
  hex_decode :: "string \<Rightarrow> string + bytes"

section \<open>Bunker keys\<close>

definition HKDF_INFO_PREFIX :: string where
  "HKDF_INFO_PREFIX = ''keycast-bunker-nip46-v1-''"

definition derived_info :: "string \<Rightarrow> int \<Rightarrow> string" where
  "derived_info info counter = (if counter = 0 then info else info @ ''-retry'' @ show_int counter)"

text \<open>
  The loop over \<open>0u32..\<close>: it leaves at the first counter whose expansion is a valid scalar, and
  \<open>None\<close> is the end of the counter's range.
\<close>

function derive_loop :: "'j ext \<Rightarrow> seckey \<Rightarrow> string \<Rightarrow> int \<Rightarrow> seckey option" where
  "derive_loop X user_secret info counter =
     (if counter < 4294967296 then
        (case sk_from_slice X (hkdf_expand X user_secret (derived_info info counter)) of
           Inr secret \<Rightarrow> Some secret
         | Inl _ \<Rightarrow> derive_loop X user_secret info (counter + 1))
      else None)"
  by pat_completeness auto
termination by (relation "measure (\<lambda>(_, _, _, c). nat (4294967296 - c))") auto

declare derive_loop.simps [simp del]

definition derive_bunker_keys :: "'j ext \<Rightarrow> seckey \<Rightarrow> string \<Rightarrow> seckey option" where
  "derive_bunker_keys X user_secret connection_secret =
     derive_loop X user_secret (HKDF_INFO_PREFIX @ connection_secret) 0"

section \<open>Connection secrets\<close>

definition verify_secret :: "'j ext \<Rightarrow> string \<Rightarrow> string \<Rightarrow> bool" where
  "verify_secret X provided_secret stored_hash =
     (case bcrypt_verify X provided_secret stored_hash of Inr b \<Rightarrow> b | Inl _ \<Rightarrow> False)"

section \<open>Signing sessions\<close>

type_synonym cache_key = bytes

datatype session_error =
    InvalidKeyLength
  | HexDecode string
  | SessionSigning string
  | SessionEncryption string

definition parse_cache_key :: "'j ext \<Rightarrow> string \<Rightarrow> session_error + cache_key" where
  "parse_cache_key X hex_str =
     and_then (map_err HexDecode (hex_decode X hex_str))
       (\<lambda>bs. if length bs = 32 then Inr bs else Inl InvalidKeyLength)"

definition session_sign_event :: "'j ext \<Rightarrow> seckey \<Rightarrow> unsigned_event \<Rightarrow> session_error + event" where
  "session_sign_event X keys unsigned_ev = map_err SessionSigning (sign_unsigned X keys unsigned_ev)"

definition session_nip44_encrypt ::
    "'j ext \<Rightarrow> seckey \<Rightarrow> pubkey \<Rightarrow> string \<Rightarrow> session_error + string" where
  "session_nip44_encrypt X keys recipient plaintext =
     map_err SessionEncryption (nip44_encrypt X keys recipient plaintext)"

definition session_nip44_decrypt ::
    "'j ext \<Rightarrow> seckey \<Rightarrow> pubkey \<Rightarrow> string \<Rightarrow> session_error + string" where
  "session_nip44_decrypt X keys sender ciphertext =
     map_err SessionEncryption (nip44_decrypt X keys sender ciphertext)"

section \<open>Lemmas\<close>

text \<open>The loop returns the first valid candidate at or after its counter.\<close>

lemma derive_loop_first:
  assumes "c \<le> n" and "n < 4294967296"
    and "sk_from_slice X (hkdf_expand X u (derived_info info n)) = Inr s"
    and "\<And>i. c \<le> i \<Longrightarrow> i < n \<Longrightarrow> isl (sk_from_slice X (hkdf_expand X u (derived_info info i)))"
  shows "derive_loop X u info c = Some s"
  using assms
proof (induction "nat (n - c)" arbitrary: c)
  case 0
  then show ?case by (simp add: derive_loop.simps [of X u info c])
next
  case (Suc k)
  then have "isl (sk_from_slice X (hkdf_expand X u (derived_info info c)))" by simp
  moreover have "derive_loop X u info (c + 1) = Some s"
    using Suc by (intro Suc.hyps(1)) auto
  ultimately show ?case
    using Suc.prems(1,2) Suc.hyps(2)
    by (auto simp: derive_loop.simps [of X u info c] isl_def)
qed

lemma derive_loop_valid:
  "derive_loop X u info c = Some s \<Longrightarrow>
     \<exists>n. c \<le> n \<and> n < 4294967296 \<and> sk_from_slice X (hkdf_expand X u (derived_info info n)) = Inr s"
proof (induction X u info c rule: derive_loop.induct)
  case (1 X u info c)
  show ?case
  proof (cases "sk_from_slice X (hkdf_expand X u (derived_info info c))")
    case (Inl e)
    then have "c < 4294967296" and "derive_loop X u info (c + 1) = Some s"
      using 1(2) by (auto simp: derive_loop.simps [of X u info c] split: if_splits)
    then show ?thesis using 1(1) Inl by (meson add_le_cancel_left le_add_same_cancel1 order_trans zero_le_one)
  next
    case (Inr k)
    then show ?thesis
      using 1(2) by (auto simp: derive_loop.simps [of X u info c] split: if_splits)
  qed
qed

end
