(* ===== verification/Signer.thy ===== *)
theory Signer
  imports OAuthAuthorizations TeamAuthorizations Crypto
begin

text \<open>
  The NIP-46 signer daemon, \<open>signer/src/signer_daemon.rs\<close>, with its error type
  (\<open>signer/src/error.rs\<close>), the authorization channel (\<open>core/src/authorization_channel.rs\<close>) and the
  relay queue (\<open>signer/src/work_queue.rs\<close>). The state is the database, the handler cache, the
  events sent and the counters; a request is handled as one step on it. An evicted cache entry is
  a key missing from the cache, so every statement about any cache covers eviction. The
  background update of activity counters happens at the place it is spawned. \<open>owns\<close> is the
  cluster's \<open>should_handle\<close>, \<open>send\<close> the relay client's \<open>send_event\<close>.
\<close>

section \<open>Errors\<close>

datatype signer_error =
    SeDatabase string
  | SeAuthorization string
  | SeEncryption string
  | SeInvalidKey string
  | SePermissionDenied string
  | SeInvalidPermission string
  | SeNip04 string
  | SeNip44 string
  | SeSigning string
  | SeEventBuilder string
  | SeClient string
  | SeJson string
  | SeTagParse string
  | SeMissingParameter string
  | SeInvalidRequest string
  | SeDataCorruption string
  | SeRelay string
  | SeInternal string
  | SePanic string \<comment> \<open>not a value of the Rust type: the task panicked\<close>

fun signer_error_text :: "signer_error \<Rightarrow> string" where
  "signer_error_text (SeDatabase m) = ''Database error: '' @ m"
| "signer_error_text (SeAuthorization m) = ''Authorization error: '' @ m"
| "signer_error_text (SeEncryption m) = ''Encryption error: '' @ m"
| "signer_error_text (SeInvalidKey m) = ''Invalid key: '' @ m"
| "signer_error_text (SePermissionDenied m) = ''Permission denied: '' @ m"
| "signer_error_text (SeInvalidPermission m) = ''Invalid permission config: '' @ m"
| "signer_error_text (SeNip04 m) = ''NIP-04 error: '' @ m"
| "signer_error_text (SeNip44 m) = ''NIP-44 error: '' @ m"
| "signer_error_text (SeSigning m) = ''Signing error: '' @ m"
| "signer_error_text (SeEventBuilder m) = ''Event builder error: '' @ m"
| "signer_error_text (SeClient m) = ''Client error: '' @ m"
| "signer_error_text (SeJson m) = ''JSON error: '' @ m"
| "signer_error_text (SeTagParse m) = ''Tag parse error: '' @ m"
| "signer_error_text (SeMissingParameter m) = ''Missing parameter: '' @ m"
| "signer_error_text (SeInvalidRequest m) = ''Invalid request: '' @ m"
| "signer_error_text (SeDataCorruption m) = ''Data corruption: '' @ m"
| "signer_error_text (SeRelay m) = ''Relay error: '' @ m"
| "signer_error_text (SeInternal m) = ''Internal error: '' @ m"
| "signer_error_text (SePanic m) = m"

definition row_not_found :: string where
  "row_not_found = ''no rows returned by a query that expected to return at least one row''"

fun permission_error_text :: "permission_error \<Rightarrow> string" where
  "permission_error_text (PermissionDatabase m) = ''Database error: '' @ m"
| "permission_error_text (UnknownPermission m) = ''Unknown permission type: '' @ m"
| "permission_error_text (InvalidConfig m) = ''Invalid permission configuration: '' @ m"

definition quoted :: "string \<Rightarrow> string" where
  "quoted s = [CHR 0x27] @ s @ [CHR 0x27]"

section \<open>Handlers\<close>

datatype handler_status = Active | Revoked | Expired

record nip46_handler =
  h_bunker_keys :: seckey
  h_user_keys :: seckey
  h_secret_hash :: string
  h_authorization_id :: int
  h_tenant_id :: int
  h_is_oauth :: bool
  h_status :: handler_status
  h_tombstone_at :: "timestamp option"

definition is_tombstone :: "nip46_handler \<Rightarrow> bool" where
  "is_tombstone h \<longleftrightarrow> h_status h \<noteq> Active"

definition tombstone_error_message :: "nip46_handler \<Rightarrow> string option" where
  "tombstone_error_message h =
     (case h_status h of
        Active \<Rightarrow> None
      | Revoked \<Rightarrow> Some ''Authorization has been revoked''
      | Expired \<Rightarrow> Some ''Authorization has expired'')"

definition compute_status_from_oauth ::
    "timestamp \<Rightarrow> oauth_authorization \<Rightarrow> handler_status \<times> timestamp option" where
  "compute_status_from_oauth now a =
     (if is_set (oa_revoked_at a) then (Revoked, oa_revoked_at a)
      else (case oa_expires_at a of
              Some e \<Rightarrow> if e \<le> now then (Expired, Some e) else (Active, None)
            | None \<Rightarrow> (Active, None)))"

text \<open>The same computation for a team row looks at \<open>expires_at\<close> only.\<close>

definition compute_status_from_team :: "timestamp \<Rightarrow> authorization \<Rightarrow> handler_status \<times> timestamp option" where
  "compute_status_from_team now a =
     (case au_expires_at a of
        Some e \<Rightarrow> if e \<le> now then (Expired, Some e) else (Active, None)
      | None \<Rightarrow> (Active, None))"

section \<open>Permissions\<close>

definition stored_permissions :: "'j db \<Rightarrow> nip46_handler \<Rightarrow> signer_error + 'j permission list" where
  "stored_permissions d h =
     (if h_is_oauth h then
        and_then (ok_or (SeAuthorization (''Database error: '' @ row_not_found))
                   (ok (oauth_find (h_tenant_id h) (h_authorization_id h) (db_oauth d))))
          (\<lambda>a. Inr (oauth_permissions d a))
      else
        and_then (ok_or (SeAuthorization (''Database error: '' @ row_not_found))
                   (ok (auth_find (h_tenant_id h) (h_authorization_id h) (db_authorizations d))))
          (\<lambda>a. Inr (authorization_permissions d a)))"

definition load_permissions ::
    "'j ext \<Rightarrow> 'j db \<Rightarrow> nip46_handler \<Rightarrow> signer_error + custom_permission list" where
  "load_permissions X d h =
     and_then (stored_permissions d h)
       (\<lambda>ps. collect_results
          (map (\<lambda>p. map_err
                  (\<lambda>e. SeInvalidPermission (''Failed to convert permission '' @ quoted (perm_identifier p)
                         @ '': '' @ permission_error_text e))
                  (to_custom_permission (x_perm X) p)) ps))"

text \<open>The loop of the three validators: the first permission that refuses ends it.\<close>

fun check_each :: "(custom_permission \<Rightarrow> bool) \<Rightarrow> custom_permission list \<Rightarrow> signer_error + unit" where
  "check_each allows [] = Inr ()"
| "check_each allows (p # ps) =
     (if \<not> allows p then
        Inl (SePermissionDenied (''Blocked by '' @ quoted (identifier_of p) @ '' policy''))
      else check_each allows ps)"

definition validate_permissions_for_sign ::
    "'j ext \<Rightarrow> 'j db \<Rightarrow> nip46_handler \<Rightarrow> unsigned_event \<Rightarrow> signer_error + unit" where
  "validate_permissions_for_sign X d h ev =
     and_then (load_permissions X d h) (check_each (\<lambda>p. can_sign p ev))"

definition validate_permissions_for_encrypt ::
    "'j ext \<Rightarrow> 'j db \<Rightarrow> nip46_handler \<Rightarrow> string \<Rightarrow> pubkey \<Rightarrow> signer_error + unit" where
  "validate_permissions_for_encrypt X d h plaintext recipient =
     (let sender = public_key X (h_user_keys h)
      in and_then (load_permissions X d h)
           (check_each (\<lambda>p. can_encrypt (x_perm X) p plaintext sender recipient)))"

definition validate_permissions_for_decrypt ::
    "'j ext \<Rightarrow> 'j db \<Rightarrow> nip46_handler \<Rightarrow> string \<Rightarrow> pubkey \<Rightarrow> signer_error + unit" where
  "validate_permissions_for_decrypt X d h ciphertext sender =
     (let recipient = public_key X (h_user_keys h)
      in and_then (load_permissions X d h)
           (check_each (\<lambda>p. can_decrypt p ciphertext sender recipient)))"

section \<open>Client tracking\<close>

definition team_unexpired :: "timestamp \<Rightarrow> authorization \<Rightarrow> bool" where
  "team_unexpired now a \<longleftrightarrow> (case au_expires_at a of None \<Rightarrow> True | Some e \<Rightarrow> now < e)"

text \<open>\<open>connected_client_pubkey\<close> of the handler's row, \<open>None\<close> for no row and for \<open>NULL\<close>.\<close>

definition existing_client :: "timestamp \<Rightarrow> nip46_handler \<Rightarrow> 'j db \<Rightarrow> pubkey option" where
  "existing_client now h d =
     (if h_is_oauth h then
        Option.bind
          (fetch_optional (\<lambda>a. oa_id a = h_authorization_id h \<and> oa_tenant_id a = h_tenant_id h
                               \<and> oauth_active now a) (db_oauth d))
          oa_connected_client_pubkey
      else
        Option.bind
          (fetch_optional (\<lambda>a. au_id a = h_authorization_id h \<and> au_tenant_id a = h_tenant_id h
                               \<and> team_unexpired now a) (db_authorizations d))
          au_connected_client_pubkey)"

definition store_client :: "timestamp \<Rightarrow> bool \<Rightarrow> pubkey \<Rightarrow> int \<Rightarrow> 'j db \<Rightarrow> 'j db" where
  "store_client now is_oauth client auth_id d =
     (if is_oauth then d\<lparr>db_oauth := store_connected_client now client auth_id (db_oauth d)\<rparr>
      else d\<lparr>db_authorizations := store_connected_team_client now client auth_id (db_authorizations d)\<rparr>)"

definition process_connect ::
    "'j ext \<Rightarrow> timestamp \<Rightarrow> nip46_handler \<Rightarrow> pubkey \<Rightarrow> string \<Rightarrow> 'j db
      \<Rightarrow> (signer_error + string) \<times> 'j db" where
  "process_connect X now h client provided_secret d =
     (if \<not> verify_secret X provided_secret (h_secret_hash h)
      then (Inl (SePermissionDenied ''Invalid secret''), d)
      else (case existing_client now h d of
              Some existing \<Rightarrow>
                (if existing = client then (Inr ''ack'', d)
                 else (Inl (SePermissionDenied ''Secret already used by another client''), d))
            | None \<Rightarrow> (Inr ''ack'', store_client now (h_is_oauth h) client (h_authorization_id h) d)))"

definition client_connected :: "timestamp \<Rightarrow> bool \<Rightarrow> pubkey \<Rightarrow> pubkey \<Rightarrow> 'j db \<Rightarrow> bool" where
  "client_connected now is_oauth bunker client d =
     (if is_oauth then
        exists_row (\<lambda>a. oa_bunker_public_key a = bunker \<and> oa_connected_client_pubkey a = Some client
                        \<and> oauth_active now a) (db_oauth d)
      else
        exists_row (\<lambda>a. au_bunker_public_key a = bunker \<and> au_connected_client_pubkey a = Some client
                        \<and> team_unexpired now a) (db_authorizations d))"

definition unconnected_id :: "timestamp \<Rightarrow> bool \<Rightarrow> pubkey \<Rightarrow> 'j db \<Rightarrow> int option" where
  "unconnected_id now is_oauth bunker d =
     (if is_oauth then
        map_option oa_id
          (fetch_optional (\<lambda>a. oa_bunker_public_key a = bunker \<and> oa_connected_client_pubkey a = None
                               \<and> oauth_active now a) (db_oauth d))
      else
        map_option au_id
          (fetch_optional (\<lambda>a. au_bunker_public_key a = bunker \<and> au_connected_client_pubkey a = None
                               \<and> team_unexpired now a) (db_authorizations d)))"

definition validate_client ::
    "'j ext \<Rightarrow> timestamp \<Rightarrow> nip46_handler \<Rightarrow> pubkey \<Rightarrow> 'j db \<Rightarrow> signer_error + unit" where
  "validate_client X now h client d =
     (let bunker = public_key X (h_bunker_keys h)
      in if client_connected now (h_is_oauth h) bunker client d then Inr ()
         else if unconnected_id now (h_is_oauth h) bunker d \<noteq> None
         then Inl (SePermissionDenied ''Unknown client - must connect first'')
         else Inl (SePermissionDenied ''Unknown client - not connected to any authorization''))"

definition validate_and_store_client ::
    "'j ext \<Rightarrow> timestamp \<Rightarrow> nip46_handler \<Rightarrow> pubkey \<Rightarrow> 'j db \<Rightarrow> (signer_error + unit) \<times> 'j db" where
  "validate_and_store_client X now h client d =
     (let bunker = public_key X (h_bunker_keys h)
      in if client_connected now (h_is_oauth h) bunker client d then (Inr (), d)
         else (case unconnected_id now (h_is_oauth h) bunker d of
                 Some auth_id \<Rightarrow> (Inr (), store_client now (h_is_oauth h) client auth_id d)
               | None \<Rightarrow>
                   (Inl (SePermissionDenied ''Unknown client - not connected to any authorization''), d)))"

section \<open>State\<close>

type_synonym handler_cache = "pubkey \<Rightarrow> nip46_handler option"

record signer_metrics =
  m_cache_hits :: nat
  m_cache_misses :: nat
  m_requests_total :: nat
  m_rejected_hashring :: nat
  m_handler_not_found :: nat
  m_processed :: nat
  m_queue_dropped :: nat
  m_tombstone_responses :: nat

definition metrics_new :: signer_metrics where
  "metrics_new =
     \<lparr>m_cache_hits = 0, m_cache_misses = 0, m_requests_total = 0, m_rejected_hashring = 0,
      m_handler_not_found = 0, m_processed = 0, m_queue_dropped = 0, m_tombstone_responses = 0\<rparr>"

record 'j signer =
  sg_db :: "'j db"
  sg_cache :: handler_cache
  sg_sent :: "event list"
  sg_metrics :: signer_metrics

definition inc_cache_hit :: "'j signer \<Rightarrow> 'j signer" where
  "inc_cache_hit s = s\<lparr>sg_metrics := (sg_metrics s)\<lparr>m_cache_hits := m_cache_hits (sg_metrics s) + 1\<rparr>\<rparr>"

definition inc_cache_miss :: "'j signer \<Rightarrow> 'j signer" where
  "inc_cache_miss s = s\<lparr>sg_metrics := (sg_metrics s)\<lparr>m_cache_misses := m_cache_misses (sg_metrics s) + 1\<rparr>\<rparr>"

definition inc_nip46_request :: "'j signer \<Rightarrow> 'j signer" where
  "inc_nip46_request s =
     s\<lparr>sg_metrics := (sg_metrics s)\<lparr>m_requests_total := m_requests_total (sg_metrics s) + 1\<rparr>\<rparr>"

definition inc_nip46_rejected_hashring :: "'j signer \<Rightarrow> 'j signer" where
  "inc_nip46_rejected_hashring s =
     s\<lparr>sg_metrics := (sg_metrics s)\<lparr>m_rejected_hashring := m_rejected_hashring (sg_metrics s) + 1\<rparr>\<rparr>"

definition inc_nip46_handler_not_found :: "'j signer \<Rightarrow> 'j signer" where
  "inc_nip46_handler_not_found s =
     s\<lparr>sg_metrics := (sg_metrics s)\<lparr>m_handler_not_found := m_handler_not_found (sg_metrics s) + 1\<rparr>\<rparr>"

definition inc_nip46_processed :: "'j signer \<Rightarrow> 'j signer" where
  "inc_nip46_processed s =
     s\<lparr>sg_metrics := (sg_metrics s)\<lparr>m_processed := m_processed (sg_metrics s) + 1\<rparr>\<rparr>"

definition inc_nip46_tombstone_response :: "'j signer \<Rightarrow> 'j signer" where
  "inc_nip46_tombstone_response s =
     s\<lparr>sg_metrics := (sg_metrics s)\<lparr>m_tombstone_responses := m_tombstone_responses (sg_metrics s) + 1\<rparr>\<rparr>"

definition cache_insert :: "pubkey \<Rightarrow> nip46_handler \<Rightarrow> 'j signer \<Rightarrow> 'j signer" where
  "cache_insert k h s = s\<lparr>sg_cache := (sg_cache s)(k := Some h)\<rparr>"

section \<open>Loading handlers\<close>

text \<open>
  The tail the four loading paths share: decrypt the stored key, read it as a secret key, derive
  the bunker key from it and the secret hash.
\<close>

definition unlock_keys ::
    "'j ext \<Rightarrow> string \<Rightarrow> bytes \<Rightarrow> string \<Rightarrow> signer_error + seckey \<times> seckey" where
  "unlock_keys X invalid_message encrypted secret_hash =
     and_then (map_err SeEncryption (km_decrypt X encrypted))
       (\<lambda>secret. and_then (map_err (\<lambda>e. SeInvalidKey (invalid_message @ e)) (sk_from_slice X secret))
          (\<lambda>user_keys. and_then (ok_or (SePanic ''no bunker key'') (derive_bunker_keys X user_keys secret_hash))
             (\<lambda>bunker_keys. Inr (user_keys, bunker_keys))))"

definition fetch_personal_key :: "'j db \<Rightarrow> pubkey \<Rightarrow> int \<Rightarrow> signer_error + bytes" where
  "fetch_personal_key d user_pubkey tenant_id =
     ok_or (SeDatabase row_not_found)
       (map_option pk_encrypted_secret_key
         (fetch_optional (\<lambda>k. pk_user_pubkey k = user_pubkey \<and> pk_tenant_id k = tenant_id)
           (db_personal_keys d)))"

definition fetch_stored_key_secret :: "'j db \<Rightarrow> int \<Rightarrow> int \<Rightarrow> signer_error + bytes" where
  "fetch_stored_key_secret d stored_key_id tenant_id =
     ok_or (SeDatabase row_not_found)
       (map_option sk_secret_key
         (fetch_optional (\<lambda>k. sk_id k = stored_key_id \<and> sk_tenant_id k = tenant_id)
           (db_stored_keys d)))"

definition handler_from_oauth ::
    "'j ext \<Rightarrow> string \<Rightarrow> 'j db \<Rightarrow> oauth_authorization \<Rightarrow> int \<Rightarrow> handler_status \<times> timestamp option
      \<Rightarrow> signer_error + nip46_handler" where
  "handler_from_oauth X invalid_message d a tenant_id st =
     and_then (fetch_personal_key d (oa_user_pubkey a) tenant_id)
       (\<lambda>encrypted. and_then (unlock_keys X invalid_message encrypted (oa_secret_hash a))
          (\<lambda>(user_keys, bunker_keys).
             Inr \<lparr>h_bunker_keys = bunker_keys, h_user_keys = user_keys,
                  h_secret_hash = oa_secret_hash a, h_authorization_id = oa_id a,
                  h_tenant_id = tenant_id, h_is_oauth = True, h_status = fst st,
                  h_tombstone_at = snd st\<rparr>))"

definition handler_from_team ::
    "'j ext \<Rightarrow> 'j db \<Rightarrow> authorization \<Rightarrow> int \<Rightarrow> handler_status \<times> timestamp option
      \<Rightarrow> signer_error + nip46_handler" where
  "handler_from_team X d a tenant_id st =
     and_then (fetch_stored_key_secret d (au_stored_key_id a) tenant_id)
       (\<lambda>encrypted. and_then (unlock_keys X ''Invalid user secret key: '' encrypted (au_secret_hash a))
          (\<lambda>(user_keys, bunker_keys).
             Inr \<lparr>h_bunker_keys = bunker_keys, h_user_keys = user_keys,
                  h_secret_hash = au_secret_hash a, h_authorization_id = au_id a,
                  h_tenant_id = tenant_id, h_is_oauth = False, h_status = fst st,
                  h_tombstone_at = snd st\<rparr>))"

text \<open>
  \<open>load_single_authorization\<close>, run for an \<open>Upsert\<close> command. Its team query binds the integer column
  \<open>stored_key_id\<close> to an \<open>i64\<close>; \<open>reads_int4\<close> says whether the driver decodes that.
\<close>

definition load_single_authorization ::
    "'j ext \<Rightarrow> bool \<Rightarrow> timestamp \<Rightarrow> pubkey \<Rightarrow> int \<Rightarrow> bool \<Rightarrow> 'j signer
      \<Rightarrow> (signer_error + unit) \<times> 'j signer" where
  "load_single_authorization X reads_int4 now bunker tenant_id is_oauth s =
     (let d = sg_db s in
      if is_oauth then
        (case fetch_optional (\<lambda>a. oa_bunker_public_key a = bunker \<and> oa_tenant_id a = tenant_id
                                  \<and> oauth_active now a) (db_oauth d) of
           None \<Rightarrow> (Inr (), s)
         | Some a \<Rightarrow>
             (case handler_from_oauth X ''Invalid user secret key: '' d a tenant_id (Active, None) of
                Inl e \<Rightarrow> (Inl e, s)
              | Inr h \<Rightarrow> (Inr (), cache_insert bunker h s)))
      else
        (case fetch_optional (\<lambda>a. au_tenant_id a = tenant_id \<and> au_bunker_public_key a = bunker
                                  \<and> \<not> is_set (au_revoked_at a)) (db_authorizations d) of
           None \<Rightarrow> (Inr (), s)
         | Some a \<Rightarrow>
             (if \<not> reads_int4 then
                (Inl (SeDatabase ''error occurred while decoding column stored_key_id: mismatched types''), s)
              else (case handler_from_team X d a tenant_id (Active, None) of
                      Inl e \<Rightarrow> (Inl e, s)
                    | Inr h \<Rightarrow> (Inr (), cache_insert bunker h s)))))"

text \<open>The cache miss of \<open>handle_nip46_request\<close>: OAuth rows first, then team rows, any status.\<close>

definition load_on_demand ::
    "'j ext \<Rightarrow> timestamp \<Rightarrow> pubkey \<Rightarrow> 'j signer
      \<Rightarrow> (signer_error + nip46_handler option) \<times> 'j signer" where
  "load_on_demand X now bunker s =
     (let d = sg_db s in
      case fetch_optional (\<lambda>a. oa_bunker_public_key a = bunker) (db_oauth d) of
        Some a \<Rightarrow>
          (case handler_from_oauth X ''Invalid user key: '' d a (oa_tenant_id a)
                  (compute_status_from_oauth now a) of
             Inl e \<Rightarrow> (Inl e, s)
           | Inr h \<Rightarrow> (Inr (Some h), cache_insert bunker h s))
      | None \<Rightarrow>
          (case fetch_optional (\<lambda>a. au_bunker_public_key a = bunker) (db_authorizations d) of
             Some a \<Rightarrow>
               (case handler_from_team X d a (au_tenant_id a) (compute_status_from_team now a) of
                  Inl e \<Rightarrow> (Inl e, s)
                | Inr h \<Rightarrow> (Inr (Some h), cache_insert bunker h s))
           | None \<Rightarrow> (Inr None, inc_nip46_handler_not_found s)))"

definition find_handler ::
    "'j ext \<Rightarrow> timestamp \<Rightarrow> pubkey \<Rightarrow> 'j signer
      \<Rightarrow> (signer_error + nip46_handler option) \<times> 'j signer" where
  "find_handler X now bunker s =
     (case sg_cache s bunker of
        Some h \<Rightarrow> (Inr (Some h), inc_cache_hit s)
      | None \<Rightarrow> load_on_demand X now bunker (inc_cache_miss s))"

section \<open>The authorization channel and the clean-up task\<close>

datatype authorization_command =
    Upsert pubkey int bool
  | Remove pubkey
  | ReloadAll

fun handle_command ::
    "'j ext \<Rightarrow> bool \<Rightarrow> timestamp \<Rightarrow> authorization_command \<Rightarrow> 'j signer \<Rightarrow> 'j signer" where
  "handle_command X reads_int4 now (Upsert bunker tenant_id is_oauth) s =
     snd (load_single_authorization X reads_int4 now bunker tenant_id is_oauth s)"
| "handle_command X reads_int4 now (Remove bunker) s =
     (case sg_cache s bunker of
        Some h \<Rightarrow> cache_insert bunker (h\<lparr>h_status := Revoked, h_tombstone_at := Some now\<rparr>) s
      | None \<Rightarrow> s)"
| "handle_command X reads_int4 now ReloadAll s = s"

definition old_tombstone :: "timestamp \<Rightarrow> nip46_handler \<Rightarrow> bool" where
  "old_tombstone now h \<longleftrightarrow>
     (case h_tombstone_at h of None \<Rightarrow> False | Some t \<Rightarrow> t < now - hours 24)"

definition cleanup_tombstones :: "timestamp \<Rightarrow> 'j signer \<Rightarrow> 'j signer" where
  "cleanup_tombstones now s =
     s\<lparr>sg_cache := (\<lambda>k. case sg_cache s k of
                          None \<Rightarrow> None
                        | Some h \<Rightarrow> if old_tombstone now h then None else Some h)\<rparr>"

section \<open>Signing\<close>

definition spawn_update_activity :: "timestamp \<Rightarrow> nip46_handler \<Rightarrow> 'j db \<Rightarrow> 'j db" where
  "spawn_update_activity now h d =
     (if h_is_oauth h then
        d\<lparr>db_oauth := record_activity now
            (\<lambda>a. oa_id a = h_authorization_id h \<and> oa_tenant_id a = h_tenant_id h) (db_oauth d)\<rparr>
      else d)"

text \<open>Elements of \<open>tags\<close> that are not arrays, and arrays without strings, are skipped.\<close>

fun parse_tags :: "'j ext \<Rightarrow> 'j list \<Rightarrow> signer_error + string list list" where
  "parse_tags X [] = Inr []"
| "parse_tags X (tag_arr # rest) =
     (case json_array X tag_arr of
        None \<Rightarrow> parse_tags X rest
      | Some arr \<Rightarrow>
          (let tag_strs = List.map_filter (json_str X) arr
           in if tag_strs = [] then parse_tags X rest
              else and_then (map_err SeTagParse (tag_parse X tag_strs))
                     (\<lambda>t. and_then (parse_tags X rest) (\<lambda>ts. Inr (t # ts)))))"

text \<open>The event a \<open>sign_event\<close> request asks for; the kind is truncated to 16 bits.\<close>

definition requested_event :: "'j ext \<Rightarrow> nip46_handler \<Rightarrow> 'j \<Rightarrow> signer_error + unsigned_event" where
  "requested_event X h request =
     and_then (ok_or (SeMissingParameter ''event'') (json_str X (json_at X (json_key X request ''params'') 0)))
       (\<lambda>event_json. and_then (map_err SeJson (json_parse X event_json))
       (\<lambda>ue. and_then (ok_or (SeMissingParameter ''kind'') (json_u64 X (json_key X ue ''kind'')))
       (\<lambda>kind. and_then (ok_or (SeMissingParameter ''content'') (json_str X (json_key X ue ''content'')))
       (\<lambda>content. and_then (ok_or (SeMissingParameter ''created_at'') (json_u64 X (json_key X ue ''created_at'')))
       (\<lambda>created_at. and_then (ok_or (SeMissingParameter ''tags'') (json_array X (json_key X ue ''tags'')))
       (\<lambda>tags_json. and_then (parse_tags X tags_json)
       (\<lambda>tags. Inr \<lparr>ue_pubkey = public_key X (h_user_keys h), ue_created_at = created_at,
                     ue_kind = ucast kind, ue_tags = tags, ue_content = content\<rparr>)))))))"

definition handle_sign_event ::
    "'j ext \<Rightarrow> timestamp \<Rightarrow> nip46_handler \<Rightarrow> 'j \<Rightarrow> 'j db \<Rightarrow> (signer_error + 'j rpc_response) \<times> 'j db" where
  "handle_sign_event X now h request d =
     (case requested_event X h request of
        Inl e \<Rightarrow> (Inl e, d)
      | Inr ue \<Rightarrow>
          (case validate_permissions_for_sign X d h ue of
             Inl e \<Rightarrow> (Inl e, d)
           | Inr _ \<Rightarrow>
               (case sign_built X (h_user_keys h) (ue_kind ue) (ue_content ue) (ue_tags ue)
                       (Some (ue_created_at ue)) of
                  Inl e \<Rightarrow> (Inl (SeEventBuilder e), d)
                | Inr signed_event \<Rightarrow>
                    (let d1 = spawn_update_activity now h d
                     in (case event_to_json X signed_event of
                           Inl e \<Rightarrow> (Inl (SeJson e), d1)
                         | Inr text \<Rightarrow> (Inr (RpcResult (json_key X request ''id'') text), d1))))))"

text \<open>\<open>SigningHandler::sign_event_direct\<close>: the in-process path of the API server.\<close>

definition sign_event_direct ::
    "'j ext \<Rightarrow> timestamp \<Rightarrow> nip46_handler \<Rightarrow> unsigned_event \<Rightarrow> 'j db \<Rightarrow> (signer_error + event) \<times> 'j db" where
  "sign_event_direct X now h ue d =
     (case validate_permissions_for_sign X d h ue of
        Inl e \<Rightarrow> (Inl e, d)
      | Inr _ \<Rightarrow>
          (case sign_unsigned X (h_user_keys h) ue of
             Inl e \<Rightarrow> (Inl (SeSigning e), d)
           | Inr signed_event \<Rightarrow> (Inr signed_event, spawn_update_activity now h d)))"

section \<open>Encryption methods\<close>

definition crypto_params :: "'j ext \<Rightarrow> string \<Rightarrow> 'j \<Rightarrow> signer_error + pubkey \<times> string" where
  "crypto_params X text_name request =
     and_then (ok_or (SeMissingParameter ''pubkey'') (json_str X (json_at X (json_key X request ''params'') 0)))
       (\<lambda>third_party_hex.
     and_then (ok_or (SeMissingParameter text_name) (json_str X (json_at X (json_key X request ''params'') 1)))
       (\<lambda>text.
     and_then (map_err SeInvalidKey (pk_from_hex (x_perm X) third_party_hex))
       (\<lambda>third_party. Inr (third_party, text))))"

definition handle_encrypt ::
    "'j ext \<Rightarrow> (seckey \<Rightarrow> pubkey \<Rightarrow> string \<Rightarrow> signer_error + string) \<Rightarrow> timestamp \<Rightarrow> nip46_handler
      \<Rightarrow> 'j \<Rightarrow> 'j db \<Rightarrow> (signer_error + 'j rpc_response) \<times> 'j db" where
  "handle_encrypt X encrypt now h request d =
     (case and_then (crypto_params X ''plaintext'' request)
             (\<lambda>(third_party, plaintext).
                and_then (validate_permissions_for_encrypt X d h plaintext third_party)
                  (\<lambda>_. encrypt (h_user_keys h) third_party plaintext)) of
        Inl e \<Rightarrow> (Inl e, d)
      | Inr ciphertext \<Rightarrow>
          (Inr (RpcResult (json_key X request ''id'') ciphertext), spawn_update_activity now h d))"

definition handle_decrypt ::
    "'j ext \<Rightarrow> (seckey \<Rightarrow> pubkey \<Rightarrow> string \<Rightarrow> signer_error + string) \<Rightarrow> timestamp \<Rightarrow> nip46_handler
      \<Rightarrow> 'j \<Rightarrow> 'j db \<Rightarrow> (signer_error + 'j rpc_response) \<times> 'j db" where
  "handle_decrypt X decrypt now h request d =
     (case and_then (crypto_params X ''ciphertext'' request)
             (\<lambda>(third_party, ciphertext).
                and_then (validate_permissions_for_decrypt X d h ciphertext third_party)
                  (\<lambda>_. decrypt (h_user_keys h) third_party ciphertext)) of
        Inl e \<Rightarrow> (Inl e, d)
      | Inr plaintext \<Rightarrow>
          (Inr (RpcResult (json_key X request ''id'') plaintext), spawn_update_activity now h d))"

definition nip44_enc :: "'j ext \<Rightarrow> seckey \<Rightarrow> pubkey \<Rightarrow> string \<Rightarrow> signer_error + string" where
  "nip44_enc X sk pk text = map_err SeNip44 (nip44_encrypt X sk pk text)"

definition nip44_dec :: "'j ext \<Rightarrow> seckey \<Rightarrow> pubkey \<Rightarrow> string \<Rightarrow> signer_error + string" where
  "nip44_dec X sk pk text = map_err SeNip44 (nip44_decrypt X sk pk text)"

definition nip04_enc :: "'j ext \<Rightarrow> seckey \<Rightarrow> pubkey \<Rightarrow> string \<Rightarrow> signer_error + string" where
  "nip04_enc X sk pk text = map_err SeNip04 (nip04_encrypt X sk pk text)"

definition nip04_dec :: "'j ext \<Rightarrow> seckey \<Rightarrow> pubkey \<Rightarrow> string \<Rightarrow> signer_error + string" where
  "nip04_dec X sk pk text = map_err SeNip04 (nip04_decrypt X sk pk text)"

section \<open>Requests\<close>

definition handle_connect ::
    "'j ext \<Rightarrow> timestamp \<Rightarrow> nip46_handler \<Rightarrow> pubkey \<Rightarrow> 'j \<Rightarrow> 'j db \<Rightarrow> 'j rpc_response \<times> 'j db" where
  "handle_connect X now h client request d =
     (let request_id = json_key X request ''id''
      in case json_str X (json_at X (json_key X request ''params'') 1) of
           Some provided_secret \<Rightarrow>
             (case process_connect X now h client provided_secret d of
                (Inr result, d1) \<Rightarrow> (RpcResult request_id result, d1)
              | (Inl e, d1) \<Rightarrow> (RpcError request_id (signer_error_text e), d1))
         | None \<Rightarrow> (RpcResult request_id ''ack'', d))"

definition dispatch ::
    "'j ext \<Rightarrow> timestamp \<Rightarrow> nip46_handler \<Rightarrow> pubkey \<Rightarrow> string \<Rightarrow> 'j \<Rightarrow> 'j db
      \<Rightarrow> (signer_error + 'j rpc_response) \<times> 'j db" where
  "dispatch X now h client meth request d =
     (let request_id = json_key X request ''id'' in
      if meth = ''sign_event'' then handle_sign_event X now h request d
      else if meth = ''get_public_key'' then (Inr (RpcResult request_id (public_key X (h_user_keys h))), d)
      else if meth = ''connect'' then
        (case handle_connect X now h client request d of (r, d1) \<Rightarrow> (Inr r, d1))
      else if meth = ''nip44_encrypt'' then handle_encrypt X (nip44_enc X) now h request d
      else if meth = ''nip44_decrypt'' then handle_decrypt X (nip44_dec X) now h request d
      else if meth = ''nip04_encrypt'' then handle_encrypt X (nip04_enc X) now h request d
      else if meth = ''nip04_decrypt'' then handle_decrypt X (nip04_dec X) now h request d
      else (Inr (RpcError request_id (''Unsupported method: '' @ meth)), d))"

definition sensitive_methods :: "string list" where
  "sensitive_methods =
     [''sign_event'', ''nip44_encrypt'', ''nip44_decrypt'', ''nip04_encrypt'', ''nip04_decrypt'']"

text \<open>Decrypt with NIP-44, then with NIP-04; the answer uses the one that worked.\<close>

definition decrypt_request :: "'j ext \<Rightarrow> seckey \<Rightarrow> pubkey \<Rightarrow> string \<Rightarrow> signer_error + string \<times> bool" where
  "decrypt_request X secret sender content =
     (case nip44_decrypt X secret sender content of
        Inr text \<Rightarrow> Inr (text, True)
      | Inl _ \<Rightarrow> (case nip04_decrypt X secret sender content of
                   Inr text \<Rightarrow> Inr (text, False)
                 | Inl e \<Rightarrow> Inl (SeNip04 e)))"

definition encrypt_response :: "'j ext \<Rightarrow> seckey \<Rightarrow> pubkey \<Rightarrow> bool \<Rightarrow> string \<Rightarrow> signer_error + string" where
  "encrypt_response X secret client use_nip44 text =
     (if use_nip44 then nip44_enc X secret client text else nip04_enc X secret client text)"

definition NOSTR_CONNECT_KIND :: u16 where
  "NOSTR_CONNECT_KIND = 24133"

text \<open>
  Encrypt, build, sign and send an answer. Every answer is tagged with the client, and except for
  tombstones with the request's id; that tag is unwrapped, so a refused tag is a panic.
\<close>

definition response_tags :: "'j ext \<Rightarrow> event \<Rightarrow> bool \<Rightarrow> signer_error + string list list" where
  "response_tags X ev with_e =
     (if with_e then
        and_then (map_err SePanic (tag_parse X [''e'', ev_id ev]))
          (\<lambda>t. Inr [tag_public_key X (ev_pubkey ev), t])
      else Inr [tag_public_key X (ev_pubkey ev)])"

definition send_response ::
    "'j ext \<Rightarrow> (event \<Rightarrow> string + unit) \<Rightarrow> event \<Rightarrow> nip46_handler \<Rightarrow> bool \<Rightarrow> bool \<Rightarrow> 'j rpc_response
      \<Rightarrow> signer_error + event" where
  "send_response X send ev h use_nip44 with_e response =
     and_then (encrypt_response X (h_bunker_keys h) (ev_pubkey ev) use_nip44 (render_response X response))
       (\<lambda>content. and_then (response_tags X ev with_e)
         (\<lambda>tags. and_then (map_err SeEventBuilder
                      (sign_built X (h_bunker_keys h) NOSTR_CONNECT_KIND content tags None))
           (\<lambda>response_event. and_then (map_err SeClient (send response_event))
              (\<lambda>_. Inr response_event))))"

definition respond ::
    "'j ext \<Rightarrow> (event \<Rightarrow> string + unit) \<Rightarrow> event \<Rightarrow> nip46_handler \<Rightarrow> bool \<Rightarrow> bool \<Rightarrow> 'j rpc_response
      \<Rightarrow> 'j signer \<Rightarrow> (signer_error + unit) \<times> 'j signer" where
  "respond X send ev h use_nip44 with_e response s =
     (case send_response X send ev h use_nip44 with_e response of
        Inl e \<Rightarrow> (Inl e, s)
      | Inr response_event \<Rightarrow> (Inr (), s\<lparr>sg_sent := sg_sent s @ [response_event]\<rparr>))"

text \<open>From the method dispatch on: the part that may touch the user's key.\<close>

definition answer ::
    "'j ext \<Rightarrow> (event \<Rightarrow> string + unit) \<Rightarrow> timestamp \<Rightarrow> event \<Rightarrow> nip46_handler \<Rightarrow> bool \<Rightarrow> string \<Rightarrow> 'j
      \<Rightarrow> 'j signer \<Rightarrow> (signer_error + unit) \<times> 'j signer" where
  "answer X send now ev h use_nip44 meth request s =
     (case dispatch X now h (ev_pubkey ev) meth request (sg_db s) of
        (Inl e, d2) \<Rightarrow> (Inl e, s\<lparr>sg_db := d2\<rparr>)
      | (Inr response, d2) \<Rightarrow>
          (case respond X send ev h use_nip44 True response (s\<lparr>sg_db := d2\<rparr>) of
             (Inl e, s1) \<Rightarrow> (Inl e, s1)
           | (Inr _, s1) \<Rightarrow> (Inr (), inc_nip46_processed s1)))"

definition serve_active ::
    "'j ext \<Rightarrow> (event \<Rightarrow> string + unit) \<Rightarrow> timestamp \<Rightarrow> event \<Rightarrow> nip46_handler \<Rightarrow> bool \<Rightarrow> string \<Rightarrow> 'j
      \<Rightarrow> 'j signer \<Rightarrow> (signer_error + unit) \<times> 'j signer" where
  "serve_active X send now ev h use_nip44 meth request s =
     (if h_is_oauth h \<and> meth \<in> set sensitive_methods then
        (case validate_and_store_client X now h (ev_pubkey ev) (sg_db s) of
           (Inl e, d1) \<Rightarrow>
             respond X send ev h use_nip44 True
               (RpcError (json_key X request ''id'') (''Client not authorized: '' @ signer_error_text e))
               (s\<lparr>sg_db := d1\<rparr>)
         | (Inr _, d1) \<Rightarrow> answer X send now ev h use_nip44 meth request (s\<lparr>sg_db := d1\<rparr>))
      else answer X send now ev h use_nip44 meth request s)"

definition serve_request ::
    "'j ext \<Rightarrow> (event \<Rightarrow> string + unit) \<Rightarrow> timestamp \<Rightarrow> event \<Rightarrow> nip46_handler \<Rightarrow> 'j signer
      \<Rightarrow> (signer_error + unit) \<times> 'j signer" where
  "serve_request X send now ev h s =
     (case decrypt_request X (h_bunker_keys h) (ev_pubkey ev) (ev_content ev) of
        Inl e \<Rightarrow> (Inl e, s)
      | Inr (decrypted, use_nip44) \<Rightarrow>
          (case json_parse X decrypted of
             Inl e \<Rightarrow> (Inl (SeJson e), s)
           | Inr request \<Rightarrow>
               (case json_str X (json_key X request ''method'') of
                  None \<Rightarrow> (Inl (SeMissingParameter ''method''), s)
                | Some meth \<Rightarrow>
                    (case tombstone_error_message h of
                       Some error_message \<Rightarrow>
                         respond X send ev h use_nip44 False
                           (RpcError (json_key X request ''id'') error_message)
                           (inc_nip46_tombstone_response s)
                     | None \<Rightarrow> serve_active X send now ev h use_nip44 meth request s))))"

definition bunker_of :: "'j ext \<Rightarrow> event \<Rightarrow> pubkey option" where
  "bunker_of X ev = Option.bind (List.find (tag_is_p X) (ev_tags ev)) (tag_content X)"

definition handle_nip46_request ::
    "'j ext \<Rightarrow> (pubkey \<Rightarrow> bool) \<Rightarrow> (event \<Rightarrow> string + unit) \<Rightarrow> timestamp \<Rightarrow> event \<Rightarrow> 'j signer
      \<Rightarrow> (signer_error + unit) \<times> 'j signer" where
  "handle_nip46_request X owns send now ev s =
     (case bunker_of X ev of
        None \<Rightarrow> (Inl (SeMissingParameter ''p-tag''), s)
      | Some bunker \<Rightarrow>
          (if \<not> owns bunker then (Inr (), inc_nip46_rejected_hashring s)
           else (case find_handler X now bunker (inc_nip46_request s) of
                   (Inl e, s1) \<Rightarrow> (Inl e, s1)
                 | (Inr None, s1) \<Rightarrow> (Inr (), s1)
                 | (Inr (Some h), s1) \<Rightarrow> serve_request X send now ev h s1)))"

section \<open>The relay queue\<close>

definition QUEUE_CAPACITY :: nat where
  "QUEUE_CAPACITY = 4096"

datatype relay_queue_error = QueueFull | Disconnected

record relay_queue =
  q_items :: "(event \<times> pubkey) list"
  q_open :: bool

definition try_send ::
    "event \<times> pubkey \<Rightarrow> relay_queue \<Rightarrow> 'j signer \<Rightarrow> (relay_queue_error + unit) \<times> relay_queue \<times> 'j signer" where
  "try_send item q s =
     (if \<not> q_open q then (Inl Disconnected, q, s)
      else if QUEUE_CAPACITY \<le> length (q_items q) then
        (Inl QueueFull, q,
         s\<lparr>sg_metrics := (sg_metrics s)\<lparr>m_queue_dropped := m_queue_dropped (sg_metrics s) + 1\<rparr>\<rparr>)
      else (Inr (), q\<lparr>q_items := q_items q @ [item]\<rparr>, s))"

text \<open>A notification from the relay pool, with a queue in place.\<close>

definition on_notification :: "'j ext \<Rightarrow> event \<Rightarrow> relay_queue \<Rightarrow> 'j signer \<Rightarrow> relay_queue \<times> 'j signer" where
  "on_notification X ev q s =
     (if ev_kind ev \<noteq> NOSTR_CONNECT_KIND then (q, s)
      else (case bunker_of X ev of
              None \<Rightarrow> (q, s)
            | Some bunker \<Rightarrow> snd (try_send (ev, bunker) q s)))"

text \<open>One turn of a worker's loop: take an item and handle it; errors are only logged.\<close>

definition worker_turn ::
    "'j ext \<Rightarrow> (pubkey \<Rightarrow> bool) \<Rightarrow> (event \<Rightarrow> string + unit) \<Rightarrow> timestamp \<Rightarrow> relay_queue \<Rightarrow> 'j signer
      \<Rightarrow> relay_queue \<times> 'j signer" where
  "worker_turn X owns send now q s =
     (case q_items q of
        [] \<Rightarrow> (q, s)
      | (ev, bunker) # rest \<Rightarrow>
          (q\<lparr>q_items := rest\<rparr>, snd (handle_nip46_request X owns send now ev s)))"

section \<open>The API's view of the cache\<close>

definition get_handler_for_user :: "timestamp \<Rightarrow> pubkey \<Rightarrow> 'j signer \<Rightarrow> nip46_handler option" where
  "get_handler_for_user now user_pubkey s =
     (case newest_first (fetch_all (\<lambda>a. oa_user_pubkey a = user_pubkey \<and> oauth_active now a)
             (db_oauth (sg_db s))) of
        [] \<Rightarrow> None
      | a # _ \<Rightarrow> sg_cache s (oa_bunker_public_key a))"

end
