(* ===== verification/Samples.thy ===== *)
theory Samples
  imports OAuthAuthorizations TeamAuthorizations Crypto
begin

text \<open>
  A concrete world for the witnesses: JSON values as a datatype, a transparent cipher, and one
  user with one OAuth grant and one team key. The parameters of the development are instantiated
  by these functions only in witnesses.
\<close>

datatype jv = JNull | JStr string | JNum u64 | JArr "jv list" | JObj "(string \<times> jv) list"

fun jv_key :: "jv \<Rightarrow> string \<Rightarrow> jv" where
  "jv_key (JObj fs) k = (case map_of fs k of None \<Rightarrow> JNull | Some v \<Rightarrow> v)"
| "jv_key _ k = JNull"

fun jv_at :: "jv \<Rightarrow> nat \<Rightarrow> jv" where
  "jv_at (JArr xs) i = (if i < length xs then xs ! i else JNull)"
| "jv_at _ i = JNull"

fun jv_str :: "jv \<Rightarrow> string option" where
  "jv_str (JStr s) = Some s"
| "jv_str _ = None"

fun jv_u64 :: "jv \<Rightarrow> u64 option" where
  "jv_u64 (JNum n) = Some n"
| "jv_u64 _ = None"

fun jv_array :: "jv \<Rightarrow> jv list option" where
  "jv_array (JArr xs) = Some xs"
| "jv_array _ = None"

fun jv_render :: "jv rpc_response \<Rightarrow> string" where
  "jv_render (RpcResult i r) = ''result:'' @ r"
| "jv_render (RpcError i e) = ''error:'' @ e"

text \<open>A configuration is a number, the only kind allowed, or text, which does not deserialise.\<close>

definition sample_perm_ext :: "jv perm_ext" where
  "sample_perm_ext =
     \<lparr>de_allowed_kinds = (\<lambda>j. case j of JNum n \<Rightarrow> Inr (Some [ucast n]) | _ \<Rightarrow> Inl ''invalid type''),
      de_commerce_envelope = (\<lambda>j. case j of JStr m \<Rightarrow> Inr m | _ \<Rightarrow> Inl ''invalid type''),
      de_content_filter = (\<lambda>j. case j of JStr w \<Rightarrow> Inr (Some [w]) | _ \<Rightarrow> Inl ''invalid type''),
      de_decrypt_only = (\<lambda>j. Inr ()),
      pk_from_hex = Inr,
      parse_event_json = (\<lambda>s. Inl ''not an event''),
      tag_public_keys = concat\<rparr>"

definition sample_public_key :: "seckey \<Rightarrow> pubkey" where
  "sample_public_key sk = (if sk = [1] then ''alice'' else if sk = [2] then ''bunker1''
                           else if sk = [3] then ''team'' else if sk = [4] then ''bunker2'' else ''other'')"

text \<open>The bunker key of a secret key is its successor.\<close>

definition sample_ext :: "(string \<Rightarrow> jv option) \<Rightarrow> jv ext" where
  "sample_ext json =
     \<lparr>x_perm = sample_perm_ext, km_encrypt = Inr, km_decrypt = Inr, sk_from_slice = Inr,
      public_key = sample_public_key,
      hkdf_expand = (\<lambda>sk info. if sk = [1] then [2] else [4]),
      bcrypt_verify = (\<lambda>p h. Inr (p = h)),
      nip44_encrypt = (\<lambda>sk pk t. Inr t), nip44_decrypt = (\<lambda>sk pk t. Inr t),
      nip04_encrypt = (\<lambda>sk pk t. Inr t), nip04_decrypt = (\<lambda>sk pk t. Inr t),
      sign_built = (\<lambda>sk k c ts t. Inr \<lparr>ev_id = ''id'', ev_pubkey = sample_public_key sk,
         ev_created_at = (case t of None \<Rightarrow> 0 | Some n \<Rightarrow> n), ev_kind = k, ev_tags = ts,
         ev_content = c, ev_sig = ''sig''\<rparr>),
      sign_unsigned = (\<lambda>sk ue. Inr \<lparr>ev_id = ''id'', ev_pubkey = ue_pubkey ue,
         ev_created_at = ue_created_at ue, ev_kind = ue_kind ue, ev_tags = ue_tags ue,
         ev_content = ue_content ue, ev_sig = ''sig''\<rparr>),
      event_to_json = (\<lambda>e. Inr (ev_pubkey e @ '' signed '' @ ev_content e)),
      json_parse = (\<lambda>s. ok_or ''not JSON'' (json s)),
      json_key = jv_key, json_at = jv_at, json_str = jv_str, json_u64 = jv_u64,
      json_array = jv_array, render_response = jv_render,
      tag_parse = Inr, tag_is_p = (\<lambda>t. t \<noteq> [] \<and> hd t = ''p''),
      tag_content = (\<lambda>t. case t of _ # c # _ \<Rightarrow> Some c | _ \<Rightarrow> None),
      tag_public_key = (\<lambda>k. [''p'', k]), hex_decode = (\<lambda>s. Inr [])\<rparr>"

definition sample_json :: "string \<Rightarrow> jv option" where
  "sample_json =
     map_of
       [(''sign'', JObj [(''id'', JStr ''7''), (''method'', JStr ''sign_event''),
                         (''params'', JArr [JStr ''note''])]),
        (''connect'', JObj [(''id'', JStr ''1''), (''method'', JStr ''connect''),
                            (''params'', JArr [JStr ''bunker1'', JStr ''h''])]),
        (''encrypt'', JObj [(''id'', JStr ''8''), (''method'', JStr ''nip44_encrypt''),
                            (''params'', JArr [JStr ''bob'', JStr ''secret''])]),
        (''note'', JObj [(''kind'', JNum 1), (''content'', JStr ''hi''), (''created_at'', JNum 5),
                         (''tags'', JArr [])])]"

definition X0 :: "jv ext" where
  "X0 = sample_ext sample_json"

definition sample_request :: "pubkey \<Rightarrow> pubkey \<Rightarrow> string \<Rightarrow> event" where
  "sample_request client bunker content =
     \<lparr>ev_id = ''req'', ev_pubkey = client, ev_created_at = 0, ev_kind = 24133,
      ev_tags = [[''p'', bunker]], ev_content = content, ev_sig = ''s''\<rparr>"

text \<open>Kind 1 is the only kind that policy 1 allows.\<close>

definition world :: "jv db" where
  "world =
     empty_db\<lparr>db_users := [(blank_user ''alice'' 1 5)\<lparr>us_email := Some ''a@example.com''\<rparr>],
       db_personal_keys := [\<lparr>pk_user_pubkey = ''alice'', pk_encrypted_secret_key = [1],
                              pk_tenant_id = 1\<rparr>],
       db_oauth := [new_oauth_row 10 1 sample_params], db_oauth_seq := 2,
       db_stored_keys := [\<lparr>sk_id = 1, sk_tenant_id = 1, sk_team_id = 7, sk_name = ''main'', sk_pubkey = ''team'',
                           sk_secret_key = [3], sk_created_at = 5, sk_updated_at = 5\<rparr>],
       db_policies := [\<lparr>po_id = 1, po_name = ''notes'', po_team_id = None, po_slug = Some ''notes'',
                        po_display_name = None, po_description = None\<rparr>],
       db_permissions := [\<lparr>perm_id = 1, perm_identifier = ''allowed_kinds_notes'',
                           perm_config = JNum 1, perm_created_at = 0, perm_updated_at = 0\<rparr>],
       db_policy_permissions := [\<lparr>pp_policy_id = 1, pp_permission_id = 1\<rparr>]\<rparr>"

definition team_row :: authorization where
  "team_row =
     \<lparr>au_id = 1, au_tenant_id = 1, au_stored_key_id = 1, au_secret_hash = ''h2'',
      au_bunker_public_key = ''bunker2'', au_relays = ''[]'', au_policy_id = 1, au_max_uses = Some 1,
      au_expires_at = None, au_connected_client_pubkey = None, au_connected_at = None,
      au_label = None, au_created_at = 0, au_updated_at = 0, au_revoked_at = None,
      au_revoked_reason = None\<rparr>"

end
