(* ===== verification/SignerProofs.thy ===== *)
theory SignerProofs
  imports Signer Samples
begin

text \<open>
  What the signer daemon guarantees: a result leaves it only when every stored permission allows
  the operation, a revoked or expired OAuth grant never reaches the user's key even through a
  stale cache entry, one client per OAuth grant, and the invariants of the cache, the counters and
  the queue over every run.
\<close>

section \<open>Permission stacks\<close>

lemma check_each_ok: "check_each allows ps = Inr () \<longleftrightarrow> (\<forall>p\<in>set ps. allows p)"
  by (induction ps) auto

interpretation nip46_sign: restriction_stack can_sign "\<lambda>ps ev. check_each (\<lambda>p. can_sign p ev) ps"
  by unfold_locales (simp add: check_each_ok)

interpretation nip46_encrypt: restriction_stack
    "\<lambda>p (text, sender, recipient). can_encrypt X p text sender recipient"
    "\<lambda>ps (text, sender, recipient). check_each (\<lambda>p. can_encrypt X p text sender recipient) ps"
  for X :: "'j perm_ext"
  by unfold_locales (auto simp: check_each_ok)

interpretation nip46_decrypt: restriction_stack
    "\<lambda>p (text, sender, recipient). can_decrypt p text sender recipient"
    "\<lambda>ps (text, sender, recipient). check_each (\<lambda>p. can_decrypt p text sender recipient) ps"
  by unfold_locales (auto simp: check_each_ok)

lemmas validate_permissions_defs =
  validate_permissions_for_sign_def validate_permissions_for_encrypt_def
  validate_permissions_for_decrypt_def

lemma validate_sign_ok:
  "validate_permissions_for_sign X d h ue = Inr u \<longleftrightarrow>
     (\<exists>ps. load_permissions X d h = Inr ps \<and> (\<forall>p\<in>set ps. can_sign p ue))"
  by (auto simp: validate_permissions_defs and_then_Inr_iff check_each_ok)

lemma validate_encrypt_ok:
  "validate_permissions_for_encrypt X d h text pk = Inr u \<longleftrightarrow>
     (\<exists>ps. load_permissions X d h = Inr ps
       \<and> (\<forall>p\<in>set ps. can_encrypt (x_perm X) p text (public_key X (h_user_keys h)) pk))"
  by (auto simp: validate_permissions_defs and_then_Inr_iff check_each_ok Let_def)

lemma validate_decrypt_ok:
  "validate_permissions_for_decrypt X d h text pk = Inr u \<longleftrightarrow>
     (\<exists>ps. load_permissions X d h = Inr ps
       \<and> (\<forall>p\<in>set ps. can_decrypt p text pk (public_key X (h_user_keys h))))"
  by (auto simp: validate_permissions_defs and_then_Inr_iff check_each_ok Let_def)

text \<open>Loading succeeds exactly when every stored row converts; no row is dropped.\<close>

lemma load_permissions_all:
  "load_permissions X d h = Inr cs \<longleftrightarrow>
     (\<exists>ps. stored_permissions d h = Inr ps
        \<and> map (to_custom_permission (x_perm X)) ps = map Inr cs)"
  by (auto simp: load_permissions_def and_then_Inr_iff collect_results_map_err)

section \<open>Results and permissions\<close>

lemma handle_sign_event_ok:
  assumes "handle_sign_event X now h request d = (Inr r, d')"
  obtains ue ev msg where "requested_event X h request = Inr ue"
    "validate_permissions_for_sign X d h ue = Inr ()"
    "sign_built X (h_user_keys h) (ue_kind ue) (ue_content ue) (ue_tags ue)
       (Some (ue_created_at ue)) = Inr ev"
    "event_to_json X ev = Inr msg" "r = RpcResult (json_key X request ''id'') msg"
    "d' = spawn_update_activity now h d"
  using assms by (auto simp: handle_sign_event_def Let_def split: sum.splits)

lemma handle_encrypt_ok:
  assumes "handle_encrypt X enc now h request d = (Inr r, d')"
  obtains pk msg c where "crypto_params X ''plaintext'' request = Inr (pk, msg)"
    "validate_permissions_for_encrypt X d h msg pk = Inr ()" "enc (h_user_keys h) pk msg = Inr c"
    "r = RpcResult (json_key X request ''id'') c" "d' = spawn_update_activity now h d"
  using assms by (auto simp: handle_encrypt_def and_then_Inr_iff split: sum.splits prod.splits)

lemma handle_decrypt_ok:
  assumes "handle_decrypt X dec now h request d = (Inr r, d')"
  obtains pk msg c where "crypto_params X ''ciphertext'' request = Inr (pk, msg)"
    "validate_permissions_for_decrypt X d h msg pk = Inr ()" "dec (h_user_keys h) pk msg = Inr c"
    "r = RpcResult (json_key X request ''id'') c" "d' = spawn_update_activity now h d"
  using assms by (auto simp: handle_decrypt_def and_then_Inr_iff split: sum.splits prod.splits)

lemma requested_event_pubkey:
  "requested_event X h request = Inr ue \<Longrightarrow> ue_pubkey ue = public_key X (h_user_keys h)"
  by (auto simp: requested_event_def and_then_Inr_iff)

section \<open>Client validation\<close>

lemma client_check_denied:
  assumes "h_is_oauth h"
    and "\<forall>a\<in>set (db_oauth d). oa_bunker_public_key a = public_key X (h_bunker_keys h) \<longrightarrow>
           \<not> oauth_active now a"
  shows "validate_and_store_client X now h client d
         = (Inl (SePermissionDenied ''Unknown client - not connected to any authorization''), d)"
  using assms
  by (auto simp: validate_and_store_client_def client_connected_def unconnected_id_def
      exists_row_iff fetch_optional_None Let_def split: option.splits dest!: fetch_optional_Some)

lemma oauth_client_refused:
  assumes "h_is_oauth h" and "client \<noteq> c0"
    and "\<forall>a\<in>set (db_oauth d). oa_bunker_public_key a = public_key X (h_bunker_keys h)
           \<and> oauth_active now a \<longrightarrow> oa_connected_client_pubkey a = Some c0"
  shows "validate_and_store_client X now h client d
           = (Inl (SePermissionDenied ''Unknown client - not connected to any authorization''), d)"
  using assms
  by (fastforce simp: validate_and_store_client_def client_connected_def unconnected_id_def
      exists_row_iff Let_def split: option.splits dest!: fetch_optional_Some)

lemma oauth_client_bound:
  assumes "h_is_oauth h" and v: "validate_and_store_client X now h client d = (Inr (), d')"
  shows "client_connected now True (public_key X (h_bunker_keys h)) client d'"
proof (cases "client_connected now True (public_key X (h_bunker_keys h)) client d")
  case True
  then show ?thesis using v assms by (simp add: validate_and_store_client_def)
next
  let ?b = "public_key X (h_bunker_keys h)"
  case False
  then obtain i where i: "unconnected_id now True ?b d = Some i"
    and d': "d' = store_client now True client i d"
    using v assms by (auto simp: validate_and_store_client_def Let_def split: option.splits)
  from i obtain a where a: "a \<in> set (db_oauth d)" "oa_id a = i" "oa_bunker_public_key a = ?b"
    "oauth_active now a"
    by (auto simp: unconnected_id_def dest!: fetch_optional_Some)
  let ?f = "\<lambda>a. a\<lparr>oa_connected_client_pubkey := Some client, oa_connected_at := Some now,
                  oa_updated_at := now\<rparr>"
  have "?f a \<in> set (db_oauth d')"
    using update_where_hit [OF a(1), of "\<lambda>a. oa_id a = i" ?f] a(2)
    by (simp add: d' store_client_def store_connected_client_def)
  moreover have "oauth_active now (?f a)" using a(4) by (simp add: oauth_active_def)
  ultimately show ?thesis
    using a(3) by (auto simp: client_connected_def exists_row_iff intro!: bexI [of _ "?f a"])
qed

section \<open>Runs of the daemon\<close>

text \<open>
  One step: a request, a command from the channel, the clean-up task, the eviction of a cache
  entry, or any change of the database by another process.
\<close>

inductive signer_step ::
    "'j ext \<Rightarrow> (pubkey \<Rightarrow> bool) \<Rightarrow> (event \<Rightarrow> string + unit) \<Rightarrow> bool \<Rightarrow> 'j signer \<Rightarrow> 'j signer \<Rightarrow> bool"
  for X owns send reads_int4 where
  request: "signer_step X owns send reads_int4 s (snd (handle_nip46_request X owns send now ev s))"
| command: "signer_step X owns send reads_int4 s (handle_command X reads_int4 now c s)"
| cleanup: "signer_step X owns send reads_int4 s (cleanup_tombstones now s)"
| evict: "signer_step X owns send reads_int4 s (s\<lparr>sg_cache := (sg_cache s)(k := None)\<rparr>)"
| other_writer: "signer_step X owns send reads_int4 s (s\<lparr>sg_db := d\<rparr>)"

definition signer0 :: "'j db \<Rightarrow> 'j signer" where
  "signer0 d = \<lparr>sg_db = d, sg_cache = (\<lambda>k. None), sg_sent = [], sg_metrics = metrics_new\<rparr>"

definition signer_run ::
    "'j ext \<Rightarrow> (pubkey \<Rightarrow> bool) \<Rightarrow> (event \<Rightarrow> string + unit) \<Rightarrow> bool \<Rightarrow> 'j signer \<Rightarrow> 'j signer \<Rightarrow> bool" where
  "signer_run X owns send reads_int4 = (signer_step X owns send reads_int4)\<^sup>*\<^sup>*"

text \<open>A handler carries a tombstone time exactly when it is a tombstone.\<close>

definition handler_wf :: "nip46_handler \<Rightarrow> bool" where
  "handler_wf h \<longleftrightarrow> (is_tombstone h \<longleftrightarrow> is_set (h_tombstone_at h))"

definition signer_inv :: "'j signer \<Rightarrow> bool" where
  "signer_inv s \<longleftrightarrow>
     (\<forall>k h. sg_cache s k = Some h \<longrightarrow> handler_wf h)
     \<and> m_requests_total (sg_metrics s) = m_cache_hits (sg_metrics s) + m_cache_misses (sg_metrics s)
     \<and> m_handler_not_found (sg_metrics s) \<le> m_cache_misses (sg_metrics s)
     \<and> m_processed (sg_metrics s) \<le> length (sg_sent s)"

lemmas inc_defs =
  inc_cache_hit_def inc_cache_miss_def inc_nip46_request_def inc_nip46_rejected_hashring_def
  inc_nip46_handler_not_found_def inc_nip46_processed_def inc_nip46_tombstone_response_def

lemma status_wf:
  "compute_status_from_oauth now a = (st, t) \<Longrightarrow> (st \<noteq> Active \<longleftrightarrow> is_set t)"
  "compute_status_from_team now b = (st, t) \<Longrightarrow> (st \<noteq> Active \<longleftrightarrow> is_set t)"
  by (auto simp: compute_status_from_oauth_def compute_status_from_team_def
      split: if_splits option.splits) (metis is_set_simps(2))+

lemma handler_from_oauth_wf:
  "handler_from_oauth X m d a n st = Inr h \<Longrightarrow>
     h_status h = fst st \<and> h_tombstone_at h = snd st \<and> h_is_oauth h \<and> h_authorization_id h = oa_id a
     \<and> h_secret_hash h = oa_secret_hash a \<and> h_tenant_id h = n"
  by (auto simp: handler_from_oauth_def and_then_Inr_iff split: prod.splits)

lemma handler_from_team_wf:
  "handler_from_team X d a n st = Inr h \<Longrightarrow>
     h_status h = fst st \<and> h_tombstone_at h = snd st \<and> \<not> h_is_oauth h \<and> h_authorization_id h = au_id a
     \<and> h_secret_hash h = au_secret_hash a \<and> h_tenant_id h = n"
  by (auto simp: handler_from_team_def and_then_Inr_iff split: prod.splits)

lemma loaded_wf:
  "handler_from_oauth X m d a n (compute_status_from_oauth now a) = Inr h \<Longrightarrow> handler_wf h"
  "handler_from_team X d b n (compute_status_from_team now b) = Inr h \<Longrightarrow> handler_wf h"
  "handler_from_oauth X m d a n (Active, None) = Inr h \<Longrightarrow> handler_wf h"
  "handler_from_team X d b n (Active, None) = Inr h \<Longrightarrow> handler_wf h"
  by (cases "compute_status_from_oauth now a"; cases "compute_status_from_team now b";
      auto dest!: handler_from_oauth_wf handler_from_team_wf status_wf
        simp: handler_wf_def is_tombstone_def)+

text \<open>An answer is appended to the events sent, or the state stays as it is.\<close>

lemma respond_cases:
  obtains (sent) e where "respond X send ev h u w r s = (Inr (), s\<lparr>sg_sent := sg_sent s @ [e]\<rparr>)"
  | (failed) e where "respond X send ev h u w r s = (Inl e, s)"
proof (cases "send_response X send ev h u w r")
  case (Inl e)
  then show ?thesis using failed by (simp add: respond_def)
next
  case (Inr e)
  then show ?thesis using sent by (simp add: respond_def)
qed

lemma signer_inv_db [simp]: "signer_inv (s\<lparr>sg_db := d\<rparr>) = signer_inv s"
  by (simp add: signer_inv_def)

lemma signer_inv_sent: "signer_inv s \<Longrightarrow> signer_inv (s\<lparr>sg_sent := sg_sent s @ [e]\<rparr>)"
  by (simp add: signer_inv_def)

lemma signer_inv_processed:
  "signer_inv s \<Longrightarrow> signer_inv (inc_nip46_processed (s\<lparr>sg_sent := sg_sent s @ [e]\<rparr>))"
  by (simp add: signer_inv_def inc_defs)

lemma signer_inv_respond: "signer_inv s \<Longrightarrow> signer_inv (snd (respond X send ev h u w r s))"
  by (rule respond_cases [of X send ev h u w r s]) (simp_all add: signer_inv_sent)

lemma signer_inv_answer:
  assumes "signer_inv s"
  shows "signer_inv (snd (answer X send now ev h u meth request s))"
proof (cases "dispatch X now h (ev_pubkey ev) meth request (sg_db s)")
  case (Pair r d2)
  show ?thesis
  proof (cases r)
    case (Inl e)
    then show ?thesis using assms Pair by (simp add: answer_def)
  next
    case (Inr response)
    have i: "signer_inv (s\<lparr>sg_db := d2\<rparr>)" using assms by simp
    show ?thesis
      by (rule respond_cases [of X send ev h u True response "s\<lparr>sg_db := d2\<rparr>"])
         (use Pair Inr signer_inv_processed [OF i] i in \<open>simp_all add: answer_def\<close>)
  qed
qed

lemma signer_inv_serve_active:
  "signer_inv s \<Longrightarrow> signer_inv (snd (serve_active X send now ev h u meth request s))"
  by (auto simp: serve_active_def signer_inv_respond signer_inv_answer split: prod.splits sum.splits)

lemma signer_inv_serve_request:
  "signer_inv s \<Longrightarrow> signer_inv (snd (serve_request X send now ev h s))"
proof -
  assume i: "signer_inv s"
  have "signer_inv (inc_nip46_tombstone_response s)"
    using i by (simp add: signer_inv_def inc_defs)
  then show ?thesis
    using i by (auto simp: serve_request_def signer_inv_respond signer_inv_serve_active
        split: sum.splits prod.splits option.splits)
qed

lemma signer_inv_insert: "signer_inv s \<Longrightarrow> handler_wf h \<Longrightarrow> signer_inv (cache_insert k h s)"
  by (simp add: signer_inv_def cache_insert_def)

text \<open>A look-up keeps the counters balanced and caches well-formed handlers only.\<close>

lemma signer_inv_find_handler:
  assumes "signer_inv s"
  shows "signer_inv (snd (find_handler X now b (inc_nip46_request s)))"
proof (cases "sg_cache s b")
  case (Some h)
  then show ?thesis using assms by (auto simp: find_handler_def signer_inv_def inc_defs)
next
  case None
  let ?s = "inc_cache_miss (inc_nip46_request s)"
  have i: "signer_inv ?s" and n: "signer_inv (inc_nip46_handler_not_found ?s)"
    using assms by (auto simp: signer_inv_def inc_defs)
  have "find_handler X now b (inc_nip46_request s) = load_on_demand X now b ?s"
    using None by (simp add: find_handler_def inc_defs)
  then show ?thesis
    using i n by (auto simp: load_on_demand_def Let_def split: option.splits sum.splits
        intro: signer_inv_insert loaded_wf)
qed

lemma signer_inv_request:
  assumes "signer_inv s"
  shows "signer_inv (snd (handle_nip46_request X owns send now ev s))"
proof -
  have "signer_inv (inc_nip46_rejected_hashring s)"
    using assms by (simp add: signer_inv_def inc_defs)
  then show ?thesis
    using assms signer_inv_find_handler [OF assms, of X now]
    by (auto simp: handle_nip46_request_def split: option.splits prod.splits sum.splits
        intro!: signer_inv_serve_request) (metis snd_conv)+
qed

lemma signer_inv_command:
  assumes "signer_inv s"
  shows "signer_inv (handle_command X r now c s)"
proof (cases c)
  case (Upsert b n oa)
  then show ?thesis
    using assms by (auto simp: load_single_authorization_def Let_def split: option.splits sum.splits
        intro: signer_inv_insert loaded_wf)
next
  case (Remove b)
  then show ?thesis
    using assms by (auto split: option.splits intro!: signer_inv_insert
        simp: handler_wf_def is_tombstone_def)
qed (use assms in simp)

lemma signer_inv_step: "signer_step X owns send r s s' \<Longrightarrow> signer_inv s \<Longrightarrow> signer_inv s'"
proof (induction rule: signer_step.induct)
  case (cleanup s now)
  then show ?case by (auto simp: cleanup_tombstones_def signer_inv_def split: option.splits if_splits)
next
  case (evict s k)
  then show ?case by (auto simp: signer_inv_def)
qed (auto simp: signer_inv_request signer_inv_command)

lemma signer_inv_run: "signer_run X owns send r s s' \<Longrightarrow> signer_inv s \<Longrightarrow> signer_inv s'"
  unfolding signer_run_def by (induction rule: rtranclp_induct) (auto dest: signer_inv_step)

lemma signer_inv_init: "signer_inv (signer0 d)"
  by (simp add: signer_inv_def signer0_def metrics_new_def)

section \<open>Tombstones and refusals\<close>

text \<open>A tombstone answers with its error, if it can decrypt the request at all.\<close>

lemma serve_tombstone:
  assumes "tombstone_error_message h = Some m" and "serve_request X send now ev h s = (res, s')"
  shows "sg_db s' = sg_db s \<and> sg_cache s' = sg_cache s
         \<and> (s' = s \<or> s' = inc_nip46_tombstone_response s
            \<or> (\<exists>u i e. send_response X send ev h u False (RpcError i m) = Inr e
                 \<and> sg_sent s' = sg_sent s @ [e]))"
  using assms by (auto simp: serve_request_def respond_def inc_defs split: sum.splits prod.splits option.splits)

lemma status_agrees_with_sql: "fst (compute_status_from_oauth now a) = Active \<longleftrightarrow> oauth_active now a"
  by (auto simp: compute_status_from_oauth_def oauth_active_def is_set_iff split: option.splits)

lemma serve_active_denied:
  assumes "requested_event X h request = Inr ue"
    and "validate_and_store_client X now h (ev_pubkey ev) (sg_db s) = (Inr (), d')"
    and "h_is_oauth h" and "validate_permissions_for_sign X d' h ue = Inl e"
  shows "serve_active X send now ev h u ''sign_event'' request s = (Inl e, s\<lparr>sg_db := d'\<rparr>)"
  using assms
  by (simp add: serve_active_def sensitive_methods_def answer_def dispatch_def handle_sign_event_def)

section \<open>Properties\<close>


definition alice_handler :: nip46_handler where
  "alice_handler =
     \<lparr>h_bunker_keys = [2], h_user_keys = [1], h_secret_hash = ''h'', h_authorization_id = 1,
      h_tenant_id = 1, h_is_oauth = True, h_status = Active, h_tombstone_at = None\<rparr>"

definition sign_request :: jv where
  "sign_request = the (sample_json ''sign'')"


text \<open>
  C2. A dead OAuth grant never reaches the user's key: when no active grant has the bunker key of
  a cached handler, be the cache entry as stale as it may, a request for a sensitive method is
  answered with a client error and leaves the database as it is.
\<close>

theorem dead_grant_cannot_sign:
  assumes "h_is_oauth h" and "meth \<in> set sensitive_methods"
    and "\<forall>a\<in>set (db_oauth (sg_db s)).
           oa_bunker_public_key a = public_key X (h_bunker_keys h) \<longrightarrow> \<not> oauth_active now a"
  shows "serve_active X send now ev h u meth request s
         = respond X send ev h u True
             (RpcError (json_key X request ''id'')
                ''Client not authorized: Permission denied: Unknown client - not connected to any authorization'') s"
  using assms(1,2) client_check_denied [OF assms(1,3)] by (simp add: serve_active_def)

theorem dead_grant_cannot_sign_witness:
  "let s = signer0 (world\<lparr>db_oauth := oauth_revoke 15 1 (db_oauth world)\<rparr>);
       ev = sample_request ''c'' ''bunker1'' ''sign''
   in fst (serve_active X0 (\<lambda>_. Inr ()) 20 ev alice_handler True ''sign_event'' sign_request s) = Inr ()
      \<and> map ev_content (sg_sent (snd (serve_active X0 (\<lambda>_. Inr ()) 20 ev alice_handler True
            ''sign_event'' sign_request s)))
        = [''error:Client not authorized: Permission denied: Unknown client - not connected to any authorization'']"
proof -
  let ?s = "signer0 (world\<lparr>db_oauth := oauth_revoke 15 1 (db_oauth world)\<rparr>)"
  have o: "h_is_oauth alice_handler" by (simp add: alice_handler_def)
  have m: "''sign_event'' \<in> set sensitive_methods" by (simp add: sensitive_methods_def)
  have "\<forall>a\<in>set (db_oauth (sg_db ?s)).
          oa_bunker_public_key a = public_key X0 (h_bunker_keys alice_handler) \<longrightarrow> \<not> oauth_active 20 a"
    by (simp add: signer0_def oauth_revoke_def ball_update_where world_def oauth_active_def)
  note e = dead_grant_cannot_sign [OF o m this, of "\<lambda>_. Inr ()" "sample_request ''c'' ''bunker1'' ''sign''"
      True sign_request]
  show ?thesis unfolding Let_def e by code_simp
qed

text \<open>
  One client per OAuth grant: once every active grant of a bunker key is bound to a client, a
  sensitive request from any other client is refused and changes nothing; and a client that is
  let through is bound afterwards, so from then on it is the only one.
\<close>

theorem oauth_client_is_exclusive:
  assumes "h_is_oauth h"
    and "validate_and_store_client X t0 h c0 d = (Inr (), d')"
    and "\<forall>a\<in>set (db_oauth d'). \<forall>b\<in>set (db_oauth d').
           oa_bunker_public_key a = public_key X (h_bunker_keys h)
           \<and> oa_bunker_public_key b = public_key X (h_bunker_keys h) \<longrightarrow> a = b"
    and "client \<noteq> c0"
  shows "validate_and_store_client X t1 h client d'
           = (Inl (SePermissionDenied ''Unknown client - not connected to any authorization''), d')"
proof (rule oauth_client_refused [OF assms(1,4)])
  obtain a where "a \<in> set (db_oauth d')" "oa_bunker_public_key a = public_key X (h_bunker_keys h)"
    "oa_connected_client_pubkey a = Some c0"
    using oauth_client_bound [OF assms(1,2)] by (auto simp: client_connected_def exists_row_iff)
  then show "\<forall>a\<in>set (db_oauth d'). oa_bunker_public_key a = public_key X (h_bunker_keys h)
      \<and> oauth_active t1 a \<longrightarrow> oa_connected_client_pubkey a = Some c0"
    using assms(3) by metis
qed

lemmas sample_simps =
  alice_handler_def X0_def sample_ext_def sample_public_key_def world_def empty_db_def
  sample_params_def new_oauth_row_def oauth_active_def exists_row_def fetch_optional_Cons
  update_where_def Let_def

theorem oauth_client_is_exclusive_witness:
  "let d' = snd (validate_and_store_client X0 20 alice_handler ''c'' world)
   in validate_and_store_client X0 20 alice_handler ''c'' world = (Inr (), d')
      \<and> validate_and_store_client X0 30 alice_handler ''mallory'' d'
        = (Inl (SePermissionDenied ''Unknown client - not connected to any authorization''), d')"
proof -
  let ?d = "snd (validate_and_store_client X0 20 alice_handler ''c'' world)"
  have "fst (validate_and_store_client X0 20 alice_handler ''c'' world) = Inr ()" by code_simp
  then have v: "validate_and_store_client X0 20 alice_handler ''c'' world = (Inr (), ?d)"
    by (metis prod.collapse)
  have "length (db_oauth ?d) = 1" by code_simp
  then obtain a where "db_oauth ?d = [a]" by (auto simp: length_Suc_conv)
  then have u: "\<forall>a\<in>set (db_oauth ?d). \<forall>b\<in>set (db_oauth ?d).
      oa_bunker_public_key a = public_key X0 (h_bunker_keys alice_handler)
      \<and> oa_bunker_public_key b = public_key X0 (h_bunker_keys alice_handler) \<longrightarrow> a = b" by simp
  have o: "h_is_oauth alice_handler" by (simp add: alice_handler_def)
  show ?thesis
    using v oauth_client_is_exclusive [OF o v u, of "''mallory''" 30] by (simp add: Let_def)
qed

text \<open>
  The counters and the cache stay consistent in every run of the daemon, whatever other
  processes do to the database: every request this instance owns is a cache hit or a cache miss,
  an answered request has an event sent for it, and a cached handler has a tombstone time exactly
  when it is a tombstone.
\<close>

theorem signer_run_invariant:
  assumes "signer_run X owns send reads_int4 (signer0 d) s"
  shows "m_requests_total (sg_metrics s) = m_cache_hits (sg_metrics s) + m_cache_misses (sg_metrics s)
         \<and> m_handler_not_found (sg_metrics s) \<le> m_cache_misses (sg_metrics s)
         \<and> m_processed (sg_metrics s) \<le> length (sg_sent s)
         \<and> (\<forall>k h. sg_cache s k = Some h \<longrightarrow> (is_tombstone h \<longleftrightarrow> is_set (h_tombstone_at h)))"
  using signer_inv_run [OF assms signer_inv_init] by (simp add: signer_inv_def handler_wf_def)

theorem signer_run_invariant_witness:
  "let s = snd (handle_nip46_request X0 (\<lambda>_. True) (\<lambda>_. Inr ()) 20
             (sample_request ''c'' ''bunker1'' ''sign'') (signer0 world))
   in signer_run X0 (\<lambda>_. True) (\<lambda>_. Inr ()) False (signer0 world) s
      \<and> m_requests_total (sg_metrics s) = 1
      \<and> m_cache_hits (sg_metrics s) + m_cache_misses (sg_metrics s) = 1"
proof -
  let ?s = "snd (handle_nip46_request X0 (\<lambda>_. True) (\<lambda>_. Inr ()) 20
             (sample_request ''c'' ''bunker1'' ''sign'') (signer0 world))"
  have r: "signer_run X0 (\<lambda>_. True) (\<lambda>_. Inr ()) False (signer0 world) ?s"
    unfolding signer_run_def by (rule r_into_rtranclp) (rule signer_step.request)
  have "m_requests_total (sg_metrics ?s) = 1" by code_simp
  then show ?thesis using r signer_run_invariant [OF r] by (simp add: Let_def)
qed

text \<open>
  Revoking a team authorization does not stop its bunker: the row leaves the list of active
  authorizations, yet a request that misses the cache loads it as an active handler.
\<close>

theorem revoked_team_bunker_loads_active:
  assumes "fetch_optional (\<lambda>a. au_bunker_public_key a = bunker) (db_authorizations (sg_db s)) = Some a"
    and "is_set (au_revoked_at a)" and "au_expires_at a = None"
    and "\<forall>r\<in>set (db_oauth (sg_db s)). oa_bunker_public_key r \<noteq> bunker"
    and "load_on_demand X now bunker s = (Inr (Some h), s')"
  shows "h_status h = Active \<and> h_authorization_id h = au_id a \<and> sg_cache s' bunker = Some h
         \<and> tombstone_error_message h = None"
proof -
  have "fetch_optional (\<lambda>r. oa_bunker_public_key r = bunker) (db_oauth (sg_db s)) = None"
    using assms(4) by (simp add: fetch_optional_None)
  then have "handler_from_team X (sg_db s) a (au_tenant_id a) (Active, None) = Inr h"
    and "s' = cache_insert bunker h s"
    using assms(1,3,5)
    by (auto simp: load_on_demand_def Let_def compute_status_from_team_def split: sum.splits)
  then show ?thesis
    using handler_from_team_wf by (fastforce simp: cache_insert_def tombstone_error_message_def)
qed

definition revoked_team_world :: "jv db" where
  "revoked_team_world =
     world\<lparr>db_authorizations := snd (auth_revoke 15 1 1 None [team_row]), db_oauth := []\<rparr>"

theorem revoked_team_bunker_loads_active_witness:
  "auth_all_ids 1 (db_authorizations revoked_team_world) = []
   \<and> map_option h_status (sg_cache (snd (load_on_demand X0 20 ''bunker2'' (signer0 revoked_team_world)))
       ''bunker2'') = Some Active
   \<and> map ev_content (sg_sent (snd (handle_nip46_request X0 (\<lambda>_. True) (\<lambda>_. Inr ()) 20
        (sample_request ''anyone'' ''bunker2'' ''sign'') (signer0 revoked_team_world))))
     = [''result:team signed hi'']"
proof -
  let ?s = "signer0 revoked_team_world"
  let ?a = "team_row\<lparr>au_revoked_at := Some 15, au_revoked_reason := None, au_updated_at := 15\<rparr>"
  have rows: "db_authorizations (sg_db ?s) = [?a]" "db_oauth (sg_db ?s) = []"
    by (simp_all add: signer0_def revoked_team_world_def auth_revoke_def update_where_def
        auth_revocable_def team_row_def Let_def)
  have f: "fetch_optional (\<lambda>a. au_bunker_public_key a = ''bunker2'') (db_authorizations (sg_db ?s)) = Some ?a"
    by (simp add: rows fetch_optional_Cons team_row_def)
  have "\<not> isl (fst (load_on_demand X0 20 ''bunker2'' ?s))
      \<and> projr (fst (load_on_demand X0 20 ''bunker2'' ?s)) \<noteq> None" by code_simp
  then obtain h where h: "load_on_demand X0 20 ''bunker2'' ?s
      = (Inr (Some h), snd (load_on_demand X0 20 ''bunker2'' ?s))"
    by (metis option.exhaust prod.collapse sum.collapse(2))
  have "map_option h_status (sg_cache (snd (load_on_demand X0 20 ''bunker2'' ?s)) ''bunker2'') = Some Active"
    using revoked_team_bunker_loads_active [OF f _ _ _ h] rows by (simp add: team_row_def)
  moreover have "auth_all_ids 1 (db_authorizations revoked_team_world) = []"
    using rows by (simp add: signer0_def auth_all_ids_def fetch_all_def)
  moreover have "map ev_content (sg_sent (snd (handle_nip46_request X0 (\<lambda>_. True) (\<lambda>_. Inr ()) 20
        (sample_request ''anyone'' ''bunker2'' ''sign'') ?s))) = [''result:team signed hi'']"
    by code_simp
  ultimately show ?thesis by blast
qed

text \<open>
  After the channel has delivered a removal for a cached bunker, a request for it reads and
  writes no authorization and is answered, if at all, only with the revocation error.
\<close>

theorem removed_bunker_only_errors:
  assumes "sg_cache s bunker = Some h" and "bunker_of X ev = Some bunker" and "owns bunker"
    and "handle_nip46_request X owns send t1 ev (handle_command X r t0 (Remove bunker) s) = (res, s')"
  shows "sg_db s' = sg_db s
         \<and> (sg_sent s' = sg_sent s
            \<or> (\<exists>u i e. send_response X send ev (h\<lparr>h_status := Revoked, h_tombstone_at := Some t0\<rparr>) u
                    False (RpcError i ''Authorization has been revoked'') = Inr e
                 \<and> sg_sent s' = sg_sent s @ [e]))"
proof -
  let ?h = "h\<lparr>h_status := Revoked, h_tombstone_at := Some t0\<rparr>"
  let ?s = "inc_cache_hit (inc_nip46_request (cache_insert bunker ?h s))"
  have "serve_request X send t1 ev ?h ?s = (res, s')"
    using assms by (simp add: handle_nip46_request_def find_handler_def cache_insert_def inc_defs)
  moreover have "tombstone_error_message ?h = Some ''Authorization has been revoked''"
    by (simp add: tombstone_error_message_def)
  ultimately show ?thesis
    using serve_tombstone [of ?h "''Authorization has been revoked''" X send t1 ev ?s res s']
    by (auto simp: cache_insert_def inc_defs)
qed

definition cached_alice :: "jv signer" where
  "cached_alice = (signer0 world)\<lparr>sg_cache := (\<lambda>k. if k = ''bunker1'' then Some alice_handler else None)\<rparr>"

theorem removed_bunker_only_errors_witness:
  "let s' = snd (handle_nip46_request X0 (\<lambda>_. True) (\<lambda>_. Inr ()) 20
              (sample_request ''c'' ''bunker1'' ''sign'')
              (handle_command X0 False 15 (Remove ''bunker1'') cached_alice))
   in sg_db s' = sg_db cached_alice
      \<and> map ev_content (sg_sent s') = [''error:Authorization has been revoked'']"
proof -
  let ?ev = "sample_request ''c'' ''bunker1'' ''sign''"
  let ?r = "handle_nip46_request X0 (\<lambda>_. True) (\<lambda>_. Inr ()) 20 ?ev
              (handle_command X0 False 15 (Remove ''bunker1'') cached_alice)"
  have c: "sg_cache cached_alice ''bunker1'' = Some alice_handler" by (simp add: cached_alice_def)
  have b: "bunker_of X0 ?ev = Some ''bunker1''" by code_simp
  have "?r = (fst ?r, snd ?r)" by simp
  then have "sg_db (snd ?r) = sg_db cached_alice"
    using removed_bunker_only_errors [OF c b, of "\<lambda>_. True"] by blast
  moreover have "map ev_content (sg_sent (snd ?r)) = [''error:Authorization has been revoked'']"
    by code_simp
  ultimately show ?thesis by (simp add: Let_def)
qed

text \<open>
  A refused signature is silent: when a permission refuses a \<open>sign_event\<close> request the handler
  returns an error to its worker, and no answer is sent to the client.
\<close>

theorem denied_sign_request_is_silent:
  assumes "requested_event X h request = Inr ue"
    and "validate_and_store_client X now h (ev_pubkey ev) (sg_db s) = (Inr (), d')"
    and "h_is_oauth h" and "load_permissions X d' h = Inr ps"
    and "p \<in> set ps" and "\<not> can_sign p ue"
  shows "\<exists>e. fst (serve_active X send now ev h u ''sign_event'' request s) = Inl e
           \<and> sg_sent (snd (serve_active X send now ev h u ''sign_event'' request s)) = sg_sent s"
proof -
  have "check_each (\<lambda>p. can_sign p ue) ps \<noteq> Inr ()"
    using nip46_sign.denied_by_one assms(5,6) by blast
  then obtain e where "validate_permissions_for_sign X d' h ue = Inl e"
    using assms(4) by (cases "check_each (\<lambda>p. can_sign p ue) ps")
      (auto simp: validate_permissions_for_sign_def)
  then show ?thesis using serve_active_denied [OF assms(1-3)] by simp
qed

text \<open>The grant's policy allows kind 1 only; here it allows kind 7 only, and kind 1 is asked for.\<close>

definition strict_world :: "jv db" where
  "strict_world =
     world\<lparr>db_permissions := [\<lparr>perm_id = 1, perm_identifier = ''allowed_kinds'', perm_config = JNum 7,
                               perm_created_at = 0, perm_updated_at = 0\<rparr>]\<rparr>"

theorem denied_sign_request_is_silent_witness:
  "let r = serve_active X0 (\<lambda>_. Inr ()) 20 (sample_request ''c'' ''bunker1'' ''sign'') alice_handler True
             ''sign_event'' sign_request (signer0 strict_world)
   in fst r \<noteq> Inr () \<and> sg_sent (snd r) = []"
proof -
  let ?ev = "sample_request ''c'' ''bunker1'' ''sign''"
  let ?d = "snd (validate_and_store_client X0 20 alice_handler (ev_pubkey ?ev) strict_world)"
  have "\<not> isl (requested_event X0 alice_handler sign_request)
      \<and> ue_kind (projr (requested_event X0 alice_handler sign_request)) = 1" by code_simp
  then obtain ue where ue: "requested_event X0 alice_handler sign_request = Inr ue" "ue_kind ue = 1"
    by (metis sum.collapse(2))
  have "fst (validate_and_store_client X0 20 alice_handler (ev_pubkey ?ev) strict_world) = Inr ()"
    by code_simp
  then have v: "validate_and_store_client X0 20 alice_handler (ev_pubkey ?ev) (sg_db (signer0 strict_world))
      = (Inr (), ?d)" by (simp add: signer0_def prod_eq_iff)
  have o: "h_is_oauth alice_handler" by (simp add: alice_handler_def)
  have l: "load_permissions X0 ?d alice_handler = Inr [AllowedKinds (Some [7])]" by code_simp
  have "\<not> can_sign (AllowedKinds (Some [7])) ue" using ue(2) by (simp add: allowed_kinds_can_sign_def)
  from denied_sign_request_is_silent [OF ue(1) v o l _ this, of "\<lambda>_. Inr ()" True]
  show ?thesis by (auto simp: Let_def signer0_def)
qed

text \<open>
  A team bunker is not bound to a client: for a handler that is not an OAuth one, what a
  request gets does not depend on the client that sends it, connected or not, except for
  \<open>connect\<close> itself and the address of the answer.
\<close>

theorem team_bunker_ignores_client:
  assumes "\<not> h_is_oauth h" and "meth \<noteq> ''connect''"
  shows "dispatch X now h client meth request d = dispatch X now h client' meth request d
         \<and> serve_active X send now ev h u meth request s = answer X send now ev h u meth request s"
  using assms by (simp add: dispatch_def serve_active_def Let_def)

theorem team_bunker_ignores_client_witness:
  "\<not> h_is_oauth (alice_handler\<lparr>h_is_oauth := False\<rparr>)
   \<and> dispatch X0 20 (alice_handler\<lparr>h_is_oauth := False\<rparr>) ''c'' ''get_public_key'' JNull world
     = dispatch X0 20 (alice_handler\<lparr>h_is_oauth := False\<rparr>) ''d'' ''get_public_key'' JNull world"
proof -
  have t: "\<not> h_is_oauth (alice_handler\<lparr>h_is_oauth := False\<rparr>)" by simp
  have m: "''get_public_key'' \<noteq> ''connect''" by simp
  show ?thesis using team_bunker_ignores_client [OF t m, of X0 20 "''c''" JNull world "''d''"] t by blast
qed

end
