(* ===== verification/HttpRpc.thy ===== *)
theory HttpRpc
  imports OAuthAuthorizations Crypto
begin

text \<open>
  The REST transport: UCAN bearer tokens (\<open>api/src/ucan_auth/validation.rs\<close>, \<open>did.rs\<close>), the cached
  handler with its permission checks (\<open>api/src/handlers/http_rpc_handler.rs\<close>) and the endpoint
  \<open>POST /api/nostr\<close> (\<open>api/src/api/http/nostr_rpc.rs\<close>). The cache maps the hash of tenant and token
  to a handler; an expired idle entry is a missing one. The UCAN, BLAKE3 and base-58 crates and
  the server's configured key are parameters (\<open>http_world\<close>).
\<close>

section \<open>Tokens\<close>

record 'j ucan =
  uc_issuer :: string
  uc_audience :: string
  uc_facts :: "'j list"
  uc_payload :: string

record 'j http_world =
  hx :: "'j ext"
  ucan_parse :: "string \<Rightarrow> string + 'j ucan"
  ucan_check_signature :: "'j ucan \<Rightarrow> string + unit"
  ucan_is_expired :: "timestamp \<Rightarrow> 'j ucan \<Rightarrow> bool"
  fact_get :: "'j \<Rightarrow> string \<Rightarrow> 'j option"
  json_i64 :: "'j \<Rightarrow> int option"
  bs58_decode :: "string \<Rightarrow> string + bytes"
  pk_from_slice :: "bytes \<Rightarrow> string + pubkey"
  server_pubkey :: "string + pubkey"
  blake3 :: "bytes \<Rightarrow> cache_key"
  event_from_value :: "'j \<Rightarrow> string + unsigned_event"
  json_of_string :: "string \<Rightarrow> 'j"
  json_of_event :: "event \<Rightarrow> string + 'j"

definition did_to_nostr_pubkey :: "'j http_world \<Rightarrow> string \<Rightarrow> string + pubkey" where
  "did_to_nostr_pubkey X did =
     and_then (ok_or ''Invalid DID format'' (strip_prefix ''did:key:z'' did))
       (\<lambda>encoded. and_then (bs58_decode X encoded)
         (\<lambda>decoded. if take 2 decoded \<noteq> [0xe7, 0x01] then Inl ''Not a secp256k1 key''
                    else map_err (\<lambda>e. ''Invalid public key: '' @ e) (pk_from_slice X (drop 2 decoded))))"

text \<open>\<open>find_map\<close> over the facts: the first fact that has the key with a value of the type.\<close>

definition fact_str :: "'j http_world \<Rightarrow> string \<Rightarrow> 'j list \<Rightarrow> string option" where
  "fact_str X k facts =
     (case List.map_filter (\<lambda>f. Option.bind (fact_get X f k) (json_str (hx X))) facts of
        [] \<Rightarrow> None | v # _ \<Rightarrow> Some v)"

definition fact_i64 :: "'j http_world \<Rightarrow> string \<Rightarrow> 'j list \<Rightarrow> int option" where
  "fact_i64 X k facts =
     (case List.map_filter (\<lambda>f. Option.bind (fact_get X f k) (json_i64 X)) facts of
        [] \<Rightarrow> None | v # _ \<Rightarrow> Some v)"

definition check_tenant :: "'j http_world \<Rightarrow> int \<Rightarrow> 'j list \<Rightarrow> string + unit" where
  "check_tenant X expected_tenant_id facts =
     (if expected_tenant_id = 0 then Inr ()
      else (case fact_i64 X ''tenant_id'' facts of
              Some t \<Rightarrow> if t = expected_tenant_id then Inr () else Inl ''Tenant mismatch''
            | None \<Rightarrow> Inl ''UCAN missing tenant_id fact''))"

text \<open>The issuer is the user or the server; a key's hex text has 64 characters, so its first eight exist.\<close>

definition check_issuer :: "'j http_world \<Rightarrow> pubkey \<Rightarrow> pubkey \<Rightarrow> string + unit" where
  "check_issuer X issuer user =
     (if issuer = user then Inr ()
      else and_then (server_pubkey X)
             (\<lambda>server. if issuer = server then Inr ()
                else Inl (''Invalid UCAN issuer: must be signed by user ('' @ take 8 user
                       @ '') or server ('' @ take 8 server @ ''), got '' @ take 8 issuer)))"

definition validate_ucan_token ::
    "'j http_world \<Rightarrow> timestamp \<Rightarrow> string \<Rightarrow> int \<Rightarrow> string + pubkey \<times> string \<times> string option \<times> 'j ucan" where
  "validate_ucan_token X now auth_header expected_tenant_id =
     and_then (ok_or ''Invalid Authorization header format'' (strip_prefix ''Bearer '' auth_header))
       (\<lambda>token. and_then (ucan_parse X token)
       (\<lambda>u. and_then (map_err (\<lambda>e. ''UCAN signature verification failed: '' @ e) (ucan_check_signature X u))
       (\<lambda>_. if ucan_is_expired X now u then Inl ''Token expired'' else
         and_then (ok_or ''UCAN missing required redirect_origin fact'' (fact_str X ''redirect_origin'' (uc_facts u)))
       (\<lambda>redirect_origin.
         let bunker_pubkey = fact_str X ''bunker_pubkey'' (uc_facts u) in
         and_then (check_tenant X expected_tenant_id (uc_facts u))
       (\<lambda>_. and_then (did_to_nostr_pubkey X (uc_audience u))
       (\<lambda>user. and_then (did_to_nostr_pubkey X (uc_issuer u))
       (\<lambda>issuer. and_then (check_issuer X issuer user)
       (\<lambda>_. Inr (user, redirect_origin, bunker_pubkey, u)))))))))"

definition is_server_signed :: "'j http_world \<Rightarrow> 'j ucan \<Rightarrow> bool" where
  "is_server_signed X u =
     (case (did_to_nostr_pubkey X (uc_issuer u), server_pubkey X) of
        (Inr issuer, Inr server) \<Rightarrow> issuer = server
      | _ \<Rightarrow> False)"

section \<open>Handlers\<close>

datatype handler_error =
    AuthorizationInvalid
  | PermissionDenied
  | HeSigning string
  | HeEncryption string

record http_handler =
  hh_signing :: seckey
  hh_authorization_id :: int
  hh_user_pubkey :: pubkey
  hh_expires_at :: "timestamp option"
  hh_revoked_at :: "timestamp option"
  hh_permissions :: "custom_permission list"
  hh_is_oauth :: bool
  hh_bunker_pubkey :: cache_key
  hh_authorization_handle :: cache_key

definition http_handler_new ::
    "'j http_world \<Rightarrow> seckey \<Rightarrow> int \<Rightarrow> timestamp option \<Rightarrow> timestamp option \<Rightarrow> custom_permission list
      \<Rightarrow> bool \<Rightarrow> cache_key \<Rightarrow> cache_key \<Rightarrow> http_handler" where
  "http_handler_new X signing authorization_id expires_at revoked_at permissions is_oauth bunker handle =
     \<lparr>hh_signing = signing, hh_authorization_id = authorization_id,
      hh_user_pubkey = public_key (hx X) signing, hh_expires_at = expires_at,
      hh_revoked_at = revoked_at, hh_permissions = permissions, hh_is_oauth = is_oauth,
      hh_bunker_pubkey = bunker, hh_authorization_handle = handle\<rparr>"

definition is_valid :: "timestamp \<Rightarrow> http_handler \<Rightarrow> bool" where
  "is_valid now h =
     (if is_set (hh_revoked_at h) then False
      else (case hh_expires_at h of
              Some expires \<Rightarrow> if expires < now then False else True
            | None \<Rightarrow> True))"

definition validate_sign_permission :: "http_handler \<Rightarrow> unsigned_event \<Rightarrow> handler_error + unit" where
  "validate_sign_permission h ev =
     (if hh_permissions h = [] then Inr ()
      else if list_all (\<lambda>p. can_sign p ev) (hh_permissions h) then Inr () else Inl PermissionDenied)"

definition validate_encrypt_permission ::
    "'j http_world \<Rightarrow> http_handler \<Rightarrow> string \<Rightarrow> pubkey \<Rightarrow> handler_error + unit" where
  "validate_encrypt_permission X h plaintext recipient =
     (if hh_permissions h = [] then Inr ()
      else if list_all (\<lambda>p. can_encrypt (x_perm (hx X)) p plaintext (hh_user_pubkey h) recipient)
                (hh_permissions h)
      then Inr () else Inl PermissionDenied)"

definition validate_decrypt_permission ::
    "http_handler \<Rightarrow> string \<Rightarrow> pubkey \<Rightarrow> handler_error + unit" where
  "validate_decrypt_permission h ciphertext sender =
     (if hh_permissions h = [] then Inr ()
      else if list_all (\<lambda>p. can_decrypt p ciphertext sender (hh_user_pubkey h)) (hh_permissions h)
      then Inr () else Inl PermissionDenied)"

fun session_error_text :: "session_error \<Rightarrow> string" where
  "session_error_text InvalidKeyLength = ''invalid key length (expected 32 bytes)''"
| "session_error_text (HexDecode e) = ''hex decode error: '' @ e"
| "session_error_text (SessionSigning e) = ''signing error: '' @ e"
| "session_error_text (SessionEncryption e) = ''encryption error: '' @ e"

definition http_sign_event ::
    "'j http_world \<Rightarrow> timestamp \<Rightarrow> http_handler \<Rightarrow> unsigned_event \<Rightarrow> handler_error + event" where
  "http_sign_event X now h ev =
     (if \<not> is_valid now h then Inl AuthorizationInvalid
      else and_then (validate_sign_permission h ev)
             (\<lambda>_. map_err (\<lambda>e. HeSigning (session_error_text e))
                    (session_sign_event (hx X) (hh_signing h) ev)))"

definition http_nip44_encrypt ::
    "'j http_world \<Rightarrow> timestamp \<Rightarrow> http_handler \<Rightarrow> pubkey \<Rightarrow> string \<Rightarrow> handler_error + string" where
  "http_nip44_encrypt X now h recipient plaintext =
     (if \<not> is_valid now h then Inl AuthorizationInvalid
      else and_then (validate_encrypt_permission X h plaintext recipient)
             (\<lambda>_. map_err (\<lambda>e. HeEncryption (session_error_text e))
                    (session_nip44_encrypt (hx X) (hh_signing h) recipient plaintext)))"

definition http_nip44_decrypt ::
    "'j http_world \<Rightarrow> timestamp \<Rightarrow> http_handler \<Rightarrow> pubkey \<Rightarrow> string \<Rightarrow> handler_error + string" where
  "http_nip44_decrypt X now h sender ciphertext =
     (if \<not> is_valid now h then Inl AuthorizationInvalid
      else and_then (validate_decrypt_permission h ciphertext sender)
             (\<lambda>_. map_err (\<lambda>e. HeEncryption (session_error_text e))
                    (session_nip44_decrypt (hx X) (hh_signing h) sender ciphertext)))"

definition http_nip04_encrypt ::
    "'j http_world \<Rightarrow> timestamp \<Rightarrow> http_handler \<Rightarrow> pubkey \<Rightarrow> string \<Rightarrow> handler_error + string" where
  "http_nip04_encrypt X now h recipient plaintext =
     (if \<not> is_valid now h then Inl AuthorizationInvalid
      else and_then (validate_encrypt_permission X h plaintext recipient)
             (\<lambda>_. map_err HeEncryption (nip04_encrypt (hx X) (hh_signing h) recipient plaintext)))"

definition http_nip04_decrypt ::
    "'j http_world \<Rightarrow> timestamp \<Rightarrow> http_handler \<Rightarrow> pubkey \<Rightarrow> string \<Rightarrow> handler_error + string" where
  "http_nip04_decrypt X now h sender ciphertext =
     (if \<not> is_valid now h then Inl AuthorizationInvalid
      else and_then (validate_decrypt_permission h ciphertext sender)
             (\<lambda>_. map_err HeEncryption (nip04_decrypt (hx X) (hh_signing h) sender ciphertext)))"

section \<open>The handler cache\<close>

type_synonym http_cache = "cache_key \<Rightarrow> http_handler option"

text \<open>
  \<open>closures_ok\<close>: whether the cache accepts an invalidation closure; it does when it was built with
  support for them, and otherwise the whole cache is given up.
\<close>

definition invalidate_handlers ::
    "bool \<Rightarrow> (http_handler \<Rightarrow> bool) \<Rightarrow> http_cache \<Rightarrow> http_cache" where
  "invalidate_handlers closures_ok matches cache =
     (if closures_ok then
        (\<lambda>k. case cache k of None \<Rightarrow> None | Some h \<Rightarrow> if matches h then None else Some h)
      else (\<lambda>k. None))"

definition invalidate_handlers_for_bunker ::
    "'j http_world \<Rightarrow> bool \<Rightarrow> string \<Rightarrow> http_cache \<Rightarrow> http_cache" where
  "invalidate_handlers_for_bunker X closures_ok bunker_hex cache =
     (case parse_cache_key (hx X) bunker_hex of
        Inr bunker_key \<Rightarrow> invalidate_handlers closures_ok (\<lambda>h. hh_bunker_pubkey h = bunker_key) cache
      | Inl _ \<Rightarrow> (\<lambda>k. None))"

definition invalidate_handlers_for_authorization :: "bool \<Rightarrow> int \<Rightarrow> http_cache \<Rightarrow> http_cache" where
  "invalidate_handlers_for_authorization closures_ok authorization_id cache =
     invalidate_handlers closures_ok
       (\<lambda>h. hh_is_oauth h \<and> hh_authorization_id h = authorization_id) cache"

definition invalidate_handlers_for_user :: "bool \<Rightarrow> pubkey \<Rightarrow> http_cache \<Rightarrow> http_cache" where
  "invalidate_handlers_for_user closures_ok user cache =
     invalidate_handlers closures_ok (\<lambda>h. hh_user_pubkey h = user) cache"

definition insert_handler_dual_key :: "http_handler \<Rightarrow> http_cache \<Rightarrow> http_cache" where
  "insert_handler_dual_key h cache =
     cache(hh_authorization_handle h := Some h, hh_bunker_pubkey h := Some h)"

section \<open>Finding the handler of a request\<close>

datatype auth_error = MissingToken | InvalidToken | Forbidden string

datatype rpc_error =
    RpcAuth auth_error
  | InvalidParams string
  | UnsupportedMethod string
  | SigningFailed string
  | EncryptionFailed string
  | DecryptionFailed string
  | RpcInternal string

fun rpc_error_of :: "handler_error \<Rightarrow> rpc_error" where
  "rpc_error_of AuthorizationInvalid = RpcAuth InvalidToken"
| "rpc_error_of PermissionDenied = RpcAuth (Forbidden ''Operation denied by policy'')"
| "rpc_error_of (HeSigning m) = SigningFailed m"
| "rpc_error_of (HeEncryption m) = EncryptionFailed m"

record http_metrics =
  hm_requests_total :: nat
  hm_cache_hits :: nat
  hm_cache_misses :: nat
  hm_success :: nat
  hm_auth_errors :: nat

record 'j http_state =
  ht_db :: "'j db"
  ht_cache :: http_cache
  ht_metrics :: http_metrics

text \<open>\<open>i64::to_le_bytes\<close>, and the bytes of a string.\<close>

definition le_bytes :: "int \<Rightarrow> bytes" where
  "le_bytes n = map (\<lambda>i. word_of_int (n div 2 ^ (8 * i))) [0..<8]"

definition str_bytes :: "string \<Rightarrow> bytes" where
  "str_bytes s = map (\<lambda>c. word_of_nat (of_char c)) s"

definition compute_token_cache_key :: "'j http_world \<Rightarrow> string \<Rightarrow> int \<Rightarrow> cache_key option" where
  "compute_token_cache_key X auth_header tenant_id =
     map_option (\<lambda>token. blake3 X (le_bytes tenant_id @ str_bytes token))
       (strip_prefix ''Bearer '' auth_header)"

definition load_user_key :: "'j http_world \<Rightarrow> string \<Rightarrow> 'j db \<Rightarrow> pubkey \<Rightarrow> int \<Rightarrow> rpc_error + seckey" where
  "load_user_key X missing d user_pubkey tenant_id =
     and_then (ok_or (RpcInternal missing) (find_encrypted_key_for_tenant d user_pubkey tenant_id))
       (\<lambda>encrypted. and_then (map_err (\<lambda>e. RpcInternal (''Decryption failed: '' @ e)) (km_decrypt (hx X) encrypted))
         (\<lambda>secret. map_err (\<lambda>e. RpcInternal (''Invalid secret key bytes: '' @ e)) (sk_from_slice (hx X) secret)))"

definition load_handler_on_demand ::
    "'j http_world \<Rightarrow> 'j db \<Rightarrow> string \<Rightarrow> pubkey \<Rightarrow> int \<Rightarrow> rpc_error + http_handler" where
  "load_handler_on_demand X d bunker_hex token_user tenant_id =
     and_then (ok_or (RpcAuth InvalidToken) (find_by_bunker_pubkey bunker_hex (db_oauth d)))
       (\<lambda>(auth_id, user_pubkey, auth_handle_opt, expires_at, revoked_at, policy_id).
          if user_pubkey \<noteq> token_user then Inl (RpcAuth InvalidToken)
          else
            (let permissions = (case policy_id of
                    Some pid \<Rightarrow> filter_ok (map (to_custom_permission (x_perm (hx X))) (get_permissions d pid))
                  | None \<Rightarrow> [])
             in and_then (load_user_key X ''Personal keys not found'' d user_pubkey tenant_id)
                  (\<lambda>user_keys. and_then
                     (map_err (\<lambda>e. RpcInternal (''Invalid bunker_pubkey: '' @ session_error_text e))
                        (parse_cache_key (hx X) bunker_hex))
                  (\<lambda>bunker_key. and_then
                     (case auth_handle_opt of
                        Some handle \<Rightarrow>
                          map_err (\<lambda>e. RpcInternal (''Invalid authorization_handle: '' @ session_error_text e))
                            (parse_cache_key (hx X) handle)
                      | None \<Rightarrow> Inr bunker_key)
                  (\<lambda>auth_handle.
                     Inr (http_handler_new X user_keys auth_id expires_at revoked_at permissions True
                            bunker_key auth_handle))))))"

definition is_unclaimed :: "'j db \<Rightarrow> pubkey \<Rightarrow> int \<Rightarrow> bool option" where
  "is_unclaimed d pubkey tenant_id =
     map_option (\<lambda>u. us_email u = None)
       (fetch_optional (\<lambda>u. us_pubkey u = pubkey \<and> us_tenant_id u = tenant_id) (db_users d))"

definition load_preloaded_user_handler ::
    "'j http_world \<Rightarrow> 'j db \<Rightarrow> pubkey \<Rightarrow> int \<Rightarrow> rpc_error + http_handler" where
  "load_preloaded_user_handler X d user_pubkey tenant_id =
     (if is_unclaimed d user_pubkey tenant_id \<noteq> Some True then Inl (RpcAuth InvalidToken)
      else and_then (load_user_key X ''Personal keys not found for preloaded user'' d user_pubkey tenant_id)
        (\<lambda>user_keys. and_then
           (map_err (\<lambda>e. RpcInternal (''Invalid user_pubkey: '' @ session_error_text e))
              (parse_cache_key (hx X) user_pubkey))
        (\<lambda>key. Inr (http_handler_new X user_keys 0 None None [] False key key))))"

definition load_for_token ::
    "'j http_world \<Rightarrow> timestamp \<Rightarrow> string \<Rightarrow> int \<Rightarrow> 'j db \<Rightarrow> rpc_error + http_handler" where
  "load_for_token X now auth_header tenant_id d =
     and_then (map_err (\<lambda>_. RpcAuth InvalidToken) (validate_ucan_token X now auth_header tenant_id))
       (\<lambda>(user_pubkey, redirect_origin, bunker_pubkey, u).
          case bunker_pubkey of
            Some bunker_hex \<Rightarrow> load_handler_on_demand X d bunker_hex user_pubkey tenant_id
          | None \<Rightarrow>
              (if is_server_signed X u then load_preloaded_user_handler X d user_pubkey tenant_id
               else Inl (RpcAuth InvalidToken)))"

definition count_hit :: "'j http_state \<Rightarrow> 'j http_state" where
  "count_hit s = s\<lparr>ht_metrics := (ht_metrics s)\<lparr>hm_cache_hits := hm_cache_hits (ht_metrics s) + 1\<rparr>\<rparr>"

definition count_miss :: "'j http_state \<Rightarrow> 'j http_state" where
  "count_miss s = s\<lparr>ht_metrics := (ht_metrics s)\<lparr>hm_cache_misses := hm_cache_misses (ht_metrics s) + 1\<rparr>\<rparr>"

definition get_handler ::
    "'j http_world \<Rightarrow> timestamp \<Rightarrow> string \<Rightarrow> int \<Rightarrow> 'j http_state \<Rightarrow> (rpc_error + http_handler) \<times> 'j http_state" where
  "get_handler X now auth_header tenant_id s =
     (case compute_token_cache_key X auth_header tenant_id of
        None \<Rightarrow> (Inl (RpcAuth InvalidToken), s)
      | Some key \<Rightarrow>
          (case ht_cache s key of
             Some h \<Rightarrow>
               (if \<not> is_valid now h
                then (Inl (RpcAuth InvalidToken), s\<lparr>ht_cache := (ht_cache s)(key := None)\<rparr>)
                else (Inr h, count_hit s))
           | None \<Rightarrow>
               (case load_for_token X now auth_header tenant_id (ht_db s) of
                  Inl e \<Rightarrow> (Inl e, count_miss s)
                | Inr h \<Rightarrow>
                    (if \<not> is_valid now h then (Inl (RpcAuth InvalidToken), count_miss s)
                     else (Inr h, (count_miss s)\<lparr>ht_cache := (ht_cache s)(key := Some h)\<rparr>)))))"

section \<open>The endpoint\<close>

definition param_str :: "'j http_world \<Rightarrow> 'j list \<Rightarrow> nat \<Rightarrow> string option" where
  "param_str X params i = (if i < length params then json_str (hx X) (params ! i) else None)"

definition parse_unsigned_event :: "'j http_world \<Rightarrow> 'j list \<Rightarrow> rpc_error + unsigned_event" where
  "parse_unsigned_event X params =
     (case params of
        [] \<Rightarrow> Inl (InvalidParams ''Missing event parameter'')
      | event_value # _ \<Rightarrow>
          (case json_str (hx X) event_value of
             Some event_str \<Rightarrow>
               map_err (\<lambda>e. InvalidParams (''Invalid event JSON: '' @ e))
                 (parse_event_json (x_perm (hx X)) event_str)
           | None \<Rightarrow>
               map_err (\<lambda>e. InvalidParams (''Invalid event format: '' @ e)) (event_from_value X event_value)))"

definition parse_encrypt_params :: "'j http_world \<Rightarrow> 'j list \<Rightarrow> rpc_error + pubkey \<times> string" where
  "parse_encrypt_params X params =
     and_then (ok_or (InvalidParams ''Missing recipient pubkey parameter'') (param_str X params 0))
       (\<lambda>pubkey_hex. and_then (ok_or (InvalidParams ''Missing plaintext parameter'') (param_str X params 1))
         (\<lambda>plaintext. and_then (map_err (\<lambda>e. InvalidParams (''Invalid pubkey: '' @ e))
                        (pk_from_hex (x_perm (hx X)) pubkey_hex))
           (\<lambda>pubkey. Inr (pubkey, plaintext))))"

definition parse_decrypt_params :: "'j http_world \<Rightarrow> 'j list \<Rightarrow> rpc_error + pubkey \<times> string" where
  "parse_decrypt_params X params =
     and_then (ok_or (InvalidParams ''Missing sender pubkey parameter'') (param_str X params 0))
       (\<lambda>pubkey_hex. and_then (ok_or (InvalidParams ''Missing ciphertext parameter'') (param_str X params 1))
         (\<lambda>ciphertext. and_then (map_err (\<lambda>e. InvalidParams (''Invalid pubkey: '' @ e))
                        (pk_from_hex (x_perm (hx X)) pubkey_hex))
           (\<lambda>pubkey. Inr (pubkey, ciphertext))))"

definition spawn_log_activity :: "timestamp \<Rightarrow> http_handler \<Rightarrow> 'j db \<Rightarrow> 'j db" where
  "spawn_log_activity now h d =
     (if hh_is_oauth h
      then d\<lparr>db_oauth := record_activity now (\<lambda>a. oa_id a = hh_authorization_id h) (db_oauth d)\<rparr>
      else d)"

text \<open>
  The methods: the error or the JSON result, and whether activity is logged. A signed event whose
  serialisation fails is an error after the activity was logged.
\<close>

definition rpc_call ::
    "'j http_world \<Rightarrow> timestamp \<Rightarrow> http_handler \<Rightarrow> string \<Rightarrow> 'j list \<Rightarrow> (rpc_error + 'j) \<times> bool" where
  "rpc_call X now h meth params =
     (if meth = ''get_public_key'' then (Inr (json_of_string X (hh_user_pubkey h)), False)
      else if meth = ''sign_event'' then
        (case and_then (parse_unsigned_event X params)
                (\<lambda>ev. map_err rpc_error_of (http_sign_event X now h ev)) of
           Inl e \<Rightarrow> (Inl e, False)
         | Inr signed_ev \<Rightarrow>
             (map_err (\<lambda>e. RpcInternal (''JSON serialization failed: '' @ e)) (json_of_event X signed_ev), True))
      else if meth = ''nip44_encrypt'' then
        (case and_then (parse_encrypt_params X params)
                (\<lambda>(pk, t). map_err rpc_error_of (http_nip44_encrypt X now h pk t)) of
           Inl e \<Rightarrow> (Inl e, False) | Inr r \<Rightarrow> (Inr (json_of_string X r), True))
      else if meth = ''nip44_decrypt'' then
        (case and_then (parse_decrypt_params X params)
                (\<lambda>(pk, t). map_err rpc_error_of (http_nip44_decrypt X now h pk t)) of
           Inl e \<Rightarrow> (Inl e, False) | Inr r \<Rightarrow> (Inr (json_of_string X r), True))
      else if meth = ''nip04_encrypt'' then
        (case and_then (parse_encrypt_params X params)
                (\<lambda>(pk, t). map_err rpc_error_of (http_nip04_encrypt X now h pk t)) of
           Inl e \<Rightarrow> (Inl e, False) | Inr r \<Rightarrow> (Inr (json_of_string X r), True))
      else if meth = ''nip04_decrypt'' then
        (case and_then (parse_decrypt_params X params)
                (\<lambda>(pk, t). map_err rpc_error_of (http_nip04_decrypt X now h pk t)) of
           Inl e \<Rightarrow> (Inl e, False) | Inr r \<Rightarrow> (Inr (json_of_string X r), True))
      else (Inl (UnsupportedMethod meth), False))"

definition count_request :: "'j http_state \<Rightarrow> 'j http_state" where
  "count_request s = s\<lparr>ht_metrics := (ht_metrics s)\<lparr>hm_requests_total := hm_requests_total (ht_metrics s) + 1\<rparr>\<rparr>"

definition count_auth_error :: "'j http_state \<Rightarrow> 'j http_state" where
  "count_auth_error s = s\<lparr>ht_metrics := (ht_metrics s)\<lparr>hm_auth_errors := hm_auth_errors (ht_metrics s) + 1\<rparr>\<rparr>"

definition count_success :: "'j http_state \<Rightarrow> 'j http_state" where
  "count_success s = s\<lparr>ht_metrics := (ht_metrics s)\<lparr>hm_success := hm_success (ht_metrics s) + 1\<rparr>\<rparr>"

definition nostr_rpc ::
    "'j http_world \<Rightarrow> timestamp \<Rightarrow> int \<Rightarrow> string option \<Rightarrow> string \<Rightarrow> 'j list \<Rightarrow> 'j http_state
      \<Rightarrow> (rpc_error + 'j) \<times> 'j http_state" where
  "nostr_rpc X now tenant_id authorization_header meth params s0 =
     (let s = count_request s0 in
      case authorization_header of
        None \<Rightarrow> (Inl (RpcAuth MissingToken), s)
      | Some auth_header \<Rightarrow>
          (case get_handler X now auth_header tenant_id s of
             (Inl e, s1) \<Rightarrow> (Inl e, count_auth_error s1)
           | (Inr h, s1) \<Rightarrow>
               (let (r, logged) = rpc_call X now h meth params;
                    s2 = (if logged then s1\<lparr>ht_db := spawn_log_activity now h (ht_db s1)\<rparr> else s1)
                in case r of
                     Inl e \<Rightarrow> (Inl e, s2)
                   | Inr v \<Rightarrow> (Inr v, count_success s2))))"

end
