(* ===== verification/OAuthCodes.thy ===== *)
theory OAuthCodes
  imports OAuthAuthorizations HttpRpc
begin

text \<open>
  Authorization codes: \<open>core/src/repositories/oauth_code.rs\<close>, the statements of
  \<open>core/src/repositories/user.rs\<close> that the token exchange runs, and the pure checks of
  \<open>api/src/api/http/oauth.rs\<close> (PKCE, origins, policy scopes, the secret key embedded in a verifier).
  A check that can panic returns an option, \<open>None\<close> being the panic.
\<close>

section \<open>The repository\<close>

fun repository_error_text :: "repository_error \<Rightarrow> string" where
  "repository_error_text (NotFound m) = ''Not found: '' @ m"
| "repository_error_text Duplicate = ''Already exists''"
| "repository_error_text (Integrity m) = ''Integrity violation: '' @ m"
| "repository_error_text (Database m) = ''Database error: '' @ m"

record store_code_params =
  sc_tenant_id :: int
  sc_code :: string
  sc_user_pubkey :: pubkey
  sc_client_id :: string
  sc_redirect_uri :: string
  sc_scope :: string
  sc_code_challenge :: "string option"
  sc_code_challenge_method :: "string option"
  sc_expires_at :: timestamp
  sc_previous_auth_id :: "int option"
  sc_state :: "string option"
  sc_is_headless :: bool

record store_code_registration_params =
  sr_tenant_id :: int
  sr_code :: string
  sr_user_pubkey :: pubkey
  sr_client_id :: string
  sr_redirect_uri :: string
  sr_scope :: string
  sr_code_challenge :: "string option"
  sr_code_challenge_method :: "string option"
  sr_expires_at :: timestamp
  sr_pending_email :: string
  sr_pending_password_hash :: string
  sr_pending_email_verification_token :: string
  sr_pending_encrypted_secret :: "bytes option"
  sr_state :: "string option"
  sr_device_code :: "string option"
  sr_is_headless :: bool

text \<open>The code is the primary key of the table and the tenant a foreign key.\<close>

definition insert_code :: "oauth_code \<Rightarrow> 'j db \<Rightarrow> (repository_error + unit) \<times> 'j db" where
  "insert_code row d =
     (if exists_row (\<lambda>c. oc_code c = oc_code row) (db_oauth_codes d) then (Inl Duplicate, d)
      else if oc_tenant_id row \<notin> set (db_tenants d)
      then (Inl (fk_violation ''oauth_codes'' ''oauth_codes_tenant_id_fkey''), d)
      else (Inr (), d\<lparr>db_oauth_codes := db_oauth_codes d @ [row]\<rparr>))"

definition code_store ::
    "timestamp \<Rightarrow> store_code_params \<Rightarrow> 'j db \<Rightarrow> (repository_error + unit) \<times> 'j db" where
  "code_store now p d =
     insert_code
       \<lparr>oc_tenant_id = sc_tenant_id p, oc_code = sc_code p, oc_user_pubkey = sc_user_pubkey p,
        oc_client_id = sc_client_id p, oc_redirect_uri = sc_redirect_uri p, oc_scope = sc_scope p,
        oc_code_challenge = sc_code_challenge p, oc_code_challenge_method = sc_code_challenge_method p,
        oc_expires_at = sc_expires_at p, oc_created_at = now, oc_pending_email = None,
        oc_pending_password_hash = None, oc_pending_email_verification_token = None,
        oc_pending_encrypted_secret = None, oc_previous_auth_id = sc_previous_auth_id p,
        oc_state = sc_state p, oc_device_code = None, oc_is_headless = sc_is_headless p\<rparr> d"

definition code_store_with_pending_registration ::
    "timestamp \<Rightarrow> store_code_registration_params \<Rightarrow> 'j db \<Rightarrow> (repository_error + unit) \<times> 'j db" where
  "code_store_with_pending_registration now p d =
     insert_code
       \<lparr>oc_tenant_id = sr_tenant_id p, oc_code = sr_code p, oc_user_pubkey = sr_user_pubkey p,
        oc_client_id = sr_client_id p, oc_redirect_uri = sr_redirect_uri p, oc_scope = sr_scope p,
        oc_code_challenge = sr_code_challenge p, oc_code_challenge_method = sr_code_challenge_method p,
        oc_expires_at = sr_expires_at p, oc_created_at = now,
        oc_pending_email = Some (sr_pending_email p),
        oc_pending_password_hash = Some (sr_pending_password_hash p),
        oc_pending_email_verification_token = Some (sr_pending_email_verification_token p),
        oc_pending_encrypted_secret = sr_pending_encrypted_secret p, oc_previous_auth_id = None,
        oc_state = sr_state p, oc_device_code = sr_device_code p, oc_is_headless = sr_is_headless p\<rparr> d"

definition code_find_valid :: "timestamp \<Rightarrow> int \<Rightarrow> string \<Rightarrow> 'j db \<Rightarrow> oauth_code option" where
  "code_find_valid now tenant_id code d =
     fetch_optional (\<lambda>c. oc_tenant_id c = tenant_id \<and> oc_code c = code \<and> now < oc_expires_at c)
       (db_oauth_codes d)"

definition find_by_verification_token :: "timestamp \<Rightarrow> string \<Rightarrow> int \<Rightarrow> 'j db \<Rightarrow> oauth_code option" where
  "find_by_verification_token now token tenant_id d =
     fetch_optional (\<lambda>c. oc_pending_email_verification_token c = Some token \<and> oc_tenant_id c = tenant_id
                        \<and> now < oc_expires_at c) (db_oauth_codes d)"

definition delete_by_verification_token :: "string \<Rightarrow> int \<Rightarrow> 'j db \<Rightarrow> 'j db" where
  "delete_by_verification_token token tenant_id d =
     d\<lparr>db_oauth_codes :=
        delete_where (\<lambda>c. oc_pending_email_verification_token c = Some token \<and> oc_tenant_id c = tenant_id)
          (db_oauth_codes d)\<rparr>"

definition code_delete :: "int \<Rightarrow> string \<Rightarrow> 'j db \<Rightarrow> 'j db" where
  "code_delete tenant_id code d =
     d\<lparr>db_oauth_codes := delete_where (\<lambda>c. oc_tenant_id c = tenant_id \<and> oc_code c = code) (db_oauth_codes d)\<rparr>"

section \<open>Users\<close>

definition user_exists :: "pubkey \<Rightarrow> int \<Rightarrow> 'j db \<Rightarrow> bool" where
  "user_exists pubkey tenant_id d =
     is_set (fetch_optional (\<lambda>u. us_pubkey u = pubkey \<and> us_tenant_id u = tenant_id) (db_users d))"

definition find_pubkey_by_email :: "string \<Rightarrow> int \<Rightarrow> 'j db \<Rightarrow> pubkey option" where
  "find_pubkey_by_email email tenant_id d =
     map_option us_pubkey
       (fetch_optional (\<lambda>u. us_email u = Some email \<and> us_tenant_id u = tenant_id) (db_users d))"

text \<open>\<open>get_email\<close> reads the column as a plain string: a NULL email is a decoding error.\<close>

definition get_email :: "pubkey \<Rightarrow> int \<Rightarrow> 'j db \<Rightarrow> repository_error + string" where
  "get_email pubkey tenant_id d =
     and_then (fetch_one (\<lambda>u. us_pubkey u = pubkey \<and> us_tenant_id u = tenant_id) (db_users d))
       (\<lambda>u. ok_or unexpected_null (us_email u))"

text \<open>
  One transaction: the user, the key, the code. The public key is unique over all tenants and the
  email within one (\<open>users_pubkey_idx\<close>, \<open>idx_users_email_tenant\<close>); an error leaves everything as it was.
\<close>

definition finalize_oauth_registration ::
    "timestamp \<Rightarrow> pubkey \<Rightarrow> int \<Rightarrow> string \<Rightarrow> string \<Rightarrow> string \<Rightarrow> timestamp \<Rightarrow> bytes \<Rightarrow> string \<Rightarrow> 'j db
      \<Rightarrow> repository_error + 'j db" where
  "finalize_oauth_registration now pubkey tenant_id email password_hash token token_expires encrypted code d =
     (if exists_row (\<lambda>u. us_pubkey u = pubkey) (db_users d)
         \<or> exists_row (\<lambda>u. us_tenant_id u = tenant_id \<and> us_email u = Some email) (db_users d)
      then Inl Duplicate
      else if tenant_id \<notin> set (db_tenants d) then Inl (fk_violation ''users'' ''users_tenant_id_fkey'')
      else
        (let u = (blank_user pubkey tenant_id now)\<lparr>us_email := Some email,
                    us_password_hash := Some password_hash, us_email_verified := Some False,
                    us_email_verification_token := Some token,
                    us_email_verification_expires_at := Some token_expires\<rparr>
         in and_then (personal_keys_create pubkey encrypted tenant_id (d\<lparr>db_users := db_users d @ [u]\<rparr>))
              (\<lambda>d1. Inr (code_delete tenant_id code d1))))"

section \<open>Checks\<close>

datatype oauth_error =
    TooManyRequests
  | OAuthUnauthorized
  | InvalidRequest string
  | InvalidGrant string
  | OAuthDatabase string
  | OAuthEncryption string
  | ServerError string

text \<open>\<open>From<RepositoryError>\<close>.\<close>

definition oauth_error_of :: "repository_error \<Rightarrow> oauth_error" where
  "oauth_error_of e = InvalidRequest (repository_error_text e)"

definition is_ascii_hexdigit :: "char \<Rightarrow> bool" where
  "is_ascii_hexdigit c \<longleftrightarrow> c \<in> set ''0123456789abcdefABCDEF''"

definition extract_nsec_from_verifier_public :: "string \<Rightarrow> string option" where
  "extract_nsec_from_verifier_public verifier =
     (case split_once (CHR ''.'') verifier of
        Some (_, nsec) \<Rightarrow>
          (if starts_with nsec ''nsec1'' \<or> (length nsec = 64 \<and> list_all is_ascii_hexdigit nsec)
           then Some nsec else None)
      | None \<Rightarrow> None)"

text \<open>What the code reads of a parsed URL.\<close>

record url =
  url_scheme :: string
  url_host :: "string option"
  url_port :: "int option"

definition is_localhost :: "string \<Rightarrow> bool" where
  "is_localhost host \<longleftrightarrow> host \<in> {''localhost'', ''127.0.0.1'', ''[::1]'', ''::1''}"

definition extract_origin :: "(string \<Rightarrow> url option) \<Rightarrow> string \<Rightarrow> oauth_error + string" where
  "extract_origin url_parse redirect_uri =
     and_then (ok_or (InvalidRequest ''Invalid redirect_uri'') (url_parse redirect_uri))
       (\<lambda>url. and_then (ok_or (InvalidRequest ''redirect_uri missing host'') (url_host url))
         (\<lambda>host. let scheme = url_scheme url in
            if scheme = ''http'' \<or> scheme = ''https'' then
              (if scheme = ''http'' \<and> \<not> is_localhost host
               then Inl (InvalidRequest ''HTTPS required for non-localhost redirect_uri'')
               else Inr (case url_port url of
                           Some port \<Rightarrow> scheme @ ''://'' @ host @ '':'' @ show_int port
                         | None \<Rightarrow> scheme @ ''://'' @ host))
            else Inl (InvalidRequest (''Invalid redirect_uri scheme '' @ [CHR 0x27] @ scheme @ [CHR 0x27]
                   @ ''. Only https:// URLs are allowed (http:// for localhost only).''))))"

definition parse_policy_scope :: "string \<Rightarrow> oauth_error + string" where
  "parse_policy_scope scope =
     (case strip_prefix ''policy:'' scope of
        Some policy_slug \<Rightarrow>
          (if policy_slug = []
           then Inl (InvalidRequest (''Policy scope cannot be empty. Use '' @ [CHR 0x27] @ ''policy:social''
                  @ [CHR 0x27] @ '', '' @ [CHR 0x27] @ ''policy:readonly'' @ [CHR 0x27] @ '', etc.''))
           else Inr policy_slug)
      | None \<Rightarrow>
          Inl (InvalidRequest (''Invalid scope '' @ [CHR 0x27] @ scope @ [CHR 0x27] @ ''. Use '' @ [CHR 0x27]
            @ ''policy:social'' @ [CHR 0x27] @ '', '' @ [CHR 0x27] @ ''policy:readonly'' @ [CHR 0x27]
            @ '', etc. See GET /api/policies for available options.'')))"

text \<open>
  PKCE. \<open>s256\<close> is the base64url text of the SHA-256 of a string (43 characters). On a mismatch the
  warning prints the first sixteen bytes of the stored challenge, and a shorter one panics.
\<close>

definition validate_pkce ::
    "(string \<Rightarrow> string) \<Rightarrow> string \<Rightarrow> string \<Rightarrow> string \<Rightarrow> (oauth_error + unit) option" where
  "validate_pkce s256 code_verifier code_challenge code_challenge_method =
     (if code_challenge_method = ''S256'' then
        (let computed_challenge = s256 code_verifier in
         if computed_challenge \<noteq> code_challenge then
           (case (str_slice computed_challenge 0 16, str_slice code_challenge 0 16) of
              (Some _, Some _) \<Rightarrow> Some (Inl (InvalidRequest ''Invalid code_verifier: PKCE validation failed''))
            | _ \<Rightarrow> None)
         else Some (Inr ()))
      else if code_challenge_method = ''plain'' then
        Some (if code_verifier \<noteq> code_challenge
              then Inl (InvalidRequest ''Invalid code_verifier: plain PKCE validation failed'') else Inr ())
      else Some (Inl (InvalidRequest (''Unsupported code_challenge_method: '' @ code_challenge_method))))"

definition resolve_policy_from_scope :: "'j db \<Rightarrow> string \<Rightarrow> oauth_error + int" where
  "resolve_policy_from_scope d scope =
     and_then (parse_policy_scope scope)
       (\<lambda>policy_slug. and_then
          (map_err (\<lambda>e. case e of
               NotFound _ \<Rightarrow> InvalidRequest (''Unknown policy '' @ [CHR 0x27] @ policy_slug @ [CHR 0x27]
                 @ ''. See GET /api/policies for available options.'')
             | _ \<Rightarrow> OAuthDatabase (''encountered unexpected or invalid data: '' @ repository_error_text e))
            (policy_find_by_slug d policy_slug))
          (\<lambda>policy. Inr (po_id policy)))"

section \<open>Lemmas\<close>

lemma insert_code_ok:
  "insert_code row d = (Inr u, d') \<Longrightarrow> d' = d\<lparr>db_oauth_codes := db_oauth_codes d @ [row]\<rparr>
     \<and> (\<forall>c\<in>set (db_oauth_codes d). oc_code c \<noteq> oc_code row)"
  by (auto simp: insert_code_def exists_row_iff split: if_splits)

lemma code_delete_gone: "code_find_valid now tenant_id code (code_delete tenant_id code d) = None"
  by (auto simp: code_find_valid_def code_delete_def sql_simps)

lemma code_delete_simps [simp]:
  "db_users (code_delete t c d) = db_users d"
  "db_personal_keys (code_delete t c d) = db_personal_keys d"
  "db_oauth (code_delete t c d) = db_oauth d" "db_oauth_seq (code_delete t c d) = db_oauth_seq d"
  "db_refresh_tokens (code_delete t c d) = db_refresh_tokens d"
  "db_policies (code_delete t c d) = db_policies d" "db_tenants (code_delete t c d) = db_tenants d"
  by (simp_all add: code_delete_def)

lemma validate_pkce_ok:
  "validate_pkce s256 v c m = Some (Inr ()) \<longleftrightarrow> m = ''S256'' \<and> s256 v = c \<or> m = ''plain'' \<and> v = c"
  by (auto simp: validate_pkce_def Let_def split: if_splits option.splits)

end
