(* ===== verification/Tokens.thy ===== *)
theory Tokens
  imports OAuthAuthorizations
begin

text \<open>
  The one-time tokens: OAuth refresh tokens (\<open>core/src/repositories/refresh_token.rs\<close>), e-mail
  sign-in links (\<open>magic_link_token.rs\<close>), account claim tokens (\<open>claim_token.rs\<close>) and team
  invitations (\<open>team_invitation.rs\<close>). Each repository marks a token as used with one \<open>UPDATE\<close>
  whose \<open>WHERE\<close> clause excludes used rows. The locale \<open>one_time\<close> states what that promises, in any
  interleaving with the other statements of the repository; each repository interprets it.

  SHA-256 in hex is the parameter \<open>sha\<close>; random tokens are arguments.
\<close>

section \<open>The contract of a one-time token\<close>

text \<open>A call consumes the token \<open>k\<close>, with whatever else the statement binds, or is another statement.\<close>

datatype ('k, 'x, 'o) call = Consume timestamp 'k 'x | Other 'o

text \<open>How often, in a sequence of calls, consuming \<open>k\<close> succeeds.\<close>

fun uses ::
    "(timestamp \<Rightarrow> 'k \<Rightarrow> 'x \<Rightarrow> 's \<Rightarrow> 'a option \<times> 's) \<Rightarrow> ('o \<Rightarrow> 's \<Rightarrow> 's) \<Rightarrow> 'k
      \<Rightarrow> ('k, 'x, 'o) call list \<Rightarrow> 's \<Rightarrow> nat" where
  "uses consume step k [] s = 0"
| "uses consume step k (Consume now k' x # cs) s =
     (if k' = k \<and> fst (consume now k' x s) \<noteq> None then 1 else 0)
     + uses consume step k cs (snd (consume now k' x s))"
| "uses consume step k (Other op # cs) s = uses consume step k cs (step op s)"

definition reissued :: "('o \<Rightarrow> 'k \<Rightarrow> bool) \<Rightarrow> 'k \<Rightarrow> ('k, 'x, 'o) call list \<Rightarrow> bool" where
  "reissued issues k cs \<longleftrightarrow> list_ex (\<lambda>c. case c of Other op \<Rightarrow> issues op k | Consume _ _ _ \<Rightarrow> False) cs"

lemma reissued_simps [simp]:
  "reissued issues k [] = False"
  "reissued issues k (Consume now k' x # cs) = reissued issues k cs"
  "reissued issues k (Other op # cs) = (issues op k \<or> reissued issues k cs)"
  by (simp_all add: reissued_def)

locale one_time =
  fixes consume :: "timestamp \<Rightarrow> 'k \<Rightarrow> 'x \<Rightarrow> 's \<Rightarrow> 'a option \<times> 's"
    and step :: "'o \<Rightarrow> 's \<Rightarrow> 's"
    and issues :: "'o \<Rightarrow> 'k \<Rightarrow> bool"
    and spent :: "'k \<Rightarrow> 's \<Rightarrow> bool"
    and inv :: "'s \<Rightarrow> bool"
  assumes inv_consume: "inv s \<Longrightarrow> inv (snd (consume now k x s))"
    and inv_step: "inv s \<Longrightarrow> inv (step op s)"
    and consume_spends: "inv s \<Longrightarrow> fst (consume now k x s) \<noteq> None \<Longrightarrow> spent k (snd (consume now k x s))"
    and spent_fails: "spent k s \<Longrightarrow> fst (consume now k x s) = None"
    and consume_keeps: "spent k s \<Longrightarrow> spent k (snd (consume now k' x s))"
    and step_keeps: "spent k s \<Longrightarrow> \<not> issues op k \<Longrightarrow> spent k (step op s)"
begin

lemma spent_never_used: "spent k s \<Longrightarrow> \<not> reissued issues k cs \<Longrightarrow> uses consume step k cs s = 0"
proof (induction cs arbitrary: s)
  case (Cons c cs)
  then show ?case
    using consume_keeps spent_fails step_keeps by (cases c) auto
qed simp

lemma at_most_once: "inv s \<Longrightarrow> \<not> reissued issues k cs \<Longrightarrow> uses consume step k cs s \<le> 1"
proof (induction cs arbitrary: s)
  case (Cons c cs)
  show ?case
  proof (cases c)
    case (Consume now k' x)
    let ?s' = "snd (consume now k' x s)"
    have r: "\<not> reissued issues k cs" using Cons.prems Consume by simp
    have "k' = k \<Longrightarrow> fst (consume now k' x s) \<noteq> None \<Longrightarrow> uses consume step k cs ?s' = 0"
      by (simp add: consume_spends [OF Cons.prems(1)] spent_never_used [OF _ r])
    moreover have "uses consume step k cs ?s' \<le> 1"
      using Cons.IH [OF inv_consume [OF Cons.prems(1)] r] .
    ultimately show ?thesis using Consume by auto
  next
    case (Other op)
    then show ?thesis using Cons.IH [OF inv_step [OF Cons.prems(1)]] Cons.prems(2) by simp
  qed
qed simp

end

text \<open>
  What the four tables have in common: \<open>take\<close> is \<open>UPDATE ... WHERE key = h AND NOT used AND live
  RETURNING\<close>. Where keys are unique, it satisfies the laws above.
\<close>

locale token_table =
  fixes key :: "'r \<Rightarrow> 'h"
    and used :: "'r \<Rightarrow> bool"
    and live :: "timestamp \<Rightarrow> 'x \<Rightarrow> 'r \<Rightarrow> bool"
    and mark :: "timestamp \<Rightarrow> 'x \<Rightarrow> 'r \<Rightarrow> 'r"
  assumes mark_used: "used (mark now x r)"
    and mark_key: "key (mark now x r) = key r"
begin

definition hit :: "timestamp \<Rightarrow> 'h \<Rightarrow> 'x \<Rightarrow> 'r \<Rightarrow> bool" where
  "hit now h x r \<longleftrightarrow> key r = h \<and> \<not> used r \<and> live now x r"

definition all_used :: "'h \<Rightarrow> 'r list \<Rightarrow> bool" where
  "all_used h t \<longleftrightarrow> (\<forall>r\<in>set t. key r = h \<longrightarrow> used r)"

lemma take_keys: "map key (update_where (hit now h x) (mark now x) t) = map key t"
  by (rule map_update_where) (rule mark_key)

lemma all_used_take: "all_used h t \<Longrightarrow> all_used h (update_where (hit now h' x) (mark now x) t)"
  by (auto simp: all_used_def ball_update_where mark_used)

lemma all_used_misses: "all_used h t \<Longrightarrow> fetch_optional (hit now h x) t = None"
  by (auto simp: all_used_def hit_def fetch_optional_None)

lemma take_uses_up:
  assumes "distinct (map key t)" and "fetch_optional (hit now h x) t \<noteq> None"
  shows "all_used h (update_where (hit now h x) (mark now x) t)"
proof -
  from assms(2) obtain q where q: "q \<in> set t" "hit now h x q"
    using fetch_optional_Some by fastforce
  have "r = q" if "r \<in> set t" "key r = h" for r
    using assms(1) q that by (auto simp: hit_def distinct_map dest: inj_onD)
  then show ?thesis using q(2) by (auto simp: all_used_def ball_update_where mark_used)
qed

end

section \<open>Refresh tokens\<close>

definition REFRESH_TOKEN_EXPIRY_DAYS :: int where
  "REFRESH_TOKEN_EXPIRY_DAYS = 30"

text \<open>\<open>uq_refresh_token_hash\<close> is checked first, the authorization's foreign key after it.\<close>

definition refresh_create ::
    "(string \<Rightarrow> string) \<Rightarrow> timestamp \<Rightarrow> string \<Rightarrow> int \<Rightarrow> int \<Rightarrow> 'j db
      \<Rightarrow> (repository_error + refresh_token) \<times> 'j db" where
  "refresh_create sha now token authorization_id tenant_id d =
     (let token_hash = sha token;
          expires_at = now + days REFRESH_TOKEN_EXPIRY_DAYS;
          row = \<lparr>rt_id = db_refresh_seq d, rt_token_hash = token_hash,
                 rt_authorization_id = authorization_id, rt_tenant_id = tenant_id,
                 rt_created_at = now, rt_expires_at = expires_at, rt_consumed_at = None\<rparr>;
          d1 = d\<lparr>db_refresh_seq := db_refresh_seq d + 1\<rparr>
      in if exists_row (\<lambda>r. rt_token_hash r = token_hash) (db_refresh_tokens d)
         then (Inl Duplicate, d1)
         else if \<not> exists_row (\<lambda>a. oa_id a = authorization_id) (db_oauth d)
         then (Inl (fk_violation ''oauth_refresh_tokens''
                      ''oauth_refresh_tokens_authorization_id_fkey''), d1)
         else (Inr row, d1\<lparr>db_refresh_tokens := db_refresh_tokens d @ [row]\<rparr>))"

definition refresh_consumable :: "timestamp \<Rightarrow> string \<Rightarrow> refresh_token \<Rightarrow> bool" where
  "refresh_consumable now token_hash r \<longleftrightarrow>
     rt_token_hash r = token_hash \<and> \<not> is_set (rt_consumed_at r) \<and> now < rt_expires_at r"

definition refresh_consume ::
    "(string \<Rightarrow> string) \<Rightarrow> timestamp \<Rightarrow> string \<Rightarrow> 'j db \<Rightarrow> refresh_token option \<times> 'j db" where
  "refresh_consume sha now token d =
     (let token_hash = sha token;
          P = refresh_consumable now token_hash;
          f = (\<lambda>r. r\<lparr>rt_consumed_at := Some now\<rparr>)
      in (map_option f (fetch_optional P (db_refresh_tokens d)),
          d\<lparr>db_refresh_tokens := update_where P f (db_refresh_tokens d)\<rparr>))"

definition revoke_for_authorization :: "timestamp \<Rightarrow> int \<Rightarrow> 'j db \<Rightarrow> nat \<times> 'j db" where
  "revoke_for_authorization now authorization_id d =
     (let P = (\<lambda>r. rt_authorization_id r = authorization_id \<and> rt_consumed_at r = None)
      in (rows_affected P (db_refresh_tokens d),
          d\<lparr>db_refresh_tokens :=
             update_where P (\<lambda>r. r\<lparr>rt_consumed_at := Some now\<rparr>) (db_refresh_tokens d)\<rparr>))"

definition refresh_cleanup_old_tokens :: "timestamp \<Rightarrow> int \<Rightarrow> 'j db \<Rightarrow> nat \<times> 'j db" where
  "refresh_cleanup_old_tokens now days_old d =
     (let cutoff = now - days days_old;
          P = (\<lambda>r. (case rt_consumed_at r of None \<Rightarrow> False | Some c \<Rightarrow> c < cutoff)
                   \<or> rt_expires_at r < cutoff)
      in (rows_affected P (db_refresh_tokens d),
          d\<lparr>db_refresh_tokens := delete_where P (db_refresh_tokens d)\<rparr>))"

datatype refresh_op =
    RtCreate timestamp string int int
  | RtRevoke timestamp int
  | RtCleanup timestamp int

fun refresh_step :: "(string \<Rightarrow> string) \<Rightarrow> refresh_op \<Rightarrow> 'j db \<Rightarrow> 'j db" where
  "refresh_step sha (RtCreate now token a n) d = snd (refresh_create sha now token a n d)"
| "refresh_step sha (RtRevoke now a) d = snd (revoke_for_authorization now a d)"
| "refresh_step sha (RtCleanup now n) d = snd (refresh_cleanup_old_tokens now n d)"

fun refresh_issues :: "(string \<Rightarrow> string) \<Rightarrow> refresh_op \<Rightarrow> string \<Rightarrow> bool" where
  "refresh_issues sha (RtCreate now token a n) k = (sha token = sha k)"
| "refresh_issues sha _ k = False"

text \<open>Token hashes are unique.\<close>

definition refresh_hashes_unique :: "'j db \<Rightarrow> bool" where
  "refresh_hashes_unique d \<longleftrightarrow> distinct (map rt_token_hash (db_refresh_tokens d))"

definition refresh_spent :: "(string \<Rightarrow> string) \<Rightarrow> string \<Rightarrow> 'j db \<Rightarrow> bool" where
  "refresh_spent sha k d \<longleftrightarrow>
     (\<forall>r\<in>set (db_refresh_tokens d). rt_token_hash r = sha k \<longrightarrow> is_set (rt_consumed_at r))"

interpretation refresh_rows: token_table rt_token_hash "\<lambda>r. is_set (rt_consumed_at r)"
    "\<lambda>now (_::unit) r. now < rt_expires_at r" "\<lambda>now _ r. r\<lparr>rt_consumed_at := Some now\<rparr>"
  by unfold_locales simp_all

lemma refresh_consume_take:
  "refresh_consume sha now k d =
     (map_option (\<lambda>r. r\<lparr>rt_consumed_at := Some now\<rparr>)
        (fetch_optional (refresh_rows.hit now (sha k) ()) (db_refresh_tokens d)),
      d\<lparr>db_refresh_tokens :=
         update_where (refresh_rows.hit now (sha k) ()) (\<lambda>r. r\<lparr>rt_consumed_at := Some now\<rparr>)
           (db_refresh_tokens d)\<rparr>)"
proof -
  have "refresh_consumable now (sha k) = refresh_rows.hit now (sha k) ()"
    by (auto simp: refresh_consumable_def refresh_rows.hit_def fun_eq_iff)
  then show ?thesis by (simp add: refresh_consume_def Let_def)
qed

lemma refresh_spent_all_used: "refresh_spent sha k d = refresh_rows.all_used (sha k) (db_refresh_tokens d)"
  by (simp add: refresh_spent_def refresh_rows.all_used_def)

lemma refresh_step_keeps:
  "refresh_spent sha k d \<Longrightarrow> \<not> refresh_issues sha op k \<Longrightarrow> refresh_spent sha k (refresh_step sha op d)"
  by (cases op)
     (auto simp: refresh_spent_def refresh_create_def revoke_for_authorization_def
        refresh_cleanup_old_tokens_def ball_update_where set_delete_where Let_def)

lemma refresh_step_unique: "refresh_hashes_unique d \<Longrightarrow> refresh_hashes_unique (refresh_step sha op d)"
  by (cases op)
     (auto simp: refresh_hashes_unique_def refresh_create_def revoke_for_authorization_def
        refresh_cleanup_old_tokens_def map_update_where distinct_map_delete_where exists_row_iff Let_def)

interpretation refresh: one_time "\<lambda>now k (_::unit). refresh_consume sha now k" "refresh_step sha"
    "refresh_issues sha" "refresh_spent sha" refresh_hashes_unique
  for sha :: "string \<Rightarrow> string"
proof unfold_locales
  fix s :: "'a db" and now k and x :: unit
  show "refresh_hashes_unique s \<Longrightarrow> refresh_hashes_unique (snd (refresh_consume sha now k s))"
    by (simp add: refresh_hashes_unique_def refresh_consume_take map_update_where)
  show "refresh_hashes_unique s \<Longrightarrow> fst (refresh_consume sha now k s) \<noteq> None
    \<Longrightarrow> refresh_spent sha k (snd (refresh_consume sha now k s))"
    using refresh_rows.take_uses_up [of "db_refresh_tokens s" now "sha k" "()"]
    by (simp add: refresh_hashes_unique_def refresh_consume_take refresh_spent_all_used)
  show "refresh_spent sha k s \<Longrightarrow> fst (refresh_consume sha now k s) = None"
    by (simp add: refresh_consume_take refresh_spent_all_used refresh_rows.all_used_misses)
  fix k'
  show "refresh_spent sha k s \<Longrightarrow> refresh_spent sha k (snd (refresh_consume sha now k' s))"
    by (simp add: refresh_consume_take refresh_spent_all_used refresh_rows.all_used_take)
qed (simp_all add: refresh_step_unique refresh_step_keeps)

section \<open>Sign-in links\<close>

record magic_link_token =
  ml_id :: int
  ml_tenant_id :: int
  ml_email :: string
  ml_token_hash :: string
  ml_purpose :: string
  ml_app_origin :: string
  ml_expires_at :: timestamp
  ml_consumed_at :: "timestamp option"
  ml_request_ip :: "string option"
  ml_created_at :: timestamp

record consumed_magic_link =
  cm_email :: string
  cm_purpose :: string
  cm_app_origin :: string

definition PURPOSE_SIGN_IN :: string where
  "PURPOSE_SIGN_IN = ''sign_in''"

definition PURPOSE_DELETE_ACCOUNT :: string where
  "PURPOSE_DELETE_ACCOUNT = ''delete_account''"

text \<open>A table with its sequence.\<close>

record 'r table =
  rows :: "'r list"
  seq :: int

definition check_violation :: "string \<Rightarrow> string \<Rightarrow> repository_error" where
  "check_violation tab constraint =
     Integrity (''new row for relation '' @ [CHR 0x22] @ tab @ [CHR 0x22]
       @ '' violates check constraint '' @ [CHR 0x22] @ constraint @ [CHR 0x22])"

definition magic_create ::
    "(string \<Rightarrow> string) \<Rightarrow> timestamp \<Rightarrow> int \<Rightarrow> string \<Rightarrow> string \<Rightarrow> string \<Rightarrow> string \<Rightarrow> timestamp
      \<Rightarrow> string option \<Rightarrow> magic_link_token table \<Rightarrow> (repository_error + unit) \<times> magic_link_token table" where
  "magic_create sha now tenant_id email token purpose app_origin expires_at request_ip t =
     (let t1 = t\<lparr>seq := seq t + 1\<rparr>
      in if purpose \<notin> {''sign_in'', ''delete_account''}
         then (Inl (check_violation ''magic_link_tokens'' ''chk_magic_link_purpose''), t1)
         else if exists_row (\<lambda>r. ml_token_hash r = sha token) (rows t)
         then (Inl Duplicate, t1)
         else (Inr (), t1\<lparr>rows := rows t @
                 [\<lparr>ml_id = seq t, ml_tenant_id = tenant_id, ml_email = email,
                   ml_token_hash = sha token, ml_purpose = purpose, ml_app_origin = app_origin,
                   ml_expires_at = expires_at, ml_consumed_at = None, ml_request_ip = request_ip,
                   ml_created_at = now\<rparr>]\<rparr>))"

definition magic_consumable :: "timestamp \<Rightarrow> string \<Rightarrow> int \<Rightarrow> magic_link_token \<Rightarrow> bool" where
  "magic_consumable now token_hash tenant_id r \<longleftrightarrow>
     ml_token_hash r = token_hash \<and> ml_tenant_id r = tenant_id
     \<and> \<not> is_set (ml_consumed_at r) \<and> now < ml_expires_at r"

definition magic_consume ::
    "(string \<Rightarrow> string) \<Rightarrow> timestamp \<Rightarrow> string \<Rightarrow> int \<Rightarrow> magic_link_token table
      \<Rightarrow> consumed_magic_link option \<times> magic_link_token table" where
  "magic_consume sha now token tenant_id t =
     (let P = magic_consumable now (sha token) tenant_id
      in (map_option (\<lambda>r. \<lparr>cm_email = ml_email r, cm_purpose = ml_purpose r,
                           cm_app_origin = ml_app_origin r\<rparr>) (fetch_optional P (rows t)),
          t\<lparr>rows := update_where P (\<lambda>r. r\<lparr>ml_consumed_at := Some now\<rparr>) (rows t)\<rparr>))"

definition magic_count_recent :: "int \<Rightarrow> string \<Rightarrow> timestamp \<Rightarrow> magic_link_token table \<Rightarrow> nat" where
  "magic_count_recent tenant_id email since t =
     rows_affected (\<lambda>r. ml_tenant_id r = tenant_id \<and> ml_email r = email \<and> since \<le> ml_created_at r)
       (rows t)"

definition magic_purge_expired ::
    "timestamp \<Rightarrow> magic_link_token table \<Rightarrow> nat \<times> magic_link_token table" where
  "magic_purge_expired now t =
     (let P = (\<lambda>r. ml_created_at r < now - days 1)
      in (rows_affected P (rows t), t\<lparr>rows := delete_where P (rows t)\<rparr>))"

datatype magic_op =
    MlCreate timestamp int string string string string timestamp "string option"
  | MlPurge timestamp

fun magic_step :: "(string \<Rightarrow> string) \<Rightarrow> magic_op \<Rightarrow> magic_link_token table \<Rightarrow> magic_link_token table" where
  "magic_step sha (MlCreate now n em tok pur app ex ip) t =
     snd (magic_create sha now n em tok pur app ex ip t)"
| "magic_step sha (MlPurge now) t = snd (magic_purge_expired now t)"

fun magic_issues :: "(string \<Rightarrow> string) \<Rightarrow> magic_op \<Rightarrow> string \<Rightarrow> bool" where
  "magic_issues sha (MlCreate now n em tok pur app ex ip) k = (sha tok = sha k)"
| "magic_issues sha (MlPurge now) k = False"

definition magic_spent :: "(string \<Rightarrow> string) \<Rightarrow> string \<Rightarrow> magic_link_token table \<Rightarrow> bool" where
  "magic_spent sha k t \<longleftrightarrow>
     (\<forall>r\<in>set (rows t). ml_token_hash r = sha k \<longrightarrow> is_set (ml_consumed_at r))"

definition magic_hashes_unique :: "magic_link_token table \<Rightarrow> bool" where
  "magic_hashes_unique t \<longleftrightarrow> distinct (map ml_token_hash (rows t))"

interpretation magic_rows: token_table ml_token_hash "\<lambda>r. is_set (ml_consumed_at r)"
    "\<lambda>now tenant_id r. ml_tenant_id r = tenant_id \<and> now < ml_expires_at r"
    "\<lambda>now (_::int) r. r\<lparr>ml_consumed_at := Some now\<rparr>"
  by unfold_locales simp_all

lemma magic_consume_take:
  "fst (magic_consume sha now k n t) = None
     \<longleftrightarrow> fetch_optional (magic_rows.hit now (sha k) n) (rows t) = None"
  "rows (snd (magic_consume sha now k n t)) =
     update_where (magic_rows.hit now (sha k) n) (\<lambda>r. r\<lparr>ml_consumed_at := Some now\<rparr>) (rows t)"
proof -
  have "magic_consumable now (sha k) n = magic_rows.hit now (sha k) n"
    by (auto simp: magic_consumable_def magic_rows.hit_def fun_eq_iff)
  then show "fst (magic_consume sha now k n t) = None
     \<longleftrightarrow> fetch_optional (magic_rows.hit now (sha k) n) (rows t) = None"
    "rows (snd (magic_consume sha now k n t)) =
     update_where (magic_rows.hit now (sha k) n) (\<lambda>r. r\<lparr>ml_consumed_at := Some now\<rparr>) (rows t)"
    by (simp_all add: magic_consume_def Let_def)
qed

lemma magic_spent_all_used: "magic_spent sha k t = magic_rows.all_used (sha k) (rows t)"
  by (simp add: magic_spent_def magic_rows.all_used_def)

lemma magic_step_keeps:
  "magic_spent sha k t \<Longrightarrow> \<not> magic_issues sha op k \<Longrightarrow> magic_spent sha k (magic_step sha op t)"
  by (cases op) (auto simp: magic_spent_def magic_create_def magic_purge_expired_def
      set_delete_where Let_def)

lemma magic_step_unique: "magic_hashes_unique t \<Longrightarrow> magic_hashes_unique (magic_step sha op t)"
  by (cases op) (auto simp: magic_hashes_unique_def magic_create_def magic_purge_expired_def
      distinct_map_delete_where exists_row_iff Let_def)

interpretation magic: one_time "magic_consume sha" "magic_step sha" "magic_issues sha"
    "magic_spent sha" magic_hashes_unique
  for sha :: "string \<Rightarrow> string"
proof unfold_locales
  fix s :: "magic_link_token table" and now k and n :: int
  show "magic_hashes_unique s \<Longrightarrow> magic_hashes_unique (snd (magic_consume sha now k n s))"
    by (simp add: magic_hashes_unique_def magic_consume_take map_update_where)
  show "magic_hashes_unique s \<Longrightarrow> fst (magic_consume sha now k n s) \<noteq> None
    \<Longrightarrow> magic_spent sha k (snd (magic_consume sha now k n s))"
    using magic_rows.take_uses_up [of "rows s" now "sha k" n]
    by (simp add: magic_hashes_unique_def magic_consume_take magic_spent_all_used)
  show "magic_spent sha k s \<Longrightarrow> fst (magic_consume sha now k n s) = None"
    by (simp only: magic_consume_take magic_spent_all_used magic_rows.all_used_misses)
  fix k'
  show "magic_spent sha k s \<Longrightarrow> magic_spent sha k (snd (magic_consume sha now k' n s))"
    by (simp add: magic_consume_take magic_spent_all_used magic_rows.all_used_take)
qed (simp_all add: magic_step_unique magic_step_keeps)

section \<open>Account claim tokens\<close>

definition CLAIM_TOKEN_EXPIRY_DAYS :: int where
  "CLAIM_TOKEN_EXPIRY_DAYS = 7"

record claim_token =
  ct_id :: int
  ct_token :: string
  ct_user_pubkey :: pubkey
  ct_expires_at :: timestamp
  ct_used_at :: "timestamp option"
  ct_created_at :: timestamp
  ct_created_by_pubkey :: "pubkey option"
  ct_tenant_id :: int

definition claim_create ::
    "user list \<Rightarrow> timestamp \<Rightarrow> string \<Rightarrow> pubkey \<Rightarrow> pubkey option \<Rightarrow> int \<Rightarrow> claim_token table
      \<Rightarrow> (repository_error + claim_token) \<times> claim_token table" where
  "claim_create users now token user_pubkey created_by tenant_id t =
     (let row = \<lparr>ct_id = seq t, ct_token = token, ct_user_pubkey = user_pubkey,
                 ct_expires_at = now + days CLAIM_TOKEN_EXPIRY_DAYS, ct_used_at = None,
                 ct_created_at = now, ct_created_by_pubkey = created_by, ct_tenant_id = tenant_id\<rparr>;
          t1 = t\<lparr>seq := seq t + 1\<rparr>
      in if exists_row (\<lambda>r. ct_token r = token) (rows t) then (Inl Duplicate, t1)
         else if \<not> exists_row (\<lambda>u. us_pubkey u = user_pubkey) users
         then (Inl (fk_violation ''account_claim_tokens'' ''account_claim_tokens_user_pubkey_fkey''), t1)
         else (Inr row, t1\<lparr>rows := rows t @ [row]\<rparr>))"

definition claim_find_valid :: "timestamp \<Rightarrow> string \<Rightarrow> claim_token table \<Rightarrow> claim_token option" where
  "claim_find_valid now token t =
     fetch_optional (\<lambda>r. ct_token r = token \<and> now < ct_expires_at r \<and> \<not> is_set (ct_used_at r)) (rows t)"

definition claim_markable :: "string \<Rightarrow> claim_token \<Rightarrow> bool" where
  "claim_markable token r \<longleftrightarrow> ct_token r = token \<and> \<not> is_set (ct_used_at r)"

definition claim_mark_used ::
    "timestamp \<Rightarrow> string \<Rightarrow> claim_token table \<Rightarrow> claim_token option \<times> claim_token table" where
  "claim_mark_used now token t =
     (let P = claim_markable token; f = (\<lambda>r. r\<lparr>ct_used_at := Some now\<rparr>)
      in (map_option f (fetch_optional P (rows t)), t\<lparr>rows := update_where P f (rows t)\<rparr>))"

definition claims_newest_first :: "claim_token list \<Rightarrow> claim_token list" where
  "claims_newest_first t = sort_key (\<lambda>r. - ct_created_at r) t"

definition claim_find_by_user_pubkey :: "pubkey \<Rightarrow> int \<Rightarrow> claim_token table \<Rightarrow> claim_token list" where
  "claim_find_by_user_pubkey user_pubkey tenant_id t =
     claims_newest_first
       (fetch_all (\<lambda>r. ct_user_pubkey r = user_pubkey \<and> ct_tenant_id r = tenant_id) (rows t))"

definition claim_find_valid_by_user_pubkey ::
    "timestamp \<Rightarrow> pubkey \<Rightarrow> int \<Rightarrow> claim_token table \<Rightarrow> claim_token option" where
  "claim_find_valid_by_user_pubkey now user_pubkey tenant_id t =
     (case claims_newest_first
             (fetch_all (\<lambda>r. ct_user_pubkey r = user_pubkey \<and> ct_tenant_id r = tenant_id
                            \<and> now < ct_expires_at r \<and> \<not> is_set (ct_used_at r)) (rows t))
      of [] \<Rightarrow> None | r # _ \<Rightarrow> Some r)"

record claim_token_stats =
  total_generated :: nat
  total_claimed :: nat
  total_expired :: nat
  total_pending :: nat

definition claim_get_stats :: "timestamp \<Rightarrow> int \<Rightarrow> claim_token table \<Rightarrow> claim_token_stats" where
  "claim_get_stats now tenant_id t =
     (let mine = fetch_all (\<lambda>r. ct_tenant_id r = tenant_id) (rows t)
      in \<lparr>total_generated = length mine,
          total_claimed = rows_affected (\<lambda>r. is_set (ct_used_at r)) mine,
          total_expired = rows_affected (\<lambda>r. ct_expires_at r < now \<and> \<not> is_set (ct_used_at r)) mine,
          total_pending = rows_affected (\<lambda>r. now \<le> ct_expires_at r \<and> \<not> is_set (ct_used_at r)) mine\<rparr>)"

definition claim_cleanup_old_tokens :: "timestamp \<Rightarrow> int \<Rightarrow> claim_token table \<Rightarrow> nat \<times> claim_token table" where
  "claim_cleanup_old_tokens now days_old t =
     (let cutoff = now - days days_old;
          P = (\<lambda>r. (case ct_used_at r of None \<Rightarrow> False | Some u \<Rightarrow> u < cutoff)
                   \<or> ct_expires_at r < cutoff)
      in (rows_affected P (rows t), t\<lparr>rows := delete_where P (rows t)\<rparr>))"

datatype claim_op =
    CtCreate "user list" timestamp string pubkey "pubkey option" int
  | CtCleanup timestamp int

fun claim_step :: "claim_op \<Rightarrow> claim_token table \<Rightarrow> claim_token table" where
  "claim_step (CtCreate us now tok u by n) t = snd (claim_create us now tok u by n t)"
| "claim_step (CtCleanup now n) t = snd (claim_cleanup_old_tokens now n t)"

fun claim_issues :: "claim_op \<Rightarrow> string \<Rightarrow> bool" where
  "claim_issues (CtCreate us now tok u by n) k = (tok = k)"
| "claim_issues (CtCleanup now n) k = False"

definition claim_spent :: "string \<Rightarrow> claim_token table \<Rightarrow> bool" where
  "claim_spent k t \<longleftrightarrow> (\<forall>r\<in>set (rows t). ct_token r = k \<longrightarrow> is_set (ct_used_at r))"

definition claim_tokens_unique :: "claim_token table \<Rightarrow> bool" where
  "claim_tokens_unique t \<longleftrightarrow> distinct (map ct_token (rows t))"

interpretation claim_rows: token_table ct_token "\<lambda>r. is_set (ct_used_at r)"
    "\<lambda>_ _ _. True" "\<lambda>now (_::unit) r. r\<lparr>ct_used_at := Some now\<rparr>"
  by unfold_locales simp_all

lemma claim_mark_used_take:
  "claim_mark_used now k t =
     (map_option (\<lambda>r. r\<lparr>ct_used_at := Some now\<rparr>) (fetch_optional (claim_rows.hit now k ()) (rows t)),
      t\<lparr>rows := update_where (claim_rows.hit now k ()) (\<lambda>r. r\<lparr>ct_used_at := Some now\<rparr>) (rows t)\<rparr>)"
proof -
  have "claim_markable k = claim_rows.hit now k ()"
    by (auto simp: claim_markable_def claim_rows.hit_def fun_eq_iff)
  then show ?thesis by (simp add: claim_mark_used_def Let_def)
qed

lemma claim_spent_all_used: "claim_spent k t = claim_rows.all_used k (rows t)"
  by (simp add: claim_spent_def claim_rows.all_used_def)

lemma claim_step_keeps: "claim_spent k t \<Longrightarrow> \<not> claim_issues op k \<Longrightarrow> claim_spent k (claim_step op t)"
  by (cases op) (auto simp: claim_spent_def claim_create_def claim_cleanup_old_tokens_def
      set_delete_where Let_def)

lemma claim_step_unique: "claim_tokens_unique t \<Longrightarrow> claim_tokens_unique (claim_step op t)"
  by (cases op) (auto simp: claim_tokens_unique_def claim_create_def claim_cleanup_old_tokens_def
      distinct_map_delete_where exists_row_iff Let_def)

interpretation claim: one_time "\<lambda>now k (_::unit). claim_mark_used now k" claim_step claim_issues
    claim_spent claim_tokens_unique
proof unfold_locales
  fix s :: "claim_token table" and now k and x :: unit
  show "claim_tokens_unique s \<Longrightarrow> claim_tokens_unique (snd (claim_mark_used now k s))"
    by (simp add: claim_tokens_unique_def claim_mark_used_take map_update_where)
  show "claim_tokens_unique s \<Longrightarrow> fst (claim_mark_used now k s) \<noteq> None
    \<Longrightarrow> claim_spent k (snd (claim_mark_used now k s))"
    using claim_rows.take_uses_up [of "rows s" now k "()"]
    by (simp add: claim_tokens_unique_def claim_mark_used_take claim_spent_all_used)
  show "claim_spent k s \<Longrightarrow> fst (claim_mark_used now k s) = None"
    by (simp add: claim_mark_used_take claim_spent_all_used claim_rows.all_used_misses)
  fix k'
  show "claim_spent k s \<Longrightarrow> claim_spent k (snd (claim_mark_used now k' s))"
    by (simp add: claim_mark_used_take claim_spent_all_used claim_rows.all_used_take)
qed (simp_all add: claim_step_unique claim_step_keeps)

section \<open>Team invitations\<close>

definition INVITATION_EXPIRY_DAYS :: int where
  "INVITATION_EXPIRY_DAYS = 7"

record team_invitation =
  ti_id :: int
  ti_team_id :: int
  ti_tenant_id :: int
  ti_email :: string
  ti_role :: string
  ti_token :: string
  ti_invited_by :: pubkey
  ti_expires_at :: timestamp
  ti_accepted_at :: "timestamp option"
  ti_accepted_by :: "pubkey option"
  ti_revoked_at :: "timestamp option"
  ti_created_at :: timestamp

text \<open>\<open>accepted_at IS NULL AND revoked_at IS NULL\<close>, the predicate of the partial unique index too.\<close>

definition ti_unresolved :: "team_invitation \<Rightarrow> bool" where
  "ti_unresolved r \<longleftrightarrow> \<not> is_set (ti_accepted_at r) \<and> \<not> is_set (ti_revoked_at r)"

definition is_pending :: "timestamp \<Rightarrow> team_invitation \<Rightarrow> bool" where
  "is_pending now r \<longleftrightarrow>
     \<not> is_set (ti_accepted_at r) \<and> \<not> is_set (ti_revoked_at r) \<and> now < ti_expires_at r"

text \<open>
  The role check, the unique token and the unique pending invitation per team and e-mail
  (\<open>uq_pending_invite\<close>), then the team's foreign key; \<open>teams\<close> are the ids of the existing teams.
\<close>

definition invitation_create ::
    "int list \<Rightarrow> timestamp \<Rightarrow> int \<Rightarrow> int \<Rightarrow> string \<Rightarrow> string \<Rightarrow> string \<Rightarrow> pubkey
      \<Rightarrow> team_invitation table \<Rightarrow> (repository_error + team_invitation) \<times> team_invitation table" where
  "invitation_create teams now team_id tenant_id email role token invited_by t =
     (let row = \<lparr>ti_id = seq t, ti_team_id = team_id, ti_tenant_id = tenant_id, ti_email = email,
                 ti_role = role, ti_token = token, ti_invited_by = invited_by,
                 ti_expires_at = now + days INVITATION_EXPIRY_DAYS, ti_accepted_at = None,
                 ti_accepted_by = None, ti_revoked_at = None, ti_created_at = now\<rparr>;
          t1 = t\<lparr>seq := seq t + 1\<rparr>
      in if role \<notin> {''admin'', ''member''}
         then (Inl (check_violation ''team_invitations'' ''chk_invitation_role''), t1)
         else if exists_row (\<lambda>r. ti_token r = token) (rows t)
              \<or> exists_row (\<lambda>r. ti_team_id r = team_id \<and> ti_email r = email \<and> ti_unresolved r) (rows t)
         then (Inl Duplicate, t1)
         else if team_id \<notin> set teams
         then (Inl (fk_violation ''team_invitations'' ''team_invitations_team_id_fkey''), t1)
         else (Inr row, t1\<lparr>rows := rows t @ [row]\<rparr>))"

definition find_valid_by_token :: "timestamp \<Rightarrow> string \<Rightarrow> team_invitation table \<Rightarrow> team_invitation option" where
  "find_valid_by_token now token t =
     fetch_optional (\<lambda>r. ti_token r = token \<and> ti_unresolved r \<and> now < ti_expires_at r) (rows t)"

definition find_by_token :: "string \<Rightarrow> team_invitation table \<Rightarrow> team_invitation option" where
  "find_by_token token t = fetch_optional (\<lambda>r. ti_token r = token) (rows t)"

definition invitation_list_by_team :: "int \<Rightarrow> int \<Rightarrow> team_invitation table \<Rightarrow> team_invitation list" where
  "invitation_list_by_team team_id tenant_id t =
     sort_key (\<lambda>r. - ti_created_at r)
       (fetch_all (\<lambda>r. ti_team_id r = team_id \<and> ti_tenant_id r = tenant_id) (rows t))"

definition find_pending_by_email ::
    "timestamp \<Rightarrow> int \<Rightarrow> string \<Rightarrow> team_invitation table \<Rightarrow> team_invitation option" where
  "find_pending_by_email now team_id email t =
     fetch_optional
       (\<lambda>r. ti_team_id r = team_id \<and> ti_email r = email \<and> ti_unresolved r \<and> now < ti_expires_at r)
       (rows t)"

definition acceptable :: "timestamp \<Rightarrow> string \<Rightarrow> team_invitation \<Rightarrow> bool" where
  "acceptable now token r \<longleftrightarrow> ti_token r = token \<and> ti_unresolved r \<and> now < ti_expires_at r"

definition invitation_accept ::
    "timestamp \<Rightarrow> string \<Rightarrow> pubkey \<Rightarrow> team_invitation table
      \<Rightarrow> (repository_error + team_invitation) \<times> team_invitation table" where
  "invitation_accept now token accepted_by t =
     (let P = acceptable now token;
          f = (\<lambda>r. r\<lparr>ti_accepted_at := Some now, ti_accepted_by := Some accepted_by\<rparr>)
      in (ok_or (NotFound ''record not found'') (map_option f (fetch_optional P (rows t))),
          t\<lparr>rows := update_where P f (rows t)\<rparr>))"

definition invitation_revoke ::
    "timestamp \<Rightarrow> int \<Rightarrow> int \<Rightarrow> int \<Rightarrow> team_invitation table
      \<Rightarrow> (repository_error + unit) \<times> team_invitation table" where
  "invitation_revoke now inv_id team_id tenant_id t =
     (let P = (\<lambda>r. ti_id r = inv_id \<and> ti_team_id r = team_id \<and> ti_tenant_id r = tenant_id
                   \<and> ti_unresolved r);
          t1 = t\<lparr>rows := update_where P (\<lambda>r. r\<lparr>ti_revoked_at := Some now\<rparr>) (rows t)\<rparr>
      in if rows_affected P (rows t) = 0
         then (Inl (NotFound ''Invitation not found or already resolved''), t1)
         else (Inr (), t1))"

datatype invitation_op =
    TiCreate "int list" timestamp int int string string string pubkey
  | TiRevoke timestamp int int int

fun invitation_step :: "invitation_op \<Rightarrow> team_invitation table \<Rightarrow> team_invitation table" where
  "invitation_step (TiCreate ts now tm n em role tok by) t =
     snd (invitation_create ts now tm n em role tok by t)"
| "invitation_step (TiRevoke now i tm n) t = snd (invitation_revoke now i tm n t)"

fun invitation_issues :: "invitation_op \<Rightarrow> string \<Rightarrow> bool" where
  "invitation_issues (TiCreate ts now tm n em role tok by) k = (tok = k)"
| "invitation_issues (TiRevoke now i tm n) k = False"

definition invitation_spent :: "string \<Rightarrow> team_invitation table \<Rightarrow> bool" where
  "invitation_spent k t \<longleftrightarrow> (\<forall>r\<in>set (rows t). ti_token r = k \<longrightarrow> \<not> ti_unresolved r)"

definition invitation_tokens_unique :: "team_invitation table \<Rightarrow> bool" where
  "invitation_tokens_unique t \<longleftrightarrow> distinct (map ti_token (rows t))"

interpretation invitation_rows: token_table ti_token "\<lambda>r. \<not> ti_unresolved r"
    "\<lambda>now _ r. now < ti_expires_at r"
    "\<lambda>now (by::pubkey) r. r\<lparr>ti_accepted_at := Some now, ti_accepted_by := Some by\<rparr>"
  by unfold_locales (simp_all add: ti_unresolved_def)

lemma invitation_accept_take:
  "ok (fst (invitation_accept now k u t)) =
     map_option (\<lambda>r. r\<lparr>ti_accepted_at := Some now, ti_accepted_by := Some u\<rparr>)
       (fetch_optional (invitation_rows.hit now k u) (rows t))"
  "rows (snd (invitation_accept now k u t)) =
     update_where (invitation_rows.hit now k u)
       (\<lambda>r. r\<lparr>ti_accepted_at := Some now, ti_accepted_by := Some u\<rparr>) (rows t)"
proof -
  have P: "acceptable now k = invitation_rows.hit now k u"
    by (auto simp: acceptable_def invitation_rows.hit_def fun_eq_iff)
  show "ok (fst (invitation_accept now k u t)) =
     map_option (\<lambda>r. r\<lparr>ti_accepted_at := Some now, ti_accepted_by := Some u\<rparr>)
       (fetch_optional (invitation_rows.hit now k u) (rows t))"
    unfolding invitation_accept_def P Let_def
    by (cases "fetch_optional (invitation_rows.hit now k u) (rows t)") simp_all
  show "rows (snd (invitation_accept now k u t)) =
     update_where (invitation_rows.hit now k u)
       (\<lambda>r. r\<lparr>ti_accepted_at := Some now, ti_accepted_by := Some u\<rparr>) (rows t)"
    by (simp add: invitation_accept_def P Let_def)
qed

lemma invitation_spent_all_used: "invitation_spent k t = invitation_rows.all_used k (rows t)"
  by (simp add: invitation_spent_def invitation_rows.all_used_def)

lemma invitation_step_keeps:
  "invitation_spent k t \<Longrightarrow> \<not> invitation_issues op k \<Longrightarrow> invitation_spent k (invitation_step op t)"
  by (cases op) (auto simp: invitation_spent_def invitation_create_def invitation_revoke_def
      ball_update_where ti_unresolved_def Let_def)

lemma invitation_step_unique:
  "invitation_tokens_unique t \<Longrightarrow> invitation_tokens_unique (invitation_step op t)"
  by (cases op) (auto simp: invitation_tokens_unique_def invitation_create_def
      invitation_revoke_def map_update_where exists_row_iff Let_def)

definition invitation_consume ::
    "timestamp \<Rightarrow> string \<Rightarrow> pubkey \<Rightarrow> team_invitation table \<Rightarrow> team_invitation option \<times> team_invitation table" where
  "invitation_consume now token by t =
     (ok (fst (invitation_accept now token by t)), snd (invitation_accept now token by t))"

interpretation invitation: one_time invitation_consume invitation_step invitation_issues
    invitation_spent invitation_tokens_unique
proof unfold_locales
  fix s :: "team_invitation table" and now k and u :: pubkey
  show "invitation_tokens_unique s \<Longrightarrow> invitation_tokens_unique (snd (invitation_consume now k u s))"
    by (simp add: invitation_consume_def invitation_tokens_unique_def invitation_accept_take
          map_update_where)
  show "invitation_tokens_unique s \<Longrightarrow> fst (invitation_consume now k u s) \<noteq> None
    \<Longrightarrow> invitation_spent k (snd (invitation_consume now k u s))"
    using invitation_rows.take_uses_up [of "rows s" now k u]
    by (simp add: invitation_consume_def invitation_tokens_unique_def invitation_accept_take
          invitation_spent_all_used)
  show "invitation_spent k s \<Longrightarrow> fst (invitation_consume now k u s) = None"
    by (simp add: invitation_consume_def invitation_accept_take invitation_spent_all_used
          invitation_rows.all_used_misses)
  fix k'
  show "invitation_spent k s \<Longrightarrow> invitation_spent k (snd (invitation_consume now k' u s))"
    by (simp add: invitation_consume_def invitation_accept_take invitation_spent_all_used
          invitation_rows.all_used_take)
qed (simp_all add: invitation_step_unique invitation_step_keeps)

section \<open>Properties\<close>

lemma refresh_create_ok:
  assumes "refresh_create sha now token a n d = (Inr r, d')"
  shows "db_refresh_tokens d' = db_refresh_tokens d @ [r]" "rt_token_hash r = sha token"
    "rt_authorization_id r = a" "rt_tenant_id r = n" "rt_consumed_at r = None"
    "rt_expires_at r = now + days 30"
    "\<forall>q\<in>set (db_refresh_tokens d). rt_token_hash q \<noteq> sha token"
    "db_oauth d' = db_oauth d"
  using assms
  by (auto simp: refresh_create_def REFRESH_TOKEN_EXPIRY_DAYS_def exists_row_iff Let_def
      split: if_splits)

text \<open>
  C40. A refresh token is redeemed at most once: in any sequence of redemptions, rotations,
  revocations and clean-ups, at any times and in any order, at most one redemption of a token
  succeeds, as long as the random token is not issued again.
\<close>

theorem refresh_token_used_at_most_once:
  assumes "refresh_hashes_unique d" and "\<not> reissued (refresh_issues sha) token calls"
  shows "uses (\<lambda>now k (_::unit). refresh_consume sha now k) (refresh_step sha) token calls d \<le> 1"
  using assms by (rule refresh.at_most_once)

definition sample_refresh :: "unit db" where
  "sample_refresh = snd (refresh_create id 0 ''tok'' 1 1 sample_db)"

lemmas sample_refresh_simps =
  sample_refresh_def refresh_create_def sample_db_def empty_db_def exists_row_def
  REFRESH_TOKEN_EXPIRY_DAYS_def Let_def

theorem refresh_token_used_at_most_once_witness:
  "refresh_hashes_unique sample_refresh
   \<and> \<not> reissued (refresh_issues id) ''tok'' [Consume 1 ''tok'' (), Consume 2 ''tok'' ()]
   \<and> uses (\<lambda>now k (_::unit). refresh_consume id now k) (refresh_step id) ''tok''
       [Consume 1 ''tok'' (), Consume 2 ''tok'' ()] sample_refresh = 1"
proof -
  let ?cs = "[Consume 1 ''tok'' (), Consume 2 ''tok'' ()]"
  have u: "refresh_hashes_unique sample_refresh"
    by (simp add: refresh_hashes_unique_def sample_refresh_simps)
  have r: "\<not> reissued (refresh_issues id) ''tok'' ?cs" by simp
  have "fst (refresh_consume id 1 ''tok'' sample_refresh) \<noteq> None"
    by (simp add: refresh_consume_def sample_refresh_simps fetch_optional_Cons
          refresh_consumable_def)
  then show ?thesis
    using refresh_token_used_at_most_once [OF u r] u by simp
qed

text \<open>
  A refresh token lives thirty days: once it has been stored, redeeming it returns the row of
  its authorization exactly when less than thirty days have passed.
\<close>

theorem refresh_token_lifetime:
  assumes "refresh_create sha t0 token a n d = (Inr r, d')"
  shows "fst (refresh_consume sha t1 token d')
         = (if t1 < t0 + days 30 then Some (r\<lparr>rt_consumed_at := Some t1\<rparr>) else None)"
proof -
  note c = refresh_create_ok [OF assms]
  have "fetch_optional (refresh_consumable t1 (sha token)) (db_refresh_tokens d) = None"
    using c(7) by (auto simp: fetch_optional_None refresh_consumable_def)
  then show ?thesis
    using c(1-6)
    by (simp add: refresh_consume_def Let_def fetch_optional_append fetch_optional_Cons
          refresh_consumable_def)
qed

theorem refresh_token_lifetime_witness:
  "let d' = snd (refresh_create id 0 ''tok'' 1 1 sample_db) in
   refresh_create id 0 ''tok'' 1 1 sample_db
     = (Inr \<lparr>rt_id = 1, rt_token_hash = ''tok'', rt_authorization_id = 1, rt_tenant_id = 1,
             rt_created_at = 0, rt_expires_at = days 30, rt_consumed_at = None\<rparr>, d')
   \<and> fst (refresh_consume id (days 29) ''tok'' d') \<noteq> None
   \<and> fst (refresh_consume id (days 30) ''tok'' d') = None"
proof -
  let ?r = "\<lparr>rt_id = 1, rt_token_hash = ''tok'', rt_authorization_id = 1, rt_tenant_id = 1,
             rt_created_at = 0, rt_expires_at = days 30, rt_consumed_at = None\<rparr>"
  have c: "refresh_create id 0 ''tok'' 1 1 sample_db
      = (Inr ?r, snd (refresh_create id 0 ''tok'' 1 1 sample_db))"
    by (simp add: sample_refresh_simps)
  show ?thesis
    using c refresh_token_lifetime [OF c, of "days 29"] refresh_token_lifetime [OF c, of "days 30"]
    by (simp add: Let_def)
qed

text \<open>
  A sign-in link is consumed at most once, whatever tenants the attempts name and however they
  interleave with new links and purges.
\<close>

theorem magic_link_used_at_most_once:
  assumes "magic_hashes_unique t" and "\<not> reissued (magic_issues sha) token calls"
  shows "uses (magic_consume sha) (magic_step sha) token calls t \<le> 1"
  using assms by (rule magic.at_most_once)

definition sample_magic :: "magic_link_token table" where
  "sample_magic =
     snd (magic_create id 0 1 ''a@x.org'' ''tok'' ''sign_in'' ''https://shop.example'' 900 None
       \<lparr>rows = [], seq = 1\<rparr>)"

theorem magic_link_used_at_most_once_witness:
  "magic_hashes_unique sample_magic
   \<and> uses (magic_consume id) (magic_step id) ''tok''
       [Consume 1 ''tok'' 2, Consume 2 ''tok'' 1, Consume 3 ''tok'' 1] sample_magic = 1"
proof -
  let ?cs = "[Consume 1 ''tok'' 2, Consume 2 ''tok'' 1, Consume 3 ''tok'' 1]"
  have u: "magic_hashes_unique sample_magic"
    by (simp add: magic_hashes_unique_def sample_magic_def magic_create_def exists_row_def)
  have r: "\<not> reissued (magic_issues id) ''tok'' ?cs" by simp
  have "1 \<le> uses (magic_consume id) (magic_step id) ''tok'' ?cs sample_magic"
    by (simp add: sample_magic_def magic_create_def exists_row_def magic_consume_def
          fetch_optional_Cons magic_consumable_def update_where_def)
  then show ?thesis using magic_link_used_at_most_once [OF u r] u by simp
qed

text \<open>
  An invitation is accepted at most once, by whichever of several users comes first, and a
  revoked one never.
\<close>

theorem invitation_accepted_at_most_once:
  assumes "invitation_tokens_unique t" and "\<not> reissued invitation_issues token calls"
  shows "uses invitation_consume invitation_step token calls t
         \<le> (if invitation_spent token t then 0 else 1)"
  using invitation.at_most_once [OF assms] invitation.spent_never_used [OF _ assms(2)] by simp

definition sample_invitation :: "team_invitation table" where
  "sample_invitation =
     snd (invitation_create [7] 0 7 1 ''a@x.org'' ''member'' ''tok'' ''boss'' \<lparr>rows = [], seq = 1\<rparr>)"

lemmas sample_invitation_simps =
  sample_invitation_def invitation_create_def exists_row_def INVITATION_EXPIRY_DAYS_def Let_def

theorem invitation_accepted_at_most_once_witness:
  "invitation_tokens_unique sample_invitation
   \<and> uses invitation_consume invitation_step ''tok''
       [Consume 1 ''tok'' ''bob'', Consume 2 ''tok'' ''carol''] sample_invitation = 1
   \<and> uses invitation_consume invitation_step ''tok''
       [Consume 2 ''tok'' ''bob''] (invitation_step (TiRevoke 1 1 7 1) sample_invitation) = 0"
proof -
  let ?cs = "[Consume 1 ''tok'' ''bob'', Consume 2 ''tok'' ''carol'']"
  let ?r = "invitation_step (TiRevoke 1 1 7 1) sample_invitation"
  have u: "invitation_tokens_unique sample_invitation"
    by (simp add: invitation_tokens_unique_def sample_invitation_simps)
  have "1 \<le> uses invitation_consume invitation_step ''tok'' ?cs sample_invitation"
    by (simp add: sample_invitation_simps invitation_consume_def invitation_accept_def
          fetch_optional_Cons acceptable_def ti_unresolved_def)
  then have one: "uses invitation_consume invitation_step ''tok'' ?cs sample_invitation = 1"
    using invitation_accepted_at_most_once [OF u, of "''tok''" ?cs] by (simp split: if_splits)
  have s: "invitation_spent ''tok'' ?r"
    by (simp add: invitation_spent_def sample_invitation_simps invitation_revoke_def
          update_where_def ti_unresolved_def)
  have "uses invitation_consume invitation_step ''tok'' [Consume 2 ''tok'' ''bob''] ?r = 0"
    using invitation_accepted_at_most_once [OF invitation_step_unique [OF u, of "TiRevoke 1 1 7 1"],
        of "''tok''" "[Consume 2 ''tok'' ''bob'']"] s by simp
  then show ?thesis using u one by blast
qed

text \<open>
  An expired invitation that nobody revoked keeps blocking its address: the duplicate check of
  the invite handler does not see it, and storing a new invitation fails, while it can be
  neither accepted nor found as valid.
\<close>

theorem expired_invitation_blocks_reinvite:
  assumes "r \<in> set (rows t)" and "ti_unresolved r" and "ti_expires_at r \<le> now"
    and "\<forall>q\<in>set (rows t). ti_team_id q = ti_team_id r \<and> ti_email q = ti_email r \<longrightarrow> q = r"
    and "role \<in> {''admin'', ''member''}"
  shows "find_pending_by_email now (ti_team_id r) (ti_email r) t = None
         \<and> fst (invitation_create teams now (ti_team_id r) n (ti_email r) role token by t) = Inl Duplicate"
  using assms
  by (auto simp: find_pending_by_email_def fetch_optional_None invitation_create_def
      exists_row_iff Let_def)

theorem expired_invitation_blocks_reinvite_witness:
  "find_pending_by_email (days 8) 7 ''a@x.org'' sample_invitation = None
   \<and> fst (invitation_create [7] (days 8) 7 1 ''a@x.org'' ''member'' ''tok2'' ''boss'' sample_invitation)
     = Inl Duplicate"
proof -
  obtain r where r: "rows sample_invitation = [r]" "ti_unresolved r" "ti_expires_at r \<le> days 8"
    "ti_team_id r = 7" "ti_email r = ''a@x.org''"
    by (force simp: sample_invitation_simps ti_unresolved_def)
  show ?thesis
    using expired_invitation_blocks_reinvite [of r sample_invitation "days 8" "''member''" "[7]" 1
        "''tok2''" "''boss''"] r by simp
qed

text \<open>
  The claim-token statistics of a tenant partition its tokens: claimed, expired and pending
  tokens add up to the generated ones, at every moment.
\<close>

theorem claim_stats_partition:
  "let st = claim_get_stats now tenant_id t
   in total_generated st = total_claimed st + total_expired st + total_pending st"
proof -
  have "length xs = rows_affected (\<lambda>r. is_set (ct_used_at r)) xs
     + rows_affected (\<lambda>r. ct_expires_at r < now \<and> \<not> is_set (ct_used_at r)) xs
     + rows_affected (\<lambda>r. now \<le> ct_expires_at r \<and> \<not> is_set (ct_used_at r)) xs"
    for xs :: "claim_token list"
    by (induction xs) (auto simp: rows_affected_def)
  then show ?thesis by (simp add: claim_get_stats_def Let_def)
qed

end
