(* ===== verification/OAuthToken.thy ===== *)
theory OAuthToken
  imports OAuthCodes Tokens Signer
begin

text \<open>
  The token endpoint \<open>POST /oauth/token\<close> of \<open>api/src/api/http/oauth.rs\<close>: \<open>token\<close>,
  \<open>handle_authorization_code_grant\<close>, \<open>handle_refresh_token_grant\<close> and \<open>create_oauth_authorization\<close>,
  with the server-signed access token of \<open>api/src/api/http/auth.rs\<close> and the DID of
  \<open>api/src/ucan_auth/did.rs\<close>. Every statement is run in the order of the code, and an error leaves
  behind what was written before it. Random values (handle, refresh token) and the pair the secret
  pool hands out are arguments; crates and the environment are the fields of \<open>token_world\<close>. An
  outcome of \<open>None\<close> is a panic. The verification email changes no state of the server.
\<close>

section \<open>Parameters and state\<close>

record ucan_facts =
  uf_tenant_id :: int
  uf_email :: string
  uf_redirect_origin :: string
  uf_bunker_pubkey :: "pubkey option"
  uf_first_party :: bool
  uf_admin_role :: "string option"

text \<open>
  \<open>ucan_sign\<close> stands for \<open>UcanBuilder\<close> with the server's keys: audience DID, lifetime and facts to an
  encoded token, or the debug text of the error. \<open>url_encode\<close> is \<open>urlencoding::encode\<close>.
\<close>

record 'j token_world =
  tw_http :: "'j http_world"
  tw_sha256 :: "string \<Rightarrow> string"
  tw_s256 :: "string \<Rightarrow> string"
  keys_parse :: "string \<Rightarrow> string + seckey"
  url_parse :: "string \<Rightarrow> url option"
  url_encode :: "string \<Rightarrow> string"
  bs58_encode :: "bytes \<Rightarrow> string"
  pk_to_bytes :: "pubkey \<Rightarrow> bytes"
  ucan_sign :: "string \<Rightarrow> int \<Rightarrow> ucan_facts \<Rightarrow> string + string"
  bunker_relays_env :: "string option"
  token_expiry_seconds :: int

record 'j server =
  sv_db :: "'j db"
  sv_cache :: http_cache
  sv_commands :: "authorization_command list"
  sv_oauth_created :: nat
  sv_oauth_revoked :: nat

record token_policy_info =
  tp_slug :: string
  tp_display_name :: string
  tp_description :: string
  tp_permissions :: "permission_display list"

record token_response =
  tr_bunker_url :: string
  tr_access_token :: "string option"
  tr_token_type :: string
  tr_expires_in :: int
  tr_scope :: "string option"
  tr_policy :: "token_policy_info option"
  tr_authorization_handle :: "string option"
  tr_refresh_token :: "string option"

record token_request =
  tq_grant_type :: "string option"
  tq_code :: "string option"
  tq_client_id :: string
  tq_redirect_uri :: "string option"
  tq_code_verifier :: "string option"
  tq_refresh_token :: "string option"

text \<open>What a request draws from outside: the fresh values and whether the command channel is up.\<close>

record draws =
  dr_handle :: string
  dr_refresh_token :: string
  dr_secret_pair :: "(string \<times> string) option"
  dr_channel :: bool

abbreviation tx :: "'j token_world \<Rightarrow> 'j ext" where
  "tx W \<equiv> hx (tw_http W)"

section \<open>Access tokens\<close>

definition nostr_pubkey_to_did :: "'j token_world \<Rightarrow> pubkey \<Rightarrow> string" where
  "nostr_pubkey_to_did W pk = ''did:key:z'' @ bs58_encode W ([0xe7, 0x01] @ pk_to_bytes W pk)"

definition generate_server_signed_ucan ::
    "'j token_world \<Rightarrow> pubkey \<Rightarrow> int \<Rightarrow> string \<Rightarrow> string \<Rightarrow> pubkey option \<Rightarrow> bool \<Rightarrow> string option
      \<Rightarrow> string + string" where
  "generate_server_signed_ucan W user tenant_id email redirect_origin bunker is_first_party admin_role =
     ucan_sign W (nostr_pubkey_to_did W user) (token_expiry_seconds W)
       \<lparr>uf_tenant_id = tenant_id, uf_email = email, uf_redirect_origin = redirect_origin,
        uf_bunker_pubkey = bunker, uf_first_party = is_first_party, uf_admin_role = admin_role\<rparr>"

section \<open>Pieces of the response\<close>

definition get_bunker_relays :: "'j token_world \<Rightarrow> string list option" where
  "get_bunker_relays W =
     (case bunker_relays_env W of
        None \<Rightarrow> None
      | Some relays_str \<Rightarrow>
          (let relays = filter (\<lambda>s. s \<noteq> []) (map str_trim (split_on (CHR '','') relays_str))
           in if relays = [] then None else Some relays))"

fun join_with :: "string \<Rightarrow> string list \<Rightarrow> string" where
  "join_with sep [] = []"
| "join_with sep [w] = w"
| "join_with sep (w # v # ws) = w @ sep @ join_with sep (v # ws)"

definition relay_params :: "'j token_world \<Rightarrow> string list \<Rightarrow> string" where
  "relay_params W relays = join_with ''&'' (map (\<lambda>r. ''relay='' @ url_encode W r) relays)"

definition permission_displays :: "'j token_world \<Rightarrow> 'j db \<Rightarrow> policy \<Rightarrow> permission_display list" where
  "permission_displays W d p =
     map display (filter_ok (map (to_custom_permission (x_perm (tx W))) (get_permissions d (po_id p))))"

definition token_policy :: "'j token_world \<Rightarrow> 'j db \<Rightarrow> policy \<Rightarrow> token_policy_info" where
  "token_policy W d p =
     \<lparr>tp_slug = (case po_slug p of Some s \<Rightarrow> s | None \<Rightarrow> show_int (po_id p)),
      tp_display_name = (case po_display_name p of Some n \<Rightarrow> n | None \<Rightarrow> po_name p),
      tp_description = (case po_description p of Some t \<Rightarrow> t | None \<Rightarrow> []),
      tp_permissions = permission_displays W d p\<rparr>"

section \<open>Creating an authorization\<close>

record create_authorization_params =
  ca_tenant_id :: int
  ca_user_pubkey :: pubkey
  ca_email :: string
  ca_client_id :: string
  ca_scope :: string
  ca_redirect_uri :: string
  ca_nsec_from_verifier :: "string option"
  ca_previous_auth_id :: "int option"
  ca_is_headless :: bool
  ca_policy_id :: "int option"

text \<open>The key of the user, stored from the verifier when there is none yet.\<close>

definition ensure_user_key ::
    "'j token_world \<Rightarrow> create_authorization_params \<Rightarrow> 'j db \<Rightarrow> (oauth_error + bytes) \<times> 'j db" where
  "ensure_user_key W p d =
     (case find_encrypted_key_for_tenant d (ca_user_pubkey p) (ca_tenant_id p) of
        Some existing_key \<Rightarrow> (Inr existing_key, d)
      | None \<Rightarrow>
          (case ca_nsec_from_verifier p of
             None \<Rightarrow>
               (Inl (InvalidRequest ''Missing nsec in code_verifier. BYOK flow requires nsec to be embedded.''), d)
           | Some nsec_str \<Rightarrow>
               (case keys_parse W nsec_str of
                  Inl e \<Rightarrow> (Inl (InvalidRequest (''Invalid nsec in code_verifier: '' @ e)), d)
                | Inr keys \<Rightarrow>
                    (if public_key (tx W) keys \<noteq> ca_user_pubkey p
                     then (Inl (InvalidRequest (''nsec in code_verifier doesn'' @ [CHR 0x27]
                             @ ''t match registered pubkey. Expected: '' @ ca_user_pubkey p @ '', got: ''
                             @ public_key (tx W) keys)), d)
                     else (case km_encrypt (tx W) keys of
                             Inl e \<Rightarrow> (Inl (OAuthEncryption e), d)
                           | Inr encrypted \<Rightarrow>
                               (case personal_keys_create (ca_user_pubkey p) encrypted (ca_tenant_id p) d of
                                  Inl e \<Rightarrow> (Inl (oauth_error_of e), d)
                                | Inr d1 \<Rightarrow> (Inr encrypted, d1)))))))"

text \<open>
  Decrypting the user's key and deriving the bunker key from it; \<open>None\<close> is the \<open>unreachable!\<close> after
  the derivation loop.
\<close>

definition unlock_for_token ::
    "'j token_world \<Rightarrow> bytes \<Rightarrow> string \<Rightarrow> (oauth_error + seckey) option" where
  "unlock_for_token W encrypted secret_hash =
     (case and_then (map_err (\<lambda>e. OAuthEncryption (''Failed to decrypt user key: '' @ e))
                       (km_decrypt (tx W) encrypted))
             (\<lambda>secret. map_err (\<lambda>e. InvalidRequest (''Invalid secret key: '' @ e)) (sk_from_slice (tx W) secret)) of
        Inl e \<Rightarrow> Some (Inl e)
      | Inr user_secret \<Rightarrow> map_option Inr (derive_bunker_keys (tx W) user_secret secret_hash))"

definition issue_access_token ::
    "'j token_world \<Rightarrow> pubkey \<Rightarrow> int \<Rightarrow> string \<Rightarrow> string \<Rightarrow> pubkey \<Rightarrow> bool \<Rightarrow> oauth_error + string" where
  "issue_access_token W user_pubkey tenant_id email redirect_origin bunker is_first_party =
     and_then (map_err (\<lambda>e. InvalidRequest (''Invalid public key: '' @ e)) (pk_from_hex (x_perm (tx W)) user_pubkey))
       (\<lambda>pk. map_err (\<lambda>e. InvalidRequest (''UCAN generation failed: '' @ e))
          (generate_server_signed_ucan W pk tenant_id email redirect_origin (Some bunker) is_first_party None))"

text \<open>The clean-up of a re-authentication: the old grant and its refresh tokens.\<close>

definition revoke_previous :: "timestamp \<Rightarrow> int option \<Rightarrow> 'j server \<Rightarrow> 'j server" where
  "revoke_previous now previous s =
     (case previous of
        None \<Rightarrow> s
      | Some old_auth_id \<Rightarrow>
          (let d1 = snd (revoke_for_authorization now old_auth_id (sv_db s))
           in s\<lparr>sv_db := d1\<lparr>db_oauth := oauth_revoke now old_auth_id (db_oauth d1)\<rparr>,
                sv_oauth_revoked := sv_oauth_revoked s + 1,
                sv_cache := invalidate_handlers_for_authorization True old_auth_id (sv_cache s)\<rparr>))"

definition relays_json :: string where
  "relays_json = ''['' @ [CHR 0x22] @ ''wss://relay.damus.io'' @ [CHR 0x22] @ '']''"

definition authorization_row_params ::
    "timestamp \<Rightarrow> draws \<Rightarrow> create_authorization_params \<Rightarrow> string \<Rightarrow> pubkey \<Rightarrow> string \<Rightarrow> int \<Rightarrow> create_oauth_params" where
  "authorization_row_params now R p redirect_origin bunker secret_hash policy_id =
     \<lparr>cp_tenant_id = ca_tenant_id p, cp_user_pubkey = ca_user_pubkey p, cp_redirect_origin = redirect_origin,
      cp_client_id = ca_client_id p, cp_bunker_public_key = bunker, cp_secret_hash = secret_hash,
      cp_relays = relays_json, cp_policy_id = Some policy_id, cp_client_pubkey = None,
      cp_authorization_handle = Some (dr_handle R), cp_handle_expires_at = now + days 30\<rparr>"

text \<open>The part that writes: the grant, its refresh token, the clean-up, the command to the signer.\<close>

definition store_authorization ::
    "'j token_world \<Rightarrow> timestamp \<Rightarrow> draws \<Rightarrow> create_authorization_params \<Rightarrow> create_oauth_params \<Rightarrow> 'j server
      \<Rightarrow> (oauth_error + int) \<times> 'j server" where
  "store_authorization W now R p row s =
     (case oauth_create now row (sv_db s) of
        (Inl e, d1) \<Rightarrow> (Inl (oauth_error_of e), s\<lparr>sv_db := d1\<rparr>)
      | (Inr auth_id, d1) \<Rightarrow>
          (case refresh_create (tw_sha256 W) now (dr_refresh_token R) auth_id (ca_tenant_id p) d1 of
             (Inl e, d2) \<Rightarrow> (Inl (oauth_error_of e), s\<lparr>sv_db := d2\<rparr>)
           | (Inr _, d2) \<Rightarrow>
               (let s1 = s\<lparr>sv_db := d2, sv_oauth_created := sv_oauth_created s + 1\<rparr>;
                    s2 = revoke_previous now (ca_previous_auth_id p) s1
                in (Inr auth_id,
                    if dr_channel R
                    then s2\<lparr>sv_commands := sv_commands s2
                              @ [Upsert (cp_bunker_public_key row) (ca_tenant_id p) True]\<rparr>
                    else s2))))"

definition response_policy :: "'j token_world \<Rightarrow> 'j db \<Rightarrow> string \<Rightarrow> token_policy_info option" where
  "response_policy W d scope =
     (let policy_slug = (case parse_policy_scope scope of Inr slug \<Rightarrow> slug | Inl _ \<Rightarrow> ''social'')
      in map_option (token_policy W d) (ok (policy_find_by_slug d policy_slug)))"

definition created_response ::
    "'j token_world \<Rightarrow> draws \<Rightarrow> create_authorization_params \<Rightarrow> string \<Rightarrow> string \<Rightarrow> pubkey \<Rightarrow> 'j db
      \<Rightarrow> token_response option" where
  "created_response W R p connection_secret access_token bunker d =
     map_option (\<lambda>relays.
        \<lparr>tr_bunker_url = ''bunker://'' @ bunker @ ''?'' @ relay_params W relays @ ''&secret='' @ connection_secret,
         tr_access_token = Some access_token, tr_token_type = ''Bearer'',
         tr_expires_in = token_expiry_seconds W, tr_scope = Some (ca_scope p),
         tr_policy = response_policy W d (ca_scope p),
         tr_authorization_handle = Some (dr_handle R), tr_refresh_token = Some (dr_refresh_token R)\<rparr>)
       (get_bunker_relays W)"

definition create_oauth_authorization ::
    "'j token_world \<Rightarrow> timestamp \<Rightarrow> draws \<Rightarrow> create_authorization_params \<Rightarrow> 'j server
      \<Rightarrow> (oauth_error + token_response) option \<times> 'j server" where
  "create_oauth_authorization W now R p s0 =
     (case ensure_user_key W p (sv_db s0) of
        (Inl e, d1) \<Rightarrow> (Some (Inl e), s0\<lparr>sv_db := d1\<rparr>)
      | (Inr encrypted, d1) \<Rightarrow>
          (let s = s0\<lparr>sv_db := d1\<rparr> in
           case extract_origin (url_parse W) (ca_redirect_uri p) of
             Inl e \<Rightarrow> (Some (Inl e), s)
           | Inr redirect_origin \<Rightarrow>
               (case dr_secret_pair R of
                  None \<Rightarrow> (Some (Inl (ServerError ''Secret pool exhausted'')), s)
                | Some (connection_secret, secret_hash) \<Rightarrow>
                    (case unlock_for_token W encrypted secret_hash of
                       None \<Rightarrow> (None, s)
                     | Some (Inl e) \<Rightarrow> (Some (Inl e), s)
                     | Some (Inr bunker_keys) \<Rightarrow>
                         (let bunker = public_key (tx W) bunker_keys in
                          case issue_access_token W (ca_user_pubkey p) (ca_tenant_id p) (ca_email p)
                                 redirect_origin bunker (ca_is_headless p) of
                            Inl e \<Rightarrow> (Some (Inl e), s)
                          | Inr access_token \<Rightarrow>
                              (case (case ca_policy_id p of
                                       Some pid \<Rightarrow> Inr pid | None \<Rightarrow> resolve_policy_from_scope d1 (ca_scope p)) of
                                 Inl e \<Rightarrow> (Some (Inl e), s)
                               | Inr policy_id \<Rightarrow>
                                   (case store_authorization W now R p
                                           (authorization_row_params now R p redirect_origin bunker secret_hash policy_id) s of
                                      (Inl e, s1) \<Rightarrow> (Some (Inl e), s1)
                                    | (Inr _, s1) \<Rightarrow>
                                        (map_option Inr
                                           (created_response W R p connection_secret access_token bunker (sv_db s1)),
                                         s1))))))))"

section \<open>The authorization code grant\<close>

definition EMAIL_VERIFICATION_EXPIRY_HOURS :: int where
  "EMAIL_VERIFICATION_EXPIRY_HOURS = 24"

text \<open>PKCE, when the code was issued with a challenge.\<close>

definition check_pkce ::
    "'j token_world \<Rightarrow> oauth_code \<Rightarrow> string option \<Rightarrow> (oauth_error + unit) option" where
  "check_pkce W c code_verifier =
     (case oc_code_challenge c of
        None \<Rightarrow> Some (Inr ())
      | Some challenge \<Rightarrow>
          (let meth = (case oc_code_challenge_method c of Some m \<Rightarrow> m | None \<Rightarrow> ''plain'')
           in case code_verifier of
                None \<Rightarrow> Some (Inl (InvalidRequest ''code_verifier required for PKCE flow''))
              | Some verifier \<Rightarrow> validate_pkce (tw_s256 W) verifier challenge meth))"

text \<open>The secret to store for a deferred registration: kept with the code, or from the verifier.\<close>

definition registration_secret ::
    "'j token_world \<Rightarrow> oauth_code \<Rightarrow> string option \<Rightarrow> oauth_error + bytes" where
  "registration_secret W c nsec =
     (case oc_pending_encrypted_secret c of
        Some stored_secret \<Rightarrow> Inr stored_secret
      | None \<Rightarrow>
          and_then (ok_or (InvalidRequest ''Missing nsec in code_verifier for BYOK flow'') nsec)
            (\<lambda>nsec_str. and_then
               (map_err (\<lambda>e. InvalidRequest (''Invalid nsec in code_verifier: '' @ e)) (keys_parse W nsec_str))
               (\<lambda>keys. if public_key (tx W) keys \<noteq> oc_user_pubkey c
                  then Inl (InvalidRequest (''nsec doesn'' @ [CHR 0x27] @ ''t match pubkey from registration''))
                  else map_err OAuthEncryption (km_encrypt (tx W) keys))))"

definition complete_registration ::
    "'j token_world \<Rightarrow> timestamp \<Rightarrow> int \<Rightarrow> string \<Rightarrow> oauth_code \<Rightarrow> string option \<Rightarrow> string \<Rightarrow> 'j db
      \<Rightarrow> oauth_error + 'j db" where
  "complete_registration W now tenant_id code c nsec email d =
     (if is_set (find_pubkey_by_email email tenant_id d)
      then Inl (InvalidRequest ''This email is already registered. Please sign in instead.'')
      else if user_exists (oc_user_pubkey c) tenant_id d
      then Inl (InvalidRequest ''This Nostr key is already registered.'')
      else and_then (registration_secret W c nsec)
        (\<lambda>encrypted_secret. and_then
           (ok_or (InvalidRequest ''Missing password hash in pending registration'') (oc_pending_password_hash c))
        (\<lambda>password_hash. and_then
           (ok_or (InvalidRequest ''Missing verification token in pending registration'')
              (oc_pending_email_verification_token c))
        (\<lambda>token. map_err (\<lambda>e. OAuthDatabase (''encountered unexpected or invalid data: '' @ repository_error_text e))
           (finalize_oauth_registration now (oc_user_pubkey c) tenant_id email password_hash token
              (now + hours EMAIL_VERIFICATION_EXPIRY_HOURS) encrypted_secret code d)))))"

text \<open>Spending the code: the email of the user, and the database without the code.\<close>

definition redeem_code ::
    "'j token_world \<Rightarrow> timestamp \<Rightarrow> int \<Rightarrow> string \<Rightarrow> oauth_code \<Rightarrow> string option \<Rightarrow> 'j db
      \<Rightarrow> (oauth_error + string) \<times> 'j db" where
  "redeem_code W now tenant_id code c nsec d =
     (case oc_pending_email c of
        Some email \<Rightarrow>
          (case complete_registration W now tenant_id code c nsec email d of
             Inl e \<Rightarrow> (Inl e, d)
           | Inr d1 \<Rightarrow> (Inr email, d1))
      | None \<Rightarrow>
          (let d1 = code_delete tenant_id code d
           in (map_err oauth_error_of (get_email (oc_user_pubkey c) tenant_id d1), d1)))"

text \<open>What follows the checks: spending the code and creating the grant.\<close>

definition exchange_code ::
    "'j token_world \<Rightarrow> timestamp \<Rightarrow> draws \<Rightarrow> int \<Rightarrow> string \<Rightarrow> oauth_code \<Rightarrow> string option \<Rightarrow> 'j server
      \<Rightarrow> (oauth_error + token_response) option \<times> 'j server" where
  "exchange_code W now R tenant_id code c nsec s =
     (case redeem_code W now tenant_id code c nsec (sv_db s) of
        (Inl e, d1) \<Rightarrow> (Some (Inl e), s\<lparr>sv_db := d1\<rparr>)
      | (Inr email, d1) \<Rightarrow>
          create_oauth_authorization W now R
            \<lparr>ca_tenant_id = tenant_id, ca_user_pubkey = oc_user_pubkey c, ca_email = email,
             ca_client_id = oc_client_id c, ca_scope = oc_scope c, ca_redirect_uri = oc_redirect_uri c,
             ca_nsec_from_verifier = nsec, ca_previous_auth_id = oc_previous_auth_id c,
             ca_is_headless = oc_is_headless c, ca_policy_id = None\<rparr>
            (s\<lparr>sv_db := d1\<rparr>))"

definition handle_authorization_code_grant ::
    "'j token_world \<Rightarrow> timestamp \<Rightarrow> draws \<Rightarrow> int \<Rightarrow> token_request \<Rightarrow> 'j server
      \<Rightarrow> (oauth_error + token_response) option \<times> 'j server" where
  "handle_authorization_code_grant W now R tenant_id req s =
     (case tq_code req of
        None \<Rightarrow> (Some (Inl (InvalidRequest (''Missing '' @ [CHR 0x27] @ ''code'' @ [CHR 0x27]
                  @ '' parameter for authorization_code grant''))), s)
      | Some code \<Rightarrow>
          (case tq_redirect_uri req of
             None \<Rightarrow> (Some (Inl (InvalidRequest (''Missing '' @ [CHR 0x27] @ ''redirect_uri'' @ [CHR 0x27]
                       @ '' parameter for authorization_code grant''))), s)
           | Some redirect_uri \<Rightarrow>
               (case code_find_valid now tenant_id code (sv_db s) of
                  None \<Rightarrow> (Some (Inl OAuthUnauthorized), s)
                | Some c \<Rightarrow>
                    (if oc_redirect_uri c \<noteq> redirect_uri
                     then (Some (Inl (InvalidRequest ''redirect_uri mismatch'')), s)
                     else (case check_pkce W c (tq_code_verifier req) of
                             None \<Rightarrow> (None, s)
                           | Some (Inl e) \<Rightarrow> (Some (Inl e), s)
                           | Some (Inr _) \<Rightarrow>
                               exchange_code W now R tenant_id code c
                                 (Option.bind (tq_code_verifier req) extract_nsec_from_verifier_public) s)))))"

section \<open>The refresh grant\<close>

text \<open>\<open>OAuthAuthorization::find\<close> reports a missing row as \<open>sqlx\<close> does.\<close>

definition refreshed_response ::
    "'j token_world \<Rightarrow> draws \<Rightarrow> oauth_authorization \<Rightarrow> string \<Rightarrow> pubkey \<Rightarrow> 'j db \<Rightarrow> token_response option" where
  "refreshed_response W R a access_token bunker d =
     map_option (\<lambda>relays.
        let policy_info = (case oa_policy_id a of
                None \<Rightarrow> None
              | Some policy_id \<Rightarrow> map_option (token_policy W d) (ok (policy_find d policy_id)))
        in \<lparr>tr_bunker_url = ''bunker://'' @ bunker @ ''?'' @ relay_params W relays,
            tr_access_token = Some access_token, tr_token_type = ''Bearer'',
            tr_expires_in = token_expiry_seconds W,
            tr_scope = Some (case policy_info of Some info \<Rightarrow> ''policy:'' @ tp_slug info | None \<Rightarrow> ''policy:full''),
            tr_policy = policy_info, tr_authorization_handle = oa_authorization_handle a,
            tr_refresh_token = Some (dr_refresh_token R)\<rparr>)
       (get_bunker_relays W)"

text \<open>
  After the token is spent: the access token for a grant that was found, then the new refresh token.
\<close>

definition rotate ::
    "'j token_world \<Rightarrow> timestamp \<Rightarrow> draws \<Rightarrow> int \<Rightarrow> oauth_authorization \<Rightarrow> 'j server
      \<Rightarrow> (oauth_error + token_response) option \<times> 'j server" where
  "rotate W now R tenant_id a s =
     (let d = sv_db s;
          email = (case get_email (oa_user_pubkey a) tenant_id d of Inr e \<Rightarrow> e | Inl _ \<Rightarrow> [])
      in case find_encrypted_key_for_tenant d (oa_user_pubkey a) tenant_id of
           None \<Rightarrow> (Some (Inl (InvalidGrant ''User keys not found'')), s)
         | Some encrypted \<Rightarrow>
             (case unlock_for_token W encrypted (oa_secret_hash a) of
                None \<Rightarrow> (None, s)
              | Some (Inl e) \<Rightarrow> (Some (Inl e), s)
              | Some (Inr bunker_keys) \<Rightarrow>
                  (let bunker = public_key (tx W) bunker_keys in
                   case issue_access_token W (oa_user_pubkey a) tenant_id email (oa_redirect_origin a) bunker False of
                     Inl e \<Rightarrow> (Some (Inl e), s)
                   | Inr access_token \<Rightarrow>
                       (case refresh_create (tw_sha256 W) now (dr_refresh_token R) (oa_id a) tenant_id d of
                          (Inl e, d1) \<Rightarrow> (Some (Inl (oauth_error_of e)), s\<lparr>sv_db := d1\<rparr>)
                        | (Inr _, d1) \<Rightarrow>
                            (map_option Inr (refreshed_response W R a access_token bunker d1), s\<lparr>sv_db := d1\<rparr>)))))"

definition handle_refresh_token_grant ::
    "'j token_world \<Rightarrow> timestamp \<Rightarrow> draws \<Rightarrow> int \<Rightarrow> token_request \<Rightarrow> 'j server
      \<Rightarrow> (oauth_error + token_response) option \<times> 'j server" where
  "handle_refresh_token_grant W now R tenant_id req s =
     (case tq_refresh_token req of
        None \<Rightarrow> (Some (Inl (InvalidRequest (''Missing '' @ [CHR 0x27] @ ''refresh_token'' @ [CHR 0x27]
                  @ '' parameter for refresh_token grant''))), s)
      | Some refresh_token \<Rightarrow>
          (case refresh_consume (tw_sha256 W) now refresh_token (sv_db s) of
             (None, d1) \<Rightarrow> (Some (Inl (InvalidGrant ''Invalid or expired refresh token'')), s\<lparr>sv_db := d1\<rparr>)
           | (Some record_row, d1) \<Rightarrow>
               (let s1 = s\<lparr>sv_db := d1\<rparr> in
                case oauth_find tenant_id (rt_authorization_id record_row) (db_oauth d1) of
                  Inl _ \<Rightarrow> (Some (Inl (InvalidGrant (''Authorization not found: Database error: '' @ row_not_found))), s1)
                | Inr a \<Rightarrow>
                    (if is_set (oa_revoked_at a)
                     then (Some (Inl (InvalidGrant ''Authorization has been revoked'')), s1)
                     else rotate W now R tenant_id a s1))))"

section \<open>The endpoint\<close>

definition token ::
    "'j token_world \<Rightarrow> timestamp \<Rightarrow> draws \<Rightarrow> int \<Rightarrow> token_request \<Rightarrow> 'j server
      \<Rightarrow> (oauth_error + token_response) option \<times> 'j server" where
  "token W now R tenant_id req s =
     (let grant_type = (case tq_grant_type req of Some g \<Rightarrow> g | None \<Rightarrow> ''authorization_code'')
      in if grant_type = ''authorization_code'' then handle_authorization_code_grant W now R tenant_id req s
         else if grant_type = ''refresh_token'' then handle_refresh_token_grant W now R tenant_id req s
         else (Some (Inl (InvalidRequest (''Invalid grant_type '' @ [CHR 0x27] @ grant_type @ [CHR 0x27]
                @ ''. Supported: authorization_code, refresh_token.''))), s))"

end
