(* ===== verification/HttpRpcProofs.thy ===== *)
theory HttpRpcProofs
  imports HttpRpc Samples
begin

text \<open>
  What the REST transport guarantees: the handler a request gets was loaded for its own token and
  tenant, a result leaves only when the handler's permissions allow it, and a revocation that is
  followed by an invalidation locks the grant out; and what the cache costs: a cached token is
  answered without a look at its expiry or at the database.
\<close>

section \<open>Permission stacks\<close>

lemma validate_sign_permission_iff:
  "validate_sign_permission h ev = Inr () \<longleftrightarrow> (\<forall>p\<in>set (hh_permissions h). can_sign p ev)"
  by (auto simp: validate_sign_permission_def list_all_iff)

lemma validate_encrypt_permission_iff:
  "validate_encrypt_permission X h text pk = Inr () \<longleftrightarrow>
     (\<forall>p\<in>set (hh_permissions h). can_encrypt (x_perm (hx X)) p text (hh_user_pubkey h) pk)"
  by (auto simp: validate_encrypt_permission_def list_all_iff)

lemma validate_decrypt_permission_iff:
  "validate_decrypt_permission h text pk = Inr () \<longleftrightarrow>
     (\<forall>p\<in>set (hh_permissions h). can_decrypt p text pk (hh_user_pubkey h))"
  by (auto simp: validate_decrypt_permission_def list_all_iff)

lemmas validate_permission_iffs =
  validate_sign_permission_iff validate_encrypt_permission_iff validate_decrypt_permission_iff

interpretation http_sign: restriction_stack can_sign
    "\<lambda>ps ev. validate_sign_permission (h\<lparr>hh_permissions := ps\<rparr>) ev"
  for h :: http_handler
  by unfold_locales (simp add: validate_permission_iffs)

interpretation http_encrypt: restriction_stack
    "\<lambda>p (text, recipient). can_encrypt (x_perm (hx X)) p text (hh_user_pubkey h) recipient"
    "\<lambda>ps (text, recipient). validate_encrypt_permission X (h\<lparr>hh_permissions := ps\<rparr>) text recipient"
  for X :: "'j http_world" and h :: http_handler
  by unfold_locales (auto simp: validate_permission_iffs)

interpretation http_decrypt: restriction_stack
    "\<lambda>p (text, sender). can_decrypt p text sender (hh_user_pubkey h)"
    "\<lambda>ps (text, sender). validate_decrypt_permission (h\<lparr>hh_permissions := ps\<rparr>) text sender"
  for h :: http_handler
  by unfold_locales (auto simp: validate_permission_iffs)

section \<open>Cache keys\<close>

lemma le_bytes_bit:
  assumes "k < 64"
  shows "bit n k \<longleftrightarrow> bit (le_bytes n ! (k div 8)) (k mod 8)"
proof -
  have "k div 8 < 8" using assms by simp
  then have "le_bytes n ! (k div 8) = word_of_int (n div 2 ^ (8 * (k div 8)))"
    by (simp add: le_bytes_def)
  also have "bit \<dots> (k mod 8) = bit n (8 * (k div 8) + k mod 8)"
    by (simp add: bit_word_of_int_iff bit_drop_bit_eq flip: drop_bit_eq_div)
  finally show ?thesis by simp
qed

lemma length_le_bytes [simp]: "length (le_bytes n) = 8"
  by (simp add: le_bytes_def)

definition is_i64 :: "int \<Rightarrow> bool" where
  "is_i64 n \<longleftrightarrow> - (2 ^ 63) \<le> n \<and> n < 2 ^ 63"

lemma le_bytes_inject:
  assumes "le_bytes m = le_bytes n" and "is_i64 m" and "is_i64 n"
  shows "m = n"
proof -
  have "bit m k = bit n k" if "k < 64" for k
    using le_bytes_bit [OF that] assms(1) by simp
  then have "take_bit 64 m = take_bit 64 n"
    by (intro bit_eqI) (auto simp: bit_take_bit_iff)
  then have "m mod 2 ^ 64 = n mod 2 ^ 64" by (simp add: take_bit_eq_mod)
  then have "(2 ^ 64 :: int) dvd m - n" by (simp add: mod_eq_dvd_iff)
  moreover have "\<bar>m - n\<bar> < 2 ^ 64" using assms(2,3) by (auto simp: is_i64_def)
  ultimately show ?thesis
    by (metis abs_numeral dvd_imp_le_int eq_iff_diff_eq_0 linorder_not_le power_abs)
qed

lemma str_bytes_inject: "str_bytes s = str_bytes t \<longleftrightarrow> s = t"
proof -
  have "inj (\<lambda>c. word_of_nat (of_char c) :: 8 word)"
  proof (rule injI)
    fix c d :: char
    assume "(word_of_nat (of_char c) :: 8 word) = word_of_nat (of_char d)"
    then have "unat (word_of_nat (of_char c) :: 8 word) = unat (word_of_nat (of_char d) :: 8 word)"
      by simp
    then have "(of_char c :: nat) = of_char d"
      by (simp add: unat_of_nat take_bit_eq_mod nat_of_char_less_256)
    then show "c = d" by simp
  qed
  then show ?thesis by (simp add: str_bytes_def inj_map_eq_map)
qed

lemma token_cache_key_inject:
  assumes "inj (blake3 X)" and "is_i64 t" and "is_i64 t'"
    and "compute_token_cache_key X hdr t = Some k" and "compute_token_cache_key X hdr' t' = Some k"
  shows "hdr = hdr' \<and> t = t'"
proof -
  from assms(4,5) obtain a b where ab: "hdr = ''Bearer '' @ a" "hdr' = ''Bearer '' @ b"
    "blake3 X (le_bytes t @ str_bytes a) = blake3 X (le_bytes t' @ str_bytes b)"
    by (auto simp: compute_token_cache_key_def)
  then have "le_bytes t = le_bytes t' \<and> str_bytes a = str_bytes b"
    using assms(1) by (simp add: inj_eq)
  then show ?thesis
    using ab le_bytes_inject assms(2,3) by (simp add: str_bytes_inject)
qed

section \<open>Loading\<close>

text \<open>What a handler loaded for a token is: an OAuth grant of the user, or an unclaimed user.\<close>

definition handler_of_user :: "'j http_world \<Rightarrow> 'j db \<Rightarrow> int \<Rightarrow> pubkey \<Rightarrow> http_handler \<Rightarrow> bool" where
  "handler_of_user X d tenant_id user h \<longleftrightarrow>
     (\<exists>enc. find_encrypted_key_for_tenant d user tenant_id = Some enc
        \<and> and_then (km_decrypt (hx X) enc) (sk_from_slice (hx X)) = Inr (hh_signing h))
     \<and> hh_user_pubkey h = public_key (hx X) (hh_signing h)"

lemma load_user_key_ok:
  "load_user_key X msg d user tenant_id = Inr sk \<longleftrightarrow>
     (\<exists>enc. find_encrypted_key_for_tenant d user tenant_id = Some enc
        \<and> and_then (km_decrypt (hx X) enc) (sk_from_slice (hx X)) = Inr sk)"
  by (auto simp: load_user_key_def and_then_Inr_iff)

lemma load_on_demand_ok:
  assumes "load_handler_on_demand X d bunker user tenant_id = Inr h"
  obtains a where "a \<in> set (db_oauth d)" "oa_bunker_public_key a = bunker" "oa_user_pubkey a = user"
    "fetch_optional (\<lambda>a. oa_bunker_public_key a = bunker) (db_oauth d) = Some a"
    "handler_of_user X d tenant_id user h" "hh_authorization_id h = oa_id a"
    "hh_expires_at h = oa_expires_at a" "hh_revoked_at h = oa_revoked_at a" "hh_is_oauth h"
    "hh_permissions h = filter_ok (map (to_custom_permission (x_perm (hx X))) (oauth_permissions d a))"
    "parse_cache_key (hx X) bunker = Inr (hh_bunker_pubkey h)"
proof -
  from assms obtain a where a: "fetch_optional (\<lambda>a. oa_bunker_public_key a = bunker) (db_oauth d) = Some a"
    by (auto simp: load_handler_on_demand_def and_then_Inr_iff find_by_bunker_pubkey_def)
  note fetch_optional_Some [OF a]
  with a assms show thesis
    by (intro that [of a])
      (auto simp: load_handler_on_demand_def and_then_Inr_iff find_by_bunker_pubkey_def load_user_key_ok
        handler_of_user_def http_handler_new_def oauth_permissions_def split: if_splits option.splits)
qed

lemma load_preloaded_ok:
  assumes "load_preloaded_user_handler X d user tenant_id = Inr h"
  shows "handler_of_user X d tenant_id user h \<and> \<not> hh_is_oauth h \<and> hh_permissions h = []
         \<and> is_unclaimed d user tenant_id = Some True"
  using assms
  by (auto simp: load_preloaded_user_handler_def and_then_Inr_iff load_user_key_ok handler_of_user_def
      http_handler_new_def split: if_splits)

lemma load_for_token_ok:
  assumes "load_for_token X now hdr tenant_id d = Inr h"
  obtains user origin bunker u where
    "validate_ucan_token X now hdr tenant_id = Inr (user, origin, bunker, u)"
    "handler_of_user X d tenant_id user h"
    "case bunker of Some b \<Rightarrow> load_handler_on_demand X d b user tenant_id = Inr h
       | None \<Rightarrow> is_server_signed X u \<and> load_preloaded_user_handler X d user tenant_id = Inr h"
proof -
  from assms obtain user origin bunker u where
    v: "validate_ucan_token X now hdr tenant_id = Inr (user, origin, bunker, u)"
    and l: "case bunker of Some b \<Rightarrow> load_handler_on_demand X d b user tenant_id = Inr h
       | None \<Rightarrow> is_server_signed X u \<and> load_preloaded_user_handler X d user tenant_id = Inr h"
    by (auto simp: load_for_token_def and_then_Inr_iff split: option.splits if_splits)
  moreover from l have "handler_of_user X d tenant_id user h"
    by (auto dest: load_preloaded_ok elim: load_on_demand_ok split: option.splits)
  ultimately show thesis using that by blast
qed

section \<open>Runs of the server\<close>

text \<open>
  One step: a request of some tenant, an invalidation by another endpoint, the eviction of an entry,
  or any change of the database by other code.
\<close>

inductive http_step :: "'j http_world \<Rightarrow> 'j http_state \<Rightarrow> 'j http_state \<Rightarrow> bool" for X where
  call: "is_i64 tenant_id \<Longrightarrow>
     http_step X s (snd (nostr_rpc X now tenant_id header meth params s))"
| drop_bunker: "http_step X s (s\<lparr>ht_cache := invalidate_handlers_for_bunker X c bunker (ht_cache s)\<rparr>)"
| drop_authorization: "http_step X s (s\<lparr>ht_cache := invalidate_handlers_for_authorization c i (ht_cache s)\<rparr>)"
| drop_user: "http_step X s (s\<lparr>ht_cache := invalidate_handlers_for_user c user (ht_cache s)\<rparr>)"
| evict_entry: "http_step X s (s\<lparr>ht_cache := (ht_cache s)(k := None)\<rparr>)"
| other_writer: "http_step X s (s\<lparr>ht_db := d\<rparr>)"

definition http_run :: "'j http_world \<Rightarrow> 'j http_state \<Rightarrow> 'j http_state \<Rightarrow> bool" where
  "http_run X = (http_step X)\<^sup>*\<^sup>*"

definition http0 :: "'j db \<Rightarrow> 'j http_state" where
  "http0 d = \<lparr>ht_db = d, ht_cache = (\<lambda>k. None),
     ht_metrics = \<lparr>hm_requests_total = 0, hm_cache_hits = 0, hm_cache_misses = 0, hm_success = 0,
                   hm_auth_errors = 0\<rparr>\<rparr>"

text \<open>Every cached handler was loaded for a token whose cache key it is stored under.\<close>

definition loaded_for_key :: "'j http_world \<Rightarrow> cache_key \<Rightarrow> http_handler \<Rightarrow> bool" where
  "loaded_for_key X k h \<longleftrightarrow>
     (\<exists>now hdr t d. is_i64 t \<and> compute_token_cache_key X hdr t = Some k \<and> load_for_token X now hdr t d = Inr h)"

definition cache_inv :: "'j http_world \<Rightarrow> http_cache \<Rightarrow> bool" where
  "cache_inv X cache \<longleftrightarrow> (\<forall>k h. cache k = Some h \<longrightarrow> loaded_for_key X k h)"

definition counters_inv :: "http_metrics \<Rightarrow> bool" where
  "counters_inv m \<longleftrightarrow>
     hm_cache_hits m + hm_cache_misses m \<le> hm_requests_total m
     \<and> hm_success m + hm_auth_errors m \<le> hm_requests_total m"

lemmas count_defs = count_hit_def count_miss_def count_request_def count_auth_error_def count_success_def

lemma invalidate_handlers_sub:
  "invalidate_handlers c m cache k = Some h \<Longrightarrow> cache k = Some h \<and> \<not> m h"
  by (auto simp: invalidate_handlers_def split: if_splits option.splits)

lemma cache_inv_sub:
  "cache_inv X cache \<Longrightarrow> (\<And>k h. cache' k = Some h \<Longrightarrow> cache k = Some h) \<Longrightarrow> cache_inv X cache'"
  by (auto simp: cache_inv_def)

lemma get_handler_cache_inv:
  assumes "cache_inv X (ht_cache s)" and "is_i64 t"
  shows "cache_inv X (ht_cache (snd (get_handler X now hdr t s)))"
  using assms
  by (auto simp: get_handler_def cache_inv_def loaded_for_key_def count_defs
      split: option.splits sum.splits)

lemma get_handler_metrics:
  "snd (get_handler X now hdr t s) = s' \<Longrightarrow>
     hm_requests_total (ht_metrics s') = hm_requests_total (ht_metrics s)
     \<and> hm_cache_hits (ht_metrics s') + hm_cache_misses (ht_metrics s')
         \<le> hm_cache_hits (ht_metrics s) + hm_cache_misses (ht_metrics s) + 1
     \<and> hm_success (ht_metrics s') = hm_success (ht_metrics s)
     \<and> hm_auth_errors (ht_metrics s') = hm_auth_errors (ht_metrics s)"
  by (auto simp: get_handler_def count_defs split: option.splits sum.splits)

lemma get_handler_source:
  assumes "fst (get_handler X now hdr t s) = Inr h"
  obtains k where "compute_token_cache_key X hdr t = Some k" "is_valid now h"
    "ht_cache s k = Some h \<or> load_for_token X now hdr t (ht_db s) = Inr h"
  using assms by (auto simp: get_handler_def split: option.splits sum.splits if_splits)

text \<open>A call changes the cache as its handler lookup does.\<close>

lemma nostr_rpc_cache:
  "ht_cache (snd (nostr_rpc X now t header meth params s)) =
     (case header of None \<Rightarrow> ht_cache s
      | Some hdr \<Rightarrow> ht_cache (snd (get_handler X now hdr t (count_request s))))"
  by (auto simp: nostr_rpc_def count_defs Let_def split: option.splits prod.splits sum.splits)

lemma nostr_rpc_counters:
  assumes "counters_inv (ht_metrics s)"
  shows "counters_inv (ht_metrics (snd (nostr_rpc X now t header meth params s)))"
proof (cases header)
  case None
  then show ?thesis using assms by (simp add: nostr_rpc_def counters_inv_def count_defs Let_def)
next
  case (Some hdr)
  obtain r s1 where g: "get_handler X now hdr t (count_request s) = (r, s1)" by fastforce
  note m = get_handler_metrics [of X now hdr t "count_request s" s1, unfolded g snd_conv, OF refl]
  have r: "hm_requests_total (ht_metrics (count_request s)) = hm_requests_total (ht_metrics s) + 1"
    "hm_cache_hits (ht_metrics (count_request s)) = hm_cache_hits (ht_metrics s)"
    "hm_cache_misses (ht_metrics (count_request s)) = hm_cache_misses (ht_metrics s)"
    "hm_success (ht_metrics (count_request s)) = hm_success (ht_metrics s)"
    "hm_auth_errors (ht_metrics (count_request s)) = hm_auth_errors (ht_metrics s)"
    by (simp_all add: count_request_def)
  have "ht_metrics (snd (nostr_rpc X now t header meth params s)) = ht_metrics s1
      \<or> ht_metrics (snd (nostr_rpc X now t header meth params s)) = ht_metrics (count_auth_error s1)
      \<or> ht_metrics (snd (nostr_rpc X now t header meth params s)) = ht_metrics (count_success s1)"
    using g Some by (auto simp: nostr_rpc_def Let_def count_success_def split: sum.splits prod.splits)
  then show ?thesis
    using assms m unfolding r
    by (elim disjE) (simp_all add: counters_inv_def count_auth_error_def count_success_def)
qed

lemma http_step_inv:
  assumes "http_step X s s'" and "cache_inv X (ht_cache s)" and "counters_inv (ht_metrics s)"
  shows "cache_inv X (ht_cache s') \<and> counters_inv (ht_metrics s')"
  using assms
proof (induction rule: http_step.induct)
  case (call tenant_id s now header meth params)
  have "cache_inv X (ht_cache (count_request s))" using call by (simp add: count_request_def)
  then show ?case
    using call by (auto simp: nostr_rpc_cache nostr_rpc_counters get_handler_cache_inv split: option.split)
next
  case (drop_bunker s c bunker)
  then show ?case
    by (auto simp: invalidate_handlers_for_bunker_def elim!: cache_inv_sub
        dest!: invalidate_handlers_sub split: sum.splits)
next
  case (drop_authorization s c i)
  then show ?case
    by (auto simp: invalidate_handlers_for_authorization_def elim!: cache_inv_sub
        dest!: invalidate_handlers_sub)
next
  case (drop_user s c user)
  then show ?case
    by (auto simp: invalidate_handlers_for_user_def elim!: cache_inv_sub dest!: invalidate_handlers_sub)
next
  case (evict_entry s k)
  then show ?case by (auto simp: cache_inv_def)
qed auto

lemma http_run_inv:
  assumes "http_run X (http0 d) s"
  shows "cache_inv X (ht_cache s) \<and> counters_inv (ht_metrics s)"
  using assms unfolding http_run_def
proof (induction rule: rtranclp_induct)
  case base
  then show ?case by (simp add: http0_def cache_inv_def counters_inv_def)
next
  case (step s s')
  then show ?case using http_step_inv by blast
qed

section \<open>A concrete server\<close>

text \<open>One token of \<open>alice\<close>, issued by herself for \<open>bunker1\<close> in tenant 1 and expiring at 30.\<close>

definition sample_ucan :: "jv ucan" where
  "sample_ucan =
     \<lparr>uc_issuer = ''did:key:zalice'', uc_audience = ''did:key:zalice'',
      uc_facts = [JObj [(''redirect_origin'', JStr ''https://app''), (''bunker_pubkey'', JStr ''bunker1''),
                        (''tenant_id'', JNum 1)]], uc_payload = []\<rparr>"

definition Y0 :: "jv http_world" where
  "Y0 =
     \<lparr>hx = X0\<lparr>hex_decode := (\<lambda>s. Inr (take 32 (str_bytes s @ replicate 32 0)))\<rparr>,
      ucan_parse = (\<lambda>t. if t = ''tok'' then Inr sample_ucan else Inl ''bad token''),
      ucan_check_signature = (\<lambda>u. Inr ()), ucan_is_expired = (\<lambda>now u. 30 \<le> now),
      fact_get = (\<lambda>f k. case f of JObj fs \<Rightarrow> map_of fs k | _ \<Rightarrow> None),
      json_i64 = (\<lambda>j. case j of JNum n \<Rightarrow> Some (uint n) | _ \<Rightarrow> None),
      bs58_decode = (\<lambda>s. Inr (0xe7 # 0x01 # str_bytes s)),
      pk_from_slice = (\<lambda>bs. Inr (map (\<lambda>w. char_of (unat w)) bs)),
      server_pubkey = Inr ''server'', blake3 = id,
      event_from_value = (\<lambda>j. case j of JNum k \<Rightarrow> Inr \<lparr>ue_pubkey = ''alice'', ue_created_at = 0,
          ue_kind = ucast k, ue_tags = [], ue_content = ''hi''\<rparr> | _ \<Rightarrow> Inl ''not an event''),
      json_of_string = JStr, json_of_event = (\<lambda>e. Inr (JStr (ev_content e)))\<rparr>"

definition after_call :: "jv http_state" where
  "after_call = snd (nostr_rpc Y0 20 1 (Some ''Bearer tok'') ''sign_event'' [JNum 1] (http0 world))"

lemma is_i64_1 [simp]: "is_i64 1" by (simp add: is_i64_def)

lemma after_call_reached: "http_run Y0 (http0 world) after_call"
  unfolding http_run_def after_call_def by (intro r_into_rtranclp http_step.call) simp

lemma inj_blake3_Y0: "inj (blake3 Y0)" by (simp add: Y0_def)

section \<open>Properties\<close>



text \<open>
  C4. The REST endpoint keeps the policy: when a call other than \<open>get_public_key\<close> succeeds, the
  handler it used was unrevoked and unexpired at the call, and each of the handler's permissions
  allows the operation on the parameters that were sent.
\<close>

definition rpc_allowed :: "'j http_world \<Rightarrow> http_handler \<Rightarrow> string \<Rightarrow> 'j list \<Rightarrow> bool" where
  "rpc_allowed X h meth params =
     (if meth = ''sign_event'' then
        (case parse_unsigned_event X params of
           Inr ev \<Rightarrow> list_all (\<lambda>p. can_sign p ev) (hh_permissions h) | Inl _ \<Rightarrow> False)
      else if meth = ''nip44_encrypt'' \<or> meth = ''nip04_encrypt'' then
        (case parse_encrypt_params X params of
           Inr (pk, text) \<Rightarrow>
             list_all (\<lambda>p. can_encrypt (x_perm (hx X)) p text (hh_user_pubkey h) pk) (hh_permissions h)
         | Inl _ \<Rightarrow> False)
      else if meth = ''nip44_decrypt'' \<or> meth = ''nip04_decrypt'' then
        (case parse_decrypt_params X params of
           Inr (pk, text) \<Rightarrow> list_all (\<lambda>p. can_decrypt p text pk (hh_user_pubkey h)) (hh_permissions h)
         | Inl _ \<Rightarrow> False)
      else False)"

lemmas http_operation_defs =
  http_sign_event_def http_nip44_encrypt_def http_nip44_decrypt_def http_nip04_encrypt_def
  http_nip04_decrypt_def

lemma http_operation_ok:
  "http_sign_event X now h ev = Inr e \<Longrightarrow> is_valid now h \<and> list_all (\<lambda>p. can_sign p ev) (hh_permissions h)"
  "http_nip44_encrypt X now h pk text = Inr r \<Longrightarrow> is_valid now h
     \<and> list_all (\<lambda>p. can_encrypt (x_perm (hx X)) p text (hh_user_pubkey h) pk) (hh_permissions h)"
  "http_nip04_encrypt X now h pk text = Inr r \<Longrightarrow> is_valid now h
     \<and> list_all (\<lambda>p. can_encrypt (x_perm (hx X)) p text (hh_user_pubkey h) pk) (hh_permissions h)"
  "http_nip44_decrypt X now h pk text = Inr r \<Longrightarrow> is_valid now h
     \<and> list_all (\<lambda>p. can_decrypt p text pk (hh_user_pubkey h)) (hh_permissions h)"
  "http_nip04_decrypt X now h pk text = Inr r \<Longrightarrow> is_valid now h
     \<and> list_all (\<lambda>p. can_decrypt p text pk (hh_user_pubkey h)) (hh_permissions h)"
  by (simp_all add: http_operation_defs and_then_Inr_iff validate_permission_iffs list_all_iff
      split: if_splits)

lemma rpc_call_ok:
  "fst (rpc_call X now h meth params) = Inr v \<Longrightarrow> meth \<noteq> ''get_public_key'' \<Longrightarrow>
     is_valid now h \<and> rpc_allowed X h meth params"
  unfolding rpc_call_def rpc_allowed_def
  by (auto simp: and_then_Inr_iff split: if_splits sum.splits dest: http_operation_ok)

theorem http_result_respects_policy:
  assumes "fst (nostr_rpc X now tenant_id (Some hdr) meth params s) = Inr v"
    and "meth \<noteq> ''get_public_key''"
  shows "\<exists>h. fst (get_handler X now hdr tenant_id (count_request s)) = Inr h
           \<and> is_valid now h \<and> rpc_allowed X h meth params"
proof -
  obtain h s1 where g: "get_handler X now hdr tenant_id (count_request s) = (Inr h, s1)"
    and "fst (rpc_call X now h meth params) = Inr v"
    using assms(1) by (auto simp: nostr_rpc_def Let_def split: prod.splits sum.splits)
  then show ?thesis using rpc_call_ok assms(2) by fastforce
qed

theorem http_result_respects_policy_witness:
  "\<exists>h. fst (get_handler Y0 20 ''Bearer tok'' 1 (count_request (http0 world))) = Inr h
       \<and> rpc_allowed Y0 h ''sign_event'' [JNum 1]"
proof -
  have r: "fst (nostr_rpc Y0 20 1 (Some ''Bearer tok'') ''sign_event'' [JNum 1] (http0 world))
           = Inr (JStr ''hi'')" by code_simp
  have m: "''sign_event'' \<noteq> ''get_public_key''" by simp
  from http_result_respects_policy [OF r m] show ?thesis by blast
qed

text \<open>
  C5. Revoking and then invalidating locks a grant out: once a grant is revoked in the database and
  the handlers of its id are invalidated, no token of any tenant gets a handler of that grant again,
  whatever the cache held before.
\<close>

theorem revoke_then_invalidate_locks_out:
  assumes "i < db_oauth_seq d"
    and "s' = s\<lparr>ht_db := d\<lparr>db_oauth := oauth_revoke now i (db_oauth d)\<rparr>,
               ht_cache := invalidate_handlers_for_authorization c i (ht_cache s)\<rparr>"
  shows "\<nexists>h. fst (get_handler X now' hdr tenant_id s') = Inr h
              \<and> hh_is_oauth h \<and> hh_authorization_id h = i"
proof
  assume "\<exists>h. fst (get_handler X now' hdr tenant_id s') = Inr h \<and> hh_is_oauth h \<and> hh_authorization_id h = i"
  then obtain h where g: "fst (get_handler X now' hdr tenant_id s') = Inr h"
    and h: "hh_is_oauth h \<and> hh_authorization_id h = i" by blast
  obtain k where v: "is_valid now' h"
    and "ht_cache s' k = Some h \<or> load_for_token X now' hdr tenant_id (ht_db s') = Inr h"
    using g by (rule get_handler_source)
  then show False
  proof (elim disjE)
    assume "ht_cache s' k = Some h"
    then show False
      using h assms(2) by (auto simp: invalidate_handlers_for_authorization_def dest!: invalidate_handlers_sub)
  next
    assume "load_for_token X now' hdr tenant_id (ht_db s') = Inr h"
    then obtain b user where "load_handler_on_demand X (ht_db s') b user tenant_id = Inr h"
      using h by (elim load_for_token_ok) (auto split: option.splits dest: load_preloaded_ok)
    then obtain a where "a \<in> set (db_oauth (ht_db s'))" "oa_id a = i" "hh_revoked_at h = oa_revoked_at a"
      using h by (elim load_on_demand_ok) auto
    moreover have "oauth_dead i (ht_db s')" using oauth_revoke_dead [OF assms(1)] assms(2) by simp
    ultimately show False using v by (auto simp: oauth_dead_def is_valid_def)
  qed
qed

theorem revoke_then_invalidate_locks_out_witness:
  "1 < db_oauth_seq world
   \<and> (\<nexists>h. fst (get_handler Y0 25 ''Bearer tok'' 1
          (after_call\<lparr>ht_db := world\<lparr>db_oauth := oauth_revoke 21 1 (db_oauth world)\<rparr>,
                      ht_cache := invalidate_handlers_for_authorization True 1 (ht_cache after_call)\<rparr>)) = Inr h
       \<and> hh_is_oauth h \<and> hh_authorization_id h = 1)"
proof -
  have i: "1 < db_oauth_seq world" by (simp add: world_def)
  from revoke_then_invalidate_locks_out [OF i refl] i show ?thesis by blast
qed

text \<open>
  Without an invalidation a cached token outlives everything but the handler's own copy of the
  grant: after a successful request the same token is answered from the cache at any later time at
  which that copy is valid, whatever the database then says and even if the token has expired.
\<close>

theorem cached_token_outlives_grant:
  assumes "get_handler X now hdr tenant_id s = (Inr h, s')" and "is_valid now' h"
  shows "fst (get_handler X now' hdr tenant_id (s'\<lparr>ht_db := d\<rparr>)) = Inr h"
  using assms
  by (auto simp: get_handler_def count_defs split: option.splits sum.splits if_splits)

text \<open>Here the grant is deleted and the token is past its expiry, and the user's key still signs.\<close>

theorem cached_token_outlives_grant_witness:
  "validate_ucan_token Y0 99 ''Bearer tok'' 1 = Inl ''Token expired''
   \<and> (\<exists>h. fst (get_handler Y0 99 ''Bearer tok'' 1
           ((snd (get_handler Y0 20 ''Bearer tok'' 1 (http0 world)))\<lparr>ht_db := empty_db\<rparr>)) = Inr h
         \<and> hh_user_pubkey h = ''alice'')"
proof -
  let ?g = "get_handler Y0 20 ''Bearer tok'' 1 (http0 world)"
  have "\<not> isl (fst ?g) \<and> hh_user_pubkey (projr (fst ?g)) = ''alice'' \<and> is_valid 99 (projr (fst ?g))"
    by code_simp
  then obtain h where h: "?g = (Inr h, snd ?g)" "hh_user_pubkey h = ''alice''" "is_valid 99 h"
    by (metis prod.collapse sum.collapse(2))
  from cached_token_outlives_grant [OF h(1,3), of empty_db] h(2)
  have "\<exists>h. fst (get_handler Y0 99 ''Bearer tok'' 1 ((snd ?g)\<lparr>ht_db := empty_db\<rparr>)) = Inr h
      \<and> hh_user_pubkey h = ''alice''" by blast
  moreover have "validate_ucan_token Y0 99 ''Bearer tok'' 1 = Inl ''Token expired''" by code_simp
  ultimately show ?thesis by blast
qed

end
