(* ===== verification/OAuthTokenProofs.thy ===== *)
theory OAuthTokenProofs
  imports OAuthToken HttpRpcProofs
begin

text \<open>
  What the token endpoint guarantees: who can redeem a code and how often, what grant a redeemed
  code leaves behind, what rotation does to refresh tokens, and that the access token it hands out
  opens the REST transport.
\<close>

section \<open>Creating an authorization\<close>

lemma ensure_user_key_frame:
  assumes "ensure_user_key W p d = (r, d')"
  shows "db_oauth d' = db_oauth d \<and> db_oauth_seq d' = db_oauth_seq d \<and> db_oauth_codes d' = db_oauth_codes d
         \<and> db_users d' = db_users d \<and> db_refresh_tokens d' = db_refresh_tokens d
         \<and> db_policies d' = db_policies d"
  using assms
  by (auto simp: ensure_user_key_def personal_keys_create_def split: option.splits sum.splits if_splits)

lemma store_authorization_ok:
  assumes "store_authorization W now R p row s = (Inr i, s')"
  obtains d1 d2 t where "oauth_create now row (sv_db s) = (Inr i, d1)"
    "refresh_create (tw_sha256 W) now (dr_refresh_token R) i (ca_tenant_id p) d1 = (Inr t, d2)"
    "sv_db s' = sv_db (revoke_previous now (ca_previous_auth_id p) (s\<lparr>sv_db := d2\<rparr>))"
    "sv_cache s' = sv_cache (revoke_previous now (ca_previous_auth_id p) s)"
  using assms
  by (auto simp: store_authorization_def revoke_previous_def Let_def split: prod.splits sum.splits if_splits option.splits)

text \<open>A successful creation passed every check, with these intermediate values.\<close>

lemma create_oauth_authorization_ok:
  assumes "create_oauth_authorization W now R p s = (Some (Inr r), s')"
  obtains encrypted d1 origin secret hash bk access pid i where
    "ensure_user_key W p (sv_db s) = (Inr encrypted, d1)"
    "extract_origin (url_parse W) (ca_redirect_uri p) = Inr origin"
    "dr_secret_pair R = Some (secret, hash)"
    "unlock_for_token W encrypted hash = Some (Inr bk)"
    "issue_access_token W (ca_user_pubkey p) (ca_tenant_id p) (ca_email p) origin
       (public_key (tx W) bk) (ca_is_headless p) = Inr access"
    "(case ca_policy_id p of Some pid \<Rightarrow> Inr pid | None \<Rightarrow> resolve_policy_from_scope d1 (ca_scope p)) = Inr pid"
    "store_authorization W now R p
       (authorization_row_params now R p origin (public_key (tx W) bk) hash pid) (s\<lparr>sv_db := d1\<rparr>) = (Inr i, s')"
    "created_response W R p secret access (public_key (tx W) bk) (sv_db s') = Some r"
proof -
  obtain encrypted d1 where e: "ensure_user_key W p (sv_db s) = (Inr encrypted, d1)"
    using assms by (auto simp: create_oauth_authorization_def split: prod.splits sum.splits)
  obtain origin where o: "extract_origin (url_parse W) (ca_redirect_uri p) = Inr origin"
    using assms e by (auto simp: create_oauth_authorization_def Let_def split: sum.splits)
  obtain secret hash where h: "dr_secret_pair R = Some (secret, hash)"
    using assms e o by (auto simp: create_oauth_authorization_def Let_def split: option.splits)
  obtain bk where b: "unlock_for_token W encrypted hash = Some (Inr bk)"
    using assms e o h by (auto simp: create_oauth_authorization_def Let_def split: option.splits sum.splits)
  obtain access where a: "issue_access_token W (ca_user_pubkey p) (ca_tenant_id p) (ca_email p) origin
       (public_key (tx W) bk) (ca_is_headless p) = Inr access"
    using assms e o h b by (auto simp: create_oauth_authorization_def Let_def split: sum.splits)
  obtain pid where pol: "(case ca_policy_id p of Some pid \<Rightarrow> Inr pid
       | None \<Rightarrow> resolve_policy_from_scope d1 (ca_scope p)) = Inr pid"
    using assms e o h b a by (auto simp: create_oauth_authorization_def Let_def split: sum.splits)
  obtain i s1 where st: "store_authorization W now R p
       (authorization_row_params now R p origin (public_key (tx W) bk) hash pid) (s\<lparr>sv_db := d1\<rparr>) = (Inr i, s1)"
    using assms e o h b a pol
    by (auto simp: create_oauth_authorization_def Let_def split: sum.splits prod.splits)
  then have "s1 = s'" "created_response W R p secret access (public_key (tx W) bk) (sv_db s') = Some r"
    using assms e o h b a pol by (auto simp: create_oauth_authorization_def Let_def)
  then show thesis using that e o h b a pol st by blast
qed

lemma revoke_previous_frame:
  "db_oauth_codes (sv_db (revoke_previous now prev s)) = db_oauth_codes (sv_db s)"
  "db_personal_keys (sv_db (revoke_previous now prev s)) = db_personal_keys (sv_db s)"
  "db_users (sv_db (revoke_previous now prev s)) = db_users (sv_db s)"
  "db_policies (sv_db (revoke_previous now prev s)) = db_policies (sv_db s)"
  "db_oauth_seq (sv_db (revoke_previous now prev s)) = db_oauth_seq (sv_db s)"
  by (auto simp: revoke_previous_def revoke_for_authorization_def Let_def split: option.split)

lemma oauth_create_frame:
  "oauth_create now row d = (r, d') \<Longrightarrow> db_oauth_codes d' = db_oauth_codes d \<and> db_policies d' = db_policies d
     \<and> db_users d' = db_users d \<and> db_personal_keys d' = db_personal_keys d
     \<and> db_refresh_tokens d' = db_refresh_tokens d"
  by (auto simp: oauth_create_def Let_def split: if_splits)

lemma refresh_create_frame:
  "refresh_create sha now tok i t d = (r, d') \<Longrightarrow> db_oauth_codes d' = db_oauth_codes d
     \<and> db_policies d' = db_policies d \<and> db_oauth d' = db_oauth d \<and> db_oauth_seq d' = db_oauth_seq d
     \<and> db_users d' = db_users d \<and> db_personal_keys d' = db_personal_keys d"
  by (auto simp: refresh_create_def Let_def split: if_splits)

lemma store_authorization_frame:
  assumes "store_authorization W now R p row s = (r, s')"
  shows "db_oauth_codes (sv_db s') = db_oauth_codes (sv_db s)"
  using assms
  by (auto simp: store_authorization_def Let_def revoke_previous_frame
      split: prod.splits sum.splits if_splits dest!: oauth_create_frame refresh_create_frame)

lemma create_oauth_authorization_codes:
  assumes "create_oauth_authorization W now R p s = (Some (Inr r), s')"
  shows "db_oauth_codes (sv_db s') = db_oauth_codes (sv_db s)"
  using assms
  by (elim create_oauth_authorization_ok)
    (auto dest!: store_authorization_frame ensure_user_key_frame)

section \<open>Redeeming a code\<close>

lemma redeem_code_deletes:
  assumes "redeem_code W now tenant_id code c nsec d = (Inr email, d')"
  shows "db_oauth_codes d' = delete_where (\<lambda>c. oc_tenant_id c = tenant_id \<and> oc_code c = code) (db_oauth_codes d)"
  using assms
  by (auto simp: redeem_code_def complete_registration_def finalize_oauth_registration_def
      personal_keys_create_def code_delete_def and_then_Inr_iff Let_def
      split: option.splits sum.splits if_splits)

lemma code_grant_checks:
  assumes "handle_authorization_code_grant W now R tenant_id req s = (Some (Inr r), s')"
  obtains code c where "tq_code req = Some code" "tq_redirect_uri req = Some (oc_redirect_uri c)"
    "code_find_valid now tenant_id code (sv_db s) = Some c"
    "check_pkce W c (tq_code_verifier req) = Some (Inr ())"
    "exchange_code W now R tenant_id code c
       (Option.bind (tq_code_verifier req) extract_nsec_from_verifier_public) s = (Some (Inr r), s')"
  using assms
  by (auto simp: handle_authorization_code_grant_def split: option.splits if_splits sum.splits)

lemma exchange_code_ok:
  assumes "exchange_code W now R tenant_id code c nsec s = (Some (Inr r), s')"
  obtains email d1 where "redeem_code W now tenant_id code c nsec (sv_db s) = (Inr email, d1)"
    "create_oauth_authorization W now R
       \<lparr>ca_tenant_id = tenant_id, ca_user_pubkey = oc_user_pubkey c, ca_email = email,
        ca_client_id = oc_client_id c, ca_scope = oc_scope c, ca_redirect_uri = oc_redirect_uri c,
        ca_nsec_from_verifier = nsec, ca_previous_auth_id = oc_previous_auth_id c,
        ca_is_headless = oc_is_headless c, ca_policy_id = None\<rparr> (s\<lparr>sv_db := d1\<rparr>) = (Some (Inr r), s')"
  using assms by (auto simp: exchange_code_def split: prod.splits sum.splits)

lemma exchange_code_spends:
  assumes "exchange_code W now R tenant_id code c nsec s = (Some (Inr r), s')"
  shows "code_find_valid now' tenant_id code (sv_db s') = None"
proof -
  obtain email d1 where r: "redeem_code W now tenant_id code c nsec (sv_db s) = (Inr email, d1)"
    and "db_oauth_codes (sv_db s') = db_oauth_codes d1"
    using assms by (elim exchange_code_ok) (auto dest!: create_oauth_authorization_codes)
  then show ?thesis
    using redeem_code_deletes [OF r] by (auto simp: code_find_valid_def sql_simps)
qed

lemma revoke_previous_keeps:
  "a \<in> set (db_oauth (sv_db s)) \<Longrightarrow> prev \<noteq> Some (oa_id a) \<Longrightarrow>
     a \<in> set (db_oauth (sv_db (revoke_previous now prev s)))"
  by (cases prev) (auto simp: revoke_previous_def revoke_for_authorization_def oauth_revoke_def Let_def
      intro: update_where_miss)

lemma revoke_previous_retires:
  assumes "prev = Some i" and "i < db_oauth_seq (sv_db s)"
  shows "oauth_dead i (sv_db (revoke_previous now prev s))
         \<and> (\<forall>t\<in>set (db_refresh_tokens (sv_db (revoke_previous now prev s))).
              rt_authorization_id t = i \<longrightarrow> is_set (rt_consumed_at t))
         \<and> (\<forall>k h. sv_cache (revoke_previous now prev s) k = Some h \<longrightarrow>
              \<not> (hh_is_oauth h \<and> hh_authorization_id h = i))"
proof (intro conjI)
  let ?d = "snd (revoke_for_authorization now i (sv_db s))"
  have s: "db_oauth_seq ?d = db_oauth_seq (sv_db s)" "db_oauth ?d = db_oauth (sv_db s)"
    by (simp_all add: revoke_for_authorization_def Let_def)
  then have "oauth_dead i (?d\<lparr>db_oauth := oauth_revoke now i (db_oauth ?d)\<rparr>)"
    using assms(2) by (intro oauth_revoke_dead) simp
  then show "oauth_dead i (sv_db (revoke_previous now prev s))"
    using assms(1) by (simp add: revoke_previous_def Let_def)
  show "\<forall>t\<in>set (db_refresh_tokens (sv_db (revoke_previous now prev s))).
          rt_authorization_id t = i \<longrightarrow> is_set (rt_consumed_at t)"
    using assms(1)
    by (simp add: revoke_previous_def revoke_for_authorization_def ball_update_where is_set_iff Let_def)
  show "\<forall>k h. sv_cache (revoke_previous now prev s) k = Some h \<longrightarrow>
          \<not> (hh_is_oauth h \<and> hh_authorization_id h = i)"
    using assms(1)
    by (auto simp: revoke_previous_def invalidate_handlers_for_authorization_def Let_def
        dest!: invalidate_handlers_sub)
qed

lemma redeem_code_frame:
  assumes "redeem_code W now tenant_id code c nsec d = (Inr email, d')"
  shows "db_oauth d' = db_oauth d \<and> db_oauth_seq d' = db_oauth_seq d \<and> db_policies d' = db_policies d
         \<and> db_refresh_tokens d' = db_refresh_tokens d"
  using assms
  by (auto simp: redeem_code_def complete_registration_def finalize_oauth_registration_def
      personal_keys_create_def and_then_Inr_iff Let_def split: option.splits sum.splits if_splits)

lemma resolve_policy_ok:
  assumes "resolve_policy_from_scope d scope = Inr pid"
  obtains pol slug where "pol \<in> set (db_policies d)" "po_slug pol = Some slug" "scope = ''policy:'' @ slug"
    "slug \<noteq> []" "po_id pol = pid"
  using assms
  by (auto simp: resolve_policy_from_scope_def parse_policy_scope_def policy_find_by_slug_def and_then_Inr_iff
      split: option.splits if_splits dest!: fetch_one_Inr)

text \<open>The row a successful creation leaves, and what happened to the previous grant.\<close>

lemma create_oauth_authorization_row:
  assumes c: "create_oauth_authorization W now R p s = (Some (Inr r), s')"
    and prev: "\<And>i. ca_previous_auth_id p = Some i \<Longrightarrow> i < db_oauth_seq (sv_db s)"
    and pol: "ca_policy_id p = None"
  obtains origin bk hash pol_row slug where
    "new_oauth_row now (db_oauth_seq (sv_db s))
       (authorization_row_params now R p origin (public_key (tx W) bk) hash (po_id pol_row)) \<in> set (db_oauth (sv_db s'))"
    "extract_origin (url_parse W) (ca_redirect_uri p) = Inr origin"
    "pol_row \<in> set (db_policies (sv_db s))" "po_slug pol_row = Some slug" "ca_scope p = ''policy:'' @ slug"
    "\<And>i. ca_previous_auth_id p = Some i \<Longrightarrow> oauth_dead i (sv_db s')
       \<and> (\<forall>t\<in>set (db_refresh_tokens (sv_db s')). rt_authorization_id t = i \<longrightarrow> is_set (rt_consumed_at t))
       \<and> (\<forall>k h. sv_cache s' k = Some h \<longrightarrow> \<not> (hh_is_oauth h \<and> hh_authorization_id h = i))"
proof -
  obtain encrypted d1 origin hash bk pid i where
    e: "ensure_user_key W p (sv_db s) = (Inr encrypted, d1)"
    and o: "extract_origin (url_parse W) (ca_redirect_uri p) = Inr origin"
    and "(case ca_policy_id p of Some pid \<Rightarrow> Inr pid | None \<Rightarrow> resolve_policy_from_scope d1 (ca_scope p)) = Inr pid"
    and st: "store_authorization W now R p
       (authorization_row_params now R p origin (public_key (tx W) bk) hash pid) (s\<lparr>sv_db := d1\<rparr>) = (Inr i, s')"
    using c by (rule create_oauth_authorization_ok) blast
  then have "resolve_policy_from_scope d1 (ca_scope p) = Inr pid" using pol by simp
  then obtain pr slug where pr: "pr \<in> set (db_policies d1)" "po_slug pr = Some slug"
    "ca_scope p = ''policy:'' @ slug" "po_id pr = pid" by (rule resolve_policy_ok)
  let ?row = "authorization_row_params now R p origin (public_key (tx W) bk) hash pid"
  obtain d2 d3 t where oc: "oauth_create now ?row d1 = (Inr i, d2)"
    and rc: "refresh_create (tw_sha256 W) now (dr_refresh_token R) i (ca_tenant_id p) d2 = (Inr t, d3)"
    and s': "sv_db s' = sv_db (revoke_previous now (ca_previous_auth_id p) (s\<lparr>sv_db := d1, sv_db := d3\<rparr>))"
      "sv_cache s' = sv_cache (revoke_previous now (ca_previous_auth_id p) (s\<lparr>sv_db := d1\<rparr>))"
    using st by (rule store_authorization_ok) simp
  note f = ensure_user_key_frame [OF e] oauth_create_frame [OF oc] oauth_create_row [OF oc] refresh_create_frame [OF rc]
  have i: "i = db_oauth_seq (sv_db s)" and seq: "db_oauth_seq d3 = db_oauth_seq (sv_db s) + 1" using f by auto
  have "new_oauth_row now i ?row \<in> set (db_oauth (sv_db s'))"
    unfolding s'(1) by (rule revoke_previous_keeps) (use f i prev in auto)
  moreover have "oauth_dead j (sv_db s')
       \<and> (\<forall>t\<in>set (db_refresh_tokens (sv_db s')). rt_authorization_id t = j \<longrightarrow> is_set (rt_consumed_at t))
       \<and> (\<forall>k h. sv_cache s' k = Some h \<longrightarrow> \<not> (hh_is_oauth h \<and> hh_authorization_id h = j))"
    if j: "ca_previous_auth_id p = Some j" for j
  proof -
    have "j < db_oauth_seq (sv_db (s\<lparr>sv_db := d1, sv_db := d3\<rparr>))" "j < db_oauth_seq (sv_db (s\<lparr>sv_db := d1\<rparr>))"
      using prev [OF j] seq f by auto
    then show ?thesis
      using revoke_previous_retires [OF j] unfolding s' by blast
  qed
  ultimately show thesis using that [of origin bk hash pr slug] o pr f i by auto
qed

section \<open>A concrete server\<close>

text \<open>
  One code of \<open>alice\<close> for \<open>https://app/cb\<close> with an \<open>S256\<close> challenge; hashing is the identity, and the
  only token that is ever signed is the one for \<open>alice\<close> and \<open>bunker1\<close>.
\<close>

definition issued_ucan :: "jv ucan" where
  "issued_ucan =
     \<lparr>uc_issuer = ''did:key:zserver'', uc_audience = ''did:key:zalice'',
      uc_facts = [JObj [(''tenant_id'', JNum 1), (''redirect_origin'', JStr ''https://app''),
                        (''bunker_pubkey'', JStr ''bunker1'')]], uc_payload = []\<rparr>"

definition W0 :: "jv token_world" where
  "W0 =
     \<lparr>tw_http = Y0\<lparr>ucan_parse := (\<lambda>t. if t = ''access'' then Inr issued_ucan else Inl ''bad token''),
                   bs58_decode := (\<lambda>s. Inr ([0xe7, 0x01] @ str_bytes s))\<rparr>,
      tw_sha256 = id, tw_s256 = id,
      keys_parse = (\<lambda>s. if s = ''nsec1alice'' then Inr [1] else Inl ''bad key''),
      url_parse = (\<lambda>s. if s = ''https://app/cb''
                        then Some \<lparr>url_scheme = ''https'', url_host = Some ''app'', url_port = None\<rparr> else None),
      url_encode = id, bs58_encode = (\<lambda>bs. map (\<lambda>w. char_of (unat w)) (drop 2 bs)),
      pk_to_bytes = str_bytes,
      ucan_sign = (\<lambda>aud life facts.
         if aud = ''did:key:zalice'' \<and> uf_tenant_id facts = 1 \<and> uf_redirect_origin facts = ''https://app''
            \<and> uf_bunker_pubkey facts = Some ''bunker1''
         then Inr ''access'' else Inl ''unexpected''),
      bunker_relays_env = Some ''wss://r1, wss://r2'', token_expiry_seconds = 86400\<rparr>"

definition sample_code :: oauth_code where
  "sample_code =
     \<lparr>oc_tenant_id = 1, oc_code = ''code'', oc_user_pubkey = ''alice'', oc_client_id = ''app'',
      oc_redirect_uri = ''https://app/cb'', oc_scope = ''policy:notes'',
      oc_code_challenge = Some ''verifier-of-the-app'', oc_code_challenge_method = Some ''S256'',
      oc_expires_at = 600, oc_created_at = 0, oc_pending_email = None, oc_pending_password_hash = None,
      oc_pending_email_verification_token = None, oc_pending_encrypted_secret = None,
      oc_previous_auth_id = Some 1, oc_state = None, oc_device_code = None, oc_is_headless = False\<rparr>"

definition sv0 :: "jv server" where
  "sv0 = \<lparr>sv_db = world\<lparr>db_oauth_codes := [sample_code],
                        db_oauth := [(new_oauth_row 10 1 sample_params)\<lparr>oa_bunker_public_key := ''bunker0'',
                          oa_redirect_origin := ''https://app''\<rparr>],
                        db_refresh_tokens := [\<lparr>rt_id = 1, rt_token_hash = ''old'', rt_authorization_id = 1,
                          rt_tenant_id = 1, rt_created_at = 10, rt_expires_at = 1000, rt_consumed_at = None\<rparr>],
                        db_refresh_seq := 2\<rparr>,
           sv_cache = (\<lambda>k. None), sv_commands = [], sv_oauth_created = 0, sv_oauth_revoked = 0\<rparr>"

definition draw :: "string \<Rightarrow> string \<Rightarrow> draws" where
  "draw handle refresh =
     \<lparr>dr_handle = handle, dr_refresh_token = refresh, dr_secret_pair = Some (''secret'', ''hash''),
      dr_channel = True\<rparr>"

definition code_request :: "string option \<Rightarrow> token_request" where
  "code_request verifier =
     \<lparr>tq_grant_type = None, tq_code = Some ''code'', tq_client_id = ''app'',
      tq_redirect_uri = Some ''https://app/cb'', tq_code_verifier = verifier, tq_refresh_token = None\<rparr>"

abbreviation good_request :: token_request where
  "good_request \<equiv> code_request (Some ''verifier-of-the-app'')"

abbreviation exchanged :: "(oauth_error + token_response) option \<times> jv server" where
  "exchanged \<equiv> handle_authorization_code_grant W0 20 (draw ''h1'' ''r1'') 1 good_request sv0"

definition is_token :: "(oauth_error + token_response) option \<Rightarrow> bool" where
  "is_token r \<longleftrightarrow> (case r of Some (Inr _) \<Rightarrow> True | _ \<Rightarrow> False)"

lemma is_token_obtain:
  assumes "is_token (fst x)"
  obtains r where "x = (Some (Inr r), snd x)"
  using assms by (cases x) (auto simp: is_token_def split: option.splits sum.splits)

lemma exchanged_token: "is_token (fst exchanged)"
  by code_simp

section \<open>Properties\<close>

text \<open>
  C6. An authorization code is redeemed at most once: after a successful exchange every later
  request with the same code in the same tenant is refused and changes nothing.
\<close>

theorem code_redeemed_at_most_once:
  assumes "handle_authorization_code_grant W now R tenant_id req s = (Some (Inr r), s')"
    and "tq_code req' = tq_code req" and "tq_redirect_uri req' = Some uri"
  shows "handle_authorization_code_grant W' now' R' tenant_id req' s' = (Some (Inl OAuthUnauthorized), s')"
proof -
  obtain code c where code: "tq_code req = Some code"
    and e: "exchange_code W now R tenant_id code c
       (Option.bind (tq_code_verifier req) extract_nsec_from_verifier_public) s = (Some (Inr r), s')"
    using assms(1) by (rule code_grant_checks)
  show ?thesis
    using exchange_code_spends [OF e, of now'] code assms(2,3) by (simp add: handle_authorization_code_grant_def)
qed

theorem code_redeemed_at_most_once_witness:
  "is_token (fst exchanged)
   \<and> fst (handle_authorization_code_grant W0 21 (draw ''h2'' ''r2'') 1 good_request (snd exchanged))
     = Some (Inl OAuthUnauthorized)"
proof -
  obtain r where "exchanged = (Some (Inr r), snd exchanged)" using exchanged_token by (rule is_token_obtain)
  from code_redeemed_at_most_once [OF this refl] exchanged_token show ?thesis
    by (simp add: code_request_def)
qed

text \<open>
  C7. Who can redeem a code: an exchange succeeds only for an unexpired code of the tenant, with the
  redirect URI it was issued for, and, if it was issued with a challenge, with a verifier that meets
  it.
\<close>

theorem exchange_requires_proof:
  assumes "handle_authorization_code_grant W now R tenant_id req s = (Some (Inr r), s')"
  shows "\<exists>c\<in>set (db_oauth_codes (sv_db s)).
           tq_code req = Some (oc_code c) \<and> oc_tenant_id c = tenant_id \<and> now < oc_expires_at c
           \<and> tq_redirect_uri req = Some (oc_redirect_uri c)
           \<and> (\<forall>ch. oc_code_challenge c = Some ch \<longrightarrow>
                (\<exists>v. tq_code_verifier req = Some v
                   \<and> (if oc_code_challenge_method c = Some ''S256'' then tw_s256 W v = ch else v = ch)))"
proof -
  obtain code c where h: "tq_code req = Some code" "tq_redirect_uri req = Some (oc_redirect_uri c)"
    "code_find_valid now tenant_id code (sv_db s) = Some c"
    "check_pkce W c (tq_code_verifier req) = Some (Inr ())"
    using assms by (rule code_grant_checks)
  have "c \<in> set (db_oauth_codes (sv_db s))" "oc_tenant_id c = tenant_id" "oc_code c = code" "now < oc_expires_at c"
    using fetch_optional_Some [OF h(3) [unfolded code_find_valid_def]] by auto
  moreover have "\<exists>v. tq_code_verifier req = Some v
      \<and> (if oc_code_challenge_method c = Some ''S256'' then tw_s256 W v = ch else v = ch)"
    if "oc_code_challenge c = Some ch" for ch
    using h(4) that by (auto simp: check_pkce_def Let_def validate_pkce_ok split: option.splits)
  ultimately show ?thesis using h(1,2) by blast
qed

theorem exchange_requires_proof_witness:
  "is_token (fst exchanged)
   \<and> fst (handle_authorization_code_grant W0 20 (draw ''h1'' ''r1'') 1 (code_request None) sv0)
     = Some (Inl (InvalidRequest ''code_verifier required for PKCE flow''))
   \<and> (\<exists>c\<in>set (db_oauth_codes (sv_db sv0)). tq_code good_request = Some (oc_code c))"
proof -
  obtain r where "exchanged = (Some (Inr r), snd exchanged)" using exchanged_token by (rule is_token_obtain)
  from exchange_requires_proof [OF this]
  have "\<exists>c\<in>set (db_oauth_codes (sv_db sv0)). tq_code good_request = Some (oc_code c)" by blast
  moreover have "fst (handle_authorization_code_grant W0 20 (draw ''h1'' ''r1'') 1 (code_request None) sv0)
      = Some (Inl (InvalidRequest ''code_verifier required for PKCE flow''))" by code_simp
  ultimately show ?thesis using exchanged_token by blast
qed



text \<open>
  Re-authentication retires the previous grant: if the code was issued against an earlier grant,
  then after the exchange that grant is revoked, all its refresh tokens are spent and no cached REST
  handler of it is left.
\<close>

theorem reauthentication_retires_grant:
  assumes "exchange_code W now R tenant_id code c nsec s = (Some (Inr r), s')"
    and "oc_previous_auth_id c = Some i" and "i < db_oauth_seq (sv_db s)"
  shows "oauth_dead i (sv_db s')
         \<and> (\<forall>t\<in>set (db_refresh_tokens (sv_db s')). rt_authorization_id t = i \<longrightarrow> is_set (rt_consumed_at t))
         \<and> (\<forall>k h. sv_cache s' k = Some h \<longrightarrow> \<not> (hh_is_oauth h \<and> hh_authorization_id h = i))"
  using assms(1)
proof (rule exchange_code_ok)
  fix email d1
  let ?p = "\<lparr>ca_tenant_id = tenant_id, ca_user_pubkey = oc_user_pubkey c, ca_email = email,
      ca_client_id = oc_client_id c, ca_scope = oc_scope c, ca_redirect_uri = oc_redirect_uri c,
      ca_nsec_from_verifier = nsec, ca_previous_auth_id = oc_previous_auth_id c,
      ca_is_headless = oc_is_headless c, ca_policy_id = None\<rparr>"
  assume r: "redeem_code W now tenant_id code c nsec (sv_db s) = (Inr email, d1)"
    and "create_oauth_authorization W now R ?p (s\<lparr>sv_db := d1\<rparr>) = (Some (Inr r), s')"
  from this(2) show ?thesis
    by (rule create_oauth_authorization_row) (use assms(2,3) redeem_code_frame [OF r] in auto)
qed

abbreviation reauthenticated :: "(oauth_error + token_response) option \<times> jv server" where
  "reauthenticated \<equiv> exchange_code W0 20 (draw ''h1'' ''r1'') 1 ''code'' sample_code None sv0"

theorem reauthentication_retires_grant_witness:
  "oauth_dead 1 (sv_db (snd reauthenticated))
   \<and> refresh_consume id 25 ''old'' (sv_db sv0) \<noteq> (None, sv_db sv0)
   \<and> fst (refresh_consume id 25 ''old'' (sv_db (snd reauthenticated))) = None"
proof -
  have "is_token (fst reauthenticated)" by code_simp
  then obtain r where e: "reauthenticated = (Some (Inr r), snd reauthenticated)" by (rule is_token_obtain)
  have p: "oc_previous_auth_id sample_code = Some 1" "1 < db_oauth_seq (sv_db sv0)"
    by (simp_all add: sample_code_def sv0_def world_def)
  have "fst (refresh_consume id 25 ''old'' (sv_db sv0)) \<noteq> None" by code_simp
  then have "refresh_consume id 25 ''old'' (sv_db sv0) \<noteq> (None, sv_db sv0)" by auto
  moreover have "fst (refresh_consume id 25 ''old'' (sv_db (snd reauthenticated))) = None" by code_simp
  ultimately show ?thesis using reauthentication_retires_grant [OF e p] by blast
qed

text \<open>
  One code, two grants: the look-up of the code and its deletion are separate statements, so two
  requests that both read the code before either deletes it are both answered with a token, and two
  grants exist afterwards.
\<close>

theorem concurrent_exchanges_both_succeed:
  "let c = code_find_valid 20 1 ''code'' (sv_db sv0);
       (r1, s1) = exchange_code W0 20 (draw ''h1'' ''r1'') 1 ''code'' (the c) None sv0;
       (r2, s2) = exchange_code W0 20 (draw ''h2'' ''r2'') 1 ''code'' (the c) None s1
   in c \<noteq> None \<and> is_token r1 \<and> is_token r2
      \<and> map oa_id (fetch_all (oauth_active 20) (db_oauth (sv_db s2))) = [2, 3]"
  by code_simp

section \<open>Refresh tokens\<close>

lemma refresh_grant_ok:
  assumes "handle_refresh_token_grant W now R tenant_id req s = (Some (Inr r), s')"
  obtains old row d1 a where "tq_refresh_token req = Some old"
    "refresh_consume (tw_sha256 W) now old (sv_db s) = (Some row, d1)"
    "oauth_find tenant_id (rt_authorization_id row) (db_oauth d1) = Inr a" "oa_revoked_at a = None"
    "rotate W now R tenant_id a (s\<lparr>sv_db := d1\<rparr>) = (Some (Inr r), s')"
  using assms
  by (auto simp: handle_refresh_token_grant_def Let_def is_set_iff
      split: option.splits prod.splits sum.splits if_splits)

lemma rotate_ok:
  assumes "rotate W now R tenant_id a s = (Some (Inr r), s')"
  obtains row where "refresh_create (tw_sha256 W) now (dr_refresh_token R) (oa_id a) tenant_id (sv_db s) = (Inr row, sv_db s')"
    "tr_refresh_token r = Some (dr_refresh_token R)"
  using assms
  by (auto simp: rotate_def refreshed_response_def Let_def split: option.splits sum.splits prod.splits)

lemma refresh_create_stores:
  assumes "refresh_create sha now tok i t d = (Inr row, d')"
  shows "db_refresh_tokens d' = db_refresh_tokens d @ [row] \<and> rt_token_hash row = sha tok
         \<and> rt_authorization_id row = i \<and> rt_consumed_at row = None \<and> rt_expires_at row = now + days REFRESH_TOKEN_EXPIRY_DAYS
         \<and> (\<forall>r\<in>set (db_refresh_tokens d). rt_token_hash r \<noteq> sha tok)"
  using assms by (auto simp: refresh_create_def exists_row_iff Let_def split: if_splits)

lemma refresh_consume_hit:
  assumes "refresh_consume sha now k d = (Some row, d')"
  shows "row \<in> set (db_refresh_tokens d') \<and> rt_token_hash row = sha k"
proof -
  let ?P = "refresh_consumable now (sha k)" and ?f = "\<lambda>r. r\<lparr>rt_consumed_at := Some now\<rparr>"
  obtain z where z: "z \<in> set (db_refresh_tokens d)" "?P z" "row = ?f z"
    and d': "d' = d\<lparr>db_refresh_tokens := update_where ?P ?f (db_refresh_tokens d)\<rparr>"
    using assms by (auto simp: refresh_consume_def Let_def dest!: fetch_optional_Some)
  then show ?thesis
    using update_where_hit [of z "db_refresh_tokens d" ?P ?f] z by (simp add: refresh_consumable_def)
qed

lemma refresh_consume_spends:
  "\<forall>r\<in>set (db_refresh_tokens (snd (refresh_consume sha now k d))).
     rt_token_hash r = sha k \<longrightarrow> is_set (rt_consumed_at r) \<or> rt_expires_at r \<le> now"
  by (auto simp add: refresh_consume_def refresh_consumable_def ball_update_where Let_def is_set_iff
      simp del: split_paired_All)

text \<open>
  Rotation: a successful refresh spends the token it was called with and stores the new one for
  the same unrevoked grant of the tenant, redeemable for thirty days.
\<close>

theorem refresh_rotates:
  assumes "handle_refresh_token_grant W now R tenant_id req s = (Some (Inr r), s')"
  shows "\<exists>old a. tq_refresh_token req = Some old \<and> a \<in> set (db_oauth (sv_db s'))
           \<and> oa_tenant_id a = tenant_id \<and> oa_revoked_at a = None
           \<and> fst (refresh_consume (tw_sha256 W) now old (sv_db s')) = None
           \<and> tr_refresh_token r = Some (dr_refresh_token R)
           \<and> (\<exists>t\<in>set (db_refresh_tokens (sv_db s')). rt_token_hash t = tw_sha256 W (dr_refresh_token R)
                \<and> rt_authorization_id t = oa_id a \<and> rt_consumed_at t = None
                \<and> rt_expires_at t = now + days REFRESH_TOKEN_EXPIRY_DAYS)"
  using assms
proof (rule refresh_grant_ok)
  fix old row d1 a
  assume old: "tq_refresh_token req = Some old"
    and c: "refresh_consume (tw_sha256 W) now old (sv_db s) = (Some row, d1)"
    and a: "oauth_find tenant_id (rt_authorization_id row) (db_oauth d1) = Inr a" "oa_revoked_at a = None"
    and "rotate W now R tenant_id a (s\<lparr>sv_db := d1\<rparr>) = (Some (Inr r), s')"
  then obtain t where rc: "refresh_create (tw_sha256 W) now (dr_refresh_token R) (oa_id a) tenant_id d1 = (Inr t, sv_db s')"
    and r: "tr_refresh_token r = Some (dr_refresh_token R)"
    by (elim rotate_ok) simp
  note st = refresh_create_stores [OF rc]
  have x: "row \<in> set (db_refresh_tokens d1)" "rt_token_hash row = tw_sha256 W old"
    using refresh_consume_hit [OF c] by auto
  with st have "tw_sha256 W old \<noteq> tw_sha256 W (dr_refresh_token R)" by force
  then have "fst (refresh_consume (tw_sha256 W) now old (sv_db s')) = None"
    using st refresh_consume_spends [of "tw_sha256 W" now old "sv_db s", unfolded c snd_conv]
    by (auto simp: refresh_consume_def refresh_consumable_def fetch_optional_None Let_def)
  moreover have "a \<in> set (db_oauth (sv_db s'))" "oa_tenant_id a = tenant_id"
    using a(1) refresh_create_frame [OF rc] by (auto simp: oauth_find_def dest!: fetch_one_Inr)
  ultimately show ?thesis using old a(2) r st by auto
qed

definition refresh_request :: "string \<Rightarrow> token_request" where
  "refresh_request old =
     \<lparr>tq_grant_type = Some ''refresh_token'', tq_code = None, tq_client_id = ''app'', tq_redirect_uri = None,
      tq_code_verifier = None, tq_refresh_token = Some old\<rparr>"

abbreviation refreshed :: "int \<Rightarrow> (oauth_error + token_response) option \<times> jv server" where
  "refreshed tenant_id \<equiv> handle_refresh_token_grant W0 30 (draw ''h'' ''r9'') tenant_id (refresh_request ''old'') sv0"

theorem refresh_rotates_witness:
  "is_token (fst (refreshed 1))
   \<and> (\<exists>a. a \<in> set (db_oauth (sv_db (snd (refreshed 1)))) \<and> oa_revoked_at a = None
        \<and> (\<exists>t\<in>set (db_refresh_tokens (sv_db (snd (refreshed 1)))). rt_token_hash t = ''r9''
             \<and> rt_authorization_id t = oa_id a))"
proof -
  have k: "is_token (fst (refreshed 1))" by code_simp
  then obtain r where e: "refreshed 1 = (Some (Inr r), snd (refreshed 1))" by (rule is_token_obtain)
  have "tw_sha256 W0 (dr_refresh_token (draw ''h'' ''r9'')) = ''r9''" by (simp add: W0_def draw_def)
  with refresh_rotates [OF e] k show ?thesis by auto
qed

text \<open>
  A refused refresh still spends the token: the token is consumed before its grant is looked up,
  so a request to a tenant that does not have the grant fails and leaves the token useless for every
  tenant.
\<close>

theorem refused_refresh_spends_token:
  assumes "tq_refresh_token req = Some old"
    and "refresh_consume (tw_sha256 W) now old (sv_db s) = (Some row, d1)"
    and "oauth_find tenant_id (rt_authorization_id row) (db_oauth d1) = Inl e" and "now \<le> now'"
  shows "\<exists>m. fst (handle_refresh_token_grant W now R tenant_id req s) = Some (Inl (InvalidGrant m))
           \<and> fst (refresh_consume (tw_sha256 W) now' old
                   (sv_db (snd (handle_refresh_token_grant W now R tenant_id req s)))) = None"
proof -
  have h: "handle_refresh_token_grant W now R tenant_id req s
      = (Some (Inl (InvalidGrant (''Authorization not found: Database error: '' @ row_not_found))), s\<lparr>sv_db := d1\<rparr>)"
    using assms(1-3) by (simp add: handle_refresh_token_grant_def Let_def)
  show ?thesis
    using refresh_consume_spends [of "tw_sha256 W" now old "sv_db s", unfolded assms(2) snd_conv] assms(4)
    unfolding h by (fastforce simp: refresh_consume_def refresh_consumable_def fetch_optional_None Let_def)
qed

theorem refused_refresh_spends_token_witness:
  "fst (refresh_consume id 40 ''old'' (sv_db sv0)) \<noteq> None
   \<and> fst (refresh_consume (tw_sha256 W0) 40 ''old'' (sv_db (snd (refreshed 2)))) = None"
proof -
  let ?c = "refresh_consume (tw_sha256 W0) 30 ''old'' (sv_db sv0)"
  have q: "tq_refresh_token (refresh_request ''old'') = Some ''old''" by (simp add: refresh_request_def)
  have "fst ?c \<noteq> None" by code_simp
  then have c: "?c = (Some (the (fst ?c)), snd ?c)" by (simp add: prod_eq_iff)
  have "isl (oauth_find 2 (rt_authorization_id (the (fst ?c))) (db_oauth (snd ?c)))" by code_simp
  then obtain e where e: "oauth_find 2 (rt_authorization_id (the (fst ?c))) (db_oauth (snd ?c)) = Inl e"
    by (metis sum.collapse(1))
  have "fst (refresh_consume id 40 ''old'' (sv_db sv0)) \<noteq> None" by code_simp
  with refused_refresh_spends_token [OF q c e, of 40 "draw ''h'' ''r9''"] show ?thesis by simp
qed

section \<open>The access token\<close>

text \<open>
  DIDs round-trip: the DID the server writes for a key is read back as that key, given that
  base-58 and the byte form of keys do.
\<close>

theorem did_roundtrip:
  assumes "\<forall>bs. bs58_decode (tw_http W) (bs58_encode W bs) = Inr bs"
    and "\<forall>pk. pk_from_slice (tw_http W) (pk_to_bytes W pk) = Inr pk"
  shows "did_to_nostr_pubkey (tw_http W) (nostr_pubkey_to_did W pk) = Inr pk"
  using assms by (simp add: did_to_nostr_pubkey_def nostr_pubkey_to_did_def strip_prefix_def starts_with_def)

text \<open>Base-58 is instantiated by a plain byte code here.\<close>

definition W1 :: "jv token_world" where
  "W1 = W0\<lparr>bs58_encode := map (\<lambda>w. char_of (unat w)),
           tw_http := (tw_http W0)\<lparr>bs58_decode := (\<lambda>s. Inr (str_bytes s))\<rparr>\<rparr>"

lemma str_bytes_chars: "str_bytes (map (\<lambda>w. char_of (unat w)) bs) = bs"
proof -
  have "word_of_nat (of_char (char_of (unat w) :: char)) = w" for w :: "8 word"
    using unsigned_less [of w, where ?'a = nat] by (simp add: of_char_of)
  then show ?thesis by (simp add: str_bytes_def comp_def)
qed

lemma chars_str_bytes: "map (\<lambda>w. char_of (unat w)) (str_bytes s) = s"
proof -
  have "char_of (unat (word_of_nat (of_char c) :: 8 word)) = c" for c
    by (simp add: unat_of_nat take_bit_eq_mod)
  then show ?thesis by (simp add: str_bytes_def comp_def)
qed

theorem did_roundtrip_witness:
  "nostr_pubkey_to_did W1 ''alice'' \<noteq> nostr_pubkey_to_did W1 ''bob''
   \<and> did_to_nostr_pubkey (tw_http W1) (nostr_pubkey_to_did W1 ''alice'') = Inr ''alice''"
proof -
  have a: "\<forall>bs. bs58_decode (tw_http W1) (bs58_encode W1 bs) = Inr bs"
    by (simp add: W1_def str_bytes_chars)
  have b: "\<forall>pk. pk_from_slice (tw_http W1) (pk_to_bytes W1 pk) = Inr pk"
    by (simp add: W1_def W0_def Y0_def chars_str_bytes)
  have "did_to_nostr_pubkey (tw_http W1) (nostr_pubkey_to_did W1 ''alice'') = Inr ''alice''"
    "did_to_nostr_pubkey (tw_http W1) (nostr_pubkey_to_did W1 ''bob'') = Inr ''bob''"
    using did_roundtrip [OF a b] by auto
  then show ?thesis by auto
qed

text \<open>The user of a redeemed code is a user of the tenant, and has a key after \<open>ensure_user_key\<close>.\<close>

lemma redeem_code_user:
  assumes "redeem_code W now tenant_id code c nsec d = (Inr email, d')"
  shows "\<exists>u\<in>set (db_users d'). us_pubkey u = oc_user_pubkey c \<and> us_tenant_id u = tenant_id"
  using assms
  by (auto simp: redeem_code_def complete_registration_def finalize_oauth_registration_def get_email_def
      personal_keys_create_def and_then_Inr_iff blank_user_def Let_def
      split: option.splits sum.splits if_splits dest!: fetch_one_Inr)

lemma ensure_user_key_found:
  assumes "ensure_user_key W p d = (Inr enc, d')"
    and "\<exists>u\<in>set (db_users d). us_pubkey u = ca_user_pubkey p \<and> us_tenant_id u = ca_tenant_id p"
  shows "find_encrypted_key_for_tenant d' (ca_user_pubkey p) (ca_tenant_id p) = Some enc"
proof (cases "find_encrypted_key_for_tenant d (ca_user_pubkey p) (ca_tenant_id p)")
  case None
  then have n: "fetch_optional (\<lambda>k. pk_user_pubkey k = ca_user_pubkey p
       \<and> exists_row (\<lambda>u. us_pubkey u = pk_user_pubkey k \<and> us_tenant_id u = ca_tenant_id p) (db_users d))
       (db_personal_keys d) = None"
    by (simp add: find_encrypted_key_for_tenant_def)
  have "d' = d\<lparr>db_personal_keys := db_personal_keys d @ [\<lparr>pk_user_pubkey = ca_user_pubkey p,
      pk_encrypted_secret_key = enc, pk_tenant_id = ca_tenant_id p\<rparr>]\<rparr>"
    using assms(1) None
    by (auto simp: ensure_user_key_def personal_keys_create_def split: option.splits sum.splits if_splits)
  with n assms(2) show ?thesis
    by (auto simp: find_encrypted_key_for_tenant_def fetch_optional_append fetch_optional_Cons exists_row_iff)
next
  case (Some k)
  then show ?thesis using assms(1) by (simp add: ensure_user_key_def)
qed

text \<open>The new grant is the one its bunker key finds, when no other grant has that key.\<close>

lemma revoke_previous_finds:
  assumes "fetch_optional (\<lambda>a. oa_bunker_public_key a = b) (db_oauth (sv_db s)) = Some a"
    and "prev \<noteq> Some (oa_id a)"
  shows "fetch_optional (\<lambda>a. oa_bunker_public_key a = b) (db_oauth (sv_db (revoke_previous now prev s))) = Some a"
  using assms
  by (cases prev) (auto simp: revoke_previous_def revoke_for_authorization_def oauth_revoke_def
      fetch_optional_update_where Let_def)

lemma created_grant_found:
  assumes "store_authorization W now R p row s = (Inr i, s')"
    and "\<forall>a\<in>set (db_oauth (sv_db s)). oa_bunker_public_key a \<noteq> cp_bunker_public_key row"
    and "ca_previous_auth_id p \<noteq> Some i"
  shows "fetch_optional (\<lambda>a. oa_bunker_public_key a = cp_bunker_public_key row) (db_oauth (sv_db s'))
         = Some (new_oauth_row now i row)"
  using assms(1)
proof (rule store_authorization_ok)
  fix d1 d2 t
  assume oc: "oauth_create now row (sv_db s) = (Inr i, d1)"
    and rc: "refresh_create (tw_sha256 W) now (dr_refresh_token R) i (ca_tenant_id p) d1 = (Inr t, d2)"
    and s': "sv_db s' = sv_db (revoke_previous now (ca_previous_auth_id p) (s\<lparr>sv_db := d2\<rparr>))"
  have "fetch_optional (\<lambda>a. oa_bunker_public_key a = cp_bunker_public_key row) (db_oauth (sv_db s)) = None"
    using assms(2) by (simp add: fetch_optional_None)
  then have "fetch_optional (\<lambda>a. oa_bunker_public_key a = cp_bunker_public_key row) (db_oauth d2)
      = Some (new_oauth_row now i row)"
    using oauth_create_row [OF oc] refresh_create_frame [OF rc]
    by (simp add: fetch_optional_append fetch_optional_Cons)
  then show ?thesis unfolding s' by (intro revoke_previous_finds) (use assms(3) in auto)
qed

text \<open>
  What the UCAN crate does with a token the server signed: it decodes to the audience, issuer and
  facts it was built from, its signature checks, and it is not expired within its lifetime.
\<close>

definition ucan_faithful :: "'j token_world \<Rightarrow> pubkey \<Rightarrow> timestamp \<Rightarrow> bool" where
  "ucan_faithful W server_key now \<longleftrightarrow>
     (\<forall>aud life facts tok. ucan_sign W aud life facts = Inr tok \<longrightarrow>
        (\<exists>u. ucan_parse (tw_http W) tok = Inr u \<and> ucan_check_signature (tw_http W) u = Inr ()
           \<and> \<not> ucan_is_expired (tw_http W) now u
           \<and> uc_audience u = aud \<and> uc_issuer u = nostr_pubkey_to_did W server_key
           \<and> fact_str (tw_http W) ''redirect_origin'' (uc_facts u) = Some (uf_redirect_origin facts)
           \<and> fact_str (tw_http W) ''bunker_pubkey'' (uc_facts u) = uf_bunker_pubkey facts
           \<and> fact_i64 (tw_http W) ''tenant_id'' (uc_facts u) = Some (uf_tenant_id facts)))"

lemma issued_token_validates:
  assumes "issue_access_token W user tenant_id email origin bunker fp = Inr tok"
    and "ucan_faithful W server_key now" and "server_pubkey (tw_http W) = Inr server_key"
    and "\<forall>pk. did_to_nostr_pubkey (tw_http W) (nostr_pubkey_to_did W pk) = Inr pk"
    and "pk_from_hex (x_perm (tx W)) user = Inr user"
  shows "\<exists>u. validate_ucan_token (tw_http W) now (''Bearer '' @ tok) tenant_id = Inr (user, origin, Some bunker, u)"
proof -
  from assms(1,5) have "ucan_sign W (nostr_pubkey_to_did W user) (token_expiry_seconds W)
      \<lparr>uf_tenant_id = tenant_id, uf_email = email, uf_redirect_origin = origin,
       uf_bunker_pubkey = Some bunker, uf_first_party = fp, uf_admin_role = None\<rparr> = Inr tok"
    by (simp add: issue_access_token_def generate_server_signed_ucan_def and_then_Inr_iff)
  with assms(2) obtain u where u: "ucan_parse (tw_http W) tok = Inr u" "ucan_check_signature (tw_http W) u = Inr ()"
    "\<not> ucan_is_expired (tw_http W) now u" "uc_audience u = nostr_pubkey_to_did W user"
    "uc_issuer u = nostr_pubkey_to_did W server_key"
    "fact_str (tw_http W) ''redirect_origin'' (uc_facts u) = Some origin"
    "fact_str (tw_http W) ''bunker_pubkey'' (uc_facts u) = Some bunker"
    "fact_i64 (tw_http W) ''tenant_id'' (uc_facts u) = Some tenant_id"
    unfolding ucan_faithful_def by fastforce
  have b: "strip_prefix ''Bearer '' (''Bearer '' @ tok) = Some tok"
    by (subst strip_prefix_Some) (rule refl)
  show ?thesis
    unfolding validate_ucan_token_def b using u assms(3,4) by (simp add: check_tenant_def check_issuer_def)
qed

text \<open>A first request with a validated token loads the handler of the grant the token names.\<close>

lemma rest_request_loads:
  assumes v: "validate_ucan_token (tw_http W) now (''Bearer '' @ access) tenant_id = Inr (user, origin, Some b, u)"
    and row: "fetch_optional (\<lambda>a. oa_bunker_public_key a = b) (db_oauth d) = Some (new_oauth_row now0 i row)"
    and key: "find_encrypted_key_for_tenant d user tenant_id = Some enc"
    and ul: "unlock_for_token W enc hash = Some (Inr bk)"
    and h: "parse_cache_key (tx W) b = Inr bkey" "parse_cache_key (tx W) handle = Inr hkey"
    and user: "cp_user_pubkey row = user" "cp_authorization_handle row = Some handle"
  shows "\<exists>hd. fst (get_handler (tw_http W) now (''Bearer '' @ access) tenant_id (http0 d)) = Inr hd
           \<and> hh_is_oauth hd \<and> hh_authorization_id hd = i \<and> handler_of_user (tw_http W) d tenant_id user hd"
proof -
  from ul obtain sk where "and_then (km_decrypt (tx W) enc) (sk_from_slice (tx W)) = Inr sk"
    by (auto simp: unlock_for_token_def and_then_Inr_iff split: sum.splits)
  then have "load_user_key (tw_http W) msg d user tenant_id = Inr sk" for msg
    using key by (simp add: load_user_key_ok)
  then obtain hd where hd: "load_handler_on_demand (tw_http W) d b user tenant_id = Inr hd"
    using row user h by (simp add: load_handler_on_demand_def find_by_bunker_pubkey_def)
  have "hh_expires_at hd = None \<and> hh_revoked_at hd = None \<and> hh_is_oauth hd \<and> hh_authorization_id hd = i
      \<and> handler_of_user (tw_http W) d tenant_id user hd"
    using hd row by (elim load_on_demand_ok) simp
  moreover from this have "is_valid now hd" by (simp add: is_valid_def)
  moreover have "load_for_token (tw_http W) now (''Bearer '' @ access) tenant_id d = Inr hd"
    unfolding load_for_token_def v using hd by simp
  moreover have "compute_token_cache_key (tw_http W) (''Bearer '' @ access) tenant_id \<noteq> None"
    by (simp only: compute_token_cache_key_def option.map_disc_iff strip_prefix_None) blast
  ultimately show ?thesis by (auto simp: get_handler_def http0_def)
qed

text \<open>
  C31. The access token works: after an exchange, the token in the response is validated by the REST
  transport, while it has not expired, and a request of the tenant with an empty cache gets a handler
  of exactly the new grant, with the key of the code's user. The crates are assumed to round-trip
  their encodings, and the new bunker key to be new.
\<close>

theorem access_token_opens_rest:
  assumes x: "exchange_code W now R tenant_id code c nsec s = (Some (Inr r), s')"
    and u: "ucan_faithful W server_key now'" "server_pubkey (tw_http W) = Inr server_key"
    and d: "\<forall>pk. did_to_nostr_pubkey (tw_http W) (nostr_pubkey_to_did W pk) = Inr pk"
    and k: "pk_from_hex (x_perm (tx W)) (oc_user_pubkey c) = Inr (oc_user_pubkey c)"
    and h: "\<forall>sk. \<not> isl (parse_cache_key (tx W) (public_key (tx W) sk))" "\<not> isl (parse_cache_key (tx W) (dr_handle R))"
    and prev: "\<forall>i. oc_previous_auth_id c = Some i \<longrightarrow> i < db_oauth_seq (sv_db s)"
    and fresh: "\<forall>enc bk. unlock_for_token W enc (snd (the (dr_secret_pair R))) = Some (Inr bk) \<longrightarrow>
                  (\<forall>a\<in>set (db_oauth (sv_db s)). oa_bunker_public_key a \<noteq> public_key (tx W) bk)"
  shows "\<exists>access hd. tr_access_token r = Some access
           \<and> fst (get_handler (tw_http W) now' (''Bearer '' @ access) tenant_id (http0 (sv_db s'))) = Inr hd
           \<and> hh_is_oauth hd \<and> hh_authorization_id hd = db_oauth_seq (sv_db s)
           \<and> handler_of_user (tw_http W) (sv_db s') tenant_id (oc_user_pubkey c) hd"
  using x
proof (rule exchange_code_ok)
  fix email d1
  let ?p = "\<lparr>ca_tenant_id = tenant_id, ca_user_pubkey = oc_user_pubkey c, ca_email = email,
      ca_client_id = oc_client_id c, ca_scope = oc_scope c, ca_redirect_uri = oc_redirect_uri c,
      ca_nsec_from_verifier = nsec, ca_previous_auth_id = oc_previous_auth_id c,
      ca_is_headless = oc_is_headless c, ca_policy_id = None\<rparr>"
  assume rd: "redeem_code W now tenant_id code c nsec (sv_db s) = (Inr email, d1)"
    and cr: "create_oauth_authorization W now R ?p (s\<lparr>sv_db := d1\<rparr>) = (Some (Inr r), s')"
  from cr show ?thesis
  proof (rule create_oauth_authorization_ok)
    fix encrypted d2 origin secret hash bk access pid i
    let ?b = "public_key (tx W) bk"
    let ?row = "authorization_row_params now R ?p origin ?b hash pid"
    assume e: "ensure_user_key W ?p (sv_db (s\<lparr>sv_db := d1\<rparr>)) = (Inr encrypted, d2)"
      and sp: "dr_secret_pair R = Some (secret, hash)"
      and ul: "unlock_for_token W encrypted hash = Some (Inr bk)"
      and ia: "issue_access_token W (ca_user_pubkey ?p) (ca_tenant_id ?p) (ca_email ?p) origin ?b (ca_is_headless ?p) = Inr access"
      and st: "store_authorization W now R ?p ?row (s\<lparr>sv_db := d1, sv_db := d2\<rparr>) = (Inr i, s')"
      and rs: "created_response W R ?p secret access ?b (sv_db s') = Some r"
    note f = redeem_code_frame [OF rd] ensure_user_key_frame [OF e]
    have i: "i = db_oauth_seq (sv_db s)"
      using f st by (elim store_authorization_ok) (auto dest!: oauth_create_row)
    have found: "fetch_optional (\<lambda>a. oa_bunker_public_key a = ?b) (db_oauth (sv_db s')) = Some (new_oauth_row now i ?row)"
      using created_grant_found [OF st] fresh sp ul f i prev by (auto simp: authorization_row_params_def)
    have key: "find_encrypted_key_for_tenant (sv_db s') (oc_user_pubkey c) tenant_id = Some encrypted"
      using ensure_user_key_found [OF e] redeem_code_user [OF rd] st
      by (elim store_authorization_ok) (auto simp: find_encrypted_key_for_tenant_def revoke_previous_frame
          dest!: oauth_create_frame refresh_create_frame)
    obtain v where v: "validate_ucan_token (tw_http W) now' (''Bearer '' @ access) tenant_id
        = Inr (oc_user_pubkey c, origin, Some ?b, v)"
      using issued_token_validates [OF ia u d] k by auto
    obtain bkey hkey where "parse_cache_key (tx W) ?b = Inr bkey" "parse_cache_key (tx W) (dr_handle R) = Inr hkey"
      using h(1) [rule_format, of bk] h(2)
      by (cases "parse_cache_key (tx W) ?b"; cases "parse_cache_key (tx W) (dr_handle R)") auto
    from rest_request_loads [OF v found key ul this] rs i show ?thesis
      by (auto simp: created_response_def authorization_row_params_def)
  qed
qed

lemma W0_did: "did_to_nostr_pubkey (tw_http W0) (nostr_pubkey_to_did W0 pk) = Inr pk"
  by (simp add: did_to_nostr_pubkey_def nostr_pubkey_to_did_def strip_prefix_def starts_with_def
      W0_def Y0_def chars_str_bytes)

lemma W0_ucan: "ucan_faithful W0 ''server'' 25"
proof -
  have "nostr_pubkey_to_did W0 ''server'' = ''did:key:zserver''" by code_simp
  moreover have "fact_str (tw_http W0) ''redirect_origin'' (uc_facts issued_ucan) = Some ''https://app''" by code_simp
  moreover have "fact_str (tw_http W0) ''bunker_pubkey'' (uc_facts issued_ucan) = Some ''bunker1''" by code_simp
  moreover have "fact_i64 (tw_http W0) ''tenant_id'' (uc_facts issued_ucan) = Some 1" by code_simp
  moreover have "uc_audience issued_ucan = ''did:key:zalice''" "uc_issuer issued_ucan = ''did:key:zserver''"
    by (simp_all add: issued_ucan_def)
  moreover have "ucan_parse (tw_http W0) ''access'' = Inr issued_ucan"
    "ucan_check_signature (tw_http W0) issued_ucan = Inr ()" "\<not> ucan_is_expired (tw_http W0) 25 issued_ucan"
    by (simp_all add: W0_def Y0_def)
  moreover have "tok = ''access'' \<and> aud = ''did:key:zalice'' \<and> uf_tenant_id facts = 1
      \<and> uf_redirect_origin facts = ''https://app'' \<and> uf_bunker_pubkey facts = Some ''bunker1''"
    if "ucan_sign W0 aud life facts = Inr tok" for aud life facts tok
    using that by (simp add: W0_def split: if_splits)
  ultimately show ?thesis unfolding ucan_faithful_def by metis
qed

theorem access_token_opens_rest_witness:
  "is_token (fst reauthenticated)
   \<and> (\<exists>access hd. fst (get_handler (tw_http W0) 25 (''Bearer '' @ access) 1 (http0 (sv_db (snd reauthenticated)))) = Inr hd
        \<and> hh_authorization_id hd = 2)"
proof -
  have t: "is_token (fst reauthenticated)" by code_simp
  then obtain r where e: "reauthenticated = (Some (Inr r), snd reauthenticated)" by (rule is_token_obtain)
  have sp: "server_pubkey (tw_http W0) = Inr ''server''" by (simp add: W0_def Y0_def)
  have k: "pk_from_hex (x_perm (tx W0)) (oc_user_pubkey sample_code) = Inr (oc_user_pubkey sample_code)"
    by (simp add: W0_def Y0_def X0_def sample_ext_def sample_perm_ext_def)
  have h: "\<not> isl (parse_cache_key (tx W0) x)" for x
    by (simp add: parse_cache_key_def W0_def Y0_def X0_def sample_ext_def)
  have q: "\<forall>i. oc_previous_auth_id sample_code = Some i \<longrightarrow> i < db_oauth_seq (sv_db sv0)"
    by (simp add: sv0_def sample_code_def world_def)
  have "public_key (tx W0) bk \<noteq> ''bunker0''" for bk
    by (simp add: W0_def Y0_def X0_def sample_ext_def sample_public_key_def)
  then have f: "\<forall>enc bk. unlock_for_token W0 enc (snd (the (dr_secret_pair (draw ''h1'' ''r1'')))) = Some (Inr bk) \<longrightarrow>
      (\<forall>a\<in>set (db_oauth (sv_db sv0)). oa_bunker_public_key a \<noteq> public_key (tx W0) bk)"
    by (auto simp: sv0_def dest: sym)
  have "db_oauth_seq (sv_db sv0) = 2" by (simp add: sv0_def world_def)
  with access_token_opens_rest [OF e W0_ucan sp _ k _ h q f] W0_did h t show ?thesis by metis
qed

end
