(* ===== verification/Cluster.thy ===== *)
theory Cluster
  imports Prelude "HOL-Library.List_Lexorder" "HOL-Library.Char_ord"
begin

text \<open>
  How the signer instances share the work: the consistent hash ring
  (\<open>cluster-hashring/src/ring.rs\<close>), the registry in Redis (\<open>registry.rs\<close>) and the coordinator that
  keeps the one in step with the other (\<open>coordinator.rs\<close>). The AnchorHash crate is the parameter
  \<open>get_resource\<close>: what a ring built from a list of resources with a capacity returns for a hash; the
  sorted set in Redis is a list of scores, the messages published on the channel are a list.
\<close>

section \<open>The hash ring\<close>

type_synonym anchor_hash = "string list \<Rightarrow> u16 \<Rightarrow> u64 \<Rightarrow> string option"

record hash_ring =
  anchor :: "(string list \<times> u16) option"
  my_instance_id :: string
  current_instances :: "string set"

definition ring_new :: "string \<Rightarrow> hash_ring" where
  "ring_new my_instance = \<lparr>anchor = None, my_instance_id = my_instance, current_instances = {}\<rparr>"

definition build_anchor :: "string set \<Rightarrow> (string list \<times> u16) option" where
  "build_anchor instances =
     (if instances = {} then None
      else (let ids = sorted_list_of_set instances
            in Some (ids, word_of_int (min (max (int (length ids)) 16) 65535))))"

definition rebuild_anchor :: "hash_ring \<Rightarrow> hash_ring" where
  "rebuild_anchor r = r\<lparr>anchor := build_anchor (current_instances r)\<rparr>"

definition ring_rebuild :: "string list \<Rightarrow> hash_ring \<Rightarrow> hash_ring" where
  "ring_rebuild instance_ids r =
     (let new_instances = set instance_ids
      in if new_instances = current_instances r then r
         else rebuild_anchor (r\<lparr>current_instances := new_instances\<rparr>))"

definition add_instance :: "string \<Rightarrow> hash_ring \<Rightarrow> hash_ring" where
  "add_instance i r =
     (if i \<in> current_instances r then r
      else rebuild_anchor (r\<lparr>current_instances := insert i (current_instances r)\<rparr>))"

definition remove_instance :: "string \<Rightarrow> hash_ring \<Rightarrow> hash_ring" where
  "remove_instance i r =
     (if i \<notin> current_instances r then r
      else rebuild_anchor (r\<lparr>current_instances := current_instances r - {i}\<rparr>))"

definition instance_count :: "hash_ring \<Rightarrow> nat" where
  "instance_count r = card (current_instances r)"

text \<open>FNV-1a over the bytes of the key, on 64-bit words.\<close>

definition fnv_step :: "u64 \<Rightarrow> char \<Rightarrow> u64" where
  "fnv_step h c = (xor h (word_of_nat (of_char c))) * 0x100000001b3"

definition hash_key :: "string \<Rightarrow> u64" where
  "hash_key key = foldl fnv_step 0xcbf29ce484222325 key"

definition should_handle :: "anchor_hash \<Rightarrow> hash_ring \<Rightarrow> string \<Rightarrow> bool" where
  "should_handle get_resource r key =
     (if current_instances r = {} then True
      else (case anchor r of
              Some (ids, capacity) \<Rightarrow>
                (case get_resource ids capacity (hash_key key) of
                   Some owner \<Rightarrow> owner = my_instance_id r
                 | None \<Rightarrow> True)
            | None \<Rightarrow> True))"

section \<open>The registry\<close>

text \<open>\<open>signer_instances\<close>: a score in milliseconds per member.\<close>

type_synonym zset = "(string \<times> int) list"

definition STALE_THRESHOLD_SECS :: int where
  "STALE_THRESHOLD_SECS = 30"

definition zadd :: "string \<Rightarrow> int \<Rightarrow> zset \<Rightarrow> zset" where
  "zadd i score z = delete_where (\<lambda>e. fst e = i) z @ [(i, score)]"

definition zrem :: "string \<Rightarrow> zset \<Rightarrow> zset" where
  "zrem i z = delete_where (\<lambda>e. fst e = i) z"

definition stale_cutoff :: "int \<Rightarrow> int" where
  "stale_cutoff now_ms = now_ms - STALE_THRESHOLD_SECS * 1000"

definition get_active_instances :: "int \<Rightarrow> zset \<Rightarrow> string list" where
  "get_active_instances now_ms z =
     map fst (sort_key snd (fetch_all (\<lambda>e. stale_cutoff now_ms \<le> snd e) z))"

definition cleanup_stale :: "int \<Rightarrow> zset \<Rightarrow> nat \<times> zset" where
  "cleanup_stale now_ms z =
     (let P = (\<lambda>e. snd e \<le> stale_cutoff now_ms) in (rows_affected P z, delete_where P z))"

section \<open>The coordinator\<close>

datatype membership_event = Joined string | Left string

record pubsub_message =
  ps_event :: string
  ps_instance_id :: string

text \<open>
  The state of one coordinator: its ring, the members its heartbeat task saw at the last full sync,
  the failures of the heartbeat in a row and the events it has broadcast.
\<close>

record coordinator =
  co_ring :: hash_ring
  co_previous_members :: "string set"
  co_failures :: nat
  co_events :: "membership_event list"

text \<open>Redis: the sorted set and the channel.\<close>

record redis =
  rd_instances :: zset
  rd_published :: "pubsub_message list"

definition publish_event :: "string \<Rightarrow> string \<Rightarrow> redis \<Rightarrow> redis" where
  "publish_event ev i rd = rd\<lparr>rd_published := rd_published rd @ [\<lparr>ps_event = ev, ps_instance_id = i\<rparr>]\<rparr>"

definition coordinator_start :: "int \<Rightarrow> string \<Rightarrow> redis \<Rightarrow> coordinator \<times> redis" where
  "coordinator_start now_ms i rd =
     (let rd1 = rd\<lparr>rd_instances := zadd i now_ms (rd_instances rd)\<rparr>;
          ring = ring_rebuild (get_active_instances now_ms (rd_instances rd1)) (ring_new i)
      in (\<lparr>co_ring = ring, co_previous_members = current_instances ring, co_failures = 0, co_events = []\<rparr>,
          publish_event ''join'' i rd1))"

definition backoff_ms :: "nat \<Rightarrow> nat" where
  "backoff_ms failures = 100 * 2 ^ min failures 6"

text \<open>One heartbeat: \<open>up\<close> says whether Redis answered, \<open>lucky\<close> whether the clean-up is drawn.\<close>

definition heartbeat_tick :: "int \<Rightarrow> bool \<Rightarrow> bool \<Rightarrow> coordinator \<Rightarrow> redis \<Rightarrow> coordinator \<times> redis" where
  "heartbeat_tick now_ms up lucky c rd =
     (if \<not> up then (c\<lparr>co_failures := co_failures c + 1\<rparr>, rd)
      else
        (let z = zadd (my_instance_id (co_ring c)) now_ms (rd_instances rd)
         in (c\<lparr>co_failures := 0\<rparr>,
             rd\<lparr>rd_instances := (if lucky then snd (cleanup_stale now_ms z) else z)\<rparr>)))"

text \<open>
  The full sync. The events of the two differences are sent in the order of a hash set, here that
  of the sorted list.
\<close>

definition sync_tick :: "int \<Rightarrow> bool \<Rightarrow> redis \<Rightarrow> coordinator \<Rightarrow> coordinator" where
  "sync_tick now_ms up rd c =
     (if \<not> up then c
      else
        (let instances = get_active_instances now_ms (rd_instances rd);
             current_members = set instances;
             c1 = c\<lparr>co_events := co_events c
                      @ map Joined (sorted_list_of_set (current_members - co_previous_members c))
                      @ map Left (sorted_list_of_set (co_previous_members c - current_members))\<rparr>
         in if current_members \<noteq> co_previous_members c
            then c1\<lparr>co_ring := ring_rebuild instances (co_ring c), co_previous_members := current_members\<rparr>
            else c1))"

text \<open>One message on the channel; \<open>None\<close> is a payload that is not a message.\<close>

definition on_pubsub :: "pubsub_message option \<Rightarrow> coordinator \<Rightarrow> coordinator" where
  "on_pubsub msg c =
     (case msg of
        None \<Rightarrow> c
      | Some m \<Rightarrow>
          (if ps_instance_id m = my_instance_id (co_ring c) then c
           else if ps_event m = ''join'' then
             c\<lparr>co_ring := add_instance (ps_instance_id m) (co_ring c),
               co_events := co_events c @ [Joined (ps_instance_id m)]\<rparr>
           else if ps_event m = ''leave'' then
             c\<lparr>co_ring := remove_instance (ps_instance_id m) (co_ring c),
               co_events := co_events c @ [Left (ps_instance_id m)]\<rparr>
           else c))"

definition coordinator_refresh :: "int \<Rightarrow> redis \<Rightarrow> coordinator \<Rightarrow> coordinator \<times> redis" where
  "coordinator_refresh now_ms rd c =
     (let z = snd (cleanup_stale now_ms (rd_instances rd))
      in (c\<lparr>co_ring := ring_rebuild (get_active_instances now_ms z) (co_ring c)\<rparr>, rd\<lparr>rd_instances := z\<rparr>))"

definition force_deregister :: "coordinator \<Rightarrow> redis \<Rightarrow> redis" where
  "force_deregister c rd =
     (let i = my_instance_id (co_ring c); rd1 = publish_event ''leave'' i rd
      in rd1\<lparr>rd_instances := zrem i (rd_instances rd1)\<rparr>)"

text \<open>\<open>shutdown\<close> with its tasks stopped; a failed publication is only logged, and the drain time follows.\<close>

definition shutdown :: "bool \<Rightarrow> coordinator \<Rightarrow> redis \<Rightarrow> nat \<times> redis" where
  "shutdown published c rd =
     (let i = my_instance_id (co_ring c);
          rd1 = (if published then publish_event ''leave'' i rd else rd)
      in (min (100 * max (instance_count (co_ring c)) 1) 2000,
          rd1\<lparr>rd_instances := zrem i (rd_instances rd1)\<rparr>))"

section \<open>Lemmas: rings\<close>

text \<open>A ring is well formed when its anchor was built from its instances; every operation keeps that.\<close>

definition ring_wf :: "hash_ring \<Rightarrow> bool" where
  "ring_wf r \<longleftrightarrow> finite (current_instances r) \<and> anchor r = build_anchor (current_instances r)"

lemma ring_wf_new [intro]: "ring_wf (ring_new i)"
  by (simp add: ring_wf_def ring_new_def build_anchor_def)

lemma ring_wf_rebuild [intro]: "ring_wf r \<Longrightarrow> ring_wf (ring_rebuild ids r)"
  by (simp add: ring_wf_def ring_rebuild_def rebuild_anchor_def Let_def)

lemma ring_wf_add [intro]: "ring_wf r \<Longrightarrow> ring_wf (add_instance i r)"
  by (simp add: ring_wf_def add_instance_def rebuild_anchor_def)

lemma ring_wf_remove [intro]: "ring_wf r \<Longrightarrow> ring_wf (remove_instance i r)"
  by (simp add: ring_wf_def remove_instance_def rebuild_anchor_def)

lemma ring_members [simp]:
  "current_instances (ring_rebuild ids r) = set ids"
  "current_instances (add_instance i r) = insert i (current_instances r)"
  "current_instances (remove_instance i r) = current_instances r - {i}"
  "current_instances (ring_new i) = {}"
  by (auto simp: ring_rebuild_def add_instance_def remove_instance_def rebuild_anchor_def ring_new_def Let_def)

lemma ring_me [simp]:
  "my_instance_id (ring_rebuild ids r) = my_instance_id r"
  "my_instance_id (add_instance i r) = my_instance_id r"
  "my_instance_id (remove_instance i r) = my_instance_id r"
  "my_instance_id (ring_new i) = i"
  by (auto simp: ring_rebuild_def add_instance_def remove_instance_def rebuild_anchor_def ring_new_def Let_def)

text \<open>
  A well-formed ring asks the crate about the sorted list of its members, so its verdict is a
  function of the members and of its own id.
\<close>

definition owner_of :: "anchor_hash \<Rightarrow> string set \<Rightarrow> string \<Rightarrow> string option" where
  "owner_of get_resource members key =
     Option.bind (build_anchor members) (\<lambda>(ids, capacity). get_resource ids capacity (hash_key key))"

lemma should_handle_owner:
  "ring_wf r \<Longrightarrow> should_handle get_resource r key \<longleftrightarrow>
     (case owner_of get_resource (current_instances r) key of
        Some owner \<Rightarrow> owner = my_instance_id r | None \<Rightarrow> True)"
  by (auto simp: should_handle_def owner_of_def ring_wf_def build_anchor_def Let_def split: option.splits)

section \<open>Histories of a ring\<close>

inductive ring_history :: "string \<Rightarrow> hash_ring \<Rightarrow> bool" for me where
  started: "ring_history me (ring_new me)"
| rebuilt: "ring_history me r \<Longrightarrow> ring_history me (ring_rebuild ids r)"
| added: "ring_history me r \<Longrightarrow> ring_history me (add_instance i r)"
| removed: "ring_history me r \<Longrightarrow> ring_history me (remove_instance i r)"

lemma ring_history_wf: "ring_history me r \<Longrightarrow> ring_wf r \<and> my_instance_id r = me"
  by (induction rule: ring_history.induct) auto

text \<open>
  What the code relies on in the AnchorHash crate: a ring with at least one resource and no more
  resources than its capacity maps every hash to one of its resources.
\<close>

definition anchor_total :: "anchor_hash \<Rightarrow> bool" where
  "anchor_total get_resource \<longleftrightarrow>
     (\<forall>ids capacity h. ids \<noteq> [] \<and> length ids \<le> unat capacity \<longrightarrow>
        (\<exists>owner\<in>set ids. get_resource ids capacity h = Some owner))"

lemma unat_capacity: "unat (word_of_int (min (max (int n) 16) 65535) :: u16) = min (max n 16) 65535"
proof -
  have "(word_of_int (min (max (int n) 16) 65535) :: u16) = word_of_int (int (min (max n 16) 65535))"
    by (simp add: of_nat_min of_nat_max)
  also have "\<dots> = word_of_nat (min (max n 16) 65535)" by (simp only: of_int_of_nat_eq)
  finally show ?thesis by (simp add: unat_of_nat take_bit_eq_mod)
qed

lemma owner_of_member:
  assumes "anchor_total g" and "finite S" and "S \<noteq> {}" and "card S \<le> 65535"
  obtains owner where "owner \<in> S" "owner_of g S key = Some owner"
proof -
  let ?ids = "sorted_list_of_set S" and ?n = "min (max (int (length (sorted_list_of_set S))) 16) 65535"
  have "length ?ids = card S" and "set ?ids = S" using assms(2) by simp_all
  moreover from this have "?ids \<noteq> []" using assms(3) by auto
  moreover have "length ?ids \<le> unat (word_of_int ?n :: u16)"
    using assms(4) calculation(1) by (simp only: unat_capacity)
  ultimately obtain owner where "owner \<in> S" "g ?ids (word_of_int ?n) (hash_key key) = Some owner"
    using assms(1) unfolding anchor_total_def by metis
  then show thesis using that assms(3) by (simp add: owner_of_def build_anchor_def Let_def)
qed

section \<open>Properties\<close>

text \<open>
  The ring is a function of its members: whatever sequence of full rebuilds, joins and leaves
  two rings of an instance went through, if they have the same members they are equal, and so give
  every key the same answer.
\<close>

theorem ring_determined_by_members:
  assumes "ring_history me r" and "ring_history me r'" and "current_instances r = current_instances r'"
  shows "r = r' \<and> should_handle g r key = should_handle g r' key"
proof -
  have "r = r'"
    using ring_history_wf [OF assms(1)] ring_history_wf [OF assms(2)] assms(3)
    by (cases r, cases r') (simp add: ring_wf_def)
  then show ?thesis by simp
qed

definition sample_anchor :: anchor_hash where
  "sample_anchor ids capacity h = (if ids = [] then None else Some (if bit h 0 then last ids else hd ids))"

theorem ring_determined_by_members_witness:
  "remove_instance ''b'' (add_instance ''c'' (ring_rebuild [''a'', ''b''] (ring_new ''a'')))
     = ring_rebuild [''c'', ''a''] (ring_new ''a'')"
proof -
  have h: "ring_history ''a'' (remove_instance ''b'' (add_instance ''c'' (ring_rebuild [''a'', ''b''] (ring_new ''a''))))"
    "ring_history ''a'' (ring_rebuild [''c'', ''a''] (ring_new ''a''))"
    by (intro ring_history.intros)+
  then show ?thesis
    using ring_determined_by_members [OF h, of sample_anchor "''k''"] by (simp add: insert_commute)
qed

text \<open>
  Exactly one owner: if every instance of a cluster has the same members in its ring, whatever
  its history, then each key is handled by exactly one of them.
\<close>

theorem exactly_one_owner:
  assumes "anchor_total g" and "finite S" and "S \<noteq> {}" and "card S \<le> 65535"
    and "\<forall>i\<in>S. ring_history i (rings i) \<and> current_instances (rings i) = S"
  shows "\<exists>!i. i \<in> S \<and> should_handle g (rings i) key"
proof -
  obtain owner where o: "owner \<in> S" "owner_of g S key = Some owner"
    using assms(1-4) by (rule owner_of_member)
  have "should_handle g (rings i) key \<longleftrightarrow> i = owner" if "i \<in> S" for i
    using assms(5) that ring_history_wf [of i "rings i"] o(2) by (auto simp: should_handle_owner)
  then show ?thesis using o(1) by blast
qed

lemma sample_anchor_total: "anchor_total sample_anchor"
  by (auto simp: anchor_total_def sample_anchor_def)

theorem exactly_one_owner_witness:
  "\<exists>!i. i \<in> {''a'', ''b''} \<and> should_handle sample_anchor (ring_rebuild [''a'', ''b''] (ring_new i)) ''key''"
proof -
  have f: "finite {''a'', ''b''}" "{''a'', ''b''} \<noteq> {}" "card {''a'', ''b''} \<le> 65535" by simp_all
  have "\<forall>i\<in>{''a'', ''b''}. ring_history i (ring_rebuild [''a'', ''b''] (ring_new i))
      \<and> current_instances (ring_rebuild [''a'', ''b''] (ring_new i)) = {''a'', ''b''}"
    by (auto intro: ring_history.intros)
  from exactly_one_owner [OF sample_anchor_total f this] show ?thesis .
qed

text \<open>
  An instance stays listed while it beats: after a heartbeat at some time it is among the active
  instances, and survives every clean-up, at any time less than thirty seconds later.
\<close>

theorem heartbeat_keeps_instance:
  assumes "heartbeat_tick t True lucky c rd = (c', rd')" and "t \<le> now" and "now < t + 30000"
  shows "my_instance_id (co_ring c) \<in> set (get_active_instances now (rd_instances rd'))
         \<and> my_instance_id (co_ring c) \<in> set (get_active_instances now (snd (cleanup_stale now (rd_instances rd'))))"
proof -
  let ?i = "my_instance_id (co_ring c)"
  have m: "(?i, t) \<in> set (rd_instances rd')"
    using assms(1)
    by (auto simp: heartbeat_tick_def zadd_def cleanup_stale_def stale_cutoff_def STALE_THRESHOLD_SECS_def
        sql_simps Let_def split: if_splits)
  moreover have "(?i, t) \<in> set (snd (cleanup_stale now (rd_instances rd')))"
    using m assms(3) by (simp add: cleanup_stale_def stale_cutoff_def STALE_THRESHOLD_SECS_def sql_simps Let_def)
  moreover have "?i \<in> set (get_active_instances now z)" if "(?i, t) \<in> set z" for z
    using that assms(3)
    by (force simp: get_active_instances_def stale_cutoff_def STALE_THRESHOLD_SECS_def sql_simps)
  ultimately show ?thesis by blast
qed

definition sample_coordinator :: "string \<Rightarrow> string list \<Rightarrow> coordinator" where
  "sample_coordinator i ids =
     \<lparr>co_ring = ring_rebuild ids (ring_new i), co_previous_members = set ids, co_failures = 0, co_events = []\<rparr>"

theorem heartbeat_keeps_instance_witness:
  "''a'' \<in> set (get_active_instances 25000 (rd_instances
      (snd (heartbeat_tick 1000 True False (sample_coordinator ''a'' [''a'']) \<lparr>rd_instances = [], rd_published = []\<rparr>))))"
proof -
  let ?h = "heartbeat_tick 1000 True False (sample_coordinator ''a'' [''a'']) \<lparr>rd_instances = [], rd_published = []\<rparr>"
  have "?h = (fst ?h, snd ?h)" by simp
  from heartbeat_keeps_instance [OF this, of 25000] show ?thesis by (simp add: sample_coordinator_def)
qed

text \<open>
  A full sync compares the registry with what the previous sync saw, not with the ring: an
  instance that is in the ring only through a join message is never removed by a full sync, however
  many run, while the registry lists what the previous sync saw.
\<close>

theorem ghost_member_survives_sync:
  assumes "\<forall>t\<in>set ticks. set (get_active_instances t (rd_instances rd)) = co_previous_members c"
    and "ghost \<in> current_instances (co_ring c)"
  shows "ghost \<in> current_instances (co_ring (fold (\<lambda>t. sync_tick t True rd) ticks c))"
  using assms
proof (induction ticks arbitrary: c)
  case (Cons t ts)
  have "co_previous_members (sync_tick t True rd c) = co_previous_members c"
    "co_ring (sync_tick t True rd c) = co_ring c"
    using Cons.prems(1) by (simp_all add: sync_tick_def Let_def)
  then show ?case using Cons.IH [of "sync_tick t True rd c"] Cons.prems by simp
qed simp

text \<open>
  Instance \<open>b\<close> joins, is stopped, and its leave message is lost: \<open>a\<close> keeps it in the ring and refuses
  the keys it would own.
\<close>

definition ghost_redis :: redis where
  "ghost_redis = \<lparr>rd_instances = [(''a'', 100000)], rd_published = []\<rparr>"

definition ghost_coordinator :: coordinator where
  "ghost_coordinator =
     on_pubsub (Some \<lparr>ps_event = ''join'', ps_instance_id = ''b''\<rparr>) (sample_coordinator ''a'' [''a''])"

theorem ghost_member_survives_sync_witness:
  "get_active_instances 110000 (rd_instances ghost_redis) = [''a'']
   \<and> ''b'' \<in> current_instances (co_ring (fold (\<lambda>t. sync_tick t True ghost_redis) [110000, 120000] ghost_coordinator))
   \<and> \<not> should_handle sample_anchor
        (co_ring (fold (\<lambda>t. sync_tick t True ghost_redis) [110000, 120000] ghost_coordinator)) ''x''"
proof -
  have a: "get_active_instances 110000 (rd_instances ghost_redis) = [''a'']" by code_simp
  have "get_active_instances 120000 (rd_instances ghost_redis) = [''a'']" by code_simp
  with a have m: "\<forall>t\<in>set [110000, 120000]. set (get_active_instances t (rd_instances ghost_redis))
      = co_previous_members ghost_coordinator"
    by (simp add: ghost_coordinator_def on_pubsub_def sample_coordinator_def)
  have g: "''b'' \<in> current_instances (co_ring ghost_coordinator)"
    by (simp add: ghost_coordinator_def on_pubsub_def sample_coordinator_def)
  have "\<not> should_handle sample_anchor
      (co_ring (fold (\<lambda>t. sync_tick t True ghost_redis) [110000, 120000] ghost_coordinator)) ''x''"
    by code_simp
  with a ghost_member_survives_sync [OF m g] show ?thesis by blast
qed

end
