(* ===== verification/Users.thy ===== *)
theory Users
  imports OAuthCodes Tokens
begin

text \<open>
  \<open>UserRepository\<close> (\<open>core/src/repositories/user.rs\<close>): registration, credentials, verification and
  reset tokens, profiles, key changes, preloaded accounts and deletion. A user row belongs to one
  tenant, its public key is unique over all tenants, and email, user name and Vine id are unique
  within a tenant. The trigger of the schema stamps \<open>updated_at\<close> at every update. A statement that
  fails leaves the database as it was, a transaction too.
\<close>

section \<open>Constraints\<close>

text \<open>The columns of a tenant that are set, as a partial unique index sees them.\<close>

definition indexed :: "(user \<Rightarrow> string option) \<Rightarrow> user list \<Rightarrow> (int \<times> string) list" where
  "indexed col us = List.map_filter (\<lambda>u. map_option (Pair (us_tenant_id u)) (col u)) us"

text \<open>\<open>users_pkey\<close>, \<open>idx_users_email_tenant\<close>, \<open>idx_users_username_tenant\<close>, \<open>idx_users_vine_id_tenant\<close>.\<close>

definition users_unique :: "user list \<Rightarrow> bool" where
  "users_unique us \<longleftrightarrow>
     distinct (map us_pubkey us) \<and> distinct (indexed us_email us)
     \<and> distinct (indexed us_username us) \<and> distinct (indexed us_vine_id us)"

definition insert_user :: "user \<Rightarrow> 'j db \<Rightarrow> repository_error + 'j db" where
  "insert_user u d =
     (if \<not> users_unique (db_users d @ [u]) then Inl Duplicate
      else if us_tenant_id u \<notin> set (db_tenants d) then Inl (fk_violation ''users'' ''users_tenant_id_fkey'')
      else Inr (d\<lparr>db_users := db_users d @ [u]\<rparr>))"

definition update_users :: "(user \<Rightarrow> bool) \<Rightarrow> (user \<Rightarrow> user) \<Rightarrow> 'j db \<Rightarrow> repository_error + 'j db" where
  "update_users P f d =
     (let us = update_where P f (db_users d)
      in if users_unique us then Inr (d\<lparr>db_users := us\<rparr>) else Inl Duplicate)"

definition user_at :: "pubkey \<Rightarrow> int \<Rightarrow> user \<Rightarrow> bool" where
  "user_at pubkey tenant_id u \<longleftrightarrow> us_pubkey u = pubkey \<and> us_tenant_id u = tenant_id"

definition user_with_email :: "string \<Rightarrow> int \<Rightarrow> user \<Rightarrow> bool" where
  "user_with_email email tenant_id u \<longleftrightarrow> us_email u = Some email \<and> us_tenant_id u = tenant_id"

section \<open>Finding and creating\<close>

definition find_by_pubkey :: "int \<Rightarrow> pubkey \<Rightarrow> 'j db \<Rightarrow> repository_error + user" where
  "find_by_pubkey tenant_id pubkey d = fetch_one (user_at pubkey tenant_id) (db_users d)"

text \<open>\<open>ON CONFLICT (pubkey) DO UPDATE\<close>: a row of the key in any tenant is touched and returned.\<close>

definition find_or_create :: "timestamp \<Rightarrow> int \<Rightarrow> pubkey \<Rightarrow> 'j db \<Rightarrow> repository_error + user \<times> 'j db" where
  "find_or_create now tenant_id pubkey d =
     (case fetch_optional (\<lambda>u. us_pubkey u = pubkey) (db_users d) of
        Some u \<Rightarrow>
          Inr (u\<lparr>us_updated_at := now\<rparr>,
               d\<lparr>db_users := update_where (\<lambda>u. us_pubkey u = pubkey) (\<lambda>u. u\<lparr>us_updated_at := now\<rparr>) (db_users d)\<rparr>)
      | None \<Rightarrow>
          (let u = blank_user pubkey tenant_id now
           in and_then (insert_user u d) (\<lambda>d'. Inr (u, d'))))"

definition ensure_exists :: "timestamp \<Rightarrow> pubkey \<Rightarrow> int \<Rightarrow> 'j db \<Rightarrow> repository_error + 'j db" where
  "ensure_exists now pubkey tenant_id d =
     (if exists_row (\<lambda>u. us_pubkey u = pubkey) (db_users d) then Inr d
      else insert_user (blank_user pubkey tenant_id now) d)"

definition find_pubkey_by_username :: "string \<Rightarrow> int \<Rightarrow> 'j db \<Rightarrow> pubkey option" where
  "find_pubkey_by_username username tenant_id d =
     map_option us_pubkey
       (fetch_optional (\<lambda>u. us_username u = Some username \<and> us_tenant_id u = tenant_id) (db_users d))"

definition find_pubkey_by_vine_id :: "string \<Rightarrow> int \<Rightarrow> 'j db \<Rightarrow> pubkey option" where
  "find_pubkey_by_vine_id vine_id tenant_id d =
     map_option us_pubkey
       (fetch_optional (\<lambda>u. us_vine_id u = Some vine_id \<and> us_tenant_id u = tenant_id) (db_users d))"

definition email_exists :: "string \<Rightarrow> int \<Rightarrow> 'j db \<Rightarrow> bool" where
  "email_exists email tenant_id d = exists_row (user_with_email email tenant_id) (db_users d)"

definition create_with_credentials ::
    "timestamp \<Rightarrow> pubkey \<Rightarrow> int \<Rightarrow> string \<Rightarrow> string \<Rightarrow> bool \<Rightarrow> string \<Rightarrow> timestamp \<Rightarrow> 'j db
      \<Rightarrow> repository_error + 'j db" where
  "create_with_credentials now pubkey tenant_id email password_hash email_verified token token_expires d =
     insert_user
       ((blank_user pubkey tenant_id now)\<lparr>us_email := Some email, us_password_hash := Some password_hash,
          us_email_verified := Some email_verified, us_email_verification_token := Some token,
          us_email_verification_expires_at := Some token_expires\<rparr>) d"

definition create_with_password_verified ::
    "timestamp \<Rightarrow> pubkey \<Rightarrow> int \<Rightarrow> string \<Rightarrow> string \<Rightarrow> bool \<Rightarrow> string option \<Rightarrow> 'j db
      \<Rightarrow> repository_error + 'j db" where
  "create_with_password_verified now pubkey tenant_id email password_hash email_verified token d =
     insert_user
       ((blank_user pubkey tenant_id now)\<lparr>us_email := Some email, us_password_hash := Some password_hash,
          us_email_verified := Some email_verified, us_email_verification_token := token\<rparr>) d"

definition register_with_personal_key ::
    "timestamp \<Rightarrow> pubkey \<Rightarrow> int \<Rightarrow> string \<Rightarrow> string option \<Rightarrow> string \<Rightarrow> timestamp \<Rightarrow> bytes \<Rightarrow> string option
      \<Rightarrow> 'j db \<Rightarrow> repository_error + 'j db" where
  "register_with_personal_key now pubkey tenant_id email password_hash token token_expires encrypted redirect_uri d =
     and_then
       (insert_user
         ((blank_user pubkey tenant_id now)\<lparr>us_email := Some email, us_password_hash := password_hash,
            us_email_verified := Some False, us_email_verification_token := Some token,
            us_email_verification_expires_at := Some token_expires, us_redirect_uri := redirect_uri\<rparr>) d)
       (personal_keys_create pubkey encrypted tenant_id)"

text \<open>
  \<open>ON CONFLICT (tenant_id, email) DO NOTHING\<close> only absorbs a conflict on the email: a key that
  belongs to somebody else is still a duplicate.
\<close>

definition find_or_create_passwordless ::
    "timestamp \<Rightarrow> pubkey \<Rightarrow> int \<Rightarrow> string \<Rightarrow> bytes \<Rightarrow> 'j db \<Rightarrow> repository_error + pubkey \<times> 'j db" where
  "find_or_create_passwordless now pubkey tenant_id email encrypted d =
     (case fetch_optional (user_with_email email tenant_id) (db_users d) of
        Some u \<Rightarrow> Inr (us_pubkey u, d)
      | None \<Rightarrow>
          and_then
            (insert_user ((blank_user pubkey tenant_id now)\<lparr>us_email := Some email,
                            us_email_verified := Some True\<rparr>) d)
            (\<lambda>d1. and_then (personal_keys_create pubkey encrypted tenant_id d1) (\<lambda>d2. Inr (pubkey, d2))))"

definition create_preloaded_user ::
    "timestamp \<Rightarrow> pubkey \<Rightarrow> int \<Rightarrow> string \<Rightarrow> string \<Rightarrow> string option \<Rightarrow> bytes \<Rightarrow> 'j db
      \<Rightarrow> repository_error + 'j db" where
  "create_preloaded_user now pubkey tenant_id vine_id username display_name encrypted d =
     and_then
       (insert_user ((blank_user pubkey tenant_id now)\<lparr>us_vine_id := Some vine_id,
                       us_username := Some username, us_display_name := display_name\<rparr>) d)
       (personal_keys_create pubkey encrypted tenant_id)"

section \<open>Credentials\<close>

text \<open>A tuple of plain types: a NULL in one of the columns is a decoding error.\<close>

definition find_with_password ::
    "string \<Rightarrow> int \<Rightarrow> 'j db \<Rightarrow> repository_error + (pubkey \<times> string \<times> bool) option" where
  "find_with_password email tenant_id d =
     (case fetch_optional (\<lambda>u. user_with_email email tenant_id u \<and> is_set (us_password_hash u)) (db_users d) of
        None \<Rightarrow> Inr None
      | Some u \<Rightarrow>
          and_then (ok_or (null_column ''1'') (us_password_hash u)) (\<lambda>h.
          and_then (ok_or (null_column ''2'') (us_email_verified u)) (\<lambda>v.
          Inr (Some (us_pubkey u, h, v)))))"

definition get_credentials :: "pubkey \<Rightarrow> int \<Rightarrow> 'j db \<Rightarrow> repository_error + (string \<times> string) option" where
  "get_credentials pubkey tenant_id d =
     (case fetch_optional (user_at pubkey tenant_id) (db_users d) of
        None \<Rightarrow> Inr None
      | Some u \<Rightarrow>
          and_then (ok_or (null_column ''0'') (us_email u)) (\<lambda>e.
          and_then (ok_or (null_column ''1'') (us_password_hash u)) (\<lambda>h. Inr (Some (e, h)))))"

definition get_credentials_with_verified ::
    "pubkey \<Rightarrow> int \<Rightarrow> 'j db \<Rightarrow> repository_error + (string \<times> string \<times> bool) option" where
  "get_credentials_with_verified pubkey tenant_id d =
     (case fetch_optional (user_at pubkey tenant_id) (db_users d) of
        None \<Rightarrow> Inr None
      | Some u \<Rightarrow>
          and_then (ok_or (null_column ''0'') (us_email u)) (\<lambda>e.
          and_then (ok_or (null_column ''1'') (us_password_hash u)) (\<lambda>h.
          and_then (ok_or (null_column ''2'') (us_email_verified u)) (\<lambda>v. Inr (Some (e, h, v))))))"

definition find_with_password_and_verified ::
    "pubkey \<Rightarrow> int \<Rightarrow> 'j db \<Rightarrow> repository_error + (string \<times> string \<times> bool) option" where
  "find_with_password_and_verified pubkey tenant_id d = get_credentials_with_verified pubkey tenant_id d"

definition update_password :: "timestamp \<Rightarrow> pubkey \<Rightarrow> int \<Rightarrow> string \<Rightarrow> 'j db \<Rightarrow> repository_error + 'j db" where
  "update_password now pubkey tenant_id password_hash d =
     update_users (user_at pubkey tenant_id)
       (\<lambda>u. u\<lparr>us_password_hash := Some password_hash, us_updated_at := now\<rparr>) d"

section \<open>Email verification\<close>

record verification_token_data =
  vt_pubkey :: pubkey
  vt_email_verification_expires_at :: "timestamp option"
  vt_password_hash :: "string option"
  vt_created_at :: timestamp
  vt_email_verified :: bool
  vt_redirect_uri :: "string option"

definition user_find_by_verification_token ::
    "string \<Rightarrow> int \<Rightarrow> 'j db \<Rightarrow> repository_error + verification_token_data option" where
  "user_find_by_verification_token token tenant_id d =
     (case fetch_optional (\<lambda>u. us_email_verification_token u = Some token \<and> us_tenant_id u = tenant_id)
             (db_users d) of
        None \<Rightarrow> Inr None
      | Some u \<Rightarrow>
          (case us_email_verified u of
             None \<Rightarrow> Inl (null_column ([CHR 0x22] @ ''email_verified'' @ [CHR 0x22]))
           | Some v \<Rightarrow>
               Inr (Some \<lparr>vt_pubkey = us_pubkey u,
                          vt_email_verification_expires_at = us_email_verification_expires_at u,
                          vt_password_hash = us_password_hash u, vt_created_at = us_created_at u,
                          vt_email_verified = v, vt_redirect_uri = us_redirect_uri u\<rparr>)))"

definition verify_email :: "timestamp \<Rightarrow> pubkey \<Rightarrow> int \<Rightarrow> 'j db \<Rightarrow> repository_error + 'j db" where
  "verify_email now pubkey tenant_id d =
     update_users (user_at pubkey tenant_id)
       (\<lambda>u. u\<lparr>us_email_verified := Some True, us_updated_at := now\<rparr>) d"

definition get_verification_status ::
    "pubkey \<Rightarrow> int \<Rightarrow> 'j db \<Rightarrow> repository_error + (string \<times> bool \<times> timestamp option) option" where
  "get_verification_status pubkey tenant_id d =
     (case fetch_optional (user_at pubkey tenant_id) (db_users d) of
        None \<Rightarrow> Inr None
      | Some u \<Rightarrow>
          and_then (ok_or (null_column ''0'') (us_email u)) (\<lambda>e.
          and_then (ok_or (null_column ''1'') (us_email_verified u)) (\<lambda>v.
          Inr (Some (e, v, us_email_verification_sent_at u)))))"

definition get_verification_status_by_email ::
    "string \<Rightarrow> int \<Rightarrow> 'j db \<Rightarrow> repository_error + (pubkey \<times> bool \<times> timestamp option) option" where
  "get_verification_status_by_email email tenant_id d =
     (case fetch_optional (user_with_email email tenant_id) (db_users d) of
        None \<Rightarrow> Inr None
      | Some u \<Rightarrow>
          and_then (ok_or (null_column ''1'') (us_email_verified u)) (\<lambda>v.
          Inr (Some (us_pubkey u, v, us_email_verification_sent_at u))))"

definition with_verification_token :: "timestamp \<Rightarrow> string \<Rightarrow> timestamp \<Rightarrow> user \<Rightarrow> user" where
  "with_verification_token now token expires_at u =
     u\<lparr>us_email_verification_token := Some token, us_email_verification_expires_at := Some expires_at,
       us_email_verification_sent_at := Some now, us_updated_at := now\<rparr>"

definition set_verification_token ::
    "timestamp \<Rightarrow> pubkey \<Rightarrow> int \<Rightarrow> string \<Rightarrow> timestamp \<Rightarrow> 'j db \<Rightarrow> repository_error + 'j db" where
  "set_verification_token now pubkey tenant_id token expires_at d =
     update_users (user_at pubkey tenant_id) (with_verification_token now token expires_at) d"

definition set_verification_token_by_email ::
    "timestamp \<Rightarrow> string \<Rightarrow> int \<Rightarrow> string \<Rightarrow> timestamp \<Rightarrow> 'j db \<Rightarrow> repository_error + 'j db" where
  "set_verification_token_by_email now email tenant_id token expires_at d =
     update_users (user_with_email email tenant_id) (with_verification_token now token expires_at) d"

definition get_email_verified :: "pubkey \<Rightarrow> int \<Rightarrow> 'j db \<Rightarrow> repository_error + bool option" where
  "get_email_verified pubkey tenant_id d =
     (case fetch_optional (user_at pubkey tenant_id) (db_users d) of
        None \<Rightarrow> Inr None
      | Some u \<Rightarrow> and_then (ok_or unexpected_null (us_email_verified u)) (\<lambda>v. Inr (Some v)))"

section \<open>Password reset\<close>

definition set_password_reset_token ::
    "timestamp \<Rightarrow> pubkey \<Rightarrow> int \<Rightarrow> string \<Rightarrow> timestamp \<Rightarrow> 'j db \<Rightarrow> repository_error + 'j db" where
  "set_password_reset_token now pubkey tenant_id token expires_at d =
     update_users (user_at pubkey tenant_id)
       (\<lambda>u. u\<lparr>us_password_reset_token := Some token, us_password_reset_expires_at := Some expires_at,
              us_updated_at := now\<rparr>) d"

definition find_by_reset_token :: "string \<Rightarrow> int \<Rightarrow> 'j db \<Rightarrow> (pubkey \<times> timestamp option) option" where
  "find_by_reset_token token tenant_id d =
     map_option (\<lambda>u. (us_pubkey u, us_password_reset_expires_at u))
       (fetch_optional (\<lambda>u. us_password_reset_token u = Some token \<and> us_tenant_id u = tenant_id) (db_users d))"

definition reset_password :: "timestamp \<Rightarrow> pubkey \<Rightarrow> int \<Rightarrow> string \<Rightarrow> 'j db \<Rightarrow> repository_error + 'j db" where
  "reset_password now pubkey tenant_id password_hash d =
     update_users (user_at pubkey tenant_id)
       (\<lambda>u. u\<lparr>us_password_hash := Some password_hash, us_password_reset_token := None,
              us_password_reset_expires_at := None, us_email_verified := Some True,
              us_email_verification_token := None, us_email_verification_expires_at := None,
              us_updated_at := now\<rparr>) d"

section \<open>Profiles\<close>

text \<open>The outer option is the row, the inner one the nullable column.\<close>

definition get_username :: "pubkey \<Rightarrow> int \<Rightarrow> 'j db \<Rightarrow> string option option" where
  "get_username pubkey tenant_id d =
     map_option us_username (fetch_optional (user_at pubkey tenant_id) (db_users d))"

definition get_username_by_pubkey :: "pubkey \<Rightarrow> 'j db \<Rightarrow> string option option" where
  "get_username_by_pubkey pubkey d =
     map_option us_username (fetch_optional (\<lambda>u. us_pubkey u = pubkey) (db_users d))"

definition get_account_status :: "pubkey \<Rightarrow> int \<Rightarrow> 'j db \<Rightarrow> (string option \<times> bool option) option" where
  "get_account_status pubkey tenant_id d =
     map_option (\<lambda>u. (us_email u, us_email_verified u)) (fetch_optional (user_at pubkey tenant_id) (db_users d))"

definition check_username_available :: "string \<Rightarrow> pubkey \<Rightarrow> int \<Rightarrow> 'j db \<Rightarrow> bool" where
  "check_username_available username exclude_pubkey tenant_id d \<longleftrightarrow>
     \<not> exists_row (\<lambda>u. us_username u = Some username \<and> us_pubkey u \<noteq> exclude_pubkey \<and> us_tenant_id u = tenant_id)
         (db_users d)"

definition update_username :: "timestamp \<Rightarrow> pubkey \<Rightarrow> string \<Rightarrow> int \<Rightarrow> 'j db \<Rightarrow> repository_error + 'j db" where
  "update_username now pubkey username tenant_id d =
     update_users (user_at pubkey tenant_id) (\<lambda>u. u\<lparr>us_username := Some username, us_updated_at := now\<rparr>) d"

section \<open>Key changes\<close>

definition without_identity :: "timestamp \<Rightarrow> user \<Rightarrow> user" where
  "without_identity now u = u\<lparr>us_email := None, us_password_hash := None, us_updated_at := now\<rparr>"

definition orphan_identity :: "timestamp \<Rightarrow> pubkey \<Rightarrow> int \<Rightarrow> 'j db \<Rightarrow> repository_error + 'j db" where
  "orphan_identity now pubkey tenant_id d =
     update_users (user_at pubkey tenant_id) (without_identity now) d"

text \<open>Deleting grants takes their refresh tokens along (\<open>ON DELETE CASCADE\<close>).\<close>

definition delete_oauth_of :: "pubkey \<Rightarrow> 'j db \<Rightarrow> 'j db" where
  "delete_oauth_of pubkey d =
     d\<lparr>db_oauth := delete_where (\<lambda>a. oa_user_pubkey a = pubkey) (db_oauth d),
       db_refresh_tokens :=
         delete_where (\<lambda>t. exists_row (\<lambda>a. oa_user_pubkey a = pubkey \<and> oa_id a = rt_authorization_id t) (db_oauth d))
           (db_refresh_tokens d)\<rparr>"

definition change_key_transaction ::
    "timestamp \<Rightarrow> pubkey \<Rightarrow> pubkey \<Rightarrow> int \<Rightarrow> string \<Rightarrow> string \<Rightarrow> bytes \<Rightarrow> 'j db \<Rightarrow> repository_error + nat \<times> 'j db" where
  "change_key_transaction now old_pubkey new_pubkey tenant_id email password_hash encrypted d =
     (let oauth_count = rows_affected (\<lambda>a. oa_user_pubkey a = old_pubkey) (db_oauth d);
          d1 = personal_keys_delete_by_user old_pubkey (delete_oauth_of old_pubkey d)
      in and_then (update_users (user_at old_pubkey tenant_id) (without_identity now) d1) (\<lambda>d2.
         and_then
           (insert_user ((blank_user new_pubkey tenant_id now)\<lparr>us_email := Some email,
                           us_password_hash := Some password_hash, us_email_verified := Some True\<rparr>) d2) (\<lambda>d3.
         and_then (personal_keys_create new_pubkey encrypted tenant_id d3) (\<lambda>d4. Inr (oauth_count, d4)))))"

section \<open>Preloaded accounts\<close>

definition is_unclaimed :: "pubkey \<Rightarrow> int \<Rightarrow> 'j db \<Rightarrow> bool option" where
  "is_unclaimed pubkey tenant_id d =
     map_option (\<lambda>u. \<not> is_set (us_email u)) (fetch_optional (user_at pubkey tenant_id) (db_users d))"

definition get_claim_info :: "pubkey \<Rightarrow> int \<Rightarrow> 'j db \<Rightarrow> (string option \<times> string option) option" where
  "get_claim_info pubkey tenant_id d =
     map_option (\<lambda>u. (us_username u, us_display_name u)) (fetch_optional (user_at pubkey tenant_id) (db_users d))"

definition claimable :: "pubkey \<Rightarrow> int \<Rightarrow> user \<Rightarrow> bool" where
  "claimable pubkey tenant_id u \<longleftrightarrow> user_at pubkey tenant_id u \<and> \<not> is_set (us_email u)"

definition claim_account :: "timestamp \<Rightarrow> pubkey \<Rightarrow> int \<Rightarrow> string \<Rightarrow> string \<Rightarrow> 'j db \<Rightarrow> repository_error + 'j db" where
  "claim_account now pubkey tenant_id email password_hash d =
     and_then
       (update_users (claimable pubkey tenant_id)
         (\<lambda>u. u\<lparr>us_email := Some email, us_password_hash := Some password_hash,
                us_email_verified := Some True, us_updated_at := now\<rparr>) d)
       (\<lambda>d'. if rows_affected (claimable pubkey tenant_id) (db_users d) = 0
             then Inl (NotFound ''User not found or already claimed'') else Inr d')"

section \<open>Deletion\<close>

text \<open>\<open>customer_deletion_notices\<close>.\<close>

record deletion_notice =
  dn_id :: int
  dn_tenant_id :: int
  dn_pubkey :: pubkey
  dn_deleted_at :: timestamp
  dn_attempts :: int
  dn_next_attempt_at :: timestamp

text \<open>The tables the account operations span.\<close>

record 'j store =
  st_db :: "'j db"
  st_claims :: "claim_token table"
  st_magic :: "magic_link_token table"
  st_notices :: "deletion_notice table"

record delete_account_result =
  teams_removed :: nat
  oauth_authorizations_deleted :: nat
  bunker_pubkeys :: "pubkey list"

text \<open>
  \<open>delete_account_in\<close>, the rest of a transaction that has already turned the store into \<open>s\<close>. The
  foreign keys of \<open>personal_keys\<close>, \<open>oauth_authorizations\<close> and \<open>atproto_oauth_sessions\<close> cascade; the one of
  \<open>account_claim_tokens\<close> (migration 0004) does not, and refuses the deletion of the user.
\<close>

definition delete_account_in :: "pubkey \<Rightarrow> int \<Rightarrow> 'j store \<Rightarrow> repository_error + delete_account_result \<times> 'j store" where
  "delete_account_in pubkey tenant_id s =
     (let d = st_db s;
          result = \<lparr>teams_removed = rows_affected (\<lambda>m. tu_user_pubkey m = pubkey) (db_team_users d),
                    oauth_authorizations_deleted = rows_affected (\<lambda>a. oa_user_pubkey a = pubkey) (db_oauth d),
                    bunker_pubkeys = map oa_bunker_public_key (fetch_all (\<lambda>a. oa_user_pubkey a = pubkey) (db_oauth d))\<rparr>;
          d1 = d\<lparr>db_team_users := delete_where (\<lambda>m. tu_user_pubkey m = pubkey) (db_team_users d),
                 db_oauth_codes := delete_where (\<lambda>c. oc_user_pubkey c = pubkey \<and> oc_tenant_id c = tenant_id)
                                     (db_oauth_codes d)\<rparr>;
          d2 = delete_oauth_of pubkey (personal_keys_delete_by_user pubkey (atproto_sessions_delete_by_user pubkey
                 (d1\<lparr>db_users := delete_where (user_at pubkey tenant_id) (db_users d1)\<rparr>)))
      in if rows_affected (user_at pubkey tenant_id) (db_users d) = 0 then Inl (NotFound ''User not found'')
         else if exists_row (\<lambda>t. ct_user_pubkey t = pubkey) (rows (st_claims s))
         then Inl (fk_still_referenced ''users'' ''account_claim_tokens_user_pubkey_fkey'' ''account_claim_tokens'')
         else Inr (result, s\<lparr>st_db := d2\<rparr>))"

definition user_delete_account :: "pubkey \<Rightarrow> int \<Rightarrow> 'j store \<Rightarrow> repository_error + delete_account_result \<times> 'j store" where
  "user_delete_account pubkey tenant_id s = delete_account_in pubkey tenant_id s"

definition new_notice :: "timestamp \<Rightarrow> int \<Rightarrow> int \<Rightarrow> pubkey \<Rightarrow> deletion_notice" where
  "new_notice now i tenant_id pubkey =
     \<lparr>dn_id = i, dn_tenant_id = tenant_id, dn_pubkey = pubkey, dn_deleted_at = now, dn_attempts = 0,
      dn_next_attempt_at = now\<rparr>"

text \<open>A sub-select that finds no row, or a NULL email, matches no link.\<close>

definition repo_delete_customer_account ::
    "timestamp \<Rightarrow> pubkey \<Rightarrow> int \<Rightarrow> 'j store \<Rightarrow> repository_error + delete_account_result \<times> 'j store" where
  "repo_delete_customer_account now pubkey tenant_id s =
     (let notices = st_notices s;
          email = Option.bind (fetch_optional (user_at pubkey tenant_id) (db_users (st_db s))) us_email;
          s1 = s\<lparr>st_notices := \<lparr>rows = rows notices @ [new_notice now (seq notices) tenant_id pubkey],
                                seq = seq notices + 1\<rparr>,
                 st_magic := (st_magic s)\<lparr>rows :=
                   delete_where (\<lambda>t. ml_tenant_id t = tenant_id \<and> email = Some (ml_email t)) (rows (st_magic s))\<rparr>\<rparr>
      in delete_account_in pubkey tenant_id s1)"

end
