(* ===== verification/UsersProofs.thy ===== *)
theory UsersProofs
  imports Users Samples
begin

text \<open>
  The account tables: the constraints the schema promises hold in every history of the user
  repository, what a deletion takes along, and what it cannot delete.
\<close>

section \<open>Constraints\<close>

text \<open>Every row that names a user names an existing one.\<close>

definition users_referenced :: "'j store \<Rightarrow> bool" where
  "users_referenced s \<longleftrightarrow>
     (let d = st_db s; known = us_pubkey ` set (db_users d) in
      pk_user_pubkey ` set (db_personal_keys d) \<subseteq> known
      \<and> oa_user_pubkey ` set (db_oauth d) \<subseteq> known
      \<and> tu_user_pubkey ` set (db_team_users d) \<subseteq> known
      \<and> ct_user_pubkey ` set (rows (st_claims s)) \<subseteq> known
      \<and> (\<forall>r\<in>set (db_atproto_sessions d). \<forall>k. as_user_pubkey r = Some k \<longrightarrow> k \<in> known))"

definition account_tables_ok :: "'j store \<Rightarrow> bool" where
  "account_tables_ok s \<longleftrightarrow>
     users_unique (db_users (st_db s))
     \<and> (\<forall>u\<in>set (db_users (st_db s)). us_tenant_id u \<in> set (db_tenants (st_db s)))
     \<and> users_referenced s"

text \<open>What a write to the users table may do without breaking a reference.\<close>

definition keeps_references :: "'j db \<Rightarrow> 'j db \<Rightarrow> bool" where
  "keeps_references d d' \<longleftrightarrow>
     us_pubkey ` set (db_users d) \<subseteq> us_pubkey ` set (db_users d')
     \<and> set (db_oauth d') \<subseteq> set (db_oauth d) \<and> set (db_team_users d') \<subseteq> set (db_team_users d)
     \<and> pk_user_pubkey ` set (db_personal_keys d')
         \<subseteq> pk_user_pubkey ` set (db_personal_keys d) \<union> us_pubkey ` set (db_users d')
     \<and> db_atproto_sessions d' = db_atproto_sessions d
     \<and> db_tenants d' = db_tenants d"

definition users_ok :: "'j db \<Rightarrow> bool" where
  "users_ok d \<longleftrightarrow> users_unique (db_users d) \<and> (\<forall>u\<in>set (db_users d). us_tenant_id u \<in> set (db_tenants d))"

lemma subset_chain: "A'' \<subseteq> A' \<union> U'' \<Longrightarrow> A' \<subseteq> U' \<Longrightarrow> U' \<subseteq> U'' \<Longrightarrow> A'' \<subseteq> U''"
  by blast

lemma account_tables_ok_write:
  assumes "account_tables_ok s" and "keeps_references (st_db s) d'" and "users_ok d'"
  shows "account_tables_ok (s\<lparr>st_db := d'\<rparr>)"
proof -
  let ?U = "us_pubkey ` set (db_users (st_db s))" and ?U' = "us_pubkey ` set (db_users d')"
  have r: "pk_user_pubkey ` set (db_personal_keys (st_db s)) \<subseteq> ?U" "oa_user_pubkey ` set (db_oauth (st_db s)) \<subseteq> ?U"
    "tu_user_pubkey ` set (db_team_users (st_db s)) \<subseteq> ?U" "ct_user_pubkey ` set (rows (st_claims s)) \<subseteq> ?U"
    "\<forall>r\<in>set (db_atproto_sessions (st_db s)). \<forall>k. as_user_pubkey r = Some k \<longrightarrow> k \<in> ?U"
    using assms(1) by (simp_all add: account_tables_ok_def users_referenced_def Let_def)
  have k: "?U \<subseteq> ?U'" "set (db_oauth d') \<subseteq> set (db_oauth (st_db s))"
    "set (db_team_users d') \<subseteq> set (db_team_users (st_db s))"
    "pk_user_pubkey ` set (db_personal_keys d') \<subseteq> pk_user_pubkey ` set (db_personal_keys (st_db s)) \<union> ?U'"
    "db_atproto_sessions d' = db_atproto_sessions (st_db s)"
    using assms(2) by (simp_all add: keeps_references_def)
  have "pk_user_pubkey ` set (db_personal_keys d') \<subseteq> ?U'" using k(4) r(1) k(1) by (rule subset_chain)
  moreover have "oa_user_pubkey ` set (db_oauth d') \<subseteq> ?U'"
    using image_mono [OF k(2)] r(2) k(1) by (rule order_trans [OF order_trans])
  moreover have "tu_user_pubkey ` set (db_team_users d') \<subseteq> ?U'"
    using image_mono [OF k(3)] r(3) k(1) by (rule order_trans [OF order_trans])
  moreover have "ct_user_pubkey ` set (rows (st_claims s)) \<subseteq> ?U'" using r(4) k(1) by (rule order_trans)
  moreover have "\<forall>r\<in>set (db_atproto_sessions d'). \<forall>k. as_user_pubkey r = Some k \<longrightarrow> k \<in> ?U'"
    using k(1,5) r(5) by auto
  ultimately show ?thesis
    using assms(3) by (simp add: account_tables_ok_def users_referenced_def users_ok_def Let_def)
qed

text \<open>A write that keeps references and the constraints of the users table.\<close>

definition sound_write :: "'j db \<Rightarrow> 'j db \<Rightarrow> bool" where
  "sound_write d d' \<longleftrightarrow> keeps_references d d' \<and> (users_ok d \<longrightarrow> users_ok d')"

lemma sound_write_refl [simp]: "sound_write d d"
  by (simp add: sound_write_def keeps_references_def)

lemma subset_chain_Un:
  "A'' \<subseteq> A' \<union> U'' \<Longrightarrow> A' \<subseteq> A \<union> U' \<Longrightarrow> U' \<subseteq> U'' \<Longrightarrow> A'' \<subseteq> A \<union> U''"
  by blast

lemma sound_write_trans:
  assumes "sound_write d d'" and "sound_write d' d''"
  shows "sound_write d d''"
proof -
  let ?U = "\<lambda>d. us_pubkey ` set (db_users d)" and ?K = "\<lambda>d. pk_user_pubkey ` set (db_personal_keys d)"
  have 1: "?U d \<subseteq> ?U d'" "set (db_oauth d') \<subseteq> set (db_oauth d)" "set (db_team_users d') \<subseteq> set (db_team_users d)"
    "?K d' \<subseteq> ?K d \<union> ?U d'" and 2: "?U d' \<subseteq> ?U d''" "set (db_oauth d'') \<subseteq> set (db_oauth d')"
    "set (db_team_users d'') \<subseteq> set (db_team_users d')" "?K d'' \<subseteq> ?K d' \<union> ?U d''"
    using assms by (simp_all add: sound_write_def keeps_references_def)
  have "?U d \<subseteq> ?U d''" using 1(1) 2(1) by (rule order_trans)
  moreover have "set (db_oauth d'') \<subseteq> set (db_oauth d)" using 2(2) 1(2) by (rule order_trans)
  moreover have "set (db_team_users d'') \<subseteq> set (db_team_users d)" using 2(3) 1(3) by (rule order_trans)
  moreover have "?K d'' \<subseteq> ?K d \<union> ?U d''" using 2(4) 1(4) 2(1) by (rule subset_chain_Un)
  ultimately show ?thesis using assms by (simp add: sound_write_def keeps_references_def)
qed

lemma sound_write_insert: "insert_user u d = Inr d' \<Longrightarrow> sound_write d d'"
  by (auto simp: insert_user_def sound_write_def keeps_references_def users_ok_def split: if_splits)

definition keeps_identity :: "(user \<Rightarrow> user) \<Rightarrow> bool" where
  "keeps_identity f \<longleftrightarrow> (\<forall>u. us_pubkey (f u) = us_pubkey u \<and> us_tenant_id (f u) = us_tenant_id u)"

lemma sound_write_update:
  assumes "update_users P f d = Inr d'" and "keeps_identity f"
  shows "sound_write d d'"
proof -
  have d': "d' = d\<lparr>db_users := update_where P f (db_users d)\<rparr>" "users_unique (update_where P f (db_users d))"
    using assms(1) by (auto simp: update_users_def Let_def split: if_splits)
  have "map us_pubkey (update_where P f (db_users d)) = map us_pubkey (db_users d)"
    using assms(2) by (simp add: keeps_identity_def map_update_where)
  then have "us_pubkey ` set (update_where P f (db_users d)) = us_pubkey ` set (db_users d)"
    by (metis list.set_map)
  moreover have "\<forall>u\<in>set (update_where P f (db_users d)). \<exists>v\<in>set (db_users d). us_tenant_id u = us_tenant_id v"
    using assms(2) by (auto simp: keeps_identity_def update_where_def)
  ultimately show ?thesis using d' by (fastforce simp: sound_write_def keeps_references_def users_ok_def)
qed

lemma sound_write_personal_key: "personal_keys_create k e t d = Inr d' \<Longrightarrow> sound_write d d'"
  by (auto simp: personal_keys_create_def sound_write_def keeps_references_def users_ok_def exists_row_iff
      split: if_splits)

lemma sound_write_delete_grants: "sound_write d (personal_keys_delete_by_user k (delete_oauth_of k d))"
  by (auto simp: personal_keys_delete_by_user_def delete_oauth_of_def sound_write_def keeps_references_def
      users_ok_def sql_simps)

lemma sound_write_insert_with_key:
  "and_then (insert_user u d) (personal_keys_create k e t) = Inr d' \<Longrightarrow> sound_write d d'"
  by (auto simp: and_then_Inr_iff dest!: sound_write_insert sound_write_personal_key intro: sound_write_trans)

section \<open>The operations\<close>

datatype account_op =
    FindOrCreate timestamp int pubkey
  | EnsureExists timestamp pubkey int
  | CreateWithCredentials timestamp pubkey int string string bool string timestamp
  | CreateWithPasswordVerified timestamp pubkey int string string bool "string option"
  | RegisterWithPersonalKey timestamp pubkey int string "string option" string timestamp bytes "string option"
  | FindOrCreatePasswordless timestamp pubkey int string bytes
  | CreatePreloadedUser timestamp pubkey int string string "string option" bytes
  | UpdatePassword timestamp pubkey int string
  | VerifyEmail timestamp pubkey int
  | SetVerificationToken timestamp pubkey int string timestamp
  | SetVerificationTokenByEmail timestamp string int string timestamp
  | SetPasswordResetToken timestamp pubkey int string timestamp
  | ResetPassword timestamp pubkey int string
  | UpdateUsername timestamp pubkey string int
  | OrphanIdentity timestamp pubkey int
  | ChangeKey timestamp pubkey pubkey int string string bytes
  | ClaimAccount timestamp pubkey int string string
  | IssueClaim timestamp string pubkey "pubkey option" int
  | DeleteAccount pubkey int
  | DeleteCustomerAccount timestamp pubkey int

text \<open>What an operation does to the store; an error leaves it alone.\<close>

fun account_db_op :: "account_op \<Rightarrow> 'j db \<Rightarrow> repository_error + 'j db" where
  "account_db_op (FindOrCreate now t k) d = and_then (find_or_create now t k d) (\<lambda>(_, d'). Inr d')"
| "account_db_op (EnsureExists now k t) d = ensure_exists now k t d"
| "account_db_op (CreateWithCredentials now k t e h v tok x) d = create_with_credentials now k t e h v tok x d"
| "account_db_op (CreateWithPasswordVerified now k t e h v tok) d = create_with_password_verified now k t e h v tok d"
| "account_db_op (RegisterWithPersonalKey now k t e h tok x s r) d = register_with_personal_key now k t e h tok x s r d"
| "account_db_op (FindOrCreatePasswordless now k t e s) d =
     and_then (find_or_create_passwordless now k t e s d) (\<lambda>(_, d'). Inr d')"
| "account_db_op (CreatePreloadedUser now k t v n dn s) d = create_preloaded_user now k t v n dn s d"
| "account_db_op (UpdatePassword now k t h) d = update_password now k t h d"
| "account_db_op (VerifyEmail now k t) d = verify_email now k t d"
| "account_db_op (SetVerificationToken now k t tok x) d = set_verification_token now k t tok x d"
| "account_db_op (SetVerificationTokenByEmail now e t tok x) d = set_verification_token_by_email now e t tok x d"
| "account_db_op (SetPasswordResetToken now k t tok x) d = set_password_reset_token now k t tok x d"
| "account_db_op (ResetPassword now k t h) d = reset_password now k t h d"
| "account_db_op (UpdateUsername now k n t) d = update_username now k n t d"
| "account_db_op (OrphanIdentity now k t) d = orphan_identity now k t d"
| "account_db_op (ChangeKey now k k' t e h s) d =
     and_then (change_key_transaction now k k' t e h s d) (\<lambda>(_, d'). Inr d')"
| "account_db_op (ClaimAccount now k t e h) d = claim_account now k t e h d"
| "account_db_op (IssueClaim now tok k by t) d = Inr d"
| "account_db_op (DeleteAccount k t) d = Inr d"
| "account_db_op (DeleteCustomerAccount now k t) d = Inr d"

fun account_step :: "account_op \<Rightarrow> 'j store \<Rightarrow> 'j store" where
  "account_step (IssueClaim now tok k by t) s =
     s\<lparr>st_claims := snd (claim_create (db_users (st_db s)) now tok k by t (st_claims s))\<rparr>"
| "account_step (DeleteAccount k t) s =
     (case user_delete_account k t s of Inr (_, s') \<Rightarrow> s' | Inl _ \<Rightarrow> s)"
| "account_step (DeleteCustomerAccount now k t) s =
     (case repo_delete_customer_account now k t s of Inr (_, s') \<Rightarrow> s' | Inl _ \<Rightarrow> s)"
| "account_step op s = (case account_db_op op (st_db s) of Inr d' \<Rightarrow> s\<lparr>st_db := d'\<rparr> | Inl _ \<Rightarrow> s)"

lemma indexed_update_where:
  assumes "\<And>u. col (u\<lparr>us_updated_at := now\<rparr>) = col u"
  shows "indexed col (update_where P (\<lambda>u. u\<lparr>us_updated_at := now\<rparr>) us) = indexed col us"
  using assms by (induction us) (auto simp: indexed_def update_where_def map_filter_simps split: option.splits)

lemma sound_write_find_or_create:
  assumes "find_or_create now t k d = Inr (u, d')"
  shows "sound_write d d'"
proof (cases "fetch_optional (\<lambda>u. us_pubkey u = k) (db_users d)")
  case None
  then show ?thesis
    using assms by (auto simp: find_or_create_def and_then_Inr_iff Let_def intro: sound_write_insert)
next
  case (Some v)
  let ?us = "update_where (\<lambda>u. us_pubkey u = k) (\<lambda>u. u\<lparr>us_updated_at := now\<rparr>) (db_users d)"
  have same: "map us_pubkey ?us = map us_pubkey (db_users d)" "map us_tenant_id ?us = map us_tenant_id (db_users d)"
    by (simp_all add: map_update_where)
  have "indexed col ?us = indexed col (db_users d)" if "\<And>u. col (u\<lparr>us_updated_at := now\<rparr>) = col u" for col
    using that by (rule indexed_update_where)
  then have "users_unique ?us = users_unique (db_users d)" using same by (simp add: users_unique_def)
  moreover have "us_pubkey ` set ?us = us_pubkey ` set (db_users d)"
    "us_tenant_id ` set ?us = us_tenant_id ` set (db_users d)"
    using same by (metis list.set_map)+
  moreover have "d' = d\<lparr>db_users := ?us\<rparr>" using Some assms by (simp add: find_or_create_def)
  ultimately show ?thesis by (simp add: sound_write_def keeps_references_def users_ok_def flip: image_subset_iff)
qed

lemma sound_write_passwordless:
  "find_or_create_passwordless now k t e s d = Inr (r, d') \<Longrightarrow> sound_write d d'"
  by (auto simp: find_or_create_passwordless_def and_then_Inr_iff split: option.splits
      dest!: sound_write_insert sound_write_personal_key intro: sound_write_trans)

lemma sound_write_change_key:
  assumes "change_key_transaction now k k' t e h s d = Inr (n, d')"
  shows "sound_write d d'"
proof -
  let ?d1 = "personal_keys_delete_by_user k (delete_oauth_of k d)"
  have "keeps_identity (without_identity now)" by (simp add: keeps_identity_def without_identity_def)
  then show ?thesis
    using assms sound_write_delete_grants [of d k]
    by (auto simp: change_key_transaction_def and_then_Inr_iff Let_def
        dest!: sound_write_update sound_write_insert sound_write_personal_key intro: sound_write_trans)
qed

lemma sound_write_claim: "claim_account now k t e h d = Inr d' \<Longrightarrow> sound_write d d'"
  by (auto simp: claim_account_def and_then_Inr_iff keeps_identity_def split: if_splits
      dest!: sound_write_update)

lemmas account_update_defs =
  update_password_def verify_email_def set_verification_token_def set_verification_token_by_email_def
  with_verification_token_def set_password_reset_token_def reset_password_def update_username_def
  orphan_identity_def without_identity_def

lemma sound_write_updates:
  "update_password now k t h d = Inr d' \<Longrightarrow> sound_write d d'"
  "verify_email now k t d = Inr d' \<Longrightarrow> sound_write d d'"
  "set_verification_token now k t tok x d = Inr d' \<Longrightarrow> sound_write d d'"
  "set_verification_token_by_email now e t tok x d = Inr d' \<Longrightarrow> sound_write d d'"
  "set_password_reset_token now k t tok x d = Inr d' \<Longrightarrow> sound_write d d'"
  "reset_password now k t h d = Inr d' \<Longrightarrow> sound_write d d'"
  "update_username now k n t d = Inr d' \<Longrightarrow> sound_write d d'"
  "orphan_identity now k t d = Inr d' \<Longrightarrow> sound_write d d'"
  unfolding account_update_defs
  by (erule sound_write_update, simp add: keeps_identity_def with_verification_token_def without_identity_def)+

lemma sound_write_inserts:
  "ensure_exists now k t d = Inr d' \<Longrightarrow> sound_write d d'"
  "create_with_credentials now k t e h v tok x d = Inr d' \<Longrightarrow> sound_write d d'"
  "create_with_password_verified now k t e h v otok d = Inr d' \<Longrightarrow> sound_write d d'"
  "register_with_personal_key now k t e oh tok x sec r d = Inr d' \<Longrightarrow> sound_write d d'"
  "create_preloaded_user now k t vine n dn sec d = Inr d' \<Longrightarrow> sound_write d d'"
  unfolding ensure_exists_def create_with_credentials_def create_with_password_verified_def
    register_with_personal_key_def create_preloaded_user_def
  by (auto split: if_splits intro: sound_write_insert sound_write_insert_with_key)

lemma account_db_op_sound: "account_db_op op d = Inr d' \<Longrightarrow> sound_write d d'"
  by (cases op)
    (auto simp: and_then_Inr_iff intro: sound_write_updates sound_write_inserts sound_write_claim
      sound_write_find_or_create sound_write_passwordless sound_write_change_key)

section \<open>Deletion\<close>

lemma delete_account_in_ok:
  assumes "delete_account_in k t s = Inr (r, s')"
  shows "s' = s\<lparr>st_db := delete_oauth_of k (personal_keys_delete_by_user k (atproto_sessions_delete_by_user k
           ((st_db s)\<lparr>db_team_users := delete_where (\<lambda>m. tu_user_pubkey m = k) (db_team_users (st_db s)),
              db_oauth_codes := delete_where (\<lambda>c. oc_user_pubkey c = k \<and> oc_tenant_id c = t) (db_oauth_codes (st_db s)),
              db_users := delete_where (user_at k t) (db_users (st_db s))\<rparr>)))\<rparr>"
    and "\<exists>u\<in>set (db_users (st_db s)). user_at k t u"
    and "\<forall>c\<in>set (rows (st_claims s)). ct_user_pubkey c \<noteq> k"
    and "bunker_pubkeys r = map oa_bunker_public_key (filter (\<lambda>a. oa_user_pubkey a = k) (db_oauth (st_db s)))"
  using assms
  by (auto simp: delete_account_in_def Let_def rows_affected_def filter_empty_conv exists_row_iff fetch_all_def
      split: if_splits)

text \<open>The public key is the primary key, so the tenant of the row to delete picks the same rows.\<close>

lemma delete_user_by_key:
  assumes "distinct (map us_pubkey us)" and "u \<in> set us" and "user_at k t u"
  shows "delete_where (user_at k t) us = filter (\<lambda>u. us_pubkey u \<noteq> k) us"
proof -
  have "user_at k t v \<longleftrightarrow> us_pubkey v = k" if "v \<in> set us" for v
    using assms that by (auto simp: user_at_def distinct_map inj_on_def)
  then show ?thesis by (auto simp: delete_where_def intro!: filter_cong)
qed

lemma distinct_indexed_filter: "distinct (indexed col us) \<Longrightarrow> distinct (indexed col (filter P us))"
proof (induction us)
  case (Cons u us)
  have "set (indexed col (filter P us)) \<subseteq> set (indexed col us)"
    by (auto simp: indexed_def List.map_filter_def)
  then show ?case
    using Cons by (cases "col u") (auto simp: indexed_def map_filter_simps)
qed simp

lemma users_unique_filter: "users_unique us \<Longrightarrow> users_unique (filter P us)"
  by (simp add: users_unique_def distinct_indexed_filter distinct_map_filter)

lemma delete_account_in_keeps:
  assumes "delete_account_in k t s = Inr (r, s')" and "account_tables_ok s"
  shows "account_tables_ok s'"
proof -
  let ?d = "st_db s"
  note d = delete_account_in_ok [OF assms(1)]
  have u: "users_unique (db_users ?d)" using assms(2) by (simp add: account_tables_ok_def)
  then have f: "delete_where (user_at k t) (db_users ?d) = filter (\<lambda>u. us_pubkey u \<noteq> k) (db_users ?d)"
    using d(2) delete_user_by_key by (fastforce simp: users_unique_def)
  have "us_pubkey ` set (filter (\<lambda>u. us_pubkey u \<noteq> k) (db_users ?d)) = us_pubkey ` set (db_users ?d) - {k}"
    by auto
  then show ?thesis
    using assms(2) d(3) unfolding d(1)
    by (auto simp: account_tables_ok_def users_referenced_def delete_oauth_of_def personal_keys_delete_by_user_def
        atproto_sessions_delete_by_user_def f users_unique_filter sql_simps Let_def)
qed

lemma account_tables_ok_other_tables [simp]:
  "account_tables_ok (s\<lparr>st_notices := n, st_magic := m\<rparr>) = account_tables_ok s"
  by (simp add: account_tables_ok_def users_referenced_def)

lemma issue_claim_keeps:
  "account_tables_ok s
     \<Longrightarrow> account_tables_ok (s\<lparr>st_claims := snd (claim_create (db_users (st_db s)) now tok k by t (st_claims s))\<rparr>)"
  by (auto simp: account_tables_ok_def users_referenced_def claim_create_def exists_row_iff Let_def)

lemma account_step_db:
  "account_tables_ok s
     \<Longrightarrow> account_tables_ok (case account_db_op op (st_db s) of Inr d' \<Rightarrow> s\<lparr>st_db := d'\<rparr> | Inl _ \<Rightarrow> s)"
  using account_db_op_sound [of op "st_db s"] account_tables_ok_write [of s]
  by (auto simp: sound_write_def users_ok_def account_tables_ok_def [of s] split: sum.splits)

lemma account_step_keeps:
  assumes "account_tables_ok s"
  shows "account_tables_ok (account_step op s)"
proof (cases op)
  case (DeleteAccount k t)
  then show ?thesis
    using assms by (auto simp: user_delete_account_def delete_account_in_keeps split: sum.splits)
next
  case (DeleteCustomerAccount now k t)
  then show ?thesis
    using assms by (auto simp: repo_delete_customer_account_def Let_def split: sum.splits dest: delete_account_in_keeps)
next
  case (IssueClaim now tok k issuer t)
  then show ?thesis using assms by (simp add: issue_claim_keeps)
qed (simp_all only: account_step.simps account_step_db [OF assms])

section \<open>Properties\<close>


definition sample_store :: "jv store" where
  "sample_store =
     \<lparr>st_db = world, st_claims = \<lparr>rows = [], seq = 1\<rparr>, st_magic = \<lparr>rows = [], seq = 1\<rparr>,
      st_notices = \<lparr>rows = [], seq = 1\<rparr>\<rparr>"

lemma sample_store_ok: "account_tables_ok sample_store"
  by (simp add: account_tables_ok_def users_referenced_def users_unique_def sample_store_def world_def empty_db_def
      blank_user_def new_oauth_row_def sample_params_def indexed_def map_filter_simps)


text \<open>
  C35. Deleting a customer account leaves nothing behind: no user, key, grant, refresh token of a
  grant, AT session, team membership or pending code of it remains, nor a sign-in link for its address; the
  rows of everybody else are untouched, a deletion notice is recorded in the same transaction, and
  the result names exactly the bunkers of the deleted grants.
\<close>

theorem deleted_customer_leaves_nothing:
  assumes "repo_delete_customer_account now k t s = Inr (r, s')" and "account_tables_ok s"
  shows "db_users (st_db s') = filter (\<lambda>u. us_pubkey u \<noteq> k) (db_users (st_db s))
    \<and> db_personal_keys (st_db s') = filter (\<lambda>p. pk_user_pubkey p \<noteq> k) (db_personal_keys (st_db s))
    \<and> db_oauth (st_db s') = filter (\<lambda>a. oa_user_pubkey a \<noteq> k) (db_oauth (st_db s))
    \<and> db_team_users (st_db s') = filter (\<lambda>m. tu_user_pubkey m \<noteq> k) (db_team_users (st_db s))
    \<and> db_atproto_sessions (st_db s') = filter (\<lambda>r. as_user_pubkey r \<noteq> Some k) (db_atproto_sessions (st_db s))
    \<and> (\<forall>c\<in>set (db_oauth_codes (st_db s')). \<not> (oc_user_pubkey c = k \<and> oc_tenant_id c = t))
    \<and> (\<forall>a\<in>set (db_oauth (st_db s)). oa_user_pubkey a = k
        \<longrightarrow> (\<forall>f\<in>set (db_refresh_tokens (st_db s')). rt_authorization_id f \<noteq> oa_id a)
            \<and> oa_bunker_public_key a \<in> set (bunker_pubkeys r))
    \<and> (\<forall>u\<in>set (db_users (st_db s)). us_pubkey u = k
        \<longrightarrow> (\<forall>m\<in>set (rows (st_magic s')). ml_tenant_id m = t \<longrightarrow> us_email u \<noteq> Some (ml_email m)))
    \<and> rows (st_notices s') = rows (st_notices s) @ [new_notice now (seq (st_notices s)) t k]"
proof -
  let ?email = "Option.bind (fetch_optional (user_at k t) (db_users (st_db s))) us_email"
  define s1 where "s1 = s\<lparr>st_notices := \<lparr>rows = rows (st_notices s) @ [new_notice now (seq (st_notices s)) t k],
      seq = seq (st_notices s) + 1\<rparr>, st_magic := (st_magic s)\<lparr>rows :=
        delete_where (\<lambda>m. ml_tenant_id m = t \<and> ?email = Some (ml_email m)) (rows (st_magic s))\<rparr>\<rparr>"
  have "delete_account_in k t s1 = Inr (r, s')"
    using assms(1) by (simp add: repo_delete_customer_account_def s1_def Let_def)
  note d = delete_account_in_ok [OF this]
  have db: "st_db s1 = st_db s" by (simp add: s1_def)
  obtain u where u: "u \<in> set (db_users (st_db s))" "user_at k t u" using d(2) db by auto
  have uniq: "distinct (map us_pubkey (db_users (st_db s)))"
    using assms(2) by (simp add: account_tables_ok_def users_unique_def)
  have same: "v = u" if "v \<in> set (db_users (st_db s))" "us_pubkey v = k" for v
    using uniq u that by (auto simp: distinct_map inj_on_def user_at_def)
  obtain v where v: "fetch_optional (user_at k t) (db_users (st_db s)) = Some v"
    using fetch_optional_ex [of u _ "user_at k t"] u by blast
  have "v = u" using fetch_optional_Some [OF v] same by (simp add: user_at_def)
  with v have "fetch_optional (user_at k t) (db_users (st_db s)) = Some u" by simp
  then have "\<forall>v\<in>set (db_users (st_db s)). us_pubkey v = k
      \<longrightarrow> (\<forall>m\<in>set (rows (st_magic s')). ml_tenant_id m = t \<longrightarrow> us_email v \<noteq> Some (ml_email m))"
    using same unfolding d(1) by (auto simp: s1_def sql_simps)
  then show ?thesis
    using delete_user_by_key [OF uniq u] d(4) unfolding d(1) db
    by (auto simp: s1_def delete_oauth_of_def personal_keys_delete_by_user_def atproto_sessions_delete_by_user_def
        delete_where_def exists_row_iff)
qed

theorem deleted_customer_leaves_nothing_witness:
  "\<exists>r s'. repo_delete_customer_account 50 ''alice'' 1 sample_store = Inr (r, s')
     \<and> db_users (st_db s') = [] \<and> db_oauth (st_db s') = [] \<and> bunker_pubkeys r = [''bunker1'']
     \<and> map dn_pubkey (rows (st_notices s')) = [''alice'']"
proof -
  have "isl (repo_delete_customer_account 50 ''alice'' 1 sample_store) = False" by code_simp
  then obtain r s' where d: "repo_delete_customer_account 50 ''alice'' 1 sample_store = Inr (r, s')"
    by (cases "repo_delete_customer_account 50 ''alice'' 1 sample_store") auto
  have "map_err (\<lambda>_. ()) (and_then (repo_delete_customer_account 50 ''alice'' 1 sample_store)
      (\<lambda>(r, _). Inr (bunker_pubkeys r))) = Inr [''bunker1'']" by code_simp
  then have "bunker_pubkeys r = [''bunker1'']" using d by simp
  then show ?thesis
    using d deleted_customer_leaves_nothing [OF d sample_store_ok]
    by (simp add: sample_store_def world_def empty_db_def blank_user_def new_oauth_row_def sample_params_def new_notice_def)
qed

text \<open>
  An account that was ever offered for claiming cannot be deleted: as long as a claim token of
  the user is in its table, used or expired or not, both deletions are refused by the foreign key
  of that table, although the code counts the table among those that cascade.
\<close>

theorem claimed_account_cannot_be_deleted:
  assumes "c \<in> set (rows (st_claims s))" and "ct_user_pubkey c = k"
    and "u \<in> set (db_users (st_db s))" and "user_at k t u"
  shows "\<exists>m. user_delete_account k t s = Inl (Integrity m) \<and> repo_delete_customer_account now k t s = Inl (Integrity m)"
proof -
  have "delete_account_in k t s' = Inl (fk_still_referenced ''users'' ''account_claim_tokens_user_pubkey_fkey''
      ''account_claim_tokens'')" if "st_db s' = st_db s" "st_claims s' = st_claims s" for s' :: "'a store"
    using assms that by (auto simp: delete_account_in_def rows_affected_def filter_empty_conv exists_row_iff Let_def)
  then show ?thesis
    by (auto simp: user_delete_account_def repo_delete_customer_account_def fk_still_referenced_def Let_def)
qed

definition claimed_store :: "jv store" where
  "claimed_store =
     fold account_step
       [CreatePreloadedUser 10 ''vine'' 1 ''v1'' ''vinny'' None [5], IssueClaim 11 ''tok'' ''vine'' None 1,
        ClaimAccount 12 ''vine'' 1 ''v@example.com'' ''h''] sample_store"

theorem claimed_account_cannot_be_deleted_witness:
  "\<exists>m. user_delete_account ''vine'' 1 claimed_store = Inl (Integrity m)
       \<and> repo_delete_customer_account 20 ''vine'' 1 claimed_store = Inl (Integrity m)"
proof -
  have c: "list_ex (\<lambda>c. ct_user_pubkey c = ''vine'') (rows (st_claims claimed_store))"
    and u: "list_ex (user_at ''vine'' 1) (db_users (st_db claimed_store))" by code_simp+
  from c obtain c where "c \<in> set (rows (st_claims claimed_store))" "ct_user_pubkey c = ''vine''"
    by (auto simp: list_ex_iff)
  moreover from u obtain u where "u \<in> set (db_users (st_db claimed_store))" "user_at ''vine'' 1 u"
    by (auto simp: list_ex_iff)
  ultimately show ?thesis by (rule claimed_account_cannot_be_deleted)
qed

end
