(* ===== verification/Policies.thy ===== *)
theory Policies
  imports OAuthToken
begin

text \<open>
  \<open>PolicyRepository\<close> (\<open>core/src/repositories/policy.rs\<close>) beyond the reads of theory Store, the
  comparison of policies in \<open>core/src/types/policy.rs\<close> and the public endpoints of
  \<open>api/src/api/http/policies.rs\<close>. A policy is its links to permission rows; a policy without a team
  is global. Building a JSON value and the collation of the server are parameters.
\<close>

section \<open>Reads\<close>

record 'j policy_with_permissions =
  pw_policy :: policy
  pw_permissions :: "'j permission list"

definition find_id_by_slug :: "string \<Rightarrow> 'j db \<Rightarrow> int option" where
  "find_id_by_slug slug d = map_option po_id (fetch_optional (\<lambda>p. po_slug p = Some slug) (db_policies d))"

definition list_public :: "(string \<Rightarrow> 'o::linorder) \<Rightarrow> 'j db \<Rightarrow> policy list" where
  "list_public collation d =
     sort_key (\<lambda>p. collation (po_name p))
       (fetch_all (\<lambda>p. is_set (po_slug p) \<and> \<not> is_set (po_team_id p)) (db_policies d))"

definition policy_list_by_team :: "int \<Rightarrow> 'j db \<Rightarrow> policy list" where
  "policy_list_by_team team_id d = fetch_all (\<lambda>p. po_team_id p = Some team_id) (db_policies d)"

definition exists_for_team :: "int \<Rightarrow> int \<Rightarrow> 'j db \<Rightarrow> bool" where
  "exists_for_team team_id policy_id d =
     exists_row (\<lambda>p. po_team_id p = Some team_id \<and> po_id p = policy_id) (db_policies d)"

definition find_with_permissions :: "int \<Rightarrow> 'j db \<Rightarrow> repository_error + 'j policy_with_permissions" where
  "find_with_permissions policy_id d =
     and_then (policy_find d policy_id)
       (\<lambda>p. Inr \<lparr>pw_policy = p, pw_permissions = get_permissions d policy_id\<rparr>)"

definition get_allowed_kinds_config :: "int \<Rightarrow> 'j db \<Rightarrow> 'j option" where
  "get_allowed_kinds_config policy_id d =
     map_option perm_config
       (fetch_optional (\<lambda>p. perm_identifier p = ''allowed_kinds'') (get_permissions d policy_id))"

section \<open>Writes\<close>

text \<open>An insert draws an id even when it fails; inside a transaction that is all a failure leaves.\<close>

definition blank_policy :: "int \<Rightarrow> int option \<Rightarrow> string \<Rightarrow> policy" where
  "blank_policy i team_id name =
     \<lparr>po_id = i, po_name = name, po_team_id = team_id, po_slug = None, po_display_name = None,
      po_description = None\<rparr>"

definition insert_policy :: "int option \<Rightarrow> string \<Rightarrow> 'j db \<Rightarrow> repository_error + policy \<times> 'j db" where
  "insert_policy team_id name d =
     (case team_id of
        Some t \<Rightarrow>
          if \<not> exists_row (\<lambda>r. te_id r = t) (db_teams d)
          then Inl (fk_violation ''policies'' ''policies_team_id_fkey'')
          else (let p = blank_policy (db_policies_seq d) team_id name
                in Inr (p, d\<lparr>db_policies := db_policies d @ [p], db_policies_seq := db_policies_seq d + 1\<rparr>))
      | None \<Rightarrow>
          (let p = blank_policy (db_policies_seq d) team_id name
           in Inr (p, d\<lparr>db_policies := db_policies d @ [p], db_policies_seq := db_policies_seq d + 1\<rparr>)))"

definition policy_create :: "int \<Rightarrow> string \<Rightarrow> 'j db \<Rightarrow> repository_error + policy \<times> 'j db" where
  "policy_create team_id name d = insert_policy (Some team_id) name d"

definition create_permission :: "timestamp \<Rightarrow> string \<Rightarrow> 'j \<Rightarrow> 'j db \<Rightarrow> 'j permission \<times> 'j db" where
  "create_permission now identifier config d =
     (let p = \<lparr>perm_id = db_permissions_seq d, perm_identifier = identifier, perm_config = config,
               perm_created_at = now, perm_updated_at = now\<rparr>
      in (p, d\<lparr>db_permissions := db_permissions d @ [p], db_permissions_seq := db_permissions_seq d + 1\<rparr>))"

definition link_permission :: "int \<Rightarrow> int \<Rightarrow> 'j db \<Rightarrow> repository_error + 'j db" where
  "link_permission policy_id permission_id d =
     (if exists_row (\<lambda>l. pp_policy_id l = policy_id \<and> pp_permission_id l = permission_id) (db_policy_permissions d)
      then Inl Duplicate
      else if \<not> exists_row (\<lambda>p. perm_id p = permission_id) (db_permissions d)
      then Inl (fk_violation ''policy_permissions'' ''policy_permissions_permission_id_fkey'')
      else if \<not> exists_row (\<lambda>p. po_id p = policy_id) (db_policies d)
      then Inl (fk_violation ''policy_permissions'' ''policy_permissions_policy_id_fkey'')
      else Inr (d\<lparr>db_policy_permissions := db_policy_permissions d
                    @ [\<lparr>pp_policy_id = policy_id, pp_permission_id = permission_id\<rparr>]\<rparr>))"

text \<open>
  \<open>mk_merchant\<close> is \<open>json!({ "merchant_pubkey": ... })\<close>. The row is found by its name, the oldest one
  if there are several.
\<close>

definition commerce_policy_name :: "pubkey \<Rightarrow> string" where
  "commerce_policy_name merchant = ''commerce_envelope:'' @ merchant"

definition find_or_create_commerce_envelope ::
    "(string \<Rightarrow> 'j) \<Rightarrow> timestamp \<Rightarrow> pubkey \<Rightarrow> 'j db \<Rightarrow> repository_error + int \<times> 'j db" where
  "find_or_create_commerce_envelope mk_merchant now merchant d =
     (case sort_key po_id (fetch_all (\<lambda>p. po_name p = commerce_policy_name merchant \<and> \<not> is_set (po_team_id p))
             (db_policies d)) of
        p # _ \<Rightarrow> Inr (po_id p, d)
      | [] \<Rightarrow>
          and_then (insert_policy None (commerce_policy_name merchant) d) (\<lambda>(p, d1).
            (case create_permission now ''commerce_envelope'' (mk_merchant merchant) d1 of
               (q, d2) \<Rightarrow> and_then (link_permission (po_id p) (perm_id q) d2) (\<lambda>d3. Inr (po_id p, d3)))))"

text \<open>
  Permissions first, then the policy, then the links, in one transaction.
\<close>

fun create_permissions :: "timestamp \<Rightarrow> (string \<times> 'j) list \<Rightarrow> 'j db \<Rightarrow> 'j permission list \<times> 'j db" where
  "create_permissions now [] d = ([], d)"
| "create_permissions now ((identifier, config) # cs) d =
     (case create_permission now identifier config d of
        (p, d1) \<Rightarrow> (case create_permissions now cs d1 of (ps, d2) \<Rightarrow> (p # ps, d2)))"

fun link_permissions :: "int \<Rightarrow> 'j permission list \<Rightarrow> 'j db \<Rightarrow> repository_error + 'j db" where
  "link_permissions policy_id [] d = Inr d"
| "link_permissions policy_id (p # ps) d =
     and_then (link_permission policy_id (perm_id p) d) (link_permissions policy_id ps)"

definition create_with_permissions ::
    "timestamp \<Rightarrow> int \<Rightarrow> string \<Rightarrow> (string \<times> 'j) list \<Rightarrow> 'j db
      \<Rightarrow> repository_error + 'j policy_with_permissions \<times> 'j db" where
  "create_with_permissions now team_id name configs d =
     (case create_permissions now configs d of
        (ps, d1) \<Rightarrow>
          and_then (insert_policy (Some team_id) name d1) (\<lambda>(p, d2).
          and_then (link_permissions (po_id p) ps d2) (\<lambda>d3.
          Inr (\<lparr>pw_policy = p, pw_permissions = ps\<rparr>, d3))))"

text \<open>Team authorizations refer to their policy by a foreign key, OAuth authorizations do not.\<close>

definition policy_delete :: "int \<Rightarrow> 'j db \<Rightarrow> repository_error + 'j db" where
  "policy_delete policy_id d =
     (if exists_row (\<lambda>p. po_id p = policy_id) (db_policies d)
         \<and> exists_row (\<lambda>a. au_policy_id a = policy_id) (db_authorizations d)
      then Inl (fk_still_referenced ''policies'' ''authorizations_policy_id_fkey'' ''authorizations'')
      else Inr (d\<lparr>db_policy_permissions := delete_where (\<lambda>l. pp_policy_id l = policy_id) (db_policy_permissions d),
                  db_policies := delete_where (\<lambda>p. po_id p = policy_id) (db_policies d)\<rparr>))"

section \<open>Comparing policies\<close>

text \<open>
  \<open>is_more_restrictive\<close>: the first pair of permissions with one identifier that is not in order
  decides; \<open>unwrap_or_default\<close> reads an unreadable configuration as no restriction.
\<close>

definition config_or_default :: "('j \<Rightarrow> string + 'c option) \<Rightarrow> 'j permission \<Rightarrow> 'c option" where
  "config_or_default de p = (case de (perm_config p) of Inr c \<Rightarrow> c | Inl _ \<Rightarrow> None)"

definition pair_in_order :: "'j perm_ext \<Rightarrow> 'j permission \<Rightarrow> 'j permission \<Rightarrow> bool" where
  "pair_in_order X a b =
     (if perm_identifier a \<noteq> perm_identifier b then True
      else if perm_identifier a = ''allowed_kinds'' then
        (case (config_or_default (de_allowed_kinds X) a, config_or_default (de_allowed_kinds X) b) of
           (Some ka, Some kb) \<Rightarrow> list_all (\<lambda>k. k \<in> set kb) ka
         | (Some _, None) \<Rightarrow> True
         | (None, Some _) \<Rightarrow> False
         | (None, None) \<Rightarrow> True)
      else if perm_identifier a = ''content_filter'' then
        (case (config_or_default (de_content_filter X) a, config_or_default (de_content_filter X) b) of
           (Some wa, Some wb) \<Rightarrow> list_all (\<lambda>w. w \<in> set wa) wb
         | (None, Some _) \<Rightarrow> False
         | (_, None) \<Rightarrow> True)
      else True)"

definition is_more_restrictive :: "'j perm_ext \<Rightarrow> 'j permission list \<Rightarrow> 'j permission list \<Rightarrow> bool" where
  "is_more_restrictive X a_perms b_perms \<longleftrightarrow>
     list_all (\<lambda>a. list_all (pair_in_order X a) b_perms) a_perms
     \<and> list_all (\<lambda>b. list_ex (\<lambda>a. perm_identifier a = perm_identifier b) a_perms
                     \<or> perm_identifier b \<noteq> ''encrypt_to_self'') b_perms"

section \<open>The public endpoints\<close>

record policy_response =
  pr_slug :: string
  pr_display_name :: string
  pr_description :: string
  pr_permissions :: "permission_display list"

definition policy_response_of :: "'j token_world \<Rightarrow> 'j db \<Rightarrow> policy \<Rightarrow> policy_response" where
  "policy_response_of W d p =
     \<lparr>pr_slug = (case po_slug p of Some s \<Rightarrow> s | None \<Rightarrow> show_int (po_id p)),
      pr_display_name = (case po_display_name p of Some n \<Rightarrow> n | None \<Rightarrow> po_name p),
      pr_description = (case po_description p of Some t \<Rightarrow> t | None \<Rightarrow> []),
      pr_permissions = permission_displays W d p\<rparr>"

definition list_policies :: "(string \<Rightarrow> 'o::linorder) \<Rightarrow> 'j token_world \<Rightarrow> 'j db \<Rightarrow> policy_response list" where
  "list_policies collation W d = map (policy_response_of W d) (list_public collation d)"

text \<open>Status, error code and message of a refusal.\<close>

definition get_policy :: "'j token_world \<Rightarrow> string \<Rightarrow> 'j db \<Rightarrow> (nat \<times> string \<times> string) + policy_response" where
  "get_policy W slug d =
     (case policy_find_by_slug d slug of
        Inl (NotFound _) \<Rightarrow>
          Inl (404, ''not_found'', ''Policy '' @ [CHR 0x27] @ slug @ [CHR 0x27] @ '' not found. Use GET /api/policies for available options.'')
      | Inl e \<Rightarrow> Inl (500, ''database_error'', repository_error_text e)
      | Inr p \<Rightarrow> Inr (policy_response_of W d p))"

end
