(* ===== verification/Teams.thy ===== *)
theory Teams
  imports Policies Users TeamAuthorizations
begin

text \<open>
  \<open>TeamRepository\<close> and \<open>StoredKeyRepository\<close> (\<open>core/src/repositories/team.rs\<close>, \<open>stored_key.rs\<close>), the
  role checks of \<open>UserRepository\<close> and the batched reads of \<open>core/src/types/user.rs\<close> and \<open>team.rs\<close>.
  The secret key of a stored key is left out of every value the API returns.
\<close>

section \<open>Values\<close>

datatype team_user_role = Admin | Member

fun role_as_str :: "team_user_role \<Rightarrow> string" where
  "role_as_str Admin = ''admin''"
| "role_as_str Member = ''member''"

text \<open>How \<open>sqlx\<close> reads the text column; the check constraint admits nothing else.\<close>

definition decode_role :: "string \<Rightarrow> repository_error + team_user_role" where
  "decode_role r =
     (if r = ''admin'' then Inr Admin else if r = ''member'' then Inr Member
      else Inl (Database (''error occurred while decoding column '' @ [CHR 0x22] @ ''role'' @ [CHR 0x22]
             @ '': invalid value '' @ [CHR 0x22] @ r @ [CHR 0x22] @ '' for enum TeamUserRole'')))"

record team_member =
  tm_user_pubkey :: pubkey
  tm_team_id :: int
  tm_role :: team_user_role
  tm_email :: "string option"
  tm_created_at :: timestamp
  tm_updated_at :: timestamp
  tm_is_support_member :: bool

record public_stored_key =
  ps_id :: int
  ps_team_id :: int
  ps_name :: string
  ps_pubkey :: pubkey
  ps_created_at :: timestamp
  ps_updated_at :: timestamp

definition public_key_of :: "stored_key \<Rightarrow> public_stored_key" where
  "public_key_of k =
     \<lparr>ps_id = sk_id k, ps_team_id = sk_team_id k, ps_name = sk_name k, ps_pubkey = sk_pubkey k,
      ps_created_at = sk_created_at k, ps_updated_at = sk_updated_at k\<rparr>"

record 'j team_with_relations =
  tr_team :: team
  tr_team_users :: "team_member list"
  tr_stored_keys :: "public_stored_key list"
  tr_policies :: "'j policy_with_permissions list"

text \<open>\<open>LEFT JOIN users u ON u.pubkey = tu.user_pubkey\<close>, the key being the primary key.\<close>

definition member_of_row :: "'j db \<Rightarrow> team_user \<Rightarrow> repository_error + team_member" where
  "member_of_row d m =
     and_then (decode_role (tu_role m)) (\<lambda>role.
       Inr \<lparr>tm_user_pubkey = tu_user_pubkey m, tm_team_id = tu_team_id m, tm_role = role,
            tm_email = Option.bind (fetch_optional (\<lambda>u. us_pubkey u = tu_user_pubkey m) (db_users d)) us_email,
            tm_created_at = tu_created_at m, tm_updated_at = tu_updated_at m, tm_is_support_member = False\<rparr>)"

section \<open>Roles\<close>

text \<open>The tenant is not looked at.\<close>

definition is_team_admin :: "int \<Rightarrow> pubkey \<Rightarrow> int \<Rightarrow> 'j db \<Rightarrow> bool" where
  "is_team_admin tenant_id pubkey team_id d \<longleftrightarrow>
     0 < rows_affected (\<lambda>m. tu_user_pubkey m = pubkey \<and> tu_team_id m = team_id \<and> tu_role m = ''admin'') (db_team_users d)"

definition is_team_member :: "int \<Rightarrow> pubkey \<Rightarrow> int \<Rightarrow> 'j db \<Rightarrow> bool" where
  "is_team_member tenant_id pubkey team_id d \<longleftrightarrow>
     0 < rows_affected (\<lambda>m. tu_user_pubkey m = pubkey \<and> tu_team_id m = team_id \<and> tu_role m = ''member'') (db_team_users d)"

definition is_team_teammate :: "int \<Rightarrow> pubkey \<Rightarrow> int \<Rightarrow> 'j db \<Rightarrow> bool" where
  "is_team_teammate tenant_id pubkey team_id d \<longleftrightarrow>
     0 < rows_affected (\<lambda>m. tu_user_pubkey m = pubkey \<and> tu_team_id m = team_id) (db_team_users d)"

definition count_team_memberships :: "int \<Rightarrow> pubkey \<Rightarrow> 'j db \<Rightarrow> nat" where
  "count_team_memberships tenant_id pubkey d =
     length (concat (map (\<lambda>m. fetch_all (\<lambda>t. te_id t = tu_team_id m \<and> te_tenant_id t = tenant_id) (db_teams d))
       (fetch_all (\<lambda>m. tu_user_pubkey m = pubkey) (db_team_users d))))"

section \<open>Teams\<close>

definition team_find :: "int \<Rightarrow> int \<Rightarrow> 'j db \<Rightarrow> repository_error + team" where
  "team_find tenant_id team_id d =
     fetch_one (\<lambda>t. te_tenant_id t = tenant_id \<and> te_id t = team_id) (db_teams d)"

definition team_members :: "int \<Rightarrow> 'j db \<Rightarrow> repository_error + team_member list" where
  "team_members team_id d =
     collect_results (map (member_of_row d) (fetch_all (\<lambda>m. tu_team_id m = team_id) (db_team_users d)))"

definition stored_keys_of :: "int \<Rightarrow> int \<Rightarrow> 'j db \<Rightarrow> stored_key list" where
  "stored_keys_of tenant_id team_id d =
     fetch_all (\<lambda>k. sk_tenant_id k = tenant_id \<and> sk_team_id k = team_id) (db_stored_keys d)"

text \<open>The permissions of all the policies are fetched at once and grouped by policy.\<close>

definition permission_rows :: "int list \<Rightarrow> 'j db \<Rightarrow> (int \<times> 'j permission) list" where
  "permission_rows policy_ids d =
     concat (map (\<lambda>l. map (Pair (pp_policy_id l)) (fetch_all (\<lambda>p. perm_id p = pp_permission_id l) (db_permissions d)))
       (fetch_all (\<lambda>l. pp_policy_id l \<in> set policy_ids) (db_policy_permissions d)))"

definition group_permissions :: "(int \<times> 'j permission) list \<Rightarrow> policy \<Rightarrow> 'j policy_with_permissions" where
  "group_permissions rs p =
     \<lparr>pw_policy = p, pw_permissions = map snd (filter (\<lambda>r. fst r = po_id p) rs)\<rparr>"

definition get_policies_with_permissions :: "int \<Rightarrow> 'j db \<Rightarrow> 'j policy_with_permissions list" where
  "get_policies_with_permissions team_id d =
     (let policies = policy_list_by_team team_id d
      in if policies = [] then []
         else (let rs = permission_rows (map po_id policies) d in map (group_permissions rs) policies))"

definition find_with_relations :: "int \<Rightarrow> int \<Rightarrow> 'j db \<Rightarrow> repository_error + 'j team_with_relations" where
  "find_with_relations tenant_id team_id d =
     and_then (team_find tenant_id team_id d) (\<lambda>t.
     and_then (team_members team_id d) (\<lambda>ms.
     Inr \<lparr>tr_team = t, tr_team_users = ms,
          tr_stored_keys = map public_key_of (stored_keys_of tenant_id team_id d),
          tr_policies = get_policies_with_permissions team_id d\<rparr>))"

section \<open>Batched reads\<close>

definition get_policies_with_permissions_batch :: "int list \<Rightarrow> 'j db \<Rightarrow> 'j policy_with_permissions list" where
  "get_policies_with_permissions_batch team_ids d =
     (if team_ids = [] then []
      else
        (let policies = fetch_all (\<lambda>p. case po_team_id p of Some t \<Rightarrow> t \<in> set team_ids | None \<Rightarrow> False) (db_policies d)
         in if policies = [] then []
            else (let rs = permission_rows (map po_id policies) d in map (group_permissions rs) policies)))"

text \<open>\<open>User::teams\<close>: one query per table for all the teams of a user, then grouping by team.\<close>

definition user_teams :: "int \<Rightarrow> pubkey \<Rightarrow> 'j db \<Rightarrow> repository_error + 'j team_with_relations list" where
  "user_teams tenant_id pubkey d =
     (let teams = fetch_all (\<lambda>t. te_tenant_id t = tenant_id
                    \<and> exists_row (\<lambda>m. tu_team_id m = te_id t \<and> tu_user_pubkey m = pubkey) (db_team_users d)) (db_teams d)
      in if teams = [] then Inr []
         else
           (let ids = map te_id teams;
                keys = fetch_all (\<lambda>k. sk_tenant_id k = tenant_id \<and> sk_team_id k \<in> set ids) (db_stored_keys d);
                policies = get_policies_with_permissions_batch ids d
            in and_then (collect_results (map (member_of_row d)
                          (fetch_all (\<lambda>m. tu_team_id m \<in> set ids) (db_team_users d)))) (\<lambda>ms.
               Inr (map (\<lambda>t. \<lparr>tr_team = t, tr_team_users = filter (\<lambda>m. tm_team_id m = te_id t) ms,
                              tr_stored_keys = map public_key_of (filter (\<lambda>k. sk_team_id k = te_id t) keys),
                              tr_policies = filter (\<lambda>p. po_team_id (pw_policy p) = Some (te_id t)) policies\<rparr>) teams))))"

section \<open>Writes\<close>

definition insert_team :: "timestamp \<Rightarrow> int \<Rightarrow> string \<Rightarrow> 'j db \<Rightarrow> repository_error + team \<times> 'j db" where
  "insert_team now tenant_id name d =
     (if tenant_id \<notin> set (db_tenants d) then Inl (fk_violation ''teams'' ''teams_tenant_id_fkey'')
      else
        (let t = \<lparr>te_id = db_teams_seq d, te_tenant_id = tenant_id, te_name = name, te_created_at = now,
                  te_updated_at = now\<rparr>
         in Inr (t, d\<lparr>db_teams := db_teams d @ [t], db_teams_seq := db_teams_seq d + 1\<rparr>)))"

definition team_create :: "timestamp \<Rightarrow> int \<Rightarrow> string \<Rightarrow> 'j db \<Rightarrow> repository_error + team \<times> 'j db" where
  "team_create now tenant_id name d = insert_team now tenant_id name d"

definition team_update :: "timestamp \<Rightarrow> int \<Rightarrow> int \<Rightarrow> string \<Rightarrow> 'j db \<Rightarrow> repository_error + team \<times> 'j db" where
  "team_update now tenant_id team_id name d =
     (let P = (\<lambda>t. te_tenant_id t = tenant_id \<and> te_id t = team_id);
          f = (\<lambda>t. t\<lparr>te_name := name, te_updated_at := now\<rparr>)
      in and_then (fetch_one P (db_teams d)) (\<lambda>t. Inr (f t, d\<lparr>db_teams := update_where P f (db_teams d)\<rparr>)))"

definition add_member :: "timestamp \<Rightarrow> int \<Rightarrow> pubkey \<Rightarrow> string \<Rightarrow> 'j db \<Rightarrow> repository_error + team_member \<times> 'j db" where
  "add_member now team_id pubkey role d =
     (if role \<notin> {''admin'', ''member''} then Inl (check_violation ''team_users'' ''team_users_role_check'')
      else if exists_row (\<lambda>m. tu_team_id m = team_id \<and> tu_user_pubkey m = pubkey) (db_team_users d) then Inl Duplicate
      else if \<not> exists_row (\<lambda>t. te_id t = team_id) (db_teams d)
      then Inl (fk_violation ''team_users'' ''team_users_team_id_fkey'')
      else if \<not> exists_row (\<lambda>u. us_pubkey u = pubkey) (db_users d)
      then Inl (fk_violation ''team_users'' ''team_users_user_pubkey_fkey'')
      else
        (let m = \<lparr>tu_team_id = team_id, tu_user_pubkey = pubkey, tu_role = role, tu_created_at = now,
                  tu_updated_at = now\<rparr>
         in and_then (member_of_row d m) (\<lambda>tm. Inr (tm, d\<lparr>db_team_users := db_team_users d @ [m]\<rparr>))))"

definition is_member :: "int \<Rightarrow> pubkey \<Rightarrow> 'j db \<Rightarrow> bool" where
  "is_member team_id pubkey d \<longleftrightarrow>
     0 < rows_affected (\<lambda>m. tu_team_id m = team_id \<and> tu_user_pubkey m = pubkey) (db_team_users d)"

definition get_member :: "int \<Rightarrow> pubkey \<Rightarrow> 'j db \<Rightarrow> repository_error + team_member" where
  "get_member team_id pubkey d =
     and_then (fetch_one (\<lambda>m. tu_team_id m = team_id \<and> tu_user_pubkey m = pubkey) (db_team_users d)) (member_of_row d)"

definition remove_member :: "int \<Rightarrow> pubkey \<Rightarrow> 'j db \<Rightarrow> 'j db" where
  "remove_member team_id pubkey d =
     d\<lparr>db_team_users := delete_where (\<lambda>m. tu_team_id m = team_id \<and> tu_user_pubkey m = pubkey) (db_team_users d)\<rparr>"

definition count_other_admins :: "int \<Rightarrow> pubkey \<Rightarrow> 'j db \<Rightarrow> nat" where
  "count_other_admins team_id exclude_pubkey d =
     rows_affected (\<lambda>m. tu_team_id m = team_id \<and> tu_user_pubkey m \<noteq> exclude_pubkey \<and> tu_role m = ''admin'')
       (db_team_users d)"

text \<open>
  One transaction; a statement that a foreign key refuses makes it fail as a whole. The permissions
  taken for orphans are those no policy of another team uses: \<open>team_id != $1\<close> is not true of a
  policy without a team.
\<close>

definition orphaned_permissions :: "int \<Rightarrow> 'j db \<Rightarrow> int list" where
  "orphaned_permissions team_id d =
     (let of_team = (\<lambda>Q l. exists_row (\<lambda>p. po_id p = pp_policy_id l
                        \<and> (case po_team_id p of Some t \<Rightarrow> Q t | None \<Rightarrow> False)) (db_policies d));
          kept = map pp_permission_id (fetch_all (of_team (\<lambda>t. t \<noteq> team_id)) (db_policy_permissions d))
      in filter (\<lambda>i. i \<notin> set kept)
           (map pp_permission_id (fetch_all (of_team (\<lambda>t. t = team_id)) (db_policy_permissions d))))"

definition team_delete :: "int \<Rightarrow> int \<Rightarrow> 'j db \<Rightarrow> repository_error + 'j db" where
  "team_delete tenant_id team_id d =
     (let keys = map sk_id (stored_keys_of tenant_id team_id d);
          auths = delete_where (\<lambda>a. au_tenant_id a = tenant_id \<and> au_stored_key_id a \<in> set keys) (db_authorizations d);
          stored = delete_where (\<lambda>k. sk_tenant_id k = tenant_id \<and> sk_team_id k = team_id) (db_stored_keys d);
          orphans = orphaned_permissions team_id d;
          policy_ids = map po_id (policy_list_by_team team_id d);
          links = delete_where (\<lambda>l. pp_policy_id l \<in> set policy_ids) (db_policy_permissions d)
      in if exists_row (\<lambda>a. au_stored_key_id a \<in> set keys) auths
         then Inl (fk_still_referenced ''stored_keys'' ''authorizations_stored_key_id_fkey'' ''authorizations'')
         else if exists_row (\<lambda>l. pp_permission_id l \<in> set orphans) links
         then Inl (fk_still_referenced ''permissions'' ''policy_permissions_permission_id_fkey'' ''policy_permissions'')
         else if exists_row (\<lambda>a. au_policy_id a \<in> set policy_ids) auths
         then Inl (fk_still_referenced ''policies'' ''authorizations_policy_id_fkey'' ''authorizations'')
         else if exists_row (\<lambda>t. te_tenant_id t = tenant_id \<and> te_id t = team_id) (db_teams d)
                 \<and> exists_row (\<lambda>k. sk_team_id k = team_id) stored
         then Inl (fk_still_referenced ''teams'' ''stored_keys_team_id_fkey'' ''stored_keys'')
         else Inr (d\<lparr>db_authorizations := auths, db_stored_keys := stored, db_policy_permissions := links,
                     db_permissions := delete_where (\<lambda>p. perm_id p \<in> set orphans) (db_permissions d),
                     db_policies := delete_where (\<lambda>p. po_team_id p = Some team_id) (db_policies d),
                     db_team_users := delete_where (\<lambda>m. tu_team_id m = team_id) (db_team_users d),
                     db_teams := delete_where (\<lambda>t. te_tenant_id t = tenant_id \<and> te_id t = team_id) (db_teams d)\<rparr>))"

definition create_with_admin ::
    "timestamp \<Rightarrow> int \<Rightarrow> string \<Rightarrow> pubkey \<Rightarrow> 'j \<Rightarrow> 'j db \<Rightarrow> repository_error + 'j team_with_relations \<times> 'j db" where
  "create_with_admin now tenant_id name admin_pubkey allowed_kinds_config d =
     and_then (ensure_exists now admin_pubkey tenant_id d) (\<lambda>d1.
     and_then (insert_team now tenant_id name d1) (\<lambda>(t, d2).
     and_then (add_member now (te_id t) admin_pubkey ''admin'' d2) (\<lambda>(m, d3).
     and_then (insert_policy (Some (te_id t)) ''All Access'' d3) (\<lambda>(p, d4).
       (case create_permission now ''allowed_kinds'' allowed_kinds_config d4 of
          (q, d5) \<Rightarrow>
            and_then (link_permission (po_id p) (perm_id q) d5) (\<lambda>d6.
              Inr (\<lparr>tr_team = t, tr_team_users = [m], tr_stored_keys = [],
                    tr_policies = [\<lparr>pw_policy = p, pw_permissions = [q]\<rparr>]\<rparr>, d6)))))))"

section \<open>Stored keys\<close>

definition stored_key_find :: "int \<Rightarrow> int \<Rightarrow> 'j db \<Rightarrow> repository_error + stored_key" where
  "stored_key_find tenant_id key_id d =
     fetch_one (\<lambda>k. sk_tenant_id k = tenant_id \<and> sk_id k = key_id) (db_stored_keys d)"

definition stored_key_find_by_pubkey :: "int \<Rightarrow> int \<Rightarrow> pubkey \<Rightarrow> 'j db \<Rightarrow> repository_error + stored_key" where
  "stored_key_find_by_pubkey tenant_id team_id pubkey d =
     fetch_one (\<lambda>k. sk_tenant_id k = tenant_id \<and> sk_team_id k = team_id \<and> sk_pubkey k = pubkey) (db_stored_keys d)"

definition stored_key_create ::
    "timestamp \<Rightarrow> int \<Rightarrow> int \<Rightarrow> string \<Rightarrow> pubkey \<Rightarrow> bytes \<Rightarrow> 'j db \<Rightarrow> repository_error + stored_key \<times> 'j db" where
  "stored_key_create now tenant_id team_id name pubkey encrypted d =
     (if \<not> exists_row (\<lambda>t. te_id t = team_id) (db_teams d)
      then Inl (fk_violation ''stored_keys'' ''stored_keys_team_id_fkey'')
      else if tenant_id \<notin> set (db_tenants d) then Inl (fk_violation ''stored_keys'' ''stored_keys_tenant_id_fkey'')
      else
        (let k = \<lparr>sk_id = db_stored_keys_seq d, sk_tenant_id = tenant_id, sk_team_id = team_id, sk_name = name,
                  sk_pubkey = pubkey, sk_secret_key = encrypted, sk_created_at = now, sk_updated_at = now\<rparr>
         in Inr (k, d\<lparr>db_stored_keys := db_stored_keys d @ [k], db_stored_keys_seq := db_stored_keys_seq d + 1\<rparr>)))"

definition stored_key_delete :: "int \<Rightarrow> int \<Rightarrow> 'j db \<Rightarrow> repository_error + 'j db" where
  "stored_key_delete tenant_id key_id d =
     (let auths = delete_where (\<lambda>a. au_tenant_id a = tenant_id \<and> au_stored_key_id a = key_id) (db_authorizations d);
          P = (\<lambda>k. sk_tenant_id k = tenant_id \<and> sk_id k = key_id)
      in if exists_row P (db_stored_keys d) \<and> exists_row (\<lambda>a. au_stored_key_id a = key_id) auths
         then Inl (fk_still_referenced ''stored_keys'' ''authorizations_stored_key_id_fkey'' ''authorizations'')
         else Inr (d\<lparr>db_authorizations := auths, db_stored_keys := delete_where P (db_stored_keys d)\<rparr>))"

definition delete_by_pubkey :: "int \<Rightarrow> int \<Rightarrow> pubkey \<Rightarrow> 'j db \<Rightarrow> repository_error + 'j db" where
  "delete_by_pubkey tenant_id team_id pubkey d =
     and_then (stored_key_find_by_pubkey tenant_id team_id pubkey d) (\<lambda>k. stored_key_delete tenant_id (sk_id k) d)"

definition stored_key_list_by_team :: "int \<Rightarrow> int \<Rightarrow> 'j db \<Rightarrow> stored_key list" where
  "stored_key_list_by_team tenant_id team_id d = stored_keys_of tenant_id team_id d"

end
