(* ===== verification/Tenants.thy ===== *)
theory Tenants
  imports Tokens
begin

text \<open>
  Tenants and the request they are taken from (\<open>api/src/api/tenant.rs\<close>): the hostname of a request,
  its validation, the cache in front of the \<open>tenants\<close> table, automatic provisioning, and the guard
  that keeps the customer tenant to its own routes. The environment and \<open>serde_json\<close> are the fields
  of \<open>tenant_env\<close>. A header value is a byte string; \<open>to_str\<close> admits visible ASCII only, so a hostname
  is ASCII text and the character classes below are the ASCII ones.
\<close>

section \<open>Requests\<close>

text \<open>
  \<open>Parts\<close>: a header is looked up by its lower-case name; the original URI is the one before the
  prefix of a nested router is stripped.
\<close>

record parts =
  rq_method :: string
  rq_path :: string
  rq_uri_host :: "string option"
  rq_original :: string
  rq_header :: "string \<Rightarrow> string option"

definition visible_ascii :: "char \<Rightarrow> bool" where
  "visible_ascii c \<longleftrightarrow> (32 \<le> (of_char c :: nat) \<and> (of_char c :: nat) < 127) \<or> c = CHR 0x09"

definition header_str :: "parts \<Rightarrow> string \<Rightarrow> string option" where
  "header_str rq name =
     Option.bind (rq_header rq name) (\<lambda>v. if list_all visible_ascii v then Some v else None)"

definition request_domain :: "parts \<Rightarrow> string option" where
  "request_domain rq =
     map_option (\<lambda>host. hd (split_on (CHR '':'') host))
       (case header_str rq ''host'' of Some h \<Rightarrow> Some h | None \<Rightarrow> rq_uri_host rq)"

section \<open>The tenants table\<close>

record tenant =
  tn_id :: int
  tn_domain :: string
  tn_name :: string
  tn_settings :: "string option"
  tn_created_at :: timestamp
  tn_updated_at :: timestamp

record tenant_settings =
  ts_relay :: "string option"
  ts_email_from :: "string option"

record tenant_env =
  allowed_domains_env :: "string option"
  customer_domain_env :: "string option"
  relays_env :: "string option"
  settings_from_json :: "string \<Rightarrow> tenant_settings option"
  settings_to_json :: "tenant_settings \<Rightarrow> string option"

datatype tenant_error =
    InvalidDomain string
  | TenantDatabase string
  | ValidationFailed string

definition get_settings :: "tenant_env \<Rightarrow> tenant \<Rightarrow> tenant_settings option" where
  "get_settings E t =
     (case tn_settings t of
        Some json \<Rightarrow> settings_from_json E json
      | None \<Rightarrow> Some \<lparr>ts_relay = None, ts_email_from = None\<rparr>)"

text \<open>A missing or empty \<open>BUNKER_RELAYS\<close> is a panic, \<open>None\<close>.\<close>

definition get_default_relay :: "tenant_env \<Rightarrow> string option" where
  "get_default_relay E =
     Option.bind (relays_env E)
       (\<lambda>relays. fetch_optional (\<lambda>s. s \<noteq> []) (map str_trim (split_on (CHR '','') relays)))"

definition relay_url :: "tenant_env \<Rightarrow> tenant \<Rightarrow> string option" where
  "relay_url E t =
     (case Option.bind (get_settings E t) ts_relay of Some r \<Rightarrow> Some r | None \<Rightarrow> get_default_relay E)"

definition customer_tenant_domain :: "tenant_env \<Rightarrow> string option" where
  "customer_tenant_domain E =
     Option.bind (customer_domain_env E) (\<lambda>d. if str_trim d \<noteq> [] then Some (str_trim d) else None)"

definition is_customer_tenant :: "tenant_env \<Rightarrow> tenant \<Rightarrow> bool" where
  "is_customer_tenant E t \<longleftrightarrow> customer_tenant_domain E = Some (tn_domain t)"

definition tenant_email_from :: "tenant_env \<Rightarrow> tenant \<Rightarrow> string" where
  "tenant_email_from E t =
     (case Option.bind (get_settings E t) ts_email_from of Some m \<Rightarrow> m | None \<Rightarrow> ''noreply@'' @ tn_domain t)"

definition get_tenant_by_domain :: "string \<Rightarrow> tenant table \<Rightarrow> repository_error + tenant" where
  "get_tenant_by_domain domain t = fetch_one (\<lambda>r. tn_domain r = domain) (rows t)"

definition get_tenant_by_id :: "int \<Rightarrow> tenant table \<Rightarrow> repository_error + tenant" where
  "get_tenant_by_id tenant_id t = fetch_one (\<lambda>r. tn_id r = tenant_id) (rows t)"

definition create_tenant ::
    "timestamp \<Rightarrow> string \<Rightarrow> string \<Rightarrow> string option \<Rightarrow> tenant table \<Rightarrow> (repository_error + tenant) \<times> tenant table" where
  "create_tenant now domain name settings t =
     (let r = \<lparr>tn_id = seq t, tn_domain = domain, tn_name = name, tn_settings = settings,
               tn_created_at = now, tn_updated_at = now\<rparr>;
          t1 = t\<lparr>seq := seq t + 1\<rparr>
      in if exists_row (\<lambda>q. tn_domain q = domain) (rows t) then (Inl Duplicate, t1)
         else (Inr r, t1\<lparr>rows := rows t @ [r]\<rparr>))"

definition list_tenants :: "tenant table \<Rightarrow> tenant list" where
  "list_tenants t = sort_key (\<lambda>r. - tn_created_at r) (rows t)"

section \<open>Validation of hostnames\<close>

definition domain_is_allowed :: "tenant_env \<Rightarrow> string \<Rightarrow> bool" where
  "domain_is_allowed E domain =
     (case allowed_domains_env E of
        Some allowed \<Rightarrow> list_ex (\<lambda>d. str_trim d = domain) (split_on (CHR '','') allowed)
      | None \<Rightarrow> True)"

definition ascii_alphanumeric :: "char \<Rightarrow> bool" where
  "ascii_alphanumeric c \<longleftrightarrow>
     (let n = (of_char c :: nat) in (48 \<le> n \<and> n \<le> 57) \<or> (65 \<le> n \<and> n \<le> 90) \<or> (97 \<le> n \<and> n \<le> 122))"

definition blocked_prefixes :: "string list" where
  "blocked_prefixes = [''127.'', ''192.168.'', ''10.'', ''172.'']"

definition blocked_suffixes :: "string list" where
  "blocked_suffixes = [''.local'', ''.internal'', ''.test'']"

definition trim_end_matches :: "char \<Rightarrow> string \<Rightarrow> string" where
  "trim_end_matches c s = rev (dropWhile (\<lambda>x. x = c) (rev s))"

definition blocked_pattern :: "string \<Rightarrow> string option" where
  "blocked_pattern domain =
     (case fetch_optional (starts_with domain) blocked_prefixes of
        Some p \<Rightarrow> Some p
      | None \<Rightarrow> fetch_optional (ends_with (trim_end_matches (CHR ''.'') domain)) blocked_suffixes)"

definition validate_domain :: "tenant_env \<Rightarrow> string \<Rightarrow> tenant_error + unit" where
  "validate_domain E domain =
     (if domain = [] then Inl (InvalidDomain ''Domain cannot be empty'')
      else if is_set (allowed_domains_env E) then
        (if domain_is_allowed E domain then Inr ()
         else Inl (ValidationFailed (''Domain '' @ [CHR 0x27] @ domain @ [CHR 0x27] @ '' not in allowed list'')))
      else if 253 < length domain then Inl (InvalidDomain ''Domain too long'')
      else if domain = ''localhost'' then Inr ()
      else if CHR ''.'' \<notin> set domain then Inl (ValidationFailed ''Domain must contain at least one dot'')
      else if \<not> list_all (\<lambda>c. ascii_alphanumeric c \<or> c = CHR ''.'' \<or> c = CHR ''-'') domain
      then Inl (InvalidDomain ''Domain contains invalid characters'')
      else (case blocked_pattern domain of
              Some p \<Rightarrow> Inl (ValidationFailed (''Domain matches blocked pattern: '' @ p))
            | None \<Rightarrow> Inr ()))"

section \<open>Provisioning\<close>

definition get_default_settings :: "tenant_env \<Rightarrow> string \<Rightarrow> string option" where
  "get_default_settings E domain =
     map_option (\<lambda>relay.
       (case settings_to_json E \<lparr>ts_relay = Some relay, ts_email_from = Some (''noreply@'' @ domain)\<rparr> of
          Some json \<Rightarrow> json
        | None \<Rightarrow> ''{'' @ [CHR 0x22] @ ''relay'' @ [CHR 0x22] @ '':'' @ [CHR 0x22] @ relay @ [CHR 0x22] @ '',''
                  @ [CHR 0x22] @ ''email_from'' @ [CHR 0x22] @ '':'' @ [CHR 0x22] @ ''noreply@'' @ domain
                  @ [CHR 0x22] @ ''}''))
       (get_default_relay E)"

definition to_upper :: "char \<Rightarrow> char" where
  "to_upper c = (let n = (of_char c :: nat) in if 97 \<le> n \<and> n \<le> 122 then char_of (n - 32) else c)"

definition generate_tenant_name :: "string \<Rightarrow> string" where
  "generate_tenant_name domain =
     (let ps = split_on (CHR ''.'') domain
      in if 2 \<le> length ps
         then (case ps ! (length ps - 2) of [] \<Rightarrow> domain | f # cs \<Rightarrow> to_upper f # cs)
         else domain)"

text \<open>
  \<open>INSERT ... ON CONFLICT (domain) DO UPDATE SET updated_at = tenants.updated_at\<close>: an existing row is
  returned as it is. The sequence advances either way.
\<close>

definition get_or_create_tenant ::
    "tenant_env \<Rightarrow> timestamp \<Rightarrow> string \<Rightarrow> tenant table \<Rightarrow> (tenant_error + tenant) option \<times> tenant table" where
  "get_or_create_tenant E now domain t =
     (case validate_domain E domain of
        Inl e \<Rightarrow> (Some (Inl e), t)
      | Inr _ \<Rightarrow>
          (case get_default_settings E domain of
             None \<Rightarrow> (None, t)
           | Some settings \<Rightarrow>
               (let r = \<lparr>tn_id = seq t, tn_domain = domain, tn_name = generate_tenant_name domain,
                         tn_settings = Some settings, tn_created_at = now, tn_updated_at = now\<rparr>;
                    t1 = t\<lparr>seq := seq t + 1\<rparr>
                in case fetch_optional (\<lambda>q. tn_domain q = domain) (rows t) of
                     Some q \<Rightarrow> (Some (Inr q), t1)
                   | None \<Rightarrow> (Some (Inr r), t1\<lparr>rows := rows t @ [r]\<rparr>))))"

definition ensure_customer_tenant ::
    "tenant_env \<Rightarrow> timestamp \<Rightarrow> tenant table \<Rightarrow> (tenant_error + tenant option) option \<times> tenant table" where
  "ensure_customer_tenant E now t =
     (case customer_tenant_domain E of
        Some domain \<Rightarrow>
          (case get_or_create_tenant E now domain t of
             (None, t1) \<Rightarrow> (None, t1)
           | (Some (Inl e), t1) \<Rightarrow> (Some (Inl e), t1)
           | (Some (Inr q), t1) \<Rightarrow> (Some (Inr (Some q)), t1))
      | None \<Rightarrow> (Some (Inr None), t))"

section \<open>The extractor and the guard\<close>

text \<open>The cache is keyed by the hostname; a rejection is a status and a message.\<close>

record tenants =
  tn_table :: "tenant table"
  tn_cache :: "string \<Rightarrow> tenant option"

type_synonym rejection = "nat \<times> string"

definition tenant_from_request ::
    "tenant_env \<Rightarrow> timestamp \<Rightarrow> parts \<Rightarrow> tenants \<Rightarrow> (rejection + tenant) option \<times> tenants" where
  "tenant_from_request E now rq s =
     (case request_domain rq of
        None \<Rightarrow> (Some (Inl (400, ''Missing Host header'')), s)
      | Some domain \<Rightarrow>
          if \<not> domain_is_allowed E domain then (Some (Inl (400, ''Invalid domain: '' @ domain)), s)
          else (case tn_cache s domain of
             Some t \<Rightarrow> (Some (Inr t), s)
           | None \<Rightarrow>
               (case get_or_create_tenant E now domain (tn_table s) of
                  (None, tab) \<Rightarrow> (None, s\<lparr>tn_table := tab\<rparr>)
                | (Some (Inl (InvalidDomain _)), tab) \<Rightarrow>
                    (Some (Inl (400, ''Invalid domain: '' @ domain)), s\<lparr>tn_table := tab\<rparr>)
                | (Some (Inl (ValidationFailed _)), tab) \<Rightarrow>
                    (Some (Inl (400, ''Invalid domain: '' @ domain)), s\<lparr>tn_table := tab\<rparr>)
                | (Some (Inl (TenantDatabase _)), tab) \<Rightarrow>
                    (Some (Inl (500, ''Failed to provision tenant'')), s\<lparr>tn_table := tab\<rparr>)
                | (Some (Inr t), tab) \<Rightarrow>
                    (Some (Inr t), s\<lparr>tn_table := tab, tn_cache := (tn_cache s)(domain := Some t)\<rparr>))))"

definition customer_routes :: "string list" where
  "customer_routes = [''/nostr'', ''/auth/magic-link'', ''/auth/magic-link/verify'', ''/customer/account'',
     ''/customer/authorizations'', ''/customer/authorizations/revoke'']"

definition is_customer_route :: "string \<Rightarrow> bool" where
  "is_customer_route path \<longleftrightarrow> path \<in> set customer_routes"

definition route_path :: "parts \<Rightarrow> string" where
  "route_path rq = (case strip_prefix ''/api'' (rq_path rq) of Some p \<Rightarrow> p | None \<Rightarrow> rq_path rq)"

text \<open>Whether \<open>customer_tenant_guard\<close> lets the request through to its handler.\<close>

definition customer_tenant_guard :: "tenant_env \<Rightarrow> parts \<Rightarrow> rejection + unit" where
  "customer_tenant_guard E rq =
     (case (customer_tenant_domain E, request_domain rq) of
        (Some customer_domain, Some domain) \<Rightarrow>
          (if domain = customer_domain \<and> \<not> is_customer_route (route_path rq) then Inl (404, ''Not found'')
           else Inr ())
      | _ \<Rightarrow> Inr ())"

section \<open>Lemmas\<close>

text \<open>Every row and every cache entry is filed under its own hostname.\<close>

definition tenants_ok :: "tenants \<Rightarrow> bool" where
  "tenants_ok s \<longleftrightarrow>
     distinct (map tn_domain (rows (tn_table s))) \<and> distinct (map tn_id (rows (tn_table s)))
     \<and> (\<forall>r\<in>set (rows (tn_table s)). tn_id r < seq (tn_table s))
     \<and> (\<forall>d t. tn_cache s d = Some t \<longrightarrow> tn_domain t = d \<and> t \<in> set (rows (tn_table s)))"

lemma get_or_create_tenant_domain:
  "get_or_create_tenant E now domain t = (Some (Inr r), t') \<Longrightarrow> tn_domain r = domain \<and> r \<in> set (rows t')"
  by (auto simp: get_or_create_tenant_def Let_def split: sum.splits option.splits if_splits
        dest!: fetch_optional_Some)

lemma get_or_create_tenant_rows:
  "get_or_create_tenant E now domain t = (res, t') \<Longrightarrow>
     (rows t' = rows t \<and> seq t \<le> seq t')
     \<or> (\<exists>r. rows t' = rows t @ [r] \<and> tn_domain r = domain \<and> tn_id r = seq t \<and> seq t' = seq t + 1
            \<and> (\<forall>q\<in>set (rows t). tn_domain q \<noteq> domain))"
  by (auto simp: get_or_create_tenant_def Let_def sql_simps split: sum.splits option.splits if_splits)

lemma tenants_ok_table:
  assumes "tenants_ok s" and "get_or_create_tenant E now domain (tn_table s) = (res, tab)"
  shows "tenants_ok (s\<lparr>tn_table := tab\<rparr>)"
  using get_or_create_tenant_rows [OF assms(2)] assms(1)
  by (fastforce simp: tenants_ok_def)

lemma tenant_from_request_ok:
  assumes "tenants_ok s" and "tenant_from_request E now rq s = (res, s')"
  shows "tenants_ok s'"
proof -
  have t: "tenants_ok (s\<lparr>tn_table := tab\<rparr>)"
    if "get_or_create_tenant E now domain (tn_table s) = (r, tab)" for r tab domain
    by (rule tenants_ok_table [OF assms(1) that])
  have c: "tenants_ok (s\<lparr>tn_table := tab, tn_cache := (tn_cache s)(domain := Some q)\<rparr>)"
    if "get_or_create_tenant E now domain (tn_table s) = (Some (Inr q), tab)" for q tab domain
    using t [OF that] get_or_create_tenant_domain [OF that] by (auto simp: tenants_ok_def)
  show ?thesis
    using assms t c unfolding tenant_from_request_def
    by (auto split: option.splits if_splits prod.splits sum.splits tenant_error.splits)
qed

lemma tenant_from_request_domain:
  assumes "tenants_ok s" and "tenant_from_request E now rq s = (Some (Inr t), s')"
  shows "request_domain rq = Some (tn_domain t) \<and> domain_is_allowed E (tn_domain t)"
  using assms get_or_create_tenant_domain unfolding tenant_from_request_def tenants_ok_def
  by (fastforce split: option.splits if_splits prod.splits sum.splits tenant_error.splits)

section \<open>Runs\<close>

text \<open>
  The states of a running server. It starts from a table with unique hostnames and an empty cache
  and makes sure the customer tenant exists; the preload task copies the table into the cache, the
  cache drops an entry when its hour or its capacity is over, and each request may provision.
\<close>

definition preload_tenants :: "tenants \<Rightarrow> tenants" where
  "preload_tenants s =
     s\<lparr>tn_cache := fold (\<lambda>t c. c(tn_domain t := Some t)) (rows (tn_table s)) (tn_cache s)\<rparr>"

inductive tenants_step :: "tenant_env \<Rightarrow> tenants \<Rightarrow> tenants \<Rightarrow> bool" for E where
  preload: "tenants_step E s (preload_tenants s)"
| evict: "tenants_step E s (s\<lparr>tn_cache := (tn_cache s)(domain := None)\<rparr>)"
| request: "tenant_from_request E now rq s = (res, s') \<Longrightarrow> tenants_step E s s'"

inductive tenants_reachable :: "tenant_env \<Rightarrow> tenants \<Rightarrow> bool" for E where
  start: "distinct (map tn_domain (rows t)) \<Longrightarrow> distinct (map tn_id (rows t)) \<Longrightarrow> (\<forall>r\<in>set (rows t). tn_id r < seq t)
    \<Longrightarrow> tenants_reachable E \<lparr>tn_table = snd (ensure_customer_tenant E now t), tn_cache = Map.empty\<rparr>"
| step: "tenants_reachable E s \<Longrightarrow> tenants_step E s s' \<Longrightarrow> tenants_reachable E s'"

lemma fold_cache:
  "fold (\<lambda>t c. c(tn_domain t := Some t)) ts c d = Some t \<Longrightarrow> c d = Some t \<or> (t \<in> set ts \<and> tn_domain t = d)"
proof (induction ts arbitrary: c)
  case (Cons a ts)
  from Cons.IH [of "c(tn_domain a := Some a)"] Cons.prems show ?case by (auto split: if_splits)
qed simp

lemma tenants_step_ok: "tenants_step E s s' \<Longrightarrow> tenants_ok s \<Longrightarrow> tenants_ok s'"
proof (induction rule: tenants_step.induct)
  case (preload s)
  then show ?case by (auto simp: tenants_ok_def preload_tenants_def dest!: fold_cache)
next
  case (evict s domain)
  then show ?case by (auto simp: tenants_ok_def)
next
  case (request now rq s res s')
  then show ?case by (blast intro: tenant_from_request_ok)
qed

lemma tenants_reachable_ok: "tenants_reachable E s \<Longrightarrow> tenants_ok s"
proof (induction rule: tenants_reachable.induct)
  case (start t now)
  let ?s = "\<lparr>tn_table = t, tn_cache = Map.empty\<rparr>"
  have "tenants_ok ?s" using start by (simp add: tenants_ok_def)
  from tenants_ok_table [OF this] show ?case
    using \<open>tenants_ok ?s\<close> unfolding ensure_customer_tenant_def
    by (fastforce split: option.splits prod.splits sum.splits)
qed (blast intro: tenants_step_ok)

lemma tenants_step_keeps_rows: "tenants_step E s s' \<Longrightarrow> set (rows (tn_table s)) \<subseteq> set (rows (tn_table s'))"
proof (induction rule: tenants_step.induct)
  case (request now rq s res s')
  have keep: "x \<in> set (rows tab)"
    if "get_or_create_tenant E now d (tn_table s) = (r, tab)" "x \<in> set (rows (tn_table s))" for d r tab x
    using get_or_create_tenant_rows [OF that(1)] that(2) by auto
  from request show ?case
    unfolding tenant_from_request_def
    by (auto dest: keep split: option.splits if_splits prod.splits sum.splits tenant_error.splits)
qed (simp_all add: preload_tenants_def)

text \<open>Rows stay for good in any run.\<close>

lemma tenants_steps_keep:
  "rtranclp (tenants_step E) s s' \<Longrightarrow> tenants_reachable E s
     \<Longrightarrow> tenants_reachable E s' \<and> set (rows (tn_table s)) \<subseteq> set (rows (tn_table s'))"
proof (induction rule: rtranclp_induct)
  case (step y z)
  then show ?case using tenants_step_keeps_rows [of E y z] by (blast intro: tenants_reachable.step)
qed simp

lemma tenant_from_request_row:
  assumes "tenants_ok s" and "tenant_from_request E now rq s = (Some (Inr t), s')"
  shows "t \<in> set (rows (tn_table s'))"
  using assms get_or_create_tenant_domain unfolding tenant_from_request_def tenants_ok_def
  by (fastforce split: option.splits if_splits prod.splits sum.splits tenant_error.splits)

section \<open>Properties\<close>

text \<open>
  A request that reaches a handler in the customer tenant is for one of the customer routes:
  whatever tenants were provisioned, cached or evicted before, the guard and the extractor agree on
  which requests belong to that tenant.
\<close>

theorem customer_tenant_confined:
  assumes "tenants_reachable E s"
    and "customer_tenant_guard E rq = Inr ()"
    and "tenant_from_request E now rq s = (Some (Inr t), s')"
    and "is_customer_tenant E t"
  shows "is_customer_route (route_path rq)"
  using assms tenant_from_request_domain [OF tenants_reachable_ok [OF assms(1)] assms(3)]
  by (auto simp: customer_tenant_guard_def is_customer_tenant_def split: if_splits)

definition sample_env :: tenant_env where
  "sample_env =
     \<lparr>allowed_domains_env = None, customer_domain_env = Some ''shop.example.com'', relays_env = Some ''wss://r.example'',
      settings_from_json = (\<lambda>_. None), settings_to_json = (\<lambda>_. Some ''{}'')\<rparr>"

definition sample_parts :: "string \<Rightarrow> string \<Rightarrow> parts" where
  "sample_parts host path =
     \<lparr>rq_method = ''POST'', rq_path = path, rq_uri_host = None, rq_original = ''/api'' @ path,
      rq_header = Map.empty(''host'' \<mapsto> host)\<rparr>"

definition sample_tenants :: tenants where
  "sample_tenants = \<lparr>tn_table = snd (ensure_customer_tenant sample_env 5 \<lparr>rows = [], seq = 1\<rparr>), tn_cache = Map.empty\<rparr>"

lemma sample_tenants_reachable: "tenants_reachable sample_env sample_tenants"
  unfolding sample_tenants_def by (rule tenants_reachable.start) simp_all

theorem customer_tenant_confined_witness:
  "is_customer_route (route_path (sample_parts ''shop.example.com:443'' ''/nostr''))"
proof -
  obtain t where t: "fst (tenant_from_request sample_env 9 (sample_parts ''shop.example.com:443'' ''/nostr'') sample_tenants)
      = Some (Inr t)" "is_customer_tenant sample_env t"
  proof
    show "fst (tenant_from_request sample_env 9 (sample_parts ''shop.example.com:443'' ''/nostr'') sample_tenants)
      = Some (Inr (hd (rows (tn_table sample_tenants))))" by code_simp
    show "is_customer_tenant sample_env (hd (rows (tn_table sample_tenants)))" by code_simp
  qed
  have "customer_tenant_guard sample_env (sample_parts ''shop.example.com:443'' ''/nostr'') = Inr ()" by code_simp
  from customer_tenant_confined [OF sample_tenants_reachable this _ t(2), of 9] t(1) show ?thesis
    by (metis prod.collapse)
qed

text \<open>
  A hostname gets one tenant for good: once a request has been served in a tenant, every later
  request for the same hostname that is served at all is served in that tenant, whatever requests,
  preloads and cache evictions lie between.
\<close>

theorem hostname_keeps_its_tenant:
  assumes "tenants_reachable E s"
    and "tenant_from_request E now rq s = (Some (Inr t), s1)"
    and "rtranclp (tenants_step E) s1 s2"
    and "request_domain rq' = request_domain rq"
    and "tenant_from_request E now' rq' s2 = (Some (Inr t'), s3)"
  shows "t' = t"
proof -
  have r1: "tenants_reachable E s1" by (rule tenants_reachable.step [OF assms(1) tenants_step.request [OF assms(2)]])
  have r2: "tenants_reachable E s2" and "t \<in> set (rows (tn_table s2))"
    using tenants_steps_keep [OF assms(3) r1] tenant_from_request_row [OF tenants_reachable_ok [OF assms(1)] assms(2)]
    by auto
  moreover have r3: "tenants_reachable E s3"
    by (rule tenants_reachable.step [OF r2 tenants_step.request [OF assms(5)]])
  ultimately have rows: "t \<in> set (rows (tn_table s3))" "t' \<in> set (rows (tn_table s3))"
    using tenants_step_keeps_rows [OF tenants_step.request [OF assms(5)]]
      tenant_from_request_row [OF tenants_reachable_ok [OF r2] assms(5)] by auto
  have "tn_domain t = tn_domain t'"
    using tenant_from_request_domain [OF tenants_reachable_ok [OF assms(1)] assms(2)]
      tenant_from_request_domain [OF tenants_reachable_ok [OF r2] assms(5)] assms(4) by simp
  moreover have "inj_on tn_domain (set (rows (tn_table s3)))"
    using tenants_reachable_ok [OF r3] by (simp add: tenants_ok_def distinct_map)
  ultimately show ?thesis using rows by (auto dest: inj_onD)
qed

theorem hostname_keeps_its_tenant_witness:
  "\<exists>t s1. tenant_from_request sample_env 9 (sample_parts ''a.example.com'' ''/teams'') sample_tenants = (Some (Inr t), s1)
     \<and> (\<exists>s3. tenant_from_request sample_env 10 (sample_parts ''a.example.com:80'' ''/nostr'')
               (s1\<lparr>tn_cache := (tn_cache s1)(''a.example.com'' := None)\<rparr>) = (Some (Inr t), s3))"
proof -
  let ?s1 = "snd (tenant_from_request sample_env 9 (sample_parts ''a.example.com'' ''/teams'') sample_tenants)"
  let ?s2 = "?s1\<lparr>tn_cache := (tn_cache ?s1)(''a.example.com'' := None)\<rparr>"
  obtain t where t: "tenant_from_request sample_env 9 (sample_parts ''a.example.com'' ''/teams'') sample_tenants
      = (Some (Inr t), ?s1)"
  proof -
    have "is_set (fst (tenant_from_request sample_env 9 (sample_parts ''a.example.com'' ''/teams'') sample_tenants))
        \<and> \<not> isl (the (fst (tenant_from_request sample_env 9 (sample_parts ''a.example.com'' ''/teams'') sample_tenants)))"
      by code_simp
    then show ?thesis
      by (metis is_set_simps(1) obj_sumE option.collapse isl_def prod.collapse that)
  qed
  obtain t' where t': "tenant_from_request sample_env 10 (sample_parts ''a.example.com:80'' ''/nostr'') ?s2
      = (Some (Inr t'), snd (tenant_from_request sample_env 10 (sample_parts ''a.example.com:80'' ''/nostr'') ?s2))"
  proof -
    have "is_set (fst (tenant_from_request sample_env 10 (sample_parts ''a.example.com:80'' ''/nostr'') ?s2))
        \<and> \<not> isl (the (fst (tenant_from_request sample_env 10 (sample_parts ''a.example.com:80'' ''/nostr'') ?s2)))"
      by code_simp
    then show ?thesis
      by (metis is_set_simps(1) obj_sumE option.collapse isl_def prod.collapse that)
  qed
  have "request_domain (sample_parts ''a.example.com:80'' ''/nostr'') = request_domain (sample_parts ''a.example.com'' ''/teams'')"
    by code_simp
  from hostname_keeps_its_tenant [OF sample_tenants_reachable t _ this t'] have "t' = t"
    using tenants_step.evict by blast
  with t t' show ?thesis by metis
qed

end
