(* ===== verification/RateLimit.thy ===== *)
theory RateLimit
  imports Prelude
begin

text \<open>
  The limits in front of the endpoints that send mail or use the key service
  (\<open>api/src/rate_limit.rs\<close>) over the Redis commands of \<open>api/src/redis.rs\<close>. A key of Redis has a value
  and the time it expires, in seconds; a step that finds Redis missing or failing lets the request
  pass. The IP parser, the lower-casing of Unicode and SHA-256 are parameters.
\<close>

section \<open>Redis\<close>

type_synonym keyspace = "string \<Rightarrow> (nat \<times> int) option"

definition live :: "int \<Rightarrow> string \<Rightarrow> keyspace \<Rightarrow> bool" where
  "live now key r \<longleftrightarrow> (case r key of Some (v, e) \<Rightarrow> now < e | None \<Rightarrow> False)"

definition set_nx_ex :: "int \<Rightarrow> string \<Rightarrow> int \<Rightarrow> keyspace \<Rightarrow> bool \<times> keyspace" where
  "set_nx_ex now key ttl r = (if live now key r then (False, r) else (True, r(key := Some (1, now + ttl))))"

definition incr_with_ttl :: "int \<Rightarrow> string \<Rightarrow> int \<Rightarrow> keyspace \<Rightarrow> nat \<times> keyspace" where
  "incr_with_ttl now key ttl r =
     (case r key of
        Some (v, e) \<Rightarrow>
          (if now < e then (v + 1, r(key := Some (v + 1, e))) else (1, r(key := Some (1, now + ttl))))
      | None \<Rightarrow> (1, r(key := Some (1, now + ttl))))"

section \<open>Limits\<close>

definition EMAIL_LIMIT_PER_HOUR :: nat where
  "EMAIL_LIMIT_PER_HOUR = 5"

definition DEFAULT_IP_LIMIT_PER_HOUR :: nat where
  "DEFAULT_IP_LIMIT_PER_HOUR = 60"

definition HOUR_SECONDS :: int where
  "HOUR_SECONDS = 3600"

text \<open>\<open>up\<close>: whether there is a Redis connection and the command succeeds.\<close>

definition once_per_window :: "bool \<Rightarrow> int \<Rightarrow> string \<Rightarrow> int \<Rightarrow> keyspace \<Rightarrow> bool \<times> keyspace" where
  "once_per_window up now key window_seconds r =
     (if \<not> up then (True, r) else set_nx_ex now key window_seconds r)"

definition under_limit :: "bool \<Rightarrow> int \<Rightarrow> string \<Rightarrow> nat \<Rightarrow> int \<Rightarrow> keyspace \<Rightarrow> bool \<times> keyspace" where
  "under_limit up now key limit window_seconds r =
     (if \<not> up then (True, r)
      else (case incr_with_ttl now key window_seconds r of (count, r') \<Rightarrow> (count \<le> limit, r')))"

definition client_ip :: "(string \<Rightarrow> string option) \<Rightarrow> string option \<Rightarrow> string option" where
  "client_ip parse_ip forwarded_for =
     Option.bind forwarded_for (\<lambda>v. parse_ip (str_trim (last (split_on (CHR '','') v))))"

definition ip_limit_per_hour :: "(string \<Rightarrow> nat option) \<Rightarrow> string option \<Rightarrow> nat" where
  "ip_limit_per_hour parse_u64 env =
     (case Option.bind env parse_u64 of Some limit \<Rightarrow> limit | None \<Rightarrow> DEFAULT_IP_LIMIT_PER_HOUR)"

definition ip_limit_key :: "string \<Rightarrow> int \<Rightarrow> string \<Rightarrow> string" where
  "ip_limit_key route tenant_id ip = ''rate_limit:'' @ route @ '':'' @ show_int tenant_id @ '':ip:'' @ ip"

definition email_limit_key :: "(string \<Rightarrow> string) \<Rightarrow> (string \<Rightarrow> string) \<Rightarrow> string \<Rightarrow> int \<Rightarrow> string \<Rightarrow> string" where
  "email_limit_key email_key to_lowercase route tenant_id email =
     ''rate_limit:'' @ route @ '':'' @ show_int tenant_id @ '':email:'' @ email_key (to_lowercase (str_trim email))"

definition allow_request ::
    "(string \<Rightarrow> string) \<Rightarrow> (string \<Rightarrow> string) \<Rightarrow> bool \<Rightarrow> int \<Rightarrow> nat \<Rightarrow> string \<Rightarrow> int \<Rightarrow> string option \<Rightarrow> string option
      \<Rightarrow> keyspace \<Rightarrow> bool \<times> keyspace" where
  "allow_request email_key to_lowercase up now ip_limit route tenant_id ip email r =
     (case (case ip of
              Some a \<Rightarrow> under_limit up now (ip_limit_key route tenant_id a) ip_limit HOUR_SECONDS r
            | None \<Rightarrow> (True, r)) of
        (False, r1) \<Rightarrow> (False, r1)
      | (True, r1) \<Rightarrow>
          (case email of
             Some m \<Rightarrow>
               (case under_limit up now (email_limit_key email_key to_lowercase route tenant_id m)
                       EMAIL_LIMIT_PER_HOUR HOUR_SECONDS r1 of
                  (False, r2) \<Rightarrow> (False, r2)
                | (True, r2) \<Rightarrow> (True, r2))
           | None \<Rightarrow> (True, r1)))"

section \<open>Sequences of requests\<close>

text \<open>The verdicts on a sequence of requests with one key.\<close>

fun limit_run :: "string \<Rightarrow> nat \<Rightarrow> int \<Rightarrow> int list \<Rightarrow> keyspace \<Rightarrow> bool list" where
  "limit_run key limit w [] r = []"
| "limit_run key limit w (t # ts) r =
     (case under_limit True t key limit w r of (verdict, r') \<Rightarrow> verdict # limit_run key limit w ts r')"

definition allowed :: "bool list \<Rightarrow> nat" where
  "allowed vs = length (filter (\<lambda>v. v) vs)"

lemma limit_run_live:
  assumes "r key = Some (v, e)" and "\<forall>t\<in>set ts. t < e"
  shows "limit_run key limit w ts r
         = replicate (min (limit - v) (length ts)) True @ replicate (length ts - (limit - v)) False"
  using assms
proof (induction ts arbitrary: v r)
  case (Cons t ts)
  have u: "under_limit True t key limit w r = (v + 1 \<le> limit, r(key := Some (v + 1, e)))"
    using Cons.prems by (simp add: under_limit_def incr_with_ttl_def)
  have "limit_run key limit w ts (r(key := Some (v + 1, e)))
      = replicate (min (limit - (v + 1)) (length ts)) True @ replicate (length ts - (limit - (v + 1))) False"
    using Cons.prems by (intro Cons.IH) auto
  then show ?case
    using u by (cases "v + 1 \<le> limit") (auto simp: Suc_diff_Suc replicate_app_Cons_same min_def simp flip: replicate_Suc)
qed simp

lemma limit_run_dead:
  assumes "\<not> live t key r" and "\<forall>t'\<in>set ts. t' < t + w"
  shows "limit_run key limit w (t # ts) r
         = (1 \<le> limit) # limit_run key limit w ts (r(key := Some (1, t + w)))"
  using assms by (auto simp: live_def under_limit_def incr_with_ttl_def split: option.splits)

text \<open>The store after a sequence of requests.\<close>

definition run_state :: "string \<Rightarrow> int \<Rightarrow> int list \<Rightarrow> keyspace \<Rightarrow> keyspace" where
  "run_state key w ts r = fold (\<lambda>t r. snd (incr_with_ttl t key w r)) ts r"

lemma limit_run_split:
  "limit_run key limit w (ts @ us) r = limit_run key limit w ts r @ limit_run key limit w us (run_state key w ts r)"
  by (induction ts arbitrary: r) (auto simp: run_state_def under_limit_def split: prod.splits)

lemma run_state_live:
  "r key = Some (v, e) \<Longrightarrow> \<forall>t\<in>set ts. t < e \<Longrightarrow> \<exists>u. run_state key w ts r key = Some (u, e)"
proof (induction ts arbitrary: v r)
  case (Cons t ts)
  then have "snd (incr_with_ttl t key w r) key = Some (v + 1, e)" by (simp add: incr_with_ttl_def)
  with Cons.IH [of "snd (incr_with_ttl t key w r)"] Cons.prems show ?case by (simp add: run_state_def)
qed (simp add: run_state_def)

lemma allowed_append [simp]: "allowed (vs @ us) = allowed vs + allowed us"
  by (simp add: allowed_def)

lemma allowed_live:
  "r key = Some (v, e) \<Longrightarrow> \<forall>t\<in>set ts. t < e \<Longrightarrow> allowed (limit_run key limit w ts r) \<le> limit - v"
  by (simp add: limit_run_live allowed_def)

lemma allowed_dead:
  assumes "\<not> live t key r" and "\<forall>t'\<in>set ts. t' < t + w"
  shows "allowed (limit_run key limit w (t # ts) r) \<le> limit"
proof -
  have "allowed (limit_run key limit w ts (r(key := Some (1, t + w)))) \<le> limit - 1"
    using assms(2) by (intro allowed_live) auto
  then show ?thesis by (simp only: limit_run_dead [OF assms]) (auto simp: allowed_def)
qed

lemma sorted_split: "sorted ts \<Longrightarrow> ts = filter (\<lambda>t. t < e) ts @ filter (\<lambda>t. \<not> t < e) (ts :: int list)"
proof (induction ts)
  case (Cons t ts)
  show ?case
  proof (cases "t < e")
    case False
    then have "\<forall>u\<in>set ts. \<not> u < e" using Cons.prems by auto
    then have "filter (\<lambda>u. u < e) ts = []" "filter (\<lambda>u. \<not> u < e) ts = ts"
      by (simp_all add: filter_empty_conv filter_id_conv)
    then show ?thesis using False by simp
  qed (use Cons in simp)
qed simp

text \<open>What \<open>split_on\<close> gives last is what follows the last separator.\<close>

declare split_on_not_Nil [simp]

lemma last_split_on: "c \<notin> set t \<Longrightarrow> last (split_on c (s @ c # t)) = t"
proof -
  assume "c \<notin> set t"
  then have t: "split_on c t = [t]" by (induction t) auto
  show ?thesis
  proof (induction s)
    case (Cons x xs)
    have "length (split_on c (xs @ c # t)) \<ge> 2"
      by (induction xs) (auto simp: t split: list.splits)
    then show ?case using Cons by (auto simp: Suc_le_eq split: list.splits)
  qed (simp add: t)
qed

section \<open>Properties\<close>

text \<open>
  A window lets exactly its limit through: of the requests with one key that fall into the
  window opened by the first of them, the first \<open>limit\<close> are allowed and all the others refused.
\<close>

theorem window_allows_exactly_limit:
  assumes "\<not> live t key r" and "\<forall>t'\<in>set ts. t' < t + w"
  shows "limit_run key limit w (t # ts) r
         = replicate (min limit (length ts + 1)) True @ replicate (length ts + 1 - limit) False"
proof -
  have "limit_run key limit w ts (r(key := Some (1, t + w)))
      = replicate (min (limit - 1) (length ts)) True @ replicate (length ts - (limit - 1)) False"
    using assms(2) by (intro limit_run_live) auto
  then show ?thesis
    by (simp only: limit_run_dead [OF assms]) (cases limit; auto simp: min_def simp flip: replicate_Suc)
qed

theorem window_allows_exactly_limit_witness:
  "limit_run ''k'' 2 3600 [0, 10, 20, 3599] (\<lambda>_. None) = [True, True, False, False]
   \<and> limit_run ''k'' 2 3600 [0, 10, 20, 3600] (\<lambda>_. None) = [True, True, False, True]"
proof -
  have l: "\<not> live 0 ''k'' (\<lambda>_. None)" by (simp add: live_def)
  have t: "\<forall>t'\<in>set [10, 20, 3599]. t' < 0 + (3600 :: int)" by simp
  have "limit_run ''k'' 2 3600 [0, 10, 20, 3600] (\<lambda>_. None) = [True, True, False, True]" by code_simp
  with window_allows_exactly_limit [OF l t, of 2] show ?thesis by (simp add: numeral_eq_Suc)
qed

text \<open>
  Over any stretch of time as long as a window, wherever it lies and whatever the counter held
  before, at most twice the limit is let through.
\<close>

theorem sliding_window_bound:
  assumes "sorted ts" and "\<forall>t\<in>set ts. a \<le> t \<and> t < a + w"
  shows "allowed (limit_run key limit w ts r) \<le> 2 * limit"
proof -
  let ?e = "case r key of Some (v, x) \<Rightarrow> x | None \<Rightarrow> a"
  define early where "early = filter (\<lambda>t. t < ?e) ts"
  define late where "late = filter (\<lambda>t. \<not> t < ?e) ts"
  have ts: "ts = early @ late" unfolding early_def late_def by (rule sorted_split [OF assms(1)])
  have early_None: "early = []" if "r key = None"
    using that assms(2) by (auto simp: early_def filter_empty_conv)
  have "allowed (limit_run key limit w early r) \<le> limit"
  proof (cases "r key")
    case None
    then show ?thesis using early_None by (simp add: allowed_def)
  next
    case (Some p)
    then have "r key = Some (fst p, ?e)" by (cases p) simp
    then have "allowed (limit_run key limit w early r) \<le> limit - fst p"
      by (rule allowed_live) (simp add: early_def)
    then show ?thesis by simp
  qed
  moreover have "allowed (limit_run key limit w late (run_state key w early r)) \<le> limit"
  proof (cases late)
    case (Cons t us)
    have "\<not> live t key (run_state key w early r)"
    proof (cases "r key")
      case None
      then show ?thesis using early_None by (simp add: run_state_def live_def)
    next
      case (Some p)
      then have "r key = Some (fst p, ?e)" by (cases p) simp
      then obtain u where "run_state key w early r key = Some (u, ?e)"
        using run_state_live [of r key "fst p" ?e early] by (auto simp: early_def)
      moreover have "t \<in> set late" using Cons by simp
      then have "\<not> t < ?e" unfolding late_def by simp
      ultimately show ?thesis unfolding live_def by simp
    qed
    moreover have "set late \<subseteq> set ts" unfolding late_def by simp
    then have "a \<le> t" "\<forall>u\<in>set us. u < a + w" using Cons assms(2) by auto
    then have "\<forall>u\<in>set us. u < t + w" by auto
    ultimately show ?thesis unfolding Cons by (rule allowed_dead)
  qed (simp add: allowed_def)
  ultimately show ?thesis unfolding ts limit_run_split by simp
qed

theorem sliding_window_bound_witness:
  "allowed (limit_run ''k'' 2 3600 [3500, 3550, 3600, 3700, 3800] (\<lambda>k. if k = ''k'' then Some (0, 3600) else None)) = 4
   \<and> allowed (limit_run ''k'' 2 3600 [3500, 3550, 3600, 3700, 3800] (\<lambda>k. if k = ''k'' then Some (0, 3600) else None)) \<le> 4"
proof -
  have "allowed (limit_run ''k'' 2 3600 [3500, 3550, 3600, 3700, 3800] (\<lambda>k. if k = ''k'' then Some (0, 3600) else None)) = 4"
    by code_simp
  moreover have s: "sorted [3500, 3550, 3600, 3700, 3800 :: int]" by simp
  moreover have t: "\<forall>t\<in>set [3500, 3550, 3600, 3700, 3800 :: int]. 3500 \<le> t \<and> t < 3500 + 3600" by simp
  ultimately show ?thesis
    using sliding_window_bound [OF s t, of "''k''" 2 "\<lambda>k. if k = ''k'' then Some (0, 3600) else None"] by simp
qed

text \<open>
  The limit per address cannot be dodged by the caller: whatever the caller put into
  \<open>X-Forwarded-For\<close>, the address that counts is the entry the load balancer appended.
\<close>

theorem client_ip_ignores_caller:
  assumes "CHR '','' \<notin> set appended"
  shows "client_ip parse_ip (Some (sent @ '','' @ appended)) = client_ip parse_ip (Some appended)"
proof -
  have "split_on (CHR '','') appended = [appended]" using assms by (induction appended) auto
  then show ?thesis using last_split_on [OF assms, of sent] by (simp add: client_ip_def)
qed

theorem client_ip_ignores_caller_witness:
  "client_ip Some (Some ''1.1.1.1, 2.2.2.2, 203.0.113.7'') = Some ''203.0.113.7''"
proof -
  have n: "CHR '','' \<notin> set '' 203.0.113.7''" by simp
  have "client_ip Some (Some '' 203.0.113.7'') = Some ''203.0.113.7''" by code_simp
  then show ?thesis using client_ip_ignores_caller [OF n, of Some "''1.1.1.1, 2.2.2.2''"] by simp
qed

end
