(* ===== verification/RequestAuth.thy ===== *)
theory RequestAuth
  imports Tenants HttpRpc RateLimit
begin

text \<open>
  Who makes a request: the extractor \<open>UcanAuth\<close> (\<open>api/src/api/extractors.rs\<close>), the NIP-98 envelopes of
  service callers (\<open>api/src/nip98.rs\<close>, \<open>api/src/api/nip98_extractor.rs\<close>) with their replay records in
  Redis, and the administrator roles (\<open>api/src/api/http/admin.rs\<close>). Base 64, the event format and its
  signature are parameters. Seconds are 64-bit words with the wrap-around of the release build;
  Redis counts them as integers.
\<close>

section \<open>Parameters and state\<close>

record 'j auth_world =
  aw_http :: "'j http_world"
  base64_decode :: "string \<Rightarrow> string + string"
  event_from_json :: "string \<Rightarrow> string + event"
  event_verify :: "event \<Rightarrow> string + unit"
  allowed_pubkeys_env :: "string option"

text \<open>Redis as the extractor sees it; \<open>rd_up\<close> is whether there is a connection and commands succeed.\<close>

record redis =
  rd_up :: bool
  rd_keys :: keyspace
  rd_support_admins :: "string list"

record ucan_auth =
  ua_pubkey :: pubkey
  ua_admin_role :: "string option"

definition unauthorized :: rejection where
  "unauthorized = (401, ''unauthorized'')"

definition service_unavailable :: rejection where
  "service_unavailable = (503, ''service temporarily unavailable'')"

section \<open>Administrator roles\<close>

text \<open>The membership test on \<open>ALLOWED_PUBKEYS\<close>.\<close>

definition is_allowed_pubkey :: "string option \<Rightarrow> string \<Rightarrow> bool" where
  "is_allowed_pubkey env pubkey =
     (case env of
        Some pubkeys \<Rightarrow> pubkeys \<noteq> [] \<and> pubkey \<in> set (map str_trim (split_on (CHR '','') pubkeys))
      | None \<Rightarrow> False)"

definition is_full_admin :: "'j auth_world \<Rightarrow> ucan_auth \<Rightarrow> bool" where
  "is_full_admin A auth \<longleftrightarrow>
     ua_admin_role auth = Some ''full'' \<or> is_allowed_pubkey (allowed_pubkeys_env A) (ua_pubkey auth)"

definition is_support_admin :: "'j auth_world \<Rightarrow> redis \<Rightarrow> ucan_auth \<Rightarrow> bool" where
  "is_support_admin A r auth \<longleftrightarrow>
     is_full_admin A auth \<or> ua_admin_role auth = Some ''support''
     \<or> (rd_up r \<and> ua_pubkey auth \<in> set (rd_support_admins r))"

definition admin_role_for :: "'j auth_world \<Rightarrow> redis \<Rightarrow> ucan_auth \<Rightarrow> string option" where
  "admin_role_for A r auth =
     (if is_full_admin A auth then Some ''full'' else if is_support_admin A r auth then Some ''support'' else None)"

record admin_status_response =
  as_is_admin :: bool
  as_role :: "string option"

definition get_admin_status :: "'j auth_world \<Rightarrow> redis \<Rightarrow> ucan_auth \<Rightarrow> admin_status_response" where
  "get_admin_status A r auth =
     (let role = admin_role_for A r auth in \<lparr>as_is_admin = is_set role, as_role = role\<rparr>)"

section \<open>NIP-98 envelopes\<close>

definition MAX_EVENT_AGE_SECONDS :: int where
  "MAX_EVENT_AGE_SECONDS = 60"

definition HTTP_AUTH_KIND :: u16 where
  "HTTP_AUTH_KIND = 27235"

datatype nip98_error =
    InvalidHeaderFormat
  | Base64DecodeError string
  | JsonParseError string
  | InvalidKind u16
  | InvalidSignature
  | EventExpired
  | UrlMismatch string string
  | MethodMismatch string string
  | MissingTag string

text \<open>\<open>String::from_utf8\<close>: a byte string is well-formed UTF-8.\<close>

fun utf8_valid :: "nat list \<Rightarrow> bool" where
  "utf8_valid [] = True"
| "utf8_valid (a # bs) =
     (if a < 128 then utf8_valid bs
      else
        (case bs of
           [] \<Rightarrow> False
         | b # cs \<Rightarrow>
             (if 194 \<le> a \<and> a \<le> 223 then 128 \<le> b \<and> b \<le> 191 \<and> utf8_valid cs
              else
                (case cs of
                   [] \<Rightarrow> False
                 | c # ds \<Rightarrow>
                     (if 224 \<le> a \<and> a \<le> 239
                      then (if a = 224 then 160 else 128) \<le> b \<and> b \<le> (if a = 237 then 159 else 191)
                           \<and> 128 \<le> c \<and> c \<le> 191 \<and> utf8_valid ds
                      else
                        (case ds of
                           [] \<Rightarrow> False
                         | d # es \<Rightarrow>
                             240 \<le> a \<and> a \<le> 244
                             \<and> (if a = 240 then 144 else 128) \<le> b \<and> b \<le> (if a = 244 then 143 else 191)
                             \<and> 128 \<le> c \<and> c \<le> 191 \<and> 128 \<le> d \<and> d \<le> 191 \<and> utf8_valid es))))))"

definition from_utf8 :: "string \<Rightarrow> string option" where
  "from_utf8 s = (if utf8_valid (map of_char s) then Some s else None)"

text \<open>\<open>i64::abs\<close> of the release build: the smallest number is its own absolute value.\<close>

definition wrapping_abs :: "64 word \<Rightarrow> 64 word" where
  "wrapping_abs w = (if sint w < 0 then - w else w)"

definition event_too_old :: "64 word \<Rightarrow> u64 \<Rightarrow> bool" where
  "event_too_old now event_time \<longleftrightarrow> MAX_EVENT_AGE_SECONDS < sint (wrapping_abs (now - event_time))"

definition first_tag :: "string \<Rightarrow> event \<Rightarrow> string list option" where
  "first_tag name e = List.find (\<lambda>t. t \<noteq> [] \<and> hd t = name) (ev_tags e)"

definition tag_value :: "string list \<Rightarrow> string" where
  "tag_value t = (case t of _ # v # _ \<Rightarrow> v | _ \<Rightarrow> [])"

definition to_ascii_lower :: "char \<Rightarrow> char" where
  "to_ascii_lower c = (let n = (of_char c :: nat) in if 65 \<le> n \<and> n \<le> 90 then char_of (n + 32) else c)"

definition eq_ignore_ascii_case :: "string \<Rightarrow> string \<Rightarrow> bool" where
  "eq_ignore_ascii_case s t \<longleftrightarrow> map to_ascii_lower s = map to_ascii_lower t"

definition decode_envelope :: "'j auth_world \<Rightarrow> string \<Rightarrow> nip98_error + event" where
  "decode_envelope A auth_header =
     and_then (ok_or InvalidHeaderFormat (strip_prefix ''Nostr '' auth_header)) (\<lambda>b64.
     and_then (map_err Base64DecodeError (base64_decode A (str_trim b64))) (\<lambda>json.
     and_then (ok_or (JsonParseError ''invalid utf-8 sequence'') (from_utf8 json)) (\<lambda>json_str.
       map_err JsonParseError (event_from_json A json_str))))"

text \<open>The text of a UTF-8 error carries a position that nothing reads.\<close>

definition extract_and_validate ::
    "'j auth_world \<Rightarrow> 64 word \<Rightarrow> string \<Rightarrow> string \<Rightarrow> string \<Rightarrow> nip98_error + pubkey" where
  "extract_and_validate A now auth_header expected_url expected_method =
     and_then (decode_envelope A auth_header) (\<lambda>e.
       if ev_kind e \<noteq> HTTP_AUTH_KIND then Inl (InvalidKind (ev_kind e)) else
     and_then (map_err (\<lambda>_. InvalidSignature) (event_verify A e)) (\<lambda>_.
       if event_too_old now (ev_created_at e) then Inl EventExpired else
     and_then (ok_or (MissingTag ''u'') (first_tag ''u'' e)) (\<lambda>url_tag.
       if tag_value url_tag \<noteq> expected_url then Inl (UrlMismatch expected_url (tag_value url_tag)) else
     and_then (ok_or (MissingTag ''method'') (first_tag ''method'' e)) (\<lambda>method_tag.
       if \<not> eq_ignore_ascii_case (tag_value method_tag) expected_method
       then Inl (MethodMismatch expected_method (tag_value method_tag)) else Inr (ev_pubkey e)))))"

definition build_expected_url :: "parts \<Rightarrow> string option" where
  "build_expected_url rq =
     map_option (\<lambda>host.
         (case header_str rq ''x-forwarded-proto'' of
            Some proto \<Rightarrow> proto
          | None \<Rightarrow> if str_contains host '':443'' \<or> CHR '':'' \<notin> set host then ''https'' else ''http'')
         @ ''://'' @ host @ rq_original rq)
       (header_str rq (if is_set (rq_header rq ''x-forwarded-host'') then ''x-forwarded-host'' else ''host''))"

definition parse_event_id :: "'j auth_world \<Rightarrow> string \<Rightarrow> string + string" where
  "parse_event_id A auth_header =
     and_then (ok_or ''missing Nostr prefix'' (strip_prefix ''Nostr '' auth_header)) (\<lambda>b64.
     and_then (map_err (\<lambda>e. ''base64: '' @ e) (base64_decode A (str_trim b64))) (\<lambda>json.
       map_err (\<lambda>e. ''json: '' @ e) (and_then (event_from_json A json) (\<lambda>e. Inr (ev_id e)))))"

definition REPLAY_TTL_SECONDS :: int where
  "REPLAY_TTL_SECONDS = 120"

definition replay_key :: "string \<Rightarrow> string" where
  "replay_key event_id = ''nip98_replay:'' @ event_id"

definition check_replay :: "64 word \<Rightarrow> string \<Rightarrow> redis \<Rightarrow> (rejection + unit) \<times> redis" where
  "check_replay now event_id r =
     (if \<not> rd_up r then (Inl service_unavailable, r)
      else (case set_nx_ex (sint now) (replay_key event_id) REPLAY_TTL_SECONDS (rd_keys r) of
              (fresh, keys) \<Rightarrow> (if fresh then Inr () else Inl unauthorized, r\<lparr>rd_keys := keys\<rparr>)))"

definition authenticate_nip98 ::
    "'j auth_world \<Rightarrow> 64 word \<Rightarrow> parts \<Rightarrow> string \<Rightarrow> redis \<Rightarrow> (rejection + ucan_auth) \<times> redis" where
  "authenticate_nip98 A now rq auth_header r =
     (case build_expected_url rq of
        None \<Rightarrow> (Inl unauthorized, r)
      | Some expected_url \<Rightarrow>
          (case extract_and_validate A now auth_header expected_url (rq_method rq) of
             Inl _ \<Rightarrow> (Inl unauthorized, r)
           | Inr pubkey \<Rightarrow>
               (case parse_event_id A auth_header of
                  Inl _ \<Rightarrow> (Inl unauthorized, r)
                | Inr event_id \<Rightarrow>
                    (case check_replay now event_id r of
                       (Inl e, r1) \<Rightarrow> (Inl e, r1)
                     | (Inr _, r1) \<Rightarrow>
                         (let probe = \<lparr>ua_pubkey = pubkey, ua_admin_role = None\<rparr>
                          in (Inr \<lparr>ua_pubkey = pubkey, ua_admin_role = admin_role_for A r1 probe\<rparr>, r1))))))"

definition try_authenticate_nip98 ::
    "'j auth_world \<Rightarrow> 64 word \<Rightarrow> parts \<Rightarrow> redis \<Rightarrow> ((rejection + ucan_auth) \<times> redis) option" where
  "try_authenticate_nip98 A now rq r =
     Option.bind (header_str rq ''authorization'') (\<lambda>h.
       if starts_with h ''Nostr '' then Some (authenticate_nip98 A now rq h r) else None)"

section \<open>The extractor\<close>

definition extract_admin_role :: "'j http_world \<Rightarrow> 'j ucan \<Rightarrow> string option" where
  "extract_admin_role X u = (if is_server_signed X u then fact_str X ''admin_role'' (uc_facts u) else None)"

definition session_auth ::
    "'j auth_world \<Rightarrow> timestamp \<Rightarrow> string \<Rightarrow> string \<Rightarrow> int \<Rightarrow> rejection + ucan_auth" where
  "session_auth A now what auth_header tenant_id =
     map_err (\<lambda>e. (401, ''Invalid UCAN '' @ what @ '': '' @ e))
       (and_then (validate_ucan_token (aw_http A) now auth_header tenant_id)
         (\<lambda>(pubkey, _, _, u). Inr \<lparr>ua_pubkey = pubkey, ua_admin_role = extract_admin_role (aw_http A) u\<rparr>))"

definition session_cookie :: "string \<Rightarrow> string option" where
  "session_cookie cookies =
     (case List.map_filter (\<lambda>c. strip_prefix ''keycast_session='' (str_trim c)) (split_on (CHR '';'') cookies) of
        [] \<Rightarrow> None | v # _ \<Rightarrow> Some v)"

definition missing_authentication :: rejection where
  "missing_authentication =
     (401, ''Missing authentication - expected UCAN Bearer token or keycast_session cookie'')"

definition tenant_session :: "'j auth_world \<Rightarrow> timestamp \<Rightarrow> parts \<Rightarrow> int \<Rightarrow> rejection + ucan_auth" where
  "tenant_session A now rq tenant_id =
     (case Option.bind (header_str rq ''authorization'') (\<lambda>h. if starts_with h ''Bearer '' then Some h else None) of
        Some h \<Rightarrow> session_auth A now ''token'' h tenant_id
      | None \<Rightarrow>
          (case Option.bind (header_str rq ''cookie'') session_cookie of
             Some v \<Rightarrow> session_auth A now ''cookie'' (''Bearer '' @ v) tenant_id
           | None \<Rightarrow> Inl missing_authentication))"

text \<open>\<open>UcanAuth::from_request_parts\<close>; a microsecond clock gives the seconds of the envelope's check.\<close>

definition ucan_auth_from_request ::
    "tenant_env \<Rightarrow> 'j auth_world \<Rightarrow> timestamp \<Rightarrow> parts \<Rightarrow> tenants \<times> redis
      \<Rightarrow> (rejection + ucan_auth) option \<times> tenants \<times> redis" where
  "ucan_auth_from_request E A now rq = (\<lambda>(ts, r).
     (case try_authenticate_nip98 A (word_of_int (now div 1000000)) rq r of
        Some (result, r1) \<Rightarrow> (Some result, ts, r1)
      | None \<Rightarrow>
          (case tenant_from_request E now rq ts of
             (None, ts1) \<Rightarrow> (None, ts1, r)
           | (Some (Inl e), ts1) \<Rightarrow> (Some (Inl e), ts1, r)
           | (Some (Inr t), ts1) \<Rightarrow> (Some (tenant_session A now rq (tn_id t)), ts1, r))))"

end
