(* ===== verification/TeamsApi.thy ===== *)
theory TeamsApi
  imports Teams RequestAuth
begin

text \<open>
  The team endpoints of \<open>api/src/api/http/teams.rs\<close> with the errors of \<open>api/src/api/error.rs\<close>: teams,
  members, keys, bunker authorizations, policies and e-mail invitations. Every statement runs in the
  order of the code, and an error leaves behind what was written before it; an outcome of \<open>None\<close> is
  a panic. A clock is read once per request. Values drawn from outside (invitation tokens, the pair
  of the secret pool, the profile that relays report) are arguments.
\<close>

section \<open>Errors\<close>

datatype api_error =
    ApiDatabase string
  | ApiAuth string
  | ApiBadRequest string
  | ApiForbidden string
  | ApiNotFound string
  | ApiConflict string
  | ApiTooManyRequests
  | ApiInternal string
  | ApiUser string
  | ApiTeam string

fun api_error_of :: "repository_error \<Rightarrow> api_error" where
  "api_error_of (NotFound m) = ApiNotFound m"
| "api_error_of Duplicate = ApiBadRequest ''Already exists''"
| "api_error_of (Integrity m) = ApiBadRequest m"
| "api_error_of (Database m) = ApiInternal m"

definition something_went_wrong :: string where
  "something_went_wrong = ''Something went wrong. Please try again.''"

text \<open>The status and the message of the response: what happened inside the server is not told.\<close>

fun api_response :: "api_error \<Rightarrow> nat \<times> string" where
  "api_response (ApiDatabase e) = (500, something_went_wrong)"
| "api_response (ApiAuth m) = (401, m)"
| "api_response (ApiBadRequest m) = (400, m)"
| "api_response (ApiForbidden m) = (403, m)"
| "api_response (ApiNotFound m) = (404, m)"
| "api_response (ApiConflict m) = (409, m)"
| "api_response ApiTooManyRequests = (429, ''Too many requests. Please try again later.'')"
| "api_response (ApiInternal m) = (500, something_went_wrong)"
| "api_response (ApiUser e) = (500, something_went_wrong)"
| "api_response (ApiTeam e) = (500, something_went_wrong)"

section \<open>Parameters and state\<close>

text \<open>
  \<open>to_lowercase\<close> is the Unicode mapping of the standard library, \<open>mail_up\<close> whether the e-mail service
  can be set up, \<open>email_key\<close> the hash in the keys of the rate limits.
\<close>

record 'j team_world =
  tmw_token :: "'j token_world"
  tmw_auth :: "'j auth_world"
  to_lowercase :: "string \<Rightarrow> string"
  email_key :: "string \<Rightarrow> string"
  parse_ip :: "string \<Rightarrow> string option"
  ip_limit :: nat
  default_kinds_config :: "string + 'j"
  relays_to_json :: "string list \<Rightarrow> string + string"
  key_manager_up :: bool
  mail_up :: bool
  invite_base_url :: string

abbreviation mx :: "'j team_world \<Rightarrow> 'j ext" where
  "mx W \<equiv> tx (tmw_token W)"

record profile =
  pr_display_name :: "string option"
  pr_picture :: "string option"

record invite_email =
  ie_to :: string
  ie_team :: string
  ie_picture :: "string option"
  ie_inviter :: string
  ie_role :: string
  ie_expires_at :: timestamp
  ie_url :: string

record 'j api =
  ap_db :: "'j db"
  ap_invitations :: "team_invitation table"
  ap_redis :: redis
  ap_outbox :: "invite_email list"

text \<open>A database statement inside a handler.\<close>

definition with_db :: "'j api \<Rightarrow> 'e + 'a \<times> 'j db \<Rightarrow> ('e + 'a) \<times> 'j api" where
  "with_db s r = (case r of Inl e \<Rightarrow> (Inl e, s) | Inr (x, d) \<Rightarrow> (Inr x, s\<lparr>ap_db := d\<rparr>))"

section \<open>Who may\<close>

definition is_full_admin_by_pubkey :: "'j team_world \<Rightarrow> pubkey \<Rightarrow> bool" where
  "is_full_admin_by_pubkey W pubkey = is_allowed_pubkey (allowed_pubkeys_env (tmw_auth W)) pubkey"

definition verify_admin :: "'j team_world \<Rightarrow> pubkey \<Rightarrow> int \<Rightarrow> int \<Rightarrow> 'j db \<Rightarrow> api_error + unit" where
  "verify_admin W pubkey_hex team_id tenant_id d =
     (if is_full_admin_by_pubkey W pubkey_hex then Inr ()
      else and_then (map_err (\<lambda>_. ApiBadRequest ''Invalid pubkey'') (pk_from_hex (x_perm (mx W)) pubkey_hex))
             (\<lambda>pubkey. if is_team_admin tenant_id pubkey team_id d then Inr ()
                       else Inl (ApiForbidden ''You are not authorized to access this team'')))"

definition fetch_support_admin_set :: "redis \<Rightarrow> string list option" where
  "fetch_support_admin_set r = (if rd_up r then Some (rd_support_admins r) else None)"

definition mark_support_members :: "string list \<Rightarrow> team_member list \<Rightarrow> team_member list" where
  "mark_support_members support_set =
     map (\<lambda>m. if tm_user_pubkey m \<in> set support_set then m\<lparr>tm_is_support_member := True\<rparr> else m)"

definition marked :: "redis \<Rightarrow> team_member list \<Rightarrow> team_member list" where
  "marked r ms = (case fetch_support_admin_set r of Some support_set \<Rightarrow> mark_support_members support_set ms | None \<Rightarrow> ms)"

section \<open>Teams\<close>

definition list_teams ::
    "'j team_world \<Rightarrow> int \<Rightarrow> ucan_auth \<Rightarrow> 'j api \<Rightarrow> api_error + 'j team_with_relations list" where
  "list_teams W tenant_id auth s =
     and_then (map_err (\<lambda>_. ApiBadRequest ''Invalid pubkey'') (pk_from_hex (x_perm (mx W)) (ua_pubkey auth))) (\<lambda>pubkey.
     and_then (map_err (\<lambda>_. ApiNotFound ''User not found'') (find_by_pubkey tenant_id pubkey (ap_db s))) (\<lambda>u.
     and_then (map_err (\<lambda>e. ApiUser (repository_error_text e)) (user_teams tenant_id (us_pubkey u) (ap_db s))) (\<lambda>ts.
       Inr (map (\<lambda>t. t\<lparr>tr_team_users := marked (ap_redis s) (tr_team_users t)\<rparr>) ts))))"

definition create_team ::
    "'j team_world \<Rightarrow> timestamp \<Rightarrow> int \<Rightarrow> ucan_auth \<Rightarrow> string \<Rightarrow> 'j api
      \<Rightarrow> (api_error + 'j team_with_relations) \<times> 'j api" where
  "create_team W now tenant_id auth name s =
     (case map_err (\<lambda>_. ApiBadRequest ''Invalid pubkey'') (pk_from_hex (x_perm (mx W)) (ua_pubkey auth)) of
        Inl e \<Rightarrow> (Inl e, s)
      | Inr pubkey \<Rightarrow>
          (let can_create_first_team = (count_team_memberships tenant_id pubkey (ap_db s) = 0);
               is_full = is_full_admin (tmw_auth W) auth;
               is_support = (\<not> is_full \<and> is_support_admin (tmw_auth W) (ap_redis s) auth)
           in if \<not> is_full \<and> \<not> is_support \<and> \<not> can_create_first_team
              then (Inl (ApiForbidden ''Team creation is restricted to authorized users. Contact admin for access.''), s)
              else (case default_kinds_config W of
                      Inl _ \<Rightarrow> (Inl (ApiBadRequest (''Couldn'' @ [CHR 0x27] @ ''t serialize allowed kinds config'')), s)
                    | Inr config \<Rightarrow>
                        with_db s (map_err api_error_of
                          (create_with_admin now tenant_id name (ua_pubkey auth) config (ap_db s))))))"

definition get_team ::
    "'j team_world \<Rightarrow> int \<Rightarrow> ucan_auth \<Rightarrow> int \<Rightarrow> 'j api \<Rightarrow> api_error + 'j team_with_relations" where
  "get_team W tenant_id auth team_id s =
     and_then (verify_admin W (ua_pubkey auth) team_id tenant_id (ap_db s)) (\<lambda>_.
     and_then (map_err (\<lambda>_. ApiNotFound ''Team not found'') (find_with_relations tenant_id team_id (ap_db s))) (\<lambda>t.
       Inr (t\<lparr>tr_team_users := marked (ap_redis s) (tr_team_users t)\<rparr>)))"

definition update_team ::
    "'j team_world \<Rightarrow> timestamp \<Rightarrow> int \<Rightarrow> ucan_auth \<Rightarrow> int \<Rightarrow> string \<Rightarrow> 'j api \<Rightarrow> (api_error + team) \<times> 'j api" where
  "update_team W now tenant_id auth team_id name s =
     with_db s (and_then (verify_admin W (ua_pubkey auth) team_id tenant_id (ap_db s)) (\<lambda>_.
       map_err (\<lambda>_. ApiNotFound ''Team not found'') (team_update now tenant_id team_id name (ap_db s))))"

text \<open>The foreign key of the invitations cascades when the row of the team itself goes.\<close>

definition delete_team ::
    "'j team_world \<Rightarrow> int \<Rightarrow> ucan_auth \<Rightarrow> int \<Rightarrow> 'j api \<Rightarrow> (api_error + unit) \<times> 'j api" where
  "delete_team W tenant_id auth team_id s =
     (case and_then (verify_admin W (ua_pubkey auth) team_id tenant_id (ap_db s)) (\<lambda>_.
             map_err (\<lambda>e. ApiInternal (''Failed to delete team: '' @ repository_error_text e))
               (team_delete tenant_id team_id (ap_db s))) of
        Inl e \<Rightarrow> (Inl e, s)
      | Inr d \<Rightarrow>
          (Inr (), s\<lparr>ap_db := d,
             ap_invitations := (ap_invitations s)\<lparr>rows :=
               delete_where (\<lambda>i. ti_team_id i = team_id
                  \<and> exists_row (\<lambda>t. te_tenant_id t = tenant_id \<and> te_id t = team_id) (db_teams (ap_db s)))
                 (rows (ap_invitations s))\<rparr>\<rparr>))"

section \<open>Members\<close>

definition add_user ::
    "'j team_world \<Rightarrow> timestamp \<Rightarrow> int \<Rightarrow> ucan_auth \<Rightarrow> int \<Rightarrow> string \<Rightarrow> team_user_role \<Rightarrow> 'j api
      \<Rightarrow> (api_error + team_member) \<times> 'j api" where
  "add_user W now tenant_id auth team_id user_pubkey role s =
     (case and_then (verify_admin W (ua_pubkey auth) team_id tenant_id (ap_db s)) (\<lambda>_.
             map_err ApiBadRequest (pk_from_hex (x_perm (mx W)) user_pubkey)) of
        Inl e \<Rightarrow> (Inl e, s)
      | Inr new_user \<Rightarrow>
          if is_member team_id new_user (ap_db s)
          then (Inl (ApiBadRequest ''User already a member of this team''), s)
          else (case with_db s (map_err api_error_of (find_or_create now tenant_id new_user (ap_db s))) of
                  (Inl e, s1) \<Rightarrow> (Inl e, s1)
                | (Inr _, s1) \<Rightarrow>
                    (case with_db s1 (map_err api_error_of
                            (add_member now team_id new_user (role_as_str role) (ap_db s1))) of
                       (Inl e, s2) \<Rightarrow> (Inl e, s2)
                     | (Inr m, s2) \<Rightarrow> (Inr (hd (marked (ap_redis s) [m])), s2))))"

definition remove_user ::
    "'j team_world \<Rightarrow> int \<Rightarrow> ucan_auth \<Rightarrow> int \<Rightarrow> string \<Rightarrow> 'j api \<Rightarrow> (api_error + unit) \<times> 'j api" where
  "remove_user W tenant_id auth team_id user_pubkey s =
     (case and_then (verify_admin W (ua_pubkey auth) team_id tenant_id (ap_db s)) (\<lambda>_.
             map_err ApiBadRequest (pk_from_hex (x_perm (mx W)) user_pubkey)) of
        Inl e \<Rightarrow> (Inl e, s)
      | Inr removed \<Rightarrow>
          if ua_pubkey auth = removed \<and> count_other_admins team_id removed (ap_db s) = 0
          then (Inl (ApiForbidden ''Cannot delete the last admin from the team.''), s)
          else (Inr (), s\<lparr>ap_db := remove_member team_id removed (ap_db s)\<rparr>))"

section \<open>Keys\<close>

definition add_key ::
    "'j team_world \<Rightarrow> timestamp \<Rightarrow> int \<Rightarrow> ucan_auth \<Rightarrow> int \<Rightarrow> string \<Rightarrow> string \<Rightarrow> 'j api
      \<Rightarrow> (api_error + public_stored_key) \<times> 'j api" where
  "add_key W now tenant_id auth team_id name secret_key s =
     with_db s
       (and_then (verify_admin W (ua_pubkey auth) team_id tenant_id (ap_db s)) (\<lambda>_.
        and_then (map_err ApiBadRequest (keys_parse (tmw_token W) secret_key)) (\<lambda>keys.
        and_then (if key_manager_up W then Inr () else Inl (ApiInternal ''Key manager not initialized'')) (\<lambda>_.
        and_then (map_err ApiBadRequest (km_encrypt (mx W) keys)) (\<lambda>encrypted.
        and_then (map_err (\<lambda>e. ApiInternal (repository_error_text e))
                   (stored_key_create now tenant_id team_id name (public_key (mx W) keys) encrypted (ap_db s))) (\<lambda>(k, d).
          Inr (public_key_of k, d)))))))"

definition remove_key ::
    "'j team_world \<Rightarrow> int \<Rightarrow> ucan_auth \<Rightarrow> int \<Rightarrow> string \<Rightarrow> 'j api \<Rightarrow> (api_error + unit) \<times> 'j api" where
  "remove_key W tenant_id auth team_id pubkey s =
     with_db s
       (and_then (verify_admin W (ua_pubkey auth) team_id tenant_id (ap_db s)) (\<lambda>_.
        and_then (map_err ApiBadRequest (pk_from_hex (x_perm (mx W)) pubkey)) (\<lambda>key.
        and_then (map_err (\<lambda>_. ApiNotFound ''Key not found'') (delete_by_pubkey tenant_id team_id key (ap_db s))) (\<lambda>d.
          Inr ((), d)))))"

record authorization_with_relations =
  ar_authorization :: authorization
  ar_policy :: policy

record key_with_relations =
  kr_team :: team
  kr_stored_key :: public_stored_key
  kr_authorizations :: "authorization_with_relations list"

definition get_key ::
    "'j team_world \<Rightarrow> int \<Rightarrow> ucan_auth \<Rightarrow> int \<Rightarrow> string \<Rightarrow> 'j api \<Rightarrow> api_error + key_with_relations" where
  "get_key W tenant_id auth team_id pubkey s =
     and_then (verify_admin W (ua_pubkey auth) team_id tenant_id (ap_db s)) (\<lambda>_.
     and_then (map_err ApiBadRequest (pk_from_hex (x_perm (mx W)) pubkey)) (\<lambda>key.
     and_then (map_err (\<lambda>_. ApiNotFound ''Team not found'') (team_find tenant_id team_id (ap_db s))) (\<lambda>t.
     and_then (map_err (\<lambda>_. ApiNotFound ''Stored key not found'')
                (stored_key_find_by_pubkey tenant_id team_id key (ap_db s))) (\<lambda>k.
     and_then (collect_results (map (\<lambda>a.
                  map_err (\<lambda>_. ApiNotFound ''Policy not found'')
                    (and_then (policy_find (ap_db s) (au_policy_id a)) (\<lambda>p.
                      Inr \<lparr>ar_authorization = a, ar_policy = p\<rparr>)))
                (find_by_stored_key tenant_id (sk_id k) (db_authorizations (ap_db s))))) (\<lambda>auths.
       Inr \<lparr>kr_team = t, kr_stored_key = public_key_of k, kr_authorizations = auths\<rparr>)))))"

section \<open>Bunker authorizations\<close>

record add_authorization_request =
  aq_policy_id :: int
  aq_relays :: "string list"
  aq_max_uses :: "int option"
  aq_expires_at :: "timestamp option"
  aq_label :: "string option"

definition generate_bunker_url :: "'j token_world \<Rightarrow> pubkey \<Rightarrow> string \<Rightarrow> string option" where
  "generate_bunker_url W bunker secret =
     map_option (\<lambda>relays. ''bunker://'' @ bunker @ ''?'' @ relay_params W relays @ ''&secret='' @ url_encode W secret)
       (get_bunker_relays W)"

definition team_bunker_keys :: "'j team_world \<Rightarrow> bytes \<Rightarrow> string \<Rightarrow> (api_error + seckey) option" where
  "team_bunker_keys W encrypted secret_hash =
     (case and_then (if key_manager_up W then Inr () else Inl (ApiInternal ''Key manager not initialized'')) (\<lambda>_.
             and_then (map_err (\<lambda>e. ApiInternal (''Failed to decrypt stored key: '' @ e)) (km_decrypt (mx W) encrypted)) (\<lambda>secret.
               map_err (\<lambda>e. ApiInternal (''Invalid stored key: '' @ e)) (sk_from_slice (mx W) secret))) of
        Inl e \<Rightarrow> Some (Inl e)
      | Inr stored_key_secret \<Rightarrow> map_option Inr (derive_bunker_keys (mx W) stored_key_secret secret_hash))"

definition add_authorization ::
    "'j team_world \<Rightarrow> timestamp \<Rightarrow> int \<Rightarrow> ucan_auth \<Rightarrow> int \<Rightarrow> string \<Rightarrow> add_authorization_request
      \<Rightarrow> (string \<times> string) option \<Rightarrow> 'j api \<Rightarrow> (api_error + authorization \<times> string) option \<times> 'j api" where
  "add_authorization W now tenant_id auth team_id pubkey q secret_pair s =
     (case and_then (verify_admin W (ua_pubkey auth) team_id tenant_id (ap_db s)) (\<lambda>_.
           and_then (map_err ApiBadRequest (pk_from_hex (x_perm (mx W)) pubkey)) (\<lambda>key.
           and_then (map_err (\<lambda>_. ApiNotFound ''Stored key not found'')
                      (stored_key_find_by_pubkey tenant_id team_id key (ap_db s))) (\<lambda>k.
           and_then (if exists_for_team team_id (aq_policy_id q) (ap_db s) then Inr ()
                     else Inl (ApiNotFound ''Policy not found'')) (\<lambda>_.
           and_then (ok_or (ApiInternal ''Secret pool exhausted'') secret_pair) (\<lambda>pair. Inr (k, pair)))))) of
        Inl e \<Rightarrow> (Some (Inl e), s)
      | Inr (k, connection_secret, secret_hash) \<Rightarrow>
          (case team_bunker_keys W (sk_secret_key k) secret_hash of
             None \<Rightarrow> (None, s)
           | Some (Inl e) \<Rightarrow> (Some (Inl e), s)
           | Some (Inr bunker_keys) \<Rightarrow>
               (case relays_to_json W (aq_relays q) of
                  Inl e \<Rightarrow> (Some (Inl (ApiBadRequest e)), s)
                | Inr relays \<Rightarrow>
                    (let bunker = public_key (mx W) bunker_keys in
                     case auth_create now tenant_id (sk_id k) (aq_policy_id q) secret_hash bunker relays (aq_max_uses q)
                            (aq_expires_at q) (aq_label q) (ap_db s) of
                       (Inl e, d) \<Rightarrow> (Some (Inl (ApiInternal (repository_error_text e))), s\<lparr>ap_db := d\<rparr>)
                     | (Inr a, d) \<Rightarrow>
                         (map_option (\<lambda>url. Inr (a, url)) (generate_bunker_url (tmw_token W) bunker connection_secret),
                          s\<lparr>ap_db := d\<rparr>)))))"

definition delete_authorization ::
    "'j team_world \<Rightarrow> int \<Rightarrow> ucan_auth \<Rightarrow> int \<Rightarrow> string \<Rightarrow> int \<Rightarrow> 'j api \<Rightarrow> (api_error + unit) \<times> 'j api" where
  "delete_authorization W tenant_id auth team_id pubkey auth_id s =
     (case and_then (verify_admin W (ua_pubkey auth) team_id tenant_id (ap_db s)) (\<lambda>_.
           and_then (map_err ApiBadRequest (pk_from_hex (x_perm (mx W)) pubkey)) (\<lambda>key.
             map_err (\<lambda>_. ApiNotFound ''Stored key not found'')
               (stored_key_find_by_pubkey tenant_id team_id key (ap_db s)))) of
        Inl e \<Rightarrow> (Inl e, s)
      | Inr k \<Rightarrow>
          (case delete_for_stored_key tenant_id auth_id (sk_id k) (db_authorizations (ap_db s)) of
             (deleted, auths) \<Rightarrow>
               (if deleted then Inr () else Inl (ApiNotFound ''Authorization not found''),
                s\<lparr>ap_db := (ap_db s)\<lparr>db_authorizations := auths\<rparr>\<rparr>)))"

definition add_policy ::
    "'j team_world \<Rightarrow> timestamp \<Rightarrow> int \<Rightarrow> ucan_auth \<Rightarrow> int \<Rightarrow> string \<Rightarrow> (string \<times> 'j) list \<Rightarrow> 'j api
      \<Rightarrow> (api_error + 'j policy_with_permissions) \<times> 'j api" where
  "add_policy W now tenant_id auth team_id name permissions s =
     with_db s
       (and_then (verify_admin W (ua_pubkey auth) team_id tenant_id (ap_db s)) (\<lambda>_.
          map_err api_error_of
            (create_with_permissions now team_id name
              (filter (\<lambda>p. fst p \<in> set AVAILABLE_PERMISSIONS) permissions) (ap_db s))))"

section \<open>Invitations\<close>

record invitation_list_item =
  il_id :: int
  il_email :: string
  il_role :: string
  il_invited_by :: string
  il_created_at :: timestamp
  il_expires_at :: timestamp
  il_accepted_at :: "timestamp option"
  il_revoked_at :: "timestamp option"

datatype invite_response = Added team_member | Invited invitation_list_item

text \<open>A panic, \<open>None\<close>, where the fallback slices a public key of fewer than eight bytes.\<close>

definition resolve_display_name :: "pubkey \<Rightarrow> int \<Rightarrow> 'j db \<Rightarrow> string option" where
  "resolve_display_name pubkey tenant_id d =
     (let fallback = map_option (\<lambda>p. p @ [CHR 0xE2, CHR 0x80, CHR 0xA6]) (str_slice pubkey 0 8);
          nonempty = (\<lambda>x. Option.bind x (\<lambda>v. if v \<noteq> [] then Some v else None))
      in case fetch_optional (user_at pubkey tenant_id) (db_users d) of
           None \<Rightarrow> fallback
         | Some u \<Rightarrow>
             (case nonempty (us_display_name u) of
                Some n \<Rightarrow> Some n
              | None \<Rightarrow> (case nonempty (us_username u) of Some n \<Rightarrow> Some n | None \<Rightarrow> fallback)))"

definition list_item_of :: "string \<Rightarrow> team_invitation \<Rightarrow> invitation_list_item" where
  "list_item_of inviter i =
     \<lparr>il_id = ti_id i, il_email = ti_email i, il_role = ti_role i, il_invited_by = inviter,
      il_created_at = ti_created_at i, il_expires_at = ti_expires_at i, il_accepted_at = ti_accepted_at i,
      il_revoked_at = ti_revoked_at i\<rparr>"

definition team_key_pubkey :: "int \<Rightarrow> int \<Rightarrow> 'j db \<Rightarrow> pubkey option" where
  "team_key_pubkey tenant_id team_id d =
     (case sort_key sk_id (stored_keys_of tenant_id team_id d) of [] \<Rightarrow> None | k # _ \<Rightarrow> Some (sk_pubkey k))"

text \<open>The name in the mail: a display name or user name, else the e-mail address, else the resolved name.\<close>

definition inviter_label :: "pubkey \<Rightarrow> int \<Rightarrow> string \<Rightarrow> 'j db \<Rightarrow> string" where
  "inviter_label pubkey tenant_id inviter_name d =
     (let nonempty = (\<lambda>x. Option.bind x (\<lambda>v. if v \<noteq> [] then Some v else None));
          real_display = Option.bind (fetch_optional (user_at pubkey tenant_id) (db_users d))
            (\<lambda>u. case nonempty (us_display_name u) of Some n \<Rightarrow> Some n | None \<Rightarrow> nonempty (us_username u))
      in case real_display of
           Some n \<Rightarrow> n
         | None \<Rightarrow> (case get_email pubkey tenant_id d of Inr m \<Rightarrow> m | Inl _ \<Rightarrow> inviter_name))"

text \<open>The caller's address is read as a plain string: a caller without one is an internal error.\<close>

definition caller_email :: "pubkey \<Rightarrow> int \<Rightarrow> 'j db \<Rightarrow> api_error + string option" where
  "caller_email pubkey tenant_id d =
     (case fetch_optional (user_at pubkey tenant_id) (db_users d) of
        None \<Rightarrow> Inr None
      | Some u \<Rightarrow>
          (case us_email u of
             Some m \<Rightarrow> Inr (Some m)
           | None \<Rightarrow> Inl (ApiInternal (''Failed to look up caller email: '' @ repository_error_text unexpected_null))))"

text \<open>The branch for an address that has no account: the row, then the mail.\<close>

definition send_invitation ::
    "'j team_world \<Rightarrow> timestamp \<Rightarrow> int \<Rightarrow> ucan_auth \<Rightarrow> int \<Rightarrow> string \<Rightarrow> string \<Rightarrow> string \<Rightarrow> profile option \<Rightarrow> 'j api
      \<Rightarrow> (api_error + invite_response) option \<times> 'j api" where
  "send_invitation W now tenant_id auth team_id email role invite_token profile s =
     (if is_set (find_pending_by_email now team_id email (ap_invitations s))
      then (Some (Inl (ApiConflict ''Invitation already pending for this email'')), s)
      else (case invitation_create (map te_id (db_teams (ap_db s))) now team_id tenant_id email role invite_token
                   (ua_pubkey auth) (ap_invitations s) of
              (Inl e, t) \<Rightarrow> (Some (Inl (api_error_of e)), s\<lparr>ap_invitations := t\<rparr>)
            | (Inr invitation, t) \<Rightarrow>
                (let s1 = s\<lparr>ap_invitations := t\<rparr> in
                 case resolve_display_name (ua_pubkey auth) tenant_id (ap_db s) of
                   None \<Rightarrow> (None, s1)
                 | Some inviter_name \<Rightarrow>
                     (case team_find tenant_id team_id (ap_db s) of
                        Inl e \<Rightarrow> (Some (Inl (api_error_of e)), s1)
                      | Inr team \<Rightarrow>
                          if is_set (team_key_pubkey tenant_id team_id (ap_db s))
                             \<and> \<not> is_set (get_bunker_relays (tmw_token W)) then (None, s1)
                          else
                            (let prof = (if is_set (team_key_pubkey tenant_id team_id (ap_db s)) then profile else None);
                                 mail = \<lparr>ie_to = email,
                                         ie_team = (case Option.bind prof pr_display_name of Some n \<Rightarrow> n | None \<Rightarrow> te_name team),
                                         ie_picture = Option.bind prof pr_picture,
                                         ie_inviter = inviter_label (ua_pubkey auth) tenant_id inviter_name (ap_db s),
                                         ie_role = role, ie_expires_at = ti_expires_at invitation,
                                         ie_url = invite_base_url W @ ''/accept-invite?token='' @ invite_token\<rparr>
                             in (Some (Inr (Invited (list_item_of inviter_name invitation))),
                                 if mail_up W then s1\<lparr>ap_outbox := ap_outbox s @ [mail]\<rparr> else s1))))))"

definition add_existing_user ::
    "'j team_world \<Rightarrow> timestamp \<Rightarrow> int \<Rightarrow> int \<Rightarrow> pubkey \<Rightarrow> string \<Rightarrow> 'j api
      \<Rightarrow> (api_error + invite_response) \<times> 'j api" where
  "add_existing_user W now tenant_id team_id pubkey role s =
     (if is_member team_id pubkey (ap_db s) then (Inl (ApiConflict ''Already a team member''), s)
      else (case map_err (\<lambda>_. ApiInternal ''Invalid stored pubkey'') (pk_from_hex (x_perm (mx W)) pubkey) of
              Inl e \<Rightarrow> (Inl e, s)
            | Inr pk \<Rightarrow>
                (case with_db s (map_err api_error_of (find_or_create now tenant_id pk (ap_db s))) of
                   (Inl e, s1) \<Rightarrow> (Inl e, s1)
                 | (Inr _, s1) \<Rightarrow>
                     (case with_db s1 (map_err api_error_of (add_member now team_id pubkey role (ap_db s1))) of
                        (Inl e, s2) \<Rightarrow> (Inl e, s2)
                      | (Inr m, s2) \<Rightarrow> (Inr (Added m), s2)))))"

definition invite_user ::
    "'j team_world \<Rightarrow> timestamp \<Rightarrow> int \<Rightarrow> ucan_auth \<Rightarrow> int \<Rightarrow> string option \<Rightarrow> string \<Rightarrow> team_user_role \<Rightarrow> string
      \<Rightarrow> profile option \<Rightarrow> 'j api \<Rightarrow> (api_error + invite_response) option \<times> 'j api" where
  "invite_user W now tenant_id auth team_id forwarded_for request_email role invite_token profile s =
     (case verify_admin W (ua_pubkey auth) team_id tenant_id (ap_db s) of
        Inl e \<Rightarrow> (Some (Inl e), s)
      | Inr _ \<Rightarrow>
          (let email = to_lowercase W (str_trim request_email) in
           case allow_request (email_key W) (to_lowercase W) (rd_up (ap_redis s)) (now div 1000000) (ip_limit W)
                  ''team_invite'' tenant_id (client_ip (parse_ip W) forwarded_for) (Some email) (rd_keys (ap_redis s)) of
             (permitted, keys) \<Rightarrow>
               (let s1 = s\<lparr>ap_redis := (ap_redis s)\<lparr>rd_keys := keys\<rparr>\<rparr> in
                if \<not> permitted then (Some (Inl ApiTooManyRequests), s1)
                else if CHR ''@'' \<notin> set email \<or> length email < 5
                then (Some (Inl (ApiBadRequest ''Invalid email address'')), s1)
                else (case caller_email (ua_pubkey auth) tenant_id (ap_db s) of
                        Inl e \<Rightarrow> (Some (Inl e), s1)
                      | Inr caller \<Rightarrow>
                          if (case caller of Some m \<Rightarrow> to_lowercase W m = email | None \<Rightarrow> False)
                          then (Some (Inl (ApiBadRequest ''Cannot invite yourself'')), s1)
                          else (case find_pubkey_by_email email tenant_id (ap_db s) of
                                  Some pubkey \<Rightarrow>
                                    (case add_existing_user W now tenant_id team_id pubkey (role_as_str role) s1 of
                                       (r, s2) \<Rightarrow> (Some r, s2))
                                | None \<Rightarrow>
                                    send_invitation W now tenant_id auth team_id email (role_as_str role) invite_token profile s1)))))"

definition list_invitations ::
    "'j team_world \<Rightarrow> int \<Rightarrow> ucan_auth \<Rightarrow> int \<Rightarrow> 'j api \<Rightarrow> (api_error + invitation_list_item list) option" where
  "list_invitations W tenant_id auth team_id s =
     (case verify_admin W (ua_pubkey auth) team_id tenant_id (ap_db s) of
        Inl e \<Rightarrow> Some (Inl e)
      | Inr _ \<Rightarrow>
          (let invs = invitation_list_by_team team_id tenant_id (ap_invitations s);
               items = map (\<lambda>i. map_option (\<lambda>n. list_item_of n i) (resolve_display_name (ti_invited_by i) tenant_id (ap_db s))) invs
           in if list_all is_set items then Some (Inr (map the items)) else None))"

definition revoke_invitation ::
    "'j team_world \<Rightarrow> timestamp \<Rightarrow> int \<Rightarrow> ucan_auth \<Rightarrow> int \<Rightarrow> int \<Rightarrow> 'j api \<Rightarrow> (api_error + unit) \<times> 'j api" where
  "revoke_invitation W now tenant_id auth team_id invitation_id s =
     (case verify_admin W (ua_pubkey auth) team_id tenant_id (ap_db s) of
        Inl e \<Rightarrow> (Inl e, s)
      | Inr _ \<Rightarrow>
          (case invitation_revoke now invitation_id team_id tenant_id (ap_invitations s) of
             (r, t) \<Rightarrow> (map_err api_error_of r, s\<lparr>ap_invitations := t\<rparr>)))"

record invitation_preview =
  ip_team_name :: string
  ip_team_key_pubkey :: "pubkey option"
  ip_role :: string
  ip_invited_by_display_name :: string
  ip_invited_by_email :: "string option"
  ip_expires_at :: timestamp
  ip_email :: string

definition usable_invitation :: "timestamp \<Rightarrow> int \<Rightarrow> string \<Rightarrow> 'j api \<Rightarrow> api_error + team_invitation" where
  "usable_invitation now tenant_id invite_token s =
     and_then (ok_or (ApiNotFound ''Invitation not found or expired'') (find_valid_by_token now invite_token (ap_invitations s)))
       (\<lambda>i. if ti_tenant_id i \<noteq> tenant_id then Inl (ApiNotFound ''Invitation not found or expired'') else Inr i)"

definition preview_invitation ::
    "timestamp \<Rightarrow> int \<Rightarrow> string \<Rightarrow> 'j api \<Rightarrow> (api_error + invitation_preview) option" where
  "preview_invitation now tenant_id invite_token s =
     (case and_then (usable_invitation now tenant_id invite_token s) (\<lambda>i.
             and_then (map_err api_error_of (team_find tenant_id (ti_team_id i) (ap_db s))) (\<lambda>t. Inr (i, t))) of
        Inl e \<Rightarrow> Some (Inl e)
      | Inr (i, t) \<Rightarrow>
          map_option (\<lambda>inviter. Inr
              \<lparr>ip_team_name = te_name t, ip_team_key_pubkey = team_key_pubkey tenant_id (ti_team_id i) (ap_db s),
               ip_role = ti_role i, ip_invited_by_display_name = inviter,
               ip_invited_by_email = ok (get_email (ti_invited_by i) tenant_id (ap_db s)),
               ip_expires_at = ti_expires_at i, ip_email = ti_email i\<rparr>)
            (resolve_display_name (ti_invited_by i) tenant_id (ap_db s)))"

text \<open>The membership is written before the invitation is marked.\<close>

definition accept_invitation ::
    "'j team_world \<Rightarrow> timestamp \<Rightarrow> int \<Rightarrow> ucan_auth \<Rightarrow> string \<Rightarrow> 'j api \<Rightarrow> (api_error + int \<times> string) \<times> 'j api" where
  "accept_invitation W now tenant_id auth invite_token s =
     (case and_then (usable_invitation now tenant_id invite_token s) (\<lambda>i.
           and_then (map_err (\<lambda>_. ApiBadRequest ''Could not retrieve your email address'')
                      (get_email (ua_pubkey auth) tenant_id (ap_db s))) (\<lambda>user_email.
             if to_lowercase W user_email \<noteq> to_lowercase W (ti_email i)
             then Inl (ApiForbidden ''This invitation was sent to a different email address'')
             else if is_member (ti_team_id i) (ua_pubkey auth) (ap_db s)
             then Inl (ApiConflict ''You are already a member of this team'') else Inr i)) of
        Inl e \<Rightarrow> (Inl e, s)
      | Inr i \<Rightarrow>
          (case with_db s (map_err api_error_of
                  (add_member now (ti_team_id i) (ua_pubkey auth) (ti_role i) (ap_db s))) of
             (Inl e, s1) \<Rightarrow> (Inl e, s1)
           | (Inr _, s1) \<Rightarrow>
               (case invitation_accept now invite_token (ua_pubkey auth) (ap_invitations s1) of
                  (Inl e, t) \<Rightarrow>
                    (Inl (ApiInternal (''Failed to mark invitation as accepted: '' @ repository_error_text e)),
                     s1\<lparr>ap_invitations := t\<rparr>)
                | (Inr _, t) \<Rightarrow> (Inr (ti_team_id i, ti_role i), s1\<lparr>ap_invitations := t\<rparr>))))"

end
