(* ===== verification/RequestAuthProofs.thy ===== *)
theory RequestAuthProofs
  imports RequestAuth Samples
begin

text \<open>
  Properties of request authentication: what an accepted NIP-98 envelope and an administrator role
  prove about the caller, and that an envelope is accepted once.
\<close>

section \<open>The age check\<close>

lemma sint_bounds64: "- (2 ^ 63) \<le> sint (w :: 64 word)" "sint (w :: 64 word) < 2 ^ 63"
  using sint_ge [of w] sint_lt [of w] by simp_all

lemma signed_take_bit_small: "- (2 ^ 63) \<le> k \<Longrightarrow> k < 2 ^ 63 \<Longrightarrow> signed_take_bit 63 k = (k :: int)"
  by (simp add: signed_take_bit_int_eq_self)

lemma signed_take_bit_over:
  assumes "2 ^ 63 \<le> (k :: int)" and "k < 3 * 2 ^ 63"
  shows "signed_take_bit 63 k = k - 2 ^ 64"
proof -
  have "signed_take_bit 63 k = signed_take_bit 63 (k - 2 ^ 64)"
    by (rule iffD2 [OF signed_take_bit_eq_iff_take_bit_eq]) (simp add: take_bit_eq_mod)
  then show ?thesis using assms by (simp add: signed_take_bit_int_eq_self)
qed

lemma sint_minus64: "sint (- (w :: 64 word)) = (if sint w = - (2 ^ 63) then - (2 ^ 63) else - sint w)"
proof (cases "sint w = - (2 ^ 63)")
  case True
  have "sint (- w) = signed_take_bit 63 (- sint w)" by (simp add: sint_word_ariths)
  also have "\<dots> = signed_take_bit 63 (2 ^ 63)" by (simp add: True)
  also have "\<dots> = - (2 ^ 63)" by (subst signed_take_bit_over) simp_all
  finally show ?thesis using True by simp
next
  case False
  have "sint (- w) = signed_take_bit 63 (- sint w)" by (simp add: sint_word_ariths)
  also have "\<dots> = - sint w" using sint_bounds64 [of w] False by (intro signed_take_bit_small) simp_all
  finally show ?thesis using False by simp
qed

lemma wrapping_abs_le:
  "sint (wrapping_abs w) \<le> 60 \<longleftrightarrow> \<bar>sint w\<bar> \<le> 60 \<or> sint w = - (2 ^ 63)"
  using sint_minus64 [of w] by (auto simp: wrapping_abs_def)

text \<open>On a clock before the year 146 billion the check is the distance of a minute, with one exception.\<close>

lemma event_fresh_iff:
  assumes "0 \<le> sint now" and "sint now < 2 ^ 62"
  shows "\<not> event_too_old now c \<longleftrightarrow> \<bar>sint now - sint c\<bar> \<le> 60 \<or> sint c = sint now - 2 ^ 63"
proof -
  have s: "sint (now - c) = signed_take_bit 63 (sint now - sint c)" by (simp add: sint_word_ariths)
  have b: "- (2 ^ 63) < sint now - sint c" "sint now - sint c < 3 * 2 ^ 63"
    using assms sint_bounds64 [of c] by simp_all
  show ?thesis
  proof (cases "sint now - sint c < 2 ^ 63")
    case True
    then have "sint (now - c) = sint now - sint c" using s b by (simp add: signed_take_bit_small)
    then show ?thesis using b True wrapping_abs_le [of "now - c"]
      by (auto simp: event_too_old_def MAX_EVENT_AGE_SECONDS_def not_less)
  next
    case False
    then have "sint (now - c) = sint now - sint c - 2 ^ 64" using s b by (simp add: signed_take_bit_over)
    moreover have "sint now - sint c < 2 ^ 63 + 2 ^ 62" using assms sint_bounds64 [of c] by simp
    ultimately show ?thesis using b False wrapping_abs_le [of "now - c"]
      by (auto simp: event_too_old_def MAX_EVENT_AGE_SECONDS_def not_less)
  qed
qed

section \<open>Envelopes\<close>

lemma extract_and_validate_Inr:
  assumes "extract_and_validate A now h url m = Inr pubkey"
  obtains e ut mt where "decode_envelope A h = Inr e" "ev_kind e = HTTP_AUTH_KIND" "event_verify A e = Inr ()"
    "\<not> event_too_old now (ev_created_at e)" "first_tag ''u'' e = Some ut" "tag_value ut = url"
    "first_tag ''method'' e = Some mt" "eq_ignore_ascii_case (tag_value mt) m" "pubkey = ev_pubkey e"
  using assms unfolding extract_and_validate_def
  by (auto simp: and_then_Inr_iff split: if_splits)

lemma parse_event_id_decode: "decode_envelope A h = Inr e \<Longrightarrow> parse_event_id A h = Inr (ev_id e)"
  by (auto simp: decode_envelope_def parse_event_id_def and_then_Inr_iff from_utf8_def split: if_splits)

lemma authenticate_nip98_Inr:
  assumes "authenticate_nip98 A now rq h r = (Inr auth, r')"
  obtains e url where "decode_envelope A h = Inr e" "build_expected_url rq = Some url"
    "extract_and_validate A now h url (rq_method rq) = Inr (ua_pubkey auth)"
    "check_replay now (ev_id e) r = (Inr (), r')"
    "ua_admin_role auth = admin_role_for A r' \<lparr>ua_pubkey = ua_pubkey auth, ua_admin_role = None\<rparr>"
proof -
  from assms obtain url pubkey where u: "build_expected_url rq = Some url"
    and x: "extract_and_validate A now h url (rq_method rq) = Inr pubkey"
    by (auto simp: authenticate_nip98_def split: option.splits sum.splits)
  from x obtain e where e: "decode_envelope A h = Inr e" by (rule extract_and_validate_Inr)
  show thesis
    by (rule that [of e url])
       (use assms u x e parse_event_id_decode [OF e] in
         \<open>auto simp: authenticate_nip98_def Let_def split: sum.splits prod.splits\<close>)
qed

lemma check_replay_Inr:
  "check_replay now i r = (Inr (), r') \<longleftrightarrow>
     rd_up r \<and> \<not> live (sint now) (replay_key i) (rd_keys r)
     \<and> r' = r\<lparr>rd_keys := (rd_keys r)(replay_key i := Some (1, sint now + REPLAY_TTL_SECONDS))\<rparr>"
  by (auto simp: check_replay_def set_nx_ex_def)

lemma replay_key_inj [simp]: "replay_key i = replay_key j \<longleftrightarrow> i = j"
  by (simp add: replay_key_def)

lemma authenticate_nip98_keys:
  assumes "authenticate_nip98 A now rq h r = (res, r')"
  shows "rd_keys r' = rd_keys r
         \<or> (\<exists>e. decode_envelope A h = Inr e \<and> \<not> live (sint now) (replay_key (ev_id e)) (rd_keys r)
             \<and> rd_keys r' = (rd_keys r)(replay_key (ev_id e) := Some (1, sint now + REPLAY_TTL_SECONDS)))"
  using assms unfolding authenticate_nip98_def check_replay_def set_nx_ex_def
  by (auto simp: Let_def parse_event_id_decode elim!: extract_and_validate_Inr
        split: option.splits sum.splits prod.splits if_splits)

text \<open>
  A run of the service: envelopes arrive, the connection to Redis comes and goes, and other code
  writes other keys.
\<close>

datatype nip98_op =
    Envelope "64 word" parts string
  | Connection bool
  | Other_key string "(nat \<times> int) option"

fun nip98_accepts :: "'j auth_world \<Rightarrow> string \<Rightarrow> nip98_op list \<Rightarrow> redis \<Rightarrow> nat" where
  "nip98_accepts A i [] r = 0"
| "nip98_accepts A i (Envelope now rq h # ops) r =
     (case authenticate_nip98 A now rq h r of
        (res, r') \<Rightarrow>
          (if \<not> isl res \<and> parse_event_id A h = Inr i then 1 else 0) + nip98_accepts A i ops r')"
| "nip98_accepts A i (Connection b # ops) r = nip98_accepts A i ops (r\<lparr>rd_up := b\<rparr>)"
| "nip98_accepts A i (Other_key k v # ops) r = nip98_accepts A i ops (r\<lparr>rd_keys := (rd_keys r)(k := v)\<rparr>)"

text \<open>
  The run presents event \<open>i\<close>, dated \<open>c\<close>, never a minute or more before its date, and nothing else
  writes the keys of the replay records.
\<close>

fun nip98_op_ok :: "'j auth_world \<Rightarrow> string \<Rightarrow> u64 \<Rightarrow> nip98_op \<Rightarrow> bool" where
  "nip98_op_ok A i c (Envelope now rq h) \<longleftrightarrow>
     0 \<le> sint now \<and> sint now < 2 ^ 62
     \<and> (\<forall>e. decode_envelope A h = Inr e \<longrightarrow> ev_id e = i \<longrightarrow> ev_created_at e = c \<and> sint c - 60 < sint now)"
| "nip98_op_ok A i c (Connection b) \<longleftrightarrow> True"
| "nip98_op_ok A i c (Other_key k v) \<longleftrightarrow> \<not> starts_with k ''nip98_replay:''"

definition envelope_spent :: "string \<Rightarrow> u64 \<Rightarrow> redis \<Rightarrow> bool" where
  "envelope_spent i c r \<longleftrightarrow> (\<exists>v e. rd_keys r (replay_key i) = Some (v, e) \<and> sint c + 60 < e)"

lemma fresh_not_future:
  assumes "0 \<le> sint now" and "sint now < 2 ^ 62" and "\<not> event_too_old now c" and "0 \<le> sint c"
  shows "sint now \<le> sint c + 60"
  using event_fresh_iff [OF assms(1,2), of c] assms by auto

lemma accepted_spends:
  assumes "authenticate_nip98 A now rq h r = (Inr auth, r')" and "parse_event_id A h = Inr i"
    and "nip98_op_ok A i c (Envelope now rq h)" and "0 \<le> sint c"
  shows "envelope_spent i c r' \<and> \<not> envelope_spent i c r"
proof -
  obtain e url where e: "decode_envelope A h = Inr e" "extract_and_validate A now h url (rq_method rq) = Inr (ua_pubkey auth)"
    "check_replay now (ev_id e) r = (Inr (), r')"
    using assms(1) by (elim authenticate_nip98_Inr)
  have i: "ev_id e = i" using parse_event_id_decode [OF e(1)] assms(2) by simp
  then have c: "ev_created_at e = c" "sint c - 60 < sint now" using assms(3) e(1) by auto
  have "\<not> event_too_old now c" using e(2) by (rule extract_and_validate_Inr) (use e(1) c in auto)
  then have "sint now \<le> sint c + 60" using assms(3,4) by (intro fresh_not_future) auto
  then show ?thesis
    using e(3) c(2) i by (auto simp: check_replay_Inr envelope_spent_def live_def REPLAY_TTL_SECONDS_def)
qed

lemma replay_key_starts [simp]: "starts_with (replay_key i) ''nip98_replay:''"
  by (simp add: replay_key_def starts_with_def)

lemma spent_stays:
  assumes "envelope_spent i c r" and "0 \<le> sint c" and "\<forall>op\<in>set ops. nip98_op_ok A i c op"
  shows "nip98_accepts A i ops r = 0"
  using assms
proof (induction ops arbitrary: r)
  case (Cons op ops)
  show ?case
  proof (cases op)
    case (Envelope now rq h)
    obtain res r' where a: "authenticate_nip98 A now rq h r = (res, r')" by force
    have "\<not> (\<not> isl res \<and> parse_event_id A h = Inr i)"
      using accepted_spends [of A now rq h r "projr res" r' i c] a Cons.prems Envelope by (cases res) auto
    moreover have "envelope_spent i c r'"
      using authenticate_nip98_keys [OF a]
    proof (elim disjE exE conjE)
      fix e assume e: "decode_envelope A h = Inr e" "\<not> live (sint now) (replay_key (ev_id e)) (rd_keys r)"
        "rd_keys r' = (rd_keys r)(replay_key (ev_id e) := Some (1, sint now + REPLAY_TTL_SECONDS))"
      show ?thesis
      proof (cases "ev_id e = i")
        case True
        then have "sint c - 60 < sint now" using Cons.prems(3) e(1) Envelope by auto
        then show ?thesis using e(3) True by (simp add: envelope_spent_def REPLAY_TTL_SECONDS_def)
      qed (use e(3) Cons.prems(1) in \<open>simp add: envelope_spent_def\<close>)
    qed (use Cons.prems(1) in \<open>simp add: envelope_spent_def\<close>)
    ultimately show ?thesis using Cons.IH [of r'] Cons.prems(2,3) Envelope a by simp
  next
    case (Connection b)
    then show ?thesis using Cons.IH [of "r\<lparr>rd_up := b\<rparr>"] Cons.prems by (simp add: envelope_spent_def)
  next
    case (Other_key k v)
    then have "k \<noteq> replay_key i" using Cons.prems(3) by auto
    then show ?thesis
      using Other_key Cons.IH [of "r\<lparr>rd_keys := (rd_keys r)(k := v)\<rparr>"] Cons.prems by (simp add: envelope_spent_def)
  qed
qed simp

section \<open>Properties\<close>

text \<open>
  An accepted NIP-98 envelope is a signed event of kind 27235 whose URL and method tags name this
  request, whose date is at most a minute away (or exactly \<open>2 ^ 63\<close> seconds ahead, where the
  subtraction wraps), and the caller is its author; the role comes from the two lists only, and
  Redis recorded the event.
\<close>

theorem nip98_accept_sound:
  assumes "authenticate_nip98 A now rq h r = (Inr auth, r')"
    and "0 \<le> sint now" and "sint now < 2 ^ 62"
  shows "\<exists>e ut mt. decode_envelope A h = Inr e \<and> ev_kind e = HTTP_AUTH_KIND \<and> event_verify A e = Inr ()
     \<and> ev_pubkey e = ua_pubkey auth
     \<and> (\<bar>sint now - sint (ev_created_at e)\<bar> \<le> 60 \<or> sint (ev_created_at e) = sint now - 2 ^ 63)
     \<and> first_tag ''u'' e = Some ut \<and> build_expected_url rq = Some (tag_value ut)
     \<and> first_tag ''method'' e = Some mt \<and> eq_ignore_ascii_case (tag_value mt) (rq_method rq)
     \<and> rd_up r \<and> live (sint now) (replay_key (ev_id e)) (rd_keys r')
     \<and> (ua_admin_role auth = Some ''full'' \<longleftrightarrow> is_allowed_pubkey (allowed_pubkeys_env A) (ua_pubkey auth))
     \<and> (ua_admin_role auth = Some ''support'' \<longrightarrow> ua_pubkey auth \<in> set (rd_support_admins r))"
proof -
  obtain e url where e: "decode_envelope A h = Inr e" "build_expected_url rq = Some url"
    "extract_and_validate A now h url (rq_method rq) = Inr (ua_pubkey auth)"
    "check_replay now (ev_id e) r = (Inr (), r')"
    "ua_admin_role auth = admin_role_for A r' \<lparr>ua_pubkey = ua_pubkey auth, ua_admin_role = None\<rparr>"
    using assms(1) by (elim authenticate_nip98_Inr)
  obtain ut mt where v: "ev_kind e = HTTP_AUTH_KIND" "event_verify A e = Inr ()" "ev_pubkey e = ua_pubkey auth"
    "\<not> event_too_old now (ev_created_at e)" "first_tag ''u'' e = Some ut" "tag_value ut = url"
    "first_tag ''method'' e = Some mt" "eq_ignore_ascii_case (tag_value mt) (rq_method rq)"
    using e(3) by (rule extract_and_validate_Inr) (use e(1) in auto)
  have "rd_up r" "live (sint now) (replay_key (ev_id e)) (rd_keys r')" "rd_support_admins r' = rd_support_admins r"
    using e(4) by (auto simp: check_replay_Inr live_def REPLAY_TTL_SECONDS_def)
  moreover have "ua_admin_role auth = Some ''full'' \<longleftrightarrow> is_allowed_pubkey (allowed_pubkeys_env A) (ua_pubkey auth)"
    "ua_admin_role auth = Some ''support'' \<longrightarrow> ua_pubkey auth \<in> set (rd_support_admins r')"
    using e(5) by (auto simp: admin_role_for_def is_full_admin_def is_support_admin_def split: if_splits)
  ultimately show ?thesis
    using e(1,2) v event_fresh_iff [OF assms(2,3), of "ev_created_at e"] by auto
qed

text \<open>
  C30. In any run, with Redis going up and down and other code writing other keys, an envelope is
  accepted at most once, if it is never presented a minute or more before its date.
\<close>

theorem nip98_envelope_used_at_most_once:
  assumes "0 \<le> sint c" and "\<forall>op\<in>set ops. nip98_op_ok A i c op"
  shows "nip98_accepts A i ops r \<le> 1"
  using assms
proof (induction ops arbitrary: r)
  case (Cons op ops)
  show ?case
  proof (cases op)
    case (Envelope now rq h)
    obtain res r' where a: "authenticate_nip98 A now rq h r = (res, r')" by force
    show ?thesis
    proof (cases "\<not> isl res \<and> parse_event_id A h = Inr i")
      case True
      then have "envelope_spent i c r'"
        using accepted_spends [of A now rq h r "projr res" r' i c] a Cons.prems Envelope by (cases res) auto
      then show ?thesis using spent_stays [of i c r' ops A] Cons.prems True Envelope a by simp
    next
      case False
      then show ?thesis using Cons.IH [of r'] Cons.prems Envelope a by auto
    qed
  qed (use Cons in auto)
qed simp

text \<open>A world in which the base-64 text is the event's name.\<close>

definition auth_event :: "string \<Rightarrow> u64 \<Rightarrow> event" where
  "auth_event i c =
     \<lparr>ev_id = i, ev_pubkey = ''root'', ev_created_at = c, ev_kind = 27235,
      ev_tags = [[''u'', ''https://k.example/api/teams''], [''method'', ''post'']], ev_content = '''', ev_sig = ''s''\<rparr>"

definition sample_http :: "jv http_world" where
  "sample_http =
     \<lparr>hx = X0,
      ucan_parse = (\<lambda>s. if s = ''tok'' then Inr \<lparr>uc_issuer = ''did:key:zs'', uc_audience = ''did:key:za'',
          uc_facts = [JObj [(''tenant_id'', JNum 2), (''redirect_origin'', JStr ''o''), (''admin_role'', JStr ''full'')]],
          uc_payload = []\<rparr> else Inl ''bad''),
      ucan_check_signature = (\<lambda>_. Inr ()), ucan_is_expired = (\<lambda>_ _. False),
      fact_get = (\<lambda>f k. case jv_key f k of JNull \<Rightarrow> None | v \<Rightarrow> Some v),
      json_i64 = (\<lambda>v. map_option sint (jv_u64 v)),
      bs58_decode = (\<lambda>s. Inr (0xe7 # 0x01 # map (\<lambda>c. of_char c) s)),
      pk_from_slice = (\<lambda>bs. Inr (map (\<lambda>b. char_of (unat b)) bs)), server_pubkey = Inr ''s'',
      blake3 = id, event_from_value = (\<lambda>_. Inl ''no event''), json_of_string = JStr,
      json_of_event = (\<lambda>_. Inl ''no event'')\<rparr>"

definition A0 :: "jv auth_world" where
  "A0 =
     \<lparr>aw_http = sample_http, base64_decode = Inr,
      event_from_json = (\<lambda>s. if s = ''envelope'' then Inr (auth_event ''e1'' 1000) else Inl ''bad''),
      event_verify = (\<lambda>_. Inr ()), allowed_pubkeys_env = Some ''root, other''\<rparr>"

definition empty_redis :: redis where
  "empty_redis = \<lparr>rd_up = True, rd_keys = Map.empty, rd_support_admins = [''sam'']\<rparr>"

definition service_parts :: parts where
  "service_parts =
     \<lparr>rq_method = ''POST'', rq_path = ''/teams'', rq_uri_host = None, rq_original = ''/api/teams'',
      rq_header = Map.empty(''host'' \<mapsto> ''k.example'', ''authorization'' \<mapsto> ''Nostr envelope'')\<rparr>"

lemma service_accepted:
  "authenticate_nip98 A0 1010 service_parts ''Nostr envelope'' empty_redis
     = (Inr \<lparr>ua_pubkey = ''root'', ua_admin_role = Some ''full''\<rparr>,
        snd (authenticate_nip98 A0 1010 service_parts ''Nostr envelope'' empty_redis))"
proof -
  have "fst (authenticate_nip98 A0 1010 service_parts ''Nostr envelope'' empty_redis)
      = Inr \<lparr>ua_pubkey = ''root'', ua_admin_role = Some ''full''\<rparr>"
    by code_simp
  then show ?thesis by (metis prod.collapse)
qed

theorem nip98_accept_sound_witness:
  "\<exists>e. decode_envelope A0 ''Nostr envelope'' = Inr e \<and> ev_pubkey e = ''root''
     \<and> \<bar>1010 - sint (ev_created_at e)\<bar> \<le> 60"
proof -
  obtain e where "decode_envelope A0 ''Nostr envelope'' = Inr e" "ev_pubkey e = ''root''"
    using nip98_accept_sound [OF service_accepted] by auto
  moreover have "decode_envelope A0 ''Nostr envelope'' = Inr (auth_event ''e1'' 1000)" by code_simp
  ultimately show ?thesis by (auto simp: auth_event_def)
qed

theorem nip98_envelope_used_at_most_once_witness:
  "nip98_accepts A0 ''e1''
     [Envelope 1010 service_parts ''Nostr envelope'', Connection False, Connection True,
      Envelope 1060 service_parts ''Nostr envelope''] empty_redis = 1"
proof -
  have d: "decode_envelope A0 ''Nostr envelope'' = Inr (auth_event ''e1'' 1000)" by code_simp
  have "parse_event_id A0 ''Nostr envelope'' = Inr ''e1''" by code_simp
  then have "1 \<le> nip98_accepts A0 ''e1''
     [Envelope 1010 service_parts ''Nostr envelope'', Connection False, Connection True,
      Envelope 1060 service_parts ''Nostr envelope''] empty_redis"
    by (subst nip98_accepts.simps(2), subst service_accepted) simp
  moreover have "nip98_accepts A0 ''e1''
     [Envelope 1010 service_parts ''Nostr envelope'', Connection False, Connection True,
      Envelope 1060 service_parts ''Nostr envelope''] empty_redis \<le> 1"
    by (rule nip98_envelope_used_at_most_once [of 1000]) (auto simp: d auth_event_def)
  ultimately show ?thesis by simp
qed

text \<open>
  The record of an envelope does not outlive its freshness by enough: an envelope first used a
  full minute before its date is accepted again a full minute after it, when its record has expired.
\<close>

theorem nip98_replayed_at_the_edge:
  "nip98_accepts A0 ''e1''
     [Envelope 940 service_parts ''Nostr envelope'', Envelope 1060 service_parts ''Nostr envelope''] empty_redis = 2"
  by code_simp

text \<open>
  An administrator role is held only by the author of a verified NIP-98 envelope who is in one of
  the two lists, or by the holder of a token that the server signed with that role for the tenant
  of the hostname.
\<close>

theorem admin_role_origin:
  assumes "tenants_reachable E ts"
    and "ucan_auth_from_request E A now rq (ts, r) = (Some (Inr auth), ts', r')"
    and "ua_admin_role auth = Some role"
  shows "(\<exists>h e. header_str rq ''authorization'' = Some h \<and> decode_envelope A h = Inr e \<and> event_verify A e = Inr ()
            \<and> ev_pubkey e = ua_pubkey auth
            \<and> (role = ''full'' \<and> is_allowed_pubkey (allowed_pubkeys_env A) (ua_pubkey auth)
               \<or> role = ''support'' \<and> ua_pubkey auth \<in> set (rd_support_admins r)))
         \<or> (\<exists>(t :: tenant) h origin bunker u. t \<in> set (rows (tn_table ts')) \<and> request_domain rq = Some (tn_domain t)
            \<and> validate_ucan_token (aw_http A) now h (tn_id t) = Inr (ua_pubkey auth, origin, bunker, u)
            \<and> is_server_signed (aw_http A) u \<and> fact_str (aw_http A) ''admin_role'' (uc_facts u) = Some role)"
proof (cases "try_authenticate_nip98 A (word_of_int (now div 1000000)) rq r")
  case (Some p)
  then obtain h where h: "header_str rq ''authorization'' = Some h"
    and a: "authenticate_nip98 A (word_of_int (now div 1000000)) rq h r = (Inr auth, r')"
    using assms(2) by (auto simp: try_authenticate_nip98_def ucan_auth_from_request_def bind_eq_Some_conv
          split: if_splits prod.splits)
  obtain e url where e: "decode_envelope A h = Inr e"
    "extract_and_validate A (word_of_int (now div 1000000)) h url (rq_method rq) = Inr (ua_pubkey auth)"
    "check_replay (word_of_int (now div 1000000)) (ev_id e) r = (Inr (), r')"
    "ua_admin_role auth = admin_role_for A r' \<lparr>ua_pubkey = ua_pubkey auth, ua_admin_role = None\<rparr>"
    using a by (elim authenticate_nip98_Inr)
  have "event_verify A e = Inr () \<and> ev_pubkey e = ua_pubkey auth"
    using e(2) by (rule extract_and_validate_Inr) (use e(1) in auto)
  moreover have "rd_support_admins r' = rd_support_admins r" using e(3) by (auto simp: check_replay_Inr)
  ultimately show ?thesis
    using h e(1,4) assms(3) by (auto simp: admin_role_for_def is_full_admin_def is_support_admin_def split: if_splits)
next
  case None
  then obtain t where t: "tenant_from_request E now rq ts = (Some (Inr t), ts')"
    and s: "tenant_session A now rq (tn_id t) = Inr auth"
    using assms(2) by (auto simp: ucan_auth_from_request_def split: prod.splits option.splits sum.splits)
  have "request_domain rq = Some (tn_domain t)"
    using tenant_from_request_domain [OF tenants_reachable_ok [OF assms(1)] t] by simp
  moreover have "t \<in> set (rows (tn_table ts'))"
    by (rule tenant_from_request_row [OF tenants_reachable_ok [OF assms(1)] t])
  moreover obtain what h where "session_auth A now what h (tn_id t) = Inr auth"
    using s by (auto simp: tenant_session_def split: option.splits)
  ultimately show ?thesis
    using assms(3) by (fastforce simp: session_auth_def and_then_Inr_iff extract_admin_role_def split: if_splits)
qed

definition admin_parts :: parts where
  "admin_parts = (sample_parts ''a.example.com'' ''/admin/status'')
     \<lparr>rq_header := Map.empty(''host'' \<mapsto> ''a.example.com'', ''cookie'' \<mapsto> ''x=1; keycast_session=tok'')\<rparr>"

theorem admin_role_origin_witness:
  "\<exists>(t :: tenant) h origin bunker u. request_domain admin_parts = Some (tn_domain t)
     \<and> validate_ucan_token sample_http 9 h (tn_id t) = Inr (''a'', origin, bunker, u) \<and> is_server_signed sample_http u"
proof -
  let ?q = "ucan_auth_from_request sample_env A0 9 admin_parts (sample_tenants, empty_redis)"
  have "fst ?q = Some (Inr \<lparr>ua_pubkey = ''a'', ua_admin_role = Some ''full''\<rparr>)" by code_simp
  then have q: "?q = (Some (Inr \<lparr>ua_pubkey = ''a'', ua_admin_role = Some ''full''\<rparr>), fst (snd ?q), snd (snd ?q))"
    by (metis prod.collapse)
  have n: "header_str admin_parts ''authorization'' = None" by code_simp
  have w: "aw_http A0 = sample_http" by (simp add: A0_def)
  have "ua_admin_role \<lparr>ua_pubkey = ''a'', ua_admin_role = Some ''full''\<rparr> = Some ''full''" by simp
  from admin_role_origin [OF sample_tenants_reachable q this, unfolded w ucan_auth.simps] show ?thesis
  proof (elim disjE exE conjE)
    fix t :: tenant and h origin bunker u
    assume "request_domain admin_parts = Some (tn_domain t)" "is_server_signed sample_http u"
      "validate_ucan_token sample_http 9 h (tn_id t) = Inr (''a'', origin, bunker, u)"
    then show ?thesis by blast
  qed (simp_all add: n)
qed

end
