(* ===== verification/TeamsProofs.thy ===== *)
theory TeamsProofs
  imports TeamsApi RequestAuthProofs
begin

text \<open>
  Properties of the team endpoints. The abstract specification is the roster, the role of each
  member of each team, and the relation \<open>roster_step\<close> of the changes a caller may make to it; every
  endpoint refines it. The batched reads are compared with the single ones.
\<close>

section \<open>The roster\<close>

type_synonym rosters = "int \<Rightarrow> pubkey \<Rightarrow> team_user_role option"

definition member_key :: "team_user \<Rightarrow> int \<times> pubkey" where
  "member_key m = (tu_team_id m, tu_user_pubkey m)"

definition roster :: "'j db \<Rightarrow> rosters" where
  "roster d t p =
     Option.bind (fetch_optional (\<lambda>m. member_key m = (t, p)) (db_team_users d)) (\<lambda>m. ok (decode_role (tu_role m)))"

text \<open>What the constraints of the tables guarantee.\<close>

definition team_tables_ok :: "'j db \<Rightarrow> bool" where
  "team_tables_ok d \<longleftrightarrow>
     distinct (map member_key (db_team_users d))
     \<and> (\<forall>m\<in>set (db_team_users d). tu_role m \<in> {''admin'', ''member''} \<and> tu_team_id m \<in> te_id ` set (db_teams d))
     \<and> distinct (map te_id (db_teams d)) \<and> (\<forall>t\<in>set (db_teams d). te_id t < db_teams_seq d)"

lemma decode_role_simps [simp]:
  "decode_role ''admin'' = Inr Admin"
  "decode_role ''member'' = Inr Member"
  "decode_role (role_as_str role) = Inr role"
  by (cases role; simp add: decode_role_def)+

lemma decode_role_iff:
  "decode_role r = Inr Admin \<longleftrightarrow> r = ''admin''"
  "decode_role r = Inr Member \<longleftrightarrow> r = ''member''"
  by (auto simp: decode_role_def)

lemma roster_cong: "db_team_users d' = db_team_users d \<Longrightarrow> roster d' = roster d"
  by (intro ext) (simp add: roster_def)

lemma tables_ok_cong:
  "db_team_users d' = db_team_users d \<Longrightarrow> db_teams d' = db_teams d \<Longrightarrow> db_teams_seq d' = db_teams_seq d
     \<Longrightarrow> team_tables_ok d' = team_tables_ok d"
  by (simp add: team_tables_ok_def)

lemma roster_iff:
  assumes "team_tables_ok d"
  shows "roster d t p = Some role \<longleftrightarrow>
    (\<exists>m\<in>set (db_team_users d). tu_team_id m = t \<and> tu_user_pubkey m = p \<and> decode_role (tu_role m) = Inr role)"
  using fetch_optional_unique [of member_key "db_team_users d" "(t, p)"] assms
  unfolding roster_def team_tables_ok_def by (auto simp: bind_eq_Some_conv member_key_def)

lemma roster_None:
  assumes "team_tables_ok d"
  shows "roster d t p = None \<longleftrightarrow> \<not> (\<exists>m\<in>set (db_team_users d). tu_team_id m = t \<and> tu_user_pubkey m = p)"
proof -
  have "\<exists>role. decode_role (tu_role m) = Inr role" if "m \<in> set (db_team_users d)" for m
    using assms that by (auto simp: team_tables_ok_def)
  then show ?thesis using roster_iff [OF assms, of t p] by (metis not_None_eq)
qed

lemma is_team_admin_iff: "team_tables_ok d \<Longrightarrow> is_team_admin tenant_id p t d \<longleftrightarrow> roster d t p = Some Admin"
  by (auto simp: is_team_admin_def rows_affected_pos roster_iff decode_role_iff)

lemma is_member_iff: "team_tables_ok d \<Longrightarrow> is_member t p d \<longleftrightarrow> roster d t p \<noteq> None"
  by (auto simp: is_member_def rows_affected_pos roster_None)

lemma count_other_admins_iff:
  "team_tables_ok d \<Longrightarrow> count_other_admins t p d = 0 \<longleftrightarrow> (\<forall>q. q \<noteq> p \<longrightarrow> roster d t q \<noteq> Some Admin)"
  unfolding count_other_admins_def rows_affected_def
  by (auto simp: filter_empty_conv roster_iff decode_role_iff)

section \<open>The repository on rosters\<close>

lemma member_of_row_Inr: "member_of_row d m = Inr tm \<Longrightarrow> decode_role (tu_role m) = Inr (tm_role tm)"
  by (auto simp: member_of_row_def and_then_Inr_iff)

lemma roster_append:
  assumes "team_tables_ok d" and "roster d t p = None" and "t \<in> te_id ` set (db_teams d')"
    and "decode_role (tu_role m) = Inr role" and "tu_team_id m = t" and "tu_user_pubkey m = p"
    and "db_team_users d' = db_team_users d @ [m]" and "te_id ` set (db_teams d) \<subseteq> te_id ` set (db_teams d')"
    and "distinct (map te_id (db_teams d'))" and "\<forall>t\<in>set (db_teams d'). te_id t < db_teams_seq d'"
  shows "team_tables_ok d' \<and> roster d' = (roster d)(t := (roster d t)(p \<mapsto> role))"
proof
  have k: "\<forall>q\<in>set (db_team_users d). member_key q \<noteq> (t, p)"
    using roster_None [OF assms(1)] assms(2) by (auto simp: member_key_def)
  have dist: "distinct (map member_key (db_team_users d'))"
    using assms(1,5-7) k by (auto simp: team_tables_ok_def member_key_def)
  have new: "tu_role m \<in> {''admin'', ''member''}" using assms(4) by (auto simp: decode_role_def split: if_splits)
  have "\<forall>q\<in>set (db_team_users d). tu_role q \<in> {''admin'', ''member''} \<and> tu_team_id q \<in> te_id ` set (db_teams d')"
    using assms(1,8) unfolding team_tables_ok_def by blast
  then show "team_tables_ok d'"
    using dist new assms(3,5,9,10) unfolding team_tables_ok_def assms(7) by simp
  show "roster d' = (roster d)(t := (roster d t)(p \<mapsto> role))"
  proof (intro ext)
    fix t' p'
    have m: "member_key m = (t, p)" using assms(5,6) by (simp add: member_key_def)
    have none: "fetch_optional (\<lambda>q. member_key q = (t, p)) (db_team_users d) = None"
      using k by (simp add: fetch_optional_None)
    show "roster d' t' p' = ((roster d)(t := (roster d t)(p \<mapsto> role))) t' p'"
    proof (cases "(t', p') = (t, p)")
      case True
      then show ?thesis using m none assms(4) by (simp add: roster_def assms(7) fetch_optional_append fetch_optional_Cons)
    next
      case False
      then have "member_key m \<noteq> (t', p')" using m by metis
      then have "roster d' t' p' = roster d t' p'"
        by (simp add: roster_def assms(7) fetch_optional_append fetch_optional_Cons split: option.split)
      then show ?thesis using False by auto
    qed
  qed
qed

lemma add_member_roster:
  assumes "add_member now t p role_str d = Inr (m, d')" and "team_tables_ok d"
  obtains role where "decode_role role_str = Inr role" "roster d t p = None" "team_tables_ok d'"
    "roster d' = (roster d)(t := (roster d t)(p \<mapsto> role))"
proof -
  let ?m = "\<lparr>tu_team_id = t, tu_user_pubkey = p, tu_role = role_str, tu_created_at = now, tu_updated_at = now\<rparr>"
  have n: "\<not> (\<exists>m\<in>set (db_team_users d). tu_team_id m = t \<and> tu_user_pubkey m = p)"
    and t: "t \<in> te_id ` set (db_teams d)" and r: "member_of_row d ?m = Inr m"
    and d: "d' = d\<lparr>db_team_users := db_team_users d @ [?m]\<rparr>"
    using assms(1) unfolding add_member_def
    by (auto simp: sql_simps and_then_Inr_iff Let_def split: if_splits)
  have role: "decode_role role_str = Inr (tm_role m)" using member_of_row_Inr [OF r] by simp
  have "roster d t p = None" using roster_None [OF assms(2)] n by simp
  moreover from this have "team_tables_ok d' \<and> roster d' = (roster d)(t := (roster d t)(p \<mapsto> tm_role m))"
    using assms(2) role t d by (intro roster_append [where m = ?m]) (auto simp: team_tables_ok_def)
  ultimately show thesis using that role by blast
qed

lemma roster_delete:
  assumes "team_tables_ok d" and "db_team_users d' = delete_where P (db_team_users d)"
    and "\<And>m. P m \<longleftrightarrow> Q (tu_team_id m) (tu_user_pubkey m)"
  shows "roster d' = (\<lambda>t p. if Q t p then None else roster d t p)"
proof -
  have "fetch_optional (\<lambda>m. member_key m = (t, p)) (delete_where P ms)
      = (if Q t p then None else fetch_optional (\<lambda>m. member_key m = (t, p)) ms)" for t p ms
    by (induction ms) (auto simp: delete_where_def fetch_optional_Cons assms(3) member_key_def)
  then show ?thesis using assms(2) by (intro ext) (simp add: roster_def)
qed

lemma remove_member_roster:
  assumes "team_tables_ok d"
  shows "team_tables_ok (remove_member t p d) \<and> roster (remove_member t p d) = (roster d)(t := (roster d t)(p := None))"
proof
  show "team_tables_ok (remove_member t p d)"
    using assms by (auto simp: team_tables_ok_def remove_member_def sql_simps distinct_map_delete_where)
  show "roster (remove_member t p d) = (roster d)(t := (roster d t)(p := None))"
    using roster_delete [OF assms, of "remove_member t p d" "\<lambda>m. tu_team_id m = t \<and> tu_user_pubkey m = p" "\<lambda>t' p'. t' = t \<and> p' = p"]
    by (auto simp: remove_member_def fun_eq_iff)
qed

lemma team_delete_roster:
  assumes "team_tables_ok d" and "team_delete tenant_id t d = Inr d'"
  shows "team_tables_ok d' \<and> roster d' = (roster d)(t := Map.empty)"
proof
  have d: "db_team_users d' = delete_where (\<lambda>m. tu_team_id m = t) (db_team_users d)"
    "db_teams d' = delete_where (\<lambda>q. te_tenant_id q = tenant_id \<and> te_id q = t) (db_teams d)"
    "db_teams_seq d' = db_teams_seq d"
    using assms(2) unfolding team_delete_def by (auto simp: Let_def split: if_splits)
  then show "team_tables_ok d'"
    using assms(1) by (fastforce simp: team_tables_ok_def sql_simps distinct_map_delete_where image_iff)
  show "roster d' = (roster d)(t := Map.empty)"
    using roster_delete [OF assms(1) d(1), of "\<lambda>t' p'. t' = t"] by (auto simp: fun_eq_iff)
qed

section \<open>What leaves the roster alone\<close>

definition same_teams :: "'j db \<Rightarrow> 'j db \<Rightarrow> bool" where
  "same_teams d d' \<longleftrightarrow>
     db_team_users d' = db_team_users d \<and> map te_id (db_teams d') = map te_id (db_teams d)
     \<and> db_teams_seq d' = db_teams_seq d"

lemma same_teams_refl [simp]: "same_teams d d"
  by (simp add: same_teams_def)

lemma same_teams_trans: "same_teams d d' \<Longrightarrow> same_teams d' d'' \<Longrightarrow> same_teams d d''"
  by (simp add: same_teams_def)

lemma same_teams_ids:
  assumes "same_teams d d'"
  shows "te_id ` set (db_teams d') = te_id ` set (db_teams d)"
proof -
  have "set (map te_id (db_teams d')) = set (map te_id (db_teams d))"
    using assms by (simp only: same_teams_def)
  then show ?thesis by simp
qed

lemma same_teams_ok:
  assumes "same_teams d d'" and "team_tables_ok d"
  shows "team_tables_ok d'"
proof -
  have "\<forall>x\<in>te_id ` set (db_teams d). x < db_teams_seq d" using assms(2) by (auto simp: team_tables_ok_def)
  then have "\<forall>x\<in>te_id ` set (db_teams d'). x < db_teams_seq d'"
    using assms(1) unfolding same_teams_ids [OF assms(1)] by (simp add: same_teams_def)
  then have "\<forall>t\<in>set (db_teams d'). te_id t < db_teams_seq d'" by blast
  moreover have u: "db_team_users d' = db_team_users d" "map te_id (db_teams d') = map te_id (db_teams d)"
    using assms(1) by (simp_all only: same_teams_def)
  ultimately show ?thesis
    using assms(2) unfolding team_tables_ok_def u same_teams_ids [OF assms(1)] by (elim conjE, intro conjI)
qed

lemma same_teams_roster: "same_teams d d' \<Longrightarrow> roster d' = roster d"
  by (rule roster_cong) (simp add: same_teams_def)

named_theorems same_teams_intros \<open>statements that leave the roster alone\<close>

lemma insert_user_same [same_teams_intros]: "insert_user u d = Inr d' \<Longrightarrow> same_teams d d'"
  by (auto simp: insert_user_def same_teams_def split: if_splits)

lemma ensure_exists_same [same_teams_intros]: "ensure_exists now p tenant_id d = Inr d' \<Longrightarrow> same_teams d d'"
  by (auto simp: ensure_exists_def insert_user_same split: if_splits)

lemma find_or_create_same [same_teams_intros]: "find_or_create now tenant_id p d = Inr (u, d') \<Longrightarrow> same_teams d d'"
  by (auto simp: find_or_create_def Let_def and_then_Inr_iff insert_user_same same_teams_def [of _ "_\<lparr>db_users := _\<rparr>"]
        split: option.splits)

lemma insert_policy_same [same_teams_intros]: "insert_policy t name d = Inr (p, d') \<Longrightarrow> same_teams d d'"
  by (auto simp: insert_policy_def Let_def same_teams_def split: option.splits if_splits)

lemma create_permission_same [same_teams_intros]: "create_permission now i c d = (p, d') \<Longrightarrow> same_teams d d'"
  by (auto simp: create_permission_def Let_def same_teams_def)

lemma link_permission_same [same_teams_intros]: "link_permission i j d = Inr d' \<Longrightarrow> same_teams d d'"
  by (auto simp: link_permission_def same_teams_def split: if_splits)

lemma create_permissions_same [same_teams_intros]: "create_permissions now cs d = (ps, d') \<Longrightarrow> same_teams d d'"
proof (induction cs arbitrary: d ps)
  case (Cons c cs)
  then show ?case
    by (cases c) (auto split: prod.splits intro: same_teams_trans [OF create_permission_same])
qed simp

lemma link_permissions_same [same_teams_intros]: "link_permissions i ps d = Inr d' \<Longrightarrow> same_teams d d'"
  by (induction ps arbitrary: d) (auto simp: and_then_Inr_iff intro: same_teams_trans [OF link_permission_same])

lemma create_with_permissions_same [same_teams_intros]:
  "create_with_permissions now t name cs d = Inr (p, d') \<Longrightarrow> same_teams d d'"
  unfolding create_with_permissions_def
  by (auto simp: and_then_Inr_iff split: prod.splits
        intro: same_teams_trans [OF create_permissions_same same_teams_trans [OF insert_policy_same link_permissions_same]])

lemma stored_key_create_same [same_teams_intros]: "stored_key_create now a b c e f d = Inr (k, d') \<Longrightarrow> same_teams d d'"
  by (auto simp: stored_key_create_def Let_def same_teams_def split: if_splits)

lemma delete_by_pubkey_same [same_teams_intros]: "delete_by_pubkey a b c d = Inr d' \<Longrightarrow> same_teams d d'"
  by (auto simp: delete_by_pubkey_def stored_key_delete_def and_then_Inr_iff Let_def same_teams_def split: if_splits)

lemma auth_create_same [same_teams_intros]: "auth_create now a b c e f g h i j d = (r, d') \<Longrightarrow> same_teams d d'"
  by (auto simp: auth_create_def Let_def same_teams_def split: if_splits)

lemma team_update_same [same_teams_intros]: "team_update now a b c d = Inr (t, d') \<Longrightarrow> same_teams d d'"
  by (auto simp: team_update_def Let_def and_then_Inr_iff same_teams_def map_update_where)

section \<open>Creating a team\<close>

lemma insert_team_ok:
  assumes "insert_team now tenant_id name d = Inr (t, d')" and "team_tables_ok d"
  shows "team_tables_ok d' \<and> roster d' = roster d \<and> te_id t = db_teams_seq d \<and> roster d (te_id t) = Map.empty"
proof -
  have t: "te_id t = db_teams_seq d" and d: "d' = d\<lparr>db_teams := db_teams d @ [t], db_teams_seq := db_teams_seq d + 1\<rparr>"
    using assms(1) by (auto simp: insert_team_def Let_def split: if_splits)
  have "roster d (te_id t) = Map.empty"
  proof (intro ext)
    fix p
    have "\<forall>m\<in>set (db_team_users d). tu_team_id m \<noteq> te_id t"
      using assms(2) t unfolding team_tables_ok_def by (metis imageE less_irrefl)
    then show "roster d (te_id t) p = None" using roster_None [OF assms(2)] by blast
  qed
  moreover have "team_tables_ok d'" using assms(2) t d by (auto simp: team_tables_ok_def)
  moreover have "roster d' = roster d" using d by (intro roster_cong) simp
  ultimately show ?thesis using t by simp
qed

lemma create_with_admin_roster:
  assumes "create_with_admin now tenant_id name p config d = Inr (tr, d')" and "team_tables_ok d"
  shows "team_tables_ok d' \<and> roster d (te_id (tr_team tr)) = Map.empty
    \<and> roster d' = (roster d)(te_id (tr_team tr) := [p \<mapsto> Admin])"
proof -
  obtain d1 d2 d3 d4 d5 m q c where s: "ensure_exists now p tenant_id d = Inr d1"
    "insert_team now tenant_id name d1 = Inr (tr_team tr, d2)"
    "add_member now (te_id (tr_team tr)) p ''admin'' d2 = Inr (m, d3)"
    "insert_policy (Some (te_id (tr_team tr))) ''All Access'' d3 = Inr (q, d4)"
    "create_permission now ''allowed_kinds'' config d4 = (c, d5)"
    "link_permission (po_id q) (perm_id c) d5 = Inr d'"
    using assms(1) unfolding create_with_admin_def
    by (auto simp: and_then_Inr_iff create_permission_def Let_def)
  let ?t = "te_id (tr_team tr)"
  have 1: "team_tables_ok d1" "roster d1 = roster d"
    using s(1) assms(2) by (auto intro: ensure_exists_same same_teams_ok same_teams_roster)
  have 2: "team_tables_ok d2" "roster d2 = roster d" "roster d ?t = Map.empty"
    using insert_team_ok [OF s(2) 1(1)] 1(2) by auto
  obtain role where 3: "decode_role ''admin'' = Inr role" "team_tables_ok d3"
    "roster d3 = (roster d2)(?t := (roster d2 ?t)(p \<mapsto> role))"
    using add_member_roster [OF s(3) 2(1)] by metis
  have "same_teams d3 d'"
    using s(4-6) by (meson same_teams_trans same_teams_intros)
  then show ?thesis using 2 3 by (auto intro: same_teams_ok dest: same_teams_roster)
qed

section \<open>The specification\<close>

text \<open>
  The changes a caller may make to the rosters. \<open>full\<close> says whether the server's configuration makes
  the caller an administrator of everything, \<open>invited\<close> which memberships the caller holds an
  invitation for, \<open>deletes\<close> which team the request asks to delete.
\<close>

inductive roster_step :: "bool \<Rightarrow> pubkey \<Rightarrow> (int \<Rightarrow> team_user_role \<Rightarrow> bool) \<Rightarrow> (int \<Rightarrow> bool) \<Rightarrow> rosters \<Rightarrow> rosters \<Rightarrow> bool"
  for full caller invited deletes where
  unchanged: "roster_step full caller invited deletes R R"
| create: "R t = Map.empty \<Longrightarrow> roster_step full caller invited deletes R (R(t := [caller \<mapsto> Admin]))"
| add: "full \<or> R t caller = Some Admin \<Longrightarrow> R t p = None \<Longrightarrow> roster_step full caller invited deletes R (R(t := (R t)(p \<mapsto> role)))"
| accept: "invited t role \<Longrightarrow> R t caller = None \<Longrightarrow> roster_step full caller invited deletes R (R(t := (R t)(caller \<mapsto> role)))"
| remove: "full \<or> R t caller = Some Admin \<Longrightarrow> (p = caller \<Longrightarrow> \<exists>q. q \<noteq> caller \<and> R t q = Some Admin)
    \<Longrightarrow> roster_step full caller invited deletes R (R(t := (R t)(p := None)))"
| dissolve: "deletes t \<Longrightarrow> full \<or> R t caller = Some Admin \<Longrightarrow> roster_step full caller invited deletes R (R(t := Map.empty))"

text \<open>The requests that change something, with what they draw from outside.\<close>

datatype 'j team_op =
    CreateTeam string
  | UpdateTeam int string
  | DeleteTeam int
  | AddUser int string team_user_role
  | RemoveUser int string
  | AddKey int string string
  | RemoveKey int string
  | AddAuthorization int string add_authorization_request "(string \<times> string) option"
  | DeleteAuthorization int string int
  | AddPolicy int string "(string \<times> 'j) list"
  | InviteUser int "string option" string team_user_role string "profile option"
  | RevokeInvitation int int
  | AcceptInvitation string

fun team_step :: "'j team_world \<Rightarrow> timestamp \<Rightarrow> int \<Rightarrow> ucan_auth \<Rightarrow> 'j team_op \<Rightarrow> 'j api \<Rightarrow> 'j api" where
  "team_step W now tenant_id auth (CreateTeam name) s = snd (create_team W now tenant_id auth name s)"
| "team_step W now tenant_id auth (UpdateTeam t name) s = snd (update_team W now tenant_id auth t name s)"
| "team_step W now tenant_id auth (DeleteTeam t) s = snd (delete_team W tenant_id auth t s)"
| "team_step W now tenant_id auth (AddUser t p role) s = snd (add_user W now tenant_id auth t p role s)"
| "team_step W now tenant_id auth (RemoveUser t p) s = snd (remove_user W tenant_id auth t p s)"
| "team_step W now tenant_id auth (AddKey t name key) s = snd (add_key W now tenant_id auth t name key s)"
| "team_step W now tenant_id auth (RemoveKey t p) s = snd (remove_key W tenant_id auth t p s)"
| "team_step W now tenant_id auth (AddAuthorization t p q pair) s = snd (add_authorization W now tenant_id auth t p q pair s)"
| "team_step W now tenant_id auth (DeleteAuthorization t p i) s = snd (delete_authorization W tenant_id auth t p i s)"
| "team_step W now tenant_id auth (AddPolicy t name ps) s = snd (add_policy W now tenant_id auth t name ps s)"
| "team_step W now tenant_id auth (InviteUser t ip email role tok prof) s =
     snd (invite_user W now tenant_id auth t ip email role tok prof s)"
| "team_step W now tenant_id auth (RevokeInvitation t i) s = snd (revoke_invitation W now tenant_id auth t i s)"
| "team_step W now tenant_id auth (AcceptInvitation tok) s = snd (accept_invitation W now tenant_id auth tok s)"

text \<open>The caller's key is in the canonical text form, as every session has it.\<close>

definition canonical :: "'j team_world \<Rightarrow> pubkey \<Rightarrow> bool" where
  "canonical W p \<longleftrightarrow> pk_from_hex (x_perm (mx W)) p = Inr p"

definition invited_to :: "'j team_world \<Rightarrow> timestamp \<Rightarrow> int \<Rightarrow> ucan_auth \<Rightarrow> 'j api \<Rightarrow> int \<Rightarrow> team_user_role \<Rightarrow> bool" where
  "invited_to W now tenant_id auth s t role \<longleftrightarrow>
     (\<exists>i\<in>set (rows (ap_invitations s)). ti_team_id i = t \<and> decode_role (ti_role i) = Inr role
        \<and> is_pending now i \<and> ti_tenant_id i = tenant_id
        \<and> (\<exists>email. get_email (ua_pubkey auth) tenant_id (ap_db s) = Inr email
              \<and> to_lowercase W email = to_lowercase W (ti_email i)))"

section \<open>Refinement\<close>

lemma verify_admin_Inr:
  assumes "verify_admin W c t tenant_id d = Inr x" and "canonical W c" and "team_tables_ok d"
  shows "is_full_admin_by_pubkey W c \<or> roster d t c = Some Admin"
  using assms
  by (auto simp: verify_admin_def canonical_def and_then_Inr_iff is_team_admin_iff split: if_splits)

lemma with_db_cases:
  assumes "with_db s r = (res, s')"
  obtains (err) e where "r = Inl e" "res = Inl e" "s' = s"
    | (ok) x d where "r = Inr (x, d)" "res = Inr x" "s' = s\<lparr>ap_db := d\<rparr>"
  using assms by (auto simp: with_db_def split: sum.splits prod.splits)

text \<open>A handler that only runs a statement of the collection.\<close>

lemma with_db_same:
  assumes "\<And>x d'. r = Inr (x, d') \<Longrightarrow> same_teams (ap_db s) d'"
  shows "same_teams (ap_db s) (ap_db (snd (with_db s r)))"
  using assms by (auto simp: with_db_def split: sum.splits prod.splits)

lemma update_team_same: "same_teams (ap_db s) (ap_db (snd (update_team W now tenant_id auth t name s)))"
  unfolding update_team_def by (rule with_db_same) (auto simp: and_then_Inr_iff intro: same_teams_intros)

lemma add_key_same: "same_teams (ap_db s) (ap_db (snd (add_key W now tenant_id auth t name key s)))"
  unfolding add_key_def by (rule with_db_same) (auto simp: and_then_Inr_iff intro: same_teams_intros)

lemma remove_key_same: "same_teams (ap_db s) (ap_db (snd (remove_key W tenant_id auth t p s)))"
  unfolding remove_key_def by (rule with_db_same) (auto simp: and_then_Inr_iff intro: same_teams_intros)

lemma add_policy_same: "same_teams (ap_db s) (ap_db (snd (add_policy W now tenant_id auth t name ps s)))"
  unfolding add_policy_def by (rule with_db_same) (auto simp: and_then_Inr_iff intro: same_teams_intros)

lemma add_authorization_same: "same_teams (ap_db s) (ap_db (snd (add_authorization W now tenant_id auth t p q pair s)))"
  unfolding add_authorization_def
  by (auto simp: Let_def intro: auth_create_same split: sum.split option.split prod.split)

lemma delete_authorization_same: "same_teams (ap_db s) (ap_db (snd (delete_authorization W tenant_id auth t p i s)))"
  unfolding delete_authorization_def by (auto simp: same_teams_def split: sum.split prod.split)

lemma revoke_invitation_same: "same_teams (ap_db s) (ap_db (snd (revoke_invitation W now tenant_id auth t i s)))"
  unfolding revoke_invitation_def by (auto split: sum.split prod.split)

lemma send_invitation_same:
  "same_teams (ap_db s) (ap_db (snd (send_invitation W now tenant_id auth t email role tok prof s)))"
  unfolding send_invitation_def by (auto simp: Let_def split: sum.split option.split prod.split)

lemmas quiet_handlers =
  update_team_same add_key_same remove_key_same add_policy_same add_authorization_same delete_authorization_same
  revoke_invitation_same

text \<open>The two ways a member is added by somebody else.\<close>

lemma add_after_create:
  assumes "team_tables_ok (ap_db s)" and "roster (ap_db s) t q = None"
    and "with_db s (map_err f (find_or_create now tenant_id p (ap_db s))) = (Inr u, s1)"
    and "with_db s1 (map_err g (add_member now t q role_str (ap_db s1))) = (r, s2)"
  shows "team_tables_ok (ap_db s2)
    \<and> (roster (ap_db s2) = roster (ap_db s)
       \<or> (\<exists>role. roster (ap_db s2) = (roster (ap_db s))(t := (roster (ap_db s) t)(q \<mapsto> role))))"
proof -
  obtain d1 where d1: "find_or_create now tenant_id p (ap_db s) = Inr (u, d1)" "s1 = s\<lparr>ap_db := d1\<rparr>"
    using assms(3) by (elim with_db_cases) auto
  have same: "same_teams (ap_db s) d1" by (rule find_or_create_same [OF d1(1)])
  note ok1 = same_teams_ok [OF same assms(1)] and ro1 = same_teams_roster [OF same]
  show ?thesis
    using assms(4)
  proof (cases rule: with_db_cases)
    case (err e)
    then show ?thesis using ok1 ro1 d1(2) by simp
  next
    case (ok x d)
    then have "add_member now t q role_str d1 = Inr (x, d)" using d1(2) by simp
    then show ?thesis using ok ro1 by (elim add_member_roster [OF _ ok1]) auto
  qed
qed

text \<open>Each endpoint that touches the roster, alone.\<close>

definition refines :: "'j team_world \<Rightarrow> timestamp \<Rightarrow> int \<Rightarrow> ucan_auth \<Rightarrow> (int \<Rightarrow> bool) \<Rightarrow> 'j api \<Rightarrow> 'j api \<Rightarrow> bool" where
  "refines W now tenant_id auth D s s' \<longleftrightarrow>
     team_tables_ok (ap_db s')
     \<and> roster_step (is_full_admin_by_pubkey W (ua_pubkey auth)) (ua_pubkey auth) (invited_to W now tenant_id auth s)
         D (roster (ap_db s)) (roster (ap_db s'))"

lemma refines_same:
  assumes "same_teams (ap_db s) (ap_db s')" and "team_tables_ok (ap_db s)"
  shows "refines W now tenant_id auth D s s'"
  using same_teams_ok [OF assms] same_teams_roster [OF assms(1)]
  by (simp add: refines_def roster_step.unchanged)

lemma create_team_refines:
  assumes "team_tables_ok (ap_db s)"
  shows "refines W now tenant_id auth D s (snd (create_team W now tenant_id auth name s))"
proof (cases "create_team W now tenant_id auth name s")
  case (Pair res s')
  have "refines W now tenant_id auth D s s'"
  proof (cases res)
    case (Inl e)
    then have "s' = s"
      using Pair by (auto simp: create_team_def with_db_def Let_def split: sum.splits if_splits prod.splits)
    then show ?thesis using assms by (simp add: refines_same)
  next
    case (Inr tr)
    then obtain config d where c: "create_with_admin now tenant_id name (ua_pubkey auth) config (ap_db s) = Inr (tr, d)"
      "s' = s\<lparr>ap_db := d\<rparr>"
      using Pair by (auto simp: create_team_def Let_def split: sum.splits if_splits elim!: with_db_cases)
    from create_with_admin_roster [OF c(1) assms] c(2) show ?thesis
      unfolding refines_def by (simp add: roster_step.create)
  qed
  then show ?thesis using Pair by simp
qed

lemma delete_team_refines:
  assumes "team_tables_ok (ap_db s)" and "canonical W (ua_pubkey auth)" and "D t"
  shows "refines W now tenant_id auth D s (snd (delete_team W tenant_id auth t s))"
proof -
  consider "snd (delete_team W tenant_id auth t s) = s"
    | x d where "verify_admin W (ua_pubkey auth) t tenant_id (ap_db s) = Inr x" "team_delete tenant_id t (ap_db s) = Inr d"
      "ap_db (snd (delete_team W tenant_id auth t s)) = d"
    by (cases "verify_admin W (ua_pubkey auth) t tenant_id (ap_db s)"; cases "team_delete tenant_id t (ap_db s)")
       (auto simp: delete_team_def)
  then show ?thesis
  proof cases
    case 1
    then show ?thesis using assms(1) by (simp add: refines_same)
  next
    case 2
    then show ?thesis
      using verify_admin_Inr [OF 2(1) assms(2,1)] team_delete_roster [OF assms(1) 2(2)]
      using assms(3) unfolding refines_def by (simp add: roster_step.dissolve)
  qed
qed

lemma remove_user_refines:
  assumes "team_tables_ok (ap_db s)" and "canonical W (ua_pubkey auth)"
  shows "refines W now tenant_id auth D s (snd (remove_user W tenant_id auth t user s))"
proof (cases "\<exists>x p. verify_admin W (ua_pubkey auth) t tenant_id (ap_db s) = Inr x \<and> pk_from_hex (x_perm (mx W)) user = Inr p
      \<and> \<not> (ua_pubkey auth = p \<and> count_other_admins t p (ap_db s) = 0)")
  case False
  then have "snd (remove_user W tenant_id auth t user s) = s"
    by (auto simp: remove_user_def and_then_def map_err_def split: sum.splits)
  then show ?thesis using assms(1) by (simp add: refines_same)
next
  case True
  let ?c = "ua_pubkey auth"
  obtain x p where p: "verify_admin W ?c t tenant_id (ap_db s) = Inr x" "pk_from_hex (x_perm (mx W)) user = Inr p"
    "\<not> (?c = p \<and> count_other_admins t p (ap_db s) = 0)"
    using True by blast
  from p(3) have "p = ?c \<Longrightarrow> \<exists>q. q \<noteq> ?c \<and> roster (ap_db s) t q = Some Admin"
    using count_other_admins_iff [OF assms(1)] by blast
  with verify_admin_Inr [OF p(1) assms(2,1)]
  have "roster_step (is_full_admin_by_pubkey W ?c) ?c (invited_to W now tenant_id auth s) D (roster (ap_db s))
      ((roster (ap_db s))(t := (roster (ap_db s) t)(p := None)))"
    by (intro roster_step.remove) blast+
  moreover have "snd (remove_user W tenant_id auth t user s) = s\<lparr>ap_db := remove_member t p (ap_db s)\<rparr>"
    unfolding remove_user_def p(1,2) using p(3) by auto
  ultimately show ?thesis
    using remove_member_roster [OF assms(1), of t p] unfolding refines_def by simp
qed

text \<open>Both endpoints that add a user they name: a failed check, a failed user row, or \<open>add_after_create\<close>.\<close>

lemma add_refines:
  assumes "team_tables_ok (ap_db s)" and "is_full_admin_by_pubkey W (ua_pubkey auth) \<or> roster (ap_db s) t (ua_pubkey auth) = Some Admin"
    and "\<not> is_member t q (ap_db s)"
    and "with_db s (map_err f (find_or_create now tenant_id p (ap_db s))) = (Inr u, s1)"
    and "with_db s1 (map_err g (add_member now t q role_str (ap_db s1))) = (r, s2)"
  shows "refines W now tenant_id auth D s s2"
proof -
  have n: "roster (ap_db s) t q = None" using assms(1,3) by (simp add: is_member_iff)
  show ?thesis
    using add_after_create [OF assms(1) n assms(4,5)] assms(2) n
    unfolding refines_def by (auto intro: roster_step.intros)
qed

lemma with_db_Inl: "with_db s r = (Inl e, s') \<Longrightarrow> s' = s"
  by (auto elim: with_db_cases)

lemma user_row_refines:
  assumes "with_db s (map_err f (find_or_create now tenant_id p (ap_db s))) = (Inr u, s1)" and "team_tables_ok (ap_db s)"
  shows "refines W now' tenant_id' auth D s s1"
proof (rule refines_same [OF _ assms(2)])
  show "same_teams (ap_db s) (ap_db s1)"
    using assms(1) by (elim with_db_cases) (auto intro: find_or_create_same)
qed

lemma add_user_refines:
  assumes "team_tables_ok (ap_db s)" and "canonical W (ua_pubkey auth)"
  shows "refines W now tenant_id auth D s (snd (add_user W now tenant_id auth t user role s))"
proof (cases "and_then (verify_admin W (ua_pubkey auth) t tenant_id (ap_db s)) (\<lambda>_.
             map_err ApiBadRequest (pk_from_hex (x_perm (mx W)) user))")
  case (Inl e)
  then have "snd (add_user W now tenant_id auth t user role s) = s" by (simp add: add_user_def)
  then show ?thesis using assms(1) by (simp add: refines_same)
next
  case (Inr p)
  then obtain x where "verify_admin W (ua_pubkey auth) t tenant_id (ap_db s) = Inr x" by (auto simp: and_then_Inr_iff)
  note gate = verify_admin_Inr [OF this assms(2,1)]
  show ?thesis
    using Inr assms(1) unfolding add_user_def
    by (auto split: sum.split prod.split intro: add_refines [OF assms(1) gate] user_row_refines refines_same dest!: with_db_Inl)
qed

lemma add_existing_user_refines:
  assumes "team_tables_ok (ap_db s)"
    and "is_full_admin_by_pubkey W (ua_pubkey auth) \<or> roster (ap_db s) t (ua_pubkey auth) = Some Admin"
  shows "refines W now tenant_id auth D s (snd (add_existing_user W now tenant_id t p role s))"
  using assms(1) unfolding add_existing_user_def
  by (auto split: sum.split prod.split intro: add_refines [OF assms] user_row_refines refines_same dest!: with_db_Inl)

lemma invite_user_refines:
  assumes "team_tables_ok (ap_db s)" and "canonical W (ua_pubkey auth)"
  shows "refines W now tenant_id auth D s (snd (invite_user W now tenant_id auth t ip email role tok prof s))"
proof (cases "verify_admin W (ua_pubkey auth) t tenant_id (ap_db s)")
  case (Inl e)
  then show ?thesis using assms(1) by (simp add: invite_user_def refines_same)
next
  case (Inr x)
  note gate = verify_admin_Inr [OF Inr assms(2,1)]
  have inv: "invited_to W now tenant_id auth (s\<lparr>ap_redis := k\<rparr>) = invited_to W now tenant_id auth s" for k
    by (intro ext) (simp add: invited_to_def)
  have ex: "refines W now tenant_id auth D s (snd (add_existing_user W now tenant_id t p r (s\<lparr>ap_redis := k\<rparr>)))" for p r k
    using add_existing_user_refines [of "s\<lparr>ap_redis := k\<rparr>" W auth t now tenant_id D p r] assms(1) gate inv
    by (simp add: refines_def)
  have se: "refines W now tenant_id auth D s (snd (send_invitation W now tenant_id auth t m r tok prof (s\<lparr>ap_redis := k\<rparr>)))" for m r k
    using send_invitation_same [of "s\<lparr>ap_redis := k\<rparr>"] assms(1) by (intro refines_same) simp_all
  have same: "refines W now tenant_id auth D s (s\<lparr>ap_redis := k\<rparr>)" for k
    using assms(1) by (intro refines_same) simp_all
  show ?thesis
    unfolding invite_user_def Inr using ex se same
    by (auto simp: Let_def split: prod.split sum.split option.split) (metis snd_conv)+
qed

lemma usable_invitation_Inr:
  "usable_invitation now tenant_id tok s = Inr i \<Longrightarrow>
     i \<in> set (rows (ap_invitations s)) \<and> ti_token i = tok \<and> is_pending now i \<and> ti_tenant_id i = tenant_id"
  by (auto simp: usable_invitation_def and_then_Inr_iff find_valid_by_token_def ti_unresolved_def is_pending_def
        split: if_splits dest!: fetch_optional_Some)

lemma accept_invitation_cases:
  assumes "accept_invitation W now tenant_id auth tok s = (res, s')"
  obtains (refused) e where "res = Inl e" "s' = s"
    | (added) i m d email where "i \<in> set (rows (ap_invitations s))" "ti_token i = tok" "is_pending now i"
      "ti_tenant_id i = tenant_id" "get_email (ua_pubkey auth) tenant_id (ap_db s) = Inr email"
      "to_lowercase W email = to_lowercase W (ti_email i)"
      "add_member now (ti_team_id i) (ua_pubkey auth) (ti_role i) (ap_db s) = Inr (m, d)"
      "res = Inr (ti_team_id i, ti_role i)"
      "s' = s\<lparr>ap_db := d, ap_invitations := snd (invitation_accept now tok (ua_pubkey auth) (ap_invitations s))\<rparr>"
proof -
  let ?g = "and_then (usable_invitation now tenant_id tok s) (\<lambda>i.
           and_then (map_err (\<lambda>_. ApiBadRequest ''Could not retrieve your email address'')
                      (get_email (ua_pubkey auth) tenant_id (ap_db s))) (\<lambda>user_email.
             if to_lowercase W user_email \<noteq> to_lowercase W (ti_email i)
             then Inl (ApiForbidden ''This invitation was sent to a different email address'')
             else if is_member (ti_team_id i) (ua_pubkey auth) (ap_db s)
             then Inl (ApiConflict ''You are already a member of this team'') else Inr i))"
  show thesis
  proof (cases ?g)
    case (Inl e)
    with assms show thesis unfolding accept_invitation_def Inl by (auto intro: refused)
  next
    case (Inr i)
    then obtain email where u: "usable_invitation now tenant_id tok s = Inr i"
      "get_email (ua_pubkey auth) tenant_id (ap_db s) = Inr email" "to_lowercase W email = to_lowercase W (ti_email i)"
      by (auto simp: and_then_Inr_iff split: if_splits)
    note i = usable_invitation_Inr [OF u(1)]
    have "is_set (fetch_optional (acceptable now tok) (rows (ap_invitations s)))"
      using i fetch_optional_None [of "acceptable now tok" "rows (ap_invitations s)"]
      by (auto simp: is_set_iff acceptable_def ti_unresolved_def is_pending_def)
    then obtain r tab where a: "invitation_accept now tok (ua_pubkey auth) (ap_invitations s) = (Inr r, tab)"
      by (auto simp: is_set_iff invitation_accept_def Let_def)
    show thesis
    proof (cases "add_member now (ti_team_id i) (ua_pubkey auth) (ti_role i) (ap_db s)")
      case (Inl e)
      with assms show thesis unfolding accept_invitation_def \<open>?g = Inr i\<close> by (auto simp: with_db_def intro: refused)
    next
      case (Inr md)
      obtain m d where md: "add_member now (ti_team_id i) (ua_pubkey auth) (ti_role i) (ap_db s) = Inr (m, d)"
        using Inr by (cases md) auto
      have "accept_invitation W now tenant_id auth tok s
          = (Inr (ti_team_id i, ti_role i), s\<lparr>ap_db := d, ap_invitations := tab\<rparr>)"
        unfolding accept_invitation_def \<open>?g = Inr i\<close> by (simp add: md with_db_def a)
      then show thesis using assms added [of i email m d] i u md a by simp
    qed
  qed
qed

lemma accept_invitation_refines:
  assumes "team_tables_ok (ap_db s)"
  shows "refines W now tenant_id auth D s (snd (accept_invitation W now tenant_id auth tok s))"
proof (cases "accept_invitation W now tenant_id auth tok s")
  case (Pair res s')
  then show ?thesis
  proof (cases rule: accept_invitation_cases)
    case (refused e)
    then show ?thesis using assms Pair by (simp add: refines_same)
  next
    case (added i m d email)
    obtain role where r: "decode_role (ti_role i) = Inr role" "roster (ap_db s) (ti_team_id i) (ua_pubkey auth) = None"
      "team_tables_ok d" "roster d = (roster (ap_db s))(ti_team_id i := (roster (ap_db s) (ti_team_id i))(ua_pubkey auth \<mapsto> role))"
      using added(7) by (rule add_member_roster [OF _ assms])
    have "invited_to W now tenant_id auth s (ti_team_id i) role"
      using added(1-6) r(1) unfolding invited_to_def by blast
    from roster_step.accept [where invited = "invited_to W now tenant_id auth s" and R = "roster (ap_db s)", OF this r(2)]
    show ?thesis using Pair added(9) r(3,4) by (simp add: refines_def)
  qed
qed

lemma team_step_refines:
  assumes "team_tables_ok (ap_db s)" and "canonical W (ua_pubkey auth)"
  shows "refines W now tenant_id auth (\<lambda>t. op = DeleteTeam t) s (team_step W now tenant_id auth op s)"
  using assms
  by (cases op)
     (auto intro: refines_same quiet_handlers create_team_refines delete_team_refines add_user_refines
        remove_user_refines invite_user_refines accept_invitation_refines)

section \<open>Runs\<close>

text \<open>Requests one after the other, each with its time, its tenant and its caller.\<close>

type_synonym 'j team_request = "timestamp \<times> int \<times> ucan_auth \<times> 'j team_op"

fun team_run :: "'j team_world \<Rightarrow> 'j team_request list \<Rightarrow> 'j api \<Rightarrow> 'j api" where
  "team_run W [] s = s"
| "team_run W ((now, tenant_id, auth, op) # rqs) s = team_run W rqs (team_step W now tenant_id auth op s)"

definition has_admin :: "rosters \<Rightarrow> int \<Rightarrow> bool" where
  "has_admin R t \<longleftrightarrow> (\<exists>p. R t p = Some Admin)"

lemma has_admin_join:
  assumes "has_admin R t" and "R t' p = None"
  shows "has_admin (R(t' := (R t')(p \<mapsto> role))) t"
proof -
  obtain q where "R t q = Some Admin" using assms(1) by (auto simp: has_admin_def)
  moreover from this assms(2) have "t = t' \<Longrightarrow> q \<noteq> p" by auto
  ultimately show ?thesis unfolding has_admin_def by (intro exI [of _ q]) auto
qed

text \<open>A caller without the configured role cannot take the last administrator away.\<close>

lemma roster_step_keeps_admin:
  assumes "roster_step full caller invited deletes R R'" and "\<not> full" and "\<not> deletes t" and "has_admin R t"
  shows "has_admin R' t"
  using assms
proof (cases rule: roster_step.cases)
  case (create t')
  then show ?thesis using assms(4) by (auto simp: has_admin_def)
next
  case (add t' p role)
  then show ?thesis using assms(4) by (simp add: has_admin_join)
next
  case (accept t' role)
  then show ?thesis using assms(4) by (simp add: has_admin_join)
next
  case (remove t' p)
  then show ?thesis using assms(2,4) by (cases "p = caller") (auto simp: has_admin_def)
next
  case (dissolve t')
  then show ?thesis using assms(3,4) by (auto simp: has_admin_def)
qed simp

fun op_team :: "'j team_op \<Rightarrow> int option" where
  "op_team (CreateTeam name) = None"
| "op_team (UpdateTeam t name) = Some t"
| "op_team (DeleteTeam t) = Some t"
| "op_team (AddUser t p role) = Some t"
| "op_team (RemoveUser t p) = Some t"
| "op_team (AddKey t name key) = Some t"
| "op_team (RemoveKey t p) = Some t"
| "op_team (AddAuthorization t p q pair) = Some t"
| "op_team (DeleteAuthorization t p i) = Some t"
| "op_team (AddPolicy t name ps) = Some t"
| "op_team (InviteUser t ip email role tok prof) = Some t"
| "op_team (RevokeInvitation t i) = Some t"
| "op_team (AcceptInvitation tok) = None"

lemma verify_admin_refuses:
  assumes "team_tables_ok d" and "canonical W c" and "\<not> is_full_admin_by_pubkey W c" and "roster d t c \<noteq> Some Admin"
  shows "verify_admin W c t tenant_id d = Inl (ApiForbidden ''You are not authorized to access this team'')"
  using assms by (simp add: verify_admin_def canonical_def is_team_admin_iff)

section \<open>Batched reads\<close>

lemma filter_permission_rows:
  "filter (\<lambda>r. fst r = i) (permission_rows ids d) = (if i \<in> set ids then permission_rows [i] d else [])"
proof -
  have "filter (\<lambda>r. fst r = i) (concat (map (\<lambda>l. map (Pair (pp_policy_id l)) (f l)) (filter (\<lambda>l. pp_policy_id l \<in> set ids) ls)))
      = (if i \<in> set ids then concat (map (\<lambda>l. map (Pair (pp_policy_id l)) (f l)) (filter (\<lambda>l. pp_policy_id l \<in> set [i]) ls)) else [])"
    for f :: "policy_permission \<Rightarrow> 'a permission list" and ls
    by (induction ls) (auto simp: filter_map comp_def)
  then show ?thesis by (simp add: permission_rows_def fetch_all_def)
qed

lemma group_permissions_batch:
  "po_id p \<in> set ids \<Longrightarrow> group_permissions (permission_rows ids d) p = group_permissions (permission_rows [po_id p] d) p"
  by (simp add: group_permissions_def filter_permission_rows)

lemma policies_batch:
  assumes "t \<in> set ids"
  shows "filter (\<lambda>p. po_team_id (pw_policy p) = Some t) (get_policies_with_permissions_batch ids d)
       = get_policies_with_permissions t d"
proof -
  let ?ps = "fetch_all (\<lambda>p. case po_team_id p of Some t \<Rightarrow> t \<in> set ids | None \<Rightarrow> False) (db_policies d)"
  let ?one = "\<lambda>p. group_permissions (permission_rows [po_id p] d) p"
  have g: "get_policies_with_permissions_batch ids d = map ?one ?ps"
    using assms by (auto simp: get_policies_with_permissions_batch_def Let_def intro!: group_permissions_batch)
  have s: "get_policies_with_permissions t d = map ?one (policy_list_by_team t d)"
    by (auto simp: get_policies_with_permissions_def Let_def intro!: group_permissions_batch)
  have "filter (\<lambda>p. po_team_id p = Some t) ?ps = policy_list_by_team t d"
    using assms by (auto simp: policy_list_by_team_def fetch_all_def intro!: filter_cong split: option.splits)
  then show ?thesis unfolding g s by (simp add: filter_map comp_def group_permissions_def)
qed

lemma member_of_row_ok:
  assumes "team_tables_ok d" and "m \<in> set (db_team_users d)"
  shows "\<exists>tm. member_of_row d m = Inr tm \<and> tm_team_id tm = tu_team_id m"
  using assms by (auto simp: team_tables_ok_def member_of_row_def)

lemma members_ok:
  assumes "team_tables_ok d"
  shows "collect_results (map (member_of_row d) (fetch_all P (db_team_users d)))
       = Inr (map (\<lambda>m. projr (member_of_row d m)) (fetch_all P (db_team_users d)))"
proof -
  have "map (member_of_row d) (fetch_all P (db_team_users d)) = map Inr (map (\<lambda>m. projr (member_of_row d m)) (fetch_all P (db_team_users d)))"
    using member_of_row_ok [OF assms] by (force simp: fetch_all_def)
  then show ?thesis by (simp only: collect_results_map_Inr)
qed

lemma user_teams_eq:
  assumes "team_tables_ok d"
  shows "user_teams tenant_id pubkey d
       = collect_results (map (\<lambda>t. find_with_relations tenant_id (te_id t) d)
           (fetch_all (\<lambda>t. te_tenant_id t = tenant_id
              \<and> exists_row (\<lambda>m. tu_team_id m = te_id t \<and> tu_user_pubkey m = pubkey) (db_team_users d)) (db_teams d)))"
proof -
  let ?ts = "fetch_all (\<lambda>t. te_tenant_id t = tenant_id
      \<and> exists_row (\<lambda>m. tu_team_id m = te_id t \<and> tu_user_pubkey m = pubkey) (db_team_users d)) (db_teams d)"
  let ?ids = "map te_id ?ts" and ?row = "\<lambda>m. projr (member_of_row d m)"
  let ?ms = "map ?row (fetch_all (\<lambda>m. tu_team_id m \<in> set ?ids) (db_team_users d))"
  let ?keys = "fetch_all (\<lambda>k. sk_tenant_id k = tenant_id \<and> sk_team_id k \<in> set ?ids) (db_stored_keys d)"
  let ?one = "\<lambda>t. \<lparr>tr_team = t, tr_team_users = filter (\<lambda>m. tm_team_id m = te_id t) ?ms,
      tr_stored_keys = map public_key_of (filter (\<lambda>k. sk_team_id k = te_id t) ?keys),
      tr_policies = filter (\<lambda>p. po_team_id (pw_policy p) = Some (te_id t)) (get_policies_with_permissions_batch ?ids d)\<rparr>"
  have each: "find_with_relations tenant_id (te_id t) d = Inr (?one t)" if t: "t \<in> set ?ts" for t
  proof -
    have "fetch_optional (\<lambda>q. te_tenant_id q = tenant_id \<and> te_id q = te_id t) (db_teams d) = Some t"
    proof -
      obtain q where q: "fetch_optional (\<lambda>q. te_tenant_id q = tenant_id \<and> te_id q = te_id t) (db_teams d) = Some q"
        using fetch_optional_ex [of t "db_teams d" "\<lambda>q. te_tenant_id q = tenant_id \<and> te_id q = te_id t"] t
        by (auto simp: sql_simps)
      from fetch_optional_Some [OF q] have "q \<in> set (db_teams d)" "te_id q = te_id t" by auto
      then have "q = t" using t assms by (auto simp: team_tables_ok_def distinct_map sql_simps dest: inj_onD)
      with q show ?thesis by simp
    qed
    then have f: "team_find tenant_id (te_id t) d = Inr t" by (simp add: team_find_def fetch_one_def)
    have i: "te_id t \<in> set ?ids" using t by simp
    have tm: "tm_team_id (?row m) = tu_team_id m" if "m \<in> set (db_team_users d)" for m
      using member_of_row_ok [OF assms that] by auto
    have m: "map ?row (fetch_all (\<lambda>m. tu_team_id m = te_id t) (db_team_users d)) = filter (\<lambda>m. tm_team_id m = te_id t) ?ms"
    proof -
      have "filter (\<lambda>m. tm_team_id (?row m) = te_id t) (fetch_all (\<lambda>m. tu_team_id m \<in> set ?ids) (db_team_users d))
          = fetch_all (\<lambda>m. tu_team_id m = te_id t) (db_team_users d)"
        unfolding fetch_all_def filter_filter by (rule filter_cong [OF refl]) (use i tm in \<open>metis fetch_all_def\<close>)
      then show ?thesis by (simp only: filter_map comp_def)
    qed
    have k: "stored_keys_of tenant_id (te_id t) d = filter (\<lambda>k. sk_team_id k = te_id t) ?keys"
      using i by (auto simp: stored_keys_of_def fetch_all_def intro!: filter_cong)
    show ?thesis
      unfolding find_with_relations_def team_members_def f members_ok [OF assms] policies_batch [OF i, symmetric] k m [symmetric]
      by simp
  qed
  have r: "map (\<lambda>t. find_with_relations tenant_id (te_id t) d) ?ts = map Inr (map ?one ?ts)"
    using each by simp
  have "user_teams tenant_id pubkey d = Inr (map ?one ?ts)"
    unfolding user_teams_def Let_def members_ok [OF assms] by simp
  then show ?thesis unfolding r collect_results_map_Inr by simp
qed

section \<open>Properties\<close>

text \<open>
  C26. Every request on teams refines the specification of the rosters: members are added and removed,
  and teams dissolved, only by an administrator of the team or one of the whole server; a member
  joins without them only on a pending invitation to the address of its account; who creates a
  team is its only member; and nobody removes itself as the last administrator.
\<close>

theorem team_requests_refine_rosters:
  assumes "team_tables_ok (ap_db s)" and "canonical W (ua_pubkey auth)"
  shows "team_tables_ok (ap_db (team_step W now tenant_id auth op s))
    \<and> roster_step (is_full_admin_by_pubkey W (ua_pubkey auth)) (ua_pubkey auth) (invited_to W now tenant_id auth s)
        (\<lambda>t. op = DeleteTeam t) (roster (ap_db s)) (roster (ap_db (team_step W now tenant_id auth op s)))"
  using team_step_refines [OF assms] unfolding refines_def .

text \<open>A world and a team for the witnesses: alice administers team 1, bob is a member.\<close>

definition sample_token_world :: "jv token_world" where
  "sample_token_world =
     \<lparr>tw_http = sample_http, tw_sha256 = id, tw_s256 = id, keys_parse = (\<lambda>s. Inr [3]), url_parse = (\<lambda>_. None),
      url_encode = id, bs58_encode = (\<lambda>_. []), pk_to_bytes = (\<lambda>_. []), ucan_sign = (\<lambda>_ _ _. Inl ''no''),
      bunker_relays_env = Some ''wss://r.example'', token_expiry_seconds = 86400\<rparr>"

definition TW0 :: "jv team_world" where
  "TW0 =
     \<lparr>tmw_token = sample_token_world, tmw_auth = A0, to_lowercase = id, email_key = id, parse_ip = Some, ip_limit = 60,
      default_kinds_config = Inr JNull, relays_to_json = (\<lambda>_. Inr ''[]''), key_manager_up = True, mail_up = True,
      invite_base_url = ''https://k.example''\<rparr>"

definition sample_team :: team where
  "sample_team = \<lparr>te_id = 1, te_tenant_id = 1, te_name = ''diner'', te_created_at = 5, te_updated_at = 5\<rparr>"

definition sample_member :: "pubkey \<Rightarrow> string \<Rightarrow> team_user" where
  "sample_member p role = \<lparr>tu_team_id = 1, tu_user_pubkey = p, tu_role = role, tu_created_at = 5, tu_updated_at = 5\<rparr>"

definition sample_api :: "jv api" where
  "sample_api =
     \<lparr>ap_db = empty_db\<lparr>db_users := [(blank_user ''alice'' 1 5)\<lparr>us_email := Some ''a@example.com''\<rparr>,
                                   (blank_user ''bob'' 1 5)\<lparr>us_email := Some ''b@example.com''\<rparr>],
          db_teams := [sample_team], db_teams_seq := 2,
          db_team_users := [sample_member ''alice'' ''admin'', sample_member ''bob'' ''member'']\<rparr>,
      ap_invitations = \<lparr>rows = [], seq = 1\<rparr>, ap_redis = empty_redis, ap_outbox = []\<rparr>"

definition session_of :: "pubkey \<Rightarrow> ucan_auth" where
  "session_of p = \<lparr>ua_pubkey = p, ua_admin_role = None\<rparr>"

lemma sample_tables_ok: "team_tables_ok (ap_db sample_api)"
  by (simp add: team_tables_ok_def sample_api_def sample_member_def sample_team_def member_key_def)

lemma sample_canonical: "canonical TW0 p"
  by (simp add: canonical_def TW0_def sample_token_world_def sample_http_def X0_def sample_ext_def sample_perm_ext_def)

lemma not_full_admin [simp]: "\<not> is_full_admin_by_pubkey TW0 ''alice''" "\<not> is_full_admin_by_pubkey TW0 ''bob''"
  by code_simp+

theorem team_requests_refine_rosters_witness:
  "roster_step False ''alice'' (invited_to TW0 9 1 (session_of ''alice'') sample_api) (\<lambda>_. False) (roster (ap_db sample_api))
     (roster (ap_db (team_step TW0 9 1 (session_of ''alice'') (AddUser 1 ''carol'' Member) sample_api)))
   \<and> roster (ap_db (team_step TW0 9 1 (session_of ''alice'') (AddUser 1 ''carol'' Member) sample_api)) 1 ''carol'' = Some Member"
proof
  show "roster_step False ''alice'' (invited_to TW0 9 1 (session_of ''alice'') sample_api) (\<lambda>_. False) (roster (ap_db sample_api))
     (roster (ap_db (team_step TW0 9 1 (session_of ''alice'') (AddUser 1 ''carol'' Member) sample_api)))"
    using team_requests_refine_rosters [OF sample_tables_ok, of TW0 "session_of ''alice''" 9 1 "AddUser 1 ''carol'' Member"]
    by (simp add: sample_canonical session_of_def)
  show "roster (ap_db (team_step TW0 9 1 (session_of ''alice'') (AddUser 1 ''carol'' Member) sample_api)) 1 ''carol'' = Some Member"
    by code_simp
qed





text \<open>
  Reading all teams of a user in one query per table, and grouping, gives the teams that reading
  each of them alone gives: the same members, keys and policies with their permissions, in order.
\<close>

theorem user_teams_batched:
  assumes "team_tables_ok d"
  shows "user_teams tenant_id pubkey d
       = collect_results (map (\<lambda>t. find_with_relations tenant_id (te_id t) d)
           (fetch_all (\<lambda>t. te_tenant_id t = tenant_id
              \<and> exists_row (\<lambda>m. tu_team_id m = te_id t \<and> tu_user_pubkey m = pubkey) (db_team_users d)) (db_teams d)))"
  by (rule user_teams_eq [OF assms])

theorem user_teams_batched_witness:
  "user_teams 1 ''bob'' (ap_db sample_api) = collect_results [find_with_relations 1 1 (ap_db sample_api)]
   \<and> \<not> isl (find_with_relations 1 1 (ap_db sample_api))"
proof
  have "map (\<lambda>t. find_with_relations 1 (te_id t) (ap_db sample_api)) (fetch_all (\<lambda>t. te_tenant_id t = 1
      \<and> exists_row (\<lambda>m. tu_team_id m = te_id t \<and> tu_user_pubkey m = ''bob'') (db_team_users (ap_db sample_api)))
      (db_teams (ap_db sample_api))) = [find_with_relations 1 1 (ap_db sample_api)]"
    by (simp add: sample_api_def sample_team_def sample_member_def fetch_all_def exists_row_def)
  then show "user_teams 1 ''bob'' (ap_db sample_api) = collect_results [find_with_relations 1 1 (ap_db sample_api)]"
    using user_teams_batched [OF sample_tables_ok, of 1 "''bob''"] by simp
  show "\<not> isl (find_with_relations 1 1 (ap_db sample_api))" by code_simp
qed

text \<open>
  The limit on removals covers only a caller who removes itself: an administrator of the whole
  server who is not in the team removes its last administrator.
\<close>

theorem full_admin_removes_last_admin:
  "is_full_admin_by_pubkey TW0 ''root''
   \<and> fst (remove_user TW0 1 (session_of ''root'') 1 ''alice'' sample_api) = Inr ()
   \<and> count_other_admins 1 ''root'' (ap_db (team_step TW0 9 1 (session_of ''root'') (RemoveUser 1 ''alice'') sample_api)) = 0"
  by code_simp

end
