(* ===== verification/KeyManager.thy ===== *)
theory KeyManager
  imports Prelude
begin

text \<open>
  Encryption of stored keys (\<open>core/src/encryption\<close>): the interface \<open>KeyManager\<close> as a locale, the manager
  with a local AES-GCM key (\<open>file_key_manager.rs\<close>), the two on a cloud service with their retries
  (\<open>gcp_key_manager.rs\<close>, \<open>aws_key_manager.rs\<close>) and the cache in front of any of them
  (\<open>caching_key_manager.rs\<close>). AES-GCM, SHA-256 and the services are parameters; a manager's calls
  thread the state of what is behind it.
\<close>

datatype key_manager_error =
    LoadKey string
  | EncryptFailed string
  | DecryptFailed string
  | GenerateMasterKey string
  | ConfigurationError string
  | EncryptionError string
  | DecryptionError string

section \<open>The interface\<close>

text \<open>
  \<open>opens c p\<close> says that \<open>c\<close> is a cipher text of \<open>p\<close>; the calls keep an invariant of the manager's state,
  and a success is one of the specification. Nothing is promised of when a call succeeds.
\<close>

locale key_manager =
  fixes encrypt :: "bytes \<Rightarrow> 's \<Rightarrow> (key_manager_error + bytes) \<times> 's"
    and decrypt :: "bytes \<Rightarrow> 's \<Rightarrow> (key_manager_error + bytes) \<times> 's"
    and idle :: "'s \<Rightarrow> 's \<Rightarrow> bool"
    and opens :: "bytes \<Rightarrow> bytes \<Rightarrow> bool"
    and inv :: "'s \<Rightarrow> bool"
  assumes opens_unique: "opens c p \<Longrightarrow> opens c q \<Longrightarrow> p = q"
    and encrypt_opens: "inv s \<Longrightarrow> encrypt p s = (Inr c, s') \<Longrightarrow> opens c p"
    and decrypt_opens: "inv s \<Longrightarrow> decrypt c s = (Inr p, s') \<Longrightarrow> opens c p"
    and encrypt_inv: "inv s \<Longrightarrow> encrypt p s = (r, s') \<Longrightarrow> inv s'"
    and decrypt_inv: "inv s \<Longrightarrow> decrypt c s = (r, s') \<Longrightarrow> inv s'"
    and idle_inv: "inv s \<Longrightarrow> idle s s' \<Longrightarrow> inv s'"
begin

inductive step :: "'s \<Rightarrow> 's \<Rightarrow> bool" where
  enc: "encrypt p s = (r, s') \<Longrightarrow> step s s'"
| dec: "decrypt c s = (r, s') \<Longrightarrow> step s s'"
| idle: "idle s s' \<Longrightarrow> step s s'"

lemma steps_inv: "rtranclp step s s' \<Longrightarrow> inv s \<Longrightarrow> inv s'"
  by (induction rule: rtranclp_induct) (auto elim!: step.cases intro: encrypt_inv decrypt_inv idle_inv)

text \<open>What was encrypted is what any later successful decryption returns.\<close>

lemma roundtrip:
  assumes "inv s" and "encrypt p s = (Inr c, s1)" and "rtranclp step s1 s2" and "decrypt c s2 = (Inr q, s3)"
  shows "q = p"
proof -
  have "inv s2" using steps_inv [OF assms(3)] encrypt_inv [OF assms(1,2)] by blast
  then show ?thesis
    using opens_unique [of c q p] encrypt_opens [OF assms(1,2)] decrypt_opens [OF _ assms(4)] by blast
qed

lemma decrypts_agree:
  assumes "inv s" and "decrypt c s = (Inr p, s1)" and "rtranclp step s1 s2" and "decrypt c s2 = (Inr q, s3)"
  shows "q = p"
proof -
  have "inv s2" using steps_inv [OF assms(3)] decrypt_inv [OF assms(1,2)] by blast
  then show ?thesis
    using opens_unique [of c q p] decrypt_opens [OF assms(1,2)] decrypt_opens [OF _ assms(4)] by blast
qed

end

section \<open>A local key\<close>

text \<open>The cipher under the master key: nonce and text to cipher text, and back.\<close>

record aead =
  aes_encrypt :: "bytes \<Rightarrow> bytes \<Rightarrow> string + bytes"
  aes_decrypt :: "bytes \<Rightarrow> bytes \<Rightarrow> string + bytes"

text \<open>The key file: base-64 text of exactly 32 bytes.\<close>

definition load_key :: "(string \<Rightarrow> string + bytes) \<Rightarrow> string + string \<Rightarrow> key_manager_error + bytes" where
  "load_key decode file =
     and_then (map_err LoadKey file) (\<lambda>key_str.
     and_then (map_err LoadKey (decode (str_trim key_str))) (\<lambda>bs.
       if length bs = 32 then Inr bs else Inl (LoadKey ''Invalid key length'')))"

definition NONCE_LENGTH :: nat where
  "NONCE_LENGTH = 12"

text \<open>The state is the number of nonces drawn; \<open>nonces\<close> is the random source.\<close>

definition file_encrypt :: "aead \<Rightarrow> (nat \<Rightarrow> bytes) \<Rightarrow> bytes \<Rightarrow> nat \<Rightarrow> (key_manager_error + bytes) \<times> nat" where
  "file_encrypt C nonces plaintext n =
     (map_err EncryptFailed (and_then (aes_encrypt C (nonces n) plaintext) (\<lambda>ciphertext. Inr (nonces n @ ciphertext))),
      n + 1)"

definition file_decrypt :: "aead \<Rightarrow> bytes \<Rightarrow> nat \<Rightarrow> (key_manager_error + bytes) \<times> nat" where
  "file_decrypt C ciphertext n =
     (if length ciphertext < NONCE_LENGTH then (Inl (DecryptFailed ''Ciphertext too short''), n)
      else (map_err DecryptFailed (aes_decrypt C (take NONCE_LENGTH ciphertext) (drop NONCE_LENGTH ciphertext)), n))"

definition file_opens :: "aead \<Rightarrow> bytes \<Rightarrow> bytes \<Rightarrow> bool" where
  "file_opens C c p \<longleftrightarrow> aes_decrypt C (take NONCE_LENGTH c) (drop NONCE_LENGTH c) = Inr p"

text \<open>What AES-GCM documents: a text sealed under a nonce opens under it.\<close>

definition aead_ok :: "aead \<Rightarrow> bool" where
  "aead_ok C \<longleftrightarrow> (\<forall>n p ct. aes_encrypt C n p = Inr ct \<longrightarrow> aes_decrypt C n ct = Inr p)"

interpretation local_key: key_manager "file_encrypt C nonces" "file_decrypt C" "\<lambda>_ _. False" "file_opens C"
    "\<lambda>_. aead_ok C \<and> (\<forall>n. length (nonces n) = NONCE_LENGTH)" for C nonces
proof
  fix p n c n'
  assume ok: "aead_ok C \<and> (\<forall>n. length (nonces n) = NONCE_LENGTH)" and "file_encrypt C nonces p n = (Inr c, n')"
  then obtain ct where "aes_encrypt C (nonces n) p = Inr ct" "c = nonces n @ ct"
    by (auto simp: file_encrypt_def and_then_Inr_iff)
  then show "file_opens C c p" using ok by (simp add: file_opens_def aead_ok_def)
next
  fix p n c n'
  assume "file_decrypt C c n = (Inr p, n')"
  then show "file_opens C c p" by (auto simp: file_decrypt_def file_opens_def split: if_splits)
qed (auto simp: file_opens_def)

section \<open>Cloud services\<close>

definition MAX_KMS_RETRIES :: nat where
  "MAX_KMS_RETRIES = 3"

definition KMS_BASE_DELAY_MS :: nat where
  "KMS_BASE_DELAY_MS = 100"

text \<open>
  The loop around a call: \<open>attempt\<close> counts the calls made before it, \<open>slept\<close> the milliseconds waited so
  far. The service's state is threaded through the calls.
\<close>

function kms_retry ::
    "('s \<Rightarrow> (string + 'r) \<times> 's) \<Rightarrow> nat \<Rightarrow> nat \<Rightarrow> 's \<Rightarrow> (nat \<times> string + 'r) \<times> nat \<times> nat \<times> 's" where
  "kms_retry send attempt slept s =
     (case send s of
        (Inr resp, s') \<Rightarrow> (Inr resp, attempt + 1, slept, s')
      | (Inl e, s') \<Rightarrow>
          if attempt + 1 < MAX_KMS_RETRIES
          then kms_retry send (attempt + 1) (slept + KMS_BASE_DELAY_MS * 2 ^ attempt) s'
          else (Inl (attempt + 1, e), attempt + 1, slept, s'))"
  by pat_completeness auto
termination by (relation "measure (\<lambda>(_, attempt, _, _). MAX_KMS_RETRIES - attempt)") (auto simp: MAX_KMS_RETRIES_def)

declare kms_retry.simps [simp del]

text \<open>
  \<open>label\<close> is the name of the service in the message; a response may lack its field, which the Google
  client has no case for.
\<close>

record 's kms =
  kms_encrypt :: "string \<Rightarrow> bytes \<Rightarrow> 's \<Rightarrow> (string + bytes option) \<times> 's"
  kms_decrypt :: "string \<Rightarrow> bytes \<Rightarrow> 's \<Rightarrow> (string + bytes option) \<times> 's"

definition kms_failure :: "string \<Rightarrow> string \<Rightarrow> nat \<times> string \<Rightarrow> string" where
  "kms_failure label what = (\<lambda>(attempt, e).
     label @ '' '' @ what @ '' failed after '' @ show_nat attempt @ '' attempts: '' @ e)"

definition cloud_encrypt :: "string \<Rightarrow> 's kms \<Rightarrow> string \<Rightarrow> bytes \<Rightarrow> 's \<Rightarrow> (key_manager_error + bytes) \<times> 's" where
  "cloud_encrypt label K key_name plaintext s =
     (case kms_retry (kms_encrypt K key_name plaintext) 0 0 s of
        (Inl f, _, _, s') \<Rightarrow> (Inl (EncryptionError (kms_failure label ''encryption'' f)), s')
      | (Inr resp, _, _, s') \<Rightarrow> (ok_or (EncryptionError ''No ciphertext in response'') resp, s'))"

definition cloud_decrypt :: "string \<Rightarrow> 's kms \<Rightarrow> string \<Rightarrow> bytes \<Rightarrow> 's \<Rightarrow> (key_manager_error + bytes) \<times> 's" where
  "cloud_decrypt label K key_name ciphertext s =
     (case kms_retry (kms_decrypt K key_name ciphertext) 0 0 s of
        (Inl f, _, _, s') \<Rightarrow> (Inl (DecryptionError (kms_failure label ''decryption'' f)), s')
      | (Inr resp, _, _, s') \<Rightarrow> (ok_or (DecryptionError ''No plaintext in response'') resp, s'))"

definition gcp_key_name :: "string \<Rightarrow> string \<Rightarrow> string \<Rightarrow> string \<Rightarrow> string" where
  "gcp_key_name project_id location key_ring key =
     ''projects/'' @ project_id @ ''/locations/'' @ location @ ''/keyRings/'' @ key_ring @ ''/cryptoKeys/'' @ key"

definition gcp_encrypt :: "'s kms \<Rightarrow> string \<Rightarrow> bytes \<Rightarrow> 's \<Rightarrow> (key_manager_error + bytes) \<times> 's" where
  "gcp_encrypt = cloud_encrypt ''KMS''"

definition gcp_decrypt :: "'s kms \<Rightarrow> string \<Rightarrow> bytes \<Rightarrow> 's \<Rightarrow> (key_manager_error + bytes) \<times> 's" where
  "gcp_decrypt = cloud_decrypt ''KMS''"

definition aws_encrypt :: "'s kms \<Rightarrow> string \<Rightarrow> bytes \<Rightarrow> 's \<Rightarrow> (key_manager_error + bytes) \<times> 's" where
  "aws_encrypt = cloud_encrypt ''AWS KMS''"

definition aws_decrypt :: "'s kms \<Rightarrow> string \<Rightarrow> bytes \<Rightarrow> 's \<Rightarrow> (key_manager_error + bytes) \<times> 's" where
  "aws_decrypt = cloud_decrypt ''AWS KMS''"

lemma kms_retry_eqs:
  "send s = (Inr resp, s') \<Longrightarrow> kms_retry send attempt slept s = (Inr resp, attempt + 1, slept, s')"
  "send s = (Inl e, s') \<Longrightarrow> attempt + 1 < MAX_KMS_RETRIES
     \<Longrightarrow> kms_retry send attempt slept s = kms_retry send (attempt + 1) (slept + KMS_BASE_DELAY_MS * 2 ^ attempt) s'"
  "send s = (Inl e, s') \<Longrightarrow> \<not> attempt + 1 < MAX_KMS_RETRIES
     \<Longrightarrow> kms_retry send attempt slept s = (Inl (attempt + 1, e), attempt + 1, slept, s')"
  by (simp_all add: kms_retry.simps [of send attempt slept s])

lemma kms_retry_from:
  assumes "kms_retry send attempt slept s = (r, calls, slept', s')"
    and "attempt < MAX_KMS_RETRIES" and "slept = (2 ^ attempt - 1) * KMS_BASE_DELAY_MS"
  shows "calls \<le> MAX_KMS_RETRIES \<and> slept' = (2 ^ (calls - 1) - 1) * KMS_BASE_DELAY_MS \<and> 0 < calls
    \<and> (isl r \<longrightarrow> calls = MAX_KMS_RETRIES)"
  using assms
proof (induction send attempt slept s rule: kms_retry.induct)
  case (1 send attempt slept s)
  obtain x s1 where x: "send s = (x, s1)" by force
  show ?case
  proof (cases x)
    case (Inr resp)
    then have "(r, calls, slept', s') = (Inr resp, attempt + 1, slept, s1)"
      using "1.prems"(1) kms_retry_eqs(1) [of send s resp s1 attempt slept] x by simp
    then show ?thesis using "1.prems"(2,3) by simp
  next
    case (Inl e)
    show ?thesis
    proof (cases "attempt + 1 < MAX_KMS_RETRIES")
      case True
      have "(1::nat) \<le> 2 ^ attempt" by simp
      then have s: "slept + KMS_BASE_DELAY_MS * 2 ^ attempt = (2 ^ (attempt + 1) - 1) * KMS_BASE_DELAY_MS"
        using "1.prems"(3) by (simp add: algebra_simps diff_mult_distrib)
      have "kms_retry send (attempt + 1) (slept + KMS_BASE_DELAY_MS * 2 ^ attempt) s1 = (r, calls, slept', s')"
        using "1.prems"(1) kms_retry_eqs(2) [of send s e s1 attempt slept] x Inl True by simp
      from "1.IH" [OF x [symmetric] Inl True this True s] show ?thesis .
    next
      case False
      then have "(r, calls, slept', s') = (Inl (attempt + 1, e), attempt + 1, slept, s1)"
        using "1.prems"(1) kms_retry_eqs(3) [of send s e s1 attempt slept] x Inl by auto
      then show ?thesis using "1.prems"(2,3) False by simp
    qed
  qed
qed

text \<open>A success of the loop is a success of one call, and an invariant of the service is kept.\<close>

lemma kms_retry_result:
  assumes "kms_retry send attempt slept s = (r, calls, slept', s')"
    and "\<forall>s1 r s2. I s1 \<longrightarrow> send s1 = (r, s2) \<longrightarrow> I s2" and "I s"
  shows "I s' \<and> (\<forall>resp. r = Inr resp \<longrightarrow> (\<exists>s1. I s1 \<and> send s1 = (Inr resp, s')))"
  using assms
proof (induction send attempt slept s rule: kms_retry.induct)
  case (1 send attempt slept s)
  obtain x s1 where x: "send s = (x, s1)" by force
  have I1: "I s1" using "1.prems"(2,3) x by blast
  show ?case
  proof (cases x)
    case (Inr resp)
    then have "(r, calls, slept', s') = (Inr resp, attempt + 1, slept, s1)"
      using "1.prems"(1) kms_retry_eqs(1) [of send s resp s1 attempt slept] x by simp
    then show ?thesis using I1 "1.prems"(3) x Inr by blast
  next
    case (Inl e)
    show ?thesis
    proof (cases "attempt + 1 < MAX_KMS_RETRIES")
      case True
      have "kms_retry send (attempt + 1) (slept + KMS_BASE_DELAY_MS * 2 ^ attempt) s1 = (r, calls, slept', s')"
        using "1.prems"(1) kms_retry_eqs(2) [of send s e s1 attempt slept] x Inl True by simp
      from "1.IH" [OF x [symmetric] Inl True this "1.prems"(2) I1] show ?thesis .
    next
      case False
      then have "(r, calls, slept', s') = (Inl (attempt + 1, e), attempt + 1, slept, s1)"
        using "1.prems"(1) kms_retry_eqs(3) [of send s e s1 attempt slept] x Inl by auto
      then show ?thesis using I1 by simp
    qed
  qed
qed

text \<open>
  What a service documents, as far as it is used here: a cipher text it issues opens to the text it
  was asked to seal, for as long as it opens at all. \<open>Op\<close> is the service's own relation, \<open>I\<close> an
  invariant of its state.
\<close>

definition kms_ok :: "'s kms \<Rightarrow> string \<Rightarrow> (bytes \<Rightarrow> bytes \<Rightarrow> bool) \<Rightarrow> ('s \<Rightarrow> bool) \<Rightarrow> bool" where
  "kms_ok K key_name Op I \<longleftrightarrow>
     (\<forall>c p q. Op c p \<longrightarrow> Op c q \<longrightarrow> p = q)
     \<and> (\<forall>s p r s'. I s \<longrightarrow> kms_encrypt K key_name p s = (r, s') \<longrightarrow> I s' \<and> (\<forall>c. r = Inr (Some c) \<longrightarrow> Op c p))
     \<and> (\<forall>s c r s'. I s \<longrightarrow> kms_decrypt K key_name c s = (r, s') \<longrightarrow> I s' \<and> (\<forall>p. r = Inr (Some p) \<longrightarrow> Op c p))"

definition cloud_opens :: "(bytes \<Rightarrow> bytes \<Rightarrow> bool) \<Rightarrow> bytes \<Rightarrow> bytes \<Rightarrow> bool" where
  "cloud_opens Op c p \<longleftrightarrow> Op c p \<and> (\<forall>q. Op c q \<longrightarrow> q = p)"

lemma kms_ok_opens: "kms_ok K key_name Op I \<Longrightarrow> Op c p \<Longrightarrow> cloud_opens Op c p"
  unfolding kms_ok_def cloud_opens_def by (elim conjE) blast

lemma kms_ok_encrypt:
  assumes "kms_ok K key_name Op I" and "I s" and "kms_encrypt K key_name p s = (r, s')"
  shows "I s' \<and> (\<forall>c. r = Inr (Some c) \<longrightarrow> Op c p)"
proof -
  have "\<forall>s p r s'. I s \<longrightarrow> kms_encrypt K key_name p s = (r, s') \<longrightarrow> I s' \<and> (\<forall>c. r = Inr (Some c) \<longrightarrow> Op c p)"
    using assms(1) unfolding kms_ok_def by (elim conjE)
  then show ?thesis using assms(2,3) by blast
qed

lemma kms_ok_decrypt:
  assumes "kms_ok K key_name Op I" and "I s" and "kms_decrypt K key_name c s = (r, s')"
  shows "I s' \<and> (\<forall>p. r = Inr (Some p) \<longrightarrow> Op c p)"
proof -
  have "\<forall>s c r s'. I s \<longrightarrow> kms_decrypt K key_name c s = (r, s') \<longrightarrow> I s' \<and> (\<forall>p. r = Inr (Some p) \<longrightarrow> Op c p)"
    using assms(1) unfolding kms_ok_def by (elim conjE)
  then show ?thesis using assms(2,3) by blast
qed

lemma cloud_encrypt_ok:
  assumes "kms_ok K key_name Op I" and "I s" and "cloud_encrypt label K key_name p s = (r, s')"
  shows "I s' \<and> (\<forall>c. r = Inr c \<longrightarrow> cloud_opens Op c p)"
proof -
  have e: "\<forall>s1 r s2. I s1 \<longrightarrow> kms_encrypt K key_name p s1 = (r, s2) \<longrightarrow> I s2"
    and op: "\<And>s1 c s2. I s1 \<Longrightarrow> kms_encrypt K key_name p s1 = (Inr (Some c), s2) \<Longrightarrow> cloud_opens Op c p"
    using kms_ok_encrypt [OF assms(1)] kms_ok_opens [OF assms(1)] by simp_all
  obtain x calls slept s1 where k: "kms_retry (kms_encrypt K key_name p) 0 0 s = (x, calls, slept, s1)"
    by (metis prod.collapse)
  have s': "s' = s1" and r: "\<And>c. r = Inr c \<Longrightarrow> x = Inr (Some c)"
    using assms(3) k by (auto simp: cloud_encrypt_def split: sum.splits)
  from kms_retry_result [where I = I, OF k e assms(2)] show ?thesis using s' r op by metis
qed

lemma cloud_decrypt_ok:
  assumes "kms_ok K key_name Op I" and "I s" and "cloud_decrypt label K key_name c s = (r, s')"
  shows "I s' \<and> (\<forall>p. r = Inr p \<longrightarrow> cloud_opens Op c p)"
proof -
  have d: "\<forall>s1 r s2. I s1 \<longrightarrow> kms_decrypt K key_name c s1 = (r, s2) \<longrightarrow> I s2"
    and op: "\<And>s1 p s2. I s1 \<Longrightarrow> kms_decrypt K key_name c s1 = (Inr (Some p), s2) \<Longrightarrow> cloud_opens Op c p"
    using kms_ok_decrypt [OF assms(1)] kms_ok_opens [OF assms(1)] by simp_all
  obtain x calls slept s1 where k: "kms_retry (kms_decrypt K key_name c) 0 0 s = (x, calls, slept, s1)"
    by (metis prod.collapse)
  have s': "s' = s1" and r: "\<And>p. r = Inr p \<Longrightarrow> x = Inr (Some p)"
    using assms(3) k by (auto simp: cloud_decrypt_def split: sum.splits)
  from kms_retry_result [where I = I, OF k d assms(2)] show ?thesis using s' r op by metis
qed

interpretation cloud: key_manager "cloud_encrypt label K key_name" "cloud_decrypt label K key_name" "\<lambda>_ _. False"
    "cloud_opens Op" "\<lambda>s. kms_ok K key_name Op I \<and> I s" for label K key_name Op I
  by unfold_locales (auto simp: cloud_opens_def dest: cloud_encrypt_ok cloud_decrypt_ok)

section \<open>The cache\<close>

definition DEFAULT_TTL :: timestamp where
  "DEFAULT_TTL = 15 * 60 * 1000000"

text \<open>
  The cache in front of an inner manager, with the clock of the moment. An entry is its plain text and
  the time it expires; the cache may drop any entry at any time (its capacity is bounded).
\<close>

record 's caching =
  ck_inner :: 's
  ck_now :: timestamp
  ck_cache :: "bytes \<Rightarrow> (bytes \<times> timestamp) option"

definition ck_insert :: "timestamp \<Rightarrow> bytes \<Rightarrow> bytes \<Rightarrow> 's caching \<Rightarrow> 's caching" where
  "ck_insert ttl k p s = s\<lparr>ck_cache := (ck_cache s)(k := Some (p, ck_now s + ttl))\<rparr>"

definition ck_get :: "bytes \<Rightarrow> 's caching \<Rightarrow> bytes option" where
  "ck_get k s = (case ck_cache s k of Some (p, e) \<Rightarrow> if ck_now s < e then Some p else None | None \<Rightarrow> None)"

definition caching_encrypt ::
    "(bytes \<Rightarrow> 's \<Rightarrow> (key_manager_error + bytes) \<times> 's) \<Rightarrow> (bytes \<Rightarrow> bytes) \<Rightarrow> timestamp
      \<Rightarrow> bytes \<Rightarrow> 's caching \<Rightarrow> (key_manager_error + bytes) \<times> 's caching" where
  "caching_encrypt encrypt digest ttl plaintext s =
     (case encrypt plaintext (ck_inner s) of
        (Inl e, i) \<Rightarrow> (Inl e, s\<lparr>ck_inner := i\<rparr>)
      | (Inr ciphertext, i) \<Rightarrow>
          (Inr ciphertext, ck_insert ttl (digest ciphertext) plaintext (s\<lparr>ck_inner := i\<rparr>)))"

text \<open>\<open>debug\<close> is the \<open>Debug\<close> text of an error.\<close>

definition caching_decrypt ::
    "(bytes \<Rightarrow> 's \<Rightarrow> (key_manager_error + bytes) \<times> 's) \<Rightarrow> (bytes \<Rightarrow> bytes) \<Rightarrow> (key_manager_error \<Rightarrow> string) \<Rightarrow> timestamp
      \<Rightarrow> bytes \<Rightarrow> 's caching \<Rightarrow> (key_manager_error + bytes) \<times> 's caching" where
  "caching_decrypt decrypt digest debug ttl ciphertext s =
     (case ck_get (digest ciphertext) s of
        Some p \<Rightarrow> (Inr p, s)
      | None \<Rightarrow>
          (case decrypt ciphertext (ck_inner s) of
             (Inl e, i) \<Rightarrow> (Inl (DecryptFailed (debug e)), s\<lparr>ck_inner := i\<rparr>)
           | (Inr p, i) \<Rightarrow> (Inr p, ck_insert ttl (digest ciphertext) p (s\<lparr>ck_inner := i\<rparr>))))"

text \<open>Time passes and entries are dropped.\<close>

definition caching_idle :: "'s caching \<Rightarrow> 's caching \<Rightarrow> bool" where
  "caching_idle s s' \<longleftrightarrow>
     ck_now s \<le> ck_now s' \<and> ck_inner s' = ck_inner s
     \<and> (\<forall>k. ck_cache s' k = ck_cache s k \<or> ck_cache s' k = None)"

definition caching_inv :: "(bytes \<Rightarrow> bytes) \<Rightarrow> (bytes \<Rightarrow> bytes \<Rightarrow> bool) \<Rightarrow> ('s \<Rightarrow> bool) \<Rightarrow> 's caching \<Rightarrow> bool" where
  "caching_inv digest opens I s \<longleftrightarrow>
     inj digest \<and> I (ck_inner s)
     \<and> (\<forall>k p e. ck_cache s k = Some (p, e) \<longrightarrow> (\<exists>c. digest c = k \<and> opens c p))"

lemma caching_inv_insert:
  assumes "caching_inv digest opens I s" and "I i" and "opens c p"
  shows "caching_inv digest opens I (ck_insert ttl (digest c) p (s\<lparr>ck_inner := i\<rparr>))"
  using assms by (auto simp: caching_inv_def ck_insert_def split: if_splits)

lemma caching_inv_inner: "caching_inv digest opens I s \<Longrightarrow> I i \<Longrightarrow> caching_inv digest opens I (s\<lparr>ck_inner := i\<rparr>)"
  by (simp add: caching_inv_def)

lemma caching_inv_idle:
  assumes "caching_inv digest opens I s" and "caching_idle s s'"
  shows "caching_inv digest opens I s'"
proof -
  have "ck_cache s k = Some (p, e)" if "ck_cache s' k = Some (p, e)" for k p e
    using assms(2) that by (metis caching_idle_def option.distinct(1))
  then show ?thesis using assms unfolding caching_inv_def caching_idle_def by metis
qed

text \<open>The cache in front of a manager that keeps the contract keeps it too.\<close>

locale cached_manager = key_manager encrypt decrypt idle opens inv
  for encrypt :: "bytes \<Rightarrow> 's \<Rightarrow> (key_manager_error + bytes) \<times> 's" and decrypt idle opens inv +
  fixes digest :: "bytes \<Rightarrow> bytes" and debug :: "key_manager_error \<Rightarrow> string" and ttl :: timestamp
begin

lemma caching_encrypt_keeps:
  assumes "caching_inv digest opens inv s" and "caching_encrypt encrypt digest ttl p s = (r, s')"
  shows "caching_inv digest opens inv s' \<and> (\<forall>c. r = Inr c \<longrightarrow> opens c p)"
proof (cases "encrypt p (ck_inner s)")
  case (Pair x i)
  have I: "inv (ck_inner s)" using assms(1) by (simp add: caching_inv_def)
  then show ?thesis
    using assms Pair encrypt_opens [OF I] encrypt_inv [OF I Pair]
    by (cases x) (auto simp: caching_encrypt_def intro: caching_inv_inner caching_inv_insert)
qed

lemma caching_decrypt_keeps:
  assumes "caching_inv digest opens inv s" and "caching_decrypt decrypt digest debug ttl c s = (r, s')"
  shows "caching_inv digest opens inv s' \<and> (\<forall>p. r = Inr p \<longrightarrow> opens c p)"
proof (cases "ck_get (digest c) s")
  case (Some p)
  then obtain e where "ck_cache s (digest c) = Some (p, e)" by (auto simp: ck_get_def split: option.splits if_splits)
  then obtain c' where "digest c' = digest c" "opens c' p" using assms(1) unfolding caching_inv_def by blast
  moreover from this have "c' = c" using assms(1) by (auto simp: caching_inv_def dest: injD)
  ultimately show ?thesis using assms Some by (auto simp: caching_decrypt_def)
next
  case None
  obtain x i where x: "decrypt c (ck_inner s) = (x, i)" by force
  have I: "inv (ck_inner s)" using assms(1) by (simp add: caching_inv_def)
  show ?thesis
    using assms None x decrypt_opens [OF I] decrypt_inv [OF I x]
    by (cases x) (auto simp: caching_decrypt_def intro: caching_inv_inner caching_inv_insert)
qed

end

sublocale cached_manager \<subseteq> cached: key_manager "caching_encrypt encrypt digest ttl"
    "caching_decrypt decrypt digest debug ttl" caching_idle opens "caching_inv digest opens inv"
proof
  show "p = q" if "opens c p" "opens c q" for c p q using that by (rule opens_unique)
qed (use caching_encrypt_keeps caching_decrypt_keeps caching_inv_idle in blast)+

text \<open>The managers the server runs: a local key or a cloud service, behind the cache.\<close>

interpretation cached_local: cached_manager "file_encrypt C nonces" "file_decrypt C" "\<lambda>_ _. False" "file_opens C"
    "\<lambda>_. aead_ok C \<and> (\<forall>n. length (nonces n) = NONCE_LENGTH)" digest debug ttl for C nonces digest debug ttl
  by unfold_locales

interpretation cached_cloud: cached_manager "cloud_encrypt label K key_name" "cloud_decrypt label K key_name" "\<lambda>_ _. False"
    "cloud_opens Op" "\<lambda>s. kms_ok K key_name Op I \<and> I s" digest debug ttl for label K key_name Op I digest debug ttl
  by unfold_locales

section \<open>Runs\<close>

text \<open>Calls of a manager behind the cache; \<open>KmPause\<close> lets time pass and the cache drop entries.\<close>

datatype km_op =
    KmEncrypt bytes
  | KmDecrypt bytes
  | KmPause nat "bytes list"

definition km_pause :: "nat \<Rightarrow> bytes list \<Rightarrow> 's caching \<Rightarrow> 's caching" where
  "km_pause dt dropped s =
     s\<lparr>ck_now := ck_now s + int dt, ck_cache := (\<lambda>k. if k \<in> set dropped then None else ck_cache s k)\<rparr>"

fun caching_run ::
    "(bytes \<Rightarrow> 's \<Rightarrow> (key_manager_error + bytes) \<times> 's) \<Rightarrow> (bytes \<Rightarrow> 's \<Rightarrow> (key_manager_error + bytes) \<times> 's)
      \<Rightarrow> (bytes \<Rightarrow> bytes) \<Rightarrow> (key_manager_error \<Rightarrow> string) \<Rightarrow> timestamp \<Rightarrow> km_op list \<Rightarrow> 's caching \<Rightarrow> 's caching" where
  "caching_run enc dec digest debug ttl [] s = s"
| "caching_run enc dec digest debug ttl (KmEncrypt p # ops) s =
     caching_run enc dec digest debug ttl ops (snd (caching_encrypt enc digest ttl p s))"
| "caching_run enc dec digest debug ttl (KmDecrypt c # ops) s =
     caching_run enc dec digest debug ttl ops (snd (caching_decrypt dec digest debug ttl c s))"
| "caching_run enc dec digest debug ttl (KmPause dt dropped # ops) s =
     caching_run enc dec digest debug ttl ops (km_pause dt dropped s)"

definition fresh_cache :: "'s \<Rightarrow> 's caching" where
  "fresh_cache i = \<lparr>ck_inner = i, ck_now = 0, ck_cache = Map.empty\<rparr>"

lemma km_pause_idle: "caching_idle s (km_pause dt dropped s)"
  by (simp add: caching_idle_def km_pause_def)

context cached_manager
begin

lemma run_inv:
  "caching_inv digest opens inv s \<Longrightarrow> caching_inv digest opens inv (caching_run encrypt decrypt digest debug ttl ops s)"
proof (induction ops arbitrary: s)
  case (Cons op ops)
  show ?case
  proof (cases op)
    case (KmEncrypt p)
    then show ?thesis
      using Cons.IH caching_encrypt_keeps [OF Cons.prems] by (simp add: prod_eq_iff)
  next
    case (KmDecrypt c)
    then show ?thesis
      using Cons.IH caching_decrypt_keeps [OF Cons.prems] by (simp add: prod_eq_iff)
  next
    case (KmPause dt dropped)
    then show ?thesis using Cons.IH caching_inv_idle [OF Cons.prems km_pause_idle] by simp
  qed
qed simp

lemma fresh_inv: "inj digest \<Longrightarrow> inv i \<Longrightarrow> caching_inv digest opens inv (fresh_cache i)"
  by (simp add: caching_inv_def fresh_cache_def)

end

section \<open>Properties\<close>


definition sample_aead :: aead where
  "sample_aead = \<lparr>aes_encrypt = (\<lambda>n p. Inr (rev p)), aes_decrypt = (\<lambda>n c. Inr (rev c))\<rparr>"


text \<open>
  The cache refines the service behind it: whatever calls came before, a plain text that the
  manager returns is one the cloud service itself stands for.
\<close>

theorem cached_decrypt_refines_service:
  assumes "kms_ok K key_name Op I" and "I i" and "inj digest"
    and "s = caching_run (cloud_encrypt label K key_name) (cloud_decrypt label K key_name) digest debug ttl ops (fresh_cache i)"
    and "caching_decrypt (cloud_decrypt label K key_name) digest debug ttl c s = (Inr p, s')"
  shows "Op c p \<and> I (ck_inner s')"
proof -
  let ?inv = "caching_inv digest (cloud_opens Op) (\<lambda>s. kms_ok K key_name Op I \<and> I s)"
  have "?inv s"
    unfolding assms(4) using assms(1-3) by (intro cached_cloud.run_inv cached_cloud.fresh_inv) simp_all
  from cached_cloud.caching_decrypt_keeps [OF this assms(5)] show ?thesis
    by (simp add: cloud_opens_def caching_inv_def)
qed

text \<open>A service that counts its calls and is down for the first two.\<close>

definition sample_kms :: "nat kms" where
  "sample_kms =
     \<lparr>kms_encrypt = (\<lambda>k p n. (if n < 2 then Inl ''unavailable'' else Inr (Some (rev p)), n + 1)),
      kms_decrypt = (\<lambda>k c n. (if n < 2 then Inl ''unavailable'' else Inr (Some (rev c)), n + 1))\<rparr>"

theorem cached_decrypt_refines_service_witness:
  "fst (caching_decrypt (cloud_decrypt ''KMS'' sample_kms ''k'') id (\<lambda>_. '''') 5 [3, 2, 1]
      (caching_run (cloud_encrypt ''KMS'' sample_kms ''k'') (cloud_decrypt ''KMS'' sample_kms ''k'') id (\<lambda>_. '''') 5 []
         (fresh_cache 0))) = Inr [1, 2, 3]
   \<and> [1, 2, 3] = rev [3, 2, (1 :: u8)]"
proof
  let ?s = "caching_run (cloud_encrypt ''KMS'' sample_kms ''k'') (cloud_decrypt ''KMS'' sample_kms ''k'') id (\<lambda>_. '''') 5 []
         (fresh_cache (0 :: nat))"
  let ?d = "caching_decrypt (cloud_decrypt ''KMS'' sample_kms ''k'') id (\<lambda>_. '''') 5 [3, 2, 1] ?s"
  show f: "fst ?d = Inr [1, 2, 3]"
    by (simp add: caching_decrypt_def ck_get_def fresh_cache_def cloud_decrypt_def sample_kms_def kms_retry.simps MAX_KMS_RETRIES_def)
  have "?d = (Inr [1, 2, 3], snd ?d)" using f by (metis prod.collapse)
  from cached_decrypt_refines_service [OF _ _ _ refl this, of "\<lambda>c p. p = rev c" "\<lambda>_. True"]
  show "[1, 2, 3] = rev [3, 2, (1 :: u8)]"
    by (auto simp: kms_ok_def sample_kms_def)
qed

text \<open>
  C37. Every call of a cloud service ends after one to three attempts; the waits in between add up to
  at most 300 milliseconds, and it fails only if the third attempt did.
\<close>

theorem kms_retry_bounded:
  "\<exists>r calls slept s'. kms_retry send 0 0 s = (r, calls, slept, s')
     \<and> 1 \<le> calls \<and> calls \<le> 3 \<and> slept \<le> 300 \<and> (isl r \<longrightarrow> calls = 3 \<and> slept = 300)"
proof -
  obtain r calls slept s' where k: "kms_retry send 0 0 s = (r, calls, slept, s')" by (metis prod.collapse)
  have b: "calls \<le> 3" "slept = (2 ^ (calls - 1) - 1) * 100" "0 < calls" "isl r \<longrightarrow> calls = 3"
    using kms_retry_from [OF k] by (simp_all add: MAX_KMS_RETRIES_def KMS_BASE_DELAY_MS_def)
  then have "calls \<in> {1, 2, 3}" by auto
  with b have "slept \<le> 300" "calls = 3 \<Longrightarrow> slept = 300" by auto
  with k b show ?thesis by auto
qed

theorem kms_retry_bounded_witness:
  "kms_retry (\<lambda>s. (Inl ''down'' :: string + nat, s + 1)) 0 0 (0 :: nat) = (Inl (3, ''down''), 3, 300, 3)
     \<and> (\<exists>r calls slept s'. kms_retry (\<lambda>s. (Inl ''down'' :: string + nat, s + 1)) 0 0 (0 :: nat) = (r, calls, slept, s')
          \<and> calls \<le> 3 \<and> slept \<le> 300)"
proof
  show "kms_retry (\<lambda>s. (Inl ''down'' :: string + nat, s + 1)) 0 0 (0 :: nat) = (Inl (3, ''down''), 3, 300, 3)"
    by (simp add: kms_retry.simps MAX_KMS_RETRIES_def KMS_BASE_DELAY_MS_def)
  show "\<exists>r calls slept s'. kms_retry (\<lambda>s. (Inl ''down'' :: string + nat, s + 1)) 0 0 (0 :: nat) = (r, calls, slept, s')
          \<and> calls \<le> 3 \<and> slept \<le> 300"
    using kms_retry_bounded [of "\<lambda>s. (Inl ''down'' :: string + nat, s + 1)" "0 :: nat"] by fastforce
qed

text \<open>
  While its entry lives, a cipher text that was decrypted is not sent to the service again: the
  next call returns the same bytes and leaves the inner manager untouched.
\<close>

theorem cached_decrypt_saves_call:
  assumes "caching_decrypt dec digest debug ttl c s = (Inr p, s1)"
    and "ck_get (digest c) s = None" and "int dt < ttl" and "digest c \<notin> set dropped"
  shows "caching_decrypt dec digest debug ttl c (km_pause dt dropped s1) = (Inr p, km_pause dt dropped s1)"
proof -
  have "ck_cache s1 (digest c) = Some (p, ck_now s1 + ttl)"
    using assms(1,2) by (auto simp: caching_decrypt_def ck_insert_def split: prod.splits sum.splits)
  then show ?thesis using assms(3,4) by (simp add: caching_decrypt_def ck_get_def km_pause_def)
qed

theorem cached_decrypt_saves_call_witness:
  "\<exists>s1. caching_decrypt (file_decrypt sample_aead) id (\<lambda>_. '''') DEFAULT_TTL (replicate 12 0 @ [3, 2, 1]) (km_pause 7 [] s1)
     = (Inr [1, 2, 3], km_pause 7 [] s1)"
proof -
  have "caching_decrypt (file_decrypt sample_aead) id (\<lambda>_. '''') DEFAULT_TTL (replicate 12 0 @ [3, 2, 1]) (fresh_cache 0)
      = (Inr [1, 2, 3], ck_insert DEFAULT_TTL (replicate 12 0 @ [3, 2, 1]) [1, 2, 3] (fresh_cache 0))"
    by (simp add: caching_decrypt_def ck_get_def fresh_cache_def file_decrypt_def sample_aead_def NONCE_LENGTH_def)
  from cached_decrypt_saves_call [OF this, of 7 "[]"] show ?thesis
    by (auto simp: ck_get_def fresh_cache_def DEFAULT_TTL_def)
qed

end
