(* ===== verification/DeletionNotices.thy ===== *)
theory DeletionNotices
  imports Users RequestAuthProofs
begin

text \<open>
  Telling the order server that a customer account is gone: the repository of
  \<open>core/src/repositories/deletion_notice.rs\<close> and the delivery task of \<open>api/src/customer_deletion.rs\<close>. A
  notice is written in the transaction of the deletion, sent with a NIP-98 header signed by the server
  and kept until the order server acknowledges it. The event builder, the codecs and the HTTP client
  are parameters; a pass of the task reads the clock once.
\<close>

section \<open>The repository\<close>

definition MAX_RETRY_DELAY_MINUTES :: int where
  "MAX_RETRY_DELAY_MINUTES = 60"

definition minutes :: "int \<Rightarrow> timestamp" where
  "minutes n = n * 60 * 1000000"

definition record_notice ::
    "timestamp \<Rightarrow> int \<Rightarrow> pubkey \<Rightarrow> deletion_notice table \<Rightarrow> deletion_notice table" where
  "record_notice now tenant_id pubkey t =
     \<lparr>rows = rows t @ [new_notice now (seq t) tenant_id pubkey], seq = seq t + 1\<rparr>"

definition find_due :: "timestamp \<Rightarrow> nat \<Rightarrow> deletion_notice table \<Rightarrow> deletion_notice list" where
  "find_due now limit t =
     take limit (sort_key dn_deleted_at (fetch_all (\<lambda>n. dn_next_attempt_at n \<le> now) (rows t)))"

definition acknowledge :: "int \<Rightarrow> deletion_notice table \<Rightarrow> deletion_notice table" where
  "acknowledge i t = t\<lparr>rows := delete_where (\<lambda>n. dn_id n = i) (rows t)\<rparr>"

text \<open>\<open>2_i64.saturating_pow(attempts.clamp(0, 16) as u32).min(60)\<close>; the power is at most \<open>2 ^ 16\<close>.\<close>

definition retry_delay :: "int \<Rightarrow> int" where
  "retry_delay attempts = min (2 ^ nat (max 0 (min 16 attempts))) MAX_RETRY_DELAY_MINUTES"

definition integer_out_of_range :: repository_error where
  "integer_out_of_range = Database ''error returned from database: integer out of range''"

text \<open>\<open>attempts\<close> is an \<open>INTEGER\<close> column.\<close>

definition schedule_retry ::
    "timestamp \<Rightarrow> deletion_notice \<Rightarrow> deletion_notice table \<Rightarrow> repository_error + deletion_notice table" where
  "schedule_retry now notice t =
     (if exists_row (\<lambda>n. dn_id n = dn_id notice \<and> 2 ^ 31 - 1 \<le> dn_attempts n) (rows t)
      then Inl integer_out_of_range
      else Inr (t\<lparr>rows := update_where (\<lambda>n. dn_id n = dn_id notice)
                    (\<lambda>n. n\<lparr>dn_attempts := dn_attempts n + 1,
                           dn_next_attempt_at := now + minutes (retry_delay (dn_attempts notice))\<rparr>) (rows t)\<rparr>))"

section \<open>Sending\<close>

record notice_world =
  rfc3339 :: "timestamp \<Rightarrow> string"
  notice_json :: "pubkey \<Rightarrow> string \<Rightarrow> string + string"
  sha256_hex :: "string \<Rightarrow> string"
  nostr_tag :: "string list \<Rightarrow> string + string list"
  builder_sign :: "u64 \<Rightarrow> u16 \<Rightarrow> string \<Rightarrow> string list list \<Rightarrow> string + event"
  event_json_text :: "event \<Rightarrow> string + string"
  base64_encode :: "string \<Rightarrow> string"
  status_display :: "nat \<Rightarrow> string"
  http_post :: "timestamp \<Rightarrow> string \<Rightarrow> string \<Rightarrow> string \<Rightarrow> string + nat"

definition DELIVERY_BATCH_SIZE :: nat where
  "DELIVERY_BATCH_SIZE = 50"

definition auth_tags :: "notice_world \<Rightarrow> string \<Rightarrow> string \<Rightarrow> string + string list list" where
  "auth_tags N url body =
     collect_results (map (nostr_tag N)
       [[''u'', url], [''method'', ''POST''], [''payload'', sha256_hex N body]])"

definition nip98_header :: "notice_world \<Rightarrow> timestamp \<Rightarrow> string \<Rightarrow> string \<Rightarrow> string + string" where
  "nip98_header N now url body =
     and_then (auth_tags N url body) (\<lambda>tags.
     and_then (builder_sign N (word_of_int (now div 1000000)) HTTP_AUTH_KIND [] tags) (\<lambda>e.
     and_then (event_json_text N e) (\<lambda>event_json. Inr (''Nostr '' @ base64_encode N event_json))))"

definition send_notice :: "notice_world \<Rightarrow> timestamp \<Rightarrow> string \<Rightarrow> deletion_notice \<Rightarrow> string + unit" where
  "send_notice N now url notice =
     and_then (notice_json N (dn_pubkey notice) (rfc3339 N (dn_deleted_at notice))) (\<lambda>body.
     and_then (nip98_header N now url body) (\<lambda>header.
     and_then (http_post N now url header body) (\<lambda>status.
       if 200 \<le> status \<and> status < 300 then Inr () else Inl (''Server answered '' @ status_display N status))))"

fun deliver_each ::
    "notice_world \<Rightarrow> timestamp \<Rightarrow> string \<Rightarrow> deletion_notice list \<Rightarrow> nat \<Rightarrow> deletion_notice table
      \<Rightarrow> (repository_error + nat) \<times> deletion_notice table" where
  "deliver_each N now url [] acknowledged t = (Inr acknowledged, t)"
| "deliver_each N now url (notice # due) acknowledged t =
     (case send_notice N now url notice of
        Inr _ \<Rightarrow> deliver_each N now url due (acknowledged + 1) (acknowledge (dn_id notice) t)
      | Inl _ \<Rightarrow>
          (case schedule_retry now notice t of
             Inl e \<Rightarrow> (Inl e, t)
           | Inr t1 \<Rightarrow> deliver_each N now url due acknowledged t1))"

definition deliver_due_notices ::
    "notice_world \<Rightarrow> timestamp \<Rightarrow> string \<Rightarrow> deletion_notice table \<Rightarrow> (repository_error + nat) \<times> deletion_notice table" where
  "deliver_due_notices N now url t = deliver_each N now url (find_due now DELIVERY_BATCH_SIZE t) 0 t"

text \<open>One turn of the loop of \<open>spawn_delivery_task\<close>.\<close>

definition deletion_url :: "string option \<Rightarrow> string option" where
  "deletion_url env = Option.bind env (\<lambda>url. if str_trim url = [] then None else Some url)"

definition delivery_tick ::
    "notice_world \<Rightarrow> timestamp \<Rightarrow> string option \<Rightarrow> deletion_notice table \<Rightarrow> deletion_notice table" where
  "delivery_tick N now env t =
     (case deletion_url env of None \<Rightarrow> t | Some url \<Rightarrow> snd (deliver_due_notices N now url t))"

section \<open>Histories\<close>

datatype notice_event =
    Deleted timestamp int pubkey
  | Tick timestamp "string option"

fun event_time :: "notice_event \<Rightarrow> timestamp" where
  "event_time (Deleted now _ _) = now"
| "event_time (Tick now _) = now"

fun notices_step :: "notice_world \<Rightarrow> notice_event \<Rightarrow> deletion_notice table \<Rightarrow> deletion_notice table" where
  "notices_step N (Deleted now tenant_id pubkey) t = record_notice now tenant_id pubkey t"
| "notices_step N (Tick now env) t = delivery_tick N now env t"

definition notices_run :: "notice_world \<Rightarrow> notice_event list \<Rightarrow> deletion_notice table \<Rightarrow> deletion_notice table" where
  "notices_run N es t = fold (notices_step N) es t"

definition no_notices :: "deletion_notice table" where
  "no_notices = \<lparr>rows = [], seq = 1\<rparr>"

lemma deletion_writes_notice:
  assumes "repo_delete_customer_account now pubkey tenant_id s = Inr (r, s')"
  shows "st_notices s' = record_notice now tenant_id pubkey (st_notices s)"
  using assms by (auto simp: repo_delete_customer_account_def delete_account_in_def record_notice_def Let_def
      split: if_splits)

section \<open>Bounds of the waiting time\<close>

lemma retry_delay_bounds: "1 \<le> retry_delay a" "retry_delay a \<le> 60"
  by (simp_all add: retry_delay_def MAX_RETRY_DELAY_MINUTES_def)

text \<open>Ids are unique, and every notice is due within an hour of the last event.\<close>

definition notices_ok :: "timestamp \<Rightarrow> deletion_notice table \<Rightarrow> bool" where
  "notices_ok now t \<longleftrightarrow>
     distinct (map dn_id (rows t))
     \<and> (\<forall>n\<in>set (rows t). dn_id n < seq t \<and> dn_deleted_at n \<le> now \<and> dn_next_attempt_at n \<le> now + minutes 60)"

lemma notices_ok_mono: "notices_ok now t \<Longrightarrow> now \<le> now' \<Longrightarrow> notices_ok now' t"
  by (fastforce simp: notices_ok_def)

lemma notices_ok_acknowledge: "notices_ok now t \<Longrightarrow> notices_ok now (acknowledge i t)"
  by (auto simp: notices_ok_def acknowledge_def delete_where_def distinct_map_filter)

lemma notices_ok_schedule:
  assumes "notices_ok now t" and "schedule_retry now n t = Inr t'"
  shows "notices_ok now t'"
proof -
  let ?f = "\<lambda>m. m\<lparr>dn_attempts := dn_attempts m + 1, dn_next_attempt_at := now + minutes (retry_delay (dn_attempts n))\<rparr>"
  have t': "t' = t\<lparr>rows := update_where (\<lambda>m. dn_id m = dn_id n) ?f (rows t)\<rparr>"
    using assms(2) by (auto simp: schedule_retry_def split: if_splits)
  have ids: "map dn_id (rows t') = map dn_id (rows t)"
    by (simp add: t' update_where_def)
  have "minutes (retry_delay a) \<le> minutes 60" for a
    using retry_delay_bounds(2)[of a] by (simp add: minutes_def)
  then have "\<forall>m\<in>set (rows t'). dn_id m < seq t' \<and> dn_deleted_at m \<le> now \<and> dn_next_attempt_at m \<le> now + minutes 60"
    using assms(1) by (auto simp: notices_ok_def t' update_where_def)
  with assms(1) show ?thesis
    by (simp add: notices_ok_def ids)
qed

lemma deliver_each_ok: "notices_ok now t \<Longrightarrow> notices_ok now (snd (deliver_each N now url ns k t))"
proof (induction ns arbitrary: k t)
  case (Cons n ns)
  then show ?case
    by (auto simp: notices_ok_acknowledge notices_ok_schedule split: sum.splits)
qed simp

lemma notices_step_ok:
  assumes "notices_ok now t" and "now \<le> event_time e"
  shows "notices_ok (event_time e) (notices_step N e t)"
proof (cases e)
  case (Deleted n i p)
  then show ?thesis
    using assms notices_ok_mono[OF assms]
    by (auto simp: notices_ok_def record_notice_def new_notice_def minutes_def)
next
  case (Tick n env)
  then show ?thesis
    using notices_ok_mono[OF assms]
    by (auto simp: delivery_tick_def deliver_due_notices_def deliver_each_ok split: option.splits)
qed

lemma notices_run_ok:
  "notices_ok now t \<Longrightarrow> sorted (now # map event_time es)
    \<Longrightarrow> notices_ok (last (now # map event_time es)) (notices_run N es t)"
proof (induction es arbitrary: now t)
  case (Cons e es)
  then have "notices_ok (event_time e) (notices_step N e t)"
    by (auto intro: notices_step_ok)
  with Cons show ?case
    by (auto simp: notices_run_def)
qed (simp add: notices_run_def)

section \<open>Delivery\<close>

text \<open>When the server accepts everything, a pass removes exactly the notices it read.\<close>

lemma deliver_each_accepted:
  assumes "\<forall>n. send_notice N now url n = Inr ()"
  shows "snd (deliver_each N now url ns k t) = t\<lparr>rows := filter (\<lambda>n. dn_id n \<notin> dn_id ` set ns) (rows t)\<rparr>"
  using assms
proof (induction ns arbitrary: k t)
  case (Cons n ns)
  have "snd (deliver_each N now url (n # ns) k t)
      = (acknowledge (dn_id n) t)\<lparr>rows := filter (\<lambda>m. dn_id m \<notin> dn_id ` set ns) (rows (acknowledge (dn_id n) t))\<rparr>"
    using Cons by simp
  then show ?case
    by (auto simp: acknowledge_def delete_where_def intro!: arg_cong[where f = "\<lambda>r. t\<lparr>rows := r\<rparr>"] filter_cong)
qed simp

lemma sorted_split_below:
  assumes "sorted (map f ys)" and "\<forall>x\<in>set ys. \<forall>y\<in>set ys. P x \<longrightarrow> \<not> P y \<longrightarrow> f x < f y"
  shows "ys = filter P ys @ filter (\<lambda>x. \<not> P x) ys"
  using assms
proof (induction ys)
  case (Cons y ys)
  show ?case
  proof (cases "P y")
    case False
    with Cons.prems have "\<forall>x\<in>set ys. \<not> P x" by fastforce
    with False show ?thesis by (simp add: filter_empty_conv filter_id_conv)
  qed (use Cons in auto)
qed simp

lemma take_old_first:
  assumes "\<forall>x\<in>set xs. \<forall>y\<in>set xs. P x \<longrightarrow> \<not> P y \<longrightarrow> f x < (f y :: 'k :: linorder)"
  shows "filter P (take k (sort_key f xs)) = take k (filter P (sort_key f xs))"
proof -
  let ?ys = "sort_key f xs"
  from assms have "?ys = filter P ?ys @ filter (\<lambda>x. \<not> P x) ?ys"
    by (intro sorted_split_below) auto
  then have "filter P (take k ?ys) = filter P (take k (filter P ?ys @ filter (\<lambda>x. \<not> P x) ?ys))"
    by simp
  also have "\<dots> = filter P (take k (filter P ?ys)) @ filter P (take (k - length (filter P ?ys)) (filter (\<lambda>x. \<not> P x) ?ys))"
    by simp
  also have "filter P (take k (filter P ?ys)) = take k (filter P ?ys)"
    by (auto simp: filter_id_conv dest: in_set_takeD)
  also have "filter P (take (k - length (filter P ?ys)) (filter (\<lambda>x. \<not> P x) ?ys)) = []"
    by (auto simp: filter_empty_conv dest: in_set_takeD)
  finally show ?thesis by simp
qed

text \<open>
  The notices that were waiting at one moment, by their ids, after the order server has come back:
  they are older than all later ones and due within the hour.
\<close>

definition waiting :: "int set \<Rightarrow> deletion_notice table \<Rightarrow> deletion_notice list" where
  "waiting ids t = filter (\<lambda>n. dn_id n \<in> ids) (rows t)"

definition settling :: "timestamp \<Rightarrow> int set \<Rightarrow> deletion_notice table \<Rightarrow> bool" where
  "settling since ids t \<longleftrightarrow>
     distinct (map dn_id (rows t)) \<and> (\<forall>i\<in>ids. i < seq t)
     \<and> (\<forall>n\<in>set (rows t). dn_id n < seq t
          \<and> (if dn_id n \<in> ids then dn_deleted_at n \<le> since \<and> dn_next_attempt_at n \<le> since + minutes 60
              else since < dn_deleted_at n))"

definition accepts :: "notice_world \<Rightarrow> string \<Rightarrow> timestamp \<Rightarrow> bool" where
  "accepts N url since \<longleftrightarrow> (\<forall>now n. since \<le> now \<longrightarrow> send_notice N now url n = Inr ())"

fun late_tick :: "timestamp \<Rightarrow> notice_event \<Rightarrow> bool" where
  "late_tick due (Tick now _) = (due \<le> now)"
| "late_tick due (Deleted _ _ _) = False"

text \<open>The events after the return: ticks that know the URL, and later deletions.\<close>

fun afterwards :: "string \<Rightarrow> timestamp \<Rightarrow> notice_event \<Rightarrow> bool" where
  "afterwards url since (Tick now env) = (since \<le> now \<and> deletion_url env = Some url)"
| "afterwards url since (Deleted now _ _) = (since < now)"

lemma accepted_tick_rows:
  assumes "accepts N url since" and "afterwards url since (Tick now env)"
  shows "delivery_tick N now env t
    = t\<lparr>rows := filter (\<lambda>n. dn_id n \<notin> dn_id ` set (find_due now DELIVERY_BATCH_SIZE t)) (rows t)\<rparr>"
  using assms by (simp add: delivery_tick_def deliver_due_notices_def deliver_each_accepted accepts_def)

lemma settling_step:
  assumes "settling since ids t" and "accepts N url since" and "afterwards url since e"
  shows "settling since ids (notices_step N e t)"
proof (cases e)
  case (Deleted now tenant_id pubkey)
  with assms show ?thesis
    by (fastforce simp: settling_def record_notice_def new_notice_def)
next
  case (Tick now env)
  with assms(1) accepted_tick_rows[OF assms(2), of now env t] assms(3) show ?thesis
    by (auto simp: settling_def distinct_map_filter)
qed

lemma waiting_step_le:
  assumes "settling since ids t" and "accepts N url since" and "afterwards url since e"
  shows "length (waiting ids (notices_step N e t)) \<le> length (waiting ids t)"
proof (cases e)
  case (Deleted now tenant_id pubkey)
  with assms show ?thesis
    by (auto simp: settling_def waiting_def record_notice_def new_notice_def)
next
  case (Tick now env)
  let ?Q = "\<lambda>n. dn_id n \<notin> dn_id ` set (find_due now DELIVERY_BATCH_SIZE t)"
  have "waiting ids (notices_step N e t) = filter ?Q (waiting ids t)"
    using accepted_tick_rows[OF assms(2), of now env t] assms(3)
    by (simp add: Tick waiting_def filter_filter conj_commute)
  then show ?thesis by (simp only: length_filter_le)
qed

lemma find_due_waiting:
  assumes "settling since ids t" and "since + minutes 60 \<le> now"
  shows "length (filter (\<lambda>n. dn_id n \<in> ids) (find_due now k t)) = min k (length (waiting ids t))"
proof -
  let ?P = "\<lambda>n. dn_id n \<in> ids" and ?D = "fetch_all (\<lambda>n. dn_next_attempt_at n \<le> now) (rows t)"
  have D: "filter ?P ?D = waiting ids t"
    unfolding waiting_def fetch_all_def filter_filter
    by (rule filter_cong) (use assms in \<open>fastforce simp: settling_def\<close>)+
  have old: "dn_deleted_at n \<le> since" if "n \<in> set (rows t)" "?P n" for n
    using assms(1) that by (auto simp: settling_def)
  have new: "since < dn_deleted_at n" if "n \<in> set (rows t)" "\<not> ?P n" for n
    using assms(1) that by (auto simp: settling_def)
  have "filter ?P (find_due now k t) = take k (filter ?P (sort_key dn_deleted_at ?D))"
    unfolding find_due_def by (rule take_old_first) (auto simp: fetch_all_def intro: le_less_trans[OF old new])
  then show ?thesis
    by (simp add: filter_sort D)
qed

lemma length_filter_diff:
  assumes "distinct (map g xs)" and "set ds \<subseteq> set xs" and "distinct ds"
  shows "length (filter (\<lambda>x. g x \<notin> g ` set ds) (filter P xs)) = length (filter P xs) - length (filter P ds)"
proof -
  have inj: "inj_on g (set xs)" and d: "distinct xs"
    using assms(1) by (simp_all add: distinct_map)
  have "set (filter (\<lambda>x. g x \<notin> g ` set ds) (filter P xs)) = set (filter P xs) - set (filter P ds)"
    using inj assms(2) by (auto simp: inj_on_def)
  moreover have "distinct (filter (\<lambda>x. g x \<notin> g ` set ds) (filter P xs))"
    using d by simp
  ultimately have "length (filter (\<lambda>x. g x \<notin> g ` set ds) (filter P xs)) = card (set (filter P xs) - set (filter P ds))"
    by (metis distinct_card)
  also have "\<dots> = card (set (filter P xs)) - card (set (filter P ds))"
    using assms(2) by (intro card_Diff_subset) auto
  also have "\<dots> = length (filter P xs) - length (filter P ds)"
    using d assms(3) by (simp only: distinct_card distinct_filter)
  finally show ?thesis .
qed

lemma waiting_late_tick:
  assumes "settling since ids t" and "accepts N url since" and "afterwards url since e"
    and "late_tick (since + minutes 60) e"
  shows "length (waiting ids (notices_step N e t)) = length (waiting ids t) - DELIVERY_BATCH_SIZE"
proof -
  obtain now env where e: "e = Tick now env" and late: "since + minutes 60 \<le> now"
    using assms(4) by (cases e) auto
  let ?due = "find_due now DELIVERY_BATCH_SIZE t"
  have d: "distinct (map dn_id (rows t))" using assms(1) by (simp add: settling_def)
  then have "distinct (rows t)" by (simp add: distinct_map)
  then have "set ?due \<subseteq> set (rows t)" "distinct ?due"
    by (auto simp: find_due_def fetch_all_def dest: in_set_takeD)
  from length_filter_diff[OF d this, of "\<lambda>n. dn_id n \<in> ids"] find_due_waiting[OF assms(1) late, of DELIVERY_BATCH_SIZE]
  show ?thesis
    using accepted_tick_rows[OF assms(2), of now env t] assms(3)
    by (simp add: e waiting_def conj_commute)
qed

lemma waiting_run:
  assumes "settling since ids t" and "accepts N url since" and "\<forall>e\<in>set es. afterwards url since e"
  shows "length (waiting ids (notices_run N es t))
    \<le> length (waiting ids t) - length (filter (late_tick (since + minutes 60)) es) * DELIVERY_BATCH_SIZE"
  using assms
proof (induction es arbitrary: t)
  case (Cons e es)
  have IH: "length (waiting ids (notices_run N (e # es) t))
      \<le> length (waiting ids (notices_step N e t))
        - length (filter (late_tick (since + minutes 60)) es) * DELIVERY_BATCH_SIZE"
    using Cons.IH[OF settling_step[OF Cons.prems(1,2)], of e] Cons.prems by (simp add: notices_run_def)
  show ?case
  proof (cases "late_tick (since + minutes 60) e")
    case True
    with IH waiting_late_tick[OF Cons.prems(1,2), of e] Cons.prems(3) show ?thesis by simp
  next
    case False
    with IH waiting_step_le[OF Cons.prems(1,2), of e] Cons.prems(3) show ?thesis by fastforce
  qed
qed (simp add: notices_run_def)

text \<open>A notice leaves the table only when it was accepted.\<close>

definition same_notice :: "deletion_notice \<Rightarrow> deletion_notice \<Rightarrow> bool" where
  "same_notice n m \<longleftrightarrow> dn_id m = dn_id n \<and> dn_pubkey m = dn_pubkey n \<and> dn_deleted_at m = dn_deleted_at n"

definition kept :: "deletion_notice \<Rightarrow> deletion_notice table \<Rightarrow> bool" where
  "kept n t \<longleftrightarrow> (\<exists>m\<in>set (rows t). same_notice n m)"

lemma send_notice_same: "same_notice n m \<Longrightarrow> send_notice N now url m = send_notice N now url n"
  by (simp add: same_notice_def send_notice_def)

lemma kept_schedule:
  assumes "kept n t" and "schedule_retry now m t = Inr t'"
  shows "kept n t'"
proof -
  let ?f = "\<lambda>r. if dn_id r = dn_id m
    then r\<lparr>dn_attempts := dn_attempts r + 1, dn_next_attempt_at := now + minutes (retry_delay (dn_attempts m))\<rparr> else r"
  have t': "set (rows t') = ?f ` set (rows t)"
    using assms(2) by (auto simp: schedule_retry_def update_where_def split: if_splits)
  from assms(1) obtain r where r: "r \<in> set (rows t)" "same_notice n r" by (auto simp: kept_def)
  then have "?f r \<in> set (rows t')" "same_notice n (?f r)" by (auto simp: t' same_notice_def)
  then show ?thesis unfolding kept_def by blast
qed

lemma kept_acknowledge: "kept n t \<Longrightarrow> dn_id m \<noteq> dn_id n \<Longrightarrow> kept n (acknowledge (dn_id m) t)"
  by (auto simp: kept_def same_notice_def acknowledge_def delete_where_def)

lemma deliver_each_keeps:
  "kept n t \<Longrightarrow> kept n (snd (deliver_each N now url ns k t))
     \<or> (\<exists>m\<in>set ns. dn_id m = dn_id n \<and> send_notice N now url m = Inr ())"
proof (induction ns arbitrary: k t)
  case (Cons m ns)
  show ?case
  proof (cases "send_notice N now url m")
    case (Inl e)
    with Cons show ?thesis
      by (cases "schedule_retry now m t") (auto dest: kept_schedule)
  next
    case (Inr u)
    with Cons show ?thesis
      by (cases "dn_id m = dn_id n") (auto dest: kept_acknowledge)
  qed
qed simp

fun accepted_by :: "notice_world \<Rightarrow> deletion_notice \<Rightarrow> notice_event \<Rightarrow> bool" where
  "accepted_by N n (Tick now env) = (\<exists>url. deletion_url env = Some url \<and> send_notice N now url n = Inr ())"
| "accepted_by N n (Deleted _ _ _) = False"

lemma notices_step_keeps:
  assumes "distinct (map dn_id (rows t))" and "kept n t"
  shows "kept n (notices_step N e t) \<or> accepted_by N n e"
proof (cases e)
  case (Deleted now tenant_id pubkey)
  with assms(2) show ?thesis by (auto simp: kept_def record_notice_def)
next
  case (Tick now env)
  show ?thesis
  proof (cases "deletion_url env")
    case (Some url)
    have "same_notice n m" if "m \<in> set (find_due now DELIVERY_BATCH_SIZE t)" "dn_id m = dn_id n" for m
    proof -
      obtain r where r: "r \<in> set (rows t)" "same_notice n r" using assms(2) by (auto simp: kept_def)
      have "m \<in> set (rows t)" using that(1) by (auto simp: find_due_def fetch_all_def dest!: in_set_takeD)
      with r that(2) assms(1) have "m = r" by (simp add: same_notice_def distinct_map inj_on_def)
      with r show ?thesis by simp
    qed
    then have "kept n (snd (deliver_each N now url (find_due now DELIVERY_BATCH_SIZE t) 0 t))
        \<or> send_notice N now url n = Inr ()"
      using deliver_each_keeps[OF assms(2), of N now url "find_due now DELIVERY_BATCH_SIZE t" 0]
        send_notice_same[of n _ N now url] by metis
    with Some Tick show ?thesis
      by (auto simp: delivery_tick_def deliver_due_notices_def)
  qed (simp add: Tick delivery_tick_def assms(2))
qed

lemma notices_run_keeps:
  assumes "notices_ok now t" and "sorted (now # map event_time es)" and "kept n t"
  shows "kept n (notices_run N es t) \<or> (\<exists>e\<in>set es. accepted_by N n e)"
  using assms
proof (induction es arbitrary: now t)
  case (Cons e es)
  have "notices_ok (event_time e) (notices_step N e t)"
    using Cons.prems by (auto intro: notices_step_ok)
  moreover have "kept n (notices_step N e t) \<or> accepted_by N n e"
    using Cons.prems by (intro notices_step_keeps) (simp_all add: notices_ok_def)
  ultimately show ?case
    using Cons.IH[of "event_time e" "notices_step N e t"] Cons.prems by (auto simp: notices_run_def)
qed (simp add: notices_run_def)

lemma notices_ok_none: "notices_ok now no_notices"
  by (simp add: notices_ok_def no_notices_def)

lemma run_from_none_ok:
  assumes "sorted (map event_time es)" and "\<forall>e\<in>set es. event_time e \<le> since"
  shows "notices_ok since (notices_run N es no_notices)"
proof (cases es)
  case (Cons e es')
  let ?times = "event_time e # map event_time es"
  have "notices_ok (last ?times) (notices_run N es no_notices)"
    using assms(1) Cons by (intro notices_run_ok notices_ok_none) auto
  moreover have "last ?times \<le> since"
    using last_in_set[of ?times] assms(2) Cons by auto
  ultimately show ?thesis by (rule notices_ok_mono)
qed (simp add: notices_run_def notices_ok_none)

section \<open>Properties\<close>

text \<open>
  C34. Every deletion is reported. Take any history of deletions and delivery passes, with the order server
  failing as it likes, up to some moment; suppose it accepts from then on and the task keeps running
  with the URL configured. Once the passes made an hour or more after that moment are enough for the
  backlog at fifty notices each, every notice that was waiting has been accepted and is gone: what is
  left is about later deletions.
\<close>

theorem deletion_notices_delivered:
  assumes past: "sorted (map event_time es)" "\<forall>e\<in>set es. event_time e \<le> since"
    and later: "\<forall>e\<in>set later. afterwards url since e"
    and up: "accepts N url since"
    and enough: "length (rows (notices_run N es no_notices))
                   \<le> 50 * length (filter (late_tick (since + minutes 60)) later)"
  shows "\<forall>n\<in>set (rows (notices_run N (es @ later) no_notices)). since < dn_deleted_at n"
proof -
  let ?t = "notices_run N es no_notices" and ?ids = "dn_id ` set (rows (notices_run N es no_notices))"
  have s: "settling since ?ids ?t"
    using run_from_none_ok[OF past] by (auto simp: notices_ok_def settling_def)
  have "length (waiting ?ids (notices_run N later ?t)) \<le> length (waiting ?ids ?t)
      - length (filter (late_tick (since + minutes 60)) later) * DELIVERY_BATCH_SIZE"
    by (rule waiting_run[OF s up later])
  also have "length (waiting ?ids ?t) = length (rows ?t)"
    by (simp add: waiting_def filter_id_conv)
  finally have "waiting ?ids (notices_run N later ?t) = []"
    using enough by (simp add: DELIVERY_BATCH_SIZE_def)
  then have none: "\<forall>n\<in>set (rows (notices_run N later ?t)). dn_id n \<notin> ?ids"
    by (auto simp: waiting_def filter_empty_conv)
  have "settling since ?ids (notices_run N later ?t)"
    using later s by (induction later rule: rev_induct) (auto simp: notices_run_def intro: settling_step[OF _ up])
  with none show ?thesis
    by (auto simp: settling_def notices_run_def)
qed

text \<open>
  No notice is lost: after any history, a deletion that was recorded is still waiting in the table, or
  one of the later passes sent its notice and the order server answered with success.
\<close>

theorem deletion_notice_never_lost:
  assumes sorted: "sorted (map event_time (before @ Deleted now tenant_id pubkey # later))"
  shows "\<exists>n. dn_pubkey n = pubkey \<and> dn_deleted_at n = now
           \<and> (kept n (notices_run N (before @ Deleted now tenant_id pubkey # later) no_notices)
              \<or> (\<exists>e\<in>set later. accepted_by N n e))"
proof -
  let ?t = "notices_run N before no_notices"
  let ?n = "new_notice now (seq ?t) tenant_id pubkey"
  have "notices_ok now ?t"
    using sorted by (intro run_from_none_ok) (auto simp: sorted_append)
  then have ok: "notices_ok now (notices_step N (Deleted now tenant_id pubkey) ?t)"
    using notices_step_ok[of now ?t "Deleted now tenant_id pubkey"] by simp
  have "kept ?n (notices_step N (Deleted now tenant_id pubkey) ?t)"
    by (simp add: kept_def same_notice_def record_notice_def)
  from notices_run_keeps[OF ok _ this, of later] sorted show ?thesis
    by (intro exI[of _ ?n]) (auto simp: new_notice_def notices_run_def sorted_append)
qed

text \<open>
  The header that goes out with a notice passes the validation Keycast itself applies to such headers:
  for the address it was sent to and the method POST, within a minute, and with the server's key.
\<close>

definition nip98_codec :: "'j auth_world \<Rightarrow> notice_world \<Rightarrow> pubkey \<Rightarrow> bool" where
  "nip98_codec A N server_key \<longleftrightarrow>
     (\<forall>tag. nostr_tag N tag = Inr tag)
     \<and> (\<forall>c k content tags e. builder_sign N c k content tags = Inr e \<longrightarrow>
          ev_created_at e = c \<and> ev_kind e = k \<and> ev_tags e = tags \<and> ev_pubkey e = server_key
          \<and> event_verify A e = Inr ())
     \<and> (\<forall>e j. event_json_text N e = Inr j \<longrightarrow>
          str_trim (base64_encode N j) = base64_encode N j \<and> base64_decode A (base64_encode N j) = Inr j
          \<and> from_utf8 j = Some j \<and> event_from_json A j = Inr e)"

theorem sent_header_validates:
  assumes codec: "nip98_codec A N server_key"
    and sent: "nip98_header N now url body = Inr header"
    and fresh: "\<not> event_too_old received (word_of_int (now div 1000000))"
  shows "extract_and_validate A received header url ''POST'' = Inr server_key"
proof -
  let ?tags = "[[''u'', url], [''method'', ''POST''], [''payload'', sha256_hex N body]]"
  have t: "auth_tags N url body = Inr ?tags"
    using codec by (simp add: auth_tags_def nip98_codec_def)
  with sent obtain e j where e: "builder_sign N (word_of_int (now div 1000000)) HTTP_AUTH_KIND [] ?tags = Inr e"
    and j: "event_json_text N e = Inr j" and header: "header = ''Nostr '' @ base64_encode N j"
    by (auto simp: nip98_header_def and_then_Inr_iff)
  have p: "strip_prefix ''Nostr '' header = Some (base64_encode N j)"
    unfolding header by (subst strip_prefix_Some) (rule refl)
  have "base64_decode A (str_trim (base64_encode N j)) = Inr j" "from_utf8 j = Some j" "event_from_json A j = Inr e"
    using codec j by (auto simp: nip98_codec_def)
  then have "decode_envelope A header = Inr e"
    unfolding decode_envelope_def p by simp
  with codec e fresh show ?thesis
    by (auto simp: extract_and_validate_def nip98_codec_def first_tag_def tag_value_def eq_ignore_ascii_case_def)
qed

section \<open>Witnesses\<close>

text \<open>An order server that is down until second 5000, over a plain codec for one envelope.\<close>

definition notice_tags :: "string list list" where
  "notice_tags = [[''u'', ''https://o.example/d''], [''method'', ''POST''], [''payload'', ''h'']]"

definition sample_event :: "u64 \<Rightarrow> u16 \<Rightarrow> string list list \<Rightarrow> event" where
  "sample_event c k tags =
     \<lparr>ev_id = ''e'', ev_pubkey = ''server'', ev_created_at = c, ev_kind = k, ev_tags = tags, ev_content = [],
      ev_sig = ''s''\<rparr>"

definition N0 :: notice_world where
  "N0 =
     \<lparr>rfc3339 = (\<lambda>_. ''t''), notice_json = (\<lambda>p d. Inr (p @ d)), sha256_hex = (\<lambda>_. ''h''), nostr_tag = Inr,
      builder_sign = (\<lambda>c k content tags. Inr (sample_event c k tags)),
      event_json_text = (\<lambda>e. if e = sample_event 6000 HTTP_AUTH_KIND notice_tags then Inr ''envelope'' else Inl ''no''),
      base64_encode = (\<lambda>s. s), status_display = (\<lambda>_. ''status''),
      http_post = (\<lambda>now url header body. Inr (if now < 5000000000 then 503 else 204))\<rparr>"

definition A1 :: "jv auth_world" where
  "A1 = A0\<lparr>event_from_json := (\<lambda>s. if s = ''envelope'' then Inr (sample_event 6000 HTTP_AUTH_KIND notice_tags) else Inl ''no'')\<rparr>"

theorem sent_header_validates_witness:
  "nip98_header N0 6000000000 ''https://o.example/d'' ''b'' = Inr ''Nostr envelope''
   \<and> extract_and_validate A1 6030 ''Nostr envelope'' ''https://o.example/d'' ''POST'' = Inr ''server''"
proof
  show h: "nip98_header N0 6000000000 ''https://o.example/d'' ''b'' = Inr ''Nostr envelope''"
    by code_simp
  have trim: "str_trim ''envelope'' = ''envelope''" "from_utf8 ''envelope'' = Some ''envelope''" by code_simp+
  have c: "nip98_codec A1 N0 ''server''"
    by (auto simp: nip98_codec_def N0_def A1_def A0_def sample_event_def trim split: if_splits)
  show "extract_and_validate A1 6030 ''Nostr envelope'' ''https://o.example/d'' ''POST'' = Inr ''server''"
    by (rule sent_header_validates [OF c h]) code_simp
qed

definition N1 :: notice_world where
  "N1 = N0\<lparr>event_json_text := (\<lambda>_. Inr ''j'')\<rparr>"

definition sample_past :: "notice_event list" where
  "sample_past = [Deleted 1000000 7 ''c'', Tick 2000000 (Some ''u''), Tick 3000000 None]"

definition sample_later :: "notice_event list" where
  "sample_later = [Tick 5100000000 (Some ''u''), Deleted 6000000000 7 ''d'', Tick 9000000000 (Some ''u'')]"

lemma N1_accepts: "accepts N1 ''u'' 5000000000"
  by (auto simp: accepts_def send_notice_def nip98_header_def auth_tags_def N1_def N0_def)

lemma sample_backlog: "map dn_pubkey (rows (notices_run N1 sample_past no_notices)) = [''c'']"
  by (simp add: notices_run_def sample_past_def no_notices_def record_notice_def new_notice_def delivery_tick_def
      deletion_url_def str_trim_def ascii_whitespace_def deliver_due_notices_def find_due_def fetch_all_def
      DELIVERY_BATCH_SIZE_def send_notice_def nip98_header_def auth_tags_def N1_def N0_def schedule_retry_def
      exists_row_def update_where_def)

theorem deletion_notices_delivered_witness:
  "map dn_pubkey (rows (notices_run N1 sample_past no_notices)) = [''c'']
   \<and> list_all (\<lambda>n. 5000000000 < dn_deleted_at n) (rows (notices_run N1 (sample_past @ sample_later) no_notices))"
proof
  show "map dn_pubkey (rows (notices_run N1 sample_past no_notices)) = [''c'']" by (rule sample_backlog)
  have "length (rows (notices_run N1 sample_past no_notices)) = 1"
    using arg_cong[OF sample_backlog, of length] by simp
  then have "length (rows (notices_run N1 sample_past no_notices))
      \<le> 50 * length (filter (late_tick (5000000000 + minutes 60)) sample_later)"
    by (simp add: sample_later_def minutes_def)
  moreover have "deletion_url (Some ''u'') = Some ''u''" by code_simp
  ultimately have "\<forall>n\<in>set (rows (notices_run N1 (sample_past @ sample_later) no_notices)). 5000000000 < dn_deleted_at n"
    by (intro deletion_notices_delivered [OF _ _ _ N1_accepts]) (auto simp: sample_past_def sample_later_def)
  then show "list_all (\<lambda>n. 5000000000 < dn_deleted_at n) (rows (notices_run N1 (sample_past @ sample_later) no_notices))"
    by (simp add: list_all_iff)
qed

theorem deletion_notice_never_lost_witness:
  "\<exists>n. dn_pubkey n = ''c'' \<and> dn_deleted_at n = 1000000
     \<and> (kept n (notices_run N1 (sample_past @ sample_later) no_notices)
        \<or> list_ex (accepted_by N1 n) (tl sample_past @ sample_later))"
  using deletion_notice_never_lost [of "[]" 1000000 7 "''c''" "tl sample_past @ sample_later" N1]
  by (simp add: list_ex_iff sample_past_def sample_later_def)

end
