(* ===== verification/Sessions.thy ===== *)
theory Sessions
  imports DeletionNotices Policies
begin

text \<open>
  What the account endpoints of \<open>api/src/api/http/auth.rs\<close> share: their errors with the responses they
  become, the session tokens they issue, how they find the session of a request, and the deletion of
  an account. The state spans the database, the handler cache, the channel to the signer, Redis and
  the tables of links and notices. A clock is read once per request.
\<close>

section \<open>Errors\<close>

datatype account_error =
    AcTooManyRequests
  | AcDatabase string
  | AcPasswordHash string
  | AcInvalidCredentials
  | AcEmailAlreadyExists
  | AcEmailNotVerified
  | AcUserNotFound
  | AcEncryption string
  | AcInternal string
  | AcMissingToken
  | AcInvalidToken
  | AcTokenExpired
  | AcEmailSendFailed string
  | AcDuplicateKey
  | AcBadRequest string
  | AcForbidden string
  | AcRegistrationExpired
  | AcServiceUnavailable string "nat option"

definition temporarily_unavailable :: string where
  "temporarily_unavailable = ''Service temporarily unavailable. Please try again in a few minutes.''"

text \<open>Status, \<open>Retry-After\<close> header and message.\<close>

fun account_response :: "account_error \<Rightarrow> nat \<times> nat option \<times> string" where
  "account_response AcTooManyRequests = (429, None, ''Too many requests. Please try again later.'')"
| "account_response (AcDatabase _) = (503, None, temporarily_unavailable)"
| "account_response (AcPasswordHash _) = (503, None, temporarily_unavailable)"
| "account_response AcInvalidCredentials =
     (401, None, ''Invalid email or password. Please check your credentials and try again.'')"
| "account_response AcEmailAlreadyExists = (409, None, ''This email is already registered. Please log in instead.'')"
| "account_response AcEmailNotVerified =
     (403, None, ''Please verify your email address before continuing. Check your inbox for the verification link.'')"
| "account_response AcUserNotFound = (404, None, ''No account found with this email. Please register first.'')"
| "account_response (AcEncryption _) = (503, None, temporarily_unavailable)"
| "account_response (AcInternal _) = (503, None, temporarily_unavailable)"
| "account_response AcMissingToken = (401, None, ''Authentication required. Please provide a valid token.'')"
| "account_response AcInvalidToken = (401, None, ''Invalid or expired token. Please log in again.'')"
| "account_response (AcEmailSendFailed _) = (503, None, ''Unable to send email. Please try again in a few minutes.'')"
| "account_response AcDuplicateKey =
     (409, None, ''This Nostr key is already registered. Please log in instead or use a different key.'')"
| "account_response AcTokenExpired =
     (401, None, ''Verification code or token has expired. Please request a new one.'')"
| "account_response (AcBadRequest m) = (400, None, m)"
| "account_response (AcForbidden m) = (403, None, m)"
| "account_response AcRegistrationExpired = (410, None, ''Registration expired. Please register again.'')"
| "account_response (AcServiceUnavailable m retry_after) = (503, retry_after, m)"

fun account_error_of :: "repository_error \<Rightarrow> account_error" where
  "account_error_of Duplicate = AcEmailAlreadyExists"
| "account_error_of (NotFound _) = AcUserNotFound"
| "account_error_of (Integrity m) = AcInternal (repository_error_text (Integrity m))"
| "account_error_of (Database m) = AcInternal (repository_error_text (Database m))"

section \<open>Parameters and state\<close>

text \<open>\<open>json_bool\<close> is \<open>Value::as_bool\<close>, \<open>secret_from_hex\<close> is \<open>SecretKey::from_hex\<close>.\<close>

record 'j account_world =
  acw_token :: "'j token_world"
  acw_tenants :: tenant_env
  json_bool :: "'j \<Rightarrow> bool option"
  secret_from_hex :: "string \<Rightarrow> seckey option"

abbreviation ahttp :: "'j account_world \<Rightarrow> 'j http_world" where
  "ahttp W \<equiv> tw_http (acw_token W)"

abbreviation ax :: "'j account_world \<Rightarrow> 'j ext" where
  "ax W \<equiv> tx (acw_token W)"

record customer_app_origin =
  co_tenant_id :: int
  co_origin :: string
  co_merchant_name :: string
  co_merchant_pubkey :: pubkey
  co_created_at :: timestamp

record link_email =
  le_to :: string
  le_link :: string
  le_merchant :: string
  le_purpose :: string

record 'j accounts =
  ac_server :: "'j server"
  ac_claims :: "claim_token table"
  ac_magic :: "magic_link_token table"
  ac_notices :: "deletion_notice table"
  ac_origins :: "customer_app_origin list"
  ac_redis :: redis
  ac_outbox :: "link_email list"
  ac_accounts_deleted :: nat

definition ac_db :: "'j accounts \<Rightarrow> 'j db" where
  "ac_db s = sv_db (ac_server s)"

definition put_db :: "'j db \<Rightarrow> 'j accounts \<Rightarrow> 'j accounts" where
  "put_db d s = s\<lparr>ac_server := (ac_server s)\<lparr>sv_db := d\<rparr>\<rparr>"

text \<open>The tables a deletion touches, as one store.\<close>

definition ac_store :: "'j accounts \<Rightarrow> 'j store" where
  "ac_store s = \<lparr>st_db = ac_db s, st_claims = ac_claims s, st_magic = ac_magic s, st_notices = ac_notices s\<rparr>"

definition put_store :: "'j store \<Rightarrow> 'j accounts \<Rightarrow> 'j accounts" where
  "put_store t s = (put_db (st_db t) s)\<lparr>ac_claims := st_claims t, ac_magic := st_magic t, ac_notices := st_notices t\<rparr>"

section \<open>Session tokens\<close>

definition generate_server_signed_ucan_with_lifetime ::
    "'j token_world \<Rightarrow> pubkey \<Rightarrow> int \<Rightarrow> string \<Rightarrow> string \<Rightarrow> pubkey option \<Rightarrow> bool \<Rightarrow> string option \<Rightarrow> int
      \<Rightarrow> string + string" where
  "generate_server_signed_ucan_with_lifetime W user tenant_id email redirect_origin bunker is_first_party admin_role
       lifetime_seconds =
     ucan_sign W (nostr_pubkey_to_did W user) lifetime_seconds
       \<lparr>uf_tenant_id = tenant_id, uf_email = email, uf_redirect_origin = redirect_origin,
        uf_bunker_pubkey = bunker, uf_first_party = is_first_party, uf_admin_role = admin_role\<rparr>"

lemma generate_server_signed_ucan_lifetime:
  "generate_server_signed_ucan W user tenant_id email origin bunker fp role
     = generate_server_signed_ucan_with_lifetime W user tenant_id email origin bunker fp role (token_expiry_seconds W)"
  by (simp add: generate_server_signed_ucan_def generate_server_signed_ucan_with_lifetime_def)

definition format_session_cookie :: "string \<Rightarrow> int \<Rightarrow> bool \<Rightarrow> string" where
  "format_session_cookie tok max_age secure =
     ''keycast_session='' @ tok @ ''; HttpOnly'' @ (if secure then ''; Secure'' else [])
     @ ''; SameSite=Lax; Path=/; Max-Age='' @ show_int max_age"

definition extract_ucan_from_cookie :: "parts \<Rightarrow> string option" where
  "extract_ucan_from_cookie rq = Option.bind (header_str rq ''cookie'') session_cookie"

definition extract_user_from_ucan ::
    "'j http_world \<Rightarrow> timestamp \<Rightarrow> parts \<Rightarrow> int \<Rightarrow> string + pubkey \<times> string \<times> string option" where
  "extract_user_from_ucan X now rq tenant_id =
     (case rq_header rq ''authorization'' of
        None \<Rightarrow> Inl ''Missing Authorization header''
      | Some _ \<Rightarrow>
          (case header_str rq ''authorization'' of
             None \<Rightarrow> Inl ''Invalid Authorization header''
           | Some auth_header \<Rightarrow>
               and_then (validate_ucan_token X now auth_header tenant_id)
                 (\<lambda>(pubkey, redirect_origin, bunker, _). Inr (pubkey, redirect_origin, bunker))))"

definition extract_user_and_origin_from_token ::
    "'j http_world \<Rightarrow> timestamp \<Rightarrow> parts \<Rightarrow> int \<Rightarrow> account_error + pubkey \<times> string \<times> string option" where
  "extract_user_and_origin_from_token X now rq tenant_id =
     (let cookie = (case extract_ucan_from_cookie rq of
                      Some tok \<Rightarrow>
                        map_err (\<lambda>_. AcInvalidToken)
                          (and_then (validate_ucan_token X now (''Bearer '' @ tok) tenant_id)
                            (\<lambda>(pubkey, redirect_origin, bunker, _). Inr (pubkey, redirect_origin, bunker)))
                    | None \<Rightarrow> Inl AcMissingToken)
      in case rq_header rq ''authorization'' of
           None \<Rightarrow> cookie
         | Some _ \<Rightarrow>
             (case header_str rq ''authorization'' of
                None \<Rightarrow> Inl AcInvalidToken
              | Some auth_str \<Rightarrow>
                  (if starts_with auth_str ''Bearer ''
                   then map_err (\<lambda>_. AcInvalidToken) (extract_user_from_ucan X now rq tenant_id)
                   else cookie)))"

definition extract_user_from_token ::
    "'j http_world \<Rightarrow> timestamp \<Rightarrow> parts \<Rightarrow> int \<Rightarrow> account_error + pubkey" where
  "extract_user_from_token X now rq tenant_id =
     and_then (extract_user_and_origin_from_token X now rq tenant_id) (\<lambda>(pubkey, _, _). Inr pubkey)"

definition extract_origin_from_headers :: "parts \<Rightarrow> account_error + string" where
  "extract_origin_from_headers rq = ok_or (AcBadRequest ''Origin header required'') (header_str rq ''origin'')"

section \<open>Deleting an account\<close>

text \<open>The header, or the cookie when there is no header at all.\<close>

definition deletion_token :: "parts \<Rightarrow> account_error + string" where
  "deletion_token rq =
     (case rq_header rq ''authorization'' of
        Some _ \<Rightarrow> ok_or AcInvalidToken (header_str rq ''authorization'')
      | None \<Rightarrow> map_err (\<lambda>_. AcMissingToken)
                  (ok_or () (map_option (\<lambda>v. ''Bearer '' @ v) (extract_ucan_from_cookie rq))))"

definition fact_bool :: "'j account_world \<Rightarrow> string \<Rightarrow> 'j list \<Rightarrow> bool option" where
  "fact_bool W k facts =
     (case List.map_filter (\<lambda>f. Option.bind (fact_get (ahttp W) f k) (json_bool W)) facts of
        [] \<Rightarrow> None | v # _ \<Rightarrow> Some v)"

text \<open>Who may delete: a token signed with the user's own key, or one with the fact \<open>first_party\<close>.\<close>

definition may_delete :: "'j account_world \<Rightarrow> pubkey \<Rightarrow> 'j ucan \<Rightarrow> account_error + unit" where
  "may_delete W user_pubkey u =
     and_then (map_err (\<lambda>_. AcInvalidToken) (did_to_nostr_pubkey (ahttp W) (uc_issuer u))) (\<lambda>issuer.
       if issuer = user_pubkey \<or> fact_bool W ''first_party'' (uc_facts u) = Some True then Inr ()
       else Inl (AcForbidden ''Account deletion requires the Divine app or web login with your private key''))"

text \<open>The bunkers of a deleted account leave the cache and, if the channel is up, the signer.\<close>

definition retire_bunkers :: "'j http_world \<Rightarrow> bool \<Rightarrow> pubkey list \<Rightarrow> 'j server \<Rightarrow> 'j server" where
  "retire_bunkers X channel bunkers sv =
     sv\<lparr>sv_cache := fold (invalidate_handlers_for_bunker X True) bunkers (sv_cache sv),
        sv_commands := sv_commands sv @ (if channel then map Remove bunkers else [])\<rparr>"

definition delete_account ::
    "'j account_world \<Rightarrow> timestamp \<Rightarrow> bool \<Rightarrow> tenant \<Rightarrow> parts \<Rightarrow> 'j accounts
      \<Rightarrow> (account_error + string) \<times> 'j accounts" where
  "delete_account W now channel tn rq s =
     (let tenant_id = tn_id tn in
      case and_then (deletion_token rq) (\<lambda>auth_header.
             and_then (map_err (\<lambda>_. AcInvalidToken) (validate_ucan_token (ahttp W) now auth_header tenant_id))
               (\<lambda>(user_pubkey, _, _, u). and_then (may_delete W user_pubkey u) (\<lambda>_. Inr user_pubkey))) of
        Inl e \<Rightarrow> (Inl e, s)
      | Inr user_pubkey \<Rightarrow>
          (case (if is_customer_tenant (acw_tenants W) tn
                 then repo_delete_customer_account now user_pubkey tenant_id (ac_store s)
                 else user_delete_account user_pubkey tenant_id (ac_store s)) of
             Inl e \<Rightarrow> (Inl (AcDatabase (''encountered unexpected or invalid data: '' @ repository_error_text e)), s)
           | Inr (result, t) \<Rightarrow>
               (let s1 = put_store t s
                in (Inr ''Account permanently deleted'',
                    s1\<lparr>ac_server := retire_bunkers (ahttp W) channel (bunker_pubkeys result) (ac_server s1),
                       ac_accounts_deleted := ac_accounts_deleted s + 1\<rparr>))))"

end
