(* ===== verification/Customers.thy ===== *)
theory Customers
  imports Sessions
begin

text \<open>
  Customer accounts, which have no password: the orders apps allowed on the customer tenant
  (\<open>core/src/repositories/customer_app_origin.rs\<close>) and the sign-in links, grants and account endpoints of
  \<open>api/src/api/http/magic_link.rs\<close>. The task a request spawns runs here right after its answer. The URL
  crate and the mail service are parameters; tokens and generated keys are arguments.
\<close>

section \<open>Orders apps\<close>

definition origin_at :: "int \<Rightarrow> string \<Rightarrow> customer_app_origin \<Rightarrow> bool" where
  "origin_at tenant_id origin r \<longleftrightarrow> co_tenant_id r = tenant_id \<and> co_origin r = origin"

definition origin_add ::
    "timestamp \<Rightarrow> int \<Rightarrow> string \<Rightarrow> string \<Rightarrow> pubkey \<Rightarrow> customer_app_origin list
      \<Rightarrow> customer_app_origin list" where
  "origin_add now tenant_id origin merchant_name merchant_pubkey t =
     (if exists_row (origin_at tenant_id origin) t
      then update_where (origin_at tenant_id origin)
             (\<lambda>r. r\<lparr>co_merchant_name := merchant_name, co_merchant_pubkey := merchant_pubkey\<rparr>) t
      else t @ [\<lparr>co_tenant_id = tenant_id, co_origin = origin, co_merchant_name = merchant_name,
                 co_merchant_pubkey = merchant_pubkey, co_created_at = now\<rparr>])"

definition origin_remove :: "int \<Rightarrow> string \<Rightarrow> customer_app_origin list \<Rightarrow> bool \<times> customer_app_origin list" where
  "origin_remove tenant_id origin t =
     (0 < rows_affected (origin_at tenant_id origin) t, delete_where (origin_at tenant_id origin) t)"

definition find_merchant_name :: "int \<Rightarrow> string \<Rightarrow> customer_app_origin list \<Rightarrow> string option" where
  "find_merchant_name tenant_id origin t = map_option co_merchant_name (fetch_optional (origin_at tenant_id origin) t)"

definition find_merchant_pubkey :: "int \<Rightarrow> string \<Rightarrow> customer_app_origin list \<Rightarrow> pubkey option" where
  "find_merchant_pubkey tenant_id origin t = map_option co_merchant_pubkey (fetch_optional (origin_at tenant_id origin) t)"

definition origin_list :: "(string \<Rightarrow> 'o::linorder) \<Rightarrow> int \<Rightarrow> customer_app_origin list \<Rightarrow> customer_app_origin list" where
  "origin_list collation tenant_id t =
     sort_key (\<lambda>r. collation (co_origin r)) (fetch_all (\<lambda>r. co_tenant_id r = tenant_id) t)"

section \<open>Parameters\<close>

definition MAGIC_LINK_EXPIRY_MINUTES :: int where "MAGIC_LINK_EXPIRY_MINUTES = 15"
definition EMAIL_WINDOW_SECONDS :: int where "EMAIL_WINDOW_SECONDS = 60"
definition EMAIL_HOURLY_LIMIT :: nat where "EMAIL_HOURLY_LIMIT = 5"
definition IP_HOURLY_LIMIT :: nat where "IP_HOURLY_LIMIT = 20"
definition MAX_EMAIL_LENGTH :: nat where "MAX_EMAIL_LENGTH = 255"
definition COMMERCE_SCOPE :: string where "COMMERCE_SCOPE = ''policy:commerce_envelope''"
definition DELETE_SESSION_SECONDS :: int where "DELETE_SESSION_SECONDS = 600"
definition INVALID_LINK :: string where "INVALID_LINK = ''invalid_or_expired_link''"

text \<open>A parsed URL; an opaque origin is \<open>None\<close> and equals no other.\<close>

record page =
  pg_text :: string
  pg_scheme :: string
  pg_username :: string
  pg_password :: "string option"
  pg_origin :: "string option"

record 'j customer_world = "'j account_world" +
  lowercase :: "string \<Rightarrow> string"
  unicode_blanks :: "string \<Rightarrow> bool"
  hash_email :: "string \<Rightarrow> string"
  parse_address :: "string \<Rightarrow> string option"
  page_parse :: "string \<Rightarrow> page option"
  page_with_token :: "page \<Rightarrow> string \<Rightarrow> string"
  mailer_up :: bool
  merchant_config :: "pubkey \<Rightarrow> 'j"
  oauth_error_debug :: "oauth_error \<Rightarrow> string"

definition ascii_serialization :: "page \<Rightarrow> string" where
  "ascii_serialization p = (case pg_origin p of Some origin \<Rightarrow> origin | None \<Rightarrow> ''null'')"

section \<open>Asking for a link\<close>

text \<open>
  White space and control characters: the ASCII ones here, the others of Unicode through the tables of
  the standard library (\<open>unicode_blank\<close>).
\<close>

definition blank_or_control :: "char \<Rightarrow> bool" where
  "blank_or_control c \<longleftrightarrow> (of_char c :: nat) \<le> 32 \<or> (of_char c :: nat) = 127"

definition normalize_email :: "(string \<Rightarrow> string) \<Rightarrow> (string \<Rightarrow> bool) \<Rightarrow> string \<Rightarrow> string option" where
  "normalize_email lower unicode_blank email =
     (let m = lower (str_trim email)
      in case split_once (CHR ''@'') m of
           None \<Rightarrow> None
         | Some (local, domain) \<Rightarrow>
             (if length m \<le> MAX_EMAIL_LENGTH \<and> local \<noteq> [] \<and> CHR ''@'' \<notin> set domain \<and> CHR ''.'' \<in> set domain
                 \<and> \<not> starts_with domain ''.'' \<and> \<not> ends_with domain ''.'' \<and> \<not> list_ex blank_or_control m \<and> \<not> unicode_blank m
              then Some m else None))"

definition allowed_app_url ::
    "(string \<Rightarrow> page option) \<Rightarrow> int \<Rightarrow> string \<Rightarrow> customer_app_origin list \<Rightarrow> (page \<times> string) option" where
  "allowed_app_url parse tenant_id app_url t =
     (case parse (str_trim app_url) of
        None \<Rightarrow> None
      | Some url \<Rightarrow>
          (if pg_scheme url \<notin> {''http'', ''https''} \<or> pg_username url \<noteq> [] \<or> is_set (pg_password url) then None
           else map_option (Pair url) (find_merchant_name tenant_id (ascii_serialization url) t)))"

record link_request =
  lr_tenant_id :: int
  lr_email :: string
  lr_app_url :: page
  lr_merchant_name :: string
  lr_purpose :: string
  lr_request_ip :: "string option"

definition link_ip_key :: "int \<Rightarrow> string \<Rightarrow> string" where
  "link_ip_key tenant_id ip = ''magic_link:ip:'' @ show_int tenant_id @ '':'' @ ip"

definition link_email_key :: "(string \<Rightarrow> string) \<Rightarrow> int \<Rightarrow> string \<Rightarrow> string \<Rightarrow> string" where
  "link_email_key hash tenant_id purpose email =
     ''magic_link:email:'' @ show_int tenant_id @ '':'' @ purpose @ '':'' @ hash email"

text \<open>The three limits, in order; a refused request has still counted against the earlier ones.\<close>

definition link_throttled ::
    "(string \<Rightarrow> string) \<Rightarrow> timestamp \<Rightarrow> link_request \<Rightarrow> magic_link_token table \<Rightarrow> redis \<Rightarrow> bool \<times> redis" where
  "link_throttled hash now q magic r =
     (let seconds = now div 1000000;
          ip_step = (case lr_request_ip q of
                       Some ip \<Rightarrow> under_limit (rd_up r) seconds (link_ip_key (lr_tenant_id q) ip) IP_HOURLY_LIMIT HOUR_SECONDS (rd_keys r)
                     | None \<Rightarrow> (True, rd_keys r));
          r1 = r\<lparr>rd_keys := snd ip_step\<rparr>
      in if \<not> fst ip_step then (True, r1)
         else if EMAIL_HOURLY_LIMIT \<le> magic_count_recent (lr_tenant_id q) (lr_email q) (now - hours 1) magic then (True, r1)
         else (case once_per_window (rd_up r) seconds (link_email_key hash (lr_tenant_id q) (lr_purpose q) (lr_email q))
                      EMAIL_WINDOW_SECONDS (rd_keys r1) of
                 (first, keys) \<Rightarrow> (\<not> first, r1\<lparr>rd_keys := keys\<rparr>)))"

definition send_link ::
    "'j customer_world \<Rightarrow> timestamp \<Rightarrow> string \<Rightarrow> bool \<Rightarrow> link_request \<Rightarrow> 'j accounts \<Rightarrow> bool \<times> 'j accounts" where
  "send_link W now link_token mail_ok q s =
     (case link_throttled (hash_email W) now q (ac_magic s) (ac_redis s) of
        (True, r) \<Rightarrow> (False, s\<lparr>ac_redis := r\<rparr>)
      | (False, r) \<Rightarrow>
          (let s1 = s\<lparr>ac_redis := r\<rparr>
           in case magic_create (tw_sha256 (acw_token W)) now (lr_tenant_id q) (lr_email q) link_token (lr_purpose q)
                     (pg_text (lr_app_url q)) (now + minutes MAGIC_LINK_EXPIRY_MINUTES) (lr_request_ip q) (ac_magic s1) of
                (Inl _, t) \<Rightarrow> (False, s1\<lparr>ac_magic := t\<rparr>)
              | (Inr _, t) \<Rightarrow>
                  (if mail_ok
                   then (True, s1\<lparr>ac_magic := t, ac_outbox := ac_outbox s1 @
                           [\<lparr>le_to = lr_email q, le_link = page_with_token W (lr_app_url q) link_token,
                             le_merchant = lr_merchant_name q, le_purpose = lr_purpose q\<rparr>]\<rparr>)
                   else (False, s1\<lparr>ac_magic := t\<rparr>))))"

definition signed_in_customer :: "'j http_world \<Rightarrow> timestamp \<Rightarrow> parts \<Rightarrow> int \<Rightarrow> account_error + pubkey" where
  "signed_in_customer X now rq tenant_id =
     and_then (ok_or AcMissingToken (header_str rq ''authorization'')) (\<lambda>auth_header.
       map_err (\<lambda>_. AcInvalidToken)
         (and_then (validate_ucan_token X now auth_header tenant_id) (\<lambda>(pubkey, _, _, _). Inr pubkey)))"

definition signed_in_customer_email ::
    "'j http_world \<Rightarrow> timestamp \<Rightarrow> parts \<Rightarrow> int \<Rightarrow> 'j db \<Rightarrow> account_error + string" where
  "signed_in_customer_email X now rq tenant_id d =
     and_then (signed_in_customer X now rq tenant_id)
       (\<lambda>pubkey. map_err (\<lambda>_. AcInvalidToken) (get_email pubkey tenant_id d))"

record magic_link_request =
  mq_email :: "string option"
  mq_app_url :: string
  mq_purpose :: "string option"

text \<open>An answer, or the bare 404 of a host that is not the customer tenant's.\<close>

datatype 'a reply = NotHere | Reply 'a

definition request_magic_link ::
    "'j customer_world \<Rightarrow> timestamp \<Rightarrow> string \<Rightarrow> bool \<Rightarrow> tenant \<Rightarrow> parts \<Rightarrow> magic_link_request \<Rightarrow> 'j accounts
      \<Rightarrow> (account_error + unit reply) \<times> 'j accounts" where
  "request_magic_link W now link_token mail_ok tn rq q s =
     (if \<not> is_customer_tenant (acw_tenants W) tn then (Inr NotHere, s)
      else
        let tenant_id = tn_id tn;
            purpose = (case mq_purpose q of Some p \<Rightarrow> p | None \<Rightarrow> PURPOSE_SIGN_IN)
        in case (if purpose = PURPOSE_SIGN_IN
                 then ok_or (AcBadRequest ''Invalid email address'') (Option.bind (mq_email q) (normalize_email (lowercase W) (unicode_blanks W)))
                 else if purpose = PURPOSE_DELETE_ACCOUNT
                 then signed_in_customer_email (tw_http (acw_token W)) now rq tenant_id (ac_db s)
                 else Inl (AcBadRequest ''Invalid purpose'')) of
             Inl e \<Rightarrow> (Inl e, s)
           | Inr email \<Rightarrow>
               (case allowed_app_url (page_parse W) tenant_id (mq_app_url q) (ac_origins s) of
                  None \<Rightarrow> (Inl (AcBadRequest ''app_url is not allowed''), s)
                | Some (app_url, merchant_name) \<Rightarrow>
                    (Inr (Reply ()),
                     if mailer_up W
                     then snd (send_link W now link_token mail_ok
                            \<lparr>lr_tenant_id = tenant_id, lr_email = email, lr_app_url = app_url,
                             lr_merchant_name = merchant_name, lr_purpose = purpose,
                             lr_request_ip = client_ip (parse_address W) (header_str rq ''x-forwarded-for'')\<rparr> s)
                     else s)))"

section \<open>Using a link\<close>

record verify_magic_link_request =
  vq_token :: string
  vq_client_id :: "string option"
  vq_redirect_uri :: "string option"
  vq_scope :: "string option"
  vq_merchant_pubkey :: "string option"
  vq_local_key :: "string option"

record commerce_grant =
  cg_client_id :: string
  cg_redirect_uri :: string
  cg_merchant_pubkey :: "pubkey option"

definition parse_commerce_grant ::
    "'j perm_ext \<Rightarrow> verify_magic_link_request \<Rightarrow> account_error + commerce_grant option" where
  "parse_commerce_grant P q =
     (case (vq_client_id q, vq_redirect_uri q, vq_scope q, vq_merchant_pubkey q) of
        (None, None, None, None) \<Rightarrow> Inr None
      | (Some client_id, Some redirect_uri, Some scope, _) \<Rightarrow>
          (if str_trim client_id = [] then Inl (AcBadRequest ''Invalid client_id'')
           else if scope \<noteq> COMMERCE_SCOPE then Inl (AcBadRequest ''Invalid scope'')
           else (case vq_merchant_pubkey q of
                   None \<Rightarrow> Inr (Some \<lparr>cg_client_id = client_id, cg_redirect_uri = redirect_uri, cg_merchant_pubkey = None\<rparr>)
                 | Some hex \<Rightarrow>
                     and_then (map_err (\<lambda>_. AcBadRequest ''Invalid merchant_pubkey'') (pk_from_hex P hex)) (\<lambda>merchant.
                       Inr (Some \<lparr>cg_client_id = client_id, cg_redirect_uri = redirect_uri, cg_merchant_pubkey = Some merchant\<rparr>))))
      | _ \<Rightarrow> Inl (AcBadRequest ''client_id, redirect_uri and scope must be sent together''))"

definition same_origin :: "(string \<Rightarrow> page option) \<Rightarrow> string \<Rightarrow> string \<Rightarrow> bool" where
  "same_origin parse a b =
     (case (parse a, parse b) of
        (Some p, Some q) \<Rightarrow> is_set (pg_origin p) \<and> pg_origin p = pg_origin q
      | _ \<Rightarrow> False)"

definition merchant_for_grant ::
    "(string \<Rightarrow> page option) \<Rightarrow> int \<Rightarrow> string \<Rightarrow> commerce_grant \<Rightarrow> customer_app_origin list \<Rightarrow> account_error + pubkey" where
  "merchant_for_grant parse tenant_id link_app_url grant t =
     (if \<not> same_origin parse (cg_redirect_uri grant) link_app_url
      then Inl (AcBadRequest ''redirect_uri does not match the link'')
      else and_then (ok_or (AcBadRequest INVALID_LINK) (parse link_app_url)) (\<lambda>page.
        and_then (ok_or (AcBadRequest ''This app is not allowed'')
                   (find_merchant_pubkey tenant_id (ascii_serialization page) t)) (\<lambda>merchant.
          (case cg_merchant_pubkey grant of
             Some requested \<Rightarrow>
               (if requested \<noteq> merchant then Inl (AcBadRequest ''merchant_pubkey does not match this app'')
                else Inr merchant)
           | None \<Rightarrow> Inr merchant))))"

definition find_or_create_customer ::
    "'j account_world \<Rightarrow> timestamp \<Rightarrow> seckey \<Rightarrow> int \<Rightarrow> string \<Rightarrow> seckey option \<Rightarrow> 'j db \<Rightarrow> account_error + pubkey \<times> 'j db" where
  "find_or_create_customer W now generated tenant_id email local_key d =
     (case find_pubkey_by_email email tenant_id d of
        Some pubkey \<Rightarrow> Inr (pubkey, d)
      | None \<Rightarrow>
          (let keys = (case local_key of Some k \<Rightarrow> k | None \<Rightarrow> generated)
           in and_then (map_err (\<lambda>e. AcInternal (''Failed to encrypt key: '' @ e)) (km_encrypt (ax W) keys)) (\<lambda>encrypted.
                map_err (\<lambda>e. case e of Duplicate \<Rightarrow> AcBadRequest ''Invalid local_key'' | _ \<Rightarrow> account_error_of e)
                  (find_or_create_passwordless now (public_key (ax W) keys) tenant_id email encrypted d))))"

record verify_magic_link_response =
  vr_session_token :: string
  vr_expires_in :: int
  vr_bunker_url :: "string option"

definition delete_session ::
    "'j account_world \<Rightarrow> int \<Rightarrow> string \<Rightarrow> string \<Rightarrow> 'j db \<Rightarrow> account_error + verify_magic_link_response" where
  "delete_session W tenant_id email app_url d =
     and_then (ok_or (AcBadRequest INVALID_LINK) (find_pubkey_by_email email tenant_id d)) (\<lambda>pubkey_hex.
     and_then (map_err (\<lambda>e. AcInternal (''Invalid pubkey: '' @ e)) (pk_from_hex (x_perm (ax W)) pubkey_hex)) (\<lambda>pubkey.
     and_then (map_err AcInternal
                (generate_server_signed_ucan_with_lifetime (acw_token W) pubkey tenant_id email app_url None True None
                   DELETE_SESSION_SECONDS)) (\<lambda>session_token.
       Inr \<lparr>vr_session_token = session_token, vr_expires_in = DELETE_SESSION_SECONDS, vr_bunker_url = None\<rparr>)))"

definition local_secret :: "'j account_world \<Rightarrow> string option \<Rightarrow> account_error + seckey option" where
  "local_secret W key =
     (case key of
        None \<Rightarrow> Inr None
      | Some k \<Rightarrow> and_then (ok_or (AcBadRequest ''Invalid local_key'') (secret_from_hex W k)) (\<lambda>sk. Inr (Some sk)))"

text \<open>The session without a grant.\<close>

definition plain_session ::
    "'j account_world \<Rightarrow> int \<Rightarrow> pubkey \<Rightarrow> string \<Rightarrow> string \<Rightarrow> account_error + verify_magic_link_response" where
  "plain_session W tenant_id pubkey_hex email app_origin =
     and_then (map_err (\<lambda>e. AcInternal (''Invalid pubkey: '' @ e)) (pk_from_hex (x_perm (ax W)) pubkey_hex)) (\<lambda>pubkey.
     and_then (map_err AcInternal
                (generate_server_signed_ucan (acw_token W) pubkey tenant_id email app_origin None False None)) (\<lambda>session_token.
       Inr \<lparr>vr_session_token = session_token, vr_expires_in = token_expiry_seconds (acw_token W), vr_bunker_url = None\<rparr>))"

definition grant_params ::
    "int \<Rightarrow> pubkey \<Rightarrow> string \<Rightarrow> commerce_grant \<Rightarrow> int \<Rightarrow> create_authorization_params" where
  "grant_params tenant_id pubkey_hex email grant policy_id =
     \<lparr>ca_tenant_id = tenant_id, ca_user_pubkey = pubkey_hex, ca_email = email, ca_client_id = cg_client_id grant,
      ca_scope = COMMERCE_SCOPE, ca_redirect_uri = cg_redirect_uri grant, ca_nsec_from_verifier = None,
      ca_previous_auth_id = None, ca_is_headless = False, ca_policy_id = Some policy_id\<rparr>"

text \<open>Authorising the app: the policy of the merchant, then the grant. \<open>None\<close> is a panic.\<close>

definition authorize_app ::
    "'j customer_world \<Rightarrow> timestamp \<Rightarrow> draws \<Rightarrow> int \<Rightarrow> pubkey \<Rightarrow> string \<Rightarrow> commerce_grant \<Rightarrow> pubkey \<Rightarrow> 'j accounts
      \<Rightarrow> (account_error + verify_magic_link_response) option \<times> 'j accounts" where
  "authorize_app W now R tenant_id pubkey_hex email grant merchant s =
     (case find_or_create_commerce_envelope (merchant_config W) now merchant (ac_db s) of
        Inl e \<Rightarrow> (Some (Inl (account_error_of e)), s)
      | Inr (policy_id, d) \<Rightarrow>
          (case create_oauth_authorization (acw_token W) now R (grant_params tenant_id pubkey_hex email grant policy_id)
                  ((ac_server s)\<lparr>sv_db := d\<rparr>) of
             (None, sv) \<Rightarrow> (None, s\<lparr>ac_server := sv\<rparr>)
           | (Some (Inl e), sv) \<Rightarrow>
               (Some (Inl (AcInternal (''Failed to authorize app: '' @ oauth_error_debug W e))), s\<lparr>ac_server := sv\<rparr>)
           | (Some (Inr created), sv) \<Rightarrow>
               (Some (and_then (ok_or (AcInternal ''Missing access token'') (tr_access_token created)) (\<lambda>session_token.
                  Inr \<lparr>vr_session_token = session_token, vr_expires_in = token_expiry_seconds (acw_token W),
                       vr_bunker_url = Some (tr_bunker_url created)\<rparr>)), s\<lparr>ac_server := sv\<rparr>)))"

text \<open>The rest after a link was consumed.\<close>

definition follow_link ::
    "'j customer_world \<Rightarrow> timestamp \<Rightarrow> draws \<Rightarrow> seckey \<Rightarrow> int \<Rightarrow> consumed_magic_link \<Rightarrow> seckey option \<Rightarrow> commerce_grant option
      \<Rightarrow> 'j accounts \<Rightarrow> (account_error + verify_magic_link_response) option \<times> 'j accounts" where
  "follow_link W now R generated tenant_id link local_key grant s =
     (let wa = account_world.truncate W
      in if cm_purpose link = PURPOSE_DELETE_ACCOUNT
         then (Some (delete_session wa tenant_id (cm_email link) (cm_app_origin link) (ac_db s)), s)
         else case (case grant of
                      None \<Rightarrow> Inr None
                    | Some g \<Rightarrow> and_then (merchant_for_grant (page_parse W) tenant_id (cm_app_origin link) g (ac_origins s))
                                  (\<lambda>merchant. Inr (Some (g, merchant)))) of
                Inl e \<Rightarrow> (Some (Inl e), s)
              | Inr granted \<Rightarrow>
                  (case find_or_create_customer wa now generated tenant_id (cm_email link) local_key (ac_db s) of
                     Inl e \<Rightarrow> (Some (Inl e), s)
                   | Inr (pubkey_hex, d) \<Rightarrow>
                       (case granted of
                          Some (g, merchant) \<Rightarrow>
                            authorize_app W now R tenant_id pubkey_hex (cm_email link) g merchant (put_db d s)
                        | None \<Rightarrow>
                            (Some (plain_session wa tenant_id pubkey_hex (cm_email link) (cm_app_origin link)), put_db d s))))"

definition verify_magic_link ::
    "'j customer_world \<Rightarrow> timestamp \<Rightarrow> draws \<Rightarrow> seckey \<Rightarrow> tenant \<Rightarrow> verify_magic_link_request \<Rightarrow> 'j accounts
      \<Rightarrow> (account_error + verify_magic_link_response reply) option \<times> 'j accounts" where
  "verify_magic_link W now R generated tn q s =
     (if \<not> is_customer_tenant (acw_tenants W) tn then (Some (Inr NotHere), s)
      else case and_then (local_secret (account_world.truncate W) (vq_local_key q)) (\<lambda>local_key.
                  and_then (parse_commerce_grant (x_perm (tx (acw_token W))) q) (\<lambda>grant. Inr (local_key, grant))) of
             Inl e \<Rightarrow> (Some (Inl e), s)
           | Inr (local_key, grant) \<Rightarrow>
               (case magic_consume (tw_sha256 (acw_token W)) now (vq_token q) (tn_id tn) (ac_magic s) of
                  (None, t) \<Rightarrow> (Some (Inl (AcBadRequest INVALID_LINK)), s\<lparr>ac_magic := t\<rparr>)
                | (Some link, t) \<Rightarrow>
                    (case follow_link W now R generated (tn_id tn) link local_key grant (s\<lparr>ac_magic := t\<rparr>) of
                       (r, s1) \<Rightarrow> (map_option (\<lambda>x. and_then x (\<lambda>v. Inr (Reply v))) r, s1))))"

section \<open>The signed-in customer\<close>

definition delete_customer_account ::
    "'j account_world \<Rightarrow> timestamp \<Rightarrow> bool \<Rightarrow> tenant \<Rightarrow> parts \<Rightarrow> 'j accounts
      \<Rightarrow> (account_error + string reply) \<times> 'j accounts" where
  "delete_customer_account W now channel tn rq s =
     (if \<not> is_customer_tenant (acw_tenants W) tn then (Inr NotHere, s)
      else (case delete_account W now channel tn rq s of
              (Inl e, s1) \<Rightarrow> (Inl e, s1)
            | (Inr m, s1) \<Rightarrow> (Inr (Reply m), s1)))"

definition customer_apps ::
    "'j account_world \<Rightarrow> timestamp \<Rightarrow> tenant \<Rightarrow> parts \<Rightarrow> 'j accounts
      \<Rightarrow> account_error + (string \<times> string option \<times> timestamp) list reply" where
  "customer_apps W now tn rq s =
     (if \<not> is_customer_tenant (acw_tenants W) tn then Inr NotHere
      else and_then (signed_in_customer (ahttp W) now rq (tn_id tn)) (\<lambda>pubkey.
             Inr (Reply (list_customer_apps now
               (map (\<lambda>r. (co_tenant_id r, co_origin r, co_merchant_name r)) (ac_origins s))
               pubkey (tn_id tn) (db_oauth (ac_db s))))))"

fun retire_grants ::
    "'j http_world \<Rightarrow> timestamp \<Rightarrow> bool \<Rightarrow> (int \<times> pubkey) list \<Rightarrow> 'j server \<Rightarrow> 'j server" where
  "retire_grants X now channel [] sv = sv"
| "retire_grants X now channel ((authorization_id, bunker) # rest) sv =
     retire_grants X now channel rest
       (sv\<lparr>sv_db := snd (revoke_for_authorization now authorization_id (sv_db sv)),
           sv_cache := invalidate_handlers_for_bunker X True bunker (sv_cache sv),
           sv_commands := sv_commands sv @ (if channel then [Remove bunker] else [])\<rparr>)"

definition revoke_customer_app ::
    "'j account_world \<Rightarrow> timestamp \<Rightarrow> bool \<Rightarrow> tenant \<Rightarrow> parts \<Rightarrow> string \<Rightarrow> 'j accounts
      \<Rightarrow> (account_error + unit reply) \<times> 'j accounts" where
  "revoke_customer_app W now channel tn rq app_origin s =
     (if \<not> is_customer_tenant (acw_tenants W) tn then (Inr NotHere, s)
      else case signed_in_customer (ahttp W) now rq (tn_id tn) of
             Inl e \<Rightarrow> (Inl e, s)
           | Inr pubkey \<Rightarrow>
               (case revoke_by_origin now pubkey app_origin (tn_id tn) (db_oauth (ac_db s)) of
                  (revoked, t) \<Rightarrow>
                    (let s1 = put_db ((ac_db s)\<lparr>db_oauth := t\<rparr>) s
                     in if revoked = [] then (Inr NotHere, s1)
                        else (Inr (Reply ()),
                              s1\<lparr>ac_server := retire_grants (ahttp W) now channel revoked (ac_server s1)\<rparr>))))"

end
