(* ===== verification/CustomersProofs.thy ===== *)
theory CustomersProofs
  imports Customers OAuthTokenProofs
begin

text \<open>
  What the customer endpoints promise: an app gets no more than the envelope policy of its own
  merchant, an ordinary session cannot delete the account, and asking for a link reveals nothing about
  accounts.
\<close>

section \<open>Policies of merchants\<close>

text \<open>A policy that grants envelopes for one merchant and nothing else.\<close>

definition commerce_only :: "(pubkey \<Rightarrow> 'j) \<Rightarrow> pubkey \<Rightarrow> 'j db \<Rightarrow> int \<Rightarrow> bool" where
  "commerce_only mk merchant d policy_id \<longleftrightarrow>
     (\<exists>q. get_permissions d policy_id = [q] \<and> perm_identifier q = ''commerce_envelope'' \<and> perm_config q = mk merchant)"

text \<open>Ids come from their sequences, and a global policy named after a merchant is of this kind.\<close>

definition commerce_ok :: "(pubkey \<Rightarrow> 'j) \<Rightarrow> 'j db \<Rightarrow> bool" where
  "commerce_ok mk d \<longleftrightarrow>
     (\<forall>p\<in>set (db_policies d). po_id p < db_policies_seq d)
     \<and> (\<forall>q\<in>set (db_permissions d). perm_id q < db_permissions_seq d)
     \<and> (\<forall>l\<in>set (db_policy_permissions d). pp_policy_id l < db_policies_seq d \<and> pp_permission_id l < db_permissions_seq d)
     \<and> (\<forall>p\<in>set (db_policies d). \<forall>m. po_team_id p = None \<longrightarrow> po_name p = commerce_policy_name m
          \<longrightarrow> commerce_only mk m d (po_id p))"

definition policy_tables ::
    "'j db \<Rightarrow> policy list \<times> 'j permission list \<times> policy_permission list \<times> int \<times> int" where
  "policy_tables d =
     (db_policies d, db_permissions d, db_policy_permissions d, db_policies_seq d, db_permissions_seq d)"

lemma commerce_ok_cong:
  assumes "policy_tables d' = policy_tables d"
  shows "commerce_ok mk d' = commerce_ok mk d" "commerce_only mk m d' i = commerce_only mk m d i"
  using assms by (simp_all add: policy_tables_def commerce_ok_def commerce_only_def get_permissions_def)

lemma ensure_user_key_policies: "ensure_user_key W p d = (r, d') \<Longrightarrow> policy_tables d' = policy_tables d"
  by (auto simp: ensure_user_key_def personal_keys_create_def policy_tables_def split: option.splits sum.splits if_splits)

lemma store_authorization_policies:
  "store_authorization W now R p row s = (r, s') \<Longrightarrow> policy_tables (sv_db s') = policy_tables (sv_db s)"
  by (auto simp: store_authorization_def revoke_previous_def oauth_create_def refresh_create_def
      revoke_for_authorization_def policy_tables_def Let_def split: option.splits prod.splits sum.splits if_splits)

lemma create_oauth_authorization_policies:
  assumes "create_oauth_authorization W now R p s = (r, s')"
  shows "policy_tables (sv_db s') = policy_tables (sv_db s)"
proof -
  obtain k d where k: "ensure_user_key W p (sv_db s) = (k, d)" by fastforce
  note d = ensure_user_key_policies[OF k]
  show ?thesis
    using assms k d
    by (auto simp: create_oauth_authorization_def Let_def
        split: sum.splits option.splits prod.splits dest!: store_authorization_policies)
qed

text \<open>The new rows of a merchant seen for the first time.\<close>

lemma new_commerce_policy:
  assumes "commerce_ok mk d"
    and "d' = d\<lparr>db_policies := db_policies d @ [blank_policy (db_policies_seq d) None (commerce_policy_name m)],
                db_policies_seq := db_policies_seq d + 1,
                db_permissions := db_permissions d @ [q], db_permissions_seq := db_permissions_seq d + 1,
                db_policy_permissions := db_policy_permissions d
                  @ [\<lparr>pp_policy_id = db_policies_seq d, pp_permission_id = perm_id q\<rparr>]\<rparr>"
    and "perm_id q = db_permissions_seq d" "perm_identifier q = ''commerce_envelope''" "perm_config q = mk m"
  shows "commerce_ok mk d'" "commerce_only mk m d' (db_policies_seq d)"
proof -
  have other: "get_permissions d' i = get_permissions d i" if "i < db_policies_seq d" for i
  proof -
    have "perm_id q \<noteq> pp_permission_id l" if "l \<in> set (db_policy_permissions d)" for l
      using assms(1,3) that by (auto simp: commerce_ok_def)
    then show ?thesis
      using that assms(2)
      by (auto simp: get_permissions_def fetch_all_def intro!: arg_cong[where f = concat] map_cong)
  qed
  have nolink: "filter (\<lambda>l. pp_policy_id l = db_policies_seq d) (db_policy_permissions d) = []"
    using assms(1) by (auto simp: commerce_ok_def filter_empty_conv)
  have noperm: "filter (\<lambda>p. perm_id p = db_permissions_seq d) (db_permissions d) = []"
    using assms(1) by (auto simp: commerce_ok_def filter_empty_conv)
  have new: "get_permissions d' (db_policies_seq d) = [q]"
    using assms(2,3) nolink noperm by (simp add: get_permissions_def fetch_all_def)
  then show only: "commerce_only mk m d' (db_policies_seq d)"
    using assms(4,5) by (simp add: commerce_only_def)
  have old: "commerce_only mk m' d' (po_id p)"
    if "p \<in> set (db_policies d)" "po_team_id p = None" "po_name p = commerce_policy_name m'" for p m'
    using assms(1) that other[of "po_id p"] by (auto simp: commerce_ok_def commerce_only_def)
  show "commerce_ok mk d'"
    using assms(1,2,3) only old
    by (fastforce simp: commerce_ok_def blank_policy_def commerce_policy_name_def)
qed

abbreviation merchant_policies :: "pubkey \<Rightarrow> 'j db \<Rightarrow> policy list" where
  "merchant_policies m d \<equiv> fetch_all (\<lambda>p. po_name p = commerce_policy_name m \<and> \<not> is_set (po_team_id p)) (db_policies d)"

abbreviation merchant_permission :: "(pubkey \<Rightarrow> 'j) \<Rightarrow> timestamp \<Rightarrow> pubkey \<Rightarrow> 'j db \<Rightarrow> 'j permission" where
  "merchant_permission mk now m d \<equiv>
     \<lparr>perm_id = db_permissions_seq d, perm_identifier = ''commerce_envelope'', perm_config = mk m,
      perm_created_at = now, perm_updated_at = now\<rparr>"

abbreviation with_merchant :: "(pubkey \<Rightarrow> 'j) \<Rightarrow> timestamp \<Rightarrow> pubkey \<Rightarrow> 'j db \<Rightarrow> 'j db" where
  "with_merchant mk now m d \<equiv>
     d\<lparr>db_policies := db_policies d @ [blank_policy (db_policies_seq d) None (commerce_policy_name m)],
       db_policies_seq := db_policies_seq d + 1,
       db_permissions := db_permissions d @ [merchant_permission mk now m d],
       db_permissions_seq := db_permissions_seq d + 1,
       db_policy_permissions := db_policy_permissions d
         @ [\<lparr>pp_policy_id = db_policies_seq d, pp_permission_id = perm_id (merchant_permission mk now m d)\<rparr>]\<rparr>"

lemma sort_key_Nil_iff: "sort_key f xs = [] \<longleftrightarrow> xs = []"
  by (simp flip: length_0_conv)

lemma find_or_create_known:
  assumes "merchant_policies m d \<noteq> []"
  obtains p where "p \<in> set (db_policies d)" "po_name p = commerce_policy_name m" "po_team_id p = None"
    "find_or_create_commerce_envelope mk now m d = Inr (po_id p, d)"
proof -
  have "sort_key po_id (merchant_policies m d) \<noteq> []"
    using assms by (simp add: sort_key_Nil_iff)
  then obtain p ps where s: "sort_key po_id (merchant_policies m d) = p # ps" by (cases "sort_key po_id (merchant_policies m d)") auto
  then have "p \<in> set (sort_key po_id (merchant_policies m d))" by simp
  then have "p \<in> set (db_policies d)" "po_name p = commerce_policy_name m" "po_team_id p = None"
    by (auto simp: fetch_all_def is_set_def split: option.splits)
  with that s show ?thesis by (simp add: find_or_create_commerce_envelope_def)
qed

lemma find_or_create_new:
  assumes "merchant_policies m d = []" and "commerce_ok mk d"
  shows "find_or_create_commerce_envelope mk now m d = Inr (db_policies_seq d, with_merchant mk now m d)"
proof -
  have "\<not> exists_row (\<lambda>l. pp_policy_id l = db_policies_seq d \<and> pp_permission_id l = db_permissions_seq d)
      (db_policy_permissions d)"
    using assms(2) by (auto simp: commerce_ok_def exists_row_iff)
  with assms(1) show ?thesis
    by (simp add: find_or_create_commerce_envelope_def insert_policy_def create_permission_def link_permission_def
        Let_def blank_policy_def exists_row_iff)
qed

lemma find_or_create_commerce_envelope_ok:
  assumes ok: "commerce_ok mk d"
  obtains i d' where "find_or_create_commerce_envelope mk now m d = Inr (i, d')"
    "commerce_ok mk d'" "commerce_only mk m d' i"
    "db_oauth d' = db_oauth d" "db_oauth_seq d' = db_oauth_seq d" "db_users d' = db_users d"
    "db_personal_keys d' = db_personal_keys d"
proof (cases "merchant_policies m d = []")
  case True
  with that new_commerce_policy[OF ok refl] find_or_create_new[OF True ok] show ?thesis by simp
next
  case False
  then obtain p where "p \<in> set (db_policies d)" "po_name p = commerce_policy_name m" "po_team_id p = None"
    "find_or_create_commerce_envelope mk now m d = Inr (po_id p, d)" by (rule find_or_create_known)
  with that ok show ?thesis by (simp add: commerce_ok_def)
qed

text \<open>The second call finds what the first one made.\<close>

lemma find_or_create_commerce_envelope_again:
  assumes "find_or_create_commerce_envelope mk now m d = Inr (i, d')" and "commerce_ok mk d"
  shows "find_or_create_commerce_envelope mk now' m d' = Inr (i, d')"
proof (cases "merchant_policies m d = []")
  case False
  then obtain p ps where "sort_key po_id (merchant_policies m d) = p # ps"
    by (cases "sort_key po_id (merchant_policies m d)") (auto simp: sort_key_Nil_iff)
  with assms(1) show ?thesis by (auto simp: find_or_create_commerce_envelope_def)
next
  case True
  with assms find_or_create_new[OF True assms(2), of now]
  have d': "i = db_policies_seq d" "d' = with_merchant mk now m d" by auto
  have "merchant_policies m d' = [blank_policy i None (commerce_policy_name m)]"
    using True by (simp add: d' fetch_all_def blank_policy_def)
  then show ?thesis
    by (simp add: find_or_create_commerce_envelope_def blank_policy_def)
qed

section \<open>Following a link\<close>

lemma verify_magic_link_ok:
  assumes "verify_magic_link W now R generated tn q s = (Some (Inr (Reply v)), s')"
  obtains local_key grant row t where
    "is_customer_tenant (acw_tenants W) tn"
    "row \<in> set (rows (ac_magic s))"
    "magic_consumable now (tw_sha256 (acw_token W) (vq_token q)) (tn_id tn) row"
    "magic_consume (tw_sha256 (acw_token W)) now (vq_token q) (tn_id tn) (ac_magic s)
       = (Some \<lparr>cm_email = ml_email row, cm_purpose = ml_purpose row, cm_app_origin = ml_app_origin row\<rparr>, t)"
    "follow_link W now R generated (tn_id tn)
       \<lparr>cm_email = ml_email row, cm_purpose = ml_purpose row, cm_app_origin = ml_app_origin row\<rparr> local_key grant
       (s\<lparr>ac_magic := t\<rparr>) = (Some (Inr v), s')"
proof -
  let ?sha = "tw_sha256 (acw_token W)"
  from assms obtain local_key grant link t where c: "is_customer_tenant (acw_tenants W) tn"
    and m: "magic_consume ?sha now (vq_token q) (tn_id tn) (ac_magic s) = (Some link, t)"
    and f: "follow_link W now R generated (tn_id tn) link local_key grant (s\<lparr>ac_magic := t\<rparr>) = (Some (Inr v), s')"
    by (auto simp: verify_magic_link_def and_then_Inr_iff split: if_splits sum.splits prod.splits option.splits)
  from m obtain row where row: "fetch_optional (magic_consumable now (?sha (vq_token q)) (tn_id tn)) (rows (ac_magic s)) = Some row"
    and link: "link = \<lparr>cm_email = ml_email row, cm_purpose = ml_purpose row, cm_app_origin = ml_app_origin row\<rparr>"
    by (auto simp: magic_consume_def Let_def)
  from row have "row \<in> set (rows (ac_magic s))" "magic_consumable now (?sha (vq_token q)) (tn_id tn) row"
    by (auto simp: fetch_optional_Some)
  with that c m f link show ?thesis by blast
qed

lemma delete_session_no_grant: "delete_session W tenant_id email url d = Inr v \<Longrightarrow> vr_bunker_url v = None"
  by (auto simp: delete_session_def and_then_Inr_iff)

lemma plain_session_no_grant: "plain_session W tenant_id pubkey email url = Inr v \<Longrightarrow> vr_bunker_url v = None"
  by (auto simp: plain_session_def and_then_Inr_iff)

lemma authorize_app_ok:
  assumes "authorize_app W now R tenant_id pubkey email g merchant s = (Some (Inr v), s')"
  obtains pid d created sv where
    "find_or_create_commerce_envelope (merchant_config W) now merchant (ac_db s) = Inr (pid, d)"
    "create_oauth_authorization (acw_token W) now R (grant_params tenant_id pubkey email g pid) ((ac_server s)\<lparr>sv_db := d\<rparr>)
       = (Some (Inr created), sv)"
    "s' = s\<lparr>ac_server := sv\<rparr>" "tr_access_token created = Some (vr_session_token v)"
  using assms
  by (auto simp: authorize_app_def and_then_Inr_iff split: sum.splits prod.splits option.splits)

text \<open>What a sign-in link leads to: the account, and a grant when one was asked for.\<close>

lemma follow_link_ok:
  assumes "follow_link W now R generated tenant_id link local_key grant s = (Some (Inr v), s')"
    and "cm_purpose link \<noteq> PURPOSE_DELETE_ACCOUNT"
  obtains (plain) pubkey d where "grant = None"
      "find_or_create_customer (account_world.truncate W) now generated tenant_id (cm_email link) local_key (ac_db s) = Inr (pubkey, d)"
      "plain_session (account_world.truncate W) tenant_id pubkey (cm_email link) (cm_app_origin link) = Inr v"
      "s' = put_db d s"
    | (granted) g merchant pubkey d where "grant = Some g"
      "merchant_for_grant (page_parse W) tenant_id (cm_app_origin link) g (ac_origins s) = Inr merchant"
      "find_or_create_customer (account_world.truncate W) now generated tenant_id (cm_email link) local_key (ac_db s) = Inr (pubkey, d)"
      "authorize_app W now R tenant_id pubkey (cm_email link) g merchant (put_db d s) = (Some (Inr v), s')"
  using assms
  by (auto simp: follow_link_def Let_def and_then_Inr_iff split: sum.splits prod.splits option.splits)

lemma put_db_simps [simp]:
  "ac_db (put_db d s) = d" "ac_origins (put_db d s) = ac_origins s" "ac_magic (put_db d s) = ac_magic s"
  by (simp_all add: put_db_def ac_db_def)

lemma find_or_create_customer_ok:
  assumes "find_or_create_customer W now generated tenant_id email local_key d = Inr (pubkey, d')"
  shows "policy_tables d' = policy_tables d \<and> db_oauth d' = db_oauth d \<and> db_oauth_seq d' = db_oauth_seq d
    \<and> (\<exists>u\<in>set (db_users d'). us_pubkey u = pubkey \<and> us_email u = Some email \<and> us_tenant_id u = tenant_id)"
proof (cases "find_pubkey_by_email email tenant_id d")
  case (Some p)
  with assms have "pubkey = p" "d' = d" by (simp_all add: find_or_create_customer_def)
  moreover from Some obtain u where "u \<in> set (db_users d)" "us_pubkey u = p" "us_email u = Some email" "us_tenant_id u = tenant_id"
    by (auto simp: find_pubkey_by_email_def dest: fetch_optional_Some)
  ultimately show ?thesis by auto
next
  case None
  let ?u = "\<lambda>k. (blank_user k tenant_id now)\<lparr>us_email := Some email, us_email_verified := Some True\<rparr>"
  from None have none: "fetch_optional (user_with_email email tenant_id) (db_users d) = None"
    by (simp add: find_pubkey_by_email_def user_with_email_def fetch_optional_None)
  from assms None obtain k enc where "find_or_create_passwordless now k tenant_id email enc d = Inr (pubkey, d')"
    by (auto simp: find_or_create_customer_def Let_def and_then_Inr_iff map_err_Inr_iff)
  with none obtain d1 where i: "insert_user (?u k) d = Inr d1" and p: "personal_keys_create k enc tenant_id d1 = Inr d'"
    and "pubkey = k"
    by (auto simp: find_or_create_passwordless_def and_then_Inr_iff)
  moreover have "policy_tables d1 = policy_tables d" "db_oauth d1 = db_oauth d" "db_oauth_seq d1 = db_oauth_seq d"
    "?u k \<in> set (db_users d1)"
    using i by (auto simp: insert_user_def policy_tables_def split: if_splits)
  moreover have "policy_tables d' = policy_tables d1" "db_oauth d' = db_oauth d1" "db_oauth_seq d' = db_oauth_seq d1"
    "db_users d' = db_users d1"
    using p by (auto simp: personal_keys_create_def policy_tables_def split: if_splits)
  ultimately show ?thesis
    by (auto simp: blank_user_def intro!: bexI [of _ "?u k"])
qed

text \<open>The grant row that is written.\<close>

lemma grant_row:
  assumes "create_oauth_authorization W now R (grant_params tenant_id pubkey email g pid) sv = (Some (Inr created), sv')"
  obtains a where "a \<in> set (db_oauth (sv_db sv'))" "oa_id a = db_oauth_seq (sv_db sv)" "oa_user_pubkey a = pubkey"
    "oa_tenant_id a = tenant_id" "oa_policy_id a = Some pid" "oa_revoked_at a = None"
    "extract_origin (url_parse W) (cg_redirect_uri g) = Inr (oa_redirect_origin a)"
    "db_users (sv_db sv') = db_users (sv_db sv)"
proof -
  let ?p = "grant_params tenant_id pubkey email g pid"
  obtain encrypted d1 origin secret hash bk access pid' i where
    e: "ensure_user_key W ?p (sv_db sv) = (Inr encrypted, d1)"
    and o: "extract_origin (url_parse W) (ca_redirect_uri ?p) = Inr origin"
    and pid: "(case ca_policy_id ?p of Some pid \<Rightarrow> Inr pid | None \<Rightarrow> resolve_policy_from_scope d1 (ca_scope ?p)) = Inr pid'"
    and st: "store_authorization W now R ?p
       (authorization_row_params now R ?p origin (public_key (tx W) bk) hash pid') (sv\<lparr>sv_db := d1\<rparr>) = (Inr i, sv')"
    using assms by (rule create_oauth_authorization_ok)
  let ?row = "authorization_row_params now R ?p origin (public_key (tx W) bk) hash pid'"
  obtain d2 d3 t where oc: "oauth_create now ?row d1 = (Inr i, d2)"
    and rc: "refresh_create (tw_sha256 W) now (dr_refresh_token R) i (ca_tenant_id ?p) d2 = (Inr t, d3)"
    and s': "sv_db sv' = sv_db (revoke_previous now (ca_previous_auth_id ?p) (sv\<lparr>sv_db := d1, sv_db := d3\<rparr>))"
    using st by (rule store_authorization_ok) simp
  have "sv_db sv' = d3" using s' by (simp add: revoke_previous_def grant_params_def)
  moreover note f = ensure_user_key_frame [OF e] oauth_create_frame [OF oc] oauth_create_row [OF oc] refresh_create_frame [OF rc]
  ultimately show ?thesis
    using that [of "new_oauth_row now i ?row"] pid o
    by (simp add: grant_params_def authorization_row_params_def new_oauth_row_def)
qed

section \<open>Properties\<close>

text \<open>
  C25. An app gets no more than its merchant: when a sign-in link leads to a grant, the grant is for the
  customer the link was sent to, and its policy holds one permission, the envelope permission of the
  merchant registered for the origin of the page recorded with the link. Whatever merchant, page or
  scope the request names, it cannot widen this.
\<close>

theorem commerce_grant_confined:
  assumes v: "verify_magic_link W now R generated tn q s = (Some (Inr (Reply v)), s')"
    and granted: "vr_bunker_url v = Some url"
    and ok: "commerce_ok (merchant_config W) (ac_db s)"
    and config: "\<forall>p m. perm_identifier p = ''commerce_envelope'' \<longrightarrow> perm_config p = merchant_config W m
                   \<longrightarrow> to_custom_permission P p = Inr (CommerceEnvelope m)"
  shows "commerce_ok (merchant_config W) (ac_db s')
    \<and> (\<exists>row page merchant a policy_id. row \<in> set (rows (ac_magic s))
         \<and> magic_consumable now (tw_sha256 (acw_token W) (vq_token q)) (tn_id tn) row
         \<and> page_parse W (ml_app_origin row) = Some page
         \<and> find_merchant_pubkey (tn_id tn) (ascii_serialization page) (ac_origins s) = Some merchant
         \<and> a \<in> set (db_oauth (ac_db s')) \<and> oa_id a = db_oauth_seq (ac_db s) \<and> oa_tenant_id a = tn_id tn
         \<and> (\<exists>u\<in>set (db_users (ac_db s')). us_email u = Some (ml_email row) \<and> us_pubkey u = oa_user_pubkey a)
         \<and> oa_policy_id a = Some policy_id
         \<and> map (to_custom_permission P) (get_permissions (ac_db s') policy_id) = [Inr (CommerceEnvelope merchant)])"
proof -
  let ?mk = "merchant_config W"
  obtain local_key grant row t where row: "row \<in> set (rows (ac_magic s))"
    "magic_consumable now (tw_sha256 (acw_token W) (vq_token q)) (tn_id tn) row"
    and f: "follow_link W now R generated (tn_id tn)
       \<lparr>cm_email = ml_email row, cm_purpose = ml_purpose row, cm_app_origin = ml_app_origin row\<rparr> local_key grant
       (s\<lparr>ac_magic := t\<rparr>) = (Some (Inr v), s')"
    using v by (rule verify_magic_link_ok)
  have "ml_purpose row \<noteq> PURPOSE_DELETE_ACCOUNT"
    using f granted delete_session_no_grant by (fastforce simp: follow_link_def Let_def)
  with f granted obtain g merchant pubkey d where
    m: "merchant_for_grant (page_parse W) (tn_id tn) (ml_app_origin row) g (ac_origins s) = Inr merchant"
    and c: "find_or_create_customer (account_world.truncate W) now generated (tn_id tn) (ml_email row) local_key (ac_db s) = Inr (pubkey, d)"
    and a: "authorize_app W now R (tn_id tn) pubkey (ml_email row) g merchant (put_db d (s\<lparr>ac_magic := t\<rparr>)) = (Some (Inr v), s')"
    by (elim follow_link_ok) (auto simp: ac_db_def dest: plain_session_no_grant)
  have c_ok: "policy_tables d = policy_tables (ac_db s)" "db_oauth d = db_oauth (ac_db s)"
    "db_oauth_seq d = db_oauth_seq (ac_db s)"
    "\<exists>u\<in>set (db_users d). us_pubkey u = pubkey \<and> us_email u = Some (ml_email row) \<and> us_tenant_id u = tn_id tn"
    using find_or_create_customer_ok [OF c] by simp_all
  from m obtain page where page: "page_parse W (ml_app_origin row) = Some page"
    "find_merchant_pubkey (tn_id tn) (ascii_serialization page) (ac_origins s) = Some merchant"
    by (auto simp: merchant_for_grant_def and_then_Inr_iff split: if_splits option.splits)
  from a obtain pid d1 created sv where e: "find_or_create_commerce_envelope ?mk now merchant d = Inr (pid, d1)"
    and o: "create_oauth_authorization (acw_token W) now R (grant_params (tn_id tn) pubkey (ml_email row) g pid)
       ((ac_server (put_db d (s\<lparr>ac_magic := t\<rparr>)))\<lparr>sv_db := d1\<rparr>) = (Some (Inr created), sv)"
    and s': "s' = (put_db d (s\<lparr>ac_magic := t\<rparr>))\<lparr>ac_server := sv\<rparr>"
    by (rule authorize_app_ok) simp
  have db: "ac_db s' = sv_db sv" by (simp add: s' ac_db_def)
  have "commerce_ok ?mk d" using ok by (simp add: commerce_ok_cong(1) [OF c_ok(1)])
  then have d1: "commerce_ok ?mk d1" "commerce_only ?mk merchant d1 pid" "db_oauth_seq d1 = db_oauth_seq (ac_db s)"
    "db_users d1 = db_users d"
    using e c_ok(3) by (auto elim: find_or_create_commerce_envelope_ok [where now = now and m = merchant])
  have pt: "policy_tables (sv_db sv) = policy_tables d1"
    using create_oauth_authorization_policies [OF o] by simp
  obtain a' where "a' \<in> set (db_oauth (sv_db sv))" "oa_id a' = db_oauth_seq d1" "oa_user_pubkey a' = pubkey"
    "oa_tenant_id a' = tn_id tn" "oa_policy_id a' = Some pid" "db_users (sv_db sv) = db_users d1"
    using o by (rule grant_row) simp
  moreover have "map (to_custom_permission P) (get_permissions (sv_db sv) pid) = [Inr (CommerceEnvelope merchant)]"
  proof -
    have "get_permissions (sv_db sv) pid = get_permissions d1 pid"
      using pt by (simp add: policy_tables_def get_permissions_def)
    with d1(2) config show ?thesis by (auto simp: commerce_only_def)
  qed
  moreover have "commerce_ok ?mk (sv_db sv)"
    using d1(1) by (simp add: commerce_ok_cong(1) [OF pt])
  moreover obtain u where "u \<in> set (db_users d)" "us_pubkey u = pubkey" "us_email u = Some (ml_email row)"
    using c_ok(4) by blast
  ultimately show ?thesis
    unfolding db by (intro conjI exI [of _ row] exI [of _ page] exI [of _ merchant] exI [of _ a'] exI [of _ pid])
      (use row page d1(3,4) in auto)
qed

text \<open>
  What the UCAN crate does with the fact \<open>first_party\<close> of a token the server signed: it decodes to the
  issuer and the fact it was built with.
\<close>

definition first_party_faithful :: "'j account_world \<Rightarrow> pubkey \<Rightarrow> bool" where
  "first_party_faithful W server_key \<longleftrightarrow>
     (\<forall>aud life facts tok. ucan_sign (acw_token W) aud life facts = Inr tok \<longrightarrow>
        (\<exists>u. ucan_parse (ahttp W) tok = Inr u \<and> uc_audience u = aud
           \<and> did_to_nostr_pubkey (ahttp W) (uc_issuer u) = Inr server_key
           \<and> (fact_bool W ''first_party'' (uc_facts u) = Some True \<longleftrightarrow> uf_first_party facts)))"

lemma not_first_party_cannot_delete:
  assumes signed: "ucan_sign (acw_token W) (nostr_pubkey_to_did (acw_token W) user) life facts = Inr tok"
    and faithful: "first_party_faithful W server_key"
    and did: "\<forall>pk. did_to_nostr_pubkey (ahttp W) (nostr_pubkey_to_did (acw_token W) pk) = Inr pk"
    and ordinary: "\<not> uf_first_party facts" "user \<noteq> server_key"
    and rq: "deletion_token rq = Inr (''Bearer '' @ tok)"
  shows "\<exists>e. delete_account W now channel tn rq s = (Inl e, s)"
proof -
  obtain u where u: "ucan_parse (ahttp W) tok = Inr u" "uc_audience u = nostr_pubkey_to_did (acw_token W) user"
    "did_to_nostr_pubkey (ahttp W) (uc_issuer u) = Inr server_key"
    "fact_bool W ''first_party'' (uc_facts u) \<noteq> Some True"
    using faithful signed ordinary(1) unfolding first_party_faithful_def by blast
  have b: "strip_prefix ''Bearer '' (''Bearer '' @ tok) = Some tok"
    by (subst strip_prefix_Some) (rule refl)
  have "p = user \<and> u' = u" if "validate_ucan_token (ahttp W) now (''Bearer '' @ tok) n = Inr (p, o', b', u')" for p o' b' u' n
    using that u(1,2) did unfolding validate_ucan_token_def b by (auto simp: and_then_Inr_iff Let_def split: if_splits)
  then have "\<exists>e. and_then (map_err (\<lambda>_. AcInvalidToken) (validate_ucan_token (ahttp W) now (''Bearer '' @ tok) (tn_id tn)))
      (\<lambda>(p, _, _, u). and_then (may_delete W p u) (\<lambda>_. Inr p)) = Inl e"
    using u(3,4) ordinary(2)
    by (cases "validate_ucan_token (ahttp W) now (''Bearer '' @ tok) (tn_id tn)") (auto simp: may_delete_def)
  then show ?thesis
    unfolding delete_account_def rq by auto
qed

lemma ordinary_token:
  assumes "generate_server_signed_ucan W pubkey tenant_id email origin b False role = Inr tok"
  obtains life facts where "\<not> uf_first_party facts" "ucan_sign W (nostr_pubkey_to_did W pubkey) life facts = Inr tok"
  by (rule that [of "\<lparr>uf_tenant_id = tenant_id, uf_email = email, uf_redirect_origin = origin, uf_bunker_pubkey = b,
        uf_first_party = False, uf_admin_role = role\<rparr>" "token_expiry_seconds W"])
    (use assms in \<open>simp_all add: generate_server_signed_ucan_def\<close>)

lemma session_of_sign_in:
  assumes "follow_link W now R generated tenant_id link local_key grant s = (Some (Inr v), s')"
    and "cm_purpose link \<noteq> PURPOSE_DELETE_ACCOUNT"
    and pk: "\<forall>hex p. pk_from_hex (x_perm (tx (acw_token W))) hex = Inr p \<longrightarrow> p = hex"
  obtains u life facts where "u \<in> set (db_users (ac_db s'))" "\<not> uf_first_party facts"
    "ucan_sign (acw_token W) (nostr_pubkey_to_did (acw_token W) (us_pubkey u)) life facts = Inr (vr_session_token v)"
  using assms(1,2)
proof (cases rule: follow_link_ok)
  case (plain pubkey d)
  have "generate_server_signed_ucan (acw_token W) pubkey tenant_id (cm_email link) (cm_app_origin link) None False None
      = Inr (vr_session_token v)"
    using plain(3) by (auto simp: plain_session_def and_then_Inr_iff map_err_Inr_iff account_world.truncate_def
        dest!: pk [rule_format])
  then obtain life facts where "\<not> uf_first_party facts"
    "ucan_sign (acw_token W) (nostr_pubkey_to_did (acw_token W) pubkey) life facts = Inr (vr_session_token v)"
    by (rule ordinary_token)
  moreover obtain u where "u \<in> set (db_users d)" "us_pubkey u = pubkey"
    using find_or_create_customer_ok [OF plain(2)] by blast
  ultimately show ?thesis by (intro that [of u facts life]) (simp_all add: plain(4))
next
  case (granted g merchant pubkey d)
  from granted(4) obtain pid d1 created sv where
    e: "find_or_create_commerce_envelope (merchant_config W) now merchant d = Inr (pid, d1)"
    and o: "create_oauth_authorization (acw_token W) now R (grant_params tenant_id pubkey (cm_email link) g pid)
       ((ac_server (put_db d s))\<lparr>sv_db := d1\<rparr>) = (Some (Inr created), sv)"
    and s': "s' = (put_db d s)\<lparr>ac_server := sv\<rparr>" and tok: "tr_access_token created = Some (vr_session_token v)"
    by (rule authorize_app_ok) simp
  have users: "db_users (ac_db s') = db_users d"
  proof -
    have "db_users d1 = db_users d"
      using e by (auto simp: find_or_create_commerce_envelope_def insert_policy_def create_permission_def link_permission_def
          and_then_Inr_iff Let_def split: list.splits if_splits)
    moreover obtain a where "db_users (sv_db sv) = db_users d1" using o by (rule grant_row) simp
    ultimately show ?thesis by (simp add: s' ac_db_def)
  qed
  from o obtain origin bk access secret where
    i: "issue_access_token (acw_token W) pubkey tenant_id (cm_email link) origin (public_key (tx (acw_token W)) bk) False = Inr access"
    and r: "created_response (acw_token W) R (grant_params tenant_id pubkey (cm_email link) g pid) secret access
      (public_key (tx (acw_token W)) bk) (sv_db sv) = Some created"
    by (rule create_oauth_authorization_ok) (simp add: grant_params_def)
  have "access = vr_session_token v" using r tok by (auto simp: created_response_def)
  with i have "generate_server_signed_ucan (acw_token W) pubkey tenant_id (cm_email link) origin
      (Some (public_key (tx (acw_token W)) bk)) False None = Inr (vr_session_token v)"
    by (auto simp: issue_access_token_def and_then_Inr_iff map_err_Inr_iff dest!: pk [rule_format])
  then obtain life facts where "\<not> uf_first_party facts"
    "ucan_sign (acw_token W) (nostr_pubkey_to_did (acw_token W) pubkey) life facts = Inr (vr_session_token v)"
    by (rule ordinary_token)
  moreover obtain u where "u \<in> set (db_users d)" "us_pubkey u = pubkey"
    using find_or_create_customer_ok [OF granted(3)] by blast
  ultimately show ?thesis by (intro that [of u facts life]) (simp_all add: users)
qed

text \<open>
  An ordinary session cannot delete the account: whatever request carries the session that a sign-in
  link gave, with a grant or without, the deletion endpoint refuses it and changes nothing, at any
  later time and in any state. Only the short session of a deletion link, or a token signed with the
  customer's own key, passes.
\<close>

theorem sign_in_session_cannot_delete:
  assumes v: "verify_magic_link W now R generated tn q s = (Some (Inr (Reply v)), s')"
    and sign_in: "\<forall>r\<in>set (rows (ac_magic s)). ml_token_hash r = tw_sha256 (acw_token W) (vq_token q)
                    \<longrightarrow> ml_purpose r = PURPOSE_SIGN_IN"
    and faithful: "first_party_faithful (account_world.truncate W) server_key"
    and did: "\<forall>pk. did_to_nostr_pubkey (tw_http (acw_token W)) (nostr_pubkey_to_did (acw_token W) pk) = Inr pk"
    and pk: "\<forall>hex p. pk_from_hex (x_perm (tx (acw_token W))) hex = Inr p \<longrightarrow> p = hex"
    and server: "\<forall>u\<in>set (db_users (ac_db s')). us_pubkey u \<noteq> server_key"
    and rq: "deletion_token rq = Inr (''Bearer '' @ vr_session_token v)"
  shows "\<exists>e. delete_customer_account (account_world.truncate W) later channel tn rq s2 = (Inl e, s2)"
proof -
  obtain local_key grant row t where c: "is_customer_tenant (acw_tenants W) tn" and row: "row \<in> set (rows (ac_magic s))"
    "magic_consumable now (tw_sha256 (acw_token W) (vq_token q)) (tn_id tn) row"
    and f: "follow_link W now R generated (tn_id tn)
       \<lparr>cm_email = ml_email row, cm_purpose = ml_purpose row, cm_app_origin = ml_app_origin row\<rparr> local_key grant
       (s\<lparr>ac_magic := t\<rparr>) = (Some (Inr v), s')"
    using v by (rule verify_magic_link_ok)
  have "ml_purpose row = PURPOSE_SIGN_IN"
    using sign_in row by (simp add: magic_consumable_def)
  then have p: "cm_purpose \<lparr>cm_email = ml_email row, cm_purpose = ml_purpose row, cm_app_origin = ml_app_origin row\<rparr>
      \<noteq> PURPOSE_DELETE_ACCOUNT"
    by (simp add: PURPOSE_SIGN_IN_def PURPOSE_DELETE_ACCOUNT_def)
  obtain u life facts where u: "u \<in> set (db_users (ac_db s'))" "\<not> uf_first_party facts"
    "ucan_sign (acw_token W) (nostr_pubkey_to_did (acw_token W) (us_pubkey u)) life facts = Inr (vr_session_token v)"
    using f p pk by (rule session_of_sign_in)
  have w: "acw_token (account_world.truncate W) = acw_token W" "acw_tenants (account_world.truncate W) = acw_tenants W"
    by (simp_all add: account_world.truncate_def)
  obtain e where "delete_account (account_world.truncate W) later channel tn rq s2 = (Inl e, s2)"
    using not_first_party_cannot_delete [of "account_world.truncate W", unfolded w, OF u(3) faithful did u(2) _ rq] server u(1)
    by blast
  with c show ?thesis by (simp add: delete_customer_account_def w)
qed

text \<open>
  Asking for a sign-in link reveals nothing: the answer depends on the request and on the registered
  apps only, not on which accounts exist, which links were sent or whether the request was throttled;
  no account is created, and what is mailed goes to the address asked for, for a page on a registered
  app with the name on record.
\<close>

theorem link_request_reveals_nothing:
  assumes "mq_purpose q = None \<or> mq_purpose q = Some PURPOSE_SIGN_IN"
    and "ac_origins s1 = ac_origins s2"
  shows "fst (request_magic_link W now tok mail_ok tn rq q s1) = fst (request_magic_link W now' tok' mail_ok' tn rq q s2)
    \<and> ac_server (snd (request_magic_link W now tok mail_ok tn rq q s1)) = ac_server s1
    \<and> (\<forall>m\<in>set (ac_outbox (snd (request_magic_link W now tok mail_ok tn rq q s1))). m \<in> set (ac_outbox s1)
         \<or> (\<exists>email page. mq_email q = Some email \<and> normalize_email (lowercase W) (unicode_blanks W) email = Some (le_to m)
              \<and> le_link m = page_with_token W page tok
              \<and> find_merchant_name (tn_id tn) (ascii_serialization page) (ac_origins s1) = Some (le_merchant m)))"
proof -
  have p: "(case mq_purpose q of Some p \<Rightarrow> p | None \<Rightarrow> PURPOSE_SIGN_IN) = PURPOSE_SIGN_IN"
    using assms(1) by (auto split: option.splits)
  have send: "ac_server (snd (send_link W now tok mail_ok l s1)) = ac_server s1"
    "set (ac_outbox (snd (send_link W now tok mail_ok l s1)))
       \<subseteq> insert \<lparr>le_to = lr_email l, le_link = page_with_token W (lr_app_url l) tok, le_merchant = lr_merchant_name l,
                 le_purpose = lr_purpose l\<rparr> (set (ac_outbox s1))" for l
    by (auto simp: send_link_def Let_def split: prod.splits bool.splits sum.splits)
  show ?thesis
    using assms(2) send
    by (auto simp: request_magic_link_def p Let_def allowed_app_url_def Option.bind_eq_Some_conv
        split: sum.splits option.splits if_splits) fastforce+
qed

section \<open>Witnesses\<close>

text \<open>
  A first sign-in at a cafe's orders app: the link of \<open>c@d.e\<close> is followed with a key from the browser.
\<close>

definition CT0 :: "jv token_world" where
  "CT0 = W0\<lparr>ucan_sign := (\<lambda>aud life facts. if uf_first_party facts then Inl ''unexpected'' else ucan_sign W0 aud life facts)\<rparr>"

definition CW0 :: "jv customer_world" where
  "CW0 =
     \<lparr>acw_token = CT0,
      acw_tenants = \<lparr>allowed_domains_env = None, customer_domain_env = Some ''c.example'', relays_env = None,
                     settings_from_json = (\<lambda>_. None), settings_to_json = (\<lambda>_. None)\<rparr>,
      json_bool = (\<lambda>_. None), secret_from_hex = (\<lambda>_. Some [1]), lowercase = id, unicode_blanks = (\<lambda>_. False),
      hash_email = id, parse_address = Some,
      page_parse = (\<lambda>s. if s = ''https://app/cb''
                        then Some \<lparr>pg_text = s, pg_scheme = ''https'', pg_username = [], pg_password = None,
                                   pg_origin = Some ''https://app''\<rparr> else None),
      page_with_token = (\<lambda>p t. pg_text p @ t), mailer_up = True, merchant_config = JStr,
      oauth_error_debug = (\<lambda>_. ''error'')\<rparr>"

definition customer_tenant :: tenant where
  "customer_tenant = \<lparr>tn_id = 1, tn_domain = ''c.example'', tn_name = ''C'', tn_settings = None, tn_created_at = 0, tn_updated_at = 0\<rparr>"

definition sample_link :: magic_link_token where
  "sample_link =
     \<lparr>ml_id = 1, ml_tenant_id = 1, ml_email = ''c@d.e'', ml_token_hash = ''tok'', ml_purpose = ''sign_in'',
      ml_app_origin = ''https://app/cb'', ml_expires_at = 900, ml_consumed_at = None, ml_request_ip = None,
      ml_created_at = 0\<rparr>"

definition sample_accounts :: "jv accounts" where
  "sample_accounts =
     \<lparr>ac_server = \<lparr>sv_db = empty_db, sv_cache = (\<lambda>k. None), sv_commands = [], sv_oauth_created = 0, sv_oauth_revoked = 0\<rparr>,
      ac_claims = \<lparr>rows = [], seq = 1\<rparr>, ac_magic = \<lparr>rows = [sample_link], seq = 2\<rparr>,
      ac_notices = \<lparr>rows = [], seq = 1\<rparr>,
      ac_origins = [\<lparr>co_tenant_id = 1, co_origin = ''https://app'', co_merchant_name = ''Cafe'',
                     co_merchant_pubkey = ''merchant'', co_created_at = 0\<rparr>],
      ac_redis = empty_redis, ac_outbox = [], ac_accounts_deleted = 0\<rparr>"

definition sample_verify :: verify_magic_link_request where
  "sample_verify =
     \<lparr>vq_token = ''tok'', vq_client_id = Some ''app'', vq_redirect_uri = Some ''https://app/cb'',
      vq_scope = Some ''policy:commerce_envelope'', vq_merchant_pubkey = None, vq_local_key = Some ''k''\<rparr>"

abbreviation verified :: "(account_error + verify_magic_link_response reply) option \<times> jv accounts" where
  "verified \<equiv> verify_magic_link CW0 20 (draw ''h1'' ''r1'') [7] customer_tenant sample_verify sample_accounts"

definition granted_token :: "(account_error + verify_magic_link_response reply) option \<Rightarrow> string option" where
  "granted_token r =
     (case r of Some (Inr (Reply v)) \<Rightarrow> if is_set (vr_bunker_url v) then Some (vr_session_token v) else None | _ \<Rightarrow> None)"

lemma verified_token: "granted_token (fst verified) = Some ''access''"
  by code_simp

lemma verified_reply:
  obtains v url where "verified = (Some (Inr (Reply v)), snd verified)" "vr_bunker_url v = Some url" "vr_session_token v = ''access''"
  using verified_token
  by (cases verified) (auto simp: granted_token_def is_set_iff split: option.splits sum.splits reply.splits if_splits)

theorem commerce_grant_confined_witness:
  "\<exists>a policy_id. a \<in> set (db_oauth (ac_db (snd verified))) \<and> oa_policy_id a = Some policy_id
     \<and> map (to_custom_permission sample_perm_ext) (get_permissions (ac_db (snd verified)) policy_id)
         = [Inr (CommerceEnvelope ''merchant'')]"
proof -
  obtain v url where v: "verified = (Some (Inr (Reply v)), snd verified)" "vr_bunker_url v = Some url" by (rule verified_reply)
  have ok: "commerce_ok (merchant_config CW0) (ac_db sample_accounts)"
    by (simp add: commerce_ok_def ac_db_def sample_accounts_def empty_db_def)
  have config: "\<forall>p m. perm_identifier p = ''commerce_envelope'' \<longrightarrow> perm_config p = merchant_config CW0 m
      \<longrightarrow> to_custom_permission sample_perm_ext p = Inr (CommerceEnvelope m)"
    by (auto simp: CW0_def to_custom_permission_def commerce_envelope_from_permission_def sample_perm_ext_def starts_with_def)
  from commerce_grant_confined [OF v ok config] show ?thesis
    by (auto simp: sample_accounts_def sample_link_def CW0_def customer_tenant_def ascii_serialization_def
        find_merchant_pubkey_def fetch_optional_def origin_at_def)
qed

theorem sign_in_session_cannot_delete_witness:
  "\<exists>e. delete_customer_account (account_world.truncate CW0) 30 True customer_tenant
         \<lparr>rq_method = ''DELETE'', rq_path = ''/customer/account'', rq_uri_host = None, rq_original = ''/api/customer/account'',
          rq_header = Map.empty(''authorization'' \<mapsto> ''Bearer access'')\<rparr> (snd verified) = (Inl e, snd verified)"
proof -
  obtain v url where v: "verified = (Some (Inr (Reply v)), snd verified)" "vr_session_token v = ''access''" by (rule verified_reply)
  have t: "acw_token CW0 = CT0" "tw_http CT0 = tw_http W0" "tw_sha256 CT0 = id" by (simp_all add: CW0_def CT0_def W0_def)
  have did: "nostr_pubkey_to_did CT0 = nostr_pubkey_to_did W0"
    by (simp add: fun_eq_iff nostr_pubkey_to_did_def CT0_def)
  have issuer: "did_to_nostr_pubkey (tw_http W0) (uc_issuer issued_ucan) = Inr ''server''" by code_simp
  have users: "map us_pubkey (db_users (ac_db (snd verified))) = [''alice'']" by code_simp
  show ?thesis
  proof (rule sign_in_session_cannot_delete [OF v(1), where server_key = "''server''"])
    show "\<forall>r\<in>set (rows (ac_magic sample_accounts)). ml_token_hash r = tw_sha256 (acw_token CW0) (vq_token sample_verify)
        \<longrightarrow> ml_purpose r = PURPOSE_SIGN_IN"
      by (simp add: sample_accounts_def sample_link_def PURPOSE_SIGN_IN_def)
    show "first_party_faithful (account_world.truncate CW0) ''server''"
      using issuer
      by (auto simp: first_party_faithful_def account_world.truncate_def CW0_def CT0_def W0_def fact_bool_def
          issued_ucan_def map_filter_def split: if_splits)
    show "\<forall>pk. did_to_nostr_pubkey (tw_http (acw_token CW0)) (nostr_pubkey_to_did (acw_token CW0) pk) = Inr pk"
      by (simp add: t did W0_did)
    show "\<forall>hex p. pk_from_hex (x_perm (tx (acw_token CW0))) hex = Inr p \<longrightarrow> p = hex"
      by (simp add: t W0_def Y0_def X0_def sample_ext_def sample_perm_ext_def)
    show "\<forall>u\<in>set (db_users (ac_db (snd verified))). us_pubkey u \<noteq> ''server''"
      using users by (auto simp: map_eq_Cons_conv)
    show "deletion_token \<lparr>rq_method = ''DELETE'', rq_path = ''/customer/account'', rq_uri_host = None,
        rq_original = ''/api/customer/account'', rq_header = Map.empty(''authorization'' \<mapsto> ''Bearer access'')\<rparr>
        = Inr (''Bearer '' @ vr_session_token v)"
      unfolding v(2) by code_simp
  qed
qed

theorem link_request_reveals_nothing_witness:
  "fst (request_magic_link CW0 20 ''t'' True customer_tenant service_parts
          \<lparr>mq_email = Some ''c@d.e'', mq_app_url = ''https://app/cb'', mq_purpose = None\<rparr> sample_accounts)
   = fst (request_magic_link CW0 20 ''t'' True customer_tenant service_parts
          \<lparr>mq_email = Some ''c@d.e'', mq_app_url = ''https://app/cb'', mq_purpose = None\<rparr> (snd verified))"
proof -
  have "ac_origins sample_accounts = ac_origins (snd verified)" by code_simp
  then show ?thesis
    using link_request_reveals_nothing [of "\<lparr>mq_email = Some ''c@d.e'', mq_app_url = ''https://app/cb'', mq_purpose = None\<rparr>"
        sample_accounts "snd verified" CW0 20 "''t''" True customer_tenant service_parts 20 "''t''" True] by simp
qed

end
