(* ===== verification/PasswordQueue.thy ===== *)
theory PasswordQueue
  imports DeletionNotices
begin

text \<open>
  Work done off the request path: the queue of passwords to hash with its workers and the clean-up of
  signups that never got their hash (\<open>api/src/bcrypt_queue.rs\<close>), and the pool of connection secrets
  hashed ahead of time (\<open>core/src/secret_pool.rs\<close>). Both are bounded channels. The salt of a hash is an
  argument and bcrypt a parameter; a joined blocking task is a plain call. The log level is the default
  \<open>info\<close>, so a slice in the text of a warning is evaluated and one in a debug line is not.
\<close>

section \<open>Channels\<close>

text \<open>A bounded channel: its messages, and whether the other end still exists.\<close>

record 'a channel =
  ch_capacity :: nat
  ch_messages :: "'a list"
  ch_connected :: bool

definition bounded :: "nat \<Rightarrow> 'a channel" where
  "bounded capacity = \<lparr>ch_capacity = capacity, ch_messages = [], ch_connected = True\<rparr>"

definition channel_ok :: "'a channel \<Rightarrow> bool" where
  "channel_ok c \<longleftrightarrow> length (ch_messages c) \<le> ch_capacity c"

section \<open>The queue of passwords\<close>

definition BCRYPT_QUEUE_CAPACITY :: nat where
  "BCRYPT_QUEUE_CAPACITY = 350"

record bcrypt_job =
  bj_token :: string
  bj_password :: string

datatype bcrypt_queue_error = AtCapacity | ShuttingDown

definition bcrypt_queue_new :: "bcrypt_job channel" where
  "bcrypt_queue_new = bounded BCRYPT_QUEUE_CAPACITY"

definition try_send_job :: "bcrypt_job \<Rightarrow> bcrypt_job channel \<Rightarrow> (bcrypt_queue_error + unit) \<times> bcrypt_job channel" where
  "try_send_job job q =
     (if \<not> ch_connected q then (Inl ShuttingDown, q)
      else if ch_capacity q \<le> length (ch_messages q) then (Inl AtCapacity, q)
      else (Inr (), q\<lparr>ch_messages := ch_messages q @ [job]\<rparr>))"

definition has_token :: "string \<Rightarrow> user \<Rightarrow> bool" where
  "has_token tok u \<longleftrightarrow> us_email_verification_token u = Some tok"

text \<open>
  One turn of a worker with the oldest job; the result says whether the worker is still alive. An empty
  queue blocks the worker, a closed and empty one ends it.
\<close>

definition bcrypt_worker_turn ::
    "(string \<Rightarrow> string \<Rightarrow> string + string) \<Rightarrow> timestamp \<Rightarrow> string \<Rightarrow> bcrypt_job channel \<Rightarrow> 'j db
      \<Rightarrow> bool \<times> bcrypt_job channel \<times> 'j db" where
  "bcrypt_worker_turn bcrypt_hash now salt q d =
     (case ch_messages q of
        [] \<Rightarrow> (ch_connected q, q, d)
      | job # rest \<Rightarrow>
          (let q1 = q\<lparr>ch_messages := rest\<rparr>; logged = is_set (str_slice (bj_token job) 0 8)
           in case bcrypt_hash salt (bj_password job) of
                Inl _ \<Rightarrow> (logged, q1, d)
              | Inr password_hash \<Rightarrow>
                  (case update_users (has_token (bj_token job))
                          (\<lambda>u. u\<lparr>us_password_hash := Some password_hash, us_updated_at := now\<rparr>) d of
                     Inl _ \<Rightarrow> (logged, q1, d)
                   | Inr d1 \<Rightarrow>
                       (rows_affected (has_token (bj_token job)) (db_users d) = 0 \<longrightarrow> logged, q1, d1))))"

text \<open>All turns until the queue is empty, one salt each.\<close>

fun bcrypt_work ::
    "(string \<Rightarrow> string \<Rightarrow> string + string) \<Rightarrow> timestamp \<Rightarrow> string list \<Rightarrow> bcrypt_job channel \<Rightarrow> 'j db
      \<Rightarrow> bcrypt_job channel \<times> 'j db" where
  "bcrypt_work H now [] q d = (q, d)"
| "bcrypt_work H now (salt # salts) q d =
     (case bcrypt_worker_turn H now salt q d of (_, q1, d1) \<Rightarrow> bcrypt_work H now salts q1 d1)"

section \<open>Signups without a hash\<close>

definition stale_signup :: "timestamp \<Rightarrow> user \<Rightarrow> bool" where
  "stale_signup now u \<longleftrightarrow>
     us_password_hash u = None \<and> us_vine_id u = None \<and> is_set (us_email u)
     \<and> is_set (us_email_verification_token u) \<and> us_created_at u < now - minutes 10"

text \<open>
  \<open>DELETE FROM users\<close>: keys, AT sessions, grants and their refresh tokens go along (\<open>ON DELETE CASCADE\<close>); a claim
  token or a team membership of one of the users refuses the whole statement.
\<close>

definition delete_users :: "(user \<Rightarrow> bool) \<Rightarrow> 'j store \<Rightarrow> repository_error + nat \<times> 'j store" where
  "delete_users P s =
     (let d = st_db s; gone = map us_pubkey (fetch_all P (db_users d))
      in if exists_row (\<lambda>t. ct_user_pubkey t \<in> set gone) (rows (st_claims s))
         then Inl (fk_still_referenced ''users'' ''account_claim_tokens_user_pubkey_fkey'' ''account_claim_tokens'')
         else if exists_row (\<lambda>m. tu_user_pubkey m \<in> set gone) (db_team_users d)
         then Inl (fk_still_referenced ''users'' ''team_users_user_pubkey_fkey'' ''team_users'')
         else Inr (length gone, s\<lparr>st_db :=
                fold (\<lambda>pk d. delete_oauth_of pk (personal_keys_delete_by_user pk (atproto_sessions_delete_by_user pk d))) gone
                  (d\<lparr>db_users := delete_where P (db_users d)\<rparr>)\<rparr>))"

definition cleanup_tick :: "timestamp \<Rightarrow> 'j store \<Rightarrow> 'j store" where
  "cleanup_tick now s =
     (let s1 = (case delete_users (stale_signup now) s of Inl _ \<Rightarrow> s | Inr (_, t) \<Rightarrow> t)
      in s1\<lparr>st_magic := snd (magic_purge_expired now (st_magic s1))\<rparr>)"

section \<open>The pool of secrets\<close>

definition DEFAULT_POOL_CAPACITY :: nat where
  "DEFAULT_POOL_CAPACITY = 100"

record secret_pair =
  sp_secret :: string
  sp_hash :: string

definition secret_pool_new :: "secret_pair channel" where
  "secret_pool_new = bounded DEFAULT_POOL_CAPACITY"

text \<open>
  One turn of the producer with the secret it drew; the result says whether the producer goes on. A full
  pool blocks it: the turn waits and the pool stays as it is.
\<close>

definition produce_secret ::
    "(string \<Rightarrow> string \<Rightarrow> string + string) \<Rightarrow> string \<Rightarrow> string \<Rightarrow> secret_pair channel \<Rightarrow> bool \<times> secret_pair channel" where
  "produce_secret bcrypt_hash salt secret pool =
     (case bcrypt_hash salt secret of
        Inl _ \<Rightarrow> (True, pool)
      | Inr h \<Rightarrow>
          (if \<not> ch_connected pool then (False, pool)
           else if ch_capacity pool \<le> length (ch_messages pool) then (True, pool)
           else (True, pool\<lparr>ch_messages := ch_messages pool @ [\<lparr>sp_secret = secret, sp_hash = h\<rparr>]\<rparr>)))"

definition try_get_secret :: "secret_pair channel \<Rightarrow> secret_pair option \<times> secret_pair channel" where
  "try_get_secret pool =
     (case ch_messages pool of
        [] \<Rightarrow> (None, pool)
      | pair # rest \<Rightarrow> (Some pair, pool\<lparr>ch_messages := rest\<rparr>))"

definition generate_secret_hash_inline ::
    "(string \<Rightarrow> string \<Rightarrow> string + string) \<Rightarrow> string \<Rightarrow> string \<Rightarrow> string + secret_pair" where
  "generate_secret_hash_inline bcrypt_hash salt secret =
     and_then (bcrypt_hash salt secret) (\<lambda>h. Inr \<lparr>sp_secret = secret, sp_hash = h\<rparr>)"

section \<open>Lemmas\<close>

text \<open>A hash verifies the password it was made from: what the code relies on of bcrypt.\<close>

definition bcrypt_ok :: "(string \<Rightarrow> string \<Rightarrow> string + string) \<Rightarrow> (string \<Rightarrow> string \<Rightarrow> string + bool) \<Rightarrow> bool" where
  "bcrypt_ok bcrypt_hash verifies \<longleftrightarrow> (\<forall>salt pw h. bcrypt_hash salt pw = Inr h \<longrightarrow> verifies pw h = Inr True)"

text \<open>Every secret of a pool opens with its hash, whatever was drawn and handed out before.\<close>

definition pool_ok :: "(string \<Rightarrow> string \<Rightarrow> string + bool) \<Rightarrow> secret_pair channel \<Rightarrow> bool" where
  "pool_ok verifies pool \<longleftrightarrow>
     channel_ok pool \<and> list_all (\<lambda>p. verifies (sp_secret p) (sp_hash p) = Inr True) (ch_messages pool)"

lemma produce_secret_pool_ok:
  "bcrypt_ok H V \<Longrightarrow> pool_ok V pool \<Longrightarrow> pool_ok V (snd (produce_secret H salt secret pool))"
  by (auto simp: produce_secret_def pool_ok_def channel_ok_def bcrypt_ok_def split: sum.splits)

lemma try_get_secret_pool_ok:
  assumes "pool_ok V pool" and "try_get_secret pool = (r, pool')"
  shows "pool_ok V pool' \<and> (\<forall>p. r = Some p \<longrightarrow> V (sp_secret p) (sp_hash p) = Inr True)"
  using assms by (auto simp: try_get_secret_def pool_ok_def channel_ok_def split: list.splits)

lemma inline_secret_opens:
  "bcrypt_ok H V \<Longrightarrow> generate_secret_hash_inline H salt secret = Inr p \<Longrightarrow> V (sp_secret p) (sp_hash p) = Inr True"
  by (cases "H salt secret") (auto simp: generate_secret_hash_inline_def bcrypt_ok_def)

lemma try_send_job_ok: "channel_ok q \<Longrightarrow> channel_ok (snd (try_send_job job q))"
  by (auto simp: try_send_job_def channel_ok_def)

text \<open>A queued job stays queued until a worker takes it, in order.\<close>

lemma try_send_job_sent:
  "try_send_job job q = (Inr (), q') \<Longrightarrow> ch_messages q' = ch_messages q @ [job]"
  by (auto simp: try_send_job_def split: if_splits)

end
