(* ===== verification/NameServer.thy ===== *)
theory NameServer
  imports Crypto Tenants
begin

text \<open>
  The client of the name server (\<open>api/src/divine_names.rs\<close>): claiming a user name with a signed NIP-98
  event, asking whether one is free, and the two look-ups. The HTTP client answers a request with a
  status and a body or fails; serde, SHA-256, base64 and the event builder are parameters.
\<close>

definition DEFAULT_NAME_SERVER_URL :: string where
  "DEFAULT_NAME_SERVER_URL = ''https://names.divine.video''"

record nip05_info =
  ni_main_domain :: string
  ni_underscore_subdomain :: string
  ni_host_style :: string

record claim_response =
  cr_ok :: bool
  cr_name :: "string option"
  cr_pubkey :: "string option"
  cr_error :: "string option"
  cr_profile_url :: "string option"
  cr_nip05 :: "nip05_info option"

record availability_response =
  av_ok :: bool
  av_available :: bool
  av_name :: "string option"
  av_canonical :: "string option"
  av_reason :: "string option"
  av_status :: "string option"
  av_error :: "string option"

record pubkey_lookup_response =
  pl_ok :: bool
  pl_found :: bool
  pl_name :: "string option"
  pl_canonical :: "string option"
  pl_pubkey :: "string option"
  pl_profile_url :: "string option"
  pl_nip05 :: "nip05_info option"
  pl_error :: "string option"

datatype divine_name_error =
    NsSigning string
  | NsRequest string
  | NsClaim string
  | NsResponse string

fun divine_name_error_text :: "divine_name_error \<Rightarrow> string" where
  "divine_name_error_text (NsSigning e) = ''NIP-98 signing failed: '' @ e"
| "divine_name_error_text (NsRequest e) = ''HTTP request failed: '' @ e"
| "divine_name_error_text (NsClaim e) = ''Username claim failed: '' @ e"
| "divine_name_error_text (NsResponse e) = ''Invalid response: '' @ e"

record http_request =
  hq_method :: string
  hq_url :: string
  hq_authorization :: "string option"
  hq_body :: "string option"

text \<open>\<open>claim_json\<close> serialises the request body, \<open>name_at\<close> reads \<open>names.<user>\<close> of a parsed document.\<close>

record 'j names_world =
  nw_ext :: "'j ext"
  name_server_env :: "string option"
  enable_names_env :: "string option"
  send_http :: "http_request \<Rightarrow> string + string \<times> string"
  claim_json :: "string \<Rightarrow> string list option \<Rightarrow> string"
  payload_digest :: "string \<Rightarrow> string"
  base64_of :: "string \<Rightarrow> string"
  percent_encode :: "string \<Rightarrow> string"
  parse_claim :: "string \<Rightarrow> string + claim_response"
  parse_availability :: "string \<Rightarrow> string + availability_response"
  parse_lookup :: "string \<Rightarrow> string + pubkey_lookup_response"
  name_at :: "'j \<Rightarrow> string \<Rightarrow> string option"

definition names_enabled :: "'j names_world \<Rightarrow> bool" where
  "names_enabled N \<longleftrightarrow>
     is_set (name_server_env N) \<or> enable_names_env N = Some ''true'' \<or> enable_names_env N = Some ''1''"

definition name_server_url :: "'j names_world \<Rightarrow> string" where
  "name_server_url N =
     trim_end_matches (CHR ''/'') (case name_server_env N of Some url \<Rightarrow> url | None \<Rightarrow> DEFAULT_NAME_SERVER_URL)"

definition create_nip98_event ::
    "'j names_world \<Rightarrow> u64 \<Rightarrow> seckey \<Rightarrow> string \<Rightarrow> string \<Rightarrow> string \<Rightarrow> divine_name_error + event" where
  "create_nip98_event N now keys url meth body =
     map_err NsSigning
       (sign_built (nw_ext N) keys 27235 [] [[''u'', url], [''method'', meth], [''payload'', payload_digest N body]] (Some now))"

definition call_names :: "'j names_world \<Rightarrow> http_request \<Rightarrow> divine_name_error + string \<times> string" where
  "call_names N q = map_err NsRequest (send_http N q)"

definition parsed_body ::
    "string \<Rightarrow> (string \<Rightarrow> string + 'a) \<Rightarrow> string \<times> string \<Rightarrow> divine_name_error + 'a" where
  "parsed_body what parse answer =
     map_err (\<lambda>e. NsResponse (''Failed to parse '' @ what @ '': '' @ e @ ''. Status: '' @ fst answer @ '', Body: '' @ snd answer))
       (parse (snd answer))"

definition error_or_unknown :: "string option \<Rightarrow> string" where
  "error_or_unknown e = (case e of Some m \<Rightarrow> m | None \<Rightarrow> ''Unknown error'')"

definition claim_username ::
    "'j names_world \<Rightarrow> u64 \<Rightarrow> seckey \<Rightarrow> string \<Rightarrow> string list option \<Rightarrow> divine_name_error + claim_response" where
  "claim_username N now keys username relays =
     (let url = name_server_url N @ ''/api/username/claim''; body = claim_json N username relays
      in and_then (create_nip98_event N now keys url ''POST'' body) (\<lambda>auth_event.
         and_then (map_err NsSigning (event_to_json (nw_ext N) auth_event)) (\<lambda>auth_json.
         and_then (call_names N \<lparr>hq_method = ''POST'', hq_url = url,
                     hq_authorization = Some (''Nostr '' @ base64_of N auth_json), hq_body = Some body\<rparr>) (\<lambda>answer.
         and_then (parsed_body ''response'' (parse_claim N) answer) (\<lambda>r.
           if cr_ok r then Inr r else Inl (NsClaim (error_or_unknown (cr_error r))))))))"

definition get_names :: "'j names_world \<Rightarrow> string \<Rightarrow> divine_name_error + string \<times> string" where
  "get_names N path =
     call_names N \<lparr>hq_method = ''GET'', hq_url = name_server_url N @ path, hq_authorization = None, hq_body = None\<rparr>"

definition check_availability :: "'j names_world \<Rightarrow> string \<Rightarrow> divine_name_error + bool \<times> string option" where
  "check_availability N username =
     and_then (get_names N (''/api/username/check/'' @ username)) (\<lambda>answer.
     and_then (parsed_body ''availability response'' (parse_availability N) answer) (\<lambda>r.
       if av_ok r then Inr (av_available r, av_reason r) else Inl (NsResponse (error_or_unknown (av_error r)))))"

definition lookup_by_name :: "'j names_world \<Rightarrow> string \<Rightarrow> divine_name_error + string option" where
  "lookup_by_name N username =
     and_then (get_names N (''/.well-known/nostr.json?name='' @ percent_encode N username)) (\<lambda>answer.
     and_then (parsed_body ''nostr.json'' (json_parse (nw_ext N)) answer) (\<lambda>doc. Inr (name_at N doc username)))"

definition lookup_by_pubkey :: "'j names_world \<Rightarrow> pubkey \<Rightarrow> divine_name_error + pubkey_lookup_response option" where
  "lookup_by_pubkey N pubkey =
     and_then (get_names N (''/api/username/by-pubkey/'' @ pubkey)) (\<lambda>answer.
     and_then (parsed_body ''lookup response'' (parse_lookup N) answer) (\<lambda>r.
       if \<not> pl_ok r then Inl (NsResponse (error_or_unknown (pl_error r)))
       else Inr (if pl_found r then Some r else None)))"

end
