(* ===== verification/Accounts.thy ===== *)
theory Accounts
  imports Sessions PasswordQueue NameServer
begin

text \<open>
  The endpoints of \<open>api/src/api/http/auth.rs\<close> for accounts with a password: registration, login, email
  verification, password reset, profile, the user's own view of grants, signing over plain HTTP, key
  export and key change. A mail that cannot be sent is only logged. Drawn values (tokens, keys, salts,
  codes) are arguments, the crates are fields of \<open>login_world\<close>. Where a handler may panic its outcome is
  an option and \<open>None\<close> the panic.
\<close>

section \<open>Parameters and state\<close>

text \<open>
  \<open>user_ucan\<close> is \<open>UcanBuilder\<close> with the user's own keys; \<open>lower\<close> is \<open>str::to_lowercase\<close>;
  \<open>unicode_alphanumeric\<close> says whether the characters outside ASCII are alphanumeric.
\<close>

record 'j login_world =
  lw_acc :: "'j account_world"
  lw_auth :: "'j auth_world"
  lower :: "string \<Rightarrow> string"
  email_digest :: "string \<Rightarrow> string"
  parse_ip :: "string \<Rightarrow> string option"
  parse_u64 :: "string \<Rightarrow> nat option"
  ip_limit_env :: "string option"
  bcrypt_hash :: "string \<Rightarrow> string \<Rightarrow> string + string"
  user_ucan :: "seckey \<Rightarrow> string \<Rightarrow> int \<Rightarrow> ucan_facts \<Rightarrow> string list option \<Rightarrow> string + string"
  login_json :: "string \<Rightarrow> string + string \<times> string"
  app_url_env :: "string option"
  allowed_origins_env :: "string option"
  secure_cookies :: bool
  npub_of :: "pubkey \<Rightarrow> string + string"
  nsec_of :: "seckey \<Rightarrow> string + string"
  hex_encode :: "bytes \<Rightarrow> string"
  json_strings :: "string list \<Rightarrow> string"
  created_text :: "timestamp \<Rightarrow> string"
  unicode_alphanumeric :: "string \<Rightarrow> bool"

abbreviation lhttp :: "'j login_world \<Rightarrow> 'j http_world" where
  "lhttp W \<equiv> ahttp (lw_acc W)"

abbreviation lx :: "'j login_world \<Rightarrow> 'j ext" where
  "lx W \<equiv> ax (lw_acc W)"

abbreviation ltoken :: "'j login_world \<Rightarrow> 'j token_world" where
  "ltoken W \<equiv> acw_token (lw_acc W)"

datatype account_mail = VerificationMail string string | ResetMail string string "string option"

text \<open>
  The state of the endpoints. \<open>si_polls\<close> are the keys \<open>oauth_poll:...\<close> of Redis, which no limit uses.
\<close>

record 'j site =
  si_acc :: "'j accounts"
  si_queue :: "bcrypt_job channel"
  si_polls :: "string \<Rightarrow> (string \<times> int) option"
  si_mail :: "account_mail list"
  si_registrations :: nat
  si_logins :: nat
  si_login_failures :: nat

definition si_db :: "'j site \<Rightarrow> 'j db" where
  "si_db s = ac_db (si_acc s)"

definition put_si_db :: "'j db \<Rightarrow> 'j site \<Rightarrow> 'j site" where
  "put_si_db d s = s\<lparr>si_acc := put_db d (si_acc s)\<rparr>"

record account_draws =
  ad_token :: string
  ad_keys :: seckey
  ad_salt :: string
  ad_code :: string
  ad_pair :: "(string \<times> string) option"
  ad_mail :: bool
  ad_channel :: bool
  ad_redis :: bool
  ad_setex :: bool

definition send_mail :: "account_draws \<Rightarrow> account_mail \<Rightarrow> 'j site \<Rightarrow> 'j site" where
  "send_mail D m s = (if ad_mail D then s\<lparr>si_mail := si_mail s @ [m]\<rparr> else s)"

definition push_command :: "account_draws \<Rightarrow> authorization_command \<Rightarrow> 'j server \<Rightarrow> 'j server" where
  "push_command D c sv = (if ad_channel D then sv\<lparr>sv_commands := sv_commands sv @ [c]\<rparr> else sv)"

text \<open>\<open>TimeDelta::num_seconds\<close> and \<open>num_minutes\<close> round towards zero.\<close>

definition whole_units :: "int \<Rightarrow> int \<Rightarrow> int" where
  "whole_units unit d = (if d < 0 then - ((- d) div unit) else d div unit)"

definition num_seconds :: "int \<Rightarrow> int" where "num_seconds d = whole_units 1000000 d"
definition num_minutes :: "int \<Rightarrow> int" where "num_minutes d = whole_units 60000000 d"

definition PASSWORD_RESET_EXPIRY_HOURS :: int where
  "PASSWORD_RESET_EXPIRY_HOURS = 1"

section \<open>Tokens of a session\<close>

definition generate_ucan_token ::
    "'j login_world \<Rightarrow> seckey \<Rightarrow> int \<Rightarrow> string \<Rightarrow> string \<Rightarrow> string list option \<Rightarrow> account_error + string" where
  "generate_ucan_token W keys tenant_id email redirect_origin relays =
     map_err AcInternal
       (user_ucan W keys (nostr_pubkey_to_did (ltoken W) (public_key (lx W) keys)) (token_expiry_seconds (ltoken W))
          \<lparr>uf_tenant_id = tenant_id, uf_email = email, uf_redirect_origin = redirect_origin,
           uf_bunker_pubkey = None, uf_first_party = False, uf_admin_role = None\<rparr> relays)"

text \<open>Unlike the extractor this one falls back to \<open>APP_URL\<close> and ignores \<open>X-Original-URI\<close>.\<close>

definition login_expected_url :: "string option \<Rightarrow> parts \<Rightarrow> string \<Rightarrow> account_error + string" where
  "login_expected_url app_url rq path =
     (case header_str rq (if is_set (rq_header rq ''x-forwarded-host'') then ''x-forwarded-host''
                          else if is_set (rq_header rq ''host'') then ''host'' else '':authority'') of
        Some host \<Rightarrow>
          Inr ((case header_str rq ''x-forwarded-proto'' of
                  Some proto \<Rightarrow> proto
                | None \<Rightarrow> if str_contains host '':443'' \<or> CHR '':'' \<notin> set host then ''https'' else ''http'')
               @ ''://'' @ host @ path)
      | None \<Rightarrow>
          (case app_url of
             Some base \<Rightarrow> Inr (trim_end_matches (CHR ''/'') base @ path)
           | None \<Rightarrow> Inl (AcBadRequest ''Host header required (or set APP_URL env var)'')))"

record auth_response =
  ar_pubkey :: pubkey
  ar_verification_required :: "bool option"
  ar_email :: "string option"

definition session_response :: "'j login_world \<Rightarrow> string \<Rightarrow> pubkey \<Rightarrow> string \<times> auth_response" where
  "session_response W ucan_token pubkey =
     (format_session_cookie ucan_token 86400 (secure_cookies W),
      \<lparr>ar_pubkey = pubkey, ar_verification_required = None, ar_email = None\<rparr>)"

fun nip98_error_text :: "nip98_error \<Rightarrow> string" where
  "nip98_error_text InvalidHeaderFormat = ''Authorization header must start with '' @ quoted ''Nostr ''"
| "nip98_error_text (Base64DecodeError e) = ''Base64 decode error: '' @ e"
| "nip98_error_text (JsonParseError e) = ''JSON parse error: '' @ e"
| "nip98_error_text (InvalidKind k) = ''Invalid event kind: '' @ show_nat (unat k) @ '' (expected 27235)''"
| "nip98_error_text InvalidSignature = ''Invalid Schnorr signature''"
| "nip98_error_text EventExpired =
     ''Event expired (created_at must be within '' @ show_int MAX_EVENT_AGE_SECONDS @ '' seconds)''"
| "nip98_error_text (UrlMismatch expected actual) =
     ''URL mismatch: expected '' @ quoted expected @ '', got '' @ quoted actual"
| "nip98_error_text (MethodMismatch expected actual) =
     ''Method mismatch: expected '' @ quoted expected @ '', got '' @ quoted actual"
| "nip98_error_text (MissingTag tag) = ''Missing required tag: '' @ quoted tag"

fun nip98_login_error :: "nip98_error \<Rightarrow> account_error" where
  "nip98_login_error InvalidHeaderFormat = AcBadRequest ''Invalid NIP-98 header format''"
| "nip98_login_error InvalidSignature = AcBadRequest ''Invalid NIP-98 signature''"
| "nip98_login_error EventExpired = AcBadRequest ''NIP-98 event expired (must be within 60 seconds)''"
| "nip98_login_error e = AcBadRequest (''NIP-98 validation failed: '' @ nip98_error_text e)"

text \<open>The login of an administrator by NIP-98; no user record is involved.\<close>

definition nostr_auth_login ::
    "'j login_world \<Rightarrow> 64 word \<Rightarrow> int \<Rightarrow> parts \<Rightarrow> string \<Rightarrow> 'j site \<Rightarrow> (account_error + string \<times> auth_response) \<times> 'j site" where
  "nostr_auth_login W clock tenant_id rq auth_header s =
     (case and_then (login_expected_url (app_url_env W) rq ''/api/auth/login'') (\<lambda>expected_url.
           and_then (map_err nip98_login_error (extract_and_validate (lw_auth W) clock auth_header expected_url ''POST''))
             (\<lambda>pubkey.
           and_then (ok_or (AcForbidden ''Pubkey not authorized for admin access'')
                       (admin_role_for (lw_auth W) (ac_redis (si_acc s)) \<lparr>ua_pubkey = pubkey, ua_admin_role = None\<rparr>))
             (\<lambda>role.
           and_then (extract_origin_from_headers rq) (\<lambda>redirect_origin.
           and_then (map_err AcInternal
                       (generate_server_signed_ucan (ltoken W) pubkey tenant_id ''admin'' redirect_origin None False (Some role)))
             (\<lambda>ucan_token. Inr (session_response W ucan_token pubkey)))))) of
        Inl e \<Rightarrow> (Inl e, s)
      | Inr r \<Rightarrow> (Inr r, s\<lparr>si_logins := si_logins s + 1\<rparr>))"

section \<open>Limits\<close>

definition allow_route ::
    "'j login_world \<Rightarrow> timestamp \<Rightarrow> string \<Rightarrow> int \<Rightarrow> parts \<Rightarrow> string option \<Rightarrow> 'j site \<Rightarrow> bool \<times> 'j site" where
  "allow_route W now route tenant_id rq email s =
     (let r = ac_redis (si_acc s)
      in case allow_request (email_digest W) (lower W) (rd_up r) (now div 1000000)
                (ip_limit_per_hour (parse_u64 W) (ip_limit_env W)) route tenant_id
                (client_ip (parse_ip W) (header_str rq ''x-forwarded-for'')) email (rd_keys r) of
           (verdict, keys) \<Rightarrow> (verdict, s\<lparr>si_acc := (si_acc s)\<lparr>ac_redis := r\<lparr>rd_keys := keys\<rparr>\<rparr>\<rparr>))"

section \<open>Registration\<close>

record register_request =
  rg_email :: string
  rg_password :: string
  rg_nsec :: "string option"
  rg_redirect_uri :: "string option"

text \<open>A key of the user's own, or a generated one; the own key must be new to the tenant.\<close>

definition registration_keys ::
    "'j login_world \<Rightarrow> account_draws \<Rightarrow> int \<Rightarrow> string option \<Rightarrow> 'j db \<Rightarrow> account_error + seckey" where
  "registration_keys W D tenant_id nsec d =
     (case nsec of
        None \<Rightarrow> Inr (ad_keys D)
      | Some nsec_str \<Rightarrow>
          and_then (map_err (\<lambda>e. AcInternal (''Invalid nsec or secret key: '' @ e
                       @ ''. Please provide a valid nsec (bech32) or hex secret key.''))
                     (keys_parse (ltoken W) nsec_str)) (\<lambda>keys.
            if user_exists (public_key (lx W) keys) tenant_id d then Inl AcDuplicateKey else Inr keys))"

definition accepted_redirect :: "string option \<Rightarrow> string option" where
  "accepted_redirect redirect_uri =
     (case redirect_uri of
        Some uri \<Rightarrow> if starts_with uri ''https://'' \<or> starts_with uri ''http://localhost'' then Some uri else None
      | None \<Rightarrow> None)"

text \<open>The clean-up when the password cannot be queued; the results of both statements are ignored.\<close>

definition withdraw_registration :: "pubkey \<Rightarrow> int \<Rightarrow> 'j accounts \<Rightarrow> 'j accounts" where
  "withdraw_registration pubkey tenant_id s =
     (let s1 = (case delete_users (user_at pubkey tenant_id) (ac_store s) of Inl _ \<Rightarrow> s | Inr (_, t) \<Rightarrow> put_store t s);
          d = ac_db s1
      in put_db (d\<lparr>db_personal_keys :=
           delete_where (\<lambda>k. pk_user_pubkey k = pubkey \<and> pk_tenant_id k = tenant_id) (db_personal_keys d)\<rparr>) s1)"

fun queue_error :: "bcrypt_queue_error \<Rightarrow> account_error" where
  "queue_error AtCapacity = AcServiceUnavailable ''Server at capacity, please try again'' (Some 5)"
| "queue_error ShuttingDown = AcServiceUnavailable ''Server restarting, please try again'' (Some 10)"

definition register ::
    "'j login_world \<Rightarrow> timestamp \<Rightarrow> account_draws \<Rightarrow> tenant \<Rightarrow> parts \<Rightarrow> register_request \<Rightarrow> 'j site
      \<Rightarrow> (account_error + auth_response) \<times> 'j site" where
  "register W now D tn rq q s0 =
     (let tenant_id = tn_id tn; email = lower W (rg_email q)
      in case allow_route W now ''register'' tenant_id rq (Some email) s0 of
           (False, s) \<Rightarrow> (Inl AcTooManyRequests, s)
         | (True, s) \<Rightarrow>
             (case and_then (registration_keys W D tenant_id (rg_nsec q) (si_db s)) (\<lambda>keys.
                   and_then (map_err AcEncryption (km_encrypt (lx W) keys)) (\<lambda>encrypted.
                   and_then (map_err account_error_of
                       (register_with_personal_key now (public_key (lx W) keys) tenant_id email None (ad_token D)
                          (now + hours EMAIL_VERIFICATION_EXPIRY_HOURS) encrypted
                          (accepted_redirect (rg_redirect_uri q)) (si_db s)))
                     (\<lambda>d. Inr (public_key (lx W) keys, d)))) of
                Inl e \<Rightarrow> (Inl e, s)
              | Inr (pubkey, d) \<Rightarrow>
                  (let s1 = put_si_db d s
                   in case try_send_job \<lparr>bj_token = ad_token D, bj_password = rg_password q\<rparr> (si_queue s1) of
                        (Inl e, q1) \<Rightarrow>
                          (Inl (queue_error e),
                           s1\<lparr>si_queue := q1, si_acc := withdraw_registration pubkey tenant_id (si_acc s1)\<rparr>)
                      | (Inr _, q1) \<Rightarrow>
                          (Inr \<lparr>ar_pubkey = pubkey, ar_verification_required = Some True, ar_email = Some email\<rparr>,
                           send_mail D (VerificationMail email (ad_token D))
                             (s1\<lparr>si_queue := q1, si_registrations := si_registrations s1 + 1\<rparr>)))))"

section \<open>Login\<close>

text \<open>The stored key of a user, decrypted.\<close>

definition open_user_key ::
    "'j login_world \<Rightarrow> account_error \<Rightarrow> pubkey \<Rightarrow> int \<Rightarrow> 'j db \<Rightarrow> account_error + seckey" where
  "open_user_key W missing pubkey tenant_id d =
     and_then (ok_or missing (find_encrypted_key_for_tenant d pubkey tenant_id)) (\<lambda>encrypted.
     and_then (map_err AcEncryption (km_decrypt (lx W) encrypted)) (\<lambda>secret.
       map_err (\<lambda>e. AcInternal (''Invalid secret key bytes: '' @ e)) (sk_from_slice (lx W) secret)))"

text \<open>Email and password; the flag says whether a wrong password is counted.\<close>

definition password_login ::
    "'j login_world \<Rightarrow> int \<Rightarrow> string \<Rightarrow> string \<Rightarrow> string \<Rightarrow> 'j db \<Rightarrow> (account_error + string \<times> auth_response) \<times> bool" where
  "password_login W tenant_id redirect_origin email password d =
     (case find_with_password email tenant_id d of
        Inl e \<Rightarrow> (Inl (account_error_of e), False)
      | Inr None \<Rightarrow> (Inl AcInvalidCredentials, False)
      | Inr (Some (pubkey, password_hash, email_verified)) \<Rightarrow>
          (case bcrypt_verify (lx W) password password_hash of
             Inl e \<Rightarrow> (Inl (AcPasswordHash e), False)
           | Inr False \<Rightarrow> (Inl AcInvalidCredentials, True)
           | Inr True \<Rightarrow>
               (if \<not> email_verified then Inl AcEmailNotVerified
                else and_then (open_user_key W (AcInternal ''Personal keys not found'') pubkey tenant_id d) (\<lambda>keys.
                     and_then (generate_ucan_token W keys tenant_id email redirect_origin None) (\<lambda>ucan_token.
                       Inr (session_response W ucan_token pubkey))), False)))"

definition login_with_body ::
    "'j login_world \<Rightarrow> tenant \<Rightarrow> parts \<Rightarrow> string \<Rightarrow> 'j site \<Rightarrow> (account_error + string \<times> auth_response) \<times> 'j site" where
  "login_with_body W tn rq body s =
     (case and_then (map_err (\<lambda>e. AcBadRequest (''Invalid JSON: '' @ e)) (login_json W body)) (\<lambda>(email, password).
           and_then (extract_origin_from_headers rq) (\<lambda>redirect_origin. Inr (lower W email, password, redirect_origin))) of
        Inl e \<Rightarrow> (Inl e, s)
      | Inr (email, password, redirect_origin) \<Rightarrow>
          (case password_login W (tn_id tn) redirect_origin email password (si_db s) of
             (Inr r, _) \<Rightarrow> (Inr r, s\<lparr>si_logins := si_logins s + 1\<rparr>)
           | (Inl e, counted) \<Rightarrow>
               (Inl e, if counted then s\<lparr>si_login_failures := si_login_failures s + 1\<rparr> else s)))"

definition login ::
    "'j login_world \<Rightarrow> 64 word \<Rightarrow> tenant \<Rightarrow> parts \<Rightarrow> string \<Rightarrow> 'j site
      \<Rightarrow> (account_error + string \<times> auth_response) \<times> 'j site" where
  "login W clock tn rq body s =
     (case header_str rq ''authorization'' of
        Some auth_str \<Rightarrow>
          (if starts_with auth_str ''Nostr '' then nostr_auth_login W clock (tn_id tn) rq auth_str s
           else login_with_body W tn rq body s)
      | None \<Rightarrow> login_with_body W tn rq body s)"

section \<open>Logout\<close>

definition logout :: "'j login_world \<Rightarrow> string" where
  "logout W = format_session_cookie [] 0 (secure_cookies W)"

section \<open>Verifying an email address\<close>

record verify_email_response =
  ve_success :: bool
  ve_message :: string
  ve_redirect_to :: "string option"
  ve_authenticated :: "bool option"
  ve_status :: "string option"
  ve_retry_after :: "nat option"

definition verify_note :: "bool \<Rightarrow> string \<Rightarrow> verify_email_response" where
  "verify_note success message =
     \<lparr>ve_success = success, ve_message = message, ve_redirect_to = None, ve_authenticated = None,
      ve_status = None, ve_retry_after = None\<rparr>"

definition headless_retry_error :: account_error where
  "headless_retry_error =
     AcServiceUnavailable ''Email verified, but app sign-in is still finishing. Please retry shortly.'' (Some 5)"

text \<open>
  The user of a pending OAuth registration. A stored key comes along in one transaction; without one the
  key arrives with the token exchange.
\<close>

definition verified_oauth_user ::
    "timestamp \<Rightarrow> string \<Rightarrow> int \<Rightarrow> oauth_code \<Rightarrow> string \<Rightarrow> string \<Rightarrow> 'j db \<Rightarrow> account_error + 'j db" where
  "verified_oauth_user now tok tenant_id c email password_hash d =
     (if user_exists (oc_user_pubkey c) tenant_id d then Inr d
      else let created = create_with_password_verified now (oc_user_pubkey c) tenant_id email password_hash True (Some tok) d
           in case oc_pending_encrypted_secret c of
                Some encrypted \<Rightarrow>
                  map_err (\<lambda>e. AcDatabase (repository_error_text e))
                    (and_then created (personal_keys_create (oc_user_pubkey c) encrypted tenant_id))
              | None \<Rightarrow> map_err account_error_of created)"

definition renewed_code :: "timestamp \<Rightarrow> string \<Rightarrow> int \<Rightarrow> oauth_code \<Rightarrow> store_code_params" where
  "renewed_code now new_code tenant_id c =
     \<lparr>sc_tenant_id = tenant_id, sc_code = new_code, sc_user_pubkey = oc_user_pubkey c, sc_client_id = oc_client_id c,
      sc_redirect_uri = oc_redirect_uri c, sc_scope = oc_scope c, sc_code_challenge = oc_code_challenge c,
      sc_code_challenge_method = oc_code_challenge_method c, sc_expires_at = now + minutes 10,
      sc_previous_auth_id = oc_previous_auth_id c, sc_state = oc_state c, sc_is_headless = oc_is_headless c\<rparr>"

definition poll_key :: "string \<Rightarrow> string" where
  "poll_key device_code = ''oauth_poll:'' @ device_code"

text \<open>
  Handing the new code to a polling device. A headless registration depends on it: a failure takes the
  code back. For the others the redirect still works.
\<close>

definition deliver_code ::
    "timestamp \<Rightarrow> account_draws \<Rightarrow> int \<Rightarrow> oauth_code \<Rightarrow> 'j site \<Rightarrow> (account_error + unit) \<times> 'j site" where
  "deliver_code now D tenant_id c s =
     (case oc_device_code c of
        None \<Rightarrow> (Inr (), s)
      | Some device_code \<Rightarrow>
          (if ad_redis D \<and> ad_setex D
           then (Inr (), s\<lparr>si_polls := (si_polls s)(poll_key device_code := Some (ad_code D, now div 1000000 + 600))\<rparr>)
           else if oc_is_headless c then (Inl headless_retry_error, put_si_db (code_delete tenant_id (ad_code D) (si_db s)) s)
           else (Inr (), s)))"

definition oauth_verified_response :: "account_draws \<Rightarrow> oauth_code \<Rightarrow> verify_email_response" where
  "oauth_verified_response D c =
     (if oc_is_headless c
      then (verify_note True ''Email verified! Open the app to continue.'')\<lparr>ve_status := Some ''headless''\<rparr>
      else (verify_note True ''Email verified! Redirecting to app...'')\<lparr>ve_redirect_to :=
             Some (oc_redirect_uri c @ ''?code='' @ ad_code D
                   @ (case oc_state c of Some st \<Rightarrow> ''&state='' @ st | None \<Rightarrow> []))\<rparr>)"

definition verify_oauth_registration ::
    "timestamp \<Rightarrow> account_draws \<Rightarrow> int \<Rightarrow> string \<Rightarrow> oauth_code \<Rightarrow> 'j site
      \<Rightarrow> (account_error + verify_email_response) \<times> 'j site" where
  "verify_oauth_registration now D tenant_id tok c s =
     (case and_then (ok_or (AcInternal ''Missing pending email'') (oc_pending_email c)) (\<lambda>email.
           and_then (ok_or (AcInternal ''Missing pending password hash'') (oc_pending_password_hash c)) (\<lambda>password_hash.
             verified_oauth_user now tok tenant_id c email password_hash (si_db s))) of
        Inl e \<Rightarrow> (Inl e, s)
      | Inr d \<Rightarrow>
          (let s1 = put_si_db d s
           in if oc_is_headless c \<and> (\<not> is_set (oc_device_code c) \<or> \<not> ad_redis D) then (Inl headless_retry_error, s1)
              else (case code_store now (renewed_code now (ad_code D) tenant_id c) d of
                      (Inl e, d1) \<Rightarrow> (Inl (account_error_of e), put_si_db d1 s1)
                    | (Inr _, d1) \<Rightarrow>
                        (case deliver_code now D tenant_id c (put_si_db d1 s1) of
                           (Inl e, s2) \<Rightarrow> (Inl e, s2)
                         | (Inr _, s2) \<Rightarrow>
                             (Inr (oauth_verified_response D c),
                              put_si_db (delete_by_verification_token tok tenant_id (si_db s2)) s2)))))"

definition verified_redirect :: "'j token_world \<Rightarrow> string \<Rightarrow> string \<Rightarrow> string" where
  "verified_redirect W email uri =
     uri @ (if CHR ''?'' \<in> set uri then ''&'' else ''?'') @ ''verified=1&email='' @ url_encode W email"

definition verification_origin :: "'j login_world \<Rightarrow> parts \<Rightarrow> string" where
  "verification_origin W rq =
     (case extract_origin_from_headers rq of
        Inr origin \<Rightarrow> origin
      | Inl _ \<Rightarrow> (case app_url_env W of Some url \<Rightarrow> url | None \<Rightarrow> ''http://localhost:3000''))"

text \<open>What follows once the address of a normal registration counts as verified.\<close>

definition first_session ::
    "'j login_world \<Rightarrow> int \<Rightarrow> parts \<Rightarrow> verification_token_data \<Rightarrow> 'j db
      \<Rightarrow> account_error + string option \<times> verify_email_response" where
  "first_session W tenant_id rq v d =
     and_then (map_err account_error_of (get_email (vt_pubkey v) tenant_id d)) (\<lambda>email.
     and_then (open_user_key W (AcInternal ''Personal keys not found'') (vt_pubkey v) tenant_id d) (\<lambda>keys.
     and_then (generate_ucan_token W keys tenant_id email (verification_origin W rq) None) (\<lambda>ucan_token.
       Inr (Some (format_session_cookie ucan_token 86400 (secure_cookies W)),
            (verify_note True ''Email verified successfully! You are now logged in.'')
              \<lparr>ve_redirect_to := map_option (verified_redirect (ltoken W) email) (vt_redirect_uri v),
               ve_authenticated := Some True\<rparr>))))"

definition verify_registration ::
    "'j login_world \<Rightarrow> timestamp \<Rightarrow> int \<Rightarrow> parts \<Rightarrow> verification_token_data \<Rightarrow> 'j site
      \<Rightarrow> (account_error + string option \<times> verify_email_response) \<times> 'j site" where
  "verify_registration W now tenant_id rq v s =
     (if vt_email_verified v
      then (Inr (None, verify_note True ''Your email is already verified. You can log in.''), s)
      else if (case vt_email_verification_expires_at v of Some expires \<Rightarrow> expires < now | None \<Rightarrow> False)
      then (Inr (None, verify_note False ''Verification link has expired. Please request a new one.''), s)
      else if vt_password_hash v = None then
        (if 120 < num_seconds (now - vt_created_at v) then (Inl AcRegistrationExpired, s)
         else (Inr (None, (verify_note False ''Processing your registration, please wait...'')
                 \<lparr>ve_status := Some ''processing'', ve_retry_after := Some 1\<rparr>), s))
      else (case Users.verify_email now (vt_pubkey v) tenant_id (si_db s) of
              Inl e \<Rightarrow> (Inl (account_error_of e), s)
            | Inr d \<Rightarrow> (first_session W tenant_id rq v d, put_si_db d s)))"

definition verify_email_endpoint ::
    "'j login_world \<Rightarrow> timestamp \<Rightarrow> account_draws \<Rightarrow> tenant \<Rightarrow> parts \<Rightarrow> string \<Rightarrow> 'j site
      \<Rightarrow> (account_error + string option \<times> verify_email_response) \<times> 'j site" where
  "verify_email_endpoint W now D tn rq tok s =
     (let tenant_id = tn_id tn
      in case find_by_verification_token now tok tenant_id (si_db s) of
           Some c \<Rightarrow>
             (case verify_oauth_registration now D tenant_id tok c s of
                (r, s1) \<Rightarrow> (and_then r (\<lambda>v. Inr (None, v)), s1))
         | None \<Rightarrow>
             (case user_find_by_verification_token tok tenant_id (si_db s) of
                Inl e \<Rightarrow> (Inl (account_error_of e), s)
              | Inr None \<Rightarrow> (Inl AcInvalidToken, s)
              | Inr (Some v) \<Rightarrow> verify_registration W now tenant_id rq v s))"

section \<open>Sending the verification mail again\<close>

text \<open>Who is meant: the user of the session, or the account with the address.\<close>

definition resend_lookup ::
    "'j login_world \<Rightarrow> timestamp \<Rightarrow> int \<Rightarrow> parts \<Rightarrow> string option \<Rightarrow> 'j db
      \<Rightarrow> (pubkey \<times> string \<times> bool \<times> timestamp option) option" where
  "resend_lookup W now tenant_id rq email d =
     (case extract_user_from_token (lhttp W) now rq tenant_id of
        Inr pubkey \<Rightarrow>
          (case get_verification_status pubkey tenant_id d of
             Inr (Some (e, verified, last_sent)) \<Rightarrow> Some (pubkey, e, verified, last_sent)
           | _ \<Rightarrow> None)
      | Inl _ \<Rightarrow>
          (case email of
             None \<Rightarrow> None
           | Some e \<Rightarrow>
               (case get_verification_status_by_email e tenant_id d of
                  Inr (Some (pubkey, verified, last_sent)) \<Rightarrow> Some (pubkey, e, verified, last_sent)
                | _ \<Rightarrow> None)))"

definition send_verification_again ::
    "'j login_world \<Rightarrow> timestamp \<Rightarrow> account_draws \<Rightarrow> int \<Rightarrow> parts \<Rightarrow> string option \<Rightarrow> 'j site \<Rightarrow> 'j site" where
  "send_verification_again W now D tenant_id rq email s =
     (case resend_lookup W now tenant_id rq (map_option (lower W) email) (si_db s) of
        None \<Rightarrow> s
      | Some (pubkey, e, verified, last_sent) \<Rightarrow>
          (if verified then s
           else if (case last_sent of Some sent_at \<Rightarrow> num_minutes (now - sent_at) < 5 | None \<Rightarrow> False) then s
           else (case set_verification_token now pubkey tenant_id (ad_token D)
                        (now + hours EMAIL_VERIFICATION_EXPIRY_HOURS) (si_db s) of
                   Inl _ \<Rightarrow> s
                 | Inr d \<Rightarrow> send_mail D (VerificationMail e (ad_token D)) (put_si_db d s))))"

definition resend_message :: string where
  "resend_message = ''If this email is registered, you will receive a verification email shortly.''"

definition resend_verification ::
    "'j login_world \<Rightarrow> timestamp \<Rightarrow> account_draws \<Rightarrow> tenant \<Rightarrow> parts \<Rightarrow> string option \<Rightarrow> 'j site
      \<Rightarrow> (account_error + string) \<times> 'j site" where
  "resend_verification W now D tn rq email s0 =
     (case allow_route W now ''resend_verification'' (tn_id tn) rq email s0 of
        (False, s) \<Rightarrow> (Inl AcTooManyRequests, s)
      | (True, s) \<Rightarrow> (Inr resend_message, send_verification_again W now D (tn_id tn) rq email s))"

section \<open>Forgotten passwords\<close>

definition app_url_is_allowed :: "'j login_world \<Rightarrow> string \<Rightarrow> bool" where
  "app_url_is_allowed W candidate =
     (case allowed_origins_env W of
        None \<Rightarrow> False
      | Some origins \<Rightarrow>
          (let norm = (\<lambda>s. lower W (trim_end_matches (CHR ''/'') (str_trim s)))
           in norm candidate \<noteq> [] \<and> norm candidate \<in> set (map norm (split_on (CHR '','') origins))))"

definition app_url_override :: "'j login_world \<Rightarrow> string option \<Rightarrow> string option" where
  "app_url_override W app_url =
     (case map_option (\<lambda>s. trim_end_matches (CHR ''/'') (str_trim s)) app_url of
        Some candidate \<Rightarrow> if candidate \<noteq> [] \<and> app_url_is_allowed W candidate then Some candidate else None
      | None \<Rightarrow> None)"

definition forgot_message :: string where
  "forgot_message = ''If an account exists with that email, a password reset link has been sent.''"

definition forgot_password ::
    "'j login_world \<Rightarrow> timestamp \<Rightarrow> account_draws \<Rightarrow> tenant \<Rightarrow> parts \<Rightarrow> string \<Rightarrow> string option \<Rightarrow> 'j site
      \<Rightarrow> (account_error + string) \<times> 'j site" where
  "forgot_password W now D tn rq raw_email app_url s0 =
     (let tenant_id = tn_id tn; email = lower W raw_email
      in case allow_route W now ''forgot_password'' tenant_id rq (Some email) s0 of
           (False, s) \<Rightarrow> (Inl AcTooManyRequests, s)
         | (True, s) \<Rightarrow>
             (case find_pubkey_by_email email tenant_id (si_db s) of
                None \<Rightarrow> (Inr forgot_message, s)
              | Some pubkey \<Rightarrow>
                  (case set_password_reset_token now pubkey tenant_id (ad_token D)
                          (now + hours PASSWORD_RESET_EXPIRY_HOURS) (si_db s) of
                     Inl e \<Rightarrow> (Inl (account_error_of e), s)
                   | Inr d \<Rightarrow>
                       (Inr forgot_message,
                        send_mail D (ResetMail email (ad_token D) (app_url_override W app_url)) (put_si_db d s)))))"

text \<open>The first ten bytes of the token are logged before anything else: a shorter token panics.\<close>

definition reset_password_endpoint ::
    "'j login_world \<Rightarrow> timestamp \<Rightarrow> account_draws \<Rightarrow> tenant \<Rightarrow> string \<Rightarrow> string \<Rightarrow> 'j site
      \<Rightarrow> (account_error + bool \<times> string) option \<times> 'j site" where
  "reset_password_endpoint W now D tn tok new_password s =
     (case str_slice tok 0 10 of
        None \<Rightarrow> (None, s)
      | Some _ \<Rightarrow>
          (case find_by_reset_token tok (tn_id tn) (si_db s) of
             None \<Rightarrow> (Some (Inl AcInvalidToken), s)
           | Some (pubkey, expires_at) \<Rightarrow>
               (if (case expires_at of Some expires \<Rightarrow> expires < now | None \<Rightarrow> False)
                then (Some (Inr (False, ''Password reset link has expired. Please request a new one.'')), s)
                else (case bcrypt_hash W (ad_salt D) new_password of
                        Inl e \<Rightarrow> (Some (Inl (AcPasswordHash e)), s)
                      | Inr password_hash \<Rightarrow>
                          (case Users.reset_password now pubkey (tn_id tn) password_hash (si_db s) of
                             Inl e \<Rightarrow> (Some (Inl (account_error_of e)), s)
                           | Inr d \<Rightarrow>
                               (Some (Inr (True, ''Password reset successfully! You can now log in with your new password.'')),
                                put_si_db d s))))))"

section \<open>Bunkers the user creates\<close>

record create_bunker_request =
  cb_app_name :: string
  cb_origin :: "string option"
  cb_policy_slug :: "string option"

record create_bunker_response =
  br_bunker_url :: string
  br_origin :: "string option"
  br_app_name :: string
  br_bunker_pubkey :: pubkey
  br_created_at :: string

definition validate_origin :: "(string \<Rightarrow> url option) \<Rightarrow> string \<Rightarrow> account_error + unit" where
  "validate_origin parse origin =
     and_then (ok_or (AcBadRequest ''Invalid origin URL'') (parse origin)) (\<lambda>url.
     and_then (ok_or (AcBadRequest ''Origin must have a host'') (url_host url)) (\<lambda>host.
       if url_scheme url \<noteq> ''https'' \<and> host \<noteq> ''localhost'' \<and> host \<noteq> ''127.0.0.1''
       then Inl (AcBadRequest ''Origin must be HTTPS'') else Inr ()))"

text \<open>
  What is read before the relays: session, origin, stored key, a secret from the pool, the policy and the
  derived key; the inner option is the derivation running out of counters.
\<close>

definition bunker_material ::
    "'j login_world \<Rightarrow> timestamp \<Rightarrow> account_draws \<Rightarrow> int \<Rightarrow> parts \<Rightarrow> create_bunker_request \<Rightarrow> 'j db
      \<Rightarrow> account_error + (pubkey \<times> string \<times> string \<times> int option \<times> seckey option)" where
  "bunker_material W now D tenant_id rq q d =
     and_then (extract_user_from_token (lhttp W) now rq tenant_id) (\<lambda>user_pubkey.
     and_then (case cb_origin q of Some origin \<Rightarrow> validate_origin (url_parse (ltoken W)) origin | None \<Rightarrow> Inr ()) (\<lambda>_.
     and_then (ok_or (AcInternal ''Personal keys not found'') (find_encrypted_key_for_tenant d user_pubkey tenant_id)) (\<lambda>encrypted.
     and_then (ok_or (AcInternal ''Secret pool exhausted'') (ad_pair D)) (\<lambda>(connection_secret, secret_hash).
     and_then (map_err (\<lambda>e. AcInternal (''Failed to decrypt user key: '' @ e)) (km_decrypt (lx W) encrypted)) (\<lambda>secret.
     and_then (map_err (\<lambda>e. AcInternal (''Invalid secret key: '' @ e)) (sk_from_slice (lx W) secret)) (\<lambda>user_secret.
       Inr (user_pubkey, connection_secret, secret_hash,
            Option.bind (cb_policy_slug q) (\<lambda>slug. find_id_by_slug slug d),
            derive_bunker_keys (lx W) user_secret secret_hash)))))))"

definition bunker_row ::
    "'j login_world \<Rightarrow> timestamp \<Rightarrow> int \<Rightarrow> pubkey \<Rightarrow> create_bunker_request \<Rightarrow> pubkey \<Rightarrow> string \<Rightarrow> string list \<Rightarrow> int option
      \<Rightarrow> create_oauth_params" where
  "bunker_row W now tenant_id user_pubkey q bunker secret_hash relays policy_id =
     \<lparr>cp_tenant_id = tenant_id, cp_user_pubkey = user_pubkey,
      cp_redirect_origin = (case cb_origin q of Some origin \<Rightarrow> origin | None \<Rightarrow> []),
      cp_client_id = cb_app_name q, cp_bunker_public_key = bunker, cp_secret_hash = secret_hash,
      cp_relays = json_strings W relays, cp_policy_id = policy_id, cp_client_pubkey = None,
      cp_authorization_handle = None, cp_handle_expires_at = now + days 30\<rparr>"

definition create_bunker ::
    "'j login_world \<Rightarrow> timestamp \<Rightarrow> account_draws \<Rightarrow> tenant \<Rightarrow> parts \<Rightarrow> create_bunker_request \<Rightarrow> 'j site
      \<Rightarrow> (account_error + create_bunker_response) option \<times> 'j site" where
  "create_bunker W now D tn rq q s =
     (case bunker_material W now D (tn_id tn) rq q (si_db s) of
        Inl e \<Rightarrow> (Some (Inl e), s)
      | Inr (user_pubkey, connection_secret, secret_hash, policy_id, derived) \<Rightarrow>
          (case (derived, get_bunker_relays (ltoken W)) of
             (Some bunker_keys, Some relays) \<Rightarrow>
               (let bunker = public_key (lx W) bunker_keys
                in case oauth_create now (bunker_row W now (tn_id tn) user_pubkey q bunker secret_hash relays policy_id) (si_db s) of
                     (Inl e, d) \<Rightarrow> (Some (Inl (account_error_of e)), put_si_db d s)
                   | (Inr _, d) \<Rightarrow>
                       (let s1 = put_si_db d s; a = si_acc s1
                        in (Some (Inr
                              \<lparr>br_bunker_url = ''bunker://'' @ bunker @ ''?'' @ relay_params (ltoken W) relays
                                 @ ''&secret='' @ connection_secret,
                               br_origin = cb_origin q, br_app_name = cb_app_name q, br_bunker_pubkey = user_pubkey,
                               br_created_at = created_text W now\<rparr>),
                            s1\<lparr>si_acc := a\<lparr>ac_server := push_command D (Upsert bunker (tn_id tn) True) (ac_server a)\<rparr>\<rparr>)))
           | _ \<Rightarrow> (None, s)))"

definition no_authorization :: account_error where
  "no_authorization = AcForbidden ''No authorization for this origin. Create one via OAuth or /user/bunker/create''"

text \<open>Always an error: the secret is only known at creation.\<close>

definition get_bunker_url :: "'j login_world \<Rightarrow> timestamp \<Rightarrow> tenant \<Rightarrow> parts \<Rightarrow> 'j db \<Rightarrow> account_error" where
  "get_bunker_url W now tn rq d =
     (case extract_user_and_origin_from_token (lhttp W) now rq (tn_id tn) of
        Inl e \<Rightarrow> e
      | Inr (user_pubkey, redirect_origin, _) \<Rightarrow>
          (case find_bunker_pubkey_by_redirect_origin user_pubkey redirect_origin (tn_id tn) (db_oauth d) of
             Some _ \<Rightarrow> AcBadRequest (''Bunker URLs with secrets are only available at creation time. ''
                @ ''The connection secret is now hashed for security. ''
                @ ''Create a new authorization via /user/bunker/create if you need a bunker URL.'')
           | None \<Rightarrow> no_authorization))"

section \<open>Profile and status\<close>

definition get_profile :: "'j login_world \<Rightarrow> timestamp \<Rightarrow> tenant \<Rightarrow> parts \<Rightarrow> 'j db \<Rightarrow> account_error + string option" where
  "get_profile W now tn rq d =
     and_then (extract_user_from_token (lhttp W) now rq (tn_id tn)) (\<lambda>pubkey.
       Inr (Option.bind (get_username pubkey (tn_id tn) d) (\<lambda>name. name)))"

record account_status =
  as_email :: string
  as_email_verified :: bool
  as_public_key :: pubkey

definition account_status_endpoint ::
    "'j login_world \<Rightarrow> timestamp \<Rightarrow> tenant \<Rightarrow> parts \<Rightarrow> 'j db \<Rightarrow> account_error + account_status" where
  "account_status_endpoint W now tn rq d =
     and_then (extract_user_from_token (lhttp W) now rq (tn_id tn)) (\<lambda>pubkey.
     and_then (ok_or AcUserNotFound (get_account_status pubkey (tn_id tn) d)) (\<lambda>(email, verified).
       Inr \<lparr>as_email = (case email of Some e \<Rightarrow> e | None \<Rightarrow> []),
            as_email_verified = (verified = Some True), as_public_key = pubkey\<rparr>))"

definition username_chars :: "'j login_world \<Rightarrow> string \<Rightarrow> bool" where
  "username_chars W username \<longleftrightarrow>
     list_all (\<lambda>c. 128 \<le> (of_char c :: nat) \<or> ascii_alphanumeric c \<or> c = CHR ''-'') username
     \<and> unicode_alphanumeric W username"

text \<open>The name server is asked first; when it cannot be reached the local table decides.\<close>

definition username_free ::
    "'j login_world \<Rightarrow> 'j names_world \<Rightarrow> string \<Rightarrow> pubkey \<Rightarrow> int \<Rightarrow> 'j db \<Rightarrow> account_error + unit" where
  "username_free W N username pubkey tenant_id d =
     (if \<not> username_chars W username
      then Inl (AcInternal ''Username can only contain letters, numbers, and hyphens'')
      else if starts_with username ''-'' \<or> ends_with username ''-''
      then Inl (AcInternal ''Username cannot start or end with a hyphen'')
      else case (if names_enabled N then check_availability N username else Inr (True, None)) of
             Inr (False, reason) \<Rightarrow>
               Inl (AcInternal (case reason of Some m \<Rightarrow> m | None \<Rightarrow> ''Username is not available on divine.video''))
           | _ \<Rightarrow>
               (if check_username_available username pubkey tenant_id d then Inr ()
                else Inl (AcInternal ''Username already taken'')))"

definition sync_username ::
    "'j login_world \<Rightarrow> 'j names_world \<Rightarrow> u64 \<Rightarrow> string \<Rightarrow> pubkey \<Rightarrow> int \<Rightarrow> 'j db \<Rightarrow> (string + claim_response) option" where
  "sync_username W N clock username pubkey tenant_id d =
     (if \<not> names_enabled N then None
      else (case find_encrypted_key_for_tenant d pubkey tenant_id of
              None \<Rightarrow> None
            | Some encrypted \<Rightarrow>
                (case and_then (km_decrypt (lx W) encrypted) (sk_from_slice (lx W)) of
                   Inl _ \<Rightarrow> None
                 | Inr keys \<Rightarrow> Some (map_err divine_name_error_text (claim_username N clock keys username None)))))"

definition update_profile ::
    "'j login_world \<Rightarrow> 'j names_world \<Rightarrow> timestamp \<Rightarrow> u64 \<Rightarrow> tenant \<Rightarrow> parts \<Rightarrow> string option \<Rightarrow> 'j site
      \<Rightarrow> (account_error + (string + nip05_info option \<times> string option) option) \<times> 'j site" where
  "update_profile W N now clock tn rq username s =
     (let tenant_id = tn_id tn
      in case extract_user_from_token (lhttp W) now rq tenant_id of
           Inl e \<Rightarrow> (Inl e, s)
         | Inr pubkey \<Rightarrow>
             (case username of
                None \<Rightarrow> (Inr None, s)
              | Some name \<Rightarrow>
                  (case username_free W N name pubkey tenant_id (si_db s) of
                     Inl e \<Rightarrow> (Inl e, s)
                   | Inr _ \<Rightarrow>
                       (case update_username now pubkey name tenant_id (si_db s) of
                          Inl e \<Rightarrow> (Inl (account_error_of e), s)
                        | Inr d \<Rightarrow>
                            (Inr (map_option (\<lambda>r. and_then r (\<lambda>c. Inr (cr_nip05 c, cr_profile_url c)))
                                    (sync_username W N clock name pubkey tenant_id (si_db s))),
                             put_si_db d s)))))"

section \<open>The user's view of the grants\<close>

definition list_sessions ::
    "'j login_world \<Rightarrow> timestamp \<Rightarrow> tenant \<Rightarrow> parts \<Rightarrow> 'j db \<Rightarrow> account_error + session_row list" where
  "list_sessions W now tn rq d =
     and_then (extract_user_from_token (lhttp W) now rq (tn_id tn)) (\<lambda>pubkey.
       Inr (list_active_sessions (db_users d) pubkey (tn_id tn) (db_oauth d)))"

definition revoke_session ::
    "'j login_world \<Rightarrow> timestamp \<Rightarrow> account_draws \<Rightarrow> tenant \<Rightarrow> parts \<Rightarrow> pubkey \<Rightarrow> 'j site
      \<Rightarrow> (account_error + string) \<times> 'j site" where
  "revoke_session W now D tn rq bunker s =
     (let tenant_id = tn_id tn; d = si_db s
      in case extract_user_from_token (lhttp W) now rq tenant_id of
           Inl e \<Rightarrow> (Inl e, s)
         | Inr user_pubkey \<Rightarrow>
             (if \<not> exists_active_for_bunker (db_users d) bunker user_pubkey tenant_id (db_oauth d)
              then (Inl AcInvalidToken, s)
              else
                let s1 = put_si_db (d\<lparr>db_oauth :=
                           revoke_by_bunker_pubkey now (db_users d) bunker user_pubkey tenant_id (db_oauth d)\<rparr>) s;
                    a = si_acc s1; sv = ac_server a;
                    sv1 = sv\<lparr>sv_cache := invalidate_handlers_for_bunker (lhttp W) True bunker (sv_cache sv),
                             sv_oauth_revoked := sv_oauth_revoked sv + 1\<rparr>
                in (Inr ''Session revoked successfully'',
                    s1\<lparr>si_acc := a\<lparr>ac_server := push_command D (Remove bunker) sv1\<rparr>\<rparr>)))"

definition disconnect_client_endpoint ::
    "'j login_world \<Rightarrow> timestamp \<Rightarrow> tenant \<Rightarrow> parts \<Rightarrow> pubkey \<Rightarrow> 'j site \<Rightarrow> (account_error + string) \<times> 'j site" where
  "disconnect_client_endpoint W now tn rq bunker s =
     (let d = si_db s
      in case extract_user_from_token (lhttp W) now rq (tn_id tn) of
           Inl e \<Rightarrow> (Inl e, s)
         | Inr user_pubkey \<Rightarrow>
             (case disconnect_client now (db_users d) bunker user_pubkey (tn_id tn) (db_oauth d) of
                (n, t) \<Rightarrow>
                  (let s1 = put_si_db (d\<lparr>db_oauth := t\<rparr>) s
                   in if n = 0 then (Inl AcInvalidToken, s1)
                      else (Inr ''Client disconnected - must reconnect to continue'', s1))))"

record policy_info_row =
  pi_app_name :: string
  pi_policy_id :: int
  pi_policy_name :: string
  pi_policy_slug :: "string option"
  pi_policy_display_name :: "string option"
  pi_policy_description :: "string option"
  pi_created_at :: timestamp
  pi_bunker_public_key :: pubkey
  pi_last_activity :: "timestamp option"
  pi_activity_count :: int

text \<open>A left join: a grant without a policy, or whose policy is gone, is listed with the defaults.\<close>

definition list_with_policy_info :: "pubkey \<Rightarrow> int \<Rightarrow> 'j db \<Rightarrow> policy_info_row list" where
  "list_with_policy_info user_pubkey tenant_id d =
     map (\<lambda>a. let p = Option.bind (oa_policy_id a) (\<lambda>i. fetch_optional (\<lambda>p. po_id p = i) (db_policies d))
              in \<lparr>pi_app_name = (case oa_client_id a of Some c \<Rightarrow> c | None \<Rightarrow> oa_redirect_origin a),
                  pi_policy_id = (case oa_policy_id a of Some i \<Rightarrow> i | None \<Rightarrow> 0),
                  pi_policy_name = (case p of Some r \<Rightarrow> po_name r | None \<Rightarrow> ''No Policy''),
                  pi_policy_slug = Option.bind p po_slug, pi_policy_display_name = Option.bind p po_display_name,
                  pi_policy_description = Option.bind p po_description, pi_created_at = oa_created_at a,
                  pi_bunker_public_key = oa_bunker_public_key a, pi_last_activity = oa_last_activity a,
                  pi_activity_count = oa_activity_count a\<rparr>)
       (newest_first (fetch_all (\<lambda>a. oa_user_pubkey a = user_pubkey
                                   \<and> user_in_tenant (db_users d) (oa_user_pubkey a) tenant_id
                                   \<and> oa_revoked_at a = None) (db_oauth d)))"

text \<open>The kinds of a policy as 16-bit signed integers: the cast keeps the low bits.\<close>

definition legacy_event_kinds :: "'j login_world \<Rightarrow> int \<Rightarrow> 'j db \<Rightarrow> 16 word list" where
  "legacy_event_kinds W policy_id d =
     (case (if 0 < policy_id then get_allowed_kinds_config policy_id d else None) of
        None \<Rightarrow> []
      | Some config \<Rightarrow>
          (case Option.bind (fact_get (lhttp W) config ''allowed_kinds'') (json_array (lx W)) of
             None \<Rightarrow> []
           | Some kinds \<Rightarrow> List.map_filter (\<lambda>v. map_option (\<lambda>n. ucast n) (json_u64 (lx W) v)) kinds))"

definition event_kind_name :: "16 word \<Rightarrow> string" where
  "event_kind_name kind =
     (let k = sint kind
      in if k = 0 then ''Profile (kind 0)''
         else if k = 1 then ''Notes (kind 1)''
         else if k = 3 then ''Follows (kind 3)''
         else if k = 4 then ''Encrypted DM - NIP-04 (kind 4)''
         else if k = 5 then ''Deletion (kind 5)''
         else if k = 6 then ''Repost (kind 6)''
         else if k = 7 then ''Reaction (kind 7)''
         else if k = 16 then ''Generic Repost (kind 16)''
         else if k = 44 then ''Encrypted DM - NIP-44 (kind 44)''
         else if k = 1059 then ''Gift Wrap (kind 1059)''
         else if k = 1984 then ''Report (kind 1984)''
         else if k = 9734 then ''Zap Request (kind 9734)''
         else if k = 9735 then ''Zap Receipt (kind 9735)''
         else if k = 23194 \<or> k = 23195 then ''Wallet Operation (kind 23194-23195)''
         else if 10000 \<le> k \<and> k < 20000 then ''List/Data (kind '' @ show_int k @ '')''
         else if 30000 \<le> k then ''Long-form (kind '' @ show_int k @ '')''
         else ''Kind '' @ show_int k)"

record permission_detail =
  pd_row :: policy_info_row
  pd_permissions :: "permission_display list"
  pd_allowed_event_kinds :: "16 word list"
  pd_event_kind_names :: "string list"

definition permission_detail_of :: "'j login_world \<Rightarrow> 'j db \<Rightarrow> policy_info_row \<Rightarrow> permission_detail" where
  "permission_detail_of W d r =
     (let kinds = legacy_event_kinds W (pi_policy_id r) d
      in \<lparr>pd_row = r,
          pd_permissions = (if 0 < pi_policy_id r
                            then (case policy_find d (pi_policy_id r) of
                                    Inr p \<Rightarrow> permission_displays (ltoken W) d p | Inl _ \<Rightarrow> [])
                            else []),
          pd_allowed_event_kinds = kinds, pd_event_kind_names = map event_kind_name kinds\<rparr>)"

definition list_permissions ::
    "'j login_world \<Rightarrow> timestamp \<Rightarrow> tenant \<Rightarrow> parts \<Rightarrow> 'j db \<Rightarrow> account_error + permission_detail list" where
  "list_permissions W now tn rq d =
     and_then (extract_user_from_token (lhttp W) now rq (tn_id tn)) (\<lambda>pubkey.
       Inr (map (permission_detail_of W d) (list_with_policy_info pubkey (tn_id tn) d)))"

section \<open>Signing over plain HTTP\<close>

text \<open>The policy of the grant for the origin of the session; no policy is full access.\<close>

definition get_authorization_for_origin ::
    "timestamp \<Rightarrow> pubkey \<Rightarrow> string \<Rightarrow> int \<Rightarrow> 'j db \<Rightarrow> account_error + int option" where
  "get_authorization_for_origin now user_pubkey redirect_origin tenant_id d =
     ok_or no_authorization (find_policy_id_by_origin now user_pubkey redirect_origin tenant_id (db_oauth d))"

text \<open>A permission that cannot be read is an error here.\<close>

definition policy_permissions :: "'j login_world \<Rightarrow> 'j db \<Rightarrow> int \<Rightarrow> account_error + custom_permission list" where
  "policy_permissions W d policy_id =
     map_err (\<lambda>e. AcInternal (''Failed to convert permissions: '' @ permission_error_text e))
       (collect_results (map (to_custom_permission (x_perm (lx W))) (get_permissions d policy_id)))"

text \<open>What the three validations share: all permissions must agree, and none at all is consent.\<close>

definition all_permit ::
    "'j login_world \<Rightarrow> 'j db \<Rightarrow> account_error \<Rightarrow> (custom_permission \<Rightarrow> bool) \<Rightarrow> int option \<Rightarrow> account_error + unit" where
  "all_permit W d denied permits policy_id =
     (case policy_id of
        None \<Rightarrow> Inr ()
      | Some i \<Rightarrow>
          and_then (policy_permissions W d i) (\<lambda>ps.
            if ps = [] then Inr () else if list_all permits ps then Inr () else Inl denied))"

definition validate_signing_permissions ::
    "'j login_world \<Rightarrow> timestamp \<Rightarrow> int \<Rightarrow> pubkey \<Rightarrow> string \<Rightarrow> unsigned_event \<Rightarrow> 'j db \<Rightarrow> account_error + unit" where
  "validate_signing_permissions W now tenant_id user_pubkey redirect_origin ev d =
     and_then (get_authorization_for_origin now user_pubkey redirect_origin tenant_id d)
       (all_permit W d AcInvalidCredentials (\<lambda>p. can_sign p ev))"

definition validate_encrypt_permissions ::
    "'j login_world \<Rightarrow> timestamp \<Rightarrow> int \<Rightarrow> pubkey \<Rightarrow> string \<Rightarrow> string \<Rightarrow> pubkey \<Rightarrow> 'j db \<Rightarrow> account_error + unit" where
  "validate_encrypt_permissions W now tenant_id user_pubkey redirect_origin plaintext recipient d =
     and_then (get_authorization_for_origin now user_pubkey redirect_origin tenant_id d) (\<lambda>policy_id.
     and_then (map_err (\<lambda>e. AcInternal (''Invalid user pubkey: '' @ e)) (pk_from_hex (x_perm (lx W)) user_pubkey)) (\<lambda>sender.
       all_permit W d (AcForbidden ''Encryption not permitted by policy'')
         (\<lambda>p. can_encrypt (x_perm (lx W)) p plaintext sender recipient) policy_id))"

definition validate_decrypt_permissions ::
    "'j login_world \<Rightarrow> timestamp \<Rightarrow> int \<Rightarrow> pubkey \<Rightarrow> string \<Rightarrow> string \<Rightarrow> pubkey \<Rightarrow> 'j db \<Rightarrow> account_error + unit" where
  "validate_decrypt_permissions W now tenant_id user_pubkey redirect_origin ciphertext sender d =
     and_then (get_authorization_for_origin now user_pubkey redirect_origin tenant_id d) (\<lambda>policy_id.
     and_then (map_err (\<lambda>e. AcInternal (''Invalid user pubkey: '' @ e)) (pk_from_hex (x_perm (lx W)) user_pubkey)) (\<lambda>recipient.
       all_permit W d (AcForbidden ''Decryption not permitted by policy'')
         (\<lambda>p. can_decrypt p ciphertext sender recipient) policy_id))"

text \<open>The handler of the newest grant, when the server runs in one process with the signer.\<close>

definition cached_signer ::
    "(pubkey \<Rightarrow> nip46_handler option) option \<Rightarrow> pubkey \<Rightarrow> int \<Rightarrow> 'j db \<Rightarrow> nip46_handler option" where
  "cached_signer handlers user_pubkey tenant_id d =
     Option.bind handlers (\<lambda>get.
       Option.bind (find_latest_bunker_pubkey (db_users d) user_pubkey tenant_id (db_oauth d)) get)"

definition signed_json :: "'j login_world \<Rightarrow> event \<Rightarrow> account_error + 'j" where
  "signed_json W ev = map_err (\<lambda>e. AcInternal (''JSON serialization failed: '' @ e)) (json_of_event (lhttp W) ev)"

definition sign_event ::
    "'j login_world \<Rightarrow> timestamp \<Rightarrow> (pubkey \<Rightarrow> nip46_handler option) option \<Rightarrow> tenant \<Rightarrow> parts \<Rightarrow> 'j \<Rightarrow> 'j site
      \<Rightarrow> (account_error + 'j) \<times> 'j site" where
  "sign_event W now handlers tn rq body s =
     (let tenant_id = tn_id tn; d = si_db s
      in case and_then (extract_user_and_origin_from_token (lhttp W) now rq tenant_id) (\<lambda>(user_pubkey, redirect_origin, _).
              and_then (map_err (\<lambda>e. AcInternal (''Invalid event format: '' @ e)) (event_from_value (lhttp W) body)) (\<lambda>ev.
              and_then (validate_signing_permissions W now tenant_id user_pubkey redirect_origin ev d) (\<lambda>_.
                Inr (user_pubkey, ev)))) of
           Inl e \<Rightarrow> (Inl e, s)
         | Inr (user_pubkey, ev) \<Rightarrow>
             (case cached_signer handlers user_pubkey tenant_id d of
                Some h \<Rightarrow>
                  (case sign_event_direct (lx W) now h ev d of
                     (Inl e, d1) \<Rightarrow> (Inl (AcInternal (''Signing failed: '' @ signer_error_text e)), put_si_db d1 s)
                   | (Inr signed_ev, d1) \<Rightarrow> (signed_json W signed_ev, put_si_db d1 s))
              | None \<Rightarrow>
                  (and_then (open_user_key W AcUserNotFound user_pubkey tenant_id d) (\<lambda>keys.
                   and_then (map_err (\<lambda>e. AcInternal (''Signing failed: '' @ e)) (sign_unsigned (lx W) keys ev))
                     (signed_json W)), s)))"

definition get_pubkey ::
    "'j login_world \<Rightarrow> timestamp \<Rightarrow> tenant \<Rightarrow> parts \<Rightarrow> 'j db \<Rightarrow> account_error + pubkey \<times> string" where
  "get_pubkey W now tn rq d =
     and_then (extract_user_from_token (lhttp W) now rq (tn_id tn)) (\<lambda>user_pubkey.
       if \<not> user_exists user_pubkey (tn_id tn) d then Inl AcUserNotFound
       else and_then (map_err (\<lambda>e. AcInternal (''Invalid public key: '' @ e)) (pk_from_hex (x_perm (lx W)) user_pubkey)) (\<lambda>pk.
            and_then (map_err (\<lambda>e. AcInternal (''Bech32 conversion failed: '' @ e)) (npub_of W pk)) (\<lambda>npub.
              Inr (user_pubkey, npub))))"

section \<open>Passwords and keys\<close>

definition password_matches :: "'j login_world \<Rightarrow> string \<Rightarrow> string \<Rightarrow> account_error + unit" where
  "password_matches W password password_hash =
     and_then (map_err (\<lambda>_. AcInternal ''Password verification failed'') (bcrypt_verify (lx W) password password_hash))
       (\<lambda>valid. if valid then Inr () else Inl AcInvalidCredentials)"

definition found_row :: "repository_error + 'a option \<Rightarrow> account_error + 'a" where
  "found_row r = and_then (map_err account_error_of r) (ok_or AcUserNotFound)"

definition verify_password_for_export ::
    "'j login_world \<Rightarrow> timestamp \<Rightarrow> tenant \<Rightarrow> parts \<Rightarrow> string \<Rightarrow> 'j db \<Rightarrow> account_error + unit" where
  "verify_password_for_export W now tn rq password d =
     and_then (extract_user_from_token (lhttp W) now rq (tn_id tn)) (\<lambda>user_pubkey.
     and_then (found_row (get_credentials user_pubkey (tn_id tn) d)) (\<lambda>(_, password_hash).
       password_matches W password password_hash))"

definition change_password ::
    "'j login_world \<Rightarrow> timestamp \<Rightarrow> account_draws \<Rightarrow> tenant \<Rightarrow> parts \<Rightarrow> string \<Rightarrow> string \<Rightarrow> 'j site
      \<Rightarrow> (account_error + string) \<times> 'j site" where
  "change_password W now D tn rq current_password new_password s =
     (case and_then (extract_user_from_token (lhttp W) now rq (tn_id tn)) (\<lambda>user_pubkey.
           if length new_password < 8 then Inl (AcBadRequest ''New password must be at least 8 characters'')
           else and_then (found_row (get_credentials user_pubkey (tn_id tn) (si_db s))) (\<lambda>(_, password_hash).
                and_then (password_matches W current_password password_hash) (\<lambda>_.
                and_then (map_err (\<lambda>e. AcInternal (''Password hashing failed: '' @ e))
                            (bcrypt_hash W (ad_salt D) new_password)) (\<lambda>new_hash.
                  map_err account_error_of (update_password now user_pubkey (tn_id tn) new_hash (si_db s)))))) of
        Inl e \<Rightarrow> (Inl e, s)
      | Inr d \<Rightarrow> (Inr ''Password changed successfully'', put_si_db d s))"

definition export_key ::
    "'j login_world \<Rightarrow> timestamp \<Rightarrow> tenant \<Rightarrow> parts \<Rightarrow> 'j \<Rightarrow> 'j db \<Rightarrow> account_error + string" where
  "export_key W now tn rq body d =
     and_then (extract_user_from_token (lhttp W) now rq (tn_id tn)) (\<lambda>user_pubkey.
     and_then (ok_or (AcBadRequest ''Missing password'')
                 (Option.bind (fact_get (lhttp W) body ''password'') (json_str (lx W)))) (\<lambda>password.
     and_then (found_row (find_with_password_and_verified user_pubkey (tn_id tn) d)) (\<lambda>(_, password_hash, email_verified).
       if \<not> email_verified then Inl AcEmailNotVerified
       else
     and_then (password_matches W password password_hash) (\<lambda>_.
     and_then (ok_or AcUserNotFound (find_encrypted_key_for_tenant d user_pubkey (tn_id tn))) (\<lambda>encrypted.
     and_then (map_err (\<lambda>e. AcInternal (''Failed to decrypt key: '' @ e)) (km_decrypt (lx W) encrypted)) (\<lambda>secret.
     and_then (map_err (\<lambda>e. AcInternal (''Failed to parse key: '' @ e)) (keys_parse (ltoken W) (hex_encode W secret))) (\<lambda>keys.
       if (case Option.bind (fact_get (lhttp W) body ''format'') (json_str (lx W)) of Some f \<Rightarrow> f | None \<Rightarrow> ''nsec'') = ''nsec''
       then map_err (\<lambda>e. AcInternal (''Failed to encode nsec: '' @ e)) (nsec_of W keys)
       else Inl (AcBadRequest (''Invalid format. Must be '' @ quoted ''nsec'')))))))))"

text \<open>The checks of a key change and its transaction: the new key, the email and the number of grants deleted.\<close>

definition change_key_commit ::
    "'j login_world \<Rightarrow> timestamp \<Rightarrow> account_draws \<Rightarrow> int \<Rightarrow> pubkey \<Rightarrow> string \<Rightarrow> string option \<Rightarrow> 'j db
      \<Rightarrow> account_error + (seckey \<times> string \<times> nat \<times> 'j db)" where
  "change_key_commit W now D tenant_id old_pubkey password nsec d =
     and_then (found_row (get_credentials old_pubkey tenant_id d)) (\<lambda>(email, password_hash).
     and_then (password_matches W password password_hash) (\<lambda>_.
     and_then (case nsec of
                 Some nsec_str \<Rightarrow> map_err (\<lambda>e. AcInternal (''Invalid nsec or secret key: '' @ e)) (keys_parse (ltoken W) nsec_str)
               | None \<Rightarrow> Inr (ad_keys D)) (\<lambda>new_keys.
       if user_exists (public_key (lx W) new_keys) tenant_id d then Inl AcDuplicateKey
       else
     and_then (map_err AcEncryption (km_encrypt (lx W) new_keys)) (\<lambda>encrypted.
     and_then (map_err account_error_of
         (change_key_transaction now old_pubkey (public_key (lx W) new_keys) tenant_id email password_hash encrypted d))
       (\<lambda>(oauth_count, d1). Inr (new_keys, email, oauth_count, d1))))))"

record change_key_response =
  ck_new_pubkey :: pubkey
  ck_message :: string

definition key_changed_message :: "nat \<Rightarrow> string \<Rightarrow> string" where
  "key_changed_message n old_prefix =
     ''Private key changed successfully. Deleted '' @ show_nat n @ '' connected app(s). Your old identity (''
     @ old_prefix @ '') still exists in teams if you backed up the old key.''"

text \<open>
  After the commit the cache forgets the handlers of the old key and the signer is sent \<open>Remove\<close>, with the
  user's old key as the bunker key; then the session of the new key is issued.
\<close>

definition change_key ::
    "'j login_world \<Rightarrow> timestamp \<Rightarrow> account_draws \<Rightarrow> tenant \<Rightarrow> parts \<Rightarrow> string \<Rightarrow> string option \<Rightarrow> 'j site
      \<Rightarrow> (account_error + string \<times> change_key_response) option \<times> 'j site" where
  "change_key W now D tn rq password nsec s =
     (let tenant_id = tn_id tn
      in case and_then (extract_user_from_token (lhttp W) now rq tenant_id) (\<lambda>old_pubkey.
              and_then (change_key_commit W now D tenant_id old_pubkey password nsec (si_db s)) (\<lambda>r. Inr (old_pubkey, r))) of
           Inl e \<Rightarrow> (Some (Inl e), s)
         | Inr (old_pubkey, new_keys, email, oauth_count, d) \<Rightarrow>
             (let s1 = put_si_db d s; a = si_acc s1; sv = ac_server a;
                  sv1 = sv\<lparr>sv_cache := invalidate_handlers_for_user True old_pubkey (sv_cache sv)\<rparr>;
                  s2 = s1\<lparr>si_acc := a\<lparr>ac_server := push_command D (Remove old_pubkey) sv1\<rparr>\<rparr>
              in case and_then (extract_origin_from_headers rq)
                        (\<lambda>redirect_origin. generate_ucan_token W new_keys tenant_id email redirect_origin None) of
                   Inl e \<Rightarrow> (Some (Inl e), s2)
                 | Inr ucan_token \<Rightarrow>
                     (map_option (\<lambda>prefix. Inr (format_session_cookie ucan_token 86400 (secure_cookies W),
                          \<lparr>ck_new_pubkey = public_key (lx W) new_keys, ck_message = key_changed_message oauth_count prefix\<rparr>))
                        (str_slice old_pubkey 0 16), s2)))"

end
