(* ===== verification/AccountsProofs.thy ===== *)
theory AccountsProofs
  imports Accounts CustomersProofs UsersProofs SignerProofs
begin

text \<open>
  Accounts with a password: where sessions come from, that a registration leads to a login, what the
  plain HTTP signing endpoint and the key export demand, and two ways in which the endpoints do not do
  what they mean to.
\<close>

section \<open>State\<close>

lemma si_db_put [simp]: "si_db (put_si_db d s) = d"
  by (simp add: si_db_def put_si_db_def ac_db_def put_db_def)

lemma si_queue_put [simp]: "si_queue (put_si_db d s) = si_queue s"
  by (simp add: put_si_db_def)

lemma si_acc_put: "si_acc (put_si_db d s) = put_db d (si_acc s)"
  by (simp add: put_si_db_def)

lemma si_db_send_mail [simp]: "si_db (send_mail D m s) = si_db s"
  by (simp add: send_mail_def si_db_def)

lemma si_queue_send_mail [simp]: "si_queue (send_mail D m s) = si_queue s"
  by (simp add: send_mail_def)

lemma si_db_other [simp]:
  "si_db (s\<lparr>si_queue := q\<rparr>) = si_db s" "si_db (s\<lparr>si_registrations := n\<rparr>) = si_db s"
  "si_db (s\<lparr>si_logins := n\<rparr>) = si_db s" "si_db (s\<lparr>si_login_failures := n\<rparr>) = si_db s"
  "si_db (s\<lparr>si_polls := p\<rparr>) = si_db s"
  by (simp_all add: si_db_def)

lemma allow_route_frame:
  "allow_route W now route t rq e s = (b, s') \<Longrightarrow> si_db s' = si_db s \<and> si_queue s' = si_queue s"
  by (auto simp: allow_route_def si_db_def ac_db_def Let_def split: prod.splits)

section \<open>Where sessions come from\<close>

text \<open>The key that is opened for a user is the stored one.\<close>

lemma open_user_key_stored:
  assumes "open_user_key W missing pubkey t d = Inr keys"
  obtains encrypted secret where "find_encrypted_key_for_tenant d pubkey t = Some encrypted"
    "km_decrypt (lx W) encrypted = Inr secret" "sk_from_slice (lx W) secret = Inr keys"
  using assms by (auto simp: open_user_key_def and_then_Inr_iff)

lemma find_with_password_row:
  assumes "find_with_password email t d = Inr (Some (pubkey, h, v))"
  obtains u where "u \<in> set (db_users d)" "us_pubkey u = pubkey" "us_tenant_id u = t" "us_email u = Some email"
    "us_password_hash u = Some h" "us_email_verified u = Some v"
  using assms
  by (auto simp: find_with_password_def user_with_email_def and_then_Inr_iff split: option.splits
      dest!: fetch_optional_Some)

lemma password_login_sound:
  assumes "password_login W t origin email password d = (Inr (cookie, r), c)"
  obtains u h keys tok where "u \<in> set (db_users d)" "us_pubkey u = ar_pubkey r" "us_tenant_id u = t"
    "us_email u = Some email" "us_password_hash u = Some h" "us_email_verified u = Some True"
    "bcrypt_verify (lx W) password h = Inr True"
    "open_user_key W (AcInternal ''Personal keys not found'') (ar_pubkey r) t d = Inr keys"
    "generate_ucan_token W keys t email origin None = Inr tok"
    "cookie = format_session_cookie tok 86400 (secure_cookies W)"
  using assms
  by (auto simp: password_login_def session_response_def and_then_Inr_iff
      split: sum.splits option.splits prod.splits bool.splits if_splits elim!: find_with_password_row)

text \<open>
  C9. A session cookie of the login endpoint is earned. Either the request carried a verified NIP-98 event
  for this endpoint by a key with an administrator role, and the cookie is the server's token for that key
  and role; or the body names an account of the tenant with a verified address whose hash the password
  matches, and the cookie is a token signed with the stored key of that account. Nothing else of the
  state changes than the counter.
\<close>

theorem login_session_earned:
  assumes "login W clock tn rq body s = (Inr (cookie, r), s')"
  shows "s' = s\<lparr>si_logins := si_logins s + 1\<rparr>
    \<and> ((\<exists>h url role origin tok.
          header_str rq ''authorization'' = Some h \<and> starts_with h ''Nostr ''
          \<and> login_expected_url (app_url_env W) rq ''/api/auth/login'' = Inr url
          \<and> extract_and_validate (lw_auth W) clock h url ''POST'' = Inr (ar_pubkey r)
          \<and> admin_role_for (lw_auth W) (ac_redis (si_acc s)) \<lparr>ua_pubkey = ar_pubkey r, ua_admin_role = None\<rparr> = Some role
          \<and> extract_origin_from_headers rq = Inr origin
          \<and> generate_server_signed_ucan (ltoken W) (ar_pubkey r) (tn_id tn) ''admin'' origin None False (Some role) = Inr tok
          \<and> cookie = format_session_cookie tok 86400 (secure_cookies W))
       \<or> (\<exists>email password u h keys origin tok.
          login_json W body = Inr (email, password) \<and> u \<in> set (db_users (si_db s))
          \<and> us_pubkey u = ar_pubkey r \<and> us_tenant_id u = tn_id tn \<and> us_email u = Some (lower W email)
          \<and> us_email_verified u = Some True \<and> us_password_hash u = Some h
          \<and> bcrypt_verify (lx W) password h = Inr True
          \<and> open_user_key W (AcInternal ''Personal keys not found'') (ar_pubkey r) (tn_id tn) (si_db s) = Inr keys
          \<and> extract_origin_from_headers rq = Inr origin
          \<and> generate_ucan_token W keys (tn_id tn) (lower W email) origin None = Inr tok
          \<and> cookie = format_session_cookie tok 86400 (secure_cookies W)))"
proof -
  have body: ?thesis if "login_with_body W tn rq body s = (Inr (cookie, r), s')"
  proof -
    from that obtain email password origin c where l: "login_json W body = Inr (email, password)"
      and o: "extract_origin_from_headers rq = Inr origin"
      and p: "password_login W (tn_id tn) origin (lower W email) password (si_db s) = (Inr (cookie, r), c)"
      and s': "s' = s\<lparr>si_logins := si_logins s + 1\<rparr>"
      by (auto simp: login_with_body_def and_then_Inr_iff split: sum.splits prod.splits if_splits)
    from p show ?thesis by (rule password_login_sound) (use l o s' in blast)
  qed
  have admin: ?thesis if "header_str rq ''authorization'' = Some h" "starts_with h ''Nostr ''"
    "nostr_auth_login W clock (tn_id tn) rq h s = (Inr (cookie, r), s')" for h
    using that by (fastforce simp: nostr_auth_login_def session_response_def and_then_Inr_iff split: sum.splits)
  show ?thesis
    using assms body admin by (auto simp: login_def split: option.splits if_splits)
qed

section \<open>From registration to login\<close>

text \<open>An update that leaves the unique columns alone leaves the constraints alone.\<close>

definition keeps_keys :: "(user \<Rightarrow> user) \<Rightarrow> bool" where
  "keeps_keys f \<longleftrightarrow> (\<forall>u. us_pubkey (f u) = us_pubkey u \<and> us_tenant_id (f u) = us_tenant_id u
     \<and> us_email (f u) = us_email u \<and> us_username (f u) = us_username u \<and> us_vine_id (f u) = us_vine_id u)"

lemma indexed_keeps:
  "(\<And>u. us_tenant_id (f u) = us_tenant_id u \<and> col (f u) = col u) \<Longrightarrow> indexed col (update_where P f us) = indexed col us"
  by (induction us) (auto simp: indexed_def update_where_def map_filter_simps split: option.splits)

lemma users_unique_update: "keeps_keys f \<Longrightarrow> users_unique (update_where P f us) = users_unique us"
  by (simp add: users_unique_def keeps_keys_def map_update_where indexed_keeps)

lemma update_users_keeps:
  "keeps_keys f \<Longrightarrow> users_unique (db_users d) \<Longrightarrow> update_users P f d = Inr (d\<lparr>db_users := update_where P f (db_users d)\<rparr>)"
  by (simp add: update_users_def users_unique_update Let_def)

lemma keeps_keys_simps [simp]:
  "keeps_keys (\<lambda>u. u\<lparr>us_password_hash := h, us_updated_at := t\<rparr>)"
  "keeps_keys (\<lambda>u. u\<lparr>us_email_verified := v, us_updated_at := t\<rparr>)"
  "keeps_keys (with_verification_token now tok x)"
  by (simp_all add: keeps_keys_def with_verification_token_def)

text \<open>The last row of a table with its constraints is the only one with its key and its email.\<close>

lemma unique_last:
  assumes "users_unique (us @ [u])"
  shows "\<forall>v\<in>set us. us_pubkey v \<noteq> us_pubkey u"
    and "us_email u = Some e \<Longrightarrow> \<forall>v\<in>set us. \<not> user_with_email e (us_tenant_id u) v"
proof -
  show "\<forall>v\<in>set us. us_pubkey v \<noteq> us_pubkey u"
    using assms unfolding users_unique_def map_append distinct_append by (metis disjoint_iff image_eqI list.set_intros(1) list.simps(9) set_map)
  assume e: "us_email u = Some e"
  have "distinct (indexed us_email us @ indexed us_email [u])"
    using assms by (simp add: users_unique_def indexed_def List.map_filter_def)
  then have "(us_tenant_id u, e) \<notin> set (indexed us_email us)"
    using e by (simp add: indexed_def map_filter_simps)
  then show "\<forall>v\<in>set us. \<not> user_with_email e (us_tenant_id u) v"
    by (force simp: indexed_def List.map_filter_def user_with_email_def)
qed

text \<open>The row of a fresh registration.\<close>

definition registered_row :: "timestamp \<Rightarrow> pubkey \<Rightarrow> int \<Rightarrow> string \<Rightarrow> string \<Rightarrow> string option \<Rightarrow> user" where
  "registered_row now pubkey tenant_id email tok redirect_uri =
     (blank_user pubkey tenant_id now)\<lparr>us_email := Some email, us_password_hash := None,
       us_email_verified := Some False, us_email_verification_token := Some tok,
       us_email_verification_expires_at := Some (now + hours EMAIL_VERIFICATION_EXPIRY_HOURS),
       us_redirect_uri := redirect_uri\<rparr>"

lemma registered_row_simps [simp]:
  "us_pubkey (registered_row now pk t e tok r) = pk" "us_tenant_id (registered_row now pk t e tok r) = t"
  "us_email (registered_row now pk t e tok r) = Some e"
  "us_password_hash (registered_row now pk t e tok r) = None"
  "us_email_verified (registered_row now pk t e tok r) = Some False"
  "us_email_verification_token (registered_row now pk t e tok r) = Some tok"
  "us_email_verification_expires_at (registered_row now pk t e tok r) = Some (now + hours EMAIL_VERIFICATION_EXPIRY_HOURS)"
  "us_email_verification_sent_at (registered_row now pk t e tok r) = None"
  "us_vine_id (registered_row now pk t e tok r) = None"
  "us_created_at (registered_row now pk t e tok r) = now" "us_redirect_uri (registered_row now pk t e tok r) = r"
  by (simp_all add: registered_row_def blank_user_def)

lemma register_registers:
  assumes "register W now D tn rq q s0 = (Inr r, s1)"
  obtains keys encrypted where "public_key (lx W) keys = ar_pubkey r" "km_encrypt (lx W) keys = Inr encrypted"
    "si_db s1 = (si_db s0)
       \<lparr>db_users := db_users (si_db s0) @ [registered_row now (ar_pubkey r) (tn_id tn) (lower W (rg_email q)) (ad_token D)
                                            (accepted_redirect (rg_redirect_uri q))],
        db_personal_keys := db_personal_keys (si_db s0) @
          [\<lparr>pk_user_pubkey = ar_pubkey r, pk_encrypted_secret_key = encrypted, pk_tenant_id = tn_id tn\<rparr>]\<rparr>"
    "users_unique (db_users (si_db s1))"
    "ch_messages (si_queue s1) = ch_messages (si_queue s0) @ [\<lparr>bj_token = ad_token D, bj_password = rg_password q\<rparr>]"
proof -
  from assms obtain s where a: "allow_route W now ''register'' (tn_id tn) rq (Some (lower W (rg_email q))) s0 = (True, s)"
    by (auto simp: register_def Let_def split: prod.splits bool.splits)
  note frame = allow_route_frame [OF a]
  from assms a frame obtain keys encrypted d q1 where k: "public_key (lx W) keys = ar_pubkey r"
    "km_encrypt (lx W) keys = Inr encrypted"
    "register_with_personal_key now (ar_pubkey r) (tn_id tn) (lower W (rg_email q)) None (ad_token D)
       (now + hours EMAIL_VERIFICATION_EXPIRY_HOURS) encrypted (accepted_redirect (rg_redirect_uri q)) (si_db s0) = Inr d"
    "try_send_job \<lparr>bj_token = ad_token D, bj_password = rg_password q\<rparr> (si_queue s0) = (Inr (), q1)"
    "si_db s1 = d" "si_queue s1 = q1"
    by (auto simp: register_def Let_def and_then_Inr_iff split: sum.splits prod.splits)
  have "d = (si_db s0)
       \<lparr>db_users := db_users (si_db s0) @ [registered_row now (ar_pubkey r) (tn_id tn) (lower W (rg_email q)) (ad_token D)
                                            (accepted_redirect (rg_redirect_uri q))],
        db_personal_keys := db_personal_keys (si_db s0) @
          [\<lparr>pk_user_pubkey = ar_pubkey r, pk_encrypted_secret_key = encrypted, pk_tenant_id = tn_id tn\<rparr>]\<rparr>"
    "users_unique (db_users d)"
    using k(3) by (auto simp: register_with_personal_key_def registered_row_def insert_user_def personal_keys_create_def
        and_then_Inr_iff split: if_splits)
  with k try_send_job_sent [OF k(4)] that show thesis by simp
qed

text \<open>Work on the jobs of others leaves a waiting registration as it is.\<close>

definition awaiting :: "string \<Rightarrow> user \<Rightarrow> 'j db \<Rightarrow> 'j db \<Rightarrow> bool" where
  "awaiting tok u d0 d \<longleftrightarrow>
     (\<exists>us. d = d0\<lparr>db_users := us @ [u]\<rparr> \<and> (\<forall>v\<in>set us. \<not> has_token tok v) \<and> users_unique (us @ [u]))"

lemma worker_turn_other:
  assumes "awaiting tok u d0 d" and "has_token tok u" and "ch_messages q = job # rest" and "bj_token job \<noteq> tok"
    and "bcrypt_worker_turn H t salt q d = (b, q1, d1)"
  shows "awaiting tok u d0 d1 \<and> ch_messages q1 = rest"
proof -
  from assms(1) obtain us where us: "d = d0\<lparr>db_users := us @ [u]\<rparr>" "\<forall>v\<in>set us. \<not> has_token tok v" "users_unique (us @ [u])"
    by (auto simp: awaiting_def)
  let ?P = "has_token (bj_token job)"
  have u: "\<not> ?P u" using assms(2,4) by (simp add: has_token_def)
  have "awaiting tok u d0 (d\<lparr>db_users := update_where ?P (\<lambda>u. u\<lparr>us_password_hash := Some h, us_updated_at := t\<rparr>) (db_users d)\<rparr>)" for h
  proof -
    let ?f = "\<lambda>u. u\<lparr>us_password_hash := Some h, us_updated_at := t\<rparr>"
    have "update_where ?P ?f (us @ [u]) = update_where ?P ?f us @ [u]" using u by (simp add: update_where_def)
    moreover have "\<forall>v\<in>set (update_where ?P ?f us). \<not> has_token tok v" using us(2) by (auto simp: update_where_def has_token_def)
    moreover have "users_unique (update_where ?P ?f (us @ [u]))" using us(3) by (simp add: users_unique_update)
    ultimately show ?thesis using us(1) by (auto simp: awaiting_def)
  qed
  then show ?thesis
    using assms(1,3,5) us(1,3)
    by (auto simp: bcrypt_worker_turn_def update_users_keeps Let_def split: sum.splits)
qed

lemma worker_turn_own:
  assumes "awaiting tok u d0 d" and "has_token tok u" and "ch_messages q = job # rest" and "bj_token job = tok"
    and "bcrypt_worker_turn H t salt q d = (b, q1, d1)" and "H salt (bj_password job) = Inr h"
  shows "awaiting tok (u\<lparr>us_password_hash := Some h, us_updated_at := t\<rparr>) d0 d1"
proof -
  from assms(1) obtain us where us: "d = d0\<lparr>db_users := us @ [u]\<rparr>" "\<forall>v\<in>set us. \<not> has_token tok v" "users_unique (us @ [u])"
    by (auto simp: awaiting_def)
  let ?f = "\<lambda>u. u\<lparr>us_password_hash := Some h, us_updated_at := t\<rparr>"
  have w: "update_where (has_token tok) ?f (us @ [u]) = us @ [?f u]" using us(2) assms(2) by (rule update_where_last)
  have "users_unique (us @ [?f u])" using us(3) by (simp add: users_unique_update flip: w)
  then show ?thesis
    using assms(3-6) us w by (auto simp: awaiting_def bcrypt_worker_turn_def update_users_keeps Let_def)
qed

text \<open>Enough turns hash the password of a waiting registration.\<close>

lemma bcrypt_work_drained:
  assumes "awaiting tok u d0 d" and "has_token tok u" and "ch_messages q = []"
  shows "bcrypt_work H t salts q d = (q, d)"
  using assms(3) by (induction salts) (auto simp: bcrypt_worker_turn_def)

lemma bcrypt_work_own:
  assumes "awaiting tok u d0 d" and "has_token tok u"
    and "ch_messages q = js @ [job]" and "bj_token job = tok" and "\<forall>j\<in>set js. bj_token j \<noteq> tok"
    and "length js < length salts" and "\<forall>salt. \<exists>h. H salt (bj_password job) = Inr h"
    and "bcrypt_work H t salts q d = (q', d')"
  shows "\<exists>salt h. H salt (bj_password job) = Inr h \<and> awaiting tok (u\<lparr>us_password_hash := Some h, us_updated_at := t\<rparr>) d0 d'"
  using assms
proof (induction js arbitrary: salts q d)
  case Nil
  then obtain salt rest where s: "salts = salt # rest" by (cases salts) auto
  obtain b q1 d1 where w: "bcrypt_worker_turn H t salt q d = (b, q1, d1)" by (cases "bcrypt_worker_turn H t salt q d") auto
  obtain h where h: "H salt (bj_password job) = Inr h" using Nil.prems(7) by blast
  have a: "awaiting tok (u\<lparr>us_password_hash := Some h, us_updated_at := t\<rparr>) d0 d1"
    using worker_turn_own [OF Nil.prems(1,2) _ Nil.prems(4) w h] Nil.prems(3) by simp
  have "ch_messages q1 = []" using w Nil.prems(3) h by (auto simp: bcrypt_worker_turn_def Let_def split: sum.splits)
  moreover have "has_token tok (u\<lparr>us_password_hash := Some h, us_updated_at := t\<rparr>)" using Nil.prems(2) by (simp add: has_token_def)
  ultimately have "d' = d1" using bcrypt_work_drained [OF a] Nil.prems(8) s w by simp
  then show ?case using a h by blast
next
  case (Cons j js)
  then obtain salt rest where s: "salts = salt # rest" by (cases salts) auto
  obtain b q1 d1 where w: "bcrypt_worker_turn H t salt q d = (b, q1, d1)" by (cases "bcrypt_worker_turn H t salt q d") auto
  have "awaiting tok u d0 d1 \<and> ch_messages q1 = js @ [job]"
    using worker_turn_other [OF Cons.prems(1,2) _ _ w] Cons.prems(3,5) by simp
  with Cons s w show ?case by (intro Cons.IH) auto
qed

text \<open>What the code relies on of its key service and of the token crate.\<close>

definition keys_reopen :: "'j ext \<Rightarrow> bool" where
  "keys_reopen X \<longleftrightarrow> (\<forall>k c. km_encrypt X k = Inr c \<longrightarrow> km_decrypt X c = Inr k \<and> sk_from_slice X k = Inr k)"

definition always_signs :: "'j login_world \<Rightarrow> bool" where
  "always_signs W \<longleftrightarrow> (\<forall>keys did life facts relays. \<exists>tok. user_ucan W keys did life facts relays = Inr tok)"

lemma always_signs_token: "always_signs W \<Longrightarrow> \<exists>tok. generate_ucan_token W keys t e origin relays = Inr tok"
  by (simp add: generate_ucan_token_def always_signs_def)

text \<open>The stored key of the last user opens.\<close>

lemma open_last_key:
  assumes "keys_reopen (lx W)" and "km_encrypt (lx W) keys = Inr encrypted"
    and "db_users d = us @ [u]" and "us_pubkey u = pk" and "us_tenant_id u = t"
    and "db_personal_keys d = ks @ [\<lparr>pk_user_pubkey = pk, pk_encrypted_secret_key = encrypted, pk_tenant_id = t'\<rparr>]"
    and "\<forall>k\<in>set ks. pk_user_pubkey k \<noteq> pk"
  shows "open_user_key W missing pk t d = Inr keys"
proof -
  have "find_encrypted_key_for_tenant d pk t = Some encrypted"
    unfolding find_encrypted_key_for_tenant_def assms(6)
    by (subst fetch_optional_last) (use assms(3-5,7) in \<open>auto simp: exists_row_iff\<close>)
  then show ?thesis using assms(1,2) by (simp add: open_user_key_def keys_reopen_def)
qed

text \<open>The state after the password was hashed: a registration whose link can be followed.\<close>

definition verifiable :: "'j login_world \<Rightarrow> string \<Rightarrow> user \<Rightarrow> 'j db \<Rightarrow> bool" where
  "verifiable W tok u d \<longleftrightarrow>
     (\<exists>us ks keys encrypted t'. db_users d = us @ [u] \<and> (\<forall>v\<in>set us. \<not> has_token tok v) \<and> users_unique (us @ [u])
        \<and> db_personal_keys d = ks @ [\<lparr>pk_user_pubkey = us_pubkey u, pk_encrypted_secret_key = encrypted, pk_tenant_id = t'\<rparr>]
        \<and> (\<forall>k\<in>set ks. pk_user_pubkey k \<noteq> us_pubkey u) \<and> km_encrypt (lx W) keys = Inr encrypted)
     \<and> (\<forall>c\<in>set (db_oauth_codes d). oc_pending_email_verification_token c \<noteq> Some tok)"

lemma verifiable_open:
  assumes "verifiable W tok u d" and "keys_reopen (lx W)"
  shows "\<exists>keys. open_user_key W missing (us_pubkey u) (us_tenant_id u) d = Inr keys"
  using assms open_last_key [where W = W and d = d] by (fastforce simp: verifiable_def)

lemma verifiable_update:
  assumes "verifiable W tok u d" and "keeps_keys f" and "has_token tok (f u) = has_token tok u"
  shows "update_users (user_at (us_pubkey u) (us_tenant_id u)) f d
           = Inr (d\<lparr>db_users := butlast (db_users d) @ [f u]\<rparr>)"
    and "verifiable W tok (f u) (d\<lparr>db_users := butlast (db_users d) @ [f u]\<rparr>)"
proof -
  let ?P = "user_at (us_pubkey u) (us_tenant_id u)"
  from assms(1) obtain us where us: "db_users d = us @ [u]" "users_unique (us @ [u])" by (auto simp: verifiable_def)
  have w: "update_where ?P f (us @ [u]) = us @ [f u]"
    using unique_last(1) [OF us(2)] by (intro update_where_last) (auto simp: user_at_def)
  then show "update_users ?P f d = Inr (d\<lparr>db_users := butlast (db_users d) @ [f u]\<rparr>)"
    using us assms(2) by (simp add: update_users_keeps)
  have "users_unique (us @ [f u])" using us(2) assms(2) by (simp add: users_unique_update flip: w)
  then show "verifiable W tok (f u) (d\<lparr>db_users := butlast (db_users d) @ [f u]\<rparr>)"
    using assms us by (auto simp: verifiable_def keeps_keys_def)
qed

lemma verify_email_follows:
  assumes v: "verifiable W tok u (si_db s)" and "keys_reopen (lx W)" and "always_signs W"
    and u: "us_tenant_id u = tn_id tn" "has_token tok u" "us_email_verified u = Some False"
      "us_password_hash u = Some h" "us_email u = Some e"
      "us_email_verification_expires_at u = Some expires" "now \<le> expires"
  shows "\<exists>cookie r s'. verify_email_endpoint W now D tn rq tok s = (Inr (Some cookie, r), s') \<and> ve_success r
           \<and> verifiable W tok (u\<lparr>us_email_verified := Some True, us_updated_at := now\<rparr>) (si_db s')"
proof -
  let ?f = "\<lambda>u. u\<lparr>us_email_verified := Some True, us_updated_at := now\<rparr>"
  let ?d = "(si_db s)\<lparr>db_users := butlast (db_users (si_db s)) @ [?f u]\<rparr>"
  from v obtain us where us: "db_users (si_db s) = us @ [u]" "\<forall>v\<in>set us. \<not> has_token tok v" "users_unique (us @ [u])"
    and c: "find_by_verification_token now tok (tn_id tn) (si_db s) = None"
    by (auto simp: verifiable_def find_by_verification_token_def fetch_optional_None)
  have t: "has_token tok (?f u) = has_token tok u" by (simp add: has_token_def)
  have v': "verifiable W tok (?f u) ?d" using v by (rule verifiable_update) (simp_all add: t)
  have upd: "Users.verify_email now (us_pubkey u) (tn_id tn) (si_db s) = Inr ?d"
    unfolding Users.verify_email_def using verifiable_update(1) [OF v, of ?f] t u(1) by simp
  have f: "user_find_by_verification_token tok (tn_id tn) (si_db s)
      = Inr (Some \<lparr>vt_pubkey = us_pubkey u, vt_email_verification_expires_at = us_email_verification_expires_at u,
                   vt_password_hash = us_password_hash u, vt_created_at = us_created_at u, vt_email_verified = False,
                   vt_redirect_uri = us_redirect_uri u\<rparr>)"
    unfolding user_find_by_verification_token_def us(1)
    by (subst fetch_optional_last) (use us(2) u in \<open>auto simp: has_token_def\<close>)
  have e: "get_email (us_pubkey u) (tn_id tn) ?d = Inr e"
    unfolding get_email_def fetch_one_def
    by (simp add: us(1), subst fetch_optional_last) (use unique_last(1) [OF us(3)] u in auto)
  obtain keys where k: "open_user_key W (AcInternal ''Personal keys not found'') (us_pubkey u) (tn_id tn) ?d = Inr keys"
    using verifiable_open [OF v' assms(2)] u(1) by auto
  obtain tok' where "generate_ucan_token W keys (tn_id tn) e (verification_origin W rq) None = Inr tok'"
    using always_signs_token [OF assms(3)] by blast
  then show ?thesis
    using c f e k upd u v'
    by (auto simp: verify_email_endpoint_def verify_registration_def first_session_def verify_note_def Let_def)
qed

lemma login_follows:
  assumes v: "verifiable W tok u (si_db s)" and "keys_reopen (lx W)" and "always_signs W"
    and u: "us_tenant_id u = tn_id tn" "us_email_verified u = Some True" "us_password_hash u = Some h"
      "us_email u = Some (lower W email)" "bcrypt_verify (lx W) password h = Inr True"
    and rq: "header_str rq ''authorization'' = None" "header_str rq ''origin'' = Some origin"
      "login_json W body = Inr (email, password)"
  shows "\<exists>cookie s'. login W clock tn rq body s
           = (Inr (cookie, \<lparr>ar_pubkey = us_pubkey u, ar_verification_required = None, ar_email = None\<rparr>), s')"
proof -
  from v obtain us where us: "db_users (si_db s) = us @ [u]" "users_unique (us @ [u])" by (auto simp: verifiable_def)
  have f: "find_with_password (lower W email) (tn_id tn) (si_db s) = Inr (Some (us_pubkey u, h, True))"
    unfolding find_with_password_def us(1)
    by (subst fetch_optional_last)
      (use unique_last(2) [OF us(2) u(4)] u in \<open>auto simp: user_with_email_def\<close>)
  obtain keys where k: "open_user_key W (AcInternal ''Personal keys not found'') (us_pubkey u) (tn_id tn) (si_db s) = Inr keys"
    using verifiable_open [OF v assms(2)] u(1) by auto
  obtain tok' where "generate_ucan_token W keys (tn_id tn) (lower W email) origin None = Inr tok'"
    using always_signs_token [OF assms(3)] by blast
  then show ?thesis
    using f k rq u
    by (simp add: login_def login_with_body_def password_login_def extract_origin_from_headers_def session_response_def)
qed

lemma register_awaits:
  assumes reg: "register W t0 D tn rq q s0 = (Inr r, s1)"
    and ok: "users_unique (db_users (si_db s0))" and fresh: "\<forall>u\<in>set (db_users (si_db s0)). \<not> has_token (ad_token D) u"
  shows "awaiting (ad_token D) (registered_row t0 (ar_pubkey r) (tn_id tn) (lower W (rg_email q)) (ad_token D)
           (accepted_redirect (rg_redirect_uri q))) (si_db s1) (si_db s1)"
proof -
  from register_registers [OF reg] obtain keys encrypted where 1: "si_db s1 = (si_db s0)
       \<lparr>db_users := db_users (si_db s0) @ [registered_row t0 (ar_pubkey r) (tn_id tn) (lower W (rg_email q)) (ad_token D)
                                            (accepted_redirect (rg_redirect_uri q))],
        db_personal_keys := db_personal_keys (si_db s0) @
          [\<lparr>pk_user_pubkey = ar_pubkey r, pk_encrypted_secret_key = encrypted, pk_tenant_id = tn_id tn\<rparr>]\<rparr>"
    and 2: "users_unique (db_users (si_db s1))" by metis
  show ?thesis
    unfolding awaiting_def using 2 fresh by (intro exI [of _ "db_users (si_db s0)"]) (auto simp: 1)
qed

text \<open>A waiting registration whose password was hashed can be verified.\<close>

lemma hashed_verifiable:
  assumes "awaiting tok u d0 d" and "us_pubkey u = pk"
    and "db_personal_keys d0 = ks @ [\<lparr>pk_user_pubkey = pk, pk_encrypted_secret_key = encrypted, pk_tenant_id = t\<rparr>]"
    and "\<forall>k\<in>set ks. pk_user_pubkey k \<noteq> pk" and "km_encrypt (lx W) keys = Inr encrypted"
    and "\<forall>c\<in>set (db_oauth_codes d0). oc_pending_email_verification_token c \<noteq> Some tok"
  shows "verifiable W tok u d"
  using assms by (auto simp: awaiting_def verifiable_def)

text \<open>
  C10. A registration leads to a login. When a registration succeeded with a token nobody else has, enough
  turns of the password workers to empty the queue (whatever else is in it), the link followed within a
  day and a login with the same address and password end in a session for the registered key: nothing in
  between gets stuck. Assumed are the promises of bcrypt, of the key service and of the token crate.
\<close>

theorem registration_leads_to_login:
  assumes reg: "register W t0 D tn rq q s0 = (Inr r, s1)"
    and ok: "account_tables_ok (ac_store (si_acc s0))"
    and fresh: "\<forall>u\<in>set (db_users (si_db s0)). \<not> has_token (ad_token D) u"
      "\<forall>c\<in>set (db_oauth_codes (si_db s0)). oc_pending_email_verification_token c \<noteq> Some (ad_token D)"
      "\<forall>j\<in>set (ch_messages (si_queue s0)). bj_token j \<noteq> ad_token D"
    and crates: "bcrypt_ok (bcrypt_hash W) (bcrypt_verify (lx W))" "keys_reopen (lx W)" "always_signs W"
      "\<forall>salt. \<exists>h. bcrypt_hash W salt (rg_password q) = Inr h"
    and work: "length (ch_messages (si_queue s0)) < length salts"
      "bcrypt_work (bcrypt_hash W) t1 salts (si_queue s1) (si_db s1) = (q2, d2)"
    and soon: "t2 \<le> t0 + hours EMAIL_VERIFICATION_EXPIRY_HOURS"
    and rq3: "header_str rq3 ''authorization'' = None" "header_str rq3 ''origin'' = Some origin"
      "login_json W body = Inr (email, rg_password q)" "lower W email = lower W (rg_email q)"
  shows "\<exists>cookie v s3 cookie' s4.
     verify_email_endpoint W t2 D2 tn rq2 (ad_token D) (put_si_db d2 (s1\<lparr>si_queue := q2\<rparr>)) = (Inr (Some cookie, v), s3)
     \<and> ve_success v
     \<and> login W clock tn rq3 body s3
         = (Inr (cookie', \<lparr>ar_pubkey = ar_pubkey r, ar_verification_required = None, ar_email = None\<rparr>), s4)"
proof -
  let ?u = "registered_row t0 (ar_pubkey r) (tn_id tn) (lower W (rg_email q)) (ad_token D) (accepted_redirect (rg_redirect_uri q))"
  have users: "users_unique (db_users (si_db s0))"
    and ref: "pk_user_pubkey ` set (db_personal_keys (si_db s0)) \<subseteq> us_pubkey ` set (db_users (si_db s0))"
    using ok by (auto simp: account_tables_ok_def users_referenced_def ac_store_def si_db_def Let_def)
  from register_registers [OF reg] obtain keys encrypted where k: "km_encrypt (lx W) keys = Inr encrypted"
    and d1: "si_db s1 = (si_db s0)\<lparr>db_users := db_users (si_db s0) @ [?u],
        db_personal_keys := db_personal_keys (si_db s0) @
          [\<lparr>pk_user_pubkey = ar_pubkey r, pk_encrypted_secret_key = encrypted, pk_tenant_id = tn_id tn\<rparr>]\<rparr>"
    and u1: "users_unique (db_users (si_db s1))"
    and q1: "ch_messages (si_queue s1) = ch_messages (si_queue s0) @ [\<lparr>bj_token = ad_token D, bj_password = rg_password q\<rparr>]"
    by metis
  have tok: "has_token (ad_token D) ?u" by (simp add: has_token_def)
  obtain salt h where h: "bcrypt_hash W salt (rg_password q) = Inr h"
    and a: "awaiting (ad_token D) (?u\<lparr>us_password_hash := Some h, us_updated_at := t1\<rparr>) (si_db s1) d2"
    using bcrypt_work_own [OF register_awaits [OF reg users fresh(1)] tok q1 _ _ _ _ work(2)] fresh(3) crates(4) work(1)
    by auto
  let ?v = "?u\<lparr>us_password_hash := Some h, us_updated_at := t1\<rparr>"
  let ?s = "put_si_db d2 (s1\<lparr>si_queue := q2\<rparr>)"
  have "us_pubkey ?u \<notin> us_pubkey ` set (db_users (si_db s0))"
    using unique_last(1) [of "db_users (si_db s0)" ?u] u1 d1 by auto
  then have own: "\<forall>k\<in>set (db_personal_keys (si_db s0)). pk_user_pubkey k \<noteq> ar_pubkey r"
    using ref by (metis image_eqI registered_row_simps(1) subsetD)
  have "verifiable W (ad_token D) ?v (si_db ?s)"
    using hashed_verifiable [OF a _ _ own k] fresh(2) by (simp add: d1)
  from verify_email_follows [OF this crates(2,3), where tn = tn and now = t2] soon tok obtain cookie v s3 where
    1: "verify_email_endpoint W t2 D2 tn rq2 (ad_token D) ?s = (Inr (Some cookie, v), s3)" "ve_success v"
    and 2: "verifiable W (ad_token D) (?v\<lparr>us_email_verified := Some True, us_updated_at := t2\<rparr>) (si_db s3)"
    by (fastforce simp: has_token_def)
  have "bcrypt_verify (lx W) (rg_password q) h = Inr True" using crates(1) h by (auto simp: bcrypt_ok_def)
  with login_follows [OF 2 crates(2,3) _ _ _ _ _ rq3(1-3)] rq3(4) 1 show ?thesis by fastforce
qed

section \<open>A concrete site\<close>

definition LW0 :: "jv login_world" where
  "LW0 =
     \<lparr>lw_acc = account_world.truncate CW0, lw_auth = A0, lower = id, email_digest = id, parse_ip = Some, parse_u64 = (\<lambda>_. None),
      ip_limit_env = None, bcrypt_hash = (\<lambda>salt pw. Inr pw), user_ucan = (\<lambda>_ _ _ _ _. Inr ''session''),
      login_json = (\<lambda>_. Inr (''a@b.c'', ''secret'')), app_url_env = None, allowed_origins_env = None, secure_cookies = True,
      npub_of = Inr, nsec_of = (\<lambda>_. Inr ''nsec''), hex_encode = (\<lambda>_. ''nsec1alice''), json_strings = (\<lambda>_. ''[]''),
      created_text = (\<lambda>_. []), unicode_alphanumeric = (\<lambda>_. True)\<rparr>"

definition sample_draws :: "string \<Rightarrow> seckey \<Rightarrow> account_draws" where
  "sample_draws tok keys =
     \<lparr>ad_token = tok, ad_keys = keys, ad_salt = [], ad_code = ''newcode'', ad_pair = Some (''secret'', ''hash''),
      ad_mail = True, ad_channel = True, ad_redis = True, ad_setex = True\<rparr>"

definition site_of :: "jv db \<Rightarrow> jv site" where
  "site_of d =
     \<lparr>si_acc = sample_accounts\<lparr>ac_server := (ac_server sample_accounts)\<lparr>sv_db := d\<rparr>\<rparr>, si_queue = bcrypt_queue_new,
      si_polls = (\<lambda>_. None), si_mail = [], si_registrations = 0, si_logins = 0, si_login_failures = 0\<rparr>"

definition web_parts :: "(string \<times> string) list \<Rightarrow> parts" where
  "web_parts headers =
     \<lparr>rq_method = ''POST'', rq_path = ''/'', rq_uri_host = None, rq_original = ''/'', rq_header = map_of headers\<rparr>"

definition sample_registration :: register_request where
  "sample_registration = \<lparr>rg_email = ''a@b.c'', rg_password = ''secret'', rg_nsec = None, rg_redirect_uri = None\<rparr>"

abbreviation registered :: "(account_error + auth_response) \<times> jv site" where
  "registered \<equiv> register LW0 10 (sample_draws ''verification'' [1]) customer_tenant (web_parts []) sample_registration (site_of empty_db)"

lemma sample_crates:
  "bcrypt_ok (bcrypt_hash LW0) (bcrypt_verify (lx LW0))" "keys_reopen (lx LW0)" "always_signs LW0"
  by (simp_all add: bcrypt_ok_def keys_reopen_def always_signs_def LW0_def CW0_def CT0_def W0_def Y0_def X0_def
      sample_ext_def sample_http_def account_world.defs)

lemma registered_result: "fst registered = Inr \<lparr>ar_pubkey = ''alice'', ar_verification_required = Some True, ar_email = Some ''a@b.c''\<rparr>"
  by code_simp

lemma registered_pair: "registered = (Inr \<lparr>ar_pubkey = ''alice'', ar_verification_required = Some True, ar_email = Some ''a@b.c''\<rparr>, snd registered)"
  by (simp add: registered_result prod_eq_iff)

lemma site_of_simps [simp]: "si_db (site_of d) = d" "si_queue (site_of d) = bcrypt_queue_new"
  by (simp_all add: site_of_def si_db_def ac_db_def)

lemma sample_store_empty: "account_tables_ok (ac_store (si_acc (site_of empty_db)))"
  by (simp add: account_tables_ok_def users_referenced_def users_unique_def indexed_def map_filter_simps ac_store_def
      ac_db_def site_of_def sample_accounts_def empty_db_def)

theorem registration_leads_to_login_witness:
  "\<exists>q2 d2 cookie v s3 cookie' s4.
     bcrypt_work (bcrypt_hash LW0) 20 [''salt''] (si_queue (snd registered)) (si_db (snd registered)) = (q2, d2)
     \<and> verify_email_endpoint LW0 30 (sample_draws [] []) customer_tenant (web_parts []) ''verification''
         (put_si_db d2 ((snd registered)\<lparr>si_queue := q2\<rparr>)) = (Inr (Some cookie, v), s3)
     \<and> ve_success v
     \<and> login LW0 0 customer_tenant (web_parts [(''origin'', ''https://app'')]) [] s3
         = (Inr (cookie', \<lparr>ar_pubkey = ''alice'', ar_verification_required = None, ar_email = None\<rparr>), s4)"
proof -
  obtain q2 d2 where w: "bcrypt_work (bcrypt_hash LW0) 20 [''salt''] (si_queue (snd registered)) (si_db (snd registered)) = (q2, d2)"
    by (cases "bcrypt_work (bcrypt_hash LW0) 20 [''salt''] (si_queue (snd registered)) (si_db (snd registered))")
  have h: "header_str (web_parts [(''origin'', ''https://app'')]) ''authorization'' = None"
    "header_str (web_parts [(''origin'', ''https://app'')]) ''origin'' = Some ''https://app''" by code_simp+
  have hashes: "\<forall>salt. \<exists>x. bcrypt_hash LW0 salt (rg_password sample_registration) = Inr x" by (simp add: LW0_def)
  have soon: "(30::timestamp) \<le> 10 + hours EMAIL_VERIFICATION_EXPIRY_HOURS" by code_simp
  have body: "login_json LW0 [] = Inr (''a@b.c'', rg_password sample_registration)"
    "lower LW0 ''a@b.c'' = lower LW0 (rg_email sample_registration)" by (simp_all add: LW0_def sample_registration_def)
  have empty: "db_users empty_db = []" "db_oauth_codes empty_db = []" "ch_messages bcrypt_queue_new = []" by (simp_all add: empty_db_def bcrypt_queue_new_def bounded_def)
  from registration_leads_to_login [OF registered_pair sample_store_empty _ _ _ sample_crates hashes _ w soon h body,
      where ?D2.0 = "sample_draws [] []" and ?rq2.0 = "web_parts []" and clock = 0]
  have "\<exists>cookie v s3 cookie' s4.
     verify_email_endpoint LW0 30 (sample_draws [] []) customer_tenant (web_parts []) (ad_token (sample_draws ''verification'' [1]))
         (put_si_db d2 ((snd registered)\<lparr>si_queue := q2\<rparr>)) = (Inr (Some cookie, v), s3)
     \<and> ve_success v
     \<and> login LW0 0 customer_tenant (web_parts [(''origin'', ''https://app'')]) [] s3
         = (Inr (cookie', \<lparr>ar_pubkey = ''alice'', ar_verification_required = None, ar_email = None\<rparr>), s4)"
    by (simp add: empty)
  moreover have "ad_token (sample_draws ''verification'' [1]) = ''verification''" by (simp add: sample_draws_def)
  ultimately show ?thesis using w by auto
qed

definition verified_site :: "jv site" where
  "verified_site =
     site_of (empty_db\<lparr>db_users := [(blank_user ''alice'' 1 0)\<lparr>us_email := Some ''a@b.c'', us_email_verified := Some True,
                                                              us_password_hash := Some ''secret''\<rparr>],
       db_personal_keys := [\<lparr>pk_user_pubkey = ''alice'', pk_encrypted_secret_key = [1], pk_tenant_id = 1\<rparr>]\<rparr>)"

lemma verified_site_verifiable:
  "verifiable LW0 [] ((blank_user ''alice'' 1 0)\<lparr>us_email := Some ''a@b.c'', us_email_verified := Some True,
     us_password_hash := Some ''secret''\<rparr>) (si_db verified_site)"
  by (simp add: verifiable_def verified_site_def users_unique_def indexed_def map_filter_simps empty_db_def LW0_def CW0_def
      CT0_def W0_def Y0_def X0_def sample_ext_def sample_http_def account_world.defs blank_user_def)

theorem login_session_earned_witness:
  "\<exists>cookie r s'. login LW0 0 customer_tenant (web_parts [(''origin'', ''https://app'')]) [] verified_site = (Inr (cookie, r), s')
     \<and> ar_pubkey r = ''alice'' \<and> s' = verified_site\<lparr>si_logins := si_logins verified_site + 1\<rparr>"
proof -
  have h: "header_str (web_parts [(''origin'', ''https://app'')]) ''authorization'' = None"
    "header_str (web_parts [(''origin'', ''https://app'')]) ''origin'' = Some ''https://app''" by code_simp+
  have b: "login_json LW0 [] = Inr (''a@b.c'', ''secret'')" "lower LW0 ''a@b.c'' = ''a@b.c''" by (simp_all add: LW0_def)
  have v: "bcrypt_verify (lx LW0) ''secret'' ''secret'' = Inr True" by code_simp
  obtain cookie s' where l: "login LW0 0 customer_tenant (web_parts [(''origin'', ''https://app'')]) [] verified_site
     = (Inr (cookie, \<lparr>ar_pubkey = ''alice'', ar_verification_required = None, ar_email = None\<rparr>), s')"
    using login_follows [OF verified_site_verifiable sample_crates(2,3) _ _ _ _ v h b(1), of customer_tenant 0] b(2)
    by (auto simp: customer_tenant_def blank_user_def)
  from login_session_earned [OF this] l show ?thesis by simp
qed

section \<open>A verification mail that costs the password\<close>

lemma bcrypt_work_others:
  assumes "awaiting tok u d0 d" and "has_token tok u" and "\<forall>j\<in>set (ch_messages q). bj_token j \<noteq> tok"
    and "bcrypt_work H t salts q d = (q', d')"
  shows "awaiting tok u d0 d'"
  using assms
proof (induction salts arbitrary: q d)
  case (Cons salt salts)
  obtain b q1 d1 where w: "bcrypt_worker_turn H t salt q d = (b, q1, d1)" by (cases "bcrypt_worker_turn H t salt q d") auto
  show ?case
  proof (cases "ch_messages q")
    case Nil
    with bcrypt_work_drained [OF Cons.prems(1,2) Nil, of H t "salt # salts"] Cons.prems(1,4)
    show ?thesis by (simp del: bcrypt_work.simps)
  next
    case (Cons job rest)
    with \<open>\<forall>j\<in>set (ch_messages q). bj_token j \<noteq> tok\<close> have o: "bj_token job \<noteq> tok" "\<forall>j\<in>set rest. bj_token j \<noteq> tok" by auto
    from worker_turn_other [OF \<open>awaiting tok u d0 d\<close> \<open>has_token tok u\<close> Cons o(1) w]
    show ?thesis using Cons.IH [of d1 q1] o(2) Cons.prems(2,4) w by simp
  qed
qed simp

text \<open>Asking again right after the registration replaces the token of the row: nothing was sent yet.\<close>

lemma resend_replaces_token:
  assumes a: "awaiting tok u d0 (si_db s)" and u: "us_tenant_id u = tn_id tn" "us_email u = Some (lower W email)"
      "us_email_verified u = Some False" "us_email_verification_sent_at u = None"
    and r: "resend_verification W t1 D tn rq (Some email) s = (Inr m, s')"
    and nobody: "extract_user_from_token (lhttp W) t1 rq (tn_id tn) = Inl e"
    and fresh: "\<forall>v\<in>set (db_users (si_db s)). \<not> has_token (ad_token D) v"
  shows "awaiting (ad_token D) (with_verification_token t1 (ad_token D) (t1 + hours EMAIL_VERIFICATION_EXPIRY_HOURS) u)
           (si_db s) (si_db s')"
    and "si_queue s' = si_queue s"
proof -
  let ?f = "with_verification_token t1 (ad_token D) (t1 + hours EMAIL_VERIFICATION_EXPIRY_HOURS)"
  from a obtain us where us: "db_users (si_db s) = us @ [u]" "users_unique (us @ [u])"
    by (auto simp: awaiting_def)
  from r obtain s1 where al: "allow_route W t1 ''resend_verification'' (tn_id tn) rq (Some email) s = (True, s1)"
    and s': "s' = send_verification_again W t1 D (tn_id tn) rq (Some email) s1"
    by (auto simp: resend_verification_def split: prod.splits bool.splits)
  note frame = allow_route_frame [OF al]
  have st: "get_verification_status_by_email (lower W email) (tn_id tn) (si_db s) = Inr (Some (us_pubkey u, False, None))"
    unfolding get_verification_status_by_email_def us(1)
    by (subst fetch_optional_last) (use unique_last(2) [OF us(2) u(2)] u in \<open>auto simp: user_with_email_def\<close>)
  have w: "update_where (user_at (us_pubkey u) (tn_id tn)) ?f (us @ [u]) = us @ [?f u]"
    using unique_last(1) [OF us(2)] u(1) by (intro update_where_last) (auto simp: user_at_def)
  have "set_verification_token t1 (us_pubkey u) (tn_id tn) (ad_token D) (t1 + hours EMAIL_VERIFICATION_EXPIRY_HOURS) (si_db s)
      = Inr ((si_db s)\<lparr>db_users := us @ [?f u]\<rparr>)"
    using us w by (simp add: set_verification_token_def update_users_keeps)
  then have d: "si_db s' = (si_db s)\<lparr>db_users := us @ [?f u]\<rparr>" "si_queue s' = si_queue s"
    using s' st nobody frame by (simp_all add: send_verification_again_def resend_lookup_def)
  have "users_unique (us @ [?f u])" using us(2) by (simp add: users_unique_update flip: w)
  then show "awaiting (ad_token D) (?f u) (si_db s) (si_db s')" using d fresh us(1) by (auto simp: awaiting_def)
  show "si_queue s' = si_queue s" by (fact d)
qed

lemma num_seconds_over: "121 * 1000000 \<le> d \<Longrightarrow> 120 < num_seconds d"
  by (simp add: num_seconds_def whole_units_def)

text \<open>
  A second verification mail can cost the password. When the mail is requested again by address while the
  password of a fresh registration is still queued (the endpoint counts no earlier mail, so it answers at
  once), the token the queued job carries is gone from the row: however long the workers run, the account
  keeps no password hash, the new link ends in \<open>RegistrationExpired\<close> from two minutes after the
  registration on, and after ten minutes the row counts as an abandoned signup.
\<close>

theorem resend_loses_password:
  assumes reg: "register W t0 D tn rq q s0 = (Inr r, s1)"
    and ok: "users_unique (db_users (si_db s0))"
    and fresh: "\<forall>u\<in>set (db_users (si_db s0)). \<not> has_token (ad_token D) u"
    and again: "resend_verification W t1 D' tn rq' (Some email) s1 = (Inr m, s2)" "lower W email = lower W (rg_email q)"
      "extract_user_from_token (lhttp W) t1 rq' (tn_id tn) = Inl e"
    and fresh': "ad_token D' \<noteq> ad_token D" "\<forall>u\<in>set (db_users (si_db s0)). \<not> has_token (ad_token D') u"
      "\<forall>j\<in>set (ch_messages (si_queue s0)). bj_token j \<noteq> ad_token D'"
      "\<forall>c\<in>set (db_oauth_codes (si_db s0)). oc_pending_email_verification_token c \<noteq> Some (ad_token D')"
    and work: "bcrypt_work (bcrypt_hash W) t salts (si_queue s2) (si_db s2) = (q3, d3)"
  shows "\<exists>u. fetch_optional (has_token (ad_token D')) (db_users d3) = Some u \<and> us_pubkey u = ar_pubkey r
      \<and> us_password_hash u = None
      \<and> (\<forall>t2. t0 + 121 * 1000000 \<le> t2 \<and> t2 \<le> t1 + hours EMAIL_VERIFICATION_EXPIRY_HOURS \<longrightarrow>
           verify_email_endpoint W t2 D2 tn rq2 (ad_token D') (put_si_db d3 (s2\<lparr>si_queue := q3\<rparr>))
             = (Inl AcRegistrationExpired, put_si_db d3 (s2\<lparr>si_queue := q3\<rparr>)))
      \<and> (\<forall>t3. t0 + minutes 10 < t3 \<longrightarrow> stale_signup t3 u)"
proof -
  let ?u = "registered_row t0 (ar_pubkey r) (tn_id tn) (lower W (rg_email q)) (ad_token D) (accepted_redirect (rg_redirect_uri q))"
  let ?v = "with_verification_token t1 (ad_token D') (t1 + hours EMAIL_VERIFICATION_EXPIRY_HOURS) ?u"
  from register_registers [OF reg] obtain keys encrypted where
    d1: "si_db s1 = (si_db s0)\<lparr>db_users := db_users (si_db s0) @ [?u],
        db_personal_keys := db_personal_keys (si_db s0) @
          [\<lparr>pk_user_pubkey = ar_pubkey r, pk_encrypted_secret_key = encrypted, pk_tenant_id = tn_id tn\<rparr>]\<rparr>"
    and q1: "ch_messages (si_queue s1) = ch_messages (si_queue s0) @ [\<lparr>bj_token = ad_token D, bj_password = rg_password q\<rparr>]"
    by metis
  have n: "\<forall>v\<in>set (db_users (si_db s1)). \<not> has_token (ad_token D') v" using fresh'(1,2) by (auto simp: d1 has_token_def)
  from resend_replaces_token [OF register_awaits [OF reg ok fresh] _ _ _ _ again(1,3) n] again(2)
  have a: "awaiting (ad_token D') ?v (si_db s1) (si_db s2)" and q2: "si_queue s2 = si_queue s1" by simp_all
  have tok: "has_token (ad_token D') ?v" by (simp add: has_token_def with_verification_token_def)
  have "awaiting (ad_token D') ?v (si_db s1) d3"
    using bcrypt_work_others [OF a tok _ work] fresh'(1,3) q1 q2 by auto
  then obtain us where us: "d3 = (si_db s1)\<lparr>db_users := us @ [?v]\<rparr>" "\<forall>v\<in>set us. \<not> has_token (ad_token D') v"
    by (auto simp: awaiting_def)
  have f: "fetch_optional (has_token (ad_token D')) (db_users d3) = Some ?v"
    unfolding us(1) using fetch_optional_last [OF us(2) tok] by simp
  have "user_find_by_verification_token (ad_token D') (tn_id tn) d3
      = Inr (Some \<lparr>vt_pubkey = ar_pubkey r,
                   vt_email_verification_expires_at = Some (t1 + hours EMAIL_VERIFICATION_EXPIRY_HOURS),
                   vt_password_hash = None, vt_created_at = t0, vt_email_verified = False,
                   vt_redirect_uri = us_redirect_uri ?u\<rparr>)"
    unfolding user_find_by_verification_token_def us(1)
    by (simp, subst fetch_optional_last) (use us(2) in \<open>auto simp: has_token_def with_verification_token_def\<close>)
  moreover have "find_by_verification_token t2 (ad_token D') (tn_id tn) d3 = None" for t2
    using fresh'(4) by (auto simp: find_by_verification_token_def us(1) d1 fetch_optional_None)
  ultimately have "verify_email_endpoint W t2 D2 tn rq2 (ad_token D') (put_si_db d3 (s2\<lparr>si_queue := q3\<rparr>))
      = (Inl AcRegistrationExpired, put_si_db d3 (s2\<lparr>si_queue := q3\<rparr>))"
    if "t0 + 121 * 1000000 \<le> t2" "t2 \<le> t1 + hours EMAIL_VERIFICATION_EXPIRY_HOURS" for t2
    using that num_seconds_over [of "t2 - t0"] by (simp add: verify_email_endpoint_def verify_registration_def)
  moreover have "stale_signup t3 ?v" if "t0 + minutes 10 < t3" for t3
    using that by (simp add: stale_signup_def with_verification_token_def)
  ultimately show ?thesis
    by (intro exI [of _ ?v]) (simp add: f with_verification_token_def)
qed

definition again_draws :: account_draws where
  "again_draws = sample_draws ''again'' []"

abbreviation asked_again :: "(account_error + string) \<times> jv site" where
  "asked_again \<equiv> resend_verification LW0 15 again_draws customer_tenant (web_parts []) (Some ''a@b.c'') (snd registered)"

theorem resend_loses_password_witness:
  "\<exists>q3 d3 u. bcrypt_work (bcrypt_hash LW0) 20 [''salt''] (si_queue (snd asked_again)) (si_db (snd asked_again)) = (q3, d3)
     \<and> fetch_optional (has_token ''again'') (db_users d3) = Some u \<and> us_pubkey u = ''alice'' \<and> us_password_hash u = None
     \<and> stale_signup 600000011 u"
proof -
  obtain q3 d3 where w: "bcrypt_work (bcrypt_hash LW0) 20 [''salt''] (si_queue (snd asked_again)) (si_db (snd asked_again)) = (q3, d3)"
    by (cases "bcrypt_work (bcrypt_hash LW0) 20 [''salt''] (si_queue (snd asked_again)) (si_db (snd asked_again))")
  have "fst asked_again = Inr resend_message" by code_simp
  then have a: "asked_again = (Inr resend_message, snd asked_again)" by (simp add: prod_eq_iff)
  have l: "lower LW0 ''a@b.c'' = lower LW0 (rg_email sample_registration)" by code_simp
  have x: "extract_user_from_token (lhttp LW0) 15 (web_parts []) (tn_id customer_tenant) = Inl AcMissingToken" by code_simp
  have e: "db_users empty_db = []" "db_oauth_codes empty_db = []" "ch_messages bcrypt_queue_new = []"
    "users_unique []" "ad_token again_draws = ''again''" "ad_token (sample_draws ''verification'' [1]) = ''verification''"
    by (simp_all add: empty_db_def bcrypt_queue_new_def bounded_def users_unique_def indexed_def map_filter_simps
        again_draws_def sample_draws_def)
  from resend_loses_password [OF registered_pair _ _ a l x _ _ _ _ w, where ?D2.0 = again_draws and ?rq2.0 = "web_parts []"]
  obtain u where "fetch_optional (has_token ''again'') (db_users d3) = Some u" "us_pubkey u = ''alice''"
    "us_password_hash u = None" "\<forall>t3. 10 + minutes 10 < t3 \<longrightarrow> stale_signup t3 u"
    by (auto simp: e)
  moreover have "10 + minutes 10 < 600000011" by code_simp
  ultimately show ?thesis using w by blast
qed

section \<open>Signing over plain HTTP\<close>

lemma find_policy_id_row:
  assumes "get_authorization_for_origin now user origin t d = Inr pid"
  obtains a where "a \<in> set (db_oauth d)" "oa_user_pubkey a = user" "oa_redirect_origin a = origin" "oa_tenant_id a = t"
    "oauth_active now a" "oa_policy_id a = pid"
  using assms
  by (auto simp: get_authorization_for_origin_def find_policy_id_by_origin_def split: option.splits
      dest!: fetch_optional_Some)

lemma all_permit_every:
  assumes "all_permit W d denied permits (Some i) = Inr ()" and "p \<in> set (get_permissions d i)"
  shows "\<exists>c. to_custom_permission (x_perm (lx W)) p = Inr c \<and> permits c"
proof -
  let ?f = "to_custom_permission (x_perm (lx W))"
  from assms(1) obtain cs where cs: "map ?f (get_permissions d i) = map Inr cs" and all: "list_all permits cs"
    by (auto simp: all_permit_def policy_permissions_def and_then_Inr_iff collect_results_Inr split: if_splits)
  have "?f p \<in> set (map ?f (get_permissions d i))" using assms(2) by simp
  then obtain c where "c \<in> set cs" "?f p = Inr c" unfolding cs by auto
  then show ?thesis using all by (auto simp: list_all_iff)
qed

text \<open>
  C19. The signing endpoint keeps to the policy of the application. When it answers with a signed event, the
  session names a user and an origin for which there is a live grant in the tenant, and every permission
  of that grant's policy could be read and consents to this very event; the signature is then made with
  the key of the cached handler of the user's newest grant, after that handler's own check, or with the
  stored key of the user.
\<close>

theorem plain_signature_respects_policy:
  assumes "sign_event W now handlers tn rq body s = (Inr j, s')"
  shows "\<exists>user origin bunker ev a signed_ev.
     extract_user_and_origin_from_token (lhttp W) now rq (tn_id tn) = Inr (user, origin, bunker)
     \<and> event_from_value (lhttp W) body = Inr ev
     \<and> a \<in> set (db_oauth (si_db s)) \<and> oa_user_pubkey a = user \<and> oa_redirect_origin a = origin
     \<and> oa_tenant_id a = tn_id tn \<and> oauth_active now a
     \<and> (\<forall>i p. oa_policy_id a = Some i \<and> p \<in> set (get_permissions (si_db s) i) \<longrightarrow>
          (\<exists>c. to_custom_permission (x_perm (lx W)) p = Inr c \<and> can_sign c ev))
     \<and> json_of_event (lhttp W) signed_ev = Inr j
     \<and> (case cached_signer handlers user (tn_id tn) (si_db s) of
          Some h \<Rightarrow> validate_permissions_for_sign (lx W) (si_db s) h ev = Inr ()
                     \<and> sign_unsigned (lx W) (h_user_keys h) ev = Inr signed_ev
        | None \<Rightarrow> \<exists>keys. open_user_key W AcUserNotFound user (tn_id tn) (si_db s) = Inr keys
                     \<and> sign_unsigned (lx W) keys ev = Inr signed_ev)"
proof -
  from assms obtain user origin bunker ev where 1: "extract_user_and_origin_from_token (lhttp W) now rq (tn_id tn) = Inr (user, origin, bunker)"
    "event_from_value (lhttp W) body = Inr ev"
    and v: "validate_signing_permissions W now (tn_id tn) user origin ev (si_db s) = Inr ()"
    by (auto simp: sign_event_def and_then_Inr_iff Let_def split: sum.splits)
  from v obtain pid where g: "get_authorization_for_origin now user origin (tn_id tn) (si_db s) = Inr pid"
    and p: "all_permit W (si_db s) AcInvalidCredentials (\<lambda>p. can_sign p ev) pid = Inr ()"
    by (auto simp: validate_signing_permissions_def and_then_Inr_iff)
  from g obtain a where a: "a \<in> set (db_oauth (si_db s))" "oa_user_pubkey a = user" "oa_redirect_origin a = origin"
    "oa_tenant_id a = tn_id tn" "oauth_active now a" "oa_policy_id a = pid" by (rule find_policy_id_row)
  have perms: "\<forall>i p. oa_policy_id a = Some i \<and> p \<in> set (get_permissions (si_db s) i) \<longrightarrow>
          (\<exists>c. to_custom_permission (x_perm (lx W)) p = Inr c \<and> can_sign c ev)"
    using p a(6) all_permit_every [where permits = "\<lambda>p. can_sign p ev"] by metis
  have "\<exists>signed_ev. json_of_event (lhttp W) signed_ev = Inr j
     \<and> (case cached_signer handlers user (tn_id tn) (si_db s) of
          Some h \<Rightarrow> validate_permissions_for_sign (lx W) (si_db s) h ev = Inr ()
                     \<and> sign_unsigned (lx W) (h_user_keys h) ev = Inr signed_ev
        | None \<Rightarrow> \<exists>keys. open_user_key W AcUserNotFound user (tn_id tn) (si_db s) = Inr keys
                     \<and> sign_unsigned (lx W) keys ev = Inr signed_ev)"
    using assms 1 v
    by (cases "cached_signer handlers user (tn_id tn) (si_db s)")
      (auto simp: sign_event_def sign_event_direct_def signed_json_def and_then_Inr_iff Let_def
        split: sum.splits prod.splits)
  with 1 a perms show ?thesis by blast
qed

definition granted_site :: "jv site" where
  "granted_site =
     site_of ((sv_db sv0)\<lparr>db_users := [(blank_user ''alice'' 1 5)\<lparr>us_email := Some ''a@b.c'', us_password_hash := Some ''secret''\<rparr>]\<rparr>)"

abbreviation bearer_parts :: parts where
  "bearer_parts \<equiv> web_parts [(''authorization'', ''Bearer access''), (''origin'', ''https://app'')]"

theorem plain_signature_respects_policy_witness:
  "fst (sign_event LW0 20 None customer_tenant bearer_parts (JNum 1) granted_site) = Inr (JStr ''hi'')
   \<and> (\<exists>ev a. event_from_value (lhttp LW0) (JNum 1) = Inr ev \<and> a \<in> set (db_oauth (si_db granted_site)) \<and> oauth_active 20 a)"
proof -
  have "fst (sign_event LW0 20 None customer_tenant bearer_parts (JNum 1) granted_site) = Inr (JStr ''hi'')" by code_simp
  then obtain s' where "sign_event LW0 20 None customer_tenant bearer_parts (JNum 1) granted_site = (Inr (JStr ''hi''), s')"
    by (metis prod.collapse)
  from plain_signature_respects_policy [OF this] this show ?thesis by auto
qed

section \<open>Keys\<close>

lemma credentials_row:
  assumes "get_credentials_with_verified pubkey t d = Inr (Some (e, h, v))"
  obtains u where "u \<in> set (db_users d)" "user_at pubkey t u" "us_email u = Some e" "us_password_hash u = Some h"
    "us_email_verified u = Some v"
  using assms
  by (auto simp: get_credentials_with_verified_def and_then_Inr_iff split: option.splits dest!: fetch_optional_Some)

text \<open>
  C20. The key leaves the server only for its owner: an export succeeds only with a session of the user, whose
  address is verified, together with the current password, and what it returns is the stored key.
\<close>

theorem export_needs_password:
  assumes "export_key W now tn rq body d = Inr nsec"
  shows "\<exists>user u h password encrypted secret keys.
     extract_user_from_token (lhttp W) now rq (tn_id tn) = Inr user
     \<and> u \<in> set (db_users d) \<and> user_at user (tn_id tn) u \<and> us_email_verified u = Some True
     \<and> us_password_hash u = Some h
     \<and> Option.bind (fact_get (lhttp W) body ''password'') (json_str (lx W)) = Some password
     \<and> bcrypt_verify (lx W) password h = Inr True
     \<and> find_encrypted_key_for_tenant d user (tn_id tn) = Some encrypted \<and> km_decrypt (lx W) encrypted = Inr secret
     \<and> keys_parse (ltoken W) (hex_encode W secret) = Inr keys \<and> nsec_of W keys = Inr nsec"
proof -
  from assms obtain user password e h encrypted secret keys where
    "extract_user_from_token (lhttp W) now rq (tn_id tn) = Inr user"
    "Option.bind (fact_get (lhttp W) body ''password'') (json_str (lx W)) = Some password"
    and c: "get_credentials_with_verified user (tn_id tn) d = Inr (Some (e, h, True))"
    and "bcrypt_verify (lx W) password h = Inr True" "find_encrypted_key_for_tenant d user (tn_id tn) = Some encrypted"
    "km_decrypt (lx W) encrypted = Inr secret" "keys_parse (ltoken W) (hex_encode W secret) = Inr keys" "nsec_of W keys = Inr nsec"
    by (auto simp: export_key_def found_row_def password_matches_def find_with_password_and_verified_def and_then_Inr_iff
        ok_or_def split: if_splits option.splits)
  with c show ?thesis by (elim credentials_row) blast
qed

theorem export_needs_password_witness:
  "\<exists>u\<in>set (db_users (si_db verified_site)). us_email_verified u = Some True \<and> us_password_hash u = Some ''secret''
     \<and> export_key LW0 20 customer_tenant bearer_parts (JObj [(''password'', JStr ''secret'')]) (si_db verified_site) = Inr ''nsec''"
proof -
  have e: "export_key LW0 20 customer_tenant bearer_parts (JObj [(''password'', JStr ''secret'')]) (si_db verified_site) = Inr ''nsec''"
    by code_simp
  from export_needs_password [OF this] obtain u h where u: "u \<in> set (db_users (si_db verified_site))"
    "us_email_verified u = Some True" "us_password_hash u = Some h" by blast
  then have "h = ''secret''" by (simp add: verified_site_def)
  with u e show ?thesis by blast
qed

text \<open>What a committed key change leaves behind.\<close>

lemma change_key_transaction_moves:
  assumes "change_key_transaction now old new t e h encrypted d = Inr (n, d')"
  shows "find_with_password e t d' = Inr (Some (new, h, True))"
    and "\<forall>a\<in>set (db_oauth d'). oa_user_pubkey a \<noteq> old"
    and "n = length (filter (\<lambda>a. oa_user_pubkey a = old) (db_oauth d))"
    and "\<forall>u\<in>set (db_users d'). user_at old t u \<longrightarrow> us_email u = None \<or> new = old"
proof -
  let ?u = "(blank_user new t now)\<lparr>us_email := Some e, us_password_hash := Some h, us_email_verified := Some True\<rparr>"
  let ?d1 = "personal_keys_delete_by_user old (delete_oauth_of old d)"
  from assms obtain d2 d3 where 2: "update_users (user_at old t) (without_identity now) ?d1 = Inr d2"
    and 3: "insert_user ?u d2 = Inr d3" and 4: "personal_keys_create new encrypted t d3 = Inr d'"
    and n: "n = rows_affected (\<lambda>a. oa_user_pubkey a = old) (db_oauth d)"
    by (auto simp: change_key_transaction_def and_then_Inr_iff Let_def)
  have d': "db_users d' = db_users d2 @ [?u]" "db_oauth d' = db_oauth d2" "users_unique (db_users d2 @ [?u])"
    using 3 4 by (auto simp: insert_user_def personal_keys_create_def split: if_splits)
  have d2: "db_users d2 = update_where (user_at old t) (without_identity now) (db_users d)"
    "db_oauth d2 = delete_where (\<lambda>a. oa_user_pubkey a = old) (db_oauth d)"
    using 2 by (auto simp: update_users_def personal_keys_delete_by_user_def delete_oauth_of_def Let_def split: if_splits)
  show "find_with_password e t d' = Inr (Some (new, h, True))"
    unfolding find_with_password_def d'(1)
    by (subst fetch_optional_last)
      (use unique_last(2) [OF d'(3), of e] in \<open>auto simp: user_with_email_def blank_user_def\<close>)
  show "\<forall>a\<in>set (db_oauth d'). oa_user_pubkey a \<noteq> old" by (simp add: d'(2) d2(2) delete_where_def)
  show "n = length (filter (\<lambda>a. oa_user_pubkey a = old) (db_oauth d))" by (simp add: n rows_affected_def)
  show "\<forall>u\<in>set (db_users d'). user_at old t u \<longrightarrow> us_email u = None \<or> new = old"
  proof (intro ballI impI)
    fix u assume "u \<in> set (db_users d')" and at: "user_at old t u"
    then consider "u = ?u" | "u \<in> set (update_where (user_at old t) (without_identity now) (db_users d))"
      unfolding d'(1) d2(1) by auto
    then show "us_email u = None \<or> new = old"
    proof cases
      case 1
      then show ?thesis using at by (simp add: user_at_def blank_user_def)
    next
      case 2
      then show ?thesis using at unfolding update_where_def by (auto simp: without_identity_def split: if_splits)
    qed
  qed
qed

lemma change_key_commit_moves:
  assumes "change_key_commit W now D t old password nsec d = Inr (new_keys, email, n, d')"
  obtains h u where "u \<in> set (db_users d)" "user_at old t u" "us_email u = Some email" "us_password_hash u = Some h"
    "bcrypt_verify (lx W) password h = Inr True" "\<not> user_exists (public_key (lx W) new_keys) t d"
    "find_with_password email t d' = Inr (Some (public_key (lx W) new_keys, h, True))"
    "\<forall>a\<in>set (db_oauth d'). oa_user_pubkey a \<noteq> old"
proof -
  from assms obtain h encrypted where c: "get_credentials old t d = Inr (Some (email, h))"
    and p: "bcrypt_verify (lx W) password h = Inr True" "\<not> user_exists (public_key (lx W) new_keys) t d"
    and x: "change_key_transaction now old (public_key (lx W) new_keys) t email h encrypted d = Inr (n, d')"
    by (auto simp: change_key_commit_def found_row_def password_matches_def and_then_Inr_iff ok_or_def
        split: if_splits option.splits)
  from c obtain u where "u \<in> set (db_users d)" "user_at old t u" "us_email u = Some email" "us_password_hash u = Some h"
    by (auto simp: get_credentials_def and_then_Inr_iff split: option.splits dest!: fetch_optional_Some)
  with p change_key_transaction_moves(1,2) [OF x] that show thesis by blast
qed

lemma change_key_success:
  assumes "change_key W now D tn rq password nsec s = (Some (Inr (cookie, r)), s')"
  obtains old new_keys email n where "extract_user_from_token (lhttp W) now rq (tn_id tn) = Inr old"
    "change_key_commit W now D (tn_id tn) old password nsec (si_db s) = Inr (new_keys, email, n, si_db s')"
    "ck_new_pubkey r = public_key (lx W) new_keys"
    "ac_server (si_acc s') = push_command D (Remove old)
       ((ac_server (si_acc s))\<lparr>sv_db := si_db s', sv_cache := invalidate_handlers_for_user True old (sv_cache (ac_server (si_acc s)))\<rparr>)"
proof -
  from assms obtain old new_keys email n d where 1: "extract_user_from_token (lhttp W) now rq (tn_id tn) = Inr old"
    "change_key_commit W now D (tn_id tn) old password nsec (si_db s) = Inr (new_keys, email, n, d)"
    "ck_new_pubkey r = public_key (lx W) new_keys"
    and s': "s' = (let s1 = put_si_db d s; a = si_acc s1; sv = ac_server a;
                       sv1 = sv\<lparr>sv_cache := invalidate_handlers_for_user True old (sv_cache sv)\<rparr>
                   in s1\<lparr>si_acc := a\<lparr>ac_server := push_command D (Remove old) sv1\<rparr>\<rparr>)"
    by (auto simp: change_key_def and_then_Inr_iff Let_def split: sum.splits)
  have "si_db s' = d" unfolding s' by (simp add: Let_def si_db_def ac_db_def push_command_def put_si_db_def put_db_def)
  moreover from this have "ac_server (si_acc s') = push_command D (Remove old)
       ((ac_server (si_acc s))\<lparr>sv_db := si_db s', sv_cache := invalidate_handlers_for_user True old (sv_cache (ac_server (si_acc s)))\<rparr>)"
    unfolding s' by (simp add: Let_def put_si_db_def put_db_def)
  ultimately show thesis using 1 that by blast
qed

text \<open>
  C24. A key change moves the account. It needs a session of the user and the current password; afterwards the
  address and the password hash belong to the new key, which was not in use in the tenant, no grant of the
  old key is left in the database, and the HTTP cache serves none of its handlers. The new account counts
  as verified whether or not the old one was: the address is never proved in between.
\<close>

theorem change_key_moves_account:
  assumes "change_key W now D tn rq password nsec s = (Some (Inr (cookie, r)), s')"
  shows "\<exists>old u h email. extract_user_from_token (lhttp W) now rq (tn_id tn) = Inr old
     \<and> u \<in> set (db_users (si_db s)) \<and> user_at old (tn_id tn) u \<and> us_email u = Some email \<and> us_password_hash u = Some h
     \<and> bcrypt_verify (lx W) password h = Inr True \<and> \<not> user_exists (ck_new_pubkey r) (tn_id tn) (si_db s)
     \<and> find_with_password email (tn_id tn) (si_db s') = Inr (Some (ck_new_pubkey r, h, True))
     \<and> (\<forall>a\<in>set (db_oauth (si_db s')). oa_user_pubkey a \<noteq> old)
     \<and> (\<forall>k hdl. sv_cache (ac_server (si_acc s')) k = Some hdl \<longrightarrow> hh_user_pubkey hdl \<noteq> old)"
proof -
  from assms obtain old new_keys email n where 1: "extract_user_from_token (lhttp W) now rq (tn_id tn) = Inr old"
    "change_key_commit W now D (tn_id tn) old password nsec (si_db s) = Inr (new_keys, email, n, si_db s')"
    "ck_new_pubkey r = public_key (lx W) new_keys"
    "ac_server (si_acc s') = push_command D (Remove old)
       ((ac_server (si_acc s))\<lparr>sv_db := si_db s', sv_cache := invalidate_handlers_for_user True old (sv_cache (ac_server (si_acc s)))\<rparr>)"
    by (rule change_key_success)
  have "\<forall>k hdl. sv_cache (ac_server (si_acc s')) k = Some hdl \<longrightarrow> hh_user_pubkey hdl \<noteq> old"
    unfolding 1(4) by (auto simp: push_command_def invalidate_handlers_for_user_def invalidate_handlers_def split: option.splits if_splits)
  with 1 change_key_commit_moves [OF 1(2)] show ?thesis by metis
qed

text \<open>
  The signer never hears of it. The one command a key change sends names the user's old key where the
  signer expects a bunker key, so a cached handler of a deleted grant stays in the signer's cache, unmarked,
  unless its bunker key happens to be the user's key.
\<close>

theorem change_key_misses_signer:
  assumes "change_key W now D tn rq password nsec s = (Some (Inr (cookie, r)), s')"
    and "extract_user_from_token (lhttp W) now rq (tn_id tn) = Inr old"
    and "sv_commands (ac_server (si_acc s)) = []"
    and "sg_cache g bunker = Some hdl" and "bunker \<noteq> old"
  shows "sg_cache (fold (handle_command X int4 now') (sv_commands (ac_server (si_acc s'))) g) bunker = Some hdl"
proof -
  from assms(1,2) have "ac_server (si_acc s') = push_command D (Remove old)
       ((ac_server (si_acc s))\<lparr>sv_db := si_db s', sv_cache := invalidate_handlers_for_user True old (sv_cache (ac_server (si_acc s)))\<rparr>)"
    by (elim change_key_success) simp
  then have "sv_commands (ac_server (si_acc s')) \<in> {[], [Remove old]}"
    using assms(3) by (simp add: push_command_def)
  then show ?thesis using assms(4,5) by (auto simp: cache_insert_def split: option.splits)
qed

definition LW1 :: "jv login_world" where
  "LW1 = LW0\<lparr>lw_acc := (lw_acc LW0)\<lparr>acw_token := CT0\<lparr>tw_http := (tw_http CT0)
     \<lparr>ucan_parse := (\<lambda>_. Inr (issued_ucan\<lparr>uc_audience := ''did:key:zalice-alice-alice''\<rparr>))\<rparr>\<rparr>\<rparr>\<rparr>"

definition unverified_site :: "jv site" where
  "unverified_site =
     site_of (empty_db\<lparr>db_users := [(blank_user ''alice-alice-alice'' 1 5)\<lparr>us_email := Some ''a@b.c'', us_password_hash := Some ''secret''\<rparr>]\<rparr>)"

abbreviation key_changed :: "(account_error + string \<times> change_key_response) option \<times> jv site" where
  "key_changed \<equiv> change_key LW1 20 (sample_draws [] [1]) customer_tenant bearer_parts ''secret'' None unverified_site"

lemma key_changed_session: "extract_user_from_token (lhttp LW1) 20 bearer_parts (tn_id customer_tenant) = Inr ''alice-alice-alice''"
  by code_simp

lemma key_changed_result:
  "\<exists>cookie r. key_changed = (Some (Inr (cookie, r)), snd key_changed) \<and> ck_new_pubkey r = ''alice''"
proof -
  have "case change_key_commit LW1 20 (sample_draws [] [1]) (tn_id customer_tenant) ''alice-alice-alice'' ''secret'' None (si_db unverified_site) of
      Inr (k, e, _, _) \<Rightarrow> k = [1] \<and> e = ''a@b.c'' | Inl _ \<Rightarrow> False" by code_simp
  then obtain n d where c: "change_key_commit LW1 20 (sample_draws [] [1]) (tn_id customer_tenant) ''alice-alice-alice'' ''secret'' None (si_db unverified_site)
      = Inr ([1], ''a@b.c'', n, d)" by (auto split: sum.splits)
  have o: "extract_origin_from_headers bearer_parts = Inr ''https://app''" by code_simp
  have g: "generate_ucan_token LW1 [1] t e origin None = Inr ''session''" for t e origin
    by (simp add: generate_ucan_token_def LW1_def LW0_def)
  have p: "str_slice ''alice-alice-alice'' 0 16 = Some ''alice-alice-alic''" "public_key (lx LW1) [1] = ''alice''" by code_simp+
  show ?thesis by (simp add: change_key_def key_changed_session c o g p Let_def)
qed

theorem change_key_moves_account_witness:
  "\<exists>cookie r h. key_changed = (Some (Inr (cookie, r)), snd key_changed)
     \<and> find_with_password ''a@b.c'' 1 (si_db (snd key_changed)) = Inr (Some (''alice'', h, True))
     \<and> get_email_verified ''alice-alice-alice'' 1 (si_db unverified_site) = Inr (Some False)"
proof -
  obtain cookie r where k: "key_changed = (Some (Inr (cookie, r)), snd key_changed)" "ck_new_pubkey r = ''alice''"
    using key_changed_result by blast
  from change_key_moves_account [OF k(1)] obtain u h email where u: "u \<in> set (db_users (si_db unverified_site))"
    "us_email u = Some email" "find_with_password email (tn_id customer_tenant) (si_db (snd key_changed)) = Inr (Some (''alice'', h, True))"
    unfolding k(2) by blast
  then have "email = ''a@b.c''" by (simp add: unverified_site_def)
  moreover have "get_email_verified ''alice-alice-alice'' 1 (si_db unverified_site) = Inr (Some False)" by code_simp
  ultimately show ?thesis using k(1) u(3) by (auto simp: customer_tenant_def)
qed

theorem change_key_misses_signer_witness:
  "sg_cache (fold (handle_command (lx LW1) True 30) (sv_commands (ac_server (si_acc (snd key_changed))))
     \<lparr>sg_db = empty_db, sg_cache = [''bunker1'' \<mapsto> alice_handler], sg_sent = [], sg_metrics = metrics_new\<rparr>) ''bunker1'' = Some alice_handler"
proof -
  obtain cookie r where k: "key_changed = (Some (Inr (cookie, r)), snd key_changed)" using key_changed_result by blast
  have "sv_commands (ac_server (si_acc unverified_site)) = []" by code_simp
  then show ?thesis by (intro change_key_misses_signer [OF k key_changed_session]) simp_all
qed

end
