(* ===== verification/Headless.thy ===== *)
theory Headless
  imports Accounts
begin

text \<open>
  \<open>api/src/api/http/headless.rs\<close>: registration, login and authorization for native apps. The answers are
  JSON, there is no cookie and no consent page; an authorization code goes straight to the app.
\<close>

section \<open>Errors\<close>

datatype headless_error =
    HlTooManyRequests
  | HlUnauthorized
  | HlEmailNotVerified
  | HlInvalidRequest string
  | HlConflict string
  | HlInternal string
  | HlServiceUnavailable string "nat option"

text \<open>Status, \<open>Retry-After\<close> header, message and code.\<close>

fun headless_response :: "headless_error \<Rightarrow> nat \<times> nat option \<times> string \<times> string" where
  "headless_response HlTooManyRequests =
     (429, None, ''Too many requests. Please try again later.'', ''TOO_MANY_REQUESTS'')"
| "headless_response HlUnauthorized = (401, None, ''Invalid email or password'', ''INVALID_CREDENTIALS'')"
| "headless_response HlEmailNotVerified =
     (403, None, ''Please verify your email address before signing in'', ''EMAIL_NOT_VERIFIED'')"
| "headless_response (HlInvalidRequest m) = (400, None, m, ''INVALID_REQUEST'')"
| "headless_response (HlConflict m) = (409, None, m, ''CONFLICT'')"
| "headless_response (HlInternal _) = (500, None, ''Internal server error'', ''INTERNAL_ERROR'')"
| "headless_response (HlServiceUnavailable m retry_after) = (503, retry_after, m, ''SERVICE_UNAVAILABLE'')"

fun headless_error_of :: "repository_error \<Rightarrow> headless_error" where
  "headless_error_of Duplicate = HlConflict ''Resource already exists''"
| "headless_error_of (NotFound m) = HlInvalidRequest m"
| "headless_error_of (Integrity m) = HlInternal (repository_error_text (Integrity m))"
| "headless_error_of (Database m) = HlInternal (repository_error_text (Database m))"

text \<open>
  The derived \<open>Debug\<close> of \<open>OAuthError\<close>. A text is shown in double quotes; the texts that reach this
  module hold no character that would be escaped.
\<close>

definition debug_variant :: "string \<Rightarrow> string \<Rightarrow> string" where
  "debug_variant name m = name @ ''('' @ [CHR 0x22] @ m @ [CHR 0x22] @ '')''"

fun oauth_error_shown :: "oauth_error \<Rightarrow> string" where
  "oauth_error_shown TooManyRequests = ''TooManyRequests''"
| "oauth_error_shown OAuthUnauthorized = ''Unauthorized''"
| "oauth_error_shown (InvalidRequest m) = debug_variant ''InvalidRequest'' m"
| "oauth_error_shown (InvalidGrant m) = debug_variant ''InvalidGrant'' m"
| "oauth_error_shown (OAuthDatabase m) = ''Database('' @ m @ '')''"
| "oauth_error_shown (OAuthEncryption m) = debug_variant ''Encryption'' m"
| "oauth_error_shown (ServerError m) = debug_variant ''ServerError'' m"

section \<open>What the requests share\<close>

record headless_app =
  ha_client_id :: string
  ha_redirect_uri :: string
  ha_scope :: "string option"
  ha_code_challenge :: "string option"
  ha_code_challenge_method :: "string option"
  ha_state :: "string option"

definition headless_origin :: "'j login_world \<Rightarrow> headless_app \<Rightarrow> headless_error + string" where
  "headless_origin W app =
     map_err (\<lambda>e. HlInvalidRequest (''Invalid redirect_uri: '' @ oauth_error_shown e))
       (extract_origin (url_parse (ltoken W)) (ha_redirect_uri app))"

definition headless_scope :: "headless_app \<Rightarrow> string" where
  "headless_scope app = (case ha_scope app of Some scope \<Rightarrow> scope | None \<Rightarrow> ''policy:full'')"

text \<open>A ten-minute code of a user for an app.\<close>

definition headless_code :: "timestamp \<Rightarrow> int \<Rightarrow> string \<Rightarrow> pubkey \<Rightarrow> headless_app \<Rightarrow> store_code_params" where
  "headless_code now tenant_id code user_pubkey app =
     \<lparr>sc_tenant_id = tenant_id, sc_code = code, sc_user_pubkey = user_pubkey, sc_client_id = ha_client_id app,
      sc_redirect_uri = ha_redirect_uri app, sc_scope = headless_scope app,
      sc_code_challenge = ha_code_challenge app, sc_code_challenge_method = ha_code_challenge_method app,
      sc_expires_at = now + minutes 10, sc_previous_auth_id = None, sc_state = ha_state app, sc_is_headless = True\<rparr>"

section \<open>Registration\<close>

record headless_register_request =
  hr_email :: string
  hr_password :: string
  hr_nsec :: "string option"
  hr_app :: headless_app

record headless_register_response =
  hrr_success :: bool
  hrr_pubkey :: pubkey
  hrr_verification_required :: bool
  hrr_device_code :: string
  hrr_email :: string

text \<open>A scope that names a policy must name an existing one; any other scope is taken as it is.\<close>

definition headless_policy_ok :: "string \<Rightarrow> 'j db \<Rightarrow> headless_error + unit" where
  "headless_policy_ok scope d =
     (if starts_with scope ''policy:''
      then and_then (map_err (\<lambda>e. HlInvalidRequest (oauth_error_shown e)) (parse_policy_scope scope)) (\<lambda>policy_slug.
           and_then (map_err (\<lambda>_. HlInvalidRequest (''Unknown policy '' @ [CHR 0x27] @ policy_slug @ [CHR 0x27]))
                       (policy_find_by_slug d policy_slug)) (\<lambda>_. Inr ()))
      else Inr ())"

definition headless_keys ::
    "'j login_world \<Rightarrow> account_draws \<Rightarrow> int \<Rightarrow> string option \<Rightarrow> 'j db \<Rightarrow> headless_error + seckey" where
  "headless_keys W D tenant_id nsec d =
     (case nsec of
        None \<Rightarrow> Inr (ad_keys D)
      | Some nsec_str \<Rightarrow>
          and_then (map_err (\<lambda>e. HlInvalidRequest (''Invalid nsec or secret key: '' @ e
                       @ ''. Please provide a valid nsec (bech32) or hex secret key.''))
                     (keys_parse (ltoken W) nsec_str)) (\<lambda>keys.
            if user_exists (public_key (lx W) keys) tenant_id d
            then Inl (HlConflict ''This Nostr key is already registered. Please log in instead or use a different key.'')
            else Inr keys))"

definition pending_registration ::
    "timestamp \<Rightarrow> account_draws \<Rightarrow> string \<Rightarrow> int \<Rightarrow> pubkey \<Rightarrow> string \<Rightarrow> string \<Rightarrow> bytes \<Rightarrow> headless_app
      \<Rightarrow> store_code_registration_params" where
  "pending_registration now D device_code tenant_id pubkey email password_hash encrypted app =
     \<lparr>sr_tenant_id = tenant_id, sr_code = ad_code D, sr_user_pubkey = pubkey, sr_client_id = ha_client_id app,
      sr_redirect_uri = ha_redirect_uri app, sr_scope = headless_scope app,
      sr_code_challenge = ha_code_challenge app, sr_code_challenge_method = ha_code_challenge_method app,
      sr_expires_at = now + hours EMAIL_VERIFICATION_EXPIRY_HOURS, sr_pending_email = email,
      sr_pending_password_hash = password_hash, sr_pending_email_verification_token = ad_token D,
      sr_pending_encrypted_secret = Some encrypted, sr_state = ha_state app, sr_device_code = Some device_code,
      sr_is_headless = True\<rparr>"

definition headless_register ::
    "'j login_world \<Rightarrow> timestamp \<Rightarrow> account_draws \<Rightarrow> string \<Rightarrow> tenant \<Rightarrow> parts \<Rightarrow> headless_register_request \<Rightarrow> 'j site
      \<Rightarrow> (headless_error + headless_register_response) \<times> 'j site" where
  "headless_register W now D device_code tn rq q s0 =
     (let tenant_id = tn_id tn; email = lower W (hr_email q); app = hr_app q
      in case allow_route W now ''headless_register'' tenant_id rq (Some email) s0 of
           (False, s) \<Rightarrow> (Inl HlTooManyRequests, s)
         | (True, s) \<Rightarrow>
             (case and_then (headless_origin W app) (\<lambda>_.
                   and_then (headless_policy_ok (headless_scope app) (si_db s)) (\<lambda>_.
                   and_then (headless_keys W D tenant_id (hr_nsec q) (si_db s)) (\<lambda>keys.
                     if is_set (find_pubkey_by_email email tenant_id (si_db s))
                     then Inl (HlConflict ''This email is already registered. Please log in instead.'')
                     else
                   and_then (map_err (\<lambda>e. HlInternal (''Encryption error: '' @ e)) (km_encrypt (lx W) keys)) (\<lambda>encrypted.
                   and_then (map_err (\<lambda>e. HlInternal (''Password hash error: '' @ e))
                               (bcrypt_hash W (ad_salt D) (hr_password q))) (\<lambda>password_hash.
                     Inr (public_key (lx W) keys, encrypted, password_hash)))))) of
                Inl e \<Rightarrow> (Inl e, s)
              | Inr (pubkey, encrypted, password_hash) \<Rightarrow>
                  (case code_store_with_pending_registration now
                          (pending_registration now D device_code tenant_id pubkey email password_hash encrypted app)
                          (si_db s) of
                     (Inl e, d) \<Rightarrow> (Inl (headless_error_of e), put_si_db d s)
                   | (Inr _, d) \<Rightarrow>
                       (Inr \<lparr>hrr_success = True, hrr_pubkey = pubkey, hrr_verification_required = True,
                             hrr_device_code = device_code, hrr_email = email\<rparr>,
                        send_mail D (VerificationMail email (ad_token D))
                          ((put_si_db d s)\<lparr>si_registrations := si_registrations s + 1\<rparr>)))))"

section \<open>Login\<close>

record headless_login_request =
  hl_email :: string
  hl_password :: string
  hl_app :: headless_app

record headless_login_response =
  hlr_success :: bool
  hlr_code :: string
  hlr_pubkey :: pubkey
  hlr_state :: "string option"

text \<open>The credentials; the flag says whether a wrong password is counted.\<close>

definition headless_credentials ::
    "'j login_world \<Rightarrow> int \<Rightarrow> string \<Rightarrow> string \<Rightarrow> 'j db \<Rightarrow> (headless_error + pubkey) \<times> bool" where
  "headless_credentials W tenant_id email password d =
     (case find_with_password email tenant_id d of
        Inl e \<Rightarrow> (Inl (headless_error_of e), False)
      | Inr None \<Rightarrow> (Inl HlUnauthorized, False)
      | Inr (Some (pubkey, password_hash, email_verified)) \<Rightarrow>
          (case bcrypt_verify (lx W) password password_hash of
             Inl _ \<Rightarrow> (Inl (HlInternal ''Password verification failed''), False)
           | Inr False \<Rightarrow> (Inl HlUnauthorized, True)
           | Inr True \<Rightarrow> (if \<not> email_verified then Inl HlEmailNotVerified else Inr pubkey, False)))"

definition headless_login ::
    "'j login_world \<Rightarrow> timestamp \<Rightarrow> account_draws \<Rightarrow> tenant \<Rightarrow> headless_login_request \<Rightarrow> 'j site
      \<Rightarrow> (headless_error + headless_login_response) \<times> 'j site" where
  "headless_login W now D tn q s =
     (let tenant_id = tn_id tn; email = lower W (hl_email q); app = hl_app q
      in case headless_origin W app of
           Inl e \<Rightarrow> (Inl e, s)
         | Inr _ \<Rightarrow>
             (case headless_credentials W tenant_id email (hl_password q) (si_db s) of
                (Inl e, counted) \<Rightarrow>
                  (Inl e, if counted then s\<lparr>si_login_failures := si_login_failures s + 1\<rparr> else s)
              | (Inr pubkey, _) \<Rightarrow>
                  (case code_store now (headless_code now tenant_id (ad_code D) pubkey app) (si_db s) of
                     (Inl e, d) \<Rightarrow> (Inl (headless_error_of e), put_si_db d s)
                   | (Inr _, d) \<Rightarrow>
                       (Inr \<lparr>hlr_success = True, hlr_code = ad_code D, hlr_pubkey = pubkey, hlr_state = ha_state app\<rparr>,
                        (put_si_db d s)\<lparr>si_logins := si_logins s + 1\<rparr>))))"

section \<open>Authorization with a session\<close>

record headless_authorize_response =
  hz_success :: bool
  hz_code :: string
  hz_state :: "string option"

definition headless_authorize ::
    "'j login_world \<Rightarrow> timestamp \<Rightarrow> account_draws \<Rightarrow> tenant \<Rightarrow> parts \<Rightarrow> headless_app \<Rightarrow> 'j site
      \<Rightarrow> (headless_error + headless_authorize_response) \<times> 'j site" where
  "headless_authorize W now D tn rq app s =
     (let tenant_id = tn_id tn
      in case and_then (map_err (\<lambda>_. HlUnauthorized) (extract_user_from_token (lhttp W) now rq tenant_id)) (\<lambda>user_pubkey.
              and_then (headless_origin W app) (\<lambda>_. Inr user_pubkey)) of
           Inl e \<Rightarrow> (Inl e, s)
         | Inr user_pubkey \<Rightarrow>
             (case code_store now (headless_code now tenant_id (ad_code D) user_pubkey app) (si_db s) of
                (Inl e, d) \<Rightarrow> (Inl (headless_error_of e), put_si_db d s)
              | (Inr _, d) \<Rightarrow>
                  (Inr \<lparr>hz_success = True, hz_code = ad_code D, hz_state = ha_state app\<rparr>, put_si_db d s)))"

end
