(* ===== verification/Consent.thy ===== *)
theory Consent
  imports Headless RedirectUri
begin

text \<open>
  The pages of the authorization server in \<open>api/src/api/http/oauth.rs\<close>: the authorization page with its
  silent re-authentication, the approval, login and registration in the popup, the nostr-login
  connection, the status of the session and the polling of a device. The token endpoint has theories of
  its own. A page is the record of the texts put into its constant template. An outcome of \<open>None\<close> is a
  panic.
\<close>

section \<open>Parameters\<close>

text \<open>
  \<open>url_decode\<close> is \<open>urlencoding::decode\<close>, \<open>upper_first\<close> the upper-case form of the first character of a text,
  \<open>bcrypt_hash_10\<close> the hash with cost 10.
\<close>

record 'j consent_world =
  cw_login :: "'j login_world"
  vite_domain_env :: "string option"
  url_decode :: "string \<Rightarrow> string + string"
  upper_first :: "string \<Rightarrow> string"
  bcrypt_hash_10 :: "string \<Rightarrow> string \<Rightarrow> string + string"

definition forgot_password_url_for_auth_host :: "'j consent_world \<Rightarrow> string" where
  "forgot_password_url_for_auth_host W =
     (let auth_url = (case app_url_env (cw_login W) of
                        Some url \<Rightarrow> url
                      | None \<Rightarrow> (case vite_domain_env W of Some d \<Rightarrow> d | None \<Rightarrow> []))
      in if str_contains auth_url ''auth.staging.synvya.com'' then ''https://account.staging.synvya.com/login''
         else if str_contains auth_url ''auth.synvya.com'' then ''https://account.synvya.com/login''
         else ''/forgot-password'')"

definition app_icon :: "'j consent_world \<Rightarrow> string \<Rightarrow> string" where
  "app_icon W name = (if name = [] then ''A'' else upper_first W name)"

text \<open>The user of a session cookie.\<close>

definition cookie_user :: "'j login_world \<Rightarrow> timestamp \<Rightarrow> int \<Rightarrow> parts \<Rightarrow> pubkey option" where
  "cookie_user W now tenant_id rq =
     Option.bind (extract_ucan_from_cookie rq)
       (\<lambda>tok. map_option fst (ok (validate_ucan_token (lhttp W) now (''Bearer '' @ tok) tenant_id)))"

section \<open>Status of the session\<close>

record auth_status_response =
  st_authenticated :: bool
  st_pubkey :: "pubkey option"
  st_email :: "string option"
  st_email_verified :: "bool option"

definition auth_status :: "'j login_world \<Rightarrow> timestamp \<Rightarrow> tenant \<Rightarrow> parts \<Rightarrow> 'j db \<Rightarrow> auth_status_response" where
  "auth_status W now tn rq d =
     (case cookie_user W now (tn_id tn) rq of
        None \<Rightarrow> \<lparr>st_authenticated = False, st_pubkey = None, st_email = None, st_email_verified = None\<rparr>
      | Some user_pubkey \<Rightarrow>
          (case get_account_status user_pubkey (tn_id tn) d of
             Some (email, verified) \<Rightarrow>
               \<lparr>st_authenticated = True, st_pubkey = Some user_pubkey, st_email = email, st_email_verified = verified\<rparr>
           | None \<Rightarrow>
               \<lparr>st_authenticated = True, st_pubkey = Some user_pubkey, st_email = None, st_email_verified = None\<rparr>))"

section \<open>The authorization page\<close>

record authorize_request =
  az_client_id :: string
  az_redirect_uri :: string
  az_scope :: "string option"
  az_state :: "string option"
  az_code_challenge :: "string option"
  az_code_challenge_method :: "string option"
  az_prompt :: "string option"
  az_byok_pubkey :: "string option"
  az_default_register :: "bool option"
  az_authorization_handle :: "string option"
  az_screen :: "string option"

record approval_page =
  apg_title :: string
  apg_icon :: string
  apg_name :: string
  apg_identity :: string
  apg_npub :: string
  apg_client_id :: string
  apg_redirect_uri :: string
  apg_scope :: string
  apg_code_challenge :: string
  apg_code_challenge_method :: string
  apg_state :: string
  apg_pubkey :: pubkey
  apg_email :: string
  apg_policy :: token_policy_info

record sign_in_page =
  sp_app_name :: string
  sp_icon :: string
  sp_name :: string
  sp_forgot_password_url :: string
  sp_client_id :: string
  sp_redirect_uri :: string
  sp_scope :: string
  sp_code_challenge :: string
  sp_code_challenge_method :: string

datatype authorize_page = ChooseAccount string string | Approval approval_page | SignIn sign_in_page

text \<open>A redirection, or a page with the cookie to clear.\<close>

datatype authorize_reply = RedirectTo string | ShowPage "string option" authorize_page

text \<open>Whose session counts, whether its cookie is cleared, and the address.\<close>

definition authorize_user ::
    "'j login_world \<Rightarrow> timestamp \<Rightarrow> int \<Rightarrow> parts \<Rightarrow> authorize_request \<Rightarrow> 'j db \<Rightarrow> pubkey option \<times> bool \<times> string option" where
  "authorize_user W now tenant_id rq q d =
     (case cookie_user W now tenant_id rq of
        None \<Rightarrow> (None, False, None)
      | Some pubkey \<Rightarrow>
          (if az_prompt q = Some ''login'' \<or> is_set (az_byok_pubkey q) then (None, True, None)
           else (case get_account_status pubkey tenant_id d of
                   None \<Rightarrow> (None, True, None)
                 | Some (email, _) \<Rightarrow> (Some pubkey, False, email))))"

definition approval_code ::
    "timestamp \<Rightarrow> int \<Rightarrow> string \<Rightarrow> pubkey \<Rightarrow> string \<Rightarrow> string \<Rightarrow> string \<Rightarrow> string option \<Rightarrow> string option \<Rightarrow> int option
      \<Rightarrow> string option \<Rightarrow> store_code_params" where
  "approval_code now tenant_id code user_pubkey client_id redirect_uri scope challenge challenge_method previous state =
     \<lparr>sc_tenant_id = tenant_id, sc_code = code, sc_user_pubkey = user_pubkey, sc_client_id = client_id,
      sc_redirect_uri = redirect_uri, sc_scope = scope, sc_code_challenge = challenge,
      sc_code_challenge_method = challenge_method, sc_expires_at = now + minutes 10,
      sc_previous_auth_id = previous, sc_state = state, sc_is_headless = False\<rparr>"

definition code_redirect :: "string \<Rightarrow> string \<Rightarrow> string option \<Rightarrow> string" where
  "code_redirect redirect_uri code state =
     redirect_uri @ ''?code='' @ code @ (case state of Some st \<Rightarrow> ''&state='' @ st | None \<Rightarrow> [])"

text \<open>The approval without a question; a scope that is missing becomes \<open>sign_event\<close>.\<close>

definition auto_approve ::
    "timestamp \<Rightarrow> account_draws \<Rightarrow> int \<Rightarrow> pubkey \<Rightarrow> authorize_request \<Rightarrow> int option \<Rightarrow> 'j site
      \<Rightarrow> (oauth_error + authorize_reply) \<times> 'j site" where
  "auto_approve now D tenant_id pubkey q previous s =
     (case code_store now
             (approval_code now tenant_id (ad_code D) pubkey (az_client_id q) (az_redirect_uri q)
                (case az_scope q of Some scope \<Rightarrow> scope | None \<Rightarrow> ''sign_event'')
                (az_code_challenge q) (az_code_challenge_method q) previous (az_state q)) (si_db s) of
        (Inl e, d) \<Rightarrow> (Inl (oauth_error_of e), put_si_db d s)
      | (Inr _, d) \<Rightarrow> (Inr (RedirectTo (code_redirect (az_redirect_uri q) (ad_code D) (az_state q))), put_si_db d s))"

definition page_scope :: "authorize_request \<Rightarrow> string" where
  "page_scope q = (case az_scope q of Some scope \<Rightarrow> scope | None \<Rightarrow> ''policy:full'')"

definition policy_info :: "'j login_world \<Rightarrow> string \<Rightarrow> 'j db \<Rightarrow> token_policy_info" where
  "policy_info W scope d =
     (let policy_slug = (case parse_policy_scope scope of Inr slug \<Rightarrow> slug | Inl _ \<Rightarrow> ''social'')
      in case policy_find_by_slug d policy_slug of
           Inr p \<Rightarrow> token_policy (ltoken W) d p
         | Inl _ \<Rightarrow> \<lparr>tp_slug = policy_slug, tp_display_name = ''App Access'',
                      tp_description = ''Grant access to this application'', tp_permissions = []\<rparr>)"

definition npub_or_hex :: "'j login_world \<Rightarrow> pubkey \<Rightarrow> string" where
  "npub_or_hex W pubkey =
     (case and_then (pk_from_hex (x_perm (lx W)) pubkey) (npub_of W) of Inr npub \<Rightarrow> npub | Inl _ \<Rightarrow> pubkey)"

definition authorize_page_for ::
    "'j consent_world \<Rightarrow> authorize_request \<Rightarrow> pubkey option \<Rightarrow> string option \<Rightarrow> bool \<Rightarrow> 'j db \<Rightarrow> authorize_page" where
  "authorize_page_for W q user_pubkey user_email has_existing d =
     (case user_pubkey of
        Some pubkey \<Rightarrow>
          (let npub = npub_or_hex (cw_login W) pubkey;
               identity = (case user_email of Some e \<Rightarrow> e | None \<Rightarrow> npub)
           in if az_screen q \<noteq> Some ''consent'' \<and> \<not> has_existing then ChooseAccount (az_client_id q) identity
              else Approval
                \<lparr>apg_title = az_client_id q, apg_icon = app_icon W (az_client_id q), apg_name = az_client_id q,
                 apg_identity = identity, apg_npub = npub, apg_client_id = az_client_id q,
                 apg_redirect_uri = az_redirect_uri q, apg_scope = page_scope q,
                 apg_code_challenge = (case az_code_challenge q of Some c \<Rightarrow> c | None \<Rightarrow> []),
                 apg_code_challenge_method = (case az_code_challenge_method q of Some m \<Rightarrow> m | None \<Rightarrow> []),
                 apg_state = (case az_state q of Some st \<Rightarrow> st | None \<Rightarrow> []), apg_pubkey = pubkey,
                 apg_email = (case user_email of Some e \<Rightarrow> e | None \<Rightarrow> []),
                 apg_policy = policy_info (cw_login W) (page_scope q) d\<rparr>)
      | None \<Rightarrow>
          SignIn
            \<lparr>sp_app_name = az_client_id q, sp_icon = app_icon W (az_client_id q), sp_name = az_client_id q,
             sp_forgot_password_url = forgot_password_url_for_auth_host W, sp_client_id = az_client_id q,
             sp_redirect_uri = az_redirect_uri q, sp_scope = page_scope q,
             sp_code_challenge = (case az_code_challenge q of Some c \<Rightarrow> c | None \<Rightarrow> []),
             sp_code_challenge_method = (case az_code_challenge_method q of Some m \<Rightarrow> m | None \<Rightarrow> [])\<rparr>)"

text \<open>
  What a signed-in user gets: silent approval by the handle of an earlier grant, then by a grant for the
  same origin, else the flag for the page.
\<close>

definition silent_approval ::
    "'j login_world \<Rightarrow> timestamp \<Rightarrow> account_draws \<Rightarrow> int \<Rightarrow> pubkey \<Rightarrow> authorize_request \<Rightarrow> 'j site
      \<Rightarrow> (oauth_error + authorize_reply + bool) \<times> 'j site" where
  "silent_approval W now D tenant_id pubkey q s =
     (let d = si_db s; force_consent = (az_prompt q = Some ''consent'');
          previous = Option.bind (az_authorization_handle q) (\<lambda>h. find_id_by_handle now h pubkey (db_oauth d))
      in if is_set previous \<and> \<not> force_consent
         then (case auto_approve now D tenant_id pubkey q previous s of
                 (r, s1) \<Rightarrow> (and_then r (\<lambda>x. Inr (Inl x)), s1))
         else (case extract_origin (url_parse (ltoken W)) (az_redirect_uri q) of
                 Inl e \<Rightarrow> (Inl e, s)
               | Inr redirect_origin \<Rightarrow>
                   (if has_active_for_origin pubkey redirect_origin tenant_id (db_oauth d)
                    then if \<not> force_consent
                         then (case auto_approve now D tenant_id pubkey q None s of
                                 (r, s1) \<Rightarrow> (and_then r (\<lambda>x. Inr (Inl x)), s1))
                         else (Inr (Inr True), s)
                    else (Inr (Inr (is_set previous)), s))))"

definition authorize_get ::
    "'j consent_world \<Rightarrow> registered_client list \<Rightarrow> timestamp \<Rightarrow> account_draws \<Rightarrow> tenant \<Rightarrow> parts \<Rightarrow> authorize_request
      \<Rightarrow> 'j site \<Rightarrow> (oauth_error + authorize_reply) option \<times> 'j site" where
  "authorize_get W clients now D tn rq q s =
     (let tenant_id = tn_id tn; L = cw_login W
      in case validate_redirect_uri clients (az_client_id q) (az_redirect_uri q) tenant_id of
           None \<Rightarrow> (None, s)
         | Some (Inl e) \<Rightarrow>
             (Some (Inl (InvalidRequest (''redirect_uri is not allowed for this client: '' @ repository_error_text e))), s)
         | Some (Inr _) \<Rightarrow>
             (case authorize_user L now tenant_id rq q (si_db s) of
                (user_pubkey, clear_cookie, user_email) \<Rightarrow>
                  (case (case user_pubkey of
                           None \<Rightarrow> (Inr (Inr False), s)
                         | Some pubkey \<Rightarrow> silent_approval L now D tenant_id pubkey q s) of
                     (Inl e, s1) \<Rightarrow> (Some (Inl e), s1)
                   | (Inr (Inl r), s1) \<Rightarrow> (Some (Inr r), s1)
                   | (Inr (Inr has_existing), s1) \<Rightarrow>
                       (Some (Inr (ShowPage
                          (if clear_cookie then Some (format_session_cookie [] 0 (secure_cookies L)) else None)
                          (authorize_page_for W q user_pubkey user_email has_existing (si_db s1)))), s1))))"

section \<open>The approval\<close>

record approve_request =
  pq_client_id :: string
  pq_redirect_uri :: string
  pq_scope :: string
  pq_state :: "string option"
  pq_approved :: bool
  pq_code_challenge :: "string option"
  pq_code_challenge_method :: "string option"

datatype approve_reply = Denied string | Approved string string "string option"

definition authorize_post ::
    "'j login_world \<Rightarrow> timestamp \<Rightarrow> account_draws \<Rightarrow> tenant \<Rightarrow> parts \<Rightarrow> approve_request \<Rightarrow> 'j site
      \<Rightarrow> (oauth_error + approve_reply) \<times> 'j site" where
  "authorize_post W now D tn rq q s =
     (if \<not> pq_approved q then (Inr (Denied (pq_redirect_uri q @ ''?error=access_denied'')), s)
      else (case cookie_user W now (tn_id tn) rq of
              None \<Rightarrow> (Inl OAuthUnauthorized, s)
            | Some user_pubkey \<Rightarrow>
                (case code_store now
                        (approval_code now (tn_id tn) (ad_code D) user_pubkey (pq_client_id q) (pq_redirect_uri q)
                           (pq_scope q) (pq_code_challenge q) (pq_code_challenge_method q) None (pq_state q)) (si_db s) of
                   (Inl e, d) \<Rightarrow> (Inl (oauth_error_of e), put_si_db d s)
                 | (Inr _, d) \<Rightarrow> (Inr (Approved (ad_code D) (pq_redirect_uri q) (pq_state q)), put_si_db d s))))"

section \<open>Login in the popup\<close>

record oauth_login_request =
  ol_email :: string
  ol_password :: string
  ol_client_id :: string
  ol_redirect_uri :: string
  ol_scope :: "string option"
  ol_code_challenge :: "string option"
  ol_code_challenge_method :: "string option"

definition oauth_login ::
    "'j login_world \<Rightarrow> tenant \<Rightarrow> oauth_login_request \<Rightarrow> 'j db \<Rightarrow> oauth_error + string \<times> pubkey" where
  "oauth_login W tn q d =
     (let tenant_id = tn_id tn; email = lower W (ol_email q)
      in and_then (map_err oauth_error_of (find_with_password email tenant_id d)) (\<lambda>found.
         and_then (ok_or OAuthUnauthorized found) (\<lambda>(pubkey, password_hash, email_verified).
         and_then (map_err (\<lambda>_. InvalidRequest ''Password verification failed'')
                     (bcrypt_verify (lx W) (ol_password q) password_hash)) (\<lambda>valid.
           if \<not> valid then Inl OAuthUnauthorized
           else if \<not> email_verified
           then Inl (InvalidRequest (''Please verify your email address before signing in. ''
                       @ ''Check your inbox for the verification link.''))
           else
         and_then (ok_or (InvalidRequest (''Account setup incomplete. ''
                       @ ''Please complete the OAuth flow to finalize your account.''))
                     (find_encrypted_key_for_tenant d pubkey tenant_id)) (\<lambda>encrypted.
         and_then (map_err OAuthEncryption (km_decrypt (lx W) encrypted)) (\<lambda>secret.
         and_then (map_err (\<lambda>e. InvalidRequest (''Invalid secret key bytes: '' @ e)) (sk_from_slice (lx W) secret)) (\<lambda>keys.
         and_then (extract_origin (url_parse (ltoken W)) (ol_redirect_uri q)) (\<lambda>redirect_origin.
         and_then (map_err (\<lambda>e. InvalidRequest (''UCAN generation failed: ''
                              @ (case e of AcInternal m \<Rightarrow> debug_variant ''Internal'' m | _ \<Rightarrow> [])))
                     (Accounts.generate_ucan_token W keys tenant_id email redirect_origin None)) (\<lambda>ucan_token.
           Inr (format_session_cookie ucan_token 86400 (secure_cookies W), pubkey))))))))))"

section \<open>Registration in the popup\<close>

record oauth_register_request =
  or_email :: string
  or_password :: string
  or_client_id :: string
  or_redirect_uri :: string
  or_scope :: "string option"
  or_code_challenge :: "string option"
  or_code_challenge_method :: "string option"
  or_pubkey :: "string option"
  or_nsec :: "string option"
  or_relays :: "string list option"
  or_state :: "string option"

record oauth_register_response =
  orr_email :: string
  orr_pubkey :: pubkey
  orr_device_code :: string

text \<open>A key given, a public key whose secret comes with the exchange, or a generated key.\<close>

definition oauth_registration_key ::
    "'j login_world \<Rightarrow> account_draws \<Rightarrow> oauth_register_request \<Rightarrow> oauth_error + pubkey \<times> seckey option" where
  "oauth_registration_key W D q =
     (case or_nsec q of
        Some nsec \<Rightarrow>
          and_then (map_err (\<lambda>e. InvalidRequest (''Invalid nsec: '' @ e)) (keys_parse (ltoken W) nsec)) (\<lambda>keys.
            Inr (public_key (lx W) keys, Some keys))
      | None \<Rightarrow>
          (case or_pubkey q of
             Some pubkey_hex \<Rightarrow>
               and_then (map_err (\<lambda>e. InvalidRequest (''Invalid pubkey: '' @ e)) (pk_from_hex (x_perm (lx W)) pubkey_hex))
                 (\<lambda>pubkey. Inr (pubkey, None))
           | None \<Rightarrow> Inr (public_key (lx W) (ad_keys D), Some (ad_keys D))))"

definition email_taken :: "string \<Rightarrow> string \<Rightarrow> int \<Rightarrow> 'j db \<Rightarrow> oauth_error + unit" where
  "email_taken message email tenant_id d =
     (if is_set (find_pubkey_by_email email tenant_id d) then Inl (InvalidRequest message) else Inr ())"

definition oauth_registration_checks ::
    "'j login_world \<Rightarrow> account_draws \<Rightarrow> int \<Rightarrow> string \<Rightarrow> oauth_register_request \<Rightarrow> 'j db
      \<Rightarrow> oauth_error + pubkey \<times> string \<times> bytes option" where
  "oauth_registration_checks W D tenant_id email q d =
     and_then (email_taken ''Email already registered'' email tenant_id d) (\<lambda>_.
     and_then (map_err (\<lambda>_. InvalidRequest ''Password hashing failed'') (bcrypt_hash W (ad_salt D) (or_password q)))
       (\<lambda>password_hash.
     and_then (oauth_registration_key W D q) (\<lambda>(pubkey, keys).
       if user_exists pubkey tenant_id d
       then Inl (InvalidRequest ''This Nostr key is already registered. Please sign in instead.'')
       else
     and_then (email_taken ''This email is already registered. Please sign in instead.'' email tenant_id d) (\<lambda>_.
     and_then (case keys of
                 None \<Rightarrow> Inr None
               | Some k \<Rightarrow> and_then (map_err OAuthEncryption (km_encrypt (lx W) k)) (\<lambda>encrypted. Inr (Some encrypted)))
       (\<lambda>encrypted. Inr (pubkey, password_hash, encrypted))))))"

definition oauth_pending ::
    "timestamp \<Rightarrow> account_draws \<Rightarrow> string \<Rightarrow> int \<Rightarrow> pubkey \<Rightarrow> string \<Rightarrow> string \<Rightarrow> bytes option \<Rightarrow> oauth_register_request
      \<Rightarrow> store_code_registration_params" where
  "oauth_pending now D device_code tenant_id pubkey email password_hash encrypted q =
     \<lparr>sr_tenant_id = tenant_id, sr_code = ad_code D, sr_user_pubkey = pubkey, sr_client_id = or_client_id q,
      sr_redirect_uri = or_redirect_uri q,
      sr_scope = (case or_scope q of Some scope \<Rightarrow> scope | None \<Rightarrow> ''sign_event''),
      sr_code_challenge = or_code_challenge q, sr_code_challenge_method = or_code_challenge_method q,
      sr_expires_at = now + hours 24, sr_pending_email = email, sr_pending_password_hash = password_hash,
      sr_pending_email_verification_token = ad_token D, sr_pending_encrypted_secret = encrypted,
      sr_state = or_state q, sr_device_code = Some device_code, sr_is_headless = False\<rparr>"

definition oauth_register ::
    "'j login_world \<Rightarrow> timestamp \<Rightarrow> account_draws \<Rightarrow> string \<Rightarrow> tenant \<Rightarrow> parts \<Rightarrow> oauth_register_request \<Rightarrow> 'j site
      \<Rightarrow> (oauth_error + oauth_register_response) \<times> 'j site" where
  "oauth_register W now D device_code tn rq q s0 =
     (let tenant_id = tn_id tn; email = lower W (or_email q)
      in case allow_route W now ''oauth_register'' tenant_id rq (Some email) s0 of
           (False, s) \<Rightarrow> (Inl TooManyRequests, s)
         | (True, s) \<Rightarrow>
             (case oauth_registration_checks W D tenant_id email q (si_db s) of
                Inl e \<Rightarrow> (Inl e, s)
              | Inr (pubkey, password_hash, encrypted) \<Rightarrow>
                  (case code_store_with_pending_registration now
                          (oauth_pending now D device_code tenant_id pubkey email password_hash encrypted q) (si_db s) of
                     (Inl e, d) \<Rightarrow> (Inl (oauth_error_of e), put_si_db d s)
                   | (Inr _, d) \<Rightarrow>
                       (Inr \<lparr>orr_email = email, orr_pubkey = pubkey, orr_device_code = device_code\<rparr>,
                        send_mail D (VerificationMail email (ad_token D)) (put_si_db d s)))))"

section \<open>Polling\<close>

text \<open>
  The code of a verified registration waits in Redis. The arguments say whether Redis is configured and
  whether the read and the deletion succeed; a failed deletion is ignored.
\<close>

datatype poll_reply = PollCode string | PollPending

definition device_code_ok :: "string \<Rightarrow> bool" where
  "device_code_ok code \<longleftrightarrow>
     length code \<le> 128 \<and> list_all (\<lambda>c. ascii_alphanumeric c \<or> c = CHR ''-'' \<or> c = CHR ''_'') code"

definition waiting_code :: "timestamp \<Rightarrow> string \<Rightarrow> 'j site \<Rightarrow> string option" where
  "waiting_code now key s =
     (case si_polls s key of
        Some (code, expires) \<Rightarrow> if now div 1000000 < expires then Some code else None
      | None \<Rightarrow> None)"

definition poll ::
    "timestamp \<Rightarrow> bool \<Rightarrow> bool \<Rightarrow> bool \<Rightarrow> string \<Rightarrow> 'j site \<Rightarrow> (oauth_error + poll_reply) \<times> 'j site" where
  "poll now configured get_ok del_ok device_code s =
     (if \<not> device_code_ok device_code then (Inl (InvalidRequest ''Invalid device_code parameter''), s)
      else if \<not> configured \<or> \<not> get_ok then (Inl (ServerError ''Service temporarily unavailable''), s)
      else (case waiting_code now (poll_key device_code) s of
              Some code \<Rightarrow>
                (Inr (PollCode code),
                 if del_ok then s\<lparr>si_polls := (si_polls s)(poll_key device_code := None)\<rparr> else s)
            | None \<Rightarrow> (Inr PollPending, s)))"

section \<open>nostr-login\<close>

record nostr_connect_params =
  nc_relay :: string
  nc_secret :: string
  nc_perms :: "string option"
  nc_name :: "string option"
  nc_url :: "string option"
  nc_image :: "string option"

fun set_connect_param :: "string \<Rightarrow> string \<Rightarrow> nostr_connect_params \<Rightarrow> nostr_connect_params" where
  "set_connect_param key value p =
     (if key = ''relay'' then p\<lparr>nc_relay := value\<rparr>
      else if key = ''secret'' then p\<lparr>nc_secret := value\<rparr>
      else if key = ''perms'' then p\<lparr>nc_perms := Some value\<rparr>
      else if key = ''name'' then p\<lparr>nc_name := Some value\<rparr>
      else if key = ''url'' then p\<lparr>nc_url := Some value\<rparr>
      else if key = ''image'' then p\<lparr>nc_image := Some value\<rparr>
      else p)"

fun connect_query ::
    "(string \<Rightarrow> string + string) \<Rightarrow> string list \<Rightarrow> nostr_connect_params \<Rightarrow> oauth_error + nostr_connect_params" where
  "connect_query decode [] p = Inr p"
| "connect_query decode (param # params) p =
     (case split_once (CHR ''='') param of
        None \<Rightarrow> connect_query decode params p
      | Some (key, value) \<Rightarrow>
          and_then (map_err (\<lambda>e. InvalidRequest (''Invalid URL encoding: '' @ e)) (decode value)) (\<lambda>decoded.
            connect_query decode params (set_connect_param key decoded p)))"

definition parse_nostrconnect_uri ::
    "(string \<Rightarrow> string + string) \<Rightarrow> string \<Rightarrow> oauth_error + string \<times> nostr_connect_params" where
  "parse_nostrconnect_uri decode uri =
     and_then (ok_or (InvalidRequest ''Invalid nostrconnect URI'') (strip_prefix ''nostrconnect://'' uri)) (\<lambda>rest.
       case split_on (CHR ''?'') rest of
         [client_pubkey, query] \<Rightarrow>
           (if length client_pubkey \<noteq> 64 \<or> \<not> list_all is_ascii_hexdigit client_pubkey
            then Inl (InvalidRequest ''Invalid client public key format'')
            else and_then
              (connect_query decode (split_on (CHR ''&'') query)
                 \<lparr>nc_relay = [], nc_secret = [], nc_perms = None, nc_name = None, nc_url = None, nc_image = None\<rparr>) (\<lambda>p.
              if nc_relay p = [] \<or> nc_secret p = []
              then Inl (InvalidRequest ''Missing required params: relay and secret'')
              else if \<not> starts_with (nc_relay p) ''wss://'' \<and> \<not> starts_with (nc_relay p) ''ws://''
              then Inl (InvalidRequest ''Invalid relay URL'')
              else Inr (client_pubkey, p)))
       | _ \<Rightarrow> Inl (InvalidRequest ''Missing query params''))"

record connect_page =
  cg_app_name :: string
  cg_app_icon :: string
  cg_permissions_raw :: string
  cg_relay :: string
  cg_client_pubkey :: string
  cg_secret :: string
  cg_perms :: string

definition connect_get :: "'j consent_world \<Rightarrow> string \<Rightarrow> oauth_error + connect_page" where
  "connect_get W uri =
     and_then (parse_nostrconnect_uri (url_decode W) uri) (\<lambda>(client_pubkey, p).
       let app_name = (case nc_name p of Some n \<Rightarrow> n | None \<Rightarrow> ''Unknown App'')
       in Inr \<lparr>cg_app_name = app_name, cg_app_icon = app_icon W app_name,
               cg_permissions_raw = (case nc_perms p of Some perms \<Rightarrow> perms | None \<Rightarrow> ''sign_event''),
               cg_relay = nc_relay p, cg_client_pubkey = client_pubkey, cg_secret = nc_secret p,
               cg_perms = (case nc_perms p of Some perms \<Rightarrow> perms | None \<Rightarrow> [])\<rparr>)"

record connect_approval_form =
  cn_client_pubkey :: string
  cn_relay :: string
  cn_secret :: string
  cn_perms :: "string option"
  cn_approved :: bool

datatype connect_reply = ConnectDenied | Connected

text \<open>Session, key and derived bunker key; the inner option is the derivation running out of counters.\<close>

definition connect_material ::
    "'j consent_world \<Rightarrow> timestamp \<Rightarrow> string \<Rightarrow> int \<Rightarrow> parts \<Rightarrow> connect_approval_form \<Rightarrow> 'j db
      \<Rightarrow> (oauth_error + pubkey \<times> string \<times> seckey) option" where
  "connect_material W now salt tenant_id rq form d =
     (let L = cw_login W
      in case and_then (map_err (\<lambda>_. OAuthUnauthorized) (extract_user_from_token (lhttp L) now rq tenant_id)) (\<lambda>user_pubkey.
              and_then (ok_or OAuthUnauthorized (find_encrypted_key_by_tenant d tenant_id user_pubkey)) (\<lambda>encrypted.
              and_then (map_err (\<lambda>e. ServerError (''Failed to hash secret: '' @ e)) (bcrypt_hash_10 W salt (cn_secret form)))
                (\<lambda>secret_hash. Inr (user_pubkey, encrypted, secret_hash)))) of
           Inl e \<Rightarrow> Some (Inl e)
         | Inr (user_pubkey, encrypted, secret_hash) \<Rightarrow>
             map_option (\<lambda>r. and_then r (\<lambda>bunker_keys. Inr (user_pubkey, secret_hash, bunker_keys)))
               (unlock_for_token (ltoken L) encrypted secret_hash))"

definition connect_row ::
    "'j login_world \<Rightarrow> timestamp \<Rightarrow> string \<Rightarrow> int \<Rightarrow> pubkey \<Rightarrow> string \<Rightarrow> pubkey \<Rightarrow> string \<Rightarrow> connect_approval_form
      \<Rightarrow> create_oauth_params" where
  "connect_row W now handle tenant_id user_pubkey secret_hash bunker client_prefix form =
     \<lparr>cp_tenant_id = tenant_id, cp_user_pubkey = user_pubkey,
      cp_redirect_origin = ''nostrconnect://'' @ cn_client_pubkey form,
      cp_client_id = ''nostr-login-'' @ client_prefix, cp_bunker_public_key = bunker, cp_secret_hash = secret_hash,
      cp_relays = json_strings W [cn_relay form], cp_policy_id = None,
      cp_client_pubkey = Some (cn_client_pubkey form), cp_authorization_handle = Some handle,
      cp_handle_expires_at = now + days 30\<rparr>"

definition connect_post ::
    "'j consent_world \<Rightarrow> timestamp \<Rightarrow> account_draws \<Rightarrow> string \<Rightarrow> tenant \<Rightarrow> parts \<Rightarrow> connect_approval_form \<Rightarrow> 'j site
      \<Rightarrow> (oauth_error + connect_reply) option \<times> 'j site" where
  "connect_post W now D handle tn rq form s =
     (let tenant_id = tn_id tn; L = cw_login W
      in if \<not> is_set (str_slice (cn_client_pubkey form) 0 8) then (None, s)
         else if \<not> cn_approved form then (Some (Inr ConnectDenied), s)
         else (case connect_material W now (ad_salt D) tenant_id rq form (si_db s) of
                 None \<Rightarrow> (None, s)
               | Some (Inl e) \<Rightarrow> (Some (Inl e), s)
               | Some (Inr (user_pubkey, secret_hash, bunker_keys)) \<Rightarrow>
                   (case str_slice (cn_client_pubkey form) 0 12 of
                      None \<Rightarrow> (None, s)
                    | Some client_prefix \<Rightarrow>
                        (let bunker = public_key (lx L) bunker_keys
                         in case oauth_create now
                                   (connect_row L now handle tenant_id user_pubkey secret_hash bunker client_prefix form)
                                   (si_db s) of
                              (Inl e, d) \<Rightarrow> (Some (Inl (oauth_error_of e)), put_si_db d s)
                            | (Inr _, d) \<Rightarrow>
                                (let s1 = put_si_db d s; a = si_acc s1; sv = ac_server a
                                 in (Some (Inr Connected),
                                     s1\<lparr>si_acc := a\<lparr>ac_server :=
                                       push_command D (Upsert bunker tenant_id True)
                                         (sv\<lparr>sv_oauth_created := sv_oauth_created sv + 1\<rparr>)\<rparr>\<rparr>))))))"

end
