(* ===== verification/Runs.thy ===== *)
theory Runs
  imports Main
begin

text \<open>
  Runs of requests. A run is a fold of the function that serves one request; the two locales say what
  carries over from a single request to every run: a condition no request can undo lasts, and an entry
  that has to be earned was earned.
\<close>

section \<open>Conditions that last\<close>

text \<open>A condition on the state that requests of a kind keep, whatever else they do.\<close>

locale lasting =
  fixes serve :: "'r \<Rightarrow> 's \<Rightarrow> 's" and holds :: "'s \<Rightarrow> bool" and admissible :: "'r \<Rightarrow> bool"
  assumes serve_keeps: "holds s \<Longrightarrow> admissible r \<Longrightarrow> holds (serve r s)"
begin

lemma run_keeps: "holds s \<Longrightarrow> \<forall>r\<in>set rs. admissible r \<Longrightarrow> holds (fold serve rs s)"
  by (induction rs arbitrary: s) (simp_all add: serve_keeps)

end

section \<open>Entries that have to be earned\<close>

text \<open>
  A store that requests add entries to, where the request that adds an entry has to earn it in the state it
  finds. Then in any run of requests every entry that was not there before was earned at some point.
\<close>

locale earned_store = lasting serve sound "\<lambda>_. True"
  for serve :: "'r \<Rightarrow> 's \<Rightarrow> 's" and sound :: "'s \<Rightarrow> bool" +
  fixes stored :: "'s \<Rightarrow> 'c set" and earned :: "'r \<Rightarrow> 's \<Rightarrow> 'c \<Rightarrow> bool"
  assumes new_earned: "sound s \<Longrightarrow> c \<in> stored (serve r s) \<Longrightarrow> c \<notin> stored s \<Longrightarrow> earned r s c"
begin

lemma run_earned:
  assumes "sound s" and "c \<in> stored (fold serve rs s)" and "c \<notin> stored s"
  shows "\<exists>before r after. rs = before @ r # after \<and> earned r (fold serve before s) c"
  using assms(2)
proof (induction rs rule: rev_induct)
  case Nil
  then show ?case using assms(3) by simp
next
  case (snoc r rs)
  show ?case
  proof (cases "c \<in> stored (fold serve rs s)")
    case True
    with snoc obtain before r' after where "rs = before @ r' # after" "earned r' (fold serve before s) c" by blast
    then show ?thesis by (intro exI [of _ before] exI [of _ r'] exI [of _ "after @ [r]"]) simp
  next
    case False
    then have "earned r (fold serve rs s) c" using snoc.prems new_earned run_keeps [OF assms(1)] by simp
    then show ?thesis by (intro exI [of _ rs] exI [of _ r] exI [of _ "[]"]) simp
  qed
qed

end

end
