(* ===== verification/ClaimFlow.thy ===== *)
theory ClaimFlow
  imports Accounts
begin

text \<open>
  \<open>api/src/api/http/claim.rs\<close>: the owner of a preloaded account follows a claim link, chooses an address
  and a password, and is signed in. A page is the record of the texts its template shows; the template
  around them is constant. An outcome of \<open>None\<close> is a panic.
\<close>

section \<open>Escaping\<close>

text \<open>\<open>str::replace\<close> of one ASCII character.\<close>

definition replace_char :: "char \<Rightarrow> string \<Rightarrow> string \<Rightarrow> string" where
  "replace_char c r s = concat (map (\<lambda>x. if x = c then r else [x]) s)"

definition html_escape :: "string \<Rightarrow> string" where
  "html_escape s =
     replace_char (CHR 0x27) ''&#39;''
       (replace_char (CHR 0x22) ''&quot;''
         (replace_char (CHR ''>'') ''&gt;''
           (replace_char (CHR ''<'') ''&lt;''
             (replace_char (CHR ''&'') ''&amp;'' s))))"

section \<open>Errors\<close>

datatype claim_error =
    ClInvalidToken
  | ClUserNotFound
  | ClPasswordMismatch
  | ClWeakPassword
  | ClInvalidEmail
  | ClEmailExists
  | ClInternal string

text \<open>Every error is a page with status 400; its title and its message.\<close>

fun claim_error_response :: "claim_error \<Rightarrow> nat \<times> string \<times> string" where
  "claim_error_response ClInvalidToken =
     (400, ''Invalid or Expired Link'',
      ''This claim link is invalid or has already been used. Please contact support for a new link.'')"
| "claim_error_response ClUserNotFound =
     (400, ''Account Not Found'',
      ''The account associated with this link could not be found. Please contact support.'')"
| "claim_error_response ClPasswordMismatch =
     (400, ''Passwords Don'' @ [CHR 0x27] @ ''t Match'',
      ''The passwords you entered don'' @ [CHR 0x27] @ ''t match. Please go back and try again.'')"
| "claim_error_response ClWeakPassword =
     (400, ''Password Too Short'', ''Your password must be at least 8 characters. Please go back and try again.'')"
| "claim_error_response ClInvalidEmail = (400, ''Invalid Email'', ''Please enter a valid email address.'')"
| "claim_error_response ClEmailExists =
     (400, ''Email Already Registered'',
      ''This email address is already associated with another account. Please use a different email or contact support.'')"
| "claim_error_response (ClInternal _) =
     (400, ''Something Went Wrong'', ''An unexpected error occurred. Please try again or contact support.'')"

definition claim_database_error :: "repository_error \<Rightarrow> claim_error" where
  "claim_database_error e = ClInternal (''Database error: '' @ repository_error_text e)"

section \<open>The form\<close>

record claim_form_page =
  cp_display_name :: string
  cp_username :: string
  cp_token :: string
  cp_email :: string

definition shown_name :: "string option \<Rightarrow> string option \<Rightarrow> string" where
  "shown_name username display_name =
     (case display_name of Some n \<Rightarrow> n | None \<Rightarrow> (case username of Some u \<Rightarrow> u | None \<Rightarrow> []))"

definition claim_get ::
    "timestamp \<Rightarrow> tenant \<Rightarrow> string \<Rightarrow> string option \<Rightarrow> 'j site \<Rightarrow> claim_error + claim_form_page" where
  "claim_get now tn tok email s =
     and_then (ok_or ClInvalidToken (claim_find_valid now tok (ac_claims (si_acc s)))) (\<lambda>claim.
     and_then (ok_or ClUserNotFound (get_claim_info (ct_user_pubkey claim) (tn_id tn) (si_db s))) (\<lambda>(username, display_name).
       Inr \<lparr>cp_display_name = html_escape (shown_name username display_name),
            cp_username = html_escape (case username of Some u \<Rightarrow> u | None \<Rightarrow> []),
            cp_token = html_escape tok,
            cp_email = html_escape (case email of Some e \<Rightarrow> e | None \<Rightarrow> [])\<rparr>))"

section \<open>Claiming\<close>

record claim_form =
  cf_token :: string
  cf_email :: string
  cf_password :: string
  cf_password_confirmation :: string

record claim_success_page =
  cs_display_name :: string
  cs_admin_base_url :: string

text \<open>The checks before anything is written, with the hash of the password.\<close>

definition claim_checks ::
    "'j login_world \<Rightarrow> timestamp \<Rightarrow> string \<Rightarrow> int \<Rightarrow> claim_form \<Rightarrow> string \<Rightarrow> 'j site
      \<Rightarrow> claim_error + claim_token \<times> string" where
  "claim_checks W now salt tenant_id form email s =
     and_then (ok_or ClInvalidToken (claim_find_valid now (cf_token form) (ac_claims (si_acc s)))) (\<lambda>claim.
       if cf_password form \<noteq> cf_password_confirmation form then Inl ClPasswordMismatch
       else if length (cf_password form) < 8 then Inl ClWeakPassword
       else if CHR ''@'' \<notin> set email \<or> CHR ''.'' \<notin> set email then Inl ClInvalidEmail
       else if email_exists email tenant_id (si_db s) then Inl ClEmailExists
       else and_then (map_err (\<lambda>e. ClInternal (''Password hashing failed: '' @ e)) (bcrypt_hash W salt (cf_password form)))
              (\<lambda>password_hash. Inr (claim, password_hash)))"

text \<open>The session and the page that follow when the account is claimed.\<close>

definition claim_session ::
    "'j login_world \<Rightarrow> string option \<Rightarrow> int \<Rightarrow> pubkey \<Rightarrow> string \<Rightarrow> 'j db \<Rightarrow> claim_error + string \<times> claim_success_page" where
  "claim_session W admin_base_url_env tenant_id pubkey email d =
     and_then (map_err (\<lambda>e. ClInternal (''Invalid pubkey: '' @ e)) (pk_from_hex (x_perm (lx W)) pubkey)) (\<lambda>user_pubkey.
     and_then (map_err (\<lambda>e. ClInternal (''Failed to generate session: '' @ e))
                 (generate_server_signed_ucan (ltoken W) user_pubkey tenant_id email ''claim'' None False None)) (\<lambda>tok.
       let (username, display_name) = (case get_claim_info pubkey tenant_id d of Some i \<Rightarrow> i | None \<Rightarrow> (None, None))
       in Inr (format_session_cookie tok 604800 (secure_cookies W),
               \<lparr>cs_display_name = html_escape (shown_name username display_name),
                cs_admin_base_url =
                  html_escape (case admin_base_url_env of Some url \<Rightarrow> url | None \<Rightarrow> ''https://admin.synvya.com'')\<rparr>)))"

definition mark_claimed :: "timestamp \<Rightarrow> string \<Rightarrow> 'j site \<Rightarrow> 'j site" where
  "mark_claimed now tok s =
     s\<lparr>si_acc := (si_acc s)\<lparr>ac_claims := snd (claim_mark_used now tok (ac_claims (si_acc s)))\<rparr>\<rparr>"

definition claim_post ::
    "'j login_world \<Rightarrow> string option \<Rightarrow> timestamp \<Rightarrow> string \<Rightarrow> tenant \<Rightarrow> claim_form \<Rightarrow> 'j site
      \<Rightarrow> (claim_error + string \<times> claim_success_page) option \<times> 'j site" where
  "claim_post W admin_base_url_env now salt tn form s =
     (let tenant_id = tn_id tn; email = lower W (cf_email form)
      in case and_then (claim_checks W now salt tenant_id form email s) (\<lambda>(claim, password_hash).
              and_then (map_err claim_database_error
                          (claim_account now (ct_user_pubkey claim) tenant_id email password_hash (si_db s))) (\<lambda>d.
                Inr (ct_user_pubkey claim, d))) of
           Inl e \<Rightarrow> (Some (Inl e), s)
         | Inr (pubkey, d) \<Rightarrow>
             (let s1 = mark_claimed now (cf_token form) (put_si_db d s)
              in if \<not> is_set (str_slice pubkey 0 8) then (None, s1)
                 else (Some (claim_session W admin_base_url_env tenant_id pubkey email (si_db s1)), s1)))"

end
