(* ===== verification/AdminApi.thy ===== *)
theory AdminApi
  imports TeamsApi Customers ClaimFlow
begin

text \<open>
  The operator endpoints of \<open>api/src/api/http/admin.rs\<close>: administrator tokens, preloaded accounts and their
  claim links, look-ups, revocation, the support agents with their temporary access to a team, deletion of
  a login and the merchants' orders apps. Two roles guard them, see \<open>is_full_admin\<close> and
  \<open>is_support_admin\<close>. The caller's key is hex text of 64 characters, so cutting it for a log line does not
  panic. Drawn values are arguments; an outcome of \<open>None\<close> is a panic.
\<close>

section \<open>Parameters\<close>

text \<open>
  \<open>admin_ucan\<close> builds, signs and encodes a token with the server's key for an audience, with a lifetime in
  seconds; \<open>npub_decode\<close> is \<open>PublicKey::from_bech32\<close>, \<open>key_parse\<close> is \<open>PublicKey::parse\<close>, \<open>sql_lower\<close> is
  \<open>LOWER\<close>, \<open>alphanumeric_part\<close> keeps the alphanumeric characters of a text, \<open>string_array\<close> parses a JSON
  array of strings, \<open>relay_profile\<close> is the profile that relays report, \<open>claim_mail_sent\<close> the outcome of
  handing a claim mail to the mail service.
\<close>

datatype admin_facts = AdminFacts int | PreloadFacts int pubkey

record web_url =
  wu_scheme :: string
  wu_host :: "string option"
  wu_path :: string
  wu_query :: "string option"
  wu_fragment :: "string option"
  wu_username :: string
  wu_password :: "string option"
  wu_origin :: string

record claim_mail =
  cm_to :: string
  cm_url :: string
  cm_name :: "string option"
  cm_picture :: "string option"

record 'j admin_world =
  dw_team :: "'j team_world"
  dw_names :: "'j names_world"
  dw_tenants :: tenant_env
  server_nsec_env :: "string option"
  claim_app_url_env :: "string option"
  admin_ucan :: "seckey \<Rightarrow> string \<Rightarrow> int \<Rightarrow> admin_facts \<Rightarrow> string + string"
  rfc3339_text :: "timestamp \<Rightarrow> string"
  npub_decode :: "string \<Rightarrow> string + pubkey"
  key_parse :: "string \<Rightarrow> string + pubkey"
  sql_lower :: "string \<Rightarrow> string"
  alphanumeric_part :: "string \<Rightarrow> string"
  string_array :: "string \<Rightarrow> string list option"
  relay_profile :: "pubkey \<Rightarrow> profile option"
  claim_mail_sent :: "claim_mail \<Rightarrow> string + unit"
  web_parse :: "string \<Rightarrow> web_url option"

abbreviation dtoken :: "'j admin_world \<Rightarrow> 'j token_world" where
  "dtoken W \<equiv> tmw_token (dw_team W)"

abbreviation dx :: "'j admin_world \<Rightarrow> 'j ext" where
  "dx W \<equiv> mx (dw_team W)"

definition full_admin :: "'j admin_world \<Rightarrow> ucan_auth \<Rightarrow> bool" where
  "full_admin W auth = is_full_admin (tmw_auth (dw_team W)) auth"

definition support_admin :: "'j admin_world \<Rightarrow> ucan_auth \<Rightarrow> 'j site \<Rightarrow> bool" where
  "support_admin W auth s = is_support_admin (tmw_auth (dw_team W)) (ac_redis (si_acc s)) auth"

definition require :: "bool \<Rightarrow> string \<Rightarrow> api_error + unit" where
  "require granted message = (if granted then Inr () else Inl (ApiForbidden message))"

definition get_server_keys :: "'j admin_world \<Rightarrow> api_error + seckey" where
  "get_server_keys W =
     and_then (ok_or (ApiInternal ''SERVER_NSEC not configured'') (server_nsec_env W)) (\<lambda>nsec.
       map_err (\<lambda>e. ApiInternal (''Invalid SERVER_NSEC: '' @ e)) (keys_parse (dtoken W) nsec))"

section \<open>Administrator tokens\<close>

definition ADMIN_TOKEN_EXPIRY_DAYS :: int where "ADMIN_TOKEN_EXPIRY_DAYS = 30"
definition PRELOAD_TOKEN_EXPIRY_DAYS :: int where "PRELOAD_TOKEN_EXPIRY_DAYS = 30"

definition generate_admin_ucan :: "'j admin_world \<Rightarrow> pubkey \<Rightarrow> int \<Rightarrow> seckey \<Rightarrow> api_error + string" where
  "generate_admin_ucan W admin_pubkey tenant_id server_keys =
     map_err ApiInternal
       (admin_ucan W server_keys (nostr_pubkey_to_did (dtoken W) admin_pubkey) (ADMIN_TOKEN_EXPIRY_DAYS * 24 * 3600)
          (AdminFacts tenant_id))"

definition get_admin_token ::
    "'j admin_world \<Rightarrow> timestamp \<Rightarrow> int \<Rightarrow> ucan_auth \<Rightarrow> api_error + string \<times> string" where
  "get_admin_token W now tenant_id auth =
     and_then (require (full_admin W auth) ''Admin access required'') (\<lambda>_.
     and_then (get_server_keys W) (\<lambda>server_keys.
     and_then (map_err (\<lambda>e. ApiBadRequest (''Invalid pubkey: '' @ e)) (pk_from_hex (x_perm (dx W)) (ua_pubkey auth)))
       (\<lambda>user_pubkey.
     and_then (generate_admin_ucan W user_pubkey tenant_id server_keys) (\<lambda>tok.
       Inr (tok, rfc3339_text W (now + days ADMIN_TOKEN_EXPIRY_DAYS))))))"

section \<open>Preloaded accounts\<close>

definition generate_preload_ucan ::
    "'j admin_world \<Rightarrow> pubkey \<Rightarrow> int \<Rightarrow> seckey \<Rightarrow> pubkey \<Rightarrow> api_error + string" where
  "generate_preload_ucan W user_pubkey tenant_id server_keys admin_pubkey =
     map_err ApiInternal
       (admin_ucan W server_keys (nostr_pubkey_to_did (dtoken W) user_pubkey) (PRELOAD_TOKEN_EXPIRY_DAYS * 24 * 3600)
          (PreloadFacts tenant_id admin_pubkey))"

record preload_user_request =
  pu_vine_id :: string
  pu_username :: string
  pu_display_name :: "string option"

text \<open>
  The claim of the name on the name server is best effort; its outcome is only logged, and nothing here
  depends on it.
\<close>

definition preload_user ::
    "'j admin_world \<Rightarrow> timestamp \<Rightarrow> account_draws \<Rightarrow> int \<Rightarrow> ucan_auth \<Rightarrow> preload_user_request \<Rightarrow> 'j site
      \<Rightarrow> (api_error + pubkey \<times> string) \<times> 'j site" where
  "preload_user W now D tenant_id auth q s =
     (case and_then (require (full_admin W auth) ''Admin access required'') (\<lambda>_. get_server_keys W) of
        Inl e \<Rightarrow> (Inl e, s)
      | Inr server_keys \<Rightarrow>
          (case find_pubkey_by_vine_id (pu_vine_id q) tenant_id (si_db s) of
             Some existing \<Rightarrow>
               (and_then (map_err (\<lambda>e. ApiInternal (''Invalid stored pubkey: '' @ e))
                            (pk_from_hex (x_perm (dx W)) existing)) (\<lambda>user_pubkey.
                and_then (generate_preload_ucan W user_pubkey tenant_id server_keys (ua_pubkey auth)) (\<lambda>tok.
                  Inr (existing, tok))), s)
           | None \<Rightarrow>
               (if is_set (find_pubkey_by_username (pu_username q) tenant_id (si_db s))
                then (Inl (ApiConflict (''User with username '' @ pu_username q @ '' already exists'')), s)
                else
                  (let pubkey = public_key (dx W) (ad_keys D)
                   in case and_then (map_err (\<lambda>e. ApiInternal (''Failed to encrypt secret: '' @ e))
                                       (km_encrypt (dx W) (ad_keys D))) (\<lambda>encrypted.
                             map_err api_error_of
                               (create_preloaded_user now pubkey tenant_id (pu_vine_id q) (pu_username q)
                                  (pu_display_name q) encrypted (si_db s))) of
                        Inl e \<Rightarrow> (Inl e, s)
                      | Inr d \<Rightarrow>
                          (and_then (generate_preload_ucan W pubkey tenant_id server_keys (ua_pubkey auth)) (\<lambda>tok.
                             Inr (pubkey, tok)), put_si_db d s)))))"

definition get_user_token ::
    "'j admin_world \<Rightarrow> int \<Rightarrow> ucan_auth \<Rightarrow> string \<Rightarrow> 'j db \<Rightarrow> api_error + string" where
  "get_user_token W tenant_id auth pubkey d =
     and_then (require (full_admin W auth) ''Admin access required'') (\<lambda>_.
     and_then (map_err (\<lambda>e. ApiBadRequest (''Invalid pubkey: '' @ e)) (pk_from_hex (x_perm (dx W)) pubkey)) (\<lambda>user_pubkey.
     and_then (case Users.is_unclaimed pubkey tenant_id d of
                 None \<Rightarrow> Inl (ApiNotFound (''User with pubkey '' @ take 8 pubkey @ '' not found''))
               | Some False \<Rightarrow> Inl (ApiForbidden ''Cannot generate token for claimed user'')
               | Some True \<Rightarrow> Inr ()) (\<lambda>_.
     and_then (get_server_keys W) (\<lambda>server_keys.
       generate_preload_ucan W user_pubkey tenant_id server_keys (ua_pubkey auth)))))"

section \<open>Claim links\<close>

definition claim_url :: "'j admin_world \<Rightarrow> string \<Rightarrow> string" where
  "claim_url W tok =
     (case claim_app_url_env W of Some url \<Rightarrow> url | None \<Rightarrow> ''http://localhost:3000'') @ ''/api/claim?token='' @ tok"

definition get_claim_token ::
    "'j admin_world \<Rightarrow> timestamp \<Rightarrow> int \<Rightarrow> ucan_auth \<Rightarrow> string \<Rightarrow> 'j site \<Rightarrow> api_error + (string \<times> string) option" where
  "get_claim_token W now tenant_id auth pubkey s =
     and_then (require (support_admin W auth s) ''Admin access required'') (\<lambda>_.
       Inr (map_option (\<lambda>c. (claim_url W (ct_token c), rfc3339_text W (ct_expires_at c)))
              (claim_find_valid_by_user_pubkey now pubkey tenant_id (ac_claims (si_acc s)))))"

definition put_claims :: "claim_token table \<Rightarrow> 'j site \<Rightarrow> 'j site" where
  "put_claims t s = s\<lparr>si_acc := (si_acc s)\<lparr>ac_claims := t\<rparr>\<rparr>"

definition create_claim_token ::
    "'j admin_world \<Rightarrow> timestamp \<Rightarrow> account_draws \<Rightarrow> int \<Rightarrow> ucan_auth \<Rightarrow> string \<Rightarrow> 'j site
      \<Rightarrow> (api_error + string \<times> string) \<times> 'j site" where
  "create_claim_token W now D tenant_id auth vine_id s =
     (case and_then (require (support_admin W auth s) ''Admin access required'') (\<lambda>_.
           and_then (ok_or (ApiNotFound (''User with vine_id '' @ vine_id @ '' not found''))
                       (find_pubkey_by_vine_id vine_id tenant_id (si_db s))) (\<lambda>user_pubkey.
             if Users.is_unclaimed user_pubkey tenant_id (si_db s) \<noteq> Some True
             then Inl (ApiConflict ''User has already claimed their account'') else Inr user_pubkey)) of
        Inl e \<Rightarrow> (Inl e, s)
      | Inr user_pubkey \<Rightarrow>
          (case claim_create (db_users (si_db s)) now (ad_token D) user_pubkey (Some (ua_pubkey auth)) tenant_id
                  (ac_claims (si_acc s)) of
             (Inl e, t) \<Rightarrow> (Inl (api_error_of e), put_claims t s)
           | (Inr c, t) \<Rightarrow>
               (Inr (claim_url W (ad_token D), rfc3339_text W (ct_expires_at c)), put_claims t s)))"

definition BATCH_CLAIM_LIMIT :: nat where "BATCH_CLAIM_LIMIT = 100"

record batch_entry =
  be_vine_id :: string
  be_claim_url :: string
  be_expires_at :: string

record batch_response =
  bt_tokens :: "batch_entry list"
  bt_skipped :: "(string \<times> string) list"
  bt_errors :: "string list"

text \<open>\<open>filter(|id| seen.insert(id.clone()))\<close>: the first occurrence of every id.\<close>

fun first_occurrences :: "string list \<Rightarrow> string list \<Rightarrow> string list" where
  "first_occurrences seen [] = []"
| "first_occurrences seen (x # xs) =
     (if x \<in> set seen then first_occurrences seen xs else x # first_occurrences (x # seen) xs)"

definition batch_claim_url :: "'j admin_world \<Rightarrow> string option \<Rightarrow> string \<Rightarrow> string" where
  "batch_claim_url W delivery_email tok =
     claim_url W tok @ (case delivery_email of Some e \<Rightarrow> ''&email='' @ url_encode (dtoken W) e | None \<Rightarrow> [])"

text \<open>The mail of one link: the text of a failure, if any. A mail service that is down is a failure too.\<close>

definition batch_mail ::
    "'j admin_world \<Rightarrow> bool \<Rightarrow> string option \<Rightarrow> string \<Rightarrow> pubkey \<Rightarrow> string \<Rightarrow> string list" where
  "batch_mail W mail_service delivery_email vine_id user_pubkey url =
     (case delivery_email of
        None \<Rightarrow> []
      | Some email \<Rightarrow>
          (if mail_service
           then (let p = relay_profile W user_pubkey
                 in case claim_mail_sent W \<lparr>cm_to = email, cm_url = url, cm_name = Option.bind p pr_display_name,
                                            cm_picture = Option.bind p pr_picture\<rparr> of
                      Inl e \<Rightarrow> [''vine_id '' @ vine_id @ '': email delivery failed: '' @ e]
                    | Inr _ \<Rightarrow> [])
           else [''vine_id '' @ vine_id @ '': email service unavailable'']))"

text \<open>The turn for one id, with the token drawn for it; the id is skipped, failed or given a link.\<close>

definition batch_step ::
    "'j admin_world \<Rightarrow> timestamp \<Rightarrow> bool \<Rightarrow> string option \<Rightarrow> int \<Rightarrow> ucan_auth \<Rightarrow> string \<times> string
      \<Rightarrow> batch_response \<times> 'j site \<Rightarrow> batch_response \<times> 'j site" where
  "batch_step W now mail_service delivery_email tenant_id auth = (\<lambda>(vine_id, tok) (r, s).
     case find_pubkey_by_vine_id vine_id tenant_id (si_db s) of
       None \<Rightarrow> (r\<lparr>bt_skipped := bt_skipped r @ [(vine_id, ''user not found'')]\<rparr>, s)
     | Some user_pubkey \<Rightarrow>
         (if Users.is_unclaimed user_pubkey tenant_id (si_db s) \<noteq> Some True
          then (r\<lparr>bt_skipped := bt_skipped r @ [(vine_id, ''already claimed'')]\<rparr>, s)
          else if is_set (claim_find_valid_by_user_pubkey now user_pubkey tenant_id (ac_claims (si_acc s)))
          then (r\<lparr>bt_skipped := bt_skipped r @ [(vine_id, ''valid claim token already exists'')]\<rparr>, s)
          else
            (case claim_create (db_users (si_db s)) now tok user_pubkey (Some (ua_pubkey auth)) tenant_id
                    (ac_claims (si_acc s)) of
               (Inl e, t) \<Rightarrow>
                 (r\<lparr>bt_errors := bt_errors r @
                     [''vine_id '' @ vine_id @ '': failed to create token: '' @ repository_error_text e]\<rparr>, put_claims t s)
             | (Inr c, t) \<Rightarrow>
                 (let url = batch_claim_url W delivery_email tok
                  in (r\<lparr>bt_errors := bt_errors r @ batch_mail W mail_service delivery_email vine_id user_pubkey url,
                        bt_tokens := bt_tokens r @
                          [\<lparr>be_vine_id = vine_id, be_claim_url = url, be_expires_at = rfc3339_text W (ct_expires_at c)\<rparr>]\<rparr>,
                      put_claims t s)))))"

definition batch_checks ::
    "'j admin_world \<Rightarrow> ucan_auth \<Rightarrow> string list \<Rightarrow> string option \<Rightarrow> 'j site \<Rightarrow> api_error + string list" where
  "batch_checks W auth vine_ids delivery_email s =
     and_then (require (support_admin W auth s) ''Admin access required'') (\<lambda>_.
       if (case delivery_email of Some e \<Rightarrow> CHR ''@'' \<notin> set e \<or> length e < 3 | None \<Rightarrow> False)
       then Inl (ApiBadRequest ''Invalid delivery_email format'')
       else
         (let ids = first_occurrences [] vine_ids
          in if ids = [] then Inl (ApiBadRequest ''vine_ids must not be empty'')
             else if BATCH_CLAIM_LIMIT < length ids
             then Inl (ApiBadRequest (''vine_ids exceeds maximum batch size of '' @ show_nat BATCH_CLAIM_LIMIT))
             else Inr ids))"

text \<open>\<open>draw\<close> gives the token of every position.\<close>

definition batch_create_claim_tokens ::
    "'j admin_world \<Rightarrow> timestamp \<Rightarrow> (nat \<Rightarrow> string) \<Rightarrow> bool \<Rightarrow> int \<Rightarrow> ucan_auth \<Rightarrow> string list \<Rightarrow> string option \<Rightarrow> 'j site
      \<Rightarrow> (api_error + batch_response) \<times> 'j site" where
  "batch_create_claim_tokens W now draw_token mail_service tenant_id auth vine_ids delivery_email s =
     (case batch_checks W auth vine_ids delivery_email s of
        Inl e \<Rightarrow> (Inl e, s)
      | Inr ids \<Rightarrow>
          (case fold (batch_step W now mail_service delivery_email tenant_id auth)
                  (zip ids (map draw_token [0..<length ids]))
                  (\<lparr>bt_tokens = [], bt_skipped = [], bt_errors = []\<rparr>, s) of
             (r, s1) \<Rightarrow> (Inr r, s1)))"

definition get_claim_token_stats ::
    "'j admin_world \<Rightarrow> timestamp \<Rightarrow> int \<Rightarrow> ucan_auth \<Rightarrow> 'j site \<Rightarrow> api_error + claim_token_stats" where
  "get_claim_token_stats W now tenant_id auth s =
     and_then (require (support_admin W auth s) ''Admin access required'') (\<lambda>_.
       Inr (claim_get_stats now tenant_id (ac_claims (si_acc s))))"

section \<open>Looking up users\<close>

record admin_user_details =
  ud_pubkey :: pubkey
  ud_email :: "string option"
  ud_email_verified :: "bool option"
  ud_username :: "string option"
  ud_display_name :: "string option"
  ud_vine_id :: "string option"
  ud_has_personal_key :: bool
  ud_created_at :: timestamp
  ud_updated_at :: timestamp

text \<open>\<open>REGEXP_REPLACE(x, '[._-]', '', 'g')\<close> in lower case.\<close>

definition plain_name :: "'j admin_world \<Rightarrow> string \<Rightarrow> string" where
  "plain_name W name = sql_lower W (filter (\<lambda>c. c \<notin> {CHR ''.'', CHR ''_'', CHR ''-''}) name)"

text \<open>A query with \<open>LIMIT 20\<close> and no order takes the first rows of the table.\<close>

definition pubkeys_where :: "int \<Rightarrow> (user \<Rightarrow> string option) \<Rightarrow> (string \<Rightarrow> bool) \<Rightarrow> 'j db \<Rightarrow> pubkey list" where
  "pubkeys_where tenant_id col P d =
     take 20 (map us_pubkey
       (fetch_all (\<lambda>u. us_tenant_id u = tenant_id \<and> (case col u of Some x \<Rightarrow> P x | None \<Rightarrow> False)) (db_users d)))"

definition vine_id_or_hex :: "'j admin_world \<Rightarrow> int \<Rightarrow> string \<Rightarrow> 'j db \<Rightarrow> pubkey list" where
  "vine_id_or_hex W tenant_id query d =
     (let found = pubkeys_where tenant_id us_vine_id (\<lambda>v. sql_lower W v = sql_lower W query) d
      in if found \<noteq> [] then found else [query])"

definition admin_search :: "'j admin_world \<Rightarrow> int \<Rightarrow> string \<Rightarrow> 'j db \<Rightarrow> pubkey list" where
  "admin_search W tenant_id query d =
     (if CHR ''@'' \<in> set query
      then map us_pubkey (case fetch_optional (user_with_email (to_lowercase (dw_team W) query) tenant_id) (db_users d) of
                            Some u \<Rightarrow> [u] | None \<Rightarrow> [])
      else if starts_with query ''npub''
      then (case key_parse W query of Inr pk \<Rightarrow> [pk] | Inl _ \<Rightarrow> [])
      else
        (let by_name = pubkeys_where tenant_id us_username (\<lambda>u. plain_name W u = plain_name W query) d
         in if by_name \<noteq> [] then by_name
            else if 3 \<le> length query
            then (let normalized = to_lowercase (dw_team W) (alphanumeric_part W query);
                      by_prefix = pubkeys_where tenant_id us_username (\<lambda>u. starts_with (plain_name W u) normalized) d
                  in if by_prefix \<noteq> [] then by_prefix else vine_id_or_hex W tenant_id query d)
            else vine_id_or_hex W tenant_id query d))"

text \<open>\<open>LEFT JOIN personal_keys\<close>: a row for every key, or one without.\<close>

definition admin_details :: "'j db \<Rightarrow> user \<Rightarrow> admin_user_details list" where
  "admin_details d u =
     (let keys = fetch_all (\<lambda>k. pk_user_pubkey k = us_pubkey u \<and> pk_tenant_id k = us_tenant_id u) (db_personal_keys d);
          row = (\<lambda>has. \<lparr>ud_pubkey = us_pubkey u, ud_email = us_email u, ud_email_verified = us_email_verified u,
                        ud_username = us_username u, ud_display_name = us_display_name u, ud_vine_id = us_vine_id u,
                        ud_has_personal_key = has, ud_created_at = us_created_at u, ud_updated_at = us_updated_at u\<rparr>)
      in if keys = [] then [row False] else map (\<lambda>_. row True) keys)"

definition find_users_for_admin :: "'j admin_world \<Rightarrow> string \<Rightarrow> int \<Rightarrow> 'j db \<Rightarrow> admin_user_details list" where
  "find_users_for_admin W query tenant_id d =
     (let pubkeys = admin_search W tenant_id query d
      in concat (map (admin_details d)
           (fetch_all (\<lambda>u. us_pubkey u \<in> set pubkeys \<and> us_tenant_id u = tenant_id) (db_users d))))"

definition find_user_for_admin :: "'j admin_world \<Rightarrow> string \<Rightarrow> int \<Rightarrow> 'j db \<Rightarrow> admin_user_details option" where
  "find_user_for_admin W query tenant_id d =
     (case find_users_for_admin W query tenant_id d of [] \<Rightarrow> None | u # _ \<Rightarrow> Some u)"

record user_lookup_details =
  ul_user :: admin_user_details
  ul_active_sessions :: nat
  ul_created_at :: string
  ul_last_active :: "timestamp option"

text \<open>
  The latest activity is compared as the text of the database, whose order is the order of the times.
\<close>

definition last_active :: "session_row list \<Rightarrow> timestamp option" where
  "last_active sessions =
     (case List.map_filter se_last_activity sessions of [] \<Rightarrow> None | t # ts \<Rightarrow> Some (fold max ts t))"

definition lookup_details :: "'j admin_world \<Rightarrow> int \<Rightarrow> 'j db \<Rightarrow> admin_user_details \<Rightarrow> user_lookup_details" where
  "lookup_details W tenant_id d u =
     (let sessions = list_active_sessions (db_users d) (ud_pubkey u) tenant_id (db_oauth d)
      in \<lparr>ul_user = u, ul_active_sessions = length sessions, ul_created_at = rfc3339_text W (ud_created_at u),
          ul_last_active = last_active sessions\<rparr>)"

definition get_user_lookup ::
    "'j admin_world \<Rightarrow> int \<Rightarrow> ucan_auth \<Rightarrow> string \<Rightarrow> 'j site \<Rightarrow> api_error + user_lookup_details list" where
  "get_user_lookup W tenant_id auth query s =
     and_then (require (support_admin W auth s) ''Admin access required'') (\<lambda>_.
       let q = str_trim query; d = si_db s
       in if q = [] then Inl (ApiBadRequest (''Query parameter '' @ [CHR 0x27] @ ''q'' @ [CHR 0x27] @ '' is required''))
          else
            (let users = find_users_for_admin W q tenant_id d;
                 users' = (if users = [] \<and> CHR ''@'' \<notin> set q \<and> \<not> starts_with q ''npub'' \<and> length q \<noteq> 64
                               \<and> names_enabled (dw_names W)
                           then (case lookup_by_name (dw_names W) q of
                                   Inr (Some hex) \<Rightarrow> find_users_for_admin W hex tenant_id d
                                 | _ \<Rightarrow> users)
                           else users)
             in Inr (map (lookup_details W tenant_id d) users')))"

section \<open>Looking up teams\<close>

definition TEAM_LOOKUP_LIMIT :: nat where "TEAM_LOOKUP_LIMIT = 25"
definition TEAM_LOOKUP_MIN_QUERY_LEN :: nat where "TEAM_LOOKUP_MIN_QUERY_LEN = 2"

record team_search_result =
  sr_id :: int
  sr_name :: string
  sr_created_at :: timestamp
  sr_admin_emails :: "string list"
  sr_has_stored_key :: bool
  sr_restaurant_keys :: "(string \<times> pubkey) list"

text \<open>
  \<open>ILIKE\<close> is a parameter: it takes the pattern and the name. The addresses of the administrators are a
  set, given in the order of the collation; the teams are ordered by name.
\<close>

definition team_admin_emails :: "(string \<Rightarrow> 'o::linorder) \<Rightarrow> int \<Rightarrow> int \<Rightarrow> 'j db \<Rightarrow> string list" where
  "team_admin_emails collation tenant_id team_id d =
     sort_key collation (remdups
       (concat (map (\<lambda>m. List.map_filter us_email
                           (fetch_all (user_at (tu_user_pubkey m) tenant_id) (db_users d)))
          (fetch_all (\<lambda>m. tu_team_id m = team_id \<and> tu_role m = ''admin'') (db_team_users d)))))"

definition team_result :: "(string \<Rightarrow> 'o::linorder) \<Rightarrow> int \<Rightarrow> 'j db \<Rightarrow> team \<Rightarrow> team_search_result" where
  "team_result collation tenant_id d t =
     \<lparr>sr_id = te_id t, sr_name = te_name t, sr_created_at = te_created_at t,
      sr_admin_emails = team_admin_emails collation tenant_id (te_id t) d,
      sr_has_stored_key = (stored_keys_of tenant_id (te_id t) d \<noteq> []),
      sr_restaurant_keys = map (\<lambda>k. (sk_name k, sk_pubkey k)) (stored_keys_of tenant_id (te_id t) d)\<rparr>"

definition search_by_name ::
    "(string \<Rightarrow> 'o::linorder) \<Rightarrow> (string \<Rightarrow> string \<Rightarrow> bool) \<Rightarrow> int \<Rightarrow> string \<Rightarrow> nat \<Rightarrow> 'j db \<Rightarrow> team_search_result list" where
  "search_by_name collation ilike tenant_id query limit d =
     take limit (map (team_result collation tenant_id d) (sort_key (\<lambda>t. collation (te_name t))
       (fetch_all (\<lambda>t. te_tenant_id t = tenant_id
                        \<and> (ilike (''%'' @ query @ ''%'') (te_name t)
                            \<or> exists_row (\<lambda>k. sk_team_id k = te_id t \<and> sk_tenant_id k = tenant_id \<and> sk_pubkey k = query)
                                (db_stored_keys d))) (db_teams d))))"

definition get_team_lookup ::
    "(string \<Rightarrow> 'o::linorder) \<Rightarrow> (string \<Rightarrow> string \<Rightarrow> bool) \<Rightarrow> 'j admin_world \<Rightarrow> int \<Rightarrow> ucan_auth \<Rightarrow> string \<Rightarrow> 'j site
      \<Rightarrow> api_error + team_search_result list" where
  "get_team_lookup collation ilike W tenant_id auth query s =
     and_then (require (support_admin W auth s) ''Support admin access required'') (\<lambda>_.
       let q = str_trim query
       in if length q < TEAM_LOOKUP_MIN_QUERY_LEN
          then Inl (ApiBadRequest (''Query '' @ [CHR 0x27] @ ''q'' @ [CHR 0x27] @ '' must be at least ''
                      @ show_nat TEAM_LOOKUP_MIN_QUERY_LEN @ '' characters''))
          else Inr (search_by_name collation ilike tenant_id q TEAM_LOOKUP_LIMIT (si_db s)))"

definition get_team_names ::
    "(string \<Rightarrow> 'o::linorder) \<Rightarrow> 'j admin_world \<Rightarrow> int \<Rightarrow> ucan_auth \<Rightarrow> 'j site \<Rightarrow> api_error + (int \<times> string) list" where
  "get_team_names collation W tenant_id auth s =
     and_then (require (support_admin W auth s) ''Support admin access required'') (\<lambda>_.
       Inr (map (\<lambda>t. (te_id t, te_name t)) (sort_key (\<lambda>t. collation (te_name t))
              (fetch_all (\<lambda>t. te_tenant_id t = tenant_id) (db_teams (si_db s))))))"

record listed_member =
  lm_user_pubkey :: pubkey
  lm_name :: "string option"
  lm_email :: "string option"
  lm_role :: string
  lm_joined_at :: string

text \<open>\<open>LEFT JOIN users\<close> on the primary key: at most one user for a member.\<close>

definition listed_member_of :: "'j admin_world \<Rightarrow> int \<Rightarrow> 'j db \<Rightarrow> team_user \<Rightarrow> listed_member" where
  "listed_member_of W tenant_id d m =
     (let u = fetch_optional (user_at (tu_user_pubkey m) tenant_id) (db_users d)
      in \<lparr>lm_user_pubkey = tu_user_pubkey m,
          lm_name = Option.bind u (\<lambda>x. case us_display_name x of Some n \<Rightarrow> Some n | None \<Rightarrow> us_username x),
          lm_email = Option.bind u us_email, lm_role = tu_role m, lm_joined_at = rfc3339_text W (tu_created_at m)\<rparr>)"

definition get_team_members ::
    "'j admin_world \<Rightarrow> int \<Rightarrow> ucan_auth \<Rightarrow> int \<Rightarrow> 'j site \<Rightarrow> api_error + string \<times> listed_member list" where
  "get_team_members W tenant_id auth team_id s =
     and_then (require (support_admin W auth s) ''Support admin access required'') (\<lambda>_.
     and_then (ok_or (ApiNotFound ''Team not found'')
                 (fetch_optional (\<lambda>t. te_id t = team_id \<and> te_tenant_id t = tenant_id) (db_teams (si_db s)))) (\<lambda>t.
       Inr (te_name t, map (listed_member_of W tenant_id (si_db s))
              (sort_key (\<lambda>m. (if tu_role m = ''admin'' then 0 else 1) :: int)
                (sort_key tu_created_at (fetch_all (\<lambda>m. tu_team_id m = te_id t) (db_team_users (si_db s))))))))"

record admin_authorization =
  aa_row :: authorization
  aa_relays :: "string list"

record admin_restaurant_key =
  ak_id :: int
  ak_name :: string
  ak_pubkey :: pubkey
  ak_created_at :: string
  ak_authorizations :: "admin_authorization list"

record admin_team_details =
  at_id :: int
  at_name :: string
  at_role :: string
  at_joined_at :: string
  at_restaurant_keys :: "admin_restaurant_key list"

definition admin_authorizations :: "'j admin_world \<Rightarrow> int \<Rightarrow> int \<Rightarrow> 'j db \<Rightarrow> admin_authorization list" where
  "admin_authorizations W tenant_id key_id d =
     map (\<lambda>a. \<lparr>aa_row = a, aa_relays = (case string_array W (au_relays a) of Some rs \<Rightarrow> rs | None \<Rightarrow> [])\<rparr>)
       (sort_key au_created_at
         (fetch_all (\<lambda>a. au_stored_key_id a = key_id \<and> au_tenant_id a = tenant_id) (db_authorizations d)))"

definition restaurant_keys :: "'j admin_world \<Rightarrow> int \<Rightarrow> int \<Rightarrow> 'j db \<Rightarrow> admin_restaurant_key list" where
  "restaurant_keys W tenant_id team_id d =
     map (\<lambda>k. \<lparr>ak_id = sk_id k, ak_name = sk_name k, ak_pubkey = sk_pubkey k,
               ak_created_at = rfc3339_text W (sk_created_at k),
               ak_authorizations = admin_authorizations W tenant_id (sk_id k) d\<rparr>)
       (sort_key sk_created_at (stored_keys_of tenant_id team_id d))"

definition hex_pubkey :: "'j admin_world \<Rightarrow> string \<Rightarrow> api_error + pubkey" where
  "hex_pubkey W text =
     (let pubkey = to_lowercase (dw_team W) (str_trim text)
      in if length pubkey \<noteq> 64 \<or> \<not> list_all is_ascii_hexdigit pubkey
         then Inl (ApiBadRequest ''pubkey must be a 64-char hex string'') else Inr pubkey)"

definition get_user_teams ::
    "'j admin_world \<Rightarrow> int \<Rightarrow> ucan_auth \<Rightarrow> string \<Rightarrow> 'j site \<Rightarrow> api_error + admin_team_details list" where
  "get_user_teams W tenant_id auth pubkey s =
     and_then (require (support_admin W auth s) ''Admin access required'') (\<lambda>_.
     and_then (hex_pubkey W pubkey) (\<lambda>pubkey.
       let d = si_db s
       in Inr (map (\<lambda>(t, m). \<lparr>at_id = te_id t, at_name = te_name t, at_role = tu_role m,
                            at_joined_at = rfc3339_text W (tu_created_at m),
                            at_restaurant_keys = restaurant_keys W tenant_id (te_id t) d\<rparr>)
            (sort_key (\<lambda>(t, m). tu_created_at m)
              (concat (map (\<lambda>t. map (Pair t)
                   (fetch_all (\<lambda>m. tu_team_id m = te_id t \<and> tu_user_pubkey m = pubkey) (db_team_users d)))
                (fetch_all (\<lambda>t. te_tenant_id t = tenant_id) (db_teams d))))))))"

section \<open>Revoking an authorization\<close>

definition trimmed :: "string option \<Rightarrow> string option" where
  "trimmed text = (case map_option str_trim text of Some [] \<Rightarrow> None | t \<Rightarrow> t)"

text \<open>A revoked bunker leaves the handler cache and, if the channel is up, the signer.\<close>

definition drop_bunker :: "'j admin_world \<Rightarrow> account_draws \<Rightarrow> pubkey \<Rightarrow> 'j site \<Rightarrow> 'j site" where
  "drop_bunker W D bunker s =
     (let a = si_acc s; sv = ac_server a
      in s\<lparr>si_acc := a\<lparr>ac_server := push_command D (Remove bunker)
            (sv\<lparr>sv_cache := invalidate_handlers_for_bunker (tw_http (dtoken W)) True bunker (sv_cache sv)\<rparr>)\<rparr>\<rparr>)"

definition put_authorizations :: "authorization list \<Rightarrow> 'j site \<Rightarrow> 'j site" where
  "put_authorizations t s = put_si_db ((si_db s)\<lparr>db_authorizations := t\<rparr>) s"

definition revoke_and_drop ::
    "'j admin_world \<Rightarrow> timestamp \<Rightarrow> account_draws \<Rightarrow> int \<Rightarrow> int \<Rightarrow> string option \<Rightarrow> 'j site \<Rightarrow> pubkey option \<times> 'j site" where
  "revoke_and_drop W now D tenant_id auth_id reason s =
     (case auth_revoke now tenant_id auth_id reason (db_authorizations (si_db s)) of
        (None, t) \<Rightarrow> (None, put_authorizations t s)
      | (Some bunker, t) \<Rightarrow> (Some bunker, drop_bunker W D bunker (put_authorizations t s)))"

definition revoke_authorization ::
    "'j admin_world \<Rightarrow> timestamp \<Rightarrow> account_draws \<Rightarrow> int \<Rightarrow> ucan_auth \<Rightarrow> int \<Rightarrow> string option \<Rightarrow> 'j site
      \<Rightarrow> (api_error + int) \<times> 'j site" where
  "revoke_authorization W now D tenant_id auth authorization_id reason s =
     (if \<not> support_admin W auth s then (Inl (ApiForbidden ''Admin access required''), s)
      else (case revoke_and_drop W now D tenant_id authorization_id (trimmed reason) s of
              (None, s1) \<Rightarrow> (Inl (ApiNotFound ''Authorization not found or already revoked''), s1)
            | (Some _, s1) \<Rightarrow> (Inr authorization_id, s1)))"

section \<open>Support access to a team\<close>

definition DEFAULT_SUPPORT_AUTH_EXPIRY_HOURS :: int where "DEFAULT_SUPPORT_AUTH_EXPIRY_HOURS = 24"
definition MAX_SUPPORT_AUTH_EXPIRY_HOURS :: int where "MAX_SUPPORT_AUTH_EXPIRY_HOURS = 24 * 7"

record grant_support_access_request =
  gs_policy_id :: "int option"
  gs_label :: "string option"
  gs_expires_in_hours :: "int option"

text \<open>\<open>clamp(1, MAX)\<close>.\<close>

definition support_hours :: "int option \<Rightarrow> int" where
  "support_hours requested =
     (let h = (case requested of Some h \<Rightarrow> h | None \<Rightarrow> DEFAULT_SUPPORT_AUTH_EXPIRY_HOURS)
      in if h < 1 then 1 else if MAX_SUPPORT_AUTH_EXPIRY_HOURS < h then MAX_SUPPORT_AUTH_EXPIRY_HOURS else h)"

definition support_label :: "pubkey \<Rightarrow> string option \<Rightarrow> string" where
  "support_label caller label =
     (case trimmed label of
        Some note \<Rightarrow> ''support:'' @ caller @ '' ('' @ note @ '')''
      | None \<Rightarrow> ''support:'' @ caller)"

text \<open>The team's first key and the policy to use.\<close>

definition support_target ::
    "int \<Rightarrow> int \<Rightarrow> grant_support_access_request \<Rightarrow> 'j db \<Rightarrow> api_error + stored_key \<times> int" where
  "support_target tenant_id team_id q d =
     and_then (map_err (\<lambda>_. ApiNotFound ''Team not found'') (team_find tenant_id team_id d)) (\<lambda>_.
     and_then (case stored_key_list_by_team tenant_id team_id d of
                 k # _ \<Rightarrow> Inr k
               | [] \<Rightarrow> Inl (ApiBadRequest (''team has no stored key '' @ [char_of (226::nat), char_of (128::nat), char_of (148::nat)]
                          @ '' the agent who created it must finish provisioning first''))) (\<lambda>k.
     and_then (case gs_policy_id q of
                 Some i \<Rightarrow> (if exists_for_team team_id i d then Inr i
                           else Inl (ApiNotFound ''Policy not found for this team''))
               | None \<Rightarrow> (case policy_list_by_team team_id d of
                           p # _ \<Rightarrow> Inr (po_id p)
                         | [] \<Rightarrow> Inl (ApiInternal ''Team has no policies''))) (\<lambda>policy_id. Inr (k, policy_id))))"

definition join_as_member :: "timestamp \<Rightarrow> int \<Rightarrow> pubkey \<Rightarrow> 'j db \<Rightarrow> api_error + 'j db" where
  "join_as_member now team_id caller d =
     (if is_member team_id caller d then Inr d
      else and_then (map_err (\<lambda>e. ApiInternal (''Failed to add support member: '' @ repository_error_text e))
                       (add_member now team_id caller ''member'' d)) (\<lambda>(_, d1). Inr d1))"

definition grant_team_support_access ::
    "'j admin_world \<Rightarrow> timestamp \<Rightarrow> account_draws \<Rightarrow> int \<Rightarrow> ucan_auth \<Rightarrow> int \<Rightarrow> grant_support_access_request \<Rightarrow> 'j site
      \<Rightarrow> (api_error + pubkey \<times> authorization \<times> string) option \<times> 'j site" where
  "grant_team_support_access W now D tenant_id auth team_id q s =
     (let caller = ua_pubkey auth
      in if \<not> support_admin W auth s then (Some (Inl (ApiForbidden ''Support admin access required'')), s)
         else
       case and_then (support_target tenant_id team_id q (si_db s)) (\<lambda>(k, policy_id).
            and_then (join_as_member now team_id caller (si_db s)) (\<lambda>d. Inr (k, policy_id, d))) of
         Inl e \<Rightarrow> (Some (Inl e), s)
       | Inr (k, policy_id, d) \<Rightarrow>
           (let s1 = put_si_db d s
            in case ad_pair D of
                 None \<Rightarrow> (Some (Inl (ApiInternal ''Secret pool exhausted'')), s1)
               | Some (connection_secret, secret_hash) \<Rightarrow>
                   (case team_bunker_keys (dw_team W) (sk_secret_key k) secret_hash of
                      None \<Rightarrow> (None, s1)
                    | Some (Inl e) \<Rightarrow> (Some (Inl e), s1)
                    | Some (Inr bunker_keys) \<Rightarrow>
                        (let bunker = public_key (dx W) bunker_keys
                         in case auth_create now tenant_id (sk_id k) policy_id secret_hash bunker ''[]'' None
                                   (Some (now + hours (support_hours (gs_expires_in_hours q))))
                                   (Some (support_label caller (gs_label q))) d of
                              (Inl e, d1) \<Rightarrow>
                                (Some (Inl (ApiInternal (''Failed to create authorization: '' @ repository_error_text e))),
                                 put_si_db d1 s)
                            | (Inr a, d1) \<Rightarrow>
                                (let s2 = put_si_db d1 s; acc = si_acc s2
                                 in case generate_bunker_url (dtoken W) bunker connection_secret of
                                      None \<Rightarrow> (None, s2)
                                    | Some url \<Rightarrow>
                                        (Some (Inr (sk_pubkey k, a, url)),
                                         s2\<lparr>si_acc := acc\<lparr>ac_server :=
                                           push_command D (Upsert bunker tenant_id False) (ac_server acc)\<rparr>\<rparr>))))))"

record release_support_access_response =
  rl_revoked_authorizations :: nat
  rl_removed_membership :: bool

text \<open>The loop over the caller's authorizations; one that is gone meanwhile is not counted.\<close>

fun release_authorizations ::
    "'j admin_world \<Rightarrow> timestamp \<Rightarrow> account_draws \<Rightarrow> int \<Rightarrow> (int \<times> pubkey) list \<Rightarrow> 'j site \<Rightarrow> nat \<times> 'j site" where
  "release_authorizations W now D tenant_id [] s = (0, s)"
| "release_authorizations W now D tenant_id ((auth_id, bunker) # active) s =
     (case auth_revoke now tenant_id auth_id (Some ''support_session_end'') (db_authorizations (si_db s)) of
        (None, t) \<Rightarrow> release_authorizations W now D tenant_id active (put_authorizations t s)
      | (Some _, t) \<Rightarrow>
          (case release_authorizations W now D tenant_id active (drop_bunker W D bunker (put_authorizations t s)) of
             (n, s1) \<Rightarrow> (n + 1, s1)))"

definition leave_as_member :: "int \<Rightarrow> pubkey \<Rightarrow> 'j db \<Rightarrow> bool \<times> 'j db" where
  "leave_as_member team_id caller d =
     (case get_member team_id caller d of
        Inr m \<Rightarrow> (if tm_role m = Member then (True, remove_member team_id caller d) else (False, d))
      | Inl _ \<Rightarrow> (False, d))"

definition release_team_support_access ::
    "'j admin_world \<Rightarrow> timestamp \<Rightarrow> account_draws \<Rightarrow> int \<Rightarrow> ucan_auth \<Rightarrow> int \<Rightarrow> 'j site
      \<Rightarrow> (api_error + release_support_access_response) \<times> 'j site" where
  "release_team_support_access W now D tenant_id auth team_id s =
     (case and_then (require (support_admin W auth s) ''Support admin access required'') (\<lambda>_.
             map_err (\<lambda>_. ApiNotFound ''Team not found'') (team_find tenant_id team_id (si_db s))) of
        Inl e \<Rightarrow> (Inl e, s)
      | Inr _ \<Rightarrow>
          (let caller = ua_pubkey auth; d = si_db s
           in case release_authorizations W now D tenant_id
                     (find_active_support_for_caller (db_stored_keys d) tenant_id team_id caller (db_authorizations d)) s of
                (n, s1) \<Rightarrow>
                  (case leave_as_member team_id caller (si_db s1) of
                     (removed, d1) \<Rightarrow>
                       (Inr \<lparr>rl_revoked_authorizations = n, rl_removed_membership = removed\<rparr>, put_si_db d1 s1))))"

section \<open>Support agents\<close>

definition redis_set :: "'j site \<Rightarrow> api_error + string list" where
  "redis_set s =
     (let r = ac_redis (si_acc s)
      in if rd_up r then Inr (rd_support_admins r) else Inl (ApiInternal ''Redis not available''))"

definition put_support_admins :: "string list \<Rightarrow> 'j site \<Rightarrow> 'j site" where
  "put_support_admins xs s =
     s\<lparr>si_acc := (si_acc s)\<lparr>ac_redis := (ac_redis (si_acc s))\<lparr>rd_support_admins := xs\<rparr>\<rparr>\<rparr>"

text \<open>The rows for the addresses are collected in a map: of two rows the last would win.\<close>

definition list_support_admins ::
    "'j admin_world \<Rightarrow> int \<Rightarrow> ucan_auth \<Rightarrow> 'j site \<Rightarrow> api_error + (pubkey \<times> string option) list" where
  "list_support_admins W tenant_id auth s =
     and_then (require (full_admin W auth) ''Full admin access required'') (\<lambda>_.
     and_then (redis_set s) (\<lambda>pubkeys.
       let emails = map_of (rev (map (\<lambda>u. (us_pubkey u, us_email u))
              (fetch_all (\<lambda>u. us_pubkey u \<in> set pubkeys \<and> us_tenant_id u = tenant_id) (db_users (si_db s)))))
       in Inr (map (\<lambda>pk. (pk, Option.bind (emails pk) (\<lambda>e. e))) pubkeys)))"

definition resolve_identifier :: "'j admin_world \<Rightarrow> string \<Rightarrow> int \<Rightarrow> 'j db \<Rightarrow> api_error + pubkey" where
  "resolve_identifier W identifier tenant_id d =
     (if starts_with identifier ''npub1''
      then map_err (\<lambda>e. ApiBadRequest (''Invalid npub: '' @ e)) (npub_decode W identifier)
      else if length identifier = 64 \<and> list_all is_ascii_hexdigit identifier
      then and_then (map_err (\<lambda>e. ApiBadRequest (''Invalid hex pubkey: '' @ e)) (pk_from_hex (x_perm (dx W)) identifier))
             (\<lambda>_. Inr identifier)
      else if CHR ''@'' \<in> set identifier
      then ok_or (ApiNotFound (''No user found with email: '' @ identifier)) (find_pubkey_by_email identifier tenant_id d)
      else Inl (ApiBadRequest ''Identifier must be an npub, 64-char hex pubkey, or email address''))"

text \<open>\<open>SADD\<close> and \<open>SREM\<close> on a set kept as a list without duplicates.\<close>

definition add_support_admin ::
    "'j admin_world \<Rightarrow> int \<Rightarrow> ucan_auth \<Rightarrow> string \<Rightarrow> 'j site \<Rightarrow> (api_error + pubkey \<times> bool) \<times> 'j site" where
  "add_support_admin W tenant_id auth text s =
     (case and_then (require (full_admin W auth) ''Full admin access required'') (\<lambda>_.
             let identifier = str_trim text
             in if identifier = [] then Inl (ApiBadRequest ''Identifier is required'')
                else and_then (resolve_identifier W identifier tenant_id (si_db s)) (\<lambda>pubkey.
                     and_then (redis_set s) (\<lambda>admins. Inr (pubkey, admins)))) of
        Inl e \<Rightarrow> (Inl e, s)
      | Inr (pubkey, admins) \<Rightarrow>
          (if pubkey \<in> set admins then (Inr (pubkey, False), s)
           else (Inr (pubkey, True), put_support_admins (admins @ [pubkey]) s)))"

definition remove_support_admin ::
    "'j admin_world \<Rightarrow> ucan_auth \<Rightarrow> string \<Rightarrow> 'j site \<Rightarrow> (api_error + bool) \<times> 'j site" where
  "remove_support_admin W auth pubkey s =
     (case and_then (require (full_admin W auth) ''Full admin access required'') (\<lambda>_. redis_set s) of
        Inl e \<Rightarrow> (Inl e, s)
      | Inr admins \<Rightarrow> (Inr (pubkey \<in> set admins), put_support_admins (removeAll pubkey admins) s))"

section \<open>Deleting a login\<close>

definition delete_user ::
    "'j admin_world \<Rightarrow> account_draws \<Rightarrow> int \<Rightarrow> ucan_auth \<Rightarrow> string \<Rightarrow> 'j site \<Rightarrow> (api_error + nat) \<times> 'j site" where
  "delete_user W D tenant_id auth text s =
     (case and_then (require (full_admin W auth) ''Full admin access required'') (\<lambda>_.
           and_then (hex_pubkey W text) (\<lambda>pubkey.
             if 0 < count_team_memberships tenant_id pubkey (si_db s)
             then Inl (ApiConflict ''User still belongs to a team; delete the restaurant first'')
             else map_err (\<lambda>e. case e of
                      NotFound _ \<Rightarrow> ApiNotFound ''User not found''
                    | _ \<Rightarrow> ApiInternal (''Failed to delete user: '' @ repository_error_text e))
                  (user_delete_account pubkey tenant_id (ac_store (si_acc s))))) of
        Inl e \<Rightarrow> (Inl e, s)
      | Inr (result, t) \<Rightarrow>
          (let a = put_store t (si_acc s)
           in (Inr (teams_removed result),
               s\<lparr>si_acc := a\<lparr>ac_server := retire_bunkers (tw_http (dtoken W)) (ad_channel D) (bunker_pubkeys result) (ac_server a),
                             ac_accounts_deleted := ac_accounts_deleted a + 1\<rparr>\<rparr>)))"

section \<open>Orders apps\<close>

text \<open>These routes run on another host name than the customer tenant's.\<close>

definition customer_tenant_id :: "'j admin_world \<Rightarrow> tenant table \<Rightarrow> api_error + int" where
  "customer_tenant_id W tenants =
     and_then (ok_or (ApiBadRequest ''CUSTOMER_TENANT_DOMAIN is not set'') (customer_tenant_domain (dw_tenants W))) (\<lambda>domain.
     and_then (map_err (\<lambda>_. ApiDatabase ''no rows returned by a query that expected to return at least one row'')
                 (get_tenant_by_domain domain tenants)) (\<lambda>t. Inr (tn_id t)))"

definition normalize_app_origin :: "'j admin_world \<Rightarrow> string \<Rightarrow> api_error + string" where
  "normalize_app_origin W origin =
     and_then (ok_or (ApiBadRequest ''Invalid origin'') (web_parse W (str_trim origin))) (\<lambda>url.
       let is_local = (wu_host url = Some ''localhost'' \<or> wu_host url = Some ''127.0.0.1'');
           allowed_scheme = (wu_scheme url = ''https'' \<or> wu_scheme url = ''http'' \<and> is_local);
           is_only_an_origin = (wu_path url = ''/'' \<and> wu_query url = None \<and> wu_fragment url = None
                                \<and> wu_username url = [] \<and> wu_password url = None)
       in if allowed_scheme \<and> is_only_an_origin then Inr (wu_origin url)
          else Inl (ApiBadRequest ''Invalid origin: use https://orders.example.com''))"

definition normalize_merchant_pubkey :: "'j admin_world \<Rightarrow> string \<Rightarrow> api_error + pubkey" where
  "normalize_merchant_pubkey W text =
     (let t = str_trim text
      in case pk_from_hex (x_perm (dx W)) t of
           Inr pk \<Rightarrow> Inr pk
         | Inl _ \<Rightarrow> map_err (\<lambda>_. ApiBadRequest ''Invalid merchant_pubkey: use hex or npub'') (npub_decode W t))"

definition put_origins :: "customer_app_origin list \<Rightarrow> 'j site \<Rightarrow> 'j site" where
  "put_origins t s = s\<lparr>si_acc := (si_acc s)\<lparr>ac_origins := t\<rparr>\<rparr>"

definition list_customer_origins ::
    "(string \<Rightarrow> 'o::linorder) \<Rightarrow> 'j admin_world \<Rightarrow> tenant table \<Rightarrow> ucan_auth \<Rightarrow> 'j site
      \<Rightarrow> api_error + customer_app_origin list" where
  "list_customer_origins collation W tenants auth s =
     and_then (require (full_admin W auth) ''Admin access required'') (\<lambda>_.
     and_then (customer_tenant_id W tenants) (\<lambda>tenant_id.
       Inr (origin_list collation tenant_id (ac_origins (si_acc s)))))"

definition add_customer_origin ::
    "'j admin_world \<Rightarrow> timestamp \<Rightarrow> tenant table \<Rightarrow> ucan_auth \<Rightarrow> string \<Rightarrow> string \<Rightarrow> string \<Rightarrow> 'j site
      \<Rightarrow> (api_error + customer_app_origin option) \<times> 'j site" where
  "add_customer_origin W now tenants auth origin merchant_name merchant_pubkey s =
     (case and_then (require (full_admin W auth) ''Admin access required'') (\<lambda>_.
           and_then (normalize_app_origin W origin) (\<lambda>org.
             let name = str_trim merchant_name
             in if name = [] then Inl (ApiBadRequest ''merchant_name is required'')
                else and_then (normalize_merchant_pubkey W merchant_pubkey) (\<lambda>merchant.
                     and_then (customer_tenant_id W tenants) (\<lambda>tenant_id. Inr (tenant_id, org, name, merchant))))) of
        Inl e \<Rightarrow> (Inl e, s)
      | Inr (tenant_id, org, name, merchant) \<Rightarrow>
          (let t = origin_add now tenant_id org name merchant (ac_origins (si_acc s))
           in (Inr (fetch_optional (origin_at tenant_id org) t), put_origins t s)))"

definition remove_customer_origin ::
    "'j admin_world \<Rightarrow> tenant table \<Rightarrow> ucan_auth \<Rightarrow> string \<Rightarrow> 'j site \<Rightarrow> (api_error + bool) \<times> 'j site" where
  "remove_customer_origin W tenants auth origin s =
     (case and_then (require (full_admin W auth) ''Admin access required'') (\<lambda>_.
           and_then (normalize_app_origin W origin) (\<lambda>org.
           and_then (customer_tenant_id W tenants) (\<lambda>tenant_id. Inr (tenant_id, org)))) of
        Inl e \<Rightarrow> (Inl e, s)
      | Inr (tenant_id, org) \<Rightarrow>
          (case origin_remove tenant_id org (ac_origins (si_acc s)) of
             (removed, t) \<Rightarrow> (Inr removed, put_origins t s)))"

end
