(* ===== verification/ClaimProofs.thy ===== *)
theory ClaimProofs
  imports AdminApi AccountsProofs TeamsProofs
begin

text \<open>
  What holds of claim links: the pages show escaped text, a link works once, and a preloaded account ends
  with its owner, who can log in. One gap is shown too: a token that an administrator used before the
  claim keeps working through the handler cache.
\<close>

section \<open>Escaping\<close>

fun escape_char :: "char \<Rightarrow> string" where
  "escape_char c =
     (if c = CHR ''&'' then ''&amp;'' else if c = CHR ''<'' then ''&lt;'' else if c = CHR ''>'' then ''&gt;''
      else if c = CHR 0x22 then ''&quot;'' else if c = CHR 0x27 then ''&#39;'' else [c])"

lemma replace_char_concat:
  "replace_char c r (concat (map f s)) = concat (map (\<lambda>x. replace_char c r (f x)) s)"
  by (induction s) (simp_all add: replace_char_def)

text \<open>The five replacements one after the other are one replacement of every character.\<close>

lemma html_escape_map: "html_escape s = concat (map escape_char s)"
proof -
  have "html_escape s = html_escape (concat (map (\<lambda>x. [x]) s))" by simp
  also have "\<dots> = concat (map (\<lambda>x. html_escape [x]) s)"
    unfolding html_escape_def replace_char_concat ..
  also have "(\<lambda>x. html_escape [x]) = escape_char"
    by (rule ext) (simp add: html_escape_def replace_char_def)
  finally show ?thesis .
qed

lemma escape_char_clean: "set (escape_char c) \<inter> {CHR ''<'', CHR ''>'', CHR 0x22, CHR 0x27} = {}"
  by simp

lemma html_escape_clean: "set (html_escape s) \<inter> {CHR ''<'', CHR ''>'', CHR 0x22, CHR 0x27} = {}"
  using escape_char_clean by (fastforce simp: html_escape_map simp del: escape_char.simps)

section \<open>Rows of the users table\<close>

lemma indexed_unique:
  "distinct (indexed col us) \<Longrightarrow> u \<in> set us \<Longrightarrow> v \<in> set us \<Longrightarrow> col u = Some x \<Longrightarrow> col v = Some x
     \<Longrightarrow> us_tenant_id u = us_tenant_id v \<Longrightarrow> u = v"
proof (induction us)
  case (Cons w us)
  have in_index: "(us_tenant_id y, x) \<in> set (indexed col us)" if "y \<in> set us" "col y = Some x" for y
    using that by (force simp: indexed_def List.map_filter_def)
  have tl: "distinct (indexed col us)" and hd: "col w = Some x \<Longrightarrow> (us_tenant_id w, x) \<notin> set (indexed col us)"
    using Cons.prems(1) by (auto simp: indexed_def map_filter_simps split: option.splits)
  show ?case
    using Cons.IH [OF tl] Cons.prems(2-) hd in_index by (metis set_ConsD)
qed simp

lemma fetch_optional_only:
  assumes "u \<in> set t" and "P u" and "\<And>v. v \<in> set t \<Longrightarrow> P v \<Longrightarrow> v = u"
  shows "fetch_optional P t = Some u"
proof -
  obtain v where v: "fetch_optional P t = Some v" using fetch_optional_ex [of u t P] assms(1,2) by blast
  with assms(3) fetch_optional_Some [OF v] show ?thesis by simp
qed

lemma user_at_only:
  assumes "users_unique us" and "u \<in> set us"
  shows "fetch_optional (user_at (us_pubkey u) (us_tenant_id u)) us = Some u"
  using assms by (intro fetch_optional_only) (auto simp: user_at_def users_unique_def dest: inj_onD simp: distinct_map)

text \<open>An account with a verified address, a matching password and a key that opens can log in.\<close>

lemma login_with_row:
  assumes unique: "users_unique (db_users (si_db s))"
    and u: "u \<in> set (db_users (si_db s))" "us_tenant_id u = tn_id tn" "us_email u = Some (lower W email)"
      "us_password_hash u = Some h" "us_email_verified u = Some True"
    and pw: "bcrypt_verify (lx W) password h = Inr True"
    and key: "open_user_key W (AcInternal ''Personal keys not found'') (us_pubkey u) (tn_id tn) (si_db s) = Inr keys"
    and signs: "always_signs W"
    and rq: "header_str rq ''authorization'' = None" "header_str rq ''origin'' = Some origin"
      "login_json W body = Inr (email, password)"
  shows "\<exists>cookie s'. login W clock tn rq body s
           = (Inr (cookie, \<lparr>ar_pubkey = us_pubkey u, ar_verification_required = None, ar_email = None\<rparr>), s')"
proof -
  have "fetch_optional (\<lambda>u. user_with_email (lower W email) (tn_id tn) u \<and> is_set (us_password_hash u)) (db_users (si_db s))
      = Some u"
    using unique u by (intro fetch_optional_only)
      (auto simp: user_with_email_def users_unique_def dest: indexed_unique [where col = us_email])
  then have "find_with_password (lower W email) (tn_id tn) (si_db s) = Inr (Some (us_pubkey u, h, True))"
    using u by (simp add: find_with_password_def)
  moreover obtain tok where "Accounts.generate_ucan_token W keys (tn_id tn) (lower W email) origin None = Inr tok"
    using always_signs_token [OF signs] by blast
  ultimately show ?thesis
    using key rq pw
    by (simp add: login_def login_with_body_def password_login_def extract_origin_from_headers_def session_response_def)
qed

section \<open>A link works once\<close>

lemma claim_marked_invalid: "claim_find_valid now' tok (snd (claim_mark_used now tok t)) = None"
  unfolding claim_find_valid_def fetch_optional_None claim_mark_used_def Let_def
  by (simp add: ball_update_where claim_markable_def)

lemma mark_claimed_simps [simp]:
  "si_db (mark_claimed now tok s) = si_db s"
  "ac_claims (si_acc (mark_claimed now tok s)) = snd (claim_mark_used now tok (ac_claims (si_acc s)))"
  "sv_cache (ac_server (si_acc (mark_claimed now tok s))) = sv_cache (ac_server (si_acc s))"
  by (simp_all add: mark_claimed_def si_db_def ac_db_def)

lemma put_si_db_others [simp]:
  "ac_claims (si_acc (put_si_db d s)) = ac_claims (si_acc s)"
  "ac_origins (si_acc (put_si_db d s)) = ac_origins (si_acc s)"
  "ac_redis (si_acc (put_si_db d s)) = ac_redis (si_acc s)"
  "sv_cache (ac_server (si_acc (put_si_db d s))) = sv_cache (ac_server (si_acc s))"
  by (simp_all add: put_si_db_def put_db_def)

definition claimed_row :: "timestamp \<Rightarrow> string \<Rightarrow> string \<Rightarrow> user \<Rightarrow> user" where
  "claimed_row now email h u =
     u\<lparr>us_email := Some email, us_password_hash := Some h, us_email_verified := Some True, us_updated_at := now\<rparr>"

lemma claim_account_row:
  assumes "claim_account now pk t email h d = Inr d'"
  obtains u where "u \<in> set (db_users d)" "claimable pk t u" "claimed_row now email h u \<in> set (db_users d')"
    "d' = d\<lparr>db_users := update_where (claimable pk t) (claimed_row now email h) (db_users d)\<rparr>" "users_unique (db_users d')"
proof -
  have d': "d' = d\<lparr>db_users := update_where (claimable pk t) (claimed_row now email h) (db_users d)\<rparr>"
    and un: "users_unique (db_users d')" and n: "rows_affected (claimable pk t) (db_users d) \<noteq> 0"
    using assms by (auto simp: claim_account_def and_then_Inr_iff update_users_def Let_def claimed_row_def [abs_def] split: if_splits)
  from n obtain u where u: "u \<in> set (db_users d)" "claimable pk t u" by (auto simp: rows_affected_def filter_empty_conv)
  then have "claimed_row now email h u \<in> set (db_users d')" by (force simp: d' set_update_where)
  with that u d' un show ?thesis by blast
qed

lemma claim_post_writes:
  assumes "claim_post W env now salt tn form s = (r, s1)" and "s1 \<noteq> s"
  obtains c h d where "claim_find_valid now (cf_token form) (ac_claims (si_acc s)) = Some c"
    "cf_password form = cf_password_confirmation form" "8 \<le> length (cf_password form)"
    "bcrypt_hash W salt (cf_password form) = Inr h"
    "claim_account now (ct_user_pubkey c) (tn_id tn) (lower W (cf_email form)) h (si_db s) = Inr d"
    "s1 = mark_claimed now (cf_token form) (put_si_db d s)"
    "r = (if is_set (str_slice (ct_user_pubkey c) 0 8)
          then Some (claim_session W env (tn_id tn) (ct_user_pubkey c) (lower W (cf_email form)) (si_db s1)) else None)"
  using assms
  by (auto simp: claim_post_def claim_checks_def Let_def and_then_Inr_iff split: sum.splits if_splits prod.splits)

text \<open>
  A claim link works once, for the account it was made for. When a claim writes anything, the link
  was live, the two passwords agree and have eight bytes, and the account of the link was an account of
  this tenant without an address; afterwards that account has the lower-case address as verified and the
  hash of the password, every other account is unchanged, and the same link is refused for ever after,
  whoever presents it, without any change.
\<close>

theorem claim_link_works_once:
  assumes post: "claim_post W env now salt tn form s = (r, s1)" and wrote: "s1 \<noteq> s"
    and ok: "users_unique (db_users (si_db s))"
  shows "\<exists>c h u. claim_find_valid now (cf_token form) (ac_claims (si_acc s)) = Some c
     \<and> cf_password form = cf_password_confirmation form \<and> 8 \<le> length (cf_password form)
     \<and> bcrypt_hash W salt (cf_password form) = Inr h
     \<and> u \<in> set (db_users (si_db s)) \<and> us_pubkey u = ct_user_pubkey c \<and> us_tenant_id u = tn_id tn \<and> us_email u = None
     \<and> db_users (si_db s1) = map (\<lambda>v. if v = u then claimed_row now (lower W (cf_email form)) h u else v) (db_users (si_db s))
     \<and> claim_post W' env' now' salt' tn' (form'\<lparr>cf_token := cf_token form\<rparr>) s1 = (Some (Inl ClInvalidToken), s1)"
proof -
  from claim_post_writes [OF post wrote] obtain c h d where
    c: "claim_find_valid now (cf_token form) (ac_claims (si_acc s)) = Some c"
      "cf_password form = cf_password_confirmation form" "8 \<le> length (cf_password form)"
      "bcrypt_hash W salt (cf_password form) = Inr h"
    and d: "claim_account now (ct_user_pubkey c) (tn_id tn) (lower W (cf_email form)) h (si_db s) = Inr d"
    and s1: "s1 = mark_claimed now (cf_token form) (put_si_db d s)" by metis
  from claim_account_row [OF d] obtain u where u: "u \<in> set (db_users (si_db s))" "claimable (ct_user_pubkey c) (tn_id tn) u"
    and d': "d = (si_db s)\<lparr>db_users := update_where (claimable (ct_user_pubkey c) (tn_id tn))
                    (claimed_row now (lower W (cf_email form)) h) (db_users (si_db s))\<rparr>" by metis
  have "claimable (ct_user_pubkey c) (tn_id tn) v \<longleftrightarrow> v = u" if "v \<in> set (db_users (si_db s))" for v
    using ok u that by (auto simp: claimable_def user_at_def users_unique_def distinct_map inj_on_def)
  then have "db_users (si_db s1) = map (\<lambda>v. if v = u then claimed_row now (lower W (cf_email form)) h u else v) (db_users (si_db s))"
    by (simp add: s1 d' update_where_def)
  moreover have "claim_post W' env' now' salt' tn' (form'\<lparr>cf_token := cf_token form\<rparr>) s1 = (Some (Inl ClInvalidToken), s1)"
    by (simp add: claim_post_def claim_checks_def Let_def s1 claim_marked_invalid)
  moreover have "us_pubkey u = ct_user_pubkey c" "us_tenant_id u = tn_id tn" "us_email u = None"
    using u(2) by (auto simp: claimable_def user_at_def is_set_def split: option.splits)
  ultimately show ?thesis using c u(1) by blast
qed

section \<open>The handler cache survives a claim\<close>

text \<open>
  A claim does not end the access an administrator already used. The token of a preloaded account
  signs only while the account is unclaimed, and loading a handler for it afterwards fails. But a handler
  loaded before stays in the cache through the claim, and every request with the same token goes on
  getting it while it is valid.
\<close>

theorem claim_keeps_cached_handler:
  assumes post: "claim_post W env now salt tn form s = (r, s1)" and wrote: "s1 \<noteq> s"
    and ok: "users_unique (db_users (si_db s))"
    and tok: "compute_token_cache_key X hdr (tn_id tn) = Some key"
      "validate_ucan_token X now' hdr (tn_id tn) = Inr (pk, origin, None, u)" 
    and claim: "claim_find_valid now (cf_token form) (ac_claims (si_acc s)) = Some c" "ct_user_pubkey c = pk"
    and cached: "sv_cache (ac_server (si_acc s)) key = Some h" "is_valid now' h"
  shows "load_for_token X now' hdr (tn_id tn) (si_db s1) = Inl (RpcAuth InvalidToken)
     \<and> fst (get_handler X now' hdr (tn_id tn)
              \<lparr>ht_db = si_db s1, ht_cache = sv_cache (ac_server (si_acc s1)), ht_metrics = m\<rparr>) = Inr h"
proof -
  from claim_post_writes [OF post wrote] claim obtain h' d where
    d: "claim_account now pk (tn_id tn) (lower W (cf_email form)) h' (si_db s) = Inr d"
    and s1: "s1 = mark_claimed now (cf_token form) (put_si_db d s)" by (metis option.inject)
  from claim_account_row [OF d] obtain v where v: "v \<in> set (db_users (si_db s))" "claimable pk (tn_id tn) v"
    "claimed_row now (lower W (cf_email form)) h' v \<in> set (db_users d)" "users_unique (db_users d)" by metis
  then have "fetch_optional (user_at pk (tn_id tn)) (db_users d) = Some (claimed_row now (lower W (cf_email form)) h' v)"
    using user_at_only [OF v(4,3)] by (simp add: claimable_def user_at_def claimed_row_def)
  then have "HttpRpc.is_unclaimed (si_db s1) pk (tn_id tn) = Some False"
    by (simp add: HttpRpc.is_unclaimed_def s1 claimed_row_def user_at_def [abs_def])
  then have "load_for_token X now' hdr (tn_id tn) (si_db s1) = Inl (RpcAuth InvalidToken)"
    using tok(2) by (simp add: load_for_token_def load_preloaded_user_handler_def)
  moreover have "sv_cache (ac_server (si_acc s1)) key = Some h" using cached(1) by (simp add: s1)
  ultimately show ?thesis using tok(1) cached(2) by (simp add: get_handler_def)
qed

section \<open>From preloading to login\<close>

definition preloaded_row :: "timestamp \<Rightarrow> pubkey \<Rightarrow> int \<Rightarrow> preload_user_request \<Rightarrow> user" where
  "preloaded_row now pubkey tenant_id q =
     (blank_user pubkey tenant_id now)\<lparr>us_vine_id := Some (pu_vine_id q), us_username := Some (pu_username q),
        us_display_name := pu_display_name q\<rparr>"

lemma preloaded_row_simps [simp]:
  "us_pubkey (preloaded_row now pk t q) = pk" "us_tenant_id (preloaded_row now pk t q) = t"
  "us_email (preloaded_row now pk t q) = None" "us_vine_id (preloaded_row now pk t q) = Some (pu_vine_id q)"
  by (simp_all add: preloaded_row_def blank_user_def)

lemma preload_creates:
  assumes "preload_user A t0 D t auth q s0 = (Inr (pk, tok), s1)"
    and "find_pubkey_by_vine_id (pu_vine_id q) t (si_db s0) = None"
  obtains encrypted where "km_encrypt (dx A) (ad_keys D) = Inr encrypted"
    "si_db s1 = (si_db s0)\<lparr>db_users := db_users (si_db s0) @ [preloaded_row t0 pk t q],
        db_personal_keys := db_personal_keys (si_db s0) @
          [\<lparr>pk_user_pubkey = pk, pk_encrypted_secret_key = encrypted, pk_tenant_id = t\<rparr>]\<rparr>"
    "users_unique (db_users (si_db s1))" "s1 = put_si_db (si_db s1) s0"
  using assms
  by (auto simp: preload_user_def create_preloaded_user_def insert_user_def personal_keys_create_def and_then_Inr_iff
      preloaded_row_def Let_def split: sum.splits if_splits)

lemma link_for_last_user:
  assumes un: "users_unique (db_users (si_db s))" and us: "db_users (si_db s) = us @ [u]"
    and u: "us_vine_id u = Some vine" "us_tenant_id u = t" "us_email u = None"
    and may: "support_admin A auth s" and fresh: "\<forall>r\<in>set (rows (ac_claims (si_acc s))). ct_token r \<noteq> ad_token D"
  shows "\<exists>url expires c s'. create_claim_token A now D t auth vine s = (Inr (url, expires), s') \<and> si_db s' = si_db s
     \<and> rows (ac_claims (si_acc s')) = rows (ac_claims (si_acc s)) @ [c]
     \<and> ct_token c = ad_token D \<and> ct_user_pubkey c = us_pubkey u \<and> ct_used_at c = None
     \<and> ct_expires_at c = now + days CLAIM_TOKEN_EXPIRY_DAYS"
proof -
  have "fetch_optional (\<lambda>x. us_vine_id x = Some vine \<and> us_tenant_id x = t) (db_users (si_db s)) = Some u"
    using un us u by (intro fetch_optional_only)
      (auto simp: users_unique_def dest: indexed_unique [where col = us_vine_id])
  then have f: "find_pubkey_by_vine_id vine t (si_db s) = Some (us_pubkey u)" by (simp add: find_pubkey_by_vine_id_def)
  have "Users.is_unclaimed (us_pubkey u) t (si_db s) = Some True"
    using user_at_only [OF un, of u] us u by (simp add: Users.is_unclaimed_def)
  with f may fresh us show ?thesis
    by (auto simp: create_claim_token_def require_def claim_create_def exists_row_iff Let_def put_claims_def si_db_def ac_db_def)
qed

lemma indexed_snoc:
  "indexed col (us @ [u]) = indexed col us @ (case col u of None \<Rightarrow> [] | Some x \<Rightarrow> [(us_tenant_id u, x)])"
  by (auto simp: indexed_def List.map_filter_def split: option.splits)

text \<open>Giving the last user an address that nobody has keeps the constraints.\<close>

lemma claim_last_user:
  assumes un: "users_unique (us @ [u])" and d: "db_users d = us @ [u]" and u: "us_email u = None" "us_tenant_id u = t"
    and free: "\<not> email_exists email t d"
  shows "claim_account now (us_pubkey u) t email h d = Inr (d\<lparr>db_users := us @ [claimed_row now email h u]\<rparr>)"
    and "users_unique (us @ [claimed_row now email h u])"
proof -
  have "(t, email) \<notin> set (indexed us_email us)"
    using free d by (auto simp: email_exists_def exists_row_iff user_with_email_def indexed_def List.map_filter_def)
  then show un': "users_unique (us @ [claimed_row now email h u])"
    using un u by (simp add: users_unique_def indexed_snoc claimed_row_def split: option.splits)
  have "\<forall>v\<in>set us. \<not> claimable (us_pubkey u) t v"
    using unique_last(1) [OF un] by (auto simp: claimable_def user_at_def)
  moreover have "claimable (us_pubkey u) t u" using u by (simp add: claimable_def user_at_def)
  ultimately have "update_where (claimable (us_pubkey u) t) (claimed_row now email h) (us @ [u]) = us @ [claimed_row now email h u]"
    "rows_affected (claimable (us_pubkey u) t) (us @ [u]) \<noteq> 0"
    by (auto intro: update_where_last simp: rows_affected_def)
  then show "claim_account now (us_pubkey u) t email h d = Inr (d\<lparr>db_users := us @ [claimed_row now email h u]\<rparr>)"
    using d un' by (simp add: claim_account_def update_users_def Let_def claimed_row_def [abs_def])
qed

text \<open>
  C11. A preloaded account reaches its owner. After an administrator preloaded an account, a support agent
  gets a claim link for it; whoever follows the link within its lifetime, with an address nobody in the
  tenant has and a password of eight bytes, is signed in, and can from then on log in with that address
  and password as the preloaded key. Assumed are the promises of bcrypt, of the key service and of the
  token crate, and that the drawn token is new.
\<close>

theorem preloaded_account_reaches_owner:
  assumes pre: "preload_user A t0 D (tn_id tn) auth q s0 = (Inr (pk, tok), s1)"
      "find_pubkey_by_vine_id (pu_vine_id q) (tn_id tn) (si_db s0) = None"
    and refs: "pk_user_pubkey ` set (db_personal_keys (si_db s0)) \<subseteq> us_pubkey ` set (db_users (si_db s0))"
    and link: "support_admin A agent s1" "\<forall>r\<in>set (rows (ac_claims (si_acc s0))). ct_token r \<noteq> ad_token D1"
    and form: "cf_token form = ad_token D1" "cf_password form = cf_password_confirmation form" "8 \<le> length (cf_password form)"
      "CHR ''@'' \<in> set (lower W (cf_email form))" "CHR ''.'' \<in> set (lower W (cf_email form))"
      "\<not> email_exists (lower W (cf_email form)) (tn_id tn) (si_db s0)" "t2 < t1 + days CLAIM_TOKEN_EXPIRY_DAYS"
    and crates: "dx A = lx W" "bcrypt_ok (bcrypt_hash W) (bcrypt_verify (lx W))" "bcrypt_hash W salt (cf_password form) = Inr h"
      "keys_reopen (lx W)" "always_signs W" "8 \<le> length pk" "pk_from_hex (x_perm (lx W)) pk = Inr pk"
      "generate_server_signed_ucan (ltoken W) pk (tn_id tn) (lower W (cf_email form)) ''claim'' None False None = Inr ucan"
    and rq: "header_str rq ''authorization'' = None" "header_str rq ''origin'' = Some origin"
      "login_json W body = Inr (email, cf_password form)" "lower W email = lower W (cf_email form)"
  shows "\<exists>url expires s2 cookie page s3 cookie' s4.
     create_claim_token A t1 D1 (tn_id tn) agent (pu_vine_id q) s1 = (Inr (url, expires), s2)
     \<and> claim_post W env t2 salt tn form s2 = (Some (Inr (cookie, page)), s3)
     \<and> login W clock tn rq body s3
         = (Inr (cookie', \<lparr>ar_pubkey = pk, ar_verification_required = None, ar_email = None\<rparr>), s4)"
proof -
  let ?u = "preloaded_row t0 pk (tn_id tn) q" and ?us = "db_users (si_db s0)" and ?e = "lower W (cf_email form)"
  from preload_creates [OF pre] obtain encrypted where enc: "km_encrypt (dx A) (ad_keys D) = Inr encrypted"
    and d1: "si_db s1 = (si_db s0)\<lparr>db_users := ?us @ [?u], db_personal_keys := db_personal_keys (si_db s0) @
               [\<lparr>pk_user_pubkey = pk, pk_encrypted_secret_key = encrypted, pk_tenant_id = tn_id tn\<rparr>]\<rparr>"
    and un: "users_unique (db_users (si_db s1))" and s1: "s1 = put_si_db (si_db s1) s0" by metis
  have claims1: "ac_claims (si_acc s1) = ac_claims (si_acc s0)" by (subst s1) simp
  from link_for_last_user [OF un _ _ _ _ link(1), of ?us ?u "pu_vine_id q" "tn_id tn" D1 t1] link(2) obtain url expires c s2 where
    l: "create_claim_token A t1 D1 (tn_id tn) agent (pu_vine_id q) s1 = (Inr (url, expires), s2)" "si_db s2 = si_db s1"
    and c: "rows (ac_claims (si_acc s2)) = rows (ac_claims (si_acc s0)) @ [c]" "ct_token c = ad_token D1" "ct_user_pubkey c = pk"
      "ct_used_at c = None" "ct_expires_at c = t1 + days CLAIM_TOKEN_EXPIRY_DAYS"
    by (auto simp: d1 claims1)
  have valid: "claim_find_valid t2 (cf_token form) (ac_claims (si_acc s2)) = Some c"
    unfolding claim_find_valid_def c(1) by (subst fetch_optional_last) (use link(2) c form in auto)
  have free: "\<not> email_exists ?e (tn_id tn) (si_db s2)"
    using form(6) by (auto simp: l(2) d1 email_exists_def exists_row_iff user_with_email_def)
  have un2: "users_unique (?us @ [?u])" using un by (simp add: d1)
  have us2: "db_users (si_db s2) = ?us @ [?u]" by (simp add: l(2) d1)
  let ?d = "(si_db s2)\<lparr>db_users := ?us @ [claimed_row t2 ?e h ?u]\<rparr>"
  let ?s3 = "mark_claimed t2 (cf_token form) (put_si_db ?d s2)"
  have claim: "claim_account t2 pk (tn_id tn) ?e h (si_db s2) = Inr ?d"
    and un3: "users_unique (?us @ [claimed_row t2 ?e h ?u])"
    using claim_last_user [OF un2 us2 _ _ free, of t2 h] by simp_all
  have "\<exists>cookie page. claim_session W env (tn_id tn) pk ?e (si_db ?s3) = Inr (cookie, page)"
    using crates(7,8) by (simp add: claim_session_def Let_def split: prod.splits)
  moreover have "is_set (str_slice pk 0 8)" using crates(6) by (simp add: str_slice_def)
  ultimately obtain cookie page where p: "claim_post W env t2 salt tn form s2 = (Some (Inr (cookie, page)), ?s3)"
    using valid form(1-5) free crates(3) claim c(3) by (auto simp: claim_post_def claim_checks_def Let_def)
  have "us_pubkey ?u \<notin> us_pubkey ` set ?us" using unique_last(1) [OF un2] by auto
  then have own: "\<forall>k\<in>set (db_personal_keys (si_db s0)). pk_user_pubkey k \<noteq> pk"
    using refs by (metis image_eqI preloaded_row_simps(1) subsetD)
  have "open_user_key W (AcInternal ''Personal keys not found'') pk (tn_id tn) (si_db ?s3) = Inr (ad_keys D)"
    using enc crates(1,4) own by (intro open_last_key [where ks = "db_personal_keys (si_db s0)"])
      (auto simp: l(2) d1 claimed_row_def)
  then have "\<exists>cookie s'. login W clock tn rq body ?s3
      = (Inr (cookie, \<lparr>ar_pubkey = pk, ar_verification_required = None, ar_email = None\<rparr>), s')"
    using login_with_row [of ?s3 "claimed_row t2 ?e h ?u" tn W email h "cf_password form" "ad_keys D" rq origin body clock]
      un3 crates(2,3,5) rq by (auto simp: claimed_row_def bcrypt_ok_def)
  with l(1) p show ?thesis by blast
qed

section \<open>A concrete account\<close>

definition owner_tokens :: "jv token_world" where
  "owner_tokens = CT0\<lparr>ucan_sign := (\<lambda>_ _ _. Inr ''signed''), keys_parse := (\<lambda>_. Inr [9]),
     tw_http := (tw_http CT0)\<lparr>hx := (hx (tw_http CT0))\<lparr>public_key := (\<lambda>_. ''owner-owner'')\<rparr>\<rparr>\<rparr>"

definition LW2 :: "jv login_world" where
  "LW2 = LW0\<lparr>lw_acc := (lw_acc LW0)\<lparr>acw_token := owner_tokens\<rparr>, login_json := (\<lambda>_. Inr (''o@b.c'', ''longsecret''))\<rparr>"

definition no_names :: "jv names_world" where
  "no_names =
     \<lparr>nw_ext = X0, name_server_env = None, enable_names_env = None, send_http = (\<lambda>_. Inl ''down''),
      claim_json = (\<lambda>u _. u), payload_digest = id, base64_of = id, percent_encode = id,
      parse_claim = (\<lambda>_. Inl ''none''), parse_availability = (\<lambda>_. Inl ''none''), parse_lookup = (\<lambda>_. Inl ''none''),
      name_at = (\<lambda>_ _. None)\<rparr>"

definition DW0 :: "jv admin_world" where
  "DW0 =
     \<lparr>dw_team = TW0\<lparr>tmw_token := owner_tokens\<rparr>, dw_names = no_names, dw_tenants = acw_tenants (lw_acc LW0),
      server_nsec_env = Some ''nsec'', claim_app_url_env = Some ''https://k.example'',
      admin_ucan = (\<lambda>_ aud _ _. Inr aud), rfc3339_text = (\<lambda>_. ''then''), npub_decode = (\<lambda>_. Inl ''no npub''),
      key_parse = (\<lambda>_. Inl ''no key''), sql_lower = id, alphanumeric_part = id, string_array = (\<lambda>_. None),
      relay_profile = (\<lambda>_. None), claim_mail_sent = (\<lambda>_. Inr ()), web_parse = (\<lambda>_. None)\<rparr>"

definition root_admin :: ucan_auth where
  "root_admin = \<lparr>ua_pubkey = ''root'', ua_admin_role = Some ''full''\<rparr>"

definition sample_preload :: preload_user_request where
  "sample_preload = \<lparr>pu_vine_id = ''v1'', pu_username = ''diner'', pu_display_name = Some ''The Diner''\<rparr>"

definition sample_claim_form :: claim_form where
  "sample_claim_form =
     \<lparr>cf_token = ''link'', cf_email = ''o@b.c'', cf_password = ''longsecret'', cf_password_confirmation = ''longsecret''\<rparr>"

abbreviation preloaded :: "(api_error + pubkey \<times> string) \<times> jv site" where
  "preloaded \<equiv> preload_user DW0 10 (sample_draws [] [9]) (tn_id customer_tenant) root_admin sample_preload (site_of empty_db)"

lemma preloaded_pair: "preloaded = (Inr (''owner-owner'', ''did:key:zowner-owner''), snd preloaded)"
proof -
  have "fst preloaded = Inr (''owner-owner'', ''did:key:zowner-owner'')" by code_simp
  then show ?thesis by (simp add: prod_eq_iff)
qed

lemma owner_crates:
  "dx DW0 = lx LW2" "bcrypt_ok (bcrypt_hash LW2) (bcrypt_verify (lx LW2))" "keys_reopen (lx LW2)" "always_signs LW2"
  "pk_from_hex (x_perm (lx LW2)) pk = Inr pk" "generate_server_signed_ucan (ltoken LW2) pk t e origin b fp role = Inr ''signed''"
  by (simp_all add: bcrypt_ok_def keys_reopen_def always_signs_def DW0_def LW2_def LW0_def owner_tokens_def CW0_def CT0_def
      W0_def Y0_def X0_def sample_ext_def sample_perm_ext_def generate_server_signed_ucan_def account_world.defs)

theorem preloaded_account_reaches_owner_witness:
  "\<exists>url expires s2 cookie page s3 cookie' s4.
     create_claim_token DW0 20 (sample_draws ''link'' []) 1 root_admin ''v1'' (snd preloaded) = (Inr (url, expires), s2)
     \<and> claim_post LW2 None 30 ''salt'' customer_tenant sample_claim_form s2 = (Some (Inr (cookie, page)), s3)
     \<and> login LW2 0 customer_tenant (web_parts [(''origin'', ''https://app'')]) [] s3
         = (Inr (cookie', \<lparr>ar_pubkey = ''owner-owner'', ar_verification_required = None, ar_email = None\<rparr>), s4)"
proof -
  have h: "header_str (web_parts [(''origin'', ''https://app'')]) ''authorization'' = None"
    "header_str (web_parts [(''origin'', ''https://app'')]) ''origin'' = Some ''https://app''" by code_simp+
  have new: "find_pubkey_by_vine_id (pu_vine_id sample_preload) (tn_id customer_tenant) (si_db (site_of empty_db)) = None"
    by (simp add: find_pubkey_by_vine_id_def empty_db_def)
  have may: "support_admin DW0 root_admin (snd preloaded)"
    by (simp add: support_admin_def is_support_admin_def is_full_admin_def root_admin_def)
  have empty: "ac_claims (si_acc (site_of empty_db)) = \<lparr>rows = [], seq = 1\<rparr>" "db_personal_keys empty_db = []" "db_users empty_db = []"
    by (simp_all add: site_of_def sample_accounts_def empty_db_def)
  have soon: "(30::timestamp) < 20 + days CLAIM_TOKEN_EXPIRY_DAYS" by code_simp
  have tok: "ad_token (sample_draws ''link'' []) = ''link''" "tn_id customer_tenant = 1" "pu_vine_id sample_preload = ''v1''"
    by (simp_all add: sample_draws_def customer_tenant_def sample_preload_def)
  show ?thesis
    using preloaded_account_reaches_owner [OF preloaded_pair new _ may _ _ _ _ _ _ _ soon owner_crates(1,2) _ owner_crates(3,4)
        _ owner_crates(5,6) h, where ?D1.0 = "sample_draws ''link'' []" and form = sample_claim_form and salt = "''salt''"
        and h = "''longsecret''" and body = "[]" and email = "''o@b.c''" and env = None and clock = 0]
    by (simp add: empty tok sample_claim_form_def LW2_def LW0_def email_exists_def exists_row_def)
qed

definition preload_http :: "jv http_world" where
  "preload_http = (lhttp LW2)\<lparr>ucan_is_expired := (\<lambda>_ _. False), ucan_parse := (\<lambda>_. Inr \<lparr>uc_issuer = ''did:key:zserver'', uc_audience = ''did:key:zowner-owner'',
     uc_facts = [JObj [(''tenant_id'', JNum 1), (''redirect_origin'', JStr ''preload'')]], uc_payload = []\<rparr>)\<rparr>"

definition preload_key :: cache_key where
  "preload_key = the (compute_token_cache_key preload_http ''Bearer tok'' 1)"

definition owner_handler :: http_handler where
  "owner_handler = http_handler_new preload_http [9] 0 None None [] False [1] [1]"

definition link_site :: "jv site" where
  "link_site = put_claims
     \<lparr>rows = [\<lparr>ct_id = 1, ct_token = ''link'', ct_user_pubkey = ''owner-owner'', ct_expires_at = 1000, ct_used_at = None,
               ct_created_at = 10, ct_created_by_pubkey = Some ''root'', ct_tenant_id = 1\<rparr>], seq = 2\<rparr>
     ((snd preloaded)\<lparr>si_acc := (si_acc (snd preloaded))\<lparr>ac_server := (ac_server (si_acc (snd preloaded)))
        \<lparr>sv_cache := (\<lambda>k. if k = preload_key then Some owner_handler else None)\<rparr>\<rparr>\<rparr>)"

abbreviation claimed :: "(claim_error + string \<times> claim_success_page) option \<times> jv site" where
  "claimed \<equiv> claim_post LW2 None 30 ''salt'' customer_tenant sample_claim_form link_site"

lemma link_site_users:
  "db_users (si_db link_site) = [preloaded_row 10 ''owner-owner'' 1 sample_preload]"
  by code_simp

lemma link_site_valid:
  "map_option ct_user_pubkey (claim_find_valid 30 (cf_token sample_claim_form) (ac_claims (si_acc link_site))) = Some ''owner-owner''"
  by code_simp

lemma link_site_unique: "users_unique (db_users (si_db link_site))"
  by (simp add: link_site_users users_unique_def indexed_def List.map_filter_def)

lemma claimed_wrote: "snd claimed \<noteq> link_site"
proof
  assume same: "snd claimed = link_site"
  obtain c where c: "claim_find_valid 30 (cf_token sample_claim_form) (ac_claims (si_acc link_site)) = Some c"
    and pk: "ct_user_pubkey c = ''owner-owner''" using link_site_valid by auto
  have "\<not> email_exists ''o@b.c'' 1 (si_db link_site)"
    by (simp add: email_exists_def exists_row_def link_site_users user_with_email_def)
  then have chk: "claim_checks LW2 30 ''salt'' 1 sample_claim_form ''o@b.c'' link_site = Inr (c, ''longsecret'')"
    using c by (simp add: claim_checks_def sample_claim_form_def LW2_def LW0_def)
  have "\<exists>d. claim_account 30 ''owner-owner'' 1 ''o@b.c'' ''longsecret'' (si_db link_site) = Inr d"
    using claim_last_user(1) [of "[]" "preloaded_row 10 ''owner-owner'' 1 sample_preload" "si_db link_site" 1 "''o@b.c''" 30 "''longsecret''"]
      link_site_unique by (simp add: link_site_users email_exists_def exists_row_def user_with_email_def)
  then obtain d where d: "claim_account 30 ''owner-owner'' 1 ''o@b.c'' ''longsecret'' (si_db link_site) = Inr d" ..
  have "snd claimed = mark_claimed 30 (cf_token sample_claim_form) (put_si_db d link_site)"
    using chk d pk by (simp add: claim_post_def Let_def customer_tenant_def sample_claim_form_def LW2_def LW0_def)
  then have "claim_find_valid 30 (cf_token sample_claim_form) (ac_claims (si_acc link_site)) = None"
    using same by (metis claim_marked_invalid mark_claimed_simps(2))
  with c show False by simp
qed

theorem claim_link_works_once_witness:
  "claim_post LW2 None 40 ''salt'' customer_tenant sample_claim_form (snd claimed) = (Some (Inl ClInvalidToken), snd claimed)
   \<and> map us_email (db_users (si_db (snd claimed))) = [Some ''o@b.c'']"
proof -
  have same: "sample_claim_form\<lparr>cf_token := cf_token sample_claim_form\<rparr> = sample_claim_form" by simp
  from claim_link_works_once [OF surjective_pairing claimed_wrote link_site_unique, of LW2 None 40 "''salt''" customer_tenant sample_claim_form]
  show ?thesis unfolding same by (auto simp: link_site_users claimed_row_def sample_claim_form_def LW2_def LW0_def)
qed

lemma preload_token: "compute_token_cache_key preload_http ''Bearer tok'' (tn_id customer_tenant) = Some preload_key"
  by (simp add: preload_key_def compute_token_cache_key_def strip_prefix_def customer_tenant_def)

lemma preload_validated:
  "map_sum id (\<lambda>(user, origin, bunker, _). (user, origin, bunker))
     (validate_ucan_token preload_http 40 ''Bearer tok'' (tn_id customer_tenant)) = Inr (''owner-owner'', ''preload'', None)"
  by code_simp

lemma link_site_cached: "sv_cache (ac_server (si_acc link_site)) preload_key = Some owner_handler" "is_valid 40 owner_handler"
  by (simp_all add: link_site_def put_claims_def owner_handler_def http_handler_new_def is_valid_def)

theorem claim_keeps_cached_handler_witness:
  "load_for_token preload_http 40 ''Bearer tok'' (tn_id customer_tenant) (si_db (snd claimed)) = Inl (RpcAuth InvalidToken)
   \<and> fst (get_handler preload_http 40 ''Bearer tok'' (tn_id customer_tenant)
        \<lparr>ht_db = si_db (snd claimed), ht_cache = sv_cache (ac_server (si_acc (snd claimed))),
         ht_metrics = \<lparr>hm_requests_total = 0, hm_cache_hits = 0, hm_cache_misses = 0, hm_success = 0, hm_auth_errors = 0\<rparr>\<rparr>)
      = Inr owner_handler"
proof -
  obtain u where u: "validate_ucan_token preload_http 40 ''Bearer tok'' (tn_id customer_tenant) = Inr (''owner-owner'', ''preload'', None, u)"
    using preload_validated by (cases "validate_ucan_token preload_http 40 ''Bearer tok'' (tn_id customer_tenant)") auto
  obtain c where c: "claim_find_valid 30 (cf_token sample_claim_form) (ac_claims (si_acc link_site)) = Some c"
    "ct_user_pubkey c = ''owner-owner''" using link_site_valid by auto
  show ?thesis
    by (rule claim_keeps_cached_handler [OF surjective_pairing claimed_wrote link_site_unique preload_token u c link_site_cached])
qed

end
