(* ===== verification/AdminProofs.thy ===== *)
theory AdminProofs
  imports Runs AdminApi TeamsProofs ClaimProofs "HOL-Library.Multiset"
begin

text \<open>
  What the operator endpoints guarantee: who may change what, the limits of a support session and its end,
  and the links of a batch.
\<close>

section \<open>Who may change what\<close>

text \<open>The requests of the router that write.\<close>

datatype admin_call =
    CallPreload preload_user_request
  | CallClaim string
  | CallBatch "string list" "string option"
  | CallRevoke int "string option"
  | CallGrant int grant_support_access_request
  | CallRelease int
  | CallAddAgent string
  | CallRemoveAgent string
  | CallDelete string
  | CallAddOrigin string string string
  | CallRemoveOrigin string

record 'j admin_context =
  ax_world :: "'j admin_world"
  ax_now :: timestamp
  ax_draws :: account_draws
  ax_tokens :: "nat \<Rightarrow> string"
  ax_mail_service :: bool
  ax_tenants :: "tenant table"
  ax_tenant_id :: int

definition answered :: "(api_error + 'a) \<times> 's \<Rightarrow> (api_error + unit) option \<times> 's" where
  "answered = map_prod (\<lambda>r. Some (map_sum id (\<lambda>_. ()) r)) id"

fun admin_serve :: "'j admin_context \<Rightarrow> ucan_auth \<Rightarrow> admin_call \<Rightarrow> 'j site \<Rightarrow> (api_error + unit) option \<times> 'j site" where
  "admin_serve C auth (CallPreload q) s =
     answered (preload_user (ax_world C) (ax_now C) (ax_draws C) (ax_tenant_id C) auth q s)"
| "admin_serve C auth (CallClaim vine_id) s =
     answered (create_claim_token (ax_world C) (ax_now C) (ax_draws C) (ax_tenant_id C) auth vine_id s)"
| "admin_serve C auth (CallBatch vine_ids email) s =
     answered (batch_create_claim_tokens (ax_world C) (ax_now C) (ax_tokens C) (ax_mail_service C) (ax_tenant_id C) auth
       vine_ids email s)"
| "admin_serve C auth (CallRevoke i reason) s =
     answered (revoke_authorization (ax_world C) (ax_now C) (ax_draws C) (ax_tenant_id C) auth i reason s)"
| "admin_serve C auth (CallGrant team_id q) s =
     map_prod (map_option (map_sum id (\<lambda>_. ()))) id
       (grant_team_support_access (ax_world C) (ax_now C) (ax_draws C) (ax_tenant_id C) auth team_id q s)"
| "admin_serve C auth (CallRelease team_id) s =
     answered (release_team_support_access (ax_world C) (ax_now C) (ax_draws C) (ax_tenant_id C) auth team_id s)"
| "admin_serve C auth (CallAddAgent text) s = answered (add_support_admin (ax_world C) (ax_tenant_id C) auth text s)"
| "admin_serve C auth (CallRemoveAgent pubkey) s = answered (remove_support_admin (ax_world C) auth pubkey s)"
| "admin_serve C auth (CallDelete text) s =
     answered (delete_user (ax_world C) (ax_draws C) (ax_tenant_id C) auth text s)"
| "admin_serve C auth (CallAddOrigin org name merchant) s =
     answered (add_customer_origin (ax_world C) (ax_now C) (ax_tenants C) auth org name merchant s)"
| "admin_serve C auth (CallRemoveOrigin org) s =
     answered (remove_customer_origin (ax_world C) (ax_tenants C) auth org s)"

text \<open>What a support agent leaves alone.\<close>

definition agent_frame :: "'j site \<Rightarrow> 'j site \<Rightarrow> bool" where
  "agent_frame s s' \<longleftrightarrow>
     db_users (si_db s') = db_users (si_db s) \<and> db_personal_keys (si_db s') = db_personal_keys (si_db s)
     \<and> db_stored_keys (si_db s') = db_stored_keys (si_db s) \<and> db_oauth (si_db s') = db_oauth (si_db s)
     \<and> db_oauth_codes (si_db s') = db_oauth_codes (si_db s) \<and> db_refresh_tokens (si_db s') = db_refresh_tokens (si_db s)
     \<and> db_policies (si_db s') = db_policies (si_db s) \<and> db_permissions (si_db s') = db_permissions (si_db s)
     \<and> db_teams (si_db s') = db_teams (si_db s)
     \<and> ac_redis (si_acc s') = ac_redis (si_acc s) \<and> ac_origins (si_acc s') = ac_origins (si_acc s)"

lemma agent_frame_refl [simp]: "agent_frame s s"
  by (simp add: agent_frame_def)

lemma agent_frame_trans: "agent_frame s s' \<Longrightarrow> agent_frame s' s'' \<Longrightarrow> agent_frame s s''"
  by (simp add: agent_frame_def)

lemma agent_frame_put [simp]:
  "agent_frame s (put_claims t s)"
  "agent_frame s (put_authorizations u s)"
  "agent_frame s (drop_bunker W D b s)"
  by (simp_all add: agent_frame_def put_claims_def put_authorizations_def drop_bunker_def push_command_def Let_def
      si_db_def put_si_db_def ac_db_def put_db_def)

lemma agent_frame_drop [simp]: "agent_frame s (drop_bunker W D b (put_authorizations u s))"
  by (rule agent_frame_trans [OF agent_frame_put(2,3)])

lemma batch_step_frame: "agent_frame s (snd (batch_step W now m e t auth x (r, s)))"
  by (auto simp: batch_step_def Let_def split: prod.splits option.splits sum.splits)

lemma batch_fold_frame: "agent_frame s (snd (fold (batch_step W now m e t auth) xs (r, s)))"
proof (induction xs arbitrary: r s)
  case (Cons x xs)
  obtain r1 s1 where st: "batch_step W now m e t auth x (r, s) = (r1, s1)" by fastforce
  then have "agent_frame s s1" using batch_step_frame [of s W now m e t auth x r] by simp
  with Cons.IH [of s1 r1] show ?case by (simp add: st) (blast intro: agent_frame_trans)
qed simp

lemma release_frame: "agent_frame s (snd (release_authorizations W now D t xs s))"
proof (induction W now D t xs s rule: release_authorizations.induct)
  case (2 W now D t i b xs s)
  show ?case
    using 2 by (auto split: prod.splits option.splits intro: agent_frame_trans [OF agent_frame_drop] agent_frame_trans [OF agent_frame_put(2)])
qed simp

lemma batch_frame: "agent_frame s (snd (batch_create_claim_tokens W now toks m t auth ids e s))"
  using batch_fold_frame [of s W now m e t auth]
  by (auto simp: batch_create_claim_tokens_def split: sum.splits prod.splits) (metis snd_conv)

lemma require_refuses: "\<not> granted \<Longrightarrow> and_then (require granted m) f = Inl (ApiForbidden m)"
  by (simp add: require_def)

lemma full_is_support: "full_admin W auth \<Longrightarrow> support_admin W auth s"
  by (simp add: full_admin_def support_admin_def is_support_admin_def)

lemma join_frame: "join_as_member now team_id caller d = Inr d' \<Longrightarrow> d' = d \<or> (\<exists>m. d' = d\<lparr>db_team_users := db_team_users d @ [m]\<rparr>)"
  by (auto simp: join_as_member_def add_member_def Let_def and_then_Inr_iff split: if_splits)

lemma auth_create_frame:
  "\<exists>t n. snd (auth_create now a b c e f g h i j d) = d\<lparr>db_authorizations := t, db_authorizations_seq := n\<rparr>"
  by (intro exI [of _ "db_authorizations (snd (auth_create now a b c e f g h i j d))"]
      exI [of _ "db_authorizations_seq (snd (auth_create now a b c e f g h i j d))"]) (simp add: auth_create_def Let_def)

lemma grant_frame: "agent_frame s (snd (grant_team_support_access W now D t auth team_id q s))"
proof -
  have j: "agent_frame s (put_si_db d s)" if "join_as_member now team_id c (si_db s) = Inr d" for c d
    using join_frame [OF that] by (auto simp: agent_frame_def)
  have c: "agent_frame s (put_si_db d1 s)"
    if "join_as_member now team_id c (si_db s) = Inr d" "auth_create now a b x e f g h i k d = (r, d1)" for c d d1 r a b x e f g h i k
    using join_frame [OF that(1)] auth_create_frame [of now a b x e f g h i k d] that(2) by (auto simp: agent_frame_def)
  have p: "agent_frame s (s1\<lparr>si_acc := (si_acc s1)\<lparr>ac_server := push_command D cmd (ac_server (si_acc s1))\<rparr>\<rparr>)" if "agent_frame s s1" for s1 cmd
    using that by (auto simp: agent_frame_def push_command_def si_db_def ac_db_def)
  show ?thesis
    unfolding grant_team_support_access_def Let_def
    by (auto simp: and_then_Inr_iff split: option.splits sum.splits prod.splits intro: j c p)
qed

lemma leave_frame: "leave_as_member team_id caller d = (b, d') \<Longrightarrow> \<exists>t. d' = d\<lparr>db_team_users := t\<rparr>"
  by (auto simp: leave_as_member_def remove_member_def split: sum.splits if_splits intro: exI [of _ "db_team_users d"])

lemma release_session_frame: "agent_frame s (snd (release_team_support_access W now D t auth team_id s))"
proof -
  have "agent_frame s (put_si_db d1 s1)"
    if "release_authorizations W now D t xs s = (n, s1)" "leave_as_member team_id c (si_db s1) = (b, d1)" for n s1 xs b d1 c
    using release_frame [of s W now D t xs] leave_frame [OF that(2)] that(1) by (auto simp: agent_frame_def)
  then show ?thesis
    unfolding release_team_support_access_def Let_def by (auto split: sum.splits prod.splits)
qed

lemma agent_call_frame:
  assumes "\<not> full_admin (ax_world C) auth"
  shows "agent_frame s (snd (admin_serve C auth call s))"
  using assms batch_frame [of s] grant_frame [of s] release_session_frame [of s]
  by (cases call) (auto simp: answered_def create_claim_token_def revoke_authorization_def revoke_and_drop_def
        preload_user_def add_support_admin_def remove_support_admin_def delete_user_def
        add_customer_origin_def remove_customer_origin_def require_refuses split: sum.splits prod.splits option.splits)

lemma stranger_refused:
  assumes "\<not> support_admin (ax_world C) auth s"
  shows "\<exists>message. admin_serve C auth call s = (Some (Inl (ApiForbidden message)), s)"
proof -
  have "\<not> full_admin (ax_world C) auth" using assms full_is_support by blast
  with assms show ?thesis
    by (cases call) (auto simp: answered_def create_claim_token_def revoke_authorization_def batch_create_claim_tokens_def
        batch_checks_def grant_team_support_access_def release_team_support_access_def preload_user_def add_support_admin_def
        remove_support_admin_def delete_user_def add_customer_origin_def remove_customer_origin_def require_refuses Let_def)
qed

text \<open>The list of agents is such a store: only a full administrator earns an entry.\<close>

definition agents :: "'j site \<Rightarrow> string set" where
  "agents s = set (rd_support_admins (ac_redis (si_acc s)))"

definition admin_turn :: "'j admin_context \<times> ucan_auth \<times> admin_call \<Rightarrow> 'j site \<Rightarrow> 'j site" where
  "admin_turn r s = snd (admin_serve (fst r) (fst (snd r)) (snd (snd r)) s)"

lemma agents_frame: "agent_frame s s' \<Longrightarrow> agents s' = agents s"
  by (simp add: agents_def agent_frame_def)

interpretation appointments: earned_store admin_turn "\<lambda>_. True" agents "\<lambda>r s pubkey. full_admin (ax_world (fst r)) (fst (snd r))"
proof
  fix pubkey and r :: "'a admin_context \<times> ucan_auth \<times> admin_call" and s
  assume new: "pubkey \<in> agents (admin_turn r s)" "pubkey \<notin> agents s"
  show "full_admin (ax_world (fst r)) (fst (snd r))"
  proof (rule ccontr)
    assume "\<not> full_admin (ax_world (fst r)) (fst (snd r))"
    then have "agents (admin_turn r s) = agents s"
      unfolding admin_turn_def by (intro agents_frame agent_call_frame)
    then show False using new by simp
  qed
qed


section \<open>Support sessions\<close>

lemma support_hours_bounds: "1 \<le> support_hours h \<and> support_hours h \<le> 168"
  by (auto simp: support_hours_def Let_def DEFAULT_SUPPORT_AUTH_EXPIRY_HOURS_def MAX_SUPPORT_AUTH_EXPIRY_HOURS_def)

lemma support_target_ok:
  assumes "support_target t team_id q d = Inr (k, p)"
  shows "k \<in> set (stored_keys_of t team_id d) \<and> exists_for_team team_id p d"
proof -
  have "exists_for_team team_id (po_id x) d" if "policy_list_by_team team_id d = x # xs" for x xs
  proof -
    have "x \<in> set (policy_list_by_team team_id d)" by (simp add: that)
    then show ?thesis by (auto simp: policy_list_by_team_def exists_for_team_def sql_simps)
  qed
  then show ?thesis
    using assms unfolding support_target_def
    by (auto simp: and_then_Inr_iff stored_key_list_by_team_def split: list.splits option.splits if_splits)
qed

lemma auth_create_row:
  assumes "auth_create now t key p hash b relays n e l d = (Inr a, d1)"
  shows "db_authorizations d1 = db_authorizations d @ [a] \<and> db_team_users d1 = db_team_users d
     \<and> au_stored_key_id a = key \<and> au_policy_id a = p \<and> au_expires_at a = e \<and> au_label a = l \<and> au_tenant_id a = t
     \<and> au_bunker_public_key a = b \<and> au_revoked_at a = None"
  using assms by (auto simp: auth_create_def Let_def split: if_splits)

text \<open>
  C29. A support session is bounded. Only an agent gets one; it is an authorization for a key and a policy
  of that team, it lives between one hour and seven days whatever the request asked for, its label names
  the agent, and it is the only authorization added. The agent is a plain member of the team afterwards,
  unless they already had a role there, and nobody else's role changes.
\<close>

theorem support_access_bounded:
  assumes "grant_team_support_access W now D tenant_id auth team_id q s = (Some (Inr (key, a, url)), s1)"
    and "team_tables_ok (si_db s)"
  shows "support_admin W auth s
    \<and> (\<exists>k\<in>set (stored_keys_of tenant_id team_id (si_db s)). sk_pubkey k = key \<and> au_stored_key_id a = sk_id k)
    \<and> exists_for_team team_id (au_policy_id a) (si_db s)
    \<and> (\<exists>e. au_expires_at a = Some e \<and> now + hours 1 \<le> e \<and> e \<le> now + hours 168)
    \<and> (\<exists>l. au_label a = Some l \<and> starts_with l (''support:'' @ ua_pubkey auth))
    \<and> db_authorizations (si_db s1) = db_authorizations (si_db s) @ [a]
    \<and> roster (si_db s1) = (if roster (si_db s) team_id (ua_pubkey auth) \<noteq> None then roster (si_db s)
          else (roster (si_db s))(team_id := (roster (si_db s) team_id)(ua_pubkey auth \<mapsto> Member)))"
proof -
  let ?c = "ua_pubkey auth"
  obtain k p d conn hash b d1 where k: "support_target tenant_id team_id q (si_db s) = Inr (k, p)"
    and j: "join_as_member now team_id ?c (si_db s) = Inr d"
    and a: "auth_create now tenant_id (sk_id k) p hash b ''[]'' None (Some (now + hours (support_hours (gs_expires_in_hours q))))
        (Some (support_label ?c (gs_label q))) d = (Inr a, d1)"
    and key: "key = sk_pubkey k" and adm: "support_admin W auth s" and db: "si_db s1 = d1"
    using assms(1) unfolding grant_team_support_access_def Let_def
    by (auto simp: and_then_Inr_iff push_command_def si_db_def ac_db_def put_si_db_def put_db_def
        split: if_splits sum.splits prod.splits option.splits)
  note r = auth_create_row [OF a]
  have label: "starts_with (support_label ?c (gs_label q)) (''support:'' @ ?c)"
    by (auto simp: support_label_def starts_with_def split: option.split)
  have d: "db_authorizations d = db_authorizations (si_db s)" using join_frame [OF j] by auto
  have ro: "roster d = (if roster (si_db s) team_id ?c \<noteq> None then roster (si_db s)
        else (roster (si_db s))(team_id := (roster (si_db s) team_id)(?c \<mapsto> Member)))"
  proof (cases "is_member team_id ?c (si_db s)")
    case True
    then show ?thesis using j is_member_iff [OF assms(2)] by (auto simp: join_as_member_def)
  next
    case False
    then obtain m where "add_member now team_id ?c ''member'' (si_db s) = Inr (m, d)"
      using j by (auto simp: join_as_member_def and_then_Inr_iff split: sum.splits)
    then obtain role where "decode_role ''member'' = Inr role" "roster (si_db s) team_id ?c = None"
        "roster d = (roster (si_db s))(team_id := (roster (si_db s) team_id)(?c \<mapsto> role))"
      using assms(2) by (elim add_member_roster)
    then show ?thesis by simp
  qed
  moreover have "roster d1 = roster d" using r by (intro roster_cong) simp
  ultimately show ?thesis
    using r label d db key adm support_target_ok [OF k] support_hours_bounds [of "gs_expires_in_hours q"]
    by auto
qed

text \<open>What the end of a session makes of a row.\<close>

definition ended :: "timestamp \<Rightarrow> authorization \<Rightarrow> authorization" where
  "ended now a = a\<lparr>au_revoked_at := Some now, au_revoked_reason := Some ''support_session_end'', au_updated_at := now\<rparr>"

definition commands :: "'j site \<Rightarrow> authorization_command list" where
  "commands s = sv_commands (ac_server (si_acc s))"

lemma drop_bunker_effect [simp]:
  "si_db (drop_bunker W D b s) = si_db s"
  "commands (drop_bunker W D b s) = (if ad_channel D then commands s @ [Remove b] else commands s)"
  by (simp_all add: drop_bunker_def push_command_def Let_def si_db_def ac_db_def commands_def)

lemma put_authorizations_effect [simp]:
  "si_db (put_authorizations t s) = (si_db s)\<lparr>db_authorizations := t\<rparr>"
  "commands (put_authorizations t s) = commands s"
  by (simp_all add: put_authorizations_def) (simp add: commands_def put_si_db_def put_db_def)

lemma auth_revocable_ended [simp]: "\<not> auth_revocable t i (ended now a)"
  by (simp add: auth_revocable_def ended_def is_set_def)

text \<open>The loop revokes the listed rows that are still active and tells the signer about each.\<close>

lemma release_authorizations_effect:
  assumes "release_authorizations W now D t xs s = (n, s1)"
    and "distinct (map fst xs)" and "distinct (map au_id (db_authorizations (si_db s)))"
    and "\<forall>(i, b)\<in>set xs. \<exists>a\<in>set (db_authorizations (si_db s)). auth_revocable t i a \<and> au_bunker_public_key a = b"
  shows "n = length xs
    \<and> si_db s1 = (si_db s)\<lparr>db_authorizations :=
         map (\<lambda>a. if \<exists>i\<in>fst ` set xs. auth_revocable t i a then ended now a else a) (db_authorizations (si_db s))\<rparr>
    \<and> commands s1 = commands s @ (if ad_channel D then map (\<lambda>(i, b). Remove b) xs else [])"
  using assms
proof (induction xs arbitrary: s n)
  case Nil
  then show ?case by simp
next
  case (Cons x xs)
  obtain i b where x: "x = (i, b)" by fastforce
  let ?t = "db_authorizations (si_db s)" and ?P = "auth_revocable t i"
  let ?u = "update_where ?P (ended now) ?t"
  from Cons.prems(4) x obtain a where a: "a \<in> set ?t" "?P a" "au_bunker_public_key a = b" by auto
  have only: "a' = a" if "a' \<in> set ?t" "?P a'" for a'
    using that a Cons.prems(3) by (auto simp: auth_revocable_def distinct_map inj_on_def)
  have rev: "auth_revoke now t i (Some ''support_session_end'') ?t = (Some b, ?u)"
  proof -
    obtain a' where "fetch_optional ?P ?t = Some a'"
      using a fetch_optional_ex by metis
    then show ?thesis
      using only [of a'] a(3) fetch_optional_Some [of ?P ?t a']
      by (simp add: auth_revoke_def Let_def ended_def [abs_def])
  qed
  obtain m where r: "release_authorizations W now D t xs (drop_bunker W D b (put_authorizations ?u s)) = (m, s1)" and n: "n = m + 1"
    using Cons.prems(1) by (auto simp: x rev split: prod.splits)
  have ids: "map au_id ?u = map au_id ?t" by (simp add: update_where_def ended_def)
  have left: "\<forall>(j, c)\<in>set xs. \<exists>a\<in>set ?u. auth_revocable t j a \<and> au_bunker_public_key a = c"
  proof clarify
    fix j c assume j: "(j, c) \<in> set xs"
    then obtain a' where a': "a' \<in> set ?t" "auth_revocable t j a'" "au_bunker_public_key a' = c" using Cons.prems(4) by auto
    have "j \<noteq> i" using j Cons.prems(2) x by force
    then have "\<not> ?P a'" using a'(2) by (auto simp: auth_revocable_def)
    then show "\<exists>a\<in>set ?u. auth_revocable t j a \<and> au_bunker_public_key a = c"
      using a' by (intro bexI [of _ a']) (auto simp: update_where_def)
  qed
  have IH: "m = length xs"
    "si_db s1 = (si_db s)\<lparr>db_authorizations :=
         map (\<lambda>a. if \<exists>i\<in>fst ` set xs. auth_revocable t i a then ended now a else a) ?u\<rparr>"
    "commands s1 = (if ad_channel D then commands s @ [Remove b] else commands s)
        @ (if ad_channel D then map (\<lambda>(i, b). Remove b) xs else [])"
    using Cons.IH [OF r] Cons.prems(2,3) left ids by auto
  have "map (\<lambda>a. if \<exists>i\<in>fst ` set xs. auth_revocable t i a then ended now a else a) ?u
      = map (\<lambda>a. if \<exists>i\<in>fst ` set (x # xs). auth_revocable t i a then ended now a else a) ?t"
    by (simp add: update_where_def x)
  then show ?case using IH n by (auto simp: x)
qed

lemma filter_not_touched:
  assumes "\<And>a. Q a \<Longrightarrow> P a" and "\<And>a. P (f a) = P a"
  shows "filter (\<lambda>a. \<not> P a) (map (\<lambda>a. if Q a then f a else a) xs) = filter (\<lambda>a. \<not> P a) xs"
  by (induction xs) (auto simp: assms)

lemma get_member_roster: "roster d t p = ok (map_sum id tm_role (get_member t p d))"
proof (cases "fetch_optional (\<lambda>m. tu_team_id m = t \<and> tu_user_pubkey m = p) (db_team_users d)")
  case (Some m)
  then show ?thesis
    by (cases "decode_role (tu_role m)") (simp_all add: get_member_def roster_def fetch_one_def member_key_def member_of_row_def)
qed (simp add: get_member_def roster_def fetch_one_def member_key_def)

lemma leave_roster:
  assumes "leave_as_member t p d = (b, d')" and "team_tables_ok d"
  shows "roster d' = (if roster d t p = Some Admin then roster d else (roster d)(t := (roster d t)(p := None)))"
proof (cases "get_member t p d")
  case (Inl e)
  then have "d' = d" using assms(1) by (simp add: leave_as_member_def)
  moreover have "roster d t p = None" using Inl by (simp add: get_member_roster)
  ultimately show ?thesis by (auto simp: fun_eq_iff)
next
  case (Inr m)
  then have "roster d t p = Some (tm_role m)" by (simp add: get_member_roster)
  then show ?thesis
    using Inr assms(1) remove_member_roster [OF assms(2), of t p]
    by (cases "tm_role m") (auto simp: leave_as_member_def)
qed

definition support_sessions :: "int \<Rightarrow> int \<Rightarrow> pubkey \<Rightarrow> 'j db \<Rightarrow> (int \<times> pubkey) list" where
  "support_sessions tenant_id team_id caller d =
     find_active_support_for_caller (db_stored_keys d) tenant_id team_id caller (db_authorizations d)"

definition session_row :: "int \<Rightarrow> int \<Rightarrow> pubkey \<Rightarrow> 'j db \<Rightarrow> authorization \<Rightarrow> bool" where
  "session_row tenant_id team_id caller d a \<longleftrightarrow>
     au_tenant_id a = tenant_id \<and> exists_row (\<lambda>k. sk_id k = au_stored_key_id a \<and> sk_team_id k = team_id) (db_stored_keys d)
     \<and> (case au_label a of None \<Rightarrow> False | Some l \<Rightarrow> starts_with l (''support:'' @ caller))"

lemma support_sessions_alt:
  "support_sessions t team_id c d =
     map (\<lambda>a. (au_id a, au_bunker_public_key a))
       (filter (\<lambda>a. session_row t team_id c d a \<and> \<not> is_set (au_revoked_at a)) (db_authorizations d))"
  by (auto simp: support_sessions_def find_active_support_for_caller_def session_row_def fetch_all_def intro!: arg_cong [where f = "map _"]
      filter_cong)

text \<open>
  The end of a support session is complete. Afterwards no authorization that the agent opened on a
  key of the team is active, whichever earlier visit it is from; every other authorization is as it was;
  the signer is told to drop each of the bunkers, if its channel is up; and the agent has left the team
  unless they administer it.
\<close>

theorem support_session_ends:
  assumes "release_team_support_access W now D tenant_id auth team_id s = (Inr r, s1)"
    and "distinct (map au_id (db_authorizations (si_db s)))" and "team_tables_ok (si_db s)"
  shows "support_sessions tenant_id team_id (ua_pubkey auth) (si_db s1) = []
    \<and> rl_revoked_authorizations r = length (support_sessions tenant_id team_id (ua_pubkey auth) (si_db s))
    \<and> filter (\<lambda>a. \<not> session_row tenant_id team_id (ua_pubkey auth) (si_db s) a) (db_authorizations (si_db s1))
        = filter (\<lambda>a. \<not> session_row tenant_id team_id (ua_pubkey auth) (si_db s) a) (db_authorizations (si_db s))
    \<and> commands s1 = commands s @ (if ad_channel D
          then map (\<lambda>(i, b). Remove b) (support_sessions tenant_id team_id (ua_pubkey auth) (si_db s)) else [])
    \<and> roster (si_db s1) = (if roster (si_db s) team_id (ua_pubkey auth) = Some Admin then roster (si_db s)
          else (roster (si_db s))(team_id := (roster (si_db s) team_id)(ua_pubkey auth := None)))"
proof -
  let ?c = "ua_pubkey auth" and ?d = "si_db s"
  let ?xs = "support_sessions tenant_id team_id ?c ?d" and ?S = "session_row tenant_id team_id ?c ?d"
  obtain n s2 b d2 where rel: "release_authorizations W now D tenant_id ?xs s = (n, s2)"
    and lv: "leave_as_member team_id ?c (si_db s2) = (b, d2)" and s1: "s1 = put_si_db d2 s2"
    and r: "rl_revoked_authorizations r = n"
    using assms(1) unfolding release_team_support_access_def Let_def support_sessions_def
    by (auto split: sum.splits prod.splits)
  have "distinct (map fst ?xs)"
    using assms(2) by (simp add: support_sessions_alt distinct_map_filter o_def)
  moreover have "\<forall>(i, b)\<in>set ?xs. \<exists>a\<in>set (db_authorizations ?d). auth_revocable tenant_id i a \<and> au_bunker_public_key a = b"
    by (auto simp: support_sessions_alt auth_revocable_def session_row_def)
  ultimately have e: "n = length ?xs"
    "si_db s2 = ?d\<lparr>db_authorizations :=
         map (\<lambda>a. if \<exists>i\<in>fst ` set ?xs. auth_revocable tenant_id i a then ended now a else a) (db_authorizations ?d)\<rparr>"
    "commands s2 = commands s @ (if ad_channel D then map (\<lambda>(i, b). Remove b) ?xs else [])"
    using release_authorizations_effect [OF rel] assms(2) by auto
  have hit: "(\<exists>i\<in>fst ` set ?xs. auth_revocable tenant_id i a) \<longleftrightarrow> ?S a \<and> \<not> is_set (au_revoked_at a)"
    if "a \<in> set (db_authorizations ?d)" for a
  proof -
    have same: "a' = a" if "a' \<in> set (db_authorizations ?d)" "au_id a' = au_id a" for a'
      using that \<open>a \<in> _\<close> assms(2) by (auto simp: distinct_map inj_on_def)
    have t: "au_tenant_id a = tenant_id" if "?S a" using that by (simp add: session_row_def)
    have ids: "fst ` set ?xs = au_id ` {a' \<in> set (db_authorizations ?d). ?S a' \<and> \<not> is_set (au_revoked_at a')}"
      by (force simp: support_sessions_alt)
    show ?thesis unfolding ids
    proof
      assume "\<exists>i\<in>au_id ` {a' \<in> set (db_authorizations ?d). ?S a' \<and> \<not> is_set (au_revoked_at a')}. auth_revocable tenant_id i a"
      then obtain a' where a': "a' \<in> set (db_authorizations ?d)" "?S a'" "\<not> is_set (au_revoked_at a')" "au_id a' = au_id a"
        by (auto simp: auth_revocable_def)
      then show "?S a \<and> \<not> is_set (au_revoked_at a)" using same by metis
    next
      assume "?S a \<and> \<not> is_set (au_revoked_at a)"
      then show "\<exists>i\<in>au_id ` {a' \<in> set (db_authorizations ?d). ?S a' \<and> \<not> is_set (au_revoked_at a')}. auth_revocable tenant_id i a"
        using that t by (intro bexI [of _ "au_id a"]) (simp_all add: auth_revocable_def)
    qed
  qed
  have auths: "db_authorizations (si_db s2) = map (\<lambda>a. if ?S a \<and> \<not> is_set (au_revoked_at a) then ended now a else a) (db_authorizations ?d)"
    using e(2) hit by simp
  from leave_frame [OF lv] obtain tu where d2: "d2 = (si_db s2)\<lparr>db_team_users := tu\<rparr>" ..
  have keep: "session_row tenant_id team_id ?c d2 a = ?S a" "?S (ended now a) = ?S a" for a
    by (simp_all add: session_row_def d2 e(2) ended_def)
  have "support_sessions tenant_id team_id ?c d2 = []"
    unfolding support_sessions_alt keep by (auto simp: d2 auths filter_empty_conv keep ended_def is_set_def)
  moreover have "filter (\<lambda>a. \<not> ?S a) (db_authorizations d2) = filter (\<lambda>a. \<not> ?S a) (db_authorizations ?d)"
    by (simp add: d2 auths) (rule filter_not_touched, simp, rule keep(2))
  moreover have "roster d2 = (if roster ?d team_id ?c = Some Admin then roster ?d
          else (roster ?d)(team_id := (roster ?d team_id)(?c := None)))"
    using leave_roster [OF lv] assms(3) tables_ok_cong [of "si_db s2" ?d] roster_cong [of "si_db s2" ?d] by (simp add: e(2))
  ultimately show ?thesis using e r by (simp add: s1 commands_def put_si_db_def put_db_def si_db_def ac_db_def)
qed

section \<open>Batches of claim links\<close>

definition live_links :: "timestamp \<Rightarrow> pubkey \<Rightarrow> int \<Rightarrow> 'j site \<Rightarrow> claim_token list" where
  "live_links now pubkey tenant_id s =
     filter (\<lambda>r. ct_user_pubkey r = pubkey \<and> ct_tenant_id r = tenant_id \<and> now < ct_expires_at r \<and> \<not> is_set (ct_used_at r))
       (rows (ac_claims (si_acc s)))"

definition failed_text :: "string \<Rightarrow> repository_error \<Rightarrow> string" where
  "failed_text vine_id e = ''vine_id '' @ vine_id @ '': failed to create token: '' @ repository_error_text e"

lemma no_live_link: "claim_find_valid_by_user_pubkey now pk t (ac_claims (si_acc s)) = None \<longleftrightarrow> live_links now pk t s = []"
proof -
  have "claims_newest_first xs = [] \<longleftrightarrow> xs = []" for xs
    by (auto simp: claims_newest_first_def dest: arg_cong [where f = length])
  then show ?thesis
    unfolding claim_find_valid_by_user_pubkey_def live_links_def fetch_all_def
    by (metis (no_types, lifting) list.case(1) list.case(2) list.exhaust option.distinct(1))
qed

lemma has_live_link: "is_set (claim_find_valid_by_user_pubkey now pk t (ac_claims (si_acc s))) \<longleftrightarrow> live_links now pk t s \<noteq> []"
  using no_live_link [of now pk t s] by (auto simp: is_set_def split: option.splits)

text \<open>One turn: the id goes to the links, to the skipped ids or to the failures, and at most one link is added.\<close>

lemma batch_step_cases:
  assumes "batch_step W now m e t auth (v, tok) (r, s) = (r1, s1)"
  obtains (link) b pk x where "bt_tokens r1 = bt_tokens r @ [b]" "be_vine_id b = v" "bt_skipped r1 = bt_skipped r"
      "set (bt_errors r) \<subseteq> set (bt_errors r1)" "live_links now pk t s = []"
      "\<And>p u. live_links now p u s1 = live_links now p u s @ (if p = pk \<and> u = t then [x] else [])"
  | (skip) w where "bt_tokens r1 = bt_tokens r" "bt_skipped r1 = bt_skipped r @ [(v, w)]" "bt_errors r1 = bt_errors r" "s1 = s"
  | (fail) err where "bt_tokens r1 = bt_tokens r" "bt_skipped r1 = bt_skipped r" "bt_errors r1 = bt_errors r @ [failed_text v err]"
      "\<And>p u. live_links now p u s1 = live_links now p u s"
proof (cases "find_pubkey_by_vine_id v t (si_db s)")
  case None
  then show thesis using assms skip by (auto simp: batch_step_def)
next
  case (Some pk)
  show thesis
  proof (cases "Users.is_unclaimed pk t (si_db s) \<noteq> Some True \<or> live_links now pk t s \<noteq> []")
    case True
    then have "\<exists>w. (r1, s1) = (r\<lparr>bt_skipped := bt_skipped r @ [(v, w)]\<rparr>, s)"
      using assms Some by (simp add: batch_step_def has_live_link split: if_splits) (metis+)
    then show thesis using skip by auto
  next
    case False
    then have free: "live_links now pk t s = []" and
      un: "Users.is_unclaimed pk t (si_db s) = Some True" "\<not> is_set (claim_find_valid_by_user_pubkey now pk t (ac_claims (si_acc s)))"
      by (auto simp: has_live_link)
    obtain c t1 where cr: "claim_create (db_users (si_db s)) now tok pk (Some (ua_pubkey auth)) t (ac_claims (si_acc s)) = (c, t1)"
      by fastforce
    show thesis
    proof (cases c)
      case (Inl err)
      then have "rows t1 = rows (ac_claims (si_acc s))" using cr by (auto simp: claim_create_def Let_def split: if_splits)
      then show thesis
        using assms Some un cr Inl fail by (auto simp: batch_step_def failed_text_def live_links_def put_claims_def)
    next
      case (Inr x)
      then have x: "rows t1 = rows (ac_claims (si_acc s)) @ [x]" "ct_user_pubkey x = pk" "ct_tenant_id x = t" "ct_used_at x = None"
        "ct_expires_at x = now + days CLAIM_TOKEN_EXPIRY_DAYS"
        using cr by (auto simp: claim_create_def Let_def split: if_splits)
      have "live_links now p u s1 = live_links now p u s @ (if p = pk \<and> u = t then [x] else [])" for p u
        using assms Some un cr Inr x
        by (auto simp: batch_step_def Let_def live_links_def put_claims_def is_set_def CLAIM_TOKEN_EXPIRY_DAYS_def)
      then show thesis
        using assms Some un cr Inr free link by (auto simp: batch_step_def Let_def)
    qed
  qed
qed

lemma batch_fold_effect:
  assumes "fold (batch_step W now m e t auth) xs (r, s) = (r1, s1)"
  shows "\<exists>T K F. bt_tokens r1 = bt_tokens r @ T \<and> bt_skipped r1 = bt_skipped r @ K \<and> set (bt_errors r) \<subseteq> set (bt_errors r1)
     \<and> mset (map be_vine_id T @ map fst K @ F) = mset (map fst xs)
     \<and> (\<forall>v\<in>set F. \<exists>err. failed_text v err \<in> set (bt_errors r1))
     \<and> ((\<forall>p u. length (live_links now p u s) \<le> 1) \<longrightarrow> (\<forall>p u. length (live_links now p u s1) \<le> 1))"
  using assms
proof (induction xs arbitrary: r s)
  case Nil
  then show ?case by (auto intro: exI [of _ "[]"])
next
  case (Cons x xs)
  obtain v tok where x: "x = (v, tok)" by fastforce
  obtain r2 s2 where st: "batch_step W now m e t auth (v, tok) (r, s) = (r2, s2)" by fastforce
  with Cons.prems x have "fold (batch_step W now m e t auth) xs (r2, s2) = (r1, s1)" by simp
  from Cons.IH [OF this] obtain T K F where IH: "bt_tokens r1 = bt_tokens r2 @ T" "bt_skipped r1 = bt_skipped r2 @ K"
    "set (bt_errors r2) \<subseteq> set (bt_errors r1)" "mset (map be_vine_id T @ map fst K @ F) = mset (map fst xs)"
    "\<forall>v\<in>set F. \<exists>err. failed_text v err \<in> set (bt_errors r1)"
    "(\<forall>p u. length (live_links now p u s2) \<le> 1) \<longrightarrow> (\<forall>p u. length (live_links now p u s1) \<le> 1)" by blast
  from st show ?case
  proof (cases rule: batch_step_cases)
    case (link b pk y)
    have "\<forall>p u. length (live_links now p u s) \<le> 1 \<Longrightarrow> \<forall>p u. length (live_links now p u s2) \<le> 1"
      using link(5,6) by auto
    then show ?thesis using IH link by (intro exI [of _ "b # T"] exI [of _ K] exI [of _ F]) (auto simp: x)
  next
    case (skip w)
    then show ?thesis using IH by (intro exI [of _ T] exI [of _ "(v, w) # K"] exI [of _ F]) (auto simp: x)
  next
    case (fail err)
    then show ?thesis using IH by (intro exI [of _ T] exI [of _ K] exI [of _ "v # F"]) (auto simp: x)
  qed
qed

lemma first_occurrences_set: "set (first_occurrences seen xs) = set xs - set seen \<and> distinct (first_occurrences seen xs)"
  by (induction seen xs rule: first_occurrences.induct) auto

text \<open>
  A batch accounts for every id it was given exactly once, however often the id was repeated: it has a
  link, or it is among the skipped ones, or there is an error that names it. And it never gives an account
  a second live link.
\<close>

theorem batch_accounts_for_every_id:
  assumes "batch_create_claim_tokens W now draw_token mail_service tenant_id auth vine_ids delivery_email s = (Inr r, s1)"
  shows "(\<exists>failed. mset (map be_vine_id (bt_tokens r) @ map fst (bt_skipped r) @ failed) = mset_set (set vine_ids)
            \<and> (\<forall>v\<in>set failed. \<exists>e. failed_text v e \<in> set (bt_errors r)))
    \<and> ((\<forall>p u. length (live_links now p u s) \<le> 1) \<longrightarrow> (\<forall>p u. length (live_links now p u s1) \<le> 1))"
proof -
  let ?ids = "first_occurrences [] vine_ids"
  have f: "fold (batch_step W now mail_service delivery_email tenant_id auth) (zip ?ids (map draw_token [0..<length ?ids]))
      (\<lparr>bt_tokens = [], bt_skipped = [], bt_errors = []\<rparr>, s) = (r, s1)"
    using assms
    by (auto simp: batch_create_claim_tokens_def batch_checks_def Let_def and_then_Inr_iff split: sum.splits prod.splits if_splits)
  have "mset ?ids = mset_set (set vine_ids)"
    using first_occurrences_set [of "[]" vine_ids] by (metis Diff_empty empty_set mset_set_set)
  then show ?thesis using batch_fold_effect [OF f] by auto
qed

section \<open>Samples\<close>

text \<open>A support agent, and a team with a key and a policy that alice administers.\<close>

definition agent :: ucan_auth where
  "agent = \<lparr>ua_pubkey = ''sam'', ua_admin_role = Some ''support''\<rparr>"

definition team_site :: "jv site" where
  "team_site = site_of (empty_db\<lparr>db_users := [blank_user ''alice'' 1 5, blank_user ''sam'' 1 5], db_teams := [sample_team],
     db_teams_seq := 2, db_team_users := [sample_member ''alice'' ''admin''],
     db_stored_keys := [\<lparr>sk_id = 7, sk_tenant_id = 1, sk_team_id = 1, sk_name = ''menu'', sk_pubkey = ''diner'', sk_secret_key = [4],
        sk_created_at = 5, sk_updated_at = 5\<rparr>],
     db_policies := [\<lparr>po_id = 3, po_name = ''All'', po_team_id = Some 1, po_slug = None, po_display_name = None,
        po_description = None\<rparr>]\<rparr>)"

definition admin_context :: "jv admin_context" where
  "admin_context =
     \<lparr>ax_world = DW0, ax_now = 100, ax_draws = sample_draws [] [], ax_tokens = (\<lambda>n. replicate (n + 1) CHR ''t''),
      ax_mail_service = True, ax_tenants = \<lparr>rows = [customer_tenant], seq = 2\<rparr>, ax_tenant_id = 1\<rparr>"


abbreviation granted :: "(api_error + pubkey \<times> authorization \<times> string) option \<times> jv site" where
  "granted \<equiv> grant_team_support_access DW0 100 (sample_draws [] []) 1 agent 1
     \<lparr>gs_policy_id = None, gs_label = Some '' menu '', gs_expires_in_hours = Some 9999\<rparr> team_site"

definition granted_row :: authorization where
  "granted_row =
     \<lparr>au_id = 1, au_tenant_id = 1, au_stored_key_id = 7, au_secret_hash = ''hash'', au_bunker_public_key = ''owner-owner'',
      au_relays = ''[]'', au_policy_id = 3, au_max_uses = None, au_expires_at = Some 604800000100,
      au_connected_client_pubkey = None, au_connected_at = None, au_label = Some ''support:sam (menu)'', au_created_at = 100,
      au_updated_at = 100, au_revoked_at = None, au_revoked_reason = None\<rparr>"

lemma granted_result:
  "fst granted = Some (Inr (''diner'', granted_row, ''bunker://owner-owner?relay=wss://r1&relay=wss://r2&secret=secret''))"
  by code_simp

lemma granted_pair:
  "granted = (Some (Inr (''diner'', granted_row, ''bunker://owner-owner?relay=wss://r1&relay=wss://r2&secret=secret'')), snd granted)"
  using granted_result by (metis prod.collapse)

lemma team_site_ok: "team_tables_ok (si_db team_site)"
  by (simp add: team_tables_ok_def team_site_def site_of_def si_db_def ac_db_def sample_member_def sample_team_def member_key_def)

theorem support_access_bounded_witness:
  "db_authorizations (si_db (snd granted)) = [granted_row]
   \<and> roster (si_db (snd granted)) 1 ''sam'' = Some Member
   \<and> (\<exists>e. au_expires_at granted_row = Some e \<and> e \<le> 100 + hours 168)"
proof -
  have "db_authorizations (si_db team_site) = []" "roster (si_db team_site) 1 ''sam'' = None" "ua_pubkey agent = ''sam''" by code_simp+
  with support_access_bounded [OF granted_pair team_site_ok] show ?thesis by auto
qed

abbreviation released :: "(api_error + release_support_access_response) \<times> jv site" where
  "released \<equiv> release_team_support_access DW0 200 (sample_draws [] []) 1 agent 1 (snd granted)"

theorem support_session_ends_witness:
  "support_sessions 1 1 ''sam'' (si_db (snd granted)) = [(1, ''owner-owner'')]
   \<and> support_sessions 1 1 ''sam'' (si_db (snd released)) = [] \<and> roster (si_db (snd released)) 1 ''sam'' = None"
proof -
  have ok: "fst released = Inr \<lparr>rl_revoked_authorizations = 1, rl_removed_membership = True\<rparr>" by code_simp
  then have r: "released = (Inr \<lparr>rl_revoked_authorizations = 1, rl_removed_membership = True\<rparr>, snd released)"
    by (metis prod.collapse)
  have ids: "distinct (map au_id (db_authorizations (si_db (snd granted))))" by code_simp
  have tables: "team_tables_ok (si_db (snd granted))" by code_simp
  have "support_sessions 1 1 ''sam'' (si_db (snd granted)) = [(1, ''owner-owner'')]" "roster (si_db (snd granted)) 1 ''sam'' = Some Member"
    "ua_pubkey agent = ''sam''" by code_simp+
  with support_session_ends [OF r ids tables] show ?thesis by simp
qed

theorem batch_accounts_for_every_id_witness:
  "\<exists>r s1. batch_create_claim_tokens DW0 20 (\<lambda>n. replicate (n + 1) CHR ''t'') True 1 agent [''v1'', ''v2'', ''v1''] None (snd preloaded)
       = (Inr r, s1)
     \<and> map be_vine_id (bt_tokens r) = [''v1''] \<and> map fst (bt_skipped r) = [''v2'']
     \<and> (\<forall>p u. length (live_links 20 p u s1) \<le> 1)"
proof -
  let ?b = "batch_create_claim_tokens DW0 20 (\<lambda>n. replicate (n + 1) CHR ''t'') True 1 agent [''v1'', ''v2'', ''v1''] None (snd preloaded)"
  have "map_sum id (\<lambda>r. (map be_vine_id (bt_tokens r), map fst (bt_skipped r))) (fst ?b) = Inr ([''v1''], [''v2''])" by code_simp
  then obtain r where r: "fst ?b = Inr r" "map be_vine_id (bt_tokens r) = [''v1'']" "map fst (bt_skipped r) = [''v2'']"
    by (cases "fst ?b") auto
  then obtain s1 where b: "?b = (Inr r, s1)" by (metis prod.collapse)
  have "rows (ac_claims (si_acc (snd preloaded))) = []" by code_simp
  then have "\<forall>p u. length (live_links 20 p u (snd preloaded)) \<le> 1" by (simp add: live_links_def)
  then have live: "\<forall>p u. length (live_links 20 p u s1) \<le> 1" using batch_accounts_for_every_id [OF b] by blast
  show ?thesis by (intro exI conjI) (rule b r live)+
qed

end
