(* ===== verification/CodeProofs.thy ===== *)
theory CodeProofs
  imports Consent AdminProofs OAuthTokenProofs
begin

text \<open>
  Who gets an authorization code: the ways in which the pages, the headless endpoints and the registrations
  issue codes, the path of a code to a polling device, and where the checks let more through than they
  should.
\<close>

section \<open>Storing a code\<close>

lemma insert_code_cases:
  assumes "insert_code c d = (r, d')"
  obtains "r = Inr ()" "d' = d\<lparr>db_oauth_codes := db_oauth_codes d @ [c]\<rparr>" | e where "r = Inl e" "d' = d"
  using assms by (auto simp: insert_code_def split: if_splits)

text \<open>The row of an issued code.\<close>

definition issued_row :: "timestamp \<Rightarrow> store_code_params \<Rightarrow> oauth_code" where
  "issued_row now p =
     \<lparr>oc_tenant_id = sc_tenant_id p, oc_code = sc_code p, oc_user_pubkey = sc_user_pubkey p,
      oc_client_id = sc_client_id p, oc_redirect_uri = sc_redirect_uri p, oc_scope = sc_scope p,
      oc_code_challenge = sc_code_challenge p, oc_code_challenge_method = sc_code_challenge_method p,
      oc_expires_at = sc_expires_at p, oc_created_at = now, oc_pending_email = None,
      oc_pending_password_hash = None, oc_pending_email_verification_token = None,
      oc_pending_encrypted_secret = None, oc_previous_auth_id = sc_previous_auth_id p,
      oc_state = sc_state p, oc_device_code = None, oc_is_headless = sc_is_headless p\<rparr>"

lemma code_store_row: "code_store now p = insert_code (issued_row now p)"
  by (simp add: fun_eq_iff code_store_def issued_row_def)

lemma new_code:
  assumes "code_store now p d = (r, d')" and "c \<in> set (db_oauth_codes d') - set (db_oauth_codes d)"
  shows "c = issued_row now p \<and> r = Inr ()"
  using assms by (auto simp: code_store_row elim!: insert_code_cases)

lemma new_pending_code:
  assumes "code_store_with_pending_registration now p d = (r, d')" and "c \<in> set (db_oauth_codes d') - set (db_oauth_codes d)"
  shows "oc_tenant_id c = sr_tenant_id p \<and> oc_user_pubkey c = sr_user_pubkey p \<and> oc_expires_at c = sr_expires_at p
     \<and> oc_pending_email c = Some (sr_pending_email p) \<and> oc_pending_password_hash c = Some (sr_pending_password_hash p)
     \<and> r = Inr ()"
  using assms by (auto simp: code_store_with_pending_registration_def elim!: insert_code_cases)

lemma allow_route_db [simp]: "allow_route W now route t rq e s = (b, s1) \<Longrightarrow> si_db s1 = si_db s"
  by (auto simp: allow_route_def Let_def si_db_def ac_db_def split: prod.splits)

lemma si_db_counters [simp]:
  "si_db (s\<lparr>si_logins := n\<rparr>) = si_db s" "si_db (s\<lparr>si_login_failures := n\<rparr>) = si_db s"
  "si_db (s\<lparr>si_registrations := n\<rparr>) = si_db s" "si_db (s\<lparr>si_polls := p\<rparr>) = si_db s" "si_db (send_mail D m s) = si_db s"
  by (simp_all add: si_db_def send_mail_def)

section \<open>Codes go to people who proved who they are\<close>

text \<open>The requests that store a code, with what each draws.\<close>

datatype code_request =
    PageRequest authorize_request
  | ApprovalRequest approve_request
  | HeadlessLogin headless_login_request
  | HeadlessSession headless_app
  | HeadlessRegistration string headless_register_request
  | PopupRegistration string oauth_register_request

fun code_serve ::
    "'j consent_world \<Rightarrow> registered_client list \<Rightarrow> timestamp \<Rightarrow> account_draws \<Rightarrow> tenant \<Rightarrow> parts \<Rightarrow> code_request \<Rightarrow> 'j site
      \<Rightarrow> 'j site" where
  "code_serve W clients now D tn rq (PageRequest q) s = snd (authorize_get W clients now D tn rq q s)"
| "code_serve W clients now D tn rq (ApprovalRequest q) s = snd (authorize_post (cw_login W) now D tn rq q s)"
| "code_serve W clients now D tn rq (HeadlessLogin q) s = snd (headless_login (cw_login W) now D tn q s)"
| "code_serve W clients now D tn rq (HeadlessSession app) s = snd (headless_authorize (cw_login W) now D tn rq app s)"
| "code_serve W clients now D tn rq (HeadlessRegistration dc q) s = snd (headless_register (cw_login W) now D dc tn rq q s)"
| "code_serve W clients now D tn rq (PopupRegistration dc q) s = snd (oauth_register (cw_login W) now D dc tn rq q s)"

text \<open>What a person has shown when a code is stored for their key.\<close>

definition proven_password :: "'j login_world \<Rightarrow> int \<Rightarrow> string \<Rightarrow> string \<Rightarrow> 'j db \<Rightarrow> pubkey \<Rightarrow> bool" where
  "proven_password W tenant_id email password d pubkey \<longleftrightarrow>
     (\<exists>h. find_with_password email tenant_id d = Inr (Some (pubkey, h, True)) \<and> bcrypt_verify (lx W) password h = Inr True)"

fun entitled :: "'j consent_world \<Rightarrow> timestamp \<Rightarrow> tenant \<Rightarrow> parts \<Rightarrow> code_request \<Rightarrow> 'j db \<Rightarrow> pubkey \<Rightarrow> bool" where
  "entitled W now tn rq (PageRequest q) d pubkey \<longleftrightarrow>
     cookie_user (cw_login W) now (tn_id tn) rq = Some pubkey \<and> user_exists pubkey (tn_id tn) d \<and> az_prompt q \<noteq> Some ''consent''
     \<and> ((\<exists>h. az_authorization_handle q = Some h \<and> is_set (find_id_by_handle now h pubkey (db_oauth d)))
        \<or> (\<exists>origin. extract_origin (url_parse (ltoken (cw_login W))) (az_redirect_uri q) = Inr origin
              \<and> has_active_for_origin pubkey origin (tn_id tn) (db_oauth d)))"
| "entitled W now tn rq (ApprovalRequest q) d pubkey \<longleftrightarrow>
     pq_approved q \<and> cookie_user (cw_login W) now (tn_id tn) rq = Some pubkey"
| "entitled W now tn rq (HeadlessLogin q) d pubkey \<longleftrightarrow>
     proven_password (cw_login W) (tn_id tn) (lower (cw_login W) (hl_email q)) (hl_password q) d pubkey"
| "entitled W now tn rq (HeadlessSession app) d pubkey \<longleftrightarrow>
     extract_user_from_token (lhttp (cw_login W)) now rq (tn_id tn) = Inr pubkey"
| "entitled W now tn rq (HeadlessRegistration dc q) d pubkey \<longleftrightarrow>
     find_pubkey_by_email (lower (cw_login W) (hr_email q)) (tn_id tn) d = None
     \<and> (is_set (hr_nsec q) \<longrightarrow> \<not> user_exists pubkey (tn_id tn) d)"
| "entitled W now tn rq (PopupRegistration dc q) d pubkey \<longleftrightarrow>
     find_pubkey_by_email (lower (cw_login W) (or_email q)) (tn_id tn) d = None \<and> \<not> user_exists pubkey (tn_id tn) d"

fun registers :: "code_request \<Rightarrow> bool" where
  "registers (HeadlessRegistration dc q) = True"
| "registers (PopupRegistration dc q) = True"
| "registers _ = False"

lemma account_exists: "get_account_status pk t d = Some x \<Longrightarrow> user_exists pk t d"
  by (auto simp: get_account_status_def user_exists_def user_at_def [abs_def])

lemma auto_approve_new:
  assumes "auto_approve now D t pk q prev s = (r, s1)" and "c \<in> set (db_oauth_codes (si_db s1))" "c \<notin> set (db_oauth_codes (si_db s))"
  shows "oc_user_pubkey c = pk \<and> oc_tenant_id c = t \<and> oc_expires_at c = now + minutes 10"
  using assms unfolding auto_approve_def
  by (auto split: prod.splits sum.splits dest!: new_code simp: issued_row_def approval_code_def)

lemma page_code:
  assumes "c \<in> set (db_oauth_codes (si_db (snd (authorize_get W clients now D tn rq q s)))) - set (db_oauth_codes (si_db s))"
  shows "entitled W now tn rq (PageRequest q) (si_db s) (oc_user_pubkey c)
    \<and> oc_tenant_id c = tn_id tn \<and> oc_expires_at c = now + minutes 10"
proof -
  let ?L = "cw_login W" and ?t = "tn_id tn"
  obtain pk email where u: "authorize_user ?L now ?t rq q (si_db s) = (Some pk, False, email)"
    and c: "c \<in> set (db_oauth_codes (si_db (snd (silent_approval ?L now D ?t pk q s)))) - set (db_oauth_codes (si_db s))"
    using assms unfolding authorize_get_def Let_def
    by (auto simp: authorize_user_def split: option.splits sum.splits prod.splits if_splits)
  have ck: "cookie_user ?L now ?t rq = Some pk" "user_exists pk ?t (si_db s)"
    using u by (auto simp: authorize_user_def account_exists split: option.splits if_splits)
  obtain prev r s1 where a: "auto_approve now D ?t pk q prev s = (r, s1)" "c \<in> set (db_oauth_codes (si_db s1))"
    and q: "az_prompt q \<noteq> Some ''consent''"
      "(\<exists>h. az_authorization_handle q = Some h \<and> is_set (find_id_by_handle now h pk (db_oauth (si_db s))))
        \<or> (\<exists>origin. extract_origin (url_parse (ltoken ?L)) (az_redirect_uri q) = Inr origin
              \<and> has_active_for_origin pk origin ?t (db_oauth (si_db s)))"
    using c unfolding silent_approval_def Let_def
    by (auto split: if_splits prod.splits sum.splits simp: bind_eq_Some_conv is_set_iff)
  show ?thesis using auto_approve_new [OF a] c ck q by simp
qed

lemma approval_issues:
  assumes "c \<in> set (db_oauth_codes (si_db (snd (authorize_post L now D tn rq q s)))) - set (db_oauth_codes (si_db s))"
  shows "pq_approved q \<and> cookie_user L now (tn_id tn) rq = Some (oc_user_pubkey c)
    \<and> oc_tenant_id c = tn_id tn \<and> oc_expires_at c = now + minutes 10"
  using assms unfolding authorize_post_def
  by (auto split: if_splits option.splits prod.splits sum.splits dest!: new_code simp: issued_row_def approval_code_def)

lemma credentials_proven:
  "headless_credentials L t email password d = (Inr pk, b) \<Longrightarrow> proven_password L t email password d pk"
  by (auto simp: headless_credentials_def proven_password_def split: sum.splits option.splits if_splits bool.splits)

lemma headless_login_issues:
  assumes "c \<in> set (db_oauth_codes (si_db (snd (headless_login L now D tn q s)))) - set (db_oauth_codes (si_db s))"
  shows "proven_password L (tn_id tn) (lower L (hl_email q)) (hl_password q) (si_db s) (oc_user_pubkey c)
    \<and> oc_tenant_id c = tn_id tn \<and> oc_expires_at c = now + minutes 10"
proof -
  let ?t = "tn_id tn"
  obtain pk b r d where k: "headless_credentials L ?t (lower L (hl_email q)) (hl_password q) (si_db s) = (Inr pk, b)"
    and d: "code_store now (headless_code now ?t (ad_code D) pk (hl_app q)) (si_db s) = (r, d)" "c \<in> set (db_oauth_codes d)"
    using assms unfolding headless_login_def Let_def
    by (auto split: sum.splits prod.splits if_splits)
  with new_code [OF d(1), of c] assms show ?thesis
    by (simp add: issued_row_def headless_code_def credentials_proven [OF k])
qed

lemma headless_session_issues:
  assumes "c \<in> set (db_oauth_codes (si_db (snd (headless_authorize L now D tn rq app s)))) - set (db_oauth_codes (si_db s))"
  shows "extract_user_from_token (lhttp L) now rq (tn_id tn) = Inr (oc_user_pubkey c)
    \<and> oc_tenant_id c = tn_id tn \<and> oc_expires_at c = now + minutes 10"
  using assms unfolding headless_authorize_def Let_def
  by (auto split: prod.splits sum.splits dest!: new_code simp: issued_row_def headless_code_def and_then_Inr_iff)

lemma headless_registration_issues:
  assumes "c \<in> set (db_oauth_codes (si_db (snd (headless_register L now D dc tn rq q s)))) - set (db_oauth_codes (si_db s))"
  shows "find_pubkey_by_email (lower L (hr_email q)) (tn_id tn) (si_db s) = None
    \<and> (is_set (hr_nsec q) \<longrightarrow> \<not> user_exists (oc_user_pubkey c) (tn_id tn) (si_db s))
    \<and> oc_tenant_id c = tn_id tn \<and> oc_expires_at c = now + hours 24 \<and> oc_pending_email c = Some (lower L (hr_email q))"
proof -
  let ?t = "tn_id tn" and ?e = "lower L (hr_email q)"
  obtain keys enc hash r d where k: "headless_keys L D ?t (hr_nsec q) (si_db s) = Inr keys"
    and free: "find_pubkey_by_email ?e ?t (si_db s) = None"
    and d: "code_store_with_pending_registration now
        (pending_registration now D dc ?t (public_key (lx L) keys) ?e hash enc (hr_app q)) (si_db s) = (r, d)"
      "c \<in> set (db_oauth_codes d)"
    using assms unfolding headless_register_def Let_def
    by (auto simp: and_then_Inr_iff is_set_iff split: sum.splits prod.splits if_splits bool.splits)
  have "is_set (hr_nsec q) \<longrightarrow> \<not> user_exists (public_key (lx L) keys) ?t (si_db s)"
    using k by (auto simp: headless_keys_def and_then_Inr_iff split: option.splits if_splits)
  with new_pending_code [OF d(1), of c] d(2) assms free show ?thesis
    by (simp add: pending_registration_def EMAIL_VERIFICATION_EXPIRY_HOURS_def)
qed

lemma popup_registration_issues:
  assumes "c \<in> set (db_oauth_codes (si_db (snd (oauth_register L now D dc tn rq q s)))) - set (db_oauth_codes (si_db s))"
  shows "find_pubkey_by_email (lower L (or_email q)) (tn_id tn) (si_db s) = None \<and> \<not> user_exists (oc_user_pubkey c) (tn_id tn) (si_db s)
    \<and> oc_tenant_id c = tn_id tn \<and> oc_expires_at c = now + hours 24 \<and> oc_pending_email c = Some (lower L (or_email q))"
proof -
  let ?t = "tn_id tn" and ?e = "lower L (or_email q)"
  obtain pk enc hash r d where k: "oauth_registration_checks L D ?t ?e q (si_db s) = Inr (pk, hash, enc)"
    and d: "code_store_with_pending_registration now (oauth_pending now D dc ?t pk ?e hash enc q) (si_db s) = (r, d)"
      "c \<in> set (db_oauth_codes d)"
    using assms unfolding oauth_register_def Let_def
    by (auto split: sum.splits prod.splits bool.splits)
  have "find_pubkey_by_email ?e ?t (si_db s) = None \<and> \<not> user_exists pk ?t (si_db s)"
    using k by (auto simp: oauth_registration_checks_def and_then_Inr_iff email_taken_def is_set_iff split: if_splits prod.splits)
  with new_pending_code [OF d(1), of c] d(2) assms show ?thesis
    by (simp add: oauth_pending_def)
qed

text \<open>What a request has to show for a code it stores, and how long the code may live.\<close>

definition earned_code :: "'j consent_world \<Rightarrow> timestamp \<Rightarrow> tenant \<Rightarrow> parts \<Rightarrow> code_request \<Rightarrow> 'j site \<Rightarrow> oauth_code \<Rightarrow> bool" where
  "earned_code W now tn rq req s c \<longleftrightarrow>
     entitled W now tn rq req (si_db s) (oc_user_pubkey c) \<and> oc_tenant_id c = tn_id tn
     \<and> (if registers req then oc_pending_email c \<noteq> None \<and> oc_expires_at c = now + hours 24
        else oc_expires_at c = now + minutes 10)"

lemma new_code_earned:
  assumes "c \<in> set (db_oauth_codes (si_db (code_serve W clients now D tn rq req s)))" and "c \<notin> set (db_oauth_codes (si_db s))"
  shows "earned_code W now tn rq req s c"
proof (cases req)
  case (PageRequest q)
  then show ?thesis using page_code [of c W clients now D tn rq q s] assms by (simp add: earned_code_def)
next
  case (ApprovalRequest q)
  then show ?thesis using approval_issues [of c "cw_login W" now D tn rq q s] assms by (simp add: earned_code_def)
next
  case (HeadlessLogin q)
  then show ?thesis using headless_login_issues [of c "cw_login W" now D tn q s] assms by (simp add: earned_code_def)
next
  case (HeadlessSession app)
  then show ?thesis using headless_session_issues [of c "cw_login W" now D tn rq app s] assms by (simp add: earned_code_def)
next
  case (HeadlessRegistration dc q)
  then show ?thesis using headless_registration_issues [of c "cw_login W" now D dc tn rq q s] assms by (simp add: earned_code_def)
next
  case (PopupRegistration dc q)
  then show ?thesis using popup_registration_issues [of c "cw_login W" now D dc tn rq q s] assms by (simp add: earned_code_def)
qed

record 'j code_turn =
  ct_world :: "'j consent_world"
  ct_clients :: "registered_client list"
  ct_now :: timestamp
  ct_draws :: account_draws
  ct_tenant :: tenant
  ct_parts :: parts
  ct_request :: code_request

definition code_turn_serve :: "'j code_turn \<Rightarrow> 'j site \<Rightarrow> 'j site" where
  "code_turn_serve r s =
     code_serve (ct_world r) (ct_clients r) (ct_now r) (ct_draws r) (ct_tenant r) (ct_parts r) (ct_request r) s"

definition code_turn_earned :: "'j code_turn \<Rightarrow> 'j site \<Rightarrow> oauth_code \<Rightarrow> bool" where
  "code_turn_earned r = earned_code (ct_world r) (ct_now r) (ct_tenant r) (ct_parts r) (ct_request r)"

definition codes_of :: "'j site \<Rightarrow> oauth_code set" where
  "codes_of s = set (db_oauth_codes (si_db s))"

interpretation codes: earned_store code_turn_serve "\<lambda>_. True" codes_of code_turn_earned
  by unfold_locales (auto simp: codes_of_def code_turn_serve_def code_turn_earned_def intro: new_code_earned)


section \<open>Approval without a question\<close>

lemma stored_code_found:
  assumes "\<not> exists_row (\<lambda>c. oc_code c = sc_code p) (db_oauth_codes d)" and "sc_tenant_id p \<in> set (db_tenants d)"
    and "now' < sc_expires_at p"
  shows "\<exists>d'. code_store now p d = (Inr (), d') \<and> code_find_valid now' (sc_tenant_id p) (sc_code p) d' = Some (issued_row now p)
     \<and> db_users d' = db_users d \<and> db_oauth d' = db_oauth d"
proof -
  have "fetch_optional (\<lambda>c. oc_tenant_id c = sc_tenant_id p \<and> oc_code c = sc_code p \<and> now' < oc_expires_at c) (db_oauth_codes d) = None"
    using assms(1) by (auto simp: sql_simps)
  then have "code_find_valid now' (sc_tenant_id p) (sc_code p) (d\<lparr>db_oauth_codes := db_oauth_codes d @ [issued_row now p]\<rparr>)
      = Some (issued_row now p)"
    using assms(3) by (simp add: code_find_valid_def fetch_optional_append fetch_optional_Cons issued_row_def)
  moreover have "code_store now p d = (Inr (), d\<lparr>db_oauth_codes := db_oauth_codes d @ [issued_row now p]\<rparr>)"
    using assms(1,2) by (simp add: code_store_row insert_code_def) (simp add: issued_row_def)
  ultimately show ?thesis by auto
qed

lemma silent_approval_code:
  assumes client: "validate_redirect_uri clients (az_client_id q) (az_redirect_uri q) (tn_id tn) = Some (Inr ())"
    and session: "cookie_user (cw_login W) now (tn_id tn) rq = Some pubkey" "user_exists pubkey (tn_id tn) (si_db s)"
    and plain: "az_prompt q = None" "az_byok_pubkey q = None" "az_authorization_handle q = None"
    and origin: "extract_origin (url_parse (ltoken (cw_login W))) (az_redirect_uri q) = Inr origin"
    and grant: "has_active_for_origin pubkey origin (tn_id tn) (db_oauth (si_db s))"
    and draw: "\<not> exists_row (\<lambda>c. oc_code c = ad_code D) (db_oauth_codes (si_db s))" "tn_id tn \<in> set (db_tenants (si_db s))"
    and soon: "now' < now + minutes 10"
  shows "\<exists>s1 c. authorize_get W clients now D tn rq q s
       = (Some (Inr (RedirectTo (code_redirect (az_redirect_uri q) (ad_code D) (az_state q)))), s1)
     \<and> code_find_valid now' (tn_id tn) (ad_code D) (si_db s1) = Some c \<and> oc_user_pubkey c = pubkey
     \<and> oc_scope c = (case az_scope q of Some scope \<Rightarrow> scope | None \<Rightarrow> ''sign_event'')
     \<and> db_oauth (si_db s1) = db_oauth (si_db s)"
proof -
  let ?p = "approval_code now (tn_id tn) (ad_code D) pubkey (az_client_id q) (az_redirect_uri q)
    (case az_scope q of Some scope \<Rightarrow> scope | None \<Rightarrow> ''sign_event'') (az_code_challenge q) (az_code_challenge_method q) None (az_state q)"
  obtain st where "get_account_status pubkey (tn_id tn) (si_db s) = Some st"
    using session(2) by (auto simp: user_exists_def get_account_status_def user_at_def [abs_def] is_set_iff)
  then obtain email where u: "authorize_user (cw_login W) now (tn_id tn) rq q (si_db s) = (Some pubkey, False, email)"
    using session(1) plain by (cases st) (simp add: authorize_user_def)
  obtain d' where d': "code_store now ?p (si_db s) = (Inr (), d')"
    "code_find_valid now' (tn_id tn) (ad_code D) d' = Some (issued_row now ?p)" "db_oauth d' = db_oauth (si_db s)"
    using stored_code_found [of ?p "si_db s" now' now] draw soon by (auto simp: approval_code_def)
  have "authorize_get W clients now D tn rq q s
       = (Some (Inr (RedirectTo (code_redirect (az_redirect_uri q) (ad_code D) (az_state q)))), put_si_db d' s)"
    using client u grant plain origin d'(1) by (simp add: authorize_get_def Let_def silent_approval_def auto_approve_def)
  then show ?thesis using d'(2,3) by (simp add: issued_row_def approval_code_def)
qed

text \<open>
  Silent approval does not look at what was granted. A user who once gave an app a grant, under
  whatever policy, is never asked again: the next authorization request from the same origin, by any client
  with that origin and for any scope, is answered at once with a code for the scope it asks for. The earlier
  grant bounds neither the client nor the policy of the new one.
\<close>

theorem silent_approval_takes_any_scope:
  assumes "validate_redirect_uri clients (az_client_id q) (az_redirect_uri q) (tn_id tn) = Some (Inr ())"
    and "cookie_user (cw_login W) now (tn_id tn) rq = Some pubkey" "user_exists pubkey (tn_id tn) (si_db s)"
    and "az_prompt q = None" "az_byok_pubkey q = None" "az_authorization_handle q = None"
    and "extract_origin (url_parse (ltoken (cw_login W))) (az_redirect_uri q) = Inr (oa_redirect_origin a)"
    and "a \<in> set (db_oauth (si_db s))" "oa_user_pubkey a = pubkey" "oa_tenant_id a = tn_id tn" "oa_revoked_at a = None"
    and "oa_policy_id a = Some narrow" "oa_client_id a \<noteq> Some (az_client_id q)" "az_scope q = Some wide"
    and "\<not> exists_row (\<lambda>c. oc_code c = ad_code D) (db_oauth_codes (si_db s))" "tn_id tn \<in> set (db_tenants (si_db s))"
    and "now' < now + minutes 10"
  shows "\<exists>s1 c. authorize_get W clients now D tn rq q s
       = (Some (Inr (RedirectTo (code_redirect (az_redirect_uri q) (ad_code D) (az_state q)))), s1)
     \<and> code_find_valid now' (tn_id tn) (ad_code D) (si_db s1) = Some c \<and> oc_user_pubkey c = pubkey \<and> oc_scope c = wide"
proof -
  have "has_active_for_origin pubkey (oa_redirect_origin a) (tn_id tn) (db_oauth (si_db s))"
    using assms(8-11) by (auto simp: has_active_for_origin_def sql_simps)
  from silent_approval_code [OF assms(1-7) this assms(15-17)] assms(14) show ?thesis by auto
qed

text \<open>
  An app that names no scope is locked out by silent approval. Its user gets the consent page with the
  default scope \<open>policy:full\<close> the first time. From the second time on, the code is issued without a question
  for the scope \<open>sign_event\<close>, which is not a policy, and no exchange of that code ever succeeds.
\<close>

theorem unscoped_silent_code_is_refused:
  assumes "validate_redirect_uri clients (az_client_id q) (az_redirect_uri q) (tn_id tn) = Some (Inr ())"
    and "cookie_user (cw_login W) now (tn_id tn) rq = Some pubkey" "user_exists pubkey (tn_id tn) (si_db s)"
    and "az_prompt q = None" "az_byok_pubkey q = None" "az_authorization_handle q = None"
    and "extract_origin (url_parse (ltoken (cw_login W))) (az_redirect_uri q) = Inr origin"
    and "has_active_for_origin pubkey origin (tn_id tn) (db_oauth (si_db s))" and "az_scope q = None"
    and "\<not> exists_row (\<lambda>c. oc_code c = ad_code D) (db_oauth_codes (si_db s))" "tn_id tn \<in> set (db_tenants (si_db s))"
    and "now' < now + minutes 10" and "tq_code req = Some (ad_code D)"
  shows "\<exists>s1. authorize_get W clients now D tn rq q s
       = (Some (Inr (RedirectTo (code_redirect (az_redirect_uri q) (ad_code D) (az_state q)))), s1)
     \<and> (\<nexists>r. fst (handle_authorization_code_grant V now' R (tn_id tn) req (ac_server (si_acc s1))) = Some (Inr r))"
proof -
  from silent_approval_code [OF assms(1-8,10-12)] assms(9) obtain s1 c where
    g: "authorize_get W clients now D tn rq q s
       = (Some (Inr (RedirectTo (code_redirect (az_redirect_uri q) (ad_code D) (az_state q)))), s1)"
    and c: "code_find_valid now' (tn_id tn) (ad_code D) (si_db s1) = Some c" "oc_scope c = ''sign_event''" by auto
  have False if h: "fst (handle_authorization_code_grant V now' R (tn_id tn) req (ac_server (si_acc s1))) = Some (Inr r)" for r
  proof -
    obtain s2 where "handle_authorization_code_grant V now' R (tn_id tn) req (ac_server (si_acc s1)) = (Some (Inr r), s2)"
      using h by (metis prod.collapse)
    then show False
    proof (rule code_grant_checks)
      fix code c' assume "tq_code req = Some code" "code_find_valid now' (tn_id tn) code (sv_db (ac_server (si_acc s1))) = Some c'"
        and x: "exchange_code V now' R (tn_id tn) code c' (Option.bind (tq_code_verifier req) extract_nsec_from_verifier_public)
          (ac_server (si_acc s1)) = (Some (Inr r), s2)"
      then have "c' = c" using c(1) assms(13) by (simp add: si_db_def ac_db_def)
      from x show False
        by (elim exchange_code_ok create_oauth_authorization_ok) (auto simp: \<open>c' = c\<close> c(2) elim!: resolve_policy_ok)
    qed
  qed
  then show ?thesis using g by auto
qed

section \<open>From registration to the device\<close>

definition pending_row :: "timestamp \<Rightarrow> store_code_registration_params \<Rightarrow> oauth_code" where
  "pending_row now p =
     \<lparr>oc_tenant_id = sr_tenant_id p, oc_code = sr_code p, oc_user_pubkey = sr_user_pubkey p,
      oc_client_id = sr_client_id p, oc_redirect_uri = sr_redirect_uri p, oc_scope = sr_scope p,
      oc_code_challenge = sr_code_challenge p, oc_code_challenge_method = sr_code_challenge_method p,
      oc_expires_at = sr_expires_at p, oc_created_at = now, oc_pending_email = Some (sr_pending_email p),
      oc_pending_password_hash = Some (sr_pending_password_hash p),
      oc_pending_email_verification_token = Some (sr_pending_email_verification_token p),
      oc_pending_encrypted_secret = sr_pending_encrypted_secret p, oc_previous_auth_id = None,
      oc_state = sr_state p, oc_device_code = sr_device_code p, oc_is_headless = sr_is_headless p\<rparr>"

lemma fetch_last_kept:
  assumes "\<forall>x\<in>set xs. \<not> P x" and "P n" and "\<not> Q n"
  shows "fetch_optional P (delete_where Q (xs @ [n])) = Some n"
proof -
  have "fetch_optional P (delete_where Q xs) = None" using assms(1) by (auto simp: sql_simps)
  then show ?thesis
    using assms(2,3) by (simp add: delete_where_def fetch_optional_append fetch_optional_Cons)
qed

lemma pending_store_row: "code_store_with_pending_registration now p = insert_code (pending_row now p)"
  by (simp add: fun_eq_iff code_store_with_pending_registration_def pending_row_def)

lemma headless_register_row:
  assumes "headless_register L now D dc tn rq q s0 = (Inr r, s1)"
  obtains enc hash where
    "si_db s1 = (si_db s0)\<lparr>db_oauth_codes := db_oauth_codes (si_db s0) @
       [pending_row now (pending_registration now D dc (tn_id tn) (hrr_pubkey r) (lower L (hr_email q)) hash enc (hr_app q))]\<rparr>"
    "find_pubkey_by_email (lower L (hr_email q)) (tn_id tn) (si_db s0) = None" "tn_id tn \<in> set (db_tenants (si_db s0))"
    "bcrypt_hash L (ad_salt D) (hr_password q) = Inr hash"
proof -
  obtain pk enc hash s d where s: "si_db s = si_db s0" and free: "find_pubkey_by_email (lower L (hr_email q)) (tn_id tn) (si_db s0) = None"
    and st: "code_store_with_pending_registration now
        (pending_registration now D dc (tn_id tn) pk (lower L (hr_email q)) hash enc (hr_app q)) (si_db s0) = (Inr (), d)"
    and r: "hrr_pubkey r = pk" "si_db s1 = d" and h: "bcrypt_hash L (ad_salt D) (hr_password q) = Inr hash"
    using assms unfolding headless_register_def Let_def
    by (auto simp: and_then_Inr_iff is_set_iff split: sum.splits prod.splits if_splits bool.splits)
  let ?p = "pending_registration now D dc (tn_id tn) pk (lower L (hr_email q)) hash enc (hr_app q)"
  have "d = (si_db s0)\<lparr>db_oauth_codes := db_oauth_codes (si_db s0) @ [pending_row now ?p]\<rparr>"
    "oc_tenant_id (pending_row now ?p) \<in> set (db_tenants (si_db s0))"
    using st unfolding pending_store_row by (auto simp: insert_code_def split: if_splits)
  then show thesis
    using r free h by (intro that [of hash enc]) (simp_all add: pending_row_def pending_registration_def)
qed

lemma free_account:
  assumes "users_unique (db_users d)" and "\<forall>u\<in>set (db_users d). us_pubkey u \<noteq> pk"
    and "find_pubkey_by_email email t d = None" and "t \<in> set (db_tenants d)"
  shows "\<exists>d'. and_then (create_with_password_verified now pk t email hash True (Some tok) d) (personal_keys_create pk enc t) = Inr d'
     \<and> db_oauth_codes d' = db_oauth_codes d \<and> db_tenants d' = db_tenants d \<and> user_exists pk t d'"
proof -
  let ?u = "(blank_user pk t now)\<lparr>us_email := Some email, us_password_hash := Some hash,
     us_email_verified := Some True, us_email_verification_token := Some tok\<rparr>"
  have "(t, email) \<notin> set (indexed us_email (db_users d))"
    using assms(3) by (auto simp: find_pubkey_by_email_def indexed_def List.map_filter_def sql_simps)
  then have "users_unique (db_users d @ [?u])"
    using assms(1,2) by (auto simp: users_unique_def indexed_snoc blank_user_def)
  moreover have "us_tenant_id ?u = t" "us_pubkey ?u = pk" by (simp_all add: blank_user_def)
  ultimately show ?thesis
    using assms(4)
    by (auto simp: create_with_password_verified_def insert_user_def personal_keys_create_def exists_row_def user_exists_def is_set_iff
        sql_simps)
qed

text \<open>
  C13. The headless registration reaches the device. When the link in the mail is followed within a day, the
  account exists, and a poll with the device code within the next ten minutes delivers a code once: it is
  live, for the registered key and the scope the app asked for, and a second poll finds nothing. Drawn
  values are assumed to be new.
\<close>

theorem device_flow_delivers_code:
  assumes reg: "headless_register L now D dc tn rq q s0 = (Inr r, s1)"
    and users: "users_unique (db_users (si_db s0))" "\<forall>u\<in>set (db_users (si_db s0)). us_pubkey u \<noteq> hrr_pubkey r"
    and fresh: "\<forall>c\<in>set (db_oauth_codes (si_db s0)). oc_pending_email_verification_token c \<noteq> Some (ad_token D)"
      "\<forall>c\<in>set (db_oauth_codes (si_db s1)). oc_code c \<noteq> ad_code D1" "device_code_ok dc"
    and redis: "ad_redis D1" "ad_setex D1"
    and soon: "now1 < now + hours 24" "now2 div 1000000 < now1 div 1000000 + 600" "now2 < now1 + minutes 10"
  shows "\<exists>v s2 s3 c. verify_email_endpoint L now1 D1 tn rq1 (ad_token D) s1 = (Inr (None, v), s2) \<and> ve_success v
     \<and> user_exists (hrr_pubkey r) (tn_id tn) (si_db s2)
     \<and> poll now2 True True True dc s2 = (Inr (PollCode (ad_code D1)), s3)
     \<and> code_find_valid now2 (tn_id tn) (ad_code D1) (si_db s3) = Some c
     \<and> oc_user_pubkey c = hrr_pubkey r \<and> oc_scope c = headless_scope (hr_app q) \<and> oc_pending_email c = None
     \<and> poll now2 True True True dc s3 = (Inr PollPending, s3)"
proof -
  let ?t = "tn_id tn" and ?e = "lower L (hr_email q)"
  from reg obtain enc hash where
    d1: "si_db s1 = (si_db s0)\<lparr>db_oauth_codes := db_oauth_codes (si_db s0) @
       [pending_row now (pending_registration now D dc ?t (hrr_pubkey r) ?e hash enc (hr_app q))]\<rparr>"
    and free: "find_pubkey_by_email ?e ?t (si_db s0) = None" "?t \<in> set (db_tenants (si_db s0))"
    by (rule headless_register_row)
  let ?c = "pending_row now (pending_registration now D dc ?t (hrr_pubkey r) ?e hash enc (hr_app q))"
  have found: "find_by_verification_token now1 (ad_token D) ?t (si_db s1) = Some ?c"
  proof -
    have "fetch_optional (\<lambda>c. oc_pending_email_verification_token c = Some (ad_token D) \<and> oc_tenant_id c = ?t \<and> now1 < oc_expires_at c)
        (db_oauth_codes (si_db s0)) = None" using fresh(1) by (auto simp: sql_simps)
    then show ?thesis
      using soon(1) by (simp add: find_by_verification_token_def d1 fetch_optional_append fetch_optional_Cons pending_row_def
          pending_registration_def EMAIL_VERIFICATION_EXPIRY_HOURS_def)
  qed
  have free1: "find_pubkey_by_email ?e ?t (si_db s1) = None" "users_unique (db_users (si_db s1))"
    "\<forall>u\<in>set (db_users (si_db s1)). us_pubkey u \<noteq> hrr_pubkey r" "?t \<in> set (db_tenants (si_db s1))"
    using free users by (simp_all add: d1 find_pubkey_by_email_def)
  from free_account [OF free1(2,3,1,4)] obtain d where
    d: "and_then (create_with_password_verified now1 (hrr_pubkey r) ?t ?e hash True (Some (ad_token D)) (si_db s1))
         (personal_keys_create (hrr_pubkey r) enc ?t) = Inr d" "db_oauth_codes d = db_oauth_codes (si_db s1)" "?t \<in> set (db_tenants d)"
      "user_exists (hrr_pubkey r) ?t d"
    using free1(4) by metis
  let ?n = "issued_row now1 (renewed_code now1 (ad_code D1) ?t ?c)"
  let ?d2 = "d\<lparr>db_oauth_codes := db_oauth_codes d @ [?n]\<rparr>"
  let ?s2 = "put_si_db (delete_by_verification_token (ad_token D) ?t ?d2)
      ((put_si_db ?d2 (put_si_db d s1))\<lparr>si_polls := (si_polls s1)(poll_key dc := Some (ad_code D1, now1 div 1000000 + 600))\<rparr>)"
  let ?s3 = "?s2\<lparr>si_polls := (si_polls ?s2)(poll_key dc := None)\<rparr>"
  have c: "oc_pending_email ?c = Some ?e" "oc_pending_password_hash ?c = Some hash" "oc_pending_encrypted_secret ?c = Some enc"
    "oc_user_pubkey ?c = hrr_pubkey r" "oc_device_code ?c = Some dc" "oc_is_headless ?c" "oc_scope ?c = headless_scope (hr_app q)"
    by (simp_all add: pending_row_def pending_registration_def)
  have n: "oc_code ?n = ad_code D1" "oc_tenant_id ?n = ?t" "oc_user_pubkey ?n = hrr_pubkey r" "oc_scope ?n = headless_scope (hr_app q)"
    "oc_pending_email ?n = None" "oc_pending_email_verification_token ?n = None" "oc_expires_at ?n = now1 + minutes 10"
    by (simp_all add: issued_row_def renewed_code_def c)
  have polls: "si_polls (put_si_db x s) = si_polls s" for x and s :: "'a site" by (simp add: put_si_db_def)
  have "\<not> user_exists (hrr_pubkey r) ?t (si_db s1)" using free1(3) by (auto simp: user_exists_def is_set_iff sql_simps)
  then have u: "verified_oauth_user now1 (ad_token D) ?t ?c ?e hash (si_db s1) = Inr d"
    using d(1) c by (simp add: verified_oauth_user_def Let_def)
  have store: "code_store now1 (renewed_code now1 (ad_code D1) ?t ?c) d = (Inr (), ?d2)"
    using fresh(2) d(2,3) n by (simp add: code_store_row insert_code_def exists_row_iff)
  have v: "verify_email_endpoint L now1 D1 tn rq1 (ad_token D) s1 = (Inr (None, oauth_verified_response D1 ?c), ?s2)"
    using found c u store redis
    by (simp add: verify_email_endpoint_def Let_def verify_oauth_registration_def deliver_code_def polls)
  have p: "poll now2 True True True dc ?s2 = (Inr (PollCode (ad_code D1)), ?s3)" "poll now2 True True True dc ?s3 = (Inr PollPending, ?s3)"
    using fresh(3) soon(2) by (simp_all add: poll_def waiting_code_def polls)
  have "code_find_valid now2 ?t (ad_code D1) (si_db ?s3) = Some ?n"
    using fresh(2) d(2) n soon(3)
    by (auto simp: code_find_valid_def delete_by_verification_token_def intro!: fetch_last_kept)
  then show ?thesis
    using v p n d(4) c
    by (intro exI [of _ "oauth_verified_response D1 ?c"] exI [of _ ?s2] exI [of _ ?s3] exI [of _ ?n])
      (simp add: oauth_verified_response_def verify_note_def delete_by_verification_token_def user_exists_def)
qed

section \<open>What a bearer token is good for\<close>

lemma bearer_user:
  assumes "rq_header rq ''authorization'' = Some v" "header_str rq ''authorization'' = Some (''Bearer '' @ tok)"
    and "validate_ucan_token X now (''Bearer '' @ tok) t = Inr (pk, origin, b, u)"
  shows "extract_user_from_token X now rq t = Inr pk"
  using assms by (simp add: extract_user_from_token_def extract_user_and_origin_from_token_def extract_user_from_ucan_def
      Let_def starts_with_def)

text \<open>The headless authorization takes any token that validates, and any scope.\<close>

lemma bearer_gets_code:
  assumes "validate_ucan_token (lhttp L) now1 (''Bearer '' @ tok) (tn_id tn) = Inr (pk, x, b, u)"
    and "rq_header rq ''authorization'' = Some v" "header_str rq ''authorization'' = Some (''Bearer '' @ tok)"
    and "headless_origin L app = Inr origin"
    and draw: "\<not> exists_row (\<lambda>c. oc_code c = ad_code D1) (db_oauth_codes (si_db s))" "tn_id tn \<in> set (db_tenants (si_db s))"
    and soon: "now2 < now1 + minutes 10"
  shows "\<exists>s1 c. headless_authorize L now1 D1 tn rq app s
           = (Inr \<lparr>hz_success = True, hz_code = ad_code D1, hz_state = ha_state app\<rparr>, s1)
         \<and> code_find_valid now2 (tn_id tn) (ad_code D1) (si_db s1) = Some c
         \<and> oc_user_pubkey c = pk \<and> oc_scope c = headless_scope app"
proof -
  have e: "extract_user_from_token (lhttp L) now1 rq (tn_id tn) = Inr pk" by (rule bearer_user [OF assms(2,3,1)])
  let ?p = "headless_code now1 (tn_id tn) (ad_code D1) pk app"
  obtain d' where d': "code_store now1 ?p (si_db s) = (Inr (), d')"
    "code_find_valid now2 (tn_id tn) (ad_code D1) d' = Some (issued_row now1 ?p)"
    using stored_code_found [of ?p "si_db s" now2 now1] draw soon by (auto simp: headless_code_def)
  have "headless_authorize L now1 D1 tn rq app s
      = (Inr \<lparr>hz_success = True, hz_code = ad_code D1, hz_state = ha_state app\<rparr>, put_si_db d' s)"
    using e assms(4) d'(1) by (simp add: headless_authorize_def Let_def)
  then show ?thesis using d'(2) by (auto simp: issued_row_def headless_code_def)
qed

text \<open>
  C21. A grant can widen itself. The access token that an exchange returns, however narrow the policy of its
  scope is, counts as a session of the user: the headless authorization answers it with a live code for the
  same user under whatever scope the holder of the token writes into the request, without asking the user.
\<close>

theorem narrow_grant_widens_itself:
  assumes x: "exchange_code (ltoken L) now R (tn_id tn) code c nsec sv = (Some (Inr r), sv')"
    and access: "tr_access_token r = Some access"
    and crate: "ucan_faithful (ltoken L) server_key now1" "server_pubkey (lhttp L) = Inr server_key"
      "\<forall>pk. did_to_nostr_pubkey (lhttp L) (nostr_pubkey_to_did (ltoken L) pk) = Inr pk"
      "pk_from_hex (x_perm (lx L)) (oc_user_pubkey c) = Inr (oc_user_pubkey c)"
    and rq: "rq_header rq ''authorization'' = Some v" "header_str rq ''authorization'' = Some (''Bearer '' @ access)"
    and app: "headless_origin L app = Inr origin" "ha_scope app = Some wide" "oc_scope c \<noteq> wide"
    and draw: "\<not> exists_row (\<lambda>c. oc_code c = ad_code D1) (db_oauth_codes (si_db s))" "tn_id tn \<in> set (db_tenants (si_db s))"
    and soon: "now2 < now1 + minutes 10"
  shows "\<exists>s1 c1. headless_authorize L now1 D1 tn rq app s
           = (Inr \<lparr>hz_success = True, hz_code = ad_code D1, hz_state = ha_state app\<rparr>, s1)
         \<and> code_find_valid now2 (tn_id tn) (ad_code D1) (si_db s1) = Some c1
         \<and> oc_user_pubkey c1 = oc_user_pubkey c \<and> oc_scope c1 = wide"
proof -
  obtain email org bunker fp where "issue_access_token (ltoken L) (oc_user_pubkey c) (tn_id tn) email org bunker fp = Inr access"
    using x access by (elim exchange_code_ok create_oauth_authorization_ok) (auto simp: created_response_def)
  from issued_token_validates [OF this crate] obtain u where
    "validate_ucan_token (lhttp L) now1 (''Bearer '' @ access) (tn_id tn) = Inr (oc_user_pubkey c, org, Some bunker, u)" by blast
  from bearer_gets_code [OF this rq app(1) draw soon] app(2) show ?thesis by (simp add: headless_scope_def)
qed

section \<open>Administrators and claimed accounts\<close>

text \<open>
  What the token crate promises about a token for a preloaded account, while it has not expired: parsing
  gives back audience, issuer and facts.
\<close>

definition preload_tokens_faithful :: "'j admin_world \<Rightarrow> 'j http_world \<Rightarrow> timestamp \<Rightarrow> bool" where
  "preload_tokens_faithful A X now \<longleftrightarrow>
     (\<forall>keys aud life t admin tok. admin_ucan A keys aud life (PreloadFacts t admin) = Inr tok \<longrightarrow>
        (\<exists>u. ucan_parse X tok = Inr u \<and> ucan_check_signature X u = Inr () \<and> \<not> ucan_is_expired X now u
           \<and> uc_audience u = aud \<and> did_to_nostr_pubkey X (uc_issuer u) = Inr (public_key (dx A) keys)
           \<and> fact_str X ''redirect_origin'' (uc_facts u) = Some ''preload''
           \<and> fact_str X ''bunker_pubkey'' (uc_facts u) = None
           \<and> fact_i64 X ''tenant_id'' (uc_facts u) = Some t))"

lemma preload_token_validates:
  assumes "generate_preload_ucan A pk t keys admin = Inr tok" and "preload_tokens_faithful A X now"
    and "server_pubkey X = Inr (public_key (dx A) keys)" and "did_to_nostr_pubkey X (nostr_pubkey_to_did (dtoken A) pk) = Inr pk"
  shows "\<exists>u. validate_ucan_token X now (''Bearer '' @ tok) t = Inr (pk, ''preload'', None, u)"
proof -
  have "admin_ucan A keys (nostr_pubkey_to_did (dtoken A) pk) (PRELOAD_TOKEN_EXPIRY_DAYS * 24 * 3600) (PreloadFacts t admin) = Inr tok"
    using assms(1) by (cases "admin_ucan A keys (nostr_pubkey_to_did (dtoken A) pk) (PRELOAD_TOKEN_EXPIRY_DAYS * 24 * 3600) (PreloadFacts t admin)")
      (simp_all add: generate_preload_ucan_def)
  with assms(2) obtain u where u: "ucan_parse X tok = Inr u" "ucan_check_signature X u = Inr ()" "\<not> ucan_is_expired X now u"
    "uc_audience u = nostr_pubkey_to_did (dtoken A) pk" "did_to_nostr_pubkey X (uc_issuer u) = Inr (public_key (dx A) keys)"
    "fact_str X ''redirect_origin'' (uc_facts u) = Some ''preload''" "fact_str X ''bunker_pubkey'' (uc_facts u) = None"
    "fact_i64 X ''tenant_id'' (uc_facts u) = Some t"
    unfolding preload_tokens_faithful_def by metis
  have b: "strip_prefix ''Bearer '' (''Bearer '' @ tok) = Some tok" by (subst strip_prefix_Some) (rule refl)
  show ?thesis
    unfolding validate_ucan_token_def b using u assms(3,4) by (simp add: check_tenant_def check_issuer_def)
qed

text \<open>
  C23. An administrator keeps a way into an account after its owner claimed it. The endpoint for user tokens
  refuses claimed accounts, but preloading the same vine id again hands out a token for the key just the
  same, and the headless authorization accepts that token as the owner's session: it issues a live code for
  the owner's key, under any policy.
\<close>

theorem admin_acts_as_claimed_user:
  assumes adm: "full_admin A auth" "get_server_keys A = Inr keys"
    and user: "find_pubkey_by_vine_id (pu_vine_id p) (tn_id tn) (si_db s) = Some pk" "pk_from_hex (x_perm (dx A)) pk = Inr pk"
      "Users.is_unclaimed pk (tn_id tn) (si_db s) = Some False"
    and tok: "generate_preload_ucan A pk (tn_id tn) keys (ua_pubkey auth) = Inr tok"
    and crate: "preload_tokens_faithful A (lhttp L) now1" "server_pubkey (lhttp L) = Inr (public_key (dx A) keys)"
      "did_to_nostr_pubkey (lhttp L) (nostr_pubkey_to_did (dtoken A) pk) = Inr pk"
    and rq: "rq_header rq ''authorization'' = Some v" "header_str rq ''authorization'' = Some (''Bearer '' @ tok)"
    and app: "headless_origin L app = Inr origin"
    and draw: "\<not> exists_row (\<lambda>c. oc_code c = ad_code D1) (db_oauth_codes (si_db s))" "tn_id tn \<in> set (db_tenants (si_db s))"
    and soon: "now2 < now1 + minutes 10"
  shows "preload_user A now D (tn_id tn) auth p s = (Inr (pk, tok), s)
    \<and> get_user_token A (tn_id tn) auth pk (si_db s) = Inl (ApiForbidden ''Cannot generate token for claimed user'')
    \<and> (\<exists>s1 c. headless_authorize L now1 D1 tn rq app s
           = (Inr \<lparr>hz_success = True, hz_code = ad_code D1, hz_state = ha_state app\<rparr>, s1)
         \<and> code_find_valid now2 (tn_id tn) (ad_code D1) (si_db s1) = Some c
         \<and> oc_user_pubkey c = pk \<and> oc_scope c = headless_scope app)"
proof -
  have 1: "preload_user A now D (tn_id tn) auth p s = (Inr (pk, tok), s)"
    using adm user(1,2) tok by (simp add: preload_user_def require_def)
  have 2: "get_user_token A (tn_id tn) auth pk (si_db s) = Inl (ApiForbidden ''Cannot generate token for claimed user'')"
    using adm(1) user(2,3) by (simp add: get_user_token_def require_def)
  obtain u where "validate_ucan_token (lhttp L) now1 (''Bearer '' @ tok) (tn_id tn) = Inr (pk, ''preload'', None, u)"
    using preload_token_validates [OF tok crate] by blast
  from bearer_gets_code [OF this rq app draw soon] 1 2 show ?thesis by simp
qed

section \<open>Samples\<close>

text \<open>alice has a session cookie and one grant, under the policy for notes, for the origin of the app.\<close>

definition CS0 :: "jv consent_world" where
  "CS0 = \<lparr>cw_login = LW0, vite_domain_env = None, url_decode = Inr, upper_first = id, bcrypt_hash_10 = (\<lambda>_. Inr)\<rparr>"

definition cookie_parts :: parts where
  "cookie_parts = web_parts [(''cookie'', ''keycast_session=access'')]"

definition grant_site :: "jv site" where
  "grant_site = site_of (sv_db sv0)"

definition sample_authorize :: "string option \<Rightarrow> authorize_request" where
  "sample_authorize scope = \<lparr>az_client_id = ''other'', az_redirect_uri = ''https://app/cb'', az_scope = scope, az_state = None,
     az_code_challenge = None, az_code_challenge_method = None, az_prompt = None, az_byok_pubkey = None, az_default_register = None,
     az_authorization_handle = None, az_screen = None\<rparr>"

definition sample_approval :: approve_request where
  "sample_approval = \<lparr>pq_client_id = ''app'', pq_redirect_uri = ''https://app/cb'', pq_scope = ''policy:notes'', pq_state = None,
     pq_approved = True, pq_code_challenge = None, pq_code_challenge_method = None\<rparr>"

definition approved_code :: oauth_code where
  "approved_code = issued_row 20 (approval_code 20 1 ''newcode'' ''alice'' ''app'' ''https://app/cb'' ''policy:notes'' None None None None)"

definition approval_turn :: "jv code_turn" where
  "approval_turn = \<lparr>ct_world = CS0, ct_clients = [], ct_now = 20, ct_draws = sample_draws [] [], ct_tenant = customer_tenant,
     ct_parts = cookie_parts, ct_request = ApprovalRequest sample_approval\<rparr>"


lemma alice_session:
  "cookie_user (cw_login CS0) 20 (tn_id customer_tenant) cookie_parts = Some ''alice''"
  "user_exists ''alice'' (tn_id customer_tenant) (si_db grant_site)"
  "\<not> exists_row (\<lambda>c. oc_code c = ad_code (sample_draws [] [])) (db_oauth_codes (si_db grant_site))"
  "tn_id customer_tenant \<in> set (db_tenants (si_db grant_site))"
  by code_simp+

lemma other_client:
  "validate_redirect_uri [] (az_client_id (sample_authorize scope)) (az_redirect_uri (sample_authorize scope)) (tn_id customer_tenant)
     = Some (Inr ())"
  "az_prompt (sample_authorize scope) = None" "az_byok_pubkey (sample_authorize scope) = None"
  "az_authorization_handle (sample_authorize scope) = None" "az_scope (sample_authorize scope) = scope"
  "extract_origin (url_parse (ltoken (cw_login CS0))) (az_redirect_uri (sample_authorize scope)) = Inr ''https://app''"
  by (simp_all add: sample_authorize_def) code_simp+

definition notes_grant :: oauth_authorization where
  "notes_grant = (new_oauth_row 10 1 sample_params)\<lparr>oa_bunker_public_key := ''bunker0'', oa_redirect_origin := ''https://app''\<rparr>"

theorem silent_approval_takes_any_scope_witness:
  "\<exists>s1 c. authorize_get CS0 [] 20 (sample_draws [] []) customer_tenant cookie_parts (sample_authorize (Some ''policy:full'')) grant_site
       = (Some (Inr (RedirectTo ''https://app/cb?code=newcode'')), s1)
     \<and> code_find_valid 25 1 ''newcode'' (si_db s1) = Some c \<and> oc_user_pubkey c = ''alice'' \<and> oc_scope c = ''policy:full''"
proof -
  have a: "notes_grant \<in> set (db_oauth (si_db grant_site))" "oa_user_pubkey notes_grant = ''alice''"
    "oa_tenant_id notes_grant = tn_id customer_tenant" "oa_revoked_at notes_grant = None" "oa_policy_id notes_grant = Some 1"
    "oa_client_id notes_grant \<noteq> Some (az_client_id (sample_authorize (Some ''policy:full'')))"
    "oa_redirect_origin notes_grant = ''https://app''"
    by code_simp+
  have soon: "(25::timestamp) < 20 + minutes 10" by (simp add: minutes_def)
  have url: "code_redirect (az_redirect_uri (sample_authorize scope)) ''newcode'' (az_state (sample_authorize scope))
      = ''https://app/cb?code=newcode''" "ad_code (sample_draws [] []) = ''newcode''" "tn_id customer_tenant = 1" for scope
    by (simp_all add: sample_authorize_def sample_draws_def code_redirect_def customer_tenant_def)
  show ?thesis
    using silent_approval_takes_any_scope [OF other_client(1) alice_session(1,2) other_client(2,3,4) other_client(6)[folded a(7)]
        a(1-6) other_client(5) alice_session(3,4) soon]
    by (simp add: url)
qed

definition exchange_request :: token_request where
  "exchange_request =
     \<lparr>tq_grant_type = None, tq_code = Some ''newcode'', tq_client_id = ''other'', tq_redirect_uri = Some ''https://app/cb'',
      tq_code_verifier = None, tq_refresh_token = None\<rparr>"

theorem unscoped_silent_code_is_refused_witness:
  "\<exists>s1. authorize_get CS0 [] 20 (sample_draws [] []) customer_tenant cookie_parts (sample_authorize None) grant_site
       = (Some (Inr (RedirectTo ''https://app/cb?code=newcode'')), s1)
     \<and> (\<nexists>r. fst (handle_authorization_code_grant W0 25 (draw ''h1'' ''r1'') 1 exchange_request (ac_server (si_acc s1))) = Some (Inr r))"
proof -
  have g: "has_active_for_origin ''alice'' ''https://app'' (tn_id customer_tenant) (db_oauth (si_db grant_site))" by code_simp
  have url: "code_redirect (az_redirect_uri (sample_authorize None)) ''newcode'' (az_state (sample_authorize None))
      = ''https://app/cb?code=newcode''" "ad_code (sample_draws [] []) = ''newcode''" "tn_id customer_tenant = 1"
    by (simp_all add: sample_authorize_def sample_draws_def code_redirect_def customer_tenant_def)
  have soon: "(25::timestamp) < 20 + minutes 10" by (simp add: minutes_def)
  have "tq_code exchange_request = Some (ad_code (sample_draws [] []))" by (simp add: exchange_request_def url)
  from unscoped_silent_code_is_refused [OF other_client(1) alice_session(1,2) other_client(2,3,4) other_client(6) g other_client(5)
      alice_session(3,4) soon this, of W0 "draw ''h1'' ''r1''"]
  show ?thesis by (simp add: url)
qed

definition sample_app :: "string \<Rightarrow> headless_app" where
  "sample_app scope = \<lparr>ha_client_id = ''app'', ha_redirect_uri = ''https://app/cb'', ha_scope = Some scope, ha_code_challenge = None,
     ha_code_challenge_method = None, ha_state = None\<rparr>"

definition device_request :: headless_register_request where
  "device_request = \<lparr>hr_email = ''a@b.c'', hr_password = ''secret'', hr_nsec = None, hr_app = sample_app ''policy:notes''\<rparr>"

definition registering :: account_draws where
  "registering = (sample_draws ''verification'' [1])\<lparr>ad_code := ''pending''\<rparr>"

definition notes_site :: "jv site" where
  "notes_site = site_of (empty_db\<lparr>db_policies := db_policies world\<rparr>)"

abbreviation device_registered :: "(headless_error + headless_register_response) \<times> jv site" where
  "device_registered \<equiv> headless_register LW0 10 registering ''dev'' customer_tenant (web_parts []) device_request notes_site"

theorem device_flow_delivers_code_witness:
  "\<exists>v s2 s3 c. verify_email_endpoint LW0 20 (sample_draws [] []) customer_tenant (web_parts []) ''verification'' (snd device_registered)
       = (Inr (None, v), s2) \<and> ve_success v
     \<and> poll 25 True True True ''dev'' s2 = (Inr (PollCode ''newcode''), s3)
     \<and> code_find_valid 25 1 ''newcode'' (si_db s3) = Some c \<and> oc_user_pubkey c = ''alice'' \<and> oc_scope c = ''policy:notes''
     \<and> poll 25 True True True ''dev'' s3 = (Inr PollPending, s3)"
proof -
  let ?r = "\<lparr>hrr_success = True, hrr_pubkey = ''alice'', hrr_verification_required = True, hrr_device_code = ''dev'', hrr_email = ''a@b.c''\<rparr>"
  have "fst device_registered = Inr ?r" by code_simp
  then have reg: "device_registered = (Inr ?r, snd device_registered)" by (metis prod.collapse)
  have users: "users_unique (db_users (si_db notes_site))" "\<forall>u\<in>set (db_users (si_db notes_site)). us_pubkey u \<noteq> hrr_pubkey ?r"
    "\<forall>c\<in>set (db_oauth_codes (si_db notes_site)). oc_pending_email_verification_token c \<noteq> Some (ad_token registering)"
    by (simp_all add: notes_site_def site_of_def si_db_def ac_db_def empty_db_def users_unique_def indexed_def List.map_filter_def)
  have fresh: "\<forall>c\<in>set (db_oauth_codes (si_db (snd device_registered))). oc_code c \<noteq> ad_code (sample_draws [] [])"
    "device_code_ok ''dev''" by code_simp+
  have env: "ad_redis (sample_draws [] [])" "ad_setex (sample_draws [] [])" "ad_code (sample_draws [] []) = ''newcode''"
    "ad_token registering = ''verification''" "tn_id customer_tenant = 1" "headless_scope (hr_app device_request) = ''policy:notes''"
    by (simp_all add: sample_draws_def registering_def customer_tenant_def device_request_def sample_app_def headless_scope_def)
  have soon: "(20::timestamp) < 10 + hours 24" "(25::timestamp) div 1000000 < 20 div 1000000 + 600" "(25::timestamp) < 20 + minutes 10"
    by (simp_all add: minutes_def)
  from device_flow_delivers_code [OF reg users fresh env(1,2) soon, of "web_parts []"] show ?thesis
    by (simp add: env) blast
qed

definition LW3 :: "jv login_world" where
  "LW3 = LW0\<lparr>lw_acc := (lw_acc LW0)\<lparr>acw_token := W0\<rparr>\<rparr>"

definition bearer_parts :: "string \<Rightarrow> parts" where
  "bearer_parts tok = web_parts [(''authorization'', ''Bearer '' @ tok)]"

lemma bearer_parts_header:
  "rq_header (bearer_parts ''access'') ''authorization'' = Some ''Bearer access''"
  "header_str (bearer_parts ''access'') ''authorization'' = Some (''Bearer '' @ ''access'')"
  "rq_header (bearer_parts ''tok'') ''authorization'' = Some ''Bearer tok''"
  "header_str (bearer_parts ''tok'') ''authorization'' = Some (''Bearer '' @ ''tok'')"
  by code_simp+

definition token_of :: "(oauth_error + token_response) option \<Rightarrow> string option" where
  "token_of r = (case r of Some (Inr t) \<Rightarrow> tr_access_token t | _ \<Rightarrow> None)"

theorem narrow_grant_widens_itself_witness:
  "oc_scope sample_code = ''policy:notes''
   \<and> (\<exists>s1 c1. headless_authorize LW3 25 (sample_draws [] []) customer_tenant (bearer_parts ''access'') (sample_app ''policy:full'') grant_site
         = (Inr \<lparr>hz_success = True, hz_code = ''newcode'', hz_state = None\<rparr>, s1)
       \<and> code_find_valid 26 1 ''newcode'' (si_db s1) = Some c1 \<and> oc_user_pubkey c1 = ''alice'' \<and> oc_scope c1 = ''policy:full'')"
proof -
  have "token_of (fst reauthenticated) = Some ''access''" by code_simp
  then obtain r where r: "fst reauthenticated = Some (Inr r)" "tr_access_token r = Some ''access''"
    by (auto simp: token_of_def split: option.splits sum.splits)
  have w: "ltoken LW3 = W0" "lhttp LW3 = tw_http W0" "lx LW3 = tx W0" by (simp_all add: LW3_def)
  have x: "exchange_code (ltoken LW3) 20 (draw ''h1'' ''r1'') (tn_id customer_tenant) ''code'' sample_code None sv0
      = (Some (Inr r), snd reauthenticated)"
    using r(1) by (simp add: w customer_tenant_def prod_eq_iff)
  have crate: "ucan_faithful (ltoken LW3) ''server'' 25" "server_pubkey (lhttp LW3) = Inr ''server''"
    "\<forall>pk. did_to_nostr_pubkey (lhttp LW3) (nostr_pubkey_to_did (ltoken LW3) pk) = Inr pk"
    "pk_from_hex (x_perm (lx LW3)) (oc_user_pubkey sample_code) = Inr (oc_user_pubkey sample_code)"
    unfolding w by (simp_all add: W0_ucan W0_did) (simp_all add: W0_def Y0_def X0_def sample_ext_def sample_perm_ext_def)
  have app: "headless_origin LW3 (sample_app ''policy:full'') = Inr ''https://app''" "ha_scope (sample_app ''policy:full'') = Some ''policy:full''"
    "oc_scope sample_code \<noteq> ''policy:full''" by code_simp+
  have soon: "(26::timestamp) < 25 + minutes 10" by (simp add: minutes_def)
  have env: "ad_code (sample_draws [] []) = ''newcode''" "tn_id customer_tenant = 1" "ha_state (sample_app ''policy:full'') = None"
    "oc_scope sample_code = ''policy:notes''" "oc_user_pubkey sample_code = ''alice''"
    by (simp_all add: sample_draws_def customer_tenant_def sample_app_def sample_code_def)
  from narrow_grant_widens_itself [OF x r(2) crate bearer_parts_header(1,2) app alice_session(3,4) soon] show ?thesis
    by (simp add: env)
qed

text \<open>A world with a key for the server, and the claimed account of the owner.\<close>

definition server_tokens :: "jv token_world" where
  "server_tokens = CT0\<lparr>keys_parse := (\<lambda>_. Inr [9]),
     tw_http := (tw_http CT0)\<lparr>hx := (hx (tw_http CT0))\<lparr>public_key := (\<lambda>k. if k = [9] then ''server'' else ''owner-owner'')\<rparr>,
       ucan_is_expired := (\<lambda>_ _. False),
       ucan_parse := (\<lambda>_. Inr \<lparr>uc_issuer = ''did:key:zserver'', uc_audience = ''did:key:zowner-owner'',
         uc_facts = [JObj [(''tenant_id'', JNum 1), (''redirect_origin'', JStr ''preload'')]], uc_payload = []\<rparr>)\<rparr>\<rparr>"

definition DW1 :: "jv admin_world" where
  "DW1 = DW0\<lparr>dw_team := TW0\<lparr>tmw_token := server_tokens\<rparr>,
     admin_ucan := (\<lambda>k aud _ facts. if k = [9] \<and> aud = ''did:key:zowner-owner'' \<and> facts = PreloadFacts 1 ''root''
                                   then Inr ''tok'' else Inl ''unexpected'')\<rparr>"

definition LW4 :: "jv login_world" where
  "LW4 = LW0\<lparr>lw_acc := (lw_acc LW0)\<lparr>acw_token := server_tokens\<rparr>\<rparr>"

definition claimed_site :: "jv site" where
  "claimed_site = site_of (empty_db\<lparr>db_users := [claimed_row 30 ''o@b.c'' ''longsecret'' (preloaded_row 10 ''owner-owner'' 1 sample_preload)]\<rparr>)"

lemma preload_crate: "preload_tokens_faithful DW1 (lhttp LW4) 25"
proof -
  let ?u = "\<lparr>uc_issuer = ''did:key:zserver'', uc_audience = ''did:key:zowner-owner'',
     uc_facts = [JObj [(''tenant_id'', JNum 1), (''redirect_origin'', JStr ''preload'')]], uc_payload = []\<rparr> :: jv ucan"
  have "fact_str (lhttp LW4) ''redirect_origin'' (uc_facts ?u) = Some ''preload''" "fact_str (lhttp LW4) ''bunker_pubkey'' (uc_facts ?u) = None"
    "fact_i64 (lhttp LW4) ''tenant_id'' (uc_facts ?u) = Some 1" "did_to_nostr_pubkey (lhttp LW4) (uc_issuer ?u) = Inr ''server''"
    "public_key (dx DW1) [9] = ''server''" "ucan_check_signature (lhttp LW4) ?u = Inr ()" by code_simp+
  moreover have "ucan_parse (lhttp LW4) tok = Inr ?u" "\<not> ucan_is_expired (lhttp LW4) 25 u" for tok u
    by (simp_all add: LW4_def server_tokens_def)
  ultimately show ?thesis
    by (auto simp: preload_tokens_faithful_def DW1_def split: if_splits)
qed

theorem admin_acts_as_claimed_user_witness:
  "preload_user DW1 20 (sample_draws [] []) 1 root_admin sample_preload claimed_site = (Inr (''owner-owner'', ''tok''), claimed_site)
   \<and> get_user_token DW1 1 root_admin ''owner-owner'' (si_db claimed_site) = Inl (ApiForbidden ''Cannot generate token for claimed user'')
   \<and> (\<exists>s1 c. headless_authorize LW4 25 (sample_draws [] []) customer_tenant (bearer_parts ''tok'') (sample_app ''policy:full'') claimed_site
         = (Inr \<lparr>hz_success = True, hz_code = ''newcode'', hz_state = None\<rparr>, s1)
       \<and> code_find_valid 26 1 ''newcode'' (si_db s1) = Some c \<and> oc_user_pubkey c = ''owner-owner'' \<and> oc_scope c = ''policy:full'')"
proof -
  have adm: "full_admin DW1 root_admin" "get_server_keys DW1 = Inr [9]" by code_simp+
  have user: "find_pubkey_by_vine_id (pu_vine_id sample_preload) (tn_id customer_tenant) (si_db claimed_site) = Some ''owner-owner''"
    "pk_from_hex (x_perm (dx DW1)) ''owner-owner'' = Inr ''owner-owner''"
    "Users.is_unclaimed ''owner-owner'' (tn_id customer_tenant) (si_db claimed_site) = Some False" by code_simp+
  have tok: "generate_preload_ucan DW1 ''owner-owner'' (tn_id customer_tenant) [9] (ua_pubkey root_admin) = Inr ''tok''" by code_simp
  have crate: "server_pubkey (lhttp LW4) = Inr (public_key (dx DW1) [9])"
    "did_to_nostr_pubkey (lhttp LW4) (nostr_pubkey_to_did (dtoken DW1) ''owner-owner'') = Inr ''owner-owner''" by code_simp+
  have app: "headless_origin LW4 (sample_app ''policy:full'') = Inr ''https://app''" by code_simp
  have fresh: "\<not> exists_row (\<lambda>c. oc_code c = ad_code (sample_draws [] [])) (db_oauth_codes (si_db claimed_site))"
    "tn_id customer_tenant \<in> set (db_tenants (si_db claimed_site))" by code_simp+
  have soon: "(26::timestamp) < 25 + minutes 10" by (simp add: minutes_def)
  have env: "ad_code (sample_draws [] []) = ''newcode''" "tn_id customer_tenant = 1" "ha_state (sample_app ''policy:full'') = None"
    "headless_scope (sample_app ''policy:full'') = ''policy:full''"
    by (simp_all add: sample_draws_def customer_tenant_def sample_app_def headless_scope_def)
  from admin_acts_as_claimed_user [OF adm user tok preload_crate crate bearer_parts_header(3,4) app fresh soon, of 20 "sample_draws [] []"]
  show ?thesis by (simp add: env)
qed

end
