(* ===== verification/AtprotoSessions.thy ===== *)
theory AtprotoSessions
  imports Users
begin

text \<open>
  \<open>AtprotoOAuthSessionRepository\<close> (\<open>core/src/repositories/atproto_oauth_session.rs\<close>) and the columns
  of \<open>UserRepository\<close> for the AT account of a user. A session row carries one pushed request from its
  creation to the refresh tokens; request URI, code, token id and refresh hash are unique. The trigger
  of the table stamps \<open>updated_at\<close>; a statement that fails leaves the rows as they were.
\<close>

section \<open>Sessions\<close>

record create_session_params =
  cs_tenant_id :: int
  cs_client_id :: string
  cs_redirect_uri :: string
  cs_scope :: string
  cs_state :: "string option"
  cs_code_challenge :: "string option"
  cs_code_challenge_method :: "string option"
  cs_request_uri :: string
  cs_par_expires_at :: timestamp
  cs_dpop_jkt :: "string option"
  cs_dpop_nonce :: "string option"
  cs_client_auth_method :: string
  cs_client_auth_alg :: "string option"
  cs_client_auth_kid :: "string option"
  cs_client_auth_jkt :: "string option"

record issue_tokens_params =
  it_authorization_code :: string
  it_authorization_code_expires_at :: timestamp
  it_access_token_jti :: string
  it_access_token_expires_at :: timestamp
  it_refresh_token_hash :: string
  it_refresh_token_expires_at :: timestamp
  it_dpop_jkt :: "string option"
  it_dpop_nonce :: "string option"

text \<open>The unique constraints; NULLs never conflict.\<close>

definition set_values :: "('r \<Rightarrow> 'a option) \<Rightarrow> 'r list \<Rightarrow> 'a list" where
  "set_values col ss = List.map_filter col ss"

definition sessions_unique :: "atproto_session list \<Rightarrow> bool" where
  "sessions_unique ss \<longleftrightarrow>
     distinct (map as_request_uri ss) \<and> distinct (set_values as_authorization_code ss)
     \<and> distinct (set_values as_access_token_jti ss) \<and> distinct (set_values as_refresh_token_hash ss)"

definition session_row :: "timestamp \<Rightarrow> int \<Rightarrow> create_session_params \<Rightarrow> atproto_session" where
  "session_row now i p =
     \<lparr>as_id = i, as_tenant_id = cs_tenant_id p, as_client_id = cs_client_id p, as_redirect_uri = cs_redirect_uri p,
      as_scope = cs_scope p, as_state = cs_state p, as_code_challenge = cs_code_challenge p,
      as_code_challenge_method = cs_code_challenge_method p, as_request_uri = cs_request_uri p,
      as_par_expires_at = cs_par_expires_at p, as_user_pubkey = None, as_atproto_did = None, as_approved_at = None,
      as_authorization_code = None, as_authorization_code_expires_at = None, as_access_token_jti = None,
      as_access_token_expires_at = None, as_refresh_token_hash = None, as_refresh_token_expires_at = None,
      as_refresh_token_revoked_at = None, as_revoked_at = None, as_dpop_jkt = cs_dpop_jkt p,
      as_dpop_nonce = cs_dpop_nonce p, as_client_auth_method = cs_client_auth_method p,
      as_client_auth_alg = cs_client_auth_alg p, as_client_auth_kid = cs_client_auth_kid p,
      as_client_auth_jkt = cs_client_auth_jkt p, as_created_at = now, as_updated_at = now\<rparr>"

text \<open>The serial number is drawn before the constraints are looked at.\<close>

definition create_par ::
    "timestamp \<Rightarrow> create_session_params \<Rightarrow> 'j db \<Rightarrow> (repository_error + atproto_session) \<times> 'j db" where
  "create_par now p d =
     (let r = session_row now (db_atproto_sessions_seq d) p;
          d1 = d\<lparr>db_atproto_sessions_seq := db_atproto_sessions_seq d + 1\<rparr>
      in if \<not> sessions_unique (db_atproto_sessions d @ [r]) then (Inl Duplicate, d1)
         else if cs_tenant_id p \<notin> set (db_tenants d)
         then (Inl (fk_violation ''atproto_oauth_sessions'' ''atproto_oauth_sessions_tenant_id_fkey''), d1)
         else (Inr r, d1\<lparr>db_atproto_sessions := db_atproto_sessions d @ [r]\<rparr>))"

text \<open>\<open>UPDATE ... RETURNING *\<close> read with \<open>fetch_optional\<close>.\<close>

definition update_sessions ::
    "timestamp \<Rightarrow> (atproto_session \<Rightarrow> bool) \<Rightarrow> (atproto_session \<Rightarrow> atproto_session) \<Rightarrow> 'j db
      \<Rightarrow> repository_error + atproto_session option \<times> 'j db" where
  "update_sessions now P f d =
     (let g = (\<lambda>r. (f r)\<lparr>as_updated_at := now\<rparr>); ss = update_where P g (db_atproto_sessions d)
      in if sessions_unique ss
         then Inr (map_option g (fetch_optional P (db_atproto_sessions d)), d\<lparr>db_atproto_sessions := ss\<rparr>)
         else Inl Duplicate)"

definition session_open :: "string \<Rightarrow> atproto_session \<Rightarrow> bool" where
  "session_open request_uri r \<longleftrightarrow> as_request_uri r = request_uri \<and> \<not> is_set (as_revoked_at r)"

definition session_find_by_request_uri :: "string \<Rightarrow> 'j db \<Rightarrow> atproto_session option" where
  "session_find_by_request_uri request_uri d = fetch_optional (session_open request_uri) (db_atproto_sessions d)"

definition approve_request ::
    "timestamp \<Rightarrow> string \<Rightarrow> pubkey \<Rightarrow> string \<Rightarrow> 'j db \<Rightarrow> repository_error + atproto_session option \<times> 'j db" where
  "approve_request now request_uri user_pubkey did d =
     (if exists_row (session_open request_uri) (db_atproto_sessions d)
         \<and> \<not> exists_row (\<lambda>u. us_pubkey u = user_pubkey) (db_users d)
      then Inl (fk_violation ''atproto_oauth_sessions'' ''atproto_oauth_sessions_user_pubkey_fkey'')
      else update_sessions now (session_open request_uri)
             (\<lambda>r. r\<lparr>as_user_pubkey := Some user_pubkey, as_atproto_did := Some did, as_approved_at := Some now\<rparr>) d)"

definition store_token_artifacts ::
    "timestamp \<Rightarrow> string \<Rightarrow> issue_tokens_params \<Rightarrow> 'j db \<Rightarrow> repository_error + atproto_session option \<times> 'j db" where
  "store_token_artifacts now request_uri p d =
     update_sessions now (session_open request_uri)
       (\<lambda>r. r\<lparr>as_authorization_code := Some (it_authorization_code p),
              as_authorization_code_expires_at := Some (it_authorization_code_expires_at p),
              as_access_token_jti := Some (it_access_token_jti p),
              as_access_token_expires_at := Some (it_access_token_expires_at p),
              as_refresh_token_hash := Some (it_refresh_token_hash p),
              as_refresh_token_expires_at := Some (it_refresh_token_expires_at p),
              as_dpop_jkt := it_dpop_jkt p, as_dpop_nonce := it_dpop_nonce p\<rparr>) d"

definition code_live :: "timestamp \<Rightarrow> string \<Rightarrow> atproto_session \<Rightarrow> bool" where
  "code_live now code r \<longleftrightarrow>
     as_authorization_code r = Some code \<and> \<not> is_set (as_revoked_at r)
     \<and> (case as_authorization_code_expires_at r of Some e \<Rightarrow> now < e | None \<Rightarrow> False)"

definition find_by_authorization_code :: "timestamp \<Rightarrow> string \<Rightarrow> 'j db \<Rightarrow> atproto_session option" where
  "find_by_authorization_code now code d = fetch_optional (code_live now code) (db_atproto_sessions d)"

definition store_authorization_code ::
    "timestamp \<Rightarrow> string \<Rightarrow> string \<Rightarrow> timestamp \<Rightarrow> 'j db \<Rightarrow> repository_error + atproto_session option \<times> 'j db" where
  "store_authorization_code now request_uri code expires_at d =
     update_sessions now (session_open request_uri)
       (\<lambda>r. r\<lparr>as_authorization_code := Some code, as_authorization_code_expires_at := Some expires_at\<rparr>) d"

definition consume_authorization_code ::
    "timestamp \<Rightarrow> string \<Rightarrow> 'j db \<Rightarrow> repository_error + atproto_session option \<times> 'j db" where
  "consume_authorization_code now code d =
     update_sessions now (code_live now code)
       (\<lambda>r. r\<lparr>as_authorization_code := None, as_authorization_code_expires_at := None\<rparr>) d"

definition refresh_live :: "timestamp \<Rightarrow> string \<Rightarrow> atproto_session \<Rightarrow> bool" where
  "refresh_live now hash r \<longleftrightarrow>
     as_refresh_token_hash r = Some hash \<and> \<not> is_set (as_revoked_at r) \<and> \<not> is_set (as_refresh_token_revoked_at r)
     \<and> (case as_refresh_token_expires_at r of Some e \<Rightarrow> now < e | None \<Rightarrow> False)"

definition find_by_refresh_token_hash :: "timestamp \<Rightarrow> string \<Rightarrow> 'j db \<Rightarrow> atproto_session option" where
  "find_by_refresh_token_hash now hash d = fetch_optional (refresh_live now hash) (db_atproto_sessions d)"

definition rotate_refresh_token ::
    "timestamp \<Rightarrow> string \<Rightarrow> string \<Rightarrow> issue_tokens_params \<Rightarrow> 'j db \<Rightarrow> repository_error + atproto_session option \<times> 'j db" where
  "rotate_refresh_token now request_uri previous_hash p d =
     update_sessions now (\<lambda>r. as_request_uri r = request_uri \<and> refresh_live now previous_hash r)
       (\<lambda>r. r\<lparr>as_access_token_jti := Some (it_access_token_jti p),
              as_access_token_expires_at := Some (it_access_token_expires_at p),
              as_refresh_token_hash := Some (it_refresh_token_hash p),
              as_refresh_token_expires_at := Some (it_refresh_token_expires_at p),
              as_dpop_jkt := it_dpop_jkt p, as_dpop_nonce := it_dpop_nonce p\<rparr>) d"

definition update_dpop_nonce ::
    "timestamp \<Rightarrow> string \<Rightarrow> string \<Rightarrow> 'j db \<Rightarrow> repository_error + atproto_session option \<times> 'j db" where
  "update_dpop_nonce now request_uri nonce d =
     update_sessions now (session_open request_uri) (\<lambda>r. r\<lparr>as_dpop_nonce := Some nonce\<rparr>) d"

text \<open>\<open>COALESCE(column, NOW())\<close>.\<close>

definition stamped :: "timestamp \<Rightarrow> timestamp option \<Rightarrow> timestamp option" where
  "stamped now column = (case column of Some t \<Rightarrow> Some t | None \<Rightarrow> Some now)"

definition revoke_refresh_session ::
    "timestamp \<Rightarrow> string \<Rightarrow> 'j db \<Rightarrow> repository_error + atproto_session option \<times> 'j db" where
  "revoke_refresh_session now hash d =
     update_sessions now (\<lambda>r. as_refresh_token_hash r = Some hash \<and> \<not> is_set (as_refresh_token_revoked_at r))
       (\<lambda>r. r\<lparr>as_refresh_token_revoked_at := Some now, as_revoked_at := stamped now (as_revoked_at r)\<rparr>) d"

definition session_revoked :: "timestamp \<Rightarrow> atproto_session \<Rightarrow> atproto_session" where
  "session_revoked now r =
     r\<lparr>as_refresh_token_revoked_at := (if is_set (as_refresh_token_hash r)
                                      then stamped now (as_refresh_token_revoked_at r)
                                      else as_refresh_token_revoked_at r),
       as_revoked_at := stamped now (as_revoked_at r)\<rparr>"

definition user_session :: "pubkey \<Rightarrow> atproto_session \<Rightarrow> bool" where
  "user_session user_pubkey r \<longleftrightarrow> as_user_pubkey r = Some user_pubkey \<and> \<not> is_set (as_revoked_at r)"

definition revoke_refresh_sessions_for_user ::
    "timestamp \<Rightarrow> int \<Rightarrow> pubkey \<Rightarrow> 'j db \<Rightarrow> repository_error + nat \<times> 'j db" where
  "revoke_refresh_sessions_for_user now tenant_id user_pubkey d =
     (let P = (\<lambda>r. as_tenant_id r = tenant_id \<and> user_session user_pubkey r)
      in and_then (update_sessions now P (session_revoked now) d)
           (\<lambda>(_, d1). Inr (rows_affected P (db_atproto_sessions d), d1)))"

definition revoke_sessions_for_pubkey :: "timestamp \<Rightarrow> pubkey \<Rightarrow> 'j db \<Rightarrow> repository_error + nat \<times> 'j db" where
  "revoke_sessions_for_pubkey now user_pubkey d =
     and_then (update_sessions now (user_session user_pubkey) (session_revoked now) d)
       (\<lambda>(_, d1). Inr (rows_affected (user_session user_pubkey) (db_atproto_sessions d), d1))"

definition revoke_session ::
    "timestamp \<Rightarrow> string \<Rightarrow> 'j db \<Rightarrow> repository_error + atproto_session option \<times> 'j db" where
  "revoke_session now request_uri d =
     update_sessions now (\<lambda>r. as_request_uri r = request_uri) (session_revoked now) d"

section \<open>The AT account of a user\<close>

record user_atproto_state =
  ua_enabled :: bool
  ua_state :: "string option"
  ua_did :: "string option"
  ua_error :: "string option"
  ua_updated_at :: "timestamp option"

definition with_atproto ::
    "timestamp \<Rightarrow> bool \<Rightarrow> string option \<Rightarrow> string option \<Rightarrow> string option \<Rightarrow> user \<Rightarrow> user" where
  "with_atproto now enabled state did error u =
     u\<lparr>us_atproto_enabled := enabled, us_atproto_state := state, us_atproto_did := did, us_atproto_error := error,
       us_atproto_updated_at := Some now, us_updated_at := now\<rparr>"

definition set_atproto_where ::
    "timestamp \<Rightarrow> (user \<Rightarrow> bool) \<Rightarrow> bool \<Rightarrow> string option \<Rightarrow> string option \<Rightarrow> string option \<Rightarrow> 'j db
      \<Rightarrow> repository_error + 'j db" where
  "set_atproto_where now P enabled state did error d =
     and_then (update_users P (with_atproto now enabled state did error) d)
       (\<lambda>d1. if rows_affected P (db_users d) = 0 then Inl (NotFound ''user not found'') else Inr d1)"

definition set_atproto_state ::
    "timestamp \<Rightarrow> pubkey \<Rightarrow> int \<Rightarrow> bool \<Rightarrow> string option \<Rightarrow> string option \<Rightarrow> string option \<Rightarrow> 'j db
      \<Rightarrow> repository_error + 'j db" where
  "set_atproto_state now pubkey tenant_id = set_atproto_where now (user_at pubkey tenant_id)"

definition set_atproto_state_by_pubkey ::
    "timestamp \<Rightarrow> pubkey \<Rightarrow> bool \<Rightarrow> string option \<Rightarrow> string option \<Rightarrow> string option \<Rightarrow> 'j db
      \<Rightarrow> repository_error + 'j db" where
  "set_atproto_state_by_pubkey now pubkey = set_atproto_where now (\<lambda>u. us_pubkey u = pubkey)"

definition atproto_state_of :: "user \<Rightarrow> user_atproto_state" where
  "atproto_state_of u =
     \<lparr>ua_enabled = us_atproto_enabled u, ua_state = us_atproto_state u, ua_did = us_atproto_did u,
      ua_error = us_atproto_error u, ua_updated_at = us_atproto_updated_at u\<rparr>"

definition get_atproto_state :: "pubkey \<Rightarrow> int \<Rightarrow> 'j db \<Rightarrow> user_atproto_state option" where
  "get_atproto_state pubkey tenant_id d =
     map_option atproto_state_of (fetch_optional (user_at pubkey tenant_id) (db_users d))"

definition get_atproto_state_by_pubkey :: "pubkey \<Rightarrow> 'j db \<Rightarrow> user_atproto_state option" where
  "get_atproto_state_by_pubkey pubkey d =
     map_option atproto_state_of (fetch_optional (\<lambda>u. us_pubkey u = pubkey) (db_users d))"

section \<open>Lemmas\<close>

lemma set_values_simps [simp]:
  "set_values col [] = []"
  "set_values col (r # ss) = (case col r of None \<Rightarrow> set_values col ss | Some v \<Rightarrow> v # set_values col ss)"
  by (simp_all add: set_values_def [abs_def] map_filter_simps split: option.split)

lemma in_set_values: "v \<in> set (set_values col ss) \<longleftrightarrow> (\<exists>r\<in>set ss. col r = Some v)"
  by (induction ss) (auto split: option.splits)

lemma set_values_append [simp]: "set_values col (ss @ ts) = set_values col ss @ set_values col ts"
  by (induction ss) (auto split: option.splits)

text \<open>A value of a unique column names one row.\<close>

lemma set_values_key:
  "distinct (set_values col ss) \<Longrightarrow> r \<in> set ss \<Longrightarrow> q \<in> set ss \<Longrightarrow> col r = Some v \<Longrightarrow> col q = Some v \<Longrightarrow> r = q"
proof (induction ss)
  case (Cons a ss)
  show ?case
  proof (cases "col a")
    case None
    with Cons show ?thesis by auto
  next
    case (Some w)
    with Cons.prems have "w \<notin> set (set_values col ss)" "distinct (set_values col ss)" by auto
    with Some Cons show ?thesis by (auto simp: in_set_values)
  qed
qed simp

lemma sessions_unique_keys:
  assumes "sessions_unique ss" "r \<in> set ss" "q \<in> set ss"
  shows "as_request_uri r = as_request_uri q \<Longrightarrow> r = q"
    and "as_authorization_code r = Some c \<Longrightarrow> as_authorization_code q = Some c \<Longrightarrow> r = q"
    and "as_refresh_token_hash r = Some h \<Longrightarrow> as_refresh_token_hash q = Some h \<Longrightarrow> r = q"
  using assms by (auto simp: sessions_unique_def distinct_map inj_on_def dest: set_values_key)

lemma update_sessions_Inr:
  "update_sessions now P f d = Inr (q, d') \<longleftrightarrow>
     sessions_unique (db_atproto_sessions d')
     \<and> d' = d\<lparr>db_atproto_sessions := update_where P (\<lambda>r. (f r)\<lparr>as_updated_at := now\<rparr>) (db_atproto_sessions d)\<rparr>
     \<and> q = map_option (\<lambda>r. (f r)\<lparr>as_updated_at := now\<rparr>) (fetch_optional P (db_atproto_sessions d))"
  by (auto simp: update_sessions_def Let_def)

lemma create_par_cases:
  assumes "create_par now p d = (r, d')"
  shows "(\<exists>e. r = Inl e) \<and> db_atproto_sessions d' = db_atproto_sessions d
    \<or> (\<exists>q. r = Inr q \<and> q = session_row now (db_atproto_sessions_seq d) p
        \<and> db_atproto_sessions d' = db_atproto_sessions d @ [q] \<and> sessions_unique (db_atproto_sessions d'))"
  using assms by (auto simp: create_par_def Let_def split: if_splits)

end
