(* ===== verification/AtprotoOAuth.thy ===== *)
theory AtprotoOAuth
  imports AtprotoSessions Sessions
begin

text \<open>
  The OAuth server for AT protocol clients: \<open>api/src/api/http/atproto_oauth.rs\<close> and the metadata of
  \<open>atproto_oauth_metadata.rs\<close>. A client pushes its request with a DPoP proof (\<open>par\<close>), the user opens the
  request URI with a session (\<open>authorize\<close>), and the client turns code and refresh tokens into access
  tokens (\<open>token\<close>), each time with a proof of the same key and, for a confidential client, a signed
  assertion. The two replay caches are process-wide maps. Base64, JSON, P-256, the JWT crate, URLs and
  the HTTP client are parameters; the answers of the network come with each request.
\<close>

section \<open>Requests and documents\<close>

record par_request =
  pr_client_id :: string
  pr_redirect_uri :: string
  pr_scope :: string
  pr_state :: "string option"
  pr_code_challenge :: "string option"
  pr_code_challenge_method :: "string option"
  pr_client_assertion_type :: "string option"
  pr_client_assertion :: "string option"

record par_response =
  pr_request_uri :: string
  pr_expires_in :: int

record at_token_request =
  aq_grant_type :: string
  aq_code :: "string option"
  aq_client_id :: "string option"
  aq_redirect_uri :: "string option"
  aq_code_verifier :: "string option"
  aq_refresh_token :: "string option"
  aq_client_assertion_type :: "string option"
  aq_client_assertion :: "string option"

record at_token_response =
  ar_access_token :: string
  ar_token_type :: string
  ar_expires_in :: int
  ar_refresh_token :: string
  ar_scope :: string
  ar_sub :: string

record dpop_proof_jwk =
  dj_kty :: string
  dj_crv :: string
  dj_x :: string
  dj_y :: string

record dpop_proof_header =
  dh_alg :: string
  dh_typ :: "string option"
  dh_jwk :: dpop_proof_jwk

record dpop_proof_claims =
  dc_htm :: string
  dc_htu :: string
  dc_iat :: int
  dc_jti :: string
  dc_nonce :: "string option"
  dc_ath :: "string option"

record client_jwk =
  cj_kty :: string
  cj_crv :: "string option"
  cj_x :: "string option"
  cj_y :: "string option"
  cj_kid :: "string option"
  cj_alg :: "string option"
  cj_use :: "string option"

record client_metadata =
  cm_client_id :: string
  cm_redirect_uris :: "string list"
  cm_token_endpoint_auth_method :: string
  cm_token_endpoint_auth_signing_alg :: "string option"
  cm_dpop_bound_access_tokens :: "bool option"
  cm_jwks :: "client_jwk list option"
  cm_jwks_uri :: "string option"

record client_assertion_header =
  ah_alg :: string
  ah_kid :: "string option"

record 'j client_assertion_claims =
  ac_iss :: string
  ac_sub :: string
  ac_aud :: 'j
  ac_exp :: int
  ac_iat :: int
  ac_jti :: string

datatype client_auth_binding =
    NoClientAuth
  | PrivateKeyJwt string "string option" string

text \<open>What the access token says: scope, key, subject, audience, issuer, id and lifetime in seconds.\<close>

record at_token_claims =
  tc_scope :: string
  tc_jkt :: string
  tc_subject :: string
  tc_audience :: string
  tc_issuer :: string
  tc_jwt_id :: string
  tc_lifetime :: int

text \<open>A parsed URL.\<close>

record web_link =
  wl_scheme :: string
  wl_host :: "string option"
  wl_port :: "int option"
  wl_path :: string
  wl_query :: "string option"
  wl_fragment :: "string option"

section \<open>Parameters and state\<close>

record 'j at_world =
  at_http :: "'j http_world"
  at_tenants :: tenant_env
  at_app_url :: "string option"
  at_vite_domain :: "string option"
  jwt_key_env :: "string option"
  oauth_pds_did_env :: "string option"
  pds_service_did_env :: "string option"
  hex_bytes :: "string \<Rightarrow> string + bytes"
  es256k_key :: "bytes \<Rightarrow> string + seckey"
  es256k_sign :: "seckey \<Rightarrow> at_token_claims \<Rightarrow> string + string"
  link_parse :: "string \<Rightarrow> string + web_link"
  link_append :: "string \<Rightarrow> (string \<times> string) list \<Rightarrow> string"
  link_encode :: "string \<Rightarrow> string"
  b64url_decode :: "string \<Rightarrow> bytes option"
  b64url_sha256 :: "string \<Rightarrow> string"
  refresh_hash :: "string \<Rightarrow> string"
  dpop_header_json :: "bytes \<Rightarrow> dpop_proof_header option"
  dpop_claims_json :: "bytes \<Rightarrow> dpop_proof_claims option"
  assertion_header_json :: "bytes \<Rightarrow> client_assertion_header option"
  assertion_claims_json :: "bytes \<Rightarrow> 'j client_assertion_claims option"
  metadata_json :: "'j \<Rightarrow> string + client_metadata"
  jwks_json :: "'j \<Rightarrow> string + client_jwk list"
  p256_point :: "bytes \<Rightarrow> bool"
  p256_signature :: "bytes \<Rightarrow> bool"
  p256_verify :: "bytes \<Rightarrow> string \<Rightarrow> bytes \<Rightarrow> bool"
  value_str :: "'j \<Rightarrow> string option"
  value_array :: "'j \<Rightarrow> 'j list option"
  value_text :: "'j \<Rightarrow> string"
  status_text :: "nat \<Rightarrow> string"

text \<open>
  What a request draws: the random tokens, whether the HTTP client can be built, and what a GET
  brings: an error, or a status and the body as JSON.
\<close>

record 'j at_draws =
  rd_request :: string
  rd_nonce :: string
  rd_code :: string
  rd_jti :: string
  rd_refresh :: string
  rd_client :: "string + unit"
  rd_get :: "web_link \<Rightarrow> string + nat \<times> (string + 'j)"

type_synonym replay_cache = "string \<Rightarrow> int option"

record 'j at_state =
  at_db :: "'j db"
  at_tenant_table :: "tenant table"
  at_dpop_seen :: replay_cache
  at_assertions_seen :: replay_cache

definition bad :: "string \<Rightarrow> account_error + 'a" where
  "bad message = Inl (AcBadRequest message)"

text \<open>\<open>Utc::now().timestamp()\<close>.\<close>

definition unix_seconds :: "timestamp \<Rightarrow> int" where
  "unix_seconds now = now div 1000000"

definition PAR_EXPIRY_MINUTES :: int where "PAR_EXPIRY_MINUTES = 10"
definition AUTH_CODE_EXPIRY_MINUTES :: int where "AUTH_CODE_EXPIRY_MINUTES = 5"
definition ACCESS_TOKEN_EXPIRY_MINUTES :: int where "ACCESS_TOKEN_EXPIRY_MINUTES = 15"
definition AT_REFRESH_TOKEN_EXPIRY_DAYS :: int where "AT_REFRESH_TOKEN_EXPIRY_DAYS = 30"
definition DPOP_MAX_IAT_SKEW_SECONDS :: int where "DPOP_MAX_IAT_SKEW_SECONDS = 300"
definition CLIENT_ASSERTION_MAX_EXP_SKEW_SECONDS :: int where "CLIENT_ASSERTION_MAX_EXP_SKEW_SECONDS = 300"

definition CLIENT_ASSERTION_TYPE_JWT_BEARER :: string where
  "CLIENT_ASSERTION_TYPE_JWT_BEARER = ''urn:ietf:params:oauth:client-assertion-type:jwt-bearer''"

definition PAR_PATH_SUFFIX :: string where "PAR_PATH_SUFFIX = ''/atproto/oauth/par''"
definition TOKEN_PATH_SUFFIX :: string where "TOKEN_PATH_SUFFIX = ''/atproto/oauth/token''"

lemmas at_constants =
  PAR_EXPIRY_MINUTES_def AUTH_CODE_EXPIRY_MINUTES_def ACCESS_TOKEN_EXPIRY_MINUTES_def AT_REFRESH_TOKEN_EXPIRY_DAYS_def
  DPOP_MAX_IAT_SKEW_SECONDS_def CLIENT_ASSERTION_MAX_EXP_SKEW_SECONDS_def

section \<open>Origin and metadata\<close>

definition origin_of_link :: "web_link \<Rightarrow> string option" where
  "origin_of_link url =
     map_option (\<lambda>host.
         wl_scheme url @ ''://'' @ host @
         (case wl_port url of
            Some port \<Rightarrow>
              (if wl_scheme url = ''https'' \<and> port = 443 \<or> wl_scheme url = ''http'' \<and> port = 80 then []
               else '':'' @ show_int port)
          | None \<Rightarrow> []))
       (wl_host url)"

definition authorization_server_origin :: "'j at_world \<Rightarrow> string" where
  "authorization_server_origin W =
     (let raw = (case at_app_url W of Some u \<Rightarrow> Some u | None \<Rightarrow> at_vite_domain W)
      in case Option.bind raw (\<lambda>u. Option.bind (ok (link_parse W u)) origin_of_link) of
           Some origin \<Rightarrow> origin
         | None \<Rightarrow> ''http://localhost:3000'')"

definition metadata_endpoint :: "string \<Rightarrow> string \<Rightarrow> string" where
  "metadata_endpoint origin path =
     trim_end_slashes origin @ ''/'' @ dropWhile (\<lambda>c. c = CHR ''/'') path"

record authorization_server_document =
  sd_issuer :: string
  sd_authorization_endpoint :: string
  sd_token_endpoint :: string
  sd_pushed_authorization_request_endpoint :: string
  sd_response_types_supported :: "string list"
  sd_grant_types_supported :: "string list"
  sd_scopes_supported :: "string list"
  sd_token_endpoint_auth_methods_supported :: "string list"
  sd_token_endpoint_auth_signing_alg_values_supported :: "string list"
  sd_code_challenge_methods_supported :: "string list"
  sd_dpop_signing_alg_values_supported :: "string list"
  sd_client_id_metadata_document_supported :: bool
  sd_authorization_response_iss_parameter_supported :: bool
  sd_require_pushed_authorization_requests :: bool

definition authorization_server_metadata :: "'j at_world \<Rightarrow> authorization_server_document" where
  "authorization_server_metadata W =
     (let origin = authorization_server_origin W
      in \<lparr>sd_issuer = origin,
          sd_authorization_endpoint = metadata_endpoint origin ''/api/atproto/oauth/authorize'',
          sd_token_endpoint = metadata_endpoint origin ''/api/atproto/oauth/token'',
          sd_pushed_authorization_request_endpoint = metadata_endpoint origin ''/api/atproto/oauth/par'',
          sd_response_types_supported = [''code''],
          sd_grant_types_supported = [''authorization_code'', ''refresh_token''],
          sd_scopes_supported = [''atproto''],
          sd_token_endpoint_auth_methods_supported = [''none'', ''private_key_jwt''],
          sd_token_endpoint_auth_signing_alg_values_supported = [''ES256''],
          sd_code_challenge_methods_supported = [''S256''],
          sd_dpop_signing_alg_values_supported = [''ES256''],
          sd_client_id_metadata_document_supported = True,
          sd_authorization_response_iss_parameter_supported = True,
          sd_require_pushed_authorization_requests = True\<rparr>)"

section \<open>Tokens and answers\<close>

definition pkce_challenge :: "'j at_world \<Rightarrow> string \<Rightarrow> string" where
  "pkce_challenge W verifier = b64url_sha256 W verifier"

definition redirect_to_login :: "'j at_world \<Rightarrow> string \<Rightarrow> string" where
  "redirect_to_login W request_uri =
     (let path = ''/api/atproto/oauth/authorize?request_uri='' @ link_encode W request_uri
      in ''/login?redirect='' @ link_encode W path)"

definition atproto_jwt_key :: "'j at_world \<Rightarrow> account_error + seckey" where
  "atproto_jwt_key W =
     and_then (ok_or (AcInternal ''ATPROTO_OAUTH_JWT_PRIVATE_KEY_HEX not configured'') (jwt_key_env W)) (\<lambda>key_hex.
     and_then (map_err (\<lambda>e. AcInternal (''Invalid ATPROTO_OAUTH_JWT_PRIVATE_KEY_HEX: '' @ e)) (hex_bytes W key_hex)) (\<lambda>key_bytes.
     map_err (\<lambda>e. AcInternal (''Invalid ATPROTO OAuth signing key: '' @ e)) (es256k_key W key_bytes)))"

definition atproto_pds_did :: "'j at_world \<Rightarrow> account_error + string" where
  "atproto_pds_did W =
     ok_or (AcInternal ''ATPROTO_OAUTH_PDS_DID or PDS_SERVICE_DID must be configured'')
       (case oauth_pds_did_env W of Some did \<Rightarrow> Some did | None \<Rightarrow> pds_service_did_env W)"

definition create_access_token :: "'j at_world \<Rightarrow> string \<Rightarrow> string \<Rightarrow> string \<Rightarrow> account_error + string" where
  "create_access_token W subject_did token_id dpop_jkt =
     and_then (atproto_jwt_key W) (\<lambda>key.
     and_then (atproto_pds_did W) (\<lambda>audience.
     map_err (\<lambda>e. AcInternal (''Failed to sign ATPROTO access token: '' @ e))
       (es256k_sign W key
         \<lparr>tc_scope = ''com.atproto.access'', tc_jkt = dpop_jkt, tc_subject = subject_did, tc_audience = audience,
          tc_issuer = authorization_server_origin W, tc_jwt_id = token_id,
          tc_lifetime = ACCESS_TOKEN_EXPIRY_MINUTES * 60\<rparr>)))"

text \<open>The answer and the value of its \<open>DPoP-Nonce\<close> header.\<close>

definition response_with_dpop_nonce :: "'a \<Rightarrow> string \<Rightarrow> account_error + 'a \<times> string" where
  "response_with_dpop_nonce payload nonce =
     (if list_all visible_ascii nonce then Inr (payload, nonce)
      else Inl (AcInternal ''Invalid DPoP nonce header: failed to parse header value''))"

section \<open>DPoP proofs\<close>

definition quote :: string where "quote = [CHR 0x22]"

definition json_member :: "string \<Rightarrow> string \<Rightarrow> string" where
  "json_member name v = quote @ name @ quote @ '':'' @ quote @ v @ quote"

definition thumbprint_text :: "string \<Rightarrow> string \<Rightarrow> string \<Rightarrow> string \<Rightarrow> string" where
  "thumbprint_text crv kty x y =
     ''{'' @ json_member ''crv'' crv @ '','' @ json_member ''kty'' kty @ '','' @ json_member ''x'' x @ '',''
     @ json_member ''y'' y @ ''}''"

definition dpop_jwk_thumbprint :: "'j at_world \<Rightarrow> dpop_proof_jwk \<Rightarrow> string" where
  "dpop_jwk_thumbprint W jwk = b64url_sha256 W (thumbprint_text (dj_crv jwk) (dj_kty jwk) (dj_x jwk) (dj_y jwk))"

definition dpop_htu_matches_expected :: "'j at_world \<Rightarrow> string \<Rightarrow> string \<Rightarrow> bool" where
  "dpop_htu_matches_expected W htu expected_path_suffix =
     (case link_parse W htu of
        Inr url \<Rightarrow> ends_with (wl_path url) expected_path_suffix
      | Inl _ \<Rightarrow> ends_with htu expected_path_suffix)"

text \<open>The three segments of a proof, decoded, and the text that was signed.\<close>

definition dpop_parts :: "'j at_world \<Rightarrow> parts \<Rightarrow> account_error + dpop_proof_header \<times> dpop_proof_claims \<times> bytes \<times> string" where
  "dpop_parts W rq =
     and_then (ok_or (AcBadRequest ''Missing DPoP proof'') (header_str rq ''dpop'')) (\<lambda>proof_text.
     (case split_on (CHR ''.'') proof_text of
        [s0, s1, s2] \<Rightarrow>
          and_then (ok_or (AcBadRequest ''DPoP proof has invalid JWT header encoding'') (b64url_decode W s0)) (\<lambda>header_bytes.
          and_then (ok_or (AcBadRequest ''DPoP proof has invalid JWT payload encoding'') (b64url_decode W s1)) (\<lambda>claims_bytes.
          and_then (ok_or (AcBadRequest ''DPoP proof has invalid JWT signature encoding'') (b64url_decode W s2)) (\<lambda>signature_bytes.
          and_then (ok_or (AcBadRequest ''DPoP proof header is invalid JSON'') (dpop_header_json W header_bytes)) (\<lambda>header.
          and_then (ok_or (AcBadRequest ''DPoP proof payload is invalid JSON'') (dpop_claims_json W claims_bytes)) (\<lambda>claims.
          Inr (header, claims, signature_bytes, s0 @ ''.'' @ s1))))))
      | _ \<Rightarrow> bad ''DPoP proof must be a compact JWT''))"

definition uncompressed_key :: "bytes \<Rightarrow> bytes \<Rightarrow> bytes" where
  "uncompressed_key x y = 4 # x @ y"

definition dpop_key :: "'j at_world \<Rightarrow> dpop_proof_header \<Rightarrow> account_error + bytes" where
  "dpop_key W header =
     (if dh_alg header \<noteq> ''ES256'' then bad ''DPoP proof must use ES256''
      else if dh_typ header \<noteq> Some ''dpop+jwt'' then bad ''DPoP proof typ must be dpop+jwt''
      else if dj_kty (dh_jwk header) \<noteq> ''EC'' \<or> dj_crv (dh_jwk header) \<noteq> ''P-256''
      then bad ''DPoP proof must carry an EC P-256 JWK''
      else
        and_then (ok_or (AcBadRequest ''Invalid DPoP JWK x coordinate'') (b64url_decode W (dj_x (dh_jwk header)))) (\<lambda>x.
        and_then (ok_or (AcBadRequest ''Invalid DPoP JWK y coordinate'') (b64url_decode W (dj_y (dh_jwk header)))) (\<lambda>y.
          if length x \<noteq> 32 \<or> length y \<noteq> 32 then bad ''DPoP JWK coordinates must be 32 bytes''
          else if \<not> p256_point W (uncompressed_key x y) then bad ''DPoP JWK does not encode a valid P-256 key''
          else Inr (uncompressed_key x y))))"

definition dpop_claims_checked ::
    "'j at_world \<Rightarrow> int \<Rightarrow> dpop_proof_claims \<Rightarrow> string \<Rightarrow> string \<Rightarrow> string option \<Rightarrow> string option \<Rightarrow> account_error + unit" where
  "dpop_claims_checked W secs claims expected_method expected_path_suffix expected_nonce expected_ath =
     (if \<not> eq_ignore_ascii_case (dc_htm claims) expected_method then bad ''DPoP proof htm does not match request''
      else if \<not> dpop_htu_matches_expected W (dc_htu claims) expected_path_suffix
      then bad ''DPoP proof htu does not match endpoint''
      else if dc_iat claims < secs - DPOP_MAX_IAT_SKEW_SECONDS \<or> secs + DPOP_MAX_IAT_SKEW_SECONDS < dc_iat claims
      then bad ''DPoP proof iat is outside the allowed window''
      else if str_trim (dc_jti claims) = [] then bad ''DPoP proof must include a non-empty jti''
      else if (case expected_nonce of Some expected \<Rightarrow> dc_nonce claims \<noteq> Some expected | None \<Rightarrow> False)
      then bad ''DPoP proof nonce is missing or invalid''
      else if (case expected_ath of Some expected \<Rightarrow> dc_ath claims \<noteq> Some expected | None \<Rightarrow> False)
      then bad ''DPoP proof ath does not match access token''
      else Inr ())"

definition dpop_replay_key :: "string \<Rightarrow> string \<Rightarrow> string" where
  "dpop_replay_key jkt jti = jkt @ '':'' @ jti"

text \<open>Everything but the replay: the thumbprint of the key and the id of the proof.\<close>

definition dpop_checked ::
    "'j at_world \<Rightarrow> int \<Rightarrow> parts \<Rightarrow> string \<Rightarrow> string \<Rightarrow> string option \<Rightarrow> string option \<Rightarrow> account_error + string \<times> string" where
  "dpop_checked W secs rq expected_method expected_path_suffix expected_nonce expected_ath =
     and_then (dpop_parts W rq) (\<lambda>(header, claims, signature_bytes, signing_input).
     and_then (dpop_key W header) (\<lambda>key.
       if \<not> p256_signature W signature_bytes then bad ''DPoP proof signature is not valid ES256 format''
       else if \<not> p256_verify W key signing_input signature_bytes then bad ''DPoP proof signature validation failed''
       else and_then (dpop_claims_checked W secs claims expected_method expected_path_suffix expected_nonce expected_ath)
              (\<lambda>_. Inr (dpop_jwk_thumbprint W (dh_jwk header), dc_jti claims))))"

definition validate_dpop_proof ::
    "'j at_world \<Rightarrow> timestamp \<Rightarrow> parts \<Rightarrow> string \<Rightarrow> string \<Rightarrow> string option \<Rightarrow> string option \<Rightarrow> replay_cache
      \<Rightarrow> (account_error + string) \<times> replay_cache" where
  "validate_dpop_proof W now rq expected_method expected_path_suffix expected_nonce expected_ath seen =
     (let secs = unix_seconds now in
      case dpop_checked W secs rq expected_method expected_path_suffix expected_nonce expected_ath of
        Inl e \<Rightarrow> (Inl e, seen)
      | Inr (jkt, jti) \<Rightarrow>
          (if (case seen (dpop_replay_key jkt jti) of
                 Some previous \<Rightarrow> secs - previous < DPOP_MAX_IAT_SKEW_SECONDS
               | None \<Rightarrow> False)
           then (bad ''DPoP proof jti has already been used'', seen)
           else (Inr jkt, seen(dpop_replay_key jkt jti \<mapsto> secs))))"

section \<open>Client metadata\<close>

definition is_loopback_host :: "string \<Rightarrow> bool" where
  "is_loopback_host host \<longleftrightarrow>
     eq_ignore_ascii_case host ''localhost'' \<or> host = ''127.0.0.1'' \<or> host = ''::1'' \<or> host = ''[::1]''"

definition ensure_secure_or_loopback_url :: "web_link \<Rightarrow> string \<Rightarrow> account_error + unit" where
  "ensure_secure_or_loopback_url url label =
     (if wl_scheme url = ''https'' then Inr ()
      else if wl_scheme url = ''http'' \<and> is_loopback_host (case wl_host url of Some h \<Rightarrow> h | None \<Rightarrow> []) then Inr ()
      else bad (label @ '' must use HTTPS outside local development''))"

definition metadata_document_url :: "'j at_world \<Rightarrow> string \<Rightarrow> bool \<Rightarrow> account_error + web_link option" where
  "metadata_document_url W client_id require_document =
     (let no_url = (if require_document
                    then bad ''Confidential clients must use an HTTP(S) client_id metadata URL'' else Inr None)
      in case link_parse W client_id of
           Inl _ \<Rightarrow> no_url
         | Inr url \<Rightarrow>
             (if wl_scheme url \<noteq> ''https'' \<and> wl_scheme url \<noteq> ''http'' then no_url
              else if \<not> require_document \<and> wl_path url = ''/'' \<and> wl_query url = None \<and> wl_fragment url = None
              then Inr None
              else Inr (Some url)))"

definition fetch_json :: "'j at_world \<Rightarrow> 'j at_draws \<Rightarrow> web_link \<Rightarrow> string \<Rightarrow> account_error + 'j" where
  "fetch_json W D url label =
     and_then (ensure_secure_or_loopback_url url label) (\<lambda>_.
     and_then (map_err (\<lambda>e. AcInternal (''Failed to build HTTP client: '' @ e)) (rd_client D)) (\<lambda>_.
     and_then (map_err (\<lambda>e. AcBadRequest (''Failed to fetch '' @ label @ '': '' @ e)) (rd_get D url)) (\<lambda>(status, body).
       if status < 200 \<or> 300 \<le> status then bad (label @ '' returned '' @ status_text W status)
       else map_err (\<lambda>e. AcBadRequest (''Invalid '' @ label @ '' JSON: '' @ e)) body)))"

definition fetch_client_metadata ::
    "'j at_world \<Rightarrow> 'j at_draws \<Rightarrow> string \<Rightarrow> bool \<Rightarrow> account_error + client_metadata option" where
  "fetch_client_metadata W D client_id require_document =
     and_then (metadata_document_url W client_id require_document) (\<lambda>document.
       case document of
         None \<Rightarrow> Inr None
       | Some url \<Rightarrow>
           and_then (fetch_json W D url ''client metadata document'') (\<lambda>raw.
           and_then (map_err (\<lambda>e. AcBadRequest (''Invalid client metadata document: '' @ e)) (metadata_json W raw)) (\<lambda>metadata.
             if cm_client_id metadata \<noteq> client_id then bad ''Client metadata client_id mismatch''
             else Inr (Some metadata))))"

definition validate_metadata_redirect :: "client_metadata \<Rightarrow> string \<Rightarrow> account_error + unit" where
  "validate_metadata_redirect metadata redirect_uri =
     (if redirect_uri \<in> set (cm_redirect_uris metadata) then Inr ()
      else bad ''redirect_uri is not registered in client metadata'')"

definition load_client_signing_keys :: "'j at_world \<Rightarrow> 'j at_draws \<Rightarrow> client_metadata \<Rightarrow> account_error + client_jwk list" where
  "load_client_signing_keys W D metadata =
     (case (cm_jwks metadata, cm_jwks_uri metadata) of
        (Some _, Some _) \<Rightarrow> bad ''Client metadata must provide either jwks or jwks_uri, not both''
      | (Some keys, None) \<Rightarrow>
          (if keys = [] then bad ''Client metadata jwks must contain at least one key'' else Inr keys)
      | (None, Some jwks_uri) \<Rightarrow>
          and_then (map_err (\<lambda>e. AcBadRequest (''Invalid jwks_uri: '' @ e)) (link_parse W jwks_uri)) (\<lambda>url.
          and_then (fetch_json W D url ''client jwks_uri'') (\<lambda>raw.
          and_then (map_err (\<lambda>e. AcBadRequest (''Invalid JWKS payload: '' @ e)) (jwks_json W raw)) (\<lambda>keys.
            if keys = [] then bad ''Client metadata jwks_uri must resolve to at least one key'' else Inr keys)))
      | (None, None) \<Rightarrow> bad ''private_key_jwt clients must provide jwks or jwks_uri'')"

section \<open>Client assertions\<close>

definition expected_client_assertion_audiences :: "'j at_world \<Rightarrow> string list" where
  "expected_client_assertion_audiences W = [authorization_server_origin W]"

definition compact_jwt_parts :: "'j at_world \<Rightarrow> string \<Rightarrow> account_error + bytes \<times> bytes \<times> bytes \<times> string" where
  "compact_jwt_parts W jwt =
     (case split_on (CHR ''.'') jwt of
        [s0, s1, s2] \<Rightarrow>
          and_then (ok_or (AcBadRequest ''Invalid client_assertion header'') (b64url_decode W s0)) (\<lambda>header.
          and_then (ok_or (AcBadRequest ''Invalid client_assertion payload'') (b64url_decode W s1)) (\<lambda>claims.
          and_then (ok_or (AcBadRequest ''Invalid client_assertion signature'') (b64url_decode W s2)) (\<lambda>signature.
          Inr (header, claims, signature, s0 @ ''.'' @ s1))))
      | _ \<Rightarrow> bad ''client_assertion must be a compact JWT'')"

definition client_jwk_verifying_key :: "'j at_world \<Rightarrow> client_jwk \<Rightarrow> account_error + bytes" where
  "client_jwk_verifying_key W jwk =
     (if cj_kty jwk \<noteq> ''EC'' \<or> cj_crv jwk \<noteq> Some ''P-256'' then bad ''private_key_jwt requires EC P-256 keys''
      else if (case cj_use jwk of Some u \<Rightarrow> u \<noteq> ''sig'' | None \<Rightarrow> False) then bad ''private_key_jwt key use must be sig''
      else if (case cj_alg jwk of Some a \<Rightarrow> a \<noteq> ''ES256'' | None \<Rightarrow> False) then bad ''private_key_jwt key alg must be ES256''
      else
        and_then (ok_or (AcBadRequest ''JWK missing x coordinate'') (cj_x jwk)) (\<lambda>x.
        and_then (ok_or (AcBadRequest ''JWK missing y coordinate'') (cj_y jwk)) (\<lambda>y.
        and_then (ok_or (AcBadRequest ''Invalid JWK x coordinate'') (b64url_decode W x)) (\<lambda>jwk_x.
        and_then (ok_or (AcBadRequest ''Invalid JWK y coordinate'') (b64url_decode W y)) (\<lambda>jwk_y.
          if length jwk_x \<noteq> 32 \<or> length jwk_y \<noteq> 32 then bad ''JWK coordinates must be 32 bytes''
          else if \<not> p256_point W (uncompressed_key jwk_x jwk_y) then bad ''Invalid JWK public key''
          else Inr (uncompressed_key jwk_x jwk_y))))))"

definition client_jwk_thumbprint :: "'j at_world \<Rightarrow> client_jwk \<Rightarrow> account_error + string" where
  "client_jwk_thumbprint W jwk =
     and_then (ok_or (AcBadRequest ''JWK missing x coordinate'') (cj_x jwk)) (\<lambda>x.
     and_then (ok_or (AcBadRequest ''JWK missing y coordinate'') (cj_y jwk)) (\<lambda>y.
     Inr (b64url_sha256 W (thumbprint_text ''P-256'' ''EC'' x y))))"

definition aud_matches_expected :: "'j at_world \<Rightarrow> 'j \<Rightarrow> string list \<Rightarrow> bool" where
  "aud_matches_expected W aud expected =
     (case value_str W aud of
        Some v \<Rightarrow> v \<in> set expected
      | None \<Rightarrow>
          (case value_array W aud of
             Some vs \<Rightarrow> list_ex (\<lambda>v. case value_str W v of Some claim \<Rightarrow> claim \<in> set expected | None \<Rightarrow> False) vs
           | None \<Rightarrow> False))"

definition validate_private_key_jwt_metadata :: "client_metadata \<Rightarrow> account_error + unit" where
  "validate_private_key_jwt_metadata metadata =
     (if cm_token_endpoint_auth_signing_alg metadata \<noteq> Some ''ES256''
      then bad ''private_key_jwt clients must publish token_endpoint_auth_signing_alg=ES256''
      else if cm_dpop_bound_access_tokens metadata \<noteq> Some True
      then bad ''private_key_jwt clients must publish dpop_bound_access_tokens=true''
      else Inr ())"

definition assertion_field :: "string option \<Rightarrow> string \<Rightarrow> account_error + string" where
  "assertion_field v name = ok_or (AcBadRequest (''Missing '' @ name)) v"

definition unexpected_client_assertion :: "string option \<Rightarrow> string option \<Rightarrow> account_error + unit" where
  "unexpected_client_assertion assertion_type assertion =
     (if is_set assertion_type \<or> is_set assertion then bad ''client_assertion is not allowed for public clients''
      else Inr ())"

text \<open>Everything before the signature: the header, the claims, the signature and the signed text.\<close>

definition assertion_checked ::
    "'j at_world \<Rightarrow> int \<Rightarrow> string \<Rightarrow> string option \<Rightarrow> string option \<Rightarrow> string list
      \<Rightarrow> account_error + client_assertion_header \<times> 'j client_assertion_claims \<times> bytes \<times> string" where
  "assertion_checked W secs client_id assertion_type assertion expected_audiences =
     and_then (assertion_field assertion_type ''client_assertion_type'') (\<lambda>ty.
       if ty \<noteq> CLIENT_ASSERTION_TYPE_JWT_BEARER then bad ''Unsupported client_assertion_type''
       else
     and_then (assertion_field assertion ''client_assertion'') (\<lambda>jwt.
     and_then (compact_jwt_parts W jwt) (\<lambda>(header_bytes, claims_bytes, signature_bytes, signing_input).
     and_then (ok_or (AcBadRequest ''client_assertion header is invalid JSON'') (assertion_header_json W header_bytes)) (\<lambda>header.
       if ah_alg header \<noteq> ''ES256'' then bad ''client_assertion must use ES256''
       else
     and_then (ok_or (AcBadRequest ''client_assertion payload is invalid JSON'') (assertion_claims_json W claims_bytes)) (\<lambda>claims.
       if ac_iss claims \<noteq> client_id \<or> ac_sub claims \<noteq> client_id
       then bad ''client_assertion must set iss and sub to client_id''
       else if \<not> aud_matches_expected W (ac_aud claims) expected_audiences
       then bad (''client_assertion aud does not match authorization server issuer (got '' @ value_text W (ac_aud claims)
                 @ '', expected one of '' @ str_join '', '' expected_audiences @ '')'')
       else if ac_exp claims \<le> secs then bad ''client_assertion is expired''
       else if secs + CLIENT_ASSERTION_MAX_EXP_SKEW_SECONDS < ac_exp claims
       then bad ''client_assertion exp is too far in the future''
       else if ac_iat claims < secs - CLIENT_ASSERTION_MAX_EXP_SKEW_SECONDS \<or> secs + DPOP_MAX_IAT_SKEW_SECONDS < ac_iat claims
       then bad ''client_assertion iat is outside the allowed window''
       else if str_trim (ac_jti claims) = [] then bad ''client_assertion must include a non-empty jti''
       else if \<not> p256_signature W signature_bytes then bad ''client_assertion signature has invalid format''
       else Inr (header, claims, signature_bytes, signing_input))))))"

definition key_candidates :: "string option \<Rightarrow> client_jwk list \<Rightarrow> client_jwk list" where
  "key_candidates kid keys = (case kid of Some k \<Rightarrow> filter (\<lambda>key. cj_kid key = Some k) keys | None \<Rightarrow> keys)"

text \<open>The loop over the candidates: the first key that verifies the signature, unusable keys skipped.\<close>

fun signing_key :: "'j at_world \<Rightarrow> string \<Rightarrow> bytes \<Rightarrow> client_jwk list \<Rightarrow> client_jwk option" where
  "signing_key W signing_input signature_bytes [] = None"
| "signing_key W signing_input signature_bytes (key # keys) =
     (case client_jwk_verifying_key W key of
        Inl _ \<Rightarrow> signing_key W signing_input signature_bytes keys
      | Inr k \<Rightarrow>
          (if p256_verify W k signing_input signature_bytes then Some key
           else signing_key W signing_input signature_bytes keys))"

text \<open>Everything but the replay: the header, the claims and the thumbprint of the key.\<close>

definition assertion_verified ::
    "'j at_world \<Rightarrow> int \<Rightarrow> string \<Rightarrow> string option \<Rightarrow> string option \<Rightarrow> string list \<Rightarrow> client_jwk list \<Rightarrow> string option
      \<Rightarrow> account_error + client_assertion_header \<times> 'j client_assertion_claims \<times> string" where
  "assertion_verified W secs client_id assertion_type assertion expected_audiences signing_keys expected_jkt =
     and_then (assertion_checked W secs client_id assertion_type assertion expected_audiences)
       (\<lambda>(header, claims, signature_bytes, signing_input).
         let candidates = key_candidates (ah_kid header) signing_keys in
         if candidates = [] then bad ''No matching client signing key found''
         else case signing_key W signing_input signature_bytes candidates of
           None \<Rightarrow> bad ''client_assertion signature validation failed''
         | Some key \<Rightarrow>
             and_then (client_jwk_thumbprint W key) (\<lambda>key_jkt.
               if (case expected_jkt of Some expected \<Rightarrow> key_jkt \<noteq> expected | None \<Rightarrow> False)
               then bad ''client_assertion key does not match PAR binding''
               else Inr (header, claims, key_jkt)))"

definition verify_client_assertion ::
    "'j at_world \<Rightarrow> timestamp \<Rightarrow> string \<Rightarrow> string option \<Rightarrow> string option \<Rightarrow> string list \<Rightarrow> client_jwk list \<Rightarrow> string option
      \<Rightarrow> replay_cache \<Rightarrow> (account_error + client_auth_binding) \<times> replay_cache" where
  "verify_client_assertion W now client_id assertion_type assertion expected_audiences signing_keys expected_jkt seen =
     (let secs = unix_seconds now in
      case assertion_verified W secs client_id assertion_type assertion expected_audiences signing_keys expected_jkt of
        Inl e \<Rightarrow> (Inl e, seen)
      | Inr (header, claims, key_jkt) \<Rightarrow>
          (let replay_key = client_id @ '':'' @ ac_jti claims
           in if (case seen replay_key of Some previous_exp \<Rightarrow> secs \<le> previous_exp | None \<Rightarrow> False)
              then (bad ''client_assertion jti has already been used'', seen)
              else (Inr (PrivateKeyJwt (ah_alg header) (ah_kid header) key_jkt), seen(replay_key \<mapsto> ac_exp claims))))"

definition validate_par_client_binding ::
    "'j at_world \<Rightarrow> timestamp \<Rightarrow> 'j at_draws \<Rightarrow> par_request \<Rightarrow> replay_cache
      \<Rightarrow> (account_error + client_auth_binding) \<times> replay_cache" where
  "validate_par_client_binding W now D q seen =
     (let require_metadata = (is_set (pr_client_assertion_type q) \<or> is_set (pr_client_assertion q));
          public = and_then (unexpected_client_assertion (pr_client_assertion_type q) (pr_client_assertion q))
                     (\<lambda>_. Inr NoClientAuth)
      in case fetch_client_metadata W D (pr_client_id q) require_metadata of
           Inl e \<Rightarrow> (Inl e, seen)
         | Inr None \<Rightarrow> (public, seen)
         | Inr (Some metadata) \<Rightarrow>
             (case validate_metadata_redirect metadata (pr_redirect_uri q) of
                Inl e \<Rightarrow> (Inl e, seen)
              | Inr _ \<Rightarrow>
                  (if cm_token_endpoint_auth_method metadata = ''none'' then (public, seen)
                   else if cm_token_endpoint_auth_method metadata = ''private_key_jwt'' then
                     (case and_then (validate_private_key_jwt_metadata metadata) (\<lambda>_. load_client_signing_keys W D metadata) of
                        Inl e \<Rightarrow> (Inl e, seen)
                      | Inr keys \<Rightarrow>
                          verify_client_assertion W now (pr_client_id q) (pr_client_assertion_type q) (pr_client_assertion q)
                            (expected_client_assertion_audiences W) keys None seen)
                   else (bad ''Unsupported token_endpoint_auth_method in client metadata'', seen))))"

definition session_binding :: "atproto_session \<Rightarrow> account_error + client_auth_binding" where
  "session_binding session =
     and_then (ok_or (AcBadRequest ''Confidential session missing bound client auth alg'') (as_client_auth_alg session)) (\<lambda>alg.
     and_then (ok_or (AcBadRequest ''Confidential session missing bound client auth key'') (as_client_auth_jkt session)) (\<lambda>jkt.
     Inr (PrivateKeyJwt alg (as_client_auth_kid session) jkt)))"

definition enforce_session_client_binding ::
    "'j at_world \<Rightarrow> timestamp \<Rightarrow> 'j at_draws \<Rightarrow> atproto_session \<Rightarrow> string option \<Rightarrow> string option \<Rightarrow> replay_cache
      \<Rightarrow> (account_error + unit) \<times> replay_cache" where
  "enforce_session_client_binding W now D session assertion_type assertion seen =
     (if as_client_auth_method session = ''none'' then (unexpected_client_assertion assertion_type assertion, seen)
      else if as_client_auth_method session = ''private_key_jwt'' then
        (case and_then (fetch_client_metadata W D (as_client_id session) True) (\<lambda>found.
              and_then (ok_or (AcBadRequest ''Confidential client metadata document must be reachable'') found) (\<lambda>metadata.
              and_then (validate_metadata_redirect metadata (as_redirect_uri session)) (\<lambda>_.
                if cm_token_endpoint_auth_method metadata \<noteq> ''private_key_jwt''
                then bad ''Client metadata auth method changed after PAR''
                else and_then (validate_private_key_jwt_metadata metadata) (\<lambda>_. load_client_signing_keys W D metadata)))) of
           Inl e \<Rightarrow> (Inl e, seen)
         | Inr keys \<Rightarrow>
             (case verify_client_assertion W now (as_client_id session) assertion_type assertion
                     (expected_client_assertion_audiences W) keys (as_client_auth_jkt session) seen of
                (r, seen1) \<Rightarrow>
                  (and_then r (\<lambda>binding.
                   and_then (session_binding session) (\<lambda>expected_binding.
                     if binding \<noteq> expected_binding then bad ''client_assertion key does not match PAR binding''
                     else Inr ())), seen1)))
      else (bad ''Unsupported session client auth binding'', seen))"

section \<open>Users and tenants\<close>

definition ready_atproto_identity :: "int \<Rightarrow> pubkey \<Rightarrow> 'j db \<Rightarrow> string option" where
  "ready_atproto_identity tenant_id user_pubkey d =
     Option.bind
       (fetch_optional (\<lambda>u. us_tenant_id u = tenant_id \<and> us_pubkey u = user_pubkey \<and> us_atproto_enabled u
            \<and> us_atproto_state u = Some ''ready'' \<and> is_set (us_atproto_did u)) (db_users d))
       us_atproto_did"

definition at_request_domain :: "'j at_world \<Rightarrow> parts \<Rightarrow> account_error + string" where
  "at_request_domain W rq =
     (case Option.bind (header_str rq ''host'')
             (\<lambda>host. let name = hd (split_on (CHR '':'') host) in if name = [] then None else Some name) of
        Some domain \<Rightarrow> Inr domain
      | None \<Rightarrow>
          ok_or (AcInternal ''Failed to determine request tenant'')
            (Option.bind (ok (link_parse W (authorization_server_origin W))) wl_host))"

fun at_tenant_error :: "tenant_error \<Rightarrow> account_error" where
  "at_tenant_error (TenantDatabase m) = AcDatabase m"
| "at_tenant_error (InvalidDomain m) = AcBadRequest m"
| "at_tenant_error (ValidationFailed m) = AcBadRequest m"

text \<open>A tenant that is created becomes a row that sessions may refer to.\<close>

definition put_tenant :: "tenant table \<Rightarrow> tenant \<Rightarrow> 'j at_state \<Rightarrow> 'j at_state" where
  "put_tenant t q s =
     s\<lparr>at_tenant_table := t,
       at_db := (if tn_id q \<in> set (db_tenants (at_db s)) then at_db s
                 else (at_db s)\<lparr>db_tenants := db_tenants (at_db s) @ [tn_id q]\<rparr>)\<rparr>"

definition request_tenant_id ::
    "'j at_world \<Rightarrow> timestamp \<Rightarrow> parts \<Rightarrow> 'j at_state \<Rightarrow> (account_error + int) option \<times> 'j at_state" where
  "request_tenant_id W now rq s =
     (case at_request_domain W rq of
        Inl e \<Rightarrow> (Some (Inl e), s)
      | Inr domain \<Rightarrow>
          (case get_or_create_tenant (at_tenants W) now domain (at_tenant_table s) of
             (None, t) \<Rightarrow> (None, s\<lparr>at_tenant_table := t\<rparr>)
           | (Some (Inl e), t) \<Rightarrow> (Some (Inl (at_tenant_error e)), s\<lparr>at_tenant_table := t\<rparr>)
           | (Some (Inr q), t) \<Rightarrow> (Some (Inr (tn_id q)), put_tenant t q s)))"

section \<open>Pushed requests\<close>

definition pushed_session ::
    "timestamp \<Rightarrow> 'j at_draws \<Rightarrow> par_request \<Rightarrow> int \<Rightarrow> string \<Rightarrow> client_auth_binding \<Rightarrow> create_session_params" where
  "pushed_session now D q tenant_id dpop_jkt binding =
     \<lparr>cs_tenant_id = tenant_id, cs_client_id = pr_client_id q, cs_redirect_uri = pr_redirect_uri q,
      cs_scope = pr_scope q, cs_state = pr_state q, cs_code_challenge = pr_code_challenge q,
      cs_code_challenge_method = pr_code_challenge_method q,
      cs_request_uri = ''urn:ietf:params:oauth:request_uri:'' @ rd_request D,
      cs_par_expires_at = now + minutes PAR_EXPIRY_MINUTES, cs_dpop_jkt = Some dpop_jkt,
      cs_dpop_nonce = Some (rd_nonce D),
      cs_client_auth_method = (case binding of NoClientAuth \<Rightarrow> ''none'' | PrivateKeyJwt _ _ _ \<Rightarrow> ''private_key_jwt''),
      cs_client_auth_alg = (case binding of NoClientAuth \<Rightarrow> None | PrivateKeyJwt alg _ _ \<Rightarrow> Some alg),
      cs_client_auth_kid = (case binding of NoClientAuth \<Rightarrow> None | PrivateKeyJwt _ kid _ \<Rightarrow> kid),
      cs_client_auth_jkt = (case binding of NoClientAuth \<Rightarrow> None | PrivateKeyJwt _ _ jkt \<Rightarrow> Some jkt)\<rparr>"

definition par ::
    "'j at_world \<Rightarrow> timestamp \<Rightarrow> 'j at_draws \<Rightarrow> parts \<Rightarrow> par_request \<Rightarrow> 'j at_state
      \<Rightarrow> (account_error + par_response \<times> string) option \<times> 'j at_state" where
  "par W now D rq q s =
     (if str_trim (pr_scope q) \<noteq> ''atproto''
      then (Some (bad ''ATProto PAR requests must request the atproto scope''), s)
      else case validate_dpop_proof W now rq ''POST'' PAR_PATH_SUFFIX None None (at_dpop_seen s) of
        (Inl e, seen) \<Rightarrow> (Some (Inl e), s\<lparr>at_dpop_seen := seen\<rparr>)
      | (Inr dpop_jkt, seen) \<Rightarrow>
          (case validate_par_client_binding W now D q (at_assertions_seen s) of
             (Inl e, used) \<Rightarrow> (Some (Inl e), s\<lparr>at_dpop_seen := seen, at_assertions_seen := used\<rparr>)
           | (Inr binding, used) \<Rightarrow>
               (case request_tenant_id W now rq (s\<lparr>at_dpop_seen := seen, at_assertions_seen := used\<rparr>) of
                  (None, s1) \<Rightarrow> (None, s1)
                | (Some (Inl e), s1) \<Rightarrow> (Some (Inl e), s1)
                | (Some (Inr tenant_id), s1) \<Rightarrow>
                    (let p = pushed_session now D q tenant_id dpop_jkt binding
                     in case create_par now p (at_db s1) of
                          (Inl e, d) \<Rightarrow> (Some (Inl (account_error_of e)), s1\<lparr>at_db := d\<rparr>)
                        | (Inr _, d) \<Rightarrow>
                            (Some (response_with_dpop_nonce
                               \<lparr>pr_request_uri = cs_request_uri p, pr_expires_in = PAR_EXPIRY_MINUTES * 60\<rparr> (rd_nonce D)),
                             s1\<lparr>at_db := d\<rparr>)))))"

section \<open>The user's approval\<close>

text \<open>A statement on the sessions whose answer must name a row.\<close>

definition on_session ::
    "string \<Rightarrow> repository_error + 'a option \<times> 'j db \<Rightarrow> 'j at_state \<Rightarrow> (account_error + 'a) \<times> 'j at_state" where
  "on_session none r s =
     (case r of
        Inl e \<Rightarrow> (Inl (account_error_of e), s)
      | Inr (None, d) \<Rightarrow> (bad none, s\<lparr>at_db := d\<rparr>)
      | Inr (Some x, d) \<Rightarrow> (Inr x, s\<lparr>at_db := d\<rparr>))"

definition code_redirect :: "'j at_world \<Rightarrow> atproto_session \<Rightarrow> string \<Rightarrow> account_error + string" where
  "code_redirect W session code =
     and_then (map_err (\<lambda>e. AcBadRequest (''Invalid redirect_uri: '' @ e)) (link_parse W (as_redirect_uri session))) (\<lambda>_.
     Inr (link_append W (as_redirect_uri session)
       ((''code'', code) # (case as_state session of Some st \<Rightarrow> [(''state'', st)] | None \<Rightarrow> [])
        @ [(''iss'', authorization_server_origin W)])))"

definition approve_session ::
    "'j at_world \<Rightarrow> timestamp \<Rightarrow> 'j at_draws \<Rightarrow> string \<Rightarrow> atproto_session \<Rightarrow> pubkey \<Rightarrow> string \<Rightarrow> 'j at_state
      \<Rightarrow> (account_error + string) \<times> 'j at_state" where
  "approve_session W now D request_uri session user_pubkey user_did s =
     (case on_session ''Unknown or revoked request_uri'' (approve_request now request_uri user_pubkey user_did (at_db s)) s of
        (Inl e, s1) \<Rightarrow> (Inl e, s1)
      | (Inr _, s1) \<Rightarrow>
          (case on_session ''Unknown or revoked request_uri''
                  (store_authorization_code now request_uri (rd_code D) (now + minutes AUTH_CODE_EXPIRY_MINUTES) (at_db s1)) s1 of
             (Inl e, s2) \<Rightarrow> (Inl e, s2)
           | (Inr _, s2) \<Rightarrow> (code_redirect W session (rd_code D), s2)))"

definition at_authorize ::
    "'j at_world \<Rightarrow> timestamp \<Rightarrow> 'j at_draws \<Rightarrow> parts \<Rightarrow> string \<Rightarrow> 'j at_state
      \<Rightarrow> (account_error + string) \<times> 'j at_state" where
  "at_authorize W now D rq request_uri s =
     (case session_find_by_request_uri request_uri (at_db s) of
        None \<Rightarrow> (bad ''Unknown request_uri'', s)
      | Some session \<Rightarrow>
          (if as_par_expires_at session \<le> now then (bad ''Expired request_uri'', s)
           else case extract_user_from_token (at_http W) now rq (as_tenant_id session) of
             Inl AcMissingToken \<Rightarrow> (Inr (redirect_to_login W request_uri), s)
           | Inl AcInvalidToken \<Rightarrow> (Inr (redirect_to_login W request_uri), s)
           | Inl e \<Rightarrow> (Inl e, s)
           | Inr user_pubkey \<Rightarrow>
               (case ready_atproto_identity (as_tenant_id session) user_pubkey (at_db s) of
                  None \<Rightarrow>
                    (Inl (AcForbidden ''ATProto account link must be ready before approving external app login''), s)
                | Some user_did \<Rightarrow> approve_session W now D request_uri session user_pubkey user_did s)))"

section \<open>Tokens\<close>

definition issued_tokens ::
    "'j at_world \<Rightarrow> timestamp \<Rightarrow> 'j at_draws \<Rightarrow> string \<Rightarrow> timestamp \<Rightarrow> string \<Rightarrow> issue_tokens_params" where
  "issued_tokens W now D code code_expires_at jkt =
     \<lparr>it_authorization_code = code, it_authorization_code_expires_at = code_expires_at,
      it_access_token_jti = rd_jti D, it_access_token_expires_at = now + minutes ACCESS_TOKEN_EXPIRY_MINUTES,
      it_refresh_token_hash = refresh_hash W (rd_refresh D),
      it_refresh_token_expires_at = now + days AT_REFRESH_TOKEN_EXPIRY_DAYS,
      it_dpop_jkt = Some jkt, it_dpop_nonce = Some (rd_nonce D)\<rparr>"

definition token_answer ::
    "'j at_draws \<Rightarrow> string \<Rightarrow> string \<Rightarrow> account_error + at_token_response \<times> string" where
  "token_answer D access_token did =
     response_with_dpop_nonce
       \<lparr>ar_access_token = access_token, ar_token_type = ''DPoP'', ar_expires_in = ACCESS_TOKEN_EXPIRY_MINUTES * 60,
        ar_refresh_token = rd_refresh D, ar_scope = ''atproto'', ar_sub = did\<rparr> (rd_nonce D)"

text \<open>The proof of the key the session is bound to.\<close>

definition session_proof ::
    "'j at_world \<Rightarrow> timestamp \<Rightarrow> parts \<Rightarrow> string \<Rightarrow> string \<Rightarrow> atproto_session \<Rightarrow> 'j at_state
      \<Rightarrow> (account_error + string) \<times> 'j at_state" where
  "session_proof W now rq no_nonce not_bound session s =
     (case as_dpop_nonce session of
        None \<Rightarrow> (bad no_nonce, s)
      | Some nonce \<Rightarrow>
          (case validate_dpop_proof W now rq ''POST'' TOKEN_PATH_SUFFIX (Some nonce) None (at_dpop_seen s) of
             (r, seen) \<Rightarrow>
               (and_then r (\<lambda>proof_jkt.
                and_then (ok_or (AcBadRequest not_bound) (as_dpop_jkt session)) (\<lambda>expected_jkt.
                  if proof_jkt \<noteq> expected_jkt then bad ''DPoP proof key does not match the session binding''
                  else Inr proof_jkt)), s\<lparr>at_dpop_seen := seen\<rparr>)))"

definition code_fields :: "at_token_request \<Rightarrow> account_error + string \<times> string \<times> string \<times> string" where
  "code_fields q =
     and_then (ok_or (AcBadRequest ''Missing authorization code'') (aq_code q)) (\<lambda>code.
     and_then (ok_or (AcBadRequest ''Missing client_id'') (aq_client_id q)) (\<lambda>client_id.
     and_then (ok_or (AcBadRequest ''Missing redirect_uri'') (aq_redirect_uri q)) (\<lambda>redirect_uri.
     and_then (ok_or (AcBadRequest ''Missing code_verifier'') (aq_code_verifier q)) (\<lambda>code_verifier.
     Inr (code, client_id, redirect_uri, code_verifier)))))"

definition code_session ::
    "timestamp \<Rightarrow> string \<Rightarrow> string \<Rightarrow> string \<Rightarrow> 'j db \<Rightarrow> account_error + atproto_session" where
  "code_session now code client_id redirect_uri d =
     and_then (ok_or (AcBadRequest ''Unknown or expired authorization code'') (find_by_authorization_code now code d)) (\<lambda>session.
       if as_client_id session \<noteq> client_id \<or> as_redirect_uri session \<noteq> redirect_uri
       then bad ''Authorization code client binding mismatch'' else Inr session)"

definition pkce_checked :: "'j at_world \<Rightarrow> atproto_session \<Rightarrow> string \<Rightarrow> account_error + unit" where
  "pkce_checked W session code_verifier =
     (if as_code_challenge_method session \<noteq> Some ''S256'' then bad ''ATProto OAuth requires S256 PKCE''
      else if as_code_challenge session \<noteq> Some (pkce_challenge W code_verifier) then bad ''Invalid PKCE verifier''
      else Inr ())"

text \<open>\<open>let _ = ...\<close>: an error of the revocation is dropped.\<close>

definition ignore_result :: "repository_error + 'a \<times> 'j db \<Rightarrow> 'j at_state \<Rightarrow> 'j at_state" where
  "ignore_result r s = (case r of Inl _ \<Rightarrow> s | Inr (_, d) \<Rightarrow> s\<lparr>at_db := d\<rparr>)"

definition finish_code ::
    "'j at_world \<Rightarrow> timestamp \<Rightarrow> 'j at_draws \<Rightarrow> string \<Rightarrow> atproto_session \<Rightarrow> string \<Rightarrow> 'j at_state
      \<Rightarrow> (account_error + at_token_response \<times> string) \<times> 'j at_state" where
  "finish_code W now D code session proof_jkt s =
     (case on_session ''Unknown or expired authorization code'' (consume_authorization_code now code (at_db s)) s of
        (Inl e, s1) \<Rightarrow> (Inl e, s1)
      | (Inr _, s1) \<Rightarrow>
          (case and_then (ok_or (AcBadRequest ''Authorization code is not bound to a ready ATProto DID'') (as_atproto_did session))
                  (\<lambda>did. and_then (create_access_token W did (rd_jti D) proof_jkt) (\<lambda>access_token. Inr (did, access_token))) of
             Inl e \<Rightarrow> (Inl e, s1)
           | Inr (did, access_token) \<Rightarrow>
               (case store_token_artifacts now (as_request_uri session) (issued_tokens W now D code now proof_jkt) (at_db s1) of
                  Inl e \<Rightarrow> (Inl (account_error_of e), s1)
                | Inr (_, d) \<Rightarrow> (token_answer D access_token did, s1\<lparr>at_db := d\<rparr>))))"

definition code_exchange ::
    "'j at_world \<Rightarrow> timestamp \<Rightarrow> 'j at_draws \<Rightarrow> parts \<Rightarrow> at_token_request \<Rightarrow> string \<Rightarrow> string \<Rightarrow> atproto_session \<Rightarrow> 'j at_state
      \<Rightarrow> (account_error + at_token_response \<times> string) \<times> 'j at_state" where
  "code_exchange W now D rq q code code_verifier session s =
     (case enforce_session_client_binding W now D session (aq_client_assertion_type q) (aq_client_assertion q)
             (at_assertions_seen s) of
        (Inl e, used) \<Rightarrow>
          (Inl e, ignore_result (revoke_session now (as_request_uri session) (at_db s)) (s\<lparr>at_assertions_seen := used\<rparr>))
      | (Inr _, used) \<Rightarrow>
          (let s1 = s\<lparr>at_assertions_seen := used\<rparr>
           in case pkce_checked W session code_verifier of
                Inl e \<Rightarrow> (Inl e, s1)
              | Inr _ \<Rightarrow>
                  (case session_proof W now rq ''Missing DPoP nonce for authorization code''
                          ''Authorization code session is not DPoP-bound'' session s1 of
                     (Inl e, s2) \<Rightarrow> (Inl e, s2)
                   | (Inr proof_jkt, s2) \<Rightarrow> finish_code W now D code session proof_jkt s2)))"

definition token_by_code ::
    "'j at_world \<Rightarrow> timestamp \<Rightarrow> 'j at_draws \<Rightarrow> parts \<Rightarrow> at_token_request \<Rightarrow> 'j at_state
      \<Rightarrow> (account_error + at_token_response \<times> string) \<times> 'j at_state" where
  "token_by_code W now D rq q s =
     (case and_then (code_fields q) (\<lambda>(code, client_id, redirect_uri, code_verifier).
           and_then (code_session now code client_id redirect_uri (at_db s)) (\<lambda>session. Inr (code, code_verifier, session))) of
        Inl e \<Rightarrow> (Inl e, s)
      | Inr (code, code_verifier, session) \<Rightarrow> code_exchange W now D rq q code code_verifier session s)"

definition finish_refresh ::
    "'j at_world \<Rightarrow> timestamp \<Rightarrow> 'j at_draws \<Rightarrow> string \<Rightarrow> atproto_session \<Rightarrow> string \<Rightarrow> 'j at_state
      \<Rightarrow> (account_error + at_token_response \<times> string) \<times> 'j at_state" where
  "finish_refresh W now D hash session proof_jkt s =
     (case and_then (ok_or (AcBadRequest ''Refresh token is not bound to a ready ATProto DID'') (as_atproto_did session))
             (\<lambda>did. and_then (create_access_token W did (rd_jti D) proof_jkt) (\<lambda>access_token. Inr (did, access_token))) of
        Inl e \<Rightarrow> (Inl e, s)
      | Inr (did, access_token) \<Rightarrow>
          (case on_session ''Invalid or expired refresh token''
                  (rotate_refresh_token now (as_request_uri session) hash
                    (issued_tokens W now D (case as_authorization_code session of Some c \<Rightarrow> c | None \<Rightarrow> [])
                      (case as_authorization_code_expires_at session of Some e \<Rightarrow> e | None \<Rightarrow> now) proof_jkt) (at_db s)) s of
             (Inl e, s1) \<Rightarrow> (Inl e, s1)
           | (Inr _, s1) \<Rightarrow> (token_answer D access_token did, s1)))"

definition refresh_session ::
    "'j at_world \<Rightarrow> timestamp \<Rightarrow> at_token_request \<Rightarrow> 'j db \<Rightarrow> account_error + string \<times> atproto_session" where
  "refresh_session W now q d =
     and_then (ok_or (AcBadRequest ''Missing refresh_token'') (aq_refresh_token q)) (\<lambda>refresh_token.
     and_then (ok_or (AcBadRequest ''Missing client_id'') (aq_client_id q)) (\<lambda>client_id.
       let hash = refresh_hash W refresh_token in
     and_then (ok_or (AcBadRequest ''Invalid or expired refresh token'') (find_by_refresh_token_hash now hash d)) (\<lambda>session.
       if as_client_id session \<noteq> client_id then bad ''Refresh token client binding mismatch''
       else Inr (hash, session))))"

definition refresh_exchange ::
    "'j at_world \<Rightarrow> timestamp \<Rightarrow> 'j at_draws \<Rightarrow> parts \<Rightarrow> at_token_request \<Rightarrow> string \<Rightarrow> atproto_session \<Rightarrow> 'j at_state
      \<Rightarrow> (account_error + at_token_response \<times> string) \<times> 'j at_state" where
  "refresh_exchange W now D rq q hash session s =
     (case enforce_session_client_binding W now D session (aq_client_assertion_type q) (aq_client_assertion q)
             (at_assertions_seen s) of
        (Inl e, used) \<Rightarrow>
          (Inl e, ignore_result (revoke_refresh_session now hash (at_db s)) (s\<lparr>at_assertions_seen := used\<rparr>))
      | (Inr _, used) \<Rightarrow>
          (case session_proof W now rq ''Missing DPoP nonce for refresh token''
                  ''Refresh token session is not DPoP-bound'' session (s\<lparr>at_assertions_seen := used\<rparr>) of
             (Inl e, s2) \<Rightarrow> (Inl e, s2)
           | (Inr proof_jkt, s2) \<Rightarrow> finish_refresh W now D hash session proof_jkt s2))"

definition token_by_refresh ::
    "'j at_world \<Rightarrow> timestamp \<Rightarrow> 'j at_draws \<Rightarrow> parts \<Rightarrow> at_token_request \<Rightarrow> 'j at_state
      \<Rightarrow> (account_error + at_token_response \<times> string) \<times> 'j at_state" where
  "token_by_refresh W now D rq q s =
     (case refresh_session W now q (at_db s) of
        Inl e \<Rightarrow> (Inl e, s)
      | Inr (hash, session) \<Rightarrow> refresh_exchange W now D rq q hash session s)"

definition at_token ::
    "'j at_world \<Rightarrow> timestamp \<Rightarrow> 'j at_draws \<Rightarrow> parts \<Rightarrow> at_token_request \<Rightarrow> 'j at_state
      \<Rightarrow> (account_error + at_token_response \<times> string) \<times> 'j at_state" where
  "at_token W now D rq q s =
     (if aq_grant_type q = ''authorization_code'' then token_by_code W now D rq q s
      else if aq_grant_type q = ''refresh_token'' then token_by_refresh W now D rq q s
      else (bad ''Only authorization_code and refresh_token are supported for ATProto token exchange'', s))"

end
