(* ===== verification/AtprotoLink.thy ===== *)
theory AtprotoLink
  imports AtprotoOAuth
begin

text \<open>
  Linking an account to the AT protocol: \<open>api/src/api/http/atproto.rs\<close> and the calls to the
  provisioning service of \<open>api/src/atproto_provisioning.rs\<close>. The user enables and disables the link, the
  service reports its progress with a shared token. What the service answers comes with the request.
\<close>

section \<open>The provisioning service\<close>

record link_world =
  lk_control_plane_env :: "string option"
  lk_handle_domain_env :: "string option"
  lk_service_token_env :: "string option"
  lk_encode :: "string \<Rightarrow> string"
  lk_status_text :: "nat \<Rightarrow> string"

datatype provisioning_error =
    ProvisioningRequest string
  | UnexpectedStatus nat string

definition provisioning_error_text :: "link_world \<Rightarrow> provisioning_error \<Rightarrow> string" where
  "provisioning_error_text L e =
     (case e of
        ProvisioningRequest m \<Rightarrow> ''request failed: '' @ m
      | UnexpectedStatus status body \<Rightarrow> ''provisioning service returned '' @ lk_status_text L status @ '': '' @ body)"

record provisioning_call =
  pc_url :: string
  pc_bearer :: "string option"
  pc_body :: "(string \<times> string) option"

text \<open>The service: no answer, or a status and a body.\<close>

type_synonym service = "provisioning_call \<Rightarrow> string + nat \<times> string"

definition control_plane_base_url :: "link_world \<Rightarrow> string" where
  "control_plane_base_url L = (case lk_control_plane_env L of Some u \<Rightarrow> u | None \<Rightarrow> ''http://127.0.0.1:3201'')"

definition handle_domain :: "link_world \<Rightarrow> string" where
  "handle_domain L = (case lk_handle_domain_env L of Some d \<Rightarrow> d | None \<Rightarrow> ''divine.video'')"

definition service_auth :: "link_world \<Rightarrow> string option" where
  "service_auth L =
     Option.bind (lk_service_token_env L) (\<lambda>t. let trimmed = str_trim t in if trimmed = [] then None else Some trimmed)"

definition call_service :: "service \<Rightarrow> provisioning_call \<Rightarrow> provisioning_error + unit" where
  "call_service service c =
     and_then (map_err ProvisioningRequest (service c)) (\<lambda>(status, body).
       if 200 \<le> status \<and> status < 300 then Inr () else Inl (UnexpectedStatus status body))"

definition request_enable :: "link_world \<Rightarrow> service \<Rightarrow> pubkey \<Rightarrow> string \<Rightarrow> provisioning_error + unit" where
  "request_enable L service nostr_pubkey username =
     call_service service
       \<lparr>pc_url = trim_end_slashes (control_plane_base_url L) @ ''/api/account-links/opt-in'',
        pc_bearer = service_auth L,
        pc_body = Some (nostr_pubkey, map to_ascii_lower (str_trim username) @ ''.'' @ handle_domain L)\<rparr>"

definition request_disable :: "link_world \<Rightarrow> service \<Rightarrow> pubkey \<Rightarrow> provisioning_error + unit" where
  "request_disable L service nostr_pubkey =
     call_service service
       \<lparr>pc_url = trim_end_slashes (control_plane_base_url L) @ ''/api/account-links/'' @ lk_encode L nostr_pubkey @ ''/disable'',
        pc_bearer = service_auth L, pc_body = None\<rparr>"

section \<open>The state of the link\<close>

datatype link_error =
    LinkUserNotFound
  | LinkUsernameNotClaimed
  | LinkUsernameMismatch
  | LinkProvisioning string
  | LinkRepository repository_error

record atproto_status_response =
  sr_enabled :: bool
  sr_state :: "string option"
  sr_did :: "string option"
  sr_error :: "string option"
  sr_username :: "string option"

definition map_state_to_response :: "string option \<Rightarrow> user_atproto_state \<Rightarrow> atproto_status_response" where
  "map_state_to_response username state =
     \<lparr>sr_enabled = ua_enabled state, sr_state = ua_state state, sr_did = ua_did state, sr_error = ua_error state,
      sr_username = username\<rparr>"

definition validate_atproto_state :: "string option \<Rightarrow> account_error + unit" where
  "validate_atproto_state state =
     (case state of
        None \<Rightarrow> Inr ()
      | Some v \<Rightarrow>
          (if v \<in> set [''pending'', ''ready'', ''failed'', ''disabled''] then Inr ()
           else bad ''ATProto state must be one of pending, ready, failed, disabled, or null''))"

definition authorize_internal_sync :: "link_world \<Rightarrow> parts \<Rightarrow> account_error + unit" where
  "authorize_internal_sync L rq =
     and_then (ok_or (AcInternal ''KEYCAST_ATPROTO_TOKEN must be configured'') (service_auth L)) (\<lambda>expected.
     and_then (ok_or AcMissingToken (header_str rq ''authorization'')) (\<lambda>actual.
       if actual \<noteq> ''Bearer '' @ expected then Inl AcInvalidToken else Inr ()))"

text \<open>The claimed name of the user, and the answer once the state is written.\<close>

definition link_username :: "pubkey \<Rightarrow> int \<Rightarrow> 'j db \<Rightarrow> link_error + string option" where
  "link_username user_pubkey tenant_id d = ok_or LinkUserNotFound (get_username user_pubkey tenant_id d)"

definition link_status :: "string option \<Rightarrow> user_atproto_state option \<Rightarrow> link_error + atproto_status_response" where
  "link_status username state =
     and_then (ok_or LinkUserNotFound state) (\<lambda>st. Inr (map_state_to_response username st))"

definition enable_user_atproto ::
    "timestamp \<Rightarrow> int \<Rightarrow> pubkey \<Rightarrow> string \<Rightarrow> 'j db \<Rightarrow> (link_error + atproto_status_response) \<times> 'j db" where
  "enable_user_atproto now tenant_id user_pubkey requested_username d =
     (case and_then (link_username user_pubkey tenant_id d) (\<lambda>username.
           and_then (ok_or LinkUsernameNotClaimed username) (\<lambda>claimed.
             if claimed \<noteq> requested_username then Inl LinkUsernameMismatch
             else and_then (map_err LinkRepository (set_atproto_state now user_pubkey tenant_id True (Some ''pending'') None None d))
                    (\<lambda>d1. Inr (claimed, d1)))) of
        Inl e \<Rightarrow> (Inl e, d)
      | Inr (claimed, d1) \<Rightarrow> (link_status (Some claimed) (get_atproto_state user_pubkey tenant_id d1), d1))"

definition enable_user_atproto_with_trigger ::
    "link_world \<Rightarrow> service \<Rightarrow> timestamp \<Rightarrow> int \<Rightarrow> pubkey \<Rightarrow> string \<Rightarrow> 'j db
      \<Rightarrow> (link_error + atproto_status_response) \<times> 'j db" where
  "enable_user_atproto_with_trigger L service now tenant_id user_pubkey requested_username d =
     (case enable_user_atproto now tenant_id user_pubkey requested_username d of
        (Inl e, d1) \<Rightarrow> (Inl e, d1)
      | (Inr response, d1) \<Rightarrow>
          (case sr_username response of
             None \<Rightarrow> (Inl LinkUsernameNotClaimed, d1)
           | Some username \<Rightarrow>
               (case request_enable L service user_pubkey username of
                  Inr _ \<Rightarrow> (Inr response, d1)
                | Inl e \<Rightarrow>
                    (let message = provisioning_error_text L e
                     in case set_atproto_state now user_pubkey tenant_id True (Some ''failed'') None (Some message) d1 of
                          Inl re \<Rightarrow> (Inl (LinkRepository re), d1)
                        | Inr d2 \<Rightarrow> (Inl (LinkProvisioning message), d2)))))"

definition get_user_atproto_status :: "int \<Rightarrow> pubkey \<Rightarrow> 'j db \<Rightarrow> link_error + atproto_status_response" where
  "get_user_atproto_status tenant_id user_pubkey d =
     and_then (link_username user_pubkey tenant_id d) (\<lambda>username.
     link_status username (get_atproto_state user_pubkey tenant_id d))"

definition sync_user_atproto_state_by_pubkey ::
    "timestamp \<Rightarrow> pubkey \<Rightarrow> bool \<Rightarrow> string option \<Rightarrow> string option \<Rightarrow> string option \<Rightarrow> 'j db
      \<Rightarrow> (link_error + atproto_status_response) \<times> 'j db" where
  "sync_user_atproto_state_by_pubkey now user_pubkey enabled state did error d =
     (case set_atproto_state_by_pubkey now user_pubkey enabled state did error d of
        Inl e \<Rightarrow> (Inl (LinkRepository e), d)
      | Inr d1 \<Rightarrow>
          (and_then (ok_or LinkUserNotFound (get_username_by_pubkey user_pubkey d1)) (\<lambda>username.
           link_status username (get_atproto_state_by_pubkey user_pubkey d1)), d1))"

definition disable_user_atproto ::
    "timestamp \<Rightarrow> int \<Rightarrow> pubkey \<Rightarrow> 'j db \<Rightarrow> (link_error + atproto_status_response) \<times> 'j db" where
  "disable_user_atproto now tenant_id user_pubkey d =
     (case and_then (link_username user_pubkey tenant_id d) (\<lambda>username.
           and_then (map_err LinkRepository (set_atproto_state now user_pubkey tenant_id False (Some ''disabled'') None None d))
             (\<lambda>d1. Inr (username, d1))) of
        Inl e \<Rightarrow> (Inl e, d)
      | Inr (username, d1) \<Rightarrow> (link_status username (get_atproto_state user_pubkey tenant_id d1), d1))"

definition disable_user_atproto_and_revoke_sessions ::
    "timestamp \<Rightarrow> int \<Rightarrow> pubkey \<Rightarrow> 'j db \<Rightarrow> (link_error + atproto_status_response) \<times> 'j db" where
  "disable_user_atproto_and_revoke_sessions now tenant_id user_pubkey d =
     (case disable_user_atproto now tenant_id user_pubkey d of
        (Inl e, d1) \<Rightarrow> (Inl e, d1)
      | (Inr response, d1) \<Rightarrow>
          (case revoke_sessions_for_pubkey now user_pubkey d1 of
             Inl e \<Rightarrow> (Inl (LinkRepository e), d1)
           | Inr (_, d2) \<Rightarrow> (Inr response, d2)))"

definition disable_user_atproto_with_trigger ::
    "link_world \<Rightarrow> service \<Rightarrow> timestamp \<Rightarrow> int \<Rightarrow> pubkey \<Rightarrow> 'j db \<Rightarrow> (link_error + atproto_status_response) \<times> 'j db" where
  "disable_user_atproto_with_trigger L service now tenant_id user_pubkey d =
     (case and_then (link_username user_pubkey tenant_id d) (\<lambda>_.
           map_err (\<lambda>e. LinkProvisioning (provisioning_error_text L e)) (request_disable L service user_pubkey)) of
        Inl e \<Rightarrow> (Inl e, d)
      | Inr _ \<Rightarrow> disable_user_atproto_and_revoke_sessions now tenant_id user_pubkey d)"

fun map_control_error :: "link_error \<Rightarrow> account_error" where
  "map_control_error LinkUserNotFound = AcUserNotFound"
| "map_control_error LinkUsernameNotClaimed = AcBadRequest ''Username must be claimed before enabling ATProto''"
| "map_control_error LinkUsernameMismatch = AcBadRequest ''Requested username does not match the claimed username''"
| "map_control_error (LinkProvisioning e) = AcInternal e"
| "map_control_error (LinkRepository e) = AcInternal (repository_error_text e)"

section \<open>The endpoints\<close>

text \<open>A handler of the link on the database of the server.\<close>

definition on_link ::
    "account_error + pubkey \<Rightarrow> (pubkey \<Rightarrow> 'j db \<Rightarrow> (link_error + 'a) \<times> 'j db) \<Rightarrow> 'j db \<Rightarrow> (account_error + 'a) \<times> 'j db" where
  "on_link user f d =
     (case user of
        Inl e \<Rightarrow> (Inl e, d)
      | Inr user_pubkey \<Rightarrow> (case f user_pubkey d of (r, d1) \<Rightarrow> (map_err map_control_error r, d1)))"

definition enable_atproto ::
    "'j http_world \<Rightarrow> link_world \<Rightarrow> service \<Rightarrow> timestamp \<Rightarrow> tenant \<Rightarrow> parts \<Rightarrow> string \<Rightarrow> 'j db
      \<Rightarrow> (account_error + atproto_status_response) \<times> 'j db" where
  "enable_atproto X L service now tn rq username =
     on_link (extract_user_from_token X now rq (tn_id tn))
       (\<lambda>user_pubkey. enable_user_atproto_with_trigger L service now (tn_id tn) user_pubkey username)"

definition atproto_status ::
    "'j http_world \<Rightarrow> timestamp \<Rightarrow> tenant \<Rightarrow> parts \<Rightarrow> 'j db \<Rightarrow> account_error + atproto_status_response" where
  "atproto_status X now tn rq d =
     and_then (extract_user_from_token X now rq (tn_id tn)) (\<lambda>user_pubkey.
     map_err map_control_error (get_user_atproto_status (tn_id tn) user_pubkey d))"

record internal_sync_request =
  is_nostr_pubkey :: pubkey
  is_enabled :: bool
  is_state :: "string option"
  is_did :: "string option"
  is_error :: "string option"

definition internal_sync_atproto ::
    "link_world \<Rightarrow> timestamp \<Rightarrow> parts \<Rightarrow> internal_sync_request \<Rightarrow> 'j db
      \<Rightarrow> (account_error + atproto_status_response) \<times> 'j db" where
  "internal_sync_atproto L now rq q d =
     (case and_then (authorize_internal_sync L rq) (\<lambda>_. validate_atproto_state (is_state q)) of
        Inl e \<Rightarrow> (Inl e, d)
      | Inr _ \<Rightarrow>
          (case sync_user_atproto_state_by_pubkey now (is_nostr_pubkey q) (is_enabled q) (is_state q) (is_did q) (is_error q) d of
             (Inl e, d1) \<Rightarrow> (Inl (map_control_error e), d1)
           | (Inr response, d1) \<Rightarrow>
               (if \<not> is_enabled q \<or> is_state q = Some ''disabled''
                then (case revoke_sessions_for_pubkey now (is_nostr_pubkey q) d1 of
                        Inl e \<Rightarrow> (Inl (AcInternal (repository_error_text e)), d1)
                      | Inr (_, d2) \<Rightarrow> (Inr response, d2))
                else (Inr response, d1))))"

definition disable_atproto ::
    "'j http_world \<Rightarrow> link_world \<Rightarrow> service \<Rightarrow> timestamp \<Rightarrow> tenant \<Rightarrow> parts \<Rightarrow> 'j db
      \<Rightarrow> (account_error + atproto_status_response) \<times> 'j db" where
  "disable_atproto X L service now tn rq =
     on_link (extract_user_from_token X now rq (tn_id tn))
       (\<lambda>user_pubkey. disable_user_atproto_with_trigger L service now (tn_id tn) user_pubkey)"

end
