(* ===== verification/AtprotoMoves.thy ===== *)
theory AtprotoMoves
  imports Runs AtprotoLink UsersProofs
begin

text \<open>
  One request of the AT interface, whichever it is, as moves of the session rows: every row of the table
  makes one of seven moves, each with what it takes, and a pushed request may add a row. The theorems about
  runs argue from the moves alone.
\<close>

section \<open>Requests and runs\<close>

datatype at_call =
    PushCall par_request
  | AuthorizeCall string
  | TokenCall at_token_request
  | EnableCall tenant string
  | DisableCall tenant
  | SyncCall internal_sync_request
  | AccountCall account_op

record 'j at_turn =
  tr_now :: timestamp
  tr_draws :: "'j at_draws"
  tr_parts :: parts
  tr_service :: service
  tr_call :: at_call

definition put_at_db :: "'j db \<Rightarrow> 'j at_state \<Rightarrow> 'j at_state" where
  "put_at_db d s = s\<lparr>at_db := d\<rparr>"

definition at_serve :: "'j at_world \<Rightarrow> link_world \<Rightarrow> 'j at_turn \<Rightarrow> 'j at_state \<Rightarrow> 'j at_state" where
  "at_serve W L t s =
     (case tr_call t of
        PushCall q \<Rightarrow> snd (par W (tr_now t) (tr_draws t) (tr_parts t) q s)
      | AuthorizeCall uri \<Rightarrow> snd (at_authorize W (tr_now t) (tr_draws t) (tr_parts t) uri s)
      | TokenCall q \<Rightarrow> snd (at_token W (tr_now t) (tr_draws t) (tr_parts t) q s)
      | EnableCall tn name \<Rightarrow> put_at_db (snd (enable_atproto (at_http W) L (tr_service t) (tr_now t) tn (tr_parts t) name (at_db s))) s
      | DisableCall tn \<Rightarrow> put_at_db (snd (disable_atproto (at_http W) L (tr_service t) (tr_now t) tn (tr_parts t) (at_db s))) s
      | SyncCall q \<Rightarrow> put_at_db (snd (internal_sync_atproto L (tr_now t) (tr_parts t) q (at_db s))) s
      | AccountCall op \<Rightarrow> (case account_db_op op (at_db s) of Inr d \<Rightarrow> put_at_db d s | Inl _ \<Rightarrow> s))"

abbreviation sessions :: "'j at_state \<Rightarrow> atproto_session list" where
  "sessions s \<equiv> db_atproto_sessions (at_db s)"

section \<open>What one request does to a session\<close>

text \<open>
  The moves of a session row in one request: a user with a ready account approves it, a code is stored,
  it is revoked, its code is used up, and a holder of the key exchanges a code or a refresh token.
\<close>

definition approves :: "'j at_world \<Rightarrow> 'j at_turn \<Rightarrow> 'j at_state \<Rightarrow> atproto_session \<Rightarrow> pubkey \<Rightarrow> string \<Rightarrow> bool" where
  "approves W t s r user did \<longleftrightarrow>
     tr_call t = AuthorizeCall (as_request_uri r) \<and> \<not> is_set (as_revoked_at r) \<and> tr_now t < as_par_expires_at r
     \<and> extract_user_from_token (at_http W) (tr_now t) (tr_parts t) (as_tenant_id r) = Inr user
     \<and> ready_atproto_identity (as_tenant_id r) user (at_db s) = Some did"

text \<open>The proof of the key of a session, with its current nonce.\<close>

definition proves_key :: "'j at_world \<Rightarrow> 'j at_turn \<Rightarrow> 'j at_state \<Rightarrow> atproto_session \<Rightarrow> string \<Rightarrow> bool" where
  "proves_key W t s r jkt \<longleftrightarrow>
     as_dpop_jkt r = Some jkt
     \<and> (\<exists>nonce. as_dpop_nonce r = Some nonce
         \<and> fst (validate_dpop_proof W (tr_now t) (tr_parts t) ''POST'' TOKEN_PATH_SUFFIX (Some nonce) None (at_dpop_seen s)) = Inr jkt)"

definition bound_client :: "'j at_world \<Rightarrow> 'j at_turn \<Rightarrow> 'j at_state \<Rightarrow> at_token_request \<Rightarrow> atproto_session \<Rightarrow> bool" where
  "bound_client W t s q r \<longleftrightarrow>
     aq_client_id q = Some (as_client_id r)
     \<and> fst (enforce_session_client_binding W (tr_now t) (tr_draws t) r (aq_client_assertion_type q) (aq_client_assertion q)
              (at_assertions_seen s)) = Inr ()"

definition redeems_code :: "'j at_world \<Rightarrow> 'j at_turn \<Rightarrow> 'j at_state \<Rightarrow> atproto_session \<Rightarrow> string \<Rightarrow> string \<Rightarrow> bool" where
  "redeems_code W t s r code jkt \<longleftrightarrow>
     (\<exists>q verifier. tr_call t = TokenCall q \<and> aq_grant_type q = ''authorization_code'' \<and> aq_code q = Some code
        \<and> code_live (tr_now t) code r \<and> aq_redirect_uri q = Some (as_redirect_uri r)
        \<and> aq_code_verifier q = Some verifier \<and> as_code_challenge_method r = Some ''S256''
        \<and> as_code_challenge r = Some (pkce_challenge W verifier)
        \<and> bound_client W t s q r \<and> proves_key W t s r jkt)"

definition redeems_refresh :: "'j at_world \<Rightarrow> 'j at_turn \<Rightarrow> 'j at_state \<Rightarrow> atproto_session \<Rightarrow> string \<Rightarrow> string \<Rightarrow> bool" where
  "redeems_refresh W t s r secret jkt \<longleftrightarrow>
     (\<exists>q. tr_call t = TokenCall q \<and> aq_grant_type q = ''refresh_token'' \<and> aq_refresh_token q = Some secret
        \<and> refresh_live (tr_now t) (refresh_hash W secret) r \<and> bound_client W t s q r \<and> proves_key W t s r jkt)"

inductive row_move :: "'j at_world \<Rightarrow> 'j at_turn \<Rightarrow> 'j at_state \<Rightarrow> atproto_session \<Rightarrow> atproto_session \<Rightarrow> bool"
  for W :: "'j at_world" and t :: "'j at_turn" and s :: "'j at_state" where
  stays: "row_move W t s r r"
| approved: "approves W t s r user did \<Longrightarrow>
    row_move W t s r (r\<lparr>as_user_pubkey := Some user, as_atproto_did := Some did, as_approved_at := Some (tr_now t),
      as_updated_at := tr_now t\<rparr>)"
| coded: "approves W t s r user did \<Longrightarrow>
    row_move W t s r (r\<lparr>as_user_pubkey := Some user, as_atproto_did := Some did, as_approved_at := Some (tr_now t),
      as_authorization_code := Some (rd_code (tr_draws t)),
      as_authorization_code_expires_at := Some (tr_now t + minutes AUTH_CODE_EXPIRY_MINUTES), as_updated_at := tr_now t\<rparr>)"
| revoked: "row_move W t s r ((session_revoked (tr_now t) r)\<lparr>as_updated_at := tr_now t\<rparr>)"
| used_up: "redeems_code W t s r code jkt \<Longrightarrow>
    row_move W t s r (r\<lparr>as_authorization_code := None, as_authorization_code_expires_at := None, as_updated_at := tr_now t\<rparr>)"
| exchanged: "redeems_code W t s r code jkt \<Longrightarrow>
    row_move W t s r (r\<lparr>as_authorization_code := Some code, as_authorization_code_expires_at := Some (tr_now t),
      as_access_token_jti := Some (rd_jti (tr_draws t)),
      as_access_token_expires_at := Some (tr_now t + minutes ACCESS_TOKEN_EXPIRY_MINUTES),
      as_refresh_token_hash := Some (refresh_hash W (rd_refresh (tr_draws t))),
      as_refresh_token_expires_at := Some (tr_now t + days AT_REFRESH_TOKEN_EXPIRY_DAYS),
      as_dpop_jkt := Some jkt, as_dpop_nonce := Some (rd_nonce (tr_draws t)), as_updated_at := tr_now t\<rparr>)"
| rotated: "redeems_refresh W t s r secret jkt \<Longrightarrow>
    row_move W t s r (r\<lparr>as_access_token_jti := Some (rd_jti (tr_draws t)),
      as_access_token_expires_at := Some (tr_now t + minutes ACCESS_TOKEN_EXPIRY_MINUTES),
      as_refresh_token_hash := Some (refresh_hash W (rd_refresh (tr_draws t))),
      as_refresh_token_expires_at := Some (tr_now t + days AT_REFRESH_TOKEN_EXPIRY_DAYS),
      as_dpop_jkt := Some jkt, as_dpop_nonce := Some (rd_nonce (tr_draws t)), as_updated_at := tr_now t\<rparr>)"

text \<open>The row of a pushed request.\<close>

definition pushed :: "'j at_world \<Rightarrow> 'j at_turn \<Rightarrow> 'j at_state \<Rightarrow> atproto_session \<Rightarrow> bool" where
  "pushed W t s n \<longleftrightarrow>
     (\<exists>q i tenant_id jkt binding. tr_call t = PushCall q
        \<and> fst (validate_dpop_proof W (tr_now t) (tr_parts t) ''POST'' PAR_PATH_SUFFIX None None (at_dpop_seen s)) = Inr jkt
        \<and> fst (validate_par_client_binding W (tr_now t) (tr_draws t) q (at_assertions_seen s)) = Inr binding
        \<and> n = session_row (tr_now t) i (pushed_session (tr_now t) (tr_draws t) q tenant_id jkt binding))"

definition sessions_move :: "'j at_world \<Rightarrow> 'j at_turn \<Rightarrow> 'j at_state \<Rightarrow> atproto_session list \<Rightarrow> bool" where
  "sessions_move W t s ss \<longleftrightarrow>
     sessions_unique ss
     \<and> (\<exists>old new. ss = old @ new \<and> list_all2 (row_move W t s) (sessions s) old
          \<and> (new = [] \<or> (\<exists>n. new = [n] \<and> pushed W t s n)))"

lemma movesI: "sessions_unique ss \<Longrightarrow> list_all2 (row_move W t s) (sessions s) ss \<Longrightarrow> sessions_move W t s ss"
  unfolding sessions_move_def by (intro conjI exI [of _ ss] exI [of _ "[]"]) simp_all

lemma moves_refl: "sessions_unique (sessions s) \<Longrightarrow> sessions_move W t s (sessions s)"
  by (rule movesI) (simp_all add: list_all2_same stays)

lemma moves_update:
  assumes "sessions_unique (update_where P f (sessions s))"
    and "\<And>r. r \<in> set (sessions s) \<Longrightarrow> P r \<Longrightarrow> row_move W t s r (f r)"
  shows "sessions_move W t s (update_where P f (sessions s))"
  using assms by (intro movesI) (auto simp: update_where_def list_all2_conv_all_nth intro: stays)

text \<open>Two updates of the same rows in a row.\<close>

lemma update_where_twice:
  assumes "\<And>r. r \<in> set ss \<Longrightarrow> Q (if P r then f r else r) \<longleftrightarrow> P r"
  shows "update_where Q g (update_where P f ss) = update_where P (\<lambda>r. g (f r)) ss"
  using assms by (auto simp: update_where_def)

text \<open>The lookups find the one row they ask for.\<close>

lemma found_by_uri:
  assumes "sessions_unique (db_atproto_sessions d)" and "session_find_by_request_uri uri d = Some session"
    and "r \<in> set (db_atproto_sessions d)"
  shows "session_open uri r \<longleftrightarrow> r = session"
  using assms(2) sessions_unique_keys(1) [OF assms(1) assms(3), of session]
  by (auto simp: session_find_by_request_uri_def session_open_def dest!: fetch_optional_Some)

lemma found_by_code:
  assumes "sessions_unique (db_atproto_sessions d)" and "find_by_authorization_code now code d = Some session"
    and "r \<in> set (db_atproto_sessions d)"
  shows "code_live now code r \<longleftrightarrow> r = session" and "as_request_uri r = as_request_uri session \<longleftrightarrow> r = session"
    and "session_open (as_request_uri session) r \<longleftrightarrow> r = session"
  using assms(2) sessions_unique_keys(1,2) [OF assms(1) assms(3), of session]
  by (auto simp: find_by_authorization_code_def code_live_def session_open_def dest!: fetch_optional_Some)

lemma found_by_refresh:
  assumes "sessions_unique (db_atproto_sessions d)" and "find_by_refresh_token_hash now hash d = Some session"
    and "r \<in> set (db_atproto_sessions d)"
  shows "refresh_live now hash r \<longleftrightarrow> r = session" and "as_refresh_token_hash r = Some hash \<longleftrightarrow> r = session"
  using assms(2) sessions_unique_keys(3) [OF assms(1) assms(3), of session hash]
  by (auto simp: find_by_refresh_token_hash_def refresh_live_def dest!: fetch_optional_Some)

lemma on_session_cases:
  assumes "on_session none r s = (x, s')"
  obtains e where "r = Inl e" "x = Inl (account_error_of e)" "s' = s"
  | d where "r = Inr (None, d)" "x = bad none" "s' = s\<lparr>at_db := d\<rparr>"
  | y d where "r = Inr (Some y, d)" "x = Inr y" "s' = s\<lparr>at_db := d\<rparr>"
  using assms by (auto simp: on_session_def split: sum.splits prod.splits option.splits)

subsection \<open>Approval\<close>

lemma authorize_cases:
  assumes "at_authorize W now D rq uri s = (x, s')"
  obtains "s' = s"
  | session user did where "session_find_by_request_uri uri (at_db s) = Some session" "now < as_par_expires_at session"
      "extract_user_from_token (at_http W) now rq (as_tenant_id session) = Inr user"
      "ready_atproto_identity (as_tenant_id session) user (at_db s) = Some did"
      "approve_session W now D uri session user did s = (x, s')"
  using assms unfolding at_authorize_def
  by (auto split: option.splits if_splits sum.splits account_error.splits)

lemma approve_session_sessions:
  assumes "approve_session W now D uri session user did s = (x, s')"
  defines "f \<equiv> \<lambda>r. r\<lparr>as_user_pubkey := Some user, as_atproto_did := Some did, as_approved_at := Some now, as_updated_at := now\<rparr>"
    and "g \<equiv> \<lambda>r. r\<lparr>as_authorization_code := Some (rd_code D),
               as_authorization_code_expires_at := Some (now + minutes AUTH_CODE_EXPIRY_MINUTES), as_updated_at := now\<rparr>"
  shows "sessions s' = sessions s
    \<or> sessions_unique (sessions s')
      \<and> (sessions s' = update_where (session_open uri) f (sessions s)
         \<or> sessions s' = update_where (session_open uri) (\<lambda>r. g (f r)) (sessions s))"
proof -
  have twice: "update_where (session_open uri) g (update_where (session_open uri) f ss)
      = update_where (session_open uri) (\<lambda>r. g (f r)) ss" for ss
    by (rule update_where_twice) (auto simp: session_open_def f_def)
  show ?thesis
    using assms(1) unfolding approve_session_def
    by (auto simp: approve_request_def store_authorization_code_def update_sessions_Inr twice
        simp flip: f_def g_def elim!: on_session_cases split: prod.splits sum.splits if_splits)
qed

lemma authorize_moves:
  assumes "sessions_unique (sessions s)" and "tr_call t = AuthorizeCall uri"
  shows "sessions_move W t s (sessions (snd (at_authorize W (tr_now t) (tr_draws t) (tr_parts t) uri s)))"
proof -
  obtain x s' where a: "at_authorize W (tr_now t) (tr_draws t) (tr_parts t) uri s = (x, s')" by fastforce
  from a show ?thesis
  proof (cases rule: authorize_cases)
    case 1
    then show ?thesis using a moves_refl [OF assms(1)] by simp
  next
    case (2 session user did)
    have ap: "approves W t s r user did" if "r \<in> set (sessions s)" "session_open uri r" for r
      using that 2 found_by_uri [OF assms(1) 2(1) that(1)] assms(2) by (auto simp: approves_def session_open_def)
    have "sessions_move W t s (sessions s')"
      using approve_session_sessions [OF 2(5)]
      by (auto intro!: moves_refl moves_update assms(1) dest!: ap intro: approved coded)
    then show ?thesis using a by simp
  qed
qed

subsection \<open>Tokens\<close>

lemma code_session_ok:
  "and_then (code_fields q) (\<lambda>(code, client_id, redirect_uri, code_verifier).
     and_then (code_session now code client_id redirect_uri d) (\<lambda>session. Inr (code, code_verifier, session)))
       = Inr (code, verifier, session) \<longleftrightarrow>
     aq_code q = Some code \<and> aq_client_id q = Some (as_client_id session)
     \<and> aq_redirect_uri q = Some (as_redirect_uri session) \<and> aq_code_verifier q = Some verifier
     \<and> find_by_authorization_code now code d = Some session"
  by (auto simp: code_fields_def code_session_def and_then_Inr_iff bad_def split: if_splits)

lemma refresh_session_ok:
  "refresh_session W now q d = Inr (hash, session) \<longleftrightarrow>
     (\<exists>secret. aq_refresh_token q = Some secret \<and> hash = refresh_hash W secret
        \<and> aq_client_id q = Some (as_client_id session) \<and> find_by_refresh_token_hash now hash d = Some session)"
  by (auto simp: refresh_session_def and_then_Inr_iff Let_def bad_def split: if_splits)

lemma session_proof_ok:
  assumes "session_proof W (tr_now t) (tr_parts t) m n session s = (Inr jkt, s')"
  shows "proves_key W t s session jkt \<and> at_db s' = at_db s \<and> at_assertions_seen s' = at_assertions_seen s"
  using assms
  by (auto simp: session_proof_def proves_key_def and_then_Inr_iff bad_def split: option.splits prod.splits if_splits)

lemma session_proof_frame:
  "session_proof W now rq m n session s = (x, s') \<Longrightarrow> at_db s' = at_db s"
  by (auto simp: session_proof_def split: option.splits prod.splits)

lemma proves_key_frame:
  "at_dpop_seen s' = at_dpop_seen s \<Longrightarrow> proves_key W t s' r jkt \<longleftrightarrow> proves_key W t s r jkt"
  by (simp add: proves_key_def)

lemma code_exchange_cases:
  assumes "code_exchange W now D rq q code verifier session s = (x, s')"
  obtains (refused) e where "x = Inl e" "at_db s' = at_db s"
  | (revoke) e y d where "x = Inl e" "revoke_session now (as_request_uri session) (at_db s) = Inr (y, d)" "at_db s' = d"
  | (go) used jkt s1 where
      "enforce_session_client_binding W now D session (aq_client_assertion_type q) (aq_client_assertion q)
         (at_assertions_seen s) = (Inr (), used)"
      "pkce_checked W session verifier = Inr ()"
      "session_proof W now rq ''Missing DPoP nonce for authorization code''
         ''Authorization code session is not DPoP-bound'' session (s\<lparr>at_assertions_seen := used\<rparr>) = (Inr jkt, s1)"
      "finish_code W now D code session jkt s1 = (x, s')"
proof -
  obtain b used where b: "enforce_session_client_binding W now D session (aq_client_assertion_type q) (aq_client_assertion q)
      (at_assertions_seen s) = (b, used)" by fastforce
  obtain y s1 where y: "session_proof W now rq ''Missing DPoP nonce for authorization code''
      ''Authorization code session is not DPoP-bound'' session (s\<lparr>at_assertions_seen := used\<rparr>) = (y, s1)" by fastforce
  note f = session_proof_frame [OF y]
  show thesis
  proof (cases b)
    case (Inl e)
    then show thesis
      using assms b by (auto simp: code_exchange_def ignore_result_def intro: refused revoke split: sum.splits prod.splits)
  next
    case (Inr u)
    then show thesis
      using assms b y f
      by (cases "pkce_checked W session verifier"; cases y) (auto simp: code_exchange_def intro: refused go)
  qed
qed

text \<open>What is behind an exchange of a code that comes as far as the code.\<close>

lemma by_code_cases:
  assumes "token_by_code W (tr_now t) (tr_draws t) (tr_parts t) q s = (x, s')"
    and "tr_call t = TokenCall q" "aq_grant_type q = ''authorization_code''"
  obtains (refused) e where "x = Inl e" "at_db s' = at_db s"
  | (revoke) e session d y code where "x = Inl e" "find_by_authorization_code (tr_now t) code (at_db s) = Some session"
      "revoke_session (tr_now t) (as_request_uri session) (at_db s) = Inr (y, d)" "at_db s' = d"
  | (go) code session jkt s1 where "find_by_authorization_code (tr_now t) code (at_db s) = Some session"
      "redeems_code W t s session code jkt" "at_db s1 = at_db s"
      "finish_code W (tr_now t) (tr_draws t) code session jkt s1 = (x, s')"
proof (cases "and_then (code_fields q) (\<lambda>(code, client_id, redirect_uri, code_verifier).
     and_then (code_session (tr_now t) code client_id redirect_uri (at_db s)) (\<lambda>session. Inr (code, code_verifier, session)))")
  case (Inl e)
  then show thesis using assms(1) by (intro refused) (auto simp: token_by_code_def)
next
  case (Inr c)
  obtain code verifier session where c: "c = (code, verifier, session)" by (cases c)
  note ok = Inr [unfolded c code_session_ok]
  have "code_exchange W (tr_now t) (tr_draws t) (tr_parts t) q code verifier session s = (x, s')"
    using assms(1) Inr c by (simp add: token_by_code_def)
  then show thesis
  proof (cases rule: code_exchange_cases)
    case refused
    then show thesis by (rule that(1))
  next
    case revoke
    then show thesis using ok by (intro that(2)) auto
  next
    case (go used jkt s1)
    have "code_live (tr_now t) code session"
      using ok by (auto simp: find_by_authorization_code_def dest: fetch_optional_Some)
    then have "redeems_code W t s session code jkt"
      unfolding redeems_code_def bound_client_def
      using ok go assms(2,3) session_proof_ok [OF go(3)] proves_key_frame [of "s\<lparr>at_assertions_seen := used\<rparr>" s]
      by (auto simp: pkce_checked_def bad_def split: if_splits)
    with go ok session_proof_frame [OF go(3)] show thesis by (intro that(3)) auto
  qed
qed

text \<open>The end of a code exchange: refused as it was, with the code used up, or with the tokens stored.\<close>

lemma finish_code_sessions:
  assumes "finish_code W now D code session jkt s = (x, s')" and "sessions_unique (sessions s)"
    and "find_by_authorization_code now code (at_db s) = Some session"
  defines "f \<equiv> \<lambda>r. r\<lparr>as_authorization_code := None, as_authorization_code_expires_at := None, as_updated_at := now\<rparr>"
    and "g \<equiv> \<lambda>r. r\<lparr>as_authorization_code := Some code, as_authorization_code_expires_at := Some now,
          as_access_token_jti := Some (rd_jti D), as_access_token_expires_at := Some (now + minutes ACCESS_TOKEN_EXPIRY_MINUTES),
          as_refresh_token_hash := Some (refresh_hash W (rd_refresh D)),
          as_refresh_token_expires_at := Some (now + days AT_REFRESH_TOKEN_EXPIRY_DAYS),
          as_dpop_jkt := Some jkt, as_dpop_nonce := Some (rd_nonce D), as_updated_at := now\<rparr>"
  shows "sessions s' = sessions s
    \<or> sessions_unique (sessions s')
      \<and> (sessions s' = update_where (\<lambda>r. r = session) f (sessions s) \<or> sessions s' = update_where (\<lambda>r. r = session) g (sessions s))"
    and "x = Inr p \<Longrightarrow> sessions_unique (sessions s') \<and> sessions s' = update_where (\<lambda>r. r = session) g (sessions s)"
proof -
  let ?ss = "sessions s"
  have one: "update_where (code_live now code) h ?ss = update_where (\<lambda>r. r = session) h ?ss" for h
    using found_by_code(1) [OF assms(2,3)] by (simp add: update_where_def cong: map_cong)
  have twice: "update_where (session_open (as_request_uri session)) g (update_where (\<lambda>r. r = session) f ?ss)
      = update_where (\<lambda>r. r = session) (\<lambda>r. g (f r)) ?ss"
    using found_by_code(3) [OF assms(2,3)] by (intro update_where_twice) (auto simp: session_open_def f_def)
  have gf: "g (f r) = g r" for r by (simp add: f_def g_def)
  show "sessions s' = sessions s
    \<or> sessions_unique (sessions s')
      \<and> (sessions s' = update_where (\<lambda>r. r = session) f (sessions s) \<or> sessions s' = update_where (\<lambda>r. r = session) g (sessions s))"
    and "x = Inr p \<Longrightarrow> sessions_unique (sessions s') \<and> sessions s' = update_where (\<lambda>r. r = session) g (sessions s)"
    using assms(1) unfolding finish_code_def
    by (auto simp: consume_authorization_code_def store_token_artifacts_def issued_tokens_def update_sessions_Inr one twice gf bad_def
        simp flip: f_def g_def elim!: on_session_cases split: prod.splits sum.splits)
qed

lemma by_code_moves:
  assumes "sessions_unique (sessions s)" and "tr_call t = TokenCall q" "aq_grant_type q = ''authorization_code''"
    and "token_by_code W (tr_now t) (tr_draws t) (tr_parts t) q s = (x, s')"
  shows "sessions_move W t s (sessions s')"
  using assms(4,2,3)
proof (cases rule: by_code_cases)
  case refused
  then show ?thesis using moves_refl [OF assms(1)] by simp
next
  case revoke
  then show ?thesis by (auto simp: revoke_session_def update_sessions_Inr intro!: moves_update intro: revoked)
next
  case (go code session jkt s1)
  then show ?thesis
    using finish_code_sessions(1) [OF go(4)] assms(1)
    by (auto intro!: moves_refl moves_update [where s = s] intro: used_up exchanged)
qed

lemma refresh_exchange_cases:
  assumes "refresh_exchange W now D rq q hash session s = (x, s')"
  obtains (refused) e where "x = Inl e" "at_db s' = at_db s"
  | (revoke) e y d where "x = Inl e" "revoke_refresh_session now hash (at_db s) = Inr (y, d)" "at_db s' = d"
  | (go) used jkt s1 where
      "enforce_session_client_binding W now D session (aq_client_assertion_type q) (aq_client_assertion q)
         (at_assertions_seen s) = (Inr (), used)"
      "session_proof W now rq ''Missing DPoP nonce for refresh token''
         ''Refresh token session is not DPoP-bound'' session (s\<lparr>at_assertions_seen := used\<rparr>) = (Inr jkt, s1)"
      "finish_refresh W now D hash session jkt s1 = (x, s')"
proof -
  obtain b used where b: "enforce_session_client_binding W now D session (aq_client_assertion_type q) (aq_client_assertion q)
      (at_assertions_seen s) = (b, used)" by fastforce
  obtain y s1 where y: "session_proof W now rq ''Missing DPoP nonce for refresh token''
      ''Refresh token session is not DPoP-bound'' session (s\<lparr>at_assertions_seen := used\<rparr>) = (y, s1)" by fastforce
  note f = session_proof_frame [OF y]
  show thesis
  proof (cases b)
    case (Inl e)
    then show thesis
      using assms b by (auto simp: refresh_exchange_def ignore_result_def intro: refused revoke split: sum.splits prod.splits)
  next
    case (Inr u)
    then show thesis
      using assms b y f by (cases y) (auto simp: refresh_exchange_def intro: refused go)
  qed
qed

lemma by_refresh_cases:
  assumes "token_by_refresh W (tr_now t) (tr_draws t) (tr_parts t) q s = (x, s')"
    and "tr_call t = TokenCall q" "aq_grant_type q = ''refresh_token''"
  obtains (refused) e where "x = Inl e" "at_db s' = at_db s"
  | (revoke) e d y hash where "x = Inl e" "revoke_refresh_session (tr_now t) hash (at_db s) = Inr (y, d)" "at_db s' = d"
  | (go) secret session jkt s1 where
      "find_by_refresh_token_hash (tr_now t) (refresh_hash W secret) (at_db s) = Some session"
      "redeems_refresh W t s session secret jkt" "at_db s1 = at_db s"
      "finish_refresh W (tr_now t) (tr_draws t) (refresh_hash W secret) session jkt s1 = (x, s')"
proof (cases "refresh_session W (tr_now t) q (at_db s)")
  case (Inl e)
  then show thesis using assms(1) by (intro refused) (auto simp: token_by_refresh_def)
next
  case (Inr c)
  obtain hash session where c: "c = (hash, session)" by (cases c)
  obtain secret where ok: "aq_refresh_token q = Some secret" "hash = refresh_hash W secret"
      "aq_client_id q = Some (as_client_id session)" "find_by_refresh_token_hash (tr_now t) hash (at_db s) = Some session"
    using Inr [unfolded c refresh_session_ok] by blast
  have "refresh_exchange W (tr_now t) (tr_draws t) (tr_parts t) q hash session s = (x, s')"
    using assms(1) Inr c by (simp add: token_by_refresh_def)
  then show thesis
  proof (cases rule: refresh_exchange_cases)
    case refused
    then show thesis by (rule that(1))
  next
    case revoke
    then show thesis by (rule that(2))
  next
    case (go used jkt s1)
    have "refresh_live (tr_now t) hash session"
      using ok(4) by (auto simp: find_by_refresh_token_hash_def dest: fetch_optional_Some)
    then have "redeems_refresh W t s session secret jkt"
      unfolding redeems_refresh_def bound_client_def
      using ok go assms(2,3) session_proof_ok [OF go(2)] proves_key_frame [of "s\<lparr>at_assertions_seen := used\<rparr>" s]
      by auto
    with go ok session_proof_frame [OF go(2)] show thesis by (intro that(3)) auto
  qed
qed

lemma finish_refresh_sessions:
  assumes "finish_refresh W now D hash session jkt s = (x, s')" and "sessions_unique (sessions s)"
    and "find_by_refresh_token_hash now hash (at_db s) = Some session"
  defines "g \<equiv> \<lambda>r. r\<lparr>as_access_token_jti := Some (rd_jti D),
          as_access_token_expires_at := Some (now + minutes ACCESS_TOKEN_EXPIRY_MINUTES),
          as_refresh_token_hash := Some (refresh_hash W (rd_refresh D)),
          as_refresh_token_expires_at := Some (now + days AT_REFRESH_TOKEN_EXPIRY_DAYS),
          as_dpop_jkt := Some jkt, as_dpop_nonce := Some (rd_nonce D), as_updated_at := now\<rparr>"
  shows "sessions s' = sessions s
    \<or> sessions_unique (sessions s') \<and> sessions s' = update_where (\<lambda>r. r = session) g (sessions s)"
    and "x = Inr p \<Longrightarrow> sessions_unique (sessions s') \<and> sessions s' = update_where (\<lambda>r. r = session) g (sessions s)"
proof -
  have one: "update_where (\<lambda>r. as_request_uri r = as_request_uri session \<and> refresh_live now hash r) h (sessions s)
      = update_where (\<lambda>r. r = session) h (sessions s)" for h
    using found_by_refresh(1) [OF assms(2,3)] by (auto simp: update_where_def)
  show "sessions s' = sessions s
    \<or> sessions_unique (sessions s') \<and> sessions s' = update_where (\<lambda>r. r = session) g (sessions s)"
    and "x = Inr p \<Longrightarrow> sessions_unique (sessions s') \<and> sessions s' = update_where (\<lambda>r. r = session) g (sessions s)"
    using assms(1) unfolding finish_refresh_def
    by (auto simp: rotate_refresh_token_def issued_tokens_def update_sessions_Inr one bad_def
        simp flip: g_def elim!: on_session_cases split: prod.splits sum.splits)
qed

text \<open>A refresh token whose revocation is asked for has a hash, so both revocations agree.\<close>

lemma revoke_refresh_same:
  assumes "as_refresh_token_hash r = Some hash" and "\<not> is_set (as_refresh_token_revoked_at r)"
  shows "r\<lparr>as_refresh_token_revoked_at := Some now, as_revoked_at := stamped now (as_revoked_at r), as_updated_at := now\<rparr>
    = (session_revoked now r)\<lparr>as_updated_at := now\<rparr>"
  using assms by (cases "as_refresh_token_revoked_at r") (simp_all add: session_revoked_def stamped_def)

lemma by_refresh_moves:
  assumes "sessions_unique (sessions s)" and "tr_call t = TokenCall q" "aq_grant_type q = ''refresh_token''"
    and "token_by_refresh W (tr_now t) (tr_draws t) (tr_parts t) q s = (x, s')"
  shows "sessions_move W t s (sessions s')"
  using assms(4,2,3)
proof (cases rule: by_refresh_cases)
  case refused
  then show ?thesis using moves_refl [OF assms(1)] by simp
next
  case revoke
  then show ?thesis
    by (auto simp: revoke_refresh_session_def update_sessions_Inr revoke_refresh_same intro!: moves_update intro: revoked)
next
  case (go secret session jkt s1)
  then show ?thesis
    using finish_refresh_sessions(1) [OF go(4)] assms(1)
    by (auto intro!: moves_refl moves_update [where s = s] intro: rotated)
qed

lemma token_moves:
  assumes "sessions_unique (sessions s)" and "tr_call t = TokenCall q"
  shows "sessions_move W t s (sessions (snd (at_token W (tr_now t) (tr_draws t) (tr_parts t) q s)))"
proof -
  obtain x s' where a: "at_token W (tr_now t) (tr_draws t) (tr_parts t) q s = (x, s')" by fastforce
  then show ?thesis
    using by_code_moves [OF assms] by_refresh_moves [OF assms] moves_refl [OF assms(1)]
    by (auto simp: at_token_def split: if_splits)
qed

subsection \<open>Pushing, linking and the rest\<close>

lemma request_tenant_frame:
  "request_tenant_id W now rq s = (x, s') \<Longrightarrow> sessions s' = sessions s"
  by (auto simp: request_tenant_id_def put_tenant_def split: sum.splits prod.splits option.splits)

lemma par_sessions:
  assumes "par W now D rq q s = (x, s')"
  shows "sessions s' = sessions s
    \<or> (\<exists>jkt binding tenant_id i n. sessions_unique (sessions s') \<and> sessions s' = sessions s @ [n]
        \<and> fst (validate_dpop_proof W now rq ''POST'' PAR_PATH_SUFFIX None None (at_dpop_seen s)) = Inr jkt
        \<and> fst (validate_par_client_binding W now D q (at_assertions_seen s)) = Inr binding
        \<and> n = session_row now i (pushed_session now D q tenant_id jkt binding))"
proof -
  obtain a seen where a: "validate_dpop_proof W now rq ''POST'' PAR_PATH_SUFFIX None None (at_dpop_seen s) = (a, seen)" by fastforce
  obtain b used where b: "validate_par_client_binding W now D q (at_assertions_seen s) = (b, used)" by fastforce
  obtain c s1 where c: "request_tenant_id W now rq (s\<lparr>at_dpop_seen := seen, at_assertions_seen := used\<rparr>) = (c, s1)" by fastforce
  have f: "sessions s1 = sessions s" using request_tenant_frame [OF c] by simp
  consider "str_trim (pr_scope q) \<noteq> ''atproto''" | e where "a = Inl e" | e where "b = Inl e" | "c = None" | e where "c = Some (Inl e)"
    | jkt binding tid where "str_trim (pr_scope q) = ''atproto''" "a = Inr jkt" "b = Inr binding" "c = Some (Inr tid)"
    by (cases a; cases b; cases c; cases "the c") auto
  then show ?thesis
  proof cases
    case 6
    obtain y d where y: "create_par now (pushed_session now D q tid jkt binding) (at_db s1) = (y, d)" by fastforce
    have "at_db s' = d" using assms 6 by (auto simp: par_def a b c y Let_def split: sum.splits)
    with create_par_cases [OF y] a b 6 f show ?thesis by auto
  qed (use assms f in \<open>auto simp: par_def a b c split: if_splits sum.splits option.splits\<close>)
qed

lemma par_moves:
  assumes "sessions_unique (sessions s)" and "tr_call t = PushCall q"
  shows "sessions_move W t s (sessions (snd (par W (tr_now t) (tr_draws t) (tr_parts t) q s)))"
proof -
  obtain x s' where a: "par W (tr_now t) (tr_draws t) (tr_parts t) q s = (x, s')" by fastforce
  from par_sessions [OF a] show ?thesis
  proof
    assume "sessions s' = sessions s"
    then show ?thesis using a moves_refl [OF assms(1)] by simp
  next
    assume "\<exists>jkt binding tenant_id i n. sessions_unique (sessions s') \<and> sessions s' = sessions s @ [n]
        \<and> fst (validate_dpop_proof W (tr_now t) (tr_parts t) ''POST'' PAR_PATH_SUFFIX None None (at_dpop_seen s)) = Inr jkt
        \<and> fst (validate_par_client_binding W (tr_now t) (tr_draws t) q (at_assertions_seen s)) = Inr binding
        \<and> n = session_row (tr_now t) i (pushed_session (tr_now t) (tr_draws t) q tenant_id jkt binding)"
    then obtain n where n: "sessions_unique (sessions s')" "sessions s' = sessions s @ [n]" "pushed W t s n"
      using assms(2) unfolding pushed_def by blast
    then show ?thesis
      using a unfolding sessions_move_def
      by (intro conjI exI [of _ "sessions s"] exI [of _ "[n]"]) (auto simp: list_all2_same stays)
  qed
qed

lemma set_atproto_frame:
  "set_atproto_where now P e st did er d = Inr d' \<Longrightarrow> db_atproto_sessions d' = db_atproto_sessions d"
  by (auto simp: set_atproto_where_def update_users_def Let_def and_then_Inr_iff split: if_splits)

lemmas set_state_frames =
  set_atproto_frame [where P = "user_at pubkey tenant_id" for pubkey tenant_id, folded set_atproto_state_def]
  set_atproto_frame [where P = "\<lambda>u. us_pubkey u = pubkey" for pubkey, folded set_atproto_state_by_pubkey_def]

lemma enable_frame:
  "enable_user_atproto now tid pk name d = (x, d') \<Longrightarrow> db_atproto_sessions d' = db_atproto_sessions d"
  by (auto simp: enable_user_atproto_def and_then_Inr_iff dest: set_state_frames split: sum.splits prod.splits if_splits)

lemma enable_atproto_frame:
  "db_atproto_sessions (snd (enable_atproto X L svc now tn rq name d)) = db_atproto_sessions d"
  by (auto simp: enable_atproto_def on_link_def enable_user_atproto_with_trigger_def Let_def
      split: sum.splits prod.splits option.splits) (metis enable_frame set_state_frames(1))+

text \<open>The rows of a user whose sessions are revoked.\<close>

definition revoked_rows :: "timestamp \<Rightarrow> pubkey \<Rightarrow> atproto_session list \<Rightarrow> atproto_session list" where
  "revoked_rows now k ss = update_where (user_session k) (\<lambda>r. (session_revoked now r)\<lparr>as_updated_at := now\<rparr>) ss"

lemma revoke_all_Inr:
  "revoke_sessions_for_pubkey now k d = Inr (n, d') \<Longrightarrow>
     db_atproto_sessions d' = revoked_rows now k (db_atproto_sessions d) \<and> sessions_unique (db_atproto_sessions d')"
  by (auto simp: revoke_sessions_for_pubkey_def update_sessions_Inr and_then_Inr_iff revoked_rows_def)

lemma disable_frame:
  "disable_user_atproto now tid pk d = (x, d') \<Longrightarrow> db_atproto_sessions d' = db_atproto_sessions d"
  by (auto simp: disable_user_atproto_def and_then_Inr_iff dest: set_state_frames split: sum.splits prod.splits)

lemma disable_sessions:
  assumes "disable_atproto X L svc now tn rq d = (x, d')"
  shows "db_atproto_sessions d' = db_atproto_sessions d
    \<or> (\<exists>k. db_atproto_sessions d' = revoked_rows now k (db_atproto_sessions d) \<and> sessions_unique (db_atproto_sessions d'))"
  using assms
  by (auto simp: disable_atproto_def on_link_def disable_user_atproto_with_trigger_def
      disable_user_atproto_and_revoke_sessions_def dest!: disable_frame revoke_all_Inr split: sum.splits prod.splits)

lemma sync_frame:
  "sync_user_atproto_state_by_pubkey now k e st did er d = (x, d') \<Longrightarrow> db_atproto_sessions d' = db_atproto_sessions d"
  by (auto simp: sync_user_atproto_state_by_pubkey_def dest: set_state_frames split: sum.splits)

lemma sync_sessions:
  assumes "internal_sync_atproto L now rq q d = (x, d')"
  shows "db_atproto_sessions d' = db_atproto_sessions d
    \<or> (\<exists>k. db_atproto_sessions d' = revoked_rows now k (db_atproto_sessions d) \<and> sessions_unique (db_atproto_sessions d'))"
  using assms
  by (auto simp: internal_sync_atproto_def dest!: sync_frame revoke_all_Inr split: sum.splits prod.splits if_splits)

lemma link_moves:
  assumes "sessions_unique (sessions s)"
    and "ss = sessions s \<or> (\<exists>k. ss = revoked_rows (tr_now t) k (sessions s) \<and> sessions_unique ss)"
  shows "sessions_move W t s ss"
  using assms moves_refl [OF assms(1)]
  by (auto simp: revoked_rows_def intro!: moves_update intro: revoked)

theorem serve_moves:
  assumes "sessions_unique (sessions s)"
  shows "sessions_move W t s (sessions (at_serve W L t s))"
proof (cases "tr_call t")
  case (PushCall q)
  then show ?thesis using par_moves [OF assms] by (simp add: at_serve_def)
next
  case (AuthorizeCall uri)
  then show ?thesis using authorize_moves [OF assms] by (simp add: at_serve_def)
next
  case (TokenCall q)
  then show ?thesis using token_moves [OF assms] by (simp add: at_serve_def)
next
  case (EnableCall tn name)
  then show ?thesis using moves_refl [OF assms] by (simp add: at_serve_def put_at_db_def enable_atproto_frame)
next
  case (DisableCall tn)
  then show ?thesis by (simp add: at_serve_def put_at_db_def link_moves [OF assms disable_sessions [OF surjective_pairing]])
next
  case (SyncCall q)
  then show ?thesis by (simp add: at_serve_def put_at_db_def link_moves [OF assms sync_sessions [OF surjective_pairing]])
next
  case (AccountCall op)
  have "db_atproto_sessions d = sessions s" if "account_db_op op (at_db s) = Inr d" for d
    using account_db_op_sound [OF that] by (simp add: sound_write_def keeps_references_def)
  then have "sessions (at_serve W L t s) = sessions s"
    using AccountCall by (cases "account_db_op op (at_db s)") (simp_all add: at_serve_def put_at_db_def)
  then show ?thesis using moves_refl [OF assms] by simp
qed

end
