(* ===== verification/AtprotoSamples.thy ===== *)
theory AtprotoSamples
  imports AtprotoMoves
begin

text \<open>
  A small AT server for the examples: two users with ready accounts, one tenant, one client key. A
  session token is the name of its user, a proof is found by its name in a list, a hash is the beginning of the text behind a prefix.
\<close>

definition at_sample_http :: "jv http_world" where
  "at_sample_http =
     \<lparr>hx = X0,
      ucan_parse = (\<lambda>name. Inr \<lparr>uc_issuer = ''did:key:z'' @ name, uc_audience = ''did:key:z'' @ name,
          uc_facts = [JObj [(''tenant_id'', JNum 1), (''redirect_origin'', JStr ''app'')]], uc_payload = []\<rparr>),
      ucan_check_signature = (\<lambda>_. Inr ()), ucan_is_expired = (\<lambda>_ _. False),
      fact_get = (\<lambda>f k. case f of JObj fs \<Rightarrow> map_of fs k | _ \<Rightarrow> None),
      json_i64 = (\<lambda>j. case j of JNum n \<Rightarrow> Some (uint n) | _ \<Rightarrow> None),
      bs58_decode = (\<lambda>s. Inr (0xe7 # 0x01 # map of_char s)),
      pk_from_slice = (\<lambda>bs. Inr (map (\<lambda>w. char_of (unat w)) bs)),
      server_pubkey = Inr ''server'', blake3 = id, event_from_value = (\<lambda>_. Inl ''no event''),
      json_of_string = JStr, json_of_event = (\<lambda>_. Inl ''no event'')\<rparr>"

definition sample_dpop_key :: dpop_proof_header where
  "sample_dpop_key =
     \<lparr>dh_alg = ''ES256'', dh_typ = Some ''dpop+jwt'',
      dh_jwk = \<lparr>dj_kty = ''EC'', dj_crv = ''P-256'', dj_x = replicate 32 (CHR ''x''), dj_y = replicate 32 (CHR ''y'')\<rparr>\<rparr>"

definition sample_claims :: "string \<Rightarrow> int \<Rightarrow> string \<Rightarrow> string option \<Rightarrow> dpop_proof_claims" where
  "sample_claims path iat jti nonce =
     \<lparr>dc_htm = ''POST'', dc_htu = path, dc_iat = iat, dc_jti = jti, dc_nonce = nonce, dc_ath = None\<rparr>"

definition sample_proofs :: "(string \<times> dpop_proof_claims) list" where
  "sample_proofs =
     [(''push'', sample_claims ''/atproto/oauth/par'' 1000 ''j1'' None),
      (''push2'', sample_claims ''/atproto/oauth/par'' 1000 ''j2'' None),
      (''exchange'', sample_claims ''/atproto/oauth/token'' 1020 ''j3'' (Some ''nonce1'')),
      (''exchange2'', sample_claims ''/atproto/oauth/token'' 1020 ''j4'' (Some ''nonce2'')),
      (''refresh'', sample_claims ''/atproto/oauth/token'' 1040 ''j5'' (Some ''nonce3''))]"

definition AT0 :: "jv at_world" where
  "AT0 =
     \<lparr>at_http = at_sample_http,
      at_tenants = \<lparr>allowed_domains_env = None, customer_domain_env = None, relays_env = Some ''wss://r.example'',
                    settings_from_json = (\<lambda>_. None), settings_to_json = (\<lambda>_. Some ''{}'')\<rparr>,
      at_app_url = None, at_vite_domain = None, jwt_key_env = Some ''01'', oauth_pds_did_env = Some ''did:web:pds'',
      pds_service_did_env = None, hex_bytes = (\<lambda>_. Inr [1]), es256k_key = Inr,
      es256k_sign = (\<lambda>_ c. Inr (''for '' @ tc_subject c)),
      link_parse = (\<lambda>u. if take 8 u = ''https://''
          then Inr \<lparr>wl_scheme = ''https'', wl_host = Some (drop 8 u), wl_port = None, wl_path = ''/'', wl_query = None, wl_fragment = None\<rparr>
          else Inl ''relative URL without a base''),
      link_append = (\<lambda>u q. u @ concat (map (\<lambda>(k, v). ''&'' @ k @ ''='' @ v) q)), link_encode = id,
      b64url_decode = (\<lambda>s. Some (if length s = 32 then replicate 32 0 else map of_char s)),
      b64url_sha256 = (\<lambda>s. ''sha:'' @ take 8 s), refresh_hash = (\<lambda>s. ''hash:'' @ s),
      dpop_header_json = (\<lambda>_. Some sample_dpop_key),
      dpop_claims_json = (\<lambda>b. map_of sample_proofs (map (\<lambda>w. char_of (unat w)) b)),
      assertion_header_json = (\<lambda>_. None), assertion_claims_json = (\<lambda>_. None),
      metadata_json = (\<lambda>_. Inl ''no document''), jwks_json = (\<lambda>_. Inl ''no keys''),
      p256_point = (\<lambda>_. True), p256_signature = (\<lambda>_. True), p256_verify = (\<lambda>_ _ _. True),
      value_str = (\<lambda>_. None), value_array = (\<lambda>_. None), value_text = (\<lambda>_. ''json''), status_text = (\<lambda>_. ''status'')\<rparr>"

definition LK0 :: link_world where
  "LK0 = \<lparr>lk_control_plane_env = None, lk_handle_domain_env = None, lk_service_token_env = Some ''shared'',
          lk_encode = id, lk_status_text = (\<lambda>_. ''status'')\<rparr>"

definition ready_user :: "pubkey \<Rightarrow> string \<Rightarrow> user" where
  "ready_user key did =
     (blank_user key 1 5)\<lparr>us_atproto_enabled := True, us_atproto_state := Some ''ready'', us_atproto_did := Some did\<rparr>"

definition at_start :: "jv at_state" where
  "at_start =
     \<lparr>at_db = empty_db\<lparr>db_users := [ready_user ''alice'' ''did:plc:alice'', ready_user ''bob'' ''did:plc:bob'']\<rparr>,
      at_tenant_table = \<lparr>rows = [], seq = 1\<rparr>, at_dpop_seen = Map.empty, at_assertions_seen = Map.empty\<rparr>"

definition at_drawn :: "string \<Rightarrow> jv at_draws" where
  "at_drawn n =
     \<lparr>rd_request = ''request'' @ n, rd_nonce = ''nonce'' @ n, rd_code = ''code'' @ n, rd_jti = ''jti'' @ n,
      rd_refresh = ''refresh'' @ n, rd_client = Inr (), rd_get = (\<lambda>_. Inl ''timed out'')\<rparr>"

definition at_parts :: "string \<Rightarrow> string \<Rightarrow> parts" where
  "at_parts user proof =
     \<lparr>rq_method = ''POST'', rq_path = ''/'', rq_uri_host = None, rq_original = ''/'',
      rq_header = map_of [(''host'', ''localhost''), (''authorization'', ''Bearer '' @ user), (''dpop'', ''head.'' @ proof @ ''.sig'')]\<rparr>"

definition at_turn_of :: "int \<Rightarrow> string \<Rightarrow> string \<Rightarrow> string \<Rightarrow> at_call \<Rightarrow> jv at_turn" where
  "at_turn_of secs n user proof call =
     \<lparr>tr_now = secs * 1000000, tr_draws = at_drawn n, tr_parts = at_parts user proof,
      tr_service = (\<lambda>_. Inr (200, [])), tr_call = call\<rparr>"

definition sample_push :: par_request where
  "sample_push =
     \<lparr>pr_client_id = ''https://app.example'', pr_redirect_uri = ''https://app.example/cb'', pr_scope = ''atproto'',
      pr_state = Some ''st'', pr_code_challenge = Some ''sha:verifier'', pr_code_challenge_method = Some ''S256'',
      pr_client_assertion_type = None, pr_client_assertion = None\<rparr>"

definition sample_exchange :: "string \<Rightarrow> at_token_request" where
  "sample_exchange n =
     \<lparr>aq_grant_type = ''authorization_code'', aq_code = Some (''code'' @ n), aq_client_id = Some ''https://app.example'',
      aq_redirect_uri = Some ''https://app.example/cb'', aq_code_verifier = Some ''verifier'', aq_refresh_token = None,
      aq_client_assertion_type = None, aq_client_assertion = None\<rparr>"

definition at_refresh_request :: at_token_request where
  "at_refresh_request = (sample_exchange [])\<lparr>aq_grant_type := ''refresh_token'', aq_code := None, aq_refresh_token := Some ''refresh3''\<rparr>"

text \<open>The requests of a flow, and an exchange for the other user.\<close>

definition push_turn :: "jv at_turn" where
  "push_turn = at_turn_of 1000 ''1'' [] ''push'' (PushCall sample_push)"

definition approve_turn :: "jv at_turn" where
  "approve_turn = at_turn_of 1010 ''1'' ''alice'' [] (AuthorizeCall ''urn:ietf:params:oauth:request_uri:request1'')"

definition exchange_turn :: "jv at_turn" where
  "exchange_turn = at_turn_of 1020 ''3'' [] ''exchange'' (TokenCall (sample_exchange ''1''))"

definition other_exchange :: "jv at_turn" where
  "other_exchange = at_turn_of 1020 ''4'' [] ''exchange2'' (TokenCall (sample_exchange ''2''))"

definition refresh_turn :: "jv at_turn" where
  "refresh_turn = at_turn_of 1040 ''5'' [] ''refresh'' (TokenCall at_refresh_request)"

definition at_tokens :: "jv at_turn \<Rightarrow> at_token_request \<Rightarrow> jv at_state
    \<Rightarrow> (account_error + at_token_response \<times> string) \<times> jv at_state" where
  "at_tokens t q = at_token AT0 (tr_now t) (tr_draws t) (tr_parts t) q"

definition approved_run :: "jv at_state" where
  "approved_run = fold (at_serve AT0 LK0) [push_turn, approve_turn] at_start"

definition sample_answer :: "string \<Rightarrow> string \<Rightarrow> at_token_response" where
  "sample_answer n did =
     \<lparr>ar_access_token = ''for '' @ did, ar_token_type = ''DPoP'', ar_expires_in = 900, ar_refresh_token = ''refresh'' @ n,
      ar_scope = ''atproto'', ar_sub = did\<rparr>"

lemma sample_first_answer: "fst (at_tokens exchange_turn (sample_exchange ''1'') approved_run) = Inr (sample_answer ''3'' ''did:plc:alice'', ''nonce3'')"
  by code_simp

lemma answered: "fst p = Inr x \<Longrightarrow> p = (Inr x, snd p)" "\<not> isl (fst q) \<Longrightarrow> q = (Inr (projr (fst q)), snd q)"
  by (auto simp: prod_eq_iff)

text \<open>States with rows as the flow leaves them: approved by a user, and with tokens.\<close>

definition rows_state :: "atproto_session list \<Rightarrow> jv at_state" where
  "rows_state ss = put_at_db ((at_db at_start)\<lparr>db_atproto_sessions := ss\<rparr>) at_start"

definition sample_jkt :: string where
  "sample_jkt = dpop_jwk_thumbprint AT0 (dh_jwk sample_dpop_key)"

definition sample_row :: "int \<Rightarrow> string \<Rightarrow> client_auth_binding \<Rightarrow> atproto_session" where
  "sample_row i n binding = session_row 1000000000 i (pushed_session 1000000000 (at_drawn n) sample_push 1 sample_jkt binding)"

definition approved_by_user :: "pubkey \<Rightarrow> string \<Rightarrow> string \<Rightarrow> atproto_session \<Rightarrow> atproto_session" where
  "approved_by_user user did n r =
     r\<lparr>as_user_pubkey := Some user, as_atproto_did := Some did, as_approved_at := Some 1010000000,
       as_authorization_code := Some (''code'' @ n), as_authorization_code_expires_at := Some 1310000000\<rparr>"

definition with_tokens :: "atproto_session \<Rightarrow> atproto_session" where
  "with_tokens r =
     r\<lparr>as_authorization_code_expires_at := Some 1020000000, as_access_token_jti := Some ''jti3'', as_dpop_nonce := Some ''nonce3'',
       as_refresh_token_hash := Some ''hash:refresh3'', as_refresh_token_expires_at := Some 3000000000\<rparr>"

definition approved_state :: "jv at_state" where
  "approved_state = rows_state [approved_by_user ''alice'' ''did:plc:alice'' ''1'' (sample_row 1 ''1'' NoClientAuth)]"

definition both_state :: "jv at_state" where
  "both_state = rows_state [approved_by_user ''alice'' ''did:plc:alice'' ''1'' (sample_row 1 ''1'' NoClientAuth),
     approved_by_user ''bob'' ''did:plc:bob'' ''2'' (sample_row 2 ''2'' NoClientAuth)]"

definition exchanged_row :: atproto_session where
  "exchanged_row = with_tokens (approved_by_user ''alice'' ''did:plc:alice'' ''1'' (sample_row 1 ''1'' NoClientAuth))"

definition confidential_row :: atproto_session where
  "confidential_row = with_tokens (approved_by_user ''alice'' ''did:plc:alice'' ''1''
     (sample_row 1 ''1'' (PrivateKeyJwt ''ES256'' None ''client-key'')))"

text \<open>The first user switches the link off; the second user opens the first user's request.\<close>

definition at_tenant :: tenant where
  "at_tenant = \<lparr>tn_id = 1, tn_domain = ''localhost'', tn_name = [], tn_settings = None, tn_created_at = 0, tn_updated_at = 0\<rparr>"

definition switched_off :: "(account_error + atproto_status_response) \<times> jv db" where
  "switched_off = disable_atproto (at_http AT0) LK0 (\<lambda>_. Inr (200, [])) 1015000000 at_tenant (at_parts ''alice'' []) (at_db both_state)"

definition reopen_turn :: "jv at_turn" where
  "reopen_turn = at_turn_of 1030 ''6'' ''bob'' [] (AuthorizeCall ''urn:ietf:params:oauth:request_uri:request1'')"

definition reopened :: "(account_error + string) \<times> jv at_state" where
  "reopened = at_authorize AT0 (tr_now reopen_turn) (tr_draws reopen_turn) (tr_parts reopen_turn) (as_request_uri exchanged_row)
     (rows_state [exchanged_row])"

lemmas sample_rows = rows_state_def sample_row_def approved_by_user_def with_tokens_def approved_state_def both_state_def exchanged_row_def
  confidential_row_def put_at_db_def at_start_def

end
