(* ===== verification/AtprotoProofs.thy ===== *)
theory AtprotoProofs
  imports AtprotoSamples
begin

text \<open>
  The OAuth server for AT clients over runs of requests: what a token needs, who approved it, which
  credentials work once, how long a proof is remembered, and what the end of a link takes back.
\<close>

section \<open>What a token needs\<close>

lemma token_answer_ok:
  "token_answer D tok did = Inr (resp, nonce) \<Longrightarrow>
     ar_access_token resp = tok \<and> ar_sub resp = did \<and> ar_refresh_token resp = rd_refresh D \<and> nonce = rd_nonce D"
  by (auto simp: token_answer_def response_with_dpop_nonce_def split: if_splits)

lemma finish_code_ok:
  assumes "finish_code W now D code session jkt s = (Inr (resp, nonce), s')"
  shows "as_atproto_did session = Some (ar_sub resp) \<and> create_access_token W (ar_sub resp) (rd_jti D) jkt = Inr (ar_access_token resp)
    \<and> ar_refresh_token resp = rd_refresh D"
  using assms
  by (auto simp: finish_code_def bad_def and_then_Inr_iff dest!: token_answer_ok elim!: on_session_cases
      split: prod.splits sum.splits)

lemma finish_refresh_ok:
  assumes "finish_refresh W now D hash session jkt s = (Inr (resp, nonce), s')"
  shows "as_atproto_did session = Some (ar_sub resp) \<and> create_access_token W (ar_sub resp) (rd_jti D) jkt = Inr (ar_access_token resp)
    \<and> ar_refresh_token resp = rd_refresh D"
  using assms
  by (auto simp: finish_refresh_def bad_def and_then_Inr_iff dest!: token_answer_ok elim!: on_session_cases
      split: prod.splits sum.splits)

text \<open>The session behind a token answer, and the credential it was given for.\<close>

definition grants :: "'j at_world \<Rightarrow> 'j at_turn \<Rightarrow> 'j at_state \<Rightarrow> atproto_session \<Rightarrow> string \<Rightarrow> bool" where
  "grants W t s r jkt \<longleftrightarrow>
     (\<exists>code. redeems_code W t s r code jkt) \<or> (\<exists>secret. redeems_refresh W t s r secret jkt)"

lemma token_granted:
  assumes "at_token W (tr_now t) (tr_draws t) (tr_parts t) q s = (Inr (resp, nonce), s')" and "tr_call t = TokenCall q"
  obtains r jkt where "r \<in> set (sessions s)" "grants W t s r jkt" "as_atproto_did r = Some (ar_sub resp)"
    "create_access_token W (ar_sub resp) (rd_jti (tr_draws t)) jkt = Inr (ar_access_token resp)"
proof -
  consider "aq_grant_type q = ''authorization_code''"
      "token_by_code W (tr_now t) (tr_draws t) (tr_parts t) q s = (Inr (resp, nonce), s')"
    | "aq_grant_type q = ''refresh_token''"
      "token_by_refresh W (tr_now t) (tr_draws t) (tr_parts t) q s = (Inr (resp, nonce), s')"
    using assms(1) by (auto simp: at_token_def bad_def split: if_splits)
  then show thesis
  proof cases
    case 1
    from 1(2) assms(2) 1(1) show thesis
    proof (cases rule: by_code_cases)
      case (go code session jkt s1)
      then show thesis
        using finish_code_ok [OF go(4)] fetch_optional_Some [OF go(1) [unfolded find_by_authorization_code_def]]
        by (intro that [of session jkt]) (auto simp: grants_def)
    qed simp_all
  next
    case 2
    from 2(2) assms(2) 2(1) show thesis
    proof (cases rule: by_refresh_cases)
      case (go secret session jkt s1)
      then show thesis
        using finish_refresh_ok [OF go(4)] fetch_optional_Some [OF go(1) [unfolded find_by_refresh_token_hash_def]]
        by (intro that [of session jkt]) (auto simp: grants_def)
    qed simp_all
  qed
qed

section \<open>Who is behind a session\<close>

lemma list_all2_source: "list_all2 R xs ys \<Longrightarrow> y \<in> set ys \<Longrightarrow> \<exists>x\<in>set xs. R x y"
  by (induction rule: list_all2_induct) auto

lemma move_kept:
  assumes "sessions_move W t s ss" and "r' \<in> set ss"
  obtains r where "r \<in> set (sessions s)" "row_move W t s r r'" | "pushed W t s r'"
  using assms unfolding sessions_move_def by (fastforce dest: list_all2_source)

lemma serve_unique: "sessions_unique (sessions s) \<Longrightarrow> sessions_unique (sessions (at_serve W L t s))"
  using serve_moves by (auto simp: sessions_move_def)

interpretation unique: lasting "at_serve W L" "\<lambda>s. sessions_unique (sessions s)" "\<lambda>_. True" for W L
  by unfold_locales (rule serve_unique)

text \<open>What a row says of itself: its request, tenant, client and redirect never change.\<close>

lemma move_identity:
  "row_move W t s r r' \<Longrightarrow>
     as_request_uri r' = as_request_uri r \<and> as_tenant_id r' = as_tenant_id r \<and> as_client_id r' = as_client_id r
     \<and> as_redirect_uri r' = as_redirect_uri r \<and> as_code_challenge r' = as_code_challenge r \<and> as_dpop_jkt r' = as_dpop_jkt r"
  by (cases rule: row_move.cases)
    (auto simp: session_revoked_def redeems_code_def redeems_refresh_def proves_key_def)

lemma move_owner:
  "row_move W t s r r' \<Longrightarrow> as_atproto_did r' = as_atproto_did r \<and> as_user_pubkey r' = as_user_pubkey r
     \<or> (\<exists>user did. approves W t s r user did \<and> as_user_pubkey r' = Some user \<and> as_atproto_did r' = Some did)"
  by (cases rule: row_move.cases) (auto simp: session_revoked_def)

text \<open>Who approved which request for which account, and which key it was pushed with.\<close>

definition approvals :: "'j at_state \<Rightarrow> (string \<times> pubkey \<times> string) set" where
  "approvals s = {(uri, user, did). \<exists>r\<in>set (sessions s). as_request_uri r = uri \<and> as_user_pubkey r = Some user
                                      \<and> as_atproto_did r = Some did}"

definition approved_by :: "'j at_world \<Rightarrow> 'j at_turn \<Rightarrow> 'j at_state \<Rightarrow> string \<times> pubkey \<times> string \<Rightarrow> bool" where
  "approved_by W t s = (\<lambda>(uri, user, did). \<exists>r\<in>set (sessions s). as_request_uri r = uri \<and> approves W t s r user did)"

definition key_of_request :: "'j at_state \<Rightarrow> (string \<times> string \<times> string) set" where
  "key_of_request s = {(uri, client, jkt). \<exists>r\<in>set (sessions s). as_request_uri r = uri \<and> as_client_id r = client
                                             \<and> as_dpop_jkt r = Some jkt}"

definition pushed_by :: "'j at_world \<Rightarrow> 'j at_turn \<Rightarrow> 'j at_state \<Rightarrow> string \<times> string \<times> string \<Rightarrow> bool" where
  "pushed_by W t s = (\<lambda>(uri, client, jkt).
     \<exists>q. tr_call t = PushCall q \<and> pr_client_id q = client \<and> uri = ''urn:ietf:params:oauth:request_uri:'' @ rd_request (tr_draws t)
       \<and> fst (validate_dpop_proof W (tr_now t) (tr_parts t) ''POST'' PAR_PATH_SUFFIX None None (at_dpop_seen s)) = Inr jkt)"

interpretation approving: earned_store "at_serve W L" "\<lambda>s. sessions_unique (sessions s)" approvals "approved_by W" for W L
proof
  fix s :: "'a at_state" and c t
  assume s: "sessions_unique (sessions s)" and c: "c \<in> approvals (at_serve W L t s)" "c \<notin> approvals s"
  obtain uri user did where u: "c = (uri, user, did)" by (cases c)
  obtain r' where r': "r' \<in> set (sessions (at_serve W L t s))" "as_request_uri r' = uri" "as_user_pubkey r' = Some user"
      "as_atproto_did r' = Some did"
    using c(1) u by (auto simp: approvals_def)
  from serve_moves [OF s] r'(1) show "approved_by W t s c"
  proof (cases rule: move_kept)
    case (1 r)
    then show ?thesis
      using move_owner [OF 1(2)] move_identity [OF 1(2)] r' c(2) u by (auto simp: approvals_def approved_by_def)
  next
    case 2
    then show ?thesis using r' by (auto simp: pushed_def session_row_def)
  qed
qed

interpretation pushing: earned_store "at_serve W L" "\<lambda>s. sessions_unique (sessions s)" key_of_request "pushed_by W" for W L
proof
  fix s :: "'a at_state" and c t
  assume s: "sessions_unique (sessions s)" and c: "c \<in> key_of_request (at_serve W L t s)" "c \<notin> key_of_request s"
  obtain r' where r': "r' \<in> set (sessions (at_serve W L t s))"
      "c = (as_request_uri r', as_client_id r', the (as_dpop_jkt r'))" "as_dpop_jkt r' \<noteq> None"
    using c(1) by (auto simp: key_of_request_def)
  from serve_moves [OF s] r'(1) show "pushed_by W t s c"
  proof (cases rule: move_kept)
    case (1 r)
    then show ?thesis using move_identity [OF 1(2)] r' c(2) by (auto simp: key_of_request_def)
  next
    case 2
    then show ?thesis using r' by (auto simp: pushed_def session_row_def pushed_session_def pushed_by_def)
  qed
qed

text \<open>A session for an account has a user.\<close>

definition sessions_owned :: "'j at_state \<Rightarrow> bool" where
  "sessions_owned s \<longleftrightarrow>
     sessions_unique (sessions s) \<and> (\<forall>r\<in>set (sessions s). is_set (as_atproto_did r) \<longrightarrow> is_set (as_user_pubkey r))"

interpretation owned: lasting "at_serve W L" sessions_owned "\<lambda>_. True" for W L
proof
  fix s :: "'a at_state" and t
  assume s: "sessions_owned s"
  then have u: "sessions_unique (sessions s)" by (simp add: sessions_owned_def)
  have "is_set (as_user_pubkey r')" if "r' \<in> set (sessions (at_serve W L t s))" "is_set (as_atproto_did r')" for r'
    using serve_moves [OF u] that(1)
  proof (cases rule: move_kept)
    case (1 r)
    then show ?thesis using move_owner [OF 1(2)] s that(2) by (auto simp: sessions_owned_def)
  next
    case 2
    then show ?thesis using that(2) by (auto simp: pushed_def session_row_def)
  qed
  then show "sessions_owned (at_serve W L t s)" using serve_unique [OF u] by (auto simp: sessions_owned_def)
qed

text \<open>
  C14. No AT token without the user and the key. In any run that starts with no sessions, a token answer
  belongs to a session that some earlier request of the run approved: a user with a valid session token
  and a ready link, for the account named in the token; and the proof that comes with the exchange is of
  the key the request was pushed with by that client, under the nonce of the last answer. The access
  token is signed for that account and that key.
\<close>

theorem at_token_approved_and_bound:
  assumes "sessions s = []" and "tr_call t = TokenCall q"
    and "at_token W (tr_now t) (tr_draws t) (tr_parts t) q (fold (at_serve W L) ts s) = (Inr (resp, nonce), s')"
  shows "\<exists>r jkt user. r \<in> set (sessions (fold (at_serve W L) ts s)) \<and> grants W t (fold (at_serve W L) ts s) r jkt
    \<and> create_access_token W (ar_sub resp) (rd_jti (tr_draws t)) jkt = Inr (ar_access_token resp)
    \<and> (\<exists>before a after. ts = before @ a # after
         \<and> approved_by W a (fold (at_serve W L) before s) (as_request_uri r, user, ar_sub resp))
    \<and> (\<exists>before p after. ts = before @ p # after
         \<and> pushed_by W p (fold (at_serve W L) before s) (as_request_uri r, as_client_id r, jkt))"
proof -
  let ?s = "fold (at_serve W L) ts s"
  obtain r jkt where r: "r \<in> set (sessions ?s)" "grants W t ?s r jkt" "as_atproto_did r = Some (ar_sub resp)"
      "create_access_token W (ar_sub resp) (rd_jti (tr_draws t)) jkt = Inr (ar_access_token resp)"
    using token_granted [OF assms(3,2)] .
  have "sessions_owned ?s"
    using owned.run_keeps [of s ts W L] assms(1) by (simp add: sessions_owned_def sessions_unique_def)
  then obtain user where user: "as_user_pubkey r = Some user" using r by (auto simp: sessions_owned_def is_set_iff)
  have key: "as_dpop_jkt r = Some jkt" using r(2) by (auto simp: grants_def redeems_code_def redeems_refresh_def proves_key_def)
  have u: "sessions_unique (sessions s)" using assms(1) by (simp add: sessions_unique_def)
  have c: "(as_request_uri r, user, ar_sub resp) \<in> approvals ?s" "(as_request_uri r, as_client_id r, jkt) \<in> key_of_request ?s"
    using r user key by (auto simp: approvals_def key_of_request_def)
  have n: "(as_request_uri r, user, ar_sub resp) \<notin> approvals s" "(as_request_uri r, as_client_id r, jkt) \<notin> key_of_request s"
    using assms(1) by (simp_all add: approvals_def key_of_request_def)
  note approving.run_earned [OF u c(1) n(1)] pushing.run_earned [OF u c(2) n(2)]
  with r(1,2,4) show ?thesis by (intro exI [of _ r] exI [of _ jkt] exI [of _ user] conjI)
qed

theorem at_token_approved_and_bound_witness:
  "\<exists>r jkt user. grants AT0 exchange_turn approved_run r jkt
     \<and> (\<exists>before a after. [push_turn, approve_turn] = before @ a # after
         \<and> approved_by AT0 a (fold (at_serve AT0 LK0) before at_start) (as_request_uri r, user, ''did:plc:alice''))"
proof -
  have start: "sessions at_start = []" "tr_call exchange_turn = TokenCall (sample_exchange ''1'')" by code_simp+
  obtain s' where answer: "at_token AT0 (tr_now exchange_turn) (tr_draws exchange_turn) (tr_parts exchange_turn) (sample_exchange ''1'')
      (fold (at_serve AT0 LK0) [push_turn, approve_turn] at_start) = (Inr (sample_answer ''3'' ''did:plc:alice'', ''nonce3''), s')"
    using sample_first_answer unfolding at_tokens_def approved_run_def by (metis prod.collapse)
  have did: "ar_sub (sample_answer ''3'' ''did:plc:alice'') = ''did:plc:alice''" by (simp add: sample_answer_def)
  show ?thesis
    using at_token_approved_and_bound [OF start answer] unfolding did approved_run_def [symmetric] by blast
qed

section \<open>Credentials that work once\<close>

text \<open>A code that no row offers any more at a time, and a refresh token no row has.\<close>

definition code_dead :: "string \<Rightarrow> timestamp \<Rightarrow> 'j at_state \<Rightarrow> bool" where
  "code_dead code time s \<longleftrightarrow>
     sessions_unique (sessions s) \<and> (\<forall>r\<in>set (sessions s). \<forall>now\<ge>time. \<not> code_live now code r)"

definition refresh_gone :: "string \<Rightarrow> 'j at_state \<Rightarrow> bool" where
  "refresh_gone hash s \<longleftrightarrow>
     sessions_unique (sessions s) \<and> (\<forall>r\<in>set (sessions s). as_refresh_token_hash r \<noteq> Some hash)"

lemma code_dead_move:
  assumes "row_move W t s r r'" and "\<forall>now\<ge>time. \<not> code_live now code r"
    and "time \<le> tr_now t" and "rd_code (tr_draws t) \<noteq> code"
  shows "\<forall>now\<ge>time. \<not> code_live now code r'"
  using assms
proof (cases rule: row_move.cases)
  case (exchanged code' jkt)
  have "code' \<noteq> code" using exchanged(2) assms(2,3) by (auto simp: redeems_code_def)
  then show ?thesis using exchanged by (simp add: code_live_def)
qed (auto simp: code_live_def session_revoked_def stamped_def split: option.splits)

interpretation spent_code: lasting "at_serve W L" "code_dead code time"
  "\<lambda>t. time \<le> tr_now t \<and> rd_code (tr_draws t) \<noteq> code" for W L code time
proof
  fix s :: "'a at_state" and t :: "'a at_turn"
  assume s: "code_dead code time s" and t: "time \<le> tr_now t \<and> rd_code (tr_draws t) \<noteq> code"
  then have u: "sessions_unique (sessions s)" by (simp add: code_dead_def)
  have "\<forall>now\<ge>time. \<not> code_live now code r'" if "r' \<in> set (sessions (at_serve W L t s))" for r'
    using serve_moves [OF u] that
  proof (cases rule: move_kept)
    case (1 r)
    then show ?thesis using code_dead_move [OF 1(2)] s t by (auto simp: code_dead_def)
  next
    case 2
    then show ?thesis by (auto simp: pushed_def session_row_def code_live_def)
  qed
  then show "code_dead code time (at_serve W L t s)" using serve_unique [OF u] by (auto simp: code_dead_def)
qed

lemma refresh_gone_move:
  "row_move W t s r r' \<Longrightarrow> as_refresh_token_hash r \<noteq> Some hash \<Longrightarrow> refresh_hash W (rd_refresh (tr_draws t)) \<noteq> hash
     \<Longrightarrow> as_refresh_token_hash r' \<noteq> Some hash"
  by (cases rule: row_move.cases) (auto simp: session_revoked_def)

interpretation spent_refresh: lasting "at_serve W L" "refresh_gone hash"
  "\<lambda>t. refresh_hash W (rd_refresh (tr_draws t)) \<noteq> hash" for W L hash
proof
  fix s :: "'a at_state" and t :: "'a at_turn"
  assume s: "refresh_gone hash s" and t: "refresh_hash W (rd_refresh (tr_draws t)) \<noteq> hash"
  then have u: "sessions_unique (sessions s)" by (simp add: refresh_gone_def)
  have "as_refresh_token_hash r' \<noteq> Some hash" if "r' \<in> set (sessions (at_serve W L t s))" for r'
    using serve_moves [OF u] that
  proof (cases rule: move_kept)
    case (1 r)
    then show ?thesis using refresh_gone_move [OF 1(2)] s t by (auto simp: refresh_gone_def)
  next
    case 2
    then show ?thesis by (auto simp: pushed_def session_row_def)
  qed
  then show "refresh_gone hash (at_serve W L t s)" using serve_unique [OF u] by (auto simp: refresh_gone_def)
qed

lemma code_answer_kills:
  fixes t :: "'j at_turn"
  assumes "sessions_unique (sessions s)" and "tr_call t = TokenCall q" "aq_grant_type q = ''authorization_code''" "aq_code q = Some code"
    and "token_by_code W (tr_now t) (tr_draws t) (tr_parts t) q s = (Inr p, s')"
  shows "code_dead code (tr_now t) s'"
  using assms(5,2,3)
proof (cases rule: by_code_cases)
  case (go code' session jkt s1)
  have "code' = code" using go(2) assms(2,4) by (auto simp: redeems_code_def)
  moreover have "as_authorization_code r \<noteq> Some code" if "r \<in> set (sessions s)" "r \<noteq> session" for r
    using that assms(1) fetch_optional_Some [OF go(1) [unfolded find_by_authorization_code_def]] \<open>code' = code\<close>
    by (auto simp: code_live_def dest: sessions_unique_keys(2))
  ultimately show ?thesis
    using finish_code_sessions(2) [OF go(4)] go(1,3) assms(1)
    by (auto simp: code_dead_def code_live_def update_where_def split: option.splits)
qed simp_all

lemma refresh_answer_kills:
  fixes t :: "'j at_turn"
  assumes "sessions_unique (sessions s)" and "tr_call t = TokenCall q" "aq_grant_type q = ''refresh_token''" "aq_refresh_token q = Some secret"
    and "token_by_refresh W (tr_now t) (tr_draws t) (tr_parts t) q s = (Inr p, s')"
    and "refresh_hash W (rd_refresh (tr_draws t)) \<noteq> refresh_hash W secret"
  shows "refresh_gone (refresh_hash W secret) s'"
  using assms(5,2,3)
proof (cases rule: by_refresh_cases)
  case (go secret' session jkt s1)
  have "secret' = secret" using go(2) assms(2,4) by (auto simp: redeems_refresh_def)
  then have "as_refresh_token_hash r \<noteq> Some (refresh_hash W secret)" if "r \<in> set (sessions s)" "r \<noteq> session" for r
    using that assms(1) fetch_optional_Some [OF go(1) [unfolded find_by_refresh_token_hash_def]]
    by (auto simp: refresh_live_def dest: sessions_unique_keys(3))
  then show ?thesis
    using finish_refresh_sessions(2) [OF go(4)] go(1,3) assms(1,6)
    by (auto simp: refresh_gone_def update_where_def)
qed simp_all

lemma dead_code_refused:
  assumes "code_dead code time s" and "time \<le> now" and "aq_code q = Some code"
  shows "\<exists>e. fst (token_by_code W now D rq q s) = Inl e"
proof -
  have "find_by_authorization_code now code (at_db s) = None"
    using assms(1,2) by (auto simp: code_dead_def find_by_authorization_code_def fetch_optional_None)
  then show ?thesis
    using assms(3)
    by (auto simp: token_by_code_def code_fields_def code_session_def and_then_def ok_or_def split: option.splits sum.splits)
qed

lemma gone_refresh_refused:
  assumes "refresh_gone (refresh_hash W secret) s" and "aq_refresh_token q = Some secret"
  shows "\<exists>e. fst (token_by_refresh W now D rq q s) = Inl e"
proof -
  have "find_by_refresh_token_hash now (refresh_hash W secret) (at_db s) = None"
    using assms(1) by (auto simp: refresh_gone_def find_by_refresh_token_hash_def fetch_optional_None refresh_live_def)
  then show ?thesis
    using assms(2) by (auto simp: token_by_refresh_def refresh_session_def and_then_def ok_or_def Let_def split: option.splits)
qed

text \<open>
  C15. A code and a refresh token of an AT client buy tokens once. After an exchange that was answered, and
  whatever requests are served from then on, a second exchange of the same code or the same refresh token is
  refused, as long as the server draws neither of them again.
\<close>

theorem at_credentials_work_once:
  assumes "sessions_unique (sessions s)" and "tr_call t = TokenCall q"
    and "at_token W (tr_now t) (tr_draws t) (tr_parts t) q s = (Inr p, s1)"
    and "aq_grant_type q' = aq_grant_type q" "aq_code q' = aq_code q" "aq_refresh_token q' = aq_refresh_token q"
    and fresh: "\<forall>u\<in>set (t # ts). Some (rd_code (tr_draws u)) \<noteq> aq_code q
      \<and> Some (refresh_hash W (rd_refresh (tr_draws u))) \<noteq> map_option (refresh_hash W) (aq_refresh_token q)"
    and later: "\<forall>u\<in>set ts. tr_now t \<le> tr_now u" "tr_now t \<le> now"
  shows "\<exists>e. fst (at_token W now D rq q' (fold (at_serve W L) ts s1)) = Inl e"
proof -
  consider (code) code where "aq_grant_type q = ''authorization_code''" "aq_code q = Some code"
      "token_by_code W (tr_now t) (tr_draws t) (tr_parts t) q s = (Inr p, s1)"
    | (refresh) secret where "aq_grant_type q = ''refresh_token''" "aq_refresh_token q = Some secret"
      "token_by_refresh W (tr_now t) (tr_draws t) (tr_parts t) q s = (Inr p, s1)"
    using assms(3)
    by (cases "aq_code q"; cases "aq_refresh_token q")
      (auto simp: at_token_def bad_def token_by_code_def code_fields_def token_by_refresh_def refresh_session_def split: if_splits)
  then show ?thesis
  proof cases
    case code
    have "code_dead code (tr_now t) (fold (at_serve W L) ts s1)"
      using spent_code.run_keeps [OF code_answer_kills [OF assms(1,2) code]] fresh later(1) code(2) by auto
    then show ?thesis using dead_code_refused [OF _ later(2)] code assms(4,5) by (simp add: at_token_def)
  next
    case refresh
    have "refresh_gone (refresh_hash W secret) (fold (at_serve W L) ts s1)"
      using spent_refresh.run_keeps [OF refresh_answer_kills [OF assms(1,2) refresh]] fresh refresh(2) by auto
    then show ?thesis using gone_refresh_refused refresh assms(4,6) by (simp add: at_token_def)
  qed
qed

theorem at_credentials_work_once_witness:
  "\<exists>e. fst (at_token AT0 1030000000 (at_drawn ''6'') (at_parts [] ''exchange'') (sample_exchange ''1'')
       (fold (at_serve AT0 LK0) [refresh_turn] (snd (at_tokens exchange_turn (sample_exchange ''1'') approved_state)))) = Inl e"
proof -
  have start: "sessions_unique (sessions approved_state)" "tr_call exchange_turn = TokenCall (sample_exchange ''1'')" by code_simp+
  have "fst (at_tokens exchange_turn (sample_exchange ''1'') approved_state) = Inr (sample_answer ''3'' ''did:plc:alice'', ''nonce3'')"
    by code_simp
  note answer = answered(1) [OF this, unfolded at_tokens_def]
  have fresh: "\<forall>u\<in>set [exchange_turn, refresh_turn]. Some (rd_code (tr_draws u)) \<noteq> aq_code (sample_exchange ''1'')
      \<and> Some (refresh_hash AT0 (rd_refresh (tr_draws u))) \<noteq> map_option (refresh_hash AT0) (aq_refresh_token (sample_exchange ''1''))"
    "\<forall>u\<in>set [refresh_turn]. tr_now exchange_turn \<le> tr_now u" "tr_now exchange_turn \<le> 1030000000" by code_simp+
  show ?thesis
    using at_credentials_work_once [OF start answer refl refl refl fresh] by (simp add: at_tokens_def)
qed

section \<open>Replayed proofs\<close>

text \<open>How a request touches the two caches: not at all, or as one more check.\<close>

definition dpop_touched :: "'j at_world \<Rightarrow> timestamp \<Rightarrow> parts \<Rightarrow> replay_cache \<Rightarrow> replay_cache \<Rightarrow> bool" where
  "dpop_touched W now rq seen seen' \<longleftrightarrow>
     seen' = seen \<or> (\<exists>m p n a. seen' = snd (validate_dpop_proof W now rq m p n a seen))"

definition assertions_touched :: "'j at_world \<Rightarrow> timestamp \<Rightarrow> replay_cache \<Rightarrow> replay_cache \<Rightarrow> bool" where
  "assertions_touched W now seen seen' \<longleftrightarrow>
     seen' = seen \<or> (\<exists>client ty assertion auds keys jkt.
        seen' = snd (verify_client_assertion W now client ty assertion auds keys jkt seen))"

lemma touched_refl [simp]: "dpop_touched W now rq seen seen" "assertions_touched W now seen seen"
  by (simp_all add: dpop_touched_def assertions_touched_def)

lemma assertion_touches:
  "verify_client_assertion W now client ty assertion auds keys jkt seen = (x, seen') \<Longrightarrow> assertions_touched W now seen seen'"
  unfolding assertions_touched_def by (metis snd_conv)

lemma par_binding_touch: "assertions_touched W now seen (snd (validate_par_client_binding W now D q seen))"
  unfolding validate_par_client_binding_def Let_def
  by (auto split: sum.splits option.splits intro: assertion_touches [OF surjective_pairing])

lemma session_binding_touch:
  "assertions_touched W now seen (snd (enforce_session_client_binding W now D r ty assertion seen))"
  unfolding enforce_session_client_binding_def
  by (auto split: sum.splits prod.splits dest: assertion_touches)

definition caches_touched :: "'j at_world \<Rightarrow> timestamp \<Rightarrow> parts \<Rightarrow> 'j at_state \<Rightarrow> 'j at_state \<Rightarrow> bool" where
  "caches_touched W now rq s s' \<longleftrightarrow>
     dpop_touched W now rq (at_dpop_seen s) (at_dpop_seen s')
     \<and> assertions_touched W now (at_assertions_seen s) (at_assertions_seen s')"

lemma request_tenant_caches:
  "request_tenant_id W now rq s = (x, s') \<Longrightarrow> at_dpop_seen s' = at_dpop_seen s \<and> at_assertions_seen s' = at_assertions_seen s"
  by (auto simp: request_tenant_id_def put_tenant_def split: sum.splits prod.splits option.splits)

lemma par_caches: "caches_touched W now rq s (snd (par W now D rq q s))"
proof -
  obtain a seen where a: "validate_dpop_proof W now rq ''POST'' PAR_PATH_SUFFIX None None (at_dpop_seen s) = (a, seen)" by fastforce
  obtain b used where b: "validate_par_client_binding W now D q (at_assertions_seen s) = (b, used)" by fastforce
  obtain c s1 where c: "request_tenant_id W now rq (s\<lparr>at_dpop_seen := seen, at_assertions_seen := used\<rparr>) = (c, s1)" by fastforce
  have d: "dpop_touched W now rq (at_dpop_seen s) seen" unfolding dpop_touched_def by (metis a snd_conv)
  have e: "assertions_touched W now (at_assertions_seen s) used" using par_binding_touch [of W now "at_assertions_seen s" D q] b by simp
  show ?thesis
    using d e request_tenant_caches [OF c]
    by (auto simp: par_def a b c caches_touched_def Let_def split: sum.splits option.splits prod.splits)
qed

lemma on_session_caches:
  "on_session none r s = (x, s') \<Longrightarrow> at_dpop_seen s' = at_dpop_seen s \<and> at_assertions_seen s' = at_assertions_seen s"
  by (elim on_session_cases) simp_all

lemma authorize_caches: "caches_touched W now rq s (snd (at_authorize W now D rq uri s))"
proof -
  obtain x s' where a: "at_authorize W now D rq uri s = (x, s')" by fastforce
  from a have "caches_touched W now rq s s'"
    by (cases rule: authorize_cases)
      (auto simp: caches_touched_def approve_session_def dest!: on_session_caches split: prod.splits sum.splits)
  then show ?thesis using a by simp
qed

lemma finish_caches:
  "finish_code W now D code r jkt s = (x, s') \<Longrightarrow> at_dpop_seen s' = at_dpop_seen s \<and> at_assertions_seen s' = at_assertions_seen s"
  "finish_refresh W now D hash r jkt s = (x, s') \<Longrightarrow> at_dpop_seen s' = at_dpop_seen s \<and> at_assertions_seen s' = at_assertions_seen s"
  by (auto simp: finish_code_def finish_refresh_def dest!: on_session_caches split: prod.splits sum.splits)

lemma session_proof_caches:
  "session_proof W now rq m n r s = (x, s') \<Longrightarrow>
     dpop_touched W now rq (at_dpop_seen s) (at_dpop_seen s') \<and> at_assertions_seen s' = at_assertions_seen s"
  by (auto simp: session_proof_def dpop_touched_def split: option.splits prod.splits) (metis snd_conv)

lemma ignore_result_caches [simp]:
  "at_dpop_seen (ignore_result r s) = at_dpop_seen s" "at_assertions_seen (ignore_result r s) = at_assertions_seen s"
  by (auto simp: ignore_result_def split: sum.splits)

lemma exchange_caches:
  "caches_touched W now rq s (snd (code_exchange W now D rq q code verifier r s))"
  "caches_touched W now rq s (snd (refresh_exchange W now D rq q hash r s))"
proof -
  obtain b used where b: "enforce_session_client_binding W now D r (aq_client_assertion_type q) (aq_client_assertion q)
      (at_assertions_seen s) = (b, used)" by fastforce
  have e: "assertions_touched W now (at_assertions_seen s) used"
    using session_binding_touch [of W now "at_assertions_seen s" D r] b by (metis snd_conv)
  show "caches_touched W now rq s (snd (code_exchange W now D rq q code verifier r s))"
    "caches_touched W now rq s (snd (refresh_exchange W now D rq q hash r s))"
    using e
    by (auto simp: code_exchange_def refresh_exchange_def b caches_touched_def Let_def
        finish_caches [OF surjective_pairing] dest!: session_proof_caches split: sum.splits prod.splits)
qed

lemma token_caches: "caches_touched W now rq s (snd (at_token W now D rq q s))"
  by (auto simp: at_token_def token_by_code_def token_by_refresh_def exchange_caches caches_touched_def [of W now rq s s]
      split: sum.splits prod.splits)

lemma serve_caches: "caches_touched W (tr_now t) (tr_parts t) s (at_serve W L t s)"
proof -
  have "caches_touched W (tr_now t) (tr_parts t) s s" "caches_touched W (tr_now t) (tr_parts t) s (put_at_db d s)" for d
    by (simp_all add: caches_touched_def put_at_db_def)
  then show ?thesis
    by (cases "tr_call t") (auto simp: at_serve_def par_caches authorize_caches token_caches split: sum.splits)
qed

text \<open>A proof that is remembered as used since a time, and a used assertion that expires at a time.\<close>

definition proof_remembered :: "string \<Rightarrow> int \<Rightarrow> 'j at_state \<Rightarrow> bool" where
  "proof_remembered key since s \<longleftrightarrow> (\<exists>p\<ge>since. at_dpop_seen s key = Some p)"

definition assertion_remembered :: "string \<Rightarrow> int \<Rightarrow> 'j at_state \<Rightarrow> bool" where
  "assertion_remembered key expires s \<longleftrightarrow> (\<exists>e\<ge>expires. at_assertions_seen s key = Some e)"

lemma dpop_touched_at:
  assumes "dpop_touched W now rq seen seen'"
  shows "seen' key = seen key \<or> seen' key = Some (unix_seconds now)"
proof -
  have "snd (validate_dpop_proof W now rq m p n a seen) key \<in> {seen key, Some (unix_seconds now)}" for m p n a
    by (cases "dpop_checked W (unix_seconds now) rq m p n a") (auto simp: validate_dpop_proof_def Let_def split: prod.splits)
  then show ?thesis using assms by (auto simp: dpop_touched_def)
qed

lemma assertion_verified_unexpired:
  "assertion_verified W secs client ty assertion auds keys jkt = Inr (h, c, k) \<Longrightarrow> secs < ac_exp c"
  by (auto simp: assertion_verified_def assertion_checked_def and_then_Inr_iff bad_def Let_def
      split: if_splits option.splits prod.splits)

lemma assertions_touched_at:
  assumes "assertions_touched W now seen seen'"
  shows "seen' key = seen key
    \<or> (\<exists>e. seen' key = Some e \<and> unix_seconds now < e \<and> (\<forall>p. seen key = Some p \<longrightarrow> p < unix_seconds now))"
proof -
  have "snd (verify_client_assertion W now client ty assertion auds keys jkt seen) key = seen key
      \<or> (\<exists>e. snd (verify_client_assertion W now client ty assertion auds keys jkt seen) key = Some e \<and> unix_seconds now < e
           \<and> (\<forall>p. seen key = Some p \<longrightarrow> p < unix_seconds now))" for client ty assertion auds keys jkt
  proof (cases "assertion_verified W (unix_seconds now) client ty assertion auds keys jkt")
    case (Inr x)
    obtain h c k where x: "x = (h, c, k)" by (cases x)
    show ?thesis
      using Inr assertion_verified_unexpired [OF Inr [unfolded x]]
      by (auto simp: verify_client_assertion_def x Let_def split: option.splits)
  qed (simp add: verify_client_assertion_def Let_def)
  then show ?thesis using assms unfolding assertions_touched_def by (metis (no_types))
qed

interpretation remembered_proof: lasting "at_serve W L" "proof_remembered key since"
  "\<lambda>t. since \<le> unix_seconds (tr_now t)" for W L key since
proof
  fix s :: "'a at_state" and t :: "'a at_turn"
  assume "proof_remembered key since s" "since \<le> unix_seconds (tr_now t)"
  moreover have "dpop_touched W (tr_now t) (tr_parts t) (at_dpop_seen s) (at_dpop_seen (at_serve W L t s))"
    using serve_caches [of W t s L] by (simp add: caches_touched_def)
  ultimately show "proof_remembered key since (at_serve W L t s)"
    using dpop_touched_at [of W "tr_now t" "tr_parts t" "at_dpop_seen s" _ key] by (fastforce simp: proof_remembered_def)
qed

interpretation remembered_assertion: lasting "at_serve W L" "assertion_remembered key expires" "\<lambda>_. True" for W L key expires
proof
  fix s :: "'a at_state" and t :: "'a at_turn"
  assume "assertion_remembered key expires s"
  moreover have "assertions_touched W (tr_now t) (at_assertions_seen s) (at_assertions_seen (at_serve W L t s))"
    using serve_caches [of W t s L] by (simp add: caches_touched_def)
  ultimately show "assertion_remembered key expires (at_serve W L t s)"
    using assertions_touched_at [of W "tr_now t" "at_assertions_seen s" _ key] by (fastforce simp: assertion_remembered_def)
qed

text \<open>The identity of a proof does not depend on when and where it is checked.\<close>

lemma dpop_checked_identity:
  assumes "dpop_checked W secs rq m p n a = Inr (jkt, jti)" and "dpop_checked W secs' rq m' p' n' a' = Inr (jkt', jti')"
  shows "jkt' = jkt \<and> jti' = jti"
  using assms by (auto simp: dpop_checked_def and_then_Inr_iff split: if_splits prod.splits)

lemma validate_dpop_ok:
  "validate_dpop_proof W now rq m p n a seen = (Inr jkt, seen') \<longleftrightarrow>
     (\<exists>jti. dpop_checked W (unix_seconds now) rq m p n a = Inr (jkt, jti)
        \<and> (\<forall>q. seen (dpop_replay_key jkt jti) = Some q \<longrightarrow> DPOP_MAX_IAT_SKEW_SECONDS \<le> unix_seconds now - q)
        \<and> seen' = seen(dpop_replay_key jkt jti \<mapsto> unix_seconds now))"
  by (auto simp: validate_dpop_proof_def Let_def bad_def split: sum.splits prod.splits if_splits option.splits)

text \<open>Moving the clock within the window of a proof does not change what it proves.\<close>

lemma dpop_checked_later:
  assumes "dpop_checked W secs rq m p n a = Inr (jkt, jti)" and "dpop_parts W rq = Inr (h, c, sig, input)"
    and "secs' - DPOP_MAX_IAT_SKEW_SECONDS \<le> dc_iat c" "dc_iat c \<le> secs' + DPOP_MAX_IAT_SKEW_SECONDS"
  shows "dpop_checked W secs' rq m p n a = Inr (jkt, jti)"
  using assms by (auto simp: dpop_checked_def and_then_Inr_iff dpop_claims_checked_def bad_def split: if_splits)

text \<open>
  C18. How long a DPoP proof is remembered. Whatever the server serves in between, a proof that was accepted is
  refused on every endpoint for the next 300 seconds. But the memory is as long as the tolerance for the date
  of a proof, not twice as long: a proof dated at the moment of its first use or later is accepted a second
  time, from 300 seconds after that use until its own date is 300 seconds past.
\<close>

theorem dpop_replay_window:
  assumes first: "validate_dpop_proof W now rq m p n a (at_dpop_seen s) = (Inr jkt, seen)"
    and run: "at_dpop_seen s1 = seen" "\<forall>t\<in>set ts. now \<le> tr_now t" "now \<le> now'"
  shows "(unix_seconds now' < unix_seconds now + 300 \<longrightarrow>
            (\<exists>e. fst (validate_dpop_proof W now' rq m' p' n' a' (at_dpop_seen (fold (at_serve W L) ts s1))) = Inl e))
    \<and> (\<forall>h c sig input. dpop_parts W rq = Inr (h, c, sig, input) \<longrightarrow> unix_seconds now + 300 \<le> unix_seconds now' \<longrightarrow>
          unix_seconds now' \<le> dc_iat c + 300 \<longrightarrow> fst (validate_dpop_proof W now' rq m p n a seen) = Inr jkt)"
proof (intro conjI impI allI)
  obtain jti where c: "dpop_checked W (unix_seconds now) rq m p n a = Inr (jkt, jti)"
      "seen = (at_dpop_seen s)(dpop_replay_key jkt jti \<mapsto> unix_seconds now)"
    using first by (auto simp: validate_dpop_ok)
  let ?key = "dpop_replay_key jkt jti" and ?s = "fold (at_serve W L) ts s1"
  {
    assume w: "unix_seconds now' < unix_seconds now + 300"
    have "proof_remembered ?key (unix_seconds now) s1" using run(1) c(2) by (simp add: proof_remembered_def)
    moreover have "\<forall>t\<in>set ts. unix_seconds now \<le> unix_seconds (tr_now t)"
      using run(2) by (simp add: unix_seconds_def zdiv_mono1)
    ultimately have r: "proof_remembered ?key (unix_seconds now) ?s" by (rule remembered_proof.run_keeps)
    show "\<exists>e. fst (validate_dpop_proof W now' rq m' p' n' a' (at_dpop_seen ?s)) = Inl e"
    proof (cases "validate_dpop_proof W now' rq m' p' n' a' (at_dpop_seen ?s)")
      case (Pair x seen')
      show ?thesis
      proof (cases x)
        case (Inr jkt')
        with Pair obtain jti' where "dpop_checked W (unix_seconds now') rq m' p' n' a' = Inr (jkt', jti')"
          "\<forall>q. at_dpop_seen ?s (dpop_replay_key jkt' jti') = Some q \<longrightarrow> 300 \<le> unix_seconds now' - q"
          by (auto simp: validate_dpop_ok at_constants)
        with dpop_checked_identity [OF c(1)] r w show ?thesis by (fastforce simp: proof_remembered_def)
      qed (simp add: Pair)
    qed
  }
  fix h cl sig input
  assume "dpop_parts W rq = Inr (h, cl, sig, input)" "unix_seconds now + 300 \<le> unix_seconds now'" "unix_seconds now' \<le> dc_iat cl + 300"
  moreover from this c(1) have "dc_iat cl \<le> unix_seconds now + 300"
    by (auto simp: dpop_checked_def and_then_Inr_iff dpop_claims_checked_def bad_def at_constants split: if_splits)
  ultimately have "dpop_checked W (unix_seconds now') rq m p n a = Inr (jkt, jti)"
    by (intro dpop_checked_later [OF c(1)]) (auto simp: at_constants)
  then show "fst (validate_dpop_proof W now' rq m p n a seen) = Inr jkt"
    using \<open>unix_seconds now + 300 \<le> unix_seconds now'\<close> c(2)
    by (simp add: validate_dpop_proof_def Let_def at_constants)
qed

theorem dpop_replay_window_witness:
  "(\<exists>e. fst (validate_dpop_proof AT0 1200000000 (at_parts [] ''push'') ''POST'' PAR_PATH_SUFFIX None None
          (at_dpop_seen (fold (at_serve AT0 LK0) [approve_turn] (at_start\<lparr>at_dpop_seen := snd (validate_dpop_proof AT0 1000000000
             (at_parts [] ''push'') ''POST'' PAR_PATH_SUFFIX None None (at_dpop_seen at_start))\<rparr>)))) = Inl e)
   \<and> fst (validate_dpop_proof AT0 1300000000 (at_parts [] ''push'') ''POST'' PAR_PATH_SUFFIX None None
          (snd (validate_dpop_proof AT0 1000000000 (at_parts [] ''push'') ''POST'' PAR_PATH_SUFFIX None None (at_dpop_seen at_start))))
     = Inr (dpop_jwk_thumbprint AT0 (dh_jwk sample_dpop_key))"
proof -
  let ?v = "validate_dpop_proof AT0 1000000000 (at_parts [] ''push'') ''POST'' PAR_PATH_SUFFIX None None (at_dpop_seen at_start)"
  have "fst ?v = Inr (dpop_jwk_thumbprint AT0 (dh_jwk sample_dpop_key))" by code_simp
  then have v: "?v = (Inr (dpop_jwk_thumbprint AT0 (dh_jwk sample_dpop_key)), snd ?v)" by (simp add: prod_eq_iff)
  have p: "dpop_parts AT0 (at_parts [] ''push'') = Inr (sample_dpop_key, sample_claims ''/atproto/oauth/par'' 1000 ''j1'' None,
      map of_char ''sig'', ''head.push'')" by code_simp
  have s: "at_dpop_seen (at_start\<lparr>at_dpop_seen := snd ?v\<rparr>) = snd ?v" by simp
  have turns: "\<forall>t\<in>set [approve_turn]. 1000000000 \<le> tr_now t" by code_simp
  have iat: "dc_iat (sample_claims ''/atproto/oauth/par'' 1000 ''j1'' None) = 1000" by (simp add: sample_claims_def)
  show ?thesis
    using dpop_replay_window [OF v s turns, of 1200000000] dpop_replay_window [OF v s turns, of 1300000000] p
    by (simp add: unix_seconds_def iat)
qed

text \<open>
  A client assertion is accepted once: whatever is served in between, and whatever keys the client publishes
  then, the same assertion is refused from its first acceptance on, until it has expired and beyond.
\<close>

lemma assertion_verified_claims:
  assumes "assertion_verified W secs client ty assertion auds keys jkt = Inr (h, c, k)"
    and "assertion_verified W secs' client ty' assertion auds' keys' jkt' = Inr (h', c', k')"
  shows "c' = c"
  using assms
  by (auto simp: assertion_verified_def assertion_checked_def and_then_Inr_iff bad_def Let_def assertion_field_def
      split: if_splits option.splits prod.splits)

theorem client_assertion_accepted_once:
  assumes "verify_client_assertion W now client ty assertion auds keys jkt (at_assertions_seen s) = (Inr b, seen)"
    and "at_assertions_seen s1 = seen"
  shows "\<exists>e. fst (verify_client_assertion W now' client ty' assertion auds' keys' jkt'
           (at_assertions_seen (fold (at_serve W L) ts s1))) = Inl e"
proof -
  let ?s = "fold (at_serve W L) ts s1"
  obtain h c k where v: "assertion_verified W (unix_seconds now) client ty assertion auds keys jkt = Inr (h, c, k)"
      "seen = (at_assertions_seen s)(client @ '':'' @ ac_jti c \<mapsto> ac_exp c)"
    using assms(1) by (auto simp: verify_client_assertion_def bad_def Let_def split: sum.splits prod.splits if_splits)
  have "assertion_remembered (client @ '':'' @ ac_jti c) (ac_exp c) s1" using v(2) assms(2) by (simp add: assertion_remembered_def)
  then have r: "assertion_remembered (client @ '':'' @ ac_jti c) (ac_exp c) ?s" by (rule remembered_assertion.run_keeps) simp
  show ?thesis
  proof (cases "assertion_verified W (unix_seconds now') client ty' assertion auds' keys' jkt'")
    case (Inr x)
    obtain h' c' k' where x: "x = (h', c', k')" by (cases x)
    have "c' = c" "unix_seconds now' < ac_exp c'"
      using assertion_verified_claims [OF v(1) Inr [unfolded x]] assertion_verified_unexpired [OF Inr [unfolded x]] by auto
    then show ?thesis
      using r Inr x by (auto simp: verify_client_assertion_def bad_def Let_def assertion_remembered_def)
  qed (simp add: verify_client_assertion_def Let_def)
qed

section \<open>The end of a link\<close>

lemma authorize_users: "db_users (at_db (snd (at_authorize W now D rq uri s))) = db_users (at_db s)"
proof -
  obtain x s' where a: "at_authorize W now D rq uri s = (x, s')" by fastforce
  from a have "db_users (at_db s') = db_users (at_db s)"
    by (cases rule: authorize_cases)
      (auto simp: approve_session_def approve_request_def store_authorization_code_def update_sessions_Inr
        elim!: on_session_cases split: prod.splits sum.splits if_splits)
  then show ?thesis using a by simp
qed

lemma par_users: "db_users (at_db (snd (par W now D rq q s))) = db_users (at_db s)"
  by (auto simp: par_def request_tenant_id_def put_tenant_def create_par_def Let_def split: sum.splits prod.splits option.splits)

lemma exchange_users:
  "db_users (at_db (snd (code_exchange W now D rq q code verifier r s))) = db_users (at_db s)"
  "db_users (at_db (snd (refresh_exchange W now D rq q hash r s))) = db_users (at_db s)"
proof -
  obtain x s' where a: "code_exchange W now D rq q code verifier r s = (x, s')" by fastforce
  from a have "db_users (at_db s') = db_users (at_db s)"
  proof (cases rule: code_exchange_cases)
    case (go used jkt s1)
    then show ?thesis
      using session_proof_frame [OF go(3)]
      by (auto simp: finish_code_def consume_authorization_code_def store_token_artifacts_def update_sessions_Inr
          elim!: on_session_cases split: prod.splits sum.splits)
  qed (auto simp: revoke_session_def update_sessions_Inr)
  then show "db_users (at_db (snd (code_exchange W now D rq q code verifier r s))) = db_users (at_db s)" using a by simp
next
  obtain x s' where a: "refresh_exchange W now D rq q hash r s = (x, s')" by fastforce
  from a have "db_users (at_db s') = db_users (at_db s)"
  proof (cases rule: refresh_exchange_cases)
    case (go used jkt s1)
    then show ?thesis
      using session_proof_frame [OF go(2)]
      by (auto simp: finish_refresh_def rotate_refresh_token_def update_sessions_Inr elim!: on_session_cases split: prod.splits sum.splits)
  qed (auto simp: revoke_refresh_session_def update_sessions_Inr)
  then show "db_users (at_db (snd (refresh_exchange W now D rq q hash r s))) = db_users (at_db s)" using a by simp
qed

lemma token_users: "db_users (at_db (snd (at_token W now D rq q s))) = db_users (at_db s)"
  by (auto simp: at_token_def token_by_code_def token_by_refresh_def exchange_users split: sum.splits prod.splits)

text \<open>A user without a ready account.\<close>

definition not_ready :: "pubkey \<Rightarrow> 'j db \<Rightarrow> bool" where
  "not_ready k d \<longleftrightarrow> (\<forall>u\<in>set (db_users d). us_pubkey u = k \<longrightarrow> us_atproto_enabled u \<longrightarrow> us_atproto_state u \<noteq> Some ''ready'')"

lemma not_ready_identity: "not_ready k d \<Longrightarrow> ready_atproto_identity tenant_id k d = None"
  by (cases "ready_atproto_identity tenant_id k d")
    (auto simp: not_ready_def ready_atproto_identity_def bind_eq_Some_conv dest!: fetch_optional_Some)

lemma not_ready_approves: "not_ready k (at_db s) \<Longrightarrow> \<not> approves W t s r k did"
  by (auto simp: approves_def not_ready_identity)

lemma set_atproto_ready:
  assumes "set_atproto_where now P enabled state did er d = Inr d'"
    and "not_ready k d" and "\<not> enabled \<or> state \<noteq> Some ''ready'' \<or> (\<forall>u. us_pubkey u = k \<longrightarrow> \<not> P u)"
  shows "not_ready k d'"
  using assms
  by (auto simp: set_atproto_where_def update_users_def and_then_Inr_iff Let_def not_ready_def update_where_def with_atproto_def
      split: if_splits)

lemma set_state_ready:
  "set_atproto_state now pk tid e st did er d = Inr d' \<Longrightarrow> not_ready k d \<Longrightarrow> \<not> e \<or> st \<noteq> Some ''ready'' \<Longrightarrow> not_ready k d'"
  "set_atproto_state_by_pubkey now pk e st did er d = Inr d' \<Longrightarrow> not_ready k d \<Longrightarrow> \<not> e \<or> st \<noteq> Some ''ready'' \<or> pk \<noteq> k \<Longrightarrow> not_ready k d'"
  by (auto simp: set_atproto_state_def set_atproto_state_by_pubkey_def intro: set_atproto_ready)

lemma not_ready_users: "db_users d' = db_users d \<Longrightarrow> not_ready k d' = not_ready k d"
  by (simp add: not_ready_def)

lemma revoke_all_users: "revoke_sessions_for_pubkey now k d = Inr (n, d') \<Longrightarrow> db_users d' = db_users d"
  by (auto simp: revoke_sessions_for_pubkey_def update_sessions_Inr and_then_Inr_iff)

lemma link_ready:
  "not_ready k d \<Longrightarrow> not_ready k (snd (enable_atproto X L svc now tn rq name d))"
  "not_ready k d \<Longrightarrow> not_ready k (snd (disable_atproto X L svc now tn rq d))"
  "not_ready k d \<Longrightarrow> \<not> is_enabled q \<or> is_state q \<noteq> Some ''ready'' \<or> is_nostr_pubkey q \<noteq> k
     \<Longrightarrow> not_ready k (snd (internal_sync_atproto L now rq q d))"
proof -
  show "not_ready k (snd (enable_atproto X L svc now tn rq name d))" if "not_ready k d"
    using that
    by (auto simp: enable_atproto_def on_link_def enable_user_atproto_with_trigger_def enable_user_atproto_def and_then_Inr_iff Let_def
        dest!: set_state_ready split: sum.splits prod.splits option.splits if_splits)
  show "not_ready k (snd (disable_atproto X L svc now tn rq d))" if "not_ready k d"
    using that
    by (auto simp: disable_atproto_def on_link_def disable_user_atproto_with_trigger_def disable_user_atproto_and_revoke_sessions_def
        disable_user_atproto_def and_then_Inr_iff not_ready_users [OF revoke_all_users]
        dest!: set_state_ready split: sum.splits prod.splits)
  show "not_ready k (snd (internal_sync_atproto L now rq q d))"
    if "not_ready k d" "\<not> is_enabled q \<or> is_state q \<noteq> Some ''ready'' \<or> is_nostr_pubkey q \<noteq> k"
    using that
    by (auto simp: internal_sync_atproto_def sync_user_atproto_state_by_pubkey_def and_then_Inr_iff not_ready_users [OF revoke_all_users]
        dest!: set_state_ready(2) split: sum.splits prod.splits if_splits)
qed

text \<open>A user whose link is down: no ready account, and every session of theirs revoked.\<close>

definition link_down :: "pubkey \<Rightarrow> 'j at_state \<Rightarrow> bool" where
  "link_down k s \<longleftrightarrow>
     sessions_unique (sessions s) \<and> not_ready k (at_db s)
     \<and> (\<forall>r\<in>set (sessions s). as_user_pubkey r = Some k \<longrightarrow> is_set (as_revoked_at r))"

text \<open>The requests of the AT interface that do not report the account of the user ready again.\<close>

definition leaves_down :: "pubkey \<Rightarrow> 'j at_turn \<Rightarrow> bool" where
  "leaves_down k t \<longleftrightarrow>
     (case tr_call t of
        SyncCall q \<Rightarrow> \<not> is_enabled q \<or> is_state q \<noteq> Some ''ready'' \<or> is_nostr_pubkey q \<noteq> k
      | AccountCall _ \<Rightarrow> False
      | _ \<Rightarrow> True)"

lemma move_revoked: "row_move W t s r r' \<Longrightarrow> is_set (as_revoked_at r) \<Longrightarrow> is_set (as_revoked_at r')"
  by (cases rule: row_move.cases) (auto simp: session_revoked_def stamped_def split: option.splits)

lemma serve_not_ready: "not_ready k (at_db s) \<Longrightarrow> leaves_down k t \<Longrightarrow> not_ready k (at_db (at_serve W L t s))"
  by (cases "tr_call t")
    (auto simp: at_serve_def put_at_db_def leaves_down_def link_ready
      not_ready_users [OF par_users] not_ready_users [OF authorize_users] not_ready_users [OF token_users])

interpretation down: lasting "at_serve W L" "link_down k" "leaves_down k" for W L k
proof
  fix s :: "'a at_state" and t :: "'a at_turn"
  assume s: "link_down k s" and t: "leaves_down k t"
  then have u: "sessions_unique (sessions s)" by (simp add: link_down_def)
  have "is_set (as_revoked_at r')" if "r' \<in> set (sessions (at_serve W L t s))" "as_user_pubkey r' = Some k" for r'
    using serve_moves [OF u] that(1)
  proof (cases rule: move_kept)
    case (1 r)
    have "\<not> approves W t s r k did" for did
      using s by (simp add: link_down_def not_ready_approves)
    then have "as_user_pubkey r = Some k" using move_owner [OF 1(2)] that(2) by auto
    then show ?thesis using move_revoked [OF 1(2)] 1(1) s by (auto simp: link_down_def)
  next
    case 2
    then show ?thesis using that(2) by (auto simp: pushed_def session_row_def)
  qed
  then show "link_down k (at_serve W L t s)"
    using serve_unique [OF u] serve_not_ready [OF _ t] s by (auto simp: link_down_def)
qed

lemma granting_session_open: "grants W t s r jkt \<Longrightarrow> \<not> is_set (as_revoked_at r)"
  by (auto simp: grants_def redeems_code_def redeems_refresh_def code_live_def refresh_live_def)

lemma disable_takes_down:
  assumes "users_unique (db_users d)" and "extract_user_from_token X now rq (tn_id tn) = Inr k"
    and "disable_atproto X L svc now tn rq d = (Inr resp, d')"
  shows "not_ready k d'" and "db_atproto_sessions d' = revoked_rows now k (db_atproto_sessions d)"
    and "sessions_unique (db_atproto_sessions d')"
proof -
  obtain resp' d1 n where d0: "disable_user_atproto now (tn_id tn) k d = (Inr resp', d1)"
      and n: "revoke_sessions_for_pubkey now k d1 = Inr (n, d')"
    using assms(2,3)
    by (auto simp: disable_atproto_def on_link_def disable_user_atproto_with_trigger_def disable_user_atproto_and_revoke_sessions_def
        split: sum.splits prod.splits)
  have d1: "set_atproto_state now k (tn_id tn) False (Some ''disabled'') None None d = Inr d1"
    using d0 by (auto simp: disable_user_atproto_def and_then_Inr_iff split: sum.splits prod.splits)
  have dist: "distinct (map us_pubkey (db_users d))" using assms(1) by (simp add: users_unique_def)
  obtain u where u: "u \<in> set (db_users d)" "user_at k (tn_id tn) u"
    using d1 by (auto simp: set_atproto_state_def set_atproto_where_def and_then_Inr_iff rows_affected_def filter_empty_conv split: if_splits)
  have same: "user_at k (tn_id tn) v" if "v \<in> set (db_users d)" "us_pubkey v = k" for v
    using that u dist by (auto simp: user_at_def distinct_map inj_on_def)
  have us: "db_users d1 = update_where (user_at k (tn_id tn)) (with_atproto now False (Some ''disabled'') None None) (db_users d)"
    using d1 by (auto simp: set_atproto_state_def set_atproto_where_def update_users_def and_then_Inr_iff Let_def split: if_splits)
  have "not_ready k d1"
    unfolding not_ready_def us by (auto simp: update_where_def with_atproto_def dest: same split: if_splits)
  then show "not_ready k d'" using not_ready_users [OF revoke_all_users [OF n]] by simp
  show "db_atproto_sessions d' = revoked_rows now k (db_atproto_sessions d)" "sessions_unique (db_atproto_sessions d')"
    using revoke_all_Inr [OF n] set_state_frames(1) [OF d1] by auto
qed



section \<open>What goes wrong\<close>

text \<open>Opening the request of a session again.\<close>

lemma authorize_answered:
  assumes "sessions_unique (sessions s)" and "r \<in> set (sessions s)" and "approves W t s r user did"
    and "at_authorize W (tr_now t) (tr_draws t) (tr_parts t) (as_request_uri r) s = (Inr location, s')"
  shows "sessions s' = update_where (session_open (as_request_uri r)) (\<lambda>r. r\<lparr>as_user_pubkey := Some user, as_atproto_did := Some did,
      as_approved_at := Some (tr_now t), as_authorization_code := Some (rd_code (tr_draws t)),
      as_authorization_code_expires_at := Some (tr_now t + minutes AUTH_CODE_EXPIRY_MINUTES), as_updated_at := tr_now t\<rparr>) (sessions s)
    \<and> sessions_unique (sessions s')"
proof -
  obtain session where "session_find_by_request_uri (as_request_uri r) (at_db s) = Some session"
    using assms(2,3) fetch_optional_ex [of r "sessions s" "session_open (as_request_uri r)"]
    by (auto simp: session_find_by_request_uri_def approves_def session_open_def)
  moreover from this have "session = r"
    using found_by_uri [OF assms(1) _ assms(2)] assms(3) by (auto simp: session_open_def approves_def)
  ultimately have a: "approve_session W (tr_now t) (tr_draws t) (as_request_uri r) r user did s = (Inr location, s')"
    using assms(3,4) by (simp add: at_authorize_def approves_def)
  have twice: "update_where (session_open uri) g (update_where (session_open uri) f ss) = update_where (session_open uri) (\<lambda>r. g (f r)) ss"
    if "\<And>r. session_open uri (f r) = session_open uri r" for uri f g ss
    using that by (intro update_where_twice) auto
  show ?thesis
    using a unfolding approve_session_def
    by (auto simp: approve_request_def store_authorization_code_def update_sessions_Inr twice session_open_def bad_def
        elim!: on_session_cases split: prod.splits sum.splits if_splits)
qed

lemma by_refresh_session:
  fixes t :: "'j at_turn"
  assumes "tr_call t = TokenCall q" "aq_grant_type q = ''refresh_token''" "aq_refresh_token q = Some secret"
    and "at_token W (tr_now t) (tr_draws t) (tr_parts t) q s = (Inr (ans, nonce), s')"
  obtains r jkt where "r \<in> set (sessions s)" "as_refresh_token_hash r = Some (refresh_hash W secret)"
    "redeems_refresh W t s r secret jkt" "as_atproto_did r = Some (ar_sub ans)"
proof -
  have "token_by_refresh W (tr_now t) (tr_draws t) (tr_parts t) q s = (Inr (ans, nonce), s')"
    using assms by (simp add: at_token_def)
  then show thesis using assms(1,2)
  proof (cases rule: by_refresh_cases)
    case (go secret' session jkt s1)
    moreover from this have "secret' = secret" using assms(1,3) by (auto simp: redeems_refresh_def)
    ultimately show thesis
      using finish_refresh_ok [OF go(4)] fetch_optional_Some [OF go(1) [unfolded find_by_refresh_token_hash_def]]
      by (intro that [of session jkt]) (auto simp: refresh_live_def)
  qed simp_all
qed



text \<open>A refresh token of a revoked session.\<close>

definition refresh_revoked :: "string \<Rightarrow> 'j at_state \<Rightarrow> bool" where
  "refresh_revoked hash s \<longleftrightarrow>
     sessions_unique (sessions s)
     \<and> (\<exists>r\<in>set (sessions s). as_refresh_token_hash r = Some hash \<and> is_set (as_revoked_at r))"

lemma list_all2_target: "list_all2 R xs ys \<Longrightarrow> x \<in> set xs \<Longrightarrow> \<exists>y\<in>set ys. R x y"
  by (induction rule: list_all2_induct) auto

lemma move_forward:
  assumes "sessions_move W t s ss" and "r \<in> set (sessions s)"
  obtains r' where "r' \<in> set ss" "row_move W t s r r'"
  using assms unfolding sessions_move_def by (fastforce dest: list_all2_target)

lemma revoked_row_kept:
  "row_move W t s r r' \<Longrightarrow> is_set (as_revoked_at r) \<Longrightarrow> as_refresh_token_hash r' = as_refresh_token_hash r \<and> is_set (as_revoked_at r')"
  by (cases rule: row_move.cases)
    (auto simp: session_revoked_def stamped_def redeems_code_def redeems_refresh_def code_live_def refresh_live_def approves_def
      split: option.splits)

interpretation revoked_refresh: lasting "at_serve W L" "refresh_revoked hash" "\<lambda>_. True" for W L hash
proof
  fix s :: "'a at_state" and t :: "'a at_turn"
  assume s: "refresh_revoked hash s"
  then obtain r where r: "r \<in> set (sessions s)" "as_refresh_token_hash r = Some hash" "is_set (as_revoked_at r)"
    by (auto simp: refresh_revoked_def)
  have u: "sessions_unique (sessions s)" using s by (simp add: refresh_revoked_def)
  obtain r' where "r' \<in> set (sessions (at_serve W L t s))" "row_move W t s r r'"
    using move_forward [OF serve_moves [OF u] r(1)] .
  then show "refresh_revoked hash (at_serve W L t s)"
    using revoked_row_kept r serve_unique [OF u] by (fastforce simp: refresh_revoked_def)
qed

lemma revoked_refresh_refused:
  assumes "refresh_revoked (refresh_hash W secret) s" and "aq_refresh_token q = Some secret"
  shows "\<exists>e. fst (token_by_refresh W now D rq q s) = Inl e"
proof -
  have "\<not> refresh_live now (refresh_hash W secret) r" if "r \<in> set (sessions s)" for r
    using assms(1) that by (auto simp: refresh_revoked_def refresh_live_def dest: sessions_unique_keys(3))
  then have "find_by_refresh_token_hash now (refresh_hash W secret) (at_db s) = None"
    by (simp add: find_by_refresh_token_hash_def fetch_optional_None)
  then show ?thesis
    using assms(2) by (auto simp: token_by_refresh_def refresh_session_def and_then_def ok_or_def Let_def split: option.splits)
qed

lemma found_refresh:
  assumes "sessions_unique (sessions s)" and "r \<in> set (sessions s)" and "refresh_live now hash r"
  shows "find_by_refresh_token_hash now hash (at_db s) = Some r"
proof -
  obtain q where q: "find_by_refresh_token_hash now hash (at_db s) = Some q"
    using fetch_optional_ex [of r "sessions s" "refresh_live now hash"] assms by (auto simp: find_by_refresh_token_hash_def)
  then show ?thesis using found_by_refresh(1) [OF assms(1) q assms(2)] assms(3) by simp
qed

lemma sessions_unique_touch:
  assumes "sessions_unique ss"
    and "\<And>r. as_request_uri (f r) = as_request_uri r \<and> as_authorization_code (f r) = as_authorization_code r
           \<and> as_access_token_jti (f r) = as_access_token_jti r \<and> as_refresh_token_hash (f r) = as_refresh_token_hash r"
  shows "sessions_unique (update_where P f ss)"
proof -
  have "set_values col (update_where P f ss) = set_values col ss" if "\<And>r. col (f r) = col r" for col :: "atproto_session \<Rightarrow> string option"
    using that by (induction ss) (auto simp: update_where_def split: option.splits)
  moreover have "map as_request_uri (update_where P f ss) = map as_request_uri ss"
    using assms(2) by (simp add: update_where_def)
  ultimately show ?thesis using assms by (simp add: sessions_unique_def)
qed

text \<open>
  An outage of the client's own web server ends its sessions. When a confidential client refreshes and its
  metadata document cannot be fetched at that moment, the answer is an error, and the session is revoked for
  good: from then on, whatever is served, the refresh token is refused.
\<close>

theorem metadata_outage_revokes_session:
  assumes "sessions_unique (sessions s)" and "r \<in> set (sessions s)" and "refresh_live now (refresh_hash W secret) r"
    and "as_client_auth_method r = ''private_key_jwt''" and "fetch_client_metadata W D (as_client_id r) True = Inl e"
    and q: "aq_grant_type q = ''refresh_token''" "aq_refresh_token q = Some secret" "aq_client_id q = Some (as_client_id r)"
  shows "\<exists>s1. at_token W now D rq q s = (Inl e, s1)
    \<and> (\<exists>e'. fst (at_token W now' D' rq' q (fold (at_serve W L) ts s1)) = Inl e')"
proof -
  let ?h = "refresh_hash W secret"
  let ?P = "\<lambda>r. as_refresh_token_hash r = Some ?h \<and> \<not> is_set (as_refresh_token_revoked_at r)"
  let ?f = "\<lambda>r. r\<lparr>as_refresh_token_revoked_at := Some now, as_revoked_at := stamped now (as_revoked_at r), as_updated_at := now\<rparr>"
  let ?s1 = "put_at_db ((at_db s)\<lparr>db_atproto_sessions := update_where ?P ?f (sessions s)\<rparr>) s"
  have u: "sessions_unique (update_where ?P ?f (sessions s))" by (rule sessions_unique_touch [OF assms(1)]) simp
  have "revoke_refresh_session now ?h (at_db s)
      = Inr (map_option ?f (fetch_optional ?P (sessions s)), (at_db s)\<lparr>db_atproto_sessions := update_where ?P ?f (sessions s)\<rparr>)"
    unfolding revoke_refresh_session_def using u by (simp add: update_sessions_def Let_def)
  then have t: "at_token W now D rq q s = (Inl e, ?s1)"
    using q found_refresh [OF assms(1-3)] assms(4,5)
    by (simp add: at_token_def token_by_refresh_def refresh_session_def refresh_exchange_def enforce_session_client_binding_def
        ignore_result_def put_at_db_def Let_def)
  have "?f r \<in> set (update_where ?P ?f (sessions s))"
    using assms(2,3) by (auto simp: update_where_def refresh_live_def)
  then have "refresh_revoked ?h ?s1"
    using u assms(3)
    by (auto simp: refresh_revoked_def put_at_db_def refresh_live_def stamped_def split: option.splits intro!: bexI [of _ "?f r"])
  then have "refresh_revoked ?h (fold (at_serve W L) ts ?s1)" by (rule revoked_refresh.run_keeps) simp
  from revoked_refresh_refused [OF this q(2)] t q(1) show ?thesis by (intro exI [of _ ?s1]) (simp add: at_token_def)
qed

theorem metadata_outage_revokes_session_witness:
  "\<exists>s1. at_token AT0 1040000000 (at_drawn ''7'') (at_parts [] ''refresh'') at_refresh_request (rows_state [confidential_row])
       = (Inl (AcBadRequest ''Failed to fetch client metadata document: timed out''), s1)
     \<and> (\<exists>e'. fst (at_token AT0 1050000000 (at_drawn ''8'') (at_parts [] ''refresh'') at_refresh_request (fold (at_serve AT0 LK0) [approve_turn] s1)) = Inl e')"
proof -
  let ?r = confidential_row
  have row: "?r \<in> set (sessions (rows_state [confidential_row]))" by (simp add: sample_rows)
  have facts: "sessions_unique (sessions (rows_state [confidential_row]))" "refresh_live 1040000000 (refresh_hash AT0 ''refresh3'') ?r"
      "as_client_auth_method ?r = ''private_key_jwt''"
      "fetch_client_metadata AT0 (at_drawn ''7'') (as_client_id ?r) True
         = Inl (AcBadRequest ''Failed to fetch client metadata document: timed out'')"
      "aq_grant_type at_refresh_request = ''refresh_token''" "aq_refresh_token at_refresh_request = Some ''refresh3''"
      "aq_client_id at_refresh_request = Some (as_client_id ?r)" by code_simp+
  show ?thesis by (rule metadata_outage_revokes_session [OF facts(1) row facts(2-7)])
qed

text \<open>
  An exchange never looks at the users again: whatever has become of the account since the approval, not ready,
  failed or another identity, the answer is the same.
\<close>

definition with_users :: "user list \<Rightarrow> 'j at_state \<Rightarrow> 'j at_state" where
  "with_users us s = put_at_db ((at_db s)\<lparr>db_users := us\<rparr>) s"

lemma with_users_simps [simp]:
  "sessions (with_users us s) = sessions s" "at_dpop_seen (with_users us s) = at_dpop_seen s"
  "at_assertions_seen (with_users us s) = at_assertions_seen s"
  "at_db (with_users us s) = (at_db s)\<lparr>db_users := us\<rparr>"
  "with_users us s\<lparr>at_dpop_seen := seen\<rparr> = with_users us (s\<lparr>at_dpop_seen := seen\<rparr>)"
  "with_users us s\<lparr>at_assertions_seen := used\<rparr> = with_users us (s\<lparr>at_assertions_seen := used\<rparr>)"
  "with_users us s\<lparr>at_db := d\<lparr>db_users := us\<rparr>\<rparr> = with_users us (s\<lparr>at_db := d\<rparr>)"
  by (simp_all add: with_users_def put_at_db_def)

lemma update_sessions_with_users:
  "update_sessions now P f (d\<lparr>db_users := us\<rparr>) = map_sum id (apsnd (\<lambda>d. d\<lparr>db_users := us\<rparr>)) (update_sessions now P f d)"
  by (simp add: update_sessions_def Let_def)

lemma on_session_with_users:
  "on_session none (map_sum id (apsnd (\<lambda>d. d\<lparr>db_users := us\<rparr>)) r) (with_users us s) = apsnd (with_users us) (on_session none r s)"
  by (auto simp: on_session_def split: sum.splits prod.splits option.splits)

lemma session_proof_with_users:
  "session_proof W now rq m n r (with_users us s) = apsnd (with_users us) (session_proof W now rq m n r s)"
  by (auto simp: session_proof_def split: option.splits prod.splits)

lemma finish_with_users:
  "finish_code W now D code r jkt (with_users us s) = apsnd (with_users us) (finish_code W now D code r jkt s)"
  "finish_refresh W now D hash r jkt (with_users us s) = apsnd (with_users us) (finish_refresh W now D hash r jkt s)"
proof -
  obtain x s1 where x: "on_session ''Unknown or expired authorization code'' (consume_authorization_code now code (at_db s)) s = (x, s1)"
    by fastforce
  then show "finish_code W now D code r jkt (with_users us s) = apsnd (with_users us) (finish_code W now D code r jkt s)"
    by (auto simp: finish_code_def consume_authorization_code_def store_token_artifacts_def update_sessions_with_users on_session_with_users
        split: sum.splits prod.splits)
  show "finish_refresh W now D hash r jkt (with_users us s) = apsnd (with_users us) (finish_refresh W now D hash r jkt s)"
    by (auto simp: finish_refresh_def rotate_refresh_token_def update_sessions_with_users on_session_with_users
        split: sum.splits prod.splits)
qed

lemma ignore_result_with_users:
  "ignore_result (map_sum id (apsnd (\<lambda>d. d\<lparr>db_users := us\<rparr>)) r) (with_users us s) = with_users us (ignore_result r s)"
  by (auto simp: ignore_result_def split: sum.splits prod.splits)

lemma exchange_with_users:
  "code_exchange W now D rq q code verifier r (with_users us s) = apsnd (with_users us) (code_exchange W now D rq q code verifier r s)"
  "refresh_exchange W now D rq q hash r (with_users us s) = apsnd (with_users us) (refresh_exchange W now D rq q hash r s)"
  by (auto simp: code_exchange_def refresh_exchange_def revoke_session_def revoke_refresh_session_def update_sessions_with_users
      ignore_result_with_users session_proof_with_users finish_with_users Let_def split: sum.splits prod.splits)

theorem exchange_ignores_account: "at_token W now D rq q (with_users us s) = apsnd (with_users us) (at_token W now D rq q s)"
  by (auto simp: at_token_def token_by_code_def token_by_refresh_def code_session_def refresh_session_def
      find_by_authorization_code_def find_by_refresh_token_hash_def exchange_with_users split: sum.splits prod.splits)

section \<open>The whole flow\<close>

lemma sessions_unique_last:
  "sessions_unique (ss @ [n]) \<longleftrightarrow>
     sessions_unique ss
     \<and> (\<forall>r\<in>set ss. as_request_uri r \<noteq> as_request_uri n
         \<and> (is_set (as_authorization_code n) \<longrightarrow> as_authorization_code r \<noteq> as_authorization_code n)
         \<and> (is_set (as_access_token_jti n) \<longrightarrow> as_access_token_jti r \<noteq> as_access_token_jti n)
         \<and> (is_set (as_refresh_token_hash n) \<longrightarrow> as_refresh_token_hash r \<noteq> as_refresh_token_hash n))"
  by (auto simp: sessions_unique_def in_set_values is_set_iff image_iff eq_commute [of "as_request_uri n"] split: option.splits)

lemma update_sessions_last:
  assumes "db_atproto_sessions d = ss @ [n]" and "\<forall>r\<in>set ss. \<not> P r" and "P n"
    and "sessions_unique (ss @ [(f n)\<lparr>as_updated_at := now\<rparr>])"
  shows "update_sessions now P f d = Inr (Some ((f n)\<lparr>as_updated_at := now\<rparr>),
           d\<lparr>db_atproto_sessions := ss @ [(f n)\<lparr>as_updated_at := now\<rparr>]\<rparr>)"
  using assms by (simp add: update_sessions_def Let_def update_where_last fetch_optional_last)

text \<open>A public client: it has no metadata document and sends no assertion.\<close>

definition public_client :: "'j at_world \<Rightarrow> par_request \<Rightarrow> bool" where
  "public_client W q \<longleftrightarrow>
     metadata_document_url W (pr_client_id q) False = Inr None \<and> pr_client_assertion_type q = None \<and> pr_client_assertion q = None"

lemma public_binding: "public_client W q \<Longrightarrow> validate_par_client_binding W now D q seen = (Inr NoClientAuth, seen)"
  by (simp add: public_client_def validate_par_client_binding_def fetch_client_metadata_def unexpected_client_assertion_def)

definition request_uri_of :: "'j at_draws \<Rightarrow> string" where
  "request_uri_of D = ''urn:ietf:params:oauth:request_uri:'' @ rd_request D"

lemma par_completes:
  assumes "str_trim (pr_scope q) = ''atproto''" and "public_client W q"
    and "validate_dpop_proof W now rq ''POST'' PAR_PATH_SUFFIX None None (at_dpop_seen s) = (Inr jkt, seen)"
    and "at_request_domain W rq = Inr domain" "get_or_create_tenant (at_tenants W) now domain (at_tenant_table s) = (Some (Inr tn), table)"
    and "sessions_unique (sessions s)" "\<forall>r\<in>set (sessions s). as_request_uri r \<noteq> request_uri_of D" "list_all visible_ascii (rd_nonce D)"
  obtains s1 n where "par W now D rq q s = (Some (Inr (\<lparr>pr_request_uri = request_uri_of D, pr_expires_in = 600\<rparr>, rd_nonce D)), s1)"
    "sessions s1 = sessions s @ [n]" "db_users (at_db s1) = db_users (at_db s)" "at_dpop_seen s1 = seen"
    "\<exists>i. n = session_row now i (pushed_session now D q (tn_id tn) jkt NoClientAuth)"
proof -
  define s0 where "s0 = put_tenant table tn (s\<lparr>at_dpop_seen := seen\<rparr>)"
  define p where "p = pushed_session now D q (tn_id tn) jkt NoClientAuth"
  define n where "n = session_row now (db_atproto_sessions_seq (at_db s0)) p"
  have t: "request_tenant_id W now rq (s\<lparr>at_dpop_seen := seen\<rparr>) = (Some (Inr (tn_id tn)), s0)"
    using assms(4,5) by (simp add: request_tenant_id_def s0_def)
  have f: "sessions s0 = sessions s" "db_users (at_db s0) = db_users (at_db s)" "at_dpop_seen s0 = seen" "tn_id tn \<in> set (db_tenants (at_db s0))"
    by (simp_all add: s0_def put_tenant_def)
  have "cs_request_uri p = request_uri_of D" by (simp add: p_def pushed_session_def request_uri_of_def)
  then have u: "sessions_unique (sessions s0 @ [n])"
    using assms(6,7) by (auto simp: sessions_unique_last f n_def session_row_def)
  have c: "create_par now p (at_db s0) = (Inr n, (at_db s0)\<lparr>db_atproto_sessions := sessions s @ [n],
      db_atproto_sessions_seq := db_atproto_sessions_seq (at_db s0) + 1\<rparr>)"
    using u f(4) by (simp add: create_par_def Let_def f(1) flip: n_def) (simp add: p_def pushed_session_def)
  show thesis
  proof (rule that)
    show "par W now D rq q s = (Some (Inr (\<lparr>pr_request_uri = request_uri_of D, pr_expires_in = 600\<rparr>, rd_nonce D)),
        s0\<lparr>at_db := (at_db s0)\<lparr>db_atproto_sessions := sessions s @ [n], db_atproto_sessions_seq := db_atproto_sessions_seq (at_db s0) + 1\<rparr>\<rparr>)"
      using assms(1,3,8) public_binding [OF assms(2)] t c \<open>cs_request_uri p = request_uri_of D\<close>
      by (simp add: par_def Let_def response_with_dpop_nonce_def at_constants flip: p_def)
  qed (use f in \<open>auto simp: n_def p_def\<close>)
qed

text \<open>The last row after its approval, and after the exchange of its code.\<close>

definition approved_row :: "timestamp \<Rightarrow> 'j at_draws \<Rightarrow> pubkey \<Rightarrow> string \<Rightarrow> atproto_session \<Rightarrow> atproto_session" where
  "approved_row now D user did n =
     n\<lparr>as_user_pubkey := Some user, as_atproto_did := Some did, as_approved_at := Some now, as_authorization_code := Some (rd_code D),
       as_authorization_code_expires_at := Some (now + minutes 5), as_updated_at := now\<rparr>"

lemma authorize_completes:
  assumes "sessions s = ss @ [n]" "as_request_uri n = uri" "\<not> is_set (as_revoked_at n)" "now < as_par_expires_at n" "sessions_unique (sessions s)"
    and "extract_user_from_token (at_http W) now rq (as_tenant_id n) = Inr user"
    and "ready_atproto_identity (as_tenant_id n) user (at_db s) = Some did"
    and "\<forall>r\<in>set ss. as_authorization_code r \<noteq> Some (rd_code D)" and "link_parse W (as_redirect_uri n) = Inr l"
  obtains location s1 where "at_authorize W now D rq uri s = (Inr location, s1)" "sessions s1 = ss @ [approved_row now D user did n]"
    "at_dpop_seen s1 = at_dpop_seen s" "at_assertions_seen s1 = at_assertions_seen s"
proof -
  have last: "\<forall>r\<in>set ss. \<not> session_open uri r" "session_open uri n"
    using assms(1-3,5) by (auto simp: sessions_unique_last session_open_def)
  have user: "exists_row (\<lambda>u. us_pubkey u = user) (db_users (at_db s))"
    using assms(7) by (auto simp: ready_atproto_identity_def exists_row_iff bind_eq_Some_conv dest!: fetch_optional_Some)
  define a where "a = n\<lparr>as_user_pubkey := Some user, as_atproto_did := Some did, as_approved_at := Some now, as_updated_at := now\<rparr>"
  define d1 where "d1 = (at_db s)\<lparr>db_atproto_sessions := ss @ [a]\<rparr>"
  have u1: "sessions_unique (ss @ [a])" "sessions_unique (ss @ [approved_row now D user did n])"
    using assms(1,5,8) by (auto simp: sessions_unique_last a_def approved_row_def)
  have 1: "approve_request now uri user did (at_db s) = Inr (Some a, d1)"
    unfolding approve_request_def using user update_sessions_last [OF assms(1) last] u1(1) by (simp add: a_def d1_def)
  have a: "session_open uri a" using last(2) by (simp add: a_def session_open_def)
  have "(a\<lparr>as_authorization_code := Some (rd_code D), as_authorization_code_expires_at := Some (now + minutes 5)\<rparr>)\<lparr>as_updated_at := now\<rparr>
      = approved_row now D user did n" by (simp add: a_def approved_row_def)
  then have 2: "store_authorization_code now uri (rd_code D) (now + minutes AUTH_CODE_EXPIRY_MINUTES) d1
      = Inr (Some (approved_row now D user did n), d1\<lparr>db_atproto_sessions := ss @ [approved_row now D user did n]\<rparr>)"
    unfolding store_authorization_code_def using update_sessions_last [of d1 ss a, OF _ last(1) a] u1(2)
    by (simp add: d1_def at_constants)
  have find: "session_find_by_request_uri uri (at_db s) = Some n"
    using fetch_optional_last [OF last] assms(1) by (simp add: session_find_by_request_uri_def)
  obtain location where "code_redirect W n (rd_code D) = Inr location" using assms(9) by (simp add: code_redirect_def)
  then show thesis
    using that [of location "s\<lparr>at_db := d1\<lparr>db_atproto_sessions := ss @ [approved_row now D user did n]\<rparr>\<rparr>"] find 1 2 assms(4,6,7)
    by (simp add: at_authorize_def approve_session_def on_session_def d1_def)
qed

lemma exchange_completes:
  assumes "sessions s = ss @ [n]" "sessions_unique (sessions s)" "code_live now code n" "as_atproto_did n = Some did"
    "as_client_auth_method n = ''none''" "as_code_challenge_method n = Some ''S256''" "as_code_challenge n = Some (pkce_challenge W verifier)"
    "as_dpop_nonce n = Some nonce" "as_dpop_jkt n = Some jkt"
    and q: "aq_grant_type q = ''authorization_code''" "aq_code q = Some code" "aq_client_id q = Some (as_client_id n)"
      "aq_redirect_uri q = Some (as_redirect_uri n)" "aq_code_verifier q = Some verifier"
      "aq_client_assertion_type q = None" "aq_client_assertion q = None"
    and "validate_dpop_proof W now rq ''POST'' TOKEN_PATH_SUFFIX (Some nonce) None (at_dpop_seen s) = (Inr jkt, seen)"
    and "create_access_token W did (rd_jti D) jkt = Inr tok" "list_all visible_ascii (rd_nonce D)"
    and "\<forall>r\<in>set ss. as_access_token_jti r \<noteq> Some (rd_jti D) \<and> as_refresh_token_hash r \<noteq> Some (refresh_hash W (rd_refresh D))"
  shows "\<exists>s1. at_token W now D rq q s
    = (Inr (\<lparr>ar_access_token = tok, ar_token_type = ''DPoP'', ar_expires_in = 900, ar_refresh_token = rd_refresh D, ar_scope = ''atproto'',
             ar_sub = did\<rparr>, rd_nonce D), s1)"
proof -
  have code: "as_authorization_code n = Some code" "\<not> is_set (as_revoked_at n)" using assms(3) by (simp_all add: code_live_def)
  have other: "\<forall>r\<in>set ss. \<not> code_live now code r" "\<forall>r\<in>set ss. \<not> session_open (as_request_uri n) r"
    using assms(1,2) code by (auto simp: sessions_unique_last code_live_def session_open_def)
  have find: "find_by_authorization_code now code (at_db s) = Some n"
    using fetch_optional_last [OF other(1) assms(3)] assms(1) by (simp add: find_by_authorization_code_def)
  define c where "c = n\<lparr>as_authorization_code := None, as_authorization_code_expires_at := None, as_updated_at := now\<rparr>"
  define d1 where "d1 = (at_db s)\<lparr>db_atproto_sessions := ss @ [c]\<rparr>"
  have "sessions_unique (ss @ [c])" using assms(1,2) by (auto simp: sessions_unique_last c_def)
  then have 1: "consume_authorization_code now code (at_db s) = Inr (Some c, d1)"
    unfolding consume_authorization_code_def using update_sessions_last [OF assms(1) other(1) assms(3)] by (simp add: c_def d1_def)
  have c: "session_open (as_request_uri n) c" using code by (simp add: c_def session_open_def)
  let ?p = "issued_tokens W now D code now jkt"
  have "sessions_unique (ss @ [(c\<lparr>as_authorization_code := Some code, as_authorization_code_expires_at := Some now,
      as_access_token_jti := Some (rd_jti D), as_access_token_expires_at := Some (now + minutes ACCESS_TOKEN_EXPIRY_MINUTES),
      as_refresh_token_hash := Some (refresh_hash W (rd_refresh D)),
      as_refresh_token_expires_at := Some (now + days AT_REFRESH_TOKEN_EXPIRY_DAYS),
      as_dpop_jkt := Some jkt, as_dpop_nonce := Some (rd_nonce D)\<rparr>)\<lparr>as_updated_at := now\<rparr>])"
    using assms(1,2,20) code by (auto simp: sessions_unique_last c_def)
  then obtain y d2 where 2: "store_token_artifacts now (as_request_uri n) ?p d1 = Inr (y, d2)"
    unfolding store_token_artifacts_def using update_sessions_last [of d1 ss c, OF _ other(2) c]
    by (simp add: d1_def issued_tokens_def)
  have pk: "pkce_checked W n verifier = Inr ()" using assms(6,7) by (simp add: pkce_checked_def)
  have pr: "session_proof W now rq m m' n s = (Inr jkt, s\<lparr>at_dpop_seen := seen\<rparr>)" for m m'
    using assms(8,9,17) by (simp add: session_proof_def)
  have fin: "\<exists>s1. finish_code W now D code n jkt (s\<lparr>at_dpop_seen := seen\<rparr>) = (token_answer D tok did, s1)"
    using 1 2 assms(4,18) by (simp add: finish_code_def on_session_def)
  show ?thesis
    using fin find q assms(5,19) pk pr
    by (simp add: at_token_def token_by_code_def code_fields_def code_session_def code_exchange_def enforce_session_client_binding_def
        unexpected_client_assertion_def token_answer_def response_with_dpop_nonce_def at_constants)
qed

text \<open>
  C16. The flow of a public AT client completes. A request pushed with a valid proof, opened within ten minutes by a
  user with a session and a ready account, and exchanged within five minutes with the verifier of its challenge and
  a proof of the same key under the nonce it was given, ends with an access token for the user's account and a
  refresh token, when the random values are fresh and the server can sign.
\<close>

theorem at_flow_completes:
  fixes D1 D2 D3 :: "'j at_draws"
  assumes push: "str_trim (pr_scope q) = ''atproto''" "public_client W q"
      "validate_dpop_proof W t1 rq1 ''POST'' PAR_PATH_SUFFIX None None (at_dpop_seen s) = (Inr jkt, seen1)"
      "at_request_domain W rq1 = Inr domain" "get_or_create_tenant (at_tenants W) t1 domain (at_tenant_table s) = (Some (Inr tn), table)"
      "list_all visible_ascii (rd_nonce D1)"
    and approve: "t2 < t1 + minutes 10" "extract_user_from_token (at_http W) t2 rq2 (tn_id tn) = Inr user"
      "ready_atproto_identity (tn_id tn) user (at_db s) = Some did" "link_parse W (pr_redirect_uri q) = Inr link"
    and exchange: "t3 < t2 + minutes 5" "pr_code_challenge_method q = Some ''S256''" "pr_code_challenge q = Some (pkce_challenge W verifier)"
      "validate_dpop_proof W t3 rq3 ''POST'' TOKEN_PATH_SUFFIX (Some (rd_nonce D1)) None seen1 = (Inr jkt, seen3)"
      "create_access_token W did (rd_jti D3) jkt = Inr tok" "list_all visible_ascii (rd_nonce D3)"
    and fresh: "sessions_unique (sessions s)"
      "\<forall>r\<in>set (sessions s). as_request_uri r \<noteq> request_uri_of D1 \<and> as_authorization_code r \<noteq> Some (rd_code D2)
         \<and> as_access_token_jti r \<noteq> Some (rd_jti D3) \<and> as_refresh_token_hash r \<noteq> Some (refresh_hash W (rd_refresh D3))"
  shows "\<exists>s1 s2 s3 location.
      par W t1 D1 rq1 q s = (Some (Inr (\<lparr>pr_request_uri = request_uri_of D1, pr_expires_in = 600\<rparr>, rd_nonce D1)), s1)
    \<and> at_authorize W t2 D2 rq2 (request_uri_of D1) s1 = (Inr location, s2)
    \<and> at_token W t3 D3 rq3
        \<lparr>aq_grant_type = ''authorization_code'', aq_code = Some (rd_code D2), aq_client_id = Some (pr_client_id q),
         aq_redirect_uri = Some (pr_redirect_uri q), aq_code_verifier = Some verifier, aq_refresh_token = None,
         aq_client_assertion_type = None, aq_client_assertion = None\<rparr> s2
      = (Inr (\<lparr>ar_access_token = tok, ar_token_type = ''DPoP'', ar_expires_in = 900, ar_refresh_token = rd_refresh D3,
               ar_scope = ''atproto'', ar_sub = did\<rparr>, rd_nonce D3), s3)"
proof -
  have uris: "\<forall>r\<in>set (sessions s). as_request_uri r \<noteq> request_uri_of D1" using fresh(2) by blast
  obtain s1 n where p: "par W t1 D1 rq1 q s = (Some (Inr (\<lparr>pr_request_uri = request_uri_of D1, pr_expires_in = 600\<rparr>, rd_nonce D1)), s1)"
      "sessions s1 = sessions s @ [n]" "db_users (at_db s1) = db_users (at_db s)" "at_dpop_seen s1 = seen1"
    and "\<exists>i. n = session_row t1 i (pushed_session t1 D1 q (tn_id tn) jkt NoClientAuth)"
    using par_completes [OF push(1-5) fresh(1) uris push(6)] .
  then obtain i where n: "n = session_row t1 i (pushed_session t1 D1 q (tn_id tn) jkt NoClientAuth)" by blast
  have nf: "as_request_uri n = request_uri_of D1" "\<not> is_set (as_revoked_at n)" "as_par_expires_at n = t1 + minutes 10"
      "as_tenant_id n = tn_id tn" "as_redirect_uri n = pr_redirect_uri q" "as_client_id n = pr_client_id q"
      "as_client_auth_method n = ''none''" "as_code_challenge_method n = pr_code_challenge_method q"
      "as_code_challenge n = pr_code_challenge q" "as_dpop_nonce n = Some (rd_nonce D1)" "as_dpop_jkt n = Some jkt"
      "as_access_token_jti n = None" "as_refresh_token_hash n = None" "as_authorization_code n = None"
    by (simp_all add: n session_row_def pushed_session_def request_uri_of_def at_constants)
  have u1: "sessions_unique (sessions s1)" using fresh nf by (auto simp: p(2) sessions_unique_last)
  have ready: "ready_atproto_identity (as_tenant_id n) user (at_db s1) = Some did"
    using approve(3) by (simp add: ready_atproto_identity_def nf p(3))
  have open1: "t2 < as_par_expires_at n" "extract_user_from_token (at_http W) t2 rq2 (as_tenant_id n) = Inr user"
      "\<forall>r\<in>set (sessions s). as_authorization_code r \<noteq> Some (rd_code D2)" "link_parse W (as_redirect_uri n) = Inr link"
    using approve fresh(2) nf by simp_all
  obtain location s2 where a: "at_authorize W t2 D2 rq2 (request_uri_of D1) s1 = (Inr location, s2)"
      "sessions s2 = sessions s @ [approved_row t2 D2 user did n]" "at_dpop_seen s2 = at_dpop_seen s1"
    using authorize_completes [OF p(2) nf(1,2) open1(1) u1 open1(2) ready open1(3,4)] by metis
  have u2: "sessions_unique (sessions s2)" using fresh nf by (auto simp: a(2) sessions_unique_last approved_row_def)
  have live: "code_live t3 (rd_code D2) (approved_row t2 D2 user did n)"
    using exchange(1) nf(2) by (simp add: code_live_def approved_row_def)
  let ?q = "\<lparr>aq_grant_type = ''authorization_code'', aq_code = Some (rd_code D2), aq_client_id = Some (pr_client_id q),
      aq_redirect_uri = Some (pr_redirect_uri q), aq_code_verifier = Some verifier, aq_refresh_token = None,
      aq_client_assertion_type = None, aq_client_assertion = None\<rparr>"
  have "\<exists>s3. at_token W t3 D3 rq3 ?q s2
      = (Inr (\<lparr>ar_access_token = tok, ar_token_type = ''DPoP'', ar_expires_in = 900, ar_refresh_token = rd_refresh D3,
               ar_scope = ''atproto'', ar_sub = did\<rparr>, rd_nonce D3), s3)"
    using exchange fresh(2) nf
    by (intro exchange_completes [OF a(2) u2 live, where nonce = "rd_nonce D1" and verifier = verifier and jkt = jkt and seen = seen3])
      (simp_all add: approved_row_def a(3) p(4))
  with p(1) a(1) show ?thesis by blast
qed

theorem at_flow_completes_witness:
  "\<exists>s1 s2 s3 location.
      par AT0 1000000000 (at_drawn ''1'') (at_parts [] ''push'') sample_push at_start
        = (Some (Inr (\<lparr>pr_request_uri = request_uri_of (at_drawn ''1''), pr_expires_in = 600\<rparr>, rd_nonce (at_drawn ''1''))), s1)
    \<and> at_authorize AT0 1010000000 (at_drawn ''1'') (at_parts ''alice'' []) (request_uri_of (at_drawn ''1'')) s1 = (Inr location, s2)
    \<and> fst (at_token AT0 1020000000 (at_drawn ''3'') (at_parts [] ''exchange'') (sample_exchange ''1'') s2)
        = Inr (sample_answer ''3'' ''did:plc:alice'', rd_nonce (at_drawn ''3''))"
proof -
  let ?p1 = "validate_dpop_proof AT0 1000000000 (at_parts [] ''push'') ''POST'' PAR_PATH_SUFFIX None None (at_dpop_seen at_start)"
  let ?p2 = "validate_dpop_proof AT0 1020000000 (at_parts [] ''exchange'') ''POST'' TOKEN_PATH_SUFFIX (Some (rd_nonce (at_drawn ''1''))) None (snd ?p1)"
  let ?t = "get_or_create_tenant (at_tenants AT0) 1000000000 ''localhost'' (at_tenant_table at_start)"
  let ?tn = "\<lparr>tn_id = 1, tn_domain = ''localhost'', tn_name = tn_name (projr (the (fst ?t))), tn_settings = Some ''{}'', tn_created_at = 1000000000,
      tn_updated_at = 1000000000\<rparr>"
  let ?jkt = "dpop_jwk_thumbprint AT0 (dh_jwk sample_dpop_key)"
  have "fst ?p1 = Inr ?jkt" "fst ?p2 = Inr ?jkt" by code_simp+
  note proofs = this [THEN answered(1)]
  have "fst ?t = Some (Inr ?tn)" by code_simp
  then have tenant: "?t = (Some (Inr ?tn), snd ?t)" by (simp add: prod_eq_iff)
  have push: "str_trim (pr_scope sample_push) = ''atproto''" "public_client AT0 sample_push"
      "at_request_domain AT0 (at_parts [] ''push'') = Inr ''localhost''" "list_all visible_ascii (rd_nonce (at_drawn ''1''))" by code_simp+
  have approve: "1010000000 < 1000000000 + minutes 10" "extract_user_from_token (at_http AT0) 1010000000 (at_parts ''alice'' []) (tn_id ?tn) = Inr ''alice''"
      "ready_atproto_identity (tn_id ?tn) ''alice'' (at_db at_start) = Some ''did:plc:alice''"
      "link_parse AT0 (pr_redirect_uri sample_push) = Inr \<lparr>wl_scheme = ''https'', wl_host = Some ''app.example/cb'', wl_port = None,
         wl_path = ''/'', wl_query = None, wl_fragment = None\<rparr>" by code_simp+
  have exchange: "1020000000 < 1010000000 + minutes 5" "pr_code_challenge_method sample_push = Some ''S256''"
      "pr_code_challenge sample_push = Some (pkce_challenge AT0 ''verifier'')"
      "create_access_token AT0 ''did:plc:alice'' (rd_jti (at_drawn ''3'')) ?jkt = Inr ''for did:plc:alice''"
      "list_all visible_ascii (rd_nonce (at_drawn ''3''))" by code_simp+
  have fresh: "sessions_unique (sessions at_start)"
      "\<forall>r\<in>set (sessions at_start). as_request_uri r \<noteq> request_uri_of (at_drawn ''1'') \<and> as_authorization_code r \<noteq> Some (rd_code (at_drawn ''1''))
         \<and> as_access_token_jti r \<noteq> Some (rd_jti (at_drawn ''3'')) \<and> as_refresh_token_hash r \<noteq> Some (refresh_hash AT0 (rd_refresh (at_drawn ''3'')))"
    by code_simp+
  have same: "sample_exchange ''1'' = \<lparr>aq_grant_type = ''authorization_code'', aq_code = Some (rd_code (at_drawn ''1'')),
      aq_client_id = Some (pr_client_id sample_push), aq_redirect_uri = Some (pr_redirect_uri sample_push), aq_code_verifier = Some ''verifier'',
      aq_refresh_token = None, aq_client_assertion_type = None, aq_client_assertion = None\<rparr>"
    "sample_answer ''3'' ''did:plc:alice'' = \<lparr>ar_access_token = ''for did:plc:alice'', ar_token_type = ''DPoP'', ar_expires_in = 900,
      ar_refresh_token = rd_refresh (at_drawn ''3''), ar_scope = ''atproto'', ar_sub = ''did:plc:alice''\<rparr>" by code_simp+
  show ?thesis
    using at_flow_completes [OF push(1,2) proofs(1) push(3) tenant push(4) approve exchange(1-3) proofs(2) exchange(4,5) fresh]
    unfolding same by (metis fst_conv)
qed

end
