(* ===== verification/Emails.thy ===== *)
theory Emails
  imports AdminApi
begin

text \<open>
  The mails of the system: \<open>api/src/email_service.rs\<close> with its templates, the three senders and their
  selection, and the public profile a mail shows (\<open>api/src/nostr_profile.rs\<close>). The environment, the date
  format, Unicode case and what the providers answer are parameters.
\<close>

section \<open>Values in templates\<close>

record mail_env =
  base_url_env :: "string option"
  mail_app_url_env :: "string option"
  reset_base_url_env :: "string option"
  from_email_env :: "string option"
  from_name_env :: "string option"
  disable_emails_env :: bool
  email_provider_env :: "string option"
  sendgrid_key_env :: "string option"
  aws_feature :: bool
  mail_date :: "timestamp \<Rightarrow> string"
  uppercase_other :: "string \<Rightarrow> string"

definition nl :: string where "nl = [CHR 0x0A]"

fun mail_escape_char :: "char \<Rightarrow> string" where
  "mail_escape_char c =
     (if c = CHR ''&'' then ''&amp;'' else if c = CHR ''<'' then ''&lt;'' else if c = CHR ''>'' then ''&gt;''
      else if c = CHR 0x22 then ''&quot;'' else if c = CHR 0x27 then ''&#39;'' else [c])"

definition mail_escape :: "string \<Rightarrow> string" where
  "mail_escape s = concat (map mail_escape_char s)"

definition safe_http_url :: "string \<Rightarrow> string option" where
  "safe_http_url raw =
     (let trimmed = str_trim raw
      in if starts_with trimmed ''https://'' \<or> starts_with trimmed ''http://'' then Some (mail_escape trimmed) else None)"

text \<open>A string is its UTF-8 bytes; \<open>uppercase_other\<close> is the upper case of a first character that is not ASCII.\<close>

definition to_ascii_upper :: "char \<Rightarrow> char" where
  "to_ascii_upper c = (let n = (of_char c :: nat) in if 97 \<le> n \<and> n \<le> 122 then char_of (n - 32) else c)"

definition title_case_role :: "mail_env \<Rightarrow> string \<Rightarrow> string" where
  "title_case_role E role =
     (case role of
        [] \<Rightarrow> []
      | first # rest \<Rightarrow> (if (of_char first :: nat) < 128 then to_ascii_upper first # rest else uppercase_other E role))"

definition password_reset_base_url :: "mail_env \<Rightarrow> string \<Rightarrow> string" where
  "password_reset_base_url E base_url = (case reset_base_url_env E of Some u \<Rightarrow> u | None \<Rightarrow> base_url)"

section \<open>Templates\<close>

definition basic_email_html :: "string \<Rightarrow> string \<Rightarrow> string \<Rightarrow> string \<Rightarrow> string \<Rightarrow> string" where
  \<open>basic_email_html heading intro cta_label cta_url footer_note =
     str_join nl
       [''<!doctype html>'',
        ''<html>'',
        ''<body style="margin:0; padding:0; background:#f5f5f5; font-family:-apple-system,BlinkMacSystemFont,'Segoe UI',Roboto,sans-serif; color:#111;">'',
        ''  <div style="max-width:520px; margin:0 auto; padding:32px 20px;">'',
        ''    <div style="text-align:center; margin-bottom:24px;">'',
        ''      <span style="color:#00B488; font-size:20px; font-weight:600; letter-spacing:0.2px;">Synvya</span>'',
        ''    </div>'',
        ''    <h2 style="text-align:center; margin:0 0 16px; font-size:20px; font-weight:600;">'' @ mail_escape heading @ ''</h2>'',
        ''    <p style="text-align:center; color:#444; font-size:15px; line-height:1.5; margin:0 12px 28px;">'' @ mail_escape intro @ ''</p>'',
        ''    <div style="margin:0 0 28px; text-align:center;">'',
        ''      <a href="'' @ mail_escape cta_url @ ''" style="display:inline-block; background:#00B488; color:#fff; padding:14px 36px; text-decoration:none; border-radius:8px; font-weight:600; font-size:15px;">'' @ mail_escape cta_label @ ''</a>'',
        ''    </div>'',
        ''    <p style="color:#666; font-size:13px; text-align:center; line-height:1.5; margin:0 8px;">'',
        ''      Or copy and paste this link into your browser:<br>'',
        ''      <a href="'' @ mail_escape cta_url @ ''" style="color:#00B488; word-break:break-all;">'' @ mail_escape cta_url @ ''</a>'',
        ''    </p>'',
        ''    <p style="color:#999; font-size:12px; text-align:center; margin-top:28px;">'' @ mail_escape footer_note @ ''</p>'',
        ''  </div>'',
        ''</body>'',
        ''</html>'',
        []]\<close>

definition verification_email_html :: "string \<Rightarrow> string" where
  "verification_email_html verification_url =
     basic_email_html ''Verify your Synvya email''
       ''Thanks for signing up! Confirm your email address to finish creating your account.''
       ''Verify Email Address'' verification_url
       ''If you didn't sign up for Synvya, you can safely ignore this email.''"

definition verification_email_text :: "string \<Rightarrow> string" where
  "verification_email_text verification_url =
     str_join nl
       [''Thanks for signing up! Please verify your email address by clicking this link:'',
        [],
        verification_url,
        [],
        ''If you didn't sign up for Synvya, you can safely ignore this email.'']"

definition password_reset_html :: "string \<Rightarrow> string" where
  "password_reset_html reset_url =
     basic_email_html ''Reset your Synvya password''
       ''We received a request to reset your password. Click the button below to set a new one.''
       ''Reset Password'' reset_url
       ''This link will expire in 1 hour. If you didn't request a password reset, you can safely ignore this email.''"

definition password_reset_text :: "string \<Rightarrow> string" where
  "password_reset_text reset_url =
     str_join nl
       [''We received a request to reset your password. Click this link to set a new password:'',
        [],
        reset_url,
        [],
        ''This link will expire in 1 hour. If you didn't request a password reset, you can safely ignore this email.'']"

text \<open>The picture and the name of an account, when there are any.\<close>

definition avatar_html :: "string option \<Rightarrow> string" where
  \<open>avatar_html picture =
     (case Option.bind picture safe_http_url of
        Some url \<Rightarrow>
          ''<img src="'' @ url @ ''" alt="" width="72" height="72" style="width:72px; height:72px; border-radius:50%; object-fit:cover; display:block; margin:0 auto 16px;" />''
      | None \<Rightarrow> [])\<close>

definition name_html :: "string \<Rightarrow> string" where
  \<open>name_html name_esc =
     (if name_esc = [] then []
      else ''<div style="font-size:18px; font-weight:600; margin-bottom:12px;">'' @ name_esc @ ''</div>'')\<close>

definition unwrap_or_empty :: "string option \<Rightarrow> string" where
  "unwrap_or_empty x = (case x of Some s \<Rightarrow> s | None \<Rightarrow> [])"

definition claim_email_html :: "string \<Rightarrow> string \<Rightarrow> string option \<Rightarrow> string option \<Rightarrow> string" where
  \<open>claim_email_html link_url recipient_email account_display_name account_picture =
     (if account_display_name = None \<and> account_picture = None
      then basic_email_html ''Your Synvya account is ready''
             ''Your Synvya account is ready. Click the button below to claim it and set up your login.''
             ''Claim Your Account'' link_url
             ''This link will expire in 7 days. If you didn't request this, you can safely ignore this email.''
      else str_join nl
         [''<!doctype html>'',
          ''<html>'',
          ''<body style="margin:0; padding:0; background:#f5f5f5; font-family:-apple-system,BlinkMacSystemFont,'Segoe UI',Roboto,sans-serif; color:#111;">'',
          ''  <div style="max-width:520px; margin:0 auto; padding:32px 20px;">'',
          ''    <div style="text-align:center; margin-bottom:24px;">'',
          ''      <span style="color:#00B488; font-size:20px; font-weight:600; letter-spacing:0.2px;">Synvya</span>'',
          ''    </div>'',
          ''    <h2 style="text-align:center; margin:0 0 20px; font-size:20px; font-weight:600;">Your Synvya account is ready</h2>'',
          ''    <div style="background:#fff; border-radius:12px; padding:28px 24px; text-align:center; border:1px solid #ececec;">'',
          ''      '' @ avatar_html account_picture @ name_html (mail_escape (unwrap_or_empty account_display_name)) @ ''<div style="color:#444; font-size:14px;">Claim your login for <strong>'' @ mail_escape recipient_email @ ''</strong>.</div>'',
          ''    </div>'',
          ''    <div style="margin:28px 0; text-align:center;">'',
          ''      <a href="'' @ mail_escape link_url @ ''" style="display:inline-block; background:#00B488; color:#fff; padding:14px 36px; text-decoration:none; border-radius:8px; font-weight:600; font-size:15px;">Claim Your Account</a>'',
          ''    </div>'',
          ''    <p style="color:#666; font-size:13px; text-align:center; line-height:1.5; margin:0 8px;">'',
          ''      Or copy and paste this link into your browser:<br>'',
          ''      <a href="'' @ mail_escape link_url @ ''" style="color:#00B488; word-break:break-all;">'' @ mail_escape link_url @ ''</a>'',
          ''    </p>'',
          ''    <p style="color:#999; font-size:12px; text-align:center; margin-top:28px;">'',
          ''      This link will expire in 7 days. If you didn't request this, you can safely ignore this email.'',
          ''    </p>'',
          ''  </div>'',
          ''</body>'',
          ''</html>'',
          []])\<close>

definition claim_email_text :: "string \<Rightarrow> string" where
  "claim_email_text link_url =
     str_join nl
       [''Your Synvya account is ready. Click this link to claim it:'',
        [],
        link_url,
        [],
        ''This link will expire in 7 days. If you didn't request this, you can safely ignore this email.'']"

definition label_td :: string where
  "label_td = ''padding:6px 12px 6px 0; color:#888; font-size:12px; font-weight:600; text-transform:uppercase; letter-spacing:0.5px; white-space:nowrap; vertical-align:top; width:72px;''"

definition value_td :: string where
  "value_td = ''padding:6px 0; color:#111; font-size:14px; word-break:break-all; vertical-align:top;''"

definition team_invite_html ::
    "mail_env \<Rightarrow> string \<Rightarrow> string option \<Rightarrow> string \<Rightarrow> string \<Rightarrow> string \<Rightarrow> timestamp \<Rightarrow> string \<Rightarrow> string" where
  \<open>team_invite_html E team_display_name team_picture inviter recipient_email role expires_at invite_url =
     str_join nl
       [''<!doctype html>'',
        ''<html>'',
        ''<body style="margin:0; padding:0; background:#f5f5f5; font-family:-apple-system,BlinkMacSystemFont,'Segoe UI',Roboto,sans-serif; color:#111;">'',
        ''  <div style="max-width:520px; margin:0 auto; padding:32px 20px;">'',
        ''    <div style="text-align:center; margin-bottom:24px;">'',
        ''      <span style="color:#00B488; font-size:20px; font-weight:600; letter-spacing:0.2px;">Synvya</span>'',
        ''    </div>'',
        ''    <h2 style="text-align:center; margin:0 0 20px; font-size:20px; font-weight:600;">Team Invitation</h2>'',
        ''    <div style="background:#fff; border-radius:12px; padding:28px 24px; border:1px solid #ececec;">'',
        ''      <div style="text-align:center;">'',
        ''        '' @ avatar_html team_picture @ ''<div style="font-size:18px; font-weight:600; margin-bottom:20px;">'' @ mail_escape team_display_name @ ''</div>'',
        ''      </div>'',
        ''      <table role="presentation" cellpadding="0" cellspacing="0" border="0" style="width:100%; border-collapse:collapse;">'',
        ''        <tr>'',
        ''          <td style="'' @ label_td @ ''">From</td>'',
        ''          <td style="'' @ value_td @ ''">'' @ mail_escape inviter @ ''</td>'',
        ''        </tr>'',
        ''        <tr>'',
        ''          <td style="'' @ label_td @ ''">To</td>'',
        ''          <td style="'' @ value_td @ ''">'' @ mail_escape recipient_email @ ''</td>'',
        ''        </tr>'',
        ''        <tr>'',
        ''          <td style="'' @ label_td @ ''">Role</td>'',
        ''          <td style="'' @ value_td @ ''">'' @ mail_escape (title_case_role E role) @ ''</td>'',
        ''        </tr>'',
        ''        <tr>'',
        ''          <td style="'' @ label_td @ ''">Expires</td>'',
        ''          <td style="'' @ value_td @ ''">'' @ mail_date E expires_at @ ''</td>'',
        ''        </tr>'',
        ''      </table>'',
        ''    </div>'',
        ''    <div style="margin:28px 0; text-align:center;">'',
        ''      <a href="'' @ mail_escape invite_url @ ''" style="display:inline-block; background:#00B488; color:#fff; padding:14px 36px; text-decoration:none; border-radius:8px; font-weight:600; font-size:15px;">Accept Invitation</a>'',
        ''    </div>'',
        ''    <p style="color:#666; font-size:13px; text-align:center; line-height:1.5; margin:0 8px;">'',
        ''      Or copy and paste this link into your browser:<br>'',
        ''      <a href="'' @ mail_escape invite_url @ ''" style="color:#00B488; word-break:break-all;">'' @ mail_escape invite_url @ ''</a>'',
        ''    </p>'',
        ''    <p style="color:#999; font-size:12px; text-align:center; margin-top:28px;">'',
        ''      This invitation expires in 7 days. If you didn't expect this email, you can safely ignore it.'',
        ''    </p>'',
        ''  </div>'',
        ''</body>'',
        ''</html>'',
        []]\<close>

definition team_invite_text ::
    "mail_env \<Rightarrow> string \<Rightarrow> string \<Rightarrow> string \<Rightarrow> string \<Rightarrow> timestamp \<Rightarrow> string \<Rightarrow> string" where
  "team_invite_text E team_display_name inviter recipient_email role expires_at invite_url =
     str_join nl
       [''Team Invitation '' @ [CHR 0xE2, CHR 0x80, CHR 0x94] @ '' '' @ team_display_name,
        [],
        ''From:    '' @ inviter,
        ''To:      '' @ recipient_email,
        ''Role:    '' @ title_case_role E role,
        ''Expires: '' @ mail_date E expires_at,
        [],
        ''Accept the invitation:'',
        invite_url,
        [],
        ''This invitation expires in 7 days. If you didn't expect this email, you can safely ignore it.'',
        []]"

definition delete_account_subject :: "string \<Rightarrow> string" where
  "delete_account_subject merchant_name = ''Delete your '' @ merchant_name @ '' account''"

definition delete_account_html :: "string \<Rightarrow> string \<Rightarrow> string" where
  \<open>delete_account_html link merchant_name =
     str_join nl
       [''<!DOCTYPE html>'',
        ''<html>'',
        ''<body style="font-family: -apple-system, BlinkMacSystemFont, 'Segoe UI', Roboto, sans-serif; color: #1a1a1a; max-width: 480px; margin: 0 auto; padding: 24px;">'',
        ''  <h1 style="font-size: 20px;">Delete your '' @ mail_escape merchant_name @ '' account</h1>'',
        ''  <p>This removes your account and cancels your subscriptions. It cannot be undone.</p>'',
        ''  <p><a href="'' @ mail_escape link @ ''" style="display: inline-block; background: #1a1a1a; color: #ffffff; text-decoration: none; padding: 12px 24px; border-radius: 6px;">Delete my account</a></p>'',
        ''  <p style="color: #666666; font-size: 14px;">This link works once and expires in 15 minutes.</p>'',
        ''  <p style="color: #666666; font-size: 14px;">If you did not ask for it, you can ignore this email and nothing will change.</p>'',
        ''</body>'',
        ''</html>'']\<close>

definition delete_account_text :: "string \<Rightarrow> string \<Rightarrow> string" where
  "delete_account_text link merchant_name =
     str_join nl
       [''Delete your '' @ merchant_name @ '' account'',
        [],
        ''This removes your account and cancels your subscriptions. It cannot be undone.'',
        [],
        link,
        [],
        ''This link works once and expires in 15 minutes.'',
        [],
        ''If you did not ask for it, you can ignore this email and nothing will change.'',
        []]"

definition magic_link_subject :: "string \<Rightarrow> string" where
  "magic_link_subject merchant_name = ''Sign in to '' @ merchant_name"

definition magic_link_html :: "string \<Rightarrow> string \<Rightarrow> string" where
  \<open>magic_link_html link merchant_name =
     str_join nl
       [''<!DOCTYPE html>'',
        ''<html>'',
        ''<body style="font-family: -apple-system, BlinkMacSystemFont, 'Segoe UI', Roboto, sans-serif; color: #1a1a1a; max-width: 480px; margin: 0 auto; padding: 24px;">'',
        ''  <h1 style="font-size: 20px;">Sign in to '' @ mail_escape merchant_name @ ''</h1>'',
        ''  <p><a href="'' @ mail_escape link @ ''" style="display: inline-block; background: #1a1a1a; color: #ffffff; text-decoration: none; padding: 12px 24px; border-radius: 6px;">Sign in</a></p>'',
        ''  <p style="color: #666666; font-size: 14px;">This link works once and expires in 15 minutes.</p>'',
        ''  <p style="color: #666666; font-size: 14px;">If you did not ask for it, you can ignore this email.</p>'',
        ''</body>'',
        ''</html>'']\<close>

definition magic_link_text :: "string \<Rightarrow> string \<Rightarrow> string" where
  "magic_link_text link merchant_name =
     str_join nl
       [''Sign in to '' @ merchant_name,
        [],
        link,
        [],
        ''This link works once and expires in 15 minutes.'',
        [],
        ''If you did not ask for it, you can ignore this email.'',
        []]"

section \<open>Senders\<close>

text \<open>A call of the trait \<open>EmailSender\<close>: one constructor for each of its methods that send.\<close>

datatype email =
    VerificationEmail (email_to: string) string
  | PasswordResetEmail (email_to: string) string "string option"
  | ClaimEmail (email_to: string) string "string option" "string option"
  | TeamInviteEmail (email_to: string) string "string option" string string timestamp string
  | MagicLinkEmail (email_to: string) string string
  | DeleteAccountEmail (email_to: string) string string

datatype email_provider = DevProvider | SendGridProvider string | SesProvider

record email_sender =
  es_provider :: email_provider
  es_from_email :: string
  es_from_name :: string
  es_base_url :: string
  es_password_reset_base_url :: string

definition sender_base_url :: "mail_env \<Rightarrow> string" where
  "sender_base_url E =
     (case base_url_env E of
        Some u \<Rightarrow> u
      | None \<Rightarrow> (case mail_app_url_env E of Some u \<Rightarrow> u | None \<Rightarrow> ''http://localhost:5173''))"

definition email_sender_new :: "mail_env \<Rightarrow> email_provider \<Rightarrow> email_sender" where
  "email_sender_new E p =
     \<lparr>es_provider = p,
      es_from_email = (case from_email_env E of Some m \<Rightarrow> m | None \<Rightarrow> ''noreply@divine.video''),
      es_from_name = (case from_name_env E of Some m \<Rightarrow> m | None \<Rightarrow> ''Synvya''),
      es_base_url = sender_base_url E,
      es_password_reset_base_url = password_reset_base_url E (sender_base_url E)\<rparr>"

definition email_provider_name :: "mail_env \<Rightarrow> string" where
  "email_provider_name E =
     (case email_provider_env E of
        Some p \<Rightarrow> p
      | None \<Rightarrow> (if (case sendgrid_key_env E of Some k \<Rightarrow> k \<noteq> [] | None \<Rightarrow> False) then ''sendgrid'' else ''dev''))"

text \<open>\<open>None\<close> is a panic at start-up.\<close>

definition create_email_sender :: "mail_env \<Rightarrow> email_sender option" where
  "create_email_sender E =
     (if email_provider_name E = ''sendgrid''
      then map_option (\<lambda>api_key. email_sender_new E (SendGridProvider api_key)) (sendgrid_key_env E)
      else if email_provider_name E = ''ses''
      then (if aws_feature E then Some (email_sender_new E SesProvider) else None)
      else Some (email_sender_new E DevProvider))"

definition verification_url :: "email_sender \<Rightarrow> string \<Rightarrow> string" where
  "verification_url es verification_token = es_base_url es @ ''/verify-email?token='' @ verification_token"

definition reset_url :: "email_sender \<Rightarrow> string \<Rightarrow> string option \<Rightarrow> string" where
  "reset_url es reset_token base_url_override =
     (case base_url_override of Some b \<Rightarrow> trim_end_slashes b | None \<Rightarrow> es_password_reset_base_url es)
     @ ''/reset-password?token='' @ reset_token"

definition invite_subject :: "string \<Rightarrow> string" where
  "invite_subject team_display_name = ''You've been invited to join '' @ team_display_name @ '' on Synvya''"

record rendered_email =
  re_subject :: string
  re_html :: string
  re_text :: string

fun email_rendered :: "mail_env \<Rightarrow> email_sender \<Rightarrow> email \<Rightarrow> rendered_email" where
  "email_rendered E es (VerificationEmail to tok) =
     \<lparr>re_subject = ''Verify your Synvya email address'', re_html = verification_email_html (verification_url es tok),
      re_text = verification_email_text (verification_url es tok)\<rparr>"
| "email_rendered E es (PasswordResetEmail to tok base_url) =
     \<lparr>re_subject = ''Reset your Synvya password'', re_html = password_reset_html (reset_url es tok base_url),
      re_text = password_reset_text (reset_url es tok base_url)\<rparr>"
| "email_rendered E es (ClaimEmail to url name picture) =
     \<lparr>re_subject = ''Your Synvya account is ready to claim'', re_html = claim_email_html url to name picture,
      re_text = claim_email_text url\<rparr>"
| "email_rendered E es (TeamInviteEmail to name picture inviter role expires_at url) =
     \<lparr>re_subject = invite_subject name, re_html = team_invite_html E name picture inviter to role expires_at url,
      re_text = team_invite_text E name inviter to role expires_at url\<rparr>"
| "email_rendered E es (MagicLinkEmail to link merchant_name) =
     \<lparr>re_subject = magic_link_subject merchant_name, re_html = magic_link_html link merchant_name,
      re_text = magic_link_text link merchant_name\<rparr>"
| "email_rendered E es (DeleteAccountEmail to link merchant_name) =
     \<lparr>re_subject = delete_account_subject merchant_name, re_html = delete_account_html link merchant_name,
      re_text = delete_account_text link merchant_name\<rparr>"

record captured_email =
  ce_to :: string
  ce_subject :: string
  ce_verification_url :: "string option"
  ce_reset_url :: "string option"

fun email_captured :: "email_sender \<Rightarrow> email \<Rightarrow> captured_email" where
  "email_captured es (VerificationEmail to tok) =
     \<lparr>ce_to = to, ce_subject = ''Verify your Synvya email address'', ce_verification_url = Some (verification_url es tok),
      ce_reset_url = None\<rparr>"
| "email_captured es (PasswordResetEmail to tok base_url) =
     \<lparr>ce_to = to, ce_subject = ''Reset your Synvya password'', ce_verification_url = None,
      ce_reset_url = Some (reset_url es tok base_url)\<rparr>"
| "email_captured es (ClaimEmail to url name picture) =
     \<lparr>ce_to = to, ce_subject = ''Your Synvya account is ready to claim'', ce_verification_url = Some url, ce_reset_url = None\<rparr>"
| "email_captured es (TeamInviteEmail to name picture inviter role expires_at url) =
     \<lparr>ce_to = to, ce_subject = invite_subject name, ce_verification_url = Some url, ce_reset_url = None\<rparr>"
| "email_captured es (MagicLinkEmail to link merchant_name) =
     \<lparr>ce_to = to, ce_subject = magic_link_subject merchant_name, ce_verification_url = Some link, ce_reset_url = None\<rparr>"
| "email_captured es (DeleteAccountEmail to link merchant_name) =
     \<lparr>ce_to = to, ce_subject = delete_account_subject merchant_name, ce_verification_url = Some link, ce_reset_url = None\<rparr>"

section \<open>Providers\<close>

record email_address =
  ea_email :: string
  ea_name :: "string option"

record email_content =
  ec_type :: string
  ec_value :: string

record sendgrid_email =
  sg_personalizations :: "email_address list list"
  sg_from :: email_address
  sg_subject :: string
  sg_content :: "email_content list"
  sg_click_tracking :: bool
  sg_open_tracking :: bool

record ses_email =
  sm_from :: string
  sm_to :: "string list"
  sm_subject :: string
  sm_html :: string
  sm_text :: string

text \<open>
  What the providers answer: SendGrid an error, or a status and the body if it can be read; for SES the
  error of building a content, if any, and the outcome of the call.
\<close>

record mail_world =
  sendgrid_post :: "string \<Rightarrow> sendgrid_email \<Rightarrow> string + nat \<times> string option"
  ses_content_error :: "string \<Rightarrow> string option"
  ses_call :: "ses_email \<Rightarrow> string + unit"
  mail_status_text :: "nat \<Rightarrow> string"

record mail_state =
  ml_captured :: "captured_email list"
  ml_poisoned :: bool
  ml_sendgrid :: "sendgrid_email list"
  ml_ses :: "ses_email list"

definition sendgrid_message :: "email_sender \<Rightarrow> string \<Rightarrow> rendered_email \<Rightarrow> sendgrid_email" where
  "sendgrid_message es to r =
     \<lparr>sg_personalizations = [[\<lparr>ea_email = to, ea_name = None\<rparr>]],
      sg_from = \<lparr>ea_email = es_from_email es, ea_name = Some (es_from_name es)\<rparr>, sg_subject = re_subject r,
      sg_content = [\<lparr>ec_type = ''text/plain'', ec_value = re_text r\<rparr>, \<lparr>ec_type = ''text/html'', ec_value = re_html r\<rparr>],
      sg_click_tracking = False, sg_open_tracking = False\<rparr>"

definition sendgrid_send ::
    "mail_env \<Rightarrow> mail_world \<Rightarrow> email_sender \<Rightarrow> string \<Rightarrow> string \<Rightarrow> rendered_email \<Rightarrow> mail_state \<Rightarrow> (string + unit) \<times> mail_state" where
  "sendgrid_send E M es api_key to r s =
     (if disable_emails_env E then (Inr (), s)
      else
        (let email = sendgrid_message es to r; s1 = s\<lparr>ml_sendgrid := ml_sendgrid s @ [email]\<rparr>
         in case sendgrid_post M (''Bearer '' @ api_key) email of
              Inl e \<Rightarrow> (Inl (''Failed to send email: '' @ e), s1)
            | Inr (status, body) \<Rightarrow>
                (if 200 \<le> status \<and> status < 300 then (Inr (), s1)
                 else (Inl (''Failed to send email: '' @ mail_status_text M status @ '' - ''
                            @ (case body of Some b \<Rightarrow> b | None \<Rightarrow> ''Could not read response body'')), s1))))"

text \<open>The builder stops at the first content that cannot be built: subject, HTML, text.\<close>

definition ses_message :: "mail_world \<Rightarrow> email_sender \<Rightarrow> string \<Rightarrow> rendered_email \<Rightarrow> string + ses_email" where
  "ses_message M es to r =
     (case ses_content_error M (re_subject r) of
        Some e \<Rightarrow> Inl (''SES subject build error: '' @ e)
      | None \<Rightarrow>
          (case ses_content_error M (re_html r) of
             Some e \<Rightarrow> Inl (''SES html content build error: '' @ e)
           | None \<Rightarrow>
               (case ses_content_error M (re_text r) of
                  Some e \<Rightarrow> Inl (''SES text content build error: '' @ e)
                | None \<Rightarrow>
                    Inr \<lparr>sm_from = es_from_name es @ '' <'' @ es_from_email es @ ''>'', sm_to = [to],
                         sm_subject = re_subject r, sm_html = re_html r, sm_text = re_text r\<rparr>)))"

definition ses_send ::
    "mail_env \<Rightarrow> mail_world \<Rightarrow> email_sender \<Rightarrow> string \<Rightarrow> rendered_email \<Rightarrow> mail_state \<Rightarrow> (string + unit) \<times> mail_state" where
  "ses_send E M es to r s =
     (if disable_emails_env E then (Inr (), s)
      else case ses_message M es to r of
        Inl e \<Rightarrow> (Inl e, s)
      | Inr email \<Rightarrow>
          (map_err (\<lambda>e. ''SES send failed: '' @ e) (ses_call M email), s\<lparr>ml_ses := ml_ses s @ [email]\<rparr>))"

definition email_send :: "mail_env \<Rightarrow> mail_world \<Rightarrow> email_sender \<Rightarrow> email \<Rightarrow> mail_state \<Rightarrow> (string + unit) \<times> mail_state" where
  "email_send E M es m s =
     (case es_provider es of
        DevProvider \<Rightarrow>
          (Inr (), if ml_poisoned s then s else s\<lparr>ml_captured := ml_captured s @ [email_captured es m]\<rparr>)
      | SendGridProvider api_key \<Rightarrow> sendgrid_send E M es api_key (email_to m) (email_rendered E es m) s
      | SesProvider \<Rightarrow> ses_send E M es (email_to m) (email_rendered E es m) s)"

definition get_captured_emails :: "email_sender \<Rightarrow> mail_state \<Rightarrow> captured_email list" where
  "get_captured_emails es s = (if es_provider es = DevProvider \<and> \<not> ml_poisoned s then ml_captured s else [])"

definition clear_captured_emails :: "email_sender \<Rightarrow> mail_state \<Rightarrow> mail_state" where
  "clear_captured_emails es s = (if es_provider es = DevProvider \<and> \<not> ml_poisoned s then s\<lparr>ml_captured := []\<rparr> else s)"

section \<open>Profiles\<close>

record kind0_content =
  k0_name :: "string option"
  k0_display_name :: "string option"
  k0_picture :: "string option"

definition non_empty :: "string \<Rightarrow> string option" where
  "non_empty s = (let t = str_trim s in if t = [] then None else Some t)"

definition parse_kind0 :: "(string \<Rightarrow> kind0_content option) \<Rightarrow> string \<Rightarrow> profile option" where
  "parse_kind0 kind0_json content =
     Option.bind (kind0_json content) (\<lambda>parsed.
       let display_name = (case Option.bind (k0_display_name parsed) non_empty of
                             Some n \<Rightarrow> Some n | None \<Rightarrow> Option.bind (k0_name parsed) non_empty);
           picture = Option.bind (k0_picture parsed) non_empty
       in if display_name = None \<and> picture = None then None
          else Some \<lparr>pr_display_name = display_name, pr_picture = picture\<rparr>)"

text \<open>What the relays that could be added bring within the timeout: an error, or the contents of the events.\<close>

definition fetch_profile_metadata ::
    "(string \<Rightarrow> kind0_content option) \<Rightarrow> (string \<Rightarrow> string + pubkey) \<Rightarrow> (pubkey \<Rightarrow> string list \<Rightarrow> string + string list)
      \<Rightarrow> string \<Rightarrow> string list \<Rightarrow> profile option" where
  "fetch_profile_metadata kind0_json from_hex fetch_events pubkey_hex relays =
     (if relays = [] then None
      else case from_hex pubkey_hex of
        Inl _ \<Rightarrow> None
      | Inr author \<Rightarrow>
          (case fetch_events author relays of
             Inl _ \<Rightarrow> None
           | Inr [] \<Rightarrow> None
           | Inr (content # _) \<Rightarrow> parse_kind0 kind0_json content))"

section \<open>Sending\<close>

text \<open>
  Without \<open>EMAIL_PROVIDER\<close> start-up never fails; with any value other than \<open>sendgrid\<close> and \<open>ses\<close> the mails only
  go to the log.
\<close>

theorem default_provider_starts: "email_provider_env E = None \<Longrightarrow> create_email_sender E \<noteq> None"
  by (cases "sendgrid_key_env E") (auto simp: create_email_sender_def email_provider_name_def)

theorem unknown_provider_only_logs:
  "email_provider_env E = Some p \<Longrightarrow> p \<noteq> ''sendgrid'' \<Longrightarrow> p \<noteq> ''ses''
   \<Longrightarrow> create_email_sender E = Some (email_sender_new E DevProvider)"
  by (simp add: create_email_sender_def email_provider_name_def)

text \<open>With \<open>DISABLE_EMAILS\<close> every mail is reported as sent and no provider is called.\<close>

theorem disabled_mails_reach_nobody:
  "disable_emails_env E \<Longrightarrow>
   fst (email_send E M es m s) = Inr () \<and> ml_sendgrid (snd (email_send E M es m s)) = ml_sendgrid s
   \<and> ml_ses (snd (email_send E M es m s)) = ml_ses s"
  by (simp add: email_send_def sendgrid_send_def ses_send_def split: email_provider.split)

text \<open>
  A mail reported as sent through SendGrid was posted once, to its recipient alone, with no tracking of its
  links, and was accepted.
\<close>

theorem sendgrid_success_was_accepted:
  assumes "es_provider es = SendGridProvider k" "\<not> disable_emails_env E" "email_send E M es m s = (Inr (), s')"
  shows "\<exists>g status body. ml_sendgrid s' = ml_sendgrid s @ [g] \<and> sendgrid_post M (''Bearer '' @ k) g = Inr (status, body)
    \<and> 200 \<le> status \<and> status < 300 \<and> map (map ea_email) (sg_personalizations g) = [[email_to m]]
    \<and> \<not> sg_click_tracking g \<and> \<not> sg_open_tracking g"
proof -
  let ?g = "sendgrid_message es (email_to m) (email_rendered E es m)"
  have "ml_sendgrid s' = ml_sendgrid s @ [?g] \<and> (\<exists>status body. sendgrid_post M (''Bearer '' @ k) ?g = Inr (status, body)
    \<and> 200 \<le> status \<and> status < 300)"
    using assms by (auto simp: email_send_def sendgrid_send_def Let_def split: sum.splits prod.splits if_splits)
  moreover have "map (map ea_email) (sg_personalizations ?g) = [[email_to m]] \<and> \<not> sg_click_tracking ?g \<and> \<not> sg_open_tracking ?g"
    by (simp add: sendgrid_message_def)
  ultimately show ?thesis by (intro exI [of _ ?g]) (simp only: simp_thms ex_simps)
qed

text \<open>A profile taken from a relay has a name or a picture, and neither is blank.\<close>

theorem profile_shows_something:
  assumes "parse_kind0 j c = Some p"
  shows "(is_set (pr_display_name p) \<or> is_set (pr_picture p)) \<and> pr_display_name p \<noteq> Some [] \<and> pr_picture p \<noteq> Some []"
proof -
  have "non_empty x \<noteq> Some []" for x
    by (auto simp: non_empty_def Let_def)
  then show ?thesis
    using assms by (auto simp: parse_kind0_def Let_def is_set_def split: option.splits if_splits bind_splits)
qed

section \<open>The markup of a mail\<close>

text \<open>The characters that make tags and end attribute values.\<close>

definition markup :: "string \<Rightarrow> string" where
  "markup s = filter (\<lambda>c. c = CHR ''<'' \<or> c = CHR ''>'' \<or> c = CHR 0x22) s"

lemma markup_append: "markup (a @ b) = markup a @ markup b"
  by (simp add: markup_def)

lemma markup_escape: "markup (mail_escape s) = []"
  by (auto simp: markup_def mail_escape_def filter_empty_conv split: if_splits)

lemma markup_join: "markup (str_join nl ls) = concat (map markup ls)"
  by (induction nl ls rule: str_join.induct) (simp_all add: markup_append, simp_all add: markup_def nl_def)

lemma markup_empty: "markup [] = []"
  by (simp add: markup_def)

lemmas markup_simps = markup_append markup_escape markup_join markup_empty list.map concat.simps append_Nil append_Nil2

text \<open>The two pages that escape values, written differently, escape alike.\<close>

lemma html_escape_append: "html_escape (a @ b) = html_escape a @ html_escape b"
  by (simp add: html_escape_def replace_char_def)

theorem mail_escape_is_html_escape: "mail_escape s = html_escape s"
proof (induction s)
  case Nil
  show ?case by (simp add: mail_escape_def html_escape_def replace_char_def)
next
  case (Cons c s)
  have "mail_escape_char c = html_escape [c]"
    by (cases "c \<in> {CHR ''&'', CHR ''<'', CHR ''>'', CHR 0x22, CHR 0x27}") (auto simp: html_escape_def replace_char_def)
  then show ?case
    using Cons html_escape_append [of "[c]" s] by (simp add: mail_escape_def del: mail_escape_char.simps)
qed

text \<open>
  What decides how a mail looks: the kind of mail, and for mails with a card whether there is a card, a
  picture with a web address and a name.
\<close>

fun email_layout :: "email \<Rightarrow> nat \<times> bool \<times> bool \<times> bool" where
  "email_layout (VerificationEmail to tok) = (0, False, False, False)"
| "email_layout (PasswordResetEmail to tok base_url) = (1, False, False, False)"
| "email_layout (ClaimEmail to url name picture) =
     (2, name = None \<and> picture = None, is_set (Option.bind picture safe_http_url), unwrap_or_empty name \<noteq> [])"
| "email_layout (TeamInviteEmail to name picture inviter role expires_at url) =
     (3, False, is_set (Option.bind picture safe_http_url), False)"
| "email_layout (MagicLinkEmail to link merchant_name) = (4, False, False, False)"
| "email_layout (DeleteAccountEmail to link merchant_name) = (5, False, False, False)"

lemma mail_escape_empty: "mail_escape s = [] \<longleftrightarrow> s = []"
  by (cases s) (auto simp: mail_escape_def split: if_splits)

lemma safe_http_url_escaped: "Option.bind p safe_http_url = Some u \<Longrightarrow> markup u = []"
  by (cases p) (auto simp: safe_http_url_def Let_def markup_escape split: if_splits)

lemma avatar_markup:
  "is_set (Option.bind p safe_http_url) = is_set (Option.bind q safe_http_url) \<Longrightarrow> markup (avatar_html p) = markup (avatar_html q)"
  by (cases "Option.bind p safe_http_url"; cases "Option.bind q safe_http_url")
    (simp_all only: avatar_html_def is_set_def option.case option.distinct markup_append safe_http_url_escaped simp_thms)

lemma name_markup: "(a = []) = (b = []) \<Longrightarrow> markup (name_html (mail_escape a)) = markup (name_html (mail_escape b))"
  by (cases "a = []"; cases "b = []") (simp_all only: name_html_def mail_escape_empty markup_append markup_escape if_True if_False simp_thms)

lemma basic_markup: "markup (basic_email_html h i l u f) = markup (basic_email_html h' i' l' u' f')"
  unfolding basic_email_html_def markup_simps ..

text \<open>
  Nothing that goes into a mail can change its structure: the tags, attributes and quotes of the HTML are the
  same for all values, whatever names, addresses, links and roles contain. A picture appears only if its
  address starts with http or https.
\<close>

theorem mails_keep_their_markup:
  assumes date: "\<forall>t. markup (mail_date E t) = []" and same: "email_layout m = email_layout m'"
  shows "markup (re_html (email_rendered E es m)) = markup (re_html (email_rendered E es' m'))"
proof (cases m)
  case (VerificationEmail to tok)
  then show ?thesis using same by (cases m') (simp_all add: verification_email_html_def basic_markup)
next
  case (PasswordResetEmail to tok base_url)
  then show ?thesis using same by (cases m') (simp_all add: password_reset_html_def basic_markup)
next
  case (MagicLinkEmail to link merchant)
  then show ?thesis
    using same by (cases m') (simp_all only: email_rendered.simps rendered_email.simps magic_link_html_def markup_simps email_layout.simps, simp_all)
next
  case (DeleteAccountEmail to link merchant)
  then show ?thesis
    using same by (cases m') (simp_all only: email_rendered.simps rendered_email.simps delete_account_html_def markup_simps email_layout.simps, simp_all)
next
  case (TeamInviteEmail to name picture inviter role expires_at url)
  with same obtain to' name' picture' inviter' role' expires_at' url' where
    m': "m' = TeamInviteEmail to' name' picture' inviter' role' expires_at' url'" by (cases m') simp_all
  have "markup (avatar_html picture) = markup (avatar_html picture')"
    using same by (intro avatar_markup) (simp add: TeamInviteEmail m')
  then show ?thesis
    unfolding TeamInviteEmail m' email_rendered.simps rendered_email.simps team_invite_html_def markup_simps
    by (simp only: date [rule_format] append_Nil)
next
  case (ClaimEmail to url name picture)
  with same obtain to' url' name' picture' where m': "m' = ClaimEmail to' url' name' picture'" by (cases m') simp_all
  have eqs: "(name = None \<and> picture = None) = (name' = None \<and> picture' = None)"
    "markup (avatar_html picture) = markup (avatar_html picture')"
    "markup (name_html (mail_escape (unwrap_or_empty name))) = markup (name_html (mail_escape (unwrap_or_empty name')))"
    using same by (auto simp: ClaimEmail m' intro!: avatar_markup name_markup)
  show ?thesis
  proof (cases "name = None \<and> picture = None")
    case True
    then show ?thesis using eqs(1) by (simp add: ClaimEmail m' claim_email_html_def basic_markup)
  next
    case False
    then have "\<not> (name' = None \<and> picture' = None)" using eqs(1) by simp
    with False show ?thesis
      unfolding ClaimEmail m' email_rendered.simps rendered_email.simps claim_email_html_def
      by (simp only: if_False markup_simps eqs(2,3))
  qed
qed

end
