(* ===== verification/FrontDoor.thy ===== *)
theory FrontDoor
  imports Permissions
begin

text \<open>
  What the process does before a request reaches a handler (\<open>keycast/src/main.rs\<close>): which origins may call,
  how long a browser keeps an answer, the runtime configuration in the page, and the environment it
  needs to start. The JSON text of an object is a parameter.
\<close>

section \<open>Origins\<close>

text \<open>\<open>split_once\<close> on a text of several characters: the parts around its first occurrence.\<close>

fun split_at_text :: "string \<Rightarrow> string \<Rightarrow> (string \<times> string) option" where
  "split_at_text d [] = (if d = [] then Some ([], []) else None)"
| "split_at_text d (c # cs) =
     (if prefix d (c # cs) then Some ([], drop (length d) (c # cs))
      else map_option (\<lambda>(a, b). (c # a, b)) (split_at_text d cs))"

definition parse_origin :: "string \<Rightarrow> (string \<times> string) option" where
  "parse_origin origin =
     map_option (\<lambda>(scheme, rest). (scheme, hd (split_on (CHR ''/'') rest))) (split_at_text ''://'' origin)"

definition strip_suffix :: "string \<Rightarrow> string \<Rightarrow> string option" where
  "strip_suffix p s = (if suffix p s then Some (take (length s - length p) s) else None)"

definition origin_matches_allowed_pattern :: "string \<Rightarrow> string \<Rightarrow> bool" where
  "origin_matches_allowed_pattern origin allowed =
     (if CHR ''*'' \<notin> set allowed then origin = allowed
      else case parse_origin origin of
        None \<Rightarrow> False
      | Some (origin_scheme, origin_host) \<Rightarrow>
          (case parse_origin allowed of
             None \<Rightarrow> False
           | Some (allowed_scheme, allowed_host) \<Rightarrow>
               (if origin_scheme \<noteq> allowed_scheme then False
                else case strip_prefix ''*.'' allowed_host of
                  None \<Rightarrow> False
                | Some host_suffix \<Rightarrow>
                    length host_suffix < length origin_host \<and> ends_with origin_host host_suffix
                    \<and> (case strip_suffix host_suffix origin_host of
                         Some p \<Rightarrow> ends_with p ''.'' | None \<Rightarrow> False))))"

definition origin_is_allowed :: "string \<Rightarrow> string \<Rightarrow> bool \<Rightarrow> bool" where
  "origin_is_allowed origin allowed_origins allow_localhost =
     (if allow_localhost \<and> (starts_with origin ''http://localhost:'' \<or> origin = ''http://localhost'') then True
      else list_ex (\<lambda>allowed. origin_matches_allowed_pattern origin (str_trim allowed)) (split_on (CHR '','') allowed_origins))"

section \<open>Caching\<close>

definition cache_value :: "string \<Rightarrow> string" where
  "cache_value path =
     (if starts_with path ''/_app/'' then ''public, max-age=31536000, immutable''
      else if starts_with path ''/api/'' \<or> starts_with path ''/health'' then ''no-store''
      else if path = ''/index.html'' \<or> path = ''/'' then ''public, max-age=0, must-revalidate''
      else if starts_with path ''/.well-known/'' \<or> path = ''/site.webmanifest'' then ''public, max-age=86400''
      else if starts_with path ''/dist/'' \<or> starts_with path ''/examples/'' then ''public, max-age=3600''
      else if ends_with path ''.png'' \<or> ends_with path ''.ico'' \<or> ends_with path ''.svg'' then ''public, max-age=2592000''
      else ''public, max-age=0, must-revalidate'')"

text \<open>The headers of an answer, by name.\<close>

definition cache_control_middleware :: "string \<Rightarrow> (string \<rightharpoonup> string) \<Rightarrow> (string \<rightharpoonup> string)" where
  "cache_control_middleware path headers =
     (if is_set (headers ''cache-control'') then headers else headers(''cache-control'' \<mapsto> cache_value path))"

section \<open>Runtime configuration in the page\<close>

record page_env =
  pe_app_url :: "string option"
  pe_allowed_pubkeys :: "string option"
  pe_show_teams :: "string option"

definition find_text :: "string \<Rightarrow> string \<Rightarrow> nat option" where
  "find_text s pat = List.find (\<lambda>i. prefix pat (drop i s)) [0..<Suc (length s)]"

definition rfind_text :: "string \<Rightarrow> string \<Rightarrow> nat option" where
  "rfind_text s pat = List.find (\<lambda>i. prefix pat (drop i s)) (rev [0..<Suc (length s)])"

definition env_object :: "page_env \<Rightarrow> (string \<times> string) list" where
  "env_object E =
     (case pe_app_url E of Some v \<Rightarrow> [(''VITE_DOMAIN'', v)] | None \<Rightarrow> [])
     @ (case pe_allowed_pubkeys E of Some v \<Rightarrow> [(''ALLOWED_PUBKEYS'', v)] | None \<Rightarrow> [])
     @ (case pe_show_teams E of Some v \<Rightarrow> [(''SHOW_TEAMS_FUNCTIONALITY'', v)] | None \<Rightarrow> [])"

definition injection_script :: "((string \<times> string) list \<Rightarrow> string option) \<Rightarrow> page_env \<Rightarrow> string" where
  "injection_script object_json E =
     ''<script>window.__ENV__='' @ (case object_json (env_object E) of Some j \<Rightarrow> j | None \<Rightarrow> ''{}'') @ '';</script>''"

definition inject_runtime_env :: "((string \<times> string) list \<Rightarrow> string option) \<Rightarrow> page_env \<Rightarrow> string \<Rightarrow> string" where
  "inject_runtime_env object_json E html =
     (if env_object E = [] then html
      else
        (let script = injection_script object_json E @ [CHR 0x0A]
         in case rfind_text html ''</head>'' of
              Some i \<Rightarrow> take i html @ script @ drop i html
            | None \<Rightarrow>
                (case find_text html ''<body>'' of
                   Some i \<Rightarrow> take i html @ script @ drop i html
                 | None \<Rightarrow> script @ html)))"

section \<open>The environment\<close>

text \<open>The variables that are set, by name.\<close>

definition kms_provider :: "(string \<rightharpoonup> string) \<Rightarrow> string" where
  "kms_provider env =
     (case env ''KMS_PROVIDER'' of
        Some p \<Rightarrow> p
      | None \<Rightarrow> (if env ''USE_GCP_KMS'' = Some ''true'' then ''gcp'' else ''file''))"

definition required_variable :: "(string \<rightharpoonup> string) \<Rightarrow> string \<Rightarrow> string \<Rightarrow> string list" where
  "required_variable env name message = (if is_set (env name) then [] else [message])"

definition environment_errors :: "(string \<rightharpoonup> string) \<Rightarrow> string list" where
  "environment_errors env =
     required_variable env ''DATABASE_URL'' ''DATABASE_URL must be set (PostgreSQL connection string)''
     @ required_variable env ''ALLOWED_ORIGINS'' ''ALLOWED_ORIGINS must be set (comma-separated CORS origins)''
     @ required_variable env ''SERVER_NSEC'' ''SERVER_NSEC must be set (server's Nostr secret key for signing UCANs)''
     @ required_variable env ''REDIS_URL'' ''REDIS_URL must be set (Redis/Memorystore URL for cluster coordination)''
     @ (if kms_provider env = ''file''
        then required_variable env ''MASTER_KEY_PATH'' ''MASTER_KEY_PATH must be set when KMS_PROVIDER=file''
        else if kms_provider env = ''gcp''
        then required_variable env ''GCP_PROJECT_ID'' ''GCP_PROJECT_ID must be set when KMS_PROVIDER=gcp''
        else if kms_provider env = ''aws''
        then required_variable env ''AWS_KMS_KEY_ID'' ''AWS_KMS_KEY_ID must be set when KMS_PROVIDER=aws''
        else [''KMS_PROVIDER must be 'file', 'gcp', or 'aws'' @ [CHR 0x27]])"

definition validate_environment :: "(string \<rightharpoonup> string) \<Rightarrow> string + unit" where
  "validate_environment env =
     (let errors = environment_errors env; item = [CHR 0x0A] @ ''  - ''
      in if errors = [] then Inr ()
         else Inl (''Missing required environment variables:'' @ item @ str_join item errors
                   @ [CHR 0x0A, CHR 0x0A] @ ''See .env.example for configuration guide.''))"

text \<open>The key manager that is built, of the binary with or without the feature \<open>aws\<close>.\<close>

datatype key_manager_kind = FileKeys | GcpKeys | AwsKeys

definition key_manager_kind_of :: "bool \<Rightarrow> (string \<rightharpoonup> string) \<Rightarrow> key_manager_kind" where
  "key_manager_kind_of feature_aws env =
     (if kms_provider env = ''gcp'' then GcpKeys
      else if feature_aws \<and> kms_provider env = ''aws'' then AwsKeys
      else FileKeys)"

section \<open>Lemmas\<close>

lemma split_at_text_Some: "split_at_text d s = Some (a, b) \<Longrightarrow> s = a @ d @ b"
proof (induction d s arbitrary: a rule: split_at_text.induct)
  case (2 d c cs)
  then show ?case by (cases "prefix d (c # cs)") (auto simp: prefix_def)
qed (auto split: if_splits)

lemma split_on_hd: "\<exists>rest. s = hd (split_on c s) @ rest \<and> c \<notin> set (hd (split_on c s)) \<and> (rest = [] \<or> hd rest = c)"
proof (induction s)
  case (Cons x xs)
  then show ?case using split_on_not_Nil [of c xs] by (cases "split_on c xs") auto
qed simp

lemma parse_origin_Some:
  assumes "parse_origin origin = Some (scheme, host)"
  shows "\<exists>rest. origin = scheme @ ''://'' @ host @ rest \<and> CHR ''/'' \<notin> set host \<and> (rest = [] \<or> hd rest = CHR ''/'')"
proof -
  obtain remainder where s: "split_at_text ''://'' origin = Some (scheme, remainder)" and h: "host = hd (split_on (CHR ''/'') remainder)"
    using assms by (auto simp: parse_origin_def)
  show ?thesis using split_at_text_Some [OF s] split_on_hd [of remainder "CHR ''/''"] by (auto simp: h)
qed

text \<open>
  Which pages may call with the credentials of a user, outside development: a page whose origin is an entry
  of the list, letter for letter, or, for an entry with a wildcard, a page of the same scheme whose host
  is a label, a dot and the domain of the entry. A wildcard never stands for the domain itself, for the end
  of a label or for another scheme.
\<close>

theorem allowed_origin_is_listed:
  assumes "origin_is_allowed origin allowed_origins False"
  shows "\<exists>entry \<in> set (map str_trim (split_on (CHR '','') allowed_origins)).
           CHR ''*'' \<notin> set entry \<and> origin = entry
         \<or> (\<exists>scheme domain label tail path. entry = scheme @ ''://*.'' @ domain @ tail
             \<and> origin = scheme @ ''://'' @ label @ ''.'' @ domain @ path \<and> CHR ''/'' \<notin> set (label @ domain)
             \<and> (tail = [] \<or> hd tail = CHR ''/'') \<and> (path = [] \<or> hd path = CHR ''/''))"
proof -
  obtain entry where e: "entry \<in> set (map str_trim (split_on (CHR '','') allowed_origins))"
    and m: "origin_matches_allowed_pattern origin entry"
    using assms by (auto simp: origin_is_allowed_def list_ex_iff split: if_splits)
  show ?thesis
  proof (cases "CHR ''*'' \<in> set entry")
    case True
    then obtain scheme host where o: "parse_origin origin = Some (scheme, host)"
      using m by (cases "parse_origin origin") (auto simp: origin_matches_allowed_pattern_def)
    with True m obtain pattern where a: "parse_origin entry = Some (scheme, pattern)"
      by (cases "parse_origin entry") (auto simp: origin_matches_allowed_pattern_def split: if_splits)
    with True m o obtain domain where d: "pattern = ''*.'' @ domain"
      by (cases "strip_prefix ''*.'' pattern") (auto simp: origin_matches_allowed_pattern_def)
    with True m o a obtain p where s: "strip_suffix domain host = Some p" and dot: "ends_with p ''.''"
      by (cases "strip_suffix domain host") (auto simp: origin_matches_allowed_pattern_def strip_prefix_def)
    from dot obtain label where p: "p = label @ ''.''" by (auto simp: str_simps)
    have host: "host = label @ ''.'' @ domain"
      using s by (auto simp: strip_suffix_def p suffix_def split: if_splits)
    obtain path where 1: "origin = scheme @ ''://'' @ host @ path" "CHR ''/'' \<notin> set host" "path = [] \<or> hd path = CHR ''/''"
      using parse_origin_Some [OF o] by blast
    obtain tail where 2: "entry = scheme @ ''://'' @ pattern @ tail" "tail = [] \<or> hd tail = CHR ''/''" using parse_origin_Some [OF a] by blast
    show ?thesis
    proof (rule bexI [OF _ e], rule disjI2, intro exI conjI)
      show "entry = scheme @ ''://*.'' @ domain @ tail" using 2(1) by (simp add: d)
      show "origin = scheme @ ''://'' @ label @ ''.'' @ domain @ path" using 1(1) by (simp add: host)
      show "CHR ''/'' \<notin> set (label @ domain)" using 1(2) by (simp add: host)
    qed (use 1(3) 2(2) in simp_all)
  next
    case False
    then have "origin = entry" using m by (simp add: origin_matches_allowed_pattern_def)
    then show ?thesis using e False by blast
  qed
qed

theorem allowed_origin_is_listed_witness:
  "\<exists>scheme domain label tail path. ''https://*.pages.dev'' = scheme @ ''://*.'' @ domain @ tail
     \<and> ''https://preview.pages.dev'' = scheme @ ''://'' @ label @ ''.'' @ domain @ path \<and> CHR ''/'' \<notin> set (label @ domain)
     \<and> (tail = [] \<or> hd tail = CHR ''/'') \<and> (path = [] \<or> hd path = CHR ''/'')"
proof -
  have "origin_is_allowed ''https://preview.pages.dev'' ''https://*.pages.dev'' False" by code_simp
  moreover have "map str_trim (split_on (CHR '','') ''https://*.pages.dev'') = [''https://*.pages.dev'']" by code_simp
  ultimately show ?thesis
    using allowed_origin_is_listed [of "''https://preview.pages.dev''" "''https://*.pages.dev''"]
    by (simp only: list.set bex_simps) simp
qed

text \<open>The configuration is inserted at one place and changes nothing else of the page.\<close>

theorem injection_keeps_page:
  "\<exists>before inserted after. html = before @ after \<and> inject_runtime_env object_json E html = before @ inserted @ after
     \<and> (inserted = [] \<longleftrightarrow> env_object E = [])"
proof (cases "env_object E = []")
  case True
  then show ?thesis by (intro exI [of _ "[]"] exI [of _ html]) (simp add: inject_runtime_env_def)
next
  case False
  have "\<exists>i. inject_runtime_env object_json E html = take i html @ (injection_script object_json E @ [CHR 0x0A]) @ drop i html"
    using False by (auto simp: inject_runtime_env_def Let_def intro: exI [of _ 0] split: option.splits)
  then show ?thesis using False by (metis append_take_drop_id append_is_Nil_conv list.distinct(1))
qed

text \<open>The process starts with exactly the configurations that name the four services and the key of the provider.\<close>

theorem environment_complete:
  "validate_environment env = Inr () \<longleftrightarrow>
     (\<forall>name\<in>{''DATABASE_URL'', ''ALLOWED_ORIGINS'', ''SERVER_NSEC'', ''REDIS_URL''}. is_set (env name))
     \<and> (kms_provider env = ''file'' \<and> is_set (env ''MASTER_KEY_PATH'')
        \<or> kms_provider env = ''gcp'' \<and> is_set (env ''GCP_PROJECT_ID'')
        \<or> kms_provider env = ''aws'' \<and> is_set (env ''AWS_KMS_KEY_ID''))"
  by (simp add: validate_environment_def environment_errors_def required_variable_def Let_def)

text \<open>
  A binary without the feature \<open>aws\<close> accepts a configuration for the key service of AWS and then encrypts with
  the key file.
\<close>

theorem aws_configuration_uses_key_file:
  assumes "env ''KMS_PROVIDER'' = Some ''aws''" and "validate_environment env = Inr ()"
  shows "is_set (env ''AWS_KMS_KEY_ID'') \<and> key_manager_kind_of False env = FileKeys"
proof -
  have "kms_provider env = ''aws''" using assms(1) by (simp add: kms_provider_def)
  then show ?thesis
    using assms(2)
    by (auto simp: key_manager_kind_of_def validate_environment_def environment_errors_def required_variable_def Let_def
        split: if_splits)
qed

end
