(* ===== verification/Spec2Isabelle.thy ===== *)
theory Spec2Isabelle
  imports RedirectUri SignerProofs OAuthTokenProofs Cluster UsersProofs TeamsProofs KeyManager CustomersProofs AccountsProofs CodeProofs AtprotoProofs Emails FrontDoor
begin

text \<open>
  Keycast holds the Nostr keys of its users and signs for them. An application is granted access to a
  key under a policy; it then reaches the key over Nostr relays (NIP-46, the signer daemon) or over HTTP
  (REST transport). The rest of the system decides who may grant what: accounts with passwords, customer
  accounts with sign-in links, teams that share keys, an OAuth server that issues grants, tenants that
  separate deployments, administrators, a second OAuth server for clients of the AT protocol, and a cluster of
  instances that divides the grants among itself.

  \<^bold>\<open>How the parts meet.\<close> All state is in one SQL database (\<open>Store.thy\<close>, record \<open>db\<close>), in Redis, in the two
  handler caches and in the channel from the API to the signer. A repository statement is a function on
  the list of rows it touches, with the unique indexes, foreign keys and cascades of
  \<open>src/database/migrations\<close>; an endpoint is a function from the request, the clock and the random values
  it draws to an answer and the next state; errors are values of the sum type of the component, and an
  outcome \<open>None\<close> is a panic. Code outside the repository (nostr-sdk, bcrypt, AES-GCM, the UCAN crate,
  serde, url, the cloud clients) is a field of a record of parameters, and the theorems that rely on what
  such a crate promises say so in a hypothesis.

  \<^bold>\<open>Theories and sources.\<close>
  \<^item> \<open>Prelude\<close>: results, strings, the statements of a table.
  \<^item> \<open>Permissions\<close>, \<open>Policies\<close>: \<open>core/src/custom_permissions\<close>, \<open>core/src/repositories/policy.rs\<close>.
  \<^item> \<open>RedirectUri\<close>: \<open>registered_client.rs\<close>, the redirect patterns of OAuth clients.
  \<^item> \<open>Store\<close>, \<open>OAuthAuthorizations\<close>, \<open>TeamAuthorizations\<close>, \<open>Tokens\<close>, \<open>OAuthCodes\<close>, \<open>Users\<close>, \<open>Teams\<close>: the
    repositories of \<open>core/src/repositories\<close>.
  \<^item> \<open>Crypto\<close>, \<open>KeyManager\<close>: bunker keys, signing sessions, the key managers of \<open>core/src/encryption\<close>.
  \<^item> \<open>Signer\<close>: \<open>signer/src\<close>; \<open>HttpRpc\<close>: \<open>nostr_rpc.rs\<close>, \<open>http_rpc_handler.rs\<close>, \<open>ucan_auth\<close>.
  \<^item> \<open>OAuthToken\<close>: \<open>POST /oauth/token\<close> of \<open>oauth.rs\<close>.
  \<^item> \<open>Tenants\<close>, \<open>RequestAuth\<close>: \<open>tenant.rs\<close>, \<open>extractors.rs\<close>, \<open>nip98.rs\<close>, \<open>nip98_extractor.rs\<close>.
  \<^item> \<open>TeamsApi\<close>: \<open>teams.rs\<close>; \<open>Sessions\<close>, \<open>Customers\<close>, \<open>DeletionNotices\<close>: the shared part of
    \<open>auth.rs\<close>, \<open>magic_link.rs\<close>, \<open>customer_deletion.rs\<close>.
  \<^item> \<open>PasswordQueue\<close>, \<open>NameServer\<close>: \<open>bcrypt_queue.rs\<close>, \<open>secret_pool.rs\<close>, \<open>divine_names.rs\<close>.
  \<^item> \<open>Accounts\<close>: the handlers of \<open>auth.rs\<close> for accounts with a password.
  \<^item> \<open>ClaimFlow\<close>: \<open>claim.rs\<close>; \<open>Headless\<close>: \<open>headless.rs\<close>; \<open>Consent\<close>: the pages, approvals, registrations and
    polls of \<open>oauth.rs\<close>; \<open>AdminApi\<close>: \<open>admin.rs\<close> and the searches of the user and team repositories.
  \<^item> \<open>Cluster\<close>, \<open>RateLimit\<close>: \<open>cluster-hashring/src\<close>, \<open>rate_limit.rs\<close>.
  \<^item> \<open>AtprotoSessions\<close>: \<open>atproto_oauth_session.rs\<close> and the AT columns of \<open>user.rs\<close>; \<open>AtprotoOAuth\<close>: \<open>atproto_oauth.rs\<close>,
    \<open>atproto_oauth_metadata.rs\<close>; \<open>AtprotoLink\<close>: \<open>atproto.rs\<close>, \<open>atproto_provisioning.rs\<close>; \<open>AtprotoMoves\<close> describes one
    request of that interface as moves of the session rows.
  \<^item> \<open>Emails\<close>: \<open>email_service.rs\<close>, \<open>nostr_profile.rs\<close>; \<open>FrontDoor\<close>: origins, caching, page configuration and environment
    of \<open>keycast/src/main.rs\<close>.
  The theories named \<open>...Proofs\<close> hold the theorems about the theory of that name (\<open>ClaimProofs\<close> of \<open>ClaimFlow\<close>,
  \<open>AdminProofs\<close> of \<open>AdminApi\<close>, \<open>CodeProofs\<close> of \<open>Headless\<close> and \<open>Consent\<close>, \<open>AtprotoProofs\<close> of the AT theories); \<open>Runs\<close> has what
  carries over from one request to a run; \<open>Samples\<close> and \<open>AtprotoSamples\<close> have the concrete worlds the witnesses evaluate.

  \<^bold>\<open>What is shown.\<close> For both transports, that a result leaves only with the consent of every permission of a
  live grant, that caches never serve another user's key and that revocation locks out; for OAuth, that a
  code or refresh token is used once, needs its proof and yields exactly one grant, that in every history a
  code was stored for a user who had shown a session or a password, and that a headless registration
  delivers its code exactly once; for accounts, that the
  tables keep their constraints in every history and that sessions come from a password, a link or a
  NIP-98 envelope; for customers, that a link's grant is confined to its merchant and that deletion is
  complete and reported; for teams, a refinement of an abstract roster; for preloaded accounts, that a claim
  link works once and hands the account to whoever sets its password; for operators, who may change what,
  how long a support session lives and that its end takes back all of it; for AT clients, that a token needs
  the approval of the user and the key of the pushed request, that its credentials work once, that switching the
  link off takes everything back and that the flow completes; for mails, that no value changes their markup; for
  pages of other sites, that only listed origins and true subdomains of them may call; for the cluster, that instances
  that agree on the members have exactly one owner per key. One-time credentials share the locale of \<open>Tokens\<close>, which is
  interpreted for the four kinds of tokens; entries that only an entitled request may add share the locale
  \<open>earned_store\<close> of \<open>Runs\<close>, interpreted for the support agents, the authorization codes, the pushed requests and
  their approvals; conditions no request undoes share \<open>lasting\<close>, which \<open>earned_store\<close> extends. Some
  theorems state what the code permits and should not: a permission that cannot be read fails open, a narrow
  grant can widen itself, a silent approval takes any scope, an operator keeps a way into claimed accounts,
  a used request link can be taken over by another user.

  \<^bold>\<open>Bounds.\<close> Loops are structural recursion or have a measure: the derivation of a bunker key ends at the
  range of its 32-bit counter, a cloud call after three attempts, a delivery pass after its batch of
  fifty. Nothing runs on fuel. Words are kept at their width where the code computes with them (event
  times and kinds, the ring hash); row ids and times of the database are integers.

  \<^bold>\<open>Not modelled.\<close> The constant text and scripts of HTML pages, log lines, routing and the tasks of the process,
  credentials for a managed Redis and the load test: glue over services or text. An await is a
  point where other requests may run; the model interleaves requests as a whole, and statements only
  where a theorem is about their interleaving (\<open>Tokens\<close>).
\<close>

section \<open>The two transports\<close>

text \<open>
  The NIP-46 handler and the REST handler of one grant, both loaded from the same database: what
  each stores of the grant, and the permissions each checks against.
\<close>

definition same_grant :: "'j http_world \<Rightarrow> 'j db \<Rightarrow> nip46_handler \<Rightarrow> http_handler \<Rightarrow> bool" where
  "same_grant X d n h \<longleftrightarrow>
     (\<exists>a bunker user tenant_id st.
        handler_from_oauth (hx X) ''Invalid user key: '' d a (oa_tenant_id a) st = Inr n
        \<and> fetch_optional (\<lambda>r. oa_bunker_public_key r = bunker) (db_oauth d) = Some a
        \<and> fetch_optional (\<lambda>r. oa_tenant_id r = oa_tenant_id a \<and> oa_id r = oa_id a) (db_oauth d) = Some a
        \<and> load_handler_on_demand X d bunker user tenant_id = Inr h)"

lemma same_grant_permissions:
  assumes "same_grant X d n h"
  obtains perms where "stored_permissions d n = Inr perms"
    "hh_permissions h = filter_ok (map (to_custom_permission (x_perm (hx X))) perms)"
proof -
  from assms obtain a bunker user tenant_id st where
    n: "handler_from_oauth (hx X) ''Invalid user key: '' d a (oa_tenant_id a) st = Inr n"
    and b: "fetch_optional (\<lambda>r. oa_bunker_public_key r = bunker) (db_oauth d) = Some a"
    and i: "fetch_optional (\<lambda>r. oa_tenant_id r = oa_tenant_id a \<and> oa_id r = oa_id a) (db_oauth d) = Some a"
    and h: "load_handler_on_demand X d bunker user tenant_id = Inr h"
    by (auto simp: same_grant_def)
  from n have "h_is_oauth n" "h_tenant_id n = oa_tenant_id a" "h_authorization_id n = oa_id a"
    by (auto simp: handler_from_oauth_def and_then_Inr_iff)
  then have "stored_permissions d n = Inr (oauth_permissions d a)"
    using i by (simp add: stored_permissions_def oauth_find_def fetch_one_def)
  moreover from h have "hh_permissions h
      = filter_ok (map (to_custom_permission (x_perm (hx X))) (oauth_permissions d a))"
    using b by (auto elim!: load_on_demand_ok)
  ultimately show thesis using that by blast
qed

text \<open>
  C38. Whatever the NIP-46 transport lets through, the REST transport lets through too, and if every
  stored permission of the grant can be read, the two give the same verdict on every event.
\<close>

theorem transports_agree_on_signing:
  assumes "same_grant X d n h"
  shows "(validate_permissions_for_sign (hx X) d n ue = Inr () \<longrightarrow> validate_sign_permission h ue = Inr ())
         \<and> (\<not> isl (load_permissions (hx X) d n) \<longrightarrow>
              (validate_permissions_for_sign (hx X) d n ue = Inr () \<longleftrightarrow> validate_sign_permission h ue = Inr ()))"
proof -
  obtain perms where r: "stored_permissions d n = Inr perms"
    "hh_permissions h = filter_ok (map (to_custom_permission (x_perm (hx X))) perms)"
    using assms by (rule same_grant_permissions)
  have "hh_permissions h = ps" if "load_permissions (hx X) d n = Inr ps" for ps
    using that r by (auto simp: load_permissions_all)
  then show ?thesis
    by (auto simp: validate_sign_ok validate_permission_iffs isl_def) (metis sum.exhaust_sel)
qed

text \<open>The two handlers of \<open>alice\<close>'s grant in the sample database.\<close>

definition alice_nip46 :: "jv db \<Rightarrow> nip46_handler" where
  "alice_nip46 d = projr (handler_from_oauth (hx Y0) ''Invalid user key: '' d (new_oauth_row 10 1 sample_params)
                            1 (Active, None))"

definition alice_http :: "jv db \<Rightarrow> http_handler" where
  "alice_http d = projr (load_handler_on_demand Y0 d ''bunker1'' ''alice'' 1)"

definition unreadable_world :: "jv db" where
  "unreadable_world =
     world\<lparr>db_permissions := [\<lparr>perm_id = 1, perm_identifier = ''allowed_kinds'', perm_config = JStr ''kind 7'',
                               perm_created_at = 0, perm_updated_at = 0\<rparr>]\<rparr>"

lemma alice_same_grant:
  assumes "db_oauth d = [new_oauth_row 10 1 sample_params]"
    and "\<not> isl (handler_from_oauth (hx Y0) ''Invalid user key: '' d (new_oauth_row 10 1 sample_params) 1 (Active, None))"
    and "\<not> isl (load_handler_on_demand Y0 d ''bunker1'' ''alice'' 1)"
  shows "same_grant Y0 d (alice_nip46 d) (alice_http d)"
  unfolding same_grant_def alice_nip46_def alice_http_def
  using assms
  by (intro exI [of _ "new_oauth_row 10 1 sample_params"] exI [of _ "''bunker1''"] exI [of _ "''alice''"]
      exI [of _ 1] exI [of _ "(Active, None)"]) (simp add: fetch_optional_Cons sample_params_def)

lemma world_same_grant: "same_grant Y0 world (alice_nip46 world) (alice_http world)"
  by (rule alice_same_grant; code_simp)

lemma unreadable_same_grant:
  "same_grant Y0 unreadable_world (alice_nip46 unreadable_world) (alice_http unreadable_world)"
  by (rule alice_same_grant; code_simp)

definition note_event :: unsigned_event where
  "note_event = \<lparr>ue_pubkey = ''alice'', ue_created_at = 0, ue_kind = 1, ue_tags = [], ue_content = ''hi''\<rparr>"

theorem transports_agree_on_signing_witness:
  "validate_permissions_for_sign (hx Y0) world (alice_nip46 world) note_event = Inr ()
   \<and> validate_sign_permission (alice_http world) note_event = Inr ()"
proof -
  have "validate_permissions_for_sign (hx Y0) world (alice_nip46 world) note_event = Inr ()" by code_simp
  then show ?thesis using transports_agree_on_signing [OF world_same_grant, of note_event] by blast
qed

text \<open>
  A permission that cannot be read fails open on the REST transport only: the NIP-46 transport
  refuses every event of such a grant, while the REST transport drops the permission and signs
  whatever the readable ones allow.
\<close>

theorem unreadable_permission_fails_open:
  assumes "same_grant X d n h" and "stored_permissions d n = Inr perms"
    and "\<exists>row\<in>set perms. isl (to_custom_permission (x_perm (hx X)) row)"
    and "\<forall>row\<in>set perms. \<forall>p. to_custom_permission (x_perm (hx X)) row = Inr p \<longrightarrow> can_sign p ue"
  shows "isl (validate_permissions_for_sign (hx X) d n ue) \<and> validate_sign_permission h ue = Inr ()"
proof
  have "load_permissions (hx X) d n \<noteq> Inr ps" for ps
  proof
    assume "load_permissions (hx X) d n = Inr ps"
    then have m: "map (to_custom_permission (x_perm (hx X))) perms = map Inr ps"
      using assms(2) by (auto simp: load_permissions_all)
    obtain row where "row \<in> set perms" "isl (to_custom_permission (x_perm (hx X)) row)"
      using assms(3) by blast
    then have "\<exists>c\<in>set (map (to_custom_permission (x_perm (hx X))) perms). isl c" by auto
    then show False unfolding m by auto
  qed
  then show "isl (validate_permissions_for_sign (hx X) d n ue)"
    by (cases "validate_permissions_for_sign (hx X) d n ue") (auto simp: validate_sign_ok)
next
  obtain perms' where "stored_permissions d n = Inr perms'"
    "hh_permissions h = filter_ok (map (to_custom_permission (x_perm (hx X))) perms')"
    using assms(1) by (rule same_grant_permissions)
  then have "set (hh_permissions h) = {p. \<exists>row\<in>set perms. to_custom_permission (x_perm (hx X)) row = Inr p}"
    using assms(2) by (auto simp: set_filter_ok) (metis imageI)
  then show "validate_sign_permission h ue = Inr ()"
    using assms(4) by (auto simp: validate_permission_iffs)
qed

theorem unreadable_permission_fails_open_witness:
  "isl (validate_permissions_for_sign (hx Y0) unreadable_world (alice_nip46 unreadable_world) note_event)
   \<and> validate_sign_permission (alice_http unreadable_world) note_event = Inr ()"
proof (rule unreadable_permission_fails_open [OF unreadable_same_grant])
  show "stored_permissions unreadable_world (alice_nip46 unreadable_world) = Inr (db_permissions unreadable_world)"
    by code_simp
  show "\<exists>row\<in>set (db_permissions unreadable_world). isl (to_custom_permission (x_perm (hx Y0)) row)"
    by code_simp
  have "list_all (\<lambda>row. isl (to_custom_permission (x_perm (hx Y0)) row)) (db_permissions unreadable_world)"
    by code_simp
  then show "\<forall>row\<in>set (db_permissions unreadable_world). \<forall>p.
      to_custom_permission (x_perm (hx Y0)) row = Inr p \<longrightarrow> can_sign p note_event"
    by (auto simp: list_all_iff)
qed

section \<open>The cluster and the signer\<close>

text \<open>An instance that does not own the bunker key of a request counts it and does nothing else.\<close>

lemma not_owner_ignores:
  assumes "bunker_of X ev = Some bunker" and "\<not> owns bunker"
  shows "handle_nip46_request X owns send now ev s = (Inr (), inc_nip46_rejected_hashring s)"
  using assms by (simp add: handle_nip46_request_def)

text \<open>
  C39. A request is served by one instance: all instances of the cluster see it, but if their rings
  agree on the members, all but one of them leave their database, their cache and the relay alone,
  for every bunker.
\<close>

theorem one_instance_serves_request:
  assumes "anchor_total g" and "finite S" and "S \<noteq> {}" and "card S \<le> 65535"
    and "\<forall>i\<in>S. ring_history i (rings i) \<and> current_instances (rings i) = S"
  shows "\<exists>owner\<in>S. \<forall>i\<in>S - {owner}. \<forall>s.
           (let s' = snd (handle_nip46_request X (should_handle g (rings i)) send now ev s)
            in sg_db s' = sg_db s \<and> sg_cache s' = sg_cache s \<and> sg_sent s' = sg_sent s)"
proof (cases "bunker_of X ev")
  case None
  obtain i where i: "i \<in> S" using assms(3) by blast
  have "snd (handle_nip46_request X (should_handle g (rings j)) send now ev s) = s" for j s
    using None by (simp add: handle_nip46_request_def)
  then show ?thesis using i by (simp add: Let_def) blast
next
  case (Some bunker)
  obtain owner where o: "owner \<in> S" "owner_of g S bunker = Some owner"
    using assms(1-4) by (rule owner_of_member)
  have "handle_nip46_request X (should_handle g (rings i)) send now ev s = (Inr (), inc_nip46_rejected_hashring s)"
    if "i \<in> S - {owner}" for i s
    using not_owner_ignores [OF Some] assms(5) that ring_history_wf [of i "rings i"] o(2)
    by (auto simp: should_handle_owner)
  then show ?thesis using o(1) by (intro bexI [of _ owner]) (simp_all add: inc_nip46_rejected_hashring_def)
qed

theorem one_instance_serves_request_witness:
  "\<exists>owner\<in>{''a'', ''b''}. \<forall>i\<in>{''a'', ''b''} - {owner}.
     sg_sent (snd (handle_nip46_request X0 (should_handle sample_anchor (ring_rebuild [''a'', ''b''] (ring_new i)))
       (\<lambda>_. Inr ()) 20 (sample_request ''c'' ''bunker1'' ''sign'') (signer0 world))) = []"
proof -
  have f: "finite {''a'', ''b''}" "{''a'', ''b''} \<noteq> {}" "card {''a'', ''b''} \<le> 65535" by simp_all
  have "\<forall>i\<in>{''a'', ''b''}. ring_history i (ring_rebuild [''a'', ''b''] (ring_new i))
      \<and> current_instances (ring_rebuild [''a'', ''b''] (ring_new i)) = {''a'', ''b''}"
    by (auto intro: ring_history.intros)
  from one_instance_serves_request [OF sample_anchor_total f this, of X0 "\<lambda>_. Inr ()" 20
      "sample_request ''c'' ''bunker1'' ''sign''"]
  show ?thesis by (force simp: Let_def signer0_def)
qed

end
